(* ===== verification/Prelude.thy ===== *)
theory Prelude
  imports Main "HOL-Library.AList"
begin

text \<open>
  Shared ground of the development. Python values the sources use are given HOL
  counterparts here: a \<^verbatim>\<open>dict\<close> is an association list in insertion order (an
  assignment to a held key keeps its position, a new key goes last), a \<^verbatim>\<open>str\<close> is the
  list of its UTF-8 bytes, and \<^verbatim>\<open>x or y\<close> on an optional string treats the empty
  string as absent. The interface locale \<open>row_table\<close> states what every keyed table of the
  in-memory stores promises; it is interpreted on each table where that table is defined.
\<close>

named_theorems chunks_frame \<open>operations of the hub that leave the chunk table alone\<close>

section \<open>Dictionaries\<close>

type_synonym ('k, 'v) dict = "('k \<times> 'v) list"

abbreviation dget :: "('k, 'v) dict \<Rightarrow> 'k \<Rightarrow> 'v option" where
  "dget d k \<equiv> map_of d k"

abbreviation dset :: "'k \<Rightarrow> 'v \<Rightarrow> ('k, 'v) dict \<Rightarrow> ('k, 'v) dict" where
  "dset k v d \<equiv> AList.update k v d"

abbreviation dpop :: "'k \<Rightarrow> ('k, 'v) dict \<Rightarrow> ('k, 'v) dict" where
  "dpop k d \<equiv> AList.delete k d"

abbreviation dvals :: "('k, 'v) dict \<Rightarrow> 'v list" where
  "dvals d \<equiv> map snd d"

abbreviation dkeys :: "('k, 'v) dict \<Rightarrow> 'k list" where
  "dkeys d \<equiv> map fst d"

text \<open>\<^verbatim>\<open>d.setdefault(k, v)\<close>: a held key keeps its value.\<close>

definition dsetdefault :: "'k \<Rightarrow> 'v \<Rightarrow> ('k, 'v) dict \<Rightarrow> ('k, 'v) dict" where
  "dsetdefault k v d = (case dget d k of None \<Rightarrow> dset k v d | Some _ \<Rightarrow> d)"

definition dget_or :: "('k, 'v) dict \<Rightarrow> 'k \<Rightarrow> 'v \<Rightarrow> 'v" where
  "dget_or d k v = (case dget d k of None \<Rightarrow> v | Some w \<Rightarrow> w)"

text \<open>\<^verbatim>\<open>list(dict.fromkeys(xs))\<close>: duplicates dropped, the first occurrence kept in place.\<close>

fun dedup :: "'a list \<Rightarrow> 'a list" where
  "dedup [] = []"
| "dedup (x # xs) = x # dedup (filter (\<lambda>y. y \<noteq> x) xs)"

text \<open>A row under its own key, in every entry, and no key twice.\<close>

definition keyed :: "('r \<Rightarrow> 'k) \<Rightarrow> ('k, 'r) dict \<Rightarrow> bool" where
  "keyed key d \<longleftrightarrow> distinct (dkeys d) \<and> list_all (\<lambda>(k, r). key r = k) d"

section \<open>Strings\<close>

definition str_or :: "string option \<Rightarrow> string \<Rightarrow> string" where
  "str_or s t = (case s of None \<Rightarrow> t | Some u \<Rightarrow> if u = [] then t else u)"

definition truthy :: "string option \<Rightarrow> bool" where
  "truthy s = (case s of None \<Rightarrow> False | Some u \<Rightarrow> u \<noteq> [])"

text \<open>Python's ASCII whitespace, and \<^verbatim>\<open>str.strip()\<close> over it.\<close>

definition is_space :: "char \<Rightarrow> bool" where
  "is_space c \<longleftrightarrow> (of_char c :: nat) \<in> {9, 10, 11, 12, 13, 28, 29, 30, 31, 32}"

definition strip :: "string \<Rightarrow> string" where
  "strip s = rev (dropWhile is_space (rev (dropWhile is_space s)))"

definition starts_with :: "string \<Rightarrow> string \<Rightarrow> bool" where
  "starts_with p s \<longleftrightarrow> take (length p) s = p"

fun join :: "string \<Rightarrow> string list \<Rightarrow> string" where
  "join sep [] = []"
| "join sep [x] = x"
| "join sep (x # y # xs) = x @ sep @ join sep (y # xs)"

text \<open>The UTF-8 bytes of the dash the messages use.\<close>

definition em_dash :: string where
  "em_dash = [CHR 0xE2, CHR 0x80, CHR 0x94]"

text \<open>Decimal rendering, as \<^verbatim>\<open>str\<close> of an int and as an f-string field.\<close>

definition digit :: "nat \<Rightarrow> char" where
  "digit n = ''0123456789'' ! n"

fun show_nat :: "nat \<Rightarrow> string" where
  "show_nat n = (if n < 10 then [digit n] else show_nat (n div 10) @ [digit (n mod 10)])"

declare show_nat.simps [simp del]

definition show_int :: "int \<Rightarrow> string" where
  "show_int i = (if i < 0 then CHR ''-'' # show_nat (nat (- i)) else show_nat (nat i))"

text \<open>\<^verbatim>\<open>repr\<close> of a string (the \<^verbatim>\<open>!r\<close> of an f-string): single quotes unless the string
  holds a single quote and no double quote; quotes of the chosen kind, backslashes and ASCII
  control characters escaped, every other byte kept.\<close>

definition hex_digit :: "nat \<Rightarrow> char" where
  "hex_digit n = ''0123456789abcdef'' ! n"

definition repr_char :: "char \<Rightarrow> char \<Rightarrow> string" where
  "repr_char q c =
     (let n = (of_char c :: nat) in
      if c = q \<or> n = 92 then [CHR 0x5C, c]
      else if n = 10 then [CHR 0x5C, CHR ''n'']
      else if n = 13 then [CHR 0x5C, CHR ''r'']
      else if n = 9 then [CHR 0x5C, CHR ''t'']
      else if n < 32 \<or> n = 127 then [CHR 0x5C, CHR ''x'', hex_digit (n div 16), hex_digit (n mod 16)]
      else [c])"

definition py_repr :: "string \<Rightarrow> string" where
  "py_repr s =
     (let q = (if CHR 0x27 \<in> set s \<and> CHR 0x22 \<notin> set s then CHR 0x22 else CHR 0x27)
      in q # concat (map (repr_char q) s) @ [q])"

definition lower_char :: "char \<Rightarrow> char" where
  "lower_char c = (let n = (of_char c :: nat) in if 65 \<le> n \<and> n \<le> 90 then char_of (n + 32) else c)"

text \<open>\<^verbatim>\<open>str.partition\<close> at a blank: the text before it, and the text after it, empty if there is
  none.\<close>

definition before_blank :: "string \<Rightarrow> string" where
  "before_blank s = takeWhile (\<lambda>c. c \<noteq> CHR '' '') s"

definition after_blank :: "string \<Rightarrow> string" where
  "after_blank s = drop 1 (dropWhile (\<lambda>c. c \<noteq> CHR '' '') s)"

text \<open>\<^verbatim>\<open>str.split\<close> at a one-character separator, and \<^verbatim>\<open>str.removeprefix\<close>.\<close>

fun split_on :: "char \<Rightarrow> string \<Rightarrow> string list" where
  "split_on sep [] = [[]]"
| "split_on sep (c # cs) =
     (if c = sep then [] # split_on sep cs
      else case split_on sep cs of [] \<Rightarrow> [[c]] | w # ws \<Rightarrow> (c # w) # ws)"

definition remove_prefix :: "string \<Rightarrow> string \<Rightarrow> string" where
  "remove_prefix p s = (if starts_with p s then drop (length p) s else s)"

section \<open>Lemmas on dictionaries\<close>

lemma dget_dset [simp]: "dget (dset k v d) k' = (if k' = k then Some v else dget d k')"
  by (simp add: update_conv)

lemma dget_dpop [simp]: "dget (dpop k d) k' = (if k' = k then None else dget d k')"
  by (simp add: delete_conv)

lemma dget_fold_dpop: "dget (fold dpop ks d) k = (if k \<in> set ks then None else dget d k)"
  by (induction ks arbitrary: d) auto

lemma distinct_fold_dpop: "distinct (dkeys d) \<Longrightarrow> distinct (dkeys (fold dpop ks d))"
  by (induction ks arbitrary: d) (auto simp: distinct_delete)

lemma dkeys_dset: "dkeys (dset k v d) = (if dget d k = None then dkeys d @ [k] else dkeys d)"
  by (induction d) (auto split: if_splits)

lemma dset_same: "dget d k = Some v \<Longrightarrow> dset k v d = d"
  by (induction d) auto

lemma dset_new: "dget d k = None \<Longrightarrow> dset k v d = d @ [(k, v)]"
  by (induction d) auto

lemma dvals_dset_new: "dget d k = None \<Longrightarrow> dvals (dset k v d) = dvals d @ [v]"
  by (simp add: dset_new)

lemma dset_dset [simp]: "dset k v (dset k w d) = dset k v d"
  by (induction d) auto

lemma set_dvals_iff:
  assumes "distinct (dkeys d)"
  shows "v \<in> set (dvals d) \<longleftrightarrow> (\<exists>k. dget d k = Some v)"
  using assms by (force simp: image_iff)

lemma dget_dsetdefault:
  "dget (dsetdefault k v d) k' =
     (if k' = k \<and> dget d k = None then Some v else dget d k')"
  by (auto simp: dsetdefault_def split: option.splits)

lemma set_dedup [simp]: "set (dedup xs) = set xs"
  by (induction xs rule: dedup.induct) auto

lemma distinct_dedup [simp]: "distinct (dedup xs)"
  by (induction xs rule: dedup.induct) auto

lemma keyed_empty [simp]: "keyed key []"
  by (simp add: keyed_def)

lemma keyed_dset [intro]:
  assumes "keyed key d" and "key r = k"
  shows "keyed key (dset k r d)"
proof -
  have "list_all (\<lambda>(k, r). key r = k) (dset k r d)"
    using assms by (induction d) (auto simp: keyed_def)
  with assms show ?thesis by (simp add: keyed_def distinct_update)
qed

lemma keyed_dpop [intro]: "keyed key d \<Longrightarrow> keyed key (dpop k d)"
  by (auto simp: keyed_def AList.delete_eq list_all_iff distinct_map_filter)

lemma keyed_get: "keyed key d \<Longrightarrow> dget d k = Some r \<Longrightarrow> key r = k"
  by (auto simp: keyed_def list_all_iff dest: map_of_SomeD)

lemma keyed_vals: "keyed key d \<Longrightarrow> r \<in> snd ` set d \<longleftrightarrow> dget d (key r) = Some r"
  by (force simp: keyed_def list_all_iff)

lemma keyed_keys: "keyed key d \<Longrightarrow> map key (dvals d) = dkeys d"
  by (auto simp: keyed_def list_all_iff split_beta)

lemma keyed_inj: "keyed key d \<Longrightarrow> distinct (map key (dvals d))"
  by (simp only: keyed_keys) (simp add: keyed_def)

section \<open>Lemmas on strings\<close>

lemma show_nat_nonempty [simp]: "show_nat n \<noteq> []"
  by (subst show_nat.simps) simp

lemma digit_char:
  assumes "m < 10"
  shows "(of_char (digit m) :: nat) = 48 + m"
proof -
  from assms have "m \<in> {0, 1, 2, 3, 4, 5, 6, 7, 8, 9}" by auto
  then show ?thesis by (auto simp: digit_def)
qed

definition is_digit :: "char \<Rightarrow> bool" where
  "is_digit c \<longleftrightarrow> 48 \<le> (of_char c :: nat) \<and> (of_char c :: nat) \<le> 57"

lemma show_nat_digits: "list_all is_digit (show_nat n)"
proof (induction n rule: show_nat.induct)
  case (1 n)
  show ?case
  proof (cases "n < 10")
    case True
    then show ?thesis by (subst show_nat.simps) (simp add: is_digit_def digit_char)
  next
    case False
    with 1 have "list_all is_digit (show_nat (n div 10))" by simp
    moreover have "is_digit (digit (n mod 10))"
      using digit_char [of "n mod 10"] by (simp add: is_digit_def)
    ultimately show ?thesis using False by (subst show_nat.simps) simp
  qed
qed

text \<open>The value a decimal rendering stands for: a left inverse of \<open>show_nat\<close>.\<close>

definition read_nat :: "string \<Rightarrow> nat" where
  "read_nat s = foldl (\<lambda>a c. 10 * a + (of_char c - 48)) 0 s"

lemma read_show_nat [simp]: "read_nat (show_nat n) = n"
proof (induction n rule: show_nat.induct)
  case (1 n)
  show ?case
  proof (cases "n < 10")
    case True
    then show ?thesis by (subst show_nat.simps) (simp add: read_nat_def digit_char)
  next
    case False
    with 1 have "read_nat (show_nat (n div 10)) = n div 10" by simp
    with False show ?thesis
      using digit_char [of "n mod 10"] by (subst show_nat.simps) (simp add: read_nat_def)
  qed
qed

lemma show_nat_inj [simp]: "show_nat m = show_nat n \<longleftrightarrow> m = n"
  by (metis read_show_nat)

lemma show_nat_no_dash [simp]: "CHR ''-'' \<notin> set (show_nat n)"
  using show_nat_digits [of n] by (auto simp: list_all_iff is_digit_def)

lemma show_nat_no_hash [simp]: "CHR ''#'' \<notin> set (show_nat n)"
  using show_nat_digits [of n] by (auto simp: list_all_iff is_digit_def)

lemma show_int_no_hash [simp]: "CHR ''#'' \<notin> set (show_int i)"
  by (simp add: show_int_def)

lemma show_int_inj [simp]: "show_int i = show_int j \<longleftrightarrow> i = j"
proof
  assume eq: "show_int i = show_int j"
  have hd: "show_nat n \<noteq> CHR ''-'' # s" for n s
    using show_nat_no_dash [of n] by (metis list.set_intros(1))
  from eq show "i = j"
    by (auto simp: show_int_def hd hd [symmetric] split: if_splits)
qed simp

text \<open>A separator absent from both tails splits a concatenation uniquely.\<close>

lemma append_sep_inject:
  assumes "c \<notin> set u" and "c \<notin> set v"
  shows "s @ c # u = t @ c # v \<longleftrightarrow> s = t \<and> u = v"
proof
  assume eq: "s @ c # u = t @ c # v"
  then have "rev u @ c # rev s = rev v @ c # rev t"
    by (metis append.assoc append_Cons append_Nil rev.simps(2) rev_append)
  then have "takeWhile (\<lambda>x. x \<noteq> c) (rev u @ c # rev s) = takeWhile (\<lambda>x. x \<noteq> c) (rev v @ c # rev t)"
    by simp
  moreover have "takeWhile (\<lambda>x. x \<noteq> c) (rev w @ c # rev r) = rev w" if "c \<notin> set w" for w r
    using that by (simp add: takeWhile_append takeWhile_eq_all_conv)
  ultimately have "u = v" using assms by simp
  with eq show "s = t \<and> u = v" by simp
qed simp

lemma str_or_Some [simp]: "u \<noteq> [] \<Longrightarrow> str_or (Some u) t = u"
  by (simp add: str_or_def)

lemma str_or_None [simp]: "str_or None t = t" "str_or (Some []) t = t"
  by (simp_all add: str_or_def)

text \<open>Evaluation of decimal renderings on numerals.\<close>

lemmas show_eval = show_int_def show_nat.simps digit_def

section \<open>The contract of a keyed table\<close>

text \<open>
  What \<^verbatim>\<open>put_x\<close>, \<^verbatim>\<open>get_x\<close> and \<^verbatim>\<open>list_x\<close> of \<^verbatim>\<open>IHubState\<close> promise: a row is found under
  its own key after it is put, no other row changes, the listing holds exactly the rows found,
  and it keeps the order of first insertion, so a row put again keeps its place in the queue.
\<close>

locale row_table =
  fixes key :: "'r \<Rightarrow> 'k"
    and put :: "'r \<Rightarrow> 's \<Rightarrow> 's"
    and get :: "'s \<Rightarrow> 'k \<Rightarrow> 'r option"
    and rows :: "'s \<Rightarrow> 'r list"
    and ok :: "'s \<Rightarrow> bool"
  assumes get_put: "get (put r s) k = (if k = key r then Some r else get s k)"
    and get_key: "ok s \<Longrightarrow> get s k = Some r \<Longrightarrow> key r = k"
    and rows_get: "ok s \<Longrightarrow> r \<in> set (rows s) \<longleftrightarrow> get s (key r) = Some r"
    and rows_distinct: "ok s \<Longrightarrow> distinct (map key (rows s))"
    and rows_put: "ok s \<Longrightarrow> map key (rows (put r s)) =
      (if get s (key r) = None then map key (rows s) @ [key r] else map key (rows s))"
    and ok_put: "ok s \<Longrightarrow> ok (put r s)"
begin

lemma get_put_same [simp]: "get (put r s) (key r) = Some r"
  by (simp add: get_put)

lemma get_put_other: "k \<noteq> key r \<Longrightarrow> get (put r s) k = get s k"
  by (simp add: get_put)

lemma rows_put_iff:
  assumes "ok s"
  shows "q \<in> set (rows (put r s)) \<longleftrightarrow> q = r \<or> (key q \<noteq> key r \<and> q \<in> set (rows s))"
  using assms by (auto simp: rows_get ok_put get_put)

lemma rows_put_update:
  assumes "ok s" and "get s (key r) = Some q"
  shows "map key (rows (put r s)) = map key (rows s)"
  using assms by (simp add: rows_put)

lemma all_rows_put:
  assumes "ok s" and "\<forall>q \<in> set (rows s). P q" and "P r"
  shows "\<forall>q \<in> set (rows (put r s)). P q"
  using assms by (auto simp: rows_put_iff)

end

text \<open>Any field of a state record that holds a dictionary of rows is such a table.\<close>

lemma row_table_dict:
  assumes sel: "\<And>r s. sel (put r s) = dset (key r) r (sel s)"
    and get: "\<And>s k. get s k = dget (sel s) k"
    and rows: "\<And>s. rows s = dvals (sel s)"
    and ok: "\<And>s. ok s = keyed key (sel s)"
  shows "row_table key put get rows ok"
proof
  fix r s k
  assume s: "ok s"
  show "get s k = Some r \<Longrightarrow> key r = k"
    using s unfolding get ok by (rule keyed_get)
  show "r \<in> set (rows s) \<longleftrightarrow> get s (key r) = Some r"
    using s by (simp add: get rows ok keyed_vals)
  show "distinct (map key (rows s))"
    using s unfolding rows ok by (rule keyed_inj)
  show "ok (put r s)"
    using s by (auto simp: ok sel)
  have "keyed key (sel s)" using s by (simp only: ok)
  moreover from this have "keyed key (dset (key r) r (sel s))" by auto
  ultimately have "map key (dvals (sel s)) = dkeys (sel s)"
      "map key (dvals (dset (key r) r (sel s))) = dkeys (dset (key r) r (sel s))"
    by (blast intro: keyed_keys)+
  then show "map key (rows (put r s)) =
      (if get s (key r) = None then map key (rows s) @ [key r] else map key (rows s))"
    unfolding rows sel get by (simp only: dkeys_dset)
qed (simp add: get sel)

end
