(* ===== verification/Json_Values.thy ===== *)
theory Json_Values
  imports Prelude Complex_Main
begin

text \<open>
  The values a decoded JSON body holds (the \<^verbatim>\<open>Any\<close> of fact payloads and lever payloads) with
  the conversions the sources apply to them: \<^verbatim>\<open>str\<close>, \<^verbatim>\<open>int\<close>, truth value and \<^verbatim>\<open>dict.get\<close>
  with a default. A float carries its value and the text Python prints for it. Also the
  \<^verbatim>\<open>isoformat\<close> text of a UTC datetime, which is held as microseconds since the epoch.
\<close>

section \<open>JSON values and Python's conversions\<close>

datatype json =
    JNull
  | JBool bool
  | JInt int
  | JFloat rat string
  | JStr string
  | JList "json list"
  | JObj "(string \<times> json) list"

type_synonym payload = "(string, json) dict"

fun json_repr :: "json \<Rightarrow> string" where
  "json_repr JNull = ''None''"
| "json_repr (JBool b) = (if b then ''True'' else ''False'')"
| "json_repr (JInt i) = show_int i"
| "json_repr (JFloat v txt) = txt"
| "json_repr (JStr s) = py_repr s"
| "json_repr (JList xs) = ''['' @ join '', '' (map json_repr xs) @ '']''"
| "json_repr (JObj kvs) = ''{'' @ join '', '' (map (\<lambda>kv. py_repr (fst kv) @ '': '' @ json_repr (snd kv)) kvs) @ ''}''"

definition json_str :: "json \<Rightarrow> string" where
  "json_str j = (case j of JStr s \<Rightarrow> s | _ \<Rightarrow> json_repr j)"

text \<open>\<^verbatim>\<open>int(text)\<close>: an optional sign and decimal digits, single underscores between digits,
  surrounding whitespace ignored; anything else raises.\<close>

fun digits_value :: "bool \<Rightarrow> nat \<Rightarrow> string \<Rightarrow> nat option" where
  "digits_value seen acc [] = (if seen then Some acc else None)"
| "digits_value seen acc (c # cs) =
     (if is_digit c then digits_value True (10 * acc + (of_char c - 48)) cs
      else if c = CHR ''_'' \<and> seen \<and> cs \<noteq> [] \<and> is_digit (hd cs) then digits_value seen acc cs
      else None)"

definition int_of_text :: "string \<Rightarrow> int option" where
  "int_of_text s =
     (case strip s of
        [] \<Rightarrow> None
      | c # cs \<Rightarrow>
          if c = CHR ''-'' then map_option (\<lambda>n. - int n) (digits_value False 0 cs)
          else if c = CHR ''+'' then map_option int (digits_value False 0 cs)
          else map_option int (digits_value False 0 (c # cs)))"

text \<open>\<^verbatim>\<open>int(value)\<close>; \<open>None\<close> is the \<^verbatim>\<open>TypeError\<close> or \<^verbatim>\<open>ValueError\<close> Python raises.\<close>

definition json_int :: "json \<Rightarrow> int option" where
  "json_int j =
     (case j of
        JBool b \<Rightarrow> Some (if b then 1 else 0)
      | JInt i \<Rightarrow> Some i
      | JFloat v txt \<Rightarrow> Some (if v < 0 then \<lceil>v\<rceil> else \<lfloor>v\<rfloor>)
      | JStr s \<Rightarrow> int_of_text s
      | _ \<Rightarrow> None)"

definition json_truthy :: "json \<Rightarrow> bool" where
  "json_truthy j =
     (case j of
        JNull \<Rightarrow> False
      | JBool b \<Rightarrow> b
      | JInt i \<Rightarrow> i \<noteq> 0
      | JFloat v txt \<Rightarrow> v \<noteq> 0
      | JStr s \<Rightarrow> s \<noteq> []
      | JList xs \<Rightarrow> xs \<noteq> []
      | JObj kvs \<Rightarrow> kvs \<noteq> [])"

text \<open>\<^verbatim>\<open>str(payload.get(k, default))\<close> and \<^verbatim>\<open>int(payload.get(k, default))\<close>.\<close>

definition get_str :: "payload \<Rightarrow> string \<Rightarrow> string \<Rightarrow> string" where
  "get_str p k dflt = (case dget p k of None \<Rightarrow> dflt | Some v \<Rightarrow> json_str v)"

definition get_int :: "payload \<Rightarrow> string \<Rightarrow> int \<Rightarrow> int option" where
  "get_int p k dflt = (case dget p k of None \<Rightarrow> Some dflt | Some v \<Rightarrow> json_int v)"

text \<open>\<^verbatim>\<open>_optional_text(payload.get(k))\<close>: \<open>None\<close> for an absent key and for null.\<close>

definition get_optional_text :: "payload \<Rightarrow> string \<Rightarrow> string option" where
  "get_optional_text p k =
     (case dget p k of None \<Rightarrow> None | Some JNull \<Rightarrow> None | Some v \<Rightarrow> Some (json_str v))"

text \<open>An optional string as the JSON value a body carries.\<close>

definition opt_str :: "string option \<Rightarrow> json" where
  "opt_str s = (case s of None \<Rightarrow> JNull | Some t \<Rightarrow> JStr t)"

section \<open>Timestamps\<close>

type_synonym instant = int

definition pad_digits :: "nat \<Rightarrow> int \<Rightarrow> string" where
  "pad_digits w v = replicate (w - length (show_int v)) (CHR ''0'') @ show_int v"

text \<open>Year, month and day of a day number of the proleptic Gregorian calendar, day 0 being
  1970-01-01, by 400-year eras that start on the first of March.\<close>

definition civil_of_mp :: "int \<Rightarrow> int \<Rightarrow> int \<Rightarrow> int \<times> int \<times> int" where
  "civil_of_mp y doy mp =
     (if mp < 10 then (y, mp + 3, doy - (153 * mp + 2) div 5 + 1)
      else (y + 1, mp - 9, doy - (153 * mp + 2) div 5 + 1))"

definition civil_of_doy :: "int \<Rightarrow> int \<Rightarrow> int \<times> int \<times> int" where
  "civil_of_doy y doy = civil_of_mp y doy ((5 * doy + 2) div 153)"

definition civil_of_yoe :: "int \<Rightarrow> int \<Rightarrow> int \<Rightarrow> int \<times> int \<times> int" where
  "civil_of_yoe era doe yoe =
     civil_of_doy (yoe + era * 400) (doe - (365 * yoe + yoe div 4 - yoe div 100))"

definition civil_of_doe :: "int \<Rightarrow> int \<Rightarrow> int \<times> int \<times> int" where
  "civil_of_doe era doe =
     civil_of_yoe era doe ((doe - doe div 1460 + doe div 36524 - doe div 146096) div 365)"

definition civil :: "int \<Rightarrow> int \<times> int \<times> int" where
  "civil days = civil_of_doe ((days + 719468) div 146097) ((days + 719468) mod 146097)"

definition iso_date :: "int \<times> int \<times> int \<Rightarrow> string" where
  "iso_date ymd = (case ymd of (y, m, d) \<Rightarrow>
     pad_digits 4 y @ ''-'' @ pad_digits 2 m @ ''-'' @ pad_digits 2 d)"

definition iso_time :: "int \<Rightarrow> int \<Rightarrow> string" where
  "iso_time sod us =
     pad_digits 2 (sod div 3600) @ '':'' @ pad_digits 2 (sod div 60 mod 60) @ '':''
     @ pad_digits 2 (sod mod 60) @ (if us = 0 then [] else ''.'' @ pad_digits 6 us)"

definition isoformat :: "instant \<Rightarrow> string" where
  "isoformat t =
     iso_date (civil (t div 1000000 div 86400)) @ ''T''
     @ iso_time (t div 1000000 mod 86400) (t mod 1000000) @ ''+00:00''"

section \<open>Lemmas\<close>

lemma json_str_JStr [simp]: "json_str (JStr s) = s"
  by (simp add: json_str_def)

lemma json_int_JInt [simp]: "json_int (JInt i) = Some i"
  by (simp add: json_int_def)

lemma get_str_absent [simp]: "dget p k = None \<Longrightarrow> get_str p k d = d"
  by (simp add: get_str_def)

lemma get_int_absent [simp]: "dget p k = None \<Longrightarrow> get_int p k d = Some d"
  by (simp add: get_int_def)

lemmas civil_defs = civil_def civil_of_doe_def civil_of_yoe_def civil_of_doy_def civil_of_mp_def

lemmas iso_defs = isoformat_def iso_date_def iso_time_def pad_digits_def show_eval

lemma isoformat_example: "isoformat 1735689600000000 = ''2025-01-01T00:00:00+00:00''"
  by (simp add: iso_defs civil_defs numeral_2_eq_2)

end
