(* ===== verification/Lever_Store.thy ===== *)
theory Lever_Store
  imports Json_Values
begin

text \<open>
  The shared lever primitive (\<^verbatim>\<open>src/blizzard_mock/levers.py\<close>): the lever row, its scope, and
  the in-memory store the mock hub and the mock runner pull from. \<open>take_lever\<close> is the
  find-then-consume sequence every handler runs. The locale \<open>lever_contract\<close> is the
  \<^verbatim>\<open>ILeverStore\<close> protocol with its laws; the in-memory store interprets it.
\<close>

section \<open>The lever row\<close>

record lever =
  lv_kind :: string
  lv_chunk_id :: "string option"
  lv_remaining :: "int option"
  lv_payload :: payload

definition scope_key :: "lever \<Rightarrow> string" where
  "scope_key l = lv_kind l @ ''#'' @ str_or (lv_chunk_id l) ''*''"

definition matches :: "lever \<Rightarrow> string option \<Rightarrow> bool" where
  "matches l chunk_id \<longleftrightarrow> lv_chunk_id l = None \<or> lv_chunk_id l = chunk_id"

text \<open>The body that arms a lever, the lever it arms, and a lever as JSON.\<close>

record LeverParams =
  lp_chunk_id :: "string option"
  lp_remaining :: "int option"
  lp_payload :: payload

definition lever_dump :: "lever \<Rightarrow> json" where
  "lever_dump l =
     JObj [(''kind'', JStr (lv_kind l)), (''chunk_id'', opt_str (lv_chunk_id l)),
           (''remaining'', (case lv_remaining l of None \<Rightarrow> JNull | Some n \<Rightarrow> JInt n)),
           (''payload'', JObj (lv_payload l))]"

definition lever_of :: "string \<Rightarrow> LeverParams \<Rightarrow> lever" where
  "lever_of kind p = \<lparr>lv_kind = kind, lv_chunk_id = lp_chunk_id p, lv_remaining = lp_remaining p,
     lv_payload = lp_payload p\<rparr>"

section \<open>The in-memory store\<close>

type_synonym lever_store = "(string, lever) dict"

definition arm :: "lever \<Rightarrow> lever_store \<Rightarrow> lever_store" where
  "arm l s = dset (scope_key l) l s"

definition clear :: "string \<Rightarrow> string option \<Rightarrow> lever_store \<Rightarrow> lever_store" where
  "clear kind chunk_id s =
     dpop (scope_key \<lparr>lv_kind = kind, lv_chunk_id = chunk_id, lv_remaining = None, lv_payload = []\<rparr>) s"

definition clear_all :: "lever_store \<Rightarrow> lever_store" where
  "clear_all s = []"

definition active :: "lever_store \<Rightarrow> lever list" where
  "active s = dvals s"

fun find_lever :: "string \<Rightarrow> string option \<Rightarrow> lever_store \<Rightarrow> lever option" where
  "find_lever kind chunk_id [] = None"
| "find_lever kind chunk_id ((k, l) # s) =
     (if lv_kind l = kind \<and> matches l chunk_id then Some l else find_lever kind chunk_id s)"

text \<open>The decrement writes the stored object in place, so the store sees it; a lever at zero
  is popped under its scope key.\<close>

definition consume :: "lever \<Rightarrow> lever_store \<Rightarrow> lever_store" where
  "consume l s =
     (case lv_remaining l of
        None \<Rightarrow> s
      | Some n \<Rightarrow>
          if n - 1 \<le> 0 then dpop (scope_key l) s
          else if dget s (scope_key l) = Some l
               then dset (scope_key l) (l\<lparr>lv_remaining := Some (n - 1)\<rparr>) s
          else s)"

definition take_lever :: "string \<Rightarrow> string option \<Rightarrow> lever_store \<Rightarrow> lever option \<times> lever_store" where
  "take_lever kind chunk_id s =
     (case find_lever kind chunk_id s of
        None \<Rightarrow> (None, s)
      | Some l \<Rightarrow> (Some l, consume l s))"

text \<open>The levers a run of calls for one chunk pulls, one call after the other.\<close>

fun take_levers :: "nat \<Rightarrow> string \<Rightarrow> string option \<Rightarrow> lever_store \<Rightarrow> lever option list \<times> lever_store" where
  "take_levers 0 kind chunk_id s = ([], s)"
| "take_levers (Suc n) kind chunk_id s =
     (let r = take_lever kind chunk_id s; rs = take_levers n kind chunk_id (snd r)
      in (fst r # fst rs, snd rs))"

definition levers_ok :: "lever_store \<Rightarrow> bool" where
  "levers_ok s = keyed scope_key s"

section \<open>Lemmas on the store\<close>

lemma find_lever_Some:
  assumes "find_lever kind c s = Some l"
  shows "l \<in> set (active s) \<and> lv_kind l = kind \<and> matches l c"
  using assms by (induction s) (auto simp: active_def split: if_splits)

lemma find_lever_None:
  "find_lever kind c s = None \<longleftrightarrow> (\<forall>l \<in> set (active s). \<not> (lv_kind l = kind \<and> matches l c))"
  by (induction s) (auto simp: active_def split: if_splits)

lemma active_iff: "levers_ok s \<Longrightarrow> l \<in> set (active s) \<longleftrightarrow> dget s (scope_key l) = Some l"
  by (simp add: levers_ok_def active_def keyed_vals)

lemma find_lever_stored:
  assumes "levers_ok s" and "find_lever kind c s = Some l"
  shows "dget s (scope_key l) = Some l"
  using assms find_lever_Some [OF assms(2)] by (simp add: active_iff)

lemma scope_key_remaining [simp]: "scope_key (l\<lparr>lv_remaining := r\<rparr>) = scope_key l"
  by (simp add: scope_key_def)

lemma matches_remaining [simp]: "matches (l\<lparr>lv_remaining := r\<rparr>) c = matches l c"
  by (simp add: matches_def)

lemma levers_ok_arm: "levers_ok s \<Longrightarrow> levers_ok (arm l s)"
  by (auto simp: levers_ok_def arm_def)

lemma levers_ok_consume: "levers_ok s \<Longrightarrow> levers_ok (consume l s)"
  by (auto simp: levers_ok_def consume_def split: option.splits)

lemma levers_ok_take: "levers_ok s \<Longrightarrow> levers_ok (snd (take_lever kind c s))"
  by (simp add: take_lever_def levers_ok_consume split: option.splits)

lemma find_lever_dpop:
  assumes "\<And>l. (k, l) \<in> set s \<Longrightarrow> \<not> (lv_kind l = kind \<and> matches l c)"
  shows "find_lever kind c (dpop k s) = find_lever kind c s"
  using assms by (induction s) auto

lemma find_lever_dset:
  assumes "dget s k = Some l" and "lv_kind l \<noteq> kind" and "lv_kind l' \<noteq> kind"
  shows "find_lever kind c (dset k l' s) = find_lever kind c s"
  using assms by (induction s) auto

lemma levers_ok_entry:
  "levers_ok s \<Longrightarrow> dget s k = Some l \<Longrightarrow> (k, l') \<in> set s \<Longrightarrow> l' = l"
  by (auto simp: levers_ok_def keyed_def)

text \<open>Consuming a lever of one kind changes no read of another kind.\<close>

lemma find_lever_consume_other:
  assumes "levers_ok s" and "dget s (scope_key l) = Some l" and "lv_kind l \<noteq> kind"
  shows "find_lever kind c (consume l s) = find_lever kind c s"
proof (cases "lv_remaining l")
  case None
  then show ?thesis by (simp add: consume_def)
next
  case (Some n)
  have "find_lever kind c (dpop (scope_key l) s) = find_lever kind c s"
    using assms levers_ok_entry [OF assms(1,2)] by (intro find_lever_dpop) auto
  moreover have "find_lever kind c (dset (scope_key l) (l\<lparr>lv_remaining := Some (n - 1)\<rparr>) s)
      = find_lever kind c s"
    using assms by (intro find_lever_dset [where l = l]) auto
  ultimately show ?thesis using Some by (simp add: consume_def)
qed

lemma find_lever_take_other:
  assumes "levers_ok s" and "kind' \<noteq> kind"
  shows "find_lever kind' c' (snd (take_lever kind c s)) = find_lever kind' c' s"
  using assms find_lever_stored [OF assms(1)] find_lever_Some
  by (auto simp: take_lever_def split: option.splits intro!: find_lever_consume_other)

lemma take_lever_unarmed [simp]: "find_lever kind c s = None \<Longrightarrow> take_lever kind c s = (None, s)"
  by (simp add: take_lever_def)

lemma take_lever_fst [simp]: "fst (take_lever kind c s) = find_lever kind c s"
  by (simp add: take_lever_def split: option.splits)

lemma find_arm_alone:
  assumes "find_lever kind c s = None" and "lv_kind l = kind" and "matches l c"
  shows "find_lever kind c (arm l s) = Some l"
proof -
  have "find_lever kind c (dset k l s) = Some l" for k
    using assms by (induction s) (auto split: if_splits)
  then show ?thesis by (simp add: arm_def)
qed

lemma active_arm:
  assumes "levers_ok s"
  shows "set (active (arm l s)) = insert l {q \<in> set (active s). scope_key q \<noteq> scope_key l}"
  using assms levers_ok_arm [OF assms, of l]
  by (auto simp: active_iff arm_def split: if_splits)

lemma active_same_key:
  assumes "levers_ok s" "dget s (scope_key l) = Some l" "q \<in> set (active s)"
  shows "q = l \<longleftrightarrow> scope_key q = scope_key l"
  using assms by (auto simp: active_iff)

lemma active_consume_last:
  assumes "levers_ok s" and "dget s (scope_key l) = Some l" and "lv_remaining l = Some n" "n \<le> 1"
  shows "set (active (consume l s)) = {q \<in> set (active s). q \<noteq> l}"
  using assms levers_ok_consume [OF assms(1), of l]
  by (auto simp: active_iff consume_def split: if_splits)

lemma active_consume_counted:
  assumes "levers_ok s" "dget s (scope_key l) = Some l" "lv_remaining l = Some n" "1 < n"
  shows "set (active (consume l s)) =
    insert (l\<lparr>lv_remaining := Some (n - 1)\<rparr>) {q \<in> set (active s). q \<noteq> l}"
proof -
  have "consume l s = arm (l\<lparr>lv_remaining := Some (n - 1)\<rparr>) s"
    using assms by (simp add: consume_def arm_def)
  with assms show ?thesis
    using active_same_key [OF assms(1,2)] by (auto simp: active_arm)
qed

section \<open>The lever protocol\<close>

text \<open>What \<^verbatim>\<open>ILeverStore\<close> promises its clients.\<close>

locale lever_contract =
  fixes armed :: "'s \<Rightarrow> lever list"
    and arm_op :: "lever \<Rightarrow> 's \<Rightarrow> 's"
    and find_op :: "string \<Rightarrow> string option \<Rightarrow> 's \<Rightarrow> lever option"
    and consume_op :: "lever \<Rightarrow> 's \<Rightarrow> 's"
    and ok :: "'s \<Rightarrow> bool"
  assumes find_sound: "ok s \<Longrightarrow> find_op kind c s = Some l \<Longrightarrow>
      l \<in> set (armed s) \<and> lv_kind l = kind \<and> matches l c"
    and find_complete: "ok s \<Longrightarrow> find_op kind c s = None \<Longrightarrow> l \<in> set (armed s) \<Longrightarrow>
      lv_kind l = kind \<Longrightarrow> \<not> matches l c"
    and armed_arm: "ok s \<Longrightarrow>
      set (armed (arm_op l s)) = insert l {q \<in> set (armed s). scope_key q \<noteq> scope_key l}"
    and consume_sticky: "lv_remaining l = None \<Longrightarrow> consume_op l s = s"
    and consume_counted: "ok s \<Longrightarrow> l \<in> set (armed s) \<Longrightarrow> lv_remaining l = Some n \<Longrightarrow> 1 < n \<Longrightarrow>
      set (armed (consume_op l s)) = insert (l\<lparr>lv_remaining := Some (n - 1)\<rparr>) {q \<in> set (armed s). q \<noteq> l}"
    and consume_last: "ok s \<Longrightarrow> l \<in> set (armed s) \<Longrightarrow> lv_remaining l = Some n \<Longrightarrow> n \<le> 1 \<Longrightarrow>
      set (armed (consume_op l s)) = {q \<in> set (armed s). q \<noteq> l}"
    and ok_arm: "ok s \<Longrightarrow> ok (arm_op l s)"
    and ok_consume: "ok s \<Longrightarrow> ok (consume_op l s)"
begin

text \<open>A chunk's pulls of one kind, one after the other: how many fire.\<close>

fun pulls :: "nat \<Rightarrow> string \<Rightarrow> string option \<Rightarrow> 's \<Rightarrow> nat \<times> 's" where
  "pulls 0 kind c s = (0, s)"
| "pulls (Suc m) kind c s =
     (case find_op kind c s of
        None \<Rightarrow> pulls m kind c s
      | Some l \<Rightarrow> (let r = pulls m kind c (consume_op l s) in (Suc (fst r), snd r)))"

lemma pulls_unarmed: "find_op kind c s = None \<Longrightarrow> pulls m kind c s = (0, s)"
  by (induction m) auto

definition only_lever :: "string \<Rightarrow> string option \<Rightarrow> 's \<Rightarrow> lever \<Rightarrow> bool" where
  "only_lever kind c s l \<longleftrightarrow> ok s \<and> l \<in> set (armed s) \<and> lv_kind l = kind \<and> matches l c
     \<and> (\<forall>q \<in> set (armed s). lv_kind q = kind \<and> matches q c \<longrightarrow> q = l)"

lemma only_lever_find: "only_lever kind c s l \<Longrightarrow> find_op kind c s = Some l"
  using find_sound find_complete unfolding only_lever_def by (metis option.exhaust)

lemma only_lever_arm:
  assumes "ok s" "find_op kind c s = None" "lv_kind l = kind" "matches l c"
  shows "only_lever kind c (arm_op l s) l"
  using assms find_complete unfolding only_lever_def by (auto simp: armed_arm ok_arm)

text \<open>A counted lever fires on exactly its first \<open>n\<close> affected calls and is gone after them.\<close>

lemma counted_lever_pulls:
  assumes "only_lever kind c s l" "lv_remaining l = Some (int n)" "0 < n"
  shows "fst (pulls m kind c s) = min m n \<and>
    (n \<le> m \<longrightarrow> find_op kind c (snd (pulls m kind c s)) = None)"
  using assms
proof (induction m arbitrary: s l n)
  case 0
  then show ?case by simp
next
  case (Suc m)
  let ?s = "consume_op l s"
  from Suc.prems have f: "find_op kind c s = Some l" and ok: "ok ?s"
    by (auto simp: only_lever_find only_lever_def ok_consume)
  show ?case
  proof (cases "n = 1")
    case True
    with Suc.prems have "set (armed ?s) = {q \<in> set (armed s). q \<noteq> l}"
      by (intro consume_last [of _ _ 1]) (auto simp: only_lever_def)
    with Suc.prems ok have "find_op kind c ?s = None"
      using find_sound [OF ok, of kind c] by (cases "find_op kind c ?s") (auto simp: only_lever_def)
    with f True show ?thesis by (auto simp: pulls_unarmed)
  next
    case False
    let ?l = "l\<lparr>lv_remaining := Some (int (n - 1))\<rparr>"
    from False Suc.prems have "set (armed ?s) = insert ?l {q \<in> set (armed s). q \<noteq> l}"
      using consume_counted [of s l "int n"] by (simp add: only_lever_def of_nat_diff)
    with Suc.prems ok have "only_lever kind c ?s ?l" by (auto simp: only_lever_def)
    from Suc.IH [OF this, of "n - 1"] False Suc.prems f show ?thesis
      by (auto simp: Let_def)
  qed
qed

lemma sticky_lever_pulls:
  assumes "only_lever kind c s l" "lv_remaining l = None"
  shows "pulls m kind c s = (m, s)"
  using assms by (induction m) (auto simp: only_lever_find consume_sticky Let_def)

end

text \<open>The in-memory store keeps the protocol.\<close>

interpretation mem_levers: lever_contract active arm find_lever consume levers_ok
proof
  fix s kind c l n
  assume ok: "levers_ok s"
  have st: "l \<in> set (active s) \<Longrightarrow> dget s (scope_key l) = Some l"
    using ok by (simp add: active_iff)
  show "find_lever kind c s = Some l \<Longrightarrow> l \<in> set (active s) \<and> lv_kind l = kind \<and> matches l c"
    by (rule find_lever_Some)
  show "find_lever kind c s = None \<Longrightarrow> l \<in> set (active s) \<Longrightarrow> lv_kind l = kind \<Longrightarrow> \<not> matches l c"
    by (auto simp: find_lever_None)
  show "set (active (arm l s)) = insert l {q \<in> set (active s). scope_key q \<noteq> scope_key l}"
    using ok by (rule active_arm)
  show "l \<in> set (active s) \<Longrightarrow> lv_remaining l = Some n \<Longrightarrow> 1 < n \<Longrightarrow>
      set (active (consume l s)) = insert (l\<lparr>lv_remaining := Some (n - 1)\<rparr>) {q \<in> set (active s). q \<noteq> l}"
    using ok st by (intro active_consume_counted)
  show "l \<in> set (active s) \<Longrightarrow> lv_remaining l = Some n \<Longrightarrow> n \<le> 1 \<Longrightarrow>
      set (active (consume l s)) = {q \<in> set (active s). q \<noteq> l}"
    using ok st by (intro active_consume_last)
  show "levers_ok (arm l s)" "levers_ok (consume l s)"
    using ok by (auto intro: levers_ok_arm levers_ok_consume)
qed (simp add: consume_def)

text \<open>The handlers' find-then-consume sequence is the protocol's pull.\<close>

lemma take_levers_pulls:
  "length (filter (\<lambda>l. l \<noteq> None) (fst (take_levers m kind c s))) = fst (mem_levers.pulls m kind c s) \<and>
   snd (take_levers m kind c s) = snd (mem_levers.pulls m kind c s)"
  by (induction m arbitrary: s) (auto simp: take_lever_def Let_def split: option.splits)

end
