(* ===== verification/Hub_Vocabulary.thy ===== *)
theory Hub_Vocabulary
  imports Lever_Store Identifiers
begin

text \<open>
  The mock hub's vocabulary (\<^verbatim>\<open>src/blizzard_mock/mock_hub/domain/models.py\<close>, its enums and the
  seed specs, and \<^verbatim>\<open>levers.py\<close>, its lever kinds): enums as datatypes with the value each
  serialises to, specs as records. Field names carry a short prefix of their class.
\<close>

section \<open>Enums\<close>

datatype executor = EX_RUNNER | EX_HUB

datatype session_mode = SM_RESUME | SM_FRESH

datatype judged_by = JB_WORKER | JB_HUMAN

datatype chunk_status =
    ST_NOT_READY | ST_READY | ST_PAUSED | ST_RUNNING | ST_DELIVERING | ST_NEEDS_HUMAN
  | ST_DONE | ST_STOPPED

definition status_value :: "chunk_status \<Rightarrow> string" where
  "status_value s =
     (case s of
        ST_NOT_READY \<Rightarrow> ''not_ready'' | ST_READY \<Rightarrow> ''ready'' | ST_PAUSED \<Rightarrow> ''paused''
      | ST_RUNNING \<Rightarrow> ''running'' | ST_DELIVERING \<Rightarrow> ''delivering''
      | ST_NEEDS_HUMAN \<Rightarrow> ''needs_human'' | ST_DONE \<Rightarrow> ''done'' | ST_STOPPED \<Rightarrow> ''stopped'')"

definition TERMINAL_STATUSES :: "chunk_status set" where
  "TERMINAL_STATUSES = {ST_STOPPED, ST_DONE}"

definition PRE_CLAIM_STATUSES :: "chunk_status set" where
  "PRE_CLAIM_STATUSES = {ST_NOT_READY, ST_READY}"

datatype chunk_delete_refusal = REFUSED_STATUS | REFUSED_DEPENDENTS

definition PAUSABLE_STATUSES :: "chunk_status set" where
  "PAUSABLE_STATUSES =
     {ST_NOT_READY, ST_READY, ST_PAUSED, ST_RUNNING, ST_DELIVERING, ST_NEEDS_HUMAN, ST_DONE, ST_STOPPED}
     - TERMINAL_STATUSES - {ST_DELIVERING}"

definition status_if_paused :: "chunk_status \<Rightarrow> chunk_status" where
  "status_if_paused s =
     (if s \<notin> PAUSABLE_STATUSES \<or> s = ST_NEEDS_HUMAN then s else ST_PAUSED)"

definition TERMINAL :: string where "TERMINAL = ''done''"

definition RESERVED_HUB_SOURCE_NAME :: string where "RESERVED_HUB_SOURCE_NAME = ''hub''"

datatype finding_exit_kind = FE_OUTFLOW | FE_WITHDRAWN

definition FINDING_EXITS :: "(string, finding_exit_kind) dict" where
  "FINDING_EXITS =
     [(''resolved'', FE_OUTFLOW), (''gone-confirmed'', FE_OUTFLOW), (''wont-fix'', FE_WITHDRAWN),
      (''not-a-finding'', FE_WITHDRAWN), (''superseded'', FE_WITHDRAWN)]"

definition finding_exit :: "string \<Rightarrow> finding_exit_kind option" where
  "finding_exit state = dget FINDING_EXITS state"

datatype apply_outcome = AO_NEXT | AO_HUB_NODE_TAKEN | AO_PARKED_AT_GATE | AO_DONE | AO_FAILURE

datatype proposal_closure_kind = PC_PASSED | PC_ACCEPTED

datatype proposal_item_outcome = PI_MINTED | PI_DECLINED

datatype proposal_origin = PO_ROUTINE_RUN | PO_OPERATOR

datatype routine_proposal_state = RP_OPEN | RP_CLOSED | RP_ALL

section \<open>The seed vocabulary\<close>

record choice_spec =
  ch_name :: string
  ch_description :: string
  ch_to :: string
  ch_requires_checks :: bool

record rotate_policy =
  ro_max_context_tokens :: "int option"
  ro_max_transcript_bytes :: "int option"
  ro_max_invocations :: "int option"

record node_spec =
  nd_executor :: executor
  nd_session :: session_mode
  nd_session_source :: "string option"
  nd_session_name :: "string option"
  nd_session_model :: "string list"
  nd_session_effort :: "string option"
  nd_session_harnesses :: "string list"
  nd_session_compaction_window :: "string option"
  nd_session_rotate :: "rotate_policy option"
  nd_judged_by :: judged_by
  nd_prompt :: "string option"
  nd_judgement_prompt :: "string option"
  nd_choices :: "choice_spec list"
  nd_produces :: "string list"
  nd_checks :: "string list"
  nd_checks_cwd :: "string option"
  nd_checks_timeout :: "int option"
  nd_retries_max :: "int option"

record escalation_state =
  es_epoch :: int
  es_takeover_command :: string
  es_wrapped_takeover_command :: string
  es_cause :: "string option"
  es_detail :: "string option"

record release_record =
  rr_runner_id :: string
  rr_epoch :: int
  rr_reason :: string

record question_state =
  qs_question_id :: string
  qs_chunk_id :: string
  qs_node_id :: "string option"
  qs_session_id :: "string option"
  qs_harness_id :: "string option"
  qs_runner_id :: string
  qs_epoch :: int
  qs_question :: string
  qs_options :: "string list"
  qs_asked_at :: string
  qs_answered :: bool
  qs_answer :: "string option"
  qs_answered_by :: "string option"
  qs_answered_at :: "string option"
  qs_delivered :: bool
  qs_delivered_at :: "string option"

definition delivery_refusal :: "question_state \<Rightarrow> string \<Rightarrow> string option" where
  "delivery_refusal q chunk_id =
     (if chunk_id \<noteq> qs_chunk_id q
      then Some (''question '' @ qs_question_id q @ '' belongs to chunk '' @ qs_chunk_id q)
      else if \<not> qs_answered q then Some (''question '' @ qs_question_id q @ '' is not answered'')
      else None)"

record work_ref =
  wr_source :: string
  wr_ref :: string

text \<open>A graph artifact's kind is always \<^verbatim>\<open>asset\<close>.\<close>

datatype graph_artifact_kind = GA_ASSET

record graph_artifact =
  ga_name :: string
  ga_kind :: graph_artifact_kind
  ga_content :: string

record system_artifact_spec =
  sa_name :: string
  sa_content :: string

record scope_spec =
  sc_slug :: string
  sc_description :: string
  sc_created_at :: "string option"
  sc_retired :: bool

record garden_run_spec =
  gr_routine_name :: string
  gr_scope_slug :: string

record garden_finding =
  gf_finding_id :: string
  gf_class :: string
  gf_locus :: string
  gf_summary :: string
  gf_introduced :: "string option"
  gf_introduced_at :: "string option"
  gf_first_observed_at :: "string option"
  gf_live :: bool
  gf_state :: string
  gf_note :: "string option"
  gf_last_seen_at :: "string option"
  gf_observed_count :: int

record garden_answered_finding = garden_finding +
  gf_routine_name :: string
  gf_scope_slug :: string

record proposal_closure_spec =
  pc_closure :: proposal_closure_kind
  pc_reason :: "string option"
  pc_closed_by :: string
  pc_closed_at :: "string option"
  pc_item_outcome :: "proposal_item_outcome option"
  pc_source :: "string option"
  pc_ref :: "string option"

record garden_proposal_spec =
  gp_proposal_id :: string
  gp_class :: string
  gp_title :: string
  gp_body :: string
  gp_findings :: "string list"
  gp_created_at :: "string option"
  gp_closure :: "proposal_closure_spec option"

record analytics_count =
  ac_key :: string
  ac_count :: int
  ac_graph_name :: "string option"
  ac_node_name :: "string option"

record analytics_spend =
  an_key :: string
  an_input_tokens :: int
  an_output_tokens :: int
  an_cache_read_tokens :: int
  an_cache_create_tokens :: int
  an_cost_usd :: rat
  an_cost_partial :: bool
  an_graph_name :: "string option"
  an_node_name :: "string option"

record analytics_spec =
  as_counts_files :: "analytics_count list"
  as_counts_skills :: "analytics_count list"
  as_counts_agent_types :: "analytics_count list"
  as_counts_nodes :: "analytics_count list"
  as_spend_nodes :: "analytics_spend list"
  as_spend_graphs :: "analytics_spend list"

record chunk_cost =
  co_input_tokens :: int
  co_output_tokens :: int
  co_cache_read_tokens :: int
  co_cache_create_tokens :: int
  co_cost_usd :: rat
  co_cost_partial :: bool
  co_estimated_cost_usd :: "rat option"
  co_billed_partial :: bool

definition zero_cost :: chunk_cost where
  "zero_cost = \<lparr>co_input_tokens = 0, co_output_tokens = 0, co_cache_read_tokens = 0,
     co_cache_create_tokens = 0, co_cost_usd = 0, co_cost_partial = False,
     co_estimated_cost_usd = None, co_billed_partial = False\<rparr>"

definition FIRST_PROJECT_ID :: string where
  "FIRST_PROJECT_ID = ''proj_00000000000000000000000000''"

definition DEFAULT_PROJECT_SLUG :: string where "DEFAULT_PROJECT_SLUG = ''default''"

definition DEFAULT_PROJECT_NAME :: string where "DEFAULT_PROJECT_NAME = ''Default''"

record chunk_spec =
  sp_chunk_id :: "string option"
  sp_project_id :: "string option"
  sp_graph_id :: string
  sp_graph_name :: "string option"
  sp_default_model :: "string list"
  sp_default_effort :: "string option"
  sp_default_harnesses :: "string list"
  sp_entry :: string
  sp_nodes :: "(string, node_spec) dict"
  sp_work_refs :: "work_ref list"
  sp_graph_artifacts :: "graph_artifact list"
  sp_artifact_formats :: "(string, string list) dict"
  sp_garden_run :: "garden_run_spec option"
  sp_garden_findings :: "garden_finding list"
  sp_garden_answered_findings :: "garden_answered_finding list option"
  sp_garden_proposals :: "garden_proposal_spec list"
  sp_analytics :: analytics_spec
  sp_status :: chunk_status
  sp_cost :: "chunk_cost option"

text \<open>The field validator of \<^verbatim>\<open>ChunkSpec\<close>: a chunk is never seeded running.\<close>

definition chunk_spec_valid :: "chunk_spec \<Rightarrow> bool" where
  "chunk_spec_valid spec \<longleftrightarrow> sp_status spec \<noteq> ST_RUNNING"

section \<open>Lever kinds\<close>

definition DELAY :: string where "DELAY = ''delay''"
definition DROP_ACK :: string where "DROP_ACK = ''drop_ack''"
definition CONFLICTING_FACT :: string where "CONFLICTING_FACT = ''conflicting_fact''"
definition UNREACHABLE :: string where "UNREACHABLE = ''unreachable''"
definition UNREACHABLE_TRANSCRIPTS :: string where "UNREACHABLE_TRANSCRIPTS = ''unreachable_transcripts''"
definition DELAY_TRANSCRIPTS :: string where "DELAY_TRANSCRIPTS = ''delay_transcripts''"
definition REPLAY :: string where "REPLAY = ''replay''"
definition STALE_ENVELOPE :: string where "STALE_ENVELOPE = ''stale_envelope''"
definition CHUNK_UNKNOWN :: string where "CHUNK_UNKNOWN = ''chunk_unknown''"
definition DEPENDENCY_UNMET :: string where "DEPENDENCY_UNMET = ''dependency_unmet''"
definition HOST_PLANE_ABSENT :: string where "HOST_PLANE_ABSENT = ''host_plane_absent''"
definition FLEET_FLAGS :: string where "FLEET_FLAGS = ''fleet_flags''"
definition ARTIFACT_REFUSAL :: string where "ARTIFACT_REFUSAL = ''artifact_refusal''"
definition IDP_OFFERED :: string where "IDP_OFFERED = ''idp_offered''"
definition VERSION_REFUSED :: string where "VERSION_REFUSED = ''version_refused''"
definition CLAIM_RUNNER_RETIRED :: string where "CLAIM_RUNNER_RETIRED = ''claim_runner_retired''"
definition CLAIM_RUNNER_VERSION_REFUSED :: string where
  "CLAIM_RUNNER_VERSION_REFUSED = ''claim_runner_version_refused''"
definition PINNED_GRAPH_MISSING :: string where "PINNED_GRAPH_MISSING = ''pinned_graph_missing''"
definition ENFORCE_RELEASE_ROUTE_TOKEN :: string where
  "ENFORCE_RELEASE_ROUTE_TOKEN = ''enforce_release_route_token''"
definition HOST_ADD_RUNNER_LIFECYCLE_CONFLICT :: string where
  "HOST_ADD_RUNNER_LIFECYCLE_CONFLICT = ''host_add_runner_lifecycle_conflict''"
definition HOST_RETIRE_LIFECYCLE_CONFLICT :: string where
  "HOST_RETIRE_LIFECYCLE_CONFLICT = ''host_retire_lifecycle_conflict''"

lemmas lever_kinds = DELAY_def DROP_ACK_def CONFLICTING_FACT_def UNREACHABLE_def
  UNREACHABLE_TRANSCRIPTS_def DELAY_TRANSCRIPTS_def REPLAY_def STALE_ENVELOPE_def
  CHUNK_UNKNOWN_def DEPENDENCY_UNMET_def HOST_PLANE_ABSENT_def FLEET_FLAGS_def
  ARTIFACT_REFUSAL_def IDP_OFFERED_def VERSION_REFUSED_def CLAIM_RUNNER_RETIRED_def
  CLAIM_RUNNER_VERSION_REFUSED_def PINNED_GRAPH_MISSING_def ENFORCE_RELEASE_ROUTE_TOKEN_def
  HOST_ADD_RUNNER_LIFECYCLE_CONFLICT_def HOST_RETIRE_LIFECYCLE_CONFLICT_def

section \<open>Lemmas\<close>

lemma pausable_iff: "s \<in> PAUSABLE_STATUSES \<longleftrightarrow> s \<notin> {ST_DONE, ST_STOPPED, ST_DELIVERING}"
  by (cases s) (auto simp: PAUSABLE_STATUSES_def TERMINAL_STATUSES_def)

lemma status_if_paused_idem: "status_if_paused (status_if_paused s) = status_if_paused s"
  by (cases s) (auto simp: status_if_paused_def pausable_iff)

lemma status_value_inj [simp]: "status_value s = status_value t \<longleftrightarrow> s = t"
  by (cases s; cases t) (auto simp: status_value_def)

end
