(* ===== verification/Hub_Wire.thy ===== *)
theory Hub_Wire
  imports Hub_Vocabulary
begin

text \<open>
  The response bodies the mock hub answers (\<^verbatim>\<open>src/blizzard_mock/mock_hub/domain/wire.py\<close>), one
  record per model that the service builds, with the source's fields. The three project fields
  every chunk-owned view carries are one nested record. Fields that the mock always leaves at a
  fixed default (\<^verbatim>\<open>artifacts\<close>, \<^verbatim>\<open>superseded\<close>, \<^verbatim>\<open>color\<close> and the like) are left out.
\<close>

section \<open>Envelopes and routes\<close>

record project_fields =
  pf_project_id :: string
  pf_project_slug :: "string option"
  pf_project_name :: "string option"

record envelope_choice =
  ec_name :: string
  ec_description :: string
  ec_requires_checks :: bool

record node_config =
  nc_node_id :: string
  nc_node_name :: string
  nc_executor :: executor
  nc_session :: session_mode
  nc_session_source :: "string option"
  nc_session_name :: "string option"
  nc_session_model :: "string list"
  nc_session_effort :: "string option"
  nc_session_harnesses :: "string list"
  nc_session_compaction_window :: "string option"
  nc_session_rotate :: "rotate_policy option"
  nc_judged_by :: judged_by
  nc_checks :: "string list"
  nc_checks_cwd :: "string option"
  nc_checks_timeout :: "int option"
  nc_produces :: "string list"
  nc_retries_max :: "int option"
  nc_choices :: "envelope_choice list"

record labelled_ref =
  lr_source :: string
  lr_ref :: string
  lr_label :: string

record node_envelope =
  ne_chunk_id :: string
  ne_graph_id :: string
  ne_graph_name :: "string option"
  ne_epoch :: int
  ne_node :: node_config
  ne_prompt :: "string option"
  ne_judgement_prompt :: "string option"
  ne_work_refs :: "labelled_ref list"
  ne_graph_artifacts :: "graph_artifact list"

record route_claim_response =
  rc_chunk_id :: string
  rc_runner_id :: string
  rc_workspace_id :: string
  rc_environment_ids :: "string list"
  rc_envelope :: node_envelope
  rc_route_token :: string

record route_token_rekey_response =
  rk_chunk_id :: string
  rk_route_token :: string

record release_response =
  rl_chunk_id :: string
  rl_released_id :: int

record apply_response =
  ap_outcome :: apply_outcome
  ap_next_envelope :: "node_envelope option"
  ap_detail :: "string option"

record route_view =
  rv_runner_id :: string
  rv_runner_name :: "string option"
  rv_workspace_id :: string
  rv_environment_ids :: "string list"

section \<open>Chunk, question and queue views\<close>

text \<open>\<^verbatim>\<open>ChunkEscalationView\<close> has the fields of \<^verbatim>\<open>EscalationState\<close>.\<close>

type_synonym chunk_escalation_view = escalation_state

record question_view =
  qv_question :: question_state
  qv_runner_name :: "string option"
  qv_project :: "project_fields option"

record hub_advance_response =
  ha_chunk_id :: string
  ha_status :: string
  ha_ran :: bool
  ha_detail :: string

record chunk_detail =
  cd_chunk_id :: string
  cd_graph_id :: string
  cd_status :: string
  cd_current_node_id :: "string option"
  cd_latest_epoch :: "int option"
  cd_work_refs :: "work_ref list"
  cd_default_model :: "string list"
  cd_default_effort :: "string option"
  cd_default_harnesses :: "string list"
  cd_route :: "route_view option"
  cd_pausable :: bool
  cd_status_if_paused :: string
  cd_completable :: bool
  cd_deletable :: bool
  cd_delete_refusal :: "chunk_delete_refusal option"
  cd_promotable :: bool
  cd_graph_editable :: bool
  cd_terminal :: bool
  cd_current_node_terminal :: bool
  cd_escalation :: "chunk_escalation_view option"
  cd_questions :: "question_view list"
  cd_project :: project_fields

record chunk_status_view =
  sv_chunk_id :: string
  sv_status :: string
  sv_route_runner_id :: "string option"
  sv_latest_epoch :: "int option"
  sv_cost :: chunk_cost
  sv_project :: project_fields

record chunk_summary =
  su_chunk_id :: string
  su_graph_id :: string
  su_graph_name :: "string option"
  su_status :: string
  su_terminal :: bool
  su_promotable :: bool
  su_current_node_id :: "string option"
  su_work_refs :: "work_ref list"
  su_default_model :: "string list"
  su_default_effort :: "string option"
  su_default_harnesses :: "string list"
  su_runner_id :: "string option"
  su_runner_name :: "string option"
  su_workspace_id :: "string option"
  su_environment_count :: nat
  su_project :: project_fields

record queue_peek_entry =
  qe_chunk_id :: string
  qe_graph_id :: string
  qe_position :: nat
  qe_work_refs :: "work_ref list"
  qe_blocked :: "string option"
  qe_project :: project_fields

record work_item_entry =
  wi_source :: string
  wi_ref :: string
  wi_hub_source :: bool
  wi_fetched_at :: string
  wi_title :: string

section \<open>Registry views\<close>

record usage_window =
  uw_window :: string
  uw_utilization_pct :: rat
  uw_resets_at :: string
  uw_window_seconds :: int

record subscription_usage_view =
  us_slug :: string
  us_name :: string
  us_sampled_at :: "string option"
  us_windows :: "usage_window list"
  us_condition :: "string option"
  us_miss_reason :: "string option"
  us_missed_at :: "string option"

record served_project_view =
  sj_entry :: string
  sj_project_id :: "string option"
  sj_slug :: "string option"
  sj_name :: "string option"

record runner_binding_view =
  rb_project :: string
  rb_workspace_id :: string
  rb_agents :: int
  rb_workspace_unreported :: bool

record runner_declining =
  rd_lever :: string
  rd_detail :: string
  rd_subscription :: "string option"
  rd_until :: "string option"

record version_window =
  vw_floor :: string
  vw_ceiling :: string

definition HUB_VERSION :: string where "HUB_VERSION = ''0.2.0''"

definition WINDOW :: version_window where
  "WINDOW = \<lparr>vw_floor = ''0.2'', vw_ceiling = ''0.2''\<rparr>"

record runner_version_refusal =
  vr_reason :: string
  vr_runner_version :: "string option"
  vr_hub_version :: string
  vr_floor :: string
  vr_detail :: string

record runner_registration_response =
  gn_runner_id :: string
  gn_runner_name :: string
  gn_first_registration :: bool
  gn_tenant_id :: string
  gn_tenant_name :: "string option"
  gn_projects :: "served_project_view list"
  gn_bindings :: "runner_binding_view list option"
  gn_subscription :: "string option"
  gn_subscription_unrostered :: bool
  gn_hub_version :: string
  gn_window :: version_window

record runner_add_response =
  ra_runner_id :: string
  ra_runner_name :: string
  ra_token :: string

record runner_enrollment_response =
  re_runner_id :: string
  re_token :: string

record host_runner_view =
  hv_runner_id :: string
  hv_runner_name :: string

record host_record_response =
  ho_host_id :: string
  ho_tenant_id :: string
  ho_host_name :: string
  ho_registered_at :: "string option"
  ho_last_seen_at :: "string option"
  ho_runners :: "host_runner_view list"

record host_add_response =
  hx_host_id :: string
  hx_host_name :: string
  hx_token :: string
  hx_adopted :: "string list"

record runner_identity_view =
  iv_runner_id :: string
  iv_runner_name :: string
  iv_tenant_id :: string
  iv_tenant_name :: "string option"
  iv_fleet_flags :: "(string, bool) dict"

record me_tenant_view =
  mt_tenant_id :: string
  mt_name :: string
  mt_role :: string

record me_view =
  me_user_id :: string
  me_username :: string
  me_display_name :: string
  me_role :: "string option"
  me_assignable_roles :: "string list"
  me_tenants :: "me_tenant_view list"
  me_hub_admin :: bool

section \<open>Acknowledgements\<close>

record fact_ack =
  fa_id :: string
  fa_high_water :: int
  fa_applied :: "int list"
  fa_already_applied :: "int list"
  fa_rejected :: "int list"

record transcript_ack =
  ta_runner_id :: string
  ta_high_water :: int
  ta_applied :: "int list"
  ta_already_applied :: "int list"
  ta_capped :: "int list"
  ta_refused :: "int list"

section \<open>Garden, analytics and vocabulary views\<close>

record finding_view =
  fv_finding_id :: string
  fv_routine_name :: string
  fv_scope_slug :: string
  fv_class :: string
  fv_locus :: string
  fv_summary :: string
  fv_introduced :: "string option"
  fv_introduced_at :: "string option"
  fv_first_observed_at :: "string option"
  fv_live :: bool
  fv_state :: string
  fv_note :: "string option"
  fv_last_seen_at :: "string option"
  fv_observed_count :: int
  fv_exit :: "finding_exit_kind option"
  fv_project :: project_fields

record scope_view =
  sw_slug :: string
  sw_description :: string
  sw_created_at :: string
  sw_retired :: bool

record proposal_closure_view =
  pv_closure :: proposal_closure_kind
  pv_reason :: "string option"
  pv_closed_by :: string
  pv_closed_at :: string
  pv_item_outcome :: "proposal_item_outcome option"
  pv_source :: "string option"
  pv_ref :: "string option"

record garden_proposal_view =
  gw_proposal_id :: string
  gw_origin :: proposal_origin
  gw_routine_name :: string
  gw_created_by :: "string option"
  gw_class :: string
  gw_title :: string
  gw_body :: string
  gw_findings :: "string list"
  gw_created_at :: string
  gw_closure :: "proposal_closure_view option"
  gw_project :: project_fields

record garden_proposals_page =
  pg_proposals :: "garden_proposal_view list"
  pg_next_cursor :: "string option"

end
