(* ===== verification/Hub_Models.thy ===== *)
theory Hub_Models
  imports Hub_Wire
begin

text \<open>
  The hub's refusals and the per-chunk state machine (\<^verbatim>\<open>ChunkState\<close> of
  \<^verbatim>\<open>src/blizzard_mock/mock_hub/domain/models.py\<close>). Every exception class the domain raises is a
  constructor of \<open>hub_error\<close> with the attributes it carries; \<open>error_message\<close> is its text. The
  lemmas give the order of the refusals and what a release leaves behind.
\<close>

section \<open>Refusals\<close>

datatype (plugins only: code) hub_error =
    ClaimConflict string
  | ClaimDeniedTerminal string chunk_status
  | ClaimDeniedNotReady string chunk_status
  | RekeyDeniedTerminal string chunk_status
  | NoCurrentNode string
  | ReleaseNotHolder string string "string option"
  | ReleaseRefused string string string
  | ClaimDeniedUnregistered string
  | ClaimDeniedPaused string
  | RekeyNotHolder string
  | PinnedGraphMissing
  | ChunkNotFound string
  | ChunkNotPausable string
  | QuestionNotFound string
  | MalformedCursor string
  | NoRunContext string
  | NoAnsweredProposal string
  | FindingNotInAnsweredSet string
  | SystemArtifactNotFound string
  | UnresolvableRunner string
  | UnresolvableHost string
  | HostRetiredError string
  | UnknownHost string
  | HostNameTaken string
  | RunnerAlreadyHosted string string
  | RunnerLifecycleConflict string
  | RunnerRetireInterrupted string
  | RunnerTokenRefused string "string option"
  | NoSuchTenant
  | TenantRequired
  | ForeignTenantNamed
  | RunnerHoldsRoutes string
  | UnknownRunner string
  | RunnerNeverConnected string
  | RunnerRetired string "string option"
  | DependencyUnmet string
  | ClaimRunnerLeverRefusal string string string
  | ClaimIncompatible string string string
  | RunnerVersionRefused runner_version_refusal
  | UnknownProjects "string list"
  | ValueError string
  | LookupError string
  | RuntimeError string
  | ConversionError

text \<open>The last constructor stands for a \<^verbatim>\<open>TypeError\<close>, \<^verbatim>\<open>ValueError\<close> or validation error that
  a conversion of a payload value raises.\<close>

definition TENANT_HEADER :: string where "TENANT_HEADER = ''X-Blizzard-Tenant''"

primrec error_message :: "hub_error \<Rightarrow> string" where
  "error_message (ClaimConflict held_by) = ''chunk already claimed by '' @ held_by"
| "error_message (ClaimDeniedTerminal c s) = ''chunk '' @ c @ '' is '' @ status_value s @ '', not claimable''"
| "error_message (ClaimDeniedNotReady c s) = ''chunk '' @ c @ '' is '' @ status_value s @ '', not ready to claim''"
| "error_message (RekeyDeniedTerminal c s) =
     ''chunk '' @ c @ '' is '' @ status_value s @ '', its route confers no tenure''"
| "error_message (NoCurrentNode c) = ''chunk has no current runner node (terminal)''"
| "error_message (ReleaseNotHolder c r detail) =
     (if truthy detail then ''chunk '' @ c @ '': '' @ the detail
      else ''runner '' @ r @ '' does not hold chunk '' @ c @ CHR 0x27 # ''s route'')"
| "error_message (ReleaseRefused c reason detail) = detail"
| "error_message (ClaimDeniedUnregistered r) = ''runner '' @ r @ '' is not registered at the hub''"
| "error_message (ClaimDeniedPaused r) = ''runner '' @ r @ '' is paused at the hub''"
| "error_message (RekeyNotHolder m) = m"
| "error_message PinnedGraphMissing = []"
| "error_message (ChunkNotFound m) = m"
| "error_message (ChunkNotPausable m) = m"
| "error_message (QuestionNotFound m) = m"
| "error_message (MalformedCursor m) = m"
| "error_message (NoRunContext m) = m"
| "error_message (NoAnsweredProposal m) = m"
| "error_message (FindingNotInAnsweredSet m) = m"
| "error_message (SystemArtifactNotFound m) = m"
| "error_message (UnresolvableRunner m) = m"
| "error_message (UnresolvableHost m) = m"
| "error_message (HostRetiredError h) = ''host '' @ h @ '' is retired''"
| "error_message (UnknownHost h) = ''unknown host '' @ h"
| "error_message (HostNameTaken n) = ''a live host is already named '' @ py_repr n"
| "error_message (RunnerAlreadyHosted r h) = ''runner '' @ r @ '' already stands under host '' @ h"
| "error_message (RunnerLifecycleConflict r) =
     ''runner '' @ r @ '' changed after it was read '' @ em_dash @ '' run it again''"
| "error_message (RunnerRetireInterrupted r) =
     ''runner '' @ r @ '' changed after it was read '' @ em_dash @ '' run it again''"
| "error_message (RunnerTokenRefused reason r) = ''runner token refused: '' @ reason"
| "error_message NoSuchTenant = ''no such tenant''"
| "error_message TenantRequired = ''name the tenant to act in with '' @ TENANT_HEADER"
| "error_message ForeignTenantNamed =
     TENANT_HEADER @ '' names a tenant other than the presented credential'' @ CHR 0x27 # ''s''"
| "error_message (RunnerHoldsRoutes m) = m"
| "error_message (UnknownRunner r) = ''unknown runner '' @ r"
| "error_message (RunnerNeverConnected r) = ''runner '' @ r @ '' has not registered''"
| "error_message (RunnerRetired r action) =
     ''runner '' @ r @ '' is retired'' @
     (case action of None \<Rightarrow> []
      | Some a \<Rightarrow> '' '' @ em_dash @ '' '' @ a @ '' refused; '' @ CHR 0x60 # ''reinstate'' @ CHR 0x60 # '' it first'')"
| "error_message (DependencyUnmet p) = ''chunk depends on unmet prerequisite '' @ p"
| "error_message (ClaimRunnerLeverRefusal kind r detail) = detail"
| "error_message (ClaimIncompatible r reason detail) = ''runner '' @ r @ '' may not claim the chunk: '' @ detail"
| "error_message (RunnerVersionRefused v) = vr_detail v"
| "error_message (UnknownProjects es) = ''no project of the tenant answers to '' @ join '', '' (map py_repr es)"
| "error_message (ValueError m) = m"
| "error_message (LookupError m) = m"
| "error_message (RuntimeError m) = m"
| "error_message ConversionError = []"

section \<open>The chunk row\<close>

record chunk_state =
  cs_chunk_id :: string
  cs_project_id :: string
  cs_graph_id :: string
  cs_graph_name :: "string option"
  cs_default_model :: "string list"
  cs_default_effort :: "string option"
  cs_default_harnesses :: "string list"
  cs_entry :: string
  cs_nodes :: "(string, node_spec) dict"
  cs_work_refs :: "work_ref list"
  cs_graph_artifacts :: "graph_artifact list"
  cs_artifact_formats :: "(string, string list) dict"
  cs_garden_run :: "garden_run_spec option"
  cs_garden_findings :: "garden_finding list"
  cs_garden_answered_findings :: "garden_answered_finding list option"
  cs_garden_proposals :: "garden_proposal_spec list"
  cs_analytics :: analytics_spec
  cs_cost :: "chunk_cost option"
  cs_current_node_id :: "string option"
  cs_status :: chunk_status
  cs_status_before_pause :: "chunk_status option"
  cs_latest_epoch :: int
  cs_claimed :: bool
  cs_route_runner_id :: "string option"
  cs_route_workspace_id :: "string option"
  cs_route_environment_ids :: "string list"
  cs_route_token_rekey_count :: nat
  cs_live_route_token :: "string option"
  cs_applied :: "(string, apply_outcome) dict"
  cs_last_response :: "apply_response option"
  cs_escalation :: "escalation_state option"
  cs_releases :: "release_record list"

definition cs_node :: "chunk_state \<Rightarrow> string \<Rightarrow> node_spec option" where
  "cs_node c node_id = dget (cs_nodes c) node_id"

definition ended :: "chunk_state \<Rightarrow> bool" where
  "ended c \<longleftrightarrow> cs_status c \<in> {ST_DONE, ST_STOPPED}"

definition refuse_claim :: "chunk_state \<Rightarrow> hub_error + unit" where
  "refuse_claim c =
     (if ended c then Inl (ClaimDeniedTerminal (cs_chunk_id c) (cs_status c))
      else if cs_claimed c then Inl (ClaimConflict (str_or (cs_route_runner_id c) ''unknown''))
      else if cs_status c \<noteq> ST_READY then Inl (ClaimDeniedNotReady (cs_chunk_id c) (cs_status c))
      else Inr ())"

definition refuse_rekey :: "chunk_state \<Rightarrow> hub_error + unit" where
  "refuse_rekey c =
     (if ended c then Inl (RekeyDeniedTerminal (cs_chunk_id c) (cs_status c)) else Inr ())"

definition refuse_release :: "chunk_state \<Rightarrow> string \<Rightarrow> int \<Rightarrow> hub_error + unit" where
  "refuse_release c runner_id epoch =
     (if ended c then
        Inl (ReleaseNotHolder (cs_chunk_id c) runner_id (Some ''release refused: not-holder''))
      else if \<not> cs_claimed c \<or> cs_route_runner_id c \<noteq> Some runner_id then
        Inl (ReleaseNotHolder (cs_chunk_id c) runner_id None)
      else if cs_status c \<noteq> ST_RUNNING then
        Inl (ReleaseRefused (cs_chunk_id c) ''not-running''
               (''chunk '' @ cs_chunk_id c @ '': release refused: not-running''))
      else if epoch \<noteq> cs_latest_epoch c then
        Inl (ReleaseRefused (cs_chunk_id c) ''stale''
               (''chunk '' @ cs_chunk_id c @ '': release refused: stale''))
      else Inr ())"

definition cs_release :: "chunk_state \<Rightarrow> string \<Rightarrow> int \<Rightarrow> string \<Rightarrow> hub_error + (int \<times> chunk_state)" where
  "cs_release c runner_id epoch reason =
     (case refuse_release c runner_id epoch of
        Inl e \<Rightarrow> Inl e
      | Inr _ \<Rightarrow>
          let c' = c\<lparr>cs_claimed := False, cs_route_runner_id := None, cs_route_workspace_id := None,
                     cs_route_environment_ids := [], cs_status := ST_READY,
                     cs_releases := cs_releases c @
                       [\<lparr>rr_runner_id = runner_id, rr_epoch = epoch, rr_reason = reason\<rparr>]\<rparr>
          in Inr (int (length (cs_releases c')), c'))"

definition refuse_envelope :: "chunk_state \<Rightarrow> hub_error + unit" where
  "refuse_envelope c = (if ended c then Inl (NoCurrentNode (cs_chunk_id c)) else Inr ())"

definition incoherent_attempt :: "chunk_state \<Rightarrow> string \<Rightarrow> int \<Rightarrow> string list \<Rightarrow> string option" where
  "incoherent_attempt c from_node_id epoch open_question_ids =
     (if cs_current_node_id c \<noteq> None \<and> cs_current_node_id c \<noteq> Some from_node_id then
        Some (''node '' @ CHR 0x60 # from_node_id @ CHR 0x60 # '' is not the chunk'' @ CHR 0x27 #
              ''s current node '' @ CHR 0x60 # the (cs_current_node_id c) @ CHR 0x60 # '' at epoch ''
              @ show_int epoch)
      else if map_option es_epoch (cs_escalation c) = Some epoch then
        Some (''the attempt at epoch '' @ show_int epoch @ '' escalated '' @ em_dash @
              '' requeue the chunk before it moves on'')
      else case open_question_ids of
             [] \<Rightarrow> None
           | q # _ \<Rightarrow> Some (''question '' @ q @ '' is open '' @ em_dash @
                             '' answer it before the chunk moves on''))"

definition hub_executed :: "chunk_state \<Rightarrow> string \<Rightarrow> string option" where
  "hub_executed c from_node_id =
     (case cs_node c from_node_id of
        None \<Rightarrow> None
      | Some node \<Rightarrow>
          if nd_executor node = EX_HUB then
            Some (''node '' @ CHR 0x60 # from_node_id @ CHR 0x60 # '' is hub-executed '' @ em_dash @
                  '' the hub authors its transitions'')
          else None)"

definition ships_from_lease_holder :: "string option \<Rightarrow> string \<Rightarrow> bool" where
  "ships_from_lease_holder owner runner_id \<longleftrightarrow> owner = None \<or> owner = Some runner_id"

section \<open>Lemmas\<close>

lemmas chunk_refusals = refuse_claim_def refuse_rekey_def refuse_release_def refuse_envelope_def

lemma refuse_claim_ok_iff:
  "refuse_claim c = Inr () \<longleftrightarrow> \<not> cs_claimed c \<and> cs_status c = ST_READY"
  by (auto simp: refuse_claim_def ended_def)

lemma refuse_release_ok_iff:
  "refuse_release c r e = Inr () \<longleftrightarrow>
     cs_claimed c \<and> cs_route_runner_id c = Some r \<and> cs_status c = ST_RUNNING \<and> e = cs_latest_epoch c"
  by (auto simp: refuse_release_def ended_def)

lemma cs_release_Inr:
  "cs_release c r e reason = Inr (n, c') \<longleftrightarrow>
     refuse_release c r e = Inr () \<and> n = int (length (cs_releases c)) + 1 \<and>
     c' = c\<lparr>cs_claimed := False, cs_route_runner_id := None, cs_route_workspace_id := None,
            cs_route_environment_ids := [], cs_status := ST_READY,
            cs_releases := cs_releases c @ [\<lparr>rr_runner_id = r, rr_epoch = e, rr_reason = reason\<rparr>]\<rparr>"
  by (auto simp: cs_release_def Let_def split: sum.splits)

end
