(* ===== verification/Hub_State.thy ===== *)
theory Hub_State
  imports Hub_Models "HOL-Library.List_Lexorder" "HOL-Library.Char_ord"
begin

text \<open>
  The hub's registry rows (\<^verbatim>\<open>src/blizzard_mock/mock_hub/domain/state.py\<close>) and its in-memory
  store (\<^verbatim>\<open>internal/state_store.py\<close>), with the marks, owners and transcript maps that
  \<^verbatim>\<open>MockHubService\<close> holds beside it, in one record \<open>hub\<close>. Rows are values: an in-place write
  to a row the store holds is a put of the changed row, which keeps the row's place.
  Each keyed table interprets the contract \<open>row_table\<close>.
\<close>

section \<open>Rows\<close>

record runner_capability =
  cp_harness_id :: string
  cp_version :: "string option"
  cp_tiers :: "string list"
  cp_supported_models :: "string list"
  cp_default :: bool
  cp_available :: bool

record declared_subscription =
  ds_slug :: string
  ds_name :: string
  ds_provider :: string

record usage_miss =
  um_slug :: string
  um_name :: string
  um_missed_at :: instant
  um_reason :: string

record reported_facts =
  rf_locally_paused :: bool
  rf_locally_paused_by :: "string option"
  rf_locally_paused_reason :: json
  rf_subscription_usage :: "(string, subscription_usage_view) dict"
  rf_subscription_usage_misses :: "(string, usage_miss) dict"

definition ReportedRunnerFacts :: reported_facts where
  "ReportedRunnerFacts = \<lparr>rf_locally_paused = False, rf_locally_paused_by = None,
     rf_locally_paused_reason = JNull, rf_subscription_usage = [], rf_subscription_usage_misses = []\<rparr>"

record scope_row =
  so_slug :: string
  so_description :: string
  so_created_at :: string
  so_retired :: bool

definition FIRST_TENANT_ID :: string where "FIRST_TENANT_ID = ''ten_00000000000000000000000000''"

definition FIRST_TENANT_NAME :: string where "FIRST_TENANT_NAME = ''default''"

record tenant_row =
  tn_tenant_id :: string
  tn_name :: string

record project_row =
  pj_project_id :: string
  pj_tenant_id :: string
  pj_slug :: string
  pj_name :: string

record served_entry =
  se_entry :: string
  se_project_id :: "string option"

record runner_binding =
  bi_project :: string
  bi_workspace_id :: string

record runner_row =
  rn_runner_id :: string
  rn_tenant_id :: string
  rn_name :: string
  rn_added_at :: instant
  rn_workspace_id :: "string option"
  rn_registered_at :: "instant option"
  rn_last_seen_at :: "instant option"
  rn_url :: "string option"
  rn_redirect_uris :: "string list"
  rn_env_capacity :: "int option"
  rn_capabilities :: "runner_capability list"
  rn_declared_subscriptions :: "declared_subscription list option"
  rn_gates :: "string list"
  rn_projects :: "served_entry list"
  rn_bindings :: "runner_binding list option"
  rn_subscription :: "string option"
  rn_agents :: "int option"
  rn_declining :: "runner_declining list"
  rn_paused :: bool
  rn_retired_at :: "instant option"
  rn_retired_by :: "string option"
  rn_host_id :: "string option"

definition RunnerRow :: "string \<Rightarrow> string \<Rightarrow> string \<Rightarrow> instant \<Rightarrow> runner_row" where
  "RunnerRow runner_id tenant_id name added_at = \<lparr>rn_runner_id = runner_id, rn_tenant_id = tenant_id,
     rn_name = name, rn_added_at = added_at, rn_workspace_id = None, rn_registered_at = None,
     rn_last_seen_at = None, rn_url = None, rn_redirect_uris = [], rn_env_capacity = None,
     rn_capabilities = [], rn_declared_subscriptions = None, rn_gates = [], rn_projects = [],
     rn_bindings = None, rn_subscription = None, rn_agents = None, rn_declining = [],
     rn_paused = False, rn_retired_at = None, rn_retired_by = None, rn_host_id = None\<rparr>"

definition never_connected :: "runner_row \<Rightarrow> bool" where
  "never_connected row \<longleftrightarrow> rn_registered_at row = None"

record host_row =
  hs_host_id :: string
  hs_tenant_id :: string
  hs_name :: string
  hs_added_at :: instant
  hs_registered_at :: "instant option"
  hs_last_seen_at :: "instant option"
  hs_url :: "string option"
  hs_redirect_uris :: "string list"
  hs_workspaces :: "(string \<times> int option) list"
  hs_subscriptions :: "declared_subscription list"
  hs_retired_at :: "instant option"
  hs_retired_by :: "string option"
  hs_subscription_usage :: "(string, subscription_usage_view) dict"
  hs_subscription_usage_misses :: "(string, usage_miss) dict"

definition HostRow :: "string \<Rightarrow> string \<Rightarrow> string \<Rightarrow> instant \<Rightarrow> host_row" where
  "HostRow host_id tenant_id name added_at = \<lparr>hs_host_id = host_id, hs_tenant_id = tenant_id,
     hs_name = name, hs_added_at = added_at, hs_registered_at = None, hs_last_seen_at = None,
     hs_url = None, hs_redirect_uris = [], hs_workspaces = [], hs_subscriptions = [],
     hs_retired_at = None, hs_retired_by = None, hs_subscription_usage = [],
     hs_subscription_usage_misses = []\<rparr>"

definition refuse_braked_runner :: "runner_row option \<Rightarrow> string \<Rightarrow> hub_error + runner_row" where
  "refuse_braked_runner row runner_id =
     (case row of
        None \<Rightarrow> Inl (ClaimDeniedUnregistered runner_id)
      | Some r \<Rightarrow>
          if never_connected r then Inl (ClaimDeniedUnregistered runner_id)
          else if rn_paused r then Inl (ClaimDeniedPaused runner_id)
          else Inr r)"

section \<open>The store and the service's own maps\<close>

text \<open>One stored transcript record, and its natural and lease keys: the tenant first in each.\<close>

record transcript_record =
  tr_seq :: int
  tr_segment_id :: string
  tr_chunk_id :: string
  tr_node_id :: string
  tr_epoch :: int
  tr_spawn_generation :: int
  tr_turn_range_start :: int
  tr_turn_range_end :: int
  tr_final :: bool
  tr_record_truncated :: bool
  tr_supersedes :: "string option"
  tr_turns :: "payload list"

type_synonym natural_key = "string \<times> string \<times> int"
type_synonym lease_key = "string \<times> string \<times> string \<times> int"

datatype key_verdict = KV_ACCEPTED | KV_REJECTED

record hub =
  hub_tenants :: "(string, tenant_row) dict"
  hub_projects :: "(string, project_row) dict"
  hub_chunks :: "(string, chunk_state) dict"
  hub_runners :: "(string, runner_row) dict"
  hub_tokens :: "(string, string) dict"
  hub_revoked_tokens :: "(string, string) dict"
  hub_hosts :: "(string, host_row) dict"
  hub_host_tokens :: "(string, string) dict"
  hub_revoked_host_tokens :: "(string, string) dict"
  hub_reported :: "(string, reported_facts) dict"
  hub_questions :: "(string, question_state) dict"
  hub_system_artifacts :: "(string, string) dict"
  hub_scopes :: "(string, scope_row) dict"
  hub_levers :: lever_store
  hub_rng_draws :: nat
  hub_fact_high_water :: "(string, int) dict"
  hub_host_fact_high_water :: "(string, int) dict"
  hub_transcript_high_water :: "(string, int) dict"
  hub_epoch_owners :: "(string \<times> string \<times> int, string) dict"
  hub_transcript_owners :: "(natural_key, lease_key \<times> string) dict"
  hub_transcript_chunk_bytes :: "(string \<times> string, nat) dict"
  hub_transcript_key_state :: "(natural_key, key_verdict) dict"
  hub_transcript_rejected :: "(natural_key, transcript_record) dict"
  hub_transcript_segments :: "(lease_key, (natural_key, transcript_record) dict) dict"

text \<open>What a call reads from outside: the clock, as an instant and as the millisecond stamp
  \<^verbatim>\<open>int(now.timestamp() * 1000)\<close>; the successive 80-bit draws of the service's
  \<^verbatim>\<open>random.Random\<close>; and the hex text of \<^verbatim>\<open>uuid4\<close> and the text of \<^verbatim>\<open>secrets.token_urlsafe\<close>.\<close>

record env =
  env_now :: instant
  env_millis :: int
  env_rng :: "nat \<Rightarrow> int"
  env_uuid_hex :: string
  env_secret :: string

type_synonym 'a result = "(hub_error + 'a) \<times> hub"

definition mint_id :: "env \<Rightarrow> string \<Rightarrow> hub \<Rightarrow> string \<times> hub" where
  "mint_id \<E> prefix h =
     (mint prefix (env_millis \<E>) (env_rng \<E> (hub_rng_draws h)),
      h\<lparr>hub_rng_draws := hub_rng_draws h + 1\<rparr>)"

subsection \<open>Tables\<close>

definition put_tenant :: "tenant_row \<Rightarrow> hub \<Rightarrow> hub" where
  "put_tenant row h = h\<lparr>hub_tenants := dset (tn_tenant_id row) row (hub_tenants h)\<rparr>"

definition get_tenant :: "hub \<Rightarrow> string \<Rightarrow> tenant_row option" where
  "get_tenant h tenant_id = dget (hub_tenants h) tenant_id"

definition list_tenants :: "hub \<Rightarrow> tenant_row list" where
  "list_tenants h = dvals (hub_tenants h)"

definition put_project :: "project_row \<Rightarrow> hub \<Rightarrow> hub" where
  "put_project row h = h\<lparr>hub_projects := dset (pj_project_id row) row (hub_projects h)\<rparr>"

definition get_project :: "hub \<Rightarrow> string \<Rightarrow> project_row option" where
  "get_project h project_id = dget (hub_projects h) project_id"

definition list_projects :: "hub \<Rightarrow> project_row list" where
  "list_projects h = dvals (hub_projects h)"

definition put_chunk :: "chunk_state \<Rightarrow> hub \<Rightarrow> hub" where
  "put_chunk c h = h\<lparr>hub_chunks := dset (cs_chunk_id c) c (hub_chunks h)\<rparr>"

definition get_chunk :: "hub \<Rightarrow> string \<Rightarrow> chunk_state option" where
  "get_chunk h chunk_id = dget (hub_chunks h) chunk_id"

definition list_chunks :: "hub \<Rightarrow> chunk_state list" where
  "list_chunks h = dvals (hub_chunks h)"

definition put_runner :: "runner_row \<Rightarrow> hub \<Rightarrow> hub" where
  "put_runner row h = h\<lparr>hub_runners := dset (rn_runner_id row) row (hub_runners h)\<rparr>"

definition get_runner :: "hub \<Rightarrow> string \<Rightarrow> runner_row option" where
  "get_runner h runner_id = dget (hub_runners h) runner_id"

definition list_runners :: "hub \<Rightarrow> runner_row list" where
  "list_runners h = dvals (hub_runners h)"

definition put_host :: "host_row \<Rightarrow> hub \<Rightarrow> hub" where
  "put_host row h = h\<lparr>hub_hosts := dset (hs_host_id row) row (hub_hosts h)\<rparr>"

definition get_host :: "hub \<Rightarrow> string \<Rightarrow> host_row option" where
  "get_host h host_id = dget (hub_hosts h) host_id"

definition list_hosts :: "hub \<Rightarrow> host_row list" where
  "list_hosts h = dvals (hub_hosts h)"

definition put_question :: "question_state \<Rightarrow> hub \<Rightarrow> hub" where
  "put_question q h = h\<lparr>hub_questions := dset (qs_question_id q) q (hub_questions h)\<rparr>"

definition get_question :: "hub \<Rightarrow> string \<Rightarrow> question_state option" where
  "get_question h question_id = dget (hub_questions h) question_id"

definition list_questions :: "hub \<Rightarrow> question_state list" where
  "list_questions h = dvals (hub_questions h)"

subsection \<open>Runners, tokens and hosts\<close>

definition store_add_runner :: "runner_row \<Rightarrow> string \<Rightarrow> hub \<Rightarrow> unit result" where
  "store_add_runner row token h =
     (if get_runner h (rn_runner_id row) \<noteq> None
      then (Inl (ValueError (''runner '' @ rn_runner_id row @ '' is already added'')), h)
      else (Inr (), (put_runner row h)\<lparr>hub_tokens := dset token (rn_runner_id row) (hub_tokens h)\<rparr>))"

text \<open>What a registration overwrites on the row; \<open>name\<close> and \<open>projects\<close> are kept when absent.\<close>

record registration =
  gs_name :: "string option"
  gs_workspace_id :: string
  gs_url :: "string option"
  gs_redirect_uris :: "string list"
  gs_env_capacity :: "int option"
  gs_capabilities :: "runner_capability list"
  gs_declared_subscriptions :: "declared_subscription list option"
  gs_gates :: "string list"
  gs_projects :: "served_entry list option"
  gs_bindings :: "runner_binding list option"
  gs_subscription :: "string option"
  gs_agents :: "int option"
  gs_declining :: "runner_declining list"

definition registered_row :: "registration \<Rightarrow> instant \<Rightarrow> runner_row \<Rightarrow> runner_row" where
  "registered_row g now row =
     row\<lparr>rn_registered_at := (case rn_registered_at row of None \<Rightarrow> Some now | Some t \<Rightarrow> Some t),
         rn_last_seen_at := Some now,
         rn_name := (case gs_name g of None \<Rightarrow> rn_name row | Some n \<Rightarrow> n),
         rn_workspace_id := Some (gs_workspace_id g), rn_url := gs_url g,
         rn_redirect_uris := gs_redirect_uris g, rn_env_capacity := gs_env_capacity g,
         rn_capabilities := gs_capabilities g,
         rn_declared_subscriptions := gs_declared_subscriptions g, rn_gates := gs_gates g,
         rn_bindings := gs_bindings g, rn_subscription := gs_subscription g,
         rn_agents := gs_agents g, rn_declining := gs_declining g,
         rn_projects := (case gs_projects g of None \<Rightarrow> rn_projects row | Some ps \<Rightarrow> ps)\<rparr>"

definition record_registration :: "string \<Rightarrow> registration \<Rightarrow> instant \<Rightarrow> hub \<Rightarrow> bool result" where
  "record_registration runner_id g now h =
     (case get_runner h runner_id of
        None \<Rightarrow> (Inl (LookupError (''runner '' @ runner_id @ '' has not been added'')), h)
      | Some row \<Rightarrow>
          (Inr (rn_registered_at row = None),
           h\<lparr>hub_runners := dset runner_id (registered_row g now row) (hub_runners h)\<rparr>))"

definition runner_for_token :: "hub \<Rightarrow> string \<Rightarrow> runner_row option" where
  "runner_for_token h token =
     (case dget (hub_tokens h) token of None \<Rightarrow> None | Some r \<Rightarrow> get_runner h r)"

definition revoked_token_runner_id :: "hub \<Rightarrow> string \<Rightarrow> string option" where
  "revoked_token_runner_id h token = dget (hub_revoked_tokens h) token"

text \<open>The two token maps after every token \<open>owner\<close> holds is revoked and \<open>token\<close>, if any, is made
  its current one.\<close>

definition move_tokens ::
  "string \<Rightarrow> string option \<Rightarrow> (string, string) dict \<Rightarrow> (string, string) dict
     \<Rightarrow> (string, string) dict \<times> (string, string) dict" where
  "move_tokens owner token tokens revoked =
     (let held = map fst (filter (\<lambda>(t, r). r = owner) tokens);
          tokens' = fold dpop held tokens;
          revoked' = fold (\<lambda>t. dset t owner) held revoked
      in (case token of None \<Rightarrow> tokens' | Some t \<Rightarrow> dset t owner tokens', revoked'))"

definition replace_token :: "string \<Rightarrow> string option \<Rightarrow> hub \<Rightarrow> hub" where
  "replace_token runner_id token h =
     (case move_tokens runner_id token (hub_tokens h) (hub_revoked_tokens h) of
        (tokens, revoked) \<Rightarrow> h\<lparr>hub_tokens := tokens, hub_revoked_tokens := revoked\<rparr>)"

definition reported_facts_of :: "hub \<Rightarrow> string \<Rightarrow> reported_facts" where
  "reported_facts_of h runner_id = dget_or (hub_reported h) runner_id ReportedRunnerFacts"

definition put_reported :: "string \<Rightarrow> reported_facts \<Rightarrow> hub \<Rightarrow> hub" where
  "put_reported runner_id f h = h\<lparr>hub_reported := dset runner_id f (hub_reported h)\<rparr>"

definition store_add_host :: "host_row \<Rightarrow> string \<Rightarrow> hub \<Rightarrow> unit result" where
  "store_add_host row token h =
     (if get_host h (hs_host_id row) \<noteq> None
      then (Inl (ValueError (''host '' @ hs_host_id row @ '' is already added'')), h)
      else (Inr (), (put_host row h)\<lparr>hub_host_tokens := dset token (hs_host_id row) (hub_host_tokens h)\<rparr>))"

definition host_for_token :: "hub \<Rightarrow> string \<Rightarrow> host_row option" where
  "host_for_token h token =
     (case dget (hub_host_tokens h) token of None \<Rightarrow> None | Some r \<Rightarrow> get_host h r)"

definition revoked_token_host_id :: "hub \<Rightarrow> string \<Rightarrow> string option" where
  "revoked_token_host_id h token = dget (hub_revoked_host_tokens h) token"

definition replace_host_token :: "string \<Rightarrow> string option \<Rightarrow> hub \<Rightarrow> hub" where
  "replace_host_token host_id token h =
     (case move_tokens host_id token (hub_host_tokens h) (hub_revoked_host_tokens h) of
        (tokens, revoked) \<Rightarrow> h\<lparr>hub_host_tokens := tokens, hub_revoked_host_tokens := revoked\<rparr>)"

subsection \<open>Global vocabulary and reset\<close>

definition put_system_artifact :: "string \<Rightarrow> string \<Rightarrow> hub \<Rightarrow> hub" where
  "put_system_artifact name content h =
     h\<lparr>hub_system_artifacts := dset name content (hub_system_artifacts h)\<rparr>"

definition get_system_artifact :: "hub \<Rightarrow> string \<Rightarrow> string option" where
  "get_system_artifact h name = dget (hub_system_artifacts h) name"

definition list_system_artifacts :: "hub \<Rightarrow> (string \<times> string) list" where
  "list_system_artifacts h = sort_key fst (hub_system_artifacts h)"

definition put_scope :: "scope_row \<Rightarrow> hub \<Rightarrow> hub" where
  "put_scope row h = h\<lparr>hub_scopes := dset (so_slug row) row (hub_scopes h)\<rparr>"

text \<open>A reversed stable sort: newest first, ties in insertion order.\<close>

definition list_scopes :: "hub \<Rightarrow> scope_row list" where
  "list_scopes h = rev (sort_key so_created_at (rev (dvals (hub_scopes h))))"

text \<open>\<^verbatim>\<open>InMemoryHubState.clear\<close> clears twelve of the store's thirteen maps.\<close>

definition store_clear :: "hub \<Rightarrow> hub" where
  "store_clear h = h\<lparr>hub_tenants := [], hub_projects := [], hub_chunks := [], hub_runners := [],
     hub_tokens := [], hub_revoked_tokens := [], hub_hosts := [], hub_host_tokens := [],
     hub_revoked_host_tokens := [], hub_questions := [], hub_system_artifacts := [], hub_scopes := []\<rparr>"

section \<open>The tables keep the contract\<close>

abbreviation chunks_ok :: "hub \<Rightarrow> bool" where "chunks_ok h \<equiv> keyed cs_chunk_id (hub_chunks h)"
abbreviation runners_ok :: "hub \<Rightarrow> bool" where "runners_ok h \<equiv> keyed rn_runner_id (hub_runners h)"
abbreviation hosts_ok :: "hub \<Rightarrow> bool" where "hosts_ok h \<equiv> keyed hs_host_id (hub_hosts h)"
abbreviation tenants_ok :: "hub \<Rightarrow> bool" where "tenants_ok h \<equiv> keyed tn_tenant_id (hub_tenants h)"
abbreviation projects_ok :: "hub \<Rightarrow> bool" where "projects_ok h \<equiv> keyed pj_project_id (hub_projects h)"
abbreviation questions_ok :: "hub \<Rightarrow> bool" where "questions_ok h \<equiv> keyed qs_question_id (hub_questions h)"

lemmas table_defs = put_tenant_def get_tenant_def list_tenants_def put_project_def get_project_def
  list_projects_def put_chunk_def get_chunk_def list_chunks_def put_runner_def get_runner_def
  list_runners_def put_host_def get_host_def list_hosts_def put_question_def get_question_def
  list_questions_def

interpretation chunk_table: row_table cs_chunk_id put_chunk get_chunk list_chunks chunks_ok
  by (rule row_table_dict [where sel = hub_chunks]) (simp_all add: table_defs)

interpretation runner_table: row_table rn_runner_id put_runner get_runner list_runners runners_ok
  by (rule row_table_dict [where sel = hub_runners]) (simp_all add: table_defs)

interpretation host_table: row_table hs_host_id put_host get_host list_hosts hosts_ok
  by (rule row_table_dict [where sel = hub_hosts]) (simp_all add: table_defs)

interpretation tenant_table: row_table tn_tenant_id put_tenant get_tenant list_tenants tenants_ok
  by (rule row_table_dict [where sel = hub_tenants]) (simp_all add: table_defs)

interpretation project_table: row_table pj_project_id put_project get_project list_projects projects_ok
  by (rule row_table_dict [where sel = hub_projects]) (simp_all add: table_defs)

interpretation question_table: row_table qs_question_id put_question get_question list_questions questions_ok
  by (rule row_table_dict [where sel = hub_questions]) (simp_all add: table_defs)

end
