(* ===== verification/Hub_Projects.thy ===== *)
theory Hub_Projects
  imports Hub_State
begin

text \<open>
  The tenant and project part of \<^verbatim>\<open>MockHubService\<close>
  (\<^verbatim>\<open>src/blizzard_mock/mock_hub/domain/service.py\<close>): the first tenant, seeding, resolution of a
  project by id or slug, what a runner serves and what the matched peek may offer it, and the
  reset, chunk seeding and the global vocabulary of system artifacts and scopes. The lemmas show
  that resolution never leaves the tenant, that seeding keeps slugs unique inside a tenant, and
  what a reset leaves behind.
\<close>

section \<open>Lookups\<close>

definition require :: "hub \<Rightarrow> string \<Rightarrow> hub_error + chunk_state" where
  "require h chunk_id =
     (case get_chunk h chunk_id of
        None \<Rightarrow> Inl (ChunkNotFound (''unknown chunk '' @ chunk_id))
      | Some c \<Rightarrow> Inr c)"

definition added :: "hub \<Rightarrow> string \<Rightarrow> hub_error + runner_row" where
  "added h runner_id =
     (case get_runner h runner_id of None \<Rightarrow> Inl (UnknownRunner runner_id) | Some r \<Rightarrow> Inr r)"

section \<open>Projects\<close>

definition tenant_of :: "hub \<Rightarrow> string \<Rightarrow> hub_error + tenant_row" where
  "tenant_of h tenant_id =
     (case get_tenant h tenant_id of None \<Rightarrow> Inl NoSuchTenant | Some t \<Rightarrow> Inr t)"

definition tenant_name_of :: "hub \<Rightarrow> string \<Rightarrow> string option" where
  "tenant_name_of h tenant_id = map_option tn_name (get_tenant h tenant_id)"

definition tenant_projects :: "hub \<Rightarrow> string \<Rightarrow> project_row list" where
  "tenant_projects h tenant_id = filter (\<lambda>p. pj_tenant_id p = tenant_id) (list_projects h)"

text \<open>\<^verbatim>\<open>given or mint(prefix, clock, rng)\<close>: the generator is drawn from only when no id is given.\<close>

definition given_or_mint :: "env \<Rightarrow> string \<Rightarrow> string option \<Rightarrow> hub \<Rightarrow> string \<times> hub" where
  "given_or_mint \<E> prefix given h =
     (case given of
        None \<Rightarrow> mint_id \<E> prefix h
      | Some i \<Rightarrow> if i = [] then mint_id \<E> prefix h else (i, h))"

definition place_project :: "string \<Rightarrow> string \<Rightarrow> string \<Rightarrow> string \<Rightarrow> hub \<Rightarrow> project_row result" where
  "place_project minted tenant_id slug name h =
     (if get_project h minted \<noteq> None then
        (Inl (ValueError (''project '' @ minted @ '' already exists'')), h)
      else if list_ex (\<lambda>p. pj_slug p = slug) (tenant_projects h tenant_id) then
        (Inl (ValueError (''tenant '' @ tenant_id @ '' already holds a project with slug '' @ py_repr slug)), h)
      else
        (let row = \<lparr>pj_project_id = minted, pj_tenant_id = tenant_id, pj_slug = slug, pj_name = name\<rparr>
         in (Inr row, put_project row h)))"

definition seed_project ::
  "env \<Rightarrow> string \<Rightarrow> string \<Rightarrow> string \<Rightarrow> string option \<Rightarrow> hub \<Rightarrow> project_row result" where
  "seed_project \<E> slug name tenant_id project_id h =
     (case tenant_of h tenant_id of
        Inl e \<Rightarrow> (Inl e, h)
      | Inr tenant \<Rightarrow>
          (case given_or_mint \<E> PROJECT_PREFIX project_id h of
             (minted, h') \<Rightarrow> place_project minted (tn_tenant_id tenant) slug name h'))"

definition resolve_project :: "hub \<Rightarrow> string \<Rightarrow> string \<Rightarrow> project_row option" where
  "resolve_project h tenant_id value =
     (if starts_with (PROJECT_PREFIX @ ''_'') value then
        (case get_project h value of
           None \<Rightarrow> None
         | Some p \<Rightarrow> if pj_tenant_id p = tenant_id then Some p else None)
      else find (\<lambda>p. pj_slug p = value) (tenant_projects h tenant_id))"

definition declared :: "hub \<Rightarrow> string \<Rightarrow> string list \<Rightarrow> served_entry list" where
  "declared h tenant_id entries =
     map (\<lambda>e. \<lparr>se_entry = e, se_project_id = map_option pj_project_id (resolve_project h tenant_id e)\<rparr>) entries"

definition added_declaration :: "hub \<Rightarrow> string \<Rightarrow> string list option \<Rightarrow> hub_error + served_entry list" where
  "added_declaration h tenant_id entries =
     (case entries of
        None \<Rightarrow>
          (case tenant_projects h tenant_id of
             [p] \<Rightarrow> Inr [\<lparr>se_entry = pj_project_id p, se_project_id = Some (pj_project_id p)\<rparr>]
           | _ \<Rightarrow> Inr [])
      | Some es \<Rightarrow>
          (let decl = declared h tenant_id es;
               unresolved = map se_entry (filter (\<lambda>e. se_project_id e = None) decl)
           in if unresolved \<noteq> [] then Inl (UnknownProjects unresolved) else Inr decl))"

definition served_views :: "hub \<Rightarrow> runner_row \<Rightarrow> served_project_view list" where
  "served_views h row =
     map (\<lambda>e. case Option.bind (se_project_id e) (get_project h) of
          None \<Rightarrow> \<lparr>sj_entry = se_entry e, sj_project_id = se_project_id e, sj_slug = None, sj_name = None\<rparr>
        | Some p \<Rightarrow> \<lparr>sj_entry = se_entry e, sj_project_id = Some (pj_project_id p),
                     sj_slug = Some (pj_slug p), sj_name = Some (pj_name p)\<rparr>)
       (rn_projects row)"

definition set_runner_projects :: "string \<Rightarrow> string list \<Rightarrow> hub \<Rightarrow> served_project_view list result" where
  "set_runner_projects runner_id entries h =
     (case added h runner_id of
        Inl e \<Rightarrow> (Inl e, h)
      | Inr row \<Rightarrow>
          (let row' = row\<lparr>rn_projects := declared h (rn_tenant_id row) entries\<rparr>;
               h' = put_runner row' h
           in (Inr (served_views h' row'), h')))"

definition served_project_ids :: "runner_row \<Rightarrow> string set" where
  "served_project_ids row = set (List.map_filter se_project_id (rn_projects row))"

section \<open>Host reports and offers\<close>

definition host_report :: "hub \<Rightarrow> runner_row \<Rightarrow> host_row option" where
  "host_report h row =
     (case rn_host_id row of
        None \<Rightarrow> None
      | Some host_id \<Rightarrow>
          (case get_host h host_id of
             None \<Rightarrow> None
           | Some host \<Rightarrow> if hs_registered_at host \<noteq> None then Some host else None))"

definition workspace_unreported :: "host_row \<Rightarrow> runner_binding \<Rightarrow> bool" where
  "workspace_unreported host b \<longleftrightarrow> bi_workspace_id b \<notin> fst ` set (hs_workspaces host)"

definition subscription_unrostered :: "host_row \<Rightarrow> string option \<Rightarrow> bool" where
  "subscription_unrostered host subscription =
     (case subscription of None \<Rightarrow> False | Some s \<Rightarrow> s \<notin> ds_slug ` set (hs_subscriptions host))"

definition withheld :: "hub \<Rightarrow> runner_row \<Rightarrow> runner_binding \<Rightarrow> bool" where
  "withheld h row b =
     (case host_report h row of
        None \<Rightarrow> False
      | Some host \<Rightarrow> workspace_unreported host b \<or> subscription_unrostered host (rn_subscription row))"

definition binding_views :: "hub \<Rightarrow> runner_row \<Rightarrow> runner_binding_view list option \<times> bool" where
  "binding_views h row =
     (let host = host_report h row
      in (map_option (map (\<lambda>b. \<lparr>rb_project = bi_project b, rb_workspace_id = bi_workspace_id b,
             rb_agents = (case rn_agents row of None \<Rightarrow> 0 | Some n \<Rightarrow> n),
             rb_workspace_unreported = (case host of None \<Rightarrow> False | Some x \<Rightarrow> workspace_unreported x b)\<rparr>))
            (rn_bindings row),
          case host of None \<Rightarrow> False | Some x \<Rightarrow> subscription_unrostered x (rn_subscription row)))"

text \<open>The declaration entries left once withheld bindings are taken out.\<close>

definition open_entries :: "hub \<Rightarrow> runner_row \<Rightarrow> served_entry list" where
  "open_entries h row =
     (case rn_bindings row of
        None \<Rightarrow> rn_projects row
      | Some bs \<Rightarrow>
          filter (\<lambda>e. se_entry e \<in> bi_project ` set (filter (\<lambda>b. \<not> withheld h row b) bs)) (rn_projects row))"

definition names_entry :: "string list \<Rightarrow> served_entry \<Rightarrow> bool" where
  "names_entry wanted e \<longleftrightarrow>
     se_entry e \<in> set wanted \<or> (case se_project_id e of None \<Rightarrow> False | Some i \<Rightarrow> i \<in> set wanted)"

definition offered_project_ids :: "hub \<Rightarrow> runner_row \<Rightarrow> string list option \<Rightarrow> string set" where
  "offered_project_ids h row projects =
     (case projects of
        None \<Rightarrow> set (List.map_filter se_project_id (open_entries h row))
      | Some wanted \<Rightarrow>
          set (List.map_filter se_project_id (open_entries h row))
          \<inter> set (List.map_filter se_project_id (filter (names_entry wanted) (rn_projects row))))"

definition project_fields_of :: "hub \<Rightarrow> string \<Rightarrow> project_fields" where
  "project_fields_of h project_id =
     \<lparr>pf_project_id = project_id,
      pf_project_slug = map_option pj_slug (get_project h project_id),
      pf_project_name = map_option pj_name (get_project h project_id)\<rparr>"

definition unserved_detail :: "hub \<Rightarrow> string \<Rightarrow> string" where
  "unserved_detail h project_id =
     ''runner does not serve project '' @
     py_repr (case get_project h project_id of None \<Rightarrow> project_id | Some p \<Rightarrow> pj_slug p)"

section \<open>Tenants\<close>

definition found_first_tenant :: "hub \<Rightarrow> hub" where
  "found_first_tenant h =
     put_project \<lparr>pj_project_id = FIRST_PROJECT_ID, pj_tenant_id = FIRST_TENANT_ID,
                  pj_slug = DEFAULT_PROJECT_SLUG, pj_name = DEFAULT_PROJECT_NAME\<rparr>
       (put_tenant \<lparr>tn_tenant_id = FIRST_TENANT_ID, tn_name = FIRST_TENANT_NAME\<rparr> h)"

definition seed_tenant :: "env \<Rightarrow> string \<Rightarrow> string option \<Rightarrow> hub \<Rightarrow> tenant_row result" where
  "seed_tenant \<E> name tenant_id h =
     (case given_or_mint \<E> TENANT_PREFIX tenant_id h of
        (minted, h1) \<Rightarrow>
          if get_tenant h1 minted \<noteq> None then
            (Inl (ValueError (''tenant '' @ minted @ '' already exists'')), h1)
          else
            (let row = \<lparr>tn_tenant_id = minted, tn_name = name\<rparr>
             in case seed_project \<E> DEFAULT_PROJECT_SLUG DEFAULT_PROJECT_NAME minted None (put_tenant row h1) of
                  (Inl e, h2) \<Rightarrow> (Inl e, h2)
                | (Inr _, h2) \<Rightarrow> (Inr row, h2)))"

definition rename_tenant :: "string \<Rightarrow> string \<Rightarrow> hub \<Rightarrow> tenant_row result" where
  "rename_tenant tenant_id name h =
     (case tenant_of h tenant_id of
        Inl e \<Rightarrow> (Inl e, h)
      | Inr row \<Rightarrow> (let row' = row\<lparr>tn_name := name\<rparr> in (Inr row', put_tenant row' h)))"

definition tenant_named :: "hub \<Rightarrow> string option \<Rightarrow> hub_error + string" where
  "tenant_named h named =
     (if truthy named then map_sum id tn_tenant_id (tenant_of h (the named))
      else case list_tenants h of [t] \<Rightarrow> Inr (tn_tenant_id t) | _ \<Rightarrow> Inl TenantRequired)"

definition me :: "hub \<Rightarrow> string option \<Rightarrow> me_view" where
  "me h named =
     (let tenants = map (\<lambda>t. \<lparr>mt_tenant_id = tn_tenant_id t, mt_name = tn_name t, mt_role = ''admin''\<rparr>)
                      (sort_key tn_tenant_id (list_tenants h));
          resolved = (if truthy named then find (\<lambda>t. mt_tenant_id t = the named) tenants
                      else case tenants of [t] \<Rightarrow> Some t | _ \<Rightarrow> None)
      in \<lparr>me_user_id = ''operator'', me_username = ''operator'', me_display_name = ''operator'',
          me_role = map_option mt_role resolved,
          me_assignable_roles = [''pending'', ''guest'', ''contributor'', ''admin''],
          me_tenants = tenants, me_hub_admin = True\<rparr>)"

definition refuse_foreign_tenant :: "hub \<Rightarrow> string \<Rightarrow> string option \<Rightarrow> hub_error + unit" where
  "refuse_foreign_tenant h runner_id named =
     (if truthy named then
        (case added h runner_id of
           Inl e \<Rightarrow> Inl e
         | Inr row \<Rightarrow> if the named \<noteq> rn_tenant_id row then Inl ForeignTenantNamed else Inr ())
      else Inr ())"

section \<open>Seeding and reset\<close>

text \<open>The row a \<^verbatim>\<open>ChunkSpec\<close> is seeded as.\<close>

definition seeded_chunk :: "string \<Rightarrow> string \<Rightarrow> chunk_spec \<Rightarrow> chunk_state" where
  "seeded_chunk chunk_id project_id spec =
     \<lparr>cs_chunk_id = chunk_id, cs_project_id = project_id, cs_graph_id = sp_graph_id spec,
      cs_graph_name = sp_graph_name spec, cs_default_model = sp_default_model spec,
      cs_default_effort = sp_default_effort spec, cs_default_harnesses = sp_default_harnesses spec,
      cs_entry = sp_entry spec, cs_nodes = sp_nodes spec, cs_work_refs = sp_work_refs spec,
      cs_graph_artifacts = sp_graph_artifacts spec, cs_artifact_formats = sp_artifact_formats spec,
      cs_garden_run = sp_garden_run spec, cs_garden_findings = sp_garden_findings spec,
      cs_garden_answered_findings = sp_garden_answered_findings spec,
      cs_garden_proposals = sp_garden_proposals spec, cs_analytics = sp_analytics spec,
      cs_cost = sp_cost spec, cs_current_node_id = None, cs_status = sp_status spec,
      cs_status_before_pause = None, cs_latest_epoch = 0, cs_claimed = False,
      cs_route_runner_id = None, cs_route_workspace_id = None, cs_route_environment_ids = [],
      cs_route_token_rekey_count = 0, cs_live_route_token = None, cs_applied = [],
      cs_last_response = None, cs_escalation = None, cs_releases = []\<rparr>"

definition seed_chunk :: "env \<Rightarrow> chunk_spec \<Rightarrow> hub \<Rightarrow> chunk_state result" where
  "seed_chunk \<E> spec h =
     (if dget (sp_nodes spec) (sp_entry spec) = None then
        (Inl (ValueError (''entry node '' @ py_repr (sp_entry spec) @ '' is not in the node set'')), h)
      else
        (let chunk_id = str_or (sp_chunk_id spec) (''ch_'' @ take 24 (env_uuid_hex \<E>));
             project_id = str_or (sp_project_id spec) FIRST_PROJECT_ID
         in if get_project h project_id = None then (Inl (UnknownProjects [project_id]), h)
            else (let c = seeded_chunk chunk_id project_id spec in (Inr c, put_chunk c h))))"

definition reset :: "hub \<Rightarrow> hub" where
  "reset h = (found_first_tenant (store_clear h))\<lparr>
     hub_levers := clear_all (hub_levers h), hub_fact_high_water := [], hub_host_fact_high_water := [],
     hub_transcript_high_water := [], hub_epoch_owners := [], hub_transcript_owners := [],
     hub_transcript_chunk_bytes := [], hub_transcript_key_state := [], hub_transcript_rejected := [],
     hub_transcript_segments := []\<rparr>"

text \<open>A service at construction over an empty store.\<close>

definition empty_hub :: hub where
  "empty_hub = \<lparr>hub_tenants = [], hub_projects = [], hub_chunks = [], hub_runners = [],
     hub_tokens = [], hub_revoked_tokens = [], hub_hosts = [], hub_host_tokens = [],
     hub_revoked_host_tokens = [], hub_reported = [], hub_questions = [],
     hub_system_artifacts = [], hub_scopes = [], hub_levers = [], hub_rng_draws = 0,
     hub_fact_high_water = [], hub_host_fact_high_water = [], hub_transcript_high_water = [],
     hub_epoch_owners = [], hub_transcript_owners = [], hub_transcript_chunk_bytes = [],
     hub_transcript_key_state = [], hub_transcript_rejected = [], hub_transcript_segments = []\<rparr>"

definition initial_hub :: hub where
  "initial_hub = found_first_tenant empty_hub"

section \<open>The global vocabulary\<close>

definition seed_system_artifact :: "system_artifact_spec \<Rightarrow> hub \<Rightarrow> hub" where
  "seed_system_artifact spec h = put_system_artifact (sa_name spec) (sa_content spec) h"

definition system_artifacts :: "hub \<Rightarrow> system_artifact_spec list" where
  "system_artifacts h = map (\<lambda>(n, c). \<lparr>sa_name = n, sa_content = c\<rparr>) (list_system_artifacts h)"

definition system_artifact :: "hub \<Rightarrow> string \<Rightarrow> hub_error + system_artifact_spec" where
  "system_artifact h name =
     (case get_system_artifact h name of
        None \<Rightarrow> Inl (SystemArtifactNotFound (''no system artifact '' @ py_repr name))
      | Some c \<Rightarrow> Inr \<lparr>sa_name = name, sa_content = c\<rparr>)"

definition seed_scope :: "env \<Rightarrow> scope_spec \<Rightarrow> hub \<Rightarrow> hub" where
  "seed_scope \<E> spec h =
     put_scope \<lparr>so_slug = sc_slug spec, so_description = sc_description spec,
                so_created_at = str_or (sc_created_at spec) (isoformat (env_now \<E>)),
                so_retired = sc_retired spec\<rparr> h"

definition scopes :: "hub \<Rightarrow> string option \<Rightarrow> hub_error + scope_view list" where
  "scopes h chunk_id =
     (case (case chunk_id of None \<Rightarrow> Inr () | Some c \<Rightarrow> map_sum id (\<lambda>_. ()) (require h c)) of
        Inl e \<Rightarrow> Inl e
      | Inr _ \<Rightarrow>
          Inr (map (\<lambda>r. \<lparr>sw_slug = so_slug r, sw_description = so_description r,
                         sw_created_at = so_created_at r, sw_retired = so_retired r\<rparr>) (list_scopes h)))"

section \<open>Tenancy\<close>

text \<open>Every project stands in a tenant that exists, and no tenant holds a slug twice.\<close>

definition project_slot :: "project_row \<Rightarrow> string \<times> string" where
  "project_slot p = (pj_tenant_id p, pj_slug p)"

definition tenancy_ok :: "hub \<Rightarrow> bool" where
  "tenancy_ok h \<longleftrightarrow> tenants_ok h \<and> projects_ok h \<and>
     (\<forall>p \<in> set (list_projects h). get_tenant h (pj_tenant_id p) \<noteq> None) \<and>
     distinct (map project_slot (list_projects h))"

lemma tenancy_okD:
  "tenancy_ok h \<Longrightarrow> tenants_ok h" "tenancy_ok h \<Longrightarrow> projects_ok h"
  "tenancy_ok h \<Longrightarrow> p \<in> set (list_projects h) \<Longrightarrow> get_tenant h (pj_tenant_id p) \<noteq> None"
  "tenancy_ok h \<Longrightarrow> distinct (map project_slot (list_projects h))"
  unfolding tenancy_ok_def by blast+

lemma given_or_mint_frame:
  assumes "given_or_mint \<E> p g h = (i, h')"
  shows "hub_tenants h' = hub_tenants h" "hub_projects h' = hub_projects h"
  using assms by (auto simp: given_or_mint_def mint_id_def split: option.splits if_splits)

text \<open>The invariant reads the tenants and projects alone.\<close>

lemma tenancy_ok_frame:
  "hub_tenants h' = hub_tenants h \<Longrightarrow> hub_projects h' = hub_projects h \<Longrightarrow> tenancy_ok h' = tenancy_ok h"
  by (simp add: tenancy_ok_def table_defs)

lemma tenancy_ok_put_project:
  assumes "tenancy_ok h" and "get_project h (pj_project_id p) = None"
    and "get_tenant h (pj_tenant_id p) \<noteq> None"
    and "\<not> list_ex (\<lambda>q. pj_slug q = pj_slug p) (tenant_projects h (pj_tenant_id p))"
  shows "tenancy_ok (put_project p h)"
proof -
  have rows: "list_projects (put_project p h) = list_projects h @ [p]"
    using assms(2) by (simp add: table_defs dset_new)
  have tn: "get_tenant (put_project p h) = get_tenant h"
    by (rule ext) (simp add: table_defs)
  have "project_slot p \<notin> set (map project_slot (list_projects h))"
    using assms(4) by (auto simp: project_slot_def tenant_projects_def list_ex_iff)
  with assms tenancy_okD(4) [OF assms(1)] show ?thesis
    using project_table.ok_put [OF tenancy_okD(2) [OF assms(1)], of p]
    unfolding tenancy_ok_def rows tn by (auto simp: table_defs)
qed

lemma tenancy_ok_place_project:
  assumes "tenancy_ok h" "get_tenant h tenant_id \<noteq> None"
    "place_project minted tenant_id slug name h = (r, h')"
  shows "tenancy_ok h'"
  using assms
  by (auto simp: place_project_def Let_def tenancy_ok_put_project split: if_splits)

lemma tenant_of_Inr: "tenancy_ok h \<Longrightarrow> tenant_of h t = Inr row \<Longrightarrow> get_tenant h t = Some row \<and> tn_tenant_id row = t"
  by (auto simp: tenant_of_def split: option.splits dest: tenancy_okD(1) tenant_table.get_key)

lemma tenancy_ok_seed_project:
  assumes "tenancy_ok h" "seed_project \<E> slug name tenant_id project_id h = (r, h')"
  shows "tenancy_ok h'"
proof (cases "tenant_of h tenant_id")
  case (Inl e)
  with assms show ?thesis by (simp add: seed_project_def)
next
  case (Inr t)
  obtain minted h1 where m: "given_or_mint \<E> PROJECT_PREFIX project_id h = (minted, h1)"
    by fastforce
  note frame = given_or_mint_frame [OF m]
  have "get_tenant h1 (tn_tenant_id t) \<noteq> None"
    using tenant_of_Inr [OF assms(1) Inr] frame by (simp add: get_tenant_def)
  moreover have "tenancy_ok h1" using assms(1) tenancy_ok_frame [OF frame] by simp
  moreover have "place_project minted (tn_tenant_id t) slug name h1 = (r, h')"
    using assms(2) Inr m by (simp add: seed_project_def)
  ultimately show ?thesis using tenancy_ok_place_project by blast
qed

lemma tenancy_ok_put_tenant: "tenancy_ok h \<Longrightarrow> tenancy_ok (put_tenant t h)"
  using tenant_table.ok_put [of h t] unfolding tenancy_ok_def
  by (auto simp: tenant_table.get_put) (auto simp: table_defs)

lemma tenancy_ok_seed_tenant:
  assumes "tenancy_ok h" "seed_tenant \<E> name tenant_id h = (r, h')"
  shows "tenancy_ok h'"
proof -
  obtain minted h1 where m: "given_or_mint \<E> TENANT_PREFIX tenant_id h = (minted, h1)"
    by fastforce
  let ?row = "\<lparr>tn_tenant_id = minted, tn_name = name\<rparr>"
  obtain r2 h2 where s: "seed_project \<E> DEFAULT_PROJECT_SLUG DEFAULT_PROJECT_NAME minted None (put_tenant ?row h1) = (r2, h2)"
    by fastforce
  have ok: "tenancy_ok h1" using assms(1) tenancy_ok_frame [OF given_or_mint_frame [OF m]] by simp
  from tenancy_ok_seed_project [OF tenancy_ok_put_tenant [OF ok] s] ok assms(2) m s show ?thesis
    by (simp add: seed_tenant_def Let_def split: if_splits sum.splits)
qed

lemma tenancy_ok_rename_tenant:
  "tenancy_ok h \<Longrightarrow> rename_tenant t n h = (r, h') \<Longrightarrow> tenancy_ok h'"
  by (auto simp: rename_tenant_def Let_def tenancy_ok_put_tenant split: sum.splits)

lemma tenancy_ok_initial: "tenancy_ok initial_hub"
  by (simp add: tenancy_ok_def initial_hub_def found_first_tenant_def empty_hub_def table_defs
      keyed_def project_slot_def)

text \<open>A reset leaves the first boot's state, but for the generator and what runners reported.\<close>

lemma reset_initial:
  "reset h = initial_hub\<lparr>hub_reported := hub_reported h, hub_rng_draws := hub_rng_draws h\<rparr>"
  by (simp add: reset_def initial_hub_def found_first_tenant_def empty_hub_def store_clear_def
      clear_all_def table_defs)

section \<open>Resolution stays in the tenant\<close>

lemma resolve_project_sound:
  assumes "projects_ok h" "resolve_project h t v = Some p"
  shows "pj_tenant_id p = t \<and> get_project h (pj_project_id p) = Some p"
proof (cases "starts_with (PROJECT_PREFIX @ ''_'') v")
  case True
  with assms show ?thesis
    by (auto simp: resolve_project_def split: option.splits if_splits dest: project_table.get_key)
next
  case False
  with assms have "p \<in> set (tenant_projects h t)"
    by (auto simp: resolve_project_def find_Some_iff)
  with assms show ?thesis
    using project_table.rows_get by (auto simp: tenant_projects_def)
qed

lemma find_filter_snoc:
  "\<not> list_ex P (filter Q xs) \<Longrightarrow> P x \<Longrightarrow> Q x \<Longrightarrow> find P (filter Q (xs @ [x])) = Some x"
  by (induction xs) (auto split: if_splits)

lemma resolve_placed_project:
  assumes "place_project minted t slug name h = (Inr row, h')"
    and "\<not> starts_with (PROJECT_PREFIX @ ''_'') slug"
  shows "resolve_project h' t slug = Some row"
proof -
  from assms(1) have row: "row = \<lparr>pj_project_id = minted, pj_tenant_id = t, pj_slug = slug, pj_name = name\<rparr>"
    and free: "get_project h minted = None" "\<not> list_ex (\<lambda>p. pj_slug p = slug) (tenant_projects h t)"
    and h': "h' = put_project row h"
    by (auto simp: place_project_def Let_def split: if_splits)
  have "list_projects h' = list_projects h @ [row]"
    using free(1) by (simp add: h' row table_defs dset_new)
  with free(2) assms(2) show ?thesis
    unfolding resolve_project_def tenant_projects_def
    using find_filter_snoc [of "\<lambda>p. pj_slug p = slug" "\<lambda>p. pj_tenant_id p = t" "list_projects h" row]
    by (simp add: row)
qed

lemma declared_in_tenant:
  assumes "projects_ok h" "e \<in> set (declared h t entries)" "se_project_id e = Some i"
  shows "\<exists>p. get_project h i = Some p \<and> pj_tenant_id p = t"
  using assms resolve_project_sound [OF assms(1)] by (fastforce simp: declared_def)

lemma set_map_filter_conv: "x \<in> set (List.map_filter f xs) \<longleftrightarrow> (\<exists>y \<in> set xs. f y = Some x)"
  by (force simp: List.map_filter_def)

lemma open_entries_subset: "set (open_entries h row) \<subseteq> set (rn_projects row)"
  by (auto simp: open_entries_def split: option.splits)

lemma offered_served: "offered_project_ids h row projects \<subseteq> served_project_ids row"
  using open_entries_subset [of h row] unfolding subset_iff
  by (auto simp: offered_project_ids_def served_project_ids_def set_map_filter_conv split: option.splits; blast)

end
