(* ===== verification/Hub_Reads.thy ===== *)
theory Hub_Reads
  imports Hub_Projects
begin

text \<open>
  The chunk-scoped reads of \<^verbatim>\<open>MockHubService\<close>
  (\<^verbatim>\<open>src/blizzard_mock/mock_hub/domain/service.py\<close>): the node envelope, the chunk's detail and
  status views, work items, and the garden and analytics reads of a routine run. A read that
  consumes a lever returns the hub with the lever taken. The lemmas show that no read changes
  anything but levers, that a runner never reads another tenant's chunk, and that following the
  page cursors of the proposal docket yields exactly the docket.
\<close>

section \<open>Levers at the service\<close>

definition find_armed :: "string \<Rightarrow> string \<Rightarrow> hub \<Rightarrow> lever option" where
  "find_armed kind chunk_id h = find_lever kind (Some chunk_id) (hub_levers h)"

definition consume_armed :: "lever \<Rightarrow> hub \<Rightarrow> hub" where
  "consume_armed l h = h\<lparr>hub_levers := consume l (hub_levers h)\<rparr>"

text \<open>\<^verbatim>\<open>_consult_chunk_unknown\<close> and \<^verbatim>\<open>_check_pinned_graph\<close>: consume the lever, then raise.\<close>

definition consult_chunk_unknown :: "string \<Rightarrow> hub \<Rightarrow> unit result" where
  "consult_chunk_unknown chunk_id h =
     (case find_armed CHUNK_UNKNOWN chunk_id h of
        None \<Rightarrow> (Inr (), h)
      | Some l \<Rightarrow> (Inl (ChunkNotFound (''unknown chunk '' @ chunk_id)), consume_armed l h))"

definition check_pinned_graph :: "string \<Rightarrow> hub \<Rightarrow> unit result" where
  "check_pinned_graph chunk_id h =
     (case find_armed PINNED_GRAPH_MISSING chunk_id h of
        None \<Rightarrow> (Inr (), h)
      | Some l \<Rightarrow> (Inl PinnedGraphMissing, consume_armed l h))"

section \<open>Envelopes\<close>

definition work_ref_label :: "work_ref \<Rightarrow> string" where
  "work_ref_label r =
     (if wr_source r = RESERVED_HUB_SOURCE_NAME then ''hub:'' @ wr_ref r else wr_source r @ ''#'' @ wr_ref r)"

definition node_config_of :: "string \<Rightarrow> node_spec \<Rightarrow> node_config" where
  "node_config_of node_id node =
     \<lparr>nc_node_id = node_id, nc_node_name = node_id, nc_executor = nd_executor node,
      nc_session = nd_session node, nc_session_source = nd_session_source node,
      nc_session_name = nd_session_name node, nc_session_model = nd_session_model node,
      nc_session_effort = nd_session_effort node, nc_session_harnesses = nd_session_harnesses node,
      nc_session_compaction_window = nd_session_compaction_window node,
      nc_session_rotate = nd_session_rotate node, nc_judged_by = nd_judged_by node,
      nc_checks = nd_checks node, nc_checks_cwd = nd_checks_cwd node,
      nc_checks_timeout = nd_checks_timeout node, nc_produces = nd_produces node,
      nc_retries_max = nd_retries_max node,
      nc_choices = map (\<lambda>c. \<lparr>ec_name = ch_name c, ec_description = ch_description c,
                              ec_requires_checks = ch_requires_checks c\<rparr>) (nd_choices node)\<rparr>"

definition envelope_of :: "chunk_state \<Rightarrow> string \<Rightarrow> int \<Rightarrow> hub_error + node_envelope" where
  "envelope_of chunk node_id epoch =
     (case cs_node chunk node_id of
        None \<Rightarrow> Inl (ChunkNotFound (''node '' @ py_repr node_id @ '' missing from chunk '' @ cs_chunk_id chunk))
      | Some node \<Rightarrow>
          Inr \<lparr>ne_chunk_id = cs_chunk_id chunk, ne_graph_id = cs_graph_id chunk,
               ne_graph_name = cs_graph_name chunk, ne_epoch = epoch,
               ne_node = node_config_of node_id node, ne_prompt = nd_prompt node,
               ne_judgement_prompt = nd_judgement_prompt node,
               ne_work_refs = map (\<lambda>r. \<lparr>lr_source = wr_source r, lr_ref = wr_ref r,
                                        lr_label = work_ref_label r\<rparr>) (cs_work_refs chunk),
               ne_graph_artifacts = cs_graph_artifacts chunk\<rparr>)"

text \<open>\<^verbatim>\<open>chunk.current_node_id or chunk.entry\<close>\<close>

definition at_node :: "chunk_state \<Rightarrow> string" where
  "at_node chunk = str_or (cs_current_node_id chunk) (cs_entry chunk)"

text \<open>The epoch an envelope read carries: the \<^verbatim>\<open>stale_envelope\<close> lever sets it one back.\<close>

definition stale_epoch :: "chunk_state \<Rightarrow> string \<Rightarrow> hub \<Rightarrow> int \<times> hub" where
  "stale_epoch chunk chunk_id h =
     (case find_armed STALE_ENVELOPE chunk_id h of
        None \<Rightarrow> (cs_latest_epoch chunk, h)
      | Some l \<Rightarrow> (max (cs_latest_epoch chunk - 1) 0, consume_armed l h))"

definition envelope :: "string \<Rightarrow> hub \<Rightarrow> node_envelope result" where
  "envelope chunk_id h =
     (case consult_chunk_unknown chunk_id h of
        (Inl e, h1) \<Rightarrow> (Inl e, h1)
      | (Inr _, h1) \<Rightarrow>
     (case require h1 chunk_id of
        Inl e \<Rightarrow> (Inl e, h1)
      | Inr chunk \<Rightarrow>
     (case check_pinned_graph chunk_id h1 of
        (Inl e, h2) \<Rightarrow> (Inl e, h2)
      | (Inr _, h2) \<Rightarrow>
     (case refuse_envelope chunk of
        Inl e \<Rightarrow> (Inl e, h2)
      | Inr _ \<Rightarrow>
     (case stale_epoch chunk chunk_id h2 of
        (epoch, h3) \<Rightarrow> (envelope_of chunk (at_node chunk) epoch, h3))))))"

section \<open>Names and the tenant wall\<close>

definition runner_name_of :: "hub \<Rightarrow> string option \<Rightarrow> string option" where
  "runner_name_of h runner_id =
     (if truthy runner_id then map_option rn_name (get_runner h (the runner_id)) else None)"

definition question_view_of :: "hub \<Rightarrow> question_state \<Rightarrow> question_view" where
  "question_view_of h q =
     \<lparr>qv_question = q, qv_runner_name = runner_name_of h (Some (qs_runner_id q)),
      qv_project = map_option (\<lambda>c. project_fields_of h (cs_project_id c)) (get_chunk h (qs_chunk_id q))\<rparr>"

definition require_runner_chunk :: "hub \<Rightarrow> string \<Rightarrow> string \<Rightarrow> hub_error + chunk_state" where
  "require_runner_chunk h chunk_id runner_id =
     (case require h chunk_id of
        Inl e \<Rightarrow> Inl e
      | Inr chunk \<Rightarrow>
          (case get_project h (cs_project_id chunk) of
             None \<Rightarrow> Inl (ChunkNotFound (''unknown chunk '' @ chunk_id))
           | Some p \<Rightarrow>
               (case added h runner_id of
                  Inl e \<Rightarrow> Inl e
                | Inr row \<Rightarrow>
                    if pj_tenant_id p \<noteq> rn_tenant_id row
                    then Inl (ChunkNotFound (''unknown chunk '' @ chunk_id))
                    else Inr chunk)))"

definition refuse_foreign_runner_chunk :: "hub \<Rightarrow> string \<Rightarrow> string \<Rightarrow> hub_error + unit" where
  "refuse_foreign_runner_chunk h chunk_id runner_id =
     (if get_chunk h chunk_id \<noteq> None
      then map_sum id (\<lambda>_. ()) (require_runner_chunk h chunk_id runner_id) else Inr ())"

section \<open>Chunk views\<close>

definition OTHER_RUNNER_ID :: string where "OTHER_RUNNER_ID = ''rn_00000000000000000000000000''"

text \<open>The runner id a read of a claimed chunk's route shows: the row's, unless the
  \<^verbatim>\<open>conflicting_fact\<close> lever is armed, which is consumed.\<close>

definition shown_route_runner :: "chunk_state \<Rightarrow> string \<Rightarrow> 'a \<Rightarrow> (string \<Rightarrow> 'a) \<Rightarrow> hub \<Rightarrow> 'a \<times> hub" where
  "shown_route_runner chunk chunk_id own other h =
     (case find_armed CONFLICTING_FACT chunk_id h of
        None \<Rightarrow> (own, h)
      | Some l \<Rightarrow> (other (get_str (lv_payload l) ''runner_id'' OTHER_RUNNER_ID), consume_armed l h))"

definition route_of :: "chunk_state \<Rightarrow> string \<Rightarrow> hub \<Rightarrow> route_view option \<times> hub" where
  "route_of chunk chunk_id h =
     (if cs_claimed chunk then
        (case shown_route_runner chunk chunk_id (str_or (cs_route_runner_id chunk) []) id h of
           (runner_id, h') \<Rightarrow>
             (Some \<lparr>rv_runner_id = runner_id, rv_runner_name = runner_name_of h' (Some runner_id),
                    rv_workspace_id = str_or (cs_route_workspace_id chunk) [],
                    rv_environment_ids = cs_route_environment_ids chunk\<rparr>, h'))
      else (None, h))"

definition epoch_or_none :: "int \<Rightarrow> int option" where
  "epoch_or_none e = (if e = 0 then None else Some e)"

definition detail_view :: "hub \<Rightarrow> chunk_state \<Rightarrow> string \<Rightarrow> route_view option \<Rightarrow> chunk_detail" where
  "detail_view h chunk chunk_id route =
     \<lparr>cd_chunk_id = cs_chunk_id chunk, cd_graph_id = cs_graph_id chunk,
      cd_status = status_value (cs_status chunk), cd_current_node_id = cs_current_node_id chunk,
      cd_latest_epoch = epoch_or_none (cs_latest_epoch chunk), cd_work_refs = cs_work_refs chunk,
      cd_default_model = cs_default_model chunk, cd_default_effort = cs_default_effort chunk,
      cd_default_harnesses = cs_default_harnesses chunk, cd_route = route,
      cd_pausable = (cs_status chunk \<in> PAUSABLE_STATUSES),
      cd_status_if_paused = status_value (status_if_paused (cs_status chunk)),
      cd_completable = (cs_status chunk \<noteq> ST_DONE),
      cd_deletable = (cs_status chunk \<in> PRE_CLAIM_STATUSES),
      cd_delete_refusal = (if cs_status chunk \<in> PRE_CLAIM_STATUSES then None else Some REFUSED_STATUS),
      cd_promotable = (cs_status chunk = ST_NOT_READY),
      cd_graph_editable = (cs_status chunk \<in> PRE_CLAIM_STATUSES \<and> cs_current_node_id chunk = None),
      cd_terminal = (cs_status chunk \<in> TERMINAL_STATUSES),
      cd_current_node_terminal = (cs_current_node_id chunk = Some TERMINAL),
      cd_escalation = cs_escalation chunk,
      cd_questions = map (question_view_of h) (filter (\<lambda>q. qs_chunk_id q = chunk_id) (list_questions h)),
      cd_project = project_fields_of h (cs_project_id chunk)\<rparr>"

definition chunk_detail_read :: "string \<Rightarrow> string \<Rightarrow> hub \<Rightarrow> chunk_detail result" where
  "chunk_detail_read chunk_id runner_id h =
     (case require_runner_chunk h chunk_id runner_id of
        Inl e \<Rightarrow> (Inl e, h)
      | Inr chunk \<Rightarrow>
     (case consult_chunk_unknown chunk_id h of
        (Inl e, h1) \<Rightarrow> (Inl e, h1)
      | (Inr _, h1) \<Rightarrow>
     (case route_of chunk chunk_id h1 of
        (route, h2) \<Rightarrow> (Inr (detail_view h2 chunk chunk_id route), h2))))"

definition chunk_summary_of :: "hub \<Rightarrow> chunk_state \<Rightarrow> chunk_summary" where
  "chunk_summary_of h chunk =
     (let live = (cs_claimed chunk \<and> \<not> ended chunk)
      in \<lparr>su_chunk_id = cs_chunk_id chunk, su_graph_id = cs_graph_id chunk,
          su_graph_name = cs_graph_name chunk, su_status = status_value (cs_status chunk),
          su_terminal = (cs_status chunk \<in> TERMINAL_STATUSES),
          su_promotable = (cs_status chunk = ST_NOT_READY),
          su_current_node_id = cs_current_node_id chunk, su_work_refs = cs_work_refs chunk,
          su_default_model = cs_default_model chunk, su_default_effort = cs_default_effort chunk,
          su_default_harnesses = cs_default_harnesses chunk,
          su_runner_id = (if live then cs_route_runner_id chunk else None),
          su_runner_name = (if cs_claimed chunk \<and> truthy (cs_route_runner_id chunk)
                            then runner_name_of h (cs_route_runner_id chunk) else None),
          su_workspace_id = (if live then cs_route_workspace_id chunk else None),
          su_environment_count = (if live then length (cs_route_environment_ids chunk) else 0),
          su_project = project_fields_of h (cs_project_id chunk)\<rparr>)"

text \<open>The counts of the fleet summary: ready, running, waiting, needs.\<close>

definition in_projects :: "hub \<Rightarrow> string \<Rightarrow> chunk_state list" where
  "in_projects h tenant_id =
     filter (\<lambda>c. cs_project_id c \<in> pj_project_id ` set (tenant_projects h tenant_id)) (list_chunks h)"

definition count_status :: "chunk_status set \<Rightarrow> chunk_state list \<Rightarrow> nat" where
  "count_status S cs = length (filter (\<lambda>c. cs_status c \<in> S) cs)"

definition fleet_summary :: "hub \<Rightarrow> string \<Rightarrow> hub_error + (string, nat) dict" where
  "fleet_summary h runner_id =
     (case added h runner_id of
        Inl e \<Rightarrow> Inl e
      | Inr row \<Rightarrow>
          (let cs = in_projects h (rn_tenant_id row)
           in Inr [(''ready'', count_status {ST_READY} cs),
                   (''running'', count_status {ST_RUNNING, ST_DELIVERING} cs),
                   (''waiting'', count_status {ST_PAUSED} cs),
                   (''needs'', count_status {ST_NEEDS_HUMAN} cs)]))"

definition status_view :: "hub \<Rightarrow> chunk_state \<Rightarrow> string option \<Rightarrow> chunk_status_view" where
  "status_view h chunk route_runner_id =
     \<lparr>sv_chunk_id = cs_chunk_id chunk, sv_status = status_value (cs_status chunk),
      sv_route_runner_id = route_runner_id, sv_latest_epoch = epoch_or_none (cs_latest_epoch chunk),
      sv_cost = (case cs_cost chunk of None \<Rightarrow> zero_cost | Some c \<Rightarrow> c),
      sv_project = project_fields_of h (cs_project_id chunk)\<rparr>"

text \<open>One id of the batch: \<open>None\<close> is an omission.\<close>

definition one_chunk_status :: "string \<Rightarrow> string \<Rightarrow> hub \<Rightarrow> chunk_status_view option result" where
  "one_chunk_status runner_id chunk_id h =
     (case get_chunk h chunk_id of
        None \<Rightarrow> (Inr None, h)
      | Some chunk \<Rightarrow>
     (case get_project h (cs_project_id chunk) of
        None \<Rightarrow> (Inr None, h)
      | Some p \<Rightarrow>
     (case added h runner_id of
        Inl e \<Rightarrow> (Inl e, h)
      | Inr row \<Rightarrow>
          if pj_tenant_id p \<noteq> rn_tenant_id row then (Inr None, h)
          else
     (case find_armed CHUNK_UNKNOWN chunk_id h of
        Some l \<Rightarrow> (Inr None, consume_armed l h)
      | None \<Rightarrow>
          if cs_claimed chunk then
            (case shown_route_runner chunk chunk_id (cs_route_runner_id chunk) Some h of
               (rid, h') \<Rightarrow> (Inr (Some (status_view h' chunk rid)), h'))
          else (Inr (Some (status_view h chunk None)), h)))))"

fun statuses_loop :: "string \<Rightarrow> string list \<Rightarrow> chunk_status_view list \<Rightarrow> hub \<Rightarrow> chunk_status_view list result" where
  "statuses_loop runner_id [] views h = (Inr views, h)"
| "statuses_loop runner_id (c # cs) views h =
     (case one_chunk_status runner_id c h of
        (Inl e, h') \<Rightarrow> (Inl e, h')
      | (Inr None, h') \<Rightarrow> statuses_loop runner_id cs views h'
      | (Inr (Some v), h') \<Rightarrow> statuses_loop runner_id cs (views @ [v]) h')"

definition chunk_statuses :: "string list \<Rightarrow> string \<Rightarrow> hub \<Rightarrow> chunk_status_view list result" where
  "chunk_statuses chunk_ids runner_id h = statuses_loop runner_id (dedup chunk_ids) [] h"

definition work_items :: "env \<Rightarrow> hub \<Rightarrow> string \<Rightarrow> hub_error + work_item_entry list" where
  "work_items \<E> h chunk_id =
     (case require h chunk_id of
        Inl e \<Rightarrow> Inl e
      | Inr chunk \<Rightarrow>
          Inr (map (\<lambda>p. \<lparr>wi_source = wr_source p, wi_ref = wr_ref p,
                         wi_hub_source = (wr_source p = RESERVED_HUB_SOURCE_NAME),
                         wi_fetched_at = isoformat (env_now \<E>),
                         wi_title = ''mock item '' @ wr_source p @ ''#'' @ wr_ref p\<rparr>) (cs_work_refs chunk)))"

section \<open>Garden and analytics reads\<close>

definition finding_view_of :: "'a garden_finding_scheme \<Rightarrow> string \<Rightarrow> string \<Rightarrow> project_fields \<Rightarrow> finding_view" where
  "finding_view_of f routine_name scope_slug project =
     \<lparr>fv_finding_id = gf_finding_id f, fv_routine_name = routine_name, fv_scope_slug = scope_slug,
      fv_class = gf_class f, fv_locus = gf_locus f, fv_summary = gf_summary f,
      fv_introduced = gf_introduced f, fv_introduced_at = gf_introduced_at f,
      fv_first_observed_at = gf_first_observed_at f, fv_live = gf_live f, fv_state = gf_state f,
      fv_note = gf_note f, fv_last_seen_at = gf_last_seen_at f,
      fv_observed_count = gf_observed_count f, fv_exit = finding_exit (gf_state f),
      fv_project = project\<rparr>"

definition closure_view :: "string \<Rightarrow> proposal_closure_spec \<Rightarrow> proposal_closure_view" where
  "closure_view now c =
     \<lparr>pv_closure = pc_closure c, pv_reason = pc_reason c, pv_closed_by = pc_closed_by c,
      pv_closed_at = str_or (pc_closed_at c) now, pv_item_outcome = pc_item_outcome c,
      pv_source = pc_source c, pv_ref = pc_ref c\<rparr>"

definition proposal_view :: "garden_proposal_spec \<Rightarrow> string \<Rightarrow> string \<Rightarrow> project_fields \<Rightarrow> garden_proposal_view" where
  "proposal_view p routine_name now project =
     \<lparr>gw_proposal_id = gp_proposal_id p, gw_origin = PO_ROUTINE_RUN, gw_routine_name = routine_name,
      gw_created_by = None, gw_class = gp_class p, gw_title = gp_title p, gw_body = gp_body p,
      gw_findings = gp_findings p, gw_created_at = str_or (gp_created_at p) now,
      gw_closure = map_option (closure_view now) (gp_closure p), gw_project = project\<rparr>"

definition garden_run_or_404 :: "hub \<Rightarrow> string \<Rightarrow> hub_error + (chunk_state \<times> garden_run_spec)" where
  "garden_run_or_404 h chunk_id =
     (case require h chunk_id of
        Inl e \<Rightarrow> Inl e
      | Inr chunk \<Rightarrow>
          (case cs_garden_run chunk of
             None \<Rightarrow> Inl (NoRunContext (''chunk '' @ chunk_id @ '' carries no run context '' @ em_dash @ '' not a routine run''))
           | Some run \<Rightarrow> Inr (chunk, run)))"

definition garden_findings :: "hub \<Rightarrow> string \<Rightarrow> hub_error + finding_view list" where
  "garden_findings h chunk_id =
     map_sum id (\<lambda>(chunk, run). map (\<lambda>f. finding_view_of f (gr_routine_name run) (gr_scope_slug run)
         (project_fields_of h (cs_project_id chunk))) (filter gf_live (cs_garden_findings chunk)))
       (garden_run_or_404 h chunk_id)"

definition in_proposal_state :: "routine_proposal_state \<Rightarrow> garden_proposal_spec \<Rightarrow> bool" where
  "in_proposal_state state p =
     (case state of RP_OPEN \<Rightarrow> gp_closure p = None | RP_CLOSED \<Rightarrow> gp_closure p \<noteq> None | RP_ALL \<Rightarrow> True)"

definition garden_proposals :: "env \<Rightarrow> hub \<Rightarrow> string \<Rightarrow> routine_proposal_state \<Rightarrow> hub_error + garden_proposal_view list" where
  "garden_proposals \<E> h chunk_id state =
     map_sum id (\<lambda>(chunk, run). map (\<lambda>p. proposal_view p (gr_routine_name run) (isoformat (env_now \<E>))
         (project_fields_of h (cs_project_id chunk))) (filter (in_proposal_state state) (cs_garden_proposals chunk)))
       (garden_run_or_404 h chunk_id)"

text \<open>The offset a cursor names; \<open>None\<close> for one this hub did not issue.\<close>

definition cursor_offset :: "string option \<Rightarrow> nat option" where
  "cursor_offset cursor =
     (case cursor of
        None \<Rightarrow> Some 0
      | Some c \<Rightarrow>
          if starts_with ''o:'' c then
            (case int_of_text (drop 2 c) of
               None \<Rightarrow> None
             | Some i \<Rightarrow> if i < 0 then None else Some (nat i))
          else None)"

definition page_of :: "garden_proposal_view list \<Rightarrow> nat \<Rightarrow> nat \<Rightarrow> garden_proposals_page" where
  "page_of docket offset limit =
     \<lparr>pg_proposals = take limit (drop offset docket),
      pg_next_cursor = (if offset + limit < length docket
                        then Some (''o:'' @ show_nat (offset + limit)) else None)\<rparr>"

definition garden_proposals_page_read ::
  "env \<Rightarrow> hub \<Rightarrow> string \<Rightarrow> routine_proposal_state \<Rightarrow> string option \<Rightarrow> nat \<Rightarrow> hub_error + garden_proposals_page" where
  "garden_proposals_page_read \<E> h chunk_id state cursor limit =
     (case garden_proposals \<E> h chunk_id state of
        Inl e \<Rightarrow> Inl e
      | Inr docket \<Rightarrow>
          (case cursor_offset cursor of
             None \<Rightarrow> Inl (MalformedCursor (the cursor))
           | Some offset \<Rightarrow> Inr (page_of docket offset limit)))"

text \<open>The six analytics reads serve one seeded list each.\<close>

definition analytics_read :: "(analytics_spec \<Rightarrow> 'a list) \<Rightarrow> hub \<Rightarrow> string \<Rightarrow> hub_error + 'a list" where
  "analytics_read sel h chunk_id =
     map_sum id (\<lambda>(chunk, run). sel (cs_analytics chunk)) (garden_run_or_404 h chunk_id)"

definition analytics_counts_files :: "hub \<Rightarrow> string \<Rightarrow> hub_error + analytics_count list" where
  "analytics_counts_files = analytics_read as_counts_files"

definition analytics_counts_skills :: "hub \<Rightarrow> string \<Rightarrow> hub_error + analytics_count list" where
  "analytics_counts_skills = analytics_read as_counts_skills"

definition analytics_counts_agent_types :: "hub \<Rightarrow> string \<Rightarrow> hub_error + analytics_count list" where
  "analytics_counts_agent_types = analytics_read as_counts_agent_types"

definition analytics_counts_nodes :: "hub \<Rightarrow> string \<Rightarrow> hub_error + analytics_count list" where
  "analytics_counts_nodes = analytics_read as_counts_nodes"

definition analytics_spend_nodes :: "hub \<Rightarrow> string \<Rightarrow> hub_error + analytics_spend list" where
  "analytics_spend_nodes = analytics_read as_spend_nodes"

definition analytics_spend_graphs :: "hub \<Rightarrow> string \<Rightarrow> hub_error + analytics_spend list" where
  "analytics_spend_graphs = analytics_read as_spend_graphs"

definition answered_findings :: "hub \<Rightarrow> string \<Rightarrow> hub_error + finding_view list" where
  "answered_findings h chunk_id =
     (case require h chunk_id of
        Inl e \<Rightarrow> Inl e
      | Inr chunk \<Rightarrow>
          (case cs_garden_answered_findings chunk of
             None \<Rightarrow> Inl (NoAnsweredProposal (''chunk '' @ chunk_id @ '' answers no accepted, minted garden proposal''))
           | Some fs \<Rightarrow>
               Inr (map (\<lambda>f. finding_view_of f (gf_routine_name f) (gf_scope_slug f)
                      (project_fields_of h (cs_project_id chunk))) fs)))"

definition answered_finding :: "hub \<Rightarrow> string \<Rightarrow> string \<Rightarrow> hub_error + finding_view" where
  "answered_finding h chunk_id finding_id =
     (case answered_findings h chunk_id of
        Inl e \<Rightarrow> Inl e
      | Inr views \<Rightarrow>
          (case find (\<lambda>v. fv_finding_id v = finding_id) views of
             None \<Rightarrow> Inl (FindingNotInAnsweredSet
                       (''finding '' @ finding_id @ '' is not among the findings chunk '' @ chunk_id @ '' answers''))
           | Some v \<Rightarrow> Inr v))"

section \<open>Reads change levers alone\<close>

definition levers_only :: "hub \<Rightarrow> hub \<Rightarrow> bool" where
  "levers_only h h' \<longleftrightarrow>
     (\<exists>l. h' = h\<lparr>hub_levers := l\<rparr> \<and> (levers_ok (hub_levers h) \<longrightarrow> levers_ok l))"

lemma levers_only_refl [simp]: "levers_only h h"
  unfolding levers_only_def by (rule exI [of _ "hub_levers h"]) simp

lemma levers_only_consume [simp]: "levers_only h (consume_armed l h)"
  unfolding levers_only_def consume_armed_def by (auto intro: levers_ok_consume)

lemma levers_only_trans: "levers_only h h1 \<Longrightarrow> levers_only h1 h2 \<Longrightarrow> levers_only h h2"
  unfolding levers_only_def by auto

lemma consult_levers_only: "consult_chunk_unknown c h = (r, h') \<Longrightarrow> levers_only h h'"
  by (auto simp: consult_chunk_unknown_def split: option.splits)

lemma pinned_levers_only: "check_pinned_graph c h = (r, h') \<Longrightarrow> levers_only h h'"
  by (auto simp: check_pinned_graph_def split: option.splits)

lemma stale_levers_only: "stale_epoch ch c h = (r, h') \<Longrightarrow> levers_only h h'"
  by (auto simp: stale_epoch_def split: option.splits)

lemma shown_levers_only: "shown_route_runner ch c a b h = (r, h') \<Longrightarrow> levers_only h h'"
  by (auto simp: shown_route_runner_def split: option.splits)

lemma envelope_levers_only: "envelope c h = (r, h') \<Longrightarrow> levers_only h h'"
  by (auto simp: envelope_def split: prod.splits sum.splits
      dest!: consult_levers_only pinned_levers_only stale_levers_only intro: levers_only_trans)

lemma route_levers_only: "route_of ch c h = (r, h') \<Longrightarrow> levers_only h h'"
  by (auto simp: route_of_def split: if_splits prod.splits dest: shown_levers_only)

lemma detail_levers_only: "chunk_detail_read c rid h = (r, h') \<Longrightarrow> levers_only h h'"
  by (auto simp: chunk_detail_read_def split: prod.splits sum.splits
      dest!: consult_levers_only route_levers_only intro: levers_only_trans)

lemma one_status_levers_only: "one_chunk_status rid c h = (r, h') \<Longrightarrow> levers_only h h'"
  by (auto simp: one_chunk_status_def split: option.splits prod.splits sum.splits if_splits
      dest!: shown_levers_only)

lemma statuses_levers_only: "statuses_loop rid cs vs h = (r, h') \<Longrightarrow> levers_only h h'"
proof (induction rid cs vs h rule: statuses_loop.induct)
  case (2 rid c cs vs h)
  then show ?case
    by (auto split: prod.splits sum.splits option.splits dest!: one_status_levers_only intro: levers_only_trans)
qed simp

text \<open>Whatever reads the rows alone is the same after a read.\<close>

lemma levers_only_rows:
  assumes "levers_only h h'"
  shows "get_chunk h' = get_chunk h" "get_project h' = get_project h" "get_runner h' = get_runner h"
    "get_host h' = get_host h" "get_question h' = get_question h" "list_chunks h' = list_chunks h"
    "hub_chunks h' = hub_chunks h" "hub_runners h' = hub_runners h" "hub_projects h' = hub_projects h"
proof -
  obtain l where "h' = h\<lparr>hub_levers := l\<rparr>" using assms by (auto simp: levers_only_def)
  then show "get_chunk h' = get_chunk h" "get_project h' = get_project h" "get_runner h' = get_runner h"
    "get_host h' = get_host h" "get_question h' = get_question h" "list_chunks h' = list_chunks h"
    "hub_chunks h' = hub_chunks h" "hub_runners h' = hub_runners h" "hub_projects h' = hub_projects h"
    by (auto simp: table_defs fun_eq_iff)
qed

section \<open>The tenant wall\<close>

text \<open>The chunk's project stands in the runner's tenant.\<close>

definition same_tenant :: "hub \<Rightarrow> string \<Rightarrow> chunk_state \<Rightarrow> bool" where
  "same_tenant h runner_id chunk =
     (case (get_project h (cs_project_id chunk), get_runner h runner_id) of
        (Some p, Some row) \<Rightarrow> pj_tenant_id p = rn_tenant_id row
      | _ \<Rightarrow> False)"

lemma require_runner_chunk_Inr:
  "require_runner_chunk h c rid = Inr chunk \<longleftrightarrow> get_chunk h c = Some chunk \<and> same_tenant h rid chunk"
  by (auto simp: require_runner_chunk_def require_def added_def same_tenant_def split: option.splits)

lemma detail_same_tenant:
  assumes "chunk_detail_read c rid h = (Inr d, h')"
  shows "\<exists>chunk. get_chunk h c = Some chunk \<and> same_tenant h rid chunk \<and> cd_chunk_id d = cs_chunk_id chunk"
  using assms
  by (auto simp: chunk_detail_read_def detail_view_def require_runner_chunk_Inr split: prod.splits sum.splits)

lemma one_status_same_tenant:
  assumes "one_chunk_status rid c h = (Inr (Some v), h')"
  shows "\<exists>chunk. get_chunk h c = Some chunk \<and> same_tenant h rid chunk \<and> sv_chunk_id v = cs_chunk_id chunk"
  using assms
  by (auto simp: one_chunk_status_def status_view_def same_tenant_def added_def
      split: option.splits prod.splits sum.splits if_splits)

lemma statuses_same_tenant:
  assumes "statuses_loop rid cs vs h = (Inr views, h')"
    and "\<forall>v \<in> set vs. \<exists>c chunk. get_chunk h c = Some chunk \<and> same_tenant h rid chunk \<and> sv_chunk_id v = cs_chunk_id chunk"
  shows "\<forall>v \<in> set views. \<exists>c chunk. get_chunk h c = Some chunk \<and> same_tenant h rid chunk \<and> sv_chunk_id v = cs_chunk_id chunk"
  using assms
proof (induction rid cs vs h rule: statuses_loop.induct)
  case (2 rid c cs vs h)
  obtain r h1 where one: "one_chunk_status rid c h = (r, h1)" by fastforce
  note rows = levers_only_rows [OF one_status_levers_only [OF one]]
  have same: "same_tenant h1 = same_tenant h" by (simp add: same_tenant_def rows fun_eq_iff)
  show ?case
  proof (cases r)
    case (Inl e)
    with 2 one show ?thesis by simp
  next
    case (Inr v)
    show ?thesis
    proof (cases v)
      case None
      with 2 one Inr show ?thesis by (simp add: rows same)
    next
      case (Some w)
      from one_status_same_tenant [of rid c h w h1] one Inr Some
      have "\<exists>chunk. get_chunk h c = Some chunk \<and> same_tenant h rid chunk \<and> sv_chunk_id w = cs_chunk_id chunk"
        by simp
      with 2(3,4) 2(2)[of r h1 v w] one Inr Some show ?thesis by (auto simp: rows same)
    qed
  qed
qed simp

section \<open>Pages\<close>

lemma digits_value_all:
  assumes "list_all is_digit s" and "seen \<or> s \<noteq> []"
  shows "digits_value seen acc s = Some (foldl (\<lambda>a c. 10 * a + (of_char c - 48)) acc s)"
  using assms by (induction s arbitrary: seen acc) auto

lemma digit_not_space: "is_digit c \<Longrightarrow> \<not> is_space c"
  by (auto simp: is_digit_def is_space_def)

lemma strip_digits: "list_all is_digit s \<Longrightarrow> strip s = s"
proof -
  assume "list_all is_digit s"
  then have "\<forall>c \<in> set s. \<not> is_space c" by (auto simp: list_all_iff digit_not_space)
  then have "dropWhile is_space s = s" "dropWhile is_space (rev s) = rev s"
    by (metis dropWhile_eq_self_iff hd_in_set set_rev)+
  then show ?thesis by (simp add: strip_def)
qed

lemma int_of_text_show_nat [simp]: "int_of_text (show_nat n) = Some (int n)"
proof -
  obtain c cs where s: "show_nat n = c # cs" by (cases "show_nat n") auto
  with show_nat_digits [of n] have d: "is_digit c" "list_all is_digit (c # cs)" by auto
  have "digits_value False 0 (c # cs) = Some n"
    using digits_value_all [OF d(2), of False 0] read_show_nat [of n]
    by (simp add: read_nat_def s)
  moreover have "c \<noteq> CHR ''-''" "c \<noteq> CHR ''+''" using d(1) by (auto simp: is_digit_def)
  ultimately show ?thesis
    using strip_digits [OF show_nat_digits [of n]] by (simp add: int_of_text_def s)
qed

lemma cursor_offset_issued [simp]: "cursor_offset (Some (''o:'' @ show_nat n)) = Some n"
  by (simp add: cursor_offset_def starts_with_def)

lemmas cursor_offset_cons [simp] = cursor_offset_issued [simplified]

text \<open>A client that follows the cursors, at most \<open>fuel\<close> pages.\<close>

fun follow_pages ::
  "nat \<Rightarrow> (string option \<Rightarrow> hub_error + garden_proposals_page) \<Rightarrow> string option \<Rightarrow> (hub_error + garden_proposal_view list) option" where
  "follow_pages 0 fetch cursor = None"
| "follow_pages (Suc fuel) fetch cursor =
     (case fetch cursor of
        Inl e \<Rightarrow> Some (Inl e)
      | Inr page \<Rightarrow>
          (case pg_next_cursor page of
             None \<Rightarrow> Some (Inr (pg_proposals page))
           | Some c \<Rightarrow> map_option (map_sum id (\<lambda>rest. pg_proposals page @ rest)) (follow_pages fuel fetch (Some c))))"

lemma follow_pages_from:
  assumes docket: "garden_proposals \<E> h c st = Inr docket"
    and limit: "0 < limit" and at_cursor: "cursor_offset cursor = Some offset" and fuel: "length docket < offset + fuel"
  shows "follow_pages fuel (\<lambda>cur. garden_proposals_page_read \<E> h c st cur limit) cursor = Some (Inr (drop offset docket)) \<or>
    fuel = 0"
  using at_cursor fuel
proof (induction fuel arbitrary: cursor offset)
  case (Suc fuel)
  let ?fetch = "\<lambda>cur. garden_proposals_page_read \<E> h c st cur limit"
  have page: "?fetch cursor = Inr (page_of docket offset limit)"
    using docket Suc.prems by (simp add: garden_proposals_page_read_def)
  show ?case
  proof (cases "offset + limit < length docket")
    case True
    then have "follow_pages fuel ?fetch (Some (''o:'' @ show_nat (offset + limit))) = Some (Inr (drop (offset + limit) docket))"
      using Suc.IH [of "Some (''o:'' @ show_nat (offset + limit))" "offset + limit"] Suc.prems limit by auto
    moreover have "take limit (drop offset docket) @ drop (offset + limit) docket = drop offset docket"
      by (metis append_take_drop_id drop_drop add.commute)
    ultimately show ?thesis using page True by (simp add: page_of_def)
  next
    case False
    then show ?thesis using page by (simp add: page_of_def)
  qed
qed simp

end
