(* ===== verification/Matching.thy ===== *)
theory Matching
  imports Hub_State
begin

text \<open>
  Capability-matched queue selection (\<^verbatim>\<open>src/blizzard_mock/mock_hub/domain/matching.py\<close>). The
  depth-first walk over a chunk's graph is a terminating loop with the source's stack and seen
  set; it is proved to collect exactly the runner nodes that the graph's edges reach. Model and
  harness names are ASCII, so \<^verbatim>\<open>fnmatchcase\<close> works on bytes; a character class that opens
  with an empty range is outside the model of it.
\<close>

section \<open>Policy\<close>

datatype queue_match_policy = QP_HOLD | QP_PASS_OVER

definition QueueMatchPolicy_of :: "string \<Rightarrow> queue_match_policy" where
  "QueueMatchPolicy_of value = (if value = ''hold'' then QP_HOLD else QP_PASS_OVER)"

section \<open>The walk\<close>

text \<open>The targets a node pushes: its choices' in order, the terminal sentinel left out.\<close>

definition pushed :: "node_spec \<Rightarrow> string list" where
  "pushed node = map ch_to (filter (\<lambda>choice. ch_to choice \<noteq> TERMINAL) (nd_choices node))"

text \<open>The top of the stack is its last element, as \<^verbatim>\<open>list.pop\<close> has it.\<close>

function reachable_loop ::
  "(string, node_spec) dict \<Rightarrow> string list \<Rightarrow> string list \<Rightarrow> string list \<Rightarrow> string list" where
  "reachable_loop nodes seen runner_ids stack =
     (if stack = [] then runner_ids
      else if last stack \<in> set seen then reachable_loop nodes seen runner_ids (butlast stack)
      else case dget nodes (last stack) of
             None \<Rightarrow> reachable_loop nodes (last stack # seen) runner_ids (butlast stack)
           | Some node \<Rightarrow>
               reachable_loop nodes (last stack # seen)
                 (if nd_executor node = EX_RUNNER then runner_ids @ [last stack] else runner_ids)
                 (butlast stack @ pushed node))"
  by pat_completeness auto

termination
proof (relation "measures [\<lambda>(nodes, seen, _, _). card (set (dkeys nodes) - set seen),
    \<lambda>(_, _, _, stack). length stack]", goal_cases)
  case (3 nodes seen runner_ids stack)
  then have "set (dkeys nodes) - set (last stack # seen) = set (dkeys nodes) - set seen"
    by (auto simp: map_of_eq_None_iff)
  with 3 show ?case by simp
next
  case (4 nodes seen runner_ids stack node)
  then have "last stack \<in> set (dkeys nodes) - set seen"
    by (force dest: map_of_SomeD)
  then have "set (dkeys nodes) - set (last stack # seen) \<subset> set (dkeys nodes) - set seen"
    by auto
  then have "card (set (dkeys nodes) - set (last stack # seen)) < card (set (dkeys nodes) - set seen)"
    by (intro psubset_card_mono) auto
  then show ?case by simp
qed auto

declare reachable_loop.simps [simp del]

definition reachable_runner_node_ids :: "chunk_state \<Rightarrow> string \<Rightarrow> string list" where
  "reachable_runner_node_ids chunk start = reachable_loop (cs_nodes chunk) [] [] [start]"

section \<open>Capabilities\<close>

definition effective_harnesses :: "node_spec \<Rightarrow> chunk_state \<Rightarrow> string list" where
  "effective_harnesses node chunk =
     (if nd_session_harnesses node \<noteq> [] then nd_session_harnesses node else cs_default_harnesses chunk)"

definition effective_model :: "node_spec \<Rightarrow> chunk_state \<Rightarrow> string list" where
  "effective_model node chunk =
     (if nd_session_model node \<noteq> [] then nd_session_model node else cs_default_model chunk)"

text \<open>The items of a class body as ranges; a hyphen is a range sign only between two characters.\<close>

fun class_items :: "string \<Rightarrow> (char \<times> char) list" where
  "class_items [] = []"
| "class_items [a] = [(a, a)]"
| "class_items [a, b] = [(a, a), (b, b)]"
| "class_items (a # b # c # cs) =
     (if b = CHR ''-'' then (a, c) # class_items cs else (a, a) # class_items (b # c # cs))"

definition in_class :: "char \<Rightarrow> string \<Rightarrow> bool" where
  "in_class x stuff =
     list_ex (\<lambda>(a, b). (of_char a :: nat) \<le> of_char x \<and> (of_char x :: nat) \<le> of_char b)
       (class_items stuff)"

text \<open>The body of a class and the pattern after it; a first \<^verbatim>\<open>]\<close> belongs to the body. \<open>None\<close>
  when the class is never closed: then the bracket is literal.\<close>

fun until_bracket :: "string \<Rightarrow> (string \<times> string) option" where
  "until_bracket [] = None"
| "until_bracket (c # cs) =
     (if c = CHR '']'' then Some ([], cs)
      else map_option (\<lambda>(stuff, rest). (c # stuff, rest)) (until_bracket cs))"

definition class_body :: "string \<Rightarrow> (string \<times> string) option" where
  "class_body p =
     (case p of
        [] \<Rightarrow> None
      | c # cs \<Rightarrow> if c = CHR '']'' then map_option (\<lambda>(s, r). (c # s, r)) (until_bracket cs)
                  else until_bracket p)"

definition char_class :: "string \<Rightarrow> (bool \<times> string \<times> string) option" where
  "char_class p =
     (if p \<noteq> [] \<and> hd p = CHR ''!'' then map_option (\<lambda>(s, r). (False, s, r)) (class_body (tl p))
      else map_option (\<lambda>(s, r). (True, s, r)) (class_body p))"

lemma until_bracket_length: "until_bracket p = Some (s, r) \<Longrightarrow> length r < length p"
  by (induction p arbitrary: s) (auto split: if_splits)

lemma class_body_length: "class_body p = Some (s, r) \<Longrightarrow> length r < length p"
  by (auto simp: class_body_def split: list.splits if_splits dest: until_bracket_length)

lemma char_class_length: "char_class p = Some (b, s, r) \<Longrightarrow> length r < length p"
  by (cases p) (auto simp: char_class_def split: if_splits dest!: class_body_length)

function fnmatchcase :: "string \<Rightarrow> string \<Rightarrow> bool" where
  "fnmatchcase name [] \<longleftrightarrow> name = []"
| "fnmatchcase name (c # pat) \<longleftrightarrow>
     (if c = CHR ''*'' then
        fnmatchcase name pat \<or> (case name of [] \<Rightarrow> False | _ # rest \<Rightarrow> fnmatchcase rest (c # pat))
      else name \<noteq> [] \<and>
        (if c = CHR ''?'' then fnmatchcase (tl name) pat
         else if c = CHR ''['' then
           (case char_class pat of
              None \<Rightarrow> hd name = c \<and> fnmatchcase (tl name) pat
            | Some (positive, stuff, rest) \<Rightarrow>
                in_class (hd name) stuff = positive \<and> fnmatchcase (tl name) rest)
         else hd name = c \<and> fnmatchcase (tl name) pat))"
  by pat_completeness auto

termination
  by (relation "measure (\<lambda>(name, pat). length name + length pat)")
    (auto dest!: char_class_length simp: neq_Nil_conv)

definition supported :: "string \<Rightarrow> runner_capability \<Rightarrow> bool" where
  "supported entry capability \<longleftrightarrow>
     \<not> starts_with ''blizzard:'' entry \<and> list_ex (fnmatchcase entry) (cp_supported_models capability)"

text \<open>One round of the harness loop: whether the first available capability of that harness serves.\<close>

definition harness_serves ::
  "runner_capability list \<Rightarrow> bool \<Rightarrow> string list \<Rightarrow> string \<Rightarrow> bool" where
  "harness_serves available strict model harness_id =
     (case find (\<lambda>c. cp_harness_id c = harness_id) available of
        None \<Rightarrow> False
      | Some c \<Rightarrow> \<not> (strict \<and> \<not> list_ex (\<lambda>entry. entry \<in> set (cp_tiers c) \<or> supported entry c) model))"

definition lineage_satisfied :: "chunk_state \<Rightarrow> string \<Rightarrow> runner_capability list \<Rightarrow> bool" where
  "lineage_satisfied chunk node_id capabilities =
     (case cs_node chunk node_id of
        None \<Rightarrow> True
      | Some node \<Rightarrow>
          (let available = filter cp_available capabilities;
               harnesses = effective_harnesses node chunk;
               model = effective_model node chunk;
               strict = (length harnesses > 1 \<and> model \<noteq> [])
           in if harnesses = [] then list_ex cp_default available
              else list_ex (harness_serves available strict model) harnesses))"

definition capability_ineligible :: "chunk_state \<Rightarrow> string \<Rightarrow> runner_capability list \<Rightarrow> bool" where
  "capability_ineligible chunk node_id capabilities \<longleftrightarrow>
     capabilities = [] \<or>
     \<not> list_all (\<lambda>n. lineage_satisfied chunk n capabilities) (reachable_runner_node_ids chunk node_id)"

section \<open>The walk collects what the edges reach\<close>

text \<open>One choice leads from a declared node to a target that is not the terminal sentinel.\<close>

definition edge :: "(string, node_spec) dict \<Rightarrow> string \<Rightarrow> string \<Rightarrow> bool" where
  "edge nodes a b \<longleftrightarrow>
     (\<exists>node choice. dget nodes a = Some node \<and> choice \<in> set (nd_choices node) \<and> ch_to choice = b \<and> b \<noteq> TERMINAL)"

abbreviation reaches :: "(string, node_spec) dict \<Rightarrow> string \<Rightarrow> string \<Rightarrow> bool" where
  "reaches nodes \<equiv> (edge nodes)\<^sup>*\<^sup>*"

definition runner_node :: "(string, node_spec) dict \<Rightarrow> string \<Rightarrow> bool" where
  "runner_node nodes n \<longleftrightarrow> (\<exists>node. dget nodes n = Some node \<and> nd_executor node = EX_RUNNER)"

lemma edge_pushed: "dget nodes a = Some node \<Longrightarrow> edge nodes a b \<longleftrightarrow> b \<in> set (pushed node)"
  by (auto simp: edge_def pushed_def)

lemma edge_undeclared: "dget nodes a = None \<Longrightarrow> \<not> edge nodes a b"
  by (simp add: edge_def)

text \<open>Every edge out of a seen node ends in a seen node or on the stack.\<close>

definition frontier :: "(string, node_spec) dict \<Rightarrow> string set \<Rightarrow> string set \<Rightarrow> bool" where
  "frontier nodes seen stack \<longleftrightarrow> (\<forall>a \<in> seen. \<forall>b. edge nodes a b \<longrightarrow> b \<in> seen \<union> stack)"

lemma frontier_reaches:
  assumes "frontier nodes seen stack" and "reaches nodes a n" and "a \<in> seen"
  shows "n \<in> seen \<or> (\<exists>s \<in> stack. reaches nodes s n)"
  using assms(2,3)
proof (induction rule: rtranclp_induct)
  case (step y z)
  with assms(1) show ?case
    unfolding frontier_def by (blast intro: rtranclp.rtrancl_into_rtrancl)
qed simp

text \<open>Reaching from a node that was just seen is reaching it or reaching from what it pushed.\<close>

lemma reaches_step: "reaches nodes a n \<longleftrightarrow> n = a \<or> (\<exists>b. edge nodes a b \<and> reaches nodes b n)"
  by (metis converse_rtranclp_into_rtranclp converse_rtranclpE rtranclp.rtrancl_refl)

lemma reachable_loop_correct:
  assumes "frontier nodes (set seen) (set stack)"
    and "set ids = {n \<in> set seen. runner_node nodes n}" and "distinct ids"
  shows "distinct (reachable_loop nodes seen ids stack) \<and>
    set (reachable_loop nodes seen ids stack) =
      {n. runner_node nodes n \<and> (n \<in> set seen \<or> (\<exists>s \<in> set stack. reaches nodes s n))}"
  using assms
proof (induction nodes seen ids stack rule: reachable_loop.induct)
  case (1 nodes seen ids stack)
  show ?case
  proof (cases "stack = []")
    case True
    with 1 show ?thesis by (auto simp: reachable_loop.simps)
  next
    case ne: False
    then have st: "set stack = insert (last stack) (set (butlast stack))"
      by (metis append_butlast_last_id rotate1.simps(2) set_rotate1 list.simps(15))
    show ?thesis
    proof (cases "last stack \<in> set seen")
      case True
      with 1(4) st have fr: "frontier nodes (set seen) (set (butlast stack))"
        by (auto simp: frontier_def)
      from 1(1)[OF ne True fr 1(5,6)] frontier_reaches [OF fr _ True] show ?thesis
        using ne True st by (subst (1 2) reachable_loop.simps) auto
    next
      case new: False
      show ?thesis
      proof (cases "dget nodes (last stack)")
        case None
        from 1(4) st None have fr: "frontier nodes (set (last stack # seen)) (set (butlast stack))"
          by (auto simp: frontier_def edge_undeclared)
        have ids: "set ids = {n \<in> set (last stack # seen). runner_node nodes n}"
          using 1(5) None by (auto simp: runner_node_def)
        from 1(2)[OF ne new None fr ids 1(6)] show ?thesis
          using ne new None st reaches_step [of nodes "last stack"]
          by (subst (1 2) reachable_loop.simps) (auto simp: edge_undeclared)
      next
        case (Some node)
        let ?ids = "if nd_executor node = EX_RUNNER then ids @ [last stack] else ids"
        let ?stack = "butlast stack @ pushed node"
        from 1(4) st Some have fr: "frontier nodes (set (last stack # seen)) (set ?stack)"
          by (auto simp: frontier_def edge_pushed)
        have ids: "set ?ids = {n \<in> set (last stack # seen). runner_node nodes n}"
          using 1(5) Some by (auto simp: runner_node_def)
        have dist: "distinct ?ids" using 1(5,6) new by auto
        have eq: "reachable_loop nodes seen ids stack = reachable_loop nodes (last stack # seen) ?ids ?stack"
          using ne new Some by (subst reachable_loop.simps) simp
        show ?thesis
          using 1(3)[OF ne new Some fr ids dist] st reaches_step [of nodes "last stack"] Some
          unfolding eq by (auto simp: edge_pushed)
      qed
    qed
  qed
qed

lemma reachable_runner_node_ids_correct:
  "distinct (reachable_runner_node_ids chunk start) \<and>
   set (reachable_runner_node_ids chunk start) =
     {n. runner_node (cs_nodes chunk) n \<and> reaches (cs_nodes chunk) start n}"
  using reachable_loop_correct [of "cs_nodes chunk" "[]" "[start]" "[]"]
  by (simp add: reachable_runner_node_ids_def frontier_def)

lemma capability_eligible_iff:
  "\<not> capability_ineligible chunk start caps \<longleftrightarrow>
     caps \<noteq> [] \<and> (\<forall>n. runner_node (cs_nodes chunk) n \<and> reaches (cs_nodes chunk) start n \<longrightarrow>
       lineage_satisfied chunk n caps)"
  using reachable_runner_node_ids_correct [of chunk start]
  by (auto simp: capability_ineligible_def list_all_iff)

text \<open>A capability that health has withdrawn serves no lineage: taking it out changes nothing.\<close>

lemma lineage_satisfied_available:
  "lineage_satisfied chunk n (filter cp_available caps) = lineage_satisfied chunk n caps"
  by (simp add: lineage_satisfied_def split: option.splits)

end
