(* ===== verification/Hub_Queue.thy ===== *)
theory Hub_Queue
  imports Hub_Reads Matching
begin

text \<open>
  The ready queue and the life of a route in \<^verbatim>\<open>MockHubService\<close>
  (\<^verbatim>\<open>src/blizzard_mock/mock_hub/domain/service.py\<close>): peek and matched peek, claim, re-key,
  release, pause, resume and the stage-time artifact check. A claim is its gate (every refusal
  in source order) followed by one write and the envelope. The lemmas characterise the gate,
  show that the matched peek offers only what the gate lets through, and that a route has one
  holder between a claim and its release.
\<close>

section \<open>The ready queue\<close>

definition ready_chunks :: "hub \<Rightarrow> chunk_state list" where
  "ready_chunks h = filter (\<lambda>c. \<not> cs_claimed c \<and> cs_status c = ST_READY) (list_chunks h)"

definition prerequisite_of :: "lever \<Rightarrow> string" where
  "prerequisite_of l = get_str (lv_payload l) ''prerequisite_chunk_id'' ''unknown''"

definition blocked_marking :: "hub \<Rightarrow> string \<Rightarrow> string option" where
  "blocked_marking h chunk_id = map_option prerequisite_of (find_armed DEPENDENCY_UNMET chunk_id h)"

definition peek_entry :: "hub \<Rightarrow> nat \<Rightarrow> chunk_state \<Rightarrow> string option \<Rightarrow> queue_peek_entry" where
  "peek_entry h position c blocked =
     \<lparr>qe_chunk_id = cs_chunk_id c, qe_graph_id = cs_graph_id c, qe_position = position,
      qe_work_refs = cs_work_refs c, qe_blocked = blocked,
      qe_project = project_fields_of h (cs_project_id c)\<rparr>"

definition peek_entries :: "hub \<Rightarrow> string option \<Rightarrow> queue_peek_entry list" where
  "peek_entries h project_id =
     map (\<lambda>(i, c). peek_entry h i c (blocked_marking h (cs_chunk_id c)))
       (filter (\<lambda>(i, c). project_id = None \<or> project_id = Some (cs_project_id c))
          (enumerate 0 (ready_chunks h)))"

definition peek :: "hub \<Rightarrow> string option \<Rightarrow> string option \<Rightarrow> hub_error + queue_peek_entry list" where
  "peek h runner_id project =
     (case (project, runner_id) of
        (Some p, Some r) \<Rightarrow>
          (case added h r of
             Inl e \<Rightarrow> Inl e
           | Inr row \<Rightarrow>
               (case resolve_project h (rn_tenant_id row) p of
                  None \<Rightarrow> Inl (UnknownProjects [p])
                | Some q \<Rightarrow> Inr (peek_entries h (Some (pj_project_id q)))))
      | _ \<Rightarrow> Inr (peek_entries h None))"

definition unusable :: "hub \<Rightarrow> runner_capability list \<Rightarrow> chunk_state \<Rightarrow> bool" where
  "unusable h capabilities c \<longleftrightarrow>
     blocked_marking h (cs_chunk_id c) \<noteq> None \<or> capability_ineligible c (at_node c) capabilities"

text \<open>The selection loop: the rest of the ready order with its position, and the stopped projects.\<close>

fun match_loop ::
  "hub \<Rightarrow> runner_capability list \<Rightarrow> queue_match_policy \<Rightarrow> string set \<Rightarrow> bool \<Rightarrow> nat
     \<Rightarrow> string list \<Rightarrow> chunk_state list \<Rightarrow> queue_peek_entry list" where
  "match_loop h capabilities policy served narrowed position stopped [] = []"
| "match_loop h capabilities policy served narrowed position stopped (c # cs) =
     (if cs_project_id c \<notin> served \<or> cs_project_id c \<in> set stopped then
        match_loop h capabilities policy served narrowed (Suc position) stopped cs
      else if \<not> unusable h capabilities c then [peek_entry h position c None]
      else if policy = QP_HOLD then
        (if \<not> narrowed then []
         else match_loop h capabilities policy served narrowed (Suc position) (cs_project_id c # stopped) cs)
      else match_loop h capabilities policy served narrowed (Suc position) stopped cs)"

definition peek_matched ::
  "hub \<Rightarrow> string \<Rightarrow> runner_capability list \<Rightarrow> string \<Rightarrow> string list option \<Rightarrow> hub_error + queue_peek_entry list" where
  "peek_matched h runner_id capabilities policy projects =
     (case added h runner_id of
        Inl e \<Rightarrow> Inl e
      | Inr row \<Rightarrow>
          Inr (match_loop h capabilities (QueueMatchPolicy_of policy)
                 (offered_project_ids h row projects) (projects \<noteq> None) 0 [] (ready_chunks h)))"

section \<open>The stage-time artifact check\<close>

text \<open>\<open>validate shape content\<close> stands for the schema validator: \<open>None\<close> when the content has the
  shape, else the errors, each the parts of its location and its message.\<close>

definition FORMATS :: "string list" where
  "FORMATS = [''finding-delta'', ''garden-proposal-candidate'']"

definition error_text :: "string list \<times> string \<Rightarrow> string" where
  "error_text e = str_or (Some (join ''.'' (fst e))) ''<root>'' @ '': '' @ snd e"

fun refusal_loop ::
  "(string \<Rightarrow> string \<Rightarrow> (string list \<times> string) list option) \<Rightarrow> string \<Rightarrow> string \<Rightarrow> string list
     \<Rightarrow> string list \<Rightarrow> string option" where
  "refusal_loop validate name content formats [] = None"
| "refusal_loop validate name content formats (shape # shapes) =
     (if shape \<notin> set formats then refusal_loop validate name content formats shapes
      else case validate shape content of
             None \<Rightarrow> refusal_loop validate name content formats shapes
           | Some errors \<Rightarrow>
               Some (''artifact '' @ py_repr name @ '' does not match the '' @ shape @ '' shape: ''
                     @ join ''; '' (map error_text errors)))"

definition refusal ::
  "(string \<Rightarrow> string \<Rightarrow> (string list \<times> string) list option) \<Rightarrow> string \<Rightarrow> string \<Rightarrow> string list \<Rightarrow> string option" where
  "refusal validate name content formats = refusal_loop validate name content formats FORMATS"

definition armed_refusal :: "string \<Rightarrow> hub \<Rightarrow> string option" where
  "armed_refusal chunk_id h =
     (case find_armed ARTIFACT_REFUSAL chunk_id h of
        None \<Rightarrow> None
      | Some l \<Rightarrow> get_optional_text (lv_payload l) ''refusal'')"

definition check_artifact ::
  "(string \<Rightarrow> string \<Rightarrow> (string list \<times> string) list option) \<Rightarrow> string \<Rightarrow> string \<Rightarrow> string \<Rightarrow> hub
     \<Rightarrow> string option result" where
  "check_artifact validate chunk_id name content h =
     (case require h chunk_id of
        Inl e \<Rightarrow> (Inl e, h)
      | Inr chunk \<Rightarrow>
     (case check_pinned_graph chunk_id h of
        (Inl e, h1) \<Rightarrow> (Inl e, h1)
      | (Inr _, h1) \<Rightarrow>
          (case armed_refusal chunk_id h1 of
             Some text \<Rightarrow> (Inr (Some text), h1)
           | None \<Rightarrow> (Inr (refusal validate name content (dget_or (cs_artifact_formats chunk) name [])), h1))))"

section \<open>Claim\<close>

definition refuse_retired_runner :: "hub \<Rightarrow> string \<Rightarrow> string \<Rightarrow> hub_error + unit" where
  "refuse_retired_runner h runner_id action =
     (case get_runner h runner_id of
        None \<Rightarrow> Inr ()
      | Some row \<Rightarrow> if rn_retired_at row \<noteq> None then Inl (RunnerRetired runner_id (Some action)) else Inr ())"

text \<open>A claim-runner lever concerns a runner when it names none or names that one.\<close>

definition names_runner :: "lever \<Rightarrow> string \<Rightarrow> bool" where
  "names_runner l runner_id \<longleftrightarrow>
     (case dget (lv_payload l) ''runner_id'' of None \<Rightarrow> True | Some v \<Rightarrow> v = JStr runner_id)"

definition claim_lever_detail :: "string \<Rightarrow> string \<Rightarrow> string" where
  "claim_lever_detail kind runner_id =
     (if kind = CLAIM_RUNNER_RETIRED then
        ''runner '' @ runner_id @ '' is retired '' @ em_dash @ '' claim refused; '' @ CHR 0x60 # ''reinstate''
          @ CHR 0x60 # '' it first''
      else ''runner '' @ runner_id @ '' reporting no version is refused by the hub'' @ CHR 0x27 # ''s window: too-old'')"

fun claim_runner_levers :: "string list \<Rightarrow> string \<Rightarrow> string \<Rightarrow> hub \<Rightarrow> unit result" where
  "claim_runner_levers [] chunk_id runner_id h = (Inr (), h)"
| "claim_runner_levers (kind # kinds) chunk_id runner_id h =
     (case find_armed kind chunk_id h of
        None \<Rightarrow> claim_runner_levers kinds chunk_id runner_id h
      | Some l \<Rightarrow>
          if names_runner l runner_id then
            (Inl (ClaimRunnerLeverRefusal kind runner_id (claim_lever_detail kind runner_id)), consume_armed l h)
          else claim_runner_levers kinds chunk_id runner_id h)"

definition CLAIM_LEVERS :: "string list" where
  "CLAIM_LEVERS = [CLAIM_RUNNER_RETIRED, CLAIM_RUNNER_VERSION_REFUSED]"

definition refuse_dependency :: "string \<Rightarrow> hub \<Rightarrow> unit result" where
  "refuse_dependency chunk_id h =
     (case find_armed DEPENDENCY_UNMET chunk_id h of
        None \<Rightarrow> (Inr (), h)
      | Some l \<Rightarrow> (Inl (DependencyUnmet (prerequisite_of l)), consume_armed l h))"

definition refuse_incompatible :: "hub \<Rightarrow> chunk_state \<Rightarrow> runner_row \<Rightarrow> string \<Rightarrow> hub_error + unit" where
  "refuse_incompatible h chunk registration runner_id =
     (if cs_project_id chunk \<notin> served_project_ids registration then
        Inl (ClaimIncompatible runner_id ''project'' (unserved_detail h (cs_project_id chunk)))
      else if capability_ineligible chunk (at_node chunk) (rn_capabilities registration) then
        Inl (ClaimIncompatible runner_id ''capability''
               (''runner capabilities no longer satisfy the chunk'' @ CHR 0x27 # ''s reachable lineage''))
      else Inr ())"

text \<open>Every refusal of \<^verbatim>\<open>claim\<close>, in its order.\<close>

definition claim_gate :: "string \<Rightarrow> string \<Rightarrow> hub \<Rightarrow> chunk_state result" where
  "claim_gate chunk_id runner_id h =
     (case require h chunk_id of
        Inl e \<Rightarrow> (Inl e, h)
      | Inr chunk \<Rightarrow>
     (case check_pinned_graph chunk_id h of
        (Inl e, h1) \<Rightarrow> (Inl e, h1)
      | (Inr _, h1) \<Rightarrow>
     (case refuse_retired_runner h1 runner_id ''claim'' of
        Inl e \<Rightarrow> (Inl e, h1)
      | Inr _ \<Rightarrow>
     (case claim_runner_levers CLAIM_LEVERS chunk_id runner_id h1 of
        (Inl e, h2) \<Rightarrow> (Inl e, h2)
      | (Inr _, h2) \<Rightarrow>
     (case refuse_braked_runner (get_runner h2 runner_id) runner_id of
        Inl e \<Rightarrow> (Inl e, h2)
      | Inr registration \<Rightarrow>
     (case refuse_claim chunk of
        Inl e \<Rightarrow> (Inl e, h2)
      | Inr _ \<Rightarrow>
     (case refuse_dependency chunk_id h2 of
        (Inl e, h3) \<Rightarrow> (Inl e, h3)
      | (Inr _, h3) \<Rightarrow>
     (case refuse_incompatible h3 chunk registration runner_id of
        Inl e \<Rightarrow> (Inl e, h3)
      | Inr _ \<Rightarrow> (Inr chunk, h3)))))))))"

definition claim_token :: "chunk_state \<Rightarrow> string \<Rightarrow> string" where
  "claim_token chunk chunk_id = ''mock-route-token-'' @ chunk_id @ ''-'' @ show_int (cs_latest_epoch chunk)"

definition claimed_row :: "string \<Rightarrow> string \<Rightarrow> string \<Rightarrow> string list \<Rightarrow> chunk_state \<Rightarrow> chunk_state" where
  "claimed_row chunk_id runner_id workspace_id environment_ids chunk =
     chunk\<lparr>cs_claimed := True, cs_route_runner_id := Some runner_id,
           cs_route_workspace_id := Some workspace_id, cs_route_environment_ids := environment_ids,
           cs_current_node_id := Some (at_node chunk), cs_status := ST_RUNNING,
           cs_live_route_token := Some (claim_token chunk chunk_id)\<rparr>"

definition claim :: "string \<Rightarrow> string \<Rightarrow> string \<Rightarrow> string list \<Rightarrow> hub \<Rightarrow> route_claim_response result" where
  "claim chunk_id runner_id workspace_id environment_ids h =
     (case claim_gate chunk_id runner_id h of
        (Inl e, h1) \<Rightarrow> (Inl e, h1)
      | (Inr chunk, h1) \<Rightarrow>
          (let chunk' = claimed_row chunk_id runner_id workspace_id environment_ids chunk
           in (map_sum id (\<lambda>env. \<lparr>rc_chunk_id = chunk_id, rc_runner_id = runner_id,
                 rc_workspace_id = workspace_id, rc_environment_ids = environment_ids,
                 rc_envelope = env, rc_route_token = claim_token chunk chunk_id\<rparr>)
                 (envelope_of chunk' (at_node chunk) (cs_latest_epoch chunk')),
               put_chunk chunk' h1)))"

section \<open>Re-key and release\<close>

definition rekeyed_row :: "string \<Rightarrow> chunk_state \<Rightarrow> chunk_state" where
  "rekeyed_row chunk_id chunk =
     (let n = cs_route_token_rekey_count chunk + 1
      in chunk\<lparr>cs_route_token_rekey_count := n,
               cs_live_route_token := Some (''mock-route-token-'' @ chunk_id @ ''-''
                 @ show_int (cs_latest_epoch chunk) @ ''-rekey'' @ show_nat n)\<rparr>)"

definition holder_repr :: "string option \<Rightarrow> string" where
  "holder_repr r = (case r of None \<Rightarrow> ''None'' | Some s \<Rightarrow> py_repr s)"

definition rekey_route_token :: "string \<Rightarrow> string \<Rightarrow> hub \<Rightarrow> route_token_rekey_response result" where
  "rekey_route_token chunk_id runner_id h =
     (case get_chunk h chunk_id of
        None \<Rightarrow> (Inl (ChunkNotFound (''chunk '' @ chunk_id @ '' has no live route'')), h)
      | Some chunk \<Rightarrow>
          if \<not> cs_claimed chunk then
            (Inl (ChunkNotFound (''chunk '' @ chunk_id @ '' has no live route'')), h)
          else if cs_route_runner_id chunk \<noteq> Some runner_id then
            (Inl (RekeyNotHolder (''token belongs to runner '' @ py_repr runner_id @ '', not ''
                    @ holder_repr (cs_route_runner_id chunk))), h)
          else
            (case refuse_rekey chunk of
               Inl e \<Rightarrow> (Inl e, h)
             | Inr _ \<Rightarrow>
                 (let chunk' = rekeyed_row chunk_id chunk
                  in (Inr \<lparr>rk_chunk_id = chunk_id, rk_route_token = the (cs_live_route_token chunk')\<rparr>,
                      put_chunk chunk' h))))"

text \<open>What the \<^verbatim>\<open>enforce_release_route_token\<close> lever, never consumed, adds to a release.\<close>

definition release_token_refusal :: "chunk_state \<Rightarrow> string \<Rightarrow> string option \<Rightarrow> string option" where
  "release_token_refusal chunk runner_id route_token =
     (if \<not> cs_claimed chunk \<or> cs_live_route_token chunk = None then
        Some (''chunk has no live route '' @ em_dash @ '' nothing to authorize this write against'')
      else if route_token \<noteq> cs_live_route_token chunk then
        Some (''route token missing or does not match the chunk'' @ CHR 0x27 # ''s live route'')
      else if Some runner_id \<noteq> cs_route_runner_id chunk then
        Some (''runner_id '' @ py_repr runner_id @ '' does not hold the chunk'' @ CHR 0x27 # ''s live route'')
      else None)"

definition release :: "string \<Rightarrow> string \<Rightarrow> int \<Rightarrow> string \<Rightarrow> string option \<Rightarrow> hub \<Rightarrow> release_response result" where
  "release chunk_id runner_id epoch reason route_token h =
     (case require h chunk_id of
        Inl e \<Rightarrow> (Inl e, h)
      | Inr chunk \<Rightarrow>
     (case (if find_armed ENFORCE_RELEASE_ROUTE_TOKEN chunk_id h \<noteq> None
            then release_token_refusal chunk runner_id route_token else None) of
        Some detail \<Rightarrow> (Inl (ReleaseNotHolder chunk_id runner_id (Some detail)), h)
      | None \<Rightarrow>
     (case cs_release chunk runner_id epoch reason of
        Inl e \<Rightarrow> (Inl e, h)
      | Inr (released_id, chunk') \<Rightarrow>
          (Inr \<lparr>rl_chunk_id = chunk_id, rl_released_id = released_id\<rparr>,
           put_chunk (chunk'\<lparr>cs_live_route_token := None\<rparr>) h))))"

section \<open>Pause, resume and stop\<close>

definition paused_row :: "chunk_state \<Rightarrow> chunk_state" where
  "paused_row chunk =
     (if cs_status chunk \<noteq> ST_PAUSED then
        chunk\<lparr>cs_status_before_pause := Some (cs_status chunk),
              cs_status := status_if_paused (cs_status chunk)\<rparr>
      else chunk)"

definition pause_chunk :: "string \<Rightarrow> hub \<Rightarrow> chunk_summary result" where
  "pause_chunk chunk_id h =
     (case require h chunk_id of
        Inl e \<Rightarrow> (Inl e, h)
      | Inr chunk \<Rightarrow>
          if cs_status chunk \<notin> PAUSABLE_STATUSES then
            (Inl (ChunkNotPausable (''chunk '' @ chunk_id @ '' is '' @ status_value (cs_status chunk) @ '', not pausable'')), h)
          else
            (let h' = put_chunk (paused_row chunk) h in (Inr (chunk_summary_of h' (paused_row chunk)), h')))"

definition resumed_row :: "chunk_state \<Rightarrow> chunk_state" where
  "resumed_row chunk =
     (if cs_status chunk = ST_PAUSED then
        chunk\<lparr>cs_status := (case cs_status_before_pause chunk of None \<Rightarrow> ST_READY | Some s \<Rightarrow> s),
              cs_status_before_pause := None\<rparr>
      else chunk\<lparr>cs_status_before_pause := None\<rparr>)"

definition resume_chunk :: "string \<Rightarrow> hub \<Rightarrow> chunk_summary result" where
  "resume_chunk chunk_id h =
     (case require h chunk_id of
        Inl e \<Rightarrow> (Inl e, h)
      | Inr chunk \<Rightarrow>
          (let h' = put_chunk (resumed_row chunk) h in (Inr (chunk_summary_of h' (resumed_row chunk)), h')))"

definition stop_chunk :: "string \<Rightarrow> hub \<Rightarrow> unit result" where
  "stop_chunk chunk_id h =
     (case require h chunk_id of
        Inl e \<Rightarrow> (Inl e, h)
      | Inr chunk \<Rightarrow> (Inr (), put_chunk (chunk\<lparr>cs_status := ST_STOPPED, cs_claimed := False\<rparr>) h))"

section \<open>The claim gate\<close>

text \<open>What the gate asks of the state: a chunk that is ready and free, a runner that is registered,
  neither paused nor retired, serves the project and can run every reachable lineage, and no
  lever of the claim armed against the pair.\<close>

definition claim_levers_clear :: "hub \<Rightarrow> string \<Rightarrow> string \<Rightarrow> bool" where
  "claim_levers_clear h chunk_id runner_id \<longleftrightarrow>
     find_armed PINNED_GRAPH_MISSING chunk_id h = None \<and>
     find_armed DEPENDENCY_UNMET chunk_id h = None \<and>
     (\<forall>kind \<in> set CLAIM_LEVERS. \<forall>l. find_armed kind chunk_id h = Some l \<longrightarrow> \<not> names_runner l runner_id)"

definition runner_may_claim :: "runner_row \<Rightarrow> bool" where
  "runner_may_claim row \<longleftrightarrow> \<not> never_connected row \<and> \<not> rn_paused row \<and> rn_retired_at row = None"

definition claimable :: "hub \<Rightarrow> chunk_state \<Rightarrow> runner_row \<Rightarrow> bool" where
  "claimable h chunk row \<longleftrightarrow>
     \<not> cs_claimed chunk \<and> cs_status chunk = ST_READY \<and> runner_may_claim row \<and>
     cs_project_id chunk \<in> served_project_ids row \<and>
     \<not> capability_ineligible chunk (at_node chunk) (rn_capabilities row)"

lemma claim_runner_levers_Inr:
  "claim_runner_levers kinds c r h = (Inr u, h') \<longleftrightarrow>
     h' = h \<and> (\<forall>kind \<in> set kinds. \<forall>l. find_armed kind c h = Some l \<longrightarrow> \<not> names_runner l r)"
  by (induction kinds) (auto split: option.splits)

lemma claim_runner_levers_only: "claim_runner_levers kinds c r h = (res, h') \<Longrightarrow> levers_only h h'"
  by (induction kinds) (auto split: option.splits if_splits)

lemma refuse_braked_runner_Inr:
  "refuse_braked_runner row r = Inr x \<longleftrightarrow> row = Some x \<and> \<not> never_connected x \<and> \<not> rn_paused x"
  by (auto simp: refuse_braked_runner_def split: option.splits)

lemma refuse_retired_runner_Inr:
  "refuse_retired_runner h r a = Inr u \<longleftrightarrow> (\<forall>row. get_runner h r = Some row \<longrightarrow> rn_retired_at row = None)"
  by (auto simp: refuse_retired_runner_def split: option.splits)

lemma refuse_dependency_Inr:
  "refuse_dependency c h = (Inr u, h') \<longleftrightarrow> h' = h \<and> find_armed DEPENDENCY_UNMET c h = None"
  by (auto simp: refuse_dependency_def split: option.splits)

lemma check_pinned_graph_Inr:
  "check_pinned_graph c h = (Inr u, h') \<longleftrightarrow> h' = h \<and> find_armed PINNED_GRAPH_MISSING c h = None"
  by (auto simp: check_pinned_graph_def split: option.splits)

lemma refuse_incompatible_Inr:
  "refuse_incompatible h chunk row r = Inr u \<longleftrightarrow>
     cs_project_id chunk \<in> served_project_ids row \<and>
     \<not> capability_ineligible chunk (at_node chunk) (rn_capabilities row)"
  by (auto simp: refuse_incompatible_def)

lemma require_Inr: "require h c = Inr chunk \<longleftrightarrow> get_chunk h c = Some chunk"
  by (auto simp: require_def split: option.splits)

lemma added_Inr: "added h r = Inr row \<longleftrightarrow> get_runner h r = Some row"
  by (auto simp: added_def split: option.splits)

lemmas gate_Inr = claim_runner_levers_Inr refuse_braked_runner_Inr refuse_retired_runner_Inr
  refuse_dependency_Inr check_pinned_graph_Inr refuse_incompatible_Inr require_Inr

text \<open>The gate opens exactly on these conditions, and an open gate changes nothing.\<close>

lemma claim_gate_Inr:
  "claim_gate c r h = (Inr chunk, h') \<longleftrightarrow>
     h' = h \<and> get_chunk h c = Some chunk \<and> claim_levers_clear h c r \<and>
     (\<exists>row. get_runner h r = Some row \<and> claimable h chunk row)" (is "?gate \<longleftrightarrow> ?spec")
proof
  assume ?gate
  then show ?spec
    unfolding claim_gate_def
    by (auto simp: gate_Inr refuse_claim_ok_iff claimable_def runner_may_claim_def claim_levers_clear_def
        split: sum.splits prod.splits)
next
  assume spec: ?spec
  then obtain row where row: "get_runner h r = Some row" "claimable h chunk row" by blast
  have "require h c = Inr chunk" "check_pinned_graph c h = (Inr (), h)"
    "refuse_retired_runner h r ''claim'' = Inr ()"
    "claim_runner_levers CLAIM_LEVERS c r h = (Inr (), h)"
    "refuse_braked_runner (get_runner h r) r = Inr row" "refuse_claim chunk = Inr ()"
    "refuse_dependency c h = (Inr (), h)" "refuse_incompatible h chunk row r = Inr ()"
    using spec row
    by (auto simp: gate_Inr refuse_claim_ok_iff claimable_def runner_may_claim_def claim_levers_clear_def)
  with spec show ?gate by (simp add: claim_gate_def)
qed

text \<open>Open or not, the gate writes no row.\<close>

lemma claim_gate_levers_only: "claim_gate c r h = (res, h') \<Longrightarrow> levers_only h h'"
  unfolding claim_gate_def refuse_dependency_def
  by (auto split: sum.splits prod.splits option.splits
      dest!: pinned_levers_only claim_runner_levers_only intro: levers_only_trans)

lemma claim_state:
  assumes "claim c r ws envs h = (res, h')"
  shows "(\<exists>e. claim_gate c r h = (Inl e, h') \<and> res = Inl e) \<or>
    (\<exists>chunk. claim_gate c r h = (Inr chunk, h) \<and> h' = put_chunk (claimed_row c r ws envs chunk) h)"
  using assms
  by (auto simp: claim_def Let_def split: prod.splits sum.splits dest!: claim_gate_Inr [THEN iffD1])

lemma map_sum_Inr: "map_sum f g x = Inr y \<longleftrightarrow> (\<exists>z. x = Inr z \<and> y = g z)"
  by (cases x) auto

lemma envelope_of_Inr_iff: "(\<exists>env. envelope_of chunk n e = Inr env) \<longleftrightarrow> cs_node chunk n \<noteq> None"
  by (auto simp: envelope_of_def split: option.splits)

text \<open>A claim of a chunk whose node is declared succeeds exactly when the gate opens.\<close>

lemma claim_success_iff:
  "(\<exists>resp. claim c r ws envs h = (Inr resp, h')) \<longleftrightarrow>
     (\<exists>chunk. claim_gate c r h = (Inr chunk, h) \<and> cs_node chunk (at_node chunk) \<noteq> None \<and>
        h' = put_chunk (claimed_row c r ws envs chunk) h)"
proof -
  have node: "cs_node (claimed_row c r ws envs chunk) n = cs_node chunk n" for chunk n
    by (simp add: cs_node_def claimed_row_def)
  show ?thesis
  proof (cases "fst (claim_gate c r h)")
    case (Inl e)
    then show ?thesis by (cases "claim_gate c r h") (auto simp: claim_def)
  next
    case (Inr chunk)
    then have gate: "claim_gate c r h = (Inr chunk, h)"
      by (metis claim_gate_Inr prod.collapse)
    show ?thesis
      using envelope_of_Inr_iff [of "claimed_row c r ws envs chunk" "at_node chunk"
          "cs_latest_epoch (claimed_row c r ws envs chunk)"]
      by (auto simp: claim_def gate Let_def node
          map_sum_Inr)
  qed
qed

section \<open>Selection\<close>

text \<open>What the loop may select at a position: the chunk is served and usable, and under the hold
  policy nothing served ahead of it was skipped in its project.\<close>

lemma match_loop_sound:
  assumes "e \<in> set (match_loop h caps pol served narrowed pos stopped cs)"
  shows "\<exists>i < length cs. e = peek_entry h (pos + i) (cs ! i) None \<and> cs_project_id (cs ! i) \<in> served \<and>
    \<not> unusable h caps (cs ! i)"
  using assms
proof (induction h caps pol served narrowed pos stopped cs rule: match_loop.induct)
  case (2 h caps pol served narrowed pos stopped c cs)
  have step: ?case if "e \<in> set (match_loop h caps pol served narrowed (Suc pos) st cs)"
    "\<exists>i < length cs. e = peek_entry h (Suc pos + i) (cs ! i) None \<and> cs_project_id (cs ! i) \<in> served \<and>
      \<not> unusable h caps (cs ! i)" for st
    using that(2) by (metis Suc_less_eq add_Suc_right add_Suc_shift length_Cons nth_Cons_Suc)
  show ?case
    using 2 step by (auto split: if_splits)
qed simp

lemma match_loop_at_most_one: "length (match_loop h caps pol served narrowed pos stopped cs) \<le> 1"
  by (induction h caps pol served narrowed pos stopped cs rule: match_loop.induct) auto

text \<open>Under the pass-over policy the first served and usable chunk is selected.\<close>

lemma match_loop_pass_over:
  "match_loop h caps QP_PASS_OVER served narrowed pos [] cs =
     (case find (\<lambda>(i, c). cs_project_id c \<in> served \<and> \<not> unusable h caps c) (enumerate pos cs) of
        None \<Rightarrow> [] | Some (i, c) \<Rightarrow> [peek_entry h i c None])"
  by (induction cs arbitrary: pos) auto

text \<open>Under an unnarrowed hold only the first served chunk is ever looked at.\<close>

lemma match_loop_hold:
  "match_loop h caps QP_HOLD served False pos [] cs =
     (case find (\<lambda>(i, c). cs_project_id c \<in> served) (enumerate pos cs) of
        None \<Rightarrow> []
      | Some (i, c) \<Rightarrow> if unusable h caps c then [] else [peek_entry h i c None])"
  by (induction cs arbitrary: pos) auto

section \<open>Route tokens\<close>

definition rekey_token :: "string \<Rightarrow> int \<Rightarrow> nat \<Rightarrow> string" where
  "rekey_token chunk_id epoch n =
     ''mock-route-token-'' @ chunk_id @ ''-'' @ show_int epoch @ ''-rekey'' @ show_nat n"

lemma show_int_chars: "x \<in> set (show_int i) \<Longrightarrow> x = CHR ''-'' \<or> is_digit x"
  using show_nat_digits by (auto simp: show_int_def list_all_iff split: if_splits)

lemma not_in_show: "\<not> is_digit x \<Longrightarrow> x \<noteq> CHR ''-'' \<Longrightarrow> x \<notin> set (show_int i) \<and> x \<notin> set (show_nat n)"
  using show_int_chars show_nat_digits [of n] by (auto simp: list_all_iff)

text \<open>A re-key token determines its number, and is no claim token of the chunk.\<close>

lemma rekey_token_inj: "rekey_token c e n = rekey_token c e' n' \<longleftrightarrow> e = e' \<and> n = n'"
proof -
  have y: "CHR ''y'' \<notin> set (show_nat k)" for k using not_in_show [of "CHR ''y''"] by (simp add: is_digit_def)
  have "rekey_token c e n = rekey_token c e' n' \<longleftrightarrow>
      (show_int e @ ''-reke'') @ CHR ''y'' # show_nat n = (show_int e' @ ''-reke'') @ CHR ''y'' # show_nat n'"
    by (simp add: rekey_token_def)
  then show ?thesis by (simp only: append_sep_inject [OF y y]) simp
qed

lemma rekey_token_claim: "rekey_token c e n \<noteq> claim_token x c"
proof
  assume "rekey_token c e n = claim_token x c"
  then have "show_int e @ ''-rekey'' @ show_nat n = show_int (cs_latest_epoch x)"
    by (simp add: rekey_token_def claim_token_def)
  then have "CHR ''r'' \<in> set (show_int (cs_latest_epoch x))" by (metis Un_iff list.set_intros set_append)
  then show False using not_in_show [of "CHR ''r''"] by (simp add: is_digit_def)
qed

end
