(* ===== verification/Hub_Apply.thy ===== *)
theory Hub_Apply
  imports Hub_Queue
begin

text \<open>
  The apply path of \<^verbatim>\<open>MockHubService\<close> (\<^verbatim>\<open>src/blizzard_mock/mock_hub/domain/service.py\<close>): a
  completion advances the chunk along its graph, fenced by epoch and idempotent per node and
  epoch; a decision parks it; a hub node is driven to done; questions are read and answered. The
  lemmas characterise what an accepted completion writes, that a refused one writes nothing, and
  that a repeated one moves nothing.
\<close>

section \<open>Moving along the graph\<close>

definition fail_response :: "string \<Rightarrow> apply_response" where
  "fail_response detail = \<lparr>ap_outcome = AO_FAILURE, ap_next_envelope = None, ap_detail = Some detail\<rparr>"

definition resolve_choice :: "node_spec \<Rightarrow> string \<Rightarrow> string option" where
  "resolve_choice node choice = map_option ch_to (find (\<lambda>ch. ch_name ch = choice) (nd_choices node))"

definition advance :: "chunk_state \<Rightarrow> string \<Rightarrow> (hub_error + apply_response) \<times> chunk_state" where
  "advance chunk target =
     (if target = TERMINAL then
        (Inr \<lparr>ap_outcome = AO_DONE, ap_next_envelope = None, ap_detail = Some ''reached terminal''\<rparr>,
         chunk\<lparr>cs_status := ST_DONE, cs_current_node_id := Some TERMINAL\<rparr>)
      else case cs_node chunk target of
        None \<Rightarrow> (Inr (fail_response (''choice points at unknown node '' @ py_repr target)), chunk)
      | Some node \<Rightarrow>
          if nd_executor node = EX_HUB then
            (Inr \<lparr>ap_outcome = AO_HUB_NODE_TAKEN, ap_next_envelope = None, ap_detail = Some ''hub node took over''\<rparr>,
             chunk\<lparr>cs_current_node_id := Some target, cs_status := ST_DONE\<rparr>)
          else
            (let chunk' = chunk\<lparr>cs_current_node_id := Some target, cs_status := ST_RUNNING\<rparr>
             in (map_sum id (\<lambda>env. \<lparr>ap_outcome = AO_NEXT, ap_next_envelope = Some env, ap_detail = None\<rparr>)
                   (envelope_of chunk' target (cs_latest_epoch chunk')), chunk')))"

definition rebuild :: "chunk_state \<Rightarrow> apply_outcome \<Rightarrow> hub_error + apply_response" where
  "rebuild chunk outcome =
     (case cs_current_node_id chunk of
        Some node_id \<Rightarrow>
          if outcome = AO_NEXT then
            map_sum id (\<lambda>env. \<lparr>ap_outcome = outcome, ap_next_envelope = Some env, ap_detail = None\<rparr>)
              (envelope_of chunk node_id (cs_latest_epoch chunk))
          else Inr \<lparr>ap_outcome = outcome, ap_next_envelope = None, ap_detail = Some ''idempotent re-apply''\<rparr>
      | None \<Rightarrow> Inr \<lparr>ap_outcome = outcome, ap_next_envelope = None, ap_detail = Some ''idempotent re-apply''\<rparr>)"

definition open_question_ids :: "hub \<Rightarrow> chunk_state \<Rightarrow> int \<Rightarrow> string list" where
  "open_question_ids h chunk epoch =
     map qs_question_id (filter (\<lambda>q. qs_chunk_id q = cs_chunk_id chunk \<and> qs_epoch q = epoch \<and> \<not> qs_answered q)
       (list_questions h))"

definition hub_incoherent_attempt :: "hub \<Rightarrow> chunk_state \<Rightarrow> string \<Rightarrow> int \<Rightarrow> string option" where
  "hub_incoherent_attempt h chunk from_node_id epoch =
     incoherent_attempt chunk from_node_id epoch (open_question_ids h chunk epoch)"

section \<open>Completion\<close>

definition apply_key :: "string \<Rightarrow> int \<Rightarrow> string" where
  "apply_key from_node_id epoch = from_node_id @ ''#'' @ show_int epoch"

definition stale_detail :: "chunk_state \<Rightarrow> int \<Rightarrow> string" where
  "stale_detail chunk epoch = ''stale epoch '' @ show_int epoch @ '' < '' @ show_int (cs_latest_epoch chunk)"

text \<open>The target a completion moves to, or the detail of its refusal, the checks in source order.\<close>

definition completion_target :: "hub \<Rightarrow> chunk_state \<Rightarrow> int \<Rightarrow> string \<Rightarrow> string \<Rightarrow> string + string" where
  "completion_target h chunk epoch from_node_id choice =
     (if epoch < cs_latest_epoch chunk then Inl (stale_detail chunk epoch)
      else case hub_incoherent_attempt h chunk from_node_id epoch of
        Some detail \<Rightarrow> Inl detail
      | None \<Rightarrow>
     (case cs_node chunk from_node_id of
        None \<Rightarrow> Inl (''unknown node '' @ py_repr from_node_id)
      | Some node \<Rightarrow>
     (case hub_executed chunk from_node_id of
        Some detail \<Rightarrow> Inl detail
      | None \<Rightarrow>
     (case resolve_choice node choice of
        None \<Rightarrow> Inl (''unknown choice '' @ py_repr choice @ '' at '' @ py_repr from_node_id)
      | Some target \<Rightarrow> Inr target))))"

definition applied_row :: "string \<Rightarrow> apply_response \<Rightarrow> chunk_state \<Rightarrow> chunk_state" where
  "applied_row key response chunk =
     chunk\<lparr>cs_applied := dset key (ap_outcome response) (cs_applied chunk), cs_last_response := Some response\<rparr>"

definition complete_chunk :: "chunk_state \<Rightarrow> int \<Rightarrow> string \<Rightarrow> string \<Rightarrow> hub \<Rightarrow> apply_response result" where
  "complete_chunk chunk epoch from_node_id choice h =
     (case dget (cs_applied chunk) (apply_key from_node_id epoch) of
        Some outcome \<Rightarrow> (rebuild chunk outcome, h)
      | None \<Rightarrow>
     (case completion_target h chunk epoch from_node_id choice of
        Inl detail \<Rightarrow> (Inr (fail_response detail), h)
      | Inr target \<Rightarrow>
     (case advance chunk target of
        (Inl e, chunk') \<Rightarrow> (Inl e, put_chunk chunk' h)
      | (Inr response, chunk') \<Rightarrow>
          (Inr response, put_chunk (applied_row (apply_key from_node_id epoch) response chunk') h))))"

definition apply_completion :: "string \<Rightarrow> int \<Rightarrow> string \<Rightarrow> string \<Rightarrow> hub \<Rightarrow> apply_response result" where
  "apply_completion chunk_id epoch from_node_id choice h =
     (case require h chunk_id of
        Inl e \<Rightarrow> (Inl e, h)
      | Inr chunk \<Rightarrow>
     (case check_pinned_graph chunk_id h of
        (Inl e, h1) \<Rightarrow> (Inl e, h1)
      | (Inr _, h1) \<Rightarrow>
     (case (find_armed REPLAY chunk_id h1, cs_last_response chunk) of
        (Some replay, Some previous) \<Rightarrow> (Inr previous, consume_armed replay h1)
      | _ \<Rightarrow> complete_chunk chunk epoch from_node_id choice h1)))"

section \<open>Decision and hub advance\<close>

definition apply_decision :: "string \<Rightarrow> int \<Rightarrow> string \<Rightarrow> hub \<Rightarrow> apply_response result" where
  "apply_decision chunk_id epoch from_node_id h =
     (case require h chunk_id of
        Inl e \<Rightarrow> (Inl e, h)
      | Inr chunk \<Rightarrow>
     (case check_pinned_graph chunk_id h of
        (Inl e, h1) \<Rightarrow> (Inl e, h1)
      | (Inr _, h1) \<Rightarrow>
          if epoch < cs_latest_epoch chunk then (Inr (fail_response (stale_detail chunk epoch)), h1)
          else case hub_incoherent_attempt h1 chunk from_node_id epoch of
                 Some detail \<Rightarrow> (Inr (fail_response detail), h1)
               | None \<Rightarrow>
                   (Inr \<lparr>ap_outcome = AO_PARKED_AT_GATE, ap_next_envelope = None, ap_detail = Some ''parked at gate''\<rparr>,
                    put_chunk (chunk\<lparr>cs_status := ST_NEEDS_HUMAN\<rparr>) h1)))"

definition parked_at_hub_node :: "chunk_state \<Rightarrow> bool" where
  "parked_at_hub_node chunk =
     (case Option.bind (cs_current_node_id chunk) (cs_node chunk) of
        None \<Rightarrow> False
      | Some node \<Rightarrow> nd_executor node = EX_HUB \<and> cs_status chunk \<noteq> ST_DONE)"

definition hub_advance :: "string \<Rightarrow> hub \<Rightarrow> hub_advance_response result" where
  "hub_advance chunk_id h =
     (case require h chunk_id of
        Inl e \<Rightarrow> (Inl e, h)
      | Inr chunk \<Rightarrow>
     (case check_pinned_graph chunk_id h of
        (Inl e, h1) \<Rightarrow> (Inl e, h1)
      | (Inr _, h1) \<Rightarrow>
          if \<not> parked_at_hub_node chunk then
            (Inr \<lparr>ha_chunk_id = chunk_id, ha_status = status_value (cs_status chunk), ha_ran = False,
                  ha_detail = ''not parked at a hub command node''\<rparr>, h1)
          else
            (Inr \<lparr>ha_chunk_id = chunk_id, ha_status = status_value ST_DONE, ha_ran = True,
                  ha_detail = ''hub node advanced to done''\<rparr>,
             put_chunk (chunk\<lparr>cs_status := ST_DONE\<rparr>) h1)))"

definition pop_drop_ack :: "string \<Rightarrow> hub \<Rightarrow> bool \<times> hub" where
  "pop_drop_ack chunk_id h =
     (case find_armed DROP_ACK chunk_id h of None \<Rightarrow> (False, h) | Some l \<Rightarrow> (True, consume_armed l h))"

section \<open>Questions\<close>

definition question_view_read :: "hub \<Rightarrow> string \<Rightarrow> string \<Rightarrow> hub_error + question_view" where
  "question_view_read h question_id runner_id =
     (case get_question h question_id of
        None \<Rightarrow> Inl (QuestionNotFound (''unknown question '' @ question_id))
      | Some q \<Rightarrow>
          (case require_runner_chunk h (qs_chunk_id q) runner_id of
             Inl (ChunkNotFound m) \<Rightarrow> Inl (QuestionNotFound (''unknown question '' @ question_id))
           | Inl e \<Rightarrow> Inl e
           | Inr _ \<Rightarrow> Inr (question_view_of h q)))"

definition answer_question :: "env \<Rightarrow> string \<Rightarrow> string \<Rightarrow> string \<Rightarrow> hub \<Rightarrow> unit result" where
  "answer_question \<E> question_id answer answered_by h =
     (case get_question h question_id of
        None \<Rightarrow> (Inl (QuestionNotFound (''unknown question '' @ question_id)), h)
      | Some q \<Rightarrow>
          (Inr (), put_question (q\<lparr>qs_answered := True, qs_answer := Some answer,
             qs_answered_by := Some answered_by, qs_answered_at := Some (isoformat (env_now \<E>))\<rparr>) h))"

section \<open>What a completion writes\<close>

lemma apply_key_inj [simp]: "apply_key n e = apply_key n' e' \<longleftrightarrow> n = n' \<and> e = e'"
  using append_sep_inject [of "CHR ''#''" "show_int e" "show_int e'" n n'] by (simp add: apply_key_def)

text \<open>The fields an advance may change.\<close>

lemma advance_row:
  "\<exists>s n. snd (advance chunk target) = chunk\<lparr>cs_status := s, cs_current_node_id := n\<rparr> \<and>
     (s = cs_status chunk \<or> s \<in> {ST_RUNNING, ST_DONE}) \<and> (cs_current_node_id chunk \<noteq> None \<longrightarrow> n \<noteq> None)"
proof (cases "target = TERMINAL")
  case True
  then show ?thesis by (intro exI [of _ ST_DONE] exI [of _ "Some TERMINAL"]) (simp add: advance_def)
next
  case False
  show ?thesis
  proof (cases "cs_node chunk target")
    case None
    with False show ?thesis
      by (intro exI [of _ "cs_status chunk"] exI [of _ "cs_current_node_id chunk"]) (simp add: advance_def)
  next
    case (Some node)
    with False show ?thesis
      by (intro exI [of _ "if nd_executor node = EX_HUB then ST_DONE else ST_RUNNING"] exI [of _ "Some target"])
        (simp add: advance_def Let_def)
  qed
qed

lemma advance_Inr: "\<exists>resp. fst (advance chunk target) = Inr resp"
  by (auto simp: advance_def Let_def envelope_of_def cs_node_def split: option.splits)

lemma complete_chunk_cases:
  assumes "complete_chunk chunk e n ch h = (res, h')"
  obtains (replayed) outcome where "dget (cs_applied chunk) (apply_key n e) = Some outcome"
      "res = rebuild chunk outcome" "h' = h"
    | (refused) detail where "dget (cs_applied chunk) (apply_key n e) = None"
      "completion_target h chunk e n ch = Inl detail" "res = Inr (fail_response detail)" "h' = h"
    | (moved) target resp chunk' where "dget (cs_applied chunk) (apply_key n e) = None"
      "completion_target h chunk e n ch = Inr target" "advance chunk target = (Inr resp, chunk')"
      "res = Inr resp" "h' = put_chunk (applied_row (apply_key n e) resp chunk') h"
proof (cases "dget (cs_applied chunk) (apply_key n e)")
  case (Some outcome)
  with assms show ?thesis by (intro replayed) (auto simp: complete_chunk_def)
next
  case None
  show ?thesis
  proof (cases "completion_target h chunk e n ch")
    case (Inl detail)
    with None assms show ?thesis by (intro refused) (auto simp: complete_chunk_def)
  next
    case (Inr target)
    obtain resp chunk' where adv: "advance chunk target = (Inr resp, chunk')"
      using advance_Inr [of chunk target] by (metis prod.collapse)
    with None Inr assms have "res = Inr resp" "h' = put_chunk (applied_row (apply_key n e) resp chunk') h"
      by (simp_all add: complete_chunk_def)
    with None Inr adv show ?thesis by (rule moved)
  qed
qed

lemma completion_target_Inr:
  assumes "completion_target h chunk e n ch = Inr target"
  shows "cs_latest_epoch chunk \<le> e \<and> (cs_current_node_id chunk = None \<or> cs_current_node_id chunk = Some n) \<and>
    map_option es_epoch (cs_escalation chunk) \<noteq> Some e \<and> open_question_ids h chunk e = [] \<and>
    (\<exists>node. cs_node chunk n = Some node \<and> nd_executor node \<noteq> EX_HUB \<and>
       (\<exists>choice \<in> set (nd_choices node). ch_name choice = ch \<and> ch_to choice = target))"
  using assms
  by (auto simp: completion_target_def hub_incoherent_attempt_def incoherent_attempt_def hub_executed_def
      resolve_choice_def find_Some_iff split: if_splits option.splits list.splits intro!: bexI nth_mem)

text \<open>The whole handler: levers taken, or one of the three ways a completion goes.\<close>

lemma apply_completion_unlevered:
  assumes "get_chunk h c = Some chunk" "find_armed PINNED_GRAPH_MISSING c h = None" "find_armed REPLAY c h = None"
  shows "apply_completion c e n ch h = complete_chunk chunk e n ch h"
  using assms by (simp add: apply_completion_def require_def check_pinned_graph_def)

lemma apply_completion_cases:
  assumes "apply_completion c e n ch h = (res, h')"
  shows "levers_only h h' \<or>
    (\<exists>chunk h1. get_chunk h c = Some chunk \<and> levers_only h h1 \<and> complete_chunk chunk e n ch h1 = (res, h'))"
  using assms
  by (auto simp: apply_completion_def require_def split: option.splits prod.splits sum.splits
      dest!: pinned_levers_only intro: levers_only_trans)

lemma rebuild_moved:
  assumes "advance chunk target = (Inr resp, chunk')"
  shows "\<exists>resp'. rebuild (applied_row key resp chunk') (ap_outcome resp) = Inr resp' \<and>
    ap_outcome resp' = ap_outcome resp \<and> ap_next_envelope resp' = ap_next_envelope resp"
proof (cases "target = TERMINAL")
  case True
  with assms show ?thesis by (auto simp: advance_def rebuild_def applied_row_def)
next
  case False
  show ?thesis
  proof (cases "cs_node chunk target")
    case None
    with assms False show ?thesis
      by (cases "cs_current_node_id chunk")
        (auto simp: advance_def rebuild_def applied_row_def fail_response_def)
  next
    case (Some node)
    have same: "envelope_of (applied_row key r c) n e = envelope_of c n e" for r c n e
      by (simp add: envelope_of_def applied_row_def cs_node_def split: option.splits)
    from Some have node: "cs_node (chunk\<lparr>cs_current_node_id := x, cs_status := y\<rparr>) target = Some node" for x y
      by (simp add: cs_node_def)
    show ?thesis
    proof (cases "nd_executor node = EX_HUB")
      case True
      with assms False Some show ?thesis by (auto simp: advance_def rebuild_def applied_row_def)
    next
      case run: False
      let ?c = "chunk\<lparr>cs_current_node_id := Some target, cs_status := ST_RUNNING\<rparr>"
      obtain env where env: "envelope_of ?c target (cs_latest_epoch chunk) = Inr env"
        using envelope_of_Inr_iff [of ?c target "cs_latest_epoch chunk"] node by auto
      with assms False Some run have "chunk' = ?c"
        "resp = \<lparr>ap_outcome = AO_NEXT, ap_next_envelope = Some env, ap_detail = None\<rparr>"
        by (auto simp: advance_def Let_def)
      with env show ?thesis
        using same [of "\<lparr>ap_outcome = AO_NEXT, ap_next_envelope = Some env, ap_detail = None\<rparr>" ?c]
        by (simp add: rebuild_def) (simp add: applied_row_def)
    qed
  qed
qed

end
