(* ===== verification/Hub_Facts.thy ===== *)
theory Hub_Facts
  imports Hub_Queue "HOL-Library.Multiset"
begin

text \<open>
  Fact intake of \<^verbatim>\<open>MockHubService\<close> (\<^verbatim>\<open>src/blizzard_mock/mock_hub/domain/service.py\<close>): the
  runner's and the host's batched lanes, each with its own high-water mark, every fact kind, and
  the subscription usage views built from what was reported. An exception in the middle of a
  batch leaves the facts before it applied and the mark unwritten. The locale \<open>mark_rule\<close> is
  what the lane needs of the way a lane moves its mark; both lanes interpret it.

  Two parsers of the Python side are parameters: \<open>pr_instant\<close> stands for
  \<^verbatim>\<open>datetime.fromisoformat\<close> read as a UTC instant, \<open>pr_resets\<close> for the datetime field of the
  usage window model, as the ISO text the hub stores for it.
\<close>

section \<open>The fact vocabulary\<close>

record parsers =
  pr_instant :: "string \<Rightarrow> instant option"
  pr_resets :: "json \<Rightarrow> string option"

definition LEASE_MINTED :: string where "LEASE_MINTED = ''lease.minted''"
definition ESCALATION_RECORDED :: string where "ESCALATION_RECORDED = ''escalation.recorded''"
definition QUESTION_ASKED :: string where "QUESTION_ASKED = ''question.asked''"
definition ANSWER_DELIVERED :: string where "ANSWER_DELIVERED = ''answer.delivered''"
definition RUNNER_LOCALLY_PAUSED :: string where "RUNNER_LOCALLY_PAUSED = ''runner.locally_paused''"
definition RUNNER_LOCALLY_RESUMED :: string where "RUNNER_LOCALLY_RESUMED = ''runner.locally_resumed''"
definition USAGE_RECORDED :: string where "USAGE_RECORDED = ''usage.recorded''"
definition EVENT_RECORDED :: string where "EVENT_RECORDED = ''event.recorded''"
definition USAGE_SAMPLED :: string where "USAGE_SAMPLED = ''external_subscription_usage.sampled''"
definition USAGE_MISSED :: string where "USAGE_MISSED = ''external_subscription_usage.missed''"

lemmas fact_kinds = LEASE_MINTED_def ESCALATION_RECORDED_def QUESTION_ASKED_def ANSWER_DELIVERED_def
  RUNNER_LOCALLY_PAUSED_def RUNNER_LOCALLY_RESUMED_def USAGE_RECORDED_def EVENT_RECORDED_def
  USAGE_SAMPLED_def USAGE_MISSED_def

record fact =
  ft_seq :: int
  ft_kind :: string
  ft_payload :: payload

section \<open>Fence and escalation\<close>

text \<open>The fence moves before the runner's tenant is read, so an unknown runner's fact raises with
  the fence moved.\<close>

definition advance_fence :: "chunk_state \<Rightarrow> int \<Rightarrow> string \<Rightarrow> hub \<Rightarrow> unit result" where
  "advance_fence chunk epoch runner_id h =
     (let chunk' = chunk\<lparr>cs_latest_epoch := max (cs_latest_epoch chunk) epoch\<rparr>;
          h' = put_chunk chunk' h
      in case added h runner_id of
           Inl e \<Rightarrow> (Inl e, h')
         | Inr row \<Rightarrow>
             (Inr (), h'\<lparr>hub_epoch_owners :=
                dsetdefault (rn_tenant_id row, cs_chunk_id chunk, epoch) runner_id (hub_epoch_owners h')\<rparr>))"

definition fence_refusal :: "chunk_state \<Rightarrow> int \<Rightarrow> string option" where
  "fence_refusal chunk epoch =
     (if ended chunk then Some ''chunk is terminal''
      else if cs_latest_epoch chunk \<noteq> 0 \<and> epoch < cs_latest_epoch chunk then
        Some (''stale epoch '' @ show_int epoch @ ''; chunk is at '' @ show_int (cs_latest_epoch chunk))
      else None)"

definition record_escalation ::
  "chunk_state \<Rightarrow> int \<Rightarrow> string \<Rightarrow> string \<Rightarrow> string option \<Rightarrow> string option \<Rightarrow> hub \<Rightarrow> hub" where
  "record_escalation chunk epoch takeover wrapped cause detail h =
     put_chunk (chunk\<lparr>cs_escalation := Some \<lparr>es_epoch = epoch, es_takeover_command = takeover,
        es_wrapped_takeover_command = wrapped, es_cause = cause, es_detail = detail\<rparr>\<rparr>) h"

section \<open>Usage payloads\<close>

definition parse_instant :: "parsers \<Rightarrow> env \<Rightarrow> json option \<Rightarrow> instant" where
  "parse_instant \<P> \<E> v =
     (case v of
        Some (JStr s) \<Rightarrow> (case pr_instant \<P> s of None \<Rightarrow> env_now \<E> | Some t \<Rightarrow> t)
      | _ \<Rightarrow> env_now \<E>)"

text \<open>The strict window model: \<open>None\<close> is the validation error that drops the entry.\<close>

definition strict_str :: "json option \<Rightarrow> string option" where
  "strict_str v = (case v of Some (JStr s) \<Rightarrow> Some s | _ \<Rightarrow> None)"

definition strict_pct :: "json option \<Rightarrow> rat option" where
  "strict_pct v =
     (case v of
        Some (JInt i) \<Rightarrow> if 0 \<le> i \<and> i \<le> 100 then Some (of_int i) else None
      | Some (JFloat x _) \<Rightarrow> if 0 \<le> x \<and> x \<le> 100 then Some x else None
      | _ \<Rightarrow> None)"

definition strict_positive :: "json option \<Rightarrow> int option" where
  "strict_positive v = (case v of Some (JInt i) \<Rightarrow> if 0 < i then Some i else None | _ \<Rightarrow> None)"

definition usage_window_of :: "parsers \<Rightarrow> json \<Rightarrow> usage_window option" where
  "usage_window_of \<P> entry =
     (case entry of
        JObj p \<Rightarrow>
          (case (strict_str (dget p ''window''), strict_pct (dget p ''utilization_pct''),
                 Option.bind (dget p ''resets_at'') (pr_resets \<P>), strict_positive (dget p ''window_seconds'')) of
             (Some w, Some u, Some r, Some s) \<Rightarrow>
               Some \<lparr>uw_window = w, uw_utilization_pct = u, uw_resets_at = r, uw_window_seconds = s\<rparr>
           | _ \<Rightarrow> None)
      | _ \<Rightarrow> None)"

definition usage_windows :: "parsers \<Rightarrow> payload \<Rightarrow> usage_window list" where
  "usage_windows \<P> p =
     (case dget p ''windows'' of Some (JList es) \<Rightarrow> List.map_filter (usage_window_of \<P>) es | _ \<Rightarrow> [])"

text \<open>\<^verbatim>\<open>str(v) if v else default\<close>\<close>

definition text_or :: "json option \<Rightarrow> string \<Rightarrow> string" where
  "text_or v dflt = (case v of None \<Rightarrow> dflt | Some j \<Rightarrow> if json_truthy j then json_str j else dflt)"

definition usage_view :: "parsers \<Rightarrow> env \<Rightarrow> payload \<Rightarrow> string \<Rightarrow> subscription_usage_view" where
  "usage_view \<P> \<E> p slug =
     \<lparr>us_slug = slug, us_name = text_or (dget p ''name'') slug,
      us_sampled_at = Some (isoformat (parse_instant \<P> \<E> (dget p ''sampled_at''))),
      us_windows = usage_windows \<P> p, us_condition = None, us_miss_reason = None, us_missed_at = None\<rparr>"

definition usage_miss_of :: "parsers \<Rightarrow> env \<Rightarrow> payload \<Rightarrow> string \<Rightarrow> usage_miss" where
  "usage_miss_of \<P> \<E> p slug =
     \<lparr>um_slug = slug, um_name = text_or (dget p ''name'') slug,
      um_missed_at = parse_instant \<P> \<E> (dget p ''missed_at''), um_reason = text_or (dget p ''reason'') []\<rparr>"

definition usage_slug :: "payload \<Rightarrow> string option" where
  "usage_slug p = (case dget p ''slug'' of Some (JStr s) \<Rightarrow> if s = [] then None else Some s | _ \<Rightarrow> None)"

section \<open>The fact kinds\<close>

definition apply_lease_minted :: "string \<Rightarrow> payload \<Rightarrow> hub \<Rightarrow> bool result" where
  "apply_lease_minted runner_id p h =
     (case get_chunk h (get_str p ''chunk_id'' []) of
        None \<Rightarrow> (Inr True, h)
      | Some chunk \<Rightarrow>
          (case get_int p ''epoch'' 0 of
             None \<Rightarrow> (Inl ConversionError, h)
           | Some epoch \<Rightarrow>
               (case advance_fence chunk epoch runner_id h of
                  (Inl e, h') \<Rightarrow> (Inl e, h')
                | (Inr _, h') \<Rightarrow> (Inr True, h'))))"

definition apply_escalation :: "payload \<Rightarrow> hub \<Rightarrow> bool result" where
  "apply_escalation p h =
     (case get_chunk h (get_str p ''chunk_id'' []) of
        None \<Rightarrow> (Inr True, h)
      | Some chunk \<Rightarrow>
          (case get_int p ''epoch'' 0 of
             None \<Rightarrow> (Inl ConversionError, h)
           | Some epoch \<Rightarrow>
               if fence_refusal chunk epoch \<noteq> None then (Inr False, h)
               else (Inr True,
                 record_escalation chunk epoch (get_str p ''takeover_command'' [])
                   (get_str p ''wrapped_takeover_command'' []) (get_optional_text p ''cause'')
                   (get_optional_text p ''detail'') h)))"

text \<open>The optional text fields and the options of the question model; \<open>None\<close> is a validation error.\<close>

definition optional_str :: "json option \<Rightarrow> string option option" where
  "optional_str v = (case v of None \<Rightarrow> Some None | Some JNull \<Rightarrow> Some None | Some (JStr s) \<Rightarrow> Some (Some s) | _ \<Rightarrow> None)"

definition all_strs :: "json list \<Rightarrow> string list option" where
  "all_strs js =
     (if list_all (\<lambda>j. case j of JStr s \<Rightarrow> True | _ \<Rightarrow> False) js
      then Some (map (\<lambda>j. case j of JStr s \<Rightarrow> s | _ \<Rightarrow> []) js) else None)"

definition question_options :: "json option \<Rightarrow> string list option" where
  "question_options v =
     (case v of
        None \<Rightarrow> Some []
      | Some j \<Rightarrow>
          if \<not> json_truthy j then Some []
          else (case j of
                  JList js \<Rightarrow> all_strs js
                | JStr s \<Rightarrow> Some (map (\<lambda>c. [c]) s)
                | JObj kvs \<Rightarrow> Some (map fst kvs)
                | _ \<Rightarrow> None))"

definition question_of :: "string \<Rightarrow> string \<Rightarrow> string \<Rightarrow> int \<Rightarrow> payload \<Rightarrow> question_state option" where
  "question_of question_id chunk_id runner_id epoch p =
     (case (optional_str (dget p ''node_id''), optional_str (dget p ''session_id''),
            optional_str (dget p ''harness_id''), question_options (dget p ''options'')) of
        (Some n, Some s, Some hn, Some os) \<Rightarrow>
          Some \<lparr>qs_question_id = question_id, qs_chunk_id = chunk_id, qs_node_id = n, qs_session_id = s,
                qs_harness_id = hn, qs_runner_id = runner_id, qs_epoch = epoch,
                qs_question = get_str p ''question'' [], qs_options = os,
                qs_asked_at = get_str p ''asked_at'' [], qs_answered = False, qs_answer = None,
                qs_answered_by = None, qs_answered_at = None, qs_delivered = False, qs_delivered_at = None\<rparr>
      | _ \<Rightarrow> None)"

text \<open>A question on a chunk past its fence is refused, unless the question is already held.\<close>

definition question_fenced :: "hub \<Rightarrow> string \<Rightarrow> string \<Rightarrow> int \<Rightarrow> bool" where
  "question_fenced h question_id chunk_id epoch =
     (case get_chunk h chunk_id of
        None \<Rightarrow> False
      | Some chunk \<Rightarrow> get_question h question_id = None \<and> fence_refusal chunk epoch \<noteq> None)"

definition apply_question_asked :: "string \<Rightarrow> payload \<Rightarrow> hub \<Rightarrow> bool result" where
  "apply_question_asked runner_id p h =
     (let question_id = get_str p ''question_id'' []; chunk_id = get_str p ''chunk_id'' []
      in if question_id = [] \<or> chunk_id = [] then (Inr False, h)
         else case get_int p ''epoch'' 0 of
                None \<Rightarrow> (Inl ConversionError, h)
              | Some epoch \<Rightarrow>
                  if question_fenced h question_id chunk_id epoch then (Inr False, h)
                  else (case question_of question_id chunk_id runner_id epoch p of
                          None \<Rightarrow> (Inl ConversionError, h)
                        | Some q \<Rightarrow> (Inr True, put_question q h)))"

definition apply_answer_delivered :: "env \<Rightarrow> payload \<Rightarrow> hub \<Rightarrow> bool result" where
  "apply_answer_delivered \<E> p h =
     (case get_question h (get_str p ''question_id'' []) of
        None \<Rightarrow> (Inr False, h)
      | Some q \<Rightarrow>
          if delivery_refusal q (get_str p ''chunk_id'' []) \<noteq> None then (Inr False, h)
          else if qs_delivered q then (Inr True, h)
          else (Inr True,
            put_question (q\<lparr>qs_delivered := True, qs_delivered_at := Some (isoformat (env_now \<E>))\<rparr>) h))"

definition apply_locally_paused :: "string \<Rightarrow> payload \<Rightarrow> hub \<Rightarrow> bool result" where
  "apply_locally_paused runner_id p h =
     (Inr True, put_reported runner_id
        ((reported_facts_of h runner_id)\<lparr>rf_locally_paused := True,
           rf_locally_paused_by := Some (get_str p ''by'' ''operator''),
           rf_locally_paused_reason := dget_or p ''reason'' JNull\<rparr>) h)"

definition apply_locally_resumed :: "string \<Rightarrow> hub \<Rightarrow> bool result" where
  "apply_locally_resumed runner_id h =
     (Inr True, put_reported runner_id
        ((reported_facts_of h runner_id)\<lparr>rf_locally_paused := False, rf_locally_paused_by := None,
           rf_locally_paused_reason := JNull\<rparr>) h)"

definition apply_usage_sampled :: "parsers \<Rightarrow> env \<Rightarrow> string \<Rightarrow> payload \<Rightarrow> hub \<Rightarrow> bool result" where
  "apply_usage_sampled \<P> \<E> runner_id p h =
     (case usage_slug p of
        None \<Rightarrow> (Inr False, h)
      | Some slug \<Rightarrow>
          (let r = reported_facts_of h runner_id
           in (Inr True, put_reported runner_id
                 (r\<lparr>rf_subscription_usage := dset slug (usage_view \<P> \<E> p slug) (rf_subscription_usage r)\<rparr>) h)))"

definition apply_usage_missed :: "parsers \<Rightarrow> env \<Rightarrow> string \<Rightarrow> payload \<Rightarrow> hub \<Rightarrow> bool result" where
  "apply_usage_missed \<P> \<E> runner_id p h =
     (case usage_slug p of
        None \<Rightarrow> (Inr False, h)
      | Some slug \<Rightarrow>
          (let r = reported_facts_of h runner_id
           in (Inr True, put_reported runner_id
                 (r\<lparr>rf_subscription_usage_misses :=
                     dset slug (usage_miss_of \<P> \<E> p slug) (rf_subscription_usage_misses r)\<rparr>) h)))"

definition apply_fact :: "parsers \<Rightarrow> env \<Rightarrow> string \<Rightarrow> string \<Rightarrow> payload \<Rightarrow> hub \<Rightarrow> bool result" where
  "apply_fact \<P> \<E> runner_id kind p h =
     (if kind = LEASE_MINTED then apply_lease_minted runner_id p h
      else if kind = ESCALATION_RECORDED then apply_escalation p h
      else if kind = QUESTION_ASKED then apply_question_asked runner_id p h
      else if kind = ANSWER_DELIVERED then apply_answer_delivered \<E> p h
      else if kind = RUNNER_LOCALLY_PAUSED then apply_locally_paused runner_id p h
      else if kind = RUNNER_LOCALLY_RESUMED then apply_locally_resumed runner_id h
      else if kind = USAGE_SAMPLED then apply_usage_sampled \<P> \<E> runner_id p h
      else if kind = USAGE_MISSED then apply_usage_missed \<P> \<E> runner_id p h
      else (Inr (kind = USAGE_RECORDED \<or> kind = EVENT_RECORDED), h))"

section \<open>The host's facts\<close>

definition host_of :: "hub \<Rightarrow> string \<Rightarrow> hub_error + host_row" where
  "host_of h host_id = (case get_host h host_id of None \<Rightarrow> Inl (UnknownHost host_id) | Some r \<Rightarrow> Inr r)"

definition host_fact_row :: "parsers \<Rightarrow> env \<Rightarrow> string \<Rightarrow> payload \<Rightarrow> host_row \<Rightarrow> host_row option" where
  "host_fact_row \<P> \<E> kind p row =
     (if kind = USAGE_SAMPLED then
        (case usage_slug p of
           None \<Rightarrow> None
         | Some slug \<Rightarrow>
             Some (row\<lparr>hs_subscription_usage := dset slug (usage_view \<P> \<E> p slug) (hs_subscription_usage row)\<rparr>))
      else if kind = USAGE_MISSED then
        (case (usage_slug p, dget p ''reason'') of
           (Some slug, Some (JStr reason)) \<Rightarrow>
             if strip reason = [] then None
             else Some (row\<lparr>hs_subscription_usage_misses :=
                    dset slug (usage_miss_of \<P> \<E> p slug) (hs_subscription_usage_misses row)\<rparr>)
         | _ \<Rightarrow> None)
      else None)"

definition apply_host_fact :: "parsers \<Rightarrow> env \<Rightarrow> string \<Rightarrow> string \<Rightarrow> payload \<Rightarrow> hub \<Rightarrow> bool result" where
  "apply_host_fact \<P> \<E> host_id kind p h =
     (case Option.bind (get_host h host_id) (host_fact_row \<P> \<E> kind p) of
        None \<Rightarrow> (Inr False, h)
      | Some row' \<Rightarrow> (Inr True, put_host row' h))"

section \<open>The lanes\<close>

text \<open>The loop both lanes run over their sorted batch. \<open>bump\<close> is the lane's mark update; the
  accumulators are the acknowledgement's three lists in source order.\<close>

fun ack_loop ::
  "(fact \<Rightarrow> hub \<Rightarrow> bool result) \<Rightarrow> (int \<Rightarrow> int \<Rightarrow> int) \<Rightarrow> int \<Rightarrow> int list \<Rightarrow> int list \<Rightarrow> int list
     \<Rightarrow> fact list \<Rightarrow> hub \<Rightarrow> (int \<times> int list \<times> int list \<times> int list) result" where
  "ack_loop app bump mark ap al rj [] h = (Inr (mark, ap, al, rj), h)"
| "ack_loop app bump mark ap al rj (f # fs) h =
     (if ft_seq f \<le> mark then ack_loop app bump mark ap (al @ [ft_seq f]) rj fs h
      else case app f h of
             (Inl e, h') \<Rightarrow> (Inl e, h')
           | (Inr True, h') \<Rightarrow> ack_loop app bump (bump mark (ft_seq f)) (ap @ [ft_seq f]) al rj fs h'
           | (Inr False, h') \<Rightarrow> ack_loop app bump mark ap al (rj @ [ft_seq f]) fs h')"

definition ack_of :: "string \<Rightarrow> int \<times> int list \<times> int list \<times> int list \<Rightarrow> fact_ack" where
  "ack_of i r = (case r of (mark, ap, al, rj) \<Rightarrow>
     \<lparr>fa_id = i, fa_high_water = mark, fa_applied = ap, fa_already_applied = al, fa_rejected = rj\<rparr>)"

definition ingest_facts :: "parsers \<Rightarrow> env \<Rightarrow> string \<Rightarrow> fact list \<Rightarrow> hub \<Rightarrow> fact_ack result" where
  "ingest_facts \<P> \<E> runner_id facts h =
     (case ack_loop (\<lambda>f. apply_fact \<P> \<E> runner_id (ft_kind f) (ft_payload f)) max
             (dget_or (hub_fact_high_water h) runner_id 0) [] [] [] (sort_key ft_seq facts) h of
        (Inl e, h') \<Rightarrow> (Inl e, h')
      | (Inr r, h') \<Rightarrow>
          (Inr (ack_of runner_id r),
           h'\<lparr>hub_fact_high_water := dset runner_id (fst r) (hub_fact_high_water h')\<rparr>))"

definition ingest_host_facts :: "parsers \<Rightarrow> env \<Rightarrow> string \<Rightarrow> fact list \<Rightarrow> hub \<Rightarrow> fact_ack result" where
  "ingest_host_facts \<P> \<E> host_id facts h =
     (case host_of h host_id of
        Inl e \<Rightarrow> (Inl e, h)
      | Inr _ \<Rightarrow>
     (case ack_loop (\<lambda>f. apply_host_fact \<P> \<E> host_id (ft_kind f) (ft_payload f)) (\<lambda>mark seq. seq)
             (dget_or (hub_host_fact_high_water h) host_id 0) [] [] [] (sort_key ft_seq facts) h of
        (Inl e, h') \<Rightarrow> (Inl e, h')
      | (Inr r, h') \<Rightarrow>
          (Inr (ack_of host_id r),
           h'\<lparr>hub_host_fact_high_water := dset host_id (fst r) (hub_host_fact_high_water h')\<rparr>)))"

section \<open>What a lane promises\<close>

lemma sorted_wrt_imp_sorted_last:
  fixes xs :: "int list"
  shows "sorted_wrt (<) xs \<Longrightarrow> s \<in> set xs \<Longrightarrow> s \<le> last xs"
  by (induction xs) (auto simp: less_imp_le)

text \<open>A mark rule is only ever asked past the mark, and then moves it to the sequence number.\<close>

locale mark_rule =
  fixes bump :: "int \<Rightarrow> int \<Rightarrow> int"
  assumes bump_past: "mark < seq \<Longrightarrow> bump mark seq = seq"
begin

text \<open>Every fact of the batch is acknowledged exactly once.\<close>

lemma ack_partition:
  assumes "ack_loop app bump mark ap al rj fs h = (Inr (mark', ap', al', rj'), h')"
  shows "mset ap' + mset al' + mset rj' = mset ap + mset al + mset rj + mset (map ft_seq fs)"
  using assms
proof (induction fs arbitrary: mark ap al rj h)
  case (Cons f fs)
  then show ?case
    by (cases "app f h") (auto split: if_splits sum.splits bool.splits dest!: Cons.IH)
qed simp

text \<open>The mark never falls, and it is the largest number applied if any was.\<close>

lemma ack_mark:
  assumes "ack_loop app bump mark ap al rj fs h = (Inr (mark', ap', al', rj'), h')"
  shows "\<exists>new. ap' = ap @ new \<and> sorted_wrt (<) (mark # new) \<and> mark' = last (mark # new)"
  using assms
proof (induction fs arbitrary: mark ap al rj h)
  case (Cons f fs)
  show ?case
  proof (cases "ft_seq f \<le> mark")
    case True
    with Cons show ?thesis by auto
  next
    case False
    obtain r h1 where app: "app f h = (r, h1)" by fastforce
    show ?thesis
    proof (cases r)
      case (Inl e)
      with Cons.prems False app show ?thesis by simp
    next
      case (Inr b)
      show ?thesis
      proof (cases b)
        case True
        with Cons.prems False app Inr
        have "ack_loop app bump (ft_seq f) (ap @ [ft_seq f]) al rj fs h1 = (Inr (mark', ap', al', rj'), h')"
          by (simp add: bump_past)
        from Cons.IH [OF this] obtain new where
          "ap' = (ap @ [ft_seq f]) @ new" "sorted_wrt (<) (ft_seq f # new)" "mark' = last (ft_seq f # new)"
          by blast
        with False show ?thesis
          by (intro exI [of _ "ft_seq f # new"]) (auto simp: less_le_trans)
      next
        case b: False
        with Cons.prems False app Inr have "ack_loop app bump mark ap al (rj @ [ft_seq f]) fs h1 = (Inr (mark', ap', al', rj'), h')"
          by simp
        from Cons.IH [OF this] show ?thesis .
      qed
    qed
  qed
qed simp

lemma ack_mark_mono:
  assumes "ack_loop app bump mark ap al rj fs h = (Inr (mark', ap', al', rj'), h')"
  shows "mark \<le> mark'"
  using ack_mark [OF assms] by (auto simp: last_ConsR less_imp_le)

lemma ack_applied_bound:
  assumes "ack_loop app bump mark [] [] [] fs h = (Inr (mark', ap, al, rj), h')"
  shows "\<forall>s \<in> set ap. mark < s \<and> s \<le> mark'"
proof -
  from ack_mark [OF assms] have *: "sorted_wrt (<) (mark # ap)" "mark' = last (mark # ap)" by auto
  have "s \<le> last (mark # ap)" if "s \<in> set ap" for s
    using * that sorted_wrt_imp_sorted_last [of ap s] by (auto simp: last_ConsR)
  with * show ?thesis by auto
qed

lemma ack_already_bound:
  assumes "ack_loop app bump mark ap al rj fs h = (Inr (mark', ap', al', rj'), h')"
    and "\<forall>s \<in> set al. s \<le> mark"
  shows "\<forall>s \<in> set al'. s \<le> mark'"
  using assms
proof (induction fs arbitrary: mark ap al rj h)
  case (Cons f fs)
  obtain r h1 where app: "app f h = (r, h1)" by fastforce
  show ?case
  proof (cases "ft_seq f \<le> mark")
    case True
    then show ?thesis using Cons.prems Cons.IH [of mark ap "al @ [ft_seq f]" rj h] by auto
  next
    case False
    then have "bump mark (ft_seq f) = ft_seq f" by (simp add: bump_past)
    moreover have "\<forall>s \<in> set al. s \<le> ft_seq f" using False Cons.prems(2) by auto
    ultimately show ?thesis
      using False Cons.prems app Cons.IH [of "ft_seq f" "ap @ [ft_seq f]" al rj h1]
        Cons.IH [of mark ap al "rj @ [ft_seq f]" h1]
      by (auto split: sum.splits bool.splits)
  qed
qed simp

text \<open>A batch none of whose facts was rejected lies at or under its own final mark.\<close>

lemma ack_clean_bound:
  assumes loop: "ack_loop app bump mark [] [] [] fs h = (Inr (mark', ap, al, []), h')" and f: "f \<in> set fs"
  shows "ft_seq f \<le> mark'"
proof -
  have "mset ap + mset al = mset (map ft_seq fs)" using ack_partition [OF loop] by simp
  then have "set (map ft_seq fs) = set ap \<union> set al" by (metis set_mset_mset set_mset_union)
  with f have "ft_seq f \<in> set ap \<union> set al" by auto
  with ack_applied_bound [OF loop] ack_already_bound [OF loop] show ?thesis by auto
qed

text \<open>Facts at or under the mark are acknowledged again and applied to nothing.\<close>

lemma ack_replay:
  assumes "\<forall>f \<in> set fs. ft_seq f \<le> mark"
  shows "ack_loop app bump mark ap al rj fs h = (Inr (mark, ap, al @ map ft_seq fs, rj), h)"
  using assms by (induction fs arbitrary: al) auto

end

interpretation runner_lane: mark_rule max
  by unfold_locales simp

interpretation host_lane: mark_rule "\<lambda>mark seq. seq"
  by unfold_locales simp

section \<open>The runner's lane\<close>

lemma ingest_facts_Inr:
  assumes "ingest_facts \<P> \<E> r facts h = (Inr ack, h')"
  obtains mark ap al rj h1 where
    "ack_loop (\<lambda>f. apply_fact \<P> \<E> r (ft_kind f) (ft_payload f)) max
       (dget_or (hub_fact_high_water h) r 0) [] [] [] (sort_key ft_seq facts) h = (Inr (mark, ap, al, rj), h1)"
    "ack = \<lparr>fa_id = r, fa_high_water = mark, fa_applied = ap, fa_already_applied = al, fa_rejected = rj\<rparr>"
    "h' = h1\<lparr>hub_fact_high_water := dset r mark (hub_fact_high_water h1)\<rparr>"
  using assms by (auto simp: ingest_facts_def ack_of_def split: prod.splits sum.splits)

lemma ingest_facts_clean_replay:
  assumes "ingest_facts \<P> \<E> r facts h = (Inr ack, h')" and "fa_rejected ack = []"
  shows "ingest_facts \<P> \<E>' r facts h' =
    (Inr (ack\<lparr>fa_applied := [], fa_already_applied := map ft_seq (sort_key ft_seq facts)\<rparr>), h')"
proof -
  obtain mark ap al rj h1 where
    loop: "ack_loop (\<lambda>f. apply_fact \<P> \<E> r (ft_kind f) (ft_payload f)) max
       (dget_or (hub_fact_high_water h) r 0) [] [] [] (sort_key ft_seq facts) h = (Inr (mark, ap, al, rj), h1)"
    and ack: "ack = \<lparr>fa_id = r, fa_high_water = mark, fa_applied = ap, fa_already_applied = al, fa_rejected = rj\<rparr>"
    and h': "h' = h1\<lparr>hub_fact_high_water := dset r mark (hub_fact_high_water h1)\<rparr>"
    using assms(1) by (rule ingest_facts_Inr)
  have "dget_or (hub_fact_high_water h') r 0 = mark" by (simp add: h' dget_or_def)
  moreover have "\<forall>f \<in> set (sort_key ft_seq facts). ft_seq f \<le> mark"
    using runner_lane.ack_clean_bound loop assms(2) ack by fastforce
  moreover have "h'\<lparr>hub_fact_high_water := dset r mark (hub_fact_high_water h')\<rparr> = h'"
    by (simp add: h')
  ultimately show ?thesis
    using assms(2) ack by (simp add: ingest_facts_def runner_lane.ack_replay ack_of_def)
qed

end
