(* ===== verification/Chunk_Machine.thy ===== *)
theory Chunk_Machine
  imports Hub_Apply Hub_Registry
begin

text \<open>
  The life of one chunk as a state machine: each rule of \<open>move\<close> is one write a handler of
  \<^verbatim>\<open>MockHubService\<close> makes to a chunk row, under the guard that handler checks. It is the abstract
  specification the hub's operations are shown to implement. The lemmas are the invariants of
  the machine: the graph is never rewritten, the fence and the record of applied completions only
  grow, and a route keeps its holder until it is given up.
\<close>

section \<open>The machine\<close>

inductive move :: "chunk_state \<Rightarrow> chunk_state \<Rightarrow> bool" where
  claimed: "refuse_claim c = Inr () \<Longrightarrow> move c (claimed_row (cs_chunk_id c) r ws envs c)"
| rekeyed: "cs_claimed c \<Longrightarrow> cs_route_runner_id c = Some r \<Longrightarrow> refuse_rekey c = Inr () \<Longrightarrow>
    move c (rekeyed_row (cs_chunk_id c) c)"
| released: "cs_release c r e reason = Inr (n, c') \<Longrightarrow> move c (c'\<lparr>cs_live_route_token := None\<rparr>)"
| paused: "cs_status c \<in> PAUSABLE_STATUSES \<Longrightarrow> move c (paused_row c)"
| resumed: "move c (resumed_row c)"
| stopped: "move c (c\<lparr>cs_status := ST_STOPPED, cs_claimed := False\<rparr>)"
| fenced: "move c (c\<lparr>cs_latest_epoch := max (cs_latest_epoch c) e\<rparr>)"
| escalated: "fence_refusal c (es_epoch es) = None \<Longrightarrow> move c (c\<lparr>cs_escalation := Some es\<rparr>)"
| applied: "dget (cs_applied c) (apply_key n e) = None \<Longrightarrow> completion_target h c e n ch = Inr target \<Longrightarrow>
    advance c target = (Inr resp, c') \<Longrightarrow> move c (applied_row (apply_key n e) resp c')"
| decided: "cs_latest_epoch c \<le> e \<Longrightarrow> hub_incoherent_attempt h c n e = None \<Longrightarrow>
    move c (c\<lparr>cs_status := ST_NEEDS_HUMAN\<rparr>)"
| hub_ran: "parked_at_hub_node c \<Longrightarrow> move c (c\<lparr>cs_status := ST_DONE\<rparr>)"
| freed: "cs_claimed c \<Longrightarrow> cs_route_runner_id c = Some r \<Longrightarrow> move c (freed_row c)"

abbreviation moves :: "chunk_state \<Rightarrow> chunk_state \<Rightarrow> bool" where
  "moves \<equiv> move\<^sup>*\<^sup>*"

lemmas row_defs = claimed_row_def rekeyed_row_def paused_row_def resumed_row_def freed_row_def
  applied_row_def cs_release_Inr Let_def

text \<open>What an advance leaves alone.\<close>

lemma advance_obtain:
  assumes "advance c target = (Inr resp, c')"
  obtains s n where "c' = c\<lparr>cs_status := s, cs_current_node_id := n\<rparr>"
    "s = cs_status c \<or> s \<in> {ST_RUNNING, ST_DONE}" "cs_current_node_id c \<noteq> None \<longrightarrow> n \<noteq> None"
  using advance_row [of c target] assms by auto

section \<open>What never changes and what only grows\<close>

text \<open>The fields a chunk is seeded with.\<close>

definition seeded_part :: "chunk_state \<Rightarrow> string \<times> string \<times> string \<times> string \<times> (string, node_spec) dict \<times> string list \<times> string list \<times> work_ref list" where
  "seeded_part c = (cs_chunk_id c, cs_project_id c, cs_graph_id c, cs_entry c, cs_nodes c,
     cs_default_harnesses c, cs_default_model c, cs_work_refs c)"

definition grows :: "chunk_state \<Rightarrow> chunk_state \<Rightarrow> bool" where
  "grows c c' \<longleftrightarrow> seeded_part c' = seeded_part c \<and> cs_latest_epoch c \<le> cs_latest_epoch c' \<and>
     (\<forall>k v. dget (cs_applied c) k = Some v \<longrightarrow> dget (cs_applied c') k = Some v) \<and>
     cs_route_token_rekey_count c \<le> cs_route_token_rekey_count c' \<and>
     (\<exists>rs. cs_releases c' = cs_releases c @ rs)"

lemma grows_refl [simp]: "grows c c"
  by (simp add: grows_def)

lemma grows_trans: "grows a b \<Longrightarrow> grows b c \<Longrightarrow> grows a c"
  unfolding grows_def by (auto intro: order_trans)

lemma move_grows: "move c c' \<Longrightarrow> grows c c'"
proof (induction rule: move.induct)
  case (applied c n e h ch target resp c')
  from applied(3) obtain s m where "c' = c\<lparr>cs_status := s, cs_current_node_id := m\<rparr>"
    by (rule advance_obtain)
  with applied(1) show ?case by (auto simp: grows_def seeded_part_def applied_row_def)
qed (auto simp: grows_def seeded_part_def row_defs)

lemma moves_grows: "moves c c' \<Longrightarrow> grows c c'"
  by (induction rule: rtranclp_induct) (auto intro: grows_trans move_grows)

section \<open>The route\<close>

definition route :: "chunk_state \<Rightarrow> string option \<times> string option \<times> string list" where
  "route c = (cs_route_runner_id c, cs_route_workspace_id c, cs_route_environment_ids c)"

text \<open>A claimed chunk has a whole route and stands at a node, and neither it nor what a resume
  would restore is a status a chunk waits for a claim in.\<close>

definition waiting :: "chunk_status set" where
  "waiting = {ST_NOT_READY, ST_READY, ST_PAUSED}"

definition chunk_ok :: "chunk_state \<Rightarrow> bool" where
  "chunk_ok c \<longleftrightarrow> (cs_claimed c \<longrightarrow>
     cs_route_runner_id c \<noteq> None \<and> cs_route_workspace_id c \<noteq> None \<and> cs_current_node_id c \<noteq> None \<and>
     (if cs_status c = ST_PAUSED then (\<exists>s. cs_status_before_pause c = Some s \<and> s \<notin> waiting)
      else cs_status c \<notin> waiting))"

lemma move_chunk_ok: "move c c' \<Longrightarrow> chunk_ok c \<Longrightarrow> chunk_ok c'"
proof (induction rule: move.induct)
  case (applied c n e h ch target resp c')
  from applied(3) obtain s m where "c' = c\<lparr>cs_status := s, cs_current_node_id := m\<rparr>"
    "s = cs_status c \<or> s \<in> {ST_RUNNING, ST_DONE}" "cs_current_node_id c \<noteq> None \<longrightarrow> m \<noteq> None"
    by (rule advance_obtain)
  with applied(4) show ?case
    by (auto simp: chunk_ok_def applied_row_def waiting_def)
next
  case (paused c)
  then show ?case
    by (auto simp: chunk_ok_def paused_row_def waiting_def status_if_paused_def)
next
  case (resumed c)
  then show ?case
    by (auto simp: chunk_ok_def resumed_row_def waiting_def)
qed (auto simp: chunk_ok_def row_defs waiting_def)

lemma moves_chunk_ok: "moves c c' \<Longrightarrow> chunk_ok c \<Longrightarrow> chunk_ok c'"
  by (induction rule: rtranclp_induct) (auto intro: move_chunk_ok)

text \<open>A single write never hands a route from one holder to another.\<close>

lemma move_holder:
  assumes "move c c'" "cs_claimed c" "cs_claimed c'"
  shows "route c' = route c"
  using assms
proof (induction rule: move.induct)
  case (applied c n e h ch target resp c')
  from applied(3) obtain s m where "c' = c\<lparr>cs_status := s, cs_current_node_id := m\<rparr>"
    by (rule advance_obtain)
  then show ?case by (simp add: route_def applied_row_def)
qed (auto simp: route_def row_defs refuse_claim_ok_iff)

text \<open>A chunk becomes claimed by a claim alone, from ready and free.\<close>

lemma move_claims:
  assumes "move c c'" "\<not> cs_claimed c" "cs_claimed c'"
  shows "cs_status c = ST_READY \<and> cs_status c' = ST_RUNNING \<and>
    (\<exists>r ws envs. c' = claimed_row (cs_chunk_id c) r ws envs c)"
  using assms
proof (induction rule: move.induct)
  case (claimed c r ws envs)
  then have "cs_status c = ST_READY" by (simp add: refuse_claim_ok_iff)
  moreover have "cs_status (claimed_row (cs_chunk_id c) r ws envs c) = ST_RUNNING" by (simp add: claimed_row_def)
  ultimately show ?case by blast
next
  case (applied c n e h ch target resp c')
  from applied(3) obtain s m where "c' = c\<lparr>cs_status := s, cs_current_node_id := m\<rparr>"
    by (rule advance_obtain)
  with applied(4,5) show ?case by (simp add: applied_row_def)
qed (simp_all add: rekeyed_row_def paused_row_def resumed_row_def freed_row_def cs_release_Inr Let_def
    split: if_splits)

end
