(* ===== verification/Hub_Transcripts.thy ===== *)
theory Hub_Transcripts
  imports Hub_Facts "HOL-Library.Product_Lexorder"
begin

text \<open>
  The transcript lane of \<^verbatim>\<open>MockHubService\<close>
  (\<^verbatim>\<open>src/blizzard_mock/mock_hub/domain/service.py\<close>): batched intake under a per-record and a
  per-chunk byte cap, the natural-key short-circuit, refusal of records whose epoch another runner
  owns, and the lease read-back. The size of a record is the length of what \<^verbatim>\<open>json.dumps\<close>
  prints for its turns. Record fields the lane never reads (harness, model, effort, normalizer) are
  left out of the row. The lemmas show that the accepted bytes of a chunk never pass its budget,
  that only accepted records are retained, and that every record is acknowledged once.
\<close>

section \<open>The printed size of JSON\<close>

text \<open>Bytes one byte of a UTF-8 string adds to the ASCII text \<^verbatim>\<open>json.dumps\<close> prints: a
  character outside printable ASCII is escaped as one or, past the basic plane, two
  \<^verbatim>\<open>\u\<close> sequences, counted at its leading byte.\<close>

definition char_size :: "char \<Rightarrow> nat" where
  "char_size c =
     (let n = (of_char c :: nat) in
      if n = 34 \<or> n = 92 then 2
      else if n \<in> {8, 9, 10, 12, 13} then 2
      else if n < 32 \<or> n = 127 then 6
      else if n < 127 then 1
      else if n < 192 then 0
      else if n < 240 then 6
      else 12)"

definition str_size :: "string \<Rightarrow> nat" where
  "str_size s = 2 + sum_list (map char_size s)"

text \<open>A list or object of \<open>n\<close> parts prints two brackets and \<open>n - 1\<close> separators of two bytes.\<close>

definition parts_size :: "nat list \<Rightarrow> nat" where
  "parts_size sizes = 2 + sum_list sizes + 2 * (length sizes - 1)"

fun json_size :: "json \<Rightarrow> nat" where
  "json_size JNull = 4"
| "json_size (JBool b) = (if b then 4 else 5)"
| "json_size (JInt i) = length (show_int i)"
| "json_size (JFloat v txt) = length txt"
| "json_size (JStr s) = str_size s"
| "json_size (JList xs) = parts_size (map json_size xs)"
| "json_size (JObj kvs) = parts_size (map (\<lambda>kv. str_size (fst kv) + 2 + json_size (snd kv)) kvs)"

definition record_size :: "transcript_record \<Rightarrow> nat" where
  "record_size r = json_size (JList (map JObj (tr_turns r)))"

section \<open>Intake\<close>

definition TRANSCRIPT_RECORD_MAX_BYTES :: nat where
  "TRANSCRIPT_RECORD_MAX_BYTES = 10 * 1024 * 1024"

definition TRANSCRIPT_CHUNK_BUDGET_MAX_BYTES :: nat where
  "TRANSCRIPT_CHUNK_BUDGET_MAX_BYTES = 64 * 1024 * 1024"

definition record_key :: "string \<Rightarrow> transcript_record \<Rightarrow> natural_key" where
  "record_key tenant_id r = (tenant_id, tr_segment_id r, tr_turn_range_start r)"

definition record_lease :: "string \<Rightarrow> transcript_record \<Rightarrow> lease_key" where
  "record_lease tenant_id r = (tenant_id, tr_chunk_id r, tr_node_id r, tr_epoch r)"

definition chunk_bytes :: "hub \<Rightarrow> string \<times> string \<Rightarrow> nat" where
  "chunk_bytes h k = dget_or (hub_transcript_chunk_bytes h) k 0"

definition over_cap :: "hub \<Rightarrow> string \<Rightarrow> transcript_record \<Rightarrow> bool" where
  "over_cap h tenant_id r \<longleftrightarrow>
     record_size r > TRANSCRIPT_RECORD_MAX_BYTES \<or>
     chunk_bytes h (tenant_id, tr_chunk_id r) + record_size r > TRANSCRIPT_CHUNK_BUDGET_MAX_BYTES"

text \<open>A capped record keeps its identity and loses its turns; an accepted one is credited and retained.\<close>

definition cap_record :: "string \<Rightarrow> transcript_record \<Rightarrow> hub \<Rightarrow> hub" where
  "cap_record tenant_id r h =
     h\<lparr>hub_transcript_key_state := dset (record_key tenant_id r) KV_REJECTED (hub_transcript_key_state h),
       hub_transcript_rejected := dset (record_key tenant_id r) (r\<lparr>tr_turns := []\<rparr>) (hub_transcript_rejected h)\<rparr>"

definition retain_record :: "string \<Rightarrow> transcript_record \<Rightarrow> hub \<Rightarrow> hub" where
  "retain_record tenant_id r h =
     h\<lparr>hub_transcript_key_state := dset (record_key tenant_id r) KV_ACCEPTED (hub_transcript_key_state h),
       hub_transcript_rejected := dpop (record_key tenant_id r) (hub_transcript_rejected h),
       hub_transcript_chunk_bytes := dset (tenant_id, tr_chunk_id r)
         (chunk_bytes h (tenant_id, tr_chunk_id r) + record_size r) (hub_transcript_chunk_bytes h),
       hub_transcript_segments := dset (record_lease tenant_id r)
         (dset (record_key tenant_id r) r (dget_or (hub_transcript_segments h) (record_lease tenant_id r) []))
         (hub_transcript_segments h)\<rparr>"

definition own_record :: "string \<Rightarrow> string \<Rightarrow> transcript_record \<Rightarrow> hub \<Rightarrow> hub" where
  "own_record tenant_id runner_id r h =
     h\<lparr>hub_transcript_owners := dset (record_key tenant_id r) (record_lease tenant_id r, runner_id)
         (hub_transcript_owners h)\<rparr>"

datatype record_verdict = RV_REFUSED | RV_CAPPED | RV_ALREADY | RV_APPLIED

text \<open>One record: its verdict, the mark and the hub after it.\<close>

definition ingest_record ::
  "string \<Rightarrow> string \<Rightarrow> transcript_record \<Rightarrow> int \<Rightarrow> hub \<Rightarrow> record_verdict \<times> int \<times> hub" where
  "ingest_record tenant_id runner_id r mark h =
     (let key = record_key tenant_id r;
          owner = dget (hub_epoch_owners h) (tenant_id, tr_chunk_id r, tr_epoch r);
          state = dget (hub_transcript_key_state h) key
      in if \<not> ships_from_lease_holder owner runner_id then (RV_REFUSED, max mark (tr_seq r), h)
         else if tr_seq r \<le> mark then
           (if state = Some KV_REJECTED then RV_CAPPED else RV_ALREADY, mark, h)
         else if state = Some KV_ACCEPTED then (RV_APPLIED, max mark (tr_seq r), h)
         else if over_cap h tenant_id r then
           (RV_CAPPED, max mark (tr_seq r), cap_record tenant_id r (own_record tenant_id runner_id r h))
         else
           (RV_APPLIED, max mark (tr_seq r), retain_record tenant_id r (own_record tenant_id runner_id r h)))"

text \<open>The verdicts of a sorted batch in order, with the final mark and hub.\<close>

fun ingest_records ::
  "string \<Rightarrow> string \<Rightarrow> transcript_record list \<Rightarrow> int \<Rightarrow> hub \<Rightarrow> (int \<times> record_verdict) list \<times> int \<times> hub" where
  "ingest_records tenant_id runner_id [] mark h = ([], mark, h)"
| "ingest_records tenant_id runner_id (r # rs) mark h =
     (case ingest_record tenant_id runner_id r mark h of
        (v, mark1, h1) \<Rightarrow>
     (case ingest_records tenant_id runner_id rs mark1 h1 of
        (vs, mark2, h2) \<Rightarrow> ((tr_seq r, v) # vs, mark2, h2)))"

definition with_verdict :: "record_verdict \<Rightarrow> (int \<times> record_verdict) list \<Rightarrow> int list" where
  "with_verdict v vs = map fst (filter (\<lambda>(s, w). w = v) vs)"

definition ingest_transcripts :: "string \<Rightarrow> transcript_record list \<Rightarrow> hub \<Rightarrow> transcript_ack result" where
  "ingest_transcripts runner_id records h =
     (case added h runner_id of
        Inl e \<Rightarrow> (Inl e, h)
      | Inr row \<Rightarrow>
          (case ingest_records (rn_tenant_id row) runner_id (sort_key tr_seq records)
                  (dget_or (hub_transcript_high_water h) runner_id 0) h of
             (vs, mark, h1) \<Rightarrow>
               (Inr \<lparr>ta_runner_id = runner_id, ta_high_water = mark,
                     ta_applied = with_verdict RV_APPLIED vs, ta_already_applied = with_verdict RV_ALREADY vs,
                     ta_capped = with_verdict RV_CAPPED vs, ta_refused = with_verdict RV_REFUSED vs\<rparr>,
                h1\<lparr>hub_transcript_high_water := dset runner_id mark (hub_transcript_high_water h1)\<rparr>)))"

section \<open>Read-back\<close>

definition lease_owners :: "hub \<Rightarrow> lease_key \<Rightarrow> string list" where
  "lease_owners h lease =
     dedup (map (\<lambda>(k, l, owner). owner) (filter (\<lambda>(k, l, owner). l = lease) (hub_transcript_owners h)))"

definition lease_repr :: "lease_key \<Rightarrow> string" where
  "lease_repr lease = (case lease of (t, c, n, e) \<Rightarrow>
     ''('' @ join '', '' [py_repr t, py_repr c, py_repr n, show_int e] @ '')'')"

definition list_repr :: "string list \<Rightarrow> string" where
  "list_repr xs = ''['' @ join '', '' (map py_repr xs) @ '']''"

definition lease_transcript_owner :: "hub \<Rightarrow> string \<Rightarrow> string \<Rightarrow> string \<Rightarrow> int \<Rightarrow> hub_error + string option" where
  "lease_transcript_owner h chunk_id runner_id node_id epoch =
     (case added h runner_id of
        Inl e \<Rightarrow> Inl e
      | Inr row \<Rightarrow>
          (let lease = (rn_tenant_id row, chunk_id, node_id, epoch)
           in case lease_owners h lease of
                [] \<Rightarrow> Inr None
              | [owner] \<Rightarrow> Inr (Some owner)
              | owners \<Rightarrow> Inl (RuntimeError (''lease '' @ lease_repr lease
                             @ '' has segments from multiple runners '' @ list_repr (sort owners)))))"

record lease_transcript_view =
  lt_chunk_id :: string
  lt_node_id :: string
  lt_epoch :: int
  lt_truncated :: bool
  lt_turns :: "payload list"

text \<open>A rejected key always has an owner entry; the invariant below shows it.\<close>

definition rejected_for :: "hub \<Rightarrow> lease_key \<Rightarrow> transcript_record list" where
  "rejected_for h lease =
     map snd (filter (\<lambda>(k, r). map_option fst (dget (hub_transcript_owners h) k) = Some lease)
       (hub_transcript_rejected h))"

definition order_key :: "transcript_record \<Rightarrow> int \<times> string \<times> int" where
  "order_key r = (tr_spawn_generation r, tr_segment_id r, tr_turn_range_start r)"

definition renumber :: "payload list \<Rightarrow> payload list" where
  "renumber turns = map (\<lambda>(i, turn). dset ''index'' (JInt (int i)) turn) (enumerate 0 turns)"

definition transcript_view ::
  "string \<Rightarrow> string \<Rightarrow> int \<Rightarrow> transcript_record list \<Rightarrow> transcript_record list \<Rightarrow> lease_transcript_view" where
  "transcript_view chunk_id node_id epoch retained rejected =
     (let superseded = set (List.map_filter tr_supersedes (retained @ rejected));
          visible = filter (\<lambda>r. tr_segment_id r \<notin> superseded) retained
      in \<lparr>lt_chunk_id = chunk_id, lt_node_id = node_id, lt_epoch = epoch,
          lt_truncated = (list_ex (\<lambda>r. tr_segment_id r \<notin> superseded) rejected \<or> list_ex tr_record_truncated visible),
          lt_turns = renumber (concat (map tr_turns (sort_key order_key visible)))\<rparr>)"

definition lease_transcript :: "hub \<Rightarrow> string \<Rightarrow> string \<Rightarrow> string \<Rightarrow> int \<Rightarrow> hub_error + lease_transcript_view" where
  "lease_transcript h chunk_id runner_id node_id epoch =
     map_sum id (\<lambda>row.
       let lease = (rn_tenant_id row, chunk_id, node_id, epoch)
       in transcript_view chunk_id node_id epoch
            (dvals (dget_or (hub_transcript_segments h) lease [])) (rejected_for h lease))
       (added h runner_id)"

section \<open>The lane's invariant\<close>

text \<open>The retained records of a chunk in a tenant.\<close>

definition lease_of_chunk :: "string \<times> string \<Rightarrow> lease_key \<Rightarrow> bool" where
  "lease_of_chunk tc lease \<longleftrightarrow> fst lease = fst tc \<and> fst (snd lease) = snd tc"

definition retained :: "hub \<Rightarrow> string \<times> string \<Rightarrow> transcript_record list" where
  "retained h tc =
     concat (map (\<lambda>(lease, d). if lease_of_chunk tc lease then dvals d else []) (hub_transcript_segments h))"

definition bytes_of :: "transcript_record list \<Rightarrow> nat" where
  "bytes_of rs = sum_list (map record_size rs)"

text \<open>A retained record sits under its lease and key, which is accepted; a capped one has no turns,
  an owner of its own lease, and its key is rejected; the credited bytes are those retained, within
  the budget.\<close>

definition retained_ok :: "hub \<Rightarrow> bool" where
  "retained_ok h \<longleftrightarrow> distinct (dkeys (hub_transcript_segments h)) \<and>
     (\<forall>lease d k r. dget (hub_transcript_segments h) lease = Some d \<and> dget d k = Some r \<longrightarrow>
        dget (hub_transcript_key_state h) k = Some KV_ACCEPTED \<and>
        lease = record_lease (fst lease) r \<and> k = record_key (fst lease) r)"

definition rejected_ok :: "hub \<Rightarrow> bool" where
  "rejected_ok h \<longleftrightarrow>
     (\<forall>k r. dget (hub_transcript_rejected h) k = Some r \<longrightarrow>
        dget (hub_transcript_key_state h) k = Some KV_REJECTED \<and> tr_turns r = [] \<and>
        (\<exists>owner. dget (hub_transcript_owners h) k = Some (record_lease (fst k) r, owner)))"

definition credited_ok :: "hub \<Rightarrow> bool" where
  "credited_ok h \<longleftrightarrow>
     (\<forall>tc. chunk_bytes h tc = bytes_of (retained h tc) \<and> chunk_bytes h tc \<le> TRANSCRIPT_CHUNK_BUDGET_MAX_BYTES)"

definition transcripts_ok :: "hub \<Rightarrow> bool" where
  "transcripts_ok h \<longleftrightarrow> retained_ok h \<and> rejected_ok h \<and> credited_ok h"

lemma retained_okD:
  assumes "retained_ok h" "dget (hub_transcript_segments h) lease = Some d" "dget d k = Some r"
  shows "dget (hub_transcript_key_state h) k = Some KV_ACCEPTED" "lease = record_lease (fst lease) r"
    "k = record_key (fst lease) r"
  using assms unfolding retained_ok_def by blast+

lemma credited_okD:
  assumes "credited_ok h"
  shows "chunk_bytes h tc = bytes_of (retained h tc)" "chunk_bytes h tc \<le> TRANSCRIPT_CHUNK_BUDGET_MAX_BYTES"
  using assms unfolding credited_ok_def by blast+

lemma record_key_simps [simp]:
  "fst (record_key t r) = t" "fst (record_lease t r) = t" "record_key t (r\<lparr>tr_turns := x\<rparr>) = record_key t r"
  "record_lease t (r\<lparr>tr_turns := x\<rparr>) = record_lease t r"
  by (simp_all add: record_key_def record_lease_def)

lemma bytes_of_append [simp]: "bytes_of (xs @ ys) = bytes_of xs + bytes_of ys"
  by (simp add: bytes_of_def)

lemma bytes_of_simps [simp]: "bytes_of [] = 0" "bytes_of [r] = record_size r"
  by (simp_all add: bytes_of_def)

text \<open>Replacing one lease's records changes the chunk's bytes by that lease's alone.\<close>

lemma bytes_dset:
  assumes "distinct (dkeys s)"
  shows "bytes_of (concat (map (\<lambda>(l, d). if P l then dvals d else []) (dset k v s)))
      + (if P k then bytes_of (dvals (dget_or s k [])) else 0) =
    bytes_of (concat (map (\<lambda>(l, d). if P l then dvals d else []) s)) + (if P k then bytes_of (dvals v) else 0)"
  using assms
proof (induction s)
  case (Cons p s)
  show ?case
  proof (cases "fst p = k")
    case True
    then show ?thesis by (cases p) (auto simp: dget_or_def)
  next
    case False
    then have "dget_or (p # s) k [] = dget_or s k []" by (cases p) (auto simp: dget_or_def)
    with Cons False show ?thesis by (cases p) auto
  qed
qed (auto simp: dget_or_def)

lemma retained_retain:
  assumes "retained_ok h" and fresh: "dget (hub_transcript_key_state h) (record_key t r) \<noteq> Some KV_ACCEPTED"
  shows "bytes_of (retained (retain_record t r h) tc) =
    bytes_of (retained h tc) + (if tc = (t, tr_chunk_id r) then record_size r else 0)"
proof -
  let ?old = "dget_or (hub_transcript_segments h) (record_lease t r) []"
  have new: "dget ?old (record_key t r) = None"
  proof (rule ccontr)
    assume "dget ?old (record_key t r) \<noteq> None"
    then obtain d q where "dget (hub_transcript_segments h) (record_lease t r) = Some d" "dget d (record_key t r) = Some q"
      by (auto simp: dget_or_def split: option.splits)
    with assms show False unfolding retained_ok_def by blast
  qed
  then have "bytes_of (dvals (dset (record_key t r) r ?old)) = bytes_of (dvals ?old) + record_size r"
    by (simp add: dset_new)
  moreover have "distinct (dkeys (hub_transcript_segments h))" using assms(1) by (simp add: retained_ok_def)
  moreover have "lease_of_chunk tc (record_lease t r) \<longleftrightarrow> tc = (t, tr_chunk_id r)"
    by (cases tc) (auto simp: lease_of_chunk_def record_lease_def)
  ultimately show ?thesis
    using bytes_dset [of "hub_transcript_segments h" "lease_of_chunk tc" "record_lease t r"
        "dset (record_key t r) r ?old"]
    by (simp add: retained_def retain_record_def split: if_splits)
qed

lemma retained_ok_retain:
  assumes "retained_ok h"
  shows "retained_ok (retain_record t r h)"
  unfolding retained_ok_def
proof (intro conjI allI impI; (elim conjE)?)
  show "distinct (dkeys (hub_transcript_segments (retain_record t r h)))"
    using assms by (simp add: retained_ok_def retain_record_def distinct_update)
next
  fix lease d k q
  assume d: "dget (hub_transcript_segments (retain_record t r h)) lease = Some d" "dget d k = Some q"
  have old: "dget (hub_transcript_key_state h) k = Some KV_ACCEPTED \<and> lease = record_lease (fst lease) q \<and>
      k = record_key (fst lease) q"
    if "dget (dget_or (hub_transcript_segments h) lease []) k = Some q"
    using retained_okD [OF assms] that
    by (cases "dget (hub_transcript_segments h) lease") (simp_all add: dget_or_def)
  have "(lease = record_lease t r \<and> k = record_key t r \<and> q = r) \<or>
      dget (dget_or (hub_transcript_segments h) lease []) k = Some q"
    using d by (auto simp: retain_record_def dget_or_def split: if_splits)
  with old have "dget (hub_transcript_key_state (retain_record t r h)) k = Some KV_ACCEPTED \<and>
      lease = record_lease (fst lease) q \<and> k = record_key (fst lease) q"
    by (auto simp: retain_record_def)
  then show "dget (hub_transcript_key_state (retain_record t r h)) k = Some KV_ACCEPTED"
    "lease = record_lease (fst lease) q" "k = record_key (fst lease) q"
    by blast+
qed

lemma retained_ok_cap:
  assumes "retained_ok h" and "dget (hub_transcript_key_state h) (record_key t r) \<noteq> Some KV_ACCEPTED"
  shows "retained_ok (cap_record t r h)"
  unfolding retained_ok_def
proof (intro conjI allI impI; (elim conjE)?)
  have seg: "hub_transcript_segments (cap_record t r h) = hub_transcript_segments h" by (simp add: cap_record_def)
  show "distinct (dkeys (hub_transcript_segments (cap_record t r h)))"
    using assms(1) by (simp add: retained_ok_def seg)
  fix lease d k q
  assume "dget (hub_transcript_segments (cap_record t r h)) lease = Some d" "dget d k = Some q"
  note old = retained_okD [OF assms(1) this [unfolded seg]]
  show "dget (hub_transcript_key_state (cap_record t r h)) k = Some KV_ACCEPTED"
    using old(1) assms(2) by (auto simp: cap_record_def)
  show "lease = record_lease (fst lease) q" "k = record_key (fst lease) q"
    by (fact old(2), fact old(3))
qed

lemma own_record_frame [simp]:
  "hub_transcript_segments (own_record t rid r h) = hub_transcript_segments h"
  "hub_transcript_key_state (own_record t rid r h) = hub_transcript_key_state h"
  "hub_transcript_rejected (own_record t rid r h) = hub_transcript_rejected h"
  "hub_transcript_chunk_bytes (own_record t rid r h) = hub_transcript_chunk_bytes h"
  by (simp_all add: own_record_def)

lemma chunk_bytes_retain:
  "chunk_bytes (retain_record t r h) tc =
     (if tc = (t, tr_chunk_id r) then chunk_bytes h tc + record_size r else chunk_bytes h tc)"
  by (auto simp: retain_record_def chunk_bytes_def dget_or_def)

lemma transcripts_ok_ingest_record:
  assumes ok: "transcripts_ok h" and step: "ingest_record t rid r mark h = (v, mark', h')"
  shows "transcripts_ok h'"
proof -
  let ?h = "own_record t rid r h"
  have bytes: "retained ?h = retained h" "chunk_bytes ?h = chunk_bytes h"
    by (simp_all add: retained_def chunk_bytes_def fun_eq_iff)
  have own: "retained_ok ?h" "credited_ok ?h"
    using ok unfolding transcripts_ok_def retained_ok_def credited_ok_def bytes own_record_frame by blast+
  consider (same) "h' = h"
    | (capped) "h' = cap_record t r ?h" "dget (hub_transcript_key_state h) (record_key t r) \<noteq> Some KV_ACCEPTED"
    | (kept) "h' = retain_record t r ?h" "dget (hub_transcript_key_state h) (record_key t r) \<noteq> Some KV_ACCEPTED"
        "\<not> over_cap h t r"
    using step by (auto simp: ingest_record_def Let_def split: if_splits)
  then show ?thesis
  proof cases
    case same
    with ok show ?thesis by simp
  next
    case capped
    have "rejected_ok h'"
      using ok capped(2) unfolding transcripts_ok_def rejected_ok_def
      by (auto simp: capped(1) cap_record_def own_record_def record_key_def)
    moreover have "retained_ok h'"
      unfolding capped(1) by (rule retained_ok_cap [OF own(1)]) (simp add: capped(2))
    moreover have "credited_ok h'"
    proof -
      have "retained h' = retained ?h" "chunk_bytes h' = chunk_bytes ?h"
        by (simp_all add: capped(1) cap_record_def retained_def chunk_bytes_def fun_eq_iff)
      with own(2) show ?thesis unfolding credited_ok_def by metis
    qed
    ultimately show ?thesis by (simp add: transcripts_ok_def)
  next
    case kept
    have "rejected_ok h'"
      using ok unfolding transcripts_ok_def rejected_ok_def
      by (auto simp: kept(1) retain_record_def own_record_def)
    moreover have "credited_ok h'"
      unfolding credited_ok_def kept(1)
    proof (intro allI)
      fix tc
      have "bytes_of (retained (retain_record t r ?h) tc) =
          bytes_of (retained ?h tc) + (if tc = (t, tr_chunk_id r) then record_size r else 0)"
        using kept(2) by (intro retained_retain own(1)) simp
      then show "chunk_bytes (retain_record t r ?h) tc = bytes_of (retained (retain_record t r ?h) tc) \<and>
          chunk_bytes (retain_record t r ?h) tc \<le> TRANSCRIPT_CHUNK_BUDGET_MAX_BYTES"
        using credited_okD [OF own(2), of tc] kept(3) unfolding over_cap_def bytes
        by (auto simp: chunk_bytes_retain bytes)
    qed
    ultimately show ?thesis
      using retained_ok_retain [OF own(1), of t r] by (simp add: transcripts_ok_def kept(1))
  qed
qed

lemma transcripts_ok_ingest_records:
  "transcripts_ok h \<Longrightarrow> ingest_records t rid rs mark h = (vs, mark', h') \<Longrightarrow> transcripts_ok h'"
  by (induction rs arbitrary: mark h vs)
    (auto split: prod.splits dest: transcripts_ok_ingest_record)

section \<open>Acknowledgement and replay\<close>

lemma ingest_record_mark:
  assumes "ingest_record t rid r mark h = (v, mark', h')"
  shows "mark' = max mark (tr_seq r) \<and> hub_epoch_owners h' = hub_epoch_owners h"
  using assms
  by (auto simp: ingest_record_def Let_def cap_record_def retain_record_def own_record_def split: if_splits)

lemma ingest_records_mark:
  "ingest_records t rid rs mark h = (vs, mark', h') \<Longrightarrow>
     map fst vs = map tr_seq rs \<and> mark' = fold (\<lambda>r m. max m (tr_seq r)) rs mark \<and>
     hub_epoch_owners h' = hub_epoch_owners h"
proof (induction rs arbitrary: mark h vs)
  case (Cons r rs)
  then show ?case by (auto split: prod.splits dest!: ingest_record_mark Cons.IH)
qed simp

lemma fold_max_bound: "mark \<le> fold (\<lambda>r m. max m (tr_seq r)) rs mark"
  "r \<in> set rs \<Longrightarrow> tr_seq r \<le> fold (\<lambda>r m. max m (tr_seq r)) rs (mark :: int)"
proof -
  show le: "mark \<le> fold (\<lambda>r m. max m (tr_seq r)) rs mark" for mark :: int and rs
    by (induction rs arbitrary: mark) (auto intro: order_trans [OF max.cobounded1])
  show "r \<in> set rs \<Longrightarrow> tr_seq r \<le> fold (\<lambda>r m. max m (tr_seq r)) rs (mark :: int)"
  proof (induction rs arbitrary: mark)
    case (Cons q rs)
    then show ?case using le [of "max mark (tr_seq q)" rs] by auto
  qed simp
qed

text \<open>The four lists of an acknowledgement hold every record of the batch exactly once.\<close>

lemma verdict_partition:
  "mset (with_verdict RV_APPLIED vs) + mset (with_verdict RV_ALREADY vs) + mset (with_verdict RV_CAPPED vs)
     + mset (with_verdict RV_REFUSED vs) = mset (map fst vs)"
proof (induction vs)
  case (Cons p vs)
  then show ?case by (cases p; cases "snd p") (auto simp: with_verdict_def)
qed (simp add: with_verdict_def)

definition replay_verdict :: "string \<Rightarrow> string \<Rightarrow> hub \<Rightarrow> transcript_record \<Rightarrow> record_verdict" where
  "replay_verdict t rid h r =
     (if \<not> ships_from_lease_holder (dget (hub_epoch_owners h) (t, tr_chunk_id r, tr_epoch r)) rid then RV_REFUSED
      else if dget (hub_transcript_key_state h) (record_key t r) = Some KV_REJECTED then RV_CAPPED
      else RV_ALREADY)"

lemma ingest_records_replay:
  assumes "\<forall>r \<in> set rs. tr_seq r \<le> mark"
  shows "ingest_records t rid rs mark h = (map (\<lambda>r. (tr_seq r, replay_verdict t rid h r)) rs, mark, h)"
  using assms
  by (induction rs) (auto simp: ingest_record_def replay_verdict_def Let_def max_def)

lemma refused_iff:
  assumes "ingest_records t rid rs mark h = (vs, mark', h')"
  shows "with_verdict RV_REFUSED vs =
    map tr_seq (filter (\<lambda>r. \<not> ships_from_lease_holder (dget (hub_epoch_owners h) (t, tr_chunk_id r, tr_epoch r)) rid) rs)"
  using assms
proof (induction rs arbitrary: mark h vs mark' h')
  case (Cons r rs)
  obtain v m1 h1 where one: "ingest_record t rid r mark h = (v, m1, h1)" by (metis prod_cases3)
  obtain vs2 m2 h2 where rest: "ingest_records t rid rs m1 h1 = (vs2, m2, h2)" by (metis prod_cases3)
  have v: "v = RV_REFUSED \<longleftrightarrow> \<not> ships_from_lease_holder (dget (hub_epoch_owners h) (t, tr_chunk_id r, tr_epoch r)) rid"
    using one by (auto simp: ingest_record_def Let_def split: if_splits)
  have "hub_epoch_owners h1 = hub_epoch_owners h" using ingest_record_mark [OF one] by simp
  with Cons.IH [OF rest] Cons.prems one rest v show ?case by (auto simp: with_verdict_def)
qed (simp add: with_verdict_def)

end
