(* ===== verification/Hub_Steps.thy ===== *)
theory Hub_Steps
  imports Chunk_Machine Hub_Transcripts
begin

text \<open>
  The hub as a transition system. \<open>hub_step\<close> has one rule per operation of \<^verbatim>\<open>MockHubService\<close> that may
  write, seeding a chunk and resetting the hub apart, whatever it returns, so that refusals and exceptions
  are steps too; \<open>hub_write\<close> labels each write of the service as such an operation, as the seeding of a
  chunk or as the reset. Requests are served one at a time, so a step is atomic. Every operation is shown to
  move each chunk row along the chunk machine alone (\<open>refines\<close>), a seeding to write one row anew, the reset
  to leave none; the invariants of the machine are carried to every state reachable from the first boot, and
  what only grows in a row is carried over every run that neither seeds its chunk anew nor resets the hub.
\<close>

section \<open>Steps\<close>

inductive hub_step :: "hub \<Rightarrow> hub \<Rightarrow> bool" where
  claim: "claim c r ws envs h = (res, h') \<Longrightarrow> hub_step h h'"
| rekey: "rekey_route_token c r h = (res, h') \<Longrightarrow> hub_step h h'"
| release: "release c r e reason tok h = (res, h') \<Longrightarrow> hub_step h h'"
| pause: "pause_chunk c h = (res, h') \<Longrightarrow> hub_step h h'"
| resume: "resume_chunk c h = (res, h') \<Longrightarrow> hub_step h h'"
| stop: "stop_chunk c h = (res, h') \<Longrightarrow> hub_step h h'"
| completion: "apply_completion c e n ch h = (res, h') \<Longrightarrow> hub_step h h'"
| decision: "apply_decision c e n h = (res, h') \<Longrightarrow> hub_step h h'"
| hub_advance: "hub_advance c h = (res, h') \<Longrightarrow> hub_step h h'"
| facts: "ingest_facts \<P> \<E> r fs h = (res, h') \<Longrightarrow> hub_step h h'"
| host_facts: "ingest_host_facts \<P> \<E> hid fs h = (res, h') \<Longrightarrow> hub_step h h'"
| transcripts: "ingest_transcripts r recs h = (res, h') \<Longrightarrow> hub_step h h'"
| retire_host_runner: "retire_host_runner \<E> hid r by_whom force h = (res, h') \<Longrightarrow> hub_step h h'"
| envelope: "envelope c h = (res, h') \<Longrightarrow> hub_step h h'"
| detail: "chunk_detail_read c r h = (res, h') \<Longrightarrow> hub_step h h'"
| statuses: "chunk_statuses cs r h = (res, h') \<Longrightarrow> hub_step h h'"
| artifact: "check_artifact validate c n content h = (res, h') \<Longrightarrow> hub_step h h'"
| drop_ack: "pop_drop_ack c h = (res, h') \<Longrightarrow> hub_step h h'"
| answer: "answer_question \<E> q a b h = (res, h') \<Longrightarrow> hub_step h h'"
| add_runner: "add_runner \<E> n t r tok ps hid h = (res, h') \<Longrightarrow> hub_step h h'"
| enroll: "enroll \<E> r t h = (res, h') \<Longrightarrow> hub_step h h'"
| revoke: "revoke_token r h = (res, h') \<Longrightarrow> hub_step h h'"
| retire: "retire \<E> r by_whom h = (res, h') \<Longrightarrow> hub_step h h'"
| set_paused: "set_paused r b h = (res, h') \<Longrightarrow> hub_step h h'"
| add_host: "add_host \<E> n t ad hid tok h = (res, h') \<Longrightarrow> hub_step h h'"
| report_host: "report_host \<E> hid n u ru ws ss h = (res, h') \<Longrightarrow> hub_step h h'"
| add_host_runner: "add_host_runner \<E> hid n ps h = (res, h') \<Longrightarrow> hub_step h h'"
| register: "register \<E> r q h = (res, h') \<Longrightarrow> hub_step h h'"
| heartbeat: "heartbeat \<E> r h = (res, h') \<Longrightarrow> hub_step h h'"
| set_projects: "set_runner_projects r es h = (res, h') \<Longrightarrow> hub_step h h'"
| seed_tenant: "seed_tenant \<E> n t h = (res, h') \<Longrightarrow> hub_step h h'"
| rename_tenant: "rename_tenant t n h = (res, h') \<Longrightarrow> hub_step h h'"
| seed_project: "seed_project \<E> s n t p h = (res, h') \<Longrightarrow> hub_step h h'"
| seed_artifact: "hub_step h (seed_system_artifact spec h)"
| seed_scope: "hub_step h (seed_scope \<E> sc h)"
| arm: "hub_step h (h\<lparr>hub_levers := arm l (hub_levers h)\<rparr>)"
| clear: "hub_step h (h\<lparr>hub_levers := clear k c (hub_levers h)\<rparr>)"
| clear_all: "hub_step h (h\<lparr>hub_levers := clear_all (hub_levers h)\<rparr>)"
| spent: "hub_step h (consume_armed l h)"

text \<open>Every write of the service, by what it is: an operation, the seeding of a chunk, which puts the row it
  answers, or the reset. A seeding that is refused is an operation that writes nothing.\<close>

datatype written = Operation | Seeding chunk_state | Resetting

inductive hub_write :: "written \<Rightarrow> hub \<Rightarrow> hub \<Rightarrow> bool" where
  operation: "hub_step h h' \<Longrightarrow> hub_write Operation h h'"
| seeding: "seed_chunk \<E> spec h = (Inr c, h') \<Longrightarrow> hub_write (Seeding c) h h'"
| seeding_refused: "seed_chunk \<E> spec h = (Inl e, h') \<Longrightarrow> hub_write Operation h h'"
| resetting: "hub_write Resetting h (reset h)"

inductive_simps hub_write_simps:
  "hub_write Operation h h'" "hub_write (Seeding c) h h'" "hub_write Resetting h h'"

inductive reachable :: "hub \<Rightarrow> bool" where
  boot: "reachable initial_hub"
| step: "reachable h \<Longrightarrow> hub_write w h h' \<Longrightarrow> reachable h'"

text \<open>The writes that leave a chunk its row: all but the reset and a seeding of that chunk.\<close>

definition spares :: "string \<Rightarrow> hub \<Rightarrow> hub \<Rightarrow> bool" where
  "spares k h h' \<longleftrightarrow>
     (\<exists>w. hub_write w h h' \<and> (case w of Operation \<Rightarrow> True | Seeding c \<Rightarrow> cs_chunk_id c \<noteq> k | Resetting \<Rightarrow> False))"

lemma hub_step_spares: "hub_step h h' \<Longrightarrow> spares k h h'"
  by (auto simp: spares_def intro: hub_write.operation)

section \<open>Operations that leave the chunk table alone\<close>

lemma levers_only_chunks: "levers_only h h' \<Longrightarrow> hub_chunks h' = hub_chunks h"
  by (auto simp: levers_only_def)

lemma mint_chunks: "given_or_mint \<E> p g h = (i, h') \<Longrightarrow> hub_chunks h' = hub_chunks h"
  by (auto simp: given_or_mint_def mint_id_def split: option.splits if_splits)

lemma put_chunks [simp]:
  "hub_chunks (put_runner row h) = hub_chunks h" "hub_chunks (put_host hrow h) = hub_chunks h"
  "hub_chunks (put_tenant trow h) = hub_chunks h" "hub_chunks (put_project prow h) = hub_chunks h"
  "hub_chunks (put_question q h) = hub_chunks h" "hub_chunks (put_reported r f h) = hub_chunks h"
  "hub_chunks (replace_token r tok h) = hub_chunks h" "hub_chunks (consume_armed l h) = hub_chunks h"
  by (simp_all add: table_defs put_reported_def replace_token_def consume_armed_def split: prod.splits)

lemma store_add_chunks:
  "store_add_runner row tok h = (res, h') \<Longrightarrow> hub_chunks h' = hub_chunks h"
  "store_add_host hrow tok h = (res2, h') \<Longrightarrow> hub_chunks h' = hub_chunks h"
  by (auto simp: store_add_runner_def store_add_host_def split: if_splits)

lemma adopt_chunks: "hub_chunks (adopt_runners hid rs h) = hub_chunks h"
  unfolding adopt_runners_def by (induction rs arbitrary: h) simp_all

lemma add_runner_chunks [chunks_frame]:
  assumes "add_runner \<E> n t r tok ps hid h = (res, h')"
  shows "hub_chunks h' = hub_chunks h"
proof (cases "tenant_of h t")
  case (Inr tenant)
  note tn = Inr
  show ?thesis
  proof (cases "added_declaration h (tn_tenant_id tenant) ps")
    case (Inr decl)
    obtain i h1 where m: "given_or_mint \<E> RUNNER_PREFIX r h = (i, h1)" by fastforce
    show ?thesis
    proof (cases "host_link h1 hid (tn_tenant_id tenant)")
      case link: (Inr link)
      let ?row = "(RunnerRow i (tn_tenant_id tenant) n (env_now \<E>))\<lparr>rn_projects := decl, rn_host_id := link\<rparr>"
      obtain q h2 where st: "store_add_runner ?row (str_or tok (issued_runner_token \<E>)) h1 = (q, h2)" by fastforce
      have "h' = h2" using assms tn Inr m link st by (simp add: add_runner_def split: sum.splits)
      with store_add_chunks(1) [OF st] mint_chunks [OF m] show ?thesis by simp
    qed (use assms tn Inr m mint_chunks [OF m] in \<open>simp add: add_runner_def\<close>)
  qed (use assms tn in \<open>simp add: add_runner_def\<close>)
qed (use assms in \<open>simp add: add_runner_def\<close>)

lemma place_host_chunks: "place_host \<E> n t ad rs hid tok h = (res, h') \<Longrightarrow> hub_chunks h' = hub_chunks h"
  by (auto simp: place_host_def Let_def adopt_chunks split: sum.splits prod.splits
      dest!: store_add_chunks(2) mint_chunks)

lemma add_host_chunks [chunks_frame]: "add_host \<E> n t ad hid tok h = (res, h') \<Longrightarrow> hub_chunks h' = hub_chunks h"
  by (auto simp: add_host_def split: sum.splits if_splits option.splits prod.splits dest!: place_host_chunks)

lemma register_chunks [chunks_frame]: "register \<E> r q h = (res, h') \<Longrightarrow> hub_chunks h' = hub_chunks h"
  by (auto simp: register_def refuse_version_def record_registration_def
      split: sum.splits prod.splits option.splits if_splits)

lemma place_project_chunks: "place_project i t s n h = (res, h') \<Longrightarrow> hub_chunks h' = hub_chunks h"
  by (auto simp: place_project_def Let_def split: if_splits)

lemma seed_project_chunks [chunks_frame]: "seed_project \<E> s n t p h = (res, h') \<Longrightarrow> hub_chunks h' = hub_chunks h"
  by (auto simp: seed_project_def split: sum.splits prod.splits dest!: place_project_chunks mint_chunks)

lemma seed_tenant_chunks [chunks_frame]: "seed_tenant \<E> n t h = (res, h') \<Longrightarrow> hub_chunks h' = hub_chunks h"
  by (auto simp: seed_tenant_def Let_def split: sum.splits prod.splits if_splits
      dest!: seed_project_chunks mint_chunks)

lemma artifact_chunks [chunks_frame]: "check_artifact v c n content h = (res, h') \<Longrightarrow> hub_chunks h' = hub_chunks h"
  by (auto simp: check_artifact_def split: sum.splits prod.splits option.splits
      dest!: pinned_levers_only levers_only_chunks)

lemma ingest_record_chunks: "ingest_record t r rec m h = (v, m', h') \<Longrightarrow> hub_chunks h' = hub_chunks h"
  by (auto simp: ingest_record_def Let_def cap_record_def retain_record_def own_record_def split: if_splits)

lemma ingest_records_chunks: "ingest_records t r recs m h = (vs, m', h') \<Longrightarrow> hub_chunks h' = hub_chunks h"
  by (induction recs arbitrary: m h vs) (auto split: prod.splits dest!: ingest_record_chunks)

lemma ingest_transcripts_chunks [chunks_frame]: "ingest_transcripts r recs h = (res, h') \<Longrightarrow> hub_chunks h' = hub_chunks h"
  by (auto simp: ingest_transcripts_def split: sum.splits prod.splits dest!: ingest_records_chunks)

lemma host_facts_loop_chunks:
  "ack_loop (\<lambda>f. apply_host_fact \<P> \<E> hid (ft_kind f) (ft_payload f)) bump m ap al rj fs h = (res, h') \<Longrightarrow>
     hub_chunks h' = hub_chunks h"
  by (induction fs arbitrary: m ap al rj h)
    (auto simp: apply_host_fact_def split: if_splits sum.splits prod.splits bool.splits option.splits)

lemma ingest_host_facts_chunks [chunks_frame]: "ingest_host_facts \<P> \<E> hid fs h = (res, h') \<Longrightarrow> hub_chunks h' = hub_chunks h"
  by (auto simp: ingest_host_facts_def split: sum.splits prod.splits dest!: host_facts_loop_chunks)

lemma other_chunks [chunks_frame]:
  "enroll \<E> r t h = (r1, h') \<Longrightarrow> hub_chunks h' = hub_chunks h"
  "revoke_token r h = (r2, h') \<Longrightarrow> hub_chunks h' = hub_chunks h"
  "retire \<E> r w h = (r3, h') \<Longrightarrow> hub_chunks h' = hub_chunks h"
  "set_paused r b h = (r4, h') \<Longrightarrow> hub_chunks h' = hub_chunks h"
  "report_host \<E> hid n u ru ws ss h = (r5, h') \<Longrightarrow> hub_chunks h' = hub_chunks h"
  "add_host_runner \<E> hid rname ps h = (r6, h') \<Longrightarrow> hub_chunks h' = hub_chunks h"
  "heartbeat \<E> r h = (r7, h') \<Longrightarrow> hub_chunks h' = hub_chunks h"
  "set_runner_projects r es h = (r8, h') \<Longrightarrow> hub_chunks h' = hub_chunks h"
  "rename_tenant t rname h = (r9, h') \<Longrightarrow> hub_chunks h' = hub_chunks h"
  "answer_question \<E> q a by_whom h = (r10, h') \<Longrightarrow> hub_chunks h' = hub_chunks h"
  "pop_drop_ack c h = (r11, h') \<Longrightarrow> hub_chunks h' = hub_chunks h"
  by (auto simp: enroll_def revoke_token_def retire_def set_paused_def report_host_def add_host_runner_def
      heartbeat_def set_runner_projects_def rename_tenant_def answer_question_def pop_drop_ack_def Let_def
      split: sum.splits option.splits if_splits dest: add_runner_chunks)

lemmas levers_chunks [chunks_frame] =
  envelope_levers_only [THEN levers_only_chunks] detail_levers_only [THEN levers_only_chunks]
  statuses_levers_only [THEN levers_only_chunks]

section \<open>Refinement of the chunk machine\<close>

text \<open>No row appears or goes, and each row moves along the machine.\<close>

definition refines :: "hub \<Rightarrow> hub \<Rightarrow> bool" where
  "refines h h' \<longleftrightarrow> (chunks_ok h \<longrightarrow>
     chunks_ok h' \<and> (\<forall>k. rel_option moves (get_chunk h k) (get_chunk h' k)))"

lemma refines_same: "hub_chunks h' = hub_chunks h \<Longrightarrow> refines h h'"
  by (auto simp: refines_def get_chunk_def intro: option.rel_refl)

lemma rel_option_moves_trans: "rel_option moves a b \<Longrightarrow> rel_option moves b c \<Longrightarrow> rel_option moves a c"
  by (cases a; cases b; cases c) (auto intro: rtranclp_trans)

lemma refines_trans: "refines h h1 \<Longrightarrow> refines h1 h2 \<Longrightarrow> refines h h2"
  unfolding refines_def using rel_option_moves_trans by blast

text \<open>A row put back after a move of it, into a state with the same chunks.\<close>

lemma refines_put:
  assumes "get_chunk h k = Some c" and "chunks_ok h \<Longrightarrow> cs_chunk_id c = k \<Longrightarrow> move c c'"
    and "hub_chunks h1 = hub_chunks h"
  shows "refines h (put_chunk c' h1)"
  unfolding refines_def
proof (intro impI conjI allI)
  assume ok: "chunks_ok h"
  with assms(1) have k: "cs_chunk_id c = k" by (auto dest: chunk_table.get_key)
  with assms(2) ok have m: "move c c'" by simp
  then have "cs_chunk_id c' = k" using move_grows [of c c'] k by (simp add: grows_def seeded_part_def)
  moreover have "get_chunk h1 j = get_chunk h j" for j using assms(3) by (simp add: get_chunk_def)
  ultimately show "rel_option moves (get_chunk h j) (get_chunk (put_chunk c' h1) j)" for j
    using assms(1) m by (auto simp: chunk_table.get_put intro: option.rel_refl)
  show "chunks_ok (put_chunk c' h1)" using ok assms(3) by (intro chunk_table.ok_put) simp
qed

lemma refines_pre: "hub_chunks h1 = hub_chunks h \<Longrightarrow> refines h1 h' \<Longrightarrow> refines h h'"
  by (simp add: refines_def get_chunk_def)

lemma claim_refines:
  assumes "claim c r ws envs h = (res, h')"
  shows "refines h h'"
  using claim_state [OF assms]
proof (elim disjE exE conjE)
  fix e
  assume "claim_gate c r h = (Inl e, h')"
  then show ?thesis by (intro refines_same levers_only_chunks claim_gate_levers_only)
next
  fix chunk
  assume g: "claim_gate c r h = (Inr chunk, h)" and h': "h' = put_chunk (claimed_row c r ws envs chunk) h"
  then have "get_chunk h c = Some chunk" "refuse_claim chunk = Inr ()"
    by (auto simp: claim_gate_Inr claimable_def refuse_claim_ok_iff)
  then show ?thesis unfolding h' by (intro refines_put) (auto intro: move.claimed)
qed

lemma rekey_refines: "rekey_route_token c r h = (res, h') \<Longrightarrow> refines h h'"
proof (cases "get_chunk h c")
  case (Some chunk)
  assume "rekey_route_token c r h = (res, h')"
  with Some consider "h' = h"
    | "h' = put_chunk (rekeyed_row c chunk) h" "cs_claimed chunk" "cs_route_runner_id chunk = Some r"
      "refuse_rekey chunk = Inr ()"
    by (auto simp: rekey_route_token_def Let_def split: if_splits sum.splits)
  then show ?thesis
  proof cases
    case 2
    then show ?thesis using Some by (auto intro!: refines_put move.rekeyed)
  qed (simp add: refines_same)
qed (simp add: rekey_route_token_def refines_same)

lemma release_refines:
  assumes "release c r e reason tok h = (res, h')"
  shows "refines h h'"
proof -
  from assms consider "h' = h" | chunk n chunk' where "get_chunk h c = Some chunk"
      "cs_release chunk r e reason = Inr (n, chunk')" "h' = put_chunk (chunk'\<lparr>cs_live_route_token := None\<rparr>) h"
    by (auto simp: release_def require_def split: option.splits sum.splits prod.splits if_splits)
  then show ?thesis
  proof cases
    case 2
    then show ?thesis by (auto intro: refines_put move.released)
  qed (simp add: refines_same)
qed

lemma status_refines:
  "pause_chunk c h = (r1, h') \<Longrightarrow> refines h h'" "resume_chunk c h = (r2, h') \<Longrightarrow> refines h h'"
  "stop_chunk c h = (r3, h') \<Longrightarrow> refines h h'"
  by (auto simp: pause_chunk_def resume_chunk_def stop_chunk_def require_def Let_def refines_same
      split: option.splits if_splits intro: refines_put move.paused move.resumed move.stopped)

lemma completion_refines:
  assumes "apply_completion c e n ch h = (res, h')"
  shows "refines h h'"
  using apply_completion_cases [OF assms]
proof (elim disjE exE conjE)
  assume "levers_only h h'"
  then show ?thesis by (intro refines_same levers_only_chunks)
next
  fix chunk h1
  assume chunk: "get_chunk h c = Some chunk" and lv: "levers_only h h1"
    and run: "complete_chunk chunk e n ch h1 = (res, h')"
  from lv have same: "hub_chunks h1 = hub_chunks h" by (rule levers_only_chunks)
  from run show ?thesis
  proof (cases rule: complete_chunk_cases)
    case (moved target resp chunk')
    have "refines h (put_chunk (applied_row (apply_key n e) resp chunk') h1)"
      by (rule refines_put [OF chunk _ same]) (rule move.applied [OF moved(1-3)])
    with moved(5) show ?thesis by simp
  qed (simp_all add: same refines_same)
qed

lemma decision_refines:
  assumes "apply_decision c e n h = (res, h')"
  shows "refines h h'"
proof -
  from assms consider "levers_only h h'"
    | chunk h1 where "get_chunk h c = Some chunk" "levers_only h h1" "cs_latest_epoch chunk \<le> e"
      "hub_incoherent_attempt h1 chunk n e = None" "h' = put_chunk (chunk\<lparr>cs_status := ST_NEEDS_HUMAN\<rparr>) h1"
    by (auto simp: apply_decision_def require_def split: option.splits sum.splits prod.splits if_splits
        dest!: pinned_levers_only)
  then show ?thesis
  proof cases
    case 2
    then show ?thesis by (auto intro!: refines_put move.decided levers_only_chunks)
  qed (simp add: refines_same levers_only_chunks)
qed

lemma hub_advance_refines:
  assumes "hub_advance c h = (res, h')"
  shows "refines h h'"
proof -
  from assms consider "levers_only h h'"
    | chunk h1 where "get_chunk h c = Some chunk" "levers_only h h1" "parked_at_hub_node chunk"
      "h' = put_chunk (chunk\<lparr>cs_status := ST_DONE\<rparr>) h1"
    by (auto simp: hub_advance_def require_def split: option.splits sum.splits prod.splits if_splits
        dest!: pinned_levers_only)
  then show ?thesis
  proof cases
    case 2
    then show ?thesis by (auto intro!: refines_put move.hub_ran levers_only_chunks)
  qed (simp add: refines_same levers_only_chunks)
qed

lemma refines_post: "refines h h1 \<Longrightarrow> hub_chunks h2 = hub_chunks h1 \<Longrightarrow> refines h h2"
  by (blast intro: refines_trans refines_same)

lemma lease_minted_refines: "apply_lease_minted r p h = (res, h') \<Longrightarrow> refines h h'"
proof (cases "get_chunk h (get_str p ''chunk_id'' [])")
  case (Some chunk)
  assume run: "apply_lease_minted r p h = (res, h')"
  show ?thesis
  proof (cases "get_int p ''epoch'' 0")
    case None
    with run Some show ?thesis by (simp add: apply_lease_minted_def refines_same)
  next
    case (Some e)
    have "refines h (put_chunk (chunk\<lparr>cs_latest_epoch := max (cs_latest_epoch chunk) e\<rparr>) h)"
      using \<open>get_chunk h _ = Some chunk\<close> by (auto intro: refines_put move.fenced)
    with run Some \<open>get_chunk h _ = Some chunk\<close> show ?thesis
      by (auto simp: apply_lease_minted_def advance_fence_def Let_def split: sum.splits elim: refines_post)
  qed
qed (simp add: apply_lease_minted_def refines_same)

lemma escalation_refines: "apply_escalation p h = (res, h') \<Longrightarrow> refines h h'"
proof (cases "get_chunk h (get_str p ''chunk_id'' [])")
  case chunk: (Some chunk)
  assume run: "apply_escalation p h = (res, h')"
  show ?thesis
  proof (cases "get_int p ''epoch'' 0")
    case None
    with run chunk show ?thesis by (simp add: apply_escalation_def refines_same)
  next
    case (Some e)
    show ?thesis
    proof (cases "fence_refusal chunk e")
      case None
      let ?es = "\<lparr>es_epoch = e, es_takeover_command = get_str p ''takeover_command'' [],
        es_wrapped_takeover_command = get_str p ''wrapped_takeover_command'' [],
        es_cause = get_optional_text p ''cause'', es_detail = get_optional_text p ''detail''\<rparr>"
      have "h' = put_chunk (chunk\<lparr>cs_escalation := Some ?es\<rparr>) h"
        using run chunk Some None by (simp add: apply_escalation_def record_escalation_def)
      moreover have "move chunk (chunk\<lparr>cs_escalation := Some ?es\<rparr>)"
        using None by (intro move.escalated) simp
      ultimately show ?thesis using chunk by (auto intro: refines_put)
    qed (use run chunk Some in \<open>simp add: apply_escalation_def refines_same\<close>)
  qed
qed (simp add: apply_escalation_def refines_same)

lemma question_fact_chunks:
  "apply_question_asked r p h = (r1, h') \<Longrightarrow> hub_chunks h' = hub_chunks h"
  "apply_answer_delivered \<E> p h = (r2, h') \<Longrightarrow> hub_chunks h' = hub_chunks h"
  "apply_locally_paused r p h = (r3, h') \<Longrightarrow> hub_chunks h' = hub_chunks h"
  "apply_locally_resumed r h = (r4, h') \<Longrightarrow> hub_chunks h' = hub_chunks h"
  "apply_usage_sampled \<P> \<E> r p h = (r5, h') \<Longrightarrow> hub_chunks h' = hub_chunks h"
  "apply_usage_missed \<P> \<E> r p h = (r6, h') \<Longrightarrow> hub_chunks h' = hub_chunks h"
  by (auto simp: apply_question_asked_def apply_answer_delivered_def apply_locally_paused_def
      apply_locally_resumed_def apply_usage_sampled_def apply_usage_missed_def Let_def
      split: option.splits if_splits)

lemma apply_fact_refines: "apply_fact \<P> \<E> r k p h = (res, h') \<Longrightarrow> refines h h'"
  by (auto simp: apply_fact_def split: if_splits
      dest: lease_minted_refines escalation_refines question_fact_chunks [THEN refines_same])
    (simp_all add: refines_same)

lemma fact_loop_refines:
  "ack_loop (\<lambda>f. apply_fact \<P> \<E> r (ft_kind f) (ft_payload f)) bump m ap al rj fs h = (res, h') \<Longrightarrow> refines h h'"
proof (induction fs arbitrary: m ap al rj h)
  case (Cons f fs)
  obtain q h1 where app: "apply_fact \<P> \<E> r (ft_kind f) (ft_payload f) h = (q, h1)" by fastforce
  note one = apply_fact_refines [OF app]
  show ?case
  proof (cases "ft_seq f \<le> m")
    case True
    with Cons show ?thesis by auto
  next
    case False
    with Cons.prems app Cons.IH one show ?thesis
      by (auto split: sum.splits bool.splits intro: refines_trans)
  qed
qed (simp add: refines_same)

lemma ingest_facts_refines: "ingest_facts \<P> \<E> r fs h = (res, h') \<Longrightarrow> refines h h'"
  by (auto simp: ingest_facts_def split: prod.splits sum.splits dest!: fact_loop_refines elim!: refines_post)

lemma free_routes_refines:
  assumes "hub_chunks h1 = hub_chunks h"
  shows "refines h (free_routes (held_chunks h r) h1)"
  unfolding refines_def
proof (intro impI conjI allI)
  assume ok: "chunks_ok h"
  have "chunks_ok g \<Longrightarrow> chunks_ok (free_routes cs g)" for cs g
    unfolding free_routes_def by (induction cs arbitrary: g) (auto intro: chunk_table.ok_put)
  with ok assms show "chunks_ok (free_routes (held_chunks h r) h1)" by simp
  fix k
  have "get_chunk h1 k = get_chunk h k" using assms by (simp add: get_chunk_def)
  then show "rel_option moves (get_chunk h k) (get_chunk (free_routes (held_chunks h r) h1) k)"
    using get_chunk_freed [OF ok, of r h1 k]
    by (cases "get_chunk h k") (auto intro: option.rel_refl move.freed)
qed

lemma retire_host_runner_refines:
  assumes "retire_host_runner \<E> hid r w force h = (res, h')"
  shows "refines h h'"
proof -
  have same: "hub_chunks (snd (retire \<E> r w g)) = hub_chunks g" for g
    using other_chunks(3) [of \<E> r w g] by (metis prod.collapse)
  have "h' = h \<or> (\<exists>l. h' = consume_armed l h) \<or> (\<exists>l. h' = snd (retire \<E> r w (consume_armed l h))) \<or>
      h' = free_routes (held_chunks h r) (snd (retire \<E> r w h))"
    using assms
    by (auto simp: retire_host_runner_def retire_found_def retire_and_free_def Let_def
        split: option.splits if_splits prod.splits bool.splits)
  then show ?thesis
    using free_routes_refines [OF same, of h r] by (auto intro: refines_same simp: same)
qed

text \<open>Every operation implements the machine.\<close>

lemma hub_step_refines: "hub_step h h' \<Longrightarrow> refines h h'"
proof (induction rule: hub_step.induct)
  case (statuses cs r h res h')
  then show ?case unfolding chunk_statuses_def by (intro refines_same chunks_frame)
qed (auto intro: claim_refines rekey_refines release_refines status_refines completion_refines
    decision_refines hub_advance_refines ingest_facts_refines retire_host_runner_refines
    refines_same chunks_frame simp: seed_system_artifact_def put_system_artifact_def seed_scope_def put_scope_def)

section \<open>Reachable states\<close>

definition rows_ok :: "hub \<Rightarrow> bool" where
  "rows_ok h \<longleftrightarrow> chunks_ok h \<and> (\<forall>k c. get_chunk h k = Some c \<longrightarrow> chunk_ok c)"

lemma rows_ok_step:
  assumes "rows_ok h" "refines h h'"
  shows "rows_ok h'"
  unfolding rows_ok_def
proof (intro conjI allI impI)
  from assms show "chunks_ok h'" by (auto simp: rows_ok_def refines_def)
  fix k c'
  assume c': "get_chunk h' k = Some c'"
  from assms have "rel_option moves (get_chunk h k) (get_chunk h' k)" by (auto simp: rows_ok_def refines_def)
  with c' obtain c where "get_chunk h k = Some c" "moves c c'" by (auto simp: option_rel_Some2)
  with assms(1) show "chunk_ok c'" by (auto simp: rows_ok_def dest: moves_chunk_ok)
qed

lemma seeded_chunk_ok [simp]: "chunk_ok (seeded_chunk i p spec)" "cs_chunk_id (seeded_chunk i p spec) = i"
  by (simp_all add: chunk_ok_def seeded_chunk_def)

lemma rows_ok_put: "rows_ok h \<Longrightarrow> chunk_ok c \<Longrightarrow> rows_ok (put_chunk c h)"
  unfolding rows_ok_def by (simp add: chunk_table.get_put chunk_table.ok_put)

lemma rows_ok_seed: "rows_ok h \<Longrightarrow> seed_chunk \<E> spec h = (res, h') \<Longrightarrow> rows_ok h'"
  by (auto simp: seed_chunk_def Let_def rows_ok_put split: if_splits)

lemma rows_ok_initial: "hub_chunks h = [] \<Longrightarrow> rows_ok h"
  by (simp add: rows_ok_def get_chunk_def)

lemma initial_chunks: "hub_chunks initial_hub = []" "hub_chunks (reset h) = []"
  by (simp_all add: reset_initial initial_hub_def found_first_tenant_def empty_hub_def)

text \<open>What each kind of write does to the chunk table.\<close>

lemma seeding_refused_same: "seed_chunk \<E> spec h = (Inl e, h') \<Longrightarrow> h' = h"
  by (auto simp: seed_chunk_def Let_def split: if_splits)

lemma operation_refines: "hub_write Operation h h' \<Longrightarrow> refines h h'"
  by (auto simp: hub_write_simps dest: seeding_refused_same intro: hub_step_refines refines_same)

lemma seeding_writes:
  "hub_write (Seeding c) h h' \<Longrightarrow> h' = put_chunk c h \<and> (\<exists>project spec. c = seeded_chunk (cs_chunk_id c) project spec)"
  by (auto simp: hub_write_simps seed_chunk_def Let_def split: if_splits) blast

lemma resetting_clears: "hub_write Resetting h h' \<Longrightarrow> hub_chunks h' = []"
  by (auto simp: hub_write_simps initial_chunks)

lemma rows_ok_write:
  assumes "hub_write w h h'" "rows_ok h"
  shows "rows_ok h'"
proof (cases w)
  case Operation
  with assms show ?thesis by (auto intro: rows_ok_step operation_refines)
next
  case (Seeding c)
  with assms(1) have "h' = put_chunk c h \<and> (\<exists>project spec. c = seeded_chunk (cs_chunk_id c) project spec)"
    by (auto dest: seeding_writes)
  with assms(2) show ?thesis by (metis rows_ok_put seeded_chunk_ok(1))
next
  case Resetting
  with assms(1) show ?thesis by (auto intro: rows_ok_initial resetting_clears)
qed

lemma reachable_rows_ok: "reachable h \<Longrightarrow> rows_ok h"
  by (induction rule: reachable.induct) (auto intro: rows_ok_initial rows_ok_write simp: initial_chunks)

text \<open>A run that spares a chunk moves its row along the machine, or leaves it absent.\<close>

lemma spares_moves:
  assumes "spares k h h'" "chunks_ok h"
  shows "chunks_ok h' \<and> rel_option moves (get_chunk h k) (get_chunk h' k)"
proof -
  from assms(1) obtain w where w: "hub_write w h h'"
    and kind: "case w of Operation \<Rightarrow> True | Seeding c \<Rightarrow> cs_chunk_id c \<noteq> k | Resetting \<Rightarrow> False"
    by (auto simp: spares_def)
  show ?thesis
  proof (cases w)
    case Operation
    with w assms(2) operation_refines show ?thesis unfolding refines_def by blast
  next
    case (Seeding c)
    with w kind assms(2) show ?thesis
      by (auto dest!: seeding_writes simp: chunk_table.get_put intro: chunk_table.ok_put option.rel_refl)
  qed (use kind in simp)
qed

lemma spared_run_moves:
  "(spares k)\<^sup>*\<^sup>* h h' \<Longrightarrow> chunks_ok h \<Longrightarrow> chunks_ok h' \<and> rel_option moves (get_chunk h k) (get_chunk h' k)"
  by (induction rule: rtranclp_induct) (auto dest: spares_moves intro: option.rel_refl rel_option_moves_trans)

lemma run_grows:
  assumes "(spares k)\<^sup>*\<^sup>* h h'" "chunks_ok h" "get_chunk h k = Some c"
  shows "\<exists>c'. get_chunk h' k = Some c' \<and> grows c c'"
  using spared_run_moves [OF assms(1,2)] assms(3) by (auto simp: option_rel_Some1 intro: moves_grows)

end
