(* ===== verification/Hub_Fixture.thy ===== *)
theory Hub_Fixture
  imports Hub_Steps
begin

text \<open>
  A small concrete hub: the first tenant and project, one registered runner \<open>r\<close> that serves it,
  and one ready chunk \<open>c\<close> whose graph goes from a runner node \<open>b\<close> through a hub node \<open>d\<close> to the
  terminal. The lemmas evaluate the operations on it; properties are instantiated there.
\<close>

section \<open>The rows\<close>

definition fx_env :: env where
  "fx_env = \<lparr>env_now = 0, env_millis = 0, env_rng = (\<lambda>_. 0), env_uuid_hex = ''0'', env_secret = ''s''\<rparr>"

definition fx_parsers :: parsers where
  "fx_parsers = \<lparr>pr_instant = (\<lambda>_. None), pr_resets = (\<lambda>_. None)\<rparr>"

definition fx_node :: "executor \<Rightarrow> string \<Rightarrow> node_spec" where
  "fx_node ex target =
     \<lparr>nd_executor = ex, nd_session = SM_FRESH, nd_session_source = None, nd_session_name = None,
      nd_session_model = [], nd_session_effort = None, nd_session_harnesses = [],
      nd_session_compaction_window = None, nd_session_rotate = None, nd_judged_by = JB_WORKER,
      nd_prompt = None, nd_judgement_prompt = None,
      nd_choices = [\<lparr>ch_name = ''ok'', ch_description = [], ch_to = target, ch_requires_checks = False\<rparr>],
      nd_produces = [], nd_checks = [], nd_checks_cwd = None, nd_checks_timeout = None, nd_retries_max = None\<rparr>"

definition fx_analytics :: analytics_spec where
  "fx_analytics = \<lparr>as_counts_files = [], as_counts_skills = [], as_counts_agent_types = [],
     as_counts_nodes = [], as_spend_nodes = [], as_spend_graphs = []\<rparr>"

definition fx_spec :: chunk_spec where
  "fx_spec = \<lparr>sp_chunk_id = Some ''c'', sp_project_id = None, sp_graph_id = ''g'', sp_graph_name = None,
     sp_default_model = [], sp_default_effort = None, sp_default_harnesses = [], sp_entry = ''b'',
     sp_nodes = [(''b'', fx_node EX_RUNNER ''d''), (''d'', fx_node EX_HUB ''done'')], sp_work_refs = [],
     sp_graph_artifacts = [], sp_artifact_formats = [],
     sp_garden_run = Some \<lparr>gr_routine_name = ''n'', gr_scope_slug = ''s''\<rparr>, sp_garden_findings = [],
     sp_garden_answered_findings = None, sp_garden_proposals = [], sp_analytics = fx_analytics,
     sp_status = ST_READY, sp_cost = None\<rparr>"

definition fx_chunk :: chunk_state where
  "fx_chunk = seeded_chunk ''c'' FIRST_PROJECT_ID fx_spec"

definition fx_capability :: runner_capability where
  "fx_capability = \<lparr>cp_harness_id = ''h'', cp_version = None, cp_tiers = [], cp_supported_models = [],
     cp_default = True, cp_available = True\<rparr>"

definition fx_runner :: runner_row where
  "fx_runner = (RunnerRow ''r'' FIRST_TENANT_ID ''n'' 0)\<lparr>rn_registered_at := Some 0,
     rn_capabilities := [fx_capability],
     rn_projects := [\<lparr>se_entry = ''default'', se_project_id = Some FIRST_PROJECT_ID\<rparr>]\<rparr>"

definition fx_hub :: hub where
  "fx_hub = (put_chunk fx_chunk (put_runner fx_runner initial_hub))\<lparr>hub_tokens := [(''t'', ''r'')]\<rparr>"

lemmas fx_defs = fx_chunk_def fx_spec_def seeded_chunk_def fx_node_def

section \<open>What it holds\<close>

lemma fx_chunk_simps [simp]:
  "cs_chunk_id fx_chunk = ''c''" "cs_project_id fx_chunk = FIRST_PROJECT_ID" "cs_status fx_chunk = ST_READY"
  "cs_claimed fx_chunk = False" "cs_latest_epoch fx_chunk = 0" "cs_current_node_id fx_chunk = None"
  "cs_entry fx_chunk = ''b''" "cs_applied fx_chunk = []" "cs_escalation fx_chunk = None"
  "cs_last_response fx_chunk = None" "cs_releases fx_chunk = []"
  "cs_nodes fx_chunk = [(''b'', fx_node EX_RUNNER ''d''), (''d'', fx_node EX_HUB ''done'')]"
  "cs_default_harnesses fx_chunk = []" "cs_route_token_rekey_count fx_chunk = 0"
  "cs_garden_proposals fx_chunk = []" "cs_garden_run fx_chunk = Some \<lparr>gr_routine_name = ''n'', gr_scope_slug = ''s''\<rparr>"
  by (simp_all add: fx_chunk_def fx_spec_def seeded_chunk_def)

lemma fx_node_simps [simp]:
  "nd_executor (fx_node ex target) = ex" "nd_session_harnesses (fx_node ex target) = []"
  "nd_choices (fx_node ex target) =
     [\<lparr>ch_name = ''ok'', ch_description = [], ch_to = target, ch_requires_checks = False\<rparr>]"
  by (simp_all add: fx_node_def)

lemma fx_hub_simps [simp]:
  "hub_chunks fx_hub = [(''c'', fx_chunk)]" "hub_runners fx_hub = [(''r'', fx_runner)]" "hub_levers fx_hub = []"
  "hub_questions fx_hub = []" "hub_tokens fx_hub = [(''t'', ''r'')]" "hub_revoked_tokens fx_hub = []"
  "hub_hosts fx_hub = []" "hub_fact_high_water fx_hub = []" "hub_epoch_owners fx_hub = []"
  "hub_transcript_high_water fx_hub = []" "hub_transcript_key_state fx_hub = []"
  "hub_projects fx_hub = [(FIRST_PROJECT_ID, \<lparr>pj_project_id = FIRST_PROJECT_ID, pj_tenant_id = FIRST_TENANT_ID,
     pj_slug = DEFAULT_PROJECT_SLUG, pj_name = DEFAULT_PROJECT_NAME\<rparr>)]"
  "hub_tenants fx_hub = [(FIRST_TENANT_ID, \<lparr>tn_tenant_id = FIRST_TENANT_ID, tn_name = FIRST_TENANT_NAME\<rparr>)]"
  by (simp_all add: fx_hub_def table_defs initial_hub_def found_first_tenant_def empty_hub_def fx_runner_def RunnerRow_def)

lemma fx_runner_simps [simp]:
  "rn_runner_id fx_runner = ''r''" "rn_tenant_id fx_runner = FIRST_TENANT_ID" "rn_paused fx_runner = False"
  "rn_registered_at fx_runner = Some 0" "rn_retired_at fx_runner = None" "rn_host_id fx_runner = None"
  "rn_capabilities fx_runner = [fx_capability]" "rn_bindings fx_runner = None"
  "rn_projects fx_runner = [\<lparr>se_entry = ''default'', se_project_id = Some FIRST_PROJECT_ID\<rparr>]"
  by (simp_all add: fx_runner_def RunnerRow_def)

lemma fx_gets [simp]:
  "get_chunk fx_hub ''c'' = Some fx_chunk" "get_runner fx_hub ''r'' = Some fx_runner"
  "list_chunks fx_hub = [fx_chunk]" "chunks_ok fx_hub" "find_armed k c fx_hub = None"
  "get_project fx_hub FIRST_PROJECT_ID = Some \<lparr>pj_project_id = FIRST_PROJECT_ID, pj_tenant_id = FIRST_TENANT_ID,
     pj_slug = DEFAULT_PROJECT_SLUG, pj_name = DEFAULT_PROJECT_NAME\<rparr>"
  by (simp_all add: table_defs keyed_def find_armed_def)

section \<open>Evaluation\<close>

lemma fx_at_node [simp]: "at_node fx_chunk = ''b''"
  by (simp add: at_node_def)

lemma fx_reachable: "reachable_runner_node_ids fx_chunk ''b'' = [''b'']"
  by (simp add: reachable_runner_node_ids_def reachable_loop.simps pushed_def TERMINAL_def)

lemma fx_eligible [simp]: "\<not> capability_ineligible fx_chunk ''b'' [fx_capability]"
  by (simp add: capability_ineligible_def fx_reachable lineage_satisfied_def cs_node_def effective_harnesses_def
      fx_capability_def)

lemma fx_served [simp]: "served_project_ids fx_runner = {FIRST_PROJECT_ID}"
  by (simp add: served_project_ids_def List.map_filter_def)

lemma fx_offered [simp]: "offered_project_ids fx_hub fx_runner None = {FIRST_PROJECT_ID}"
  by (simp add: offered_project_ids_def open_entries_def List.map_filter_def)

lemma fx_ready [simp]: "ready_chunks fx_hub = [fx_chunk]"
  by (simp add: ready_chunks_def)

lemma fx_usable [simp]: "unusable fx_hub [fx_capability] fx_chunk = False" "unusable fx_hub [] fx_chunk = True"
  by (simp_all add: unusable_def blocked_marking_def) (simp add: capability_ineligible_def)

lemma fx_peek:
  "peek_matched fx_hub ''r'' [fx_capability] ''pass-over'' None = Inr [peek_entry fx_hub 0 fx_chunk None]"
  by (simp add: peek_matched_def added_def)

lemma fx_claimable: "claimable fx_hub fx_chunk fx_runner" "claim_levers_clear fx_hub ''c'' ''r''"
  by (simp_all add: claimable_def runner_may_claim_def never_connected_def claim_levers_clear_def)

lemma fx_gate: "claim_gate ''c'' ''r'' fx_hub = (Inr fx_chunk, fx_hub)"
  using fx_claimable by (simp add: claim_gate_Inr)

definition fx_claimed :: hub where
  "fx_claimed = put_chunk (claimed_row ''c'' ''r'' ''w'' [] fx_chunk) fx_hub"

lemma fx_claim: "\<exists>resp. claim ''c'' ''r'' ''w'' [] fx_hub = (Inr resp, fx_claimed)"
  using fx_gate by (simp add: claim_success_iff fx_claimed_def cs_node_def)

lemma fx_claimed_unarmed [simp]: "find_armed k c fx_claimed = None"
  by (simp add: fx_claimed_def find_armed_def put_chunk_def)

section \<open>The claimed chunk completes\<close>

definition fx_row :: chunk_state where
  "fx_row = claimed_row ''c'' ''r'' ''w'' [] fx_chunk"

lemma fx_row_simps [simp]:
  "cs_chunk_id fx_row = ''c''" "cs_claimed fx_row = True" "cs_route_runner_id fx_row = Some ''r''"
  "cs_status fx_row = ST_RUNNING" "cs_latest_epoch fx_row = 0" "cs_current_node_id fx_row = Some ''b''"
  "cs_applied fx_row = []" "cs_escalation fx_row = None" "cs_last_response fx_row = None"
  "cs_nodes fx_row = [(''b'', fx_node EX_RUNNER ''d''), (''d'', fx_node EX_HUB ''done'')]"
  by (simp_all add: fx_row_def claimed_row_def)

lemma fx_claimed_gets [simp]:
  "get_chunk fx_claimed ''c'' = Some fx_row" "chunks_ok fx_claimed" "hub_questions fx_claimed = []"
  "get_runner fx_claimed ''r'' = Some fx_runner" "hub_runners fx_claimed = [(''r'', fx_runner)]"
  "hub_fact_high_water fx_claimed = []" "hub_levers fx_claimed = []" "hub_chunks fx_claimed = [(''c'', fx_row)]"
proof -
  show "chunks_ok fx_claimed" unfolding fx_claimed_def by (rule chunk_table.ok_put [OF fx_gets(4)])
qed (simp_all add: fx_claimed_def chunk_table.get_put fx_row_def claimed_row_def put_chunk_def get_chunk_def get_runner_def)

lemma fx_target: "completion_target fx_claimed fx_row 0 ''b'' ''ok'' = Inr ''d''"
  by (simp add: completion_target_def hub_incoherent_attempt_def incoherent_attempt_def open_question_ids_def
      list_questions_def cs_node_def hub_executed_def resolve_choice_def)

definition fx_taken :: apply_response where
  "fx_taken = \<lparr>ap_outcome = AO_HUB_NODE_TAKEN, ap_next_envelope = None, ap_detail = Some ''hub node took over''\<rparr>"

definition fx_applied :: chunk_state where
  "fx_applied = applied_row (apply_key ''b'' 0) fx_taken
     (fx_row\<lparr>cs_current_node_id := Some ''d'', cs_status := ST_DONE\<rparr>)"

lemma fx_completes:
  "apply_completion ''c'' 0 ''b'' ''ok'' fx_claimed = (Inr fx_taken, put_chunk fx_applied fx_claimed)"
proof -
  have "advance fx_row ''d'' = (Inr fx_taken, fx_row\<lparr>cs_current_node_id := Some ''d'', cs_status := ST_DONE\<rparr>)"
    by (simp add: advance_def TERMINAL_def cs_node_def fx_taken_def)
  then show ?thesis
    by (simp add: apply_completion_unlevered complete_chunk_def fx_target fx_applied_def)
qed

lemma fx_applied_simps [simp]:
  "cs_chunk_id fx_applied = ''c''" "cs_status fx_applied = ST_DONE" "cs_current_node_id fx_applied = Some ''d''"
  "get_chunk (put_chunk fx_applied fx_claimed) ''c'' = Some fx_applied"
  by (simp_all add: fx_applied_def applied_row_def chunk_table.get_put)

end
