(* ===== verification/Chunk_Life.thy ===== *)
theory Chunk_Life
  imports Hub_Fixture
begin

text \<open>
  The properties of a chunk's life over the whole hub: what its operations do to chunk rows, the
  claim, the matched peek, release, re-key, pause, and the apply path with its fence. Each is stated
  on the operations of the service and instantiated on the hub of \<open>Hub_Fixture\<close>.
\<close>

section \<open>The hub and the chunk machine\<close>

text \<open>C1. Every write of the hub implements the chunk machine. An operation, whatever it answers, moves each
  chunk row along the machine alone: no row appears or goes. Seeding a chunk writes the one row it answers, a
  fresh one, and no other; the reset leaves no row. The rows stay under their own ids throughout.\<close>

theorem hub_write_implements_machine:
  assumes "hub_write w h h'" and "chunks_ok h"
  shows "chunks_ok h' \<and>
    (case w of
       Operation \<Rightarrow> \<forall>k. rel_option moves (get_chunk h k) (get_chunk h' k)
     | Seeding c \<Rightarrow> get_chunk h' (cs_chunk_id c) = Some c \<and>
         (\<exists>project spec. c = seeded_chunk (cs_chunk_id c) project spec) \<and>
         (\<forall>k. k \<noteq> cs_chunk_id c \<longrightarrow> get_chunk h' k = get_chunk h k)
     | Resetting \<Rightarrow> \<forall>k. get_chunk h' k = None)"
proof (cases w)
  case Operation
  with operation_refines assms show ?thesis unfolding refines_def by auto
next
  case (Seeding c)
  with assms show ?thesis
    by (auto dest!: seeding_writes simp: chunk_table.get_put intro: chunk_table.ok_put)
next
  case Resetting
  with assms(1) have "hub_chunks h' = []" by (auto dest: resetting_clears)
  then show ?thesis using Resetting rows_ok_initial [of h'] by (simp add: rows_ok_def get_chunk_def)
qed

theorem hub_write_implements_machine_witness:
  "hub_write Operation fx_hub fx_claimed \<and> chunks_ok fx_hub \<and> chunks_ok fx_claimed \<and>
   (\<forall>k. rel_option moves (get_chunk fx_hub k) (get_chunk fx_claimed k))"
proof -
  obtain resp where "claim ''c'' ''r'' ''w'' [] fx_hub = (Inr resp, fx_claimed)" using fx_claim by blast
  then have "hub_write Operation fx_hub fx_claimed" by (intro hub_write.operation hub_step.claim)
  with hub_write_implements_machine [of Operation fx_hub fx_claimed] show ?thesis using fx_gets(4) by simp
qed

text \<open>C2. In every state reachable from the first boot, a chunk that is ready is in the ready queue,
  so no ready chunk is lost behind a stale claim; and a claimed chunk has a holder, a workspace and a
  current node.\<close>

theorem reachable_ready_is_queued:
  assumes "reachable h" and "get_chunk h k = Some c"
  shows "(cs_status c = ST_READY \<longrightarrow> c \<in> set (ready_chunks h)) \<and>
    (cs_claimed c \<longrightarrow> cs_route_runner_id c \<noteq> None \<and> cs_route_workspace_id c \<noteq> None \<and> cs_current_node_id c \<noteq> None)"
proof -
  from reachable_rows_ok [OF assms(1)] have "chunks_ok h" "chunk_ok c" using assms(2) by (auto simp: rows_ok_def)
  moreover from this have "c \<in> set (list_chunks h)"
    using assms(2) chunk_table.rows_get [of h c] chunk_table.get_key [of h k c] by simp
  ultimately show ?thesis by (auto simp: ready_chunks_def chunk_ok_def waiting_def)
qed

theorem reachable_ready_is_queued_witness:
  "let h = put_chunk fx_chunk initial_hub in reachable h \<and> get_chunk h ''c'' = Some fx_chunk \<and> fx_chunk \<in> set (ready_chunks h)"
proof -
  let ?h = "put_chunk fx_chunk initial_hub"
  have "seed_chunk fx_env fx_spec initial_hub = (Inr fx_chunk, ?h)"
    by (simp add: seed_chunk_def fx_chunk_def fx_spec_def Let_def initial_hub_def found_first_tenant_def
        empty_hub_def table_defs)
  then have r: "reachable ?h" by (rule reachable.step [OF reachable.boot hub_write.seeding])
  have "get_chunk ?h ''c'' = Some fx_chunk" by (simp add: chunk_table.get_put)
  with r reachable_ready_is_queued [of ?h "''c''" fx_chunk] show ?thesis by simp
qed

text \<open>C3. The fence of a chunk, its record of applied completions, its releases and its re-key count only
  grow, and its seeded part never changes, over any run of writes in which the hub is not reset and the chunk
  is not seeded anew; both of those start the row over. Other chunks may be seeded in between.\<close>

theorem runs_only_grow:
  assumes "(spares k)\<^sup>*\<^sup>* h h'" and "chunks_ok h" and "get_chunk h k = Some c"
  shows "\<exists>c'. get_chunk h' k = Some c' \<and> grows c c'"
  using assms by (rule run_grows)

theorem runs_only_grow_witness:
  "(spares ''c'')\<^sup>*\<^sup>* fx_hub fx_claimed \<and> (\<exists>c'. get_chunk fx_claimed ''c'' = Some c' \<and> grows fx_chunk c')"
proof -
  obtain resp where "claim ''c'' ''r'' ''w'' [] fx_hub = (Inr resp, fx_claimed)" using fx_claim by blast
  then have "(spares ''c'')\<^sup>*\<^sup>* fx_hub fx_claimed" by (blast intro: hub_step_spares hub_step.claim)
  with runs_only_grow [OF _ fx_gets(4,1)] show ?thesis by blast
qed

section \<open>Claims\<close>

text \<open>C4. A claim succeeds exactly when the chunk is known, ready and free with its node declared, the
  runner is registered, neither paused nor retired, serves the project and can run every lineage its graph
  reaches, and no lever of the claim is armed against the pair; it then writes the chunk's row and nothing
  else.\<close>

theorem claim_succeeds_iff:
  "(\<exists>resp. claim c r ws envs h = (Inr resp, h')) \<longleftrightarrow>
   (\<exists>chunk row. get_chunk h c = Some chunk \<and> get_runner h r = Some row \<and> claim_levers_clear h c r \<and>
      claimable h chunk row \<and> cs_node chunk (at_node chunk) \<noteq> None \<and>
      h' = put_chunk (claimed_row c r ws envs chunk) h)"
  unfolding claim_success_iff claim_gate_Inr by blast

text \<open>One holder: once a claim has succeeded no other claim of the chunk does, whoever asks, and the
  chunk rows it leaves are those the first claim wrote.\<close>

lemma claim_excludes_claim:
  assumes "claim c r ws envs h = (Inr resp, h')" and "chunks_ok h"
    and "claim c r2 ws2 envs2 h' = (res, h'')"
  shows "(\<exists>e. res = Inl e) \<and> get_chunk h'' = get_chunk h' \<and>
    (\<exists>chunk. get_chunk h' c = Some chunk \<and> cs_claimed chunk \<and> cs_route_runner_id chunk = Some r)"
proof -
  from assms(1) obtain chunk where chunk: "get_chunk h c = Some chunk" "h' = put_chunk (claimed_row c r ws envs chunk) h"
    using claim_success_iff [of c r ws envs h h'] by (auto simp: claim_gate_Inr)
  with assms(2) have "cs_chunk_id chunk = c" using chunk_table.get_key by blast
  then have held: "get_chunk h' c = Some (claimed_row c r ws envs chunk)"
    unfolding chunk(2) by (simp add: chunk_table.get_put claimed_row_def)
  have "\<nexists>x. claim_gate c r2 h' = (Inr x, h')"
    using held by (auto simp: claim_gate_Inr claimable_def claimed_row_def)
  with claim_state [OF assms(3)] obtain e where "claim_gate c r2 h' = (Inl e, h'')" "res = Inl e" by blast
  moreover from this have "get_chunk h'' = get_chunk h'"
    by (intro levers_only_rows(1) claim_gate_levers_only)
  ultimately show ?thesis using held by (simp add: claimed_row_def)
qed

text \<open>C6. The matched peek answers at most one entry, and the chunk it names is ready, unclaimed, in a
  project offered to the runner, unblocked and within the capabilities sent; its position is its index in
  the whole ready order. (The code numbers the ready order before it narrows it, as the docstring of
  \<^verbatim>\<open>peek_matched\<close> says; \<^verbatim>\<open>mock_hub/README.md\<close> says the place in the narrowed order.)\<close>

theorem peek_matched_sound:
  assumes "peek_matched h r caps policy projects = Inr es"
  shows "length es \<le> 1 \<and>
    (\<forall>e \<in> set es. \<exists>row. get_runner h r = Some row \<and> qe_position e < length (ready_chunks h) \<and>
       (let c = ready_chunks h ! qe_position e
        in qe_chunk_id e = cs_chunk_id c \<and> \<not> cs_claimed c \<and> cs_status c = ST_READY \<and> qe_blocked e = None \<and>
           cs_project_id c \<in> offered_project_ids h row projects \<and>
           find_armed DEPENDENCY_UNMET (cs_chunk_id c) h = None \<and>
           \<not> capability_ineligible c (at_node c) caps))"
proof -
  from assms obtain row where row: "get_runner h r = Some row"
    and es: "es = match_loop h caps (QueueMatchPolicy_of policy) (offered_project_ids h row projects)
      (projects \<noteq> None) 0 [] (ready_chunks h)"
    by (auto simp: peek_matched_def added_def split: option.splits)
  have ready: "\<not> cs_claimed c \<and> cs_status c = ST_READY" if "c \<in> set (ready_chunks h)" for c
    using that by (simp add: ready_chunks_def)
  have "\<exists>row. get_runner h r = Some row \<and> qe_position e < length (ready_chunks h) \<and>
       (let c = ready_chunks h ! qe_position e
        in qe_chunk_id e = cs_chunk_id c \<and> \<not> cs_claimed c \<and> cs_status c = ST_READY \<and> qe_blocked e = None \<and>
           cs_project_id c \<in> offered_project_ids h row projects \<and>
           find_armed DEPENDENCY_UNMET (cs_chunk_id c) h = None \<and>
           \<not> capability_ineligible c (at_node c) caps)" if "e \<in> set es" for e
  proof -
    from match_loop_sound [OF that [unfolded es]] obtain i where i: "i < length (ready_chunks h)"
      and e: "e = peek_entry h i (ready_chunks h ! i) None"
      and served: "cs_project_id (ready_chunks h ! i) \<in> offered_project_ids h row projects"
      and usable: "\<not> unusable h caps (ready_chunks h ! i)"
      by auto
    with row ready [OF nth_mem [OF i]] show ?thesis
      by (simp add: peek_entry_def unusable_def blocked_marking_def Let_def)
  qed
  then show ?thesis using match_loop_at_most_one unfolding es by blast
qed

theorem peek_matched_sound_witness:
  "peek_matched fx_hub ''r'' [fx_capability] ''pass-over'' None = Inr [peek_entry fx_hub 0 fx_chunk None] \<and>
   find_armed DEPENDENCY_UNMET ''c'' fx_hub = None"
  using fx_peek peek_matched_sound [OF fx_peek] by (simp add: peek_entry_def)

text \<open>C7. What the matched peek offers can be claimed: a runner that may claim, peeks with its stored
  capabilities and has no claim lever armed against it gets the chunk it was shown, provided the chunk's graph
  declares the node it stands at.\<close>

theorem peek_then_claim:
  assumes "chunks_ok h" and "get_runner h r = Some row" and "runner_may_claim row"
    and "peek_matched h r (rn_capabilities row) policy projects = Inr [e]"
    and "claim_levers_clear h (qe_chunk_id e) r"
    and "\<And>chunk. get_chunk h (qe_chunk_id e) = Some chunk \<Longrightarrow> cs_node chunk (at_node chunk) \<noteq> None"
  shows "\<exists>resp h'. claim (qe_chunk_id e) r ws envs h = (Inr resp, h')"
proof -
  from assms(2,4) have "e \<in> set (match_loop h (rn_capabilities row) (QueueMatchPolicy_of policy)
      (offered_project_ids h row projects) (projects \<noteq> None) 0 [] (ready_chunks h))"
    by (auto simp: peek_matched_def added_def)
  from match_loop_sound [OF this] obtain i where i: "i < length (ready_chunks h)"
    and e: "qe_chunk_id e = cs_chunk_id (ready_chunks h ! i)"
    and c: "cs_project_id (ready_chunks h ! i) \<in> offered_project_ids h row projects"
      "\<not> unusable h (rn_capabilities row) (ready_chunks h ! i)"
    by (auto simp: peek_entry_def)
  from i have "ready_chunks h ! i \<in> set (ready_chunks h)" by simp
  then have ready: "\<not> cs_claimed (ready_chunks h ! i)" "cs_status (ready_chunks h ! i) = ST_READY"
    and chunk: "get_chunk h (qe_chunk_id e) = Some (ready_chunks h ! i)"
    using chunk_table.rows_get [OF assms(1)] unfolding ready_chunks_def e by auto
  have "claimable h (ready_chunks h ! i) row"
    using ready c assms(3) offered_served by (auto simp: claimable_def unusable_def)
  then have "claim_gate (qe_chunk_id e) r h = (Inr (ready_chunks h ! i), h)"
    using chunk assms(2,5) by (auto simp: claim_gate_Inr)
  with assms(6) [OF chunk] show ?thesis using claim_success_iff [of "qe_chunk_id e" r ws envs h] by blast
qed

theorem peek_then_claim_witness:
  "\<exists>e resp h'. peek_matched fx_hub ''r'' [fx_capability] ''pass-over'' None = Inr [e] \<and>
     claim (qe_chunk_id e) ''r'' ''w'' [] fx_hub = (Inr resp, h')"
proof -
  have peek: "peek_matched fx_hub ''r'' (rn_capabilities fx_runner) ''pass-over'' None =
      Inr [peek_entry fx_hub 0 fx_chunk None]"
    using fx_peek by simp
  have "\<exists>resp h'. claim (qe_chunk_id (peek_entry fx_hub 0 fx_chunk None)) ''r'' ''w'' [] fx_hub = (Inr resp, h')"
    by (rule peek_then_claim [OF fx_gets(4) fx_gets(2) _ peek])
      (simp_all add: runner_may_claim_def never_connected_def peek_entry_def fx_claimable cs_node_def)
  with peek show ?thesis by auto
qed

text \<open>Under the pass-over policy the peek offers the first chunk of the ready order that is offered to
  the runner and usable; under an unnarrowed hold it offers the first offered chunk or nothing.\<close>

lemma peek_matched_selects:
  assumes "get_runner h r = Some row"
  shows "peek_matched h r caps ''pass-over'' projects =
      Inr (case find (\<lambda>(i, c). cs_project_id c \<in> offered_project_ids h row projects \<and> \<not> unusable h caps c)
             (enumerate 0 (ready_chunks h)) of
           None \<Rightarrow> [] | Some (i, c) \<Rightarrow> [peek_entry h i c None]) \<and>
    peek_matched h r caps ''hold'' None =
      Inr (case find (\<lambda>(i, c). cs_project_id c \<in> offered_project_ids h row None) (enumerate 0 (ready_chunks h)) of
           None \<Rightarrow> []
         | Some (i, c) \<Rightarrow> if unusable h caps c then [] else [peek_entry h i c None])"
  using assms
  by (simp add: peek_matched_def added_def QueueMatchPolicy_of_def match_loop_pass_over match_loop_hold)

section \<open>Release, re-key, pause\<close>

text \<open>C9. Only the holder of a running chunk at its current epoch gives the route back; the chunk is then
  ready and unclaimed at the same node, stands where it stood in the queue's order, and the release is the
  last one recorded, under the number answered.\<close>

theorem release_requeues:
  assumes "release c r e reason tok h = (Inr resp, h')" and "chunks_ok h"
  shows "\<exists>chunk chunk'. get_chunk h c = Some chunk \<and> get_chunk h' c = Some chunk' \<and>
    cs_route_runner_id chunk = Some r \<and> cs_status chunk = ST_RUNNING \<and> e = cs_latest_epoch chunk \<and>
    chunk' \<in> set (ready_chunks h') \<and> cs_current_node_id chunk' = cs_current_node_id chunk \<and>
    cs_live_route_token chunk' = None \<and>
    cs_releases chunk' = cs_releases chunk @ [\<lparr>rr_runner_id = r, rr_epoch = e, rr_reason = reason\<rparr>] \<and>
    rl_released_id resp = int (length (cs_releases chunk')) \<and>
    map cs_chunk_id (list_chunks h') = map cs_chunk_id (list_chunks h)"
proof -
  from assms(1) obtain chunk chunk1 where chunk: "get_chunk h c = Some chunk"
    and rel: "cs_release chunk r e reason = Inr (rl_released_id resp, chunk1)"
    and h': "h' = put_chunk (chunk1\<lparr>cs_live_route_token := None\<rparr>) h"
    by (auto simp: release_def require_def split: option.splits sum.splits prod.splits if_splits)
  let ?chunk' = "chunk1\<lparr>cs_live_route_token := None\<rparr>"
  have id: "cs_chunk_id chunk = c" using chunk_table.get_key [OF assms(2) chunk] .
  then have id': "cs_chunk_id ?chunk' = c" using rel by (auto simp: cs_release_Inr)
  have get: "get_chunk h' c = Some ?chunk'" unfolding h' by (simp add: chunk_table.get_put id' [simplified])
  moreover have "?chunk' \<in> set (list_chunks h')"
    using chunk_table.rows_put_iff [OF assms(2)] unfolding h' by blast
  moreover have "map cs_chunk_id (list_chunks h') = map cs_chunk_id (list_chunks h)"
    unfolding h' using chunk id' by (intro chunk_table.rows_put_update [OF assms(2)]) simp
  ultimately show ?thesis
    using chunk rel by (auto simp: ready_chunks_def cs_release_Inr refuse_release_ok_iff)
qed

theorem release_requeues_witness:
  "\<exists>resp h'. release ''c'' ''r'' 0 ''why'' None fx_claimed = (Inr resp, h') \<and>
     (\<exists>chunk'. get_chunk h' ''c'' = Some chunk' \<and> chunk' \<in> set (ready_chunks h'))"
proof -
  have "\<exists>n chunk'. cs_release fx_row ''r'' 0 ''why'' = Inr (n, chunk')"
    by (auto simp: cs_release_Inr refuse_release_ok_iff)
  then obtain resp h' where rel: "release ''c'' ''r'' 0 ''why'' None fx_claimed = (Inr resp, h')"
    by (auto simp: release_def require_def)
  then show ?thesis using release_requeues [OF rel fx_claimed_gets(2)] by blast
qed

text \<open>C10. A re-key is the holder's alone and its token is fresh: it differs from the token of every claim
  of the chunk at any epoch, and from the token of every later re-key of it, as long as the hub is not reset
  nor the chunk seeded anew.\<close>

theorem rekey_fresh:
  assumes "rekey_route_token c r h = (Inr resp, h')" and "chunks_ok h"
    and "(spares c)\<^sup>*\<^sup>* h' h1" and "rekey_route_token c r2 h1 = (Inr resp2, h2)"
  shows "(\<exists>chunk. get_chunk h c = Some chunk \<and> cs_route_runner_id chunk = Some r) \<and>
    (\<forall>x. rk_route_token resp \<noteq> claim_token x c) \<and> rk_route_token resp2 \<noteq> rk_route_token resp"
proof -
  from assms(1) obtain chunk where chunk: "get_chunk h c = Some chunk" "cs_route_runner_id chunk = Some r"
    and h': "h' = put_chunk (rekeyed_row c chunk) h"
    and tok: "rk_route_token resp = rekey_token c (cs_latest_epoch chunk) (cs_route_token_rekey_count chunk + 1)"
    by (auto simp: rekey_route_token_def rekeyed_row_def rekey_token_def Let_def split: option.splits if_splits sum.splits)
  from assms(4) obtain chunk1 where chunk1: "get_chunk h1 c = Some chunk1"
    and tok2: "rk_route_token resp2 = rekey_token c (cs_latest_epoch chunk1) (cs_route_token_rekey_count chunk1 + 1)"
    by (auto simp: rekey_route_token_def rekeyed_row_def rekey_token_def Let_def split: option.splits if_splits sum.splits)
  have id: "cs_chunk_id (rekeyed_row c chunk) = c"
    using chunk_table.get_key [OF assms(2) chunk(1)] by (simp add: rekeyed_row_def Let_def)
  then have "get_chunk h' c = Some (rekeyed_row c chunk)" "chunks_ok h'"
    unfolding h' by (simp add: chunk_table.get_put) (rule chunk_table.ok_put [OF assms(2)])
  from run_grows [OF assms(3) this(2,1)] chunk1 have "grows (rekeyed_row c chunk) chunk1" by simp
  then have "cs_route_token_rekey_count chunk < cs_route_token_rekey_count chunk1"
    by (simp add: grows_def rekeyed_row_def Let_def)
  with chunk tok tok2 show ?thesis by (simp add: rekey_token_inj rekey_token_claim)
qed

theorem rekey_fresh_witness:
  "\<exists>resp h' resp2 h2. rekey_route_token ''c'' ''r'' fx_claimed = (Inr resp, h') \<and>
     rekey_route_token ''c'' ''r'' h' = (Inr resp2, h2) \<and> rk_route_token resp2 \<noteq> rk_route_token resp"
proof -
  define h' where "h' = put_chunk (rekeyed_row ''c'' fx_row) fx_claimed"
  have row: "refuse_rekey fx_row = Inr ()" "cs_claimed (rekeyed_row ''c'' fx_row)"
    "cs_route_runner_id (rekeyed_row ''c'' fx_row) = Some ''r''"
    "refuse_rekey (rekeyed_row ''c'' fx_row) = Inr ()" "cs_chunk_id (rekeyed_row ''c'' fx_row) = ''c''"
    by (simp_all add: rekeyed_row_def refuse_rekey_def ended_def Let_def)
  obtain resp where one: "rekey_route_token ''c'' ''r'' fx_claimed = (Inr resp, h')"
    using row by (simp add: rekey_route_token_def h'_def Let_def)
  have "get_chunk h' ''c'' = Some (rekeyed_row ''c'' fx_row)"
    unfolding h'_def using row(5) by (simp add: chunk_table.get_put)
  then have "\<exists>resp2 h2. rekey_route_token ''c'' ''r'' h' = (Inr resp2, h2)"
    using row by (simp add: rekey_route_token_def Let_def)
  with one rekey_fresh [OF one fx_claimed_gets(2), of h' "''r''"] show ?thesis by blast
qed

text \<open>Pausing a chunk and resuming it gives back the row as it was, and a pause takes a ready chunk out
  of the queue.\<close>

lemma pause_resume:
  assumes "pause_chunk c h = (Inr s, h1)" and "resume_chunk c h1 = (res, h2)" and "chunks_ok h"
    and "get_chunk h c = Some chunk" and "cs_status chunk \<noteq> ST_PAUSED"
  shows "get_chunk h2 c = Some (chunk\<lparr>cs_status_before_pause := None\<rparr>) \<and>
    (cs_status chunk = ST_READY \<longrightarrow> c \<notin> cs_chunk_id ` set (ready_chunks h1))"
proof -
  have id: "cs_chunk_id chunk = c" using chunk_table.get_key [OF assms(3,4)] .
  from assms(1,4) have h1: "h1 = put_chunk (paused_row chunk) h" and pausable: "cs_status chunk \<in> PAUSABLE_STATUSES"
    by (auto simp: pause_chunk_def require_def Let_def split: if_splits)
  have id1: "cs_chunk_id (paused_row chunk) = c" using id by (simp add: paused_row_def)
  then have g1: "get_chunk h1 c = Some (paused_row chunk)" unfolding h1 by (simp add: chunk_table.get_put)
  have ok1: "chunks_ok h1" unfolding h1 by (rule chunk_table.ok_put [OF assms(3)])
  from assms(2) g1 have h2: "h2 = put_chunk (resumed_row (paused_row chunk)) h1"
    by (auto simp: resume_chunk_def require_def Let_def)
  have "resumed_row (paused_row chunk) = chunk\<lparr>cs_status_before_pause := None\<rparr>"
    using assms(5) by (auto simp: resumed_row_def paused_row_def status_if_paused_def)
  then have "get_chunk h2 c = Some (chunk\<lparr>cs_status_before_pause := None\<rparr>)"
    unfolding h2 using id by (simp add: chunk_table.get_put)
  moreover have "c \<notin> cs_chunk_id ` set (ready_chunks h1)" if "cs_status chunk = ST_READY"
    using g1 that chunk_table.rows_get [OF ok1]
    by (auto simp: ready_chunks_def paused_row_def status_if_paused_def pausable_iff)
  ultimately show ?thesis by blast
qed

section \<open>Completions\<close>

text \<open>C12. A completion that changes the chunk's row came at or past its fence, for a node its graph declares
  and a runner executes, with a choice that node declares, for an attempt neither escalated nor with an open
  question, and was not applied before. The node it came from is the chunk's current one; only a chunk that
  stands at no node yet, never having been claimed, lets it come from any such node, since the code checks the
  node only where there is one. The row is then moved to the choice's target and the attempt recorded. No
  completion touches another chunk.\<close>

theorem completion_moves_only_if:
  assumes "apply_completion c e n ch h = (res, h')" and "chunks_ok h" and "get_chunk h c = Some chunk"
  shows "(\<forall>k. k \<noteq> c \<longrightarrow> get_chunk h' k = get_chunk h k) \<and>
    (get_chunk h' c \<noteq> Some chunk \<longrightarrow>
       dget (cs_applied chunk) (apply_key n e) = None \<and> cs_latest_epoch chunk \<le> e \<and>
       (cs_current_node_id chunk = None \<or> cs_current_node_id chunk = Some n) \<and>
       map_option es_epoch (cs_escalation chunk) \<noteq> Some e \<and> open_question_ids h chunk e = [] \<and>
       (\<exists>node choice resp. cs_node chunk n = Some node \<and> nd_executor node \<noteq> EX_HUB \<and>
          choice \<in> set (nd_choices node) \<and> ch_name choice = ch \<and> res = Inr resp \<and>
          get_chunk h' c = Some (applied_row (apply_key n e) resp (snd (advance chunk (ch_to choice))))))"
  using apply_completion_cases [OF assms(1)]
proof
  assume "levers_only h h'"
  then show ?thesis using assms(3) by (simp add: levers_only_rows(1))
next
  assume "\<exists>chunk h1. get_chunk h c = Some chunk \<and> levers_only h h1 \<and> complete_chunk chunk e n ch h1 = (res, h')"
  then obtain h1 where h1: "levers_only h h1" and comp: "complete_chunk chunk e n ch h1 = (res, h')"
    using assms(3) by auto
  note rows = levers_only_rows(1) [OF h1]
  have qs: "open_question_ids h1 = open_question_ids h"
    using h1 by (auto simp: levers_only_def open_question_ids_def list_questions_def fun_eq_iff)
  from comp show ?thesis
  proof (cases rule: complete_chunk_cases)
    case (moved target resp chunk')
    from advance_obtain [OF moved(3)] have "cs_chunk_id chunk' = cs_chunk_id chunk" by fastforce
    then have id: "cs_chunk_id (applied_row (apply_key n e) resp chunk') = c"
      using chunk_table.get_key [OF assms(2,3)] by (simp add: applied_row_def)
    then have "get_chunk h' c = Some (applied_row (apply_key n e) resp (snd (advance chunk target)))"
      "\<forall>k. k \<noteq> c \<longrightarrow> get_chunk h' k = get_chunk h k"
      using moved(3) by (simp_all add: moved(5) chunk_table.get_put rows)
    with moved(1,4) completion_target_Inr [OF moved(2)] show ?thesis unfolding qs by blast
  qed (use assms(3) rows in simp_all)
qed

theorem completion_moves_only_if_witness:
  "apply_completion ''c'' 0 ''b'' ''ok'' fx_claimed = (Inr fx_taken, put_chunk fx_applied fx_claimed) \<and>
   dget (cs_applied fx_row) (apply_key ''b'' 0) = None \<and> cs_latest_epoch fx_row \<le> 0 \<and>
   (\<exists>node. cs_node fx_row ''b'' = Some node \<and> nd_executor node \<noteq> EX_HUB)"
proof -
  have "Some fx_applied \<noteq> Some fx_row"
    by (auto dest!: arg_cong [where f = cs_status])
  then show ?thesis
    using completion_moves_only_if [OF fx_completes fx_claimed_gets(2,1)] fx_completes by auto
qed

text \<open>C13. Completions are idempotent: with no lever in the way, sending an accepted or refused completion
  again writes nothing more and answers the same outcome with the same next envelope.\<close>

theorem completion_idempotent:
  assumes "apply_completion c e n ch h = (Inr resp, h')" and "chunks_ok h"
    and "find_armed PINNED_GRAPH_MISSING c h = None" and "find_armed REPLAY c h = None"
  shows "\<exists>resp'. apply_completion c e n ch h' = (Inr resp', h') \<and> ap_outcome resp' = ap_outcome resp \<and>
    ap_next_envelope resp' = ap_next_envelope resp"
proof -
  from assms(1) obtain chunk where chunk: "get_chunk h c = Some chunk"
    by (auto simp: apply_completion_def require_def split: option.splits)
  with assms have "complete_chunk chunk e n ch h = (Inr resp, h')" by (simp add: apply_completion_unlevered)
  then show ?thesis
  proof (cases rule: complete_chunk_cases)
    case (moved target resp1 chunk')
    let ?row = "applied_row (apply_key n e) resp chunk'"
    from moved have resp: "resp1 = resp" by simp
    from advance_obtain [OF moved(3)] have "cs_chunk_id chunk' = cs_chunk_id chunk" by fastforce
    then have "cs_chunk_id ?row = c"
      using chunk_table.get_key [OF assms(2) chunk] by (simp add: applied_row_def)
    then have "get_chunk h' c = Some ?row" using moved(5) resp by (simp add: chunk_table.get_put)
    moreover have "find_armed k c h' = find_armed k c h" for k
      unfolding moved(5) by (simp add: find_armed_def put_chunk_def)
    moreover have "dget (cs_applied ?row) (apply_key n e) = Some (ap_outcome resp)" by (simp add: applied_row_def)
    ultimately show ?thesis
      using assms(3,4) rebuild_moved [OF moved(3)] resp
      by (simp add: apply_completion_unlevered complete_chunk_def)
  next
    case (refused detail)
    with assms(1) show ?thesis by blast
  next
    case (replayed outcome)
    with assms(1) show ?thesis by blast
  qed
qed

theorem completion_idempotent_witness:
  "\<exists>resp'. apply_completion ''c'' 0 ''b'' ''ok'' (put_chunk fx_applied fx_claimed) = (Inr resp', put_chunk fx_applied fx_claimed) \<and>
     ap_outcome resp' = AO_HUB_NODE_TAKEN"
  using completion_idempotent [OF fx_completes fx_claimed_gets(2) fx_claimed_unarmed fx_claimed_unarmed]
  by (auto simp: fx_taken_def)

text \<open>C14. A lease fences older attempts for the rest of the chunk's life: after a minted lease at epoch \<open>e\<close>
  and any run of writes in which the hub is not reset and the chunk not seeded anew, a completion of the chunk
  from an epoch before \<open>e\<close> that is not already applied (an applied one is replayed) and meets no armed lever of
  the apply path is answered as a stale failure and writes nothing.\<close>

theorem lease_fences_completions:
  assumes "apply_lease_minted r p h = (Inr True, h1)" and "chunks_ok h" and "get_str p ''chunk_id'' [] = c"
    and "get_int p ''epoch'' 0 = Some e" and "(spares c)\<^sup>*\<^sup>* h1 h2" and "get_chunk h2 c = Some chunk"
    and "get_chunk h c \<noteq> None" and "old < e" and "dget (cs_applied chunk) (apply_key n old) = None"
    and "find_armed PINNED_GRAPH_MISSING c h2 = None" and "find_armed REPLAY c h2 = None"
  shows "apply_completion c old n ch h2 = (Inr (fail_response (stale_detail chunk old)), h2)"
proof -
  from assms(7) obtain chunk0 where chunk0: "get_chunk h c = Some chunk0" by auto
  let ?row = "chunk0\<lparr>cs_latest_epoch := max (cs_latest_epoch chunk0) e\<rparr>"
  from assms(1,3,4) chunk0 obtain o' where h1: "h1 = put_chunk ?row h\<lparr>hub_epoch_owners := o'\<rparr>"
    by (auto simp: apply_lease_minted_def advance_fence_def Let_def split: sum.splits prod.splits)
  have "get_chunk h1 c = Some ?row"
    using chunk_table.get_key [OF assms(2) chunk0] chunk_table.get_put [of ?row h c] unfolding h1 by (simp add: get_chunk_def)
  moreover have "chunks_ok h1" using chunk_table.ok_put [OF assms(2), of ?row] unfolding h1 by simp
  ultimately have "grows ?row chunk" using run_grows [OF assms(5)] assms(6) by fastforce
  then have "old < cs_latest_epoch chunk" using assms(8) by (simp add: grows_def)
  then show ?thesis
    using assms by (simp add: apply_completion_unlevered complete_chunk_def completion_target_def)
qed

theorem lease_fences_completions_witness:
  "let p = [(''chunk_id'', JStr ''c''), (''epoch'', JInt 2)]; h1 = snd (apply_lease_minted ''r'' p fx_claimed)
   in fst (apply_lease_minted ''r'' p fx_claimed) = Inr True \<and>
      (\<exists>chunk. get_chunk h1 ''c'' = Some chunk \<and>
         apply_completion ''c'' 1 ''b'' ''ok'' h1 = (Inr (fail_response (stale_detail chunk 1)), h1))"
proof -
  let ?p = "[(''chunk_id'', JStr ''c''), (''epoch'', JInt 2)]"
  let ?row = "fx_row\<lparr>cs_latest_epoch := 2\<rparr>"
  define h1 where "h1 = snd (apply_lease_minted ''r'' ?p fx_claimed)"
  have p: "get_str ?p ''chunk_id'' [] = ''c''" "get_int ?p ''epoch'' 0 = Some 2"
    by (simp_all add: get_str_def get_int_def json_int_def)
  then have minted: "apply_lease_minted ''r'' ?p fx_claimed = (Inr True, h1)"
    by (simp add: apply_lease_minted_def advance_fence_def added_def Let_def h1_def)
  have "h1 = put_chunk ?row fx_claimed\<lparr>hub_epoch_owners := hub_epoch_owners h1\<rparr>"
    using p by (simp add: apply_lease_minted_def advance_fence_def added_def Let_def h1_def)
  then obtain os where h1: "h1 = put_chunk ?row fx_claimed\<lparr>hub_epoch_owners := os\<rparr>" by blast
  have "get_chunk h1 ''c'' = Some ?row"
    using chunk_table.get_put [of ?row fx_claimed "''c''"] unfolding h1 by (simp add: get_chunk_def)
  moreover have "find_armed k ''c'' h1 = None" for k
    using fx_claimed_unarmed [of k "''c''"] unfolding h1 by (simp add: find_armed_def put_chunk_def)
  ultimately show ?thesis
    using lease_fences_completions [OF minted fx_claimed_gets(2) p rtranclp.rtrancl_refl, of ?row 1 "''b''" "''ok''"]
      minted by simp
qed

text \<open>C33. A sound completion always goes through: at or past the fence, from the current runner node, with a
  declared choice, no escalation or open question on the attempt and no earlier application, it is answered by
  where the choice leads: done at the terminal, handed over at a hub node, the next envelope at a runner node,
  a failure for a target the graph does not declare. The attempt is recorded.\<close>

theorem completion_advances:
  assumes "chunks_ok h" and "get_chunk h c = Some chunk" and "dget (cs_applied chunk) (apply_key n e) = None"
    and "cs_latest_epoch chunk \<le> e" and "cs_current_node_id chunk = Some n"
    and "map_option es_epoch (cs_escalation chunk) \<noteq> Some e" and "open_question_ids h chunk e = []"
    and "cs_node chunk n = Some node" and "nd_executor node \<noteq> EX_HUB" and "resolve_choice node ch = Some target"
    and "find_armed PINNED_GRAPH_MISSING c h = None" and "find_armed REPLAY c h = None"
  shows "\<exists>resp chunk'. apply_completion c e n ch h = (Inr resp, put_chunk chunk' h) \<and>
    dget (cs_applied chunk') (apply_key n e) = Some (ap_outcome resp) \<and> cs_last_response chunk' = Some resp \<and>
    (if target = TERMINAL then ap_outcome resp = AO_DONE \<and> cs_status chunk' = ST_DONE
     else case cs_node chunk target of
            None \<Rightarrow> ap_outcome resp = AO_FAILURE \<and> cs_current_node_id chunk' = Some n
          | Some next \<Rightarrow> cs_current_node_id chunk' = Some target \<and>
              (if nd_executor next = EX_HUB then ap_outcome resp = AO_HUB_NODE_TAKEN \<and> cs_status chunk' = ST_DONE
               else ap_outcome resp = AO_NEXT \<and> ap_next_envelope resp \<noteq> None \<and> cs_status chunk' = ST_RUNNING))"
proof -
  have target: "completion_target h chunk e n ch = Inr target"
    using assms(4-10)
    by (auto simp: completion_target_def hub_incoherent_attempt_def incoherent_attempt_def hub_executed_def
        split: option.splits)
  obtain resp chunk' where adv: "advance chunk target = (Inr resp, chunk')"
    using advance_Inr [of chunk target] by (metis prod.collapse)
  have "apply_completion c e n ch h = (Inr resp, put_chunk (applied_row (apply_key n e) resp chunk') h)"
    using assms(2,3,11,12) by (simp add: apply_completion_unlevered complete_chunk_def target adv)
  moreover have "if target = TERMINAL then ap_outcome resp = AO_DONE \<and> cs_status chunk' = ST_DONE
     else case cs_node chunk target of
            None \<Rightarrow> ap_outcome resp = AO_FAILURE \<and> cs_current_node_id chunk' = Some n
          | Some next \<Rightarrow> cs_current_node_id chunk' = Some target \<and>
              (if nd_executor next = EX_HUB then ap_outcome resp = AO_HUB_NODE_TAKEN \<and> cs_status chunk' = ST_DONE
               else ap_outcome resp = AO_NEXT \<and> ap_next_envelope resp \<noteq> None \<and> cs_status chunk' = ST_RUNNING)"
    using adv assms(5)
    by (auto simp: advance_def fail_response_def Let_def map_sum_Inr split: if_splits option.splits)
  ultimately show ?thesis
    by (intro exI [of _ resp] exI [of _ "applied_row (apply_key n e) resp chunk'"])
      (auto simp: applied_row_def split: option.splits if_splits)
qed

theorem completion_advances_witness:
  "\<exists>resp chunk'. apply_completion ''c'' 0 ''b'' ''ok'' fx_claimed = (Inr resp, put_chunk chunk' fx_claimed) \<and>
     ap_outcome resp = AO_HUB_NODE_TAKEN \<and> cs_current_node_id chunk' = Some ''d''"
proof -
  have nodes: "cs_node fx_row ''b'' = Some (fx_node EX_RUNNER ''d'')" "cs_node fx_row ''d'' = Some (fx_node EX_HUB ''done'')"
    by (simp_all add: cs_node_def)
  have "open_question_ids fx_claimed fx_row 0 = []" by (simp add: open_question_ids_def list_questions_def)
  moreover have "resolve_choice (fx_node EX_RUNNER ''d'') ''ok'' = Some ''d''" by (simp add: resolve_choice_def)
  ultimately show ?thesis
    using completion_advances [OF fx_claimed_gets(2,1), of "''b''" 0 "fx_node EX_RUNNER ''d''" "''ok''" "''d''"] nodes
    by (auto simp: TERMINAL_def)
qed

text \<open>One holder per route: no single write of the chunk machine hands a claimed chunk from one route to
  another, and a chunk becomes claimed by the claim's write alone, from ready.\<close>

lemma route_changes_hands_by_claim:
  assumes "move c c'" and "cs_claimed c'"
  shows "(cs_claimed c \<longrightarrow> route c' = route c) \<and>
    (\<not> cs_claimed c \<longrightarrow> cs_status c = ST_READY \<and> (\<exists>r ws envs. c' = claimed_row (cs_chunk_id c) r ws envs c))"
  using move_holder [OF assms(1) _ assms(2)] move_claims [OF assms(1) _ assms(2)] by blast

section \<open>Where the code departs from its intent\<close>

text \<open>A completion does not ask whether the chunk has ended: one that arrives after a stop moves the stopped
  chunk along its graph.\<close>

lemma stopped_chunk_completes:
  "\<exists>h1 resp chunk'. stop_chunk ''c'' fx_claimed = (Inr (), h1) \<and>
     (\<exists>chunk. get_chunk h1 ''c'' = Some chunk \<and> cs_status chunk = ST_STOPPED) \<and>
     apply_completion ''c'' 0 ''b'' ''ok'' h1 = (Inr resp, put_chunk chunk' h1) \<and> cs_status chunk' = ST_DONE"
proof -
  let ?row = "fx_row\<lparr>cs_status := ST_STOPPED, cs_claimed := False\<rparr>"
  let ?h1 = "put_chunk ?row fx_claimed"
  have stop: "stop_chunk ''c'' fx_claimed = (Inr (), ?h1)" by (simp add: stop_chunk_def require_def)
  have get: "get_chunk ?h1 ''c'' = Some ?row" by (simp add: chunk_table.get_put)
  have unarmed: "find_armed k ''c'' ?h1 = None" for k by (simp add: find_armed_def put_chunk_def)
  have "completion_target ?h1 ?row 0 ''b'' ''ok'' = Inr ''d''"
    by (simp add: completion_target_def hub_incoherent_attempt_def incoherent_attempt_def open_question_ids_def
        list_questions_def put_chunk_def cs_node_def hub_executed_def resolve_choice_def)
  moreover have "advance ?row ''d'' = (Inr fx_taken, ?row\<lparr>cs_current_node_id := Some ''d'', cs_status := ST_DONE\<rparr>)"
    by (simp add: advance_def TERMINAL_def cs_node_def fx_taken_def)
  ultimately have "apply_completion ''c'' 0 ''b'' ''ok'' ?h1 = (Inr fx_taken, put_chunk (applied_row (apply_key ''b'' 0) fx_taken
      (?row\<lparr>cs_current_node_id := Some ''d'', cs_status := ST_DONE\<rparr>)) ?h1)"
    using apply_completion_unlevered [OF get unarmed unarmed] by (simp add: complete_chunk_def)
  with stop get show ?thesis by (intro exI conjI) (auto simp: applied_row_def)
qed

text \<open>Nor does it ask whether the chunk was ever claimed: while it stands at no node, a completion from any runner
  node of its graph moves it.\<close>

lemma unclaimed_chunk_completes:
  "cs_current_node_id fx_chunk = None \<and> \<not> cs_claimed fx_chunk \<and>
   (\<exists>resp chunk'. apply_completion ''c'' 0 ''b'' ''ok'' fx_hub = (Inr resp, put_chunk chunk' fx_hub) \<and> cs_status chunk' = ST_DONE)"
proof -
  have none: "cs_current_node_id fx_chunk = None" "\<not> cs_claimed fx_chunk" by simp_all
  have unarmed: "find_armed k ''c'' fx_hub = None" for k by (simp add: find_armed_def)
  have "completion_target fx_hub fx_chunk 0 ''b'' ''ok'' = Inr ''d''"
    by (simp add: completion_target_def hub_incoherent_attempt_def incoherent_attempt_def open_question_ids_def
        list_questions_def cs_node_def hub_executed_def resolve_choice_def)
  moreover have "advance fx_chunk ''d'' = (Inr fx_taken, fx_chunk\<lparr>cs_current_node_id := Some ''d'', cs_status := ST_DONE\<rparr>)"
    by (simp add: advance_def TERMINAL_def cs_node_def fx_taken_def)
  ultimately have "apply_completion ''c'' 0 ''b'' ''ok'' fx_hub = (Inr fx_taken, put_chunk (applied_row (apply_key ''b'' 0) fx_taken
      (fx_chunk\<lparr>cs_current_node_id := Some ''d'', cs_status := ST_DONE\<rparr>)) fx_hub)"
    using apply_completion_unlevered [OF fx_gets(1) unarmed unarmed] by (simp add: complete_chunk_def)
  with none show ?thesis by (auto simp: applied_row_def)
qed

text \<open>Freeing the route of a paused chunk keeps what a resume restores: the chunk resumes as running with
  no route, so neither claimed nor in the ready queue.\<close>

lemma freed_paused_chunk_is_stranded:
  assumes "cs_status c = ST_RUNNING"
  shows "cs_status (resumed_row (freed_row (paused_row c))) = ST_RUNNING \<and>
    \<not> cs_claimed (resumed_row (freed_row (paused_row c))) \<and> cs_route_runner_id (resumed_row (freed_row (paused_row c))) = None"
  using assms by (simp add: paused_row_def freed_row_def resumed_row_def status_if_paused_def pausable_iff)

text \<open>The replay of a completion that led to a runner node fails once the chunk has reached the terminal:
  the envelope is rebuilt at the chunk's present node, which the graph does not declare.\<close>

lemma replay_after_terminal_fails:
  assumes "dget (cs_applied chunk) (apply_key n e) = Some AO_NEXT" and "cs_current_node_id chunk = Some TERMINAL"
    and "cs_node chunk TERMINAL = None"
  shows "\<exists>message. complete_chunk chunk e n ch h = (Inl (ChunkNotFound message), h)"
  using assms by (simp add: complete_chunk_def rebuild_def envelope_of_def)

end
