(* ===== verification/Hub_Lanes.thy ===== *)
theory Hub_Lanes
  imports Hub_Fixture
begin

text \<open>
  The properties of the three batched lanes: runner facts, host facts and transcripts. Each batch is
  acknowledged record by record, marks only rise, and a repeated batch changes nothing.
\<close>

section \<open>Runner and host facts\<close>

lemma mset_ack: "mset (map ft_seq (sort_key ft_seq facts)) = mset (map ft_seq facts)"
  by (metis mset_map mset_sort)

text \<open>C15. A batch of runner facts is acknowledged fact by fact, each sequence number in exactly one of
  the three lists; the numbers applied are past the runner's mark and strictly increasing, and the mark
  answered and stored is the last of them, or the old one when none was applied.\<close>

theorem fact_ack_partitions:
  assumes "ingest_facts \<P> \<E> r facts h = (Inr ack, h')"
  shows "mset (fa_applied ack) + mset (fa_already_applied ack) + mset (fa_rejected ack) = mset (map ft_seq facts) \<and>
    sorted_wrt (<) (dget_or (hub_fact_high_water h) r 0 # fa_applied ack) \<and>
    fa_high_water ack = last (dget_or (hub_fact_high_water h) r 0 # fa_applied ack) \<and>
    dget (hub_fact_high_water h') r = Some (fa_high_water ack)"
  using assms
proof (rule ingest_facts_Inr)
  fix mark ap al rj h1
  assume loop: "ack_loop (\<lambda>f. apply_fact \<P> \<E> r (ft_kind f) (ft_payload f)) max
      (dget_or (hub_fact_high_water h) r 0) [] [] [] (sort_key ft_seq facts) h = (Inr (mark, ap, al, rj), h1)"
    and "ack = \<lparr>fa_id = r, fa_high_water = mark, fa_applied = ap, fa_already_applied = al, fa_rejected = rj\<rparr>"
      "h' = h1\<lparr>hub_fact_high_water := dset r mark (hub_fact_high_water h1)\<rparr>"
  then show ?thesis
    using runner_lane.ack_partition [OF loop] runner_lane.ack_mark [OF loop] by (simp add: mset_ack)
qed

definition fx_facts :: "fact list" where
  "fx_facts = [\<lparr>ft_seq = 2, ft_kind = USAGE_RECORDED, ft_payload = []\<rparr>,
     \<lparr>ft_seq = 1, ft_kind = EVENT_RECORDED, ft_payload = []\<rparr>]"

lemma fx_sorted: "sort_key ft_seq fx_facts = [\<lparr>ft_seq = 1, ft_kind = EVENT_RECORDED, ft_payload = []\<rparr>,
    \<lparr>ft_seq = 2, ft_kind = USAGE_RECORDED, ft_payload = []\<rparr>]"
  by (simp add: fx_facts_def)

definition fx_ack :: fact_ack where
  "fx_ack = \<lparr>fa_id = ''r'', fa_high_water = 2, fa_applied = [1, 2], fa_already_applied = [], fa_rejected = []\<rparr>"

lemma fx_ingest: "ingest_facts fx_parsers fx_env ''r'' fx_facts fx_hub =
    (Inr fx_ack, fx_hub\<lparr>hub_fact_high_water := [(''r'', 2)]\<rparr>)"
  by (simp add: ingest_facts_def fx_sorted apply_fact_def fact_kinds ack_of_def fx_ack_def dget_or_def)

theorem fact_ack_partitions_witness:
  "ingest_facts fx_parsers fx_env ''r'' fx_facts fx_hub = (Inr fx_ack, fx_hub\<lparr>hub_fact_high_water := [(''r'', 2)]\<rparr>) \<and>
   mset (fa_applied fx_ack) + mset (fa_already_applied fx_ack) + mset (fa_rejected fx_ack) = mset (map ft_seq fx_facts)"
  using fx_ingest fact_ack_partitions [OF fx_ingest] by blast

text \<open>Shipping a batch again after an acknowledgement with no rejection applies nothing: the hub is
  the same and every number comes back as already applied.\<close>

lemma fact_replay_is_noop:
  assumes "ingest_facts \<P> \<E> r facts h = (Inr ack, h')" and "fa_rejected ack = []"
  shows "ingest_facts \<P> \<E>' r facts h' =
    (Inr (ack\<lparr>fa_applied := [], fa_already_applied := map ft_seq (sort_key ft_seq facts)\<rparr>), h')"
  using assms by (rule ingest_facts_clean_replay)

text \<open>What every step of a lane keeps, the lane keeps.\<close>

lemma ack_loop_invariant:
  assumes "\<And>f h res h'. app f h = (res, h') \<Longrightarrow> I h \<Longrightarrow> I h'" and "ack_loop app bump mark ap al rj fs h = (res, h')"
    and "I h"
  shows "I h'"
  using assms(2,3)
proof (induction fs arbitrary: mark ap al rj h)
  case (Cons f fs)
  obtain r h1 where app: "app f h = (r, h1)" by fastforce
  with assms(1) Cons.prems(2) have "I h1" by blast
  with Cons app show ?case
    by (cases r) (auto split: if_splits bool.splits)
qed simp

lemma host_fact_row_id: "host_fact_row \<P> \<E> kind p row = Some row' \<Longrightarrow> hs_host_id row' = hs_host_id row"
  by (auto simp: host_fact_row_def split: if_splits option.splits json.splits)

lemma apply_host_fact_frame:
  assumes "apply_host_fact \<P> \<E> i kind p h = (res, h')" and "hosts_ok h"
  shows "hosts_ok h' \<and> (\<forall>k. k \<noteq> i \<longrightarrow> get_host h' k = get_host h k) \<and> hub_chunks h' = hub_chunks h \<and>
    hub_runners h' = hub_runners h"
proof (cases "Option.bind (get_host h i) (host_fact_row \<P> \<E> kind p)")
  case None
  with assms show ?thesis by (auto simp: apply_host_fact_def)
next
  case (Some row')
  then obtain row where row: "get_host h i = Some row" "host_fact_row \<P> \<E> kind p row = Some row'"
    by (auto simp: bind_eq_Some_conv)
  then have "hs_host_id row' = i" using host_fact_row_id host_table.get_key [OF assms(2) row(1)] by fastforce
  moreover from Some assms(1) have "h' = put_host row' h" by (simp add: apply_host_fact_def)
  ultimately show ?thesis
    using host_table.ok_put [OF assms(2), of row'] by (simp add: host_table.get_put) (simp add: put_host_def)
qed

text \<open>The host's lane acknowledges the same way, and no fact of any kind touches a row other than
  that host's own: the chunks, runners and every other host stay as they were.\<close>

lemma host_fact_ack_partitions:
  assumes "ingest_host_facts \<P> \<E> i facts h = (Inr ack, h')" and "hosts_ok h"
  shows "mset (fa_applied ack) + mset (fa_already_applied ack) + mset (fa_rejected ack) = mset (map ft_seq facts) \<and>
    sorted_wrt (<) (dget_or (hub_host_fact_high_water h) i 0 # fa_applied ack) \<and>
    dget (hub_host_fact_high_water h') i = Some (last (dget_or (hub_host_fact_high_water h) i 0 # fa_applied ack)) \<and>
    (\<forall>k. k \<noteq> i \<longrightarrow> get_host h' k = get_host h k) \<and> hub_chunks h' = hub_chunks h \<and> hub_runners h' = hub_runners h"
proof -
  from assms(1) obtain mark ap al rj h1 where
    loop: "ack_loop (\<lambda>f. apply_host_fact \<P> \<E> i (ft_kind f) (ft_payload f)) (\<lambda>mark seq. seq)
      (dget_or (hub_host_fact_high_water h) i 0) [] [] [] (sort_key ft_seq facts) h = (Inr (mark, ap, al, rj), h1)"
    and ack: "ack = \<lparr>fa_id = i, fa_high_water = mark, fa_applied = ap, fa_already_applied = al, fa_rejected = rj\<rparr>"
    and h': "h' = h1\<lparr>hub_host_fact_high_water := dset i mark (hub_host_fact_high_water h1)\<rparr>"
    by (auto simp: ingest_host_facts_def ack_of_def split: prod.splits sum.splits)
  have "hosts_ok h1 \<and> (\<forall>k. k \<noteq> i \<longrightarrow> get_host h1 k = get_host h k) \<and> hub_chunks h1 = hub_chunks h \<and>
      hub_runners h1 = hub_runners h"
    by (rule ack_loop_invariant [OF _ loop]) (use apply_host_fact_frame assms(2) in auto)
  then show ?thesis
    using host_lane.ack_partition [OF loop] host_lane.ack_mark [OF loop]
    by (simp add: ack h' mset_ack) (simp add: get_host_def)
qed

definition fx_host :: host_row where
  "fx_host = HostRow ''H'' FIRST_TENANT_ID ''n'' 0"

definition fx_host_facts :: "fact list" where
  "fx_host_facts = [\<lparr>ft_seq = 1, ft_kind = ''other'', ft_payload = []\<rparr>,
     \<lparr>ft_seq = 2, ft_kind = USAGE_SAMPLED, ft_payload = [(''slug'', JStr ''s'')]\<rparr>]"

text \<open>A rejected host fact does not hold the mark: a later one applied in the same batch moves it past.\<close>

lemma rejected_host_fact_is_passed:
  "\<exists>h'. ingest_host_facts fx_parsers fx_env ''H'' fx_host_facts (put_host fx_host fx_hub) =
     (Inr \<lparr>fa_id = ''H'', fa_high_water = 2, fa_applied = [2], fa_already_applied = [], fa_rejected = [1]\<rparr>, h')"
proof -
  have "get_host (put_host fx_host fx_hub) ''H'' = Some fx_host"
    by (simp add: host_table.get_put) (simp add: fx_host_def HostRow_def)
  moreover have "hub_host_fact_high_water (put_host fx_host fx_hub) = []"
    by (simp add: put_host_def fx_hub_def table_defs initial_hub_def found_first_tenant_def empty_hub_def)
  ultimately show ?thesis
    by (simp add: ingest_host_facts_def fx_host_facts_def host_of_def apply_host_fact_def host_fact_row_def
        fact_kinds usage_slug_def ack_of_def dget_or_def)
qed

section \<open>Transcripts\<close>

lemma ingest_transcripts_obtain:
  assumes "ingest_transcripts r records h = (Inr ack, h')"
  obtains row vs mark h1 where "get_runner h r = Some row"
    "ingest_records (rn_tenant_id row) r (sort_key tr_seq records) (dget_or (hub_transcript_high_water h) r 0) h = (vs, mark, h1)"
    "ack = \<lparr>ta_runner_id = r, ta_high_water = mark, ta_applied = with_verdict RV_APPLIED vs,
       ta_already_applied = with_verdict RV_ALREADY vs, ta_capped = with_verdict RV_CAPPED vs,
       ta_refused = with_verdict RV_REFUSED vs\<rparr>"
    "h' = h1\<lparr>hub_transcript_high_water := dset r mark (hub_transcript_high_water h1)\<rparr>"
  using assms by (auto simp: ingest_transcripts_def added_def split: option.splits prod.splits)

lemma ingest_records_runners: "ingest_records t rid rs mark h = (vs, mark', h') \<Longrightarrow> hub_runners h' = hub_runners h"
proof (induction rs arbitrary: mark h vs)
  case (Cons r rs)
  have "ingest_record t rid r mark h = (v, m, h1) \<Longrightarrow> hub_runners h1 = hub_runners h" for v m h1
    by (auto simp: ingest_record_def Let_def cap_record_def retain_record_def own_record_def split: if_splits)
  with Cons show ?case by (fastforce split: prod.splits)
qed simp

lemma transcripts_ok_mark [simp]: "transcripts_ok (h\<lparr>hub_transcript_high_water := m\<rparr>) = transcripts_ok h"
  by (simp add: transcripts_ok_def retained_ok_def rejected_ok_def credited_ok_def chunk_bytes_def retained_def)

text \<open>C18. The bytes a chunk is credited with are those of the records retained for it and stay within the
  budget; a retained record stands under its own lease and key and was accepted, a capped one keeps no turns
  and has an owner. Every batch keeps this.\<close>

theorem transcripts_stay_in_budget:
  assumes "transcripts_ok h" and "ingest_transcripts r records h = (res, h')"
  shows "transcripts_ok h' \<and> (\<forall>tc. chunk_bytes h' tc = bytes_of (retained h' tc) \<and>
    bytes_of (retained h' tc) \<le> TRANSCRIPT_CHUNK_BUDGET_MAX_BYTES)"
proof -
  have "transcripts_ok h'"
  proof (cases res)
    case (Inl e)
    with assms show ?thesis by (auto simp: ingest_transcripts_def split: sum.splits prod.splits)
  next
    case (Inr ack)
    from assms(2) [unfolded this] obtain row :: runner_row and vs mark h1 where
      run: "ingest_records (rn_tenant_id row) r (sort_key tr_seq records) (dget_or (hub_transcript_high_water h) r 0) h = (vs, mark, h1)"
      and h': "h' = h1\<lparr>hub_transcript_high_water := dset r mark (hub_transcript_high_water h1)\<rparr>"
      by (rule ingest_transcripts_obtain) blast
    from transcripts_ok_ingest_records [OF assms(1) run] show ?thesis by (simp add: h')
  qed
  then show ?thesis using credited_okD [of h'] by (simp add: transcripts_ok_def)
qed

definition fx_record :: "int \<Rightarrow> transcript_record" where
  "fx_record seq = \<lparr>tr_seq = seq, tr_segment_id = ''s'', tr_chunk_id = ''c'', tr_node_id = ''b'', tr_epoch = 0,
     tr_spawn_generation = 0, tr_turn_range_start = seq, tr_turn_range_end = seq, tr_final = False,
     tr_record_truncated = False, tr_supersedes = None, tr_turns = [[(''t'', JStr ''x'')]]\<rparr>"

lemma fx_transcripts_ok: "transcripts_ok fx_hub"
  by (simp add: transcripts_ok_def retained_ok_def rejected_ok_def credited_ok_def chunk_bytes_def retained_def
      fx_hub_def table_defs initial_hub_def found_first_tenant_def empty_hub_def dget_or_def)

theorem transcripts_stay_in_budget_witness:
  "transcripts_ok fx_hub \<and> transcripts_ok (snd (ingest_transcripts ''r'' [fx_record 1, fx_record 2] fx_hub))"
  using fx_transcripts_ok transcripts_stay_in_budget [OF fx_transcripts_ok, of "''r''" "[fx_record 1, fx_record 2]"]
  by (metis prod.collapse)

text \<open>Every record of a batch is answered once, applied, already applied, capped or refused; refused are
  exactly those whose epoch another runner holds; the mark rises past every number of the batch; and the same
  batch again leaves the hub as it is and applies nothing.\<close>

lemma transcript_batch_acknowledged:
  assumes "ingest_transcripts r records h = (Inr ack, h')"
  shows "mset (ta_applied ack) + mset (ta_already_applied ack) + mset (ta_capped ack) + mset (ta_refused ack) =
      mset (map tr_seq records) \<and>
    (\<exists>row. get_runner h r = Some row \<and> ta_refused ack = map tr_seq (filter (\<lambda>x. \<not> ships_from_lease_holder
      (dget (hub_epoch_owners h) (rn_tenant_id row, tr_chunk_id x, tr_epoch x)) r) (sort_key tr_seq records))) \<and>
    (\<forall>x \<in> set records. tr_seq x \<le> ta_high_water ack) \<and>
    (\<exists>ack2. ingest_transcripts r records h' = (Inr ack2, h') \<and> ta_applied ack2 = [] \<and>
       ta_high_water ack2 = ta_high_water ack)"
proof -
  let ?rs = "sort_key tr_seq records"
  from assms obtain row vs mark h1 where row: "get_runner h r = Some row"
    and run: "ingest_records (rn_tenant_id row) r ?rs (dget_or (hub_transcript_high_water h) r 0) h = (vs, mark, h1)"
    and ack: "ack = \<lparr>ta_runner_id = r, ta_high_water = mark, ta_applied = with_verdict RV_APPLIED vs,
       ta_already_applied = with_verdict RV_ALREADY vs, ta_capped = with_verdict RV_CAPPED vs,
       ta_refused = with_verdict RV_REFUSED vs\<rparr>"
    and h': "h' = h1\<lparr>hub_transcript_high_water := dset r mark (hub_transcript_high_water h1)\<rparr>"
    by (rule ingest_transcripts_obtain)
  note marks = ingest_records_mark [OF run]
  have seqs: "mset (map fst vs) = mset (map tr_seq records)" using marks by (metis mset_map mset_sort)
  have bound: "\<forall>x \<in> set ?rs. tr_seq x \<le> mark" using marks fold_max_bound(2) by blast
  have row': "get_runner h' r = Some row" unfolding h' using row ingest_records_runners [OF run] by (simp add: get_runner_def)
  have mark: "dget_or (hub_transcript_high_water h') r 0 = mark" by (simp add: h' dget_or_def)
  have same: "h'\<lparr>hub_transcript_high_water := dset r mark (hub_transcript_high_water h')\<rparr> = h'" by (simp add: h')
  have "with_verdict RV_APPLIED (map (\<lambda>x. (tr_seq x, replay_verdict t r h' x)) ?rs) = []" for t
    by (auto simp: with_verdict_def replay_verdict_def filter_empty_conv)
  then have "\<exists>ack2. ingest_transcripts r records h' = (Inr ack2, h') \<and> ta_applied ack2 = [] \<and> ta_high_water ack2 = mark"
    using ingest_records_replay [OF bound, of "rn_tenant_id row" r h'] row' same
    by (simp add: ingest_transcripts_def added_def mark)
  then show ?thesis
    using row refused_iff [OF run] bound verdict_partition [of vs] seqs by (simp add: ack)
qed

end
