(* ===== verification/Clock_Model.thy ===== *)
theory Clock_Model
  imports Json_Values
begin

text \<open>
  The injected clocks (\<^verbatim>\<open>src/blizzard_mock/clock.py\<close>) and the \<^verbatim>\<open>POST /_clock\<close> move of
  \<^verbatim>\<open>src/blizzard_mock/clock_api.py\<close>. An instant is microseconds since the epoch; a datetime
  argument carries its instant and its offset, or no offset. Every method body runs under the
  clock's lock, so a call is one step. Shown: over any calls, refused ones included, a
  controlled clock's readings never decrease, and a refused move changes nothing.
\<close>

section \<open>The clocks\<close>

datatype clock_error = NoTimezone | ClockBackwardsError | NegativeDuration | ClockOverflow

text \<open>A datetime: its instant as wall time minus offset, and the offset (\<open>None\<close> for a naive one).\<close>

record datetime =
  dt_instant :: instant
  dt_utcoffset :: "int option"

text \<open>\<^verbatim>\<open>datetime.max\<close> in UTC; arithmetic past it raises \<^verbatim>\<open>OverflowError\<close>.\<close>

definition max_instant :: instant where
  "max_instant = 253402300799999999"

definition FixedClock_tick :: "instant \<Rightarrow> int \<Rightarrow> clock_error + instant" where
  "FixedClock_tick i us = (if i + us > max_instant then Inl ClockOverflow else Inr (i + us))"

record controlled_clock =
  cc_instant :: instant

definition ControlledClock_now :: "controlled_clock \<Rightarrow> instant" where
  "ControlledClock_now c = cc_instant c"

definition ControlledClock_set ::
  "datetime \<Rightarrow> controlled_clock \<Rightarrow> (clock_error + instant \<times> instant) \<times> controlled_clock" where
  "ControlledClock_set t c =
     (if dt_utcoffset t = None then (Inl NoTimezone, c)
      else let previous = cc_instant c in
        if dt_instant t < previous then (Inl ClockBackwardsError, c)
        else if dt_instant t > max_instant then (Inl ClockOverflow, c)
        else (Inr (previous, dt_instant t), c\<lparr>cc_instant := dt_instant t\<rparr>))"

definition ControlledClock_advance ::
  "int \<Rightarrow> controlled_clock \<Rightarrow> (clock_error + instant \<times> instant) \<times> controlled_clock" where
  "ControlledClock_advance by_us c =
     (if by_us < 0 then (Inl NegativeDuration, c)
      else let previous = cc_instant c in
        if previous + by_us > max_instant then (Inl ClockOverflow, c)
        else (Inr (previous, previous + by_us), c\<lparr>cc_instant := previous + by_us\<rparr>))"

text \<open>\<^verbatim>\<open>resolve_clock\<close>: the clock chosen from the environment, and whether it logs the warning
  that the fence is missing.\<close>

datatype clock_kind = SystemClock | ControlledClockKind

definition resolve_clock :: "(string \<rightharpoonup> string) \<Rightarrow> clock_kind \<times> bool" where
  "resolve_clock environ =
     (if environ ''BLIZZARD_CLOCK'' = Some ''controlled'' then
        (if environ ''BLIZZARD_CLOCK_FENCE'' = Some ''1'' then (ControlledClockKind, False)
         else (SystemClock, True))
      else (SystemClock, False))"

section \<open>The clock route\<close>

text \<open>A validated \<^verbatim>\<open>ClockMove\<close> names exactly one move: an instant with an offset, or a
  non-negative duration.\<close>

datatype clock_move = MoveTo datetime | AdvanceBy int

definition valid_move :: "clock_move \<Rightarrow> bool" where
  "valid_move m = (case m of MoveTo t \<Rightarrow> dt_utcoffset t \<noteq> None | AdvanceBy us \<Rightarrow> 0 \<le> us)"

datatype clock_reply = ClockMoved instant instant | Clock409 | Clock422 | ClockFault

definition move_clock :: "clock_move \<Rightarrow> controlled_clock \<Rightarrow> clock_reply \<times> controlled_clock" where
  "move_clock m c =
     (let r = (case m of MoveTo t \<Rightarrow> ControlledClock_set t c
                       | AdvanceBy us \<Rightarrow> ControlledClock_advance us c)
      in case r of
           (Inr (previous, now), c') \<Rightarrow> (ClockMoved previous now, c')
         | (Inl ClockBackwardsError, c') \<Rightarrow> (Clock409, c')
         | (Inl ClockOverflow, c') \<Rightarrow> (Clock422, c')
         | (Inl _, c') \<Rightarrow> (ClockFault, c'))"

fun move_clocks :: "clock_move list \<Rightarrow> controlled_clock \<Rightarrow> instant list" where
  "move_clocks [] c = [ControlledClock_now c]"
| "move_clocks (m # ms) c = ControlledClock_now c # move_clocks ms (snd (move_clock m c))"

section \<open>Monotonicity\<close>

lemmas clock_defs = ControlledClock_now_def ControlledClock_set_def ControlledClock_advance_def
  move_clock_def

lemma move_clock_mono: "cc_instant c \<le> cc_instant (snd (move_clock m c))"
  by (cases m) (auto simp: clock_defs Let_def split: if_splits)

lemma move_clock_reply:
  "case fst (move_clock m c) of
     ClockMoved previous now \<Rightarrow> previous = cc_instant c \<and> now = cc_instant (snd (move_clock m c))
   | _ \<Rightarrow> snd (move_clock m c) = c"
  by (cases m) (auto simp: clock_defs Let_def split: if_splits)

lemma move_clocks_bound: "t \<in> set (move_clocks ms c) \<Longrightarrow> cc_instant c \<le> t"
proof (induction ms arbitrary: c)
  case Nil
  then show ?case by (simp add: ControlledClock_now_def)
next
  case (Cons m ms)
  then show ?case
    using move_clock_mono [of c m] by (fastforce simp: ControlledClock_now_def)
qed

end
