(* ===== verification/Hub_Http.thy ===== *)
theory Hub_Http
  imports Hub_Apply Hub_Registry Hub_Transcripts
begin

text \<open>
  The mock hub's HTTP edge (\<^verbatim>\<open>src/blizzard_mock/mock_hub/api/deps.py\<close>, \<^verbatim>\<open>middleware.py\<close>, the
  refusal renderers of \<^verbatim>\<open>routes.py\<close>, the exception handlers of \<^verbatim>\<open>app.py\<close> and
  \<^verbatim>\<open>domain/capture.py\<close>). A request is what the dependencies and middlewares read of it; a reply is
  a served value, a typed problem, a plain body, or an exception no handler takes. The routing of a
  path to its handler and the validation of a body are the framework's. Shown: the gates write
  nothing, a refusal consumes at most one lever, and each exempt path passes the middlewares.
\<close>

section \<open>Levers of the edge\<close>

definition LEGACY_CLAIM_REFUSALS :: string where "LEGACY_CLAIM_REFUSALS = ''legacy_claim_refusals''"
definition LEGACY_IDENTITY_REFUSALS :: string where "LEGACY_IDENTITY_REFUSALS = ''legacy_identity_refusals''"
definition LEGACY_VERSION_REFUSALS :: string where "LEGACY_VERSION_REFUSALS = ''legacy_version_refusals''"
definition LEGACY_REKEY_REFUSALS :: string where "LEGACY_REKEY_REFUSALS = ''legacy_rekey_refusals''"
definition LEGACY_READ_REFUSALS :: string where "LEGACY_READ_REFUSALS = ''legacy_read_refusals''"
definition LEGACY_HOST_RUNNER_REFUSALS :: string where
  "LEGACY_HOST_RUNNER_REFUSALS = ''legacy_host_runner_refusals''"
definition LEGACY_AUTH_REFUSALS :: string where "LEGACY_AUTH_REFUSALS = ''legacy_auth_refusals''"
definition RUNNER_READ_MISSING :: string where "RUNNER_READ_MISSING = ''runner_read_missing''"

section \<open>Requests and replies\<close>

text \<open>Header names are matched without regard to case; a header sent is held under its lower-case
  name.\<close>

record request =
  req_method :: string
  req_path :: string
  req_headers :: "(string, string) dict"
  req_json :: "json option"

datatype 'a reply =
    Served int 'a
  | Problem int payload
  | Plain int payload
  | Escaped hub_error

type_synonym 'a response = "'a reply \<times> hub"

definition presented_bearer :: "request \<Rightarrow> string option" where
  "presented_bearer rq =
     (let header = dget_or (req_headers rq) ''authorization'' []; token = strip (after_blank header)
      in if map lower_char (before_blank header) \<noteq> ''bearer'' then None
         else if token = [] then None else Some token)"

definition named_tenant :: "request \<Rightarrow> string option" where
  "named_tenant rq = (case dget (req_headers rq) ''x-blizzard-tenant'' of None \<Rightarrow> None | Some t \<Rightarrow> if t = [] then None else Some t)"

section \<open>Refusals of the dependencies\<close>

record dependency_refusal =
  dp_status :: int
  dp_detail :: json
  dp_kind :: string
  dp_title :: string

definition DependencyRefusal :: "int \<Rightarrow> json \<Rightarrow> string \<Rightarrow> string \<Rightarrow> dependency_refusal" where
  "DependencyRefusal status detail kind title =
     \<lparr>dp_status = status, dp_detail = detail, dp_kind = kind, dp_title = title\<rparr>"

definition authentication_refusal :: "string \<Rightarrow> dependency_refusal" where
  "authentication_refusal detail =
     (if detail = ''missing or malformed Authorization header'' then
        DependencyRefusal 401 (JStr detail) ''authentication-required'' ''Authentication required''
      else if detail = ''bearer token has been revoked'' then
        DependencyRefusal 401 (JStr detail) ''authentication-revoked'' ''Authentication revoked''
      else DependencyRefusal 401 (JStr detail) ''authentication-unresolved'' ''Authentication unresolved'')"

text \<open>What stops a request before its handler: a dependency's refusal, a chunk of another tenant,
  or an exception a dependency lets through.\<close>

datatype gate_failure = Dependency dependency_refusal | RunnerChunkNotFound string | Let_through hub_error

definition gated_principal :: "request \<Rightarrow> hub \<Rightarrow> gate_failure + string" where
  "gated_principal rq h =
     (case principal h (presented_bearer rq) of
        Inr runner_id \<Rightarrow> Inr runner_id
      | Inl (UnresolvableRunner m) \<Rightarrow> Inl (Dependency (authentication_refusal m))
      | Inl e \<Rightarrow> Inl (Let_through e))"

definition require_active_runner :: "string \<Rightarrow> hub \<Rightarrow> gate_failure + unit" where
  "require_active_runner runner_id h =
     (case refuse_retired_runner h runner_id ''fleet call'' of
        Inr _ \<Rightarrow> Inr ()
      | Inl (RunnerRetired r a) \<Rightarrow>
          Inl (Dependency (DependencyRefusal 403 (JStr (error_message (RunnerRetired r a))) ''runner-retired''
            ''Runner retired''))
      | Inl e \<Rightarrow> Inl (Let_through e))"

definition gated_host_principal :: "request \<Rightarrow> hub \<Rightarrow> gate_failure + string" where
  "gated_host_principal rq h =
     (case host_principal h (presented_bearer rq) of
        Inr host_id \<Rightarrow> Inr host_id
      | Inl (UnresolvableHost m) \<Rightarrow> Inl (Dependency (authentication_refusal m))
      | Inl (HostRetiredError r) \<Rightarrow>
          Inl (Dependency (DependencyRefusal 403 (JStr (error_message (HostRetiredError r))) ''host-retired''
            ''Host retired''))
      | Inl e \<Rightarrow> Inl (Let_through e))"

definition foreign_tenant :: "hub_error \<Rightarrow> gate_failure" where
  "foreign_tenant e =
     (case e of
        ForeignTenantNamed \<Rightarrow>
          Dependency (DependencyRefusal 400 (JStr (error_message e)) ''tenant-credential-mismatch''
            ''Tenant credential mismatch'')
      | _ \<Rightarrow> Let_through e)"

definition fleet_tenant_bound :: "request \<Rightarrow> string \<Rightarrow> hub \<Rightarrow> gate_failure + unit" where
  "fleet_tenant_bound rq runner_id h =
     map_sum foreign_tenant id (refuse_foreign_tenant h runner_id (named_tenant rq))"

definition host_tenant_bound :: "request \<Rightarrow> string \<Rightarrow> hub \<Rightarrow> gate_failure + unit" where
  "host_tenant_bound rq host_id h =
     map_sum foreign_tenant id (refuse_foreign_host_tenant h host_id (named_tenant rq))"

definition operator_tenant :: "request \<Rightarrow> hub \<Rightarrow> gate_failure + string" where
  "operator_tenant rq h =
     (case tenant_named h (named_tenant rq) of
        Inr t \<Rightarrow> Inr t
      | Inl NoSuchTenant \<Rightarrow>
          Inl (Dependency (DependencyRefusal 404 (JStr (error_message NoSuchTenant)) ''tenant-not-found''
            ''Tenant not found''))
      | Inl TenantRequired \<Rightarrow>
          Inl (Dependency (DependencyRefusal 409
            (JObj [(''code'', JStr ''tenant_required''), (''message'', JStr (error_message TenantRequired))])
            ''tenant-required'' ''Tenant required''))
      | Inl e \<Rightarrow> Inl (Let_through e))"

definition host_bootstrap_tenant :: "request \<Rightarrow> hub \<Rightarrow> gate_failure + string" where
  "host_bootstrap_tenant rq h =
     (case bootstrap_credential h (presented_bearer rq) of
        (Some runner_id, _) \<Rightarrow>
          Inl (Dependency (DependencyRefusal 403
            (JStr (''runner token for '' @ py_repr runner_id @ '' is not valid on an operator verb''))
            ''runner-credential-forbidden'' ''Runner credential forbidden''))
      | (None, Some host_tenant) \<Rightarrow>
          (case named_tenant rq of
             Some named \<Rightarrow>
               if named \<noteq> host_tenant then
                 Inl (Dependency (DependencyRefusal 400
                   (JStr (''X-Blizzard-Tenant names a tenant other than the presented credential'' @ CHR 0x27 # ''s''))
                   ''tenant-credential-mismatch'' ''Tenant credential mismatch''))
               else
                 Inl (Dependency (DependencyRefusal 403 (JStr ''a machine credential is not valid here'')
                   ''machine-credential-forbidden'' ''Machine credential forbidden''))
           | None \<Rightarrow>
               Inl (Dependency (DependencyRefusal 403 (JStr ''a machine credential is not valid here'')
                 ''machine-credential-forbidden'' ''Machine credential forbidden'')))
      | (None, None) \<Rightarrow> operator_tenant rq h)"

text \<open>The dependencies of each router, in their order.\<close>

definition claim_gate_of :: "request \<Rightarrow> hub \<Rightarrow> gate_failure + string" where
  "claim_gate_of rq h =
     (case gated_principal rq h of
        Inl f \<Rightarrow> Inl f
      | Inr runner_id \<Rightarrow> map_sum id (\<lambda>_. runner_id) (fleet_tenant_bound rq runner_id h))"

definition fleet_gate :: "request \<Rightarrow> hub \<Rightarrow> gate_failure + string" where
  "fleet_gate rq h =
     (case gated_principal rq h of
        Inl f \<Rightarrow> Inl f
      | Inr runner_id \<Rightarrow>
          (case require_active_runner runner_id h of
             Inl f \<Rightarrow> Inl f
           | Inr _ \<Rightarrow> map_sum id (\<lambda>_. runner_id) (fleet_tenant_bound rq runner_id h)))"

definition host_gate :: "request \<Rightarrow> hub \<Rightarrow> gate_failure + string" where
  "host_gate rq h =
     (case gated_host_principal rq h of
        Inl f \<Rightarrow> Inl f
      | Inr host_id \<Rightarrow> map_sum id (\<lambda>_. host_id) (host_tenant_bound rq host_id h))"

definition fleet_chunk_gate :: "request \<Rightarrow> string \<Rightarrow> hub \<Rightarrow> gate_failure + string" where
  "fleet_chunk_gate rq chunk_id h =
     (case fleet_gate rq h of
        Inl f \<Rightarrow> Inl f
      | Inr runner_id \<Rightarrow>
          (case refuse_foreign_runner_chunk h chunk_id runner_id of
             Inr _ \<Rightarrow> Inr runner_id
           | Inl (ChunkNotFound m) \<Rightarrow> Inl (RunnerChunkNotFound chunk_id)
           | Inl e \<Rightarrow> Inl (Let_through e)))"

section \<open>Rendering a refusal\<close>

text \<open>A refusal is typed unless its legacy lever is armed for the chunk, which is consumed.\<close>

definition rendered :: "string \<Rightarrow> string option \<Rightarrow> int \<Rightarrow> payload \<Rightarrow> payload \<Rightarrow> hub \<Rightarrow> 'a response" where
  "rendered lever chunk_id status plain problem h =
     (case take_lever lever chunk_id (hub_levers h) of
        (None, s) \<Rightarrow> (Problem status problem, h)
      | (Some l, s) \<Rightarrow> (Plain status plain, h\<lparr>hub_levers := s\<rparr>))"

definition problem_type :: "string \<Rightarrow> json" where
  "problem_type kind = JStr (''urn:blizzard:problem:'' @ kind)"

definition detail_problem :: "string \<Rightarrow> string \<Rightarrow> json \<Rightarrow> string \<Rightarrow> int \<Rightarrow> payload" where
  "detail_problem kind title detail path status =
     [(''type'', problem_type kind), (''title'', JStr title), (''detail'', detail), (''instance'', JStr path),
      (''status'', JInt status)]"

definition detail_only :: "string \<Rightarrow> payload" where "detail_only detail = [(''detail'', JStr detail)]"

definition read_refusal :: "string option \<Rightarrow> string \<Rightarrow> string \<Rightarrow> string \<Rightarrow> request \<Rightarrow> hub \<Rightarrow> 'a response" where
  "read_refusal chunk_id kind title detail rq =
     rendered LEGACY_READ_REFUSALS chunk_id 404 (detail_only detail)
       (detail_problem kind title (JStr detail) (req_path rq) 404)"

text \<open>\<^verbatim>\<open>{..., **content}\<close>: a key of the content replaces one of the problem in place.\<close>

definition merge :: "payload \<Rightarrow> payload \<Rightarrow> payload" where
  "merge p content = fold (\<lambda>(k, v) q. dset k v q) content p"

definition claim_refusal :: "string \<Rightarrow> int \<Rightarrow> string \<Rightarrow> string \<Rightarrow> payload \<Rightarrow> hub \<Rightarrow> 'a response" where
  "claim_refusal chunk_id status kind title content =
     (let problem = merge [(''type'', problem_type kind), (''title'', JStr title),
                           (''instance'', JStr ''/api/fleet/routes'')] content;
          problem' = (if status = 403 \<or> status = 404 then dset ''status'' (JInt status) problem else problem)
      in rendered LEGACY_CLAIM_REFUSALS (Some chunk_id) status content problem')"

definition rekey_refusal :: "request \<Rightarrow> string \<Rightarrow> int \<Rightarrow> string \<Rightarrow> string \<Rightarrow> string \<Rightarrow> hub \<Rightarrow> 'a response" where
  "rekey_refusal rq chunk_id status kind title detail =
     rendered LEGACY_REKEY_REFUSALS (Some chunk_id) status (detail_only detail)
       (detail_problem kind title (JStr detail) (req_path rq) status)"

definition resource_refusal ::
  "request \<Rightarrow> string option \<Rightarrow> int \<Rightarrow> string \<Rightarrow> string \<Rightarrow> payload \<Rightarrow> hub \<Rightarrow> 'a response" where
  "resource_refusal rq chunk_id status kind title content =
     rendered LEGACY_READ_REFUSALS chunk_id status content
       (merge [(''type'', problem_type kind), (''title'', JStr title), (''instance'', JStr (req_path rq)),
               (''status'', JInt status)] content)"

definition pinned_graph_read_refusal :: "request \<Rightarrow> string \<Rightarrow> hub \<Rightarrow> 'a response" where
  "pinned_graph_read_refusal rq chunk_id =
     resource_refusal rq (Some chunk_id) 500 ''pinned-graph-missing'' ''Pinned graph missing''
       (detail_only (''chunk'' @ CHR 0x27 # ''s pinned graph is missing''))"

definition host_runner_refusal :: "request \<Rightarrow> int \<Rightarrow> string \<Rightarrow> string \<Rightarrow> string \<Rightarrow> hub \<Rightarrow> 'a response" where
  "host_runner_refusal rq status kind title detail =
     rendered LEGACY_HOST_RUNNER_REFUSALS None status (detail_only detail)
       (detail_problem kind title (JStr detail) (req_path rq) status)"

section \<open>Exception handlers of the application\<close>

definition dependency_refused :: "request \<Rightarrow> dependency_refusal \<Rightarrow> hub \<Rightarrow> 'a response" where
  "dependency_refused rq d =
     rendered LEGACY_AUTH_REFUSALS None (dp_status d) [(''detail'', dp_detail d)]
       (detail_problem (dp_kind d) (dp_title d) (dp_detail d) (req_path rq) (dp_status d))"

definition unhandled :: "hub_error \<Rightarrow> hub \<Rightarrow> 'a response" where
  "unhandled e h =
     (case e of ChunkNotFound m \<Rightarrow> (Plain 404 (detail_only m), h) | _ \<Rightarrow> (Escaped e, h))"

definition gate_refused :: "request \<Rightarrow> gate_failure \<Rightarrow> hub \<Rightarrow> 'a response" where
  "gate_refused rq f =
     (case f of
        Dependency d \<Rightarrow> dependency_refused rq d
      | RunnerChunkNotFound chunk_id \<Rightarrow>
          read_refusal (Some chunk_id) ''chunk-not-found'' ''Chunk not found'' (''unknown chunk '' @ chunk_id) rq
      | Let_through e \<Rightarrow> unhandled e)"

text \<open>A route behind a gate, and the \<^verbatim>\<open>try\<close> of a handler around a service call.\<close>

definition behind :: "request \<Rightarrow> gate_failure + 'i \<Rightarrow> ('i \<Rightarrow> hub \<Rightarrow> 'a response) \<Rightarrow> hub \<Rightarrow> 'a response" where
  "behind rq gate handler h = (case gate of Inl f \<Rightarrow> gate_refused rq f h | Inr i \<Rightarrow> handler i h)"

definition serve :: "int \<Rightarrow> (hub_error \<Rightarrow> hub \<Rightarrow> 'a response) \<Rightarrow> 'a result \<Rightarrow> 'a response" where
  "serve status on_error r =
     (case r of (Inr v, h) \<Rightarrow> (Served status v, h) | (Inl e, h) \<Rightarrow> on_error e h)"

section \<open>The lever middleware\<close>

definition EXEMPT_PREFIXES :: "string list" where
  "EXEMPT_PREFIXES = [''/_clock'', ''/_levers'', ''/_seed'', ''/_captured'', ''/api/health'', ''/api/ready'', ''/docs'',
     ''/openapi.json'']"

definition HOST_PLANE_PREFIX :: string where "HOST_PLANE_PREFIX = ''/api/fleet/host''"

definition JWKS_PATH :: string where "JWKS_PATH = ''/api/auth/jwks.json''"

text \<open>The non-empty parts between slashes.\<close>

fun path_parts :: "string \<Rightarrow> string \<Rightarrow> string list" where
  "path_parts acc [] = (if acc = [] then [] else [acc])"
| "path_parts acc (c # cs) =
     (if c = CHR ''/'' then (if acc = [] then [] else [acc]) @ path_parts [] cs else path_parts (acc @ [c]) cs)"

fun part_after_chunks :: "string list \<Rightarrow> string option" where
  "part_after_chunks (p # q # rest) = (if p = ''chunks'' then Some q else part_after_chunks (q # rest))"
| "part_after_chunks _ = None"

definition chunk_from_path :: "string \<Rightarrow> string option" where
  "chunk_from_path path = part_after_chunks (path_parts [] path)"

definition on_host_plane :: "string \<Rightarrow> bool" where
  "on_host_plane path \<longleftrightarrow> path = HOST_PLANE_PREFIX \<or> starts_with (HOST_PLANE_PREFIX @ ''/'') path"

text \<open>What the middleware does with a request: pass it on, answer it, or raise on a delay it
  cannot read. An asynchronous sleep of a negative time returns at once.\<close>

datatype edge = Pass | Answer int payload | Edge_error

definition delayed :: "string \<Rightarrow> string option \<Rightarrow> lever_store \<Rightarrow> bool \<times> lever_store" where
  "delayed kind chunk_id s =
     (case take_lever kind chunk_id s of
        (None, s') \<Rightarrow> (True, s')
      | (Some l, s') \<Rightarrow> (get_int (lv_payload l) ''ms'' 0 \<noteq> None, s'))"

definition edge_tail :: "bool \<Rightarrow> request \<Rightarrow> string option \<Rightarrow> lever_store \<Rightarrow> edge \<times> lever_store" where
  "edge_tail idp_offered rq chunk_id s =
     (case delayed DELAY chunk_id s of
        (False, s1) \<Rightarrow> (Edge_error, s1)
      | (True, s1) \<Rightarrow>
          if req_path rq = JWKS_PATH \<and> req_method rq = ''GET''
             \<and> (idp_offered \<or> find_lever IDP_OFFERED None s1 \<noteq> None)
          then (Answer 200 [(''keys'', JList [])], s1)
          else (Pass, s1))"

definition lever_edge :: "bool \<Rightarrow> bool \<Rightarrow> request \<Rightarrow> lever_store \<Rightarrow> edge \<times> lever_store" where
  "lever_edge host_plane_absent idp_offered rq s =
     (if list_ex (\<lambda>p. starts_with p (req_path rq)) EXEMPT_PREFIXES then (Pass, s)
      else
        (let chunk_id = chunk_from_path (req_path rq)
         in if on_host_plane (req_path rq)
               \<and> (host_plane_absent \<or> find_lever HOST_PLANE_ABSENT None s \<noteq> None)
            then (Answer 404 (detail_only ''Not Found''), s)
            else case take_lever UNREACHABLE chunk_id s of
              (Some l, s1) \<Rightarrow> (Answer 503 (detail_only ''the hub is unreachable''), s1)
            | (None, s1) \<Rightarrow>
                if starts_with ''/api/fleet/transcripts'' (req_path rq) then
                  (case take_lever UNREACHABLE_TRANSCRIPTS chunk_id s1 of
                     (Some l, s2) \<Rightarrow> (Answer 503 (detail_only ''the transcript route is unreachable''), s2)
                   | (None, s2) \<Rightarrow>
                       (case delayed DELAY_TRANSCRIPTS chunk_id s2 of
                          (False, s3) \<Rightarrow> (Edge_error, s3)
                        | (True, s3) \<Rightarrow> edge_tail idp_offered rq chunk_id s3))
                else edge_tail idp_offered rq chunk_id s1))"

section \<open>Request capture\<close>

record captured_request =
  cq_method :: string
  cq_path :: string
  cq_headers :: "(string, string) dict"
  cq_body :: "json option"

definition CAPTURE_EXEMPT_PREFIXES :: "string list" where
  "CAPTURE_EXEMPT_PREFIXES = [''/api/health'', ''/api/ready'']"

definition capture_record :: "captured_request \<Rightarrow> captured_request list \<Rightarrow> captured_request list" where
  "capture_record r kept = kept @ [r]"

definition capture :: "request \<Rightarrow> captured_request list \<Rightarrow> captured_request list" where
  "capture rq kept =
     (if starts_with ''/api/'' (req_path rq)
         \<and> \<not> list_ex (\<lambda>p. starts_with p (req_path rq)) CAPTURE_EXEMPT_PREFIXES
      then capture_record \<lparr>cq_method = req_method rq, cq_path = req_path rq, cq_headers = req_headers rq,
             cq_body = req_json rq\<rparr> kept
      else kept)"

text \<open>The application around one handler: the capture is outermost, then the levers.\<close>

record app =
  app_hub :: hub
  app_captured :: "captured_request list"
  app_host_plane_absent :: bool
  app_idp_offered :: bool

definition app_call :: "request \<Rightarrow> (hub \<Rightarrow> 'a response) \<Rightarrow> app \<Rightarrow> 'a reply \<times> app" where
  "app_call rq handler a =
     (let a1 = a\<lparr>app_captured := capture rq (app_captured a)\<rparr>
      in case lever_edge (app_host_plane_absent a) (app_idp_offered a) rq (hub_levers (app_hub a)) of
           (Answer status body, s) \<Rightarrow> (Plain status body, a1\<lparr>app_hub := (app_hub a)\<lparr>hub_levers := s\<rparr>\<rparr>)
         | (Edge_error, s) \<Rightarrow> (Escaped ConversionError, a1\<lparr>app_hub := (app_hub a)\<lparr>hub_levers := s\<rparr>\<rparr>)
         | (Pass, s) \<Rightarrow>
             (case handler ((app_hub a)\<lparr>hub_levers := s\<rparr>) of (r, h) \<Rightarrow> (r, a1\<lparr>app_hub := h\<rparr>)))"

end
