(* ===== verification/Hub_Routes.thy ===== *)
theory Hub_Routes
  imports Hub_Http
begin

text \<open>
  The routes of the mock hub (\<^verbatim>\<open>src/blizzard_mock/mock_hub/api/routes.py\<close>): each is the gate of its
  router, the service call and the \<^verbatim>\<open>except\<close> clauses of its handler. A validated body arrives as the
  arguments the handler passes on. The clauses several handlers repeat are named once.
\<close>

section \<open>Shared except clauses\<close>

definition on_chunk :: "request \<Rightarrow> string \<Rightarrow> hub_error \<Rightarrow> hub \<Rightarrow> 'a response" where
  "on_chunk rq chunk_id e =
     (case e of
        ChunkNotFound m \<Rightarrow> read_refusal (Some chunk_id) ''chunk-not-found'' ''Chunk not found'' (error_message e) rq
      | _ \<Rightarrow> unhandled e)"

definition on_graph :: "request \<Rightarrow> string \<Rightarrow> hub_error \<Rightarrow> hub \<Rightarrow> 'a response" where
  "on_graph rq chunk_id e =
     (case e of PinnedGraphMissing \<Rightarrow> pinned_graph_read_refusal rq chunk_id | _ \<Rightarrow> on_chunk rq chunk_id e)"

definition on_run :: "request \<Rightarrow> string \<Rightarrow> hub_error \<Rightarrow> hub \<Rightarrow> 'a response" where
  "on_run rq chunk_id e =
     (case e of
        NoRunContext m \<Rightarrow> read_refusal (Some chunk_id) ''no-run-context'' ''No run context'' (error_message e) rq
      | _ \<Rightarrow> on_chunk rq chunk_id e)"

definition on_answered :: "request \<Rightarrow> string \<Rightarrow> hub_error \<Rightarrow> hub \<Rightarrow> 'a response" where
  "on_answered rq chunk_id e =
     (case e of
        NoAnsweredProposal m \<Rightarrow>
          read_refusal (Some chunk_id) ''no-answered-proposal'' ''No answered proposal'' (error_message e) rq
      | _ \<Rightarrow> on_chunk rq chunk_id e)"

section \<open>The queue\<close>

definition rt_peek_queue :: "request \<Rightarrow> string option \<Rightarrow> hub \<Rightarrow> queue_peek_entry list response" where
  "rt_peek_queue rq project h =
     behind rq (fleet_gate rq h) (\<lambda>runner_id h.
       serve 200 (\<lambda>e. case e of
           UnknownProjects ps \<Rightarrow>
             resource_refusal rq None 422 ''unknown-project'' ''Unknown project''
               [(''detail'', JList [JObj [(''loc'', JList [JStr ''query'', JStr ''project'']),
                  (''msg'', JStr (''unknown project '' @ py_repr (str_or project []))),
                  (''type'', JStr ''unknown_project'')]])]
         | _ \<Rightarrow> unhandled e)
         (peek h (Some runner_id) project, h)) h"

definition rt_peek_matched_queue ::
  "request \<Rightarrow> runner_capability list \<Rightarrow> string \<Rightarrow> string list option \<Rightarrow> hub \<Rightarrow> queue_peek_entry list response" where
  "rt_peek_matched_queue rq capabilities policy projects h =
     behind rq (fleet_gate rq h) (\<lambda>runner_id h.
       serve 200 unhandled (peek_matched h runner_id capabilities policy projects, h)) h"

definition rt_list_system_artifacts :: "request \<Rightarrow> hub \<Rightarrow> system_artifact_spec list response" where
  "rt_list_system_artifacts rq h = behind rq (fleet_gate rq h) (\<lambda>_ h. (Served 200 (system_artifacts h), h)) h"

definition rt_get_system_artifact :: "request \<Rightarrow> string \<Rightarrow> hub \<Rightarrow> system_artifact_spec response" where
  "rt_get_system_artifact rq name h =
     behind rq (fleet_gate rq h) (\<lambda>_ h.
       serve 200 (\<lambda>e. case e of
           SystemArtifactNotFound m \<Rightarrow>
             read_refusal None ''system-artifact-not-found'' ''System artifact not found'' (error_message e) rq
         | _ \<Rightarrow> unhandled e)
         (system_artifact h name, h)) h"

definition rt_list_scopes :: "request \<Rightarrow> string option \<Rightarrow> hub \<Rightarrow> scope_view list response" where
  "rt_list_scopes rq chunk_id h =
     behind rq (fleet_gate rq h) (\<lambda>runner_id h.
       serve 200 (\<lambda>e. case e of
           ChunkNotFound m \<Rightarrow> read_refusal chunk_id ''chunk-not-found'' ''Chunk not found'' (error_message e) rq
         | _ \<Rightarrow> unhandled e)
         (case (case chunk_id of None \<Rightarrow> Inr ()
                | Some c \<Rightarrow> map_sum id (\<lambda>_. ()) (require_runner_chunk h c runner_id)) of
            Inl e \<Rightarrow> Inl e
          | Inr _ \<Rightarrow> scopes h chunk_id, h)) h"

section \<open>Claim, re-key and release\<close>

definition CLAIM_PATH :: string where "CLAIM_PATH = ''/api/fleet/routes''"

text \<open>The \<^verbatim>\<open>except\<close> clauses of \<^verbatim>\<open>claim_route\<close>.\<close>

definition on_claim :: "string \<Rightarrow> hub_error \<Rightarrow> hub \<Rightarrow> 'a response" where
  "on_claim c e h =
     (case e of
        PinnedGraphMissing \<Rightarrow>
          (Problem 500 (detail_problem ''pinned-graph-missing'' ''Pinned graph missing''
             (JStr (''chunk'' @ CHR 0x27 # ''s pinned graph is missing'')) CLAIM_PATH 500), h)
      | ClaimDeniedUnregistered r \<Rightarrow>
          claim_refusal c 403 ''claim-runner-unregistered'' ''Claim denied: unregistered runner''
            [(''chunk_id'', JStr c), (''runner_id'', JStr r), (''detail'', JStr (error_message e))] h
      | ClaimDeniedPaused r \<Rightarrow>
          claim_refusal c 403 ''claim-paused'' ''Claim denied: paused runner''
            [(''chunk_id'', JStr c), (''runner_id'', JStr r), (''detail'', JStr ''runner is paused at the hub'')] h
      | ClaimDeniedTerminal c' st \<Rightarrow>
          claim_refusal c 409 ''claim-terminal'' ''Claim denied: terminal chunk''
            [(''chunk_id'', JStr c), (''status'', JStr (status_value st)), (''detail'', JStr ''chunk is terminal'')] h
      | ClaimConflict held_by \<Rightarrow>
          claim_refusal c 409 ''claim-conflict'' ''Claim conflict''
            [(''chunk_id'', JStr c), (''held_by_runner_id'', JStr held_by), (''detail'', JStr ''chunk already claimed'')] h
      | ClaimDeniedNotReady c' st \<Rightarrow>
          claim_refusal c 409 ''claim-not-ready'' ''Claim denied: chunk not ready''
            [(''chunk_id'', JStr c), (''status'', JStr (status_value st)), (''detail'', JStr (error_message e))] h
      | DependencyUnmet p \<Rightarrow>
          claim_refusal c 409 ''claim-dependency'' ''Claim denied: unmet prerequisite''
            [(''chunk_id'', JStr c), (''prerequisite_chunk_id'', JStr p),
             (''detail'', JStr ''chunk depends on an unmet prerequisite'')] h
      | ClaimIncompatible r reason detail \<Rightarrow>
          claim_refusal c 409 ''claim-incompatible'' ''Claim denied: incompatible runner''
            [(''chunk_id'', JStr c), (''incompatible_runner_id'', JStr r), (''detail'', JStr detail),
             (''reason'', JStr reason)] h
      | ChunkNotFound m \<Rightarrow>
          claim_refusal c 404 ''chunk-not-found'' ''Chunk not found'' (detail_only (error_message e)) h
      | ClaimRunnerLeverRefusal kind r detail \<Rightarrow>
          (let retired = (kind = CLAIM_RUNNER_RETIRED)
           in claim_refusal c 403 (if retired then ''claim-runner-retired'' else ''claim-runner-version-refused'')
                (if retired then ''Claim denied: retired runner'' else ''Claim denied: runner version refused'')
                [(''chunk_id'', JStr c), (''runner_id'', JStr r), (''detail'', JStr (error_message e))] h)
      | RunnerRetired r a \<Rightarrow>
          claim_refusal c 403 ''claim-runner-retired'' ''Claim denied: retired runner''
            [(''chunk_id'', JStr c), (''runner_id'', JStr r), (''detail'', JStr (error_message e))] h
      | _ \<Rightarrow> unhandled e h)"

definition rt_claim_route :: "request \<Rightarrow> string \<Rightarrow> string \<Rightarrow> string list \<Rightarrow> hub \<Rightarrow> route_claim_response response" where
  "rt_claim_route rq chunk_id workspace_id environment_ids h =
     behind rq (claim_gate_of rq h) (\<lambda>runner_id h.
       serve 201 (on_claim chunk_id)
         (case refuse_foreign_runner_chunk h chunk_id runner_id of
            Inl e \<Rightarrow> (Inl e, h)
          | Inr _ \<Rightarrow> claim chunk_id runner_id workspace_id environment_ids h)) h"

definition on_rekey :: "request \<Rightarrow> string \<Rightarrow> hub_error \<Rightarrow> hub \<Rightarrow> 'a response" where
  "on_rekey rq chunk_id e =
     (case e of
        ChunkNotFound m \<Rightarrow> rekey_refusal rq chunk_id 404 ''route-not-found'' ''Route not found'' (error_message e)
      | RekeyNotHolder m \<Rightarrow> rekey_refusal rq chunk_id 403 ''route-not-held'' ''Route not held'' (error_message e)
      | RekeyDeniedTerminal c s \<Rightarrow> rekey_refusal rq chunk_id 409 ''route-terminal'' ''Route terminal'' (error_message e)
      | _ \<Rightarrow> unhandled e)"

definition rt_rekey_route_token :: "request \<Rightarrow> string \<Rightarrow> hub \<Rightarrow> route_token_rekey_response response" where
  "rt_rekey_route_token rq chunk_id h =
     behind rq (fleet_gate rq h) (\<lambda>runner_id h.
       serve 200 (on_rekey rq chunk_id)
         (case refuse_foreign_runner_chunk h chunk_id runner_id of
            Inl (ChunkNotFound m) \<Rightarrow> (Inl (ChunkNotFound (''chunk '' @ chunk_id @ '' has no live route'')), h)
          | Inl e \<Rightarrow> (Inl e, h)
          | Inr _ \<Rightarrow> rekey_route_token chunk_id runner_id h)) h"

definition on_release :: "request \<Rightarrow> string \<Rightarrow> hub_error \<Rightarrow> hub \<Rightarrow> 'a response" where
  "on_release rq chunk_id e =
     (case e of
        ReleaseNotHolder c r d \<Rightarrow>
          resource_refusal rq (Some chunk_id) 403 ''route-not-held'' ''Route not held'' (detail_only (error_message e))
      | ReleaseRefused c reason detail \<Rightarrow>
          resource_refusal rq (Some chunk_id) 409 ''release-refusal'' ''Release refused''
            [(''chunk_id'', JStr c), (''reason'', JStr reason), (''detail'', JStr detail)]
      | _ \<Rightarrow> on_chunk rq chunk_id e)"

definition rt_release_chunk ::
  "request \<Rightarrow> string \<Rightarrow> int \<Rightarrow> string \<Rightarrow> string option \<Rightarrow> hub \<Rightarrow> release_response response" where
  "rt_release_chunk rq chunk_id epoch reason route_token h =
     behind rq (fleet_gate rq h) (\<lambda>runner_id h.
       serve 200 (on_release rq chunk_id)
         (case refuse_foreign_runner_chunk h chunk_id runner_id of
            Inl e \<Rightarrow> (Inl e, h)
          | Inr _ \<Rightarrow> release chunk_id runner_id epoch reason route_token h)) h"

section \<open>Chunk reads and the operator's pause\<close>

definition rt_get_chunk :: "request \<Rightarrow> string \<Rightarrow> hub \<Rightarrow> chunk_detail response" where
  "rt_get_chunk rq chunk_id h =
     behind rq (fleet_gate rq h) (\<lambda>runner_id h.
       serve 200 (on_chunk rq chunk_id) (chunk_detail_read chunk_id runner_id h)) h"

definition rt_pause_chunk :: "request \<Rightarrow> string \<Rightarrow> hub \<Rightarrow> chunk_summary response" where
  "rt_pause_chunk rq chunk_id h =
     behind rq (fleet_chunk_gate rq chunk_id h) (\<lambda>_ h.
       serve 202 (\<lambda>e. case e of
           ChunkNotPausable m \<Rightarrow>
             resource_refusal rq (Some chunk_id) 409 ''chunk-not-pausable'' ''Chunk not pausable''
               (detail_only (error_message e))
         | _ \<Rightarrow> on_chunk rq chunk_id e)
         (pause_chunk chunk_id h)) h"

definition rt_resume_chunk :: "request \<Rightarrow> string \<Rightarrow> hub \<Rightarrow> chunk_summary response" where
  "rt_resume_chunk rq chunk_id h =
     behind rq (fleet_chunk_gate rq chunk_id h) (\<lambda>_ h.
       serve 202 (on_chunk rq chunk_id) (resume_chunk chunk_id h)) h"

definition rt_fleet_summary :: "request \<Rightarrow> hub \<Rightarrow> (string, nat) dict response" where
  "rt_fleet_summary rq h =
     behind rq (fleet_gate rq h) (\<lambda>runner_id h. serve 200 unhandled (fleet_summary h runner_id, h)) h"

definition rt_get_chunk_statuses :: "request \<Rightarrow> string list \<Rightarrow> hub \<Rightarrow> chunk_status_view list response" where
  "rt_get_chunk_statuses rq chunk_ids h =
     behind rq (fleet_gate rq h) (\<lambda>runner_id h. serve 200 unhandled (chunk_statuses chunk_ids runner_id h)) h"

definition rt_get_envelope :: "request \<Rightarrow> string \<Rightarrow> hub \<Rightarrow> node_envelope response" where
  "rt_get_envelope rq chunk_id h =
     behind rq (fleet_chunk_gate rq chunk_id h) (\<lambda>_ h.
       serve 200 (\<lambda>e. case e of
           NoCurrentNode c \<Rightarrow>
             resource_refusal rq (Some chunk_id) 409 ''no-current-node'' ''No current node''
               (detail_only (error_message e))
         | _ \<Rightarrow> on_graph rq chunk_id e)
         (envelope chunk_id h)) h"

definition rt_check_artifact ::
  "(string \<Rightarrow> string \<Rightarrow> (string list \<times> string) list option) \<Rightarrow> request \<Rightarrow> string \<Rightarrow> string \<Rightarrow> string \<Rightarrow> hub
     \<Rightarrow> string option response" where
  "rt_check_artifact validate rq chunk_id name content h =
     behind rq (fleet_chunk_gate rq chunk_id h) (\<lambda>_ h.
       serve 200 (on_graph rq chunk_id) (check_artifact validate chunk_id name content h)) h"

definition rt_get_work_items :: "env \<Rightarrow> request \<Rightarrow> string \<Rightarrow> hub \<Rightarrow> work_item_entry list response" where
  "rt_get_work_items \<E> rq chunk_id h =
     behind rq (fleet_chunk_gate rq chunk_id h) (\<lambda>_ h.
       serve 200 (on_chunk rq chunk_id) (work_items \<E> h chunk_id, h)) h"

section \<open>Garden and analytics reads\<close>

definition rt_get_garden_findings :: "request \<Rightarrow> string \<Rightarrow> hub \<Rightarrow> finding_view list response" where
  "rt_get_garden_findings rq chunk_id h =
     behind rq (fleet_chunk_gate rq chunk_id h) (\<lambda>_ h.
       serve 200 (on_run rq chunk_id) (garden_findings h chunk_id, h)) h"

definition rt_get_garden_proposals ::
  "env \<Rightarrow> request \<Rightarrow> string \<Rightarrow> routine_proposal_state \<Rightarrow> hub \<Rightarrow> garden_proposal_view list response" where
  "rt_get_garden_proposals \<E> rq chunk_id state h =
     behind rq (fleet_chunk_gate rq chunk_id h) (\<lambda>_ h.
       serve 200 (on_run rq chunk_id) (garden_proposals \<E> h chunk_id state, h)) h"

definition rt_get_garden_proposals_page ::
  "env \<Rightarrow> request \<Rightarrow> string \<Rightarrow> routine_proposal_state \<Rightarrow> string option \<Rightarrow> nat \<Rightarrow> hub \<Rightarrow> garden_proposals_page response" where
  "rt_get_garden_proposals_page \<E> rq chunk_id state cursor limit h =
     behind rq (fleet_chunk_gate rq chunk_id h) (\<lambda>_ h.
       serve 200 (\<lambda>e. case e of
           MalformedCursor c \<Rightarrow>
             resource_refusal rq (Some chunk_id) 422 ''malformed-cursor'' ''Malformed cursor''
               (detail_only ''malformed cursor'')
         | _ \<Rightarrow> on_run rq chunk_id e)
         (garden_proposals_page_read \<E> h chunk_id state cursor limit, h)) h"

text \<open>The six analytics routes differ in the read alone.\<close>

definition analytics_route :: "(hub \<Rightarrow> string \<Rightarrow> hub_error + 'a list) \<Rightarrow> request \<Rightarrow> string \<Rightarrow> hub \<Rightarrow> 'a list response" where
  "analytics_route read rq chunk_id h =
     behind rq (fleet_chunk_gate rq chunk_id h) (\<lambda>_ h. serve 200 (on_run rq chunk_id) (read h chunk_id, h)) h"

definition rt_get_chunk_analytics_counts_files :: "request \<Rightarrow> string \<Rightarrow> hub \<Rightarrow> analytics_count list response" where
  "rt_get_chunk_analytics_counts_files = analytics_route analytics_counts_files"

definition rt_get_chunk_analytics_counts_skills :: "request \<Rightarrow> string \<Rightarrow> hub \<Rightarrow> analytics_count list response" where
  "rt_get_chunk_analytics_counts_skills = analytics_route analytics_counts_skills"

definition rt_get_chunk_analytics_counts_agent_types :: "request \<Rightarrow> string \<Rightarrow> hub \<Rightarrow> analytics_count list response" where
  "rt_get_chunk_analytics_counts_agent_types = analytics_route analytics_counts_agent_types"

definition rt_get_chunk_analytics_counts_nodes :: "request \<Rightarrow> string \<Rightarrow> hub \<Rightarrow> analytics_count list response" where
  "rt_get_chunk_analytics_counts_nodes = analytics_route analytics_counts_nodes"

definition rt_get_chunk_analytics_spend_nodes :: "request \<Rightarrow> string \<Rightarrow> hub \<Rightarrow> analytics_spend list response" where
  "rt_get_chunk_analytics_spend_nodes = analytics_route analytics_spend_nodes"

definition rt_get_chunk_analytics_spend_graphs :: "request \<Rightarrow> string \<Rightarrow> hub \<Rightarrow> analytics_spend list response" where
  "rt_get_chunk_analytics_spend_graphs = analytics_route analytics_spend_graphs"

definition rt_get_chunk_findings :: "request \<Rightarrow> string \<Rightarrow> hub \<Rightarrow> finding_view list response" where
  "rt_get_chunk_findings rq chunk_id h =
     behind rq (fleet_chunk_gate rq chunk_id h) (\<lambda>_ h.
       serve 200 (on_answered rq chunk_id) (answered_findings h chunk_id, h)) h"

definition rt_get_chunk_finding :: "request \<Rightarrow> string \<Rightarrow> string \<Rightarrow> hub \<Rightarrow> finding_view response" where
  "rt_get_chunk_finding rq chunk_id finding_id h =
     behind rq (fleet_chunk_gate rq chunk_id h) (\<lambda>_ h.
       serve 200 (\<lambda>e. case e of
           FindingNotInAnsweredSet m \<Rightarrow>
             read_refusal (Some chunk_id) ''finding-not-in-chunk'' ''Finding not in chunk'' (error_message e) rq
         | _ \<Rightarrow> on_answered rq chunk_id e)
         (answered_finding h chunk_id finding_id, h)) h"

section \<open>Completions, decisions and the fact lanes\<close>

text \<open>A completion that landed may still lose its acknowledgement.\<close>

definition rt_submit_completion :: "request \<Rightarrow> string \<Rightarrow> int \<Rightarrow> string \<Rightarrow> string \<Rightarrow> hub \<Rightarrow> apply_response response" where
  "rt_submit_completion rq chunk_id epoch from_node_id choice h =
     behind rq (fleet_chunk_gate rq chunk_id h) (\<lambda>_ h.
       (case apply_completion chunk_id epoch from_node_id choice h of
          (Inl e, h1) \<Rightarrow> on_graph rq chunk_id e h1
        | (Inr response, h1) \<Rightarrow>
            (case pop_drop_ack chunk_id h1 of
               (True, h2) \<Rightarrow> (Plain 503 (detail_only ''ack dropped after apply''), h2)
             | (False, h2) \<Rightarrow> (Served 200 response, h2)))) h"

definition rt_submit_decision :: "request \<Rightarrow> string \<Rightarrow> int \<Rightarrow> string \<Rightarrow> hub \<Rightarrow> apply_response response" where
  "rt_submit_decision rq chunk_id epoch from_node_id h =
     behind rq (fleet_chunk_gate rq chunk_id h) (\<lambda>_ h.
       serve 200 (on_graph rq chunk_id) (apply_decision chunk_id epoch from_node_id h)) h"

definition rt_push_facts :: "parsers \<Rightarrow> env \<Rightarrow> request \<Rightarrow> fact list \<Rightarrow> hub \<Rightarrow> fact_ack response" where
  "rt_push_facts \<P> \<E> rq facts h =
     behind rq (fleet_gate rq h) (\<lambda>runner_id h. serve 200 unhandled (ingest_facts \<P> \<E> runner_id facts h)) h"

definition rt_push_transcripts :: "request \<Rightarrow> transcript_record list \<Rightarrow> hub \<Rightarrow> transcript_ack response" where
  "rt_push_transcripts rq records h =
     behind rq (fleet_gate rq h) (\<lambda>runner_id h. serve 200 unhandled (ingest_transcripts runner_id records h)) h"

definition rt_get_lease_transcript_segments ::
  "request \<Rightarrow> string \<Rightarrow> string \<Rightarrow> int \<Rightarrow> hub \<Rightarrow> lease_transcript_view response" where
  "rt_get_lease_transcript_segments rq chunk_id node_id epoch h =
     behind rq (fleet_gate rq h) (\<lambda>runner_id h.
       (case lease_transcript_owner h chunk_id runner_id node_id epoch of
          Inl e \<Rightarrow> unhandled e h
        | Inr owner \<Rightarrow>
            if owner \<noteq> None \<and> owner \<noteq> Some runner_id then
              resource_refusal rq (Some chunk_id) 403 ''lease-ownership'' ''Lease ownership refused''
                (detail_only ''lease segments belong to another runner'') h
            else serve 200 unhandled (lease_transcript h chunk_id runner_id node_id epoch, h))) h"

definition rt_get_question :: "request \<Rightarrow> string \<Rightarrow> hub \<Rightarrow> question_view response" where
  "rt_get_question rq question_id h =
     behind rq (fleet_gate rq h) (\<lambda>runner_id h.
       serve 200 (\<lambda>e. case e of
           QuestionNotFound m \<Rightarrow> read_refusal None ''question-not-found'' ''Question not found'' (error_message e) rq
         | _ \<Rightarrow> unhandled e)
         (question_view_read h question_id runner_id, h)) h"

definition rt_hub_advance :: "request \<Rightarrow> string \<Rightarrow> hub \<Rightarrow> hub_advance_response response" where
  "rt_hub_advance rq chunk_id h =
     behind rq (fleet_chunk_gate rq chunk_id h) (\<lambda>_ h.
       serve 200 (on_graph rq chunk_id) (hub_advance chunk_id h)) h"


section \<open>The runner's registration and reads\<close>

definition version_body :: "runner_version_refusal \<Rightarrow> payload" where
  "version_body v =
     [(''reason'', JStr (vr_reason v)), (''runner_version'', opt_str (vr_runner_version v)),
      (''hub_version'', JStr (vr_hub_version v)), (''floor'', JStr (vr_floor v)), (''detail'', JStr (vr_detail v))]"

definition version_problem :: "request \<Rightarrow> runner_version_refusal \<Rightarrow> payload" where
  "version_problem rq v =
     version_body v @
     [(''type'', problem_type ''runner-version''), (''title'', JStr ''Runner version refused''),
      (''instance'', JStr (req_path rq)), (''status'', JInt 409)]"

definition rt_register_runner :: "env \<Rightarrow> request \<Rightarrow> register_request \<Rightarrow> hub \<Rightarrow> runner_registration_response response" where
  "rt_register_runner \<E> rq body h =
     behind rq (fleet_gate rq h) (\<lambda>runner_id h.
       serve 201 (\<lambda>e. case e of
           RunnerVersionRefused v \<Rightarrow>
             rendered LEGACY_VERSION_REFUSALS None 409 (version_body v) (version_problem rq v)
         | _ \<Rightarrow> unhandled e)
         (register \<E> runner_id body h)) h"

definition runner_ownership :: "request \<Rightarrow> string \<Rightarrow> string \<Rightarrow> hub \<Rightarrow> 'a response" where
  "runner_ownership rq caller runner_id =
     resource_refusal rq None 403 ''runner-ownership'' ''Runner ownership refused''
       (detail_only (''token belongs to runner '' @ py_repr caller @ '', not '' @ py_repr runner_id))"

definition runner_not_found :: "request \<Rightarrow> string \<Rightarrow> hub \<Rightarrow> 'a response" where
  "runner_not_found rq runner_id =
     resource_refusal rq None 404 ''runner-not-found'' ''Runner not found'' (detail_only (''unknown runner '' @ runner_id))"

definition rt_get_runner :: "parsers \<Rightarrow> request \<Rightarrow> string \<Rightarrow> hub \<Rightarrow> runner_view response" where
  "rt_get_runner \<P> rq runner_id h =
     behind rq (fleet_gate rq h) (\<lambda>caller h.
       if runner_id \<noteq> caller then runner_ownership rq caller runner_id h
       else case take_lever RUNNER_READ_MISSING None (hub_levers h) of
         (Some l, s) \<Rightarrow> runner_not_found rq runner_id (h\<lparr>hub_levers := s\<rparr>)
       | (None, s) \<Rightarrow>
           (case runner_view_read \<P> h runner_id of
              Inr (Some v) \<Rightarrow> (Served 200 v, h)
            | Inr None \<Rightarrow> runner_not_found rq runner_id h
            | Inl (RunnerNeverConnected r) \<Rightarrow>
                resource_refusal rq None 409 ''runner-not-registered'' ''Runner not registered''
                  (detail_only (error_message (RunnerNeverConnected r))) h
            | Inl e \<Rightarrow> unhandled e h)) h"

definition rt_heartbeat_runner :: "env \<Rightarrow> request \<Rightarrow> string \<Rightarrow> hub \<Rightarrow> unit response" where
  "rt_heartbeat_runner \<E> rq runner_id h =
     behind rq (fleet_gate rq h) (\<lambda>caller h.
       if runner_id \<noteq> caller then runner_ownership rq caller runner_id h
       else case heartbeat \<E> runner_id h of
         (True, h1) \<Rightarrow> (Served 204 (), h1)
       | (False, h1) \<Rightarrow> runner_not_found rq runner_id h1) h"

definition rt_get_runner_decisions :: "request \<Rightarrow> string \<Rightarrow> hub \<Rightarrow> payload response" where
  "rt_get_runner_decisions rq runner_id h =
     behind rq (fleet_gate rq h) (\<lambda>caller h.
       if runner_id \<noteq> caller then runner_ownership rq caller runner_id h
       else (Served 200 [(''decisions'', JList [])], h)) h"

text \<open>The identity route stands outside the gates.\<close>

definition identity_body :: "string \<Rightarrow> string option \<Rightarrow> payload" where
  "identity_body reason runner_id = [(''reason'', JStr reason), (''runner_id'', opt_str runner_id)]"

definition identity_problem :: "request \<Rightarrow> string \<Rightarrow> string option \<Rightarrow> payload" where
  "identity_problem rq reason runner_id =
     identity_body reason runner_id @
     [(''type'', problem_type ''runner-identity''), (''title'', JStr ''Runner identity refused''),
      (''detail'', JStr ''runner identity refused''), (''instance'', JStr (req_path rq)), (''status'', JInt 401)]"

definition rt_get_runner_identity :: "request \<Rightarrow> hub \<Rightarrow> runner_identity_view response" where
  "rt_get_runner_identity rq h =
     serve 200 (\<lambda>e. case e of
         RunnerTokenRefused reason runner_id \<Rightarrow>
           rendered LEGACY_IDENTITY_REFUSALS None 401 (identity_body reason runner_id)
             (identity_problem rq reason runner_id)
       | _ \<Rightarrow> unhandled e)
       (identity h (presented_bearer rq), h)"

section \<open>Operator verbs\<close>

definition plain_refusal :: "int \<Rightarrow> hub_error \<Rightarrow> hub \<Rightarrow> 'a response" where
  "plain_refusal status e h = (Plain status (detail_only (error_message e)), h)"

definition rt_add_runner ::
  "env \<Rightarrow> request \<Rightarrow> string \<Rightarrow> string list option \<Rightarrow> string option \<Rightarrow> hub \<Rightarrow> runner_add_response response" where
  "rt_add_runner \<E> rq name projects host_id h =
     behind rq (operator_tenant rq h) (\<lambda>tenant h.
       serve 201 (\<lambda>e. case e of
           UnknownProjects ps \<Rightarrow> plain_refusal 422 e
         | UnknownHost r \<Rightarrow> plain_refusal 404 e
         | HostRetiredError r \<Rightarrow> plain_refusal 409 e
         | _ \<Rightarrow> unhandled e)
         (add_runner \<E> name tenant None None projects host_id h)) h"

definition on_add_host :: "request \<Rightarrow> hub_error \<Rightarrow> hub \<Rightarrow> 'a response" where
  "on_add_host rq e =
     (case e of
        HostNameTaken n \<Rightarrow>
          resource_refusal rq None 409 ''host-name-taken'' ''Host name taken'' (detail_only (error_message e))
      | UnknownRunner r \<Rightarrow>
          resource_refusal rq None 404 ''runner-not-found'' ''Runner not found'' (detail_only (error_message e))
      | RunnerAlreadyHosted r t \<Rightarrow>
          resource_refusal rq None 409 ''runner-already-hosted'' ''Runner already hosted'' (detail_only (error_message e))
      | RunnerRetired r a \<Rightarrow>
          resource_refusal rq None 409 ''runner-retired'' ''Runner retired'' (detail_only (error_message e))
      | RunnerLifecycleConflict r \<Rightarrow>
          resource_refusal rq None 409 ''runner-lifecycle-conflict'' ''Runner lifecycle conflict''
            (detail_only (error_message e))
      | RunnerRetireInterrupted r \<Rightarrow>
          resource_refusal rq None 409 ''runner-lifecycle-conflict'' ''Runner lifecycle conflict''
            (detail_only (error_message e))
      | _ \<Rightarrow> unhandled e)"

definition rt_add_host :: "env \<Rightarrow> request \<Rightarrow> string \<Rightarrow> string list \<Rightarrow> hub \<Rightarrow> host_add_response response" where
  "rt_add_host \<E> rq name adopt h =
     behind rq (host_bootstrap_tenant rq h) (\<lambda>tenant h.
       serve 201 (on_add_host rq) (add_host \<E> name tenant adopt None None h)) h"

definition rt_me :: "request \<Rightarrow> hub \<Rightarrow> me_view response" where
  "rt_me rq h = (Served 200 (me h (named_tenant rq)), h)"

definition rt_enroll_runner :: "env \<Rightarrow> request \<Rightarrow> string \<Rightarrow> hub \<Rightarrow> runner_enrollment_response response" where
  "rt_enroll_runner \<E> rq runner_id h =
     behind rq (operator_tenant rq h) (\<lambda>tenant h.
       serve 201 (\<lambda>e. case e of
           UnknownRunner r \<Rightarrow> plain_refusal 404 e
         | RunnerRetired r a \<Rightarrow> plain_refusal 409 e
         | _ \<Rightarrow> unhandled e)
         (enroll \<E> runner_id tenant h)) h"

section \<open>The host plane\<close>

definition rt_report_host ::
  "env \<Rightarrow> request \<Rightarrow> string option \<Rightarrow> string option \<Rightarrow> string list \<Rightarrow> (string \<times> int option) list
     \<Rightarrow> declared_subscription list \<Rightarrow> hub \<Rightarrow> host_record_response response" where
  "rt_report_host \<E> rq name url redirect_uris workspaces subscriptions h =
     behind rq (host_gate rq h) (\<lambda>host_id h.
       serve 200 unhandled (report_host \<E> host_id name url redirect_uris workspaces subscriptions h)) h"

definition rt_get_host_record :: "request \<Rightarrow> hub \<Rightarrow> host_record_response response" where
  "rt_get_host_record rq h =
     behind rq (host_gate rq h) (\<lambda>host_id h. serve 200 unhandled (host_record h host_id, h)) h"

definition rt_push_host_facts :: "parsers \<Rightarrow> env \<Rightarrow> request \<Rightarrow> fact list \<Rightarrow> hub \<Rightarrow> fact_ack response" where
  "rt_push_host_facts \<P> \<E> rq facts h =
     behind rq (host_gate rq h) (\<lambda>host_id h. serve 200 unhandled (ingest_host_facts \<P> \<E> host_id facts h)) h"

definition rt_add_host_runner :: "env \<Rightarrow> request \<Rightarrow> string \<Rightarrow> string list option \<Rightarrow> hub \<Rightarrow> runner_add_response response" where
  "rt_add_host_runner \<E> rq name projects h =
     behind rq (host_gate rq h) (\<lambda>host_id h.
       serve 201 (\<lambda>e. case e of
           UnknownProjects ps \<Rightarrow>
             host_runner_refusal rq 422 ''unknown-served-project'' ''Unknown served project'' (error_message e)
         | _ \<Rightarrow> unhandled e)
         (add_host_runner \<E> host_id name projects h)) h"

definition on_retire :: "request \<Rightarrow> hub_error \<Rightarrow> hub \<Rightarrow> 'a response" where
  "on_retire rq e =
     (case e of
        UnknownRunner r \<Rightarrow> host_runner_refusal rq 404 ''runner-not-found'' ''Runner not found'' (error_message e)
      | RunnerHoldsRoutes m \<Rightarrow>
          host_runner_refusal rq 409 ''runner-holds-routes'' ''Runner holds routes'' (error_message e)
      | RunnerRetireInterrupted r \<Rightarrow>
          host_runner_refusal rq 409 ''runner-retire-interrupted'' ''Runner retirement interrupted'' (error_message e)
      | RunnerLifecycleConflict r \<Rightarrow>
          host_runner_refusal rq 409 ''runner-lifecycle-conflict'' ''Runner lifecycle conflict'' (error_message e)
      | _ \<Rightarrow> unhandled e)"

definition retired_view :: "runner_row \<Rightarrow> payload" where
  "retired_view row =
     [(''runner_id'', JStr (rn_runner_id row)), (''runner_name'', JStr (rn_name row)),
      (''connection'', JStr (if never_connected row then ''never_connected'' else ''offline'')),
      (''online'', JBool False), (''added_at'', JStr (isoformat (rn_added_at row))),
      (''hub_paused'', JBool (rn_paused row)), (''retired'', JBool True),
      (''retired_at'', opt_str (map_option isoformat (rn_retired_at row))),
      (''retired_by'', opt_str (rn_retired_by row)), (''host_id'', opt_str (rn_host_id row))]"

definition rt_retire_host_runner ::
  "env \<Rightarrow> request \<Rightarrow> string \<Rightarrow> string \<Rightarrow> bool \<Rightarrow> hub \<Rightarrow> payload response" where
  "rt_retire_host_runner \<E> rq runner_id retired_by force h =
     behind rq (host_gate rq h) (\<lambda>host_id h.
       (case retire_host_runner \<E> host_id runner_id retired_by force h of
          (Inl e, h1) \<Rightarrow> on_retire rq e h1
        | (Inr (row, released), h1) \<Rightarrow>
            (Served 200 [(''runner'', JObj (retired_view row)), (''released_chunk_ids'', JList (map JStr released))], h1))) h"

end
