(* ===== verification/Hub_Control.thy ===== *)
theory Hub_Control
  imports Hub_Routes
begin

text \<open>
  The mock hub's control plane (\<^verbatim>\<open>src/blizzard_mock/mock_hub/api/control.py\<close>), its lever catalogue
  (\<^verbatim>\<open>domain/levers.py\<close>) and its configuration (\<^verbatim>\<open>config.py\<close>). No gate stands before these routes,
  and no lever reaches them.
\<close>

section \<open>Seeding\<close>

definition ctl_seed_chunk :: "env \<Rightarrow> chunk_spec \<Rightarrow> hub \<Rightarrow> payload response" where
  "ctl_seed_chunk \<E> spec h =
     (case seed_chunk \<E> spec h of
        (Inl (UnknownProjects ps), h1) \<Rightarrow> plain_refusal 404 (UnknownProjects ps) h1
      | (Inl e, h1) \<Rightarrow> unhandled e h1
      | (Inr c, h1) \<Rightarrow>
          (Served 201 [(''chunk_id'', JStr (cs_chunk_id c)), (''graph_id'', JStr (cs_graph_id c)),
                       (''project_id'', JStr (cs_project_id c))], h1))"

definition ctl_seed_system_artifact :: "system_artifact_spec \<Rightarrow> hub \<Rightarrow> payload response" where
  "ctl_seed_system_artifact spec h = (Served 201 [(''name'', JStr (sa_name spec))], seed_system_artifact spec h)"

definition ctl_seed_scope :: "env \<Rightarrow> scope_spec \<Rightarrow> hub \<Rightarrow> payload response" where
  "ctl_seed_scope \<E> spec h = (Served 201 [(''slug'', JStr (sc_slug spec))], seed_scope \<E> spec h)"

definition ctl_reset :: "hub \<Rightarrow> payload response" where
  "ctl_reset h = (Served 200 [(''reset'', JBool True)], reset h)"

definition ctl_seed_answer :: "env \<Rightarrow> string \<Rightarrow> string \<Rightarrow> string \<Rightarrow> hub \<Rightarrow> payload response" where
  "ctl_seed_answer \<E> question_id answer answered_by h =
     (case answer_question \<E> question_id answer answered_by h of
        (Inl (QuestionNotFound m), h1) \<Rightarrow> plain_refusal 404 (QuestionNotFound m) h1
      | (Inl e, h1) \<Rightarrow> unhandled e h1
      | (Inr _, h1) \<Rightarrow> (Served 200 [(''answered'', JBool True), (''question_id'', JStr question_id)], h1))"

definition ctl_seed_stop :: "string \<Rightarrow> hub \<Rightarrow> payload response" where
  "ctl_seed_stop chunk_id h =
     (case stop_chunk chunk_id h of
        (Inl (ChunkNotFound m), h1) \<Rightarrow> plain_refusal 404 (ChunkNotFound m) h1
      | (Inl e, h1) \<Rightarrow> unhandled e h1
      | (Inr _, h1) \<Rightarrow> (Served 200 [(''stopped'', JBool True), (''chunk_id'', JStr chunk_id)], h1))"

definition tenant_body :: "tenant_row \<Rightarrow> payload" where
  "tenant_body row = [(''tenant_id'', JStr (tn_tenant_id row)), (''name'', JStr (tn_name row))]"

definition ctl_seed_tenant :: "env \<Rightarrow> string \<Rightarrow> string option \<Rightarrow> hub \<Rightarrow> payload response" where
  "ctl_seed_tenant \<E> name tenant_id h =
     (case seed_tenant \<E> name tenant_id h of
        (Inl (ValueError m), h1) \<Rightarrow> plain_refusal 409 (ValueError m) h1
      | (Inl e, h1) \<Rightarrow> unhandled e h1
      | (Inr row, h1) \<Rightarrow> (Served 201 (tenant_body row), h1))"

definition ctl_seed_rename_tenant :: "string \<Rightarrow> string \<Rightarrow> hub \<Rightarrow> payload response" where
  "ctl_seed_rename_tenant tenant_id name h =
     (case rename_tenant tenant_id name h of
        (Inl NoSuchTenant, h1) \<Rightarrow> plain_refusal 404 NoSuchTenant h1
      | (Inl e, h1) \<Rightarrow> unhandled e h1
      | (Inr row, h1) \<Rightarrow> (Served 200 (tenant_body row), h1))"

definition ctl_seed_runner ::
  "env \<Rightarrow> string \<Rightarrow> string option \<Rightarrow> string option \<Rightarrow> string option \<Rightarrow> string list option \<Rightarrow> hub
     \<Rightarrow> runner_add_response response" where
  "ctl_seed_runner \<E> name runner_id token tenant_id projects h =
     serve 201 (\<lambda>e. case e of
         NoSuchTenant \<Rightarrow> plain_refusal 404 e
       | UnknownProjects ps \<Rightarrow> plain_refusal 422 e
       | ValueError m \<Rightarrow> plain_refusal 409 e
       | _ \<Rightarrow> unhandled e)
       (add_runner \<E> name (str_or tenant_id FIRST_TENANT_ID) runner_id token projects None h)"

definition ctl_seed_runner_projects :: "string \<Rightarrow> string list \<Rightarrow> hub \<Rightarrow> served_project_view list response" where
  "ctl_seed_runner_projects runner_id projects h =
     serve 200 (\<lambda>e. case e of UnknownRunner r \<Rightarrow> plain_refusal 404 e | _ \<Rightarrow> unhandled e)
       (set_runner_projects runner_id projects h)"

definition ctl_seed_project ::
  "env \<Rightarrow> string \<Rightarrow> string \<Rightarrow> string option \<Rightarrow> string option \<Rightarrow> hub \<Rightarrow> payload response" where
  "ctl_seed_project \<E> slug name tenant_id project_id h =
     (case seed_project \<E> slug name (str_or tenant_id FIRST_TENANT_ID) project_id h of
        (Inl NoSuchTenant, h1) \<Rightarrow> plain_refusal 404 NoSuchTenant h1
      | (Inl (ValueError m), h1) \<Rightarrow> plain_refusal 409 (ValueError m) h1
      | (Inl e, h1) \<Rightarrow> unhandled e h1
      | (Inr row, h1) \<Rightarrow>
          (Served 201 [(''project_id'', JStr (pj_project_id row)), (''tenant_id'', JStr (pj_tenant_id row)),
                       (''slug'', JStr (pj_slug row)), (''name'', JStr (pj_name row))], h1))"

text \<open>The three verbs on a runner answer a flag and its id.\<close>

definition on_runner :: "string \<Rightarrow> bool \<Rightarrow> string \<Rightarrow> unit result \<Rightarrow> payload response" where
  "on_runner flag value runner_id r =
     (case r of
        (Inl (UnknownRunner m), h1) \<Rightarrow> plain_refusal 404 (UnknownRunner m) h1
      | (Inl e, h1) \<Rightarrow> unhandled e h1
      | (Inr _, h1) \<Rightarrow> (Served 200 [(flag, JBool value), (''runner_id'', JStr runner_id)], h1))"

definition ctl_seed_retire_runner :: "env \<Rightarrow> string \<Rightarrow> string \<Rightarrow> hub \<Rightarrow> payload response" where
  "ctl_seed_retire_runner \<E> runner_id retired_by h = on_runner ''retired'' True runner_id (retire \<E> runner_id retired_by h)"

definition ctl_seed_revoke_runner_token :: "string \<Rightarrow> hub \<Rightarrow> payload response" where
  "ctl_seed_revoke_runner_token runner_id h = on_runner ''revoked'' True runner_id (revoke_token runner_id h)"

definition ctl_seed_pause_runner :: "string \<Rightarrow> bool \<Rightarrow> hub \<Rightarrow> payload response" where
  "ctl_seed_pause_runner runner_id paused h = on_runner ''paused'' paused runner_id (set_paused runner_id paused h)"

section \<open>Levers\<close>

text \<open>Every lever of the hub, in the order of the source, with its catalogue entry.\<close>

definition HUB_CATALOG :: "(string \<times> string) list" where
  "HUB_CATALOG =
     [(DELAY, ''delay a response by payload.ms milliseconds''),
      (DROP_ACK, ''apply the completion but drop the ack (503); re-apply is idempotent (D-090)''),
      (CONFLICTING_FACT, ''GET chunk reports a route held by payload.runner_id (conflicting fact)''),
      (UNREACHABLE, ''all requests 503; remaining=N heals after N calls (unreachable mid-lease)''),
      (UNREACHABLE_TRANSCRIPTS, ''POST /transcripts alone 503s; every other route (incl. /events) stays healthy (D6)''),
      (DELAY_TRANSCRIPTS,
       ''POST /transcripts alone sleeps payload.ms; every other route (incl. /events) stays fast (D6)''),
      (REPLAY, ''re-emit the previous completion apply-response (duplicate delivery)''),
      (STALE_ENVELOPE, ''GET envelope stamps a stale (latest_epoch-1) fence (D-007)''),
      (CHUNK_UNKNOWN, ''GET chunk/envelope 404s as an unknown chunk '' @ em_dash @
         '' the runner'' @ CHR 0x27 # ''s env-release trigger''),
      (DEPENDENCY_UNMET,
       ''POST /routes denies the claim citing payload.prerequisite_chunk_id as the unmet dependency (sticky)''),
      (HOST_PLANE_ABSENT, ''every /api/fleet/host route 404s as a missing route '' @ em_dash @
         '' a hub from before hosts (sticky)''),
      (IDP_OFFERED, ''GET /api/auth/jwks.json answers 200 {'' @ CHR 0x22 # ''keys'' @ CHR 0x22 #
         '': []}; absent (404) while unarmed (sticky)''),
      (FLEET_FLAGS, ''GET /api/fleet/identity answers payload as its fleet_flags map (sticky, global)''),
      (ARTIFACT_REFUSAL,
       ''POST /api/fleet/chunks/{id}/artifact-check answers payload.refusal as its refusal (sticky)''),
      (VERSION_REFUSED,
       ''POST /api/fleet/runners from payload.runner_id answers 409 RunnerVersionRefusal from the payload (sticky)''),
      (LEGACY_CLAIM_REFUSALS, ''serve claim refusals without problem members using application/json''),
      (LEGACY_IDENTITY_REFUSALS, ''serve identity refusals without problem members using application/json''),
      (LEGACY_VERSION_REFUSALS, ''serve registration version refusals without problem members''),
      (LEGACY_REKEY_REFUSALS, ''serve route-token rekey refusals without problem members''),
      (LEGACY_READ_REFUSALS, ''serve resource read and release refusals without problem members''),
      (LEGACY_HOST_RUNNER_REFUSALS, ''serve host runner refusals without problem members''),
      (LEGACY_AUTH_REFUSALS, ''serve authentication and tenant refusals without problem members''),
      (CLAIM_RUNNER_RETIRED, ''refuse claims as if the runner were retired''),
      (CLAIM_RUNNER_VERSION_REFUSED, ''refuse claims as if the runner version were outside the window''),
      (PINNED_GRAPH_MISSING, ''graph-dependent calls answer 500 as if the chunk'' @ CHR 0x27 #
         ''s pinned graph were missing''),
      (ENFORCE_RELEASE_ROUTE_TOKEN, ''enforce the live route token on release (sticky)''),
      (RUNNER_READ_MISSING, ''simulate the caller disappearing between authentication and runner read''),
      (HOST_ADD_RUNNER_LIFECYCLE_CONFLICT, ''simulate an adopted runner changing during host add''),
      (HOST_RETIRE_LIFECYCLE_CONFLICT, ''simulate a lifecycle race before or during host runner retirement'')]"

definition hub_lever_names :: "string list" where
  "hub_lever_names = sort (map fst HUB_CATALOG)"

definition ctl_list_levers :: "hub \<Rightarrow> payload response" where
  "ctl_list_levers h =
     (Served 200 [(''catalog'', JObj (map (\<lambda>(k, t). (k, JStr t)) HUB_CATALOG)),
                  (''levers'', JList (map JStr hub_lever_names)),
                  (''active'', JList (map lever_dump (active (hub_levers h))))], h)"

definition ctl_reset_levers :: "hub \<Rightarrow> payload response" where
  "ctl_reset_levers h = (Served 200 [(''cleared'', JBool True)], h\<lparr>hub_levers := clear_all (hub_levers h)\<rparr>)"

definition ctl_arm_lever :: "string \<Rightarrow> LeverParams \<Rightarrow> hub \<Rightarrow> payload response" where
  "ctl_arm_lever kind params h =
     (if kind \<notin> set (map fst HUB_CATALOG)
      then (Served 200 [(''error'', JStr (''unknown lever '' @ py_repr kind)),
                        (''levers'', JList (map JStr hub_lever_names))], h)
      else (Served 200 [(''armed'', lever_dump (lever_of kind params))],
            h\<lparr>hub_levers := arm (lever_of kind params) (hub_levers h)\<rparr>))"

definition ctl_clear_lever :: "string \<Rightarrow> string option \<Rightarrow> hub \<Rightarrow> payload response" where
  "ctl_clear_lever kind chunk_id h =
     (Served 200 [(''cleared'', JStr kind), (''chunk_id'', opt_str chunk_id)],
      h\<lparr>hub_levers := clear kind chunk_id (hub_levers h)\<rparr>)"

section \<open>Captured requests\<close>

definition captured_json :: "captured_request \<Rightarrow> json" where
  "captured_json r =
     JObj [(''method'', JStr (cq_method r)), (''path'', JStr (cq_path r)),
           (''headers'', JObj (map (\<lambda>(k, v). (k, JStr v)) (cq_headers r))),
           (''body'', case cq_body r of None \<Rightarrow> JNull | Some j \<Rightarrow> j)]"

definition ctl_list_captured :: "app \<Rightarrow> payload \<times> app" where
  "ctl_list_captured a = ([(''requests'', JList (map captured_json (app_captured a)))], a)"

definition ctl_reset_captured :: "app \<Rightarrow> payload \<times> app" where
  "ctl_reset_captured a = ([(''cleared'', JBool True)], a\<lparr>app_captured := []\<rparr>)"

section \<open>Configuration\<close>

record MockHubConfig =
  hc_host :: string
  hc_port :: int
  hc_host_plane_absent :: bool
  hc_idp_offered :: bool

definition env_flag :: "(string, string) dict \<Rightarrow> string \<Rightarrow> bool" where
  "env_flag environ name \<longleftrightarrow> map lower_char (dget_or environ name []) \<in> {''1'', ''true'', ''yes''}"

definition hub_from_env ::
  "(string, string) dict \<Rightarrow> string option \<Rightarrow> int option \<Rightarrow> bool option \<Rightarrow> bool option \<Rightarrow> MockHubConfig option" where
  "hub_from_env environ host port host_plane_absent idp_offered =
     (case (case port of Some p \<Rightarrow> Some p
            | None \<Rightarrow> (case dget environ ''BZ_MOCK_HUB_PORT'' of None \<Rightarrow> Some 8421 | Some t \<Rightarrow> int_of_text t)) of
        None \<Rightarrow> None
      | Some p \<Rightarrow> Some
          \<lparr>hc_host = str_or host (dget_or environ ''BZ_MOCK_HUB_HOST'' ''127.0.0.1''), hc_port = p,
           hc_host_plane_absent =
             (case host_plane_absent of Some b \<Rightarrow> b | None \<Rightarrow> env_flag environ ''BZ_MOCK_HUB_NO_HOST_PLANE''),
           hc_idp_offered = (case idp_offered of Some b \<Rightarrow> b | None \<Rightarrow> env_flag environ ''BZ_MOCK_HUB_OFFER_IDP'')\<rparr>)"

definition create_hub_app :: "MockHubConfig option \<Rightarrow> app" where
  "create_hub_app config =
     \<lparr>app_hub = initial_hub, app_captured = [],
      app_host_plane_absent = (case config of None \<Rightarrow> False | Some c \<Rightarrow> hc_host_plane_absent c),
      app_idp_offered = (case config of None \<Rightarrow> False | Some c \<Rightarrow> hc_idp_offered c)\<rparr>"

end
