(* ===== verification/Hub_Api.thy ===== *)
theory Hub_Api
  imports Hub_Control
begin

text \<open>
  The fleet surface of the mock hub as one function: \<open>fleet_call\<close> names a route of
  \<^verbatim>\<open>routes.py\<close> that a runner's token opens, with its validated arguments, and \<open>fleet_api\<close> serves
  it, keeping of a served value its status alone. Shown for every route at once: a token that names
  no runner opens none of them, and a route that names a chunk of another tenant serves nothing of
  it; in both cases the hub writes nothing but a consumed lever.
\<close>

section \<open>The fleet routes\<close>

datatype fleet_call =
    PeekQueue "string option"
  | PeekMatchedQueue "runner_capability list" string "string list option"
  | ListSystemArtifacts
  | GetSystemArtifact string
  | ListScopes "string option"
  | ClaimRoute string string "string list"
  | RekeyRouteToken string
  | ReleaseChunk string int string "string option"
  | GetChunk string
  | PauseChunk string
  | ResumeChunk string
  | FleetSummary
  | GetChunkStatuses "string list"
  | GetEnvelope string
  | CheckArtifact string string string
  | GetWorkItems string
  | GetGardenFindings string
  | GetGardenProposals string routine_proposal_state
  | GetGardenProposalsPage string routine_proposal_state "string option" nat
  | CountsFiles string
  | CountsSkills string
  | CountsAgentTypes string
  | CountsNodes string
  | SpendNodes string
  | SpendGraphs string
  | GetChunkFindings string
  | GetChunkFinding string string
  | SubmitCompletion string int string string
  | SubmitDecision string int string
  | PushFacts "fact list"
  | PushTranscripts "transcript_record list"
  | GetLeaseTranscript string string int
  | RegisterRunner register_request
  | GetRunner string
  | HeartbeatRunner string
  | GetRunnerDecisions string
  | GetQuestion string
  | HubAdvance string

definition status_of :: "'a response \<Rightarrow> unit response" where
  "status_of r = (map_reply (\<lambda>_. ()) (fst r), snd r)"

text \<open>What is outside the hub: its parsers, the schema validator, and what a call reads.\<close>

record outside =
  out_parsers :: parsers
  out_validate :: "string \<Rightarrow> string \<Rightarrow> (string list \<times> string) list option"
  out_env :: env

primrec fleet_api :: "outside \<Rightarrow> request \<Rightarrow> fleet_call \<Rightarrow> hub \<Rightarrow> unit response" where
  "fleet_api w rq (PeekQueue p) h = status_of (rt_peek_queue rq p h)"
| "fleet_api w rq (PeekMatchedQueue caps pol ps) h = status_of (rt_peek_matched_queue rq caps pol ps h)"
| "fleet_api w rq ListSystemArtifacts h = status_of (rt_list_system_artifacts rq h)"
| "fleet_api w rq (GetSystemArtifact n) h = status_of (rt_get_system_artifact rq n h)"
| "fleet_api w rq (ListScopes c) h = status_of (rt_list_scopes rq c h)"
| "fleet_api w rq (ClaimRoute c ws es) h = status_of (rt_claim_route rq c ws es h)"
| "fleet_api w rq (RekeyRouteToken c) h = status_of (rt_rekey_route_token rq c h)"
| "fleet_api w rq (ReleaseChunk c ep rs t) h = status_of (rt_release_chunk rq c ep rs t h)"
| "fleet_api w rq (GetChunk c) h = status_of (rt_get_chunk rq c h)"
| "fleet_api w rq (PauseChunk c) h = status_of (rt_pause_chunk rq c h)"
| "fleet_api w rq (ResumeChunk c) h = status_of (rt_resume_chunk rq c h)"
| "fleet_api w rq FleetSummary h = status_of (rt_fleet_summary rq h)"
| "fleet_api w rq (GetChunkStatuses cs) h = status_of (rt_get_chunk_statuses rq cs h)"
| "fleet_api w rq (GetEnvelope c) h = status_of (rt_get_envelope rq c h)"
| "fleet_api w rq (CheckArtifact c n t) h = status_of (rt_check_artifact (out_validate w) rq c n t h)"
| "fleet_api w rq (GetWorkItems c) h = status_of (rt_get_work_items (out_env w) rq c h)"
| "fleet_api w rq (GetGardenFindings c) h = status_of (rt_get_garden_findings rq c h)"
| "fleet_api w rq (GetGardenProposals c st) h = status_of (rt_get_garden_proposals (out_env w) rq c st h)"
| "fleet_api w rq (GetGardenProposalsPage c st cu n) h =
     status_of (rt_get_garden_proposals_page (out_env w) rq c st cu n h)"
| "fleet_api w rq (CountsFiles c) h = status_of (rt_get_chunk_analytics_counts_files rq c h)"
| "fleet_api w rq (CountsSkills c) h = status_of (rt_get_chunk_analytics_counts_skills rq c h)"
| "fleet_api w rq (CountsAgentTypes c) h = status_of (rt_get_chunk_analytics_counts_agent_types rq c h)"
| "fleet_api w rq (CountsNodes c) h = status_of (rt_get_chunk_analytics_counts_nodes rq c h)"
| "fleet_api w rq (SpendNodes c) h = status_of (rt_get_chunk_analytics_spend_nodes rq c h)"
| "fleet_api w rq (SpendGraphs c) h = status_of (rt_get_chunk_analytics_spend_graphs rq c h)"
| "fleet_api w rq (GetChunkFindings c) h = status_of (rt_get_chunk_findings rq c h)"
| "fleet_api w rq (GetChunkFinding c f) h = status_of (rt_get_chunk_finding rq c f h)"
| "fleet_api w rq (SubmitCompletion c ep n ch) h = status_of (rt_submit_completion rq c ep n ch h)"
| "fleet_api w rq (SubmitDecision c ep n) h = status_of (rt_submit_decision rq c ep n h)"
| "fleet_api w rq (PushFacts fs) h = status_of (rt_push_facts (out_parsers w) (out_env w) rq fs h)"
| "fleet_api w rq (PushTranscripts rs) h = status_of (rt_push_transcripts rq rs h)"
| "fleet_api w rq (GetLeaseTranscript c n ep) h = status_of (rt_get_lease_transcript_segments rq c n ep h)"
| "fleet_api w rq (RegisterRunner b) h = status_of (rt_register_runner (out_env w) rq b h)"
| "fleet_api w rq (GetRunner r) h = status_of (rt_get_runner (out_parsers w) rq r h)"
| "fleet_api w rq (HeartbeatRunner r) h = status_of (rt_heartbeat_runner (out_env w) rq r h)"
| "fleet_api w rq (GetRunnerDecisions r) h = status_of (rt_get_runner_decisions rq r h)"
| "fleet_api w rq (GetQuestion q) h = status_of (rt_get_question rq q h)"
| "fleet_api w rq (HubAdvance c) h = status_of (rt_hub_advance rq c h)"

text \<open>The chunk a route acts on under the wall between tenants. The read of a lease's transcript
  (\<open>GetLeaseTranscript\<close>) stands under a chunk too, and is left out on purpose: its handler has no gate on the
  chunk and is served for a foreign one, from keys that carry the caller's tenant.\<close>

fun call_chunk :: "fleet_call \<Rightarrow> string option" where
  "call_chunk (ListScopes c) = c"
| "call_chunk (ClaimRoute c ws es) = Some c"
| "call_chunk (RekeyRouteToken c) = Some c"
| "call_chunk (ReleaseChunk c ep rs t) = Some c"
| "call_chunk (GetChunk c) = Some c"
| "call_chunk (PauseChunk c) = Some c"
| "call_chunk (ResumeChunk c) = Some c"
| "call_chunk (GetEnvelope c) = Some c"
| "call_chunk (CheckArtifact c n t) = Some c"
| "call_chunk (GetWorkItems c) = Some c"
| "call_chunk (GetGardenFindings c) = Some c"
| "call_chunk (GetGardenProposals c st) = Some c"
| "call_chunk (GetGardenProposalsPage c st cu n) = Some c"
| "call_chunk (CountsFiles c) = Some c"
| "call_chunk (CountsSkills c) = Some c"
| "call_chunk (CountsAgentTypes c) = Some c"
| "call_chunk (CountsNodes c) = Some c"
| "call_chunk (SpendNodes c) = Some c"
| "call_chunk (SpendGraphs c) = Some c"
| "call_chunk (GetChunkFindings c) = Some c"
| "call_chunk (GetChunkFinding c f) = Some c"
| "call_chunk (SubmitCompletion c ep n ch) = Some c"
| "call_chunk (SubmitDecision c ep n) = Some c"
| "call_chunk (HubAdvance c) = Some c"
| "call_chunk _ = None"

section \<open>Refusals\<close>

definition refused :: "int set \<Rightarrow> 'a reply \<Rightarrow> bool" where
  "refused S r \<longleftrightarrow> (case r of Problem s b \<Rightarrow> s \<in> S | Plain s b \<Rightarrow> s \<in> S | _ \<Rightarrow> False)"

text \<open>A reply that refuses with one of the statuses and leaves all but the levers as it was.\<close>

definition turned_away :: "int set \<Rightarrow> hub \<Rightarrow> 'a response \<Rightarrow> bool" where
  "turned_away S h r \<longleftrightarrow> refused S (fst r) \<and> levers_only h (snd r)"

lemma turned_away_status [simp]: "turned_away S h (status_of r) \<longleftrightarrow> turned_away S h r"
  by (cases "fst r") (simp_all add: turned_away_def status_of_def refused_def)

lemma levers_only_take: "take_lever k c (hub_levers h) = (l, s) \<Longrightarrow> levers_only h (h\<lparr>hub_levers := s\<rparr>)"
  using levers_ok_take [of "hub_levers h" k c] by (auto simp: levers_only_def)

lemma rendered_away [simp]: "turned_away S h (rendered k c status plain problem h) \<longleftrightarrow> status \<in> S"
  by (auto simp: rendered_def turned_away_def refused_def levers_only_take split: prod.splits option.splits)

lemmas renderers = read_refusal_def claim_refusal_def rekey_refusal_def resource_refusal_def pinned_graph_read_refusal_def
  host_runner_refusal_def dependency_refused_def Let_def

lemma turned_away_trans: "levers_only h h1 \<Longrightarrow> turned_away S h1 r \<Longrightarrow> turned_away S h r"
  by (auto simp: turned_away_def intro: levers_only_trans)

section \<open>A token that names no runner\<close>

lemma principal_errors: "principal h t = Inl e \<Longrightarrow> \<exists>m. e = UnresolvableRunner m"
  by (auto simp: principal_def split: option.splits if_splits)

lemma unresolved_principal:
  assumes "principal h (presented_bearer rq) = Inl e"
  shows "\<exists>d. gated_principal rq h = Inl (Dependency d) \<and> dp_status d = 401"
  using principal_errors [OF assms] assms
  by (auto simp: gated_principal_def authentication_refusal_def DependencyRefusal_def)

lemma unresolved_gates:
  assumes "principal h (presented_bearer rq) = Inl e"
  shows "turned_away {401} h (behind rq (fleet_gate rq h) f h)"
    and "turned_away {401} h (behind rq (claim_gate_of rq h) f h)"
    and "turned_away {401} h (behind rq (fleet_chunk_gate rq c h) f h)"
  using unresolved_principal [OF assms]
  by (auto simp: behind_def fleet_gate_def claim_gate_of_def fleet_chunk_gate_def gate_refused_def renderers)

lemmas route_defs = rt_peek_queue_def rt_peek_matched_queue_def rt_list_system_artifacts_def
  rt_get_system_artifact_def rt_list_scopes_def rt_claim_route_def rt_rekey_route_token_def rt_release_chunk_def
  rt_get_chunk_def rt_pause_chunk_def rt_resume_chunk_def rt_fleet_summary_def rt_get_chunk_statuses_def
  rt_get_envelope_def rt_check_artifact_def rt_get_work_items_def rt_get_garden_findings_def
  rt_get_garden_proposals_def rt_get_garden_proposals_page_def analytics_route_def
  rt_get_chunk_analytics_counts_files_def rt_get_chunk_analytics_counts_skills_def
  rt_get_chunk_analytics_counts_agent_types_def rt_get_chunk_analytics_counts_nodes_def
  rt_get_chunk_analytics_spend_nodes_def rt_get_chunk_analytics_spend_graphs_def rt_get_chunk_findings_def
  rt_get_chunk_finding_def rt_submit_completion_def rt_submit_decision_def rt_push_facts_def
  rt_push_transcripts_def rt_get_lease_transcript_segments_def rt_register_runner_def rt_get_runner_def
  rt_heartbeat_runner_def rt_get_runner_decisions_def rt_get_question_def rt_hub_advance_def

lemma unresolved_call:
  assumes "principal h (presented_bearer rq) = Inl e"
  shows "turned_away {401} h (fleet_api w rq call h)"
  by (cases call) (simp_all add: unresolved_gates [OF assms] route_defs)

section \<open>A chunk of another tenant\<close>

text \<open>The chunk stands under a project that is not in the tenant of the runner the token names.\<close>

definition foreign_chunk :: "hub \<Rightarrow> request \<Rightarrow> string \<Rightarrow> bool" where
  "foreign_chunk h rq c \<longleftrightarrow>
     (case principal h (presented_bearer rq) of
        Inl e \<Rightarrow> False
      | Inr r \<Rightarrow> (case get_chunk h c of None \<Rightarrow> False | Some chunk \<Rightarrow> \<not> same_tenant h r chunk))"

lemma principal_row:
  assumes "runners_ok h" and "principal h t = Inr r"
  shows "\<exists>row. get_runner h r = Some row"
  using assms keyed_get [OF assms(1)]
  by (auto simp: principal_def runner_for_token_def get_runner_def split: option.splits if_splits)

lemma foreign_chunkD:
  assumes "runners_ok h" and "foreign_chunk h rq c"
  obtains r row where "principal h (presented_bearer rq) = Inr r" and "get_runner h r = Some row"
    and "\<exists>m. require_runner_chunk h c r = Inl (ChunkNotFound m)"
    and "\<exists>m. refuse_foreign_runner_chunk h c r = Inl (ChunkNotFound m)"
proof -
  obtain r chunk where r: "principal h (presented_bearer rq) = Inr r" "get_chunk h c = Some chunk"
      "\<not> same_tenant h r chunk"
    using assms(2) by (auto simp: foreign_chunk_def split: sum.splits option.splits)
  obtain row where row: "get_runner h r = Some row" using principal_row [OF assms(1) r(1)] by auto
  then have "\<exists>m. require_runner_chunk h c r = Inl (ChunkNotFound m)"
    using r by (auto simp: require_runner_chunk_def require_def added_def same_tenant_def split: option.splits)
  with r row show thesis by (intro that) (auto simp: refuse_foreign_runner_chunk_def)
qed

lemma gate_of_principal:
  assumes "principal h (presented_bearer rq) = Inr r" and "get_runner h r = Some row"
  shows "fleet_gate rq h = Inr r \<or> (\<exists>d. fleet_gate rq h = Inl (Dependency d) \<and> dp_status d \<in> {400, 403})"
    and "claim_gate_of rq h = Inr r \<or> (\<exists>d. claim_gate_of rq h = Inl (Dependency d) \<and> dp_status d \<in> {400, 403})"
  using assms
  by (auto simp: fleet_gate_def claim_gate_of_def gated_principal_def require_active_runner_def refuse_retired_runner_def
      fleet_tenant_bound_def refuse_foreign_tenant_def added_def foreign_tenant_def DependencyRefusal_def
      split: sum.splits)

lemma dependency_away: "turned_away S h (gate_refused rq (Dependency d) h) \<longleftrightarrow> dp_status d \<in> S"
  by (simp add: gate_refused_def renderers)

definition WALL :: "int set" where "WALL = {400, 403, 404}"

lemma behind_away:
  assumes "gate = Inr r \<or> (\<exists>d. gate = Inl (Dependency d) \<and> dp_status d \<in> {400, 403})"
    and "turned_away WALL h (g r h)"
  shows "turned_away WALL h (behind rq gate g h)"
  using assms by (auto simp: behind_def dependency_away WALL_def)

lemma chunk_gate_away:
  assumes "runners_ok h" and "foreign_chunk h rq c"
  shows "turned_away WALL h (behind rq (fleet_chunk_gate rq c h) f h)"
proof -
  obtain r row m where r: "principal h (presented_bearer rq) = Inr r" "get_runner h r = Some row"
      "refuse_foreign_runner_chunk h c r = Inl (ChunkNotFound m)"
    using foreign_chunkD [OF assms] by metis
  from gate_of_principal(1) [OF r(1,2)] r(3) show ?thesis
    by (auto simp: behind_def fleet_chunk_gate_def dependency_away WALL_def)
      (simp add: gate_refused_def renderers)
qed

lemma foreign_handlers:
  assumes "require_runner_chunk h c r = Inl (ChunkNotFound m)"
    and "refuse_foreign_runner_chunk h c r = Inl (ChunkNotFound m')"
  shows "turned_away WALL h (serve n (on_chunk rq c) (chunk_detail_read c r h))"
    and "turned_away WALL h (serve n (\<lambda>e. case e of
           ChunkNotFound m \<Rightarrow> read_refusal (Some c) ''chunk-not-found'' ''Chunk not found'' (error_message e) rq
         | _ \<Rightarrow> unhandled e)
         (case map_sum id (\<lambda>_. ()) (require_runner_chunk h c r) of Inl e \<Rightarrow> Inl e | Inr _ \<Rightarrow> scopes h (Some c), h))"
    and "turned_away WALL h (serve n (on_rekey rq c)
         (case refuse_foreign_runner_chunk h c r of
            Inl (ChunkNotFound m) \<Rightarrow> (Inl (ChunkNotFound (''chunk '' @ c @ '' has no live route'')), h)
          | Inl e \<Rightarrow> (Inl e, h)
          | Inr _ \<Rightarrow> rekey_route_token c r h))"
    and "turned_away WALL h (serve n (on_release rq c)
         (case refuse_foreign_runner_chunk h c r of Inl e \<Rightarrow> (Inl e, h) | Inr _ \<Rightarrow> release c r ep rs t h))"
    and "turned_away WALL h (serve n (on_claim c)
         (case refuse_foreign_runner_chunk h c r of Inl e \<Rightarrow> (Inl e, h) | Inr _ \<Rightarrow> claim c r ws es h))"
  using assms
  by (simp_all add: chunk_detail_read_def serve_def on_chunk_def on_rekey_def on_release_def on_claim_def renderers WALL_def)

lemma foreign_call:
  assumes "runners_ok h" and "foreign_chunk h rq c" and "call_chunk call = Some c"
  shows "turned_away WALL h (fleet_api w rq call h)"
proof -
  obtain r row m m' where r: "principal h (presented_bearer rq) = Inr r" "get_runner h r = Some row"
      "require_runner_chunk h c r = Inl (ChunkNotFound m)" "refuse_foreign_runner_chunk h c r = Inl (ChunkNotFound m')"
    using foreign_chunkD [OF assms(1,2)] by metis
  note gates = behind_away [OF gate_of_principal(1) [OF r(1,2)]] behind_away [OF gate_of_principal(2) [OF r(1,2)]]
  show ?thesis
    using assms(3)
    by (cases call)
      (auto simp: route_defs chunk_gate_away [OF assms(1,2)] intro!: gates foreign_handlers [OF r(3,4)])
qed

end
