(* ===== verification/Runner_Driver.thy ===== *)
theory Runner_Driver
  imports Runner_Gateway Lever_Store
begin

text \<open>
  The mock runner's driver (\<^verbatim>\<open>src/blizzard_mock/mock_runner/domain\<close> and its control routes):
  \<^verbatim>\<open>MockRunnerService\<close> over the gateway of \<open>Runner_Gateway\<close>, under the levers of
  \<open>Lever_Store\<close>. The driver's state is a record that also carries the gateway's and the world
  behind the HTTP client, which stays a parameter. A verb returns what it raised or its answer,
  and the driver after; \<open>then_do\<close> is the sequencing of two statements, the second skipped when the
  first raises. What the clock and \<^verbatim>\<open>uuid4\<close> answer are arguments. \<open>drive\<close> runs one control call
  and \<open>drive_all\<close> a list of them.
\<close>

section \<open>Levers of the runner\<close>

datatype runner_lever =
    RL_DELAY | RL_DROP_ACK | RL_CONFLICTING_FACT | RL_UNREACHABLE | RL_REPLAY | RL_STALE_EPOCH
  | RL_STALE_ROUTE_TOKEN | RL_OMIT_ROUTE_TOKEN

fun runner_lever_value :: "runner_lever \<Rightarrow> string" where
  "runner_lever_value RL_DELAY = ''delay''"
| "runner_lever_value RL_DROP_ACK = ''drop_ack''"
| "runner_lever_value RL_CONFLICTING_FACT = ''conflicting_fact''"
| "runner_lever_value RL_UNREACHABLE = ''unreachable''"
| "runner_lever_value RL_REPLAY = ''replay''"
| "runner_lever_value RL_STALE_EPOCH = ''stale_epoch''"
| "runner_lever_value RL_STALE_ROUTE_TOKEN = ''stale_route_token''"
| "runner_lever_value RL_OMIT_ROUTE_TOKEN = ''omit_route_token''"

definition RUNNER_LEVERS :: "runner_lever list" where
  "RUNNER_LEVERS = [RL_DELAY, RL_DROP_ACK, RL_CONFLICTING_FACT, RL_UNREACHABLE, RL_REPLAY, RL_STALE_EPOCH,
     RL_STALE_ROUTE_TOKEN, RL_OMIT_ROUTE_TOKEN]"

section \<open>The driver's state\<close>

text \<open>A held claim. The node and the token are kept as the hub's bodies hold them; a token of
  null is Python's \<^verbatim>\<open>None\<close>.\<close>

record held =
  hd_chunk_id :: string
  hd_epoch :: int
  hd_from_node_id :: json
  hd_route_token :: json
  hd_last_submission :: payload

record 'w driver =
  dr_world :: 'w
  dr_gw :: gateway
  dr_levers :: lever_store
  dr_name :: string
  dr_workspace_id :: string
  dr_runner_id :: "string option"
  dr_held :: "(string, held) dict"
  dr_runner_seq :: int
  dr_transcript_seq :: int
  dr_git_commits :: "(string, (string, payload) dict) dict"

definition MockRunnerService :: "gateway \<Rightarrow> 'w \<Rightarrow> string \<Rightarrow> string \<Rightarrow> 'w driver" where
  "MockRunnerService gw world name workspace_id =
     \<lparr>dr_world = world, dr_gw = gw, dr_levers = [], dr_name = name, dr_workspace_id = workspace_id,
      dr_runner_id = None, dr_held = [], dr_runner_seq = 0, dr_transcript_seq = 0, dr_git_commits = []\<rparr>"

text \<open>What a verb may raise: \<^verbatim>\<open>int\<close> on a value it cannot read, a method or key a body of another
  shape lacks, and \<^verbatim>\<open>time.sleep\<close> on a negative duration or one its nanosecond counter cannot hold.\<close>

datatype driver_error = ConversionFault | ShapeFault | SleepFault

type_synonym ('w, 'a) verb = "'w driver \<Rightarrow> (driver_error + 'a) \<times> 'w driver"

definition then_do :: "('w, 'a) verb \<Rightarrow> ('a \<Rightarrow> ('w, 'b) verb) \<Rightarrow> ('w, 'b) verb" where
  "then_do m f d = (case m d of (Inl e, d') \<Rightarrow> (Inl e, d') | (Inr x, d') \<Rightarrow> f x d')"

definition drv_return :: "'a \<Rightarrow> ('w, 'a) verb" where "drv_return x d = (Inr x, d)"

definition raise :: "driver_error \<Rightarrow> ('w, 'a) verb" where "raise e d = (Inl e, d)"

text \<open>One call of the gateway from the driver.\<close>

definition call :: "(gateway \<times> 'w \<Rightarrow> (int \<times> payload) \<times> gateway \<times> 'w) \<Rightarrow> ('w, int \<times> payload) verb" where
  "call f d = (case f (dr_gw d, dr_world d) of (r, g, w) \<Rightarrow> (Inr r, d\<lparr>dr_gw := g, dr_world := w\<rparr>))"

section \<open>Constants of the wire\<close>

definition CLAUDE_CODE_HARNESS_ID :: string where "CLAUDE_CODE_HARNESS_ID = ''claude_code''"

definition DRIVER_REPORTED_VERSION :: string where "DRIVER_REPORTED_VERSION = ''0.4.0''"

definition DEFAULT_CAPABILITIES :: "json list" where
  "DEFAULT_CAPABILITIES = [JObj [(''harness_id'', JStr ''claude_code''), (''default'', JBool True)]]"

definition RN_LEASE_MINTED :: string where "RN_LEASE_MINTED = ''lease.minted''"
definition RN_ESCALATION_RECORDED :: string where "RN_ESCALATION_RECORDED = ''escalation.recorded''"
definition RN_QUESTION_ASKED :: string where "RN_QUESTION_ASKED = ''question.asked''"
definition RN_RUNNER_LOCALLY_PAUSED :: string where "RN_RUNNER_LOCALLY_PAUSED = ''runner.locally_paused''"
definition RN_RUNNER_LOCALLY_RESUMED :: string where "RN_RUNNER_LOCALLY_RESUMED = ''runner.locally_resumed''"
definition RN_EVENT_RECORDED :: string where "RN_EVENT_RECORDED = ''event.recorded''"
definition RN_USAGE_SAMPLED :: string where "RN_USAGE_SAMPLED = ''external_subscription_usage.sampled''"
definition RN_USAGE_MISSED :: string where "RN_USAGE_MISSED = ''external_subscription_usage.missed''"

definition headers_json :: "(string, string) dict \<Rightarrow> json" where
  "headers_json hs = JObj (map (\<lambda>(k, v). (k, JStr v)) hs)"

section \<open>Internals\<close>

text \<open>\<^verbatim>\<open>_pull\<close>: whether a lever of the kind is armed for the chunk, which consumes it.\<close>

definition pull :: "runner_lever \<Rightarrow> string \<Rightarrow> ('w, bool) verb" where
  "pull kind chunk_id d =
     (case take_lever (runner_lever_value kind) (Some chunk_id) (dr_levers d) of
        (l, s) \<Rightarrow> (Inr (l \<noteq> None), d\<lparr>dr_levers := s\<rparr>))"

text \<open>\<^verbatim>\<open>_apply_delay\<close>: the lever is consumed first; a sleep only takes time.\<close>

definition sleep_error :: "lever \<Rightarrow> driver_error option" where
  "sleep_error l =
     (case get_int (lv_payload l) ''ms'' 0 of
        None \<Rightarrow> Some ConversionFault
      | Some ms \<Rightarrow> if ms < 0 \<or> ms > 9223372036854 then Some SleepFault else None)"

definition apply_delay :: "string option \<Rightarrow> ('w, unit) verb" where
  "apply_delay chunk_id d =
     (case take_lever (runner_lever_value RL_DELAY) chunk_id (dr_levers d) of
        (None, s) \<Rightarrow> (Inr (), d)
      | (Some l, s) \<Rightarrow>
          (case sleep_error l of None \<Rightarrow> Inr () | Some e \<Rightarrow> Inl e, d\<lparr>dr_levers := s\<rparr>))"

definition observed :: "int \<times> payload \<Rightarrow> ('w, payload) verb" where
  "observed r d =
     (case r of (status, body) \<Rightarrow>
        (Inr ([(''status'', JInt status), (''response'', JObj body),
               (''headers'', headers_json (gw_response_headers (dr_gw d)))]
              @ (if status \<ge> 400 then [(''refusal'', opt_str (gw_nonclaim_refusal (dr_gw d)))] else [])), d))"

text \<open>The answer of a verb that drove a call: the status, the body and the contract headers.\<close>

definition drove :: "payload \<Rightarrow> int \<times> payload \<Rightarrow> ('w, payload) verb" where
  "drove extra r d =
     (case r of (status, body) \<Rightarrow>
        (Inr ([(''drove'', JBool True)] @ extra
              @ [(''status'', JInt status), (''response'', JObj body),
                 (''headers'', headers_json (gw_response_headers (dr_gw d)))]), d))"

definition not_claimed :: "string \<Rightarrow> payload" where
  "not_claimed chunk_id =
     [(''drove'', JBool False), (''reason'', JStr (''chunk '' @ chunk_id @ '' not claimed by this driver''))]"

text \<open>\<^verbatim>\<open>_push_fact\<close>: the next number of the fact lane is taken whatever the push answers.\<close>

definition fact_body :: "int \<Rightarrow> string \<Rightarrow> payload \<Rightarrow> payload" where
  "fact_body seq kind body =
     [(''facts'', JList [JObj [(''seq'', JInt seq), (''kind'', JStr kind), (''payload'', JObj body)]])]"

definition push_fact :: "'w client \<Rightarrow> string \<Rightarrow> payload \<Rightarrow> ('w, int \<times> payload) verb" where
  "push_fact client kind body d =
     (let seq = dr_runner_seq d + 1
      in call (gw_push_facts client (fact_body seq kind body)) (d\<lparr>dr_runner_seq := seq\<rparr>))"

definition stamped :: "held \<Rightarrow> payload \<Rightarrow> payload" where
  "stamped h body =
     (if hd_route_token h = JNull then body else dset ''route_token'' (hd_route_token h) body)"

definition report_lease :: "'w client \<Rightarrow> held \<Rightarrow> ('w, unit) verb" where
  "report_lease client h =
     then_do
       (push_fact client RN_LEASE_MINTED
          (stamped h [(''chunk_id'', JStr (hd_chunk_id h)), (''epoch'', JInt (hd_epoch h))]))
       (\<lambda>_. drv_return ())"

text \<open>\<^verbatim>\<open>body.get(k, {})\<close> read as a dict, \<open>None\<close> when the value is of another shape.\<close>

definition get_obj :: "payload \<Rightarrow> string \<Rightarrow> payload option" where
  "get_obj p k = (case dget p k of None \<Rightarrow> Some [] | Some (JObj q) \<Rightarrow> Some q | Some _ \<Rightarrow> None)"

definition put_held :: "held \<Rightarrow> 'w driver \<Rightarrow> 'w driver" where
  "put_held h d = d\<lparr>dr_held := dset (hd_chunk_id h) h (dr_held d)\<rparr>"

text \<open>\<^verbatim>\<open>_advance\<close>: the node is written before the epoch is converted.\<close>

definition drv_advance :: "'w client \<Rightarrow> string \<Rightarrow> payload \<Rightarrow> ('w, unit) verb" where
  "drv_advance client chunk_id body d =
     (case dget (dr_held d) chunk_id of
        None \<Rightarrow> (Inr (), d)
      | Some h \<Rightarrow>
          if dget body ''outcome'' = Some (JStr ''next'')
             \<and> json_truthy (dget_or body ''next_envelope'' JNull)
          then (case dget_or body ''next_envelope'' JNull of
                  JObj nxt \<Rightarrow>
                    (case get_obj nxt ''node'' of
                       None \<Rightarrow> (Inl ShapeFault, d)
                     | Some node \<Rightarrow>
                         (let h1 = h\<lparr>hd_from_node_id := dget_or node ''node_id'' (hd_from_node_id h)\<rparr>
                          in case get_int nxt ''epoch'' 0 of
                               None \<Rightarrow> (Inl ConversionFault, d\<lparr>dr_held := dset chunk_id h1 (dr_held d)\<rparr>)
                             | Some e \<Rightarrow>
                                 (let h2 = h1\<lparr>hd_epoch := e + 1\<rparr>
                                  in report_lease client h2 (d\<lparr>dr_held := dset chunk_id h2 (dr_held d)\<rparr>))))
                | _ \<Rightarrow> (Inl ShapeFault, d))
          else (Inr (), d\<lparr>dr_held := dpop chunk_id (dr_held d)\<rparr>))"

section \<open>Drive verbs\<close>

definition drv_reset :: "'w driver \<Rightarrow> 'w driver" where
  "drv_reset d = d\<lparr>dr_held := [], dr_runner_seq := 0, dr_transcript_seq := 0, dr_git_commits := [],
     dr_levers := clear_all (dr_levers d)\<rparr>"

definition drv_register ::
  "'w client \<Rightarrow> json list option \<Rightarrow> json list option \<Rightarrow> json list option \<Rightarrow> ('w, payload) verb" where
  "drv_register client capabilities subscriptions declining d0 =
     then_do (apply_delay None) (\<lambda>_.
     then_do
       (call (gw_register client (dr_name d0) (dr_workspace_id d0)
          (case capabilities of None \<Rightarrow> DEFAULT_CAPABILITIES | Some c \<Rightarrow> c) subscriptions declining
          (Some DRIVER_REPORTED_VERSION)))
       (\<lambda>(status, body) d.
          observed (status, body)
            (case dget body ''runner_id'' of
               Some (JStr registered_id) \<Rightarrow>
                 if status = 200 \<or> status = 201 then d\<lparr>dr_runner_id := Some registered_id\<rparr> else d
             | _ \<Rightarrow> d))) d0"

definition drv_peek :: "'w client \<Rightarrow> ('w, payload) verb" where
  "drv_peek client = then_do (apply_delay None) (\<lambda>_. then_do (call (gw_peek client)) observed)"

definition drv_peek_matched :: "'w client \<Rightarrow> json list option \<Rightarrow> string \<Rightarrow> bool \<Rightarrow> ('w, payload) verb" where
  "drv_peek_matched client capabilities policy enrolled =
     then_do (apply_delay None) (\<lambda>_.
     then_do (call (gw_peek_matched client enrolled (case capabilities of None \<Rightarrow> [] | Some c \<Rightarrow> c) policy)) observed)"

text \<open>A claim: a refusal leaves no held row; an accepted claim is held at the envelope's epoch
  plus one and reported as minted.\<close>

definition take_claim :: "'w client \<Rightarrow> string \<Rightarrow> payload \<Rightarrow> ('w, payload) verb" where
  "take_claim client chunk_id body d =
     (case get_obj body ''envelope'' of
        None \<Rightarrow> (Inl ShapeFault, d)
      | Some envelope \<Rightarrow>
          (case get_obj envelope ''node'' of
             None \<Rightarrow> (Inl ShapeFault, d)
           | Some node \<Rightarrow>
               (case get_int envelope ''epoch'' 0 of
                  None \<Rightarrow> (Inl ConversionFault, d)
                | Some e \<Rightarrow>
                    (let h = \<lparr>hd_chunk_id = chunk_id, hd_epoch = e + 1,
                              hd_from_node_id = dget_or node ''node_id'' (JStr []),
                              hd_route_token = dget_or body ''route_token'' JNull, hd_last_submission = []\<rparr>
                     in then_do (report_lease client h) (\<lambda>_.
                          drv_return [(''claimed'', JBool True), (''status'', JInt 201),
                                  (''from_node_id'', hd_from_node_id h), (''epoch'', JInt (hd_epoch h)),
                                  (''response'', JObj body)]) (put_held h d)))))"

definition drv_claim :: "'w client \<Rightarrow> string \<Rightarrow> string list \<Rightarrow> ('w, payload) verb" where
  "drv_claim client chunk_id environment_ids d0 =
     then_do (apply_delay (Some chunk_id)) (\<lambda>_.
     then_do
       (call (gw_claim client
          [(''chunk_id'', JStr chunk_id), (''workspace_id'', JStr (dr_workspace_id d0)),
           (''environment_ids'', JList (map JStr environment_ids))]))
       (\<lambda>(status, body) d.
          if status \<noteq> 201 then
            (Inr [(''claimed'', JBool False), (''status'', JInt status), (''response'', JObj body),
                  (''headers'', headers_json (gw_response_headers (dr_gw d))),
                  (''refusal'', opt_str (map_option claim_refusal_value (gw_claim_refusal (dr_gw d))))], d)
          else take_claim client chunk_id body d)) d0"

text \<open>\<^verbatim>\<open>_select_next\<close> over the entries of a peek; an entry that is no dict raises.\<close>

definition unmarked :: "payload \<Rightarrow> bool" where
  "unmarked entry \<longleftrightarrow> dget_or entry ''blocked'' JNull = JNull"

fun reach_ahead :: "json list \<Rightarrow> driver_error + payload option" where
  "reach_ahead [] = Inr None"
| "reach_ahead (JObj entry # rest) = (if unmarked entry then Inr (Some entry) else reach_ahead rest)"
| "reach_ahead (_ # rest) = Inl ShapeFault"

definition select_next :: "json \<Rightarrow> bool \<Rightarrow> driver_error + payload option" where
  "select_next entries strict =
     (if \<not> json_truthy entries then Inr None
      else case entries of
        JList (e # es) \<Rightarrow>
          if strict
          then (case e of JObj head \<Rightarrow> Inr (if unmarked head then Some head else None) | _ \<Rightarrow> Inl ShapeFault)
          else reach_ahead (e # es)
      | _ \<Rightarrow> Inl ShapeFault)"

text \<open>The claimed entry's chunk id is a string, as \<^verbatim>\<open>claim\<close> has it.\<close>

definition drv_claim_next :: "'w client \<Rightarrow> string list \<Rightarrow> bool \<Rightarrow> ('w, payload) verb" where
  "drv_claim_next client environment_ids strict =
     then_do (call (gw_peek client)) (\<lambda>(status, body).
       if status \<noteq> 200 then
         then_do (observed (status, body)) (\<lambda>r. drv_return ((''claimed'', JBool False) # r))
       else
         (case select_next (dget_or body ''entries'' (JList [])) strict of
            Inl e \<Rightarrow> raise e
          | Inr None \<Rightarrow>
              drv_return [(''claimed'', JBool False), (''reason'', JStr ''no unmarked entry in the peeked queue'')]
          | Inr (Some entry) \<Rightarrow>
              (case dget entry ''chunk_id'' of
                 Some (JStr chunk_id) \<Rightarrow> drv_claim client chunk_id environment_ids
               | _ \<Rightarrow> raise ShapeFault)))"

text \<open>A completion. Each distorting lever is pulled in the source's order, so an armed one is
  consumed even when a later branch makes it moot.\<close>

definition completion_epoch :: "held \<Rightarrow> bool \<Rightarrow> int" where
  "completion_epoch h stale = (if stale then max (hd_epoch h - 1) 0 else hd_epoch h)"

definition STALE_TOKEN :: string where
  "STALE_TOKEN = ''mock-stale-route-token-does-not-match-any-live-route''"

definition completion_token :: "held \<Rightarrow> bool \<Rightarrow> bool \<Rightarrow> json" where
  "completion_token h omit stale = (if stale then JStr STALE_TOKEN else if omit then JNull else hd_route_token h)"

definition completion_body :: "string \<Rightarrow> json list \<Rightarrow> json list \<Rightarrow> int \<Rightarrow> json \<Rightarrow> json \<Rightarrow> payload" where
  "completion_body choice artifacts check_results epoch from_node route_token =
     [(''choice'', JStr choice), (''epoch'', JInt epoch), (''from_node_id'', from_node),
      (''check_results'', JList check_results), (''artifacts'', JList artifacts)]
     @ (if route_token = JNull then [] else [(''route_token'', route_token)])"

text \<open>The submission as the levers leave it, which the held row keeps.\<close>

definition build_completion :: "string \<Rightarrow> string \<Rightarrow> json list \<Rightarrow> json list \<Rightarrow> held \<Rightarrow> ('w, payload) verb" where
  "build_completion chunk_id choice artifacts check_results h =
     then_do (pull RL_STALE_EPOCH chunk_id) (\<lambda>stale.
     then_do (pull RL_CONFLICTING_FACT chunk_id) (\<lambda>conflicting.
     then_do (pull RL_OMIT_ROUTE_TOKEN chunk_id) (\<lambda>omit.
     then_do (pull RL_STALE_ROUTE_TOKEN chunk_id) (\<lambda>stale_token d.
       (let submission = completion_body choice artifacts check_results (completion_epoch h stale)
              (if conflicting then JStr ''conflicting-node'' else hd_from_node_id h)
              (completion_token h omit stale_token)
        in (Inr submission, d\<lparr>dr_held := dset chunk_id (h\<lparr>hd_last_submission := submission\<rparr>) (dr_held d)\<rparr>))))))"

definition replay_completion :: "'w client \<Rightarrow> string \<Rightarrow> payload \<Rightarrow> ('w, json) verb" where
  "replay_completion client chunk_id submission =
     then_do (pull RL_REPLAY chunk_id) (\<lambda>replay.
       if replay then
         then_do (call (gw_submit_completion client chunk_id submission)) (\<lambda>(status, body) d.
           (Inr (JObj [(''status'', JInt status), (''response'', JObj body),
                       (''headers'', headers_json (gw_response_headers (dr_gw d)))]), d))
       else drv_return JNull)"

definition submit_built :: "'w client \<Rightarrow> string \<Rightarrow> payload \<Rightarrow> ('w, payload) verb" where
  "submit_built client chunk_id submission =
     then_do (call (gw_submit_completion client chunk_id submission)) (\<lambda>(status, body) d1.
     (let headers = headers_json (gw_response_headers (dr_gw d1))
      in then_do (replay_completion client chunk_id submission) (\<lambda>replayed.
         then_do (pull RL_DROP_ACK chunk_id) (\<lambda>dropped.
           if dropped then
             drv_return [(''drove'', JBool True), (''dropped_ack'', JBool True), (''status'', JInt status),
                     (''response'', JObj body), (''replayed'', replayed), (''headers'', headers)]
           else
             then_do (if status = 200 then drv_advance client chunk_id body else drv_return ()) (\<lambda>_.
               drv_return [(''drove'', JBool True), (''status'', JInt status), (''response'', JObj body),
                       (''replayed'', replayed), (''headers'', headers)])))) d1)"

text \<open>\<open>with_held\<close> is the lookup and early return of the verbs that need a claim of this driver.\<close>

definition with_held :: "string \<Rightarrow> (held \<Rightarrow> ('w, payload) verb) \<Rightarrow> ('w, payload) verb" where
  "with_held chunk_id f d =
     (case dget (dr_held d) chunk_id of None \<Rightarrow> (Inr (not_claimed chunk_id), d) | Some h \<Rightarrow> f h d)"

definition drv_complete :: "'w client \<Rightarrow> string \<Rightarrow> string \<Rightarrow> json list \<Rightarrow> json list \<Rightarrow> ('w, payload) verb" where
  "drv_complete client chunk_id choice artifacts check_results =
     then_do (apply_delay (Some chunk_id)) (\<lambda>_.
     with_held chunk_id (\<lambda>h.
     then_do (pull RL_UNREACHABLE chunk_id) (\<lambda>gone.
       if gone then drv_return [(''drove'', JBool False), (''reason'', JStr ''runner unreachable mid-lease'')]
       else then_do (build_completion chunk_id choice artifacts check_results h) (submit_built client chunk_id))))"

definition drv_get_chunk :: "'w client \<Rightarrow> string \<Rightarrow> ('w, payload) verb" where
  "drv_get_chunk client chunk_id =
     then_do (apply_delay (Some chunk_id)) (\<lambda>_. then_do (call (gw_get_chunk client chunk_id)) observed)"

definition drv_chunk_statuses :: "'w client \<Rightarrow> string list \<Rightarrow> ('w, payload) verb" where
  "drv_chunk_statuses client chunk_ids =
     then_do (apply_delay None) (\<lambda>_. then_do (call (gw_chunk_statuses client chunk_ids)) observed)"

definition declare_git_commit :: "string \<Rightarrow> string \<Rightarrow> string \<Rightarrow> string \<Rightarrow> string \<Rightarrow> ('w, payload) verb" where
  "declare_git_commit lease_id forge repo branch commit d =
     (let row = [(''forge'', JStr forge), (''repo'', JStr repo), (''branch'', JStr branch), (''commit'', JStr commit)];
          rows = dset repo row (dget_or (dr_git_commits d) lease_id [])
      in (Inr [(''recorded'', JBool True), (''lease_id'', JStr lease_id), (''repo'', JStr repo)],
          d\<lparr>dr_git_commits := dset lease_id rows (dr_git_commits d)\<rparr>))"

definition git_commits_for_lease :: "string \<Rightarrow> 'w driver \<Rightarrow> (string, payload) dict" where
  "git_commits_for_lease lease_id d = dget_or (dr_git_commits d) lease_id []"

definition drv_escalate ::
  "'w client \<Rightarrow> string \<Rightarrow> string \<Rightarrow> string \<Rightarrow> string option \<Rightarrow> string option \<Rightarrow> ('w, payload) verb" where
  "drv_escalate client chunk_id takeover_command wrapped_takeover_command cause detail =
     then_do (apply_delay (Some chunk_id)) (\<lambda>_.
     with_held chunk_id (\<lambda>h.
     then_do
       (push_fact client RN_ESCALATION_RECORDED
          (stamped h
             [(''chunk_id'', JStr chunk_id), (''epoch'', JInt (hd_epoch h)),
              (''takeover_command'', JStr takeover_command),
              (''wrapped_takeover_command'', JStr wrapped_takeover_command),
              (''cause'', opt_str cause), (''detail'', opt_str detail)]))
       (drove [])))"

definition drv_decide :: "'w client \<Rightarrow> string \<Rightarrow> string option \<Rightarrow> ('w, payload) verb" where
  "drv_decide client chunk_id choice =
     then_do (apply_delay (Some chunk_id)) (\<lambda>_.
     with_held chunk_id (\<lambda>h.
     then_do
       (call (gw_submit_decision client chunk_id
          ([(''from_node_id'', hd_from_node_id h), (''epoch'', JInt (hd_epoch h)), (''artifacts'', JList [])]
           @ (if hd_route_token h = JNull then [] else [(''route_token'', hd_route_token h)]))))
       (drove [])))"

definition drv_ask ::
  "'w client \<Rightarrow> instant \<Rightarrow> string \<Rightarrow> string \<Rightarrow> string \<Rightarrow> string list option \<Rightarrow> string option \<Rightarrow> ('w, payload) verb" where
  "drv_ask client now uuid_hex chunk_id question options harness_id =
     then_do (apply_delay (Some chunk_id)) (\<lambda>_.
     with_held chunk_id (\<lambda>h.
     (let question_id = ''mock-question-'' @ take 24 uuid_hex
      in then_do
           (push_fact client RN_QUESTION_ASKED
              [(''question_id'', JStr question_id), (''chunk_id'', JStr chunk_id),
               (''session_id'', JStr (''mock-session-'' @ chunk_id)),
               (''harness_id'', JStr (case harness_id of None \<Rightarrow> CLAUDE_CODE_HARNESS_ID | Some x \<Rightarrow> x)),
               (''epoch'', JInt (hd_epoch h)), (''question'', JStr question),
               (''options'', JList (case options of None \<Rightarrow> [] | Some xs \<Rightarrow> map JStr xs)),
               (''asked_at'', JStr (isoformat now))])
           (drove [(''question_id'', JStr question_id)]))))"

definition placeholder_turn :: "string \<Rightarrow> json" where
  "placeholder_turn timestamp =
     JObj [(''index'', JInt 0), (''kind'', JStr ''asst''), (''timestamp'', JStr timestamp),
           (''text'', JStr ''mock turn''), (''tool'', JNull), (''thinking_redacted'', JBool False),
           (''sidechain'', JNull), (''truncated'', JBool False)]"

definition transcript_record ::
  "int \<Rightarrow> held \<Rightarrow> string \<Rightarrow> string \<Rightarrow> json list \<Rightarrow> bool \<Rightarrow> bool \<Rightarrow> string option \<Rightarrow> payload" where
  "transcript_record seq h chunk_id segment_id turn_list final record_truncated harness_id =
     [(''seq'', JInt seq), (''segment_id'', JStr segment_id), (''chunk_id'', JStr chunk_id),
      (''node_id'', hd_from_node_id h), (''epoch'', JInt (hd_epoch h)), (''spawn_generation'', JInt 1),
      (''turn_range_start'', JInt 0), (''turn_range_end'', JInt (int (length turn_list) - 1)),
      (''final'', JBool final),
      (''harness_id'', JStr (case harness_id of None \<Rightarrow> CLAUDE_CODE_HARNESS_ID | Some x \<Rightarrow> x)),
      (''normalizer_version'', JStr ''mock/1''), (''harness_version'', JNull),
      (''record_truncated'', JBool record_truncated), (''turns'', JList turn_list)]"

definition drv_push_transcript ::
  "'w client \<Rightarrow> instant \<Rightarrow> string \<Rightarrow> string \<Rightarrow> json list option \<Rightarrow> bool \<Rightarrow> bool \<Rightarrow> string option \<Rightarrow> ('w, payload) verb" where
  "drv_push_transcript client now chunk_id segment_id turns final record_truncated harness_id =
     then_do (apply_delay (Some chunk_id)) (\<lambda>_.
     with_held chunk_id (\<lambda>h d.
       (let seq = dr_transcript_seq d + 1;
            turn_list = (case turns of
               Some (t # ts) \<Rightarrow> t # ts
             | _ \<Rightarrow> [placeholder_turn (isoformat now)])
        in then_do
             (call (gw_push_transcripts client
                [(''records'', JList [JObj (transcript_record seq h chunk_id segment_id turn_list final
                   record_truncated harness_id)])]))
             (drove []) (d\<lparr>dr_transcript_seq := seq\<rparr>))))"

definition drv_poll_answer :: "'w client \<Rightarrow> string \<Rightarrow> ('w, payload) verb" where
  "drv_poll_answer client question_id =
     then_do (apply_delay None) (\<lambda>_. then_do (call (gw_get_question client question_id)) observed)"

definition drv_pause :: "'w client \<Rightarrow> instant \<Rightarrow> string \<Rightarrow> string option \<Rightarrow> ('w, payload) verb" where
  "drv_pause client now by_whom reason =
     then_do (apply_delay None) (\<lambda>_.
     then_do
       (push_fact client RN_RUNNER_LOCALLY_PAUSED
          ([(''at'', JStr (isoformat now)), (''by'', JStr by_whom)]
           @ (case reason of None \<Rightarrow> [] | Some r \<Rightarrow> [(''reason'', JStr r)])))
       observed)"

definition drv_resume :: "'w client \<Rightarrow> instant \<Rightarrow> string \<Rightarrow> ('w, payload) verb" where
  "drv_resume client now by_whom =
     then_do (apply_delay None) (\<lambda>_.
     then_do
       (push_fact client RN_RUNNER_LOCALLY_RESUMED [(''at'', JStr (isoformat now)), (''by'', JStr by_whom)])
       observed)"

text \<open>A key with a value, left out when there is none.\<close>

definition opt_entry :: "string \<Rightarrow> json option \<Rightarrow> payload" where
  "opt_entry k v = (case v of None \<Rightarrow> [] | Some j \<Rightarrow> [(k, j)])"

definition drv_report_event ::
  "'w client \<Rightarrow> string \<Rightarrow> string \<Rightarrow> string \<Rightarrow> string option \<Rightarrow> string option \<Rightarrow> string option \<Rightarrow> payload option
   \<Rightarrow> ('w, payload) verb" where
  "drv_report_event client severity kind message chunk_id lease_id node_name detail =
     then_do (apply_delay chunk_id) (\<lambda>_.
     then_do
       (push_fact client RN_EVENT_RECORDED
          ([(''severity'', JStr severity), (''kind'', JStr kind), (''message'', JStr message)]
           @ opt_entry ''chunk_id'' (map_option JStr chunk_id) @ opt_entry ''lease_id'' (map_option JStr lease_id)
           @ opt_entry ''node_name'' (map_option JStr node_name) @ opt_entry ''detail'' (map_option JObj detail)))
       (drove []))"

definition drv_report_external_usage ::
  "'w client \<Rightarrow> json \<Rightarrow> string \<Rightarrow> json list \<Rightarrow> string option \<Rightarrow> ('w, payload) verb" where
  "drv_report_external_usage client slug sampled_at windows name =
     then_do (apply_delay None) (\<lambda>_.
     then_do
       (push_fact client RN_USAGE_SAMPLED
          ([(''slug'', slug), (''sampled_at'', JStr sampled_at), (''windows'', JList windows)]
           @ opt_entry ''name'' (map_option JStr name)))
       (drove []))"

definition drv_report_external_usage_miss ::
  "'w client \<Rightarrow> json \<Rightarrow> string \<Rightarrow> string \<Rightarrow> string option \<Rightarrow> ('w, payload) verb" where
  "drv_report_external_usage_miss client slug missed_at reason name =
     then_do (apply_delay None) (\<lambda>_.
     then_do
       (push_fact client RN_USAGE_MISSED
          ([(''slug'', slug), (''missed_at'', JStr missed_at), (''reason'', JStr reason)]
           @ opt_entry ''name'' (map_option JStr name)))
       (drove []))"

end
