(* ===== verification/Runner_Control.thy ===== *)
theory Runner_Control
  imports Runner_Driver "HOL-Library.Char_ord" "HOL-Library.List_Lexorder"
begin

text \<open>
  The control surface of the mock runner (\<^verbatim>\<open>src/blizzard_mock/mock_runner/api/routes.py\<close>, the
  bodies of \<^verbatim>\<open>domain/models.py\<close>, \<^verbatim>\<open>config.py\<close> and the token bootstrap of \<^verbatim>\<open>app.py\<close>). A body is
  a record with the fields its model validates; \<open>drive\<close> dispatches one request and \<open>drive_all\<close> a
  list of them, each with the clock reading and the \<^verbatim>\<open>uuid4\<close> text it met. Shown: over any run of
  requests against any hub the facts and the transcript records the driver sends are numbered
  consecutively, each lane on its own.
\<close>

section \<open>Request bodies\<close>

record RegisterBody =
  rb_capabilities :: "json list option"
  rb_subscriptions :: "json list option"
  rb_declining :: "json list option"

record PeekMatchedBody =
  pm_capabilities :: "json list"
  pm_policy :: string
  pm_enrolled :: bool

record ClaimBody =
  cb_chunk_id :: string
  cb_environment_ids :: "string list"

record ClaimNextBody =
  cn_environment_ids :: "string list"
  cn_strict :: bool

record CompleteBody =
  co_chunk_id :: string
  co_choice :: string
  co_artifacts :: "json list"
  co_check_results :: "json list"

record ChunkQueryBody =
  cq_chunk_id :: string

record ChunkStatusesQueryBody =
  sq_chunk_ids :: "string list"

record GitCommitDeclarationBody =
  gd_forge :: string
  gd_repo :: string
  gd_branch :: string
  gd_commit :: string

record DeclareGitCommitBody =
  dg_lease_id :: string
  dg_forge :: string
  dg_repo :: string
  dg_branch :: string
  dg_commit :: string

record LeaseQueryBody =
  lq_lease_id :: string

record EscalateBody =
  eb_chunk_id :: string
  eb_takeover_command :: string
  eb_wrapped_takeover_command :: string
  eb_cause :: "string option"
  eb_detail :: "string option"

record DecideBody =
  db_chunk_id :: string
  db_choice :: "string option"

record AskBody =
  ab_chunk_id :: string
  ab_question :: string
  ab_options :: "string list"
  ab_harness_id :: "string option"

record PollAnswerBody =
  pa_question_id :: string

record PushTranscriptBody =
  pt_chunk_id :: string
  pt_segment_id :: string
  pt_turns :: "json list"
  pt_final :: bool
  pt_record_truncated :: bool
  pt_harness_id :: "string option"

record PauseBody =
  pb_by :: string
  pb_reason :: "string option"

record ResumeBody =
  rs_by :: string

record ReportEventBody =
  re_severity :: string
  re_kind :: string
  re_message :: string
  re_chunk_id :: "string option"
  re_lease_id :: "string option"
  re_node_name :: "string option"
  re_detail :: "payload option"

record ReportExternalUsageBody =
  ru_slug :: string
  ru_sampled_at :: string
  ru_windows :: "json list"
  ru_name :: "string option"
  ru_raw_slug :: json

record ReportExternalUsageMissBody =
  rm_slug :: string
  rm_missed_at :: string
  rm_reason :: string
  rm_name :: "string option"
  rm_raw_slug :: json

definition usage_pushed_slug :: "ReportExternalUsageBody \<Rightarrow> json" where
  "usage_pushed_slug b = (if ru_raw_slug b = JNull then JStr (ru_slug b) else ru_raw_slug b)"

definition miss_pushed_slug :: "ReportExternalUsageMissBody \<Rightarrow> json" where
  "miss_pushed_slug b = (if rm_raw_slug b = JNull then JStr (rm_slug b) else rm_raw_slug b)"

section \<open>Routes\<close>

definition record_git_commit_declaration :: "string \<Rightarrow> GitCommitDeclarationBody \<Rightarrow> ('w, payload) verb" where
  "record_git_commit_declaration lease_id b =
     declare_git_commit lease_id (gd_forge b) (gd_repo b) (gd_branch b) (gd_commit b)"

definition drive_register :: "'w client \<Rightarrow> RegisterBody \<Rightarrow> ('w, payload) verb" where
  "drive_register client b = drv_register client (rb_capabilities b) (rb_subscriptions b) (rb_declining b)"

definition drive_peek_matched :: "'w client \<Rightarrow> PeekMatchedBody \<Rightarrow> ('w, payload) verb" where
  "drive_peek_matched client b =
     drv_peek_matched client (Some (pm_capabilities b)) (pm_policy b) (pm_enrolled b)"

definition drive_claim :: "'w client \<Rightarrow> ClaimBody \<Rightarrow> ('w, payload) verb" where
  "drive_claim client b = drv_claim client (cb_chunk_id b) (cb_environment_ids b)"

definition drive_claim_next :: "'w client \<Rightarrow> ClaimNextBody \<Rightarrow> ('w, payload) verb" where
  "drive_claim_next client b = drv_claim_next client (cn_environment_ids b) (cn_strict b)"

definition drive_complete :: "'w client \<Rightarrow> CompleteBody \<Rightarrow> ('w, payload) verb" where
  "drive_complete client b =
     drv_complete client (co_chunk_id b) (co_choice b) (co_artifacts b) (co_check_results b)"

definition drive_declare_git_commit :: "DeclareGitCommitBody \<Rightarrow> ('w, payload) verb" where
  "drive_declare_git_commit b =
     declare_git_commit (dg_lease_id b) (dg_forge b) (dg_repo b) (dg_branch b) (dg_commit b)"

definition drive_get_git_commits :: "LeaseQueryBody \<Rightarrow> ('w, payload) verb" where
  "drive_get_git_commits b d =
     (Inr [(''declarations'', JObj (map (\<lambda>(repo, row). (repo, JObj row)) (git_commits_for_lease (lq_lease_id b) d)))], d)"

definition drive_reset :: "('w, payload) verb" where
  "drive_reset d = (Inr [(''reset'', JBool True)], drv_reset d)"

definition drive_escalate :: "'w client \<Rightarrow> EscalateBody \<Rightarrow> ('w, payload) verb" where
  "drive_escalate client b =
     drv_escalate client (eb_chunk_id b) (eb_takeover_command b) (eb_wrapped_takeover_command b) (eb_cause b)
       (eb_detail b)"

definition drive_decide :: "'w client \<Rightarrow> DecideBody \<Rightarrow> ('w, payload) verb" where
  "drive_decide client b = drv_decide client (db_chunk_id b) (db_choice b)"

definition drive_ask :: "'w client \<Rightarrow> instant \<Rightarrow> string \<Rightarrow> AskBody \<Rightarrow> ('w, payload) verb" where
  "drive_ask client now uuid_hex b =
     drv_ask client now uuid_hex (ab_chunk_id b) (ab_question b) (Some (ab_options b)) (ab_harness_id b)"

definition drive_report_event :: "'w client \<Rightarrow> ReportEventBody \<Rightarrow> ('w, payload) verb" where
  "drive_report_event client b =
     drv_report_event client (re_severity b) (re_kind b) (re_message b) (re_chunk_id b) (re_lease_id b)
       (re_node_name b) (re_detail b)"

definition drive_report_external_usage :: "'w client \<Rightarrow> ReportExternalUsageBody \<Rightarrow> ('w, payload) verb" where
  "drive_report_external_usage client b =
     drv_report_external_usage client (usage_pushed_slug b) (ru_sampled_at b) (ru_windows b) (ru_name b)"

definition drive_report_external_usage_miss ::
  "'w client \<Rightarrow> ReportExternalUsageMissBody \<Rightarrow> ('w, payload) verb" where
  "drive_report_external_usage_miss client b =
     drv_report_external_usage_miss client (miss_pushed_slug b) (rm_missed_at b) (rm_reason b) (rm_name b)"

definition drive_push_transcript :: "'w client \<Rightarrow> instant \<Rightarrow> PushTranscriptBody \<Rightarrow> ('w, payload) verb" where
  "drive_push_transcript client now b =
     drv_push_transcript client now (pt_chunk_id b) (pt_segment_id b) (Some (pt_turns b)) (pt_final b)
       (pt_record_truncated b) (pt_harness_id b)"

section \<open>Lever routes\<close>

definition CATALOG :: payload where
  "CATALOG =
     [(''delay'', JStr ''sleep payload.ms before the next outbound call''),
      (''drop_ack'', JStr ''submit the completion but discard the hub's ack (do not advance)''),
      (''conflicting_fact'', JStr ''submit a completion naming the wrong from_node_id''),
      (''unreachable'', JStr (''claim then never complete '' @ em_dash @ '' vanish mid-lease'')),
      (''replay'', JStr ''submit the same completion twice (duplicate delivery)''),
      (''stale_epoch'', JStr ''submit a completion with a stale (held-epoch - 1) fence (D-007)''),
      (''stale_route_token'', JStr ''submit a completion with a wrong route capability token (issue #84b)''),
      (''omit_route_token'', JStr ''submit a completion with no route capability token (issue #84b)'')]"

definition lever_names :: "string list" where
  "lever_names = sort (map runner_lever_value RUNNER_LEVERS)"

definition list_levers :: "('w, payload) verb" where
  "list_levers d =
     (Inr [(''catalog'', JObj CATALOG), (''levers'', JList (map JStr lever_names)),
           (''active'', JList (map lever_dump (active (dr_levers d))))], d)"

definition reset_levers :: "('w, payload) verb" where
  "reset_levers d = (Inr [(''cleared'', JBool True)], d\<lparr>dr_levers := clear_all (dr_levers d)\<rparr>)"

definition arm_lever :: "string \<Rightarrow> LeverParams \<Rightarrow> ('w, payload) verb" where
  "arm_lever kind params d =
     (if kind \<notin> set (map runner_lever_value RUNNER_LEVERS)
      then (Inr [(''error'', JStr (''unknown lever '' @ py_repr kind)), (''levers'', JList (map JStr lever_names))], d)
      else (Inr [(''armed'', lever_dump (lever_of kind params))], d\<lparr>dr_levers := arm (lever_of kind params) (dr_levers d)\<rparr>))"

definition clear_lever :: "string \<Rightarrow> string option \<Rightarrow> ('w, payload) verb" where
  "clear_lever kind chunk_id d =
     (Inr [(''cleared'', JStr kind), (''chunk_id'', opt_str chunk_id)],
      d\<lparr>dr_levers := clear kind chunk_id (dr_levers d)\<rparr>)"

section \<open>Dispatch\<close>

datatype drive_request =
    Health
  | Ready
  | RecordGitCommit string GitCommitDeclarationBody
  | DriveRegister RegisterBody
  | DrivePeek
  | DrivePeekMatched PeekMatchedBody
  | DriveClaim ClaimBody
  | DriveClaimNext ClaimNextBody
  | DriveComplete CompleteBody
  | DriveGetChunk ChunkQueryBody
  | DriveChunkStatuses ChunkStatusesQueryBody
  | DriveDeclareGitCommit DeclareGitCommitBody
  | DriveGetGitCommits LeaseQueryBody
  | DriveReset
  | DriveEscalate EscalateBody
  | DriveDecide DecideBody
  | DriveAsk AskBody
  | DriveReportEvent ReportEventBody
  | DriveReportExternalUsage ReportExternalUsageBody
  | DriveReportExternalUsageMiss ReportExternalUsageMissBody
  | DrivePollAnswer PollAnswerBody
  | DrivePushTranscript PushTranscriptBody
  | DrivePause PauseBody
  | DriveResume ResumeBody
  | ListLevers
  | ResetLevers
  | ArmLever string LeverParams
  | ClearLever string "string option"

fun drive :: "'w client \<Rightarrow> instant \<Rightarrow> string \<Rightarrow> drive_request \<Rightarrow> ('w, payload) verb" where
  "drive client now uuid_hex Health = drv_return [(''status'', JStr ''ok'')]"
| "drive client now uuid_hex Ready = drv_return [(''ready'', JBool True)]"
| "drive client now uuid_hex (RecordGitCommit lease_id b) = record_git_commit_declaration lease_id b"
| "drive client now uuid_hex (DriveRegister b) = drive_register client b"
| "drive client now uuid_hex DrivePeek = drv_peek client"
| "drive client now uuid_hex (DrivePeekMatched b) = drive_peek_matched client b"
| "drive client now uuid_hex (DriveClaim b) = drive_claim client b"
| "drive client now uuid_hex (DriveClaimNext b) = drive_claim_next client b"
| "drive client now uuid_hex (DriveComplete b) = drive_complete client b"
| "drive client now uuid_hex (DriveGetChunk b) = drv_get_chunk client (cq_chunk_id b)"
| "drive client now uuid_hex (DriveChunkStatuses b) = drv_chunk_statuses client (sq_chunk_ids b)"
| "drive client now uuid_hex (DriveDeclareGitCommit b) = drive_declare_git_commit b"
| "drive client now uuid_hex (DriveGetGitCommits b) = drive_get_git_commits b"
| "drive client now uuid_hex DriveReset = drive_reset"
| "drive client now uuid_hex (DriveEscalate b) = drive_escalate client b"
| "drive client now uuid_hex (DriveDecide b) = drive_decide client b"
| "drive client now uuid_hex (DriveAsk b) = drive_ask client now uuid_hex b"
| "drive client now uuid_hex (DriveReportEvent b) = drive_report_event client b"
| "drive client now uuid_hex (DriveReportExternalUsage b) = drive_report_external_usage client b"
| "drive client now uuid_hex (DriveReportExternalUsageMiss b) = drive_report_external_usage_miss client b"
| "drive client now uuid_hex (DrivePollAnswer b) = drv_poll_answer client (pa_question_id b)"
| "drive client now uuid_hex (DrivePushTranscript b) = drive_push_transcript client now b"
| "drive client now uuid_hex (DrivePause b) = drv_pause client now (pb_by b) (pb_reason b)"
| "drive client now uuid_hex (DriveResume b) = drv_resume client now (rs_by b)"
| "drive client now uuid_hex ListLevers = list_levers"
| "drive client now uuid_hex ResetLevers = reset_levers"
| "drive client now uuid_hex (ArmLever kind p) = arm_lever kind p"
| "drive client now uuid_hex (ClearLever kind chunk_id) = clear_lever kind chunk_id"

text \<open>A run of requests; a request that raises is answered and the next one is served.\<close>

fun drive_all :: "'w client \<Rightarrow> (instant \<times> string \<times> drive_request) list \<Rightarrow> 'w driver \<Rightarrow> 'w driver" where
  "drive_all client [] d = d"
| "drive_all client ((now, uuid_hex, r) # rest) d = drive_all client rest (snd (drive client now uuid_hex r d))"

section \<open>Configuration and start\<close>

record MockRunnerConfig =
  rc_host :: string
  rc_port :: int
  rc_hub_url :: string
  rc_token :: "string option"
  rc_name :: string
  rc_workspace_id :: string
  rc_runner_version :: "string option"

definition nonempty :: "string option \<Rightarrow> string option" where
  "nonempty s = (if truthy s then s else None)"

text \<open>\<^verbatim>\<open>from_env\<close> over the process environment; \<open>None\<close> is the \<^verbatim>\<open>ValueError\<close> of a port text that
  is no number.\<close>

definition from_env ::
  "(string, string) dict \<Rightarrow> string option \<Rightarrow> int option \<Rightarrow> string option \<Rightarrow> string option \<Rightarrow> string option
   \<Rightarrow> string option \<Rightarrow> string option \<Rightarrow> MockRunnerConfig option" where
  "from_env environ host port hub_url token name workspace_id runner_version =
     (case (case port of Some p \<Rightarrow> Some p
            | None \<Rightarrow> (case dget environ ''BZ_MOCK_RUNNER_PORT'' of None \<Rightarrow> Some 8431 | Some t \<Rightarrow> int_of_text t)) of
        None \<Rightarrow> None
      | Some p \<Rightarrow> Some
          \<lparr>rc_host = str_or host (dget_or environ ''BZ_MOCK_RUNNER_HOST'' ''127.0.0.1''),
           rc_port = p,
           rc_hub_url = str_or hub_url (dget_or environ ''BZ_HUB_URL'' ''http://127.0.0.1:8421''),
           rc_token = (if truthy token then token else nonempty (dget environ ''BZ_HUB_TOKEN'')),
           rc_name = str_or name (dget_or environ ''BZ_MOCK_RUNNER_NAME'' ''runner-mock''),
           rc_workspace_id = str_or workspace_id (dget_or environ ''BZ_MOCK_WORKSPACE_ID'' ''workspace-mock''),
           rc_runner_version =
             (if truthy runner_version then runner_version else nonempty (dget environ ''BZ_MOCK_RUNNER_VERSION''))\<rparr>)"

text \<open>\<^verbatim>\<open>bootstrap_token\<close>; \<open>None\<close> is its \<^verbatim>\<open>RuntimeError\<close>.\<close>

definition bootstrap_token :: "'w client \<Rightarrow> string \<Rightarrow> 'w \<Rightarrow> string option \<times> 'w" where
  "bootstrap_token client name w =
     (case gw_add_runner client name (HttpxHubGateway None None, w) of
        ((status, body), g, w') \<Rightarrow>
          (case dget body ''token'' of
             Some (JStr token) \<Rightarrow> if status \<noteq> 201 then None else Some token
           | _ \<Rightarrow> None, w'))"

text \<open>The driver \<^verbatim>\<open>create_app\<close> wires when no gateway is injected.\<close>

definition create_driver :: "'w client \<Rightarrow> MockRunnerConfig \<Rightarrow> 'w \<Rightarrow> 'w driver option \<times> 'w" where
  "create_driver client cfg w =
     (case (if truthy (rc_token cfg) then (rc_token cfg, w) else bootstrap_token client (rc_name cfg) w) of
        (None, w') \<Rightarrow> (None, w')
      | (Some token, w') \<Rightarrow>
          (Some (MockRunnerService (HttpxHubGateway (Some token) (rc_runner_version cfg)) w' (rc_name cfg)
             (rc_workspace_id cfg)), w'))"

section \<open>Frames of the driver\<close>

named_theorems drive_steps \<open>verbs of the driver that stay inside a frame\<close>

text \<open>
  A frame is a transitive relation between the driver before and after. The locale asks that it
  holds across any local change and across each kind of call a verb makes; then it holds across
  every request but a reset, and across any run of them.
\<close>

definition stays :: "('w driver \<Rightarrow> 'w driver \<Rightarrow> bool) \<Rightarrow> ('w, 'a) verb \<Rightarrow> bool" where
  "stays R m \<longleftrightarrow> (\<forall>d. R d (snd (m d)))"

text \<open>Two states that agree on what a hub or a number lane can see.\<close>

definition same_lanes :: "'w driver \<Rightarrow> 'w driver \<Rightarrow> bool" where
  "same_lanes d d' \<longleftrightarrow>
     dr_world d' = dr_world d \<and> gw_headers (dr_gw d') = gw_headers (dr_gw d) \<and>
     dr_name d' = dr_name d \<and> dr_workspace_id d' = dr_workspace_id d \<and>
     dr_runner_seq d' = dr_runner_seq d \<and> dr_transcript_seq d' = dr_transcript_seq d"

locale drive_frame =
  fixes client :: "'w client"
    and R :: "'w driver \<Rightarrow> 'w driver \<Rightarrow> bool"
  assumes trans: "R d1 d2 \<Longrightarrow> R d2 d3 \<Longrightarrow> R d1 d3"
    and local: "same_lanes d d' \<Longrightarrow> R d d'"
    and plain: "hq_path rq \<noteq> API @ ''/events'' \<Longrightarrow> hq_path rq \<noteq> API @ ''/transcripts'' \<Longrightarrow> stays R (call (send client rq))"
    and fact_push: "stays R (push_fact client kind body)"
    and transcript_push:
      "R d (snd (call (gw_push_transcripts client
         [(''records'', JList [JObj (transcript_record (dr_transcript_seq d + 1) h ch sg turns final trunc hid)])])
         (d\<lparr>dr_transcript_seq := dr_transcript_seq d + 1\<rparr>)))"
begin

lemma stays_local: "(\<And>d. same_lanes d (snd (m d))) \<Longrightarrow> stays R m"
  by (simp add: stays_def local)

lemma staysD: "stays R m \<Longrightarrow> R d (snd (m d))"
  by (simp add: stays_def)

lemma stays_then [drive_steps]: "stays R m \<Longrightarrow> (\<And>x. stays R (f x)) \<Longrightarrow> stays R (then_do m f)"
  unfolding stays_def then_do_def
  by (auto split: prod.splits sum.splits) (metis snd_conv trans)+

lemma stays_if [drive_steps]: "(b \<Longrightarrow> stays R m) \<Longrightarrow> (\<not> b \<Longrightarrow> stays R n) \<Longrightarrow> stays R (if b then m else n)"
  by simp

lemma stays_pair [drive_steps]: "(\<And>x y. stays R (f x y)) \<Longrightarrow> stays R (case p of (x, y) \<Rightarrow> f x y)"
  by (cases p) simp

lemma stays_after: "stays R m \<Longrightarrow> same_lanes d e \<Longrightarrow> R d (snd (m e))"
  unfolding stays_def by (metis local trans)

lemma stays_simple [drive_steps]:
  "stays R (drv_return x)" "stays R (raise e)" "stays R (observed r)" "stays R (drove extra r)"
  "stays R (pull kind c)" "stays R (apply_delay k)" "stays R (declare_git_commit l fg rp br cm)"
  by (auto intro!: stays_local simp: same_lanes_def drv_return_def raise_def observed_def drove_def pull_def
      apply_delay_def declare_git_commit_def Let_def split: prod.splits option.splits)

lemma stays_held [drive_steps]: "(\<And>h. stays R (f h)) \<Longrightarrow> stays R (with_held c f)"
  unfolding stays_def with_held_def by (auto split: option.splits simp: local same_lanes_def)

lemma stays_calls [drive_steps]:
  "stays R (call (gw_register client n w caps subs decl v))" "stays R (call (gw_peek client))"
  "stays R (call (gw_peek_matched client en cs pol))" "stays R (call (gw_submit_completion client c b))"
  "stays R (call (gw_get_chunk client c))" "stays R (call (gw_chunk_statuses client cs'))"
  "stays R (call (gw_submit_decision client c b))" "stays R (call (gw_get_question client q))"
  using plain unfolding stays_def call_def gw_register_def gw_peek_def gw_peek_matched_def gw_submit_completion_def
    gw_get_chunk_def gw_chunk_statuses_def gw_submit_decision_def gw_get_question_def gw_post_def gw_get_def
  by (simp_all add: API_def)

lemma stays_claim_call [drive_steps]: "stays R (call (gw_claim client b))"
proof -
  have "same_lanes (snd (call (gw_post client (API @ ''/routes'') b) d)) (snd (call (gw_claim client b) d))" for d
    by (simp add: same_lanes_def call_def gw_claim_def split: prod.splits)
  moreover have "stays R (call (gw_post client (API @ ''/routes'') b))"
    using plain unfolding stays_def call_def gw_post_def by (simp add: API_def)
  ultimately show ?thesis unfolding stays_def by (blast intro: trans [OF _ local])
qed

lemma stays_report_lease [drive_steps]: "stays R (report_lease client h)"
  unfolding report_lease_def by (intro drive_steps fact_push)

lemma stays_advance [drive_steps]: "stays R (drv_advance client c body)"
proof -
  have "R d (snd (report_lease client h (d\<lparr>dr_held := x\<rparr>)))" for d h x
    by (rule stays_after [OF stays_report_lease]) (simp add: same_lanes_def)
  then show ?thesis unfolding stays_def drv_advance_def
    by (auto simp: Let_def local same_lanes_def split: option.splits json.splits)
qed

lemma stays_register [drive_steps]: "stays R (drv_register client caps subs decl)"
proof -
  have *: "stays R (\<lambda>d. observed r (case v of Some (JStr x) \<Rightarrow> if b then d\<lparr>dr_runner_id := Some x\<rparr> else d | _ \<Rightarrow> d))" for r v b
    by (rule stays_local) (auto simp: same_lanes_def observed_def split: prod.splits option.splits json.splits)
  have "R d (snd (drv_register client caps subs decl d))" for d
    unfolding drv_register_def by (rule staysD) (intro drive_steps *)
  then show ?thesis by (simp add: stays_def)
qed

lemma stays_take_claim [drive_steps]: "stays R (take_claim client c body)"
proof -
  have "R d (snd (then_do (report_lease client h) (\<lambda>_. drv_return x) (put_held h d)))" for d h x
    by (rule stays_after) (intro drive_steps, simp add: same_lanes_def put_held_def)
  then show ?thesis unfolding stays_def take_claim_def
    by (auto simp: Let_def local same_lanes_def split: option.splits)
qed

lemma stays_claim [drive_steps]: "stays R (drv_claim client c envs)"
proof -
  have *: "stays R (\<lambda>d. if b then (Inr (g d), d) else take_claim client c body d)" for b g body
    using stays_take_claim by (auto simp: stays_def local same_lanes_def)
  have "R d (snd (drv_claim client c envs d))" for d
    unfolding drv_claim_def by (rule staysD) (intro drive_steps *)
  then show ?thesis by (simp add: stays_def)
qed

lemma stays_claim_next [drive_steps]: "stays R (drv_claim_next client envs strict)"
  unfolding drv_claim_next_def
  by (intro drive_steps) (auto split: sum.splits option.splits json.splits intro: drive_steps)

lemma stays_build [drive_steps]: "stays R (build_completion c choice arts crs h)"
  unfolding build_completion_def
  by (intro drive_steps stays_local) (simp add: Let_def same_lanes_def)

lemma stays_replay [drive_steps]: "stays R (replay_completion client c sub)"
  unfolding replay_completion_def
  by (intro drive_steps stays_local) (simp add: same_lanes_def)

lemma stays_submit [drive_steps]: "stays R (submit_built client c sub)"
proof -
  have *: "stays R (\<lambda>d. m d d)" if "\<And>e. stays R (m e)" for m :: "'w driver \<Rightarrow> ('w, payload) verb"
    using that by (simp add: stays_def)
  show ?thesis
    unfolding submit_built_def Let_def
    by (rule stays_then, rule stays_calls, rule stays_pair, rule *) (intro drive_steps)
qed

lemma stays_complete [drive_steps]: "stays R (drv_complete client c choice arts crs)"
  unfolding drv_complete_def by (intro drive_steps)

lemma stays_transcript [drive_steps]: "stays R (drv_push_transcript client now c sg turns final trunc hid)"
proof -
  have "R d (snd (then_do (call (gw_push_transcripts client
      [(''records'', JList [JObj (transcript_record (dr_transcript_seq d + 1) h c sg ts final trunc hid)])])) (drove [])
        (d\<lparr>dr_transcript_seq := dr_transcript_seq d + 1\<rparr>)))" for d h ts
    using transcript_push [of d h c sg ts final trunc hid]
    by (auto simp: then_do_def drove_def split: prod.splits sum.splits)
  then have "stays R (\<lambda>d. then_do (call (gw_push_transcripts client
      [(''records'', JList [JObj (transcript_record (dr_transcript_seq d + 1) h c sg ts final trunc hid)])])) (drove [])
        (d\<lparr>dr_transcript_seq := dr_transcript_seq d + 1\<rparr>))" for h ts
    by (simp add: stays_def)
  then show ?thesis
    unfolding drv_push_transcript_def Let_def by (intro drive_steps) 
qed

lemma stays_pushes [drive_steps]:
  "stays R (drv_escalate client c tc wtc cause detail)" "stays R (drv_ask client now hex c q opts hid)"
  "stays R (drv_pause client now who reason)" "stays R (drv_resume client now who)"
  "stays R (drv_report_event client sev kind msg c' l n det)"
  "stays R (drv_report_external_usage client slug at_text ws nm)"
  "stays R (drv_report_external_usage_miss client slug at_text rsn nm)"
  unfolding drv_escalate_def drv_ask_def drv_pause_def drv_resume_def drv_report_event_def
    drv_report_external_usage_def drv_report_external_usage_miss_def Let_def
  by (intro drive_steps fact_push)+

lemma stays_reads [drive_steps]:
  "stays R (drv_peek client)" "stays R (drv_peek_matched client cs pol en)" "stays R (drv_get_chunk client c)"
  "stays R (drv_chunk_statuses client cs')" "stays R (drv_poll_answer client q)" "stays R (drv_decide client c ch)"
  unfolding drv_peek_def drv_peek_matched_def drv_get_chunk_def drv_chunk_statuses_def drv_poll_answer_def drv_decide_def
  by (intro drive_steps)+

lemma stays_levers [drive_steps]:
  "stays R list_levers" "stays R reset_levers" "stays R (arm_lever kind p)" "stays R (clear_lever kind c)"
  "stays R (drive_get_git_commits b)"
  by (auto intro!: stays_local simp: same_lanes_def list_levers_def reset_levers_def arm_lever_def clear_lever_def
      drive_get_git_commits_def)

lemma stays_drive: "r \<noteq> DriveReset \<Longrightarrow> stays R (drive client now uuid_hex r)"
  by (cases r) (auto intro: drive_steps simp: record_git_commit_declaration_def drive_register_def drive_peek_matched_def
      drive_claim_def drive_claim_next_def drive_complete_def drive_declare_git_commit_def drive_escalate_def
      drive_decide_def drive_ask_def drive_report_event_def drive_report_external_usage_def
      drive_report_external_usage_miss_def drive_push_transcript_def)

lemma drive_all_stays: "DriveReset \<notin> (snd \<circ> snd) ` set rs \<Longrightarrow> R d (drive_all client rs d)"
proof (induction rs arbitrary: d)
  case Nil
  then show ?case by (simp add: local same_lanes_def)
next
  case (Cons x rs)
  obtain now uuid_hex r where x: "x = (now, uuid_hex, r)" by (cases x)
  with Cons.prems have "R d (snd (drive client now uuid_hex r d))"
    by (intro staysD stays_drive) auto
  with Cons x show ?case by (auto intro: trans)
qed

end

section \<open>What a driver sends\<close>

text \<open>A client that keeps every request it is given, in front of another.\<close>

definition recording :: "'w client \<Rightarrow> ('w \<times> http_request list) client" where
  "recording client rq w = (case client rq (fst w) of (r, w') \<Rightarrow> (r, (w', snd w @ [rq])))"

text \<open>The sequence numbers of the entries a request carries to one lane.\<close>

definition entry_seq :: "json \<Rightarrow> json" where
  "entry_seq e = (case e of JObj p \<Rightarrow> dget_or p ''seq'' JNull | _ \<Rightarrow> JNull)"

definition lane_seqs :: "string \<Rightarrow> string \<Rightarrow> http_request \<Rightarrow> json list" where
  "lane_seqs path field rq =
     (if hq_path rq \<noteq> API @ path then []
      else case hq_body rq of
        None \<Rightarrow> []
      | Some b \<Rightarrow> (case dget b field of Some (JList es) \<Rightarrow> map entry_seq es | _ \<Rightarrow> []))"

definition sent_facts :: "('w \<times> http_request list) driver \<Rightarrow> json list" where
  "sent_facts d = concat (map (lane_seqs ''/events'' ''facts'') (snd (dr_world d)))"

definition sent_records :: "('w \<times> http_request list) driver \<Rightarrow> json list" where
  "sent_records d = concat (map (lane_seqs ''/transcripts'' ''records'') (snd (dr_world d)))"

definition numbered :: "('w \<times> http_request list) driver \<Rightarrow> ('w \<times> http_request list) driver \<Rightarrow> bool" where
  "numbered d d' \<longleftrightarrow>
     dr_runner_seq d \<le> dr_runner_seq d' \<and>
     sent_facts d' = sent_facts d @ map JInt [dr_runner_seq d + 1..dr_runner_seq d'] \<and>
     dr_transcript_seq d \<le> dr_transcript_seq d' \<and>
     sent_records d' = sent_records d @ map JInt [dr_transcript_seq d + 1..dr_transcript_seq d']"

lemma send_recording:
  "\<exists>w g r. send (recording client) rq gw = (r, g, (w, snd (snd gw) @ [rq])) \<and> gw_headers g = gw_headers (fst gw)"
  by (auto simp: send_def recording_def result_of_def split: prod.splits sum.splits)

lemma call_recording:
  "\<exists>w g. snd (call (send (recording client) rq) d) = d\<lparr>dr_gw := g, dr_world := (w, snd (dr_world d) @ [rq])\<rparr>
     \<and> gw_headers g = gw_headers (dr_gw d)"
  using send_recording [of client rq "(dr_gw d, dr_world d)"] by (force simp: call_def)

lemma upto_append:
  assumes "(i :: int) \<le> j" and "j \<le> k"
  shows "[i + 1..j] @ [j + 1..k] = [i + 1..k]"
proof (cases "i = j")
  case False
  with assms show ?thesis by (simp add: upto_split2 [of "i + 1" j k])
qed simp

lemma call_post_recording:
  "\<exists>w g. snd (call (gw_post (recording client) path b) d) = d\<lparr>dr_gw := g, dr_world := (w, snd (dr_world d) @
     [\<lparr>hq_method = ''POST'', hq_path = path, hq_params = [], hq_body = Some b, hq_headers = gw_headers (dr_gw d)\<rparr>])\<rparr>
     \<and> gw_headers g = gw_headers (dr_gw d)"
  using call_recording unfolding call_def gw_post_def fst_conv .

lemma numbered_trans: "numbered d1 d2 \<Longrightarrow> numbered d2 d3 \<Longrightarrow> numbered d1 d3"
  by (auto simp: numbered_def upto_append simp flip: map_append)

interpretation lanes: drive_frame "recording client" numbered
proof
  show "numbered d1 d2 \<Longrightarrow> numbered d2 d3 \<Longrightarrow> numbered d1 d3" for d1 d2 d3
    by (rule numbered_trans)
  show "same_lanes d d' \<Longrightarrow> numbered d d'" for d d'
    by (simp add: same_lanes_def numbered_def sent_facts_def sent_records_def)
  show "stays numbered (call (send (recording client) rq))"
    if "hq_path rq \<noteq> API @ ''/events''" "hq_path rq \<noteq> API @ ''/transcripts''" for rq
    unfolding stays_def
  proof
    fix d
    show "numbered d (snd (call (send (recording client) rq) d))"
      using call_recording [of client rq d] that
      by (auto simp: numbered_def sent_facts_def sent_records_def lane_seqs_def)
  qed
  show "stays numbered (push_fact (recording client) kind body)" for kind body
    unfolding stays_def
  proof
    fix d
    show "numbered d (snd (push_fact (recording client) kind body d))"
      using call_post_recording [of client "API @ ''/events''" "fact_body (dr_runner_seq d + 1) kind body"
          "d\<lparr>dr_runner_seq := dr_runner_seq d + 1\<rparr>"]
      by (auto simp: push_fact_def gw_push_facts_def Let_def numbered_def sent_facts_def sent_records_def lane_seqs_def
          fact_body_def entry_seq_def dget_or_def API_def)
  qed
  show "numbered d (snd (call (gw_push_transcripts (recording client)
         [(''records'', JList [JObj (transcript_record (dr_transcript_seq d + 1) h ch sg turns final trunc hid)])])
         (d\<lparr>dr_transcript_seq := dr_transcript_seq d + 1\<rparr>)))" for d h ch sg turns final trunc hid
    using call_post_recording [of client "API @ ''/transcripts''"
        "[(''records'', JList [JObj (transcript_record (dr_transcript_seq d + 1) h ch sg turns final trunc hid)])]"
        "d\<lparr>dr_transcript_seq := dr_transcript_seq d + 1\<rparr>"]
    by (auto simp: gw_push_transcripts_def numbered_def sent_facts_def sent_records_def lane_seqs_def
          transcript_record_def entry_seq_def dget_or_def API_def)
qed

section \<open>The numbers over any run\<close>

text \<open>What one lane sends over a run with resets in it: the numbers go on from where the lane stood, and after
  each reset they start at 1 again.\<close>

definition lane_runs :: "nat \<Rightarrow> int \<Rightarrow> json list \<Rightarrow> int \<Rightarrow> bool" where
  "lane_runs resets seq sent seq' \<longleftrightarrow>
     (\<exists>k ks. length ks = resets \<and> seq \<le> k \<and> (\<forall>j \<in> set ks. 0 \<le> j) \<and> seq' = last (k # ks) \<and>
        sent = map JInt ([seq + 1..k] @ concat (map (\<lambda>j. [1..j]) ks)))"

definition resets_in :: "(instant \<times> string \<times> drive_request) list \<Rightarrow> nat" where
  "resets_in rs = length (filter (\<lambda>r. snd (snd r) = DriveReset) rs)"

lemma lane_runs_none [simp]: "lane_runs 0 s [] s"
  by (simp add: lane_runs_def)

lemma lane_runs_go_on:
  assumes "s \<le> s1" and "lane_runs n s1 xs s2"
  shows "lane_runs n s (map JInt [s + 1..s1] @ xs) s2"
proof -
  from assms(2) obtain k ks where k: "length ks = n" "s1 \<le> k" "\<forall>j \<in> set ks. 0 \<le> j" "s2 = last (k # ks)"
    "xs = map JInt ([s1 + 1..k] @ concat (map (\<lambda>j. [1..j]) ks))" by (auto simp: lane_runs_def)
  have "map JInt [s + 1..s1] @ xs = map JInt (([s + 1..s1] @ [s1 + 1..k]) @ concat (map (\<lambda>j. [1..j]) ks))"
    by (simp add: k(5))
  with assms(1) k(1-4) show ?thesis
    unfolding lane_runs_def upto_append [OF assms(1) k(2)] by (intro exI [of _ k] exI [of _ ks]) simp
qed

lemma lane_runs_restart:
  assumes "lane_runs n 0 xs s2"
  shows "lane_runs (Suc n) s xs s2"
proof -
  from assms obtain k ks where k: "length ks = n" "0 \<le> k" "\<forall>j \<in> set ks. 0 \<le> j" "s2 = last (k # ks)"
    "xs = map JInt ([1..k] @ concat (map (\<lambda>j. [1..j]) ks))" by (auto simp: lane_runs_def)
  then show ?thesis unfolding lane_runs_def by (intro exI [of _ s] exI [of _ "k # ks"]) simp
qed

definition numbered_runs :: "nat \<Rightarrow> ('w \<times> http_request list) driver \<Rightarrow> ('w \<times> http_request list) driver \<Rightarrow> bool" where
  "numbered_runs n d d' \<longleftrightarrow>
     (\<exists>fs ts. sent_facts d' = sent_facts d @ fs \<and> lane_runs n (dr_runner_seq d) fs (dr_runner_seq d') \<and>
        sent_records d' = sent_records d @ ts \<and> lane_runs n (dr_transcript_seq d) ts (dr_transcript_seq d'))"

lemma numbered_runs_go_on: "numbered d d1 \<Longrightarrow> numbered_runs n d1 d2 \<Longrightarrow> numbered_runs n d d2"
  unfolding numbered_runs_def numbered_def by (force intro: lane_runs_go_on)

lemma numbered_runs_restart: "numbered_runs n (drv_reset d) d' \<Longrightarrow> numbered_runs (Suc n) d d'"
  unfolding numbered_runs_def
  by (auto simp: drv_reset_def sent_facts_def sent_records_def intro: lane_runs_restart)

lemma drive_all_numbered: "numbered_runs (resets_in rs) d (drive_all (recording client) rs d)"
proof (induction rs arbitrary: d)
  case Nil
  then show ?case by (simp add: numbered_runs_def resets_in_def)
next
  case (Cons x rs)
  obtain now uuid_hex r where x: "x = (now, uuid_hex, r)" by (cases x)
  show ?case
  proof (cases "r = DriveReset")
    case True
    with Cons.IH [of "drv_reset d"] show ?thesis
      by (simp add: x resets_in_def drive_reset_def numbered_runs_restart)
  next
    case False
    then have "numbered d (snd (drive (recording client) now uuid_hex r d))"
      by (intro lanes.staysD lanes.stays_drive)
    from numbered_runs_go_on [OF this Cons.IH] False show ?thesis by (simp add: x resets_in_def)
  qed
qed

section \<open>The version a driver reports\<close>

text \<open>The registration body names the driver's own constant, whatever version the gateway was
  configured with.\<close>

lemma registered_version:
  "dget (register_body rv name ws caps subs decl (Some DRIVER_REPORTED_VERSION)) ''version''
     = Some (JStr DRIVER_REPORTED_VERSION)"
  by (simp add: register_body_def Let_def)

end
