(* ===== verification/Fleet.thy ===== *)
theory Fleet
  imports Hub_Api Runner_Control
begin

text \<open>
  The mock runner against the mock hub: the runner's HTTP client is instantiated with the hub's
  application, so that a drive verb runs through the gateway, the middlewares, the gates, the route
  and the service, and back through the runner's reading of the answer. The framework between them
  validates a body and serialises an answer; the locale \<open>fleet_wire\<close> states what is relied on of it,
  and it is interpreted on decoders that take exactly typed bodies and encoders of the fields the
  runner reads. Shown here: the hub's refusals are read by the runner as what they are.
\<close>

section \<open>How the runner reads a refusal\<close>

text \<open>The kind under which each refusal of a claim is to be read.\<close>

fun refusal_kind_of :: "hub_error \<Rightarrow> claim_refusal_kind option" where
  "refusal_kind_of (ClaimDeniedUnregistered r) = Some CR_PAUSED"
| "refusal_kind_of (ClaimDeniedPaused r) = Some CR_PAUSED"
| "refusal_kind_of (ClaimRunnerLeverRefusal kind r d) = Some CR_PAUSED"
| "refusal_kind_of (RunnerRetired r a) = Some CR_PAUSED"
| "refusal_kind_of (ClaimDeniedTerminal c st) = Some CR_TERMINAL"
| "refusal_kind_of (ClaimDeniedNotReady c st) = Some CR_TERMINAL"
| "refusal_kind_of (ClaimConflict r) = Some CR_CONFLICT"
| "refusal_kind_of (DependencyUnmet p) = Some CR_DEPENDENCY"
| "refusal_kind_of (ClaimIncompatible r reason d) = Some CR_INCOMPATIBLE"
| "refusal_kind_of _ = None"

definition read_as :: "(int \<Rightarrow> payload \<Rightarrow> 'k) \<Rightarrow> 'k \<Rightarrow> 'a reply \<Rightarrow> bool" where
  "read_as classify k r \<longleftrightarrow>
     (case r of Problem s b \<Rightarrow> classify s b = k | Plain s b \<Rightarrow> classify s b = k | _ \<Rightarrow> False)"

lemma read_as_rendered:
  "classify status plain = k \<Longrightarrow> classify status problem = k \<Longrightarrow>
    read_as classify k (fst (rendered lever c status plain problem h))"
  by (simp add: read_as_def rendered_def split: prod.splits option.splits)

lemmas classifying = classify_claim_refusal_def named_claim_refusal_def CLAIM_TYPES_def claim_shared_valid_def
  default_str_field_def urn_def problem_type_def merge_def

lemma claim_refusal_read:
  assumes "refusal_kind_of e = Some k"
  shows "read_as classify_claim_refusal k (fst (on_claim c e h))"
  using assms
  by (cases e) (auto simp: on_claim_def claim_refusal_def Let_def classifying intro!: read_as_rendered)

lemmas nonclaim_classifying = classify_nonclaim_refusal_def identity_body_def identity_problem_def
  identity_model_valid_def version_body_def version_problem_def version_model_valid_def optional_str_field_def
  default_str_field_def problem_type_def urn_def opt_str_def

lemma identity_refusal_read:
  "read_as classify_nonclaim_refusal ''identity''
     (fst (rendered lever None 401 (identity_body reason r) (identity_problem rq reason r) h))"
  by (rule read_as_rendered; cases r; simp add: nonclaim_classifying)

lemma version_refusal_read:
  "read_as classify_nonclaim_refusal ''version''
     (fst (rendered lever None 409 (version_body v) (version_problem rq v) h))"
  by (rule read_as_rendered; cases "vr_runner_version v"; simp add: nonclaim_classifying)

section \<open>The hub as the runner's client\<close>

text \<open>The request the application sees of one the client sends, and the response it gives.\<close>

definition request_of :: "http_request \<Rightarrow> request" where
  "request_of q =
     \<lparr>req_method = hq_method q, req_path = hq_path q,
      req_headers = map (\<lambda>(k, v). (map lower_char k, v)) (hq_headers q),
      req_json = map_option JObj (hq_body q)\<rparr>"

definition json_response :: "int \<Rightarrow> string \<Rightarrow> payload \<Rightarrow> http_response" where
  "json_response status media body =
     \<lparr>hr_status = status, hr_headers = [(''content-type'', media)], hr_json = Some (JObj body), hr_text = []\<rparr>"

definition response_of :: "('a \<Rightarrow> payload) \<Rightarrow> 'a reply \<Rightarrow> http_response" where
  "response_of enc r =
     (case r of
        Served s v \<Rightarrow> json_response s ''application/json'' (enc v)
      | Problem s b \<Rightarrow> json_response s ''application/problem+json'' b
      | Plain s b \<Rightarrow> json_response s ''application/json'' b
      | Escaped e \<Rightarrow> \<lparr>hr_status = 500, hr_headers = [(''content-type'', ''text/plain'')], hr_json = None,
                      hr_text = ''Internal Server Error''\<rparr>)"

text \<open>The framework's part: the validated bodies and the serialised answers of the three routes a
  tenure runs over.\<close>

record codec =
  co_claim :: "payload \<Rightarrow> (string \<times> string \<times> string list) option"
  co_facts :: "payload \<Rightarrow> fact list option"
  co_completion :: "payload \<Rightarrow> (int \<times> string \<times> string) option"
  co_claimed :: "route_claim_response \<Rightarrow> payload"
  co_ack :: "fact_ack \<Rightarrow> payload"
  co_applied :: "apply_response \<Rightarrow> payload"
  co_invalid :: "payload \<Rightarrow> payload"

definition answered :: "('a \<Rightarrow> payload) \<Rightarrow> request \<Rightarrow> (hub \<Rightarrow> 'a response) \<Rightarrow> app \<Rightarrow> (string + http_response) \<times> app" where
  "answered enc rq handler a =
     (case app_call rq handler a of (r, a') \<Rightarrow> (Inr (response_of enc r), a'))"

text \<open>A body the validator refuses is answered once the dependencies let it through.\<close>

definition unprocessable :: "payload \<Rightarrow> gate_failure + 'i \<Rightarrow> request \<Rightarrow> hub \<Rightarrow> 'a response" where
  "unprocessable detail gate rq h = behind rq gate (\<lambda>_ h. (Plain 422 detail, h)) h"

text \<open>The three routes of a tenure; \<open>others\<close> stands for the rest of the application.\<close>

definition fleet_client :: "codec \<Rightarrow> parsers \<Rightarrow> env \<Rightarrow> app client \<Rightarrow> app client" where
  "fleet_client \<C> \<P> \<E> others q a =
     (let rq = request_of q; body = (case hq_body q of None \<Rightarrow> [] | Some b \<Rightarrow> b); bad = co_invalid \<C> body
      in if hq_method q \<noteq> ''POST'' then others q a
         else if hq_path q = API @ ''/routes'' then
           answered (co_claimed \<C>) rq (\<lambda>h. case co_claim \<C> body of
             None \<Rightarrow> unprocessable bad (claim_gate_of rq h) rq h
           | Some (c, ws, es) \<Rightarrow> rt_claim_route rq c ws es h) a
         else if hq_path q = API @ ''/events'' then
           answered (co_ack \<C>) rq (\<lambda>h. case co_facts \<C> body of
             None \<Rightarrow> unprocessable bad (fleet_gate rq h) rq h
           | Some facts \<Rightarrow> rt_push_facts \<P> \<E> rq facts h) a
         else case chunk_from_path (hq_path q) of
           None \<Rightarrow> others q a
         | Some c \<Rightarrow>
             if hq_path q = API @ ''/chunks/'' @ c @ ''/completions'' then
               answered (co_applied \<C>) rq (\<lambda>h. case co_completion \<C> body of
                 None \<Rightarrow> unprocessable bad (fleet_chunk_gate rq c h) rq h
               | Some (epoch, from_node_id, choice) \<Rightarrow> rt_submit_completion rq c epoch from_node_id choice h) a
             else others q a)"

section \<open>What is relied on of the framework\<close>

text \<open>The bodies the driver sends, and the fields it reads of an answer.\<close>

locale fleet_wire =
  fixes \<C> :: codec
  assumes claim_body: "co_claim \<C> [(''chunk_id'', JStr c), (''workspace_id'', JStr ws),
        (''environment_ids'', JList (map JStr es))] = Some (c, ws, es)"
    and fact_one: "co_facts \<C> (fact_body seq kind p) = Some [\<lparr>ft_seq = seq, ft_kind = kind, ft_payload = p\<rparr>]"
    and completion: "co_completion \<C> (completion_body choice (map JObj arts) (map JObj crs) epoch (JStr node) tok) = Some (epoch, node, choice)"
    and claimed_token: "dget (co_claimed \<C> resp) ''route_token'' = Some (JStr (rc_route_token resp))"
    and claimed_envelope: "\<exists>env node. get_obj (co_claimed \<C> resp) ''envelope'' = Some env \<and>
        get_int env ''epoch'' 0 = Some (ne_epoch (rc_envelope resp)) \<and> get_obj env ''node'' = Some node \<and>
        dget node ''node_id'' = Some (JStr (nc_node_id (ne_node (rc_envelope resp))))"
    and applied_next: "ap_outcome r = AO_NEXT \<Longrightarrow> ap_next_envelope r = Some ne \<Longrightarrow>
        \<exists>env node. dget (co_applied \<C> r) ''outcome'' = Some (JStr ''next'') \<and>
          dget (co_applied \<C> r) ''next_envelope'' = Some (JObj env) \<and> env \<noteq> [] \<and>
          get_int env ''epoch'' 0 = Some (ne_epoch ne) \<and> get_obj env ''node'' = Some node \<and>
          dget node ''node_id'' = Some (JStr (nc_node_id (ne_node ne)))"
    and applied_over: "ap_outcome r \<noteq> AO_NEXT \<Longrightarrow> dget (co_applied \<C> r) ''outcome'' \<noteq> Some (JStr ''next'')"
begin

end

section \<open>Exactly typed bodies\<close>

text \<open>Decoders that take each field at exactly its declared type, with the declared defaults, and
  encoders of the fields the driver reads.\<close>

fun as_str :: "json \<Rightarrow> string option" where
  "as_str (JStr s) = Some s"
| "as_str _ = None"

fun as_int :: "json \<Rightarrow> int option" where
  "as_int (JInt i) = Some i"
| "as_int _ = None"

fun as_obj :: "json \<Rightarrow> payload option" where
  "as_obj (JObj p) = Some p"
| "as_obj _ = None"

fun as_list :: "(json \<Rightarrow> 'a option) \<Rightarrow> json \<Rightarrow> 'a list option" where
  "as_list f (JList xs) = those (map f xs)"
| "as_list f _ = None"

definition required :: "(json \<Rightarrow> 'a option) \<Rightarrow> payload \<Rightarrow> string \<Rightarrow> 'a option" where
  "required f p k = (case dget p k of None \<Rightarrow> None | Some v \<Rightarrow> f v)"

definition defaulted :: "(json \<Rightarrow> 'a option) \<Rightarrow> 'a \<Rightarrow> payload \<Rightarrow> string \<Rightarrow> 'a option" where
  "defaulted f dflt p k = (case dget p k of None \<Rightarrow> Some dflt | Some v \<Rightarrow> f v)"

definition decode_claim :: "payload \<Rightarrow> (string \<times> string \<times> string list) option" where
  "decode_claim p =
     (case (required as_str p ''chunk_id'', defaulted as_str ''workspace-mock'' p ''workspace_id'',
            defaulted (as_list as_str) [] p ''environment_ids'') of
        (Some c, Some ws, Some es) \<Rightarrow> Some (c, ws, es)
      | _ \<Rightarrow> None)"

definition decode_fact :: "json \<Rightarrow> fact option" where
  "decode_fact j =
     (case as_obj j of None \<Rightarrow> None
      | Some p \<Rightarrow>
          (case (defaulted as_int 0 p ''seq'', defaulted as_str [] p ''kind'', defaulted as_obj [] p ''payload'') of
             (Some s, Some k, Some body) \<Rightarrow> Some \<lparr>ft_seq = s, ft_kind = k, ft_payload = body\<rparr>
           | _ \<Rightarrow> None))"

definition decode_facts :: "payload \<Rightarrow> fact list option" where
  "decode_facts p = defaulted (as_list decode_fact) [] p ''facts''"

definition decode_completion :: "payload \<Rightarrow> (int \<times> string \<times> string) option" where
  "decode_completion p =
     (case (required as_int p ''epoch'', required as_str p ''from_node_id'', required as_str p ''choice'',
            defaulted (as_list as_obj) [] p ''check_results'', defaulted (as_list as_obj) [] p ''artifacts'') of
        (Some e, Some n, Some choice, Some _, Some _) \<Rightarrow> Some (e, n, choice)
      | _ \<Rightarrow> None)"

definition encode_envelope :: "node_envelope \<Rightarrow> payload" where
  "encode_envelope ne =
     [(''chunk_id'', JStr (ne_chunk_id ne)), (''graph_id'', JStr (ne_graph_id ne)), (''epoch'', JInt (ne_epoch ne)),
      (''node'', JObj [(''node_id'', JStr (nc_node_id (ne_node ne))), (''node_name'', JStr (nc_node_name (ne_node ne)))])]"

definition encode_claimed :: "route_claim_response \<Rightarrow> payload" where
  "encode_claimed resp =
     [(''chunk_id'', JStr (rc_chunk_id resp)), (''runner_id'', JStr (rc_runner_id resp)),
      (''workspace_id'', JStr (route_claim_response.rc_workspace_id resp)), (''environment_ids'', JList (map JStr (rc_environment_ids resp))),
      (''envelope'', JObj (encode_envelope (rc_envelope resp))), (''route_token'', JStr (rc_route_token resp))]"

definition encode_ack :: "fact_ack \<Rightarrow> payload" where
  "encode_ack ack =
     [(''high_water'', JInt (fa_high_water ack)), (''applied'', JList (map JInt (fa_applied ack))),
      (''already_applied'', JList (map JInt (fa_already_applied ack))), (''rejected'', JList (map JInt (fa_rejected ack)))]"

definition outcome_text :: "apply_outcome \<Rightarrow> string" where
  "outcome_text o' =
     (case o' of AO_NEXT \<Rightarrow> ''next'' | AO_HUB_NODE_TAKEN \<Rightarrow> ''hub_node_taken'' | AO_PARKED_AT_GATE \<Rightarrow> ''parked_at_gate''
      | AO_DONE \<Rightarrow> ''done'' | AO_FAILURE \<Rightarrow> ''failure'')"

definition encode_applied :: "apply_response \<Rightarrow> payload" where
  "encode_applied resp =
     [(''outcome'', JStr (outcome_text (ap_outcome resp))),
      (''next_envelope'', case ap_next_envelope resp of None \<Rightarrow> JNull | Some ne \<Rightarrow> JObj (encode_envelope ne)),
      (''detail'', opt_str (ap_detail resp))]"

definition exact_codec :: codec where
  "exact_codec =
     \<lparr>co_claim = decode_claim, co_facts = decode_facts, co_completion = decode_completion, co_claimed = encode_claimed,
      co_ack = encode_ack, co_applied = encode_applied, co_invalid = (\<lambda>p. [(''detail'', JList [])])\<rparr>"

lemma those_exact [simp]: "those (map (as_str \<circ> JStr) xs) = Some xs" "those (map (as_obj \<circ> JObj) ps) = Some ps"
  by (induction xs, simp_all) (induction ps, simp_all)

interpretation wire: fleet_wire exact_codec
proof
  show "co_completion exact_codec (completion_body choice (map JObj arts) (map JObj crs) epoch (JStr node) tok)
      = Some (epoch, node, choice)" for choice arts crs epoch node tok
    by (simp add: exact_codec_def decode_completion_def completion_body_def required_def defaulted_def)
  show "dget (co_applied exact_codec r) ''outcome'' \<noteq> Some (JStr ''next'')" if "ap_outcome r \<noteq> AO_NEXT" for r
    using that by (cases "ap_outcome r") (simp_all add: exact_codec_def encode_applied_def outcome_text_def)
qed (simp_all add: exact_codec_def decode_claim_def decode_facts_def decode_fact_def fact_body_def required_def defaulted_def
    encode_claimed_def encode_applied_def encode_envelope_def outcome_text_def get_obj_def get_int_def)

end
