(* ===== verification/Fleet_Tenure.thy ===== *)
theory Fleet_Tenure
  imports Fleet
begin

text \<open>
  One tenure of the mock runner on a chunk of the mock hub, over the wire: a claim leaves what the
  driver holds in step with the hub's row (the same epoch as the fence, the same node, the live
  token), a completion that leads to another node of the runner keeps the two in step one epoch on,
  and any other completion ends the tenure on the driver's side. The lemmas are stated over the
  locale \<open>fleet_wire\<close>, so they hold of every framework with its laws, and reach the properties
  through its interpretation.
\<close>

section \<open>A call on a quiet edge\<close>

definition tenure_path :: "string \<Rightarrow> bool" where
  "tenure_path p \<longleftrightarrow> p = API @ ''/routes'' \<or> p = API @ ''/events'' \<or> (\<exists>c. p = API @ ''/chunks/'' @ c @ ''/completions'')"

lemma edge_quiet:
  assumes "tenure_path (req_path rq)"
  shows "lever_edge absent idp rq [] = (Pass, [])"
proof -
  have "\<not> list_ex (\<lambda>p. starts_with p (req_path rq)) EXEMPT_PREFIXES" "\<not> on_host_plane (req_path rq)"
      "\<not> starts_with ''/api/fleet/transcripts'' (req_path rq)" "req_path rq \<noteq> JWKS_PATH"
    using assms
    by (auto simp: tenure_path_def API_def EXEMPT_PREFIXES_def starts_with_def on_host_plane_def HOST_PLANE_PREFIX_def
        JWKS_PATH_def)
  then show ?thesis by (simp add: lever_edge_def edge_tail_def delayed_def Let_def)
qed

lemma app_call_quiet:
  assumes "tenure_path (req_path rq)" and "hub_levers (app_hub a) = []"
  shows "app_call rq handler a = (case handler (app_hub a) of (r, h) \<Rightarrow>
    (r, a\<lparr>app_captured := capture rq (app_captured a), app_hub := h\<rparr>))"
proof -
  have *: "(app_hub a)\<lparr>hub_levers := []\<rparr> = app_hub a" using assms(2) by (cases "app_hub a") simp
  show ?thesis using assms by (simp add: app_call_def edge_quiet Let_def * split: prod.splits)
qed

definition bearer :: "string \<Rightarrow> (string, string) dict" where
  "bearer t = [(''Authorization'', ''Bearer '' @ t)]"

lemma lower_chars:
  "lower_char (CHR ''A'') = CHR ''a''"
  "lower_char (CHR ''B'') = CHR ''b''"
  "lower_char (CHR ''u'') = CHR ''u''"
  "lower_char (CHR ''t'') = CHR ''t''"
  "lower_char (CHR ''h'') = CHR ''h''"
  "lower_char (CHR ''o'') = CHR ''o''"
  "lower_char (CHR ''r'') = CHR ''r''"
  "lower_char (CHR ''i'') = CHR ''i''"
  "lower_char (CHR ''z'') = CHR ''z''"
  "lower_char (CHR ''a'') = CHR ''a''"
  "lower_char (CHR ''n'') = CHR ''n''"
  "lower_char (CHR ''e'') = CHR ''e''"
  by code_simp+

lemma presented_bearer_of:
  assumes "hq_headers q = bearer t" and "t \<noteq> []" and "strip t = t"
  shows "presented_bearer (request_of q) = Some t" "named_tenant (request_of q) = None"
  using assms
  by (simp_all add: presented_bearer_def named_tenant_def request_of_def bearer_def before_blank_def after_blank_def
      dget_or_def Let_def lower_chars)

definition posted :: "string \<Rightarrow> payload \<Rightarrow> string \<Rightarrow> http_request" where
  "posted t body path = \<lparr>hq_method = ''POST'', hq_path = path, hq_params = [], hq_body = Some body, hq_headers = bearer t\<rparr>"

lemma call_post:
  assumes "gw_headers (dr_gw d) = bearer t"
    and "client (posted t body path) (dr_world d) = (Inr (json_response s media b), a)"
  shows "\<exists>g. call (gw_post client path body) d = (Inr (s, b), d\<lparr>dr_gw := g, dr_world := a\<rparr>) \<and> gw_headers g = gw_headers (dr_gw d)"
  using assms
  by (auto simp: call_def gw_post_def send_def posted_def result_of_def body_dict_def json_response_def)

lemma call_claim:
  assumes "gw_headers (dr_gw d) = bearer t"
    and "client (posted t body (API @ ''/routes'')) (dr_world d) = (Inr (json_response s media b), a)"
  shows "\<exists>g. call (gw_claim client body) d = (Inr (s, b), d\<lparr>dr_gw := g, dr_world := a\<rparr>) \<and> gw_headers g = gw_headers (dr_gw d)"
  using assms
  by (auto simp: call_def gw_claim_def gw_post_def send_def posted_def result_of_def body_dict_def json_response_def)


section \<open>A runner on duty\<close>

definition on_duty :: "string \<Rightarrow> string \<Rightarrow> hub \<Rightarrow> bool" where
  "on_duty t r h \<longleftrightarrow> t \<noteq> [] \<and> strip t = t \<and> hub_levers h = [] \<and> principal h (Some t) = Inr r \<and>
     (\<exists>row. get_runner h r = Some row \<and> rn_retired_at row = None)"

lemma on_duty_gates:
  assumes "on_duty t r h"
  shows "claim_gate_of (request_of (posted t b p)) h = Inr r" "fleet_gate (request_of (posted t b p)) h = Inr r"
proof -
  have q: "presented_bearer (request_of (posted t b p)) = Some t" "named_tenant (request_of (posted t b p)) = None"
    using assms presented_bearer_of [of "posted t b p" t] by (simp_all add: posted_def on_duty_def)
  obtain row where "principal h (Some t) = Inr r" "get_runner h r = Some row" "rn_retired_at row = None"
    using assms by (auto simp: on_duty_def)
  with q show "claim_gate_of (request_of (posted t b p)) h = Inr r" "fleet_gate (request_of (posted t b p)) h = Inr r"
    by (simp_all add: claim_gate_of_def fleet_gate_def gated_principal_def require_active_runner_def
        refuse_retired_runner_def fleet_tenant_bound_def refuse_foreign_tenant_def truthy_def)
qed

lemma on_duty_frame:
  assumes "on_duty t r h" and "hub_levers h' = hub_levers h" and "hub_runners h' = hub_runners h"
    and "hub_tokens h' = hub_tokens h" and "hub_revoked_tokens h' = hub_revoked_tokens h"
  shows "on_duty t r h'"
proof -
  have "get_runner h' = get_runner h" using assms by (simp add: get_runner_def fun_eq_iff)
  moreover from this have "principal h' = principal h"
    using assms
    by (intro ext) (simp add: principal_def runner_for_token_def revoked_token_runner_id_def cong: option.case_cong)
  ultimately show ?thesis using assms by (simp add: on_duty_def)
qed

lemma claim_response:
  assumes "claim c r ws es h = (Inr resp, h1)"
  obtains chunk row where "get_chunk h c = Some chunk" and "get_runner h r = Some row"
    and "h1 = put_chunk (claimed_row c r ws es chunk) h" and "rc_route_token resp = claim_token chunk c"
    and "ne_epoch (rc_envelope resp) = cs_latest_epoch chunk"
    and "nc_node_id (ne_node (rc_envelope resp)) = at_node chunk"
proof -
  from assms obtain chunk where g: "claim_gate c r h = (Inr chunk, h)" "h1 = put_chunk (claimed_row c r ws es chunk) h"
    using claim_success_iff [of c r ws es h h1] by blast
  then obtain row where "get_chunk h c = Some chunk" "get_runner h r = Some row" by (auto simp: claim_gate_Inr)
  moreover have "rc_route_token resp = claim_token chunk c" "ne_epoch (rc_envelope resp) = cs_latest_epoch chunk"
      "nc_node_id (ne_node (rc_envelope resp)) = at_node chunk"
    using assms g(1)
    by (auto simp: claim_def Let_def envelope_of_def claimed_row_def node_config_of_def split: option.splits)
  ultimately show thesis using g(2) that by blast
qed

text \<open>One minted lease, past the runner's mark.\<close>

lemma lease_ingested:
  assumes "get_chunk h c = Some chunk" and "get_runner h r = Some row" and "cs_chunk_id chunk = c"
    and "dget_or (hub_fact_high_water h) r 0 < seq" and "get_str p ''chunk_id'' [] = c" and "get_int p ''epoch'' 0 = Some e"
  shows "\<exists>ack h'. ingest_facts \<P> \<E> r [\<lparr>ft_seq = seq, ft_kind = LEASE_MINTED, ft_payload = p\<rparr>] h = (Inr ack, h') \<and>
    get_chunk h' c = Some (chunk\<lparr>cs_latest_epoch := max (cs_latest_epoch chunk) e\<rparr>) \<and>
    dget (hub_fact_high_water h') r = Some seq \<and> hub_levers h' = hub_levers h \<and> hub_runners h' = hub_runners h \<and>
    hub_tokens h' = hub_tokens h \<and> hub_revoked_tokens h' = hub_revoked_tokens h"
  using assms
  by (simp add: ingest_facts_def apply_fact_def apply_lease_minted_def advance_fence_def added_def Let_def put_chunk_def
      get_chunk_def max_def)


section \<open>A tenure over the wire\<close>

text \<open>The driver under a token, with no lever of its own armed.\<close>

definition drives :: "string \<Rightarrow> string \<Rightarrow> app driver \<Rightarrow> bool" where
  "drives t r d \<longleftrightarrow> gw_headers (dr_gw d) = bearer t \<and> dr_levers d = [] \<and> on_duty t r (app_hub (dr_world d)) \<and>
     dget_or (hub_fact_high_water (app_hub (dr_world d))) r 0 \<le> dr_runner_seq d"

definition in_step :: "held \<Rightarrow> chunk_state \<Rightarrow> bool" where
  "in_step hl row \<longleftrightarrow> hd_chunk_id hl = cs_chunk_id row \<and> hd_epoch hl = cs_latest_epoch row \<and>
     Some (hd_from_node_id hl) = map_option JStr (cs_current_node_id row) \<and>
     Some (hd_route_token hl) = map_option JStr (cs_live_route_token row)"

lemma tenure_paths [simp]:
  "tenure_path (API @ ''/routes'')" "tenure_path (API @ ''/events'')" "tenure_path (API @ ''/chunks/'' @ c @ ''/completions'')"
  by (auto simp: tenure_path_def)

lemma posted_simps [simp]:
  "req_path (request_of (posted t b p)) = p" "hq_method (posted t b p) = ''POST''" "hq_path (posted t b p) = p"
  "hq_body (posted t b p) = Some b"
  by (simp_all add: request_of_def posted_def)

lemma quiet_delay [simp]: "dr_levers d = [] \<Longrightarrow> apply_delay c d = (Inr (), d)"
  by (simp add: apply_delay_def)

lemma quiet_pull [simp]: "dr_levers d = [] \<Longrightarrow> pull k c d = (Inr False, d)"
  by (cases d) (simp add: pull_def)

lemma path_parts_word: "CHR ''/'' \<notin> set w \<Longrightarrow> path_parts acc (w @ rest) = path_parts (acc @ w) rest"
  by (induction w arbitrary: acc) auto

lemma completion_path:
  assumes "c \<noteq> []" and "CHR ''/'' \<notin> set c"
  shows "chunk_from_path (API @ ''/chunks/'' @ c @ ''/completions'') = Some c"
  using assms by (simp add: chunk_from_path_def API_def path_parts_word)

lemma build_quiet:
  assumes "dr_levers d = []"
  shows "build_completion c choice arts crs hl d =
    (let sub = completion_body choice arts crs (hd_epoch hl) (hd_from_node_id hl) (hd_route_token hl)
     in (Inr sub, d\<lparr>dr_held := dset c (hl\<lparr>hd_last_submission := sub\<rparr>) (dr_held d)\<rparr>))"
  using assms by (simp add: build_completion_def then_do_def completion_epoch_def completion_token_def)

lemma submit_quiet:
  assumes "call (gw_submit_completion client c sub) d = (Inr (200, b), d1)" and "dr_levers d1 = []"
    and "drv_advance client c b d1 = (Inr (), d2)"
  shows "\<exists>ans. submit_built client c sub d = (Inr ans, d2)"
  using assms by (simp add: submit_built_def then_do_def replay_completion_def drv_return_def Let_def)

text \<open>A choice that leads on to another node the runner works.\<close>

definition leads_on :: "chunk_state \<Rightarrow> string \<Rightarrow> bool" where
  "leads_on row target \<longleftrightarrow> target \<noteq> TERMINAL \<and>
     (case cs_node row target of None \<Rightarrow> False | Some node \<Rightarrow> nd_executor node \<noteq> EX_HUB)"

lemma advance_on:
  assumes "leads_on row target"
  obtains resp ne where "Hub_Apply.advance row target = (Inr resp, row\<lparr>cs_current_node_id := Some target, cs_status := ST_RUNNING\<rparr>)"
    and "ap_outcome resp = AO_NEXT" and "ap_next_envelope resp = Some ne" and "ne_epoch ne = cs_latest_epoch row"
    and "nc_node_id (ne_node ne) = target"
proof -
  let ?row = "row\<lparr>cs_current_node_id := Some target, cs_status := ST_RUNNING\<rparr>"
  obtain node where node: "target \<noteq> TERMINAL" "cs_node row target = Some node" "nd_executor node \<noteq> EX_HUB"
    using assms by (auto simp: leads_on_def split: option.splits)
  then have "cs_node ?row target = Some node" by (simp add: cs_node_def)
  then obtain ne where ne: "envelope_of ?row target (cs_latest_epoch row) = Inr ne" "ne_epoch ne = cs_latest_epoch row"
      "nc_node_id (ne_node ne) = target"
    by (simp add: envelope_of_def node_config_of_def)
  then show thesis
    using node by (intro that [of "\<lparr>ap_outcome = AO_NEXT, ap_next_envelope = Some ne, ap_detail = None\<rparr>" ne])
      (simp_all add: Hub_Apply.advance_def)
qed

lemma advance_ends:
  assumes "\<not> leads_on row target"
  obtains resp row' where "Hub_Apply.advance row target = (Inr resp, row')" and "ap_outcome resp \<noteq> AO_NEXT"
    and "cs_chunk_id row' = cs_chunk_id row"
proof (cases "Hub_Apply.advance row target")
  case (Pair res row')
  obtain resp where "res = Inr resp" using advance_Inr [of row target] Pair by auto
  moreover have "ap_outcome resp \<noteq> AO_NEXT \<and> cs_chunk_id row' = cs_chunk_id row"
    using assms Pair calculation
    by (auto simp: leads_on_def Hub_Apply.advance_def fail_response_def split: option.splits if_splits)
  ultimately show thesis using Pair that by blast
qed

context fleet_wire
begin

lemma client_claim:
  assumes "on_duty t r (app_hub a)" and "refuse_foreign_runner_chunk (app_hub a) c r = Inr ()"
    and "claim c r ws es (app_hub a) = (Inr resp, h1)"
  shows "\<exists>a'. fleet_client \<C> \<P> \<E> others (posted t [(''chunk_id'', JStr c), (''workspace_id'', JStr ws),
        (''environment_ids'', JList (map JStr es))] (API @ ''/routes'')) a
      = (Inr (json_response 201 ''application/json'' (co_claimed \<C> resp)), a') \<and> app_hub a' = h1"
  using assms on_duty_gates [OF assms(1)]
  by (simp add: fleet_client_def Let_def answered_def claim_body app_call_quiet on_duty_def
      rt_claim_route_def behind_def serve_def response_of_def)

lemma client_facts:
  assumes "on_duty t r (app_hub a)"
    and "ingest_facts \<P> \<E> r [\<lparr>ft_seq = seq, ft_kind = kind, ft_payload = p\<rparr>] (app_hub a) = (Inr ack, h1)"
  shows "\<exists>a'. fleet_client \<C> \<P> \<E> others (posted t (fact_body seq kind p) (API @ ''/events'')) a
      = (Inr (json_response 200 ''application/json'' (co_ack \<C> ack)), a') \<and> app_hub a' = h1"
  using assms on_duty_gates [OF assms(1)]
  by (simp add: fleet_client_def Let_def answered_def fact_one app_call_quiet on_duty_def
      rt_push_facts_def behind_def serve_def response_of_def)

lemma report_in_step:
  fixes d :: "app driver"
  assumes d: "drives t r d" and chunk: "get_chunk (app_hub (dr_world d)) c = Some chunk" "cs_chunk_id chunk = c"
    and hl: "hd_chunk_id hl = c"
  obtains d' where "report_lease (fleet_client \<C> \<P> \<E> others) hl d = (Inr (), d')" and "dr_held d' = dr_held d"
    and "drives t r d'"
    and "get_chunk (app_hub (dr_world d')) c = Some (chunk\<lparr>cs_latest_epoch := max (cs_latest_epoch chunk) (hd_epoch hl)\<rparr>)"
    and "dget (hub_fact_high_water (app_hub (dr_world d'))) r = Some (dr_runner_seq d')"
proof -
  define p where "p = stamped hl [(''chunk_id'', JStr (hd_chunk_id hl)), (''epoch'', JInt (hd_epoch hl))]"
  have p: "get_str p ''chunk_id'' [] = c" "get_int p ''epoch'' 0 = Some (hd_epoch hl)"
    by (simp_all add: p_def stamped_def get_str_def get_int_def hl)
  define seq where "seq = dr_runner_seq d + 1"
  define d1 where "d1 = d\<lparr>dr_runner_seq := seq\<rparr>"
  let ?h = "app_hub (dr_world d)"
  have duty: "on_duty t r (app_hub (dr_world d1))" and gw: "gw_headers (dr_gw d1) = bearer t" and w: "dr_world d1 = dr_world d"
    using d by (simp_all add: drives_def d1_def)
  obtain row where row: "get_runner ?h r = Some row" using d by (auto simp: drives_def on_duty_def)
  have "dget_or (hub_fact_high_water ?h) r 0 < seq" using d by (simp add: drives_def seq_def)
  from lease_ingested [OF chunk(1) row chunk(2) this p, of \<P> \<E>] obtain ack h' where
    h': "ingest_facts \<P> \<E> r [\<lparr>ft_seq = seq, ft_kind = LEASE_MINTED, ft_payload = p\<rparr>] ?h = (Inr ack, h')"
    "get_chunk h' c = Some (chunk\<lparr>cs_latest_epoch := max (cs_latest_epoch chunk) (hd_epoch hl)\<rparr>)"
    "dget (hub_fact_high_water h') r = Some seq" "hub_levers h' = hub_levers ?h" "hub_runners h' = hub_runners ?h"
    "hub_tokens h' = hub_tokens ?h" "hub_revoked_tokens h' = hub_revoked_tokens ?h" by blast
  from client_facts [OF duty h'(1) [folded w]] obtain a' where
    a': "fleet_client \<C> \<P> \<E> others (posted t (fact_body seq LEASE_MINTED p) (API @ ''/events'')) (dr_world d1)
      = (Inr (json_response 200 ''application/json'' (co_ack \<C> ack)), a')" "app_hub a' = h'" by blast
  from call_post [where client = "fleet_client \<C> \<P> \<E> others", OF gw a'(1)] obtain g where
    g: "call (gw_post (fleet_client \<C> \<P> \<E> others) (API @ ''/events'') (fact_body seq LEASE_MINTED p)) d1
      = (Inr (200, co_ack \<C> ack), d1\<lparr>dr_gw := g, dr_world := a'\<rparr>)" "gw_headers g = gw_headers (dr_gw d1)" by blast
  have kind: "RN_LEASE_MINTED = LEASE_MINTED" by (simp add: RN_LEASE_MINTED_def LEASE_MINTED_def)
  show thesis
  proof
    show "report_lease (fleet_client \<C> \<P> \<E> others) hl d = (Inr (), d1\<lparr>dr_gw := g, dr_world := a'\<rparr>)"
      using g(1) by (simp add: report_lease_def then_do_def push_fact_def gw_push_facts_def Let_def kind drv_return_def
          flip: p_def seq_def d1_def)
    have "on_duty t r h'" using d h' by (auto simp: drives_def intro: on_duty_frame)
    then show "drives t r (d1\<lparr>dr_gw := g, dr_world := a'\<rparr>)"
      using d g(2) a'(2) h'(3) gw by (simp add: drives_def dget_or_def d1_def seq_def)
  qed (use h' a'(2) in \<open>simp_all add: d1_def seq_def\<close>)
qed

text \<open>What the driver holds after reading a claim's answer.\<close>

lemma take_claim_reads:
  fixes d :: "app driver" and resp :: route_claim_response and c :: string
  defines "hl \<equiv> \<lparr>hd_chunk_id = c, hd_epoch = ne_epoch (rc_envelope resp) + 1,
    hd_from_node_id = JStr (nc_node_id (ne_node (rc_envelope resp))), hd_route_token = JStr (rc_route_token resp),
    hd_last_submission = []\<rparr>"
  assumes "report_lease client hl (put_held hl d) = (Inr (), d')"
  shows "\<exists>ans. take_claim client c (co_claimed \<C> resp) d = (Inr ans, d') \<and> dget ans ''claimed'' = Some (JBool True)"
proof -
  obtain env node where "get_obj (co_claimed \<C> resp) ''envelope'' = Some env"
      "get_int env ''epoch'' 0 = Some (ne_epoch (rc_envelope resp))" "get_obj env ''node'' = Some node"
      "dget node ''node_id'' = Some (JStr (nc_node_id (ne_node (rc_envelope resp))))"
    using claimed_envelope [of resp] by blast
  then show ?thesis
    using assms(2) claimed_token [of resp]
    by (simp add: take_claim_def Let_def dget_or_def then_do_def drv_return_def flip: hl_def)
qed

lemma claim_posted:
  fixes d :: "app driver"
  assumes d: "drives t r d" and own: "refuse_foreign_runner_chunk (app_hub (dr_world d)) c r = Inr ()"
    and claim: "claim c r (dr_workspace_id d) es (app_hub (dr_world d)) = (Inr resp, h1)"
    and h1: "h1 = put_chunk row (app_hub (dr_world d))"
  obtains d1 where "drives t r d1" and "app_hub (dr_world d1) = h1" and "dr_held d1 = dr_held d"
    and "drv_claim (fleet_client \<C> \<P> \<E> others) c es d
      = take_claim (fleet_client \<C> \<P> \<E> others) c (co_claimed \<C> resp) d1"
proof -
  let ?client = "fleet_client \<C> \<P> \<E> others"
  let ?body = "[(''chunk_id'', JStr c), (''workspace_id'', JStr (dr_workspace_id d)), (''environment_ids'', JList (map JStr es))]"
  have duty: "on_duty t r (app_hub (dr_world d))" and gw: "gw_headers (dr_gw d) = bearer t"
    using d by (simp_all add: drives_def)
  from client_claim [OF duty own claim] obtain a where
    a: "?client (posted t ?body (API @ ''/routes'')) (dr_world d)
      = (Inr (json_response 201 ''application/json'' (co_claimed \<C> resp)), a)" "app_hub a = h1" by blast
  from call_claim [where client = ?client, OF gw a(1)] obtain g where
    g: "call (gw_claim ?client ?body) d = (Inr (201, co_claimed \<C> resp), d\<lparr>dr_gw := g, dr_world := a\<rparr>)"
      "gw_headers g = gw_headers (dr_gw d)" by blast
  show thesis
  proof
    have "on_duty t r h1" by (rule on_duty_frame [OF duty]) (simp_all add: h1 put_chunk_def)
    then show "drives t r (d\<lparr>dr_gw := g, dr_world := a\<rparr>)"
      using d g(2) a(2) by (simp add: drives_def h1 put_chunk_def)
    show "drv_claim ?client c es d = take_claim ?client c (co_claimed \<C> resp) (d\<lparr>dr_gw := g, dr_world := a\<rparr>)"
      using g(1) d by (simp add: drv_claim_def then_do_def drives_def)
  qed (simp_all add: a(2))
qed

lemma claim_in_step_obtains:
  fixes d :: "app driver"
  assumes d: "drives t r d" and own: "refuse_foreign_runner_chunk (app_hub (dr_world d)) c r = Inr ()"
    and ok: "chunks_ok (app_hub (dr_world d))" and chunk: "get_chunk (app_hub (dr_world d)) c = Some chunk"
    and claim: "claim c r (dr_workspace_id d) es (app_hub (dr_world d)) = (Inr resp, h1)"
  obtains ans d' hl row where "drv_claim (fleet_client \<C> \<P> \<E> others) c es d = (Inr ans, d')"
    and "dget ans ''claimed'' = Some (JBool True)" and "drives t r d'"
    and "dget (dr_held d') c = Some hl" and "get_chunk (app_hub (dr_world d')) c = Some row"
    and "in_step hl row" and "cs_latest_epoch row = cs_latest_epoch chunk + 1"
proof -
  let ?client = "fleet_client \<C> \<P> \<E> others"
  let ?claimed = "claimed_row c r (dr_workspace_id d) es chunk"
  have id: "cs_chunk_id chunk = c" using chunk_table.get_key [OF ok chunk] .
  from claim_response [OF claim] chunk have h1: "h1 = put_chunk ?claimed (app_hub (dr_world d))"
    and resp: "rc_route_token resp = claim_token chunk c" "ne_epoch (rc_envelope resp) = cs_latest_epoch chunk"
      "nc_node_id (ne_node (rc_envelope resp)) = at_node chunk" by (metis option.sel)+
  from claim_posted [OF d own claim h1] obtain d1 where d1: "drives t r d1" "app_hub (dr_world d1) = h1"
    "dr_held d1 = dr_held d" "drv_claim ?client c es d = take_claim ?client c (co_claimed \<C> resp) d1" by blast
  define hl where "hl = \<lparr>hd_chunk_id = c, hd_epoch = cs_latest_epoch chunk + 1, hd_from_node_id = JStr (at_node chunk),
    hd_route_token = JStr (claim_token chunk c), hd_last_submission = []\<rparr>"
  have "drives t r (put_held hl d1)" using d1(1) by (simp add: drives_def put_held_def)
  moreover have "get_chunk (app_hub (dr_world (put_held hl d1))) c = Some ?claimed" "cs_chunk_id ?claimed = c" "hd_chunk_id hl = c"
    using id d1(2) by (simp_all add: put_held_def h1 chunk_table.get_put claimed_row_def hl_def)
  ultimately obtain d' where
    d': "report_lease ?client hl (put_held hl d1) = (Inr (), d')" "dr_held d' = dr_held (put_held hl d1)" "drives t r d'"
      "get_chunk (app_hub (dr_world d')) c = Some (?claimed\<lparr>cs_latest_epoch := max (cs_latest_epoch ?claimed) (hd_epoch hl)\<rparr>)"
    by (rule report_in_step)
  from take_claim_reads [where resp = resp, OF d'(1) [unfolded hl_def, folded resp]] obtain ans where
    "drv_claim ?client c es d = (Inr ans, d')" "dget ans ''claimed'' = Some (JBool True)" using d1(4) by auto
  moreover have "dget (dr_held d') c = Some hl" by (simp add: d'(2) put_held_def hl_def)
  moreover have "in_step hl (?claimed\<lparr>cs_latest_epoch := max (cs_latest_epoch ?claimed) (hd_epoch hl)\<rparr>)"
      "cs_latest_epoch (?claimed\<lparr>cs_latest_epoch := max (cs_latest_epoch ?claimed) (hd_epoch hl)\<rparr>) = cs_latest_epoch chunk + 1"
    by (simp_all add: in_step_def hl_def claimed_row_def id)
  ultimately show thesis using d'(3,4) that by blast
qed

lemma client_completion:
  assumes "on_duty t r (app_hub a)" and "refuse_foreign_runner_chunk (app_hub a) c r = Inr ()"
    and "c \<noteq> []" and "CHR ''/'' \<notin> set c"
    and "apply_completion c e n choice (app_hub a) = (Inr resp, h1)" and "hub_levers h1 = []"
  shows "\<exists>a'. fleet_client \<C> \<P> \<E> others (posted t (completion_body choice (map JObj arts) (map JObj crs) e (JStr n) tok)
        (API @ ''/chunks/'' @ c @ ''/completions'')) a
      = (Inr (json_response 200 ''application/json'' (co_applied \<C> resp)), a') \<and> app_hub a' = h1"
proof -
  have "fleet_chunk_gate (request_of (posted t b p)) c (app_hub a) = Inr r" for b p
    using on_duty_gates(2) [OF assms(1)] assms(2) by (simp add: fleet_chunk_gate_def)
  moreover have "pop_drop_ack c h1 = (False, h1)" using assms(6) by (simp add: pop_drop_ack_def find_armed_def)
  ultimately show ?thesis
    using assms
    by (simp add: fleet_client_def Let_def answered_def completion completion_path [simplified] app_call_quiet
        tenure_paths(3) [simplified] on_duty_def rt_submit_completion_def behind_def response_of_def)
qed

lemma advance_over:
  assumes "ap_outcome resp \<noteq> AO_NEXT" and "dget (dr_held d) c = Some hl"
  shows "drv_advance client c (co_applied \<C> resp) d = (Inr (), d\<lparr>dr_held := dpop c (dr_held d)\<rparr>)"
  using assms applied_over by (simp add: drv_advance_def)

lemma advance_next:
  fixes d :: "app driver"
  assumes "ap_outcome resp = AO_NEXT" and "ap_next_envelope resp = Some ne" and "dget (dr_held d) c = Some hl"
  defines "hl' \<equiv> hl\<lparr>hd_from_node_id := JStr (nc_node_id (ne_node ne)), hd_epoch := ne_epoch ne + 1\<rparr>"
  shows "drv_advance client c (co_applied \<C> resp) d = report_lease client hl' (d\<lparr>dr_held := dset c hl' (dr_held d)\<rparr>)"
proof -
  obtain env node where "dget (co_applied \<C> resp) ''outcome'' = Some (JStr ''next'')"
      "dget (co_applied \<C> resp) ''next_envelope'' = Some (JObj env)" "env \<noteq> []"
      "get_int env ''epoch'' 0 = Some (ne_epoch ne)" "get_obj env ''node'' = Some node"
      "dget node ''node_id'' = Some (JStr (nc_node_id (ne_node ne)))"
    using applied_next [OF assms(1,2)] by blast
  then show ?thesis
    using assms(3) by (simp add: drv_advance_def dget_or_def json_truthy_def Let_def hl'_def)
qed

lemma complete_submitted:
  fixes d :: "app driver"
  assumes d: "drives t r d" and own: "refuse_foreign_runner_chunk (app_hub (dr_world d)) c r = Inr ()"
    and c: "c \<noteq> []" "CHR ''/'' \<notin> set c" and held: "dget (dr_held d) c = Some hl" "hd_from_node_id hl = JStr n"
    and apply_ok: "apply_completion c (hd_epoch hl) n choice (app_hub (dr_world d)) = (Inr resp, put_chunk row' (app_hub (dr_world d)))"
  obtains sub d1 where "drives t r d1" and "app_hub (dr_world d1) = put_chunk row' (app_hub (dr_world d))"
    and "dr_held d1 = dset c (hl\<lparr>hd_last_submission := sub\<rparr>) (dr_held d)"
    and "\<And>d2. drv_advance (fleet_client \<C> \<P> \<E> others) c (co_applied \<C> resp) d1 = (Inr (), d2) \<Longrightarrow>
      \<exists>ans. drv_complete (fleet_client \<C> \<P> \<E> others) c choice (map JObj arts) (map JObj crs) d = (Inr ans, d2)"
proof -
  let ?client = "fleet_client \<C> \<P> \<E> others"
  let ?h = "app_hub (dr_world d)"
  define sub where "sub = completion_body choice (map JObj arts) (map JObj crs) (hd_epoch hl) (JStr n) (hd_route_token hl)"
  define d0 where "d0 = d\<lparr>dr_held := dset c (hl\<lparr>hd_last_submission := sub\<rparr>) (dr_held d)\<rparr>"
  have duty: "on_duty t r ?h" and gw: "gw_headers (dr_gw d0) = bearer t" and w: "dr_world d0 = dr_world d"
    and quiet: "dr_levers d = []" using d by (simp_all add: drives_def d0_def)
  have levers: "hub_levers (put_chunk row' ?h) = []" using duty by (simp add: on_duty_def put_chunk_def)
  from client_completion [OF duty own c apply_ok levers, of \<P> \<E> others arts crs "hd_route_token hl"] obtain a where
    a: "?client (posted t sub (API @ ''/chunks/'' @ c @ ''/completions'')) (dr_world d0)
      = (Inr (json_response 200 ''application/json'' (co_applied \<C> resp)), a)" "app_hub a = put_chunk row' ?h"
    unfolding sub_def w by blast
  from call_post [where client = ?client, OF gw a(1)] obtain g where
    g: "call (gw_submit_completion ?client c sub) d0 = (Inr (200, co_applied \<C> resp), d0\<lparr>dr_gw := g, dr_world := a\<rparr>)"
      "gw_headers g = bearer t" using gw by (auto simp: gw_submit_completion_def)
  show thesis
  proof
    have "on_duty t r (put_chunk row' ?h)" by (rule on_duty_frame [OF duty]) (simp_all add: put_chunk_def)
    then show "drives t r (d0\<lparr>dr_gw := g, dr_world := a\<rparr>)"
      using d a(2) g(2) by (simp add: drives_def d0_def put_chunk_def)
    show "\<exists>ans. drv_complete ?client c choice (map JObj arts) (map JObj crs) d = (Inr ans, d2)"
      if "drv_advance ?client c (co_applied \<C> resp) (d0\<lparr>dr_gw := g, dr_world := a\<rparr>) = (Inr (), d2)" for d2
    proof -
      have "dr_levers (d0\<lparr>dr_gw := g, dr_world := a\<rparr>) = []" using quiet by (simp add: d0_def)
      from submit_quiet [OF g(1) this that] obtain ans where "submit_built ?client c sub d0 = (Inr ans, d2)" by blast
      moreover have "build_completion c choice (map JObj arts) (map JObj crs) hl d = (Inr sub, d0)"
        using build_quiet [OF quiet] held(2) by (simp add: Let_def sub_def d0_def)
      ultimately show ?thesis
        using quiet held(1) by (simp add: drv_complete_def then_do_def with_held_def)
    qed
  qed (use a(2) in \<open>simp_all add: d0_def\<close>)
qed

text \<open>A completion that leads on, and one that ends the tenure; both given what the hub answers.\<close>

lemma complete_next:
  fixes d :: "app driver"
  assumes d: "drives t r d" and own: "refuse_foreign_runner_chunk (app_hub (dr_world d)) c r = Inr ()"
    and c: "c \<noteq> []" "CHR ''/'' \<notin> set c" and held: "dget (dr_held d) c = Some hl" "hd_from_node_id hl = JStr n"
    and hl: "hd_chunk_id hl = c" "cs_chunk_id row1 = c"
    and apply_ok: "apply_completion c (hd_epoch hl) n choice (app_hub (dr_world d)) = (Inr resp, put_chunk row1 (app_hub (dr_world d)))"
    and resp: "ap_outcome resp = AO_NEXT" "ap_next_envelope resp = Some ne"
  obtains ans d' hl' where "drv_complete (fleet_client \<C> \<P> \<E> others) c choice (map JObj arts) (map JObj crs) d = (Inr ans, d')"
    and "drives t r d'" and "dget (dr_held d') c = Some hl'" and "hd_chunk_id hl' = c"
    and "hd_epoch hl' = ne_epoch ne + 1" and "hd_from_node_id hl' = JStr (nc_node_id (ne_node ne))"
    and "hd_route_token hl' = hd_route_token hl"
    and "get_chunk (app_hub (dr_world d')) c = Some (row1\<lparr>cs_latest_epoch := max (cs_latest_epoch row1) (hd_epoch hl')\<rparr>)"
proof -
  let ?client = "fleet_client \<C> \<P> \<E> others"
  let ?h = "app_hub (dr_world d)"
  obtain sub d1 where d1: "drives t r d1"
    "app_hub (dr_world d1) = put_chunk row1 ?h" "dr_held d1 = dset c (hl\<lparr>hd_last_submission := sub\<rparr>) (dr_held d)"
    "\<And>d2. drv_advance ?client c (co_applied \<C> resp) d1 = (Inr (), d2) \<Longrightarrow>
      \<exists>ans. drv_complete ?client c choice (map JObj arts) (map JObj crs) d = (Inr ans, d2)"
    by (rule complete_submitted [where arts = arts and crs = crs, OF d own c held apply_ok]) (rule that)
  define hl' where "hl' = hl\<lparr>hd_last_submission := sub\<rparr>\<lparr>hd_from_node_id := JStr (nc_node_id (ne_node ne)), hd_epoch := ne_epoch ne + 1\<rparr>"
  define d2 where "d2 = d1\<lparr>dr_held := dset c hl' (dr_held d1)\<rparr>"
  have hl': "hd_chunk_id hl' = c" "hd_epoch hl' = ne_epoch ne + 1" "hd_from_node_id hl' = JStr (nc_node_id (ne_node ne))"
      "hd_route_token hl' = hd_route_token hl"
    using hl by (simp_all add: hl'_def)
  have d2: "drives t r d2" "get_chunk (app_hub (dr_world d2)) c = Some row1"
    using d1(1,2) hl(2) by (simp_all add: d2_def drives_def chunk_table.get_put)
  from report_in_step [OF d2 hl(2) hl'(1)] obtain d' where d': "report_lease ?client hl' d2 = (Inr (), d')"
    "dr_held d' = dr_held d2" "drives t r d'"
    "get_chunk (app_hub (dr_world d')) c = Some (row1\<lparr>cs_latest_epoch := max (cs_latest_epoch row1) (hd_epoch hl')\<rparr>)" by blast
  have "dget (dr_held d1) c = Some (hl\<lparr>hd_last_submission := sub\<rparr>)" by (simp add: d1(3))
  from advance_next [OF resp this, of ?client]
  have "drv_advance ?client c (co_applied \<C> resp) d1 = (Inr (), d')"
    by (simp only: d2_def [symmetric] hl'_def [symmetric] d'(1))
  from d1(4) [OF this] obtain ans where "drv_complete ?client c choice (map JObj arts) (map JObj crs) d = (Inr ans, d')" by blast
  moreover have "dget (dr_held d') c = Some hl'" by (simp add: d'(2) d2_def)
  ultimately show thesis using d'(3,4) hl' that by blast
qed

lemma complete_over:
  fixes d :: "app driver"
  assumes d: "drives t r d" and own: "refuse_foreign_runner_chunk (app_hub (dr_world d)) c r = Inr ()"
    and c: "c \<noteq> []" "CHR ''/'' \<notin> set c" and held: "dget (dr_held d) c = Some hl" "hd_from_node_id hl = JStr n"
    and hl: "cs_chunk_id row1 = c"
    and apply_ok: "apply_completion c (hd_epoch hl) n choice (app_hub (dr_world d)) = (Inr resp, put_chunk row1 (app_hub (dr_world d)))"
    and resp: "ap_outcome resp \<noteq> AO_NEXT"
  obtains ans d' where "drv_complete (fleet_client \<C> \<P> \<E> others) c choice (map JObj arts) (map JObj crs) d = (Inr ans, d')"
    and "drives t r d'" and "dget (dr_held d') c = None" and "get_chunk (app_hub (dr_world d')) c = Some row1"
proof -
  let ?client = "fleet_client \<C> \<P> \<E> others"
  obtain sub d1 where d1: "drives t r d1"
    "app_hub (dr_world d1) = put_chunk row1 (app_hub (dr_world d))"
    "dr_held d1 = dset c (hl\<lparr>hd_last_submission := sub\<rparr>) (dr_held d)"
    "\<And>d2. drv_advance ?client c (co_applied \<C> resp) d1 = (Inr (), d2) \<Longrightarrow>
      \<exists>ans. drv_complete ?client c choice (map JObj arts) (map JObj crs) d = (Inr ans, d2)"
    by (rule complete_submitted [where arts = arts and crs = crs, OF d own c held apply_ok]) (rule that)
  have "drv_advance ?client c (co_applied \<C> resp) d1 = (Inr (), d1\<lparr>dr_held := dpop c (dr_held d1)\<rparr>)"
    by (rule advance_over [OF resp]) (simp add: d1(3))
  from d1(4) [OF this] obtain ans where
    "drv_complete ?client c choice (map JObj arts) (map JObj crs) d = (Inr ans, d1\<lparr>dr_held := dpop c (dr_held d1)\<rparr>)" by blast
  then show thesis
    by (rule that) (use d1(1,2) hl in \<open>simp_all add: drives_def chunk_table.get_put\<close>)
qed

lemma complete_in_step_obtains:
  fixes d :: "app driver"
  assumes d: "drives t r d" and own: "refuse_foreign_runner_chunk (app_hub (dr_world d)) c r = Inr ()"
    and c: "c \<noteq> []" "CHR ''/'' \<notin> set c" and held: "dget (dr_held d) c = Some hl"
    and chunk: "get_chunk (app_hub (dr_world d)) c = Some row" and step: "in_step hl row"
    and ok: "chunks_ok (app_hub (dr_world d))" and node: "cs_current_node_id row = Some n"
    and fresh: "dget (cs_applied row) (apply_key n (hd_epoch hl)) = None"
    and target: "completion_target (app_hub (dr_world d)) row (hd_epoch hl) n choice = Inr target"
  obtains ans d' row' where "drv_complete (fleet_client \<C> \<P> \<E> others) c choice (map JObj arts) (map JObj crs) d = (Inr ans, d')"
    and "drives t r d'" and "get_chunk (app_hub (dr_world d')) c = Some row'"
    and "leads_on row target \<Longrightarrow> cs_current_node_id row' = Some target \<and> cs_latest_epoch row' = cs_latest_epoch row + 1 \<and>
           (\<exists>hl'. dget (dr_held d') c = Some hl' \<and> in_step hl' row')"
    and "\<not> leads_on row target \<Longrightarrow> dget (dr_held d') c = None"
proof -
  let ?h = "app_hub (dr_world d)"
  let ?key = "apply_key n (hd_epoch hl)"
  have id: "cs_chunk_id row = c" "hd_chunk_id hl = c"
    using chunk_table.get_key [OF ok chunk] step by (simp_all add: in_step_def)
  have hn: "hd_from_node_id hl = JStr n" using step node by (simp add: in_step_def)
  have unarmed: "find_armed k c ?h = None" for k using d by (simp add: drives_def on_duty_def find_armed_def)
  have applied: "apply_completion c (hd_epoch hl) n choice ?h = (Inr resp, put_chunk (applied_row ?key resp row1) ?h)"
    if "Hub_Apply.advance row target = (Inr resp, row1)" for resp row1
    using that by (simp add: apply_completion_unlevered [OF chunk unarmed unarmed] complete_chunk_def fresh target)
  have key: "cs_chunk_id (applied_row ?key resp row1) = cs_chunk_id row1" for resp row1 by (simp add: applied_row_def)
  show thesis
  proof (cases "leads_on row target")
    case True
    let ?row = "row\<lparr>cs_current_node_id := Some target, cs_status := ST_RUNNING\<rparr>"
    from advance_on [OF True] obtain resp ne where adv: "Hub_Apply.advance row target = (Inr resp, ?row)"
      "ap_outcome resp = AO_NEXT" "ap_next_envelope resp = Some ne" "ne_epoch ne = cs_latest_epoch row"
      "nc_node_id (ne_node ne) = target" by blast
    have "cs_chunk_id (applied_row ?key resp ?row) = c" using id by (simp add: applied_row_def)
    from complete_next [OF d own c held hn id(2) this applied [OF adv(1)] adv(2,3)] obtain ans d' hl' where
      res: "drv_complete (fleet_client \<C> \<P> \<E> others) c choice (map JObj arts) (map JObj crs) d = (Inr ans, d')"
      "drives t r d'" "dget (dr_held d') c = Some hl'" "hd_chunk_id hl' = c" "hd_epoch hl' = ne_epoch ne + 1"
      "hd_from_node_id hl' = JStr (nc_node_id (ne_node ne))" "hd_route_token hl' = hd_route_token hl"
      "get_chunk (app_hub (dr_world d')) c =
        Some (applied_row ?key resp ?row\<lparr>cs_latest_epoch := max (cs_latest_epoch (applied_row ?key resp ?row)) (hd_epoch hl')\<rparr>)"
      by blast
    show ?thesis
      by (rule that [OF res(1,2,8)])
        (use True res(3-7) adv(4,5) step id in \<open>simp_all add: in_step_def applied_row_def\<close>)
  next
    case False
    from advance_ends [OF False] obtain resp row1 where adv: "Hub_Apply.advance row target = (Inr resp, row1)"
      "ap_outcome resp \<noteq> AO_NEXT" "cs_chunk_id row1 = c" using id by metis
    have "cs_chunk_id (applied_row ?key resp row1) = c" using adv(3) by (simp add: applied_row_def)
    from complete_over [OF d own c held hn this applied [OF adv(1)] adv(2)] show ?thesis using False that by metis
  qed
qed

end

end
