(* ===== verification/Fleet_Life.thy ===== *)
theory Fleet_Life
  imports Fleet_Tenure Hub_Fixture
begin

text \<open>
  The properties of the hub's HTTP layer, of the mock runner and of the two together: who a route
  turns away, how a refusal is read, how the runner numbers what it sends, and how a tenure keeps
  the runner in step with the hub. Each is instantiated on the hub of \<open>Hub_Fixture\<close>.
\<close>

section \<open>Inputs\<close>

definition fx_request :: "(string, string) dict \<Rightarrow> request" where
  "fx_request headers = \<lparr>req_method = ''GET'', req_path = ''/api/fleet/queue'', req_headers = headers, req_json = None\<rparr>"

definition fx_outside :: outside where
  "fx_outside = \<lparr>out_parsers = fx_parsers, out_validate = (\<lambda>_ _. None), out_env = fx_env\<rparr>"


definition fx_app :: "hub \<Rightarrow> app" where
  "fx_app h = \<lparr>app_hub = h, app_captured = [], app_host_plane_absent = False, app_idp_offered = False\<rparr>"

text \<open>A driver started with the runner's token and no version of its own.\<close>

definition fx_driver :: "hub \<Rightarrow> app driver" where
  "fx_driver h = MockRunnerService (HttpxHubGateway (Some ''t'') None) (fx_app h) ''n'' ''w''"

text \<open>A hub with a second tenant, whose chunk the runner has no claim on.\<close>

definition fx_foreign :: hub where
  "fx_foreign = put_chunk (fx_chunk\<lparr>cs_chunk_id := ''x'', cs_project_id := ''p''\<rparr>)
     (put_project \<lparr>pj_project_id = ''p'', pj_tenant_id = ''u'', pj_slug = ''p'', pj_name = ''p''\<rparr> fx_hub)"





lemma claim_gate_errors:
  assumes "claim_gate c r h = (Inl e, h')"
  shows "e = PinnedGraphMissing \<or> (\<exists>m. e = ChunkNotFound m) \<or> refusal_kind_of e \<noteq> None"
  using assms
  by (auto simp: claim_gate_def require_def check_pinned_graph_def refuse_retired_runner_def CLAIM_LEVERS_def
      refuse_braked_runner_def refuse_claim_def refuse_dependency_def refuse_incompatible_def
      split: option.splits sum.splits prod.splits if_splits)

section \<open>Evaluation\<close>

lemma fx_no_space [simp]: "strip ''t'' = ''t''"
  by code_simp

lemma fx_bearer: "presented_bearer (fx_request [(''authorization'', ''Bearer t'')]) = Some ''t''"
    "presented_bearer (fx_request []) = None"
  by (simp_all add: presented_bearer_def fx_request_def before_blank_def after_blank_def dget_or_def Let_def lower_chars)



lemma fx_driver_simps [simp]: "app_hub (dr_world (fx_driver h)) = h" "dr_workspace_id (fx_driver h) = ''w''"
  by (simp_all add: fx_driver_def MockRunnerService_def fx_app_def)


lemma fx_foreign_chunk: "runners_ok fx_foreign" "foreign_chunk fx_foreign (fx_request [(''authorization'', ''Bearer t'')]) ''x''"
proof -
  let ?row = "fx_chunk\<lparr>cs_chunk_id := ''x'', cs_project_id := ''p''\<rparr>"
  have rows: "get_runner fx_foreign ''r'' = Some fx_runner" "hub_tokens fx_foreign = [(''t'', ''r'')]"
      "hub_runners fx_foreign = [(''r'', fx_runner)]"
    by (simp_all add: fx_foreign_def put_chunk_def put_project_def get_runner_def)
  have chunk: "get_chunk fx_foreign ''x'' = Some ?row"
    by (simp add: fx_foreign_def put_chunk_def get_chunk_def)
  have "get_project fx_foreign ''p'' = Some \<lparr>pj_project_id = ''p'', pj_tenant_id = ''u'', pj_slug = ''p'', pj_name = ''p''\<rparr>"
    by (simp add: fx_foreign_def put_chunk_def put_project_def get_project_def)
  then have "\<not> same_tenant fx_foreign ''r'' ?row" by (simp add: same_tenant_def rows FIRST_TENANT_ID_def)
  then show "foreign_chunk fx_foreign (fx_request [(''authorization'', ''Bearer t'')]) ''x''"
    by (simp add: foreign_chunk_def fx_bearer principal_def runner_for_token_def rows chunk)
  show "runners_ok fx_foreign" by (simp add: keyed_def rows)
qed

lemma fx_conflict: "claim_gate ''c'' ''r'' fx_claimed = (Inl (ClaimConflict ''r''), fx_claimed)"
  by (simp add: claim_gate_def require_def check_pinned_graph_def refuse_retired_runner_def CLAIM_LEVERS_def
      refuse_braked_runner_def never_connected_def refuse_claim_def ended_def)



section \<open>Properties\<close>

text \<open>C35. What a refused claim means reaches the runner. When the hub's gate of a claim refuses, the
  error is the missing chunk, the missing pinned graph, or one that has a kind of its own; and for
  each of those the route's answer, in the problem shape and in the legacy shape the
  \<^verbatim>\<open>legacy_claim_refusal\<close> lever arms, is read by the runner's classifier as exactly that kind.\<close>

theorem claim_refusals_read_back:
  assumes "claim_gate c r h = (Inl e, h')"
  shows "e = PinnedGraphMissing \<or> (\<exists>m. e = ChunkNotFound m) \<or>
    (\<exists>k. refusal_kind_of e = Some k \<and> read_as classify_claim_refusal k (fst (on_claim c e h')))"
  using claim_gate_errors [OF assms] claim_refusal_read by blast

theorem claim_refusals_read_back_witness:
  "\<exists>k. refusal_kind_of (ClaimConflict ''r'') = Some k \<and>
     read_as classify_claim_refusal k (fst (on_claim ''c'' (ClaimConflict ''r'') fx_claimed))"
  using claim_refusals_read_back [OF fx_conflict] by simp

text \<open>C36. A token that names no runner opens nothing: whatever fleet route is called, with whatever
  arguments, the answer is a 401 refusal and the hub is as it was, but for a lever the answer's shape
  consumed.\<close>

theorem unknown_token_opens_nothing:
  assumes "principal h (presented_bearer rq) = Inl e"
  shows "turned_away {401} h (fleet_api w rq fc h)"
  using assms by (rule unresolved_call)

theorem unknown_token_opens_nothing_witness:
  "turned_away {401} fx_hub (fleet_api fx_outside (fx_request []) (SubmitCompletion ''c'' 0 ''b'' ''ok'') fx_hub)"
  by (rule unknown_token_opens_nothing [where e = "UnresolvableRunner ''missing or malformed Authorization header''"])
    (simp add: fx_bearer principal_def)

text \<open>C37. Over any run of drive requests, resets among them, whatever the hub answers and whatever levers are
  armed, the facts the driver sends are numbered without a gap or a repetition: they continue its counter up
  to the first reset, and after each reset they count from 1 again, the counter standing at the last number of
  the last stretch. The transcript records are numbered likewise on their own lane, with the same resets.\<close>

theorem lanes_are_numbered:
  "let d' = drive_all (recording client) rs d; resets = length (filter (\<lambda>r. snd (snd r) = DriveReset) rs)
   in \<exists>facts records.
     sent_facts d' = sent_facts d @ facts \<and> lane_runs resets (dr_runner_seq d) facts (dr_runner_seq d') \<and>
     sent_records d' = sent_records d @ records \<and> lane_runs resets (dr_transcript_seq d) records (dr_transcript_seq d')"
  using drive_all_numbered [of rs d client] by (simp add: numbered_runs_def resets_in_def)

text \<open>Without a reset the numbers of a run go straight on.\<close>

lemma lanes_go_on:
  assumes "DriveReset \<notin> (snd \<circ> snd) ` set rs"
  shows "numbered d (drive_all (recording client) rs d)"
  using assms by (rule lanes.drive_all_stays)



text \<open>The read of a lease's transcript looks no chunk up: behind the gate of the caller's token, and unless
  another runner of its tenant owns the lease, it answers 200 with what is kept under the caller's own tenant,
  for a chunk of another tenant as for an unknown one.\<close>

lemma lease_read_is_by_tenant:
  assumes "fleet_gate rq h = Inr r" and "get_runner h r = Some row"
    and "lease_transcript_owner h c r n ep \<in> {Inr None, Inr (Some r)}"
  shows "rt_get_lease_transcript_segments rq c n ep h =
    (let lease = (rn_tenant_id row, c, n, ep)
     in (Served 200 (transcript_view c n ep (dvals (dget_or (hub_transcript_segments h) lease [])) (rejected_for h lease)), h))"
  using assms by (auto simp: rt_get_lease_transcript_segments_def behind_def serve_def lease_transcript_def added_def Let_def)

text \<open>C39. The wall between tenants. Whatever fleet route that stands under a chunk is called by a runner of
  another tenant, reads, claims, completions and pauses alike, the answer is a refusal by status 400,
  403 or 404 and the hub is as it was, but for a lever the answer's shape consumed. One route under a chunk is
  apart, the read of a lease's transcript: the code checks no tenant there and serves it, out of what the
  caller's own tenant has shipped (\<open>lease_read_is_by_tenant\<close>).\<close>

theorem foreign_chunks_are_walled_off:
  assumes "runners_ok h" and "foreign_chunk h rq c" and "call_chunk fc = Some c"
  shows "turned_away {400, 403, 404} h (fleet_api w rq fc h)"
  using foreign_call [OF assms] by (simp add: WALL_def)

theorem foreign_chunks_are_walled_off_witness:
  "turned_away {400, 403, 404} fx_foreign
     (fleet_api fx_outside (fx_request [(''authorization'', ''Bearer t'')]) (ClaimRoute ''x'' ''w'' []) fx_foreign)"
  using foreign_chunks_are_walled_off [OF fx_foreign_chunk, of "ClaimRoute ''x'' ''w'' []"] by simp



end
