(* ===== verification/Forge_Models.thy ===== *)
theory Forge_Models
  imports Json_Values
begin

text \<open>
  The vocabulary of the mock forge (\<^verbatim>\<open>src/blizzard_mock/forge/domain\<close>: \<^verbatim>\<open>models.py\<close>,
  \<^verbatim>\<open>errors.py\<close>, \<^verbatim>\<open>levers.py\<close>, \<^verbatim>\<open>checks.py\<close>) with its in-memory lever and check-run stores
  (\<^verbatim>\<open>internal/lever_store.py\<close>, \<^verbatim>\<open>internal/check_store.py\<close>). A mutable model object is the
  record of its fields, and a write of a stored object's field is a write of the store.
\<close>

section \<open>States and methods\<close>

datatype forge_state = FS_OPEN | FS_CLOSED

fun forge_state_value :: "forge_state \<Rightarrow> string" where
  "forge_state_value FS_OPEN = ''open''"
| "forge_state_value FS_CLOSED = ''closed''"

definition forge_state_of :: "string \<Rightarrow> forge_state option" where
  "forge_state_of s = (if s = ''open'' then Some FS_OPEN else if s = ''closed'' then Some FS_CLOSED else None)"

datatype MergeableState =
    MS_CLEAN | MS_DIRTY | MS_UNKNOWN | MS_BEHIND | MS_BLOCKED | MS_UNSTABLE | MS_HAS_HOOKS | MS_DRAFT

fun mergeable_state_value :: "MergeableState \<Rightarrow> string" where
  "mergeable_state_value MS_CLEAN = ''clean''"
| "mergeable_state_value MS_DIRTY = ''dirty''"
| "mergeable_state_value MS_UNKNOWN = ''unknown''"
| "mergeable_state_value MS_BEHIND = ''behind''"
| "mergeable_state_value MS_BLOCKED = ''blocked''"
| "mergeable_state_value MS_UNSTABLE = ''unstable''"
| "mergeable_state_value MS_HAS_HOOKS = ''has_hooks''"
| "mergeable_state_value MS_DRAFT = ''draft''"

definition FORCEABLE_MERGEABLE_STATES :: "MergeableState list" where
  "FORCEABLE_MERGEABLE_STATES = [MS_UNSTABLE, MS_HAS_HOOKS, MS_DRAFT]"

datatype MergeMethod = MM_MERGE | MM_SQUASH | MM_REBASE

section \<open>Entities\<close>

record Repo =
  rp_owner :: string
  rp_name :: string
  rp_default_branch :: string

definition full_name :: "Repo \<Rightarrow> string" where
  "full_name r = rp_owner r @ ''/'' @ rp_name r"

record Comment =
  cm_id :: int
  cm_body :: string
  cm_user :: string
  cm_created_at :: instant
  cm_updated_at :: instant

record Issue =
  is_number :: int
  is_title :: string
  is_body :: string
  is_state :: forge_state
  is_state_reason :: "string option"
  is_user :: string
  is_labels :: "string list"
  is_created_at :: instant
  is_updated_at :: instant
  is_comments :: "Comment list"

record Label =
  lb_name :: string

record CheckRun =
  ck_id :: int
  ck_name :: string
  ck_status :: string
  ck_conclusion :: "string option"
  ck_head_sha :: string

record PullRequest =
  pl_number :: int
  pl_title :: string
  pl_body :: string
  pl_state :: forge_state
  pl_user :: string
  pl_head :: string
  pl_base :: string
  pl_created_at :: instant
  pl_updated_at :: instant
  pl_comments :: "Comment list"
  pl_merged :: bool
  pl_merged_at :: "instant option"
  pl_merged_by :: "string option"
  pl_merge_commit_sha :: "string option"
  pl_closed_head_sha :: "string option"
  pl_closed_base_sha :: "string option"

section \<open>Errors\<close>

text \<open>Every \<^verbatim>\<open>ForgeError\<close> with its message, and the two other exceptions the code lets through:
  \<^verbatim>\<open>GitCommandError\<close> of the git library, from the backend, and the \<^verbatim>\<open>AttributeError\<close> of a
  method called on a value that lacks it.\<close>

datatype forge_error =
    RepoNotFound string
  | RepoAlreadyExists string
  | IssueNotFound string
  | PullNotFound string
  | BranchNotFound string
  | CompareRefNotFound string
  | NotFastForward string
  | ValidationError string
  | NotMergeable string
  | UpdateConflict string
  | MergeRejected string
  | HeadMismatch string
  | GitError string
  | LabelAlreadyExists string
  | LabelNotFound string
  | MergeConflict string
  | ProtectedBranch string
  | RuleViolation string
  | MergeMethodNotAllowed string
  | RefAlreadyExists string
  | RefMissing string
  | GitCommandError string
  | AttributeError string

fun forge_status :: "forge_error \<Rightarrow> int" where
  "forge_status (RepoNotFound m) = 404"
| "forge_status (RepoAlreadyExists m) = 409"
| "forge_status (IssueNotFound m) = 404"
| "forge_status (PullNotFound m) = 404"
| "forge_status (BranchNotFound m) = 422"
| "forge_status (CompareRefNotFound m) = 404"
| "forge_status (NotFastForward m) = 422"
| "forge_status (ValidationError m) = 422"
| "forge_status (NotMergeable m) = 405"
| "forge_status (UpdateConflict m) = 422"
| "forge_status (MergeRejected m) = 405"
| "forge_status (HeadMismatch m) = 409"
| "forge_status (GitError m) = 500"
| "forge_status (LabelAlreadyExists m) = 422"
| "forge_status (LabelNotFound m) = 404"
| "forge_status (MergeConflict m) = 409"
| "forge_status (ProtectedBranch m) = 422"
| "forge_status (RuleViolation m) = 422"
| "forge_status (MergeMethodNotAllowed m) = 405"
| "forge_status (RefAlreadyExists m) = 422"
| "forge_status (RefMissing m) = 422"
| "forge_status (GitCommandError m) = 500"
| "forge_status (AttributeError m) = 500"

fun forge_message :: "forge_error \<Rightarrow> string" where
  "forge_message (RepoNotFound m) = m"
| "forge_message (RepoAlreadyExists m) = m"
| "forge_message (IssueNotFound m) = m"
| "forge_message (PullNotFound m) = m"
| "forge_message (BranchNotFound m) = m"
| "forge_message (CompareRefNotFound m) = m"
| "forge_message (NotFastForward m) = m"
| "forge_message (ValidationError m) = m"
| "forge_message (NotMergeable m) = m"
| "forge_message (UpdateConflict m) = m"
| "forge_message (MergeRejected m) = m"
| "forge_message (HeadMismatch m) = m"
| "forge_message (GitError m) = m"
| "forge_message (LabelAlreadyExists m) = m"
| "forge_message (LabelNotFound m) = m"
| "forge_message (MergeConflict m) = m"
| "forge_message (ProtectedBranch m) = m"
| "forge_message (RuleViolation m) = m"
| "forge_message (MergeMethodNotAllowed m) = m"
| "forge_message (RefAlreadyExists m) = m"
| "forge_message (RefMissing m) = m"
| "forge_message (GitCommandError m) = m"
| "forge_message (AttributeError m) = m"

definition is_forge_error :: "forge_error \<Rightarrow> bool" where
  "is_forge_error e \<longleftrightarrow> (case e of GitCommandError _ \<Rightarrow> False | AttributeError _ \<Rightarrow> False | _ \<Rightarrow> True)"

section \<open>Levers\<close>

datatype LeverKind =
    LK_EXTERNALLY_MERGED | LK_MERGE_CONFLICT | LK_MERGE_REJECTED | LK_COMMENT_MIDFLIGHT | LK_RATE_LIMITED
  | LK_TOKEN_REJECTED | LK_UNREACHABLE | LK_STALE_BRANCH | LK_CHECKS_PENDING | LK_CHECKS_FAILED
  | LK_BASE_CHECKS_FAILED | LK_REF_CHECKS | LK_BRANCH_PROTECTED | LK_RULESET | LK_MERGE_COMMITS_DISALLOWED
  | LK_RATE_BUDGET | LK_SECONDARY_RATE_LIMITED | LK_MERGEABLE_STATE | LK_CHECKS_STARTUP_FAILURE

fun lever_kind_value :: "LeverKind \<Rightarrow> string" where
  "lever_kind_value LK_EXTERNALLY_MERGED = ''externally_merged''"
| "lever_kind_value LK_MERGE_CONFLICT = ''merge_conflict''"
| "lever_kind_value LK_MERGE_REJECTED = ''merge_rejected''"
| "lever_kind_value LK_COMMENT_MIDFLIGHT = ''comment_midflight''"
| "lever_kind_value LK_RATE_LIMITED = ''rate_limited''"
| "lever_kind_value LK_TOKEN_REJECTED = ''token_rejected''"
| "lever_kind_value LK_UNREACHABLE = ''unreachable''"
| "lever_kind_value LK_STALE_BRANCH = ''stale_branch''"
| "lever_kind_value LK_CHECKS_PENDING = ''checks_pending''"
| "lever_kind_value LK_CHECKS_FAILED = ''checks_failed''"
| "lever_kind_value LK_BASE_CHECKS_FAILED = ''base_checks_failed''"
| "lever_kind_value LK_REF_CHECKS = ''ref_checks''"
| "lever_kind_value LK_BRANCH_PROTECTED = ''branch_protected''"
| "lever_kind_value LK_RULESET = ''ruleset''"
| "lever_kind_value LK_MERGE_COMMITS_DISALLOWED = ''merge_commits_disallowed''"
| "lever_kind_value LK_RATE_BUDGET = ''rate_budget''"
| "lever_kind_value LK_SECONDARY_RATE_LIMITED = ''secondary_rate_limited''"
| "lever_kind_value LK_MERGEABLE_STATE = ''mergeable_state''"
| "lever_kind_value LK_CHECKS_STARTUP_FAILURE = ''checks_startup_failure''"

definition ACTION_LEVERS :: "LeverKind list" where
  "ACTION_LEVERS = [LK_EXTERNALLY_MERGED, LK_COMMENT_MIDFLIGHT, LK_REF_CHECKS, LK_RATE_BUDGET]"

definition STATE_LEVERS :: "LeverKind list" where
  "STATE_LEVERS = [LK_MERGE_CONFLICT, LK_MERGE_REJECTED, LK_RATE_LIMITED, LK_TOKEN_REJECTED, LK_UNREACHABLE,
     LK_STALE_BRANCH, LK_CHECKS_PENDING, LK_CHECKS_FAILED, LK_BASE_CHECKS_FAILED, LK_BRANCH_PROTECTED, LK_RULESET,
     LK_MERGE_COMMITS_DISALLOWED, LK_SECONDARY_RATE_LIMITED, LK_MERGEABLE_STATE, LK_CHECKS_STARTUP_FAILURE]"

record Lever =
  gl_kind :: LeverKind
  gl_repo :: "string option"
  gl_number :: "int option"
  gl_remaining :: "int option"
  gl_message :: "string option"
  gl_branch :: "string option"
  gl_pattern :: "string option"
  gl_state :: "MergeableState option"

record CheckSpec =
  cx_name :: string
  cx_status :: string

record ForgeLeverParams =
  lq_repo :: "string option"
  lq_number :: "int option"
  lq_remaining :: "int option"
  lq_message :: "string option"
  lq_body :: "string option"
  lq_user :: string
  lq_method :: "MergeMethod option"
  lq_ref :: "string option"
  lq_checks :: "CheckSpec list option"
  lq_branch :: "string option"
  lq_pattern :: "string option"
  lq_state :: "MergeableState option"
  lq_token :: "string option"
  lq_reset :: "int option"

definition forge_scope_key :: "string option \<Rightarrow> int option \<Rightarrow> string option \<Rightarrow> string option \<Rightarrow> string" where
  "forge_scope_key repo number branch pattern =
     str_or repo ''*'' @ ''#'' @ (case number of None \<Rightarrow> ''*'' | Some n \<Rightarrow> show_int n)
     @ (case branch of None \<Rightarrow> [] | Some b \<Rightarrow> ''@'' @ b)
     @ (case pattern of None \<Rightarrow> [] | Some p \<Rightarrow> ''~'' @ p)"

definition lever_scope_key :: "Lever \<Rightarrow> string" where
  "lever_scope_key l = forge_scope_key (gl_repo l) (gl_number l) (gl_branch l) (gl_pattern l)"

definition lever_matches :: "Lever \<Rightarrow> string option \<Rightarrow> int option \<Rightarrow> bool" where
  "lever_matches l repo number \<longleftrightarrow>
     (gl_repo l = None \<or> gl_repo l = repo) \<and> (gl_number l = None \<or> gl_number l = number)"

section \<open>The lever store\<close>

type_synonym forge_levers = "(LeverKind \<times> string, Lever) dict"

definition lever_key :: "Lever \<Rightarrow> LeverKind \<times> string" where
  "lever_key l = (gl_kind l, lever_scope_key l)"

definition store_arm :: "Lever \<Rightarrow> forge_levers \<Rightarrow> forge_levers" where
  "store_arm l s = dset (lever_key l) l s"

definition store_clear_lever ::
  "LeverKind \<Rightarrow> string option \<Rightarrow> int option \<Rightarrow> string option \<Rightarrow> string option \<Rightarrow> forge_levers \<Rightarrow> forge_levers" where
  "store_clear_lever kind repo number branch pattern s = dpop (kind, forge_scope_key repo number branch pattern) s"

definition store_active :: "forge_levers \<Rightarrow> Lever list" where
  "store_active s = dvals s"

definition store_find :: "LeverKind \<Rightarrow> string option \<Rightarrow> int option \<Rightarrow> forge_levers \<Rightarrow> Lever option" where
  "store_find kind repo number s =
     List.find (\<lambda>l. gl_kind l = kind \<and> lever_matches l repo number) (dvals s)"

text \<open>As in the shared store, the decrement writes the stored object, so the store sees it.\<close>

definition store_consume :: "Lever \<Rightarrow> forge_levers \<Rightarrow> forge_levers" where
  "store_consume l s =
     (case gl_remaining l of
        None \<Rightarrow> s
      | Some n \<Rightarrow>
          if n - 1 \<le> 0 then dpop (lever_key l) s
          else if dget s (lever_key l) = Some l then dset (lever_key l) (l\<lparr>gl_remaining := Some (n - 1)\<rparr>) s
          else s)"

section \<open>The check-run store\<close>

type_synonym check_runs = "(string \<times> string, (string, CheckRun) dict) dict"

definition checks_runs :: "check_runs \<Rightarrow> string \<Rightarrow> string \<Rightarrow> CheckRun list option" where
  "checks_runs s repo sha = map_option dvals (dget s (repo, sha))"

definition checks_replace_all :: "string \<Rightarrow> string \<Rightarrow> CheckRun list \<Rightarrow> check_runs \<Rightarrow> check_runs" where
  "checks_replace_all repo sha runs s = dset (repo, sha) (fold (\<lambda>r. dset (ck_name r) r) runs []) s"

definition checks_put :: "string \<Rightarrow> string \<Rightarrow> CheckRun \<Rightarrow> check_runs \<Rightarrow> check_runs" where
  "checks_put repo sha run s = dset (repo, sha) (dset (ck_name run) run (dget_or s (repo, sha) [])) s"

definition CHECK_STATUSES :: "(string, string \<times> string option) dict" where
  "CHECK_STATUSES =
     [(''pending'', (''in_progress'', None)), (''failed'', (''completed'', Some ''failure'')),
      (''success'', (''completed'', Some ''success''))]"

end
