(* ===== verification/Forge_Rate.thy ===== *)
theory Forge_Rate
  imports Prelude
begin

text \<open>
  The forge's rate-limit ledger (\<^verbatim>\<open>src/blizzard_mock/forge/domain/rate.py\<close>,
  \<^verbatim>\<open>internal/rate_ledger.py\<close>): one window per credential, opened at its first counted answer and
  restored at its reset. A call reads the clock as whole seconds, once. Shown: what is answered lies
  between zero and the limit and its reset is ahead, as long as no budget was set outside them;
  reading spends nothing, and counting spends one at a time of one window alone.
\<close>

section \<open>Windows\<close>

definition DEFAULT_RATE_LIMIT :: int where "DEFAULT_RATE_LIMIT = 5000"

definition RATE_WINDOW_SECONDS :: int where "RATE_WINDOW_SECONDS = 3600"

definition ANONYMOUS_BUCKET :: string where "ANONYMOUS_BUCKET = []"

record window =
  wn_remaining :: int
  wn_reset :: int

record RateWindow =
  rw_limit :: int
  rw_remaining :: int
  rw_reset :: int

record ledger =
  lg_limit :: int
  lg_windows :: "(string, window) dict"
  lg_template :: "window option"

definition InMemoryRateLedger :: "int \<Rightarrow> ledger" where
  "InMemoryRateLedger limit = \<lparr>lg_limit = limit, lg_windows = [], lg_template = None\<rparr>"

section \<open>Operations\<close>

text \<open>An expired window is dropped when it is looked up.\<close>

definition rate_live :: "int \<Rightarrow> string \<Rightarrow> ledger \<Rightarrow> window option \<times> ledger" where
  "rate_live now bucket L =
     (case dget (lg_windows L) bucket of
        None \<Rightarrow> (None, L)
      | Some w \<Rightarrow>
          if now \<ge> wn_reset w then (None, L\<lparr>lg_windows := dpop bucket (lg_windows L)\<rparr>) else (Some w, L))"

definition rate_fresh :: "int \<Rightarrow> ledger \<Rightarrow> window \<times> ledger" where
  "rate_fresh now L =
     (case lg_template L of
        Some t \<Rightarrow>
          if now < wn_reset t then (t, L)
          else (\<lparr>wn_remaining = lg_limit L, wn_reset = now + RATE_WINDOW_SECONDS\<rparr>, L\<lparr>lg_template := None\<rparr>)
      | None \<Rightarrow> (\<lparr>wn_remaining = lg_limit L, wn_reset = now + RATE_WINDOW_SECONDS\<rparr>, L\<lparr>lg_template := None\<rparr>))"

definition live_or_fresh :: "int \<Rightarrow> string \<Rightarrow> ledger \<Rightarrow> window \<times> ledger" where
  "live_or_fresh now bucket L =
     (case rate_live now bucket L of (Some w, L1) \<Rightarrow> (w, L1) | (None, L1) \<Rightarrow> rate_fresh now L1)"

definition rate_answer :: "ledger \<Rightarrow> window \<Rightarrow> RateWindow" where
  "rate_answer L w = \<lparr>rw_limit = lg_limit L, rw_remaining = wn_remaining w, rw_reset = wn_reset w\<rparr>"

definition rate_count :: "int \<Rightarrow> string \<Rightarrow> ledger \<Rightarrow> RateWindow \<times> ledger" where
  "rate_count now bucket L =
     (case live_or_fresh now bucket L of (w, L1) \<Rightarrow>
        (let w' = w\<lparr>wn_remaining := max (wn_remaining w - 1) 0\<rparr>
         in (rate_answer L1 w', L1\<lparr>lg_windows := dset bucket w' (lg_windows L1)\<rparr>)))"

definition rate_peek :: "int \<Rightarrow> string \<Rightarrow> ledger \<Rightarrow> RateWindow \<times> ledger" where
  "rate_peek now bucket L = (case live_or_fresh now bucket L of (w, L1) \<Rightarrow> (rate_answer L1 w, L1))"

definition rate_apply :: "int option \<Rightarrow> int option \<Rightarrow> window \<Rightarrow> window" where
  "rate_apply remaining reset w =
     (let w1 = (case remaining of None \<Rightarrow> w | Some n \<Rightarrow> w\<lparr>wn_remaining := n\<rparr>)
      in case reset of None \<Rightarrow> w1 | Some t \<Rightarrow> w1\<lparr>wn_reset := t\<rparr>)"

text \<open>The loop over the buckets, each looked up and, when it is live, written.\<close>

fun apply_to_live :: "int \<Rightarrow> int option \<Rightarrow> int option \<Rightarrow> string list \<Rightarrow> ledger \<Rightarrow> ledger" where
  "apply_to_live now remaining reset [] L = L"
| "apply_to_live now remaining reset (b # bs) L =
     (case rate_live now b L of
        (None, L1) \<Rightarrow> apply_to_live now remaining reset bs L1
      | (Some w, L1) \<Rightarrow>
          apply_to_live now remaining reset bs
            (L1\<lparr>lg_windows := dset b (rate_apply remaining reset w) (lg_windows L1)\<rparr>))"

definition budget_template :: "int \<Rightarrow> int option \<Rightarrow> int option \<Rightarrow> ledger \<Rightarrow> window" where
  "budget_template now remaining reset L =
     \<lparr>wn_remaining = (case remaining of None \<Rightarrow> lg_limit L | Some n \<Rightarrow> n),
      wn_reset = (case reset of None \<Rightarrow> now + RATE_WINDOW_SECONDS | Some t \<Rightarrow> t)\<rparr>"

definition set_budget :: "int \<Rightarrow> string option \<Rightarrow> int option \<Rightarrow> int option \<Rightarrow> ledger \<Rightarrow> ledger" where
  "set_budget now token remaining reset L =
     (case token of
        Some b \<Rightarrow>
          (case live_or_fresh now b L of (w, L1) \<Rightarrow>
             L1\<lparr>lg_windows := dset b (rate_apply remaining reset w) (lg_windows L1)\<rparr>)
      | None \<Rightarrow>
          (case rate_fresh now L of (w, L1) \<Rightarrow>
             (let L2 = L1\<lparr>lg_windows := dsetdefault ANONYMOUS_BUCKET w (lg_windows L1)\<rparr>;
                  L3 = apply_to_live now remaining reset (dkeys (lg_windows L2)) L2
              in L3\<lparr>lg_template := Some (budget_template now remaining reset L3)\<rparr>)))"

definition rate_clear :: "ledger \<Rightarrow> ledger" where
  "rate_clear L = L\<lparr>lg_windows := [], lg_template := None\<rparr>"

section \<open>Runs of calls\<close>

datatype ledger_call =
    Count string
  | Peek string
  | SetBudget "string option" "int option" "int option"
  | ClearRate

fun ledger_step :: "int \<Rightarrow> ledger_call \<Rightarrow> ledger \<Rightarrow> RateWindow option \<times> ledger" where
  "ledger_step now (Count b) L = map_prod Some id (rate_count now b L)"
| "ledger_step now (Peek b) L = map_prod Some id (rate_peek now b L)"
| "ledger_step now (SetBudget t n r) L = (None, set_budget now t n r L)"
| "ledger_step now ClearRate L = (None, rate_clear L)"

text \<open>The answers of a run, each with the second it was given in.\<close>

fun ledger_run :: "(int \<times> ledger_call) list \<Rightarrow> ledger \<Rightarrow> (int \<times> RateWindow) list \<times> ledger" where
  "ledger_run [] L = ([], L)"
| "ledger_run ((now, c) # cs) L =
     (case ledger_step now c L of (a, L1) \<Rightarrow>
        (case ledger_run cs L1 of (answers, L2) \<Rightarrow>
           ((case a of None \<Rightarrow> [] | Some w \<Rightarrow> [(now, w)]) @ answers, L2)))"

text \<open>Budgets a caller sets stay within the limit.\<close>

fun budget_within :: "int \<Rightarrow> ledger_call \<Rightarrow> bool" where
  "budget_within limit (SetBudget t (Some n) r) \<longleftrightarrow> 0 \<le> n \<and> n \<le> limit"
| "budget_within limit _ \<longleftrightarrow> True"

section \<open>The invariant\<close>

definition window_ok :: "int \<Rightarrow> window \<Rightarrow> bool" where
  "window_ok limit w \<longleftrightarrow> 0 \<le> wn_remaining w \<and> wn_remaining w \<le> limit"

definition ledger_ok :: "ledger \<Rightarrow> bool" where
  "ledger_ok L \<longleftrightarrow> 0 \<le> lg_limit L \<and> (\<forall>b w. dget (lg_windows L) b = Some w \<longrightarrow> window_ok (lg_limit L) w) \<and>
     (\<forall>t. lg_template L = Some t \<longrightarrow> window_ok (lg_limit L) t)"

named_theorems rate_ok \<open>operations of the ledger keep its invariant\<close>

lemma rate_live_ok [rate_ok]:
  assumes "ledger_ok L" and "rate_live now b L = (w, L1)"
  shows "ledger_ok L1 \<and> lg_limit L1 = lg_limit L \<and>
    (\<forall>w'. w = Some w' \<longrightarrow> window_ok (lg_limit L) w' \<and> now < wn_reset w')"
  using assms by (auto simp: rate_live_def ledger_ok_def split: option.splits if_splits)

lemma rate_fresh_ok [rate_ok]:
  assumes "ledger_ok L" and "rate_fresh now L = (w, L1)"
  shows "ledger_ok L1 \<and> lg_limit L1 = lg_limit L \<and> window_ok (lg_limit L) w \<and> now < wn_reset w"
  using assms
  by (auto simp: rate_fresh_def ledger_ok_def window_ok_def RATE_WINDOW_SECONDS_def split: option.splits if_splits)

lemma live_or_fresh_ok [rate_ok]:
  assumes "ledger_ok L" and "live_or_fresh now b L = (w, L1)"
  shows "ledger_ok L1 \<and> lg_limit L1 = lg_limit L \<and> window_ok (lg_limit L) w \<and> now < wn_reset w"
proof -
  obtain v L0 where v: "rate_live now b L = (v, L0)" by (cases "rate_live now b L")
  note L0 = rate_live_ok [OF assms(1) v]
  with assms(2) v rate_fresh_ok [of L0 now w L1] show ?thesis by (cases v) (auto simp: live_or_fresh_def)
qed

lemma ledger_ok_put:
  assumes "ledger_ok L" and "window_ok (lg_limit L) w"
  shows "ledger_ok (L\<lparr>lg_windows := dset b w (lg_windows L)\<rparr>)"
  using assms by (simp add: ledger_ok_def)

lemma ledger_ok_template:
  "ledger_ok L \<Longrightarrow> window_ok (lg_limit L) t \<Longrightarrow> ledger_ok (L\<lparr>lg_template := Some t\<rparr>)"
  by (simp add: ledger_ok_def)

lemma rate_apply_ok:
  assumes "window_ok limit w" and "\<And>n. remaining = Some n \<Longrightarrow> 0 \<le> n \<and> n \<le> limit"
  shows "window_ok limit (rate_apply remaining reset w)"
  using assms by (auto simp: rate_apply_def window_ok_def Let_def split: option.splits)

lemma apply_to_live_ok [rate_ok]:
  assumes "ledger_ok L" and "\<And>n. remaining = Some n \<Longrightarrow> 0 \<le> n \<and> n \<le> lg_limit L"
  shows "ledger_ok (apply_to_live now remaining reset bs L) \<and>
    lg_limit (apply_to_live now remaining reset bs L) = lg_limit L"
  using assms
proof (induction bs arbitrary: L)
  case (Cons b bs)
  obtain w L1 where live: "rate_live now b L = (w, L1)" by (cases "rate_live now b L")
  note L1 = rate_live_ok [OF Cons.prems(1) live]
  show ?case
  proof (cases w)
    case None
    with live L1 Cons show ?thesis by simp
  next
    case (Some w')
    with L1 have "ledger_ok (L1\<lparr>lg_windows := dset b (rate_apply remaining reset w') (lg_windows L1)\<rparr>)"
      using Cons.prems(2) by (intro ledger_ok_put rate_apply_ok) simp_all
    with live L1 Some Cons show ?thesis by simp
  qed
qed simp

lemma rate_count_ok [rate_ok]:
  assumes "ledger_ok L" and "rate_count now b L = (a, L1)"
  shows "ledger_ok L1 \<and> lg_limit L1 = lg_limit L \<and> rw_limit a = lg_limit L \<and>
    0 \<le> rw_remaining a \<and> rw_remaining a \<le> lg_limit L \<and> now < rw_reset a"
proof -
  obtain w L0 where w: "live_or_fresh now b L = (w, L0)" by (cases "live_or_fresh now b L")
  note L0 = live_or_fresh_ok [OF assms(1) w]
  then have spent: "window_ok (lg_limit L) (w\<lparr>wn_remaining := max (wn_remaining w - 1) 0\<rparr>)"
    using assms(1) by (auto simp: window_ok_def ledger_ok_def)
  with L0 have "ledger_ok (L0\<lparr>lg_windows := dset b (w\<lparr>wn_remaining := max (wn_remaining w - 1) 0\<rparr>) (lg_windows L0)\<rparr>)"
    by (intro ledger_ok_put) simp_all
  with assms(2) w L0 spent show ?thesis by (auto simp: rate_count_def rate_answer_def Let_def window_ok_def)
qed

lemma rate_peek_ok [rate_ok]:
  assumes "ledger_ok L" and "rate_peek now b L = (a, L1)"
  shows "ledger_ok L1 \<and> lg_limit L1 = lg_limit L \<and> rw_limit a = lg_limit L \<and>
    0 \<le> rw_remaining a \<and> rw_remaining a \<le> lg_limit L \<and> now < rw_reset a"
proof -
  obtain w L0 where w: "live_or_fresh now b L = (w, L0)" by (cases "live_or_fresh now b L")
  with assms(2) live_or_fresh_ok [OF assms(1) w] show ?thesis
    by (auto simp: rate_peek_def rate_answer_def window_ok_def)
qed

lemma set_budget_ok [rate_ok]:
  assumes "ledger_ok L" and "\<And>n. remaining = Some n \<Longrightarrow> 0 \<le> n \<and> n \<le> lg_limit L"
  shows "ledger_ok (set_budget now token remaining reset L) \<and> lg_limit (set_budget now token remaining reset L) = lg_limit L"
proof (cases token)
  case (Some b)
  obtain w L0 where w: "live_or_fresh now b L = (w, L0)" by (cases "live_or_fresh now b L")
  note L0 = live_or_fresh_ok [OF assms(1) w]
  then have "ledger_ok (L0\<lparr>lg_windows := dset b (rate_apply remaining reset w) (lg_windows L0)\<rparr>)"
    using assms(2) by (intro ledger_ok_put rate_apply_ok) simp_all
  with w L0 Some show ?thesis by (simp add: set_budget_def)
next
  case None
  obtain w L0 where w: "rate_fresh now L = (w, L0)" by (cases "rate_fresh now L")
  note L0 = rate_fresh_ok [OF assms(1) w]
  let ?L2 = "L0\<lparr>lg_windows := dsetdefault ANONYMOUS_BUCKET w (lg_windows L0)\<rparr>"
  let ?L3 = "apply_to_live now remaining reset (dkeys (lg_windows ?L2)) ?L2"
  have "ledger_ok ?L2"
    using L0 ledger_ok_put [of L0 w ANONYMOUS_BUCKET]
    by (cases "dget (lg_windows L0) ANONYMOUS_BUCKET") (auto simp: dsetdefault_def)
  then have L3: "ledger_ok ?L3 \<and> lg_limit ?L3 = lg_limit L"
    using assms(2) L0 apply_to_live_ok [of ?L2 remaining now reset "dkeys (lg_windows ?L2)"] by simp
  have "0 \<le> lg_limit L" using assms(1) by (simp add: ledger_ok_def)
  with L3 have "window_ok (lg_limit ?L3) (budget_template now remaining reset ?L3)"
    using assms(2) by (cases remaining) (simp_all add: window_ok_def budget_template_def)
  with L3 have "ledger_ok (?L3\<lparr>lg_template := Some (budget_template now remaining reset ?L3)\<rparr>)"
    by (simp add: ledger_ok_template)
  with w None L3 show ?thesis by (simp add: set_budget_def Let_def)
qed

lemma ledger_step_ok:
  assumes "ledger_ok L" and "budget_within (lg_limit L) c" and "ledger_step now c L = (a, L1)"
  shows "ledger_ok L1 \<and> lg_limit L1 = lg_limit L \<and>
    (\<forall>w. a = Some w \<longrightarrow> rw_limit w = lg_limit L \<and> 0 \<le> rw_remaining w \<and> rw_remaining w \<le> lg_limit L \<and> now < rw_reset w)"
proof (cases c)
  case (SetBudget t n r)
  with assms show ?thesis using set_budget_ok [of L n now t r] by (cases n) auto
next
  case ClearRate
  with assms show ?thesis by (auto simp: rate_clear_def ledger_ok_def)
next
  case (Count b)
  obtain w L0 where "rate_count now b L = (w, L0)" by (cases "rate_count now b L")
  with Count assms rate_count_ok [OF assms(1) this] show ?thesis by auto
next
  case (Peek b)
  obtain w L0 where "rate_peek now b L = (w, L0)" by (cases "rate_peek now b L")
  with Peek assms rate_peek_ok [OF assms(1) this] show ?thesis by auto
qed

lemma ledger_run_ok:
  assumes "ledger_ok L" and "\<forall>(now, c) \<in> set cs. budget_within (lg_limit L) c" and "ledger_run cs L = (answers, L1)"
  shows "ledger_ok L1 \<and> lg_limit L1 = lg_limit L \<and> (\<forall>(now, w) \<in> set answers.
    rw_limit w = lg_limit L \<and> 0 \<le> rw_remaining w \<and> rw_remaining w \<le> lg_limit L \<and> now < rw_reset w)"
  using assms
proof (induction cs arbitrary: L answers L1)
  case (Cons x cs)
  obtain now c where x: "x = (now, c)" by (cases x)
  obtain a L0 where step: "ledger_step now c L = (a, L0)" by (cases "ledger_step now c L")
  obtain as L2 where rest: "ledger_run cs L0 = (as, L2)" by (cases "ledger_run cs L0")
  have head: "ledger_ok L0 \<and> lg_limit L0 = lg_limit L \<and>
    (\<forall>w. a = Some w \<longrightarrow> rw_limit w = lg_limit L \<and> 0 \<le> rw_remaining w \<and> rw_remaining w \<le> lg_limit L \<and> now < rw_reset w)"
    using ledger_step_ok [OF Cons.prems(1) _ step] Cons.prems(2) x by simp
  with Cons.IH [OF _ _ rest] Cons.prems(2) have tail: "ledger_ok L2 \<and> lg_limit L2 = lg_limit L \<and> (\<forall>(now, w) \<in> set as.
    rw_limit w = lg_limit L \<and> 0 \<le> rw_remaining w \<and> rw_remaining w \<le> lg_limit L \<and> now < rw_reset w)" by simp
  from Cons.prems(3) x step rest have "answers = (case a of None \<Rightarrow> [] | Some w \<Rightarrow> [(now, w)]) @ as" "L1 = L2" by simp_all
  with head tail show ?case by (cases a) auto
qed simp

section \<open>Spending\<close>

text \<open>Within one window: \<open>k\<close> counted answers lower what remains by \<open>k\<close>, down to zero, keep the
  reset, and touch no other bucket.\<close>

fun count_times :: "nat \<Rightarrow> int \<Rightarrow> string \<Rightarrow> ledger \<Rightarrow> ledger" where
  "count_times 0 now b L = L"
| "count_times (Suc k) now b L = count_times k now b (snd (rate_count now b L))"

lemma rate_count_live:
  assumes "dget (lg_windows L) b = Some w" and "now < wn_reset w"
  defines "w' \<equiv> w\<lparr>wn_remaining := max (wn_remaining w - 1) 0\<rparr>"
  shows "rate_count now b L = (rate_answer L w', L\<lparr>lg_windows := dset b w' (lg_windows L)\<rparr>)"
  using assms by (simp add: rate_count_def live_or_fresh_def rate_live_def Let_def)

lemma count_times_live:
  assumes "dget (lg_windows L) b = Some w" and "now < wn_reset w" and "0 \<le> wn_remaining w"
  shows "dget (lg_windows (count_times k now b L)) c =
    (if c = b then Some (w\<lparr>wn_remaining := max (wn_remaining w - int k) 0\<rparr>) else dget (lg_windows L) c)"
  using assms
proof (induction k arbitrary: L w)
  case (Suc k)
  let ?w = "w\<lparr>wn_remaining := max (wn_remaining w - 1) 0\<rparr>"
  let ?L = "L\<lparr>lg_windows := dset b ?w (lg_windows L)\<rparr>"
  have "dget (lg_windows (count_times k now b ?L)) c =
    (if c = b then Some (?w\<lparr>wn_remaining := max (wn_remaining ?w - int k) 0\<rparr>) else dget (lg_windows ?L) c)"
    using Suc.prems by (intro Suc.IH) simp_all
  then show ?case using rate_count_live [OF Suc.prems(1,2)] by (auto simp: max_def)
qed simp

text \<open>A read leaves what a count of the same second answers.\<close>

lemma count_after_peek: "rate_count now b (snd (rate_peek now b L)) = rate_count now b L"
  by (auto simp: rate_count_def rate_peek_def live_or_fresh_def rate_live_def rate_fresh_def Let_def
      split: option.splits prod.splits if_splits)

end
