(* ===== verification/Forge_State.thy ===== *)
theory Forge_State
  imports Forge_Models Forge_Rate
begin

text \<open>
  The state of one forge process and its seams: the in-memory issue and pull-request store
  (\<^verbatim>\<open>src/blizzard_mock/forge/internal/state_store.py\<close>, \<^verbatim>\<open>domain/state.py\<close>), and the git backend as
  the operations of \<^verbatim>\<open>domain/git.py\<close>. Git is not part of this program: its repositories are a
  value of an arbitrary type \<open>'g\<close>, and the record \<open>git_ops\<close> is an argument of every operation that
  uses it; nothing is assumed of it.

  An operation is a function from the forge to an error or a value, and the forge: what it wrote
  before it raised stays written.
\<close>

section \<open>The git seam\<close>

record GitAuthor =
  ga_name :: string
  ga_email :: string
  ga_date :: string

record GitCommit =
  gc_sha :: string
  gc_message :: string
  gc_author :: GitAuthor
  gc_parents :: "string list"

record GitCompareCommit =
  gcc_sha :: string
  gcc_parents :: "string list"

record GitCompareFile =
  gf_filename :: string
  gf_status :: string
  gf_sha :: string
  gf_patch :: "string option"
  gf_previous_filename :: "string option"
  gf_additions :: int
  gf_deletions :: int

record GitCompare =
  gm_status :: string
  gm_ahead_by :: int
  gm_behind_by :: int
  gm_merge_base_sha :: string
  gm_commits :: "GitCompareCommit list"
  gm_files :: "GitCompareFile list"

record 'g git_ops =
  git_get_repo :: "string \<Rightarrow> string \<Rightarrow> 'g \<Rightarrow> forge_error + Repo"
  git_branch_exists :: "Repo \<Rightarrow> string \<Rightarrow> 'g \<Rightarrow> bool"
  git_resolve_ref :: "Repo \<Rightarrow> string \<Rightarrow> 'g \<Rightarrow> forge_error + string"
  git_get_commit :: "Repo \<Rightarrow> string \<Rightarrow> 'g \<Rightarrow> forge_error + GitCommit"
  git_compare :: "Repo \<Rightarrow> string \<Rightarrow> string \<Rightarrow> 'g \<Rightarrow> forge_error + GitCompare"
  git_is_mergeable :: "Repo \<Rightarrow> string \<Rightarrow> string \<Rightarrow> 'g \<Rightarrow> forge_error + bool"
  git_is_ancestor :: "Repo \<Rightarrow> string \<Rightarrow> string \<Rightarrow> 'g \<Rightarrow> forge_error + bool"
  git_create :: "string \<Rightarrow> string \<Rightarrow> (string, string) dict \<Rightarrow> 'g \<Rightarrow> (forge_error + Repo) \<times> 'g"
  git_origin :: "Repo \<Rightarrow> 'g \<Rightarrow> string"
  git_merge :: "Repo \<Rightarrow> string \<Rightarrow> string \<Rightarrow> string \<Rightarrow> 'g \<Rightarrow> (forge_error + string) \<times> 'g"
  git_rebase :: "Repo \<Rightarrow> string \<Rightarrow> string \<Rightarrow> string \<Rightarrow> 'g \<Rightarrow> (forge_error + string) \<times> 'g"
  git_squash :: "Repo \<Rightarrow> string \<Rightarrow> string \<Rightarrow> string \<Rightarrow> 'g \<Rightarrow> (forge_error + string) \<times> 'g"
  git_create_ref :: "Repo \<Rightarrow> string \<Rightarrow> string \<Rightarrow> 'g \<Rightarrow> (forge_error + unit) \<times> 'g"
  git_delete_ref :: "Repo \<Rightarrow> string \<Rightarrow> 'g \<Rightarrow> (forge_error + unit) \<times> 'g"
  git_update_ref :: "Repo \<Rightarrow> string \<Rightarrow> string \<Rightarrow> 'g \<Rightarrow> (forge_error + unit) \<times> 'g"

section \<open>The forge\<close>

record RepoState =
  rs_issues :: "(int, Issue) dict"
  rs_pulls :: "(int, PullRequest) dict"
  rs_labels :: "(string, Label) dict"
  rs_next_number :: int
  rs_next_comment_id :: int

definition empty_repo_state :: RepoState where
  "empty_repo_state = \<lparr>rs_issues = [], rs_pulls = [], rs_labels = [], rs_next_number = 1, rs_next_comment_id = 1\<rparr>"

record 'g forge =
  fg_git :: 'g
  fg_repos :: "(string, RepoState) dict"
  fg_levers :: forge_levers
  fg_checks :: check_runs
  fg_rate :: ledger

definition new_forge :: "'g \<Rightarrow> 'g forge" where
  "new_forge g = \<lparr>fg_git = g, fg_repos = [], fg_levers = [], fg_checks = [],
     fg_rate = InMemoryRateLedger DEFAULT_RATE_LIMIT\<rparr>"

text \<open>A repository no write has touched reads as the empty one; \<^verbatim>\<open>_repo\<close> also stores that empty
  state, which no operation tells apart.\<close>

definition repo_state :: "'g forge \<Rightarrow> string \<Rightarrow> RepoState" where
  "repo_state f repo = dget_or (fg_repos f) repo empty_repo_state"

definition put_repo_state :: "string \<Rightarrow> RepoState \<Rightarrow> 'g forge \<Rightarrow> 'g forge" where
  "put_repo_state repo s f = f\<lparr>fg_repos := dset repo s (fg_repos f)\<rparr>"

section \<open>Reads of the store\<close>

definition state_get_issue :: "'g forge \<Rightarrow> string \<Rightarrow> int \<Rightarrow> Issue option" where
  "state_get_issue f repo number = dget (rs_issues (repo_state f repo)) number"

definition in_state :: "string option \<Rightarrow> forge_state \<Rightarrow> bool" where
  "in_state state s \<longleftrightarrow> state = None \<or> state = Some ''all'' \<or> state = Some (forge_state_value s)"

definition state_list_issues :: "'g forge \<Rightarrow> string \<Rightarrow> string option \<Rightarrow> string list option \<Rightarrow> Issue list" where
  "state_list_issues f repo state labels =
     (let issues = filter (\<lambda>i. in_state state (is_state i)) (sort_key is_number (dvals (rs_issues (repo_state f repo))))
      in case labels of None \<Rightarrow> issues | Some ls \<Rightarrow> filter (\<lambda>i. set ls \<subseteq> set (is_labels i)) issues)"

definition state_get_pull :: "'g forge \<Rightarrow> string \<Rightarrow> int \<Rightarrow> PullRequest option" where
  "state_get_pull f repo number = dget (rs_pulls (repo_state f repo)) number"

definition state_list_pulls :: "'g forge \<Rightarrow> string \<Rightarrow> string option \<Rightarrow> PullRequest list" where
  "state_list_pulls f repo state =
     filter (\<lambda>p. in_state state (pl_state p)) (sort_key pl_number (dvals (rs_pulls (repo_state f repo))))"

definition state_get_label :: "'g forge \<Rightarrow> string \<Rightarrow> string \<Rightarrow> Label option" where
  "state_get_label f repo name = dget (rs_labels (repo_state f repo)) name"

section \<open>Writes of the store\<close>

definition next_number :: "string \<Rightarrow> 'g forge \<Rightarrow> int \<times> 'g forge" where
  "next_number repo f =
     (let s = repo_state f repo; n = rs_next_number s in (n, put_repo_state repo (s\<lparr>rs_next_number := n + 1\<rparr>) f))"

definition next_comment_id :: "string \<Rightarrow> 'g forge \<Rightarrow> int \<times> 'g forge" where
  "next_comment_id repo f =
     (let s = repo_state f repo; n = rs_next_comment_id s
      in (n, put_repo_state repo (s\<lparr>rs_next_comment_id := n + 1\<rparr>) f))"

definition put_issue :: "string \<Rightarrow> Issue \<Rightarrow> 'g forge \<Rightarrow> 'g forge" where
  "put_issue repo i f =
     (let s = repo_state f repo in put_repo_state repo (s\<lparr>rs_issues := dset (is_number i) i (rs_issues s)\<rparr>) f)"

definition put_pull :: "string \<Rightarrow> PullRequest \<Rightarrow> 'g forge \<Rightarrow> 'g forge" where
  "put_pull repo p f =
     (let s = repo_state f repo in put_repo_state repo (s\<lparr>rs_pulls := dset (pl_number p) p (rs_pulls s)\<rparr>) f)"

definition put_label :: "string \<Rightarrow> Label \<Rightarrow> 'g forge \<Rightarrow> 'g forge" where
  "put_label repo l f =
     (let s = repo_state f repo in put_repo_state repo (s\<lparr>rs_labels := dset (lb_name l) l (rs_labels s)\<rparr>) f)"

text \<open>The callers have checked that the issue or the pull request is there.\<close>

definition add_issue_comment :: "string \<Rightarrow> int \<Rightarrow> Comment \<Rightarrow> 'g forge \<Rightarrow> 'g forge" where
  "add_issue_comment repo number c f =
     (case state_get_issue f repo number of
        None \<Rightarrow> f
      | Some i \<Rightarrow> put_issue repo (i\<lparr>is_comments := is_comments i @ [c]\<rparr>) f)"

definition add_pull_comment :: "string \<Rightarrow> int \<Rightarrow> Comment \<Rightarrow> 'g forge \<Rightarrow> 'g forge" where
  "add_pull_comment repo number c f =
     (case state_get_pull f repo number of
        None \<Rightarrow> f
      | Some p \<Rightarrow> put_pull repo (p\<lparr>pl_comments := pl_comments p @ [c]\<rparr>) f)"

section \<open>Operations that may raise\<close>

type_synonym ('g, 'a) fop = "'g forge \<Rightarrow> (forge_error + 'a) \<times> 'g forge"

definition fgive :: "'a \<Rightarrow> ('g, 'a) fop" where
  "fgive x f = (Inr x, f)"

definition fraise :: "forge_error \<Rightarrow> ('g, 'a) fop" where
  "fraise e f = (Inl e, f)"

definition fbind :: "('g, 'a) fop \<Rightarrow> ('a \<Rightarrow> ('g, 'b) fop) \<Rightarrow> ('g, 'b) fop" where
  "fbind m k f = (case m f of (Inl e, f1) \<Rightarrow> (Inl e, f1) | (Inr x, f1) \<Rightarrow> k x f1)"

definition fread :: "('g forge \<Rightarrow> forge_error + 'a) \<Rightarrow> ('g, 'a) fop" where
  "fread r f = (r f, f)"

definition fwrite :: "('g forge \<Rightarrow> 'g forge) \<Rightarrow> ('g, unit) fop" where
  "fwrite w f = (Inr (), w f)"

definition fstate :: "('g forge \<Rightarrow> 'a \<times> 'g forge) \<Rightarrow> ('g, 'a) fop" where
  "fstate s f = (case s f of (x, f1) \<Rightarrow> (Inr x, f1))"

text \<open>A call that writes the repositories.\<close>

definition fgit :: "('g \<Rightarrow> (forge_error + 'a) \<times> 'g) \<Rightarrow> ('g, 'a) fop" where
  "fgit m f = (case m (fg_git f) of (r, g) \<Rightarrow> (r, f\<lparr>fg_git := g\<rparr>))"

text \<open>\<^verbatim>\<open>if c: raise e\<close>, and a loop over a list.\<close>

definition frefuse :: "bool \<Rightarrow> forge_error \<Rightarrow> ('g, unit) fop" where
  "frefuse c e = (if c then fraise e else fgive ())"

primrec feach :: "('a \<Rightarrow> ('g, unit) fop) \<Rightarrow> 'a list \<Rightarrow> ('g, unit) fop" where
  "feach k [] = fgive ()"
| "feach k (x # xs) = fbind (k x) (\<lambda>_. feach k xs)"

primrec fmap :: "('a \<Rightarrow> ('g, 'b) fop) \<Rightarrow> 'a list \<Rightarrow> ('g, 'b list) fop" where
  "fmap k [] = fgive []"
| "fmap k (x # xs) = fbind (k x) (\<lambda>y. fbind (fmap k xs) (\<lambda>ys. fgive (y # ys)))"

end
