(* ===== verification/Forge_Service.thy ===== *)
theory Forge_Service
  imports Forge_State Matching "HOL-Library.Word" "HOL-Library.Char_ord" "HOL-Library.List_Lexorder"
    "HOL-Library.Product_Lexorder"
begin

text \<open>
  The business rules of the forge (\<^verbatim>\<open>src/blizzard_mock/forge/domain/service.py\<close>), in the order of
  the source: repositories, issues, labels, pull requests with their merges and their live
  mergeability, levers, check runs, refs. The clock's reading is an argument \<open>now\<close>, taken once per
  call. \<^verbatim>\<open>hash\<close>, whose value Python draws anew in every process, is the argument \<open>hash\<close>.
\<close>

section \<open>Repositories\<close>

definition is_alnum :: "char \<Rightarrow> bool" where
  "is_alnum c \<longleftrightarrow> (let n = (of_char c :: nat) in 48 \<le> n \<and> n \<le> 57 \<or> 65 \<le> n \<and> n \<le> 90 \<or> 97 \<le> n \<and> n \<le> 122)"

text \<open>What \<^verbatim>\<open>_OWNER_NAME\<close> repeats after the first character: a letter or digit, or a hyphen with a
  letter or digit after it.\<close>

fun owner_rest :: "string \<Rightarrow> bool" where
  "owner_rest [] \<longleftrightarrow> True"
| "owner_rest (c # cs) \<longleftrightarrow>
     (is_alnum c \<or> c = CHR ''-'' \<and> cs \<noteq> [] \<and> is_alnum (hd cs)) \<and> owner_rest cs"

definition owner_name_ok :: "string \<Rightarrow> bool" where
  "owner_name_ok s \<longleftrightarrow> s \<noteq> [] \<and> is_alnum (hd s) \<and> owner_rest (tl s) \<and> length (tl s) \<le> 38"

definition repo_name_ok :: "string \<Rightarrow> bool" where
  "repo_name_ok s \<longleftrightarrow> s \<noteq> [] \<and> length s \<le> 100 \<and> (\<forall>c \<in> set s. is_alnum c \<or> c \<in> set ''._-'')"

definition ends_with :: "string \<Rightarrow> string \<Rightarrow> bool" where
  "ends_with p s \<longleftrightarrow> starts_with (rev p) (rev s)"

definition get_repo :: "'g git_ops \<Rightarrow> string \<Rightarrow> string \<Rightarrow> ('g, Repo) fop" where
  "get_repo G owner name = fread (\<lambda>f. git_get_repo G owner name (fg_git f))"

definition create_repository :: "'g git_ops \<Rightarrow> string \<Rightarrow> string \<Rightarrow> (string, string) dict \<Rightarrow> ('g, Repo) fop" where
  "create_repository G owner name files =
     (if \<not> owner_name_ok owner then fraise (ValidationError (''invalid owner: '' @ owner))
      else if \<not> repo_name_ok name \<or> name = ''.'' \<or> name = ''..'' \<or> ends_with ''.git'' name
      then fraise (ValidationError (''invalid repository name: '' @ name))
      else fgit (git_create G owner name files))"

section \<open>Issues\<close>

definition list_issues :: "'g git_ops \<Rightarrow> string \<Rightarrow> string \<Rightarrow> string option \<Rightarrow> string list option \<Rightarrow> ('g, Issue list) fop" where
  "list_issues G owner name state labels =
     fbind (get_repo G owner name) (\<lambda>repo. fread (\<lambda>f. Inr (state_list_issues f (full_name repo) state labels)))"

definition issue_missing :: "int \<Rightarrow> Repo \<Rightarrow> forge_error" where
  "issue_missing number repo = IssueNotFound (''issue #'' @ show_int number @ '' not found in '' @ full_name repo)"

definition get_issue :: "'g git_ops \<Rightarrow> string \<Rightarrow> string \<Rightarrow> int \<Rightarrow> ('g, Issue) fop" where
  "get_issue G owner name number =
     fbind (get_repo G owner name) (\<lambda>repo.
     fread (\<lambda>f. case state_get_issue f (full_name repo) number of
       None \<Rightarrow> Inl (issue_missing number repo)
     | Some i \<Rightarrow> Inr i))"

definition new_issue :: "instant \<Rightarrow> int \<Rightarrow> string \<Rightarrow> string \<Rightarrow> string \<Rightarrow> string list \<Rightarrow> Issue" where
  "new_issue now number title body user labels =
     \<lparr>is_number = number, is_title = title, is_body = body, is_state = FS_OPEN, is_state_reason = None, is_user = user,
      is_labels = labels, is_created_at = now, is_updated_at = now, is_comments = []\<rparr>"

definition create_issue ::
  "'g git_ops \<Rightarrow> instant \<Rightarrow> string \<Rightarrow> string \<Rightarrow> string \<Rightarrow> string \<Rightarrow> string \<Rightarrow> string list \<Rightarrow> ('g, Issue) fop" where
  "create_issue G now owner name title body user labels =
     fbind (get_repo G owner name) (\<lambda>repo.
     fbind (frefuse (strip title = []) (ValidationError (''issue title can'' @ CHR 0x27 # ''t be blank''))) (\<lambda>_.
     fbind (fstate (next_number (full_name repo))) (\<lambda>number.
     (let issue = new_issue now number title body user labels
      in fbind (fwrite (put_issue (full_name repo) issue)) (\<lambda>_. fgive issue)))))"

definition list_issue_comments :: "'g git_ops \<Rightarrow> string \<Rightarrow> string \<Rightarrow> int \<Rightarrow> ('g, Comment list) fop" where
  "list_issue_comments G owner name number =
     fbind (get_issue G owner name number) (\<lambda>i. fgive (is_comments i))"

definition new_comment :: "instant \<Rightarrow> string \<Rightarrow> string \<Rightarrow> string \<Rightarrow> ('g, Comment) fop" where
  "new_comment now repo body user =
     fbind (fstate (next_comment_id repo)) (\<lambda>cid.
     fgive \<lparr>cm_id = cid, cm_body = body, cm_user = user, cm_created_at = now, cm_updated_at = now\<rparr>)"

definition create_issue_comment ::
  "'g git_ops \<Rightarrow> instant \<Rightarrow> string \<Rightarrow> string \<Rightarrow> int \<Rightarrow> string \<Rightarrow> string \<Rightarrow> ('g, Comment) fop" where
  "create_issue_comment G now owner name number body user =
     fbind (get_repo G owner name) (\<lambda>repo.
     fbind (fread (\<lambda>f.
       if state_get_issue f (full_name repo) number = None \<and> state_get_pull f (full_name repo) number = None
       then Inl (issue_missing number repo) else Inr ())) (\<lambda>_.
     fbind (new_comment now (full_name repo) body user) (\<lambda>comment.
     fbind (fwrite (\<lambda>f.
       if state_get_issue f (full_name repo) number \<noteq> None
       then add_issue_comment (full_name repo) number comment f
       else add_pull_comment (full_name repo) number comment f)) (\<lambda>_. fgive comment))))"

section \<open>Labels\<close>

definition list_labels :: "'g git_ops \<Rightarrow> string \<Rightarrow> string \<Rightarrow> ('g, Label list) fop" where
  "list_labels G owner name =
     fbind (get_repo G owner name) (\<lambda>repo.
     fread (\<lambda>f. Inr (sort_key lb_name (dvals (rs_labels (repo_state f (full_name repo)))))))"

definition create_label :: "'g git_ops \<Rightarrow> string \<Rightarrow> string \<Rightarrow> string \<Rightarrow> ('g, Label) fop" where
  "create_label G owner name label_name =
     fbind (get_repo G owner name) (\<lambda>repo.
     fbind (fread (\<lambda>f.
       if state_get_label f (full_name repo) label_name \<noteq> None
       then Inl (LabelAlreadyExists (''label '' @ py_repr label_name @ '' already exists in '' @ full_name repo))
       else Inr ())) (\<lambda>_.
     fbind (fwrite (put_label (full_name repo) \<lparr>lb_name = label_name\<rparr>)) (\<lambda>_. fgive \<lparr>lb_name = label_name\<rparr>)))"

definition add_issue_labels :: "'g git_ops \<Rightarrow> string \<Rightarrow> string \<Rightarrow> int \<Rightarrow> string list \<Rightarrow> ('g, Issue) fop" where
  "add_issue_labels G owner name number labels =
     fbind (get_repo G owner name) (\<lambda>repo.
     fbind (get_issue G owner name number) (\<lambda>issue.
     (let issue' = issue\<lparr>is_labels := fold (\<lambda>l ls. if l \<in> set ls then ls else ls @ [l]) labels (is_labels issue)\<rparr>
      in fbind (fwrite (put_issue (full_name repo) issue')) (\<lambda>_. fgive issue'))))"

definition remove_issue_label :: "'g git_ops \<Rightarrow> string \<Rightarrow> string \<Rightarrow> int \<Rightarrow> string \<Rightarrow> ('g, Issue) fop" where
  "remove_issue_label G owner name number label_name =
     fbind (get_repo G owner name) (\<lambda>repo.
     fbind (get_issue G owner name number) (\<lambda>issue.
     if label_name \<notin> set (is_labels issue)
     then fraise (LabelNotFound (''label '' @ py_repr label_name @ '' not set on issue #'' @ show_int number
            @ '' in '' @ full_name repo))
     else
       (let issue' = issue\<lparr>is_labels := remove1 label_name (is_labels issue)\<rparr>
        in fbind (fwrite (put_issue (full_name repo) issue')) (\<lambda>_. fgive issue'))))"

definition set_issue_state ::
  "'g git_ops \<Rightarrow> instant \<Rightarrow> string \<Rightarrow> string \<Rightarrow> int \<Rightarrow> string \<Rightarrow> string option \<Rightarrow> ('g, Issue) fop" where
  "set_issue_state G now owner name number state state_reason =
     (case forge_state_of state of
        None \<Rightarrow> fraise (ValidationError (''invalid state: '' @ state))
      | Some st \<Rightarrow>
          fbind (get_repo G owner name) (\<lambda>repo.
          fbind (get_issue G owner name number) (\<lambda>issue.
          (let issue' = issue\<lparr>is_state := st, is_state_reason := state_reason, is_updated_at := now\<rparr>
           in fbind (fwrite (put_issue (full_name repo) issue')) (\<lambda>_. fgive issue')))))"

section \<open>Mergeability\<close>

definition armed_for :: "LeverKind \<Rightarrow> Repo \<Rightarrow> int option \<Rightarrow> 'g forge \<Rightarrow> bool" where
  "armed_for kind repo number f \<longleftrightarrow> store_find kind (Some (full_name repo)) number (fg_levers f) \<noteq> None"

definition closed_pull :: "PullRequest \<Rightarrow> bool" where
  "closed_pull p \<longleftrightarrow> pl_merged p \<or> pl_state p = FS_CLOSED"

definition forced_state :: "Repo \<Rightarrow> PullRequest \<Rightarrow> 'g forge \<Rightarrow> MergeableState option" where
  "forced_state repo p f =
     Option.bind (store_find LK_MERGEABLE_STATE (Some (full_name repo)) (Some (pl_number p)) (fg_levers f)) gl_state"

definition mergeability :: "'g git_ops \<Rightarrow> Repo \<Rightarrow> PullRequest \<Rightarrow> 'g forge \<Rightarrow> forge_error + (bool option \<times> MergeableState)" where
  "mergeability G repo p f =
     (let n = Some (pl_number p) in
      if closed_pull p then Inr (None, MS_UNKNOWN)
      else if armed_for LK_MERGE_CONFLICT repo n f then Inr (Some False, MS_DIRTY)
      else case forced_state repo p f of
        Some st \<Rightarrow> Inr (Some True, st)
      | None \<Rightarrow>
          if armed_for LK_STALE_BRANCH repo n f then Inr (Some True, MS_BEHIND)
          else if armed_for LK_CHECKS_PENDING repo n f then Inr (Some True, MS_BLOCKED)
          else if armed_for LK_CHECKS_FAILED repo n f then Inr (Some True, MS_BLOCKED)
          else if armed_for LK_CHECKS_STARTUP_FAILURE repo n f then Inr (Some True, MS_BLOCKED)
          else case git_is_mergeable G repo (pl_base p) (pl_head p) (fg_git f) of
            Inl e \<Rightarrow> Inl e
          | Inr ok \<Rightarrow> Inr (if ok then (Some True, MS_CLEAN) else (Some False, MS_DIRTY)))"

record PullView =
  pv_pull :: PullRequest
  pv_head_sha :: string
  pv_base_sha :: string
  pv_mergeable :: "bool option"
  pv_mergeable_state :: MergeableState

definition resolve :: "'g git_ops \<Rightarrow> Repo \<Rightarrow> string \<Rightarrow> ('g, string) fop" where
  "resolve G repo ref = fread (\<lambda>f. git_resolve_ref G repo ref (fg_git f))"

definition view_head :: "'g git_ops \<Rightarrow> Repo \<Rightarrow> PullRequest \<Rightarrow> 'g forge \<Rightarrow> forge_error + string" where
  "view_head G repo p f =
     (case (pl_state p, pl_closed_head_sha p) of
        (FS_CLOSED, Some sha) \<Rightarrow> Inr sha
      | _ \<Rightarrow> git_resolve_ref G repo (pl_head p) (fg_git f))"

definition view_base :: "'g git_ops \<Rightarrow> Repo \<Rightarrow> PullRequest \<Rightarrow> 'g forge \<Rightarrow> forge_error + string" where
  "view_base G repo p f =
     (case git_resolve_ref G repo (pl_base p) (fg_git f) of
        Inl (BranchNotFound m) \<Rightarrow>
          (case pl_closed_base_sha p of None \<Rightarrow> Inl (BranchNotFound m) | Some sha \<Rightarrow> Inr sha)
      | r \<Rightarrow> r)"

definition view :: "'g git_ops \<Rightarrow> Repo \<Rightarrow> PullRequest \<Rightarrow> ('g, PullView) fop" where
  "view G repo p =
     fbind (fread (view_head G repo p)) (\<lambda>head_sha.
     fbind (fread (view_base G repo p)) (\<lambda>base_sha.
     fbind (fread (mergeability G repo p)) (\<lambda>(ok, st).
     fgive \<lparr>pv_pull = p, pv_head_sha = head_sha, pv_base_sha = base_sha, pv_mergeable = ok, pv_mergeable_state = st\<rparr>)))"

section \<open>Listing pull requests\<close>

definition MAX_PER_PAGE :: int where "MAX_PER_PAGE = 100"

record PullPage =
  pp_views :: "PullView list"
  pp_page :: int
  pp_per_page :: "int option"
  pp_total :: int

definition last_page :: "int option \<Rightarrow> int \<Rightarrow> int" where
  "last_page per_page n = (case per_page of None \<Rightarrow> 1 | Some k \<Rightarrow> max (- ((- n) div k)) 1)"

text \<open>\<^verbatim>\<open>head.rpartition(":")\<close>: the part before the last colon, when there is one, and the part after.\<close>

definition rpartition_colon :: "string \<Rightarrow> string option \<times> string" where
  "rpartition_colon s =
     (let tail = rev (takeWhile (\<lambda>c. c \<noteq> CHR '':'') (rev s))
      in (if CHR '':'' \<in> set s then Some (take (length s - length tail - 1) s) else None, tail))"

definition matching_pulls ::
  "Repo \<Rightarrow> string option \<Rightarrow> string option \<Rightarrow> PullRequest list \<Rightarrow> PullRequest list" where
  "matching_pulls repo base head pulls =
     (let based = (case base of None \<Rightarrow> pulls | Some b \<Rightarrow> filter (\<lambda>p. pl_base p = b) pulls)
      in case head of
        None \<Rightarrow> based
      | Some h \<Rightarrow>
          (case rpartition_colon h of
             (Some owner, branch) \<Rightarrow>
               if owner \<noteq> rp_owner repo then [] else filter (\<lambda>p. pl_head p = branch) based
           | (None, branch) \<Rightarrow> filter (\<lambda>p. pl_head p = branch) based))"

definition descending :: "string option \<Rightarrow> string option \<Rightarrow> bool" where
  "descending by_sort direction =
     (if truthy direction then direction = Some ''desc'' else by_sort = None \<or> by_sort = Some ''created'')"

definition pull_key :: "string option \<Rightarrow> PullRequest \<Rightarrow> instant \<times> int" where
  "pull_key by_sort p = (if by_sort = Some ''updated'' then pl_updated_at p else pl_created_at p, pl_number p)"

definition py_sorted :: "('a \<Rightarrow> 'k::linorder) \<Rightarrow> bool \<Rightarrow> 'a list \<Rightarrow> 'a list" where
  "py_sorted key reverse xs = (if reverse then rev (sort_key key (rev xs)) else sort_key key xs)"

definition effective_per_page :: "int option \<Rightarrow> int option" where
  "effective_per_page per_page = map_option (\<lambda>k. min (max k 1) MAX_PER_PAGE) per_page"

text \<open>The slice of a page; \<open>per_page\<close> is the effective one and \<open>page\<close> at least one.\<close>

definition page_slice :: "int \<Rightarrow> int option \<Rightarrow> 'a list \<Rightarrow> 'a list" where
  "page_slice page per_page xs =
     (case per_page of
        None \<Rightarrow> if page = 1 then xs else []
      | Some k \<Rightarrow> take (nat k) (drop (nat ((page - 1) * k)) xs))"

definition selected_pulls ::
  "Repo \<Rightarrow> string option \<Rightarrow> string option \<Rightarrow> string option \<Rightarrow> string option \<Rightarrow> string option \<Rightarrow> 'g forge \<Rightarrow> PullRequest list" where
  "selected_pulls repo state base head by_sort direction f =
     py_sorted (pull_key by_sort) (descending by_sort direction)
       (matching_pulls repo base head (state_list_pulls f (full_name repo) state))"

definition list_pulls ::
  "'g git_ops \<Rightarrow> string \<Rightarrow> string \<Rightarrow> string option \<Rightarrow> string option \<Rightarrow> string option \<Rightarrow> string option \<Rightarrow> string option
   \<Rightarrow> int \<Rightarrow> int option \<Rightarrow> ('g, PullPage) fop" where
  "list_pulls G owner name state base head by_sort direction page per_page =
     fbind (get_repo G owner name) (\<lambda>repo.
     fbind (frefuse (by_sort \<notin> {None, Some ''created'', Some ''updated''})
       (ValidationError (''invalid sort: '' @ str_or by_sort []))) (\<lambda>_.
     fbind (frefuse (direction \<notin> {None, Some ''asc'', Some ''desc''})
       (ValidationError (''invalid direction: '' @ str_or direction []))) (\<lambda>_.
     fbind (fread (\<lambda>f. Inr (selected_pulls repo state base head by_sort direction f))) (\<lambda>pulls.
     (let pg = max page 1; k = effective_per_page per_page
      in fbind (fmap (view G repo) (page_slice pg k pulls)) (\<lambda>views.
         fgive \<lparr>pp_views = views, pp_page = pg, pp_per_page = k, pp_total = int (length pulls)\<rparr>))))))"

section \<open>Pull requests\<close>

definition require_pull :: "Repo \<Rightarrow> int \<Rightarrow> ('g, PullRequest) fop" where
  "require_pull repo number =
     fread (\<lambda>f. case state_get_pull f (full_name repo) number of
       None \<Rightarrow> Inl (PullNotFound (''pull request #'' @ show_int number @ '' not found in '' @ full_name repo))
     | Some p \<Rightarrow> Inr p)"

definition get_pull :: "'g git_ops \<Rightarrow> string \<Rightarrow> string \<Rightarrow> int \<Rightarrow> ('g, PullView) fop" where
  "get_pull G owner name number =
     fbind (get_repo G owner name) (\<lambda>repo. fbind (require_pull repo number) (view G repo))"

definition new_pull :: "instant \<Rightarrow> int \<Rightarrow> string \<Rightarrow> string \<Rightarrow> string \<Rightarrow> string \<Rightarrow> string \<Rightarrow> PullRequest" where
  "new_pull now number title body head base user =
     \<lparr>pl_number = number, pl_title = title, pl_body = body, pl_state = FS_OPEN, pl_user = user, pl_head = head,
      pl_base = base, pl_created_at = now, pl_updated_at = now, pl_comments = [], pl_merged = False,
      pl_merged_at = None, pl_merged_by = None, pl_merge_commit_sha = None, pl_closed_head_sha = None,
      pl_closed_base_sha = None\<rparr>"

definition create_pull_checks :: "'g git_ops \<Rightarrow> string \<Rightarrow> Repo \<Rightarrow> string \<Rightarrow> string \<Rightarrow> 'g forge \<Rightarrow> forge_error + unit" where
  "create_pull_checks G owner repo head base f =
     (if head = [] \<or> base = [] then Inl (ValidationError ''both head and base are required'')
      else if \<not> git_branch_exists G repo head (fg_git f)
      then Inl (ValidationError (''head ref does not exist: '' @ head))
      else if \<not> git_branch_exists G repo base (fg_git f)
      then Inl (ValidationError (''base ref does not exist: '' @ base))
      else if list_ex (\<lambda>p. pl_head p = head \<and> pl_base p = base) (state_list_pulls f (full_name repo) (Some ''open''))
      then Inl (ValidationError (''A pull request already exists for '' @ owner @ '':'' @ head @ ''.''))
      else Inr ())"

definition create_pull ::
  "'g git_ops \<Rightarrow> instant \<Rightarrow> string \<Rightarrow> string \<Rightarrow> string \<Rightarrow> string \<Rightarrow> string \<Rightarrow> string \<Rightarrow> string \<Rightarrow> ('g, PullView) fop" where
  "create_pull G now owner name title body head base user =
     fbind (get_repo G owner name) (\<lambda>repo.
     fbind (fread (create_pull_checks G owner repo head base)) (\<lambda>_.
     fbind (fstate (next_number (full_name repo))) (\<lambda>number.
     (let p = new_pull now number title body head base user
      in fbind (fwrite (put_pull (full_name repo) p)) (\<lambda>_. view G repo p)))))"

definition not_mergeable :: "int \<Rightarrow> forge_error" where
  "not_mergeable number = NotMergeable (''pull request #'' @ show_int number @ '' is not mergeable'')"

definition head_mismatch :: forge_error where
  "head_mismatch = HeadMismatch ''Head branch was modified. Review and try the merge again.''"

text \<open>The refusals of a merge, in their order, that come before git is asked.\<close>

definition refuse_merge :: "Repo \<Rightarrow> PullRequest \<Rightarrow> int \<Rightarrow> MergeMethod \<Rightarrow> 'g forge \<Rightarrow> forge_error + unit" where
  "refuse_merge repo p number method f =
     (if closed_pull p then Inl (not_mergeable number)
      else if method = MM_MERGE \<and> armed_for LK_MERGE_COMMITS_DISALLOWED repo None f
      then Inl (MergeMethodNotAllowed ''Merge commits are not allowed on this repository'')
      else case store_find LK_MERGE_REJECTED (Some (full_name repo)) (Some number) (fg_levers f) of
        Some l \<Rightarrow> Inl (MergeRejected (str_or (gl_message l) ''merge was rejected by branch policy''))
      | None \<Rightarrow>
          if armed_for LK_MERGE_CONFLICT repo (Some number) f then Inl (not_mergeable number) else Inr ())"

definition land :: "'g git_ops \<Rightarrow> Repo \<Rightarrow> PullRequest \<Rightarrow> MergeMethod \<Rightarrow> string option \<Rightarrow> ('g, string) fop" where
  "land G repo p method message =
     (let merge_message = str_or message (''Merge pull request #'' @ show_int (pl_number p) @ '' from '' @ pl_head p)
      in case method of
        MM_SQUASH \<Rightarrow> fgit (git_squash G repo (pl_base p) (pl_head p)
          (str_or message (pl_title p @ '' (#'' @ show_int (pl_number p) @ '')'')))
      | MM_REBASE \<Rightarrow> fgit (git_rebase G repo (pl_base p) (pl_head p) merge_message)
      | MM_MERGE \<Rightarrow> fgit (git_merge G repo (pl_base p) (pl_head p) merge_message))"

definition merged_pull :: "instant \<Rightarrow> string \<Rightarrow> string \<Rightarrow> string \<Rightarrow> PullRequest \<Rightarrow> PullRequest" where
  "merged_pull now sha merged_by head_sha p =
     p\<lparr>pl_merged := True, pl_merged_at := Some now, pl_merged_by := Some merged_by, pl_merge_commit_sha := Some sha,
       pl_closed_head_sha := Some head_sha, pl_closed_base_sha := Some sha, pl_state := FS_CLOSED, pl_updated_at := now\<rparr>"

definition record_merge :: "instant \<Rightarrow> Repo \<Rightarrow> PullRequest \<Rightarrow> string \<Rightarrow> string \<Rightarrow> string \<Rightarrow> ('g, unit) fop" where
  "record_merge now repo p sha merged_by head_sha =
     fwrite (put_pull (full_name repo) (merged_pull now sha merged_by head_sha p))"

record MergeResult =
  mr_sha :: string
  mr_merged :: bool
  mr_message :: string

definition merge_pull ::
  "'g git_ops \<Rightarrow> instant \<Rightarrow> string \<Rightarrow> string \<Rightarrow> int \<Rightarrow> MergeMethod \<Rightarrow> string option \<Rightarrow> string option \<Rightarrow> string
   \<Rightarrow> ('g, MergeResult) fop" where
  "merge_pull G now owner name number method message sha user =
     fbind (get_repo G owner name) (\<lambda>repo.
     fbind (require_pull repo number) (\<lambda>p.
     fbind (fread (refuse_merge repo p number method)) (\<lambda>_.
     fbind (resolve G repo (pl_head p)) (\<lambda>head_sha.
     fbind (frefuse (sha \<noteq> None \<and> sha \<noteq> Some head_sha) head_mismatch) (\<lambda>_.
     fbind (land G repo p method message) (\<lambda>new_sha.
     fbind (record_merge now repo p new_sha user head_sha) (\<lambda>_.
     fgive \<lparr>mr_sha = new_sha, mr_merged = True, mr_message = ''Pull Request successfully merged''\<rparr>)))))))"

definition matching_levers :: "LeverKind \<Rightarrow> Repo \<Rightarrow> 'g forge \<Rightarrow> Lever list" where
  "matching_levers kind repo f =
     filter (\<lambda>l. gl_kind l = kind \<and> lever_matches l (Some (full_name repo)) None) (store_active (fg_levers f))"

definition rule_violation :: "string \<Rightarrow> string \<Rightarrow> forge_error" where
  "rule_violation branch pattern =
     RuleViolation (''Repository rule violations found'' @ [CHR 0x0A, CHR 0x0A] @ ''Branch '' @ branch
       @ '' is covered by the rule '' @ pattern @ ''.'')"

fun ruleset_refusal :: "string \<Rightarrow> Lever list \<Rightarrow> forge_error + unit" where
  "ruleset_refusal branch [] = Inr ()"
| "ruleset_refusal branch (l # ls) =
     (case gl_pattern l of
        Some pattern \<Rightarrow>
          if fnmatchcase branch pattern then Inl (rule_violation branch pattern) else ruleset_refusal branch ls
      | None \<Rightarrow> ruleset_refusal branch ls)"

definition refuse_by_ruleset :: "Repo \<Rightarrow> string \<Rightarrow> ('g, unit) fop" where
  "refuse_by_ruleset repo branch = fread (\<lambda>f. ruleset_refusal branch (matching_levers LK_RULESET repo f))"

text \<open>\<^verbatim>\<open>try: m; except BranchNotFound: raise e\<close>, and the same for \<^verbatim>\<open>NotMergeable\<close>.\<close>

definition on_branch_missing :: "forge_error \<Rightarrow> ('g, 'a) fop \<Rightarrow> ('g, 'a) fop" where
  "on_branch_missing e m f = (case m f of (Inl (BranchNotFound _), f1) \<Rightarrow> (Inl e, f1) | r \<Rightarrow> r)"

definition on_not_mergeable :: "forge_error \<Rightarrow> ('g, 'a) fop \<Rightarrow> ('g, 'a) fop" where
  "on_not_mergeable e m f = (case m f of (Inl (NotMergeable _), f1) \<Rightarrow> (Inl e, f1) | r \<Rightarrow> r)"

definition quoted :: "string \<Rightarrow> string" where
  "quoted s = CHR 0x27 # s @ [CHR 0x27]"

definition merge_branches ::
  "'g git_ops \<Rightarrow> string \<Rightarrow> string \<Rightarrow> string \<Rightarrow> string \<Rightarrow> string option \<Rightarrow> ('g, GitCommit option) fop" where
  "merge_branches G owner name base head message =
     fbind (get_repo G owner name) (\<lambda>repo.
     fbind (frefuse (base = [] \<or> head = []) (ValidationError ''both base and head are required'')) (\<lambda>_.
     fbind (fread (\<lambda>f. if git_branch_exists G repo base (fg_git f) then Inr ()
                      else Inl (CompareRefNotFound ''Base does not exist''))) (\<lambda>_.
     fbind (on_branch_missing (CompareRefNotFound ''Head does not exist'') (resolve G repo head)) (\<lambda>head_sha.
     fbind (refuse_by_ruleset repo base) (\<lambda>_.
     fbind (fread (\<lambda>f. git_is_ancestor G repo head_sha base (fg_git f))) (\<lambda>held.
     if held then fgive None
     else
       fbind (on_not_mergeable (MergeConflict ''Merge conflict'')
         (fgit (git_merge G repo base head_sha
            (str_or message (''Merge branch '' @ quoted head @ '' into '' @ base))))) (\<lambda>sha.
       fbind (fread (\<lambda>f. git_get_commit G repo sha (fg_git f))) (\<lambda>c. fgive (Some c)))))))))"

definition is_merged :: "'g git_ops \<Rightarrow> string \<Rightarrow> string \<Rightarrow> int \<Rightarrow> ('g, bool) fop" where
  "is_merged G owner name number =
     fbind (get_repo G owner name) (\<lambda>repo. fbind (require_pull repo number) (\<lambda>p. fgive (pl_merged p)))"

definition update_conflict :: "PullRequest \<Rightarrow> forge_error" where
  "update_conflict p =
     UpdateConflict (''merge conflict between base ('' @ pl_base p @ '') and head ('' @ pl_head p @ '')'')"

text \<open>The stale lever is cleared under its kind, repo and number alone.\<close>

definition heal_stale :: "Repo \<Rightarrow> int \<Rightarrow> 'g forge \<Rightarrow> 'g forge" where
  "heal_stale repo number f =
     (case store_find LK_STALE_BRANCH (Some (full_name repo)) (Some number) (fg_levers f) of
        None \<Rightarrow> f
      | Some l \<Rightarrow> f\<lparr>fg_levers := store_clear_lever (gl_kind l) (gl_repo l) (gl_number l) None None (fg_levers f)\<rparr>)"

definition update_branch :: "'g git_ops \<Rightarrow> string \<Rightarrow> string \<Rightarrow> int \<Rightarrow> string option \<Rightarrow> ('g, string) fop" where
  "update_branch G owner name number expected_head_sha =
     fbind (get_repo G owner name) (\<lambda>repo.
     fbind (require_pull repo number) (\<lambda>p.
     fbind (frefuse (closed_pull p) (not_mergeable number)) (\<lambda>_.
     fbind (resolve G repo (pl_head p)) (\<lambda>head_sha.
     fbind (frefuse (expected_head_sha \<noteq> None \<and> expected_head_sha \<noteq> Some head_sha) head_mismatch) (\<lambda>_.
     fbind (fread (\<lambda>f. if armed_for LK_MERGE_CONFLICT repo (Some number) f then Inl (update_conflict p) else Inr ())) (\<lambda>_.
     fbind (on_not_mergeable (update_conflict p)
       (fgit (git_merge G repo (pl_head p) (pl_base p)
          (''Merge branch '' @ quoted (pl_base p) @ '' into '' @ pl_head p)))) (\<lambda>_.
     fbind (fwrite (heal_stale repo number)) (\<lambda>_. fgive ''Updating pull request branch.''))))))))"

text \<open>The shas a pull request closes with. The head's is written before the base's is resolved, so
  it stays when the base does not resolve.\<close>

definition freeze :: "'g git_ops \<Rightarrow> Repo \<Rightarrow> PullRequest \<Rightarrow> ('g, PullRequest) fop" where
  "freeze G repo p =
     fbind (resolve G repo (pl_head p)) (\<lambda>head_sha.
     (let p1 = p\<lparr>pl_closed_head_sha := Some head_sha\<rparr>
      in fbind (fwrite (put_pull (full_name repo) p1)) (\<lambda>_.
         fbind (resolve G repo (pl_base p)) (\<lambda>base_sha.
         (let p2 = p1\<lparr>pl_closed_base_sha := Some base_sha\<rparr>
          in fbind (fwrite (put_pull (full_name repo) p2)) (\<lambda>_. fgive p2))))))"

definition thawed :: "'g git_ops \<Rightarrow> Repo \<Rightarrow> PullRequest \<Rightarrow> ('g, PullRequest) fop" where
  "thawed G repo p =
     fread (\<lambda>f. if git_branch_exists G repo (pl_head p) (fg_git f)
       then Inr (p\<lparr>pl_closed_head_sha := None, pl_closed_base_sha := None\<rparr>)
       else Inl (ValidationError (''head ref does not exist: '' @ pl_head p)))"

definition set_pull_state ::
  "'g git_ops \<Rightarrow> instant \<Rightarrow> string \<Rightarrow> string \<Rightarrow> int \<Rightarrow> forge_state \<Rightarrow> ('g, PullView) fop" where
  "set_pull_state G now owner name number state =
     fbind (get_repo G owner name) (\<lambda>repo.
     fbind (require_pull repo number) (\<lambda>p.
     fbind (if state = FS_CLOSED \<and> pl_state p \<noteq> FS_CLOSED then freeze G repo p
            else if state = FS_OPEN \<and> \<not> pl_merged p then thawed G repo p
            else fgive p) (\<lambda>p1.
     (let p2 = p1\<lparr>pl_state := state, pl_updated_at := now\<rparr>
      in fbind (fwrite (put_pull (full_name repo) p2)) (\<lambda>_. view G repo p2)))))"

end
