(* ===== verification/Forge_Control.thy ===== *)
theory Forge_Control
  imports Forge_Service
begin

text \<open>
  The rest of \<^verbatim>\<open>src/blizzard_mock/forge/domain/service.py\<close>: levers armed and fired, check runs,
  commits and refs. The id of a named check run is the CRC-32 of its revision and name.
\<close>

unbundle bit_operations_syntax

section \<open>CRC-32\<close>

text \<open>\<^verbatim>\<open>zlib.crc32\<close>: the reflected polynomial, bit by bit.\<close>

definition crc_bit :: "32 word \<Rightarrow> 32 word" where
  "crc_bit c = (if bit c 0 then drop_bit 1 c XOR 0xEDB88320 else drop_bit 1 c)"

definition crc_byte :: "char \<Rightarrow> 32 word \<Rightarrow> 32 word" where
  "crc_byte b c = (crc_bit ^^ 8) (c XOR of_nat (of_char b))"

definition crc32 :: "string \<Rightarrow> int" where
  "crc32 s = uint (NOT (fold crc_byte s 0xFFFFFFFF))"

section \<open>Arming and firing levers\<close>

definition require_scope :: "LeverKind \<Rightarrow> ForgeLeverParams \<Rightarrow> forge_error + unit" where
  "require_scope kind ps =
     (if kind = LK_BRANCH_PROTECTED \<and> (lq_repo ps = None \<or> lq_branch ps = None)
      then Inl (ValidationError ''branch_protected requires repo and branch'')
      else if kind = LK_RULESET \<and> (lq_repo ps = None \<or> lq_pattern ps = None)
      then Inl (ValidationError ''ruleset requires repo and pattern'')
      else if kind = LK_MERGE_COMMITS_DISALLOWED \<and> lq_repo ps = None
      then Inl (ValidationError ''merge_commits_disallowed requires repo'')
      else if kind = LK_MERGEABLE_STATE \<and>
        (lq_repo ps = None \<or> lq_number ps = None \<or> (case lq_state ps of None \<Rightarrow> True | Some st \<Rightarrow> st \<notin> set FORCEABLE_MERGEABLE_STATES))
      then Inl (ValidationError ''mergeable_state requires repo, number, and a state of unstable, has_hooks, or draft'')
      else Inr ())"

text \<open>\<^verbatim>\<open>full_name.partition("/")\<close>, with both parts required.\<close>

definition split_full_name :: "string \<Rightarrow> forge_error + (string \<times> string)" where
  "split_full_name full =
     (let owner = takeWhile (\<lambda>c. c \<noteq> CHR ''/'') full; name = drop (length owner + 1) full
      in if owner = [] \<or> name = [] then Inl (ValidationError (''malformed repo full name: '' @ py_repr full))
         else Inr (owner, name))"

definition named_check_run :: "string \<Rightarrow> CheckSpec \<Rightarrow> string \<times> string option \<Rightarrow> CheckRun" where
  "named_check_run sha spec st =
     \<lparr>ck_id = crc32 (sha @ ''/'' @ cx_name spec), ck_name = cx_name spec, ck_status = fst st,
      ck_conclusion = snd st, ck_head_sha = sha\<rparr>"

definition arm_check :: "string \<Rightarrow> string \<Rightarrow> CheckSpec \<Rightarrow> 'g forge \<Rightarrow> 'g forge" where
  "arm_check repo sha spec f =
     (case dget CHECK_STATUSES (cx_status spec) of
        None \<Rightarrow> f
      | Some st \<Rightarrow> f\<lparr>fg_checks := checks_put repo sha (named_check_run sha spec st) (fg_checks f)\<rparr>)"

fun check_statuses_known :: "CheckSpec list \<Rightarrow> forge_error + unit" where
  "check_statuses_known [] = Inr ()"
| "check_statuses_known (c # cs) =
     (if dget CHECK_STATUSES (cx_status c) = None then Inl (ValidationError (''invalid check status: '' @ cx_status c))
      else check_statuses_known cs)"

definition ref_checks :: "'g git_ops \<Rightarrow> ForgeLeverParams \<Rightarrow> ('g, unit) fop" where
  "ref_checks G ps =
     (case (lq_repo ps, lq_ref ps, lq_checks ps) of
        (Some full, Some ref, Some checks) \<Rightarrow>
          fbind (fread (\<lambda>_. check_statuses_known checks)) (\<lambda>_.
          fbind (fread (\<lambda>_. split_full_name full)) (\<lambda>(owner, name).
          fbind (get_repo G owner name) (\<lambda>repo.
          fbind (resolve G repo ref) (\<lambda>sha.
          fbind (fwrite (\<lambda>f. if checks = [] then f\<lparr>fg_checks := checks_replace_all (full_name repo) sha [] (fg_checks f)\<rparr> else f)) (\<lambda>_.
          fwrite (fold (arm_check (full_name repo) sha) checks))))))
      | _ \<Rightarrow> fraise (ValidationError ''ref_checks requires repo, ref, and checks''))"

definition external_message :: "MergeMethod \<Rightarrow> PullRequest \<Rightarrow> string" where
  "external_message method p =
     (if method = MM_SQUASH then pl_title p @ '' (#'' @ show_int (pl_number p) @ '') (external)''
      else ''Merge pull request #'' @ show_int (pl_number p) @ '' from '' @ pl_head p @ '' (external)'')"

definition external_merge :: "'g git_ops \<Rightarrow> instant \<Rightarrow> ForgeLeverParams \<Rightarrow> ('g, unit) fop" where
  "external_merge G now ps =
     (case (lq_repo ps, lq_number ps) of
        (Some full, Some number) \<Rightarrow>
          fbind (fread (\<lambda>_. split_full_name full)) (\<lambda>(owner, name).
          fbind (get_repo G owner name) (\<lambda>repo.
          fbind (require_pull repo number) (\<lambda>p.
          if pl_merged p then fgive ()
          else
            (let method = (case lq_method ps of None \<Rightarrow> MM_MERGE | Some m \<Rightarrow> m)
             in fbind (resolve G repo (pl_head p)) (\<lambda>head_sha.
                fbind (land G repo p method (Some (external_message method p))) (\<lambda>sha.
                record_merge now repo p sha ''external'' head_sha))))))
      | _ \<Rightarrow> fraise (ValidationError ''externally_merged requires repo and number''))"

definition comment_midflight :: "'g git_ops \<Rightarrow> instant \<Rightarrow> ForgeLeverParams \<Rightarrow> ('g, unit) fop" where
  "comment_midflight G now ps =
     (case (lq_repo ps, lq_number ps, lq_body ps) of
        (Some full, Some number, Some body) \<Rightarrow>
          fbind (fread (\<lambda>_. split_full_name full)) (\<lambda>(owner, name).
          fbind (create_issue_comment G now owner name number body (lq_user ps)) (\<lambda>_. fgive ()))
      | _ \<Rightarrow> fraise (ValidationError ''comment_midflight requires repo, number, and body''))"

text \<open>\<^verbatim>\<open>int(now.timestamp())\<close>.\<close>

definition seconds :: "instant \<Rightarrow> int" where
  "seconds t = (if t < 0 then - ((- t) div 1000000) else t div 1000000)"

definition fire_action_lever :: "'g git_ops \<Rightarrow> instant \<Rightarrow> LeverKind \<Rightarrow> ForgeLeverParams \<Rightarrow> ('g, unit) fop" where
  "fire_action_lever G now kind ps =
     (case kind of
        LK_EXTERNALLY_MERGED \<Rightarrow> external_merge G now ps
      | LK_COMMENT_MIDFLIGHT \<Rightarrow> comment_midflight G now ps
      | LK_REF_CHECKS \<Rightarrow> ref_checks G ps
      | LK_RATE_BUDGET \<Rightarrow>
          fwrite (\<lambda>f. f\<lparr>fg_rate := set_budget (seconds now) (lq_token ps) (lq_remaining ps) (lq_reset ps) (fg_rate f)\<rparr>)
      | _ \<Rightarrow> fgive ())"

definition lever_of_params :: "LeverKind \<Rightarrow> ForgeLeverParams \<Rightarrow> Lever" where
  "lever_of_params kind ps =
     \<lparr>gl_kind = kind, gl_repo = lq_repo ps, gl_number = lq_number ps, gl_remaining = lq_remaining ps,
      gl_message = lq_message ps, gl_branch = lq_branch ps, gl_pattern = lq_pattern ps, gl_state = lq_state ps\<rparr>"

definition forge_arm_lever :: "'g git_ops \<Rightarrow> instant \<Rightarrow> LeverKind \<Rightarrow> ForgeLeverParams \<Rightarrow> ('g, Lever option) fop" where
  "forge_arm_lever G now kind ps =
     (if kind \<in> set ACTION_LEVERS then fbind (fire_action_lever G now kind ps) (\<lambda>_. fgive None)
      else if kind \<notin> set STATE_LEVERS then fraise (ValidationError (''unknown lever: '' @ lever_kind_value kind))
      else
        fbind (fread (\<lambda>_. require_scope kind ps)) (\<lambda>_.
        (let l = lever_of_params kind ps
         in fbind (fwrite (\<lambda>f. f\<lparr>fg_levers := store_arm l (fg_levers f)\<rparr>)) (\<lambda>_. fgive (Some l)))))"

definition forge_clear_lever ::
  "LeverKind \<Rightarrow> string option \<Rightarrow> int option \<Rightarrow> string option \<Rightarrow> string option \<Rightarrow> ('g, unit) fop" where
  "forge_clear_lever kind repo number branch pattern =
     fwrite (\<lambda>f. f\<lparr>fg_levers := store_clear_lever kind repo number branch pattern (fg_levers f)\<rparr>)"

definition clear_all_levers :: "('g, unit) fop" where
  "clear_all_levers = fwrite (\<lambda>f. f\<lparr>fg_levers := [], fg_checks := [], fg_rate := rate_clear (fg_rate f)\<rparr>)"

section \<open>Check runs\<close>

definition synthetic_check_run ::
  "(string \<times> string \<times> string option \<Rightarrow> int) \<Rightarrow> string \<Rightarrow> string \<Rightarrow> string option \<Rightarrow> CheckRun" where
  "synthetic_check_run hash sha status conclusion =
     \<lparr>ck_id = \<bar>hash (sha, status, conclusion)\<bar> mod 10 ^ 8, ck_name = ''ci'', ck_status = status,
      ck_conclusion = conclusion, ck_head_sha = sha\<rparr>"

text \<open>The first open pull request whose head resolves to the revision; an unresolvable head before it
  raises.\<close>

fun pull_by_head_sha :: "'g git_ops \<Rightarrow> Repo \<Rightarrow> string \<Rightarrow> PullRequest list \<Rightarrow> 'g \<Rightarrow> forge_error + PullRequest option" where
  "pull_by_head_sha G repo sha [] g = Inr None"
| "pull_by_head_sha G repo sha (p # ps) g =
     (case git_resolve_ref G repo (pl_head p) g of
        Inl e \<Rightarrow> Inl e
      | Inr s \<Rightarrow> if s = sha then Inr (Some p) else pull_by_head_sha G repo sha ps g)"

text \<open>The runs derived from the levers, for a revision and the pull request it heads, if any.\<close>

definition derived_check_runs ::
  "(string \<times> string \<times> string option \<Rightarrow> int) \<Rightarrow> 'g git_ops \<Rightarrow> Repo \<Rightarrow> string \<Rightarrow> PullRequest option \<Rightarrow> 'g forge
   \<Rightarrow> forge_error + CheckRun list" where
  "derived_check_runs hash G repo sha pull f =
     (let run = (\<lambda>status conclusion. [synthetic_check_run hash sha status conclusion]);
          pulled = (\<lambda>kind. case pull of None \<Rightarrow> False | Some p \<Rightarrow> armed_for kind repo (Some (pl_number p)) f);
          rest = (if pulled LK_CHECKS_PENDING then run ''in_progress'' None else run ''completed'' (Some ''success''))
      in if pulled LK_CHECKS_FAILED then Inr (run ''completed'' (Some ''failure''))
         else if pulled LK_CHECKS_STARTUP_FAILURE then Inr (run ''completed'' (Some ''startup_failure''))
         else if armed_for LK_BASE_CHECKS_FAILED repo None f then
           (case git_resolve_ref G repo (rp_default_branch repo) (fg_git f) of
              Inl e \<Rightarrow> Inl e
            | Inr base_sha \<Rightarrow> Inr (if sha = base_sha then run ''completed'' (Some ''failure'') else rest))
         else Inr rest)"

definition list_check_runs ::
  "(string \<times> string \<times> string option \<Rightarrow> int) \<Rightarrow> 'g git_ops \<Rightarrow> string \<Rightarrow> string \<Rightarrow> string \<Rightarrow> ('g, CheckRun list) fop" where
  "list_check_runs hash G owner name ref =
     fbind (get_repo G owner name) (\<lambda>repo.
     fbind (resolve G repo ref) (\<lambda>sha.
     fread (\<lambda>f. case checks_runs (fg_checks f) (full_name repo) sha of
       Some runs \<Rightarrow> Inr runs
     | None \<Rightarrow>
         (case pull_by_head_sha G repo sha (state_list_pulls f (full_name repo) (Some ''open'')) (fg_git f) of
            Inl e \<Rightarrow> Inl e
          | Inr pull \<Rightarrow> derived_check_runs hash G repo sha pull f))))"

section \<open>Commits and refs\<close>

definition commit :: "'g git_ops \<Rightarrow> string \<Rightarrow> string \<Rightarrow> string \<Rightarrow> ('g, GitCommit) fop" where
  "commit G owner name ref =
     fbind (get_repo G owner name) (\<lambda>repo. fread (\<lambda>f. git_get_commit G repo ref (fg_git f)))"

definition compare_refs :: "'g git_ops \<Rightarrow> string \<Rightarrow> string \<Rightarrow> string \<Rightarrow> string \<Rightarrow> ('g, GitCompare) fop" where
  "compare_refs G owner name base head =
     fbind (get_repo G owner name) (\<lambda>repo.
     fread (\<lambda>f. case git_compare G repo base head (fg_git f) of
       Inl (BranchNotFound m) \<Rightarrow> Inl (CompareRefNotFound m)
     | r \<Rightarrow> r))"

definition resolve_ref :: "'g git_ops \<Rightarrow> string \<Rightarrow> string \<Rightarrow> string \<Rightarrow> ('g, string) fop" where
  "resolve_ref G owner name ref = fbind (get_repo G owner name) (\<lambda>repo. resolve G repo ref)"

definition protected_ref :: "Repo \<Rightarrow> string \<Rightarrow> 'g forge \<Rightarrow> bool" where
  "protected_ref repo ref f \<longleftrightarrow> list_ex (\<lambda>l. gl_branch l = Some ref) (matching_levers LK_BRANCH_PROTECTED repo f)"

definition update_ref :: "'g git_ops \<Rightarrow> string \<Rightarrow> string \<Rightarrow> string \<Rightarrow> string \<Rightarrow> bool \<Rightarrow> ('g, string) fop" where
  "update_ref G owner name ref sha force =
     fbind (get_repo G owner name) (\<lambda>repo.
     fbind (fread (\<lambda>f. if protected_ref repo ref f
       then Inl (ProtectedBranch (''Protected branch update failed for refs/heads/'' @ ref @ ''.'')) else Inr ())) (\<lambda>_.
     fbind (resolve G repo ref) (\<lambda>current_sha.
     fbind (resolve G repo sha) (\<lambda>target_sha.
     fbind (if force then fgive True
            else fread (\<lambda>f. git_is_ancestor G repo current_sha target_sha (fg_git f))) (\<lambda>ok.
     fbind (frefuse (\<not> ok) (NotFastForward (''Update is not a fast forward: refs/heads/'' @ ref))) (\<lambda>_.
     fbind (fgit (git_update_ref G repo ref target_sha)) (\<lambda>_. fgive target_sha)))))))"

definition HEADS :: string where "HEADS = ''refs/heads/''"

definition create_ref :: "'g git_ops \<Rightarrow> string \<Rightarrow> string \<Rightarrow> string \<Rightarrow> string \<Rightarrow> ('g, string) fop" where
  "create_ref G owner name ref sha =
     fbind (get_repo G owner name) (\<lambda>repo.
     (let branch = drop (length HEADS) ref
      in fbind (frefuse (\<not> starts_with HEADS ref \<or> branch = []) (ValidationError ''Reference name is invalid'')) (\<lambda>_.
         fbind (refuse_by_ruleset repo branch) (\<lambda>_.
         fbind (fread (\<lambda>f. if git_branch_exists G repo branch (fg_git f)
           then Inl (RefAlreadyExists ''Reference already exists'') else Inr ())) (\<lambda>_.
         fbind (on_branch_missing (ValidationError ''Object does not exist'') (resolve G repo sha)) (\<lambda>target_sha.
         fbind (fgit (git_create_ref G repo branch target_sha)) (\<lambda>_. fgive target_sha)))))))"

definition close_with_branch :: "'g git_ops \<Rightarrow> instant \<Rightarrow> Repo \<Rightarrow> PullRequest \<Rightarrow> ('g, unit) fop" where
  "close_with_branch G now repo p =
     fbind (freeze G repo p) (\<lambda>p1.
     fwrite (put_pull (full_name repo) (p1\<lparr>pl_state := FS_CLOSED, pl_updated_at := now\<rparr>)))"

definition delete_ref :: "'g git_ops \<Rightarrow> instant \<Rightarrow> string \<Rightarrow> string \<Rightarrow> string \<Rightarrow> ('g, unit) fop" where
  "delete_ref G now owner name branch =
     fbind (get_repo G owner name) (\<lambda>repo.
     fbind (fread (\<lambda>f. if git_branch_exists G repo branch (fg_git f) then Inr ()
       else Inl (RefMissing ''Reference does not exist''))) (\<lambda>_.
     fbind (fread (\<lambda>f. Inr (filter (\<lambda>p. branch = pl_head p \<or> branch = pl_base p)
       (state_list_pulls f (full_name repo) (Some ''open''))))) (\<lambda>pulls.
     fbind (feach (close_with_branch G now repo) pulls) (\<lambda>_.
     fgit (git_delete_ref G repo branch)))))"

end
