(* ===== verification/Forge_Runs.thy ===== *)
theory Forge_Runs
  imports Forge_Control
begin

text \<open>
  Runs of the forge: every operation that writes as a constructor of \<open>forge_call\<close>, one step of a run
  per call, raised or not. The locale \<open>forge_frame\<close> takes a relation between the forge before and
  after that holds of each kind of write to the store, and shows once that it holds of every run; it
  is interpreted on the well-formedness of the store and on what a merge fixes for good. Both hold
  for every git backend.
\<close>

section \<open>Calls\<close>

datatype forge_call =
    CreateRepository string string "(string, string) dict"
  | CreateIssue string string string string string "string list"
  | CreateIssueComment string string int string string
  | CreateLabel string string string
  | AddIssueLabels string string int "string list"
  | RemoveIssueLabel string string int string
  | SetIssueState string string int string "string option"
  | CreatePull string string string string string string string
  | MergePull string string int MergeMethod "string option" "string option" string
  | MergeBranches string string string string "string option"
  | UpdateBranch string string int "string option"
  | SetPullState string string int forge_state
  | ArmLever LeverKind ForgeLeverParams
  | ClearLever LeverKind "string option" "int option" "string option" "string option"
  | ClearAllLevers
  | UpdateRef string string string string bool
  | CreateRef string string string string
  | DeleteRef string string string
  | ConsumeLever Lever
  | RateCall ledger_call

primrec forge_step :: "'g git_ops \<Rightarrow> instant \<Rightarrow> forge_call \<Rightarrow> 'g forge \<Rightarrow> 'g forge" where
  "forge_step G now (CreateRepository ow nm files) f = snd (create_repository G ow nm files f)"
| "forge_step G now (CreateIssue ow nm title body user labels) f = snd (create_issue G now ow nm title body user labels f)"
| "forge_step G now (CreateIssueComment ow nm n body user) f = snd (create_issue_comment G now ow nm n body user f)"
| "forge_step G now (CreateLabel ow nm l) f = snd (create_label G ow nm l f)"
| "forge_step G now (AddIssueLabels ow nm n ls) f = snd (add_issue_labels G ow nm n ls f)"
| "forge_step G now (RemoveIssueLabel ow nm n l) f = snd (remove_issue_label G ow nm n l f)"
| "forge_step G now (SetIssueState ow nm n st reason) f = snd (set_issue_state G now ow nm n st reason f)"
| "forge_step G now (CreatePull ow nm title body head base user) f =
     snd (create_pull G now ow nm title body head base user f)"
| "forge_step G now (MergePull ow nm n method message sha user) f =
     snd (merge_pull G now ow nm n method message sha user f)"
| "forge_step G now (MergeBranches ow nm base head message) f = snd (merge_branches G ow nm base head message f)"
| "forge_step G now (UpdateBranch ow nm n sha) f = snd (update_branch G ow nm n sha f)"
| "forge_step G now (SetPullState ow nm n st) f = snd (set_pull_state G now ow nm n st f)"
| "forge_step G now (ArmLever kind ps) f = snd (forge_arm_lever G now kind ps f)"
| "forge_step G now (ClearLever kind repo num branch pattern) f = snd (forge_clear_lever kind repo num branch pattern f)"
| "forge_step G now ClearAllLevers f = snd (clear_all_levers f)"
| "forge_step G now (UpdateRef ow nm ref sha force) f = snd (update_ref G ow nm ref sha force f)"
| "forge_step G now (CreateRef ow nm ref sha) f = snd (create_ref G ow nm ref sha f)"
| "forge_step G now (DeleteRef ow nm branch) f = snd (delete_ref G now ow nm branch f)"
| "forge_step G now (ConsumeLever l) f = f\<lparr>fg_levers := store_consume l (fg_levers f)\<rparr>"
| "forge_step G now (RateCall c) f = f\<lparr>fg_rate := snd (ledger_step (seconds now) c (fg_rate f))\<rparr>"

primrec forge_run :: "'g git_ops \<Rightarrow> (instant \<times> forge_call) list \<Rightarrow> 'g forge \<Rightarrow> 'g forge" where
  "forge_run G [] f = f"
| "forge_run G (c # cs) f = forge_run G cs (forge_step G (fst c) (snd c) f)"

section \<open>The writes of the store\<close>

text \<open>How an operation may change a stored pull request: what it was opened with stays, its thread
  grows, and a merge is recorded once.\<close>

definition pull_moves :: "PullRequest \<Rightarrow> PullRequest \<Rightarrow> bool" where
  "pull_moves p p' \<longleftrightarrow>
     pl_number p' = pl_number p \<and> pl_head p' = pl_head p \<and> pl_base p' = pl_base p \<and> pl_user p' = pl_user p \<and>
     pl_created_at p' = pl_created_at p \<and> pl_comments p' = pl_comments p \<and>
     (if pl_merged p
      then pl_merged p' \<and> pl_merged_at p' = pl_merged_at p \<and> pl_merged_by p' = pl_merged_by p \<and>
        pl_merge_commit_sha p' = pl_merge_commit_sha p
      else if pl_merged p'
      then pl_state p' = FS_CLOSED \<and> pl_merged_at p' \<noteq> None \<and> pl_merged_by p' \<noteq> None \<and>
        pl_merge_commit_sha p' \<noteq> None \<and> pl_closed_head_sha p' \<noteq> None
      else pl_merged_at p' = pl_merged_at p \<and> pl_merged_by p' = pl_merged_by p \<and>
        pl_merge_commit_sha p' = pl_merge_commit_sha p)"

text \<open>A pull request with the revisions it closed at.\<close>

definition frozen :: "PullRequest \<Rightarrow> PullRequest \<Rightarrow> bool" where
  "frozen p p' \<longleftrightarrow> (\<exists>h b. p' = p\<lparr>pl_closed_head_sha := Some h, pl_closed_base_sha := Some b\<rparr>)"

definition pulls_keyed :: "'g forge \<Rightarrow> bool" where
  "pulls_keyed f \<longleftrightarrow> (\<forall>r. keyed pl_number (rs_pulls (repo_state f r)))"

locale forge_frame =
  fixes R :: "'g forge \<Rightarrow> 'g forge \<Rightarrow> bool"
  assumes same: "fg_repos f' = fg_repos f \<Longrightarrow> R f f'"
    and trans: "R f1 f2 \<Longrightarrow> R f2 f3 \<Longrightarrow> R f1 f3"
    and issue_new: "next_number repo f = (is_number i, f1) \<Longrightarrow> is_comments i = [] \<Longrightarrow> R f (put_issue repo i f1)"
    and issue_upd: "state_get_issue f repo n = Some i \<Longrightarrow> is_number i' = is_number i \<Longrightarrow>
      is_comments i' = is_comments i \<Longrightarrow> R f (put_issue repo i' f)"
    and pull_new: "next_number repo f = (pl_number p, f1) \<Longrightarrow> pl_comments p = [] \<Longrightarrow> \<not> pl_merged p \<Longrightarrow>
      pl_merge_commit_sha p = None \<Longrightarrow> R f (put_pull repo p f1)"
    and pull_upd: "state_get_pull f repo n = Some p \<Longrightarrow> pull_moves p p' \<Longrightarrow> R f (put_pull repo p' f)"
    and issue_comment: "state_get_issue f repo n = Some i \<Longrightarrow> next_comment_id repo f = (cm_id c, f1) \<Longrightarrow>
      R f (put_issue repo (i\<lparr>is_comments := is_comments i @ [c]\<rparr>) f1)"
    and pull_comment: "state_get_pull f repo n = Some p \<Longrightarrow> next_comment_id repo f = (cm_id c, f1) \<Longrightarrow>
      R f (put_pull repo (p\<lparr>pl_comments := pl_comments p @ [c]\<rparr>) f1)"
    and label: "R f (put_label repo l f)"
    and keys: "R f f' \<Longrightarrow> pulls_keyed f \<Longrightarrow> pulls_keyed f'"
begin

end

section \<open>Operations that leave the store alone\<close>

definition pure_op :: "('g, 'a) fop \<Rightarrow> bool" where
  "pure_op m \<longleftrightarrow> (\<forall>f. snd (m f) = f)"

definition off_store :: "('g, 'a) fop \<Rightarrow> bool" where
  "off_store m \<longleftrightarrow> (\<forall>f. fg_repos (snd (m f)) = fg_repos f)"

lemmas fop_defs = fbind_def fread_def fgive_def fraise_def frefuse_def fwrite_def fstate_def fgit_def

named_theorems op_kinds \<open>operations that leave the forge, or its store, alone\<close>

lemma pure_basic [op_kinds]:
  "pure_op (fgive x)" "pure_op (fraise e)" "pure_op (fread r)" "pure_op (frefuse c e)"
  by (simp_all add: pure_op_def fop_defs)

lemma pure_bind [op_kinds]: "pure_op m \<Longrightarrow> (\<And>x. pure_op (k x)) \<Longrightarrow> pure_op (fbind m k)"
  unfolding pure_op_def fbind_def by (auto split: prod.splits sum.splits) (metis sndI)+

lemma off_store_pure [op_kinds]: "pure_op m \<Longrightarrow> off_store m"
  by (simp add: pure_op_def off_store_def)

lemma off_store_git [op_kinds]: "off_store (fgit m)"
  by (simp add: off_store_def fgit_def split: prod.splits)

lemma off_store_write: "(\<And>f. fg_repos (w f) = fg_repos f) \<Longrightarrow> off_store (fwrite w)"
  by (simp add: off_store_def fwrite_def)

lemma off_store_bind: "off_store m \<Longrightarrow> (\<And>x. off_store (k x)) \<Longrightarrow> off_store (fbind m k)"
  unfolding off_store_def fbind_def by (auto split: prod.splits sum.splits) (metis sndI)+

lemma off_store_catch [op_kinds]:
  assumes "off_store m"
  shows "off_store (on_branch_missing e m)" "off_store (on_not_mergeable e m)"
  using assms by (auto simp: off_store_def on_branch_missing_def on_not_mergeable_def split: prod.splits sum.splits forge_error.splits)
    (metis sndI)+

lemmas read_defs = get_repo_def get_issue_def require_pull_def resolve_def refuse_by_ruleset_def

lemma pure_reads [op_kinds]:
  "pure_op (get_repo G ow nm)" "pure_op (get_issue G ow nm n)" "pure_op (require_pull repo n)" "pure_op (resolve G repo ref)"
  "pure_op (refuse_by_ruleset repo branch)" "pure_op (view G repo p)" "pure_op (thawed G repo p)"
  unfolding read_defs view_def thawed_def by (auto intro!: op_kinds split: prod.splits)

lemma off_store_land [op_kinds]: "off_store (land G repo p method message)"
  by (cases "method") (simp_all add: land_def Let_def off_store_git)

lemma fbind_write [simp]: "fbind (fwrite w) k f = k () (w f)"
  by (simp add: fbind_def fwrite_def)

lemma fbind_give [simp]: "fbind (fgive x) k f = k x f"
  by (simp add: fbind_def fgive_def)

lemma fbind_state: "fbind (fstate s) k f = (case s f of (x, f1) \<Rightarrow> k x f1)"
  by (simp add: fbind_def fstate_def split: prod.splits)

lemma snd_pure [simp]: "snd (fgive x f) = f" "snd (fraise e f) = f" "snd (view G repo p f) = f" "snd (fwrite w f) = w f"
  using pure_reads(6) [of G repo p] by (simp_all add: fop_defs pure_op_def)

lemma fbind_assoc: "fbind (fbind m k) l = fbind m (\<lambda>x. fbind (k x) l)"
  by (rule ext) (simp add: fbind_def split: prod.splits sum.splits)

section \<open>The store after a write\<close>

lemma repo_state_put [simp]:
  "repo_state (put_repo_state r s f) r' = (if r' = r then s else repo_state f r')"
  by (simp add: repo_state_def put_repo_state_def dget_or_def)

lemma repo_state_cong: "fg_repos f' = fg_repos f \<Longrightarrow> repo_state f' = repo_state f"
  by (simp add: repo_state_def fun_eq_iff)

lemma repo_state_writes [simp]:
  "repo_state (put_issue r i f) r' =
     (if r' = r then (repo_state f r)\<lparr>rs_issues := dset (is_number i) i (rs_issues (repo_state f r))\<rparr> else repo_state f r')"
  "repo_state (put_pull r p f) r' =
     (if r' = r then (repo_state f r)\<lparr>rs_pulls := dset (pl_number p) p (rs_pulls (repo_state f r))\<rparr> else repo_state f r')"
  "repo_state (put_label r l f) r' =
     (if r' = r then (repo_state f r)\<lparr>rs_labels := dset (lb_name l) l (rs_labels (repo_state f r))\<rparr> else repo_state f r')"
  by (simp_all add: put_issue_def put_pull_def put_label_def Let_def)

lemma next_number_state:
  assumes "next_number r f = (n, f1)"
  shows "n = rs_next_number (repo_state f r)"
    "repo_state f1 r' = (if r' = r then (repo_state f r)\<lparr>rs_next_number := n + 1\<rparr> else repo_state f r')"
  using assms by (auto simp: next_number_def Let_def)

lemma next_comment_id_state:
  assumes "next_comment_id r f = (n, f1)"
  shows "n = rs_next_comment_id (repo_state f r)"
    "repo_state f1 r' = (if r' = r then (repo_state f r)\<lparr>rs_next_comment_id := n + 1\<rparr> else repo_state f r')"
  using assms by (auto simp: next_comment_id_def Let_def)

lemma get_put_pull [simp]:
  "state_get_pull (put_pull r p f) r' n = (if r' = r \<and> n = pl_number p then Some p else state_get_pull f r' n)"
  by (simp add: state_get_pull_def)

lemma three_ways: "P a \<Longrightarrow> P b \<Longrightarrow> P c \<Longrightarrow> P (if x then a else if y then b else c)"
  by simp

lemma close_frame:
  "n \<noteq> pl_number p \<Longrightarrow> state_get_pull (snd (close_with_branch G now repo p f)) r n = state_get_pull f r n"
  by (auto simp: close_with_branch_def freeze_def resolve_def fop_defs Let_def split: sum.splits)

lemma listed_pulls:
  assumes "pulls_keyed f"
  shows "distinct (map pl_number (state_list_pulls f r st))"
    and "p \<in> set (state_list_pulls f r st) \<Longrightarrow> state_get_pull f r (pl_number p) = Some p"
proof -
  let ?d = "rs_pulls (repo_state f r)"
  have ok: "keyed pl_number ?d" using assms by (simp add: pulls_keyed_def)
  have "distinct (map pl_number (sort_key pl_number xs))" if "distinct (map pl_number xs)" for xs :: "PullRequest list"
    using that by (simp add: distinct_map)
  from this [OF keyed_inj [OF ok]] have "distinct (map pl_number (sort_key pl_number (dvals ?d)))" .
  then show "distinct (map pl_number (state_list_pulls f r st))"
    by (simp add: state_list_pulls_def distinct_map_filter)
  show "p \<in> set (state_list_pulls f r st) \<Longrightarrow> state_get_pull f r (pl_number p) = Some p"
    using keyed_vals [OF ok] by (simp add: state_list_pulls_def state_get_pull_def)
qed

lemma refuse_merge_open: "fread (refuse_merge repo p n method) f = (Inr u, f1) \<Longrightarrow> \<not> pl_merged p"
  by (auto simp: fread_def refuse_merge_def closed_pull_def split: if_splits)

lemma fold_arm_check: "fg_repos (fold (arm_check r sha) cs f) = fg_repos f"
  by (induction cs arbitrary: f) (simp_all add: arm_check_def split: option.splits)

lemmas off_rules = off_store_bind off_store_git off_store_catch off_store_write off_store_land
  pure_basic [THEN off_store_pure] pure_reads [THEN off_store_pure]

lemma off_ops_store:
  "off_store (create_repository G ow nm files)" "off_store (merge_branches G ow nm base head message)"
  "off_store (update_branch G ow nm n expected)" "off_store (update_ref G ow nm ref sha force)"
  "off_store (create_ref G ow nm ref sha)" "off_store (forge_clear_lever kind repo num branch pattern)"
  "off_store clear_all_levers" "off_store (ref_checks G ps)"
  unfolding create_repository_def merge_branches_def update_branch_def update_ref_def create_ref_def forge_clear_lever_def
    clear_all_levers_def ref_checks_def Let_def
  by (auto intro!: off_rules split: option.splits simp: heal_stale_def fold_arm_check)

context forge_frame
begin

lemma refl: "R f f"
  by (rule same) simp

lemma off_keeps: "off_store m \<Longrightarrow> R f (snd (m f))"
  by (rule same) (simp add: off_store_def)

lemma at_pure:
  assumes "pure_op m" and "\<And>x. m f = (Inr x, f) \<Longrightarrow> R f (snd (k x f))"
  shows "R f (snd (fbind m k f))"
proof (cases "m f")
  case (Pair r f1)
  with assms(1) have "f1 = f" by (metis pure_op_def sndI)
  with Pair assms(2) show ?thesis by (cases r) (simp_all add: fbind_def refl)
qed

lemma at_off:
  assumes "off_store m" and "\<And>x f1. fg_repos f1 = fg_repos f \<Longrightarrow> R f1 (snd (k x f1))"
  shows "R f (snd (fbind m k f))"
proof (cases "m f")
  case (Pair r f1)
  with assms(1) have f1: "fg_repos f1 = fg_repos f" by (metis off_store_def sndI)
  with same have "R f f1" by blast
  with Pair f1 assms(2) show ?thesis by (cases r) (auto simp: fbind_def intro: trans)
qed

lemma at_write: "R f (w f) \<Longrightarrow> R (w f) (snd (k () (w f))) \<Longrightarrow> R f (snd (fbind (fwrite w) k f))"
  by (auto intro: trans)

lemma at_give: "R f (snd (fgive x f))" "R f (snd (fraise e f))"
  by (simp_all add: refl)

lemma at_last: "R f (snd (m f)) \<Longrightarrow> R f (snd (fbind m (\<lambda>_. fgive x) f))"
  by (cases "m f") (auto simp: fbind_def fgive_def split: sum.splits)

lemmas at_rules = at_pure [OF pure_reads(1)] at_pure [OF pure_reads(4)] at_pure [OF pure_basic(3)] at_pure [OF pure_basic(4)] at_give

lemma at_pull:
  assumes "\<And>p. state_get_pull f (full_name repo) n = Some p \<Longrightarrow> R f (snd (k p f))"
  shows "R f (snd (fbind (require_pull repo n) k f))"
  using assms by (intro at_pure pure_reads) (auto simp: require_pull_def fread_def split: option.splits)

text \<open>The repository read twice in a row is one repository.\<close>

lemma at_issue:
  assumes "\<And>repo i. state_get_issue f (full_name repo) n = Some i \<Longrightarrow> R f (snd (k repo i f))"
  shows "R f (snd (fbind (get_repo G ow nm) (\<lambda>repo. fbind (get_issue G ow nm n) (k repo)) f))"
proof (rule at_pure [OF pure_reads(1)])
  fix repo assume repo: "get_repo G ow nm f = (Inr repo, f)"
  show "R f (snd (fbind (get_issue G ow nm n) (k repo) f))"
    using repo by (intro at_pure pure_reads assms)
      (auto simp: get_issue_def fbind_def fread_def get_repo_def split: option.splits sum.splits)
qed

lemma issue_ops:
  "R f (snd (create_issue G now ow nm title body user labels f))"
  "R f (snd (add_issue_labels G ow nm n ls f))"
  "R f (snd (remove_issue_label G ow nm n l f))"
  "R f (snd (set_issue_state G now ow nm n st reason f))"
proof -
  show "R f (snd (create_issue G now ow nm title body user labels f))"
    unfolding create_issue_def
    by (intro at_rules) (auto simp: fbind_state Let_def new_issue_def split: prod.splits intro: issue_new)
  show "R f (snd (add_issue_labels G ow nm n ls f))"
    unfolding add_issue_labels_def Let_def by (intro at_issue at_write at_give issue_upd) simp_all
  show "R f (snd (remove_issue_label G ow nm n l f))"
    unfolding remove_issue_label_def Let_def
    by (rule at_issue) (auto intro!: at_write at_give issue_upd refl)
  show "R f (snd (set_issue_state G now ow nm n st reason f))"
    unfolding set_issue_state_def Let_def
    by (cases "forge_state_of st") (auto intro!: at_issue at_write at_give issue_upd refl)
qed

lemma label_keeps: "R f (snd (create_label G ow nm l f))"
  unfolding create_label_def by (intro at_rules at_write label)

lemma pull_merge:
  assumes "state_get_pull f repo n = Some p" and "fg_repos f1 = fg_repos f" and "\<not> pl_merged p"
  shows "R f1 (put_pull repo (merged_pull now sha user head_sha p) f1)"
proof (rule pull_upd)
  show "state_get_pull f1 repo n = Some p" using assms by (simp add: state_get_pull_def repo_state_def)
qed (use assms(3) in \<open>simp add: merged_pull_def pull_moves_def\<close>)

lemma comment_keeps: "R f (snd (create_issue_comment G now ow nm n body user f))"
proof -
  have gets: "state_get_issue f1 r n = state_get_issue f r n" "state_get_pull f1 r n = state_get_pull f r n"
    if "next_comment_id r f = (cid, f1)" for r cid f1
    using next_comment_id_state(2) [OF that] by (simp_all add: state_get_issue_def state_get_pull_def)
  have issue: "R f (add_issue_comment r n c f1)" if "next_comment_id r f = (cm_id c, f1)" "state_get_issue f r n = Some i" for r c f1 i
    using issue_comment [OF that(2,1)] that(2) by (simp add: add_issue_comment_def gets [OF that(1)])
  have pull: "R f (add_pull_comment r n c f1)" if "next_comment_id r f = (cm_id c, f1)" "state_get_pull f r n = Some p" for r c f1 p
    using pull_comment [OF that(2,1)] that(2) by (simp add: add_pull_comment_def gets [OF that(1)])
  show ?thesis
    unfolding create_issue_comment_def new_comment_def fbind_assoc
    by (intro at_rules) (auto simp: fbind_state fread_def gets split: prod.splits if_splits intro!: issue pull)
qed

lemma pull_ops:
  "R f (snd (create_pull G now ow nm title body head base user f))"
  "R f (snd (merge_pull G now ow nm n method message sha user f))"
proof -
  show "R f (snd (create_pull G now ow nm title body head base user f))"
    unfolding create_pull_def
    by (intro at_rules) (auto simp: fbind_state Let_def new_pull_def split: prod.splits intro: pull_new)
  show "R f (snd (merge_pull G now ow nm n method message sha user f))"
    unfolding merge_pull_def record_merge_def
    by (intro at_rules at_pull at_off [OF off_store_land]) (auto dest: refuse_merge_open intro: pull_merge)
qed

lemma at_freeze:
  assumes "state_get_pull f (full_name repo) n = Some p"
    and "\<And>p1 f1. state_get_pull f1 (full_name repo) (pl_number p) = Some p1 \<Longrightarrow> frozen p p1 \<Longrightarrow> R f1 (snd (k p1 f1))"
  shows "R f (snd (fbind (freeze G repo p) k f))"
proof -
  let ?p1 = "\<lambda>h. p\<lparr>pl_closed_head_sha := Some h\<rparr>" and ?p2 = "\<lambda>h b. p\<lparr>pl_closed_head_sha := Some h, pl_closed_base_sha := Some b\<rparr>"
  have first: "R f (put_pull (full_name repo) (?p1 h) f)" for h
    by (rule pull_upd [OF assms(1)]) (simp add: pull_moves_def)
  have second: "R f1 (snd (k (?p2 h b) (put_pull (full_name repo) (?p2 h b) f1)))"
    if "f1 = put_pull (full_name repo) (?p1 h) f" for f1 h b
  proof (rule trans)
    show "R f1 (put_pull (full_name repo) (?p2 h b) f1)"
      by (rule pull_upd [where n = "pl_number p" and p = "?p1 h"]) (simp_all add: that pull_moves_def)
    show "R (put_pull (full_name repo) (?p2 h b) f1) (snd (k (?p2 h b) (put_pull (full_name repo) (?p2 h b) f1)))"
      by (rule assms(2)) (auto simp: frozen_def)
  qed
  show ?thesis
    unfolding freeze_def Let_def fbind_assoc
    by (rule at_pure [OF pure_reads(4)], rule at_write, rule first, rule at_pure [OF pure_reads(4)]) (simp add: second)
qed

lemma set_pull_state_keeps: "R f (snd (set_pull_state G now ow nm n st f))"
proof -
  have put: "R f1 (put_pull r (p1\<lparr>pl_state := st, pl_updated_at := now\<rparr>) f1)"
    if "state_get_pull f1 r m = Some p" "p1 = p \<or> p1 = p\<lparr>pl_closed_head_sha := None, pl_closed_base_sha := None\<rparr>" for f1 r m p p1
    using that by (intro pull_upd [OF that(1)]) (auto simp: pull_moves_def)
  show ?thesis
    unfolding set_pull_state_def Let_def
  proof (intro at_rules at_pull)
    fix repo p assume p: "state_get_pull f (full_name repo) n = Some p"
    let ?k = "\<lambda>p1. fbind (fwrite (put_pull (full_name repo) (p1\<lparr>pl_state := st, pl_updated_at := now\<rparr>)))
      (\<lambda>_. view G repo (p1\<lparr>pl_state := st, pl_updated_at := now\<rparr>))"
    have "R f (snd (fbind (freeze G repo p) ?k f))"
      by (rule at_freeze [OF p]) (auto intro: put)
    moreover have "R f (snd (fbind (thawed G repo p) ?k f))"
      by (rule at_pure [OF pure_reads(7)]) (auto simp: thawed_def fread_def split: if_splits intro: put [OF p])
    moreover have "R f (snd (fbind (fgive p) ?k f))"
      by (rule at_pure [OF pure_basic(1)]) (auto simp: fgive_def intro: put [OF p])
    ultimately show "R f (snd (fbind (if st = FS_CLOSED \<and> pl_state p \<noteq> FS_CLOSED then freeze G repo p
            else if st = FS_OPEN \<and> \<not> pl_merged p then thawed G repo p else fgive p) ?k f))"
      by (rule three_ways [where P = "\<lambda>m. R f (snd (fbind m ?k f))"])
  qed
qed

lemma close_keeps:
  assumes "state_get_pull f (full_name repo) n = Some p"
  shows "R f (snd (close_with_branch G now repo p f))"
  unfolding close_with_branch_def
proof (rule at_freeze [OF assms])
  fix p1 and f1 :: "'g forge" assume p1: "state_get_pull f1 (full_name repo) (pl_number p) = Some p1"
  show "R f1 (snd (fwrite (put_pull (full_name repo) (p1\<lparr>pl_state := FS_CLOSED, pl_updated_at := now\<rparr>)) f1))"
    using pull_upd [OF p1] by (simp add: pull_moves_def)
qed

lemma close_all_keeps:
  assumes "distinct (map pl_number ps)" and "\<forall>p \<in> set ps. state_get_pull f (full_name repo) (pl_number p) = Some p"
  shows "R f (snd (feach (close_with_branch G now repo) ps f))"
  using assms
proof (induction ps arbitrary: f)
  case (Cons p ps)
  obtain r f1 where f1: "close_with_branch G now repo p f = (r, f1)" by (cases "close_with_branch G now repo p f")
  have "R f f1" using close_keeps [of f repo "pl_number p" p G now] Cons.prems(2) f1 by simp
  moreover have "state_get_pull f1 (full_name repo) (pl_number q) = Some q" if "q \<in> set ps" for q
  proof -
    have "pl_number q \<noteq> pl_number p" using that Cons.prems(1) by (metis distinct.simps(2) image_eqI list.set_map list.simps(9))
    with close_frame [OF this, of G now repo f] f1 that Cons.prems(2) show ?thesis by simp
  qed
  then have "R f1 (snd (feach (close_with_branch G now repo) ps f1))"
    using Cons.prems(1) by (intro Cons.IH) simp_all
  ultimately show ?case using f1 by (cases r) (auto simp: fbind_def intro: trans)
qed (simp add: refl)

lemma delete_ref_keeps:
  assumes "pulls_keyed f"
  shows "R f (snd (delete_ref G now ow nm branch f))"
  unfolding delete_ref_def
proof (intro at_rules)
  fix repo :: Repo and pulls
  assume "fread (\<lambda>f. Inr (filter (\<lambda>p. branch = pl_head p \<or> branch = pl_base p)
       (state_list_pulls f (full_name repo) (Some ''open'')))) f = (Inr pulls, f)"
  then have pulls: "pulls = filter (\<lambda>p. branch = pl_head p \<or> branch = pl_base p) (state_list_pulls f (full_name repo) (Some ''open''))"
    by (simp add: fread_def)
  let ?m = "feach (close_with_branch G now repo) pulls"
  have "R f (snd (?m f))"
    using pulls listed_pulls [OF assms] by (intro close_all_keeps) (auto simp: distinct_map_filter)
  then show "R f (snd (fbind ?m (\<lambda>_. fgit (git_delete_ref G repo branch)) f))"
    using off_keeps [OF off_store_git] by (cases "?m f") (auto simp: fbind_def split: sum.splits intro: trans)
qed

lemma off_ops:
  "R f (snd (create_repository G ow nm files f))" "R f (snd (merge_branches G ow nm base head message f))"
  "R f (snd (update_branch G ow nm n expected f))" "R f (snd (update_ref G ow nm ref sha force f))"
  "R f (snd (create_ref G ow nm ref sha f))" "R f (snd (forge_clear_lever kind repo num branch pattern f))"
  "R f (snd (clear_all_levers f))" "R f (snd (ref_checks G ps f))"
  by (rule off_keeps, rule off_ops_store)+

lemma arm_keeps: "R f (snd (forge_arm_lever G now kind ps f))"
proof -
  have ext: "R f (snd (external_merge G now ps f))"
    unfolding external_merge_def record_merge_def Let_def
    by (auto split: option.splits intro!: at_rules at_pull at_off [OF off_store_land] refl)
      (erule (2) pull_merge)+
  have com: "R f (snd (comment_midflight G now ps f))"
    unfolding comment_midflight_def
    by (auto split: option.splits intro!: at_rules at_last comment_keeps refl)
  have fire: "R f (snd (fire_action_lever G now kind ps f))"
    by (cases kind) (simp_all add: fire_action_lever_def ext com off_ops refl same)
  have off: "off_store (fbind (fread (\<lambda>_. require_scope kind ps)) (\<lambda>_.
        fbind (fwrite (\<lambda>f. f\<lparr>fg_levers := store_arm (lever_of_params kind ps) (fg_levers f)\<rparr>))
          (\<lambda>_. fgive (Some (lever_of_params kind ps)))))"
    by (auto intro!: off_rules)
  show ?thesis
    unfolding forge_arm_lever_def Let_def
    by (rule three_ways [where P = "\<lambda>m. R f (snd (m f))"], rule at_last, rule fire, rule at_give(2), rule off_keeps [OF off])
qed

lemma step_keeps: "pulls_keyed f \<Longrightarrow> R f (forge_step G now c f)"
  by (cases c) (auto intro: issue_ops label_keeps comment_keeps pull_ops set_pull_state_keeps delete_ref_keeps off_ops arm_keeps same)

lemma run_keeps: "pulls_keyed f \<Longrightarrow> R f (forge_run G cs f)"
proof (induction cs arbitrary: f)
  case (Cons c cs)
  have "R f (forge_step G (fst c) (snd c) f)" by (rule step_keeps [OF Cons.prems])
  with Cons keys show ?case by (auto intro: trans)
qed (simp add: refl)

end

section \<open>The store stays well formed\<close>

definition comment_ids :: "RepoState \<Rightarrow> int list" where
  "comment_ids s = map cm_id (concat (map is_comments (dvals (rs_issues s))) @ concat (map pl_comments (dvals (rs_pulls s))))"

text \<open>What a counter has given out: numbers from one on, below its next value, none of them twice.\<close>

definition given_out :: "int \<Rightarrow> int list \<Rightarrow> bool" where
  "given_out m ns \<longleftrightarrow> 1 \<le> m \<and> distinct ns \<and> (\<forall>n \<in> set ns. 1 \<le> n \<and> n < m)"

definition merge_recorded :: "PullRequest \<Rightarrow> bool" where
  "merge_recorded p \<longleftrightarrow> (pl_merge_commit_sha p \<noteq> None \<longleftrightarrow> pl_merged p)"

text \<open>Issues and pull requests stand under their numbers, which one counter gave out; comments have
  ids of another counter; a pull request has a merge commit exactly when it is merged.\<close>

definition repo_state_ok :: "RepoState \<Rightarrow> bool" where
  "repo_state_ok s \<longleftrightarrow>
     keyed is_number (rs_issues s) \<and> keyed pl_number (rs_pulls s) \<and> keyed lb_name (rs_labels s) \<and>
     given_out (rs_next_number s) (dkeys (rs_issues s) @ dkeys (rs_pulls s)) \<and>
     given_out (rs_next_comment_id s) (comment_ids s) \<and>
     list_all merge_recorded (dvals (rs_pulls s))"

definition store_ok :: "'g forge \<Rightarrow> bool" where
  "store_ok f \<longleftrightarrow> (\<forall>r. repo_state_ok (repo_state f r))"

lemma store_ok_new: "store_ok (new_forge g)"
  by (simp add: store_ok_def new_forge_def repo_state_def dget_or_def empty_repo_state_def repo_state_ok_def comment_ids_def given_out_def)

lemma store_ok_cong: "fg_repos f' = fg_repos f \<Longrightarrow> store_ok f' = store_ok f"
  by (simp add: store_ok_def repo_state_def)

text \<open>A row written over another one, in its place.\<close>

lemma dset_split:
  assumes "dget d k = Some w"
  obtains d1 d2 where "d = d1 @ (k, w) # d2" and "\<And>v. dset k v d = d1 @ (k, v) # d2"
proof -
  have "\<exists>d1 d2. d = d1 @ (k, w) # d2 \<and> (\<forall>v. dset k v d = d1 @ (k, v) # d2)"
    using assms
  proof (induction d)
    case (Cons x d)
    show ?case
    proof (cases "fst x = k")
      case True
      with Cons.prems show ?thesis by (cases x) (simp add: exI [of _ "[]"] exI [of _ d])
    next
      case False
      with Cons obtain d1 d2 where "d = d1 @ (k, w) # d2" "\<forall>v. dset k v d = d1 @ (k, v) # d2" by (cases x) auto
      with False show ?thesis by (cases x) (intro exI [of _ "x # d1"] exI [of _ d2], simp)
    qed
  qed simp
  then show thesis using that by blast
qed

lemma rows_same: "dget d k = Some w \<Longrightarrow> g v = g w \<Longrightarrow> concat (map g (dvals (dset k v d))) = concat (map g (dvals d))"
  by (erule dset_split [of d k w]) simp

lemma rows_grow:
  assumes "dget d k = Some w" and "g v = g w @ [x]"
  obtains a b where "concat (map g (dvals d)) = a @ b" and "concat (map g (dvals (dset k v d))) = a @ x # b"
proof -
  obtain d1 d2 where "d = d1 @ (k, w) # d2" "\<And>v. dset k v d = d1 @ (k, v) # d2" using dset_split [OF assms(1)] by blast
  with assms(2) that [of "concat (map g (dvals d1)) @ g w" "concat (map g (dvals d2))"] show thesis by simp
qed

lemma update_keys: "dget d k = Some w \<Longrightarrow> dkeys (dset k v d) = dkeys d"
  by (simp add: dkeys_dset)

lemma given_out_next: "given_out m (a @ b) \<Longrightarrow> given_out (m + 1) (a @ m # b)"
  by (auto simp: given_out_def ball_Un intro: less_imp_le)

lemma given_out_fresh: "given_out m ns \<Longrightarrow> m \<notin> set ns"
  by (auto simp: given_out_def)

text \<open>What each write of one row does to the clauses of the invariant.\<close>

lemma ok_issue_new:
  assumes ok: "repo_state_ok s" and i: "is_number i = rs_next_number s" "is_comments i = []"
  shows "repo_state_ok (s\<lparr>rs_next_number := rs_next_number s + 1, rs_issues := dset (is_number i) i (rs_issues s)\<rparr>)"
    (is "repo_state_ok ?t")
proof -
  have new: "dget (rs_issues s) (rs_next_number s) = None"
    using given_out_fresh ok by (fastforce simp: repo_state_ok_def map_of_eq_None_iff)
  have ids: "comment_ids ?t = comment_ids s" using i new by (simp add: comment_ids_def dset_new)
  have keys: "dkeys (rs_issues ?t) = dkeys (rs_issues s) @ [rs_next_number s]" using new i(1) by (simp add: dkeys_dset)
  show ?thesis
    unfolding repo_state_ok_def ids keys using ok keyed_dset [of is_number "rs_issues s" i] given_out_next by (simp add: repo_state_ok_def)
qed

lemma ok_pull_new:
  assumes ok: "repo_state_ok s" and p: "pl_number p = rs_next_number s" "pl_comments p = []"
    "\<not> pl_merged p" "pl_merge_commit_sha p = None"
  shows "repo_state_ok (s\<lparr>rs_next_number := rs_next_number s + 1, rs_pulls := dset (pl_number p) p (rs_pulls s)\<rparr>)"
    (is "repo_state_ok ?t")
proof -
  have new: "dget (rs_pulls s) (rs_next_number s) = None"
    using given_out_fresh ok by (fastforce simp: repo_state_ok_def map_of_eq_None_iff)
  have ids: "comment_ids ?t = comment_ids s" using p new by (simp add: comment_ids_def dset_new)
  have keys: "dkeys (rs_pulls ?t) = dkeys (rs_pulls s) @ [rs_next_number s]" using new p(1) by (simp add: dkeys_dset)
  have vals: "dvals (rs_pulls ?t) = dvals (rs_pulls s) @ [p]" using new p(1) by (simp add: dset_new)
  show ?thesis
    unfolding repo_state_ok_def ids keys vals
    using ok keyed_dset [of pl_number "rs_pulls s" p] given_out_next [of "rs_next_number s" "dkeys (rs_issues s) @ dkeys (rs_pulls s)" "[]"] p(3,4)
    by (simp add: repo_state_ok_def merge_recorded_def)
qed

lemma ok_issue_upd:
  assumes ok: "repo_state_ok s" and i: "dget (rs_issues s) (is_number i) = Some j" "is_comments i = is_comments j"
  shows "repo_state_ok (s\<lparr>rs_issues := dset (is_number i) i (rs_issues s)\<rparr>)" (is "repo_state_ok ?t")
proof -
  have ids: "comment_ids ?t = comment_ids s" using rows_same [OF i(1), of is_comments i] i(2) by (simp add: comment_ids_def)
  have keys: "dkeys (rs_issues ?t) = dkeys (rs_issues s)" using update_keys [OF i(1)] by simp
  show ?thesis
    unfolding repo_state_ok_def ids keys using ok keyed_dset [of is_number "rs_issues s" i] by (simp add: repo_state_ok_def)
qed

lemma merges_upd:
  assumes "list_all merge_recorded (dvals d)" and "dget d k = Some q" and "merge_recorded q \<Longrightarrow> merge_recorded p"
  shows "list_all merge_recorded (dvals (dset k p d))"
  by (rule dset_split [OF assms(2)]) (use assms(1,3) in simp)

lemma ok_pull_upd:
  assumes ok: "repo_state_ok s" and p: "dget (rs_pulls s) (pl_number p) = Some q" "pull_moves q p"
  shows "repo_state_ok (s\<lparr>rs_pulls := dset (pl_number p) p (rs_pulls s)\<rparr>)" (is "repo_state_ok ?t")
proof -
  have ids: "comment_ids ?t = comment_ids s"
    using rows_same [OF p(1), of pl_comments p] p(2) by (simp add: comment_ids_def pull_moves_def)
  have keys: "dkeys (rs_pulls ?t) = dkeys (rs_pulls s)" using update_keys [OF p(1)] by simp
  have "list_all merge_recorded (dvals (rs_pulls ?t))"
    using merges_upd [OF _ p(1), of p] ok p(2) by (simp add: repo_state_ok_def pull_moves_def merge_recorded_def split: if_splits)
  then show ?thesis
    unfolding repo_state_ok_def ids keys using ok keyed_dset [of pl_number "rs_pulls s" p] by (simp add: repo_state_ok_def)
qed

lemma ok_issue_comment:
  assumes ok: "repo_state_ok s" and i: "dget (rs_issues s) (is_number i) = Some i" and c: "cm_id c = rs_next_comment_id s"
  shows "repo_state_ok (s\<lparr>rs_next_comment_id := rs_next_comment_id s + 1,
    rs_issues := dset (is_number i) (i\<lparr>is_comments := is_comments i @ [c]\<rparr>) (rs_issues s)\<rparr>)" (is "repo_state_ok ?t")
proof -
  let ?j = "i\<lparr>is_comments := is_comments i @ [c]\<rparr>" and ?cs = "concat (map pl_comments (dvals (rs_pulls s)))"
  obtain a b where ab: "concat (map is_comments (dvals (rs_issues s))) = a @ b"
      "concat (map is_comments (dvals (dset (is_number i) ?j (rs_issues s)))) = a @ c # b"
    by (rule rows_grow [OF i, of is_comments ?j c]) simp_all
  have ids: "comment_ids s = map cm_id a @ map cm_id (b @ ?cs)"
      "comment_ids ?t = map cm_id a @ rs_next_comment_id s # map cm_id (b @ ?cs)"
    using ab c by (simp_all add: comment_ids_def)
  have keys: "dkeys (rs_issues ?t) = dkeys (rs_issues s)" using update_keys [OF i] by simp
  show ?thesis
    unfolding repo_state_ok_def ids keys
    using ok given_out_next [of "rs_next_comment_id s" "map cm_id a"] keyed_dset [of is_number "rs_issues s" ?j]
    by (simp add: repo_state_ok_def ids)
qed

lemma ok_pull_comment:
  assumes ok: "repo_state_ok s" and p: "dget (rs_pulls s) (pl_number p) = Some p" and c: "cm_id c = rs_next_comment_id s"
  shows "repo_state_ok (s\<lparr>rs_next_comment_id := rs_next_comment_id s + 1,
    rs_pulls := dset (pl_number p) (p\<lparr>pl_comments := pl_comments p @ [c]\<rparr>) (rs_pulls s)\<rparr>)" (is "repo_state_ok ?t")
proof -
  let ?q = "p\<lparr>pl_comments := pl_comments p @ [c]\<rparr>" and ?cs = "concat (map is_comments (dvals (rs_issues s)))"
  obtain a b where ab: "concat (map pl_comments (dvals (rs_pulls s))) = a @ b"
      "concat (map pl_comments (dvals (dset (pl_number p) ?q (rs_pulls s)))) = a @ c # b"
    by (rule rows_grow [OF p, of pl_comments ?q c]) simp_all
  have ids: "comment_ids s = map cm_id (?cs @ a) @ map cm_id b"
      "comment_ids ?t = map cm_id (?cs @ a) @ rs_next_comment_id s # map cm_id b"
    using ab c by (simp_all add: comment_ids_def)
  have keys: "dkeys (rs_pulls ?t) = dkeys (rs_pulls s)" using update_keys [OF p] by simp
  have "list_all merge_recorded (dvals (rs_pulls ?t))"
    using merges_upd [OF _ p, of ?q] ok by (simp add: repo_state_ok_def merge_recorded_def)
  then show ?thesis
    unfolding repo_state_ok_def ids keys
    using ok given_out_next [of "rs_next_comment_id s" "map cm_id (?cs @ a)"] keyed_dset [of pl_number "rs_pulls s" ?q]
    by (simp add: repo_state_ok_def ids)
qed

lemma ok_label: "repo_state_ok s \<Longrightarrow> repo_state_ok (s\<lparr>rs_labels := dset (lb_name l) l (rs_labels s)\<rparr>)"
  using keyed_dset [of lb_name "rs_labels s" l] by (simp add: repo_state_ok_def comment_ids_def)

section \<open>What every run keeps\<close>

text \<open>A merge, once recorded, with what it merged.\<close>

definition merge_fixed :: "PullRequest \<Rightarrow> PullRequest \<Rightarrow> bool" where
  "merge_fixed p p' \<longleftrightarrow>
     pl_number p' = pl_number p \<and> pl_head p' = pl_head p \<and> pl_base p' = pl_base p \<and> pl_user p' = pl_user p \<and>
     pl_created_at p' = pl_created_at p \<and> pl_merged p' \<and> pl_merged_at p' = pl_merged_at p \<and>
     pl_merged_by p' = pl_merged_by p \<and> pl_merge_commit_sha p' = pl_merge_commit_sha p"

definition merges_kept :: "'g forge \<Rightarrow> 'g forge \<Rightarrow> bool" where
  "merges_kept f f' \<longleftrightarrow>
     (\<forall>r n p. state_get_pull f r n = Some p \<longrightarrow> pl_merged p \<longrightarrow>
       (\<exists>p'. state_get_pull f' r n = Some p' \<and> merge_fixed p p'))"

definition forge_moves :: "'g forge \<Rightarrow> 'g forge \<Rightarrow> bool" where
  "forge_moves f f' \<longleftrightarrow>
     (pulls_keyed f \<longrightarrow> pulls_keyed f') \<and> (store_ok f \<longrightarrow> store_ok f' \<and> merges_kept f f')"

lemma merges_kept_same: "(\<And>r. rs_pulls (repo_state f' r) = rs_pulls (repo_state f r)) \<Longrightarrow> merges_kept f f'"
  by (simp add: merges_kept_def state_get_pull_def merge_fixed_def)

lemma merges_kept_put:
  assumes "\<And>r. rs_pulls (repo_state f1 r) = rs_pulls (repo_state f r)"
    and "\<And>q. state_get_pull f repo (pl_number p) = Some q \<Longrightarrow> pl_merged q \<Longrightarrow> merge_fixed q p"
  shows "merges_kept f (put_pull repo p f1)"
proof -
  have "state_get_pull f1 r n = state_get_pull f r n" for r n using assms(1) by (simp add: state_get_pull_def)
  moreover have "merge_fixed q q" if "pl_merged q" for q using that by (simp add: merge_fixed_def)
  ultimately show ?thesis using assms(2) by (simp add: merges_kept_def)
qed

lemma merges_kept_trans:
  assumes "merges_kept f1 f2" and "merges_kept f2 f3"
  shows "merges_kept f1 f3"
  unfolding merges_kept_def
proof (intro allI impI)
  fix r n p assume "state_get_pull f1 r n = Some p" "pl_merged p"
  with assms(1) obtain p1 where p1: "state_get_pull f2 r n = Some p1" "merge_fixed p p1"
    unfolding merges_kept_def by blast
  moreover from p1(2) have "pl_merged p1" by (simp add: merge_fixed_def)
  ultimately obtain p2 where p2: "state_get_pull f3 r n = Some p2" "merge_fixed p1 p2"
    using assms(2) unfolding merges_kept_def by blast
  from p1(2) p2(2) have "merge_fixed p p2" by (simp add: merge_fixed_def)
  with p2(1) show "\<exists>p'. state_get_pull f3 r n = Some p' \<and> merge_fixed p p'" by auto
qed

lemma keyed_writes:
  "pulls_keyed f \<Longrightarrow> pulls_keyed (put_pull repo p f)"
  "pulls_keyed f \<Longrightarrow> pulls_keyed (put_issue repo i f)"
  "pulls_keyed f \<Longrightarrow> pulls_keyed (put_label repo l f)"
  "pulls_keyed f \<Longrightarrow> next_number repo f = (n, f1) \<Longrightarrow> pulls_keyed f1"
  "pulls_keyed f \<Longrightarrow> next_comment_id repo f = (n, f1) \<Longrightarrow> pulls_keyed f1"
  by (auto simp: pulls_keyed_def next_number_state next_comment_id_state)

lemma keyed_rows:
  assumes "store_ok f"
  shows "state_get_issue f repo n = Some i \<Longrightarrow> is_number i = n" and "state_get_pull f repo n = Some p \<Longrightarrow> pl_number p = n"
  using assms keyed_get by (fastforce simp: store_ok_def repo_state_ok_def state_get_issue_def state_get_pull_def)+

lemma store_ok_at: "store_ok f \<Longrightarrow> repo_state_ok (repo_state f r)"
  by (simp add: store_ok_def)

lemma fresh_pull:
  assumes "store_ok f" and "next_number repo f = (n, f1)"
  shows "state_get_pull f repo n = None"
proof -
  have "n \<notin> set (dkeys (rs_pulls (repo_state f repo)))"
    using given_out_fresh [of "rs_next_number (repo_state f repo)"] store_ok_at [OF assms(1), of repo] next_number_state(1) [OF assms(2)]
    by (fastforce simp: repo_state_ok_def)
  then show ?thesis by (simp add: state_get_pull_def map_of_eq_None_iff)
qed

interpretation life: forge_frame forge_moves
proof
  fix f f' :: "'g forge" assume "fg_repos f' = fg_repos f"
  then show "forge_moves f f'"
    by (simp add: forge_moves_def pulls_keyed_def repo_state_def store_ok_def merges_kept_same)
next
  fix f1 f2 f3 :: "'g forge" assume "forge_moves f1 f2" "forge_moves f2 f3"
  then show "forge_moves f1 f3" by (auto simp: forge_moves_def intro: merges_kept_trans)
next
  fix repo and i :: Issue and f f1 :: "'g forge" assume n: "next_number repo f = (is_number i, f1)" and c: "is_comments i = []"
  note f1 = next_number_state [OF n]
  have "store_ok (put_issue repo i f1)" if "store_ok f"
    using that ok_issue_new [OF store_ok_at [OF that] f1(1) c] by (auto simp: store_ok_def f1)
  then show "forge_moves f (put_issue repo i f1)"
    using n by (auto simp: forge_moves_def f1(2) intro: keyed_writes merges_kept_same)
next
  fix repo n and i i' :: Issue and f :: "'g forge"
  assume i: "state_get_issue f repo n = Some i" "is_number i' = is_number i" "is_comments i' = is_comments i"
  have "store_ok (put_issue repo i' f)" if "store_ok f"
    using that i ok_issue_upd [OF store_ok_at [OF that], of repo i' i] keyed_rows(1) [OF that i(1)]
    by (auto simp: store_ok_def state_get_issue_def)
  then show "forge_moves f (put_issue repo i' f)"
    by (auto simp: forge_moves_def intro: keyed_writes merges_kept_same)
next
  fix repo and p :: PullRequest and f f1 :: "'g forge"
  assume n: "next_number repo f = (pl_number p, f1)"
    and p: "pl_comments p = []" "\<not> pl_merged p" "pl_merge_commit_sha p = None"
  note f1 = next_number_state [OF n]
  have "store_ok (put_pull repo p f1)" if "store_ok f"
    using that ok_pull_new [OF store_ok_at [OF that] f1(1) p] by (auto simp: store_ok_def f1)
  then show "forge_moves f (put_pull repo p f1)"
    using n fresh_pull [OF _ n] by (auto simp: forge_moves_def f1(2) intro: keyed_writes intro!: merges_kept_put)
next
  fix repo n and p p' :: PullRequest and f :: "'g forge" assume p: "state_get_pull f repo n = Some p" "pull_moves p p'"
  have "store_ok (put_pull repo p' f) \<and> merges_kept f (put_pull repo p' f)" if "store_ok f"
  proof
    have eq: "dget (rs_pulls (repo_state f repo)) (pl_number p') = Some p"
      using p keyed_rows(2) [OF that p(1)] by (simp add: pull_moves_def state_get_pull_def)
    show "store_ok (put_pull repo p' f)"
      using that ok_pull_upd [OF store_ok_at [OF that] eq p(2)] by (auto simp: store_ok_def)
    show "merges_kept f (put_pull repo p' f)"
      using p(2) eq by (intro merges_kept_put) (auto simp: state_get_pull_def pull_moves_def merge_fixed_def)
  qed
  then show "forge_moves f (put_pull repo p' f)"
    by (auto simp: forge_moves_def intro: keyed_writes)
next
  fix repo n and i :: Issue and c :: Comment and f f1 :: "'g forge"
  assume i: "state_get_issue f repo n = Some i" and c: "next_comment_id repo f = (cm_id c, f1)"
  note f1 = next_comment_id_state [OF c]
  have "store_ok (put_issue repo (i\<lparr>is_comments := is_comments i @ [c]\<rparr>) f1)" if "store_ok f"
    using that ok_issue_comment [OF store_ok_at [OF that] _ f1(1), of i] i keyed_rows(1) [OF that i]
    by (auto simp: store_ok_def f1 state_get_issue_def)
  then show "forge_moves f (put_issue repo (i\<lparr>is_comments := is_comments i @ [c]\<rparr>) f1)"
    using c by (auto simp: forge_moves_def f1(2) intro: keyed_writes merges_kept_same)
next
  fix repo n and p :: PullRequest and c :: Comment and f f1 :: "'g forge"
  assume p: "state_get_pull f repo n = Some p" and c: "next_comment_id repo f = (cm_id c, f1)"
  note f1 = next_comment_id_state [OF c]
  let ?q = "p\<lparr>pl_comments := pl_comments p @ [c]\<rparr>"
  have "store_ok (put_pull repo ?q f1) \<and> merges_kept f (put_pull repo ?q f1)" if "store_ok f"
  proof
    have eq: "dget (rs_pulls (repo_state f repo)) (pl_number p) = Some p"
      using p keyed_rows(2) [OF that p] by (simp add: state_get_pull_def)
    show "store_ok (put_pull repo ?q f1)"
      using that ok_pull_comment [OF store_ok_at [OF that] eq f1(1)] by (auto simp: store_ok_def f1)
    show "merges_kept f (put_pull repo ?q f1)"
      using eq by (intro merges_kept_put) (auto simp: state_get_pull_def merge_fixed_def f1(2))
  qed
  then show "forge_moves f (put_pull repo ?q f1)"
    using c by (auto simp: forge_moves_def intro: keyed_writes)
next
  fix repo l and f :: "'g forge"
  show "forge_moves f (put_label repo l f)"
    using ok_label by (auto simp: forge_moves_def store_ok_def intro: keyed_writes merges_kept_same)
next
  fix f f' :: "'g forge" assume "forge_moves f f'" "pulls_keyed f"
  then show "pulls_keyed f'" by (simp add: forge_moves_def)
qed

lemma store_ok_keyed: "store_ok f \<Longrightarrow> pulls_keyed f"
  by (simp add: store_ok_def repo_state_ok_def pulls_keyed_def)

lemma run_moves: "store_ok f \<Longrightarrow> store_ok (forge_run G cs f) \<and> merges_kept f (forge_run G cs f)"
  using life.run_keeps [OF store_ok_keyed, of f G cs] by (simp add: forge_moves_def)

end
