(* ===== verification/Forge_Wire.thy ===== *)
theory Forge_Wire
  imports Forge_Control
begin

text \<open>
  What the forge writes on the wire (\<^verbatim>\<open>src/blizzard_mock/forge/api/serialization.py\<close>, the
  \<^verbatim>\<open>Link\<close> header of \<^verbatim>\<open>api/pulls.py\<close>, the pages of \<^verbatim>\<open>api/web.py\<close>, the query reader of
  \<^verbatim>\<open>api/graphql.py\<close>): the GitHub-shaped JSON of every entity. \<^verbatim>\<open>hash\<close>, which Python seeds anew in
  every process, is an argument of the one rendering that uses it. Shown: the alias reader of the
  GraphQL route gives back the aliases of every query of the shape it was written for.
\<close>

section \<open>Timestamps and leaves\<close>

text \<open>\<^verbatim>\<open>strftime("%Y-%m-%dT%H:%M:%SZ")\<close> of a UTC time; the C library does not pad the year.\<close>

definition stamp :: "instant \<Rightarrow> string" where
  "stamp t =
     (case civil (t div 1000000 div 86400) of (y, m, d) \<Rightarrow>
        show_int y @ ''-'' @ pad_digits 2 m @ ''-'' @ pad_digits 2 d)
     @ ''T'' @ iso_time (t div 1000000 mod 86400) 0 @ ''Z''"

definition user_json :: "string \<Rightarrow> json" where
  "user_json login = JObj [(''login'', JStr login), (''type'', JStr ''User'')]"

definition error_json :: "string \<Rightarrow> json" where
  "error_json message = JObj [(''message'', JStr message), (''documentation_url'', JStr ''https://docs.github.com/rest'')]"

definition opt_json :: "('a \<Rightarrow> json) \<Rightarrow> 'a option \<Rightarrow> json" where
  "opt_json k v = (case v of None \<Rightarrow> JNull | Some x \<Rightarrow> k x)"

section \<open>Repositories, issues, labels\<close>

definition repo_json :: "(string \<Rightarrow> int) \<Rightarrow> Repo \<Rightarrow> string \<Rightarrow> json" where
  "repo_json hash_str repo base_url =
     (let full = full_name repo
      in JObj [(''id'', JInt (\<bar>hash_str full\<bar> mod 10 ^ 8)), (''name'', JStr (rp_name repo)), (''full_name'', JStr full),
           (''owner'', user_json (rp_owner repo)), (''private'', JBool False),
           (''default_branch'', JStr (rp_default_branch repo)),
           (''html_url'', JStr (base_url @ ''/'' @ full)), (''url'', JStr (base_url @ ''/repos/'' @ full))])"

definition issue_labels_json :: "string list \<Rightarrow> json" where
  "issue_labels_json names = JList (map (\<lambda>n. JObj [(''name'', JStr n)]) names)"

definition issue_json :: "string \<Rightarrow> Issue \<Rightarrow> string \<Rightarrow> bool \<Rightarrow> json" where
  "issue_json repo_full i base_url is_pull =
     (let n = show_int (is_number i); api = base_url @ ''/repos/'' @ repo_full
      in JObj ([(''number'', JInt (is_number i)), (''title'', JStr (is_title i)), (''body'', JStr (is_body i)),
           (''state'', JStr (forge_state_value (is_state i))), (''state_reason'', opt_str (is_state_reason i)),
           (''user'', user_json (is_user i)), (''labels'', issue_labels_json (is_labels i)),
           (''comments'', JInt (int (length (is_comments i)))), (''created_at'', JStr (stamp (is_created_at i))),
           (''updated_at'', JStr (stamp (is_updated_at i))),
           (''html_url'', JStr (base_url @ ''/'' @ repo_full @ ''/issues/'' @ n)),
           (''url'', JStr (api @ ''/issues/'' @ n)),
           (''comments_url'', JStr (api @ ''/issues/'' @ n @ ''/comments''))]
         @ (if is_pull
            then [(''pull_request'', JObj [(''url'', JStr (api @ ''/pulls/'' @ n)),
                    (''html_url'', JStr (base_url @ ''/'' @ repo_full @ ''/pull/'' @ n))])]
            else [])))"

definition label_json :: "Label \<Rightarrow> json" where
  "label_json l = JObj [(''name'', JStr (lb_name l))]"

definition comment_json :: "string \<Rightarrow> int \<Rightarrow> Comment \<Rightarrow> string \<Rightarrow> json" where
  "comment_json repo_full number c base_url =
     JObj [(''id'', JInt (cm_id c)), (''body'', JStr (cm_body c)), (''user'', user_json (cm_user c)),
       (''created_at'', JStr (stamp (cm_created_at c))), (''updated_at'', JStr (stamp (cm_updated_at c))),
       (''html_url'', JStr (base_url @ ''/'' @ repo_full @ ''/issues/'' @ show_int number @ ''#issuecomment-'' @ show_int (cm_id c))),
       (''url'', JStr (base_url @ ''/repos/'' @ repo_full @ ''/issues/comments/'' @ show_int (cm_id c)))]"

section \<open>Pull requests, commits, refs\<close>

definition side_json :: "string \<Rightarrow> string \<Rightarrow> json" where
  "side_json ref sha = JObj [(''ref'', JStr ref), (''sha'', JStr sha), (''label'', JStr ref)]"

definition pull_json :: "string \<Rightarrow> PullView \<Rightarrow> string \<Rightarrow> json" where
  "pull_json repo_full v base_url =
     (let p = pv_pull v; n = show_int (pl_number p)
      in JObj [(''number'', JInt (pl_number p)), (''title'', JStr (pl_title p)), (''body'', JStr (pl_body p)),
           (''state'', JStr (forge_state_value (pl_state p))), (''user'', user_json (pl_user p)),
           (''created_at'', JStr (stamp (pl_created_at p))), (''updated_at'', JStr (stamp (pl_updated_at p))),
           (''merged'', JBool (pl_merged p)), (''merged_at'', opt_json (\<lambda>t. JStr (stamp t)) (pl_merged_at p)),
           (''merged_by'', if truthy (pl_merged_by p) then opt_json user_json (pl_merged_by p) else JNull),
           (''merge_commit_sha'', opt_str (pl_merge_commit_sha p)), (''mergeable'', opt_json JBool (pv_mergeable v)),
           (''mergeable_state'', JStr (mergeable_state_value (pv_mergeable_state v))),
           (''comments'', JInt (int (length (pl_comments p)))), (''head'', side_json (pl_head p) (pv_head_sha v)),
           (''base'', side_json (pl_base p) (pv_base_sha v)),
           (''html_url'', JStr (base_url @ ''/'' @ repo_full @ ''/pull/'' @ n)),
           (''url'', JStr (base_url @ ''/repos/'' @ repo_full @ ''/pulls/'' @ n))])"

definition merge_result_json :: "MergeResult \<Rightarrow> json" where
  "merge_result_json r = JObj [(''sha'', JStr (mr_sha r)), (''merged'', JBool (mr_merged r)), (''message'', JStr (mr_message r))]"

definition shas_json :: "string list \<Rightarrow> json" where
  "shas_json shas = JList (map (\<lambda>s. JObj [(''sha'', JStr s)]) shas)"

definition commit_json :: "string \<Rightarrow> GitCommit \<Rightarrow> string \<Rightarrow> json" where
  "commit_json repo_full c base_url =
     JObj [(''sha'', JStr (gc_sha c)), (''url'', JStr (base_url @ ''/repos/'' @ repo_full @ ''/commits/'' @ gc_sha c)),
       (''html_url'', JStr (base_url @ ''/'' @ repo_full @ ''/commit/'' @ gc_sha c)),
       (''commit'', JObj [(''message'', JStr (gc_message c)),
          (''author'', JObj [(''name'', JStr (GitAuthor.ga_name (gc_author c))), (''email'', JStr (ga_email (gc_author c))),
             (''date'', JStr (ga_date (gc_author c)))])]),
       (''parents'', shas_json (gc_parents c))]"

definition compare_file_json :: "GitCompareFile \<Rightarrow> json" where
  "compare_file_json x =
     JObj ([(''filename'', JStr (gf_filename x)), (''status'', JStr (gf_status x)), (''sha'', JStr (gf_sha x)),
        (''additions'', JInt (gf_additions x)), (''deletions'', JInt (gf_deletions x))]
       @ (case gf_patch x of None \<Rightarrow> [] | Some p \<Rightarrow> [(''patch'', JStr p)])
       @ (case gf_previous_filename x of None \<Rightarrow> [] | Some p \<Rightarrow> [(''previous_filename'', JStr p)]))"

definition compare_json :: "string \<Rightarrow> GitCompare \<Rightarrow> string \<Rightarrow> json" where
  "compare_json repo_full c base_url =
     (let commits = base_url @ ''/repos/'' @ repo_full @ ''/commits/''
      in JObj [(''status'', JStr (gm_status c)), (''ahead_by'', JInt (gm_ahead_by c)), (''behind_by'', JInt (gm_behind_by c)),
           (''total_commits'', JInt (int (length (gm_commits c)))),
           (''merge_base_commit'', JObj [(''sha'', JStr (gm_merge_base_sha c)), (''url'', JStr (commits @ gm_merge_base_sha c))]),
           (''commits'', JList (map (\<lambda>k. JObj [(''sha'', JStr (gcc_sha k)), (''url'', JStr (commits @ gcc_sha k)),
              (''parents'', shas_json (gcc_parents k))]) (gm_commits c))),
           (''files'', JList (map compare_file_json (gm_files c)))])"

definition ref_json :: "string \<Rightarrow> string \<Rightarrow> string \<Rightarrow> string \<Rightarrow> json" where
  "ref_json repo_full ref_name sha base_url =
     JObj [(''ref'', JStr ref_name), (''url'', JStr (base_url @ ''/repos/'' @ repo_full @ ''/git/'' @ ref_name)),
       (''object'', JObj [(''sha'', JStr sha), (''type'', JStr ''commit'')])]"

definition check_run_json :: "string \<Rightarrow> CheckRun \<Rightarrow> string \<Rightarrow> json" where
  "check_run_json repo_full r base_url =
     JObj [(''id'', JInt (ck_id r)), (''name'', JStr (ck_name r)), (''status'', JStr (ck_status r)),
       (''conclusion'', opt_str (ck_conclusion r)),
       (''details_url'', JStr (base_url @ ''/'' @ repo_full @ ''/runs/'' @ show_int (ck_id r))),
       (''head_sha'', JStr (ck_head_sha r))]"

definition forge_lever_json :: "Lever \<Rightarrow> json" where
  "forge_lever_json l =
     JObj [(''kind'', JStr (lever_kind_value (gl_kind l))), (''repo'', opt_str (gl_repo l)), (''number'', opt_json JInt (gl_number l)),
       (''remaining'', opt_json JInt (gl_remaining l)), (''message'', opt_str (gl_message l)),
       (''branch'', opt_str (gl_branch l)), (''pattern'', opt_str (gl_pattern l)),
       (''state'', opt_json (\<lambda>s. JStr (mergeable_state_value s)) (gl_state l))]"

section \<open>The Link header\<close>

text \<open>\<^verbatim>\<open>urllib.parse.urlencode\<close>: letters, digits and \<^verbatim>\<open>_.-~\<close> stand, a blank is a plus sign, any
  other byte is percent and two upper-case hexadecimal digits.\<close>

definition hex_upper :: "nat \<Rightarrow> char" where
  "hex_upper n = ''0123456789ABCDEF'' ! n"

definition quote_char :: "char \<Rightarrow> string" where
  "quote_char c =
     (if is_alnum c \<or> c \<in> set ''_.-~'' then [c]
      else if c = CHR '' '' then ''+''
      else let n = (of_char c :: nat) in [CHR ''%'', hex_upper (n div 16), hex_upper (n mod 16)])"

definition quote_plus :: "string \<Rightarrow> string" where
  "quote_plus s = concat (map quote_char s)"

definition urlencode :: "(string, string) dict \<Rightarrow> string" where
  "urlencode query = join ''&'' (map (\<lambda>(k, v). quote_plus k @ ''='' @ quote_plus v) query)"

definition link_rels :: "PullPage \<Rightarrow> (string \<times> int) list" where
  "link_rels r =
     (let last_pg = last_page (pp_per_page r) (pp_total r); pg = pp_page r
      in (if pg > 1 then [(''prev'', min (pg - 1) last_pg), (''first'', 1)] else [])
       @ (if pg < last_pg then [(''next'', pg + 1), (''last'', last_pg)] else []))"

definition page_url :: "string \<Rightarrow> (string, string) dict \<Rightarrow> int \<Rightarrow> int \<Rightarrow> string" where
  "page_url url query k number =
     url @ ''?'' @ urlencode (dset ''per_page'' (show_int k) (dset ''page'' (show_int number) query))"

definition link_header :: "string \<Rightarrow> (string, string) dict \<Rightarrow> PullPage \<Rightarrow> string" where
  "link_header url query r =
     (case pp_per_page r of
        None \<Rightarrow> []
      | Some k \<Rightarrow>
          join '', '' (map (\<lambda>(rel, number). ''<'' @ page_url url query k number @ ''>; rel='' @ [CHR 0x22] @ rel @ [CHR 0x22])
            (link_rels r)))"

section \<open>Pages for a browser\<close>

definition escape_char :: "char \<Rightarrow> string" where
  "escape_char c =
     (if c = CHR ''&'' then ''&amp;'' else if c = CHR ''<'' then ''&lt;'' else if c = CHR ''>'' then ''&gt;''
      else if c = CHR 0x22 then ''&quot;'' else if c = CHR 0x27 then ''&#x27;'' else [c])"

definition html_escape :: "string \<Rightarrow> string" where
  "html_escape s = concat (map escape_char s)"

definition html_page :: "string \<Rightarrow> string list \<Rightarrow> string" where
  "html_page title lines =
     (let heading = html_escape title; q = [CHR 0x27]
      in ''<!doctype html><html lang='' @ q @ ''en'' @ q @ ''><meta charset='' @ q @ ''utf-8'' @ q @ ''><title>'' @ heading
         @ ''</title><main><h1>'' @ heading @ ''</h1>''
         @ concat (map (\<lambda>l. ''<p>'' @ html_escape l @ ''</p>'') lines) @ ''</main></html>'')"

definition RIGHT_ARROW :: string where
  "RIGHT_ARROW = [CHR 0xE2, CHR 0x86, CHR 0x92]"

definition state_title :: "forge_state \<Rightarrow> string" where
  "state_title s = (case s of FS_OPEN \<Rightarrow> ''Open'' | FS_CLOSED \<Rightarrow> ''Closed'')"

definition pull_page_text :: "string \<Rightarrow> string \<Rightarrow> int \<Rightarrow> PullRequest \<Rightarrow> string" where
  "pull_page_text owner repo number p =
     html_page (owner @ ''/'' @ repo @ '' PR #'' @ show_int number @ '': '' @ pl_title p)
       ([if pl_merged p then ''Merged'' else state_title (pl_state p), pl_head p @ '' '' @ RIGHT_ARROW @ '' '' @ pl_base p]
        @ (case pl_merge_commit_sha p of None \<Rightarrow> [] | Some sha \<Rightarrow> if sha = [] then [] else [''Merged commit: '' @ sha]))"

definition commit_page_text :: "string \<Rightarrow> string \<Rightarrow> GitCommit \<Rightarrow> string" where
  "commit_page_text owner repo c = html_page (owner @ ''/'' @ repo @ '' commit '' @ gc_sha c) [gc_message c]"

section \<open>The query reader of the GraphQL route\<close>

text \<open>\<^verbatim>\<open>_ALIAS_RE\<close> on ASCII text, one function per stretch of the pattern: a name, blanks and a colon,
  the field, a number between blanks, the closing parenthesis. No stretch can give characters back
  to an earlier one, so the first reading is the only one.\<close>

definition name_start :: "char \<Rightarrow> bool" where
  "name_start c \<longleftrightarrow> is_alnum c \<and> \<not> is_digit c \<or> c = CHR ''_''"

definition name_char :: "char \<Rightarrow> bool" where
  "name_char c \<longleftrightarrow> is_alnum c \<or> c = CHR ''_''"

abbreviation skip_blanks :: "string \<Rightarrow> string" where
  "skip_blanks s \<equiv> dropWhile is_space s"

definition expect :: "string \<Rightarrow> string \<Rightarrow> string option" where
  "expect lit s = (if starts_with lit s then Some (drop (length lit) s) else None)"

definition read_number :: "string \<Rightarrow> (string \<times> string) option" where
  "read_number s = (case takeWhile is_digit s of [] \<Rightarrow> None | n \<Rightarrow> Some (n, dropWhile is_digit s))"

definition match_alias :: "string \<Rightarrow> ((string \<times> string) \<times> string) option" where
  "match_alias s =
     (if s = [] \<or> \<not> name_start (hd s) then None
      else
        Option.bind (expect '':'' (skip_blanks (dropWhile name_char s))) (\<lambda>s1.
        Option.bind (expect ''issueOrPullRequest('' (skip_blanks s1)) (\<lambda>s2.
        Option.bind (expect ''number'' (skip_blanks s2)) (\<lambda>s3.
        Option.bind (expect '':'' (skip_blanks s3)) (\<lambda>s4.
        Option.bind (read_number (skip_blanks s4)) (\<lambda>(n, s5).
        Option.bind (expect '')'' (skip_blanks s5)) (\<lambda>s6.
        Some ((takeWhile name_char s, n), s6))))))))"

lemma expect_shorter: "expect lit s = Some t \<Longrightarrow> length t \<le> length s"
  by (auto simp: expect_def split: if_splits)

lemma skip_shorter: "length (dropWhile P s) \<le> length s"
  by (rule length_dropWhile_le)

lemma expect_skip: "expect lit (skip_blanks s) = Some t \<Longrightarrow> length t \<le> length s"
  using expect_shorter skip_shorter le_trans by blast

lemma read_number_shorter: "read_number (skip_blanks s) = Some (n, t) \<Longrightarrow> length t \<le> length s"
  by (auto simp: read_number_def split: list.splits intro: order.trans [OF skip_shorter skip_shorter])

lemma match_alias_shorter:
  assumes "match_alias s = Some (a, t)"
  shows "length t < length s"
proof -
  from assms have s: "s \<noteq> []" "name_start (hd s)" by (auto simp: match_alias_def split: if_splits)
  then have "length (dropWhile name_char s) < length s"
    using skip_shorter [of name_char "tl s"] by (cases s) (auto simp: name_start_def name_char_def)
  moreover from assms have "length t \<le> length (dropWhile name_char s)"
    by (auto simp: match_alias_def bind_eq_Some_conv split: if_splits dest!: expect_skip read_number_shorter)
  ultimately show ?thesis by simp
qed

text \<open>\<^verbatim>\<open>re.findall\<close>: matches from left to right, none overlapping another.\<close>

function find_aliases :: "string \<Rightarrow> (string \<times> string) list" where
  "find_aliases s =
     (case match_alias s of
        Some (a, t) \<Rightarrow> a # find_aliases t
      | None \<Rightarrow> (case s of [] \<Rightarrow> [] | c # cs \<Rightarrow> find_aliases cs))"
  by auto
termination by (relation "measure length") (auto dest: match_alias_shorter)

declare find_aliases.simps [simp del]

section \<open>Reading back the fields of a query\<close>

definition alias_field :: "string \<Rightarrow> nat \<Rightarrow> string" where
  "alias_field a n = a @ '': issueOrPullRequest(number: '' @ show_nat n @ '')''"

definition alias_name :: "string \<Rightarrow> bool" where
  "alias_name a \<longleftrightarrow> a \<noteq> [] \<and> name_start (hd a) \<and> list_all name_char a"

text \<open>Text between two fields: no colon in it, and it does not end in a name.\<close>

definition between_fields :: "string \<Rightarrow> bool" where
  "between_fields t \<longleftrightarrow> t \<noteq> [] \<and> CHR '':'' \<notin> set t \<and> \<not> name_char (last t)"

lemma match_alias_field:
  assumes "alias_name a"
  shows "match_alias (alias_field a n @ rest) = Some ((a, show_nat n), rest)"
proof -
  have tw: "takeWhile name_char (a @ CHR '':'' # r) = a" "dropWhile name_char (a @ CHR '':'' # r) = CHR '':'' # r" for r
    using assms by (simp_all add: alias_name_def list_all_iff name_char_def is_alnum_def takeWhile_append dropWhile_append)
  have dg: "takeWhile is_digit (show_nat n @ CHR '')'' # r) = show_nat n" "dropWhile is_digit (show_nat n @ CHR '')'' # r) = CHR '')'' # r" for r
    using show_nat_digits [of n] by (simp_all add: list_all_iff takeWhile_append dropWhile_append is_digit_def)
  have sp: "skip_blanks (show_nat n @ r) = show_nat n @ r" for r
    using show_nat_digits [of n] show_nat_nonempty [of n]
    by (cases "show_nat n") (auto simp: is_digit_def is_space_def simp del: show_nat_nonempty)
  show ?thesis
    using assms tw dg sp show_nat_nonempty [of n]
    by (cases a; cases "show_nat n") (auto simp: match_alias_def alias_field_def alias_name_def expect_def starts_with_def read_number_def is_space_def)
qed

lemma find_aliases_none: "match_alias (c # cs) = None \<Longrightarrow> find_aliases (c # cs) = find_aliases cs"
  by (subst find_aliases.simps) simp

lemma find_aliases_nil [simp]: "find_aliases [] = []"
  by (subst find_aliases.simps) (simp add: match_alias_def)

lemma no_colon_no_match:
  assumes "between_fields t" and "s = [] \<or> name_start (hd s)"
  shows "match_alias (t @ s) = None"
proof -
  let ?u = "dropWhile name_char t"
  have u: "dropWhile name_char (t @ s) = ?u @ s" "?u \<noteq> []"
    using assms(1) by (auto simp: between_fields_def dropWhile_append dropWhile_eq_Nil_conv)
  have "CHR '':'' \<notin> set ?u" using assms(1) by (auto simp: between_fields_def dest: set_dropWhileD)
  then have "expect '':'' (skip_blanks (?u @ s)) = None"
  proof (cases "skip_blanks ?u")
    case Nil
    then have eq: "skip_blanks (?u @ s) = skip_blanks s" by (simp add: dropWhile_append dropWhile_eq_Nil_conv)
    show ?thesis
      unfolding eq using assms(2) by (cases s) (auto simp: expect_def starts_with_def name_start_def is_alnum_def is_space_def)
  next
    case (Cons c cs)
    then have "c \<in> set ?u" by (metis list.set_intros(1) set_dropWhileD)
    moreover from Cons have "skip_blanks (?u @ s) = c # cs @ s"
      by (metis append_Cons dropWhile_append dropWhile_eq_Nil_conv list.distinct(1))
    ultimately show ?thesis
      using \<open>CHR '':'' \<notin> set ?u\<close> by (auto simp: expect_def starts_with_def)
  qed
  with u show ?thesis by (simp add: match_alias_def)
qed

lemma find_aliases_skip:
  assumes "between_fields t" and "s = [] \<or> name_start (hd s)"
  shows "find_aliases (t @ s) = find_aliases s"
  using assms
proof (induction t)
  case (Cons c t)
  have "find_aliases ((c # t) @ s) = find_aliases (t @ s)"
    using find_aliases_none no_colon_no_match [OF Cons.prems] by simp
  also have "\<dots> = find_aliases s"
    using Cons by (cases "t = []") (auto simp: between_fields_def)
  finally show ?case .
qed (simp add: between_fields_def)

lemma find_aliases_fields:
  assumes "list_all (\<lambda>(a, n, t). alias_name a \<and> between_fields t) items"
  shows "find_aliases (concat (map (\<lambda>(a, n, t). alias_field a n @ t) items)) = map (\<lambda>(a, n, t). (a, show_nat n)) items"
  using assms
proof (induction items)
  case (Cons x items)
  obtain a n t where x: "x = (a, n, t)" by (cases x)
  let ?s = "concat (map (\<lambda>(a, n, t). alias_field a n @ t) items)"
  have "?s = [] \<or> name_start (hd ?s)"
    using Cons.prems by (cases items) (auto simp: alias_field_def alias_name_def)
  with Cons.prems x have "find_aliases (t @ ?s) = find_aliases ?s" by (intro find_aliases_skip) simp_all
  moreover have "find_aliases (alias_field a n @ t @ ?s) = (a, show_nat n) # find_aliases (t @ ?s)"
    using Cons.prems x by (subst find_aliases.simps) (simp add: match_alias_field)
  ultimately show ?case using Cons x by simp
qed simp

end
