(* ===== verification/Forge_Life.thy ===== *)
theory Forge_Life
  imports Forge_Runs Forge_Wire "HOL-Library.Multiset"
begin

text \<open>
  What the forge guarantees over any run of its operations and any git backend: a well-formed store,
  merges that stand, merges that happen exactly under their conditions, rate answers within their
  window, and listings whose pages make up the whole. A backend over a table of branches is the
  concrete instance of the witnesses.
\<close>

section \<open>A git backend over a table of branches\<close>

definition fx_repo :: Repo where
  "fx_repo = \<lparr>rp_owner = ''o'', rp_name = ''r'', rp_default_branch = ''main''\<rparr>"

definition fx_resolve :: "Repo \<Rightarrow> string \<Rightarrow> (string, string) dict \<Rightarrow> forge_error + string" where
  "fx_resolve repo ref g = (case dget g ref of None \<Rightarrow> Inl (BranchNotFound ref) | Some sha \<Rightarrow> Inr sha)"

definition fx_land :: "Repo \<Rightarrow> string \<Rightarrow> string \<Rightarrow> string \<Rightarrow> (string, string) dict \<Rightarrow> (forge_error + string) \<times> (string, string) dict" where
  "fx_land repo base head message g = (Inr ''c9'', dset base ''c9'' g)"

definition fx_git :: "(string, string) dict git_ops" where
  "fx_git =
     \<lparr>git_get_repo = (\<lambda>ow nm g. if ow = ''o'' \<and> nm = ''r'' then Inr fx_repo else Inl (RepoNotFound nm)),
      git_branch_exists = (\<lambda>repo b g. dget g b \<noteq> None), git_resolve_ref = fx_resolve,
      git_get_commit = (\<lambda>repo ref g. Inl (BranchNotFound ref)), git_compare = (\<lambda>repo base head g. Inl (BranchNotFound base)),
      git_is_mergeable = (\<lambda>repo base head g. Inr True), git_is_ancestor = (\<lambda>repo a b g. Inr (a = b)),
      git_create = (\<lambda>ow nm files g. (Inl (RepoAlreadyExists ''repository exists''), g)), git_origin = (\<lambda>repo g. ''origin''),
      git_merge = fx_land, git_rebase = fx_land, git_squash = fx_land,
      git_create_ref = (\<lambda>repo b sha g. (Inr (), dset b sha g)), git_delete_ref = (\<lambda>repo b g. (Inr (), dpop b g)),
      git_update_ref = (\<lambda>repo b sha g. (Inr (), dset b sha g))\<rparr>"

definition fx_forge :: "(string, string) dict forge" where
  "fx_forge = new_forge [(''main'', ''c1''), (''topic'', ''c2'')]"

definition fx_calls :: "(instant \<times> forge_call) list" where
  "fx_calls = [(5, CreatePull ''o'' ''r'' ''t'' '''' ''topic'' ''main'' ''ann''), (6, MergePull ''o'' ''r'' 1 MM_SQUASH None None ''bob'')]"

definition fx_merged :: PullRequest where
  "fx_merged = merged_pull 6 ''c9'' ''bob'' ''c2'' (new_pull 5 1 ''t'' '''' ''topic'' ''main'' ''ann'')"

section \<open>Lists and pages\<close>

lemma concat_pages: "concat (map (\<lambda>i. take k (drop (i * k) xs)) [0..<m]) = take (m * k) xs"
proof (induction m)
  case (Suc m)
  have "take (m * k) xs @ take k (drop (m * k) xs) = take (m * k + k) xs" by (simp add: take_add)
  with Suc show ?case by (simp add: add.commute)
qed simp

lemma last_page_covers:
  assumes "1 \<le> k"
  shows "int n \<le> last_page (Some k) (int n) * k" and "1 \<le> last_page (Some k) (int n)"
proof -
  have "(- int n) div k * k + (- int n) mod k = - int n" by (rule div_mult_mod_eq)
  moreover have "0 \<le> (- int n) mod k" using assms by simp
  ultimately have "int n \<le> - ((- int n) div k) * k" by linarith
  also have "\<dots> \<le> max (- ((- int n) div k)) 1 * k" using assms by (intro mult_right_mono) simp_all
  finally show "int n \<le> last_page (Some k) (int n) * k" by (simp add: last_page_def)
qed (simp add: last_page_def)

lemma pages_concat:
  assumes "1 \<le> k"
  shows "concat (map (\<lambda>i. page_slice (int i) (Some k) xs) [1..<Suc (nat (last_page (Some k) (int (length xs))))]) = xs"
proof -
  let ?m = "nat (last_page (Some k) (int (length xs)))"
  have shift: "map (\<lambda>i. page_slice (int i) (Some k) xs) [1..<Suc ?m] = map (\<lambda>i. take (nat k) (drop (i * nat k) xs)) [0..<?m]"
    using assms by (simp add: map_Suc_upt [symmetric] page_slice_def nat_mult_distrib comp_def del: upt_Suc)
  have "int (length xs) \<le> int ?m * int (nat k)"
    using last_page_covers [OF assms, of "length xs"] assms by simp
  then have "length xs \<le> ?m * nat k" by (metis of_nat_le_iff of_nat_mult)
  then show ?thesis unfolding shift concat_pages by simp
qed

lemma py_sorted_props:
  "mset (py_sorted key reverse xs) = mset xs"
  "sorted (map key (if reverse then rev (py_sorted key reverse xs) else py_sorted key reverse xs))"
  by (simp_all add: py_sorted_def)

section \<open>Properties\<close>

text \<open>C17. Whatever is asked of the forge, in whatever order and over whatever git repositories, its store
  stays well formed: issues, pull requests and labels stand under their own keys, one counter numbers
  issues and pull requests without ever repeating, another numbers comments, and a pull request
  carries a merge commit exactly when it is merged.\<close>

theorem forge_store_well_formed: "store_ok (forge_run G cs (new_forge g))"
  using run_moves [OF store_ok_new, of G cs g] by simp

text \<open>C24. A merge stands for good: once a pull request is merged, no later run of operations, whatever
  git does, changes that it is merged, when, by whom, by which commit, or what it merged into what.\<close>

theorem merged_for_good:
  assumes "state_get_pull (forge_run G cs (new_forge g)) r n = Some p" and "pl_merged p"
  shows "\<exists>p'. state_get_pull (forge_run G ds (forge_run G cs (new_forge g))) r n = Some p' \<and> merge_fixed p p'"
  using run_moves [OF run_moves [OF store_ok_new, THEN conjunct1], of G ds G cs g] assms
  unfolding merges_kept_def by blast

lemmas fx_defs = fx_git_def fx_repo_def fx_resolve_def fx_land_def fx_forge_def new_forge_def fx_calls_def fx_merged_def

lemma fx_run: "state_get_pull (forge_run fx_git fx_calls fx_forge) ''o/r'' 1 = Some fx_merged"
  by (simp add: fx_defs create_pull_def merge_pull_def get_repo_def fread_def fbind_def create_pull_checks_def state_list_pulls_def
      repo_state_def dget_or_def empty_repo_state_def full_name_def fstate_def next_number_def put_repo_state_def Let_def
      new_pull_def put_pull_def fwrite_def view_def view_head_def view_base_def mergeability_def closed_pull_def armed_for_def
      store_find_def forced_state_def fgive_def require_pull_def state_get_pull_def refuse_merge_def resolve_def frefuse_def
      land_def fgit_def record_merge_def merged_pull_def)

theorem merged_for_good_witness:
  "\<exists>p'. state_get_pull (forge_run fx_git [(7, SetPullState ''o'' ''r'' 1 FS_OPEN)] (forge_run fx_git fx_calls fx_forge)) ''o/r'' 1 = Some p'
     \<and> merge_fixed fx_merged p'"
  unfolding fx_forge_def
  by (rule merged_for_good) (use fx_run in \<open>simp_all add: fx_forge_def fx_merged_def merged_pull_def\<close>)

lemma fbind_ok: "fbind m k f = (Inr y, f2) \<longleftrightarrow> (\<exists>x f1. m f = (Inr x, f1) \<and> k x f1 = (Inr y, f2))"
  by (auto simp: fbind_def split: prod.splits sum.splits)

lemma fbind_fails:
  "fbind m k f = (Inl e, f2) \<longleftrightarrow> m f = (Inl e, f2) \<or> (\<exists>x f1. m f = (Inr x, f1) \<and> k x f1 = (Inl e, f2))"
  by (auto simp: fbind_def split: prod.splits sum.splits)

lemma fread_is: "fread r f = (v, f1) \<longleftrightarrow> r f = v \<and> f1 = f"
  by (auto simp: fread_def)

lemma frefuse_is:
  "frefuse c e f = (Inr u, f1) \<longleftrightarrow> \<not> c \<and> f1 = f"
  "frefuse c e f = (Inl d, f1) \<longleftrightarrow> c \<and> d = e \<and> f1 = f"
  by (auto simp: frefuse_def fgive_def fraise_def)

lemma require_pull_is: "require_pull repo n f = (Inr p, f1) \<longleftrightarrow> state_get_pull f (full_name repo) n = Some p \<and> f1 = f"
  by (auto simp: require_pull_def fread_is split: option.splits)

lemma refuse_merge_is:
  "refuse_merge repo p n method f = Inr u \<longleftrightarrow>
     \<not> pl_merged p \<and> pl_state p = FS_OPEN \<and> \<not> (method = MM_MERGE \<and> armed_for LK_MERGE_COMMITS_DISALLOWED repo None f) \<and>
     \<not> armed_for LK_MERGE_REJECTED repo (Some n) f \<and> \<not> armed_for LK_MERGE_CONFLICT repo (Some n) f"
  by (cases "pl_state p") (auto simp: refuse_merge_def closed_pull_def armed_for_def split: option.splits)

lemma land_git: "land G repo p method message f = (r, f1) \<Longrightarrow> \<exists>g. f1 = f\<lparr>fg_git := g\<rparr>"
  by (cases "method") (auto simp: land_def fgit_def Let_def split: prod.splits)

lemma git_unchanged: "\<exists>g. f = f\<lparr>fg_git := g\<rparr>"
  by (rule exI [of _ "fg_git f"]) simp

lemmas merge_steps = merge_pull_def get_repo_def resolve_def record_merge_def require_pull_is refuse_merge_is fread_is frefuse_is

text \<open>C26. A merge request succeeds exactly when the repository and the pull request are there, the pull
  request is open and not merged, no lever forbids the method, rejects the merge or reports a
  conflict, the head resolves to the revision the request expects, and git lands it; the pull
  request is then recorded as merged at that commit and closed at those revisions, and nothing else
  is written. A merge that is refused leaves everything but the git repositories as it was.\<close>

theorem merge_succeeds_exactly:
  "(merge_pull G now owner name number method message sha user f = (Inr result, f') \<longleftrightarrow>
      (\<exists>repo p head_sha new_sha g.
         git_get_repo G owner name (fg_git f) = Inr repo \<and>
         state_get_pull f (full_name repo) number = Some p \<and> \<not> pl_merged p \<and> pl_state p = FS_OPEN \<and>
         \<not> (method = MM_MERGE \<and> armed_for LK_MERGE_COMMITS_DISALLOWED repo None f) \<and>
         \<not> armed_for LK_MERGE_REJECTED repo (Some number) f \<and> \<not> armed_for LK_MERGE_CONFLICT repo (Some number) f \<and>
         git_resolve_ref G repo (pl_head p) (fg_git f) = Inr head_sha \<and> (sha = None \<or> sha = Some head_sha) \<and>
         land G repo p method message f = (Inr new_sha, f\<lparr>fg_git := g\<rparr>) \<and>
         f' = put_pull (full_name repo) (merged_pull now new_sha user head_sha p) (f\<lparr>fg_git := g\<rparr>) \<and>
         result = \<lparr>mr_sha = new_sha, mr_merged = True, mr_message = ''Pull Request successfully merged''\<rparr>))
   \<and> (case merge_pull G now owner name number method message sha user f of
        (Inl e, f1) \<Rightarrow> \<exists>g. f1 = f\<lparr>fg_git := g\<rparr>
      | (Inr r, f1) \<Rightarrow> True)"
  (is "(?lhs \<longleftrightarrow> ?success) \<and> ?refusal")
proof (intro conjI)
  show "?lhs \<longleftrightarrow> ?success"
    unfolding merge_steps fbind_ok fwrite_def fgive_def by auto (use land_git in blast)+
  show "?refusal"
    by (auto simp: merge_steps fbind_fails fwrite_def fgive_def require_pull_def git_unchanged split: prod.splits sum.splits dest: land_git)
qed

text \<open>C29. The rate ledger stays in bounds: over any sequence of counted requests, uncounted reads, budgets set
  within the limit and resets, every answer names the limit, a remaining count between zero and the
  limit, and a reset that is still ahead; and a run of requests against an open window spends exactly
  one each until none is left, from that credential's window alone.\<close>

theorem rate_stays_in_bounds:
  assumes "0 \<le> limit" and "\<forall>(now, c) \<in> set cs. budget_within limit c"
    and "ledger_run cs (InMemoryRateLedger limit) = (answers, L)"
  shows "(\<forall>(now, w) \<in> set answers. rw_limit w = limit \<and> 0 \<le> rw_remaining w \<and> rw_remaining w \<le> limit \<and> now < rw_reset w)
    \<and> (\<forall>b w now k. dget (lg_windows L) b = Some w \<longrightarrow> now < wn_reset w \<longrightarrow>
         dget (lg_windows (count_times k now b L)) b = Some (w\<lparr>wn_remaining := max (wn_remaining w - int k) 0\<rparr>) \<and>
         (\<forall>c. c \<noteq> b \<longrightarrow> dget (lg_windows (count_times k now b L)) c = dget (lg_windows L) c))"
proof -
  have new: "ledger_ok (InMemoryRateLedger limit)" "lg_limit (InMemoryRateLedger limit) = limit"
    using assms(1) by (simp_all add: InMemoryRateLedger_def ledger_ok_def)
  note run = ledger_run_ok [OF new(1), unfolded new(2), OF assms(2,3)]
  have "0 \<le> wn_remaining w" if "dget (lg_windows L) b = Some w" for b w
    using run that by (auto simp: ledger_ok_def window_ok_def)
  then show ?thesis using run by (auto simp: count_times_live)
qed

theorem rate_stays_in_bounds_witness:
  "let (answers, L) = ledger_run [(100, Count ''tok''), (101, SetBudget (Some ''tok'') (Some 1) None), (102, Count ''tok''), (103, Count ''tok'')]
         (InMemoryRateLedger 5000)
   in \<forall>(now, w) \<in> set answers. rw_limit w = 5000 \<and> 0 \<le> rw_remaining w \<and> rw_remaining w \<le> 5000 \<and> now < rw_reset w"
  using rate_stays_in_bounds [of 5000 "[(100, Count ''tok''), (101, SetBudget (Some ''tok'') (Some 1) None), (102, Count ''tok''), (103, Count ''tok'')]"]
  by (auto simp: Let_def split: prod.splits)

text \<open>A paged listing of pull requests loses nothing and repeats nothing: the pages one to last, put
  together, are exactly the pull requests that match the filters, in the order asked for, and no page
  holds more than a hundred whatever was asked.\<close>

lemma pages_make_the_listing:
  "let xs = selected_pulls repo state base head by_sort direction f; k = effective_per_page (Some asked)
   in concat (map (\<lambda>i. page_slice (int i) k xs) [1..<Suc (nat (last_page k (int (length xs))))]) = xs
    \<and> mset xs = mset (matching_pulls repo base head (state_list_pulls f (full_name repo) state))
    \<and> sorted (map (pull_key by_sort) (if descending by_sort direction then rev xs else xs))
    \<and> (\<forall>page. length (page_slice page k xs) \<le> 100)"
proof -
  obtain k where k: "effective_per_page (Some asked) = Some k" "1 \<le> k" "k \<le> 100"
    by (simp add: effective_per_page_def MAX_PER_PAGE_def)
  have "length (page_slice page (Some k) xs) \<le> 100" for page and xs :: "PullRequest list"
    using k(3) by (auto simp: page_slice_def)
  then show ?thesis
    unfolding Let_def k(1)
    using pages_concat [OF k(2)] py_sorted_props [of "pull_key by_sort" "descending by_sort direction"]
    by (intro conjI allI) (simp_all only: selected_pulls_def)
qed

section \<open>Where the code departs from its intent\<close>

text \<open>A merged pull request that is reopened is open and merged at once.\<close>

lemma merged_pull_reopens:
  assumes "git_get_repo G ow nm (fg_git f) = Inr repo" and "state_get_pull f (full_name repo) n = Some p" and "pl_merged p"
  shows "state_get_pull (snd (set_pull_state G now ow nm n FS_OPEN f)) (full_name repo) (pl_number p)
    = Some (p\<lparr>pl_state := FS_OPEN, pl_updated_at := now\<rparr>)"
  using assms by (simp add: set_pull_state_def fbind_def get_repo_def fread_def require_pull_def Let_def fgive_def fwrite_def)

text \<open>Healing a stale branch clears the lever under its kind, repository and number; one armed with a
  branch as well stands under another key, and stays.\<close>

lemma scoped_stale_lever_stays:
  assumes "store_find LK_STALE_BRANCH (Some (full_name repo)) (Some n) (fg_levers f) = Some l" and "gl_branch l = Some b"
    and "dget (fg_levers f) (lever_key l) = Some l" and "gl_repo l = Some r" and "r \<noteq> []" and "gl_pattern l = None"
  shows "dget (fg_levers (heal_stale repo n f)) (lever_key l) = Some l"
  using assms by (simp add: heal_stale_def store_clear_lever_def lever_key_def lever_scope_key_def forge_scope_key_def)

end
