(* ===== verification/Forge_Api.thy ===== *)
theory Forge_Api
  imports Forge_Life
begin

text \<open>
  The HTTP face of the forge: the routes (\<^verbatim>\<open>src/blizzard_mock/forge/api/repos.py\<close>, \<^verbatim>\<open>issues.py\<close>,
  \<^verbatim>\<open>labels.py\<close>, \<^verbatim>\<open>pulls.py\<close>, \<^verbatim>\<open>refs.py\<close>, \<^verbatim>\<open>levers.py\<close>, \<^verbatim>\<open>web.py\<close>, \<^verbatim>\<open>graphql.py\<close>), the two middlewares
  (\<^verbatim>\<open>middleware.py\<close>) and the application (\<^verbatim>\<open>app.py\<close>, \<^verbatim>\<open>config.py\<close>). An endpoint is the route a
  request was sent to, with its validated arguments; choosing it and validating them are the
  framework's. Outside the program, in the record \<open>forge_outside\<close>: Python's seeded \<^verbatim>\<open>hash\<close>, and the
  hexadecimal SHA-256 of the bytes a body is rendered to.
\<close>

section \<open>Requests and replies\<close>

datatype reply_body = JsonBody json | HtmlBody string | NoBody

text \<open>Header names are matched without regard to case and held in lower case; the headers the
  framework adds on its own are left out.\<close>

record forge_request =
  gq_method :: string
  gq_path :: string
  gq_headers :: "(string, string) dict"
  gq_query :: "(string, string) dict"

record forge_reply =
  fr_status :: int
  fr_headers :: "(string, string) dict"
  fr_body :: reply_body

record forge_outside =
  fo_hash_run :: "string \<times> string \<times> string option \<Rightarrow> int"
  fo_hash_str :: "string \<Rightarrow> int"
  fo_digest :: "reply_body \<Rightarrow> string"

definition reply_json :: "int \<Rightarrow> json \<Rightarrow> forge_reply" where
  "reply_json status j = \<lparr>fr_status = status, fr_headers = [], fr_body = JsonBody j\<rparr>"

definition reply_empty :: "int \<Rightarrow> forge_reply" where
  "reply_empty status = \<lparr>fr_status = status, fr_headers = [], fr_body = NoBody\<rparr>"

definition reply_html :: "string \<Rightarrow> forge_reply" where
  "reply_html t = \<lparr>fr_status = 200, fr_headers = [], fr_body = HtmlBody t\<rparr>"

definition respond :: "('a \<Rightarrow> forge_reply) \<Rightarrow> ('g, 'a) fop \<Rightarrow> ('g, forge_reply) fop" where
  "respond k m = fbind m (\<lambda>x. fgive (k x))"

section \<open>Repositories\<close>

definition LF :: string where "LF = [CHR 0x0A]"

definition TOY_API_FILES :: "(string, string) dict" where
  "TOY_API_FILES =
     [(''README.md'', ''# toy-api'' @ LF @ LF @ ''Toy backend repo for the blizzard fixture workspace.'' @ LF),
      (''src/app.py'', ''def hello() -> str:'' @ LF @ ''    return '' @ [CHR 0x22] @ ''toy-api'' @ [CHR 0x22] @ LF)]"

definition TOY_WEB_FILES :: "(string, string) dict" where
  "TOY_WEB_FILES =
     [(''README.md'', ''# toy-web'' @ LF @ LF @ ''Toy frontend repo for the blizzard fixture workspace.'' @ LF),
      (''src/index.js'', ''export const hello = () => '' @ [CHR 0x27] @ ''toy-web'' @ [CHR 0x27] @ '';'' @ LF)]"

definition SEEDS :: "(string, (string, string) dict) dict" where
  "SEEDS = [(''toy-api'', TOY_API_FILES), (''toy-web'', TOY_WEB_FILES)]"

definition gr_get_repo :: "forge_outside \<Rightarrow> 'g git_ops \<Rightarrow> string \<Rightarrow> string \<Rightarrow> string \<Rightarrow> ('g, forge_reply) fop" where
  "gr_get_repo X G base_url owner repo =
     respond (\<lambda>r. reply_json 200 (repo_json (fo_hash_str X) r base_url)) (get_repo G owner repo)"

definition gr_create_repo :: "'g git_ops \<Rightarrow> string \<Rightarrow> string \<Rightarrow> string \<Rightarrow> ('g, forge_reply) fop" where
  "gr_create_repo G owner name seed =
     (case dget SEEDS seed of
        None \<Rightarrow> fraise (ValidationError (''unknown seed: '' @ seed))
      | Some files \<Rightarrow>
          fbind (create_repository G owner name files) (\<lambda>repo.
          fbind (fread (\<lambda>f. Inr (git_origin G repo (fg_git f)))) (\<lambda>origin.
          fgive (reply_json 201 (JObj [(''full_name'', JStr (full_name repo)), (''origin'', JStr origin),
            (''default_branch'', JStr (rp_default_branch repo))])))))"

section \<open>Issues and labels\<close>

definition slug :: "string \<Rightarrow> string \<Rightarrow> string" where
  "slug owner repo = owner @ ''/'' @ repo"

definition gr_list_issues ::
  "'g git_ops \<Rightarrow> string \<Rightarrow> string \<Rightarrow> string \<Rightarrow> string \<Rightarrow> string option \<Rightarrow> ('g, forge_reply) fop" where
  "gr_list_issues G base_url owner repo state labels =
     respond (\<lambda>issues. reply_json 200 (JList (map (\<lambda>i. issue_json (slug owner repo) i base_url False) issues)))
       (list_issues G owner repo (Some state) (if truthy labels then map_option (split_on (CHR '','')) labels else None))"

definition gr_get_issue :: "'g git_ops \<Rightarrow> string \<Rightarrow> string \<Rightarrow> string \<Rightarrow> int \<Rightarrow> ('g, forge_reply) fop" where
  "gr_get_issue G base_url owner repo number =
     respond (\<lambda>i. reply_json 200 (issue_json (slug owner repo) i base_url False)) (get_issue G owner repo number)"

definition gr_create_issue ::
  "'g git_ops \<Rightarrow> instant \<Rightarrow> string \<Rightarrow> string \<Rightarrow> string \<Rightarrow> string \<Rightarrow> string \<Rightarrow> string list \<Rightarrow> string \<Rightarrow> ('g, forge_reply) fop" where
  "gr_create_issue G now base_url owner repo title body labels user =
     respond (\<lambda>i. reply_json 201 (issue_json (slug owner repo) i base_url False))
       (create_issue G now owner repo title body user labels)"

definition gr_update_issue_state ::
  "'g git_ops \<Rightarrow> instant \<Rightarrow> string \<Rightarrow> string \<Rightarrow> string \<Rightarrow> int \<Rightarrow> string \<Rightarrow> string option \<Rightarrow> ('g, forge_reply) fop" where
  "gr_update_issue_state G now base_url owner repo number state state_reason =
     respond (\<lambda>i. reply_json 200 (issue_json (slug owner repo) i base_url False))
       (set_issue_state G now owner repo number state state_reason)"

definition gr_list_comments :: "'g git_ops \<Rightarrow> string \<Rightarrow> string \<Rightarrow> string \<Rightarrow> int \<Rightarrow> ('g, forge_reply) fop" where
  "gr_list_comments G base_url owner repo number =
     respond (\<lambda>cs. reply_json 200 (JList (map (\<lambda>c. comment_json (slug owner repo) number c base_url) cs)))
       (list_issue_comments G owner repo number)"

definition gr_create_comment ::
  "'g git_ops \<Rightarrow> instant \<Rightarrow> string \<Rightarrow> string \<Rightarrow> string \<Rightarrow> int \<Rightarrow> string \<Rightarrow> string \<Rightarrow> ('g, forge_reply) fop" where
  "gr_create_comment G now base_url owner repo number body user =
     respond (\<lambda>c. reply_json 201 (comment_json (slug owner repo) number c base_url))
       (create_issue_comment G now owner repo number body user)"

definition gr_list_labels :: "'g git_ops \<Rightarrow> string \<Rightarrow> string \<Rightarrow> ('g, forge_reply) fop" where
  "gr_list_labels G owner repo = respond (\<lambda>ls. reply_json 200 (JList (map label_json ls))) (list_labels G owner repo)"

definition gr_create_label :: "'g git_ops \<Rightarrow> string \<Rightarrow> string \<Rightarrow> string \<Rightarrow> ('g, forge_reply) fop" where
  "gr_create_label G owner repo name = respond (\<lambda>l. reply_json 201 (label_json l)) (create_label G owner repo name)"

definition gr_list_issue_labels :: "'g git_ops \<Rightarrow> string \<Rightarrow> string \<Rightarrow> int \<Rightarrow> ('g, forge_reply) fop" where
  "gr_list_issue_labels G owner repo number =
     respond (\<lambda>i. reply_json 200 (issue_labels_json (is_labels i))) (get_issue G owner repo number)"

definition gr_add_issue_labels :: "'g git_ops \<Rightarrow> string \<Rightarrow> string \<Rightarrow> int \<Rightarrow> string list \<Rightarrow> ('g, forge_reply) fop" where
  "gr_add_issue_labels G owner repo number labels =
     respond (\<lambda>i. reply_json 200 (issue_labels_json (is_labels i))) (add_issue_labels G owner repo number labels)"

definition gr_remove_issue_label :: "'g git_ops \<Rightarrow> string \<Rightarrow> string \<Rightarrow> int \<Rightarrow> string \<Rightarrow> ('g, forge_reply) fop" where
  "gr_remove_issue_label G owner repo number name =
     respond (\<lambda>i. reply_json 200 (issue_labels_json (is_labels i))) (remove_issue_label G owner repo number name)"

section \<open>Pull requests\<close>

record pulls_query =
  lp_state :: string
  lp_base :: "string option"
  lp_head :: "string option"
  lp_sort :: "string option"
  lp_direction :: "string option"
  lp_page :: int
  lp_per_page :: "int option"

definition gr_list_pulls ::
  "'g git_ops \<Rightarrow> string \<Rightarrow> forge_request \<Rightarrow> string \<Rightarrow> string \<Rightarrow> pulls_query \<Rightarrow> ('g, forge_reply) fop" where
  "gr_list_pulls G base_url rq owner repo q =
     respond (\<lambda>r. let link = link_header (base_url @ gq_path rq) (gq_query rq) r
        in \<lparr>fr_status = 200, fr_headers = (if link = [] then [] else [(''link'', link)]),
            fr_body = JsonBody (JList (map (\<lambda>v. pull_json (slug owner repo) v base_url) (pp_views r)))\<rparr>)
       (list_pulls G owner repo (Some (lp_state q)) (lp_base q) (lp_head q) (lp_sort q) (lp_direction q) (lp_page q) (lp_per_page q))"

definition gr_create_pull ::
  "'g git_ops \<Rightarrow> instant \<Rightarrow> string \<Rightarrow> string \<Rightarrow> string \<Rightarrow> string \<Rightarrow> string \<Rightarrow> string \<Rightarrow> string \<Rightarrow> string \<Rightarrow> ('g, forge_reply) fop" where
  "gr_create_pull G now base_url owner repo title head base body user =
     respond (\<lambda>v. reply_json 201 (pull_json (slug owner repo) v base_url))
       (create_pull G now owner repo title body head base user)"

definition gr_get_pull :: "'g git_ops \<Rightarrow> string \<Rightarrow> string \<Rightarrow> string \<Rightarrow> int \<Rightarrow> ('g, forge_reply) fop" where
  "gr_get_pull G base_url owner repo number =
     respond (\<lambda>v. reply_json 200 (pull_json (slug owner repo) v base_url)) (get_pull G owner repo number)"

definition gr_update_pull ::
  "'g git_ops \<Rightarrow> instant \<Rightarrow> string \<Rightarrow> string \<Rightarrow> string \<Rightarrow> int \<Rightarrow> string \<Rightarrow> ('g, forge_reply) fop" where
  "gr_update_pull G now base_url owner repo number state =
     (case forge_state_of state of
        None \<Rightarrow> fraise (ValidationError (''invalid state: '' @ state))
      | Some st \<Rightarrow>
          respond (\<lambda>v. reply_json 200 (pull_json (slug owner repo) v base_url)) (set_pull_state G now owner repo number st))"

definition gr_merge_pull ::
  "'g git_ops \<Rightarrow> instant \<Rightarrow> string \<Rightarrow> string \<Rightarrow> int \<Rightarrow> MergeMethod \<Rightarrow> string option \<Rightarrow> string option \<Rightarrow> string \<Rightarrow> ('g, forge_reply) fop" where
  "gr_merge_pull G now owner repo number method message sha user =
     respond (\<lambda>r. reply_json 200 (merge_result_json r)) (merge_pull G now owner repo number method message sha user)"

definition gr_update_branch :: "'g git_ops \<Rightarrow> string \<Rightarrow> string \<Rightarrow> int \<Rightarrow> string option \<Rightarrow> ('g, forge_reply) fop" where
  "gr_update_branch G owner repo number expected_head_sha =
     respond (\<lambda>m. reply_json 202 (JObj [(''message'', JStr m)])) (update_branch G owner repo number expected_head_sha)"

definition gr_is_merged :: "'g git_ops \<Rightarrow> string \<Rightarrow> string \<Rightarrow> int \<Rightarrow> ('g, forge_reply) fop" where
  "gr_is_merged G owner repo number =
     respond (\<lambda>merged. reply_empty (if merged then 204 else 404)) (is_merged G owner repo number)"

section \<open>Commits, refs, check runs\<close>

definition gr_get_commit :: "'g git_ops \<Rightarrow> string \<Rightarrow> string \<Rightarrow> string \<Rightarrow> string \<Rightarrow> ('g, forge_reply) fop" where
  "gr_get_commit G base_url owner repo ref =
     respond (\<lambda>c. reply_json 200 (commit_json (slug owner repo) c base_url)) (commit G owner repo ref)"

definition gr_list_check_runs ::
  "forge_outside \<Rightarrow> 'g git_ops \<Rightarrow> string \<Rightarrow> string \<Rightarrow> string \<Rightarrow> string \<Rightarrow> ('g, forge_reply) fop" where
  "gr_list_check_runs X G base_url owner repo ref =
     respond (\<lambda>runs. reply_json 200 (JObj [(''total_count'', JInt (int (length runs))),
        (''check_runs'', JList (map (\<lambda>r. check_run_json (slug owner repo) r base_url) runs))]))
       (list_check_runs (fo_hash_run X) G owner repo ref)"

definition gr_rerequest_check_run :: "('g, forge_reply) fop" where
  "gr_rerequest_check_run = fgive (reply_json 201 (JObj []))"

definition gr_rerun_job :: "('g, forge_reply) fop" where
  "gr_rerun_job = fgive (reply_json 201 (JObj []))"

text \<open>\<^verbatim>\<open>basehead.partition("...")\<close>: the text before the first three dots and the text after them.\<close>

fun partition_dots :: "string \<Rightarrow> (string \<times> string) option" where
  "partition_dots [] = None"
| "partition_dots (c # cs) =
     (if starts_with ''...'' (c # cs) then Some ([], drop 3 (c # cs))
      else map_option (\<lambda>(a, b). (c # a, b)) (partition_dots cs))"

definition gr_compare :: "'g git_ops \<Rightarrow> string \<Rightarrow> string \<Rightarrow> string \<Rightarrow> string \<Rightarrow> ('g, forge_reply) fop" where
  "gr_compare G base_url owner repo basehead =
     (let bad = fraise (ValidationError (''compare expects base...head, got '' @ py_repr basehead))
      in case partition_dots basehead of
        None \<Rightarrow> bad
      | Some (base, head) \<Rightarrow>
          if base = [] \<or> head = [] then bad
          else respond (\<lambda>c. reply_json 200 (compare_json (slug owner repo) c base_url)) (compare_refs G owner repo base head))"

definition gr_get_ref :: "'g git_ops \<Rightarrow> string \<Rightarrow> string \<Rightarrow> string \<Rightarrow> string \<Rightarrow> ('g, forge_reply) fop" where
  "gr_get_ref G base_url owner repo ref =
     respond (\<lambda>sha. reply_json 200 (ref_json (slug owner repo) (''refs/'' @ ref) sha base_url))
       (resolve_ref G owner repo (remove_prefix ''heads/'' ref))"

definition gr_update_ref ::
  "'g git_ops \<Rightarrow> string \<Rightarrow> string \<Rightarrow> string \<Rightarrow> string \<Rightarrow> string \<Rightarrow> bool \<Rightarrow> ('g, forge_reply) fop" where
  "gr_update_ref G base_url owner repo ref sha force =
     respond (\<lambda>s. reply_json 200 (ref_json (slug owner repo) (''refs/'' @ ref) s base_url))
       (update_ref G owner repo (remove_prefix ''heads/'' ref) sha force)"

definition gr_create_ref :: "'g git_ops \<Rightarrow> string \<Rightarrow> string \<Rightarrow> string \<Rightarrow> string \<Rightarrow> string \<Rightarrow> ('g, forge_reply) fop" where
  "gr_create_ref G base_url owner repo ref sha =
     respond (\<lambda>s. reply_json 201 (ref_json (slug owner repo) ref s base_url)) (create_ref G owner repo ref sha)"

definition gr_delete_ref :: "'g git_ops \<Rightarrow> instant \<Rightarrow> string \<Rightarrow> string \<Rightarrow> string \<Rightarrow> ('g, forge_reply) fop" where
  "gr_delete_ref G now owner repo branch = respond (\<lambda>_. reply_empty 204) (delete_ref G now owner repo branch)"

definition gr_merge_branches ::
  "'g git_ops \<Rightarrow> string \<Rightarrow> string \<Rightarrow> string \<Rightarrow> string \<Rightarrow> string \<Rightarrow> string option \<Rightarrow> ('g, forge_reply) fop" where
  "gr_merge_branches G base_url owner repo base head message =
     respond (\<lambda>c. case c of None \<Rightarrow> reply_empty 204 | Some k \<Rightarrow> reply_json 201 (commit_json (slug owner repo) k base_url))
       (merge_branches G owner repo base head message)"

end
