(* ===== verification/Forge_Http.thy ===== *)
theory Forge_Http
  imports Forge_Api
begin

text \<open>
  The rest of the forge's HTTP face: the lever routes (\<^verbatim>\<open>src/blizzard_mock/forge/api/levers.py\<close>), the
  browser pages (\<^verbatim>\<open>web.py\<close>), the GraphQL batch read (\<^verbatim>\<open>graphql.py\<close>), the endpoints with their paths,
  the middlewares (\<^verbatim>\<open>middleware.py\<close>) and the application (\<^verbatim>\<open>app.py\<close>, \<^verbatim>\<open>config.py\<close>).
\<close>

section \<open>Lever routes\<close>

definition LEVER_KINDS :: "LeverKind list" where
  "LEVER_KINDS = [LK_EXTERNALLY_MERGED, LK_MERGE_CONFLICT, LK_MERGE_REJECTED, LK_COMMENT_MIDFLIGHT, LK_RATE_LIMITED,
     LK_TOKEN_REJECTED, LK_UNREACHABLE, LK_STALE_BRANCH, LK_CHECKS_PENDING, LK_CHECKS_FAILED, LK_BASE_CHECKS_FAILED,
     LK_REF_CHECKS, LK_BRANCH_PROTECTED, LK_RULESET, LK_MERGE_COMMITS_DISALLOWED, LK_RATE_BUDGET,
     LK_SECONDARY_RATE_LIMITED, LK_MERGEABLE_STATE, LK_CHECKS_STARTUP_FAILURE]"

definition parse_kind :: "string \<Rightarrow> forge_error + LeverKind" where
  "parse_kind kind =
     (case List.find (\<lambda>k. lever_kind_value k = kind) LEVER_KINDS of
        None \<Rightarrow> Inl (ValidationError (''unknown lever: '' @ kind))
      | Some k \<Rightarrow> Inr k)"

definition CATALOG :: "(string \<times> string) list" where
  "CATALOG =
     [(''externally_merged'', ''action: land the PR'' @ [CHR 0x27] @ ''s head on base directly (D-065)''),
      (''comment_midflight'', ''action: append a comment to a live thread (D-074)''),
      (''merge_conflict'', ''state (per PR): mergeable=false, merge '' @ RIGHT_ARROW @ '' 405''),
      (''merge_rejected'', ''state (per PR): merge '' @ RIGHT_ARROW @ '' 405 rejected by policy''),
      (''rate_limited'', ''state (global/repo): requests '' @ RIGHT_ARROW @ '' 403 rate-limit''),
      (''token_rejected'', ''state (global/repo): requests '' @ RIGHT_ARROW @ '' 401 bad credentials''),
      (''unreachable'', ''state (global/repo): requests '' @ RIGHT_ARROW @ '' 503 unreachable''),
      (''stale_branch'', ''state (per PR): mergeable_state=behind, self-heals via update-branch''),
      (''checks_pending'', ''state (per PR): mergeable_state=blocked, required checks/reviews not green yet''),
      (''checks_failed'', ''state (per PR): failed check run on the PR head; mergeable_state=blocked''),
      (''base_checks_failed'', ''state (per repo): one completed/failure check run on the default branch''),
      (''ref_checks'', ''action: arm named check runs (pending/failed/success) against a ref, or none''),
      (''branch_protected'', ''state (per repo+branch): PATCH git/refs on the branch '' @ RIGHT_ARROW @ '' 422 protected''),
      (''ruleset'', ''state (per repo+pattern): POST git/refs and POST /merges on a matching branch '' @ RIGHT_ARROW @ '' 422''),
      (''merge_commits_disallowed'', ''state (per repo): merge method `merge` '' @ RIGHT_ARROW @ '' 405''),
      (''rate_budget'', ''action: set a token'' @ [CHR 0x27] @ ''s (or every token'' @ [CHR 0x27] @ ''s) rate remaining and reset''),
      (''secondary_rate_limited'', ''state (global/repo): requests '' @ RIGHT_ARROW @ '' 403 secondary rate limit, remaining kept''),
      (''mergeable_state'', ''state (per PR): mergeable_state forced to `state` (unstable/has_hooks/draft)''),
      (''checks_startup_failure'', ''state (per PR): startup_failure check run on the PR head; blocked'')]"

definition sorted_names :: "LeverKind list \<Rightarrow> json" where
  "sorted_names ks = JList (map JStr (sort (map lever_kind_value ks)))"

definition gr_list_levers :: "('g, forge_reply) fop" where
  "gr_list_levers =
     fread (\<lambda>f. Inr (reply_json 200 (JObj [(''catalog'', JObj (map (\<lambda>(k, v). (k, JStr v)) CATALOG)),
        (''state_levers'', sorted_names STATE_LEVERS), (''action_levers'', sorted_names ACTION_LEVERS),
        (''active'', JList (map forge_lever_json (store_active (fg_levers f))))])))"

definition gr_reset_levers :: "('g, forge_reply) fop" where
  "gr_reset_levers = respond (\<lambda>_. reply_json 200 (JObj [(''cleared'', JBool True)])) clear_all_levers"

definition gr_arm_lever :: "'g git_ops \<Rightarrow> instant \<Rightarrow> string \<Rightarrow> ForgeLeverParams \<Rightarrow> ('g, forge_reply) fop" where
  "gr_arm_lever G now kind ps =
     fbind (fread (\<lambda>_. parse_kind kind)) (\<lambda>k.
     respond (\<lambda>l. reply_json 200 (case l of
         None \<Rightarrow> JObj [(''fired'', JStr (lever_kind_value k)), (''repo'', opt_str (lq_repo ps)), (''number'', opt_json JInt (lq_number ps))]
       | Some lever \<Rightarrow> JObj [(''armed'', forge_lever_json lever)]))
       (forge_arm_lever G now k ps))"

definition gr_clear_lever ::
  "string \<Rightarrow> string option \<Rightarrow> int option \<Rightarrow> string option \<Rightarrow> string option \<Rightarrow> ('g, forge_reply) fop" where
  "gr_clear_lever kind repo number branch pattern =
     fbind (fread (\<lambda>_. parse_kind kind)) (\<lambda>k.
     respond (\<lambda>_. reply_json 200 (JObj [(''cleared'', JStr (lever_kind_value k)), (''repo'', opt_str repo), (''number'', opt_json JInt number)]))
       (forge_clear_lever k repo number branch pattern))"

section \<open>Browser pages\<close>

definition gr_pull_page :: "'g git_ops \<Rightarrow> string \<Rightarrow> string \<Rightarrow> int \<Rightarrow> ('g, forge_reply) fop" where
  "gr_pull_page G owner repo number =
     respond (\<lambda>v. reply_html (pull_page_text owner repo number (pv_pull v))) (get_pull G owner repo number)"

definition gr_commit_page :: "'g git_ops \<Rightarrow> string \<Rightarrow> string \<Rightarrow> string \<Rightarrow> ('g, forge_reply) fop" where
  "gr_commit_page G owner repo sha f =
     (case commit G owner repo sha f of
        (Inl (BranchNotFound m), f1) \<Rightarrow> (Inr (reply_json 404 (JObj [(''detail'', JStr m)])), f1)
      | (Inl e, f1) \<Rightarrow> (Inl e, f1)
      | (Inr c, f1) \<Rightarrow> (Inr (reply_html (commit_page_text owner repo c)), f1))"

section \<open>The GraphQL batch read\<close>

definition graphql_error :: "string \<Rightarrow> string \<Rightarrow> string list option \<Rightarrow> json" where
  "graphql_error message kind path =
     JObj ([(''type'', JStr kind), (''message'', JStr message)]
       @ (case path of None \<Rightarrow> [] | Some p \<Rightarrow> [(''path'', JList (map JStr p))]))"

fun json_type :: "json \<Rightarrow> string" where
  "json_type JNull = ''NoneType''"
| "json_type (JBool _) = ''bool''"
| "json_type (JInt _) = ''int''"
| "json_type (JFloat _ _) = ''float''"
| "json_type (JStr _) = ''str''"
| "json_type (JList _) = ''list''"
| "json_type (JObj _) = ''dict''"

definition graphql_query :: "payload \<Rightarrow> string" where
  "graphql_query body =
     (case dget body ''query'' of None \<Rightarrow> [] | Some v \<Rightarrow> if json_truthy v then json_str v else [])"

text \<open>\<^verbatim>\<open>payload.get("variables") or {}\<close>, whose \<^verbatim>\<open>get\<close> is then called whatever it is.\<close>

definition graphql_variables :: "payload \<Rightarrow> forge_error + payload" where
  "graphql_variables body =
     (case dget body ''variables'' of
        None \<Rightarrow> Inr []
      | Some (JObj kvs) \<Rightarrow> Inr kvs
      | Some v \<Rightarrow> if json_truthy v then Inl (AttributeError (quoted (json_type v) @ '' object has no attribute '' @ quoted ''get'')) else Inr [])"

definition contains :: "string \<Rightarrow> string \<Rightarrow> bool" where
  "contains sub s \<longleftrightarrow> list_ex (\<lambda>i. starts_with sub (drop i s)) [0..<Suc (length s)]"

definition graphql_node :: "bool \<Rightarrow> string \<Rightarrow> string \<Rightarrow> Comment list \<Rightarrow> json" where
  "graphql_node with_comments title body comments =
     JObj ([(''title'', JStr title), (''body'', JStr body)]
       @ (if with_comments
          then [(''comments'', JObj [(''nodes'', JList (map (\<lambda>c. JObj [(''body'', JStr (cm_body c))]) comments))])] else []))"

text \<open>One alias: the issue, else the pull request of that number, else the message of the error.\<close>

definition graphql_item :: "'g git_ops \<Rightarrow> bool \<Rightarrow> string \<Rightarrow> string \<Rightarrow> int \<Rightarrow> ('g, string + json) fop" where
  "graphql_item G with_comments owner name number f =
     (case get_issue G owner name number f of
        (Inr i, f1) \<Rightarrow> (Inr (Inr (graphql_node with_comments (is_title i) (is_body i) (is_comments i))), f1)
      | (Inl (IssueNotFound m), f1) \<Rightarrow>
          (case get_pull G owner name number f1 of
             (Inr v, f2) \<Rightarrow>
               (let p = pv_pull v in (Inr (Inr (graphql_node with_comments (pl_title p) (pl_body p) (pl_comments p))), f2))
           | (Inl e, f2) \<Rightarrow> if is_forge_error e then (Inr (Inl (forge_message e)), f2) else (Inl e, f2))
      | (Inl e, f1) \<Rightarrow> if is_forge_error e then (Inr (Inl (forge_message e)), f1) else (Inl e, f1))"

fun graphql_items ::
  "'g git_ops \<Rightarrow> bool \<Rightarrow> string \<Rightarrow> string \<Rightarrow> (string \<times> string) list \<Rightarrow> (string, json) dict \<Rightarrow> json list
   \<Rightarrow> ('g, (string, json) dict \<times> json list) fop" where
  "graphql_items G wc owner name [] repo errors = fgive (repo, errors)"
| "graphql_items G wc owner name ((alias, number) # rest) repo errors =
     fbind (graphql_item G wc owner name (int (read_nat number))) (\<lambda>item.
     case item of
       Inl m \<Rightarrow> graphql_items G wc owner name rest (dset alias JNull repo)
                  (errors @ [graphql_error m ''NOT_FOUND'' (Some [''repository'', alias])])
     | Inr node \<Rightarrow> graphql_items G wc owner name rest (dset alias node repo) errors)"

definition UNSUPPORTED_QUERY :: string where
  "UNSUPPORTED_QUERY = ''unsupported query: expected repository(owner:, name:) with aliased issueOrPullRequest(number:)''"

definition gr_graphql :: "'g git_ops \<Rightarrow> payload \<Rightarrow> ('g, forge_reply) fop" where
  "gr_graphql G body =
     fbind (fread (\<lambda>_. graphql_variables body)) (\<lambda>variables.
     (let query = graphql_query body; aliases = find_aliases query
      in case (dget variables ''owner'', dget variables ''name'', aliases) of
        (Some (JStr owner), Some (JStr name), _ # _) \<Rightarrow>
          fbind (graphql_items G (contains ''comments'' query) owner name aliases [] []) (\<lambda>(repo, errors).
          fgive (reply_json 200 (JObj ([(''data'', JObj [(''repository'', JObj repo)])]
            @ (if errors = [] then [] else [(''errors'', JList errors)])))))
      | _ \<Rightarrow>
          fgive (reply_json 200 (JObj [(''data'', JNull),
            (''errors'', JList [graphql_error UNSUPPORTED_QUERY ''BAD_REQUEST'' None])]))))"

section \<open>Endpoints\<close>

text \<open>The reads of a repository, all \<^verbatim>\<open>GET\<close> under \<^verbatim>\<open>/repos/\<close>.\<close>

datatype forge_read =
    Ep_get_repo string string
  | Ep_list_issues string string string "string option"
  | Ep_get_issue string string int
  | Ep_list_comments string string int
  | Ep_list_labels string string
  | Ep_list_issue_labels string string int
  | Ep_list_pulls string string pulls_query
  | Ep_get_pull string string int
  | Ep_is_merged string string int
  | Ep_get_commit string string string
  | Ep_list_check_runs string string string
  | Ep_compare string string string
  | Ep_get_ref string string string

text \<open>The writes of a repository, under \<^verbatim>\<open>/repos/\<close>.\<close>

datatype forge_write =
    Ep_create_issue string string string string "string list" string
  | Ep_update_issue string string int string "string option"
  | Ep_create_comment string string int string string
  | Ep_create_label string string string
  | Ep_add_issue_labels string string int "string list"
  | Ep_remove_issue_label string string int string
  | Ep_create_pull string string string string string string string
  | Ep_update_pull string string int string
  | Ep_merge_pull string string int MergeMethod "string option" "string option" string
  | Ep_update_branch string string int "string option"
  | Ep_rerequest_check_run string string int
  | Ep_rerun_job string string int
  | Ep_update_ref string string string string bool
  | Ep_create_ref string string string string
  | Ep_delete_ref string string string
  | Ep_merge_branches string string string string "string option"

text \<open>The rest: health, test control, GraphQL, browser pages.\<close>

datatype forge_other =
    Ep_healthz
  | Ep_create_repo string string string
  | Ep_list_levers
  | Ep_reset_levers
  | Ep_arm_lever string ForgeLeverParams
  | Ep_clear_lever string "string option" "int option" "string option" "string option"
  | Ep_graphql payload
  | Ep_pull_page string string int
  | Ep_commit_page string string string

datatype forge_endpoint = Read forge_read | Write forge_write | Other forge_other

definition repos_path :: "string \<Rightarrow> string \<Rightarrow> string \<Rightarrow> string" where
  "repos_path owner repo rest = ''/repos/'' @ owner @ ''/'' @ repo @ rest"

primrec read_path :: "forge_read \<Rightarrow> string" where
  "read_path (Ep_get_repo ow r) = repos_path ow r []"
| "read_path (Ep_list_issues ow r st ls) = repos_path ow r ''/issues''"
| "read_path (Ep_get_issue ow r n) = repos_path ow r (''/issues/'' @ show_int n)"
| "read_path (Ep_list_comments ow r n) = repos_path ow r (''/issues/'' @ show_int n @ ''/comments'')"
| "read_path (Ep_list_labels ow r) = repos_path ow r ''/labels''"
| "read_path (Ep_list_issue_labels ow r n) = repos_path ow r (''/issues/'' @ show_int n @ ''/labels'')"
| "read_path (Ep_list_pulls ow r q) = repos_path ow r ''/pulls''"
| "read_path (Ep_get_pull ow r n) = repos_path ow r (''/pulls/'' @ show_int n)"
| "read_path (Ep_is_merged ow r n) = repos_path ow r (''/pulls/'' @ show_int n @ ''/merge'')"
| "read_path (Ep_get_commit ow r ref) = repos_path ow r (''/commits/'' @ ref)"
| "read_path (Ep_list_check_runs ow r ref) = repos_path ow r (''/commits/'' @ ref @ ''/check-runs'')"
| "read_path (Ep_compare ow r bh) = repos_path ow r (''/compare/'' @ bh)"
| "read_path (Ep_get_ref ow r ref) = repos_path ow r (''/git/ref/'' @ ref)"

primrec write_path :: "forge_write \<Rightarrow> string" where
  "write_path (Ep_create_issue ow r title body labels user) = repos_path ow r ''/issues''"
| "write_path (Ep_update_issue ow r n st reason) = repos_path ow r (''/issues/'' @ show_int n)"
| "write_path (Ep_create_comment ow r n body user) = repos_path ow r (''/issues/'' @ show_int n @ ''/comments'')"
| "write_path (Ep_create_label ow r l) = repos_path ow r ''/labels''"
| "write_path (Ep_add_issue_labels ow r n ls) = repos_path ow r (''/issues/'' @ show_int n @ ''/labels'')"
| "write_path (Ep_remove_issue_label ow r n l) = repos_path ow r (''/issues/'' @ show_int n @ ''/labels/'' @ l)"
| "write_path (Ep_create_pull ow r title head base body user) = repos_path ow r ''/pulls''"
| "write_path (Ep_update_pull ow r n st) = repos_path ow r (''/pulls/'' @ show_int n)"
| "write_path (Ep_merge_pull ow r n m msg sha user) = repos_path ow r (''/pulls/'' @ show_int n @ ''/merge'')"
| "write_path (Ep_update_branch ow r n sha) = repos_path ow r (''/pulls/'' @ show_int n @ ''/update-branch'')"
| "write_path (Ep_rerequest_check_run ow r i) = repos_path ow r (''/check-runs/'' @ show_int i @ ''/rerequest'')"
| "write_path (Ep_rerun_job ow r i) = repos_path ow r (''/actions/jobs/'' @ show_int i @ ''/rerun'')"
| "write_path (Ep_update_ref ow r ref sha force) = repos_path ow r (''/git/refs/'' @ ref)"
| "write_path (Ep_create_ref ow r ref sha) = repos_path ow r ''/git/refs''"
| "write_path (Ep_delete_ref ow r b) = repos_path ow r (''/git/refs/heads/'' @ b)"
| "write_path (Ep_merge_branches ow r base head msg) = repos_path ow r ''/merges''"

primrec other_path :: "forge_other \<Rightarrow> string" where
  "other_path Ep_healthz = ''/healthz''"
| "other_path (Ep_create_repo ow nm seed) = ''/_repos''"
| "other_path Ep_list_levers = ''/_levers''"
| "other_path Ep_reset_levers = ''/_levers/reset''"
| "other_path (Ep_arm_lever k ps) = ''/_levers/'' @ k"
| "other_path (Ep_clear_lever k r n b p) = ''/_levers/'' @ k"
| "other_path (Ep_graphql body) = ''/graphql''"
| "other_path (Ep_pull_page ow r n) = ''/'' @ ow @ ''/'' @ r @ ''/pull/'' @ show_int n"
| "other_path (Ep_commit_page ow r sha) = ''/'' @ ow @ ''/'' @ r @ ''/commit/'' @ sha"

definition write_method :: "forge_write \<Rightarrow> string" where
  "write_method ep =
     (case ep of
        Ep_create_issue _ _ _ _ _ _ \<Rightarrow> ''POST''
      | Ep_update_issue _ _ _ _ _ \<Rightarrow> ''PATCH''
      | Ep_create_comment _ _ _ _ _ \<Rightarrow> ''POST''
      | Ep_create_label _ _ _ \<Rightarrow> ''POST''
      | Ep_add_issue_labels _ _ _ _ \<Rightarrow> ''POST''
      | Ep_remove_issue_label _ _ _ _ \<Rightarrow> ''DELETE''
      | Ep_create_pull _ _ _ _ _ _ _ \<Rightarrow> ''POST''
      | Ep_update_pull _ _ _ _ \<Rightarrow> ''PATCH''
      | Ep_merge_pull _ _ _ _ _ _ _ \<Rightarrow> ''PUT''
      | Ep_update_branch _ _ _ _ \<Rightarrow> ''PUT''
      | Ep_rerequest_check_run _ _ _ \<Rightarrow> ''POST''
      | Ep_rerun_job _ _ _ \<Rightarrow> ''POST''
      | Ep_update_ref _ _ _ _ _ \<Rightarrow> ''PATCH''
      | Ep_create_ref _ _ _ _ \<Rightarrow> ''POST''
      | Ep_delete_ref _ _ _ \<Rightarrow> ''DELETE''
      | Ep_merge_branches _ _ _ _ _ \<Rightarrow> ''POST'')"

definition other_method :: "forge_other \<Rightarrow> string" where
  "other_method ep =
     (case ep of
        Ep_healthz \<Rightarrow> ''GET''
      | Ep_create_repo _ _ _ \<Rightarrow> ''POST''
      | Ep_list_levers \<Rightarrow> ''GET''
      | Ep_reset_levers \<Rightarrow> ''POST''
      | Ep_arm_lever _ _ \<Rightarrow> ''POST''
      | Ep_clear_lever _ _ _ _ _ \<Rightarrow> ''DELETE''
      | Ep_graphql _ \<Rightarrow> ''POST''
      | Ep_pull_page _ _ _ \<Rightarrow> ''GET''
      | Ep_commit_page _ _ _ \<Rightarrow> ''GET'')"

definition endpoint_path :: "forge_endpoint \<Rightarrow> string" where
  "endpoint_path ep = (case ep of Read r \<Rightarrow> read_path r | Write w \<Rightarrow> write_path w | Other x \<Rightarrow> other_path x)"

definition endpoint_method :: "forge_endpoint \<Rightarrow> string" where
  "endpoint_method ep = (case ep of Read r \<Rightarrow> ''GET'' | Write w \<Rightarrow> write_method w | Other x \<Rightarrow> other_method x)"

primrec read_run :: "forge_outside \<Rightarrow> 'g git_ops \<Rightarrow> string \<Rightarrow> forge_request \<Rightarrow> forge_read \<Rightarrow> ('g, forge_reply) fop" where
  "read_run X G url rq (Ep_get_repo ow r) = gr_get_repo X G url ow r"
| "read_run X G url rq (Ep_list_issues ow r st ls) = gr_list_issues G url ow r st ls"
| "read_run X G url rq (Ep_get_issue ow r n) = gr_get_issue G url ow r n"
| "read_run X G url rq (Ep_list_comments ow r n) = gr_list_comments G url ow r n"
| "read_run X G url rq (Ep_list_labels ow r) = gr_list_labels G ow r"
| "read_run X G url rq (Ep_list_issue_labels ow r n) = gr_list_issue_labels G ow r n"
| "read_run X G url rq (Ep_list_pulls ow r q) = gr_list_pulls G url rq ow r q"
| "read_run X G url rq (Ep_get_pull ow r n) = gr_get_pull G url ow r n"
| "read_run X G url rq (Ep_is_merged ow r n) = gr_is_merged G ow r n"
| "read_run X G url rq (Ep_get_commit ow r ref) = gr_get_commit G url ow r ref"
| "read_run X G url rq (Ep_list_check_runs ow r ref) = gr_list_check_runs X G url ow r ref"
| "read_run X G url rq (Ep_compare ow r bh) = gr_compare G url ow r bh"
| "read_run X G url rq (Ep_get_ref ow r ref) = gr_get_ref G url ow r ref"

primrec write_run :: "'g git_ops \<Rightarrow> instant \<Rightarrow> string \<Rightarrow> forge_write \<Rightarrow> ('g, forge_reply) fop" where
  "write_run G now url (Ep_create_issue ow r title body labels user) = gr_create_issue G now url ow r title body labels user"
| "write_run G now url (Ep_update_issue ow r n st reason) = gr_update_issue_state G now url ow r n st reason"
| "write_run G now url (Ep_create_comment ow r n body user) = gr_create_comment G now url ow r n body user"
| "write_run G now url (Ep_create_label ow r l) = gr_create_label G ow r l"
| "write_run G now url (Ep_add_issue_labels ow r n ls) = gr_add_issue_labels G ow r n ls"
| "write_run G now url (Ep_remove_issue_label ow r n l) = gr_remove_issue_label G ow r n l"
| "write_run G now url (Ep_create_pull ow r title head base body user) = gr_create_pull G now url ow r title head base body user"
| "write_run G now url (Ep_update_pull ow r n st) = gr_update_pull G now url ow r n st"
| "write_run G now url (Ep_merge_pull ow r n m msg sha user) = gr_merge_pull G now ow r n m msg sha user"
| "write_run G now url (Ep_update_branch ow r n sha) = gr_update_branch G ow r n sha"
| "write_run G now url (Ep_rerequest_check_run ow r i) = gr_rerequest_check_run"
| "write_run G now url (Ep_rerun_job ow r i) = gr_rerun_job"
| "write_run G now url (Ep_update_ref ow r ref sha force) = gr_update_ref G url ow r ref sha force"
| "write_run G now url (Ep_create_ref ow r ref sha) = gr_create_ref G url ow r ref sha"
| "write_run G now url (Ep_delete_ref ow r b) = gr_delete_ref G now ow r b"
| "write_run G now url (Ep_merge_branches ow r base head msg) = gr_merge_branches G url ow r base head msg"

primrec other_run :: "'g git_ops \<Rightarrow> instant \<Rightarrow> forge_other \<Rightarrow> ('g, forge_reply) fop" where
  "other_run G now Ep_healthz = fgive (reply_json 200 (JObj [(''status'', JStr ''ok'')]))"
| "other_run G now (Ep_create_repo ow nm seed) = gr_create_repo G ow nm seed"
| "other_run G now Ep_list_levers = gr_list_levers"
| "other_run G now Ep_reset_levers = gr_reset_levers"
| "other_run G now (Ep_arm_lever k ps) = gr_arm_lever G now k ps"
| "other_run G now (Ep_clear_lever k r n b p) = gr_clear_lever k r n b p"
| "other_run G now (Ep_graphql body) = gr_graphql G body"
| "other_run G now (Ep_pull_page ow r n) = gr_pull_page G ow r n"
| "other_run G now (Ep_commit_page ow r sha) = gr_commit_page G ow r sha"

definition endpoint_run ::
  "forge_outside \<Rightarrow> 'g git_ops \<Rightarrow> instant \<Rightarrow> string \<Rightarrow> forge_request \<Rightarrow> forge_endpoint \<Rightarrow> ('g, forge_reply) fop" where
  "endpoint_run X G now url rq ep =
     (case ep of Read r \<Rightarrow> read_run X G url rq r | Write w \<Rightarrow> write_run G now url w | Other x \<Rightarrow> other_run G now x)"

section \<open>The middlewares\<close>

definition EXEMPT_PREFIXES :: "string list" where
  "EXEMPT_PREFIXES = [''/_clock'', ''/_levers'', ''/_repos'', ''/healthz'', ''/docs'', ''/openapi.json'', ''/redoc'']"

definition exempt_path :: "string \<Rightarrow> bool" where
  "exempt_path path \<longleftrightarrow> list_ex (\<lambda>p. starts_with p path) EXEMPT_PREFIXES"

definition repo_from_path :: "string \<Rightarrow> string option" where
  "repo_from_path path =
     (case filter (\<lambda>p. p \<noteq> []) (split_on (CHR ''/'') path) of
        a # b # c # _ \<Rightarrow> if a = ''repos'' then Some (b @ ''/'' @ c) else None
      | _ \<Rightarrow> None)"

definition bucket :: "forge_request \<Rightarrow> string" where
  "bucket rq = strip (after_blank (dget_or (gq_headers rq) ''authorization'' []))"

definition rate_headers :: "RateWindow \<Rightarrow> int option \<Rightarrow> string \<Rightarrow> (string, string) dict" where
  "rate_headers w remaining resource =
     [(''x-ratelimit-limit'', show_int (rw_limit w)),
      (''x-ratelimit-remaining'', show_int (case remaining of None \<Rightarrow> rw_remaining w | Some n \<Rightarrow> n)),
      (''x-ratelimit-reset'', show_int (rw_reset w)), (''x-ratelimit-resource'', resource)]"

definition edge_error :: "int \<Rightarrow> string \<Rightarrow> (string, string) dict \<Rightarrow> forge_reply" where
  "edge_error status message headers = (reply_json status (error_json message))\<lparr>fr_headers := headers\<rparr>"

definition SECONDARY_LIMIT_MESSAGE :: string where
  "SECONDARY_LIMIT_MESSAGE = ''You have exceeded a secondary rate limit. Please wait a few minutes before you try again.''"

definition peek_rate :: "instant \<Rightarrow> string \<Rightarrow> ('g, RateWindow) fop" where
  "peek_rate now b = fstate (\<lambda>f. case rate_peek (seconds now) b (fg_rate f) of (w, L) \<Rightarrow> (w, f\<lparr>fg_rate := L\<rparr>))"

definition count_rate :: "instant \<Rightarrow> string \<Rightarrow> ('g, RateWindow) fop" where
  "count_rate now b = fstate (\<lambda>f. case rate_count (seconds now) b (fg_rate f) of (w, L) \<Rightarrow> (w, f\<lparr>fg_rate := L\<rparr>))"

definition found_lever :: "LeverKind \<Rightarrow> string option \<Rightarrow> ('g, Lever option) fop" where
  "found_lever kind repo = fread (\<lambda>f. Inr (store_find kind repo None (fg_levers f)))"

definition consume_lever :: "Lever \<Rightarrow> ('g, unit) fop" where
  "consume_lever l = fwrite (\<lambda>f. f\<lparr>fg_levers := store_consume l (fg_levers f)\<rparr>)"

definition lever_middleware :: "instant \<Rightarrow> forge_request \<Rightarrow> ('g, forge_reply) fop \<Rightarrow> ('g, forge_reply) fop" where
  "lever_middleware now rq call_next =
     (if exempt_path (gq_path rq) then call_next
      else
        (let repo = repo_from_path (gq_path rq) in
         fbind (found_lever LK_UNREACHABLE repo) (\<lambda>down.
         if down \<noteq> None then fgive (edge_error 503 ''the forge is unreachable'' [])
         else
           fbind (found_lever LK_TOKEN_REJECTED repo) (\<lambda>rejected.
           if rejected \<noteq> None then fgive (edge_error 401 ''Bad credentials'' [(''www-authenticate'', ''Bearer'')])
           else
             fbind (peek_rate now (bucket rq)) (\<lambda>w.
             fbind (found_lever LK_RATE_LIMITED repo) (\<lambda>rate.
             case rate of
               Some l \<Rightarrow>
                 fbind (consume_lever l) (\<lambda>_.
                 fgive (edge_error 403 ''API rate limit exceeded'' (rate_headers w (Some 0) ''core'' @ [(''retry-after'', ''60'')])))
             | None \<Rightarrow>
                 fbind (found_lever LK_SECONDARY_RATE_LIMITED repo) (\<lambda>secondary.
                 case secondary of
                   Some l \<Rightarrow>
                     fbind (consume_lever l) (\<lambda>_.
                     fgive (edge_error 403 (str_or (gl_message l) SECONDARY_LIMIT_MESSAGE)
                       (rate_headers w None ''core'' @ [(''retry-after'', ''60'')])))
                 | None \<Rightarrow> call_next)))))))"

definition etag_matches :: "string option \<Rightarrow> string \<Rightarrow> bool" where
  "etag_matches if_none_match etag =
     (case if_none_match of
        None \<Rightarrow> False
      | Some h \<Rightarrow>
          (let candidates = map (\<lambda>c. remove_prefix ''W/'' (strip c)) (split_on (CHR '','') h)
           in ''*'' \<in> set candidates \<or> etag \<in> set candidates))"

definition etag_of :: "forge_outside \<Rightarrow> reply_body \<Rightarrow> string" where
  "etag_of X body = CHR 0x22 # fo_digest X body @ [CHR 0x22]"

text \<open>\<^verbatim>\<open>headers.update(...)\<close>.\<close>

definition with_headers :: "(string, string) dict \<Rightarrow> forge_reply \<Rightarrow> forge_reply" where
  "with_headers hs r = r\<lparr>fr_headers := fold (\<lambda>(k, v). dset k v) hs (fr_headers r)\<rparr>"

definition counted :: "instant \<Rightarrow> string \<Rightarrow> string \<Rightarrow> forge_reply \<Rightarrow> ('g, forge_reply) fop" where
  "counted now b resource r = fbind (count_rate now b) (\<lambda>w. fgive (with_headers (rate_headers w None resource) r))"

definition graphql_rate :: "instant \<Rightarrow> forge_request \<Rightarrow> ('g, forge_reply) fop \<Rightarrow> ('g, forge_reply) fop" where
  "graphql_rate now rq call_next =
     (let b = ''graphql:'' @ bucket rq in
      fbind (peek_rate now b) (\<lambda>w.
      if rw_remaining w \<le> 0
      then fgive (with_headers (rate_headers w None ''graphql'') (reply_json 200 (JObj [(''data'', JNull),
             (''errors'', JList [JObj [(''type'', JStr ''RATE_LIMITED''),
                (''message'', JStr ''API rate limit already exceeded for user ID.'')]])])))
      else fbind call_next (counted now b ''graphql'')))"

definition rate_middleware ::
  "forge_outside \<Rightarrow> instant \<Rightarrow> forge_request \<Rightarrow> ('g, forge_reply) fop \<Rightarrow> ('g, forge_reply) fop" where
  "rate_middleware X now rq call_next =
     (if gq_path rq = ''/graphql'' then graphql_rate now rq call_next
      else if \<not> starts_with ''/repos/'' (gq_path rq) then call_next
      else
        fbind call_next (\<lambda>r.
        if gq_method rq = ''GET'' \<and> fr_status r = 200
        then
          (let etag = etag_of X (fr_body r) in
           if etag_matches (dget (gq_headers rq) ''if-none-match'') etag
           then fbind (peek_rate now (bucket rq)) (\<lambda>w.
             fgive \<lparr>fr_status = 304, fr_headers = (''etag'', etag) # rate_headers w None ''core'', fr_body = NoBody\<rparr>)
           else counted now (bucket rq) ''core'' (with_headers [(''etag'', etag)] r))
        else counted now (bucket rq) ''core'' r))"

section \<open>The application\<close>

text \<open>The handler of \<^verbatim>\<open>ForgeError\<close>; any other exception passes through the middlewares.\<close>

definition handle_errors :: "('g, forge_reply) fop \<Rightarrow> ('g, forge_reply) fop" where
  "handle_errors m f =
     (case m f of
        (Inl e, f1) \<Rightarrow>
          if is_forge_error e then (Inr (reply_json (forge_status e) (error_json (forge_message e))), f1) else (Inl e, f1)
      | (Inr r, f1) \<Rightarrow> (Inr r, f1))"

definition forge_request_to :: "forge_endpoint \<Rightarrow> (string, string) dict \<Rightarrow> (string, string) dict \<Rightarrow> forge_request" where
  "forge_request_to ep headers query =
     \<lparr>gq_method = endpoint_method ep, gq_path = endpoint_path ep, gq_headers = headers, gq_query = query\<rparr>"

definition forge_app ::
  "forge_outside \<Rightarrow> 'g git_ops \<Rightarrow> string \<Rightarrow> instant \<Rightarrow> (string, string) dict \<Rightarrow> (string, string) dict \<Rightarrow> forge_endpoint
   \<Rightarrow> ('g, forge_reply) fop" where
  "forge_app X G url now headers query ep =
     (let rq = forge_request_to ep headers query
      in lever_middleware now rq (rate_middleware X now rq (handle_errors (endpoint_run X G now url rq ep))))"

record ForgeConfig =
  gcf_repos_dir :: string
  gcf_host :: string
  gcf_port :: int

definition forge_base_url :: "ForgeConfig \<Rightarrow> string" where
  "forge_base_url c = ''http://'' @ gcf_host c @ '':'' @ show_int (gcf_port c)"

text \<open>\<^verbatim>\<open>from_env\<close>: the \<^verbatim>\<open>ValueError\<close> is \<open>None\<close>; \<open>resolve_path\<close> is \<^verbatim>\<open>Path.resolve\<close>.\<close>

definition forge_from_env ::
  "(string \<Rightarrow> string) \<Rightarrow> (string, string) dict \<Rightarrow> string option \<Rightarrow> string option \<Rightarrow> int option \<Rightarrow> ForgeConfig option" where
  "forge_from_env resolve_path environ repos_dir host port =
     (let dir = (if truthy repos_dir then repos_dir else dget environ ''BZ_FORGE_REPOS_DIR'')
      in if \<not> truthy dir then None
         else case (case port of Some p \<Rightarrow> Some p
                    | None \<Rightarrow> (case dget environ ''BZ_FORGE_PORT'' of None \<Rightarrow> Some 8080 | Some t \<Rightarrow> int_of_text t)) of
           None \<Rightarrow> None
         | Some p \<Rightarrow> Some \<lparr>gcf_repos_dir = resolve_path (str_or dir []),
             gcf_host = str_or host (dget_or environ ''BZ_FORGE_HOST'' ''127.0.0.1''), gcf_port = p\<rparr>)"

end
