(* ===== verification/Forge_Edge.thy ===== *)
theory Forge_Edge
  imports Forge_Http
begin

text \<open>
  What the middlewares of the forge guarantee: a conditional read is answered without spending, the
  levers that bend every request never lock the lever routes out, and a request bent by one of them
  reaches no route.
\<close>

section \<open>Reads that neither write nor look at the rate ledger\<close>

definition reading :: "('g, 'a) fop \<Rightarrow> bool" where
  "reading m \<longleftrightarrow> (\<forall>f L. snd (m f) = f \<and> fst (m (f\<lparr>fg_rate := L\<rparr>)) = fst (m f))"

named_theorems reads \<open>operations that only read, and not the rate ledger\<close>

lemma reading_basic [reads]: "reading (fgive x)" "reading (fraise e)" "reading (frefuse c e)"
  by (simp_all add: reading_def fop_defs)

lemma reading_fread: "(\<And>f L. r (f\<lparr>fg_rate := L\<rparr>) = r f) \<Longrightarrow> reading (fread r)"
  by (simp add: reading_def fread_def)

lemma reading_bind [reads]:
  assumes m: "reading m" and k: "\<And>x. reading (k x)"
  shows "reading (fbind m k)"
  unfolding reading_def
proof (intro allI)
  fix f L
  obtain r where run: "m f = (r, f)" "m (f\<lparr>fg_rate := L\<rparr>) = (r, f\<lparr>fg_rate := L\<rparr>)"
    using m by (metis reading_def prod.collapse)
  show "snd (fbind m k f) = f \<and> fst (fbind m k (f\<lparr>fg_rate := L\<rparr>)) = fst (fbind m k f)"
    using k by (cases r) (simp_all add: fbind_def run reading_def)
qed

lemma reading_respond [reads]: "reading m \<Longrightarrow> reading (respond k m)"
  unfolding respond_def by (intro reads)

lemma reading_fmap [reads]: "(\<And>x. reading (k x)) \<Longrightarrow> reading (fmap k xs)"
  by (induction xs) (auto intro!: reads)

lemma rate_blind [simp]:
  "repo_state (f\<lparr>fg_rate := L\<rparr>) = repo_state f" "state_get_issue (f\<lparr>fg_rate := L\<rparr>) = state_get_issue f"
  "state_get_pull (f\<lparr>fg_rate := L\<rparr>) = state_get_pull f" "state_list_pulls (f\<lparr>fg_rate := L\<rparr>) = state_list_pulls f"
  "state_list_issues (f\<lparr>fg_rate := L\<rparr>) = state_list_issues f"
  "armed_for k r n (f\<lparr>fg_rate := L\<rparr>) = armed_for k r n f" "forced_state r p (f\<lparr>fg_rate := L\<rparr>) = forced_state r p f"
  by (simp_all add: repo_state_def state_get_issue_def state_get_pull_def state_list_pulls_def state_list_issues_def
      armed_for_def forced_state_def fun_eq_iff)

lemma reading_repo [reads]: "reading (get_repo G ow nm)" "reading (resolve G repo ref)" "reading (require_pull repo n)"
  unfolding get_repo_def resolve_def require_pull_def by (intro reading_fread, simp)+

lemma reading_issue [reads]: "reading (get_issue G ow nm n)"
  unfolding get_issue_def by (intro reads reading_fread) simp

lemma view_blind [simp]:
  "view_head G repo p (f\<lparr>fg_rate := L\<rparr>) = view_head G repo p f" "view_base G repo p (f\<lparr>fg_rate := L\<rparr>) = view_base G repo p f"
  "mergeability G repo p (f\<lparr>fg_rate := L\<rparr>) = mergeability G repo p f"
  "derived_check_runs h G repo sha pull (f\<lparr>fg_rate := L\<rparr>) = derived_check_runs h G repo sha pull f"
proof -
  show "view_head G repo p (f\<lparr>fg_rate := L\<rparr>) = view_head G repo p f"
    unfolding view_head_def by (simp split: prod.splits option.splits forge_state.splits)
  show "view_base G repo p (f\<lparr>fg_rate := L\<rparr>) = view_base G repo p f"
    unfolding view_base_def by simp
  show "mergeability G repo p (f\<lparr>fg_rate := L\<rparr>) = mergeability G repo p f"
    unfolding mergeability_def Let_def by (simp split: option.splits)
  show "derived_check_runs h G repo sha pull (f\<lparr>fg_rate := L\<rparr>) = derived_check_runs h G repo sha pull f"
    unfolding derived_check_runs_def Let_def by (simp split: option.splits)
qed

lemma reading_view [reads]: "reading (view G repo p)"
  unfolding view_def by (intro reads reading_fread) (auto intro!: reads split: prod.splits)

lemma reading_check_runs [reads]: "reading (list_check_runs h G ow nm ref)"
  unfolding list_check_runs_def by (intro reads reading_fread) (simp split: option.splits sum.splits)

lemma reading_compare [reads]: "reading (compare_refs G ow nm base head)"
  unfolding compare_refs_def by (intro reads reading_fread) simp

lemma reading_list_pulls [reads]: "reading (list_pulls G ow nm st base head by_sort dir page k)"
  unfolding list_pulls_def Let_def by (intro reads reading_fread) (simp add: selected_pulls_def)

lemma read_run_reading: "reading (read_run X G url rq r)"
  by (cases r)
    (simp_all add: gr_get_repo_def gr_list_issues_def gr_get_issue_def gr_list_comments_def gr_list_labels_def
      gr_list_issue_labels_def gr_list_pulls_def gr_get_pull_def gr_is_merged_def gr_get_commit_def gr_list_check_runs_def
      gr_compare_def gr_get_ref_def list_issues_def list_issue_comments_def list_labels_def get_pull_def is_merged_def
      commit_def resolve_ref_def Let_def,
     (auto intro!: reads reading_fread split: option.splits prod.splits)+)

section \<open>A quiet edge\<close>

definition quiet_edge :: "string option \<Rightarrow> 'g forge \<Rightarrow> bool" where
  "quiet_edge repo f \<longleftrightarrow>
     (\<forall>k \<in> {LK_UNREACHABLE, LK_TOKEN_REJECTED, LK_RATE_LIMITED, LK_SECONDARY_RATE_LIMITED}.
        store_find k repo None (fg_levers f) = None)"

lemma repos_paths: "starts_with ''/repos/'' (read_path r)" "starts_with ''/repos/'' (write_path w)"
  by (cases r; simp add: repos_path_def starts_with_def) (cases w; simp add: repos_path_def starts_with_def)

lemma repos_not_exempt:
  assumes "starts_with ''/repos/'' path"
  shows "\<not> exempt_path path" and "path \<noteq> ''/graphql''"
proof -
  have "take 7 path = ''/repos/''" using assms by (simp add: starts_with_def eval_nat_numeral)
  with append_take_drop_id [of 7 path] obtain rest where path: "path = ''/repos/'' @ rest" by metis
  show "\<not> exempt_path path" by (simp add: path exempt_path_def EXEMPT_PREFIXES_def starts_with_def)
  show "path \<noteq> ''/graphql''" by (simp add: path)
qed

lemma lever_middleware_quiet:
  assumes "\<not> exempt_path (gq_path rq)" and "quiet_edge (repo_from_path (gq_path rq)) f"
  shows "lever_middleware now rq m f = m (f\<lparr>fg_rate := snd (rate_peek (seconds now) (bucket rq) (fg_rate f))\<rparr>)"
  using assms
  by (simp add: lever_middleware_def Let_def quiet_edge_def fbind_def found_lever_def fread_def peek_rate_def fstate_def split: prod.splits)

lemma fold_dset_get: "dget (fold (\<lambda>(k, v). dset k v) hs d) k = (case dget (rev hs) k of Some v \<Rightarrow> Some v | None \<Rightarrow> dget d k)"
  by (induction hs arbitrary: d) (auto simp: map_add_def split: option.splits)

lemma with_headers_get: "dget (fr_headers (with_headers hs r)) k = (case dget (rev hs) k of Some v \<Rightarrow> Some v | None \<Rightarrow> dget (fr_headers r) k)"
  by (simp add: with_headers_def fold_dset_get)

lemma etag_matches_none [simp]: "\<not> etag_matches None e"
  by (simp add: etag_matches_def)

lemma split_on_none: "sep \<notin> set s \<Longrightarrow> split_on sep s = [s]"
  by (induction s) auto

lemma etag_matches_itself:
  assumes "set (fo_digest X body) \<subseteq> set ''0123456789abcdef''"
  shows "etag_matches (Some (etag_of X body)) (etag_of X body)"
proof -
  have "CHR '','' \<notin> set (etag_of X body)" using assms by (auto simp: etag_of_def)
  moreover have "strip (etag_of X body) = etag_of X body" by (simp add: strip_def etag_of_def is_space_def)
  moreover have "remove_prefix ''W/'' (etag_of X body) = etag_of X body" by (simp add: remove_prefix_def starts_with_def etag_of_def)
  ultimately show ?thesis by (simp add: etag_matches_def split_on_none)
qed

lemma read_run_request: "gq_path rq' = gq_path rq \<Longrightarrow> gq_query rq' = gq_query rq \<Longrightarrow> read_run X G url rq' r = read_run X G url rq r"
  by (cases r) (simp_all add: gr_list_pulls_def)

text \<open>The answer of a read before the middlewares: it depends on neither the ledger nor the headers.\<close>

definition bare_read :: "forge_outside \<Rightarrow> 'g git_ops \<Rightarrow> string \<Rightarrow> (string, string) dict \<Rightarrow> forge_read \<Rightarrow> 'g forge \<Rightarrow> forge_error + forge_reply" where
  "bare_read X G url query r f = fst (handle_errors (read_run X G url (forge_request_to (Read r) [] query) r) f)"

lemma handled_read:
  "handle_errors (read_run X G url (forge_request_to (Read r) hs query) r) (f\<lparr>fg_rate := L\<rparr>) = (bare_read X G url query r f, f\<lparr>fg_rate := L\<rparr>)"
proof -
  let ?m = "read_run X G url (forge_request_to (Read r) [] query) r"
  have eq: "read_run X G url (forge_request_to (Read r) hs query) r = ?m"
    by (rule read_run_request) (simp_all add: forge_request_to_def)
  have m: "?m (f\<lparr>fg_rate := L\<rparr>) = (fst (?m f), f\<lparr>fg_rate := L\<rparr>)"
    using read_run_reading unfolding reading_def by (metis prod.collapse)
  show ?thesis
    unfolding eq bare_read_def by (cases "?m f") (simp add: handle_errors_def m split: sum.splits)
qed

lemma forge_app_read:
  assumes "quiet_edge (repo_from_path (read_path r)) f"
  shows "forge_app X G url now hs query (Read r) f =
    (let L = snd (rate_peek (seconds now) (bucket (forge_request_to (Read r) hs query)) (fg_rate f))
     in rate_middleware X now (forge_request_to (Read r) hs query) (\<lambda>f1. (bare_read X G url query r f, f1)) (f\<lparr>fg_rate := L\<rparr>))"
proof -
  let ?rq = "forge_request_to (Read r) hs query"
  have path: "gq_path ?rq = read_path r" by (simp add: forge_request_to_def endpoint_path_def)
  have pass: "\<not> exempt_path (gq_path ?rq)" "gq_path ?rq \<noteq> ''/graphql''"
    using repos_not_exempt [OF repos_paths(1) [of r]] by (simp_all add: path)
  have "forge_app X G url now hs query (Read r) f =
      rate_middleware X now ?rq (handle_errors (read_run X G url ?rq r))
        (f\<lparr>fg_rate := snd (rate_peek (seconds now) (bucket ?rq) (fg_rate f))\<rparr>)"
    using lever_middleware_quiet [OF pass(1), of f] assms by (simp add: forge_app_def endpoint_run_def path Let_def)
  then show ?thesis
    using pass(2) repos_paths(1) [of r] by (simp add: Let_def rate_middleware_def path fbind_def handled_read)
qed

lemma bare_read_blind: "bare_read X G url query r (f\<lparr>fg_rate := L\<rparr>) = bare_read X G url query r f"
  using handled_read [where hs = "[]" and f = f and L = L] by (simp add: bare_read_def)

lemma counted_is:
  "counted now b resource r f =
     (Inr (with_headers (rate_headers (fst (rate_count (seconds now) b (fg_rate f))) None resource) r),
      f\<lparr>fg_rate := snd (rate_count (seconds now) b (fg_rate f))\<rparr>)"
  by (simp add: counted_def count_rate_def fbind_def fstate_def fgive_def split: prod.splits)

lemma rate_middleware_read:
  assumes "starts_with ''/repos/'' (gq_path rq)" and "gq_method rq = ''GET''"
  shows "rate_middleware X now rq (\<lambda>f1. (Inr r, f1)) f =
    (let e = etag_of X (fr_body r) in
     if fr_status r \<noteq> 200 then counted now (bucket rq) ''core'' r f
     else if etag_matches (dget (gq_headers rq) ''if-none-match'') e
     then (Inr \<lparr>fr_status = 304, fr_headers = (''etag'', e) # rate_headers (fst (rate_peek (seconds now) (bucket rq) (fg_rate f))) None ''core'',
             fr_body = NoBody\<rparr>, f\<lparr>fg_rate := snd (rate_peek (seconds now) (bucket rq) (fg_rate f))\<rparr>)
     else counted now (bucket rq) ''core'' (with_headers [(''etag'', e)] r) f)"
  using assms repos_not_exempt(2) [OF assms(1)]
  by (simp add: rate_middleware_def Let_def fbind_def peek_rate_def fstate_def fgive_def split: prod.splits)

lemma status_with_headers [simp]: "fr_status (with_headers hs r) = fr_status r" "fr_body (with_headers hs r) = fr_body r"
  by (simp_all add: with_headers_def)

lemma count_after_peeks: "rate_count now b (snd (rate_peek now b (snd (rate_peek now b L)))) = rate_count now b L"
  by (simp add: count_after_peek)

section \<open>Properties\<close>

text \<open>A conditional read costs nothing: when a read of a repository was answered with 200, it named an
  entity tag, and the same read sent again with that tag, at any later time and with no write between,
  is answered 304 with the same tag and no body; it changes nothing but the ledger's bookkeeping of
  expired windows, so the next counted request finds as much left as it would have.\<close>

lemma conditional_read_is_free:
  assumes "\<forall>b. set (fo_digest X b) \<subseteq> set ''0123456789abcdef''"
    and "quiet_edge (repo_from_path (read_path r)) f"
    and "forge_app X G url t1 hs query (Read r) f = (Inr rep, f1)" and "fr_status rep = 200"
  shows "\<exists>e L rep2. dget (fr_headers rep) ''etag'' = Some e \<and>
    forge_app X G url t2 (dset ''if-none-match'' e hs) query (Read r) f1 = (Inr rep2, f1\<lparr>fg_rate := L\<rparr>) \<and>
    fr_status rep2 = 304 \<and> fr_body rep2 = NoBody \<and> dget (fr_headers rep2) ''etag'' = Some e \<and>
    rate_count (seconds t2) (bucket (forge_request_to (Read r) hs query)) L =
      rate_count (seconds t2) (bucket (forge_request_to (Read r) hs query)) (fg_rate f1)"
proof -
  let ?rq = "forge_request_to (Read r) hs query"
  have rq: "starts_with ''/repos/'' (gq_path (forge_request_to (Read r) h query))"
    "gq_method (forge_request_to (Read r) h query) = ''GET''" "gq_headers (forge_request_to (Read r) h query) = h" for h
    using repos_paths(1) [of r] by (simp_all add: forge_request_to_def endpoint_path_def endpoint_method_def)
  obtain r0 where r0: "bare_read X G url query r f = Inr r0"
    using assms(2,3) rq(1) [of hs] repos_not_exempt(2) [OF rq(1), of hs]
    by (cases "bare_read X G url query r f") (auto simp: forge_app_read Let_def rate_middleware_def fbind_def)
  let ?e = "etag_of X (fr_body r0)"
  have status: "fr_status r0 = 200" and rep: "dget (fr_headers rep) ''etag'' = Some ?e" and f1: "\<exists>L. f1 = f\<lparr>fg_rate := L\<rparr>"
    using assms(2,3,4) rq [of hs] r0
    by (auto simp: forge_app_read Let_def rate_middleware_read counted_is with_headers_get rate_headers_def split: if_splits)
  from f1 have quiet: "quiet_edge (repo_from_path (read_path r)) f1" using assms(2) by (auto simp: quiet_edge_def)
  have bare: "bare_read X G url query r f1 = Inr r0" using f1 r0 by (auto simp: bare_read_blind)
  have bucket: "bucket (forge_request_to (Read r) (dset ''if-none-match'' ?e hs) query) = bucket ?rq"
    by (simp add: bucket_def forge_request_to_def dget_or_def)
  have "etag_matches (Some ?e) ?e" using assms(1) by (intro etag_matches_itself) blast
  moreover define L where "L = snd (rate_peek (seconds t2) (bucket ?rq) (snd (rate_peek (seconds t2) (bucket ?rq) (fg_rate f1))))"
  ultimately obtain rep2 where "forge_app X G url t2 (dset ''if-none-match'' ?e hs) query (Read r) f1 = (Inr rep2, f1\<lparr>fg_rate := L\<rparr>)"
      "fr_status rep2 = 304" "fr_body rep2 = NoBody" "dget (fr_headers rep2) ''etag'' = Some ?e"
    using quiet bare status rq by (simp add: forge_app_read Let_def rate_middleware_read bucket)
  moreover have "rate_count (seconds t2) (bucket ?rq) L = rate_count (seconds t2) (bucket ?rq) (fg_rate f1)"
    by (simp add: L_def count_after_peeks)
  ultimately show ?thesis using rep by blast
qed

definition fx_outside :: forge_outside where
  "fx_outside = \<lparr>fo_hash_run = (\<lambda>_. 0), fo_hash_str = (\<lambda>_. 0), fo_digest = (\<lambda>_. ''ab'')\<rparr>"

lemma fx_quiet: "quiet_edge repo fx_forge"
  by (simp add: quiet_edge_def fx_forge_def new_forge_def store_find_def)

lemma fx_labels: "bare_read fx_outside fx_git url query (Ep_list_labels ''o'' ''r'') fx_forge = Inr (reply_json 200 (JList []))"
  by (simp add: bare_read_def handle_errors_def gr_list_labels_def respond_def list_labels_def fbind_def get_repo_def fread_def fgive_def
      fx_git_def fx_repo_def fx_forge_def new_forge_def repo_state_def dget_or_def empty_repo_state_def)

text \<open>The levers that bend requests never lock a test out: whatever is armed, clearing any lever is
  answered 200 and removes exactly the lever of that kind and scope, and a reset is answered 200 and
  leaves no lever, no armed check run and no open rate window.\<close>

lemma levers_can_always_be_cleared:
  "(\<exists>rep. forge_app X G url now hs query (Other (Ep_clear_lever (lever_kind_value k) repo n b p)) f =
      (Inr rep, f\<lparr>fg_levers := dpop (k, forge_scope_key repo n b p) (fg_levers f)\<rparr>) \<and> fr_status rep = 200) \<and>
   (\<exists>rep. forge_app X G url now hs query (Other Ep_reset_levers) f =
      (Inr rep, f\<lparr>fg_levers := [], fg_checks := [], fg_rate := InMemoryRateLedger (lg_limit (fg_rate f))\<rparr>) \<and> fr_status rep = 200)"
proof -
  have parse: "parse_kind (lever_kind_value k) = Inr k" by (cases k) (simp_all add: parse_kind_def LEVER_KINDS_def)
  have run: "forge_app X G url now hs query (Other x) = handle_errors (other_run G now x)"
    if "starts_with ''/_levers'' (other_path x)" for x
  proof -
    have "take 8 (other_path x) = ''/_levers''" using that by (simp add: starts_with_def eval_nat_numeral)
    with append_take_drop_id [of 8 "other_path x"] obtain rest where path: "other_path x = ''/_levers'' @ rest" by metis
    show ?thesis
      by (simp add: forge_app_def Let_def forge_request_to_def endpoint_path_def endpoint_run_def lever_middleware_def
          rate_middleware_def path exempt_path_def EXEMPT_PREFIXES_def starts_with_def)
  qed
  show ?thesis
    by (simp add: run starts_with_def handle_errors_def gr_clear_lever_def gr_reset_levers_def respond_def fbind_def fread_def fgive_def
        parse forge_clear_lever_def clear_all_levers_def fwrite_def store_clear_lever_def reply_json_def rate_clear_def InMemoryRateLedger_def)
qed

text \<open>While the forge is unreachable, every endpoint outside test control answers 503 and nothing changes.\<close>

lemma unreachable_answers_503:
  assumes "store_find LK_UNREACHABLE (repo_from_path (endpoint_path ep)) None (fg_levers f) \<noteq> None"
    and "\<not> exempt_path (endpoint_path ep)"
  shows "forge_app X G url now hs query ep f = (Inr (edge_error 503 ''the forge is unreachable'' []), f)"
  using assms by (auto simp: forge_app_def Let_def lever_middleware_def forge_request_to_def found_lever_def fbind_def fread_def fgive_def)

end
