(* ===== verification/Harness_Host.thy ===== *)
theory Harness_Host
  imports Json_Values
begin

text \<open>
  What one process of the mock harness stands on: paths as \<^verbatim>\<open>pathlib\<close> has them, the files, the
  working directory and the output of the process, and the services outside it. A file holds the
  values its text stands for (the document a \<^verbatim>\<open>json.dumps\<close> wrote, one document per line of a JSONL
  file), so that what is read back is what was written; a directory is writable and no path has a
  \<^verbatim>\<open>..\<close> component or a link to follow. Subprocesses, drawn uuids, the clocks and signals are the
  parameter \<open>system\<close>: every definition that uses one takes it as an argument.
\<close>

section \<open>Paths\<close>

record ppath =
  pp_root :: string
  pp_parts :: "string list"

definition parse_path :: "string \<Rightarrow> ppath" where
  "parse_path s =
     \<lparr>pp_root = (if starts_with ''//'' s \<and> \<not> starts_with ''///'' s then ''//''
                 else if starts_with ''/'' s then ''/'' else []),
      pp_parts = filter (\<lambda>p. p \<noteq> [] \<and> p \<noteq> ''.'') (split_on (CHR ''/'') s)\<rparr>"

definition path_join :: "ppath \<Rightarrow> ppath \<Rightarrow> ppath" where
  "path_join p q = (if pp_root q \<noteq> [] then q else p\<lparr>pp_parts := pp_parts p @ pp_parts q\<rparr>)"

definition path_div :: "ppath \<Rightarrow> string \<Rightarrow> ppath" where
  "path_div p s = path_join p (parse_path s)"

definition path_str :: "ppath \<Rightarrow> string" where
  "path_str p = (if pp_root p = [] \<and> pp_parts p = [] then ''.'' else pp_root p @ join ''/'' (pp_parts p))"

definition path_parent :: "ppath \<Rightarrow> ppath" where
  "path_parent p = p\<lparr>pp_parts := butlast (pp_parts p)\<rparr>"

text \<open>\<^verbatim>\<open>Path.parents\<close>, nearest first.\<close>

definition path_parents :: "ppath \<Rightarrow> ppath list" where
  "path_parents p = map (\<lambda>k. p\<lparr>pp_parts := take k (pp_parts p)\<rparr>) (rev [0..<length (pp_parts p)])"

section \<open>Processes\<close>

type_synonym environ = "(string, string) dict"

text \<open>The document OpenCode exports for a session. Its shape is kept as data, for the writer changes
  parts of it in place; \<open>ts_child\<close> is the metadata of a delegated task, the parent's and the child's
  session ids.\<close>

record tool_state =
  ts_status :: string
  ts_input :: payload
  ts_start :: int
  ts_end :: "int option"
  ts_output :: "string option"
  ts_child :: "(string \<times> string) option"

datatype part_body =
    StepStart
  | TextBody string int
  | ToolBody string string tool_state
  | StepFinish json json

record part =
  pt_id :: string
  pt_session :: string
  pt_message :: string
  pt_body :: part_body

record export_message =
  ms_id :: string
  ms_session :: string
  ms_role :: string
  ms_created :: int
  ms_usage :: "(json \<times> json) option"
  ms_parts :: "part list"

record export_doc =
  ed_id :: string
  ed_directory :: string
  ed_title :: string
  ed_parent :: "string option"
  ed_messages :: "export_message list"

text \<open>One line of output or of a file of lines: a text or the JSON text of a value, with its newline;
  or an export document as it stands in its file.\<close>

datatype out_line = OutText string | OutJson json | OutExport export_doc

datatype content = Text string | Document json | Lines "out_line list" | Export export_doc

record 'w process =
  pr_files :: "(ppath, content) dict"
  pr_dirs :: "ppath list"
  pr_cwd :: ppath
  pr_out :: "out_line list"
  pr_ids :: nat
  pr_world :: 'w

definition absolute :: "'w process \<Rightarrow> ppath \<Rightarrow> ppath" where
  "absolute p path = path_join (pr_cwd p) path"

definition file_at :: "'w process \<Rightarrow> ppath \<Rightarrow> content option" where
  "file_at p path = dget (pr_files p) (absolute p path)"

definition is_file :: "'w process \<Rightarrow> ppath \<Rightarrow> bool" where
  "is_file p path \<longleftrightarrow> file_at p path \<noteq> None"

definition is_dir :: "'w process \<Rightarrow> ppath \<Rightarrow> bool" where
  "is_dir p path \<longleftrightarrow> absolute p path \<in> set (pr_dirs p)"

definition write_file :: "ppath \<Rightarrow> content \<Rightarrow> 'w process \<Rightarrow> 'w process" where
  "write_file path c p = p\<lparr>pr_files := dset (absolute p path) c (pr_files p)\<rparr>"

definition mkdir_parents :: "ppath \<Rightarrow> 'w process \<Rightarrow> 'w process" where
  "mkdir_parents path p =
     p\<lparr>pr_dirs := dedup (pr_dirs p @ absolute p path # path_parents (absolute p path))\<rparr>"

text \<open>One JSON line appended to a file, which is made where it is missing (a file held as one text or
  document is taken to end in a newline).\<close>

definition lines_of :: "content option \<Rightarrow> out_line list" where
  "lines_of c = (case c of None \<Rightarrow> [] | Some (Lines ls) \<Rightarrow> ls | Some (Document d) \<Rightarrow> [OutJson d]
     | Some (Export d) \<Rightarrow> [OutExport d] | Some (Text t) \<Rightarrow> [OutText t])"

definition append_record :: "ppath \<Rightarrow> json \<Rightarrow> 'w process \<Rightarrow> 'w process" where
  "append_record path j p = write_file path (Lines (lines_of (file_at p path) @ [OutJson j])) p"

definition print_lines :: "out_line list \<Rightarrow> 'w process \<Rightarrow> 'w process" where
  "print_lines ls p = p\<lparr>pr_out := pr_out p @ ls\<rparr>"

section \<open>Services outside the process\<close>

datatype stdin = NoInput | TextInput string | JsonInput json

record proc_call =
  pc_args :: "string list"
  pc_shell :: bool
  pc_cwd :: ppath
  pc_env :: environ
  pc_input :: stdin

text \<open>How a subprocess ended: its return code, output and error output; or its time ran out; or it
  could not be started.\<close>

datatype proc_end = Exited int string string | TimedOut | NotStarted

datatype signal = SIGINT | OtherSignal int

record 'w system =
  sy_subprocess :: "proc_call \<Rightarrow> 'w \<Rightarrow> proc_end \<times> 'w"
  sy_uuid :: "nat \<Rightarrow> string"
  sy_now :: "'w \<Rightarrow> instant"
  sy_time :: "'w \<Rightarrow> json"
  sy_monotonic :: "'w \<Rightarrow> rat"
  sy_signal :: "'w \<Rightarrow> signal option"

definition run_subprocess :: "'w system \<Rightarrow> proc_call \<Rightarrow> 'w process \<Rightarrow> proc_end \<times> 'w process" where
  "run_subprocess \<S> c p =
     (case sy_subprocess \<S> c (pr_world p) of (r, w) \<Rightarrow> (r, p\<lparr>pr_world := w\<rparr>))"

text \<open>\<^verbatim>\<open>uuid.uuid4().hex\<close> and \<^verbatim>\<open>str(uuid.uuid4())\<close>: 32 hexadecimal digits, and the same with dashes.\<close>

definition uuid_hex :: "'w system \<Rightarrow> 'w process \<Rightarrow> string \<times> 'w process" where
  "uuid_hex \<S> p = (sy_uuid \<S> (pr_ids p), p\<lparr>pr_ids := Suc (pr_ids p)\<rparr>)"

definition dashed :: "string \<Rightarrow> string" where
  "dashed s = take 8 s @ ''-'' @ take 4 (drop 8 s) @ ''-'' @ take 4 (drop 12 s) @ ''-'' @ take 4 (drop 16 s)
     @ ''-'' @ drop 20 s"

section \<open>Lemmas\<close>

lemma absolute_frame [simp]:
  "absolute (p\<lparr>pr_files := f\<rparr>) = absolute p" "absolute (p\<lparr>pr_dirs := d\<rparr>) = absolute p"
  "absolute (p\<lparr>pr_out := l\<rparr>) = absolute p" "absolute (p\<lparr>pr_ids := i\<rparr>) = absolute p"
  "absolute (p\<lparr>pr_world := w\<rparr>) = absolute p"
  by (simp_all add: absolute_def fun_eq_iff)

lemma file_at_write [simp]:
  "file_at (write_file path c p) path' = (if absolute p path' = absolute p path then Some c else file_at p path')"
  by (simp add: file_at_def write_file_def)

lemma file_at_mkdir [simp]: "file_at (mkdir_parents path p) = file_at p"
  by (simp add: file_at_def mkdir_parents_def fun_eq_iff)

lemma absolute_write [simp]: "absolute (write_file path c p) = absolute p"
  by (simp add: write_file_def)

lemma absolute_mkdir [simp]: "absolute (mkdir_parents path p) = absolute p"
  by (simp add: mkdir_parents_def)

text \<open>A name without a slash adds exactly one component.\<close>

lemma split_on_absent: "sep \<notin> set s \<Longrightarrow> split_on sep s = [s]"
  by (induction s) auto

lemma starts_with_slash: "starts_with ''/'' s \<Longrightarrow> CHR ''/'' \<in> set s"
  by (cases s) (auto simp: starts_with_def)

lemma path_div_name:
  assumes "CHR ''/'' \<notin> set s" and "s \<noteq> []" and "s \<noteq> ''.''"
  shows "path_div p s = p\<lparr>pp_parts := pp_parts p @ [s]\<rparr>"
proof -
  have "\<not> starts_with ''/'' s" using assms(1) starts_with_slash by blast
  moreover from this have "\<not> starts_with ''//'' s"
    by (cases s; cases "tl s") (auto simp: starts_with_def)
  ultimately show ?thesis
    using assms by (simp add: path_div_def path_join_def parse_path_def split_on_absent)
qed

lemma path_parent_div:
  assumes "CHR ''/'' \<notin> set s" and "s \<noteq> []" and "s \<noteq> ''.''"
  shows "path_parent (path_div p s) = p"
  by (simp add: path_div_name [OF assms] path_parent_def)

end
