(* ===== verification/Harness_Session.thy ===== *)
theory Harness_Session
  imports Harness_Host
begin

text \<open>
  The session state of the mock harness and its store (\<^verbatim>\<open>harness/session.py\<close>): one JSON document per
  session, named after the session id. The lemmas show that a saved session loads back as it was,
  that a save touches no other file, and that the file of a session lies directly in the store's
  directory whatever its id.
\<close>

record ask =
  ak_question :: string
  ak_options :: "string list"
  ak_asked_at :: json

record invocation =
  iv_kind :: string
  iv_model :: "string option"
  iv_effort :: "string option"
  iv_compaction_window :: "string option"
  iv_permission :: "string option"

record spawn_credential =
  scr_lease_id :: "string option"
  scr_lease_token :: "string option"
  scr_runner_url :: "string option"

record session_state =
  ss_session_id :: string
  ss_turns :: int
  ss_asks :: "ask list"
  ss_resumes :: "string list"
  ss_verdicts :: "string list"
  ss_invocations :: "invocation list"
  ss_selftest :: bool
  ss_spawn_credential :: "spawn_credential option"

definition new_session :: "string \<Rightarrow> session_state" where
  "new_session sid =
     \<lparr>ss_session_id = sid, ss_turns = 0, ss_asks = [], ss_resumes = [], ss_verdicts = [], ss_invocations = [],
      ss_selftest = False, ss_spawn_credential = None\<rparr>"

definition last_ask :: "session_state \<Rightarrow> ask option" where
  "last_ask s = (if ss_asks s = [] then None else Some (last (ss_asks s)))"

definition last_answer :: "session_state \<Rightarrow> string option" where
  "last_answer s = (if ss_resumes s = [] then None else Some (last (ss_resumes s)))"

section \<open>The document of a session\<close>

text \<open>\<^verbatim>\<open>to_json\<close>: the fields of each dataclass, the keys sorted.\<close>

definition ask_json :: "ask \<Rightarrow> json" where
  "ask_json a = JObj [(''asked_at'', ak_asked_at a), (''options'', JList (map JStr (ak_options a))),
     (''question'', JStr (ak_question a))]"

definition invocation_json :: "invocation \<Rightarrow> json" where
  "invocation_json i = JObj [(''compaction_window'', opt_str (iv_compaction_window i)), (''effort'', opt_str (iv_effort i)),
     (''kind'', JStr (iv_kind i)), (''model'', opt_str (iv_model i)), (''permission'', opt_str (iv_permission i))]"

definition credential_json :: "spawn_credential \<Rightarrow> json" where
  "credential_json c = JObj [(''lease_id'', opt_str (scr_lease_id c)), (''lease_token'', opt_str (scr_lease_token c)),
     (''runner_url'', opt_str (scr_runner_url c))]"

definition to_json :: "session_state \<Rightarrow> json" where
  "to_json s = JObj
     [(''asks'', JList (map ask_json (ss_asks s))),
      (''invocations'', JList (map invocation_json (ss_invocations s))),
      (''resumes'', JList (map JStr (ss_resumes s))),
      (''selftest'', JBool (ss_selftest s)),
      (''session_id'', JStr (ss_session_id s)),
      (''spawn_credential'', (case ss_spawn_credential s of None \<Rightarrow> JNull | Some c \<Rightarrow> credential_json c)),
      (''turns'', JInt (ss_turns s)),
      (''verdicts'', JList (map JStr (ss_verdicts s)))]"

text \<open>\<^verbatim>\<open>from_json\<close>: each dataclass is built from the keys of an object, so an unknown key or a missing
  one without a default raises; \<open>None\<close> stands for that, and for a value of a type the field does not
  have.\<close>

fun want_str :: "json \<Rightarrow> string option" where
  "want_str (JStr s) = Some s"
| "want_str _ = None"

fun want_opt :: "json \<Rightarrow> string option option" where
  "want_opt (JStr s) = Some (Some s)"
| "want_opt JNull = Some None"
| "want_opt _ = None"

fun want_int :: "json \<Rightarrow> int option" where
  "want_int (JInt i) = Some i"
| "want_int _ = None"

fun want_bool :: "json \<Rightarrow> bool option" where
  "want_bool (JBool b) = Some b"
| "want_bool _ = None"

fun want_all :: "('a \<Rightarrow> 'b option) \<Rightarrow> 'a list \<Rightarrow> 'b list option" where
  "want_all f [] = Some []"
| "want_all f (x # xs) = (case f x of None \<Rightarrow> None | Some y \<Rightarrow> map_option (Cons y) (want_all f xs))"

definition want_list :: "(json \<Rightarrow> 'b option) \<Rightarrow> json \<Rightarrow> 'b list option" where
  "want_list f j = (case j of JList xs \<Rightarrow> want_all f xs | _ \<Rightarrow> None)"

text \<open>A keyword argument read off the object, or its default where it has one.\<close>

definition keyword :: "payload \<Rightarrow> string \<Rightarrow> (json \<Rightarrow> 'b option) \<Rightarrow> 'b option \<Rightarrow> 'b option" where
  "keyword kvs k f dflt = (case dget kvs k of None \<Rightarrow> dflt | Some j \<Rightarrow> f j)"

definition known_keys :: "string list \<Rightarrow> payload \<Rightarrow> bool" where
  "known_keys ks kvs \<longleftrightarrow> list_all (\<lambda>k. k \<in> set ks) (dkeys kvs)"

definition ask_of :: "json \<Rightarrow> json \<Rightarrow> ask option" where
  "ask_of now j =
     (case j of
        JObj kvs \<Rightarrow>
          if known_keys [''question'', ''options'', ''asked_at''] kvs
          then (case (keyword kvs ''question'' want_str None, keyword kvs ''options'' (want_list want_str) (Some [])) of
              (Some q, Some os) \<Rightarrow> Some \<lparr>ak_question = q, ak_options = os,
                                         ak_asked_at = (case dget kvs ''asked_at'' of None \<Rightarrow> now | Some t \<Rightarrow> t)\<rparr>
            | _ \<Rightarrow> None)
          else None
      | _ \<Rightarrow> None)"

definition invocation_of :: "json \<Rightarrow> invocation option" where
  "invocation_of j =
     (case j of
        JObj kvs \<Rightarrow>
          if known_keys [''kind'', ''model'', ''effort'', ''compaction_window'', ''permission''] kvs
          then (case (keyword kvs ''kind'' want_str None, keyword kvs ''model'' want_opt (Some None),
                      keyword kvs ''effort'' want_opt (Some None),
                      keyword kvs ''compaction_window'' want_opt (Some None),
                      keyword kvs ''permission'' want_opt (Some None)) of
              (Some k, Some m, Some e, Some w, Some p) \<Rightarrow>
                Some \<lparr>iv_kind = k, iv_model = m, iv_effort = e, iv_compaction_window = w, iv_permission = p\<rparr>
            | _ \<Rightarrow> None)
          else None
      | _ \<Rightarrow> None)"

definition credential_of :: "json \<Rightarrow> spawn_credential option option" where
  "credential_of j =
     (case j of
        JNull \<Rightarrow> Some None
      | JObj kvs \<Rightarrow>
          if known_keys [''lease_id'', ''lease_token'', ''runner_url''] kvs
          then (case (keyword kvs ''lease_id'' want_opt (Some None), keyword kvs ''lease_token'' want_opt (Some None),
                      keyword kvs ''runner_url'' want_opt (Some None)) of
              (Some i, Some t, Some u) \<Rightarrow>
                Some (Some \<lparr>scr_lease_id = i, scr_lease_token = t, scr_runner_url = u\<rparr>)
            | _ \<Rightarrow> None)
          else None
      | _ \<Rightarrow> None)"

definition from_json :: "json \<Rightarrow> json \<Rightarrow> session_state option" where
  "from_json now j =
     (case j of
        JObj kvs \<Rightarrow>
          if known_keys [''session_id'', ''turns'', ''asks'', ''resumes'', ''verdicts'', ''invocations'', ''selftest'',
                         ''spawn_credential''] kvs
          then (case (keyword kvs ''session_id'' want_str None, keyword kvs ''turns'' want_int (Some 0),
                      keyword kvs ''asks'' (want_list (ask_of now)) (Some []),
                      keyword kvs ''resumes'' (want_list want_str) (Some []),
                      keyword kvs ''verdicts'' (want_list want_str) (Some []),
                      keyword kvs ''invocations'' (want_list invocation_of) (Some []),
                      keyword kvs ''selftest'' want_bool (Some False),
                      keyword kvs ''spawn_credential'' credential_of (Some None)) of
              (Some sid, Some n, Some asks, Some rs, Some vs, Some invs, Some b, Some c) \<Rightarrow>
                Some \<lparr>ss_session_id = sid, ss_turns = n, ss_asks = asks, ss_resumes = rs, ss_verdicts = vs,
                      ss_invocations = invs, ss_selftest = b, ss_spawn_credential = c\<rparr>
            | _ \<Rightarrow> None)
          else None
      | _ \<Rightarrow> None)"

section \<open>The store\<close>

text \<open>\<^verbatim>\<open>str.replace\<close> of a character, and of two dots.\<close>

fun replace_dots :: "string \<Rightarrow> string" where
  "replace_dots (c # d # cs) =
     (if c = CHR ''.'' \<and> d = CHR ''.'' then CHR ''_'' # replace_dots cs else c # replace_dots (d # cs))"
| "replace_dots s = s"

definition safe_name :: "string \<Rightarrow> string" where
  "safe_name sid = replace_dots (map (\<lambda>c. if c = CHR ''/'' then CHR ''_'' else c) sid)"

definition session_path :: "ppath \<Rightarrow> string \<Rightarrow> ppath" where
  "session_path dir sid = path_div dir (safe_name sid @ ''.json'')"

text \<open>\<^verbatim>\<open>load\<close>: \<open>Inl ()\<close> is the exception of a file that is no session document.\<close>

definition store_load :: "'w system \<Rightarrow> ppath \<Rightarrow> string \<Rightarrow> 'w process \<Rightarrow> unit + session_state option" where
  "store_load \<S> dir sid p =
     (case file_at p (session_path dir sid) of
        None \<Rightarrow> Inr None
      | Some (Document j) \<Rightarrow>
          (case from_json (sy_time \<S> (pr_world p)) j of None \<Rightarrow> Inl () | Some s \<Rightarrow> Inr (Some s))
      | Some _ \<Rightarrow> Inl ())"

definition load_or_create :: "'w system \<Rightarrow> ppath \<Rightarrow> string \<Rightarrow> 'w process \<Rightarrow> unit + session_state" where
  "load_or_create \<S> dir sid p =
     (case store_load \<S> dir sid p of
        Inl e \<Rightarrow> Inl e | Inr None \<Rightarrow> Inr (new_session sid) | Inr (Some s) \<Rightarrow> Inr s)"

definition store_save :: "ppath \<Rightarrow> session_state \<Rightarrow> 'w process \<Rightarrow> 'w process" where
  "store_save dir s p =
     write_file (session_path dir (ss_session_id s)) (Document (to_json s)) (mkdir_parents dir p)"

section \<open>A session loads back as it was saved\<close>

lemma want_all_map: "(\<And>x. x \<in> set xs \<Longrightarrow> f (g x) = Some x) \<Longrightarrow> want_all f (map g xs) = Some xs"
  by (induction xs) auto

lemma want_opt_str [simp]: "want_opt (opt_str s) = Some s"
  by (cases s) (simp_all add: opt_str_def)

lemma ask_of_json [simp]: "ask_of now (ask_json a) = Some a"
  by (simp add: ask_of_def ask_json_def known_keys_def keyword_def want_list_def want_all_map)

lemma invocation_of_json [simp]: "invocation_of (invocation_json i) = Some i"
  by (simp add: invocation_of_def invocation_json_def known_keys_def keyword_def)

lemma credential_of_json [simp]: "credential_of (credential_json c) = Some (Some c)"
  by (simp add: credential_of_def credential_json_def known_keys_def keyword_def)

lemma from_json_to_json [simp]: "from_json now (to_json s) = Some s"
proof -
  have "credential_of (case ss_spawn_credential s of None \<Rightarrow> JNull | Some c \<Rightarrow> credential_json c)
      = Some (ss_spawn_credential s)"
    by (cases "ss_spawn_credential s") (simp_all add: credential_of_def [of JNull])
  then show ?thesis
    by (simp add: from_json_def to_json_def known_keys_def keyword_def want_list_def want_all_map)
qed

lemma absolute_save [simp]: "absolute (store_save dir s p) = absolute p"
  by (simp add: store_save_def)

lemma pr_save [simp]:
  "pr_cwd (store_save dir s p) = pr_cwd p" "pr_out (store_save dir s p) = pr_out p"
  "pr_ids (store_save dir s p) = pr_ids p" "pr_world (store_save dir s p) = pr_world p"
  by (simp_all add: store_save_def write_file_def mkdir_parents_def)

lemma file_at_save:
  "file_at (store_save dir s p) path =
     (if absolute p path = absolute p (session_path dir (ss_session_id s)) then Some (Document (to_json s))
      else file_at p path)"
  by (simp add: store_save_def)

lemma load_save: "load_or_create \<S> dir (ss_session_id s) (store_save dir s p) = Inr s"
  by (simp add: load_or_create_def store_load_def file_at_save)

section \<open>Session files stay in their directory\<close>

fun has_dots :: "string \<Rightarrow> bool" where
  "has_dots (c # d # cs) \<longleftrightarrow> c = CHR ''.'' \<and> d = CHR ''.'' \<or> has_dots (d # cs)"
| "has_dots _ \<longleftrightarrow> False"

lemma replace_dots_hd: "c \<noteq> CHR ''.'' \<Longrightarrow> \<exists>r. replace_dots (c # cs) = c # r"
  by (cases cs) auto

lemma has_dots_Cons: "c \<noteq> CHR ''.'' \<Longrightarrow> has_dots (c # s) = has_dots s"
  by (cases s) auto

lemma no_dots_replace: "\<not> has_dots (replace_dots s)"
proof (induction s rule: replace_dots.induct)
  case (1 c d cs)
  show ?case
  proof (cases "c = CHR ''.'' \<and> d = CHR ''.''")
    case True
    with 1 show ?thesis by (simp add: has_dots_Cons)
  next
    case False
    show ?thesis
    proof (cases "c = CHR ''.''")
      case True
      with False obtain r where "replace_dots (d # cs) = d # r" using replace_dots_hd by blast
      with False 1(2) True show ?thesis by simp
    next
      case False
      with 1(2) show ?thesis by (simp add: has_dots_Cons)
    qed
  qed
qed auto

lemma set_replace_dots: "set (replace_dots s) \<subseteq> insert (CHR ''_'') (set s)"
  by (induction s rule: replace_dots.induct) auto

lemma safe_name_no_slash: "CHR ''/'' \<notin> set (safe_name sid)"
  using set_replace_dots [of "map (\<lambda>c. if c = CHR ''/'' then CHR ''_'' else c) sid"]
  by (auto simp: safe_name_def)

lemma session_path_parts:
  "session_path dir sid = dir\<lparr>pp_parts := pp_parts dir @ [safe_name sid @ ''.json'']\<rparr>"
proof -
  have "safe_name sid @ ''.json'' \<noteq> ''.''" by (cases "safe_name sid") auto
  then show ?thesis
    by (simp add: session_path_def path_div_name safe_name_no_slash)
qed

lemma plain_name_kept:
  assumes "CHR ''/'' \<notin> set sid" and "\<not> has_dots sid"
  shows "safe_name sid = sid"
proof -
  have "map (\<lambda>c. if c = CHR ''/'' then CHR ''_'' else c) sid = sid"
    using assms(1) by (induction sid) auto
  moreover have "replace_dots sid = sid"
    using assms(2) by (induction sid rule: replace_dots.induct) auto
  ultimately show ?thesis by (simp add: safe_name_def)
qed

end
