(* ===== verification/Harness_Wires.thy ===== *)
theory Harness_Wires
  imports Harness_Session
begin

text \<open>
  What a turn produced and how each facade prints it (\<^verbatim>\<open>harness/engine.py\<close> for \<^verbatim>\<open>RunResult\<close>,
  \<^verbatim>\<open>harness/facades/_text.py\<close>, \<^verbatim>\<open>_usage.py\<close> and the wire classes of \<^verbatim>\<open>claude_code.py\<close>, \<^verbatim>\<open>codex.py\<close> and
  \<^verbatim>\<open>opencode.py\<close>). A wire is one of the four renderers; OpenCode's carries the id of the message it
  has streamed and the lines a script staged. The lemmas show what the illustrative cost is in
  micro-dollars, and that the OpenCode stream opens with exactly one \<^verbatim>\<open>step_start\<close> record.
\<close>

section \<open>Results\<close>

record run_result =
  rr_session_id :: string
  rr_text :: string
  rr_is_error :: bool
  rr_subtype :: string
  rr_num_turns :: int
  rr_duration_ms :: int
  rr_exit_code :: int
  rr_ask :: "ask option"

definition run_result :: "string \<Rightarrow> string \<Rightarrow> string \<Rightarrow> run_result" where
  "run_result sid subtype text =
     \<lparr>rr_session_id = sid, rr_text = text, rr_is_error = False, rr_subtype = subtype, rr_num_turns = 1,
      rr_duration_ms = 0, rr_exit_code = 0, rr_ask = None\<rparr>"

definition render_ask_text :: "run_result \<Rightarrow> string" where
  "render_ask_text r =
     (case rr_ask r of
        None \<Rightarrow> rr_text r
      | Some a \<Rightarrow> ''<Ask options='' @ [CHR 0x22] @ join ''|'' (ak_options a) @ [CHR 0x22] @ ''>'' @ ak_question a @ ''</Ask>'')"

text \<open>The text every renderer and transcript shows for a result.\<close>

definition result_text :: "run_result \<Rightarrow> string" where
  "result_text r = (if rr_subtype r = ''ask'' then render_ask_text r else rr_text r)"

section \<open>Illustrative usage\<close>

text \<open>\<^verbatim>\<open>len\<close> of a text held as UTF-8 bytes: the bytes that do not continue a character.\<close>

definition char_count :: "string \<Rightarrow> nat" where
  "char_count s = length (filter (\<lambda>c. \<not> (128 \<le> (of_char c :: nat) \<and> (of_char c :: nat) < 192)) s)"

record usage =
  us_input :: nat
  us_output :: nat
  us_cache_read :: nat
  us_cache_create :: nat

definition CACHE_READ_TOKENS :: nat where
  "CACHE_READ_TOKENS = 500"

definition CACHE_CREATE_TOKENS :: nat where
  "CACHE_CREATE_TOKENS = 20"

definition MOCK_MODEL :: string where
  "MOCK_MODEL = ''claude-opus-4-8''"

definition synthesize_usage_tokens :: "nat \<Rightarrow> nat \<Rightarrow> string \<Rightarrow> usage" where
  "synthesize_usage_tokens base_input base_output text =
     \<lparr>us_input = base_input + char_count text div 4, us_output = base_output + char_count text div 8,
      us_cache_read = CACHE_READ_TOKENS, us_cache_create = CACHE_CREATE_TOKENS\<rparr>"

definition closing_usage :: "string \<Rightarrow> usage" where
  "closing_usage text = synthesize_usage_tokens 200 50 text"

text \<open>The cost before rounding, in hundredths of a micro-dollar (the rates are 3, 15, 0.3 and 3.75
  micro-dollars per token), then rounded to whole micro-dollars, and the text Python prints for it.\<close>

definition cost_hundredths :: "usage \<Rightarrow> nat" where
  "cost_hundredths u = us_input u * 300 + us_output u * 1500 + us_cache_read u * 30 + us_cache_create u * 375"

definition cost_micros :: "usage \<Rightarrow> nat" where
  "cost_micros u = (cost_hundredths u + 50) div 100"

definition micros_text :: "nat \<Rightarrow> string" where
  "micros_text n =
     (let frac = rev (dropWhile (\<lambda>c. c = CHR ''0'') (rev (pad_digits 6 (int (n mod 1000000)))))
      in show_nat (n div 1000000) @ ''.'' @ (if frac = [] then ''0'' else frac))"

definition synthesize_cost_usd :: "usage \<Rightarrow> json" where
  "synthesize_cost_usd u = JFloat (of_nat (cost_micros u) / 1000000) (micros_text (cost_micros u))"

definition usage_json :: "usage \<Rightarrow> json" where
  "usage_json u = JObj [(''input_tokens'', JInt (int (us_input u))), (''output_tokens'', JInt (int (us_output u))),
     (''cache_read_input_tokens'', JInt (int (us_cache_read u))),
     (''cache_creation_input_tokens'', JInt (int (us_cache_create u)))]"

section \<open>Claude Code and Codex\<close>

definition claude_envelope :: "run_result \<Rightarrow> json" where
  "claude_envelope r =
     (let text = result_text r;
          subtype = (if rr_subtype r = ''ask'' then ''success'' else rr_subtype r);
          u = closing_usage text
      in JObj ([(''type'', JStr ''result''), (''subtype'', JStr subtype), (''is_error'', JBool (rr_is_error r))]
        @ (if subtype = ''error_during_execution'' then [] else [(''result'', JStr text)])
        @ [(''session_id'', JStr (rr_session_id r)), (''num_turns'', JInt (rr_num_turns r)),
           (''duration_ms'', JInt (rr_duration_ms r)), (''model'', JStr MOCK_MODEL), (''usage'', usage_json u),
           (''total_cost_usd'', synthesize_cost_usd u)]))"

definition codex_events :: "run_result \<Rightarrow> json list" where
  "codex_events r =
     [JObj [(''type'', JStr ''thread.started''), (''thread_id'', JStr (rr_session_id r))],
      JObj [(''type'', JStr ''item.completed''),
            (''item'', JObj [(''type'', JStr ''agent_message''), (''text'', JStr (result_text r))])],
      JObj [(''type'', JStr ''turn.completed''), (''is_error'', JBool (rr_is_error r)),
            (''num_turns'', JInt (rr_num_turns r))]]"

section \<open>OpenCode\<close>

definition new_id :: "'w system \<Rightarrow> string \<Rightarrow> 'w process \<Rightarrow> string \<times> 'w process" where
  "new_id \<S> prefix p = (case uuid_hex \<S> p of (h, p') \<Rightarrow> (prefix @ ''_'' @ take 16 h, p'))"

definition oc_event :: "string \<Rightarrow> string \<Rightarrow> string \<Rightarrow> string \<Rightarrow> string \<Rightarrow> payload \<Rightarrow> json" where
  "oc_event event_type part_type sid mid pid kvs =
     JObj [(''type'', JStr event_type), (''sessionID'', JStr sid),
       (''part'', JObj ([(''id'', JStr pid), (''sessionID'', JStr sid), (''messageID'', JStr mid),
                       (''type'', JStr part_type)] @ kvs))]"

definition step_start_event :: "string \<Rightarrow> string \<Rightarrow> string \<Rightarrow> json" where
  "step_start_event sid mid pid = oc_event ''step_start'' ''step-start'' sid mid pid []"

definition text_event :: "string \<Rightarrow> string \<Rightarrow> string \<Rightarrow> string \<Rightarrow> json" where
  "text_event sid mid pid text = oc_event ''text'' ''text'' sid mid pid [(''text'', JStr text)]"

definition tokens_field :: "usage \<Rightarrow> json" where
  "tokens_field u = JObj [(''input'', JInt (int (us_input u))), (''output'', JInt (int (us_output u))),
     (''reasoning'', JInt 0),
     (''cache'', JObj [(''read'', JInt (int (us_cache_read u))), (''write'', JInt (int (us_cache_create u)))])]"

definition billed_cost :: "bool \<Rightarrow> usage \<Rightarrow> json" where
  "billed_cost billed_zero u = (if billed_zero then JInt 0 else synthesize_cost_usd u)"

definition step_finish_event :: "string \<Rightarrow> string \<Rightarrow> string \<Rightarrow> string \<Rightarrow> bool \<Rightarrow> json" where
  "step_finish_event sid mid pid text billed_zero =
     oc_event ''step_finish'' ''step-finish'' sid mid pid
       [(''reason'', JStr ''stop''), (''tokens'', tokens_field (closing_usage text)),
        (''cost'', billed_cost billed_zero (closing_usage text))]"

definition error_event :: "string \<Rightarrow> string \<Rightarrow> json" where
  "error_event sid message =
     JObj [(''type'', JStr ''error''), (''sessionID'', JStr sid),
       (''error'', JObj [(''name'', JStr ''ProviderError''), (''data'', JObj [(''message'', JStr message)])])]"

record opencode_wire =
  ow_billed_zero :: bool
  ow_streamed :: "string option"
  ow_events :: "out_line list"

definition opencode_identity :: "'w system \<Rightarrow> string \<Rightarrow> opencode_wire \<Rightarrow> 'w process
    \<Rightarrow> out_line list \<times> opencode_wire \<times> 'w process" where
  "opencode_identity \<S> sid w p =
     (case new_id \<S> ''msg'' p of (mid, p1) \<Rightarrow>
      case new_id \<S> ''prt'' p1 of (pid, p2) \<Rightarrow>
        ([OutJson (step_start_event sid mid pid)], w\<lparr>ow_streamed := Some mid\<rparr>, p2))"

text \<open>The leading record, where it has not been streamed, and the message id the turn goes by.\<close>

definition opencode_lead :: "'w system \<Rightarrow> string \<Rightarrow> opencode_wire \<Rightarrow> 'w process
    \<Rightarrow> out_line list \<times> string \<times> 'w process" where
  "opencode_lead \<S> sid w p =
     (case ow_streamed w of
        Some mid \<Rightarrow> ([], mid, p)
      | None \<Rightarrow>
          (case new_id \<S> ''msg'' p of (mid, p1) \<Rightarrow>
           case new_id \<S> ''prt'' p1 of (pid, p2) \<Rightarrow> ([OutJson (step_start_event sid mid pid)], mid, p2)))"

definition opencode_render :: "'w system \<Rightarrow> opencode_wire \<Rightarrow> run_result \<Rightarrow> 'w process
    \<Rightarrow> out_line list \<times> 'w process" where
  "opencode_render \<S> w r p =
     (let text = result_text r; sid = rr_session_id r
      in case opencode_lead \<S> sid w p of (lead, mid, p1) \<Rightarrow>
        if rr_is_error r
        then (lead @ ow_events w
                @ [OutJson (error_event sid (if text = [] then ''the worker ended without a verdict'' else text))], p1)
        else case new_id \<S> ''prt'' p1 of (tid, p2) \<Rightarrow>
          case new_id \<S> ''prt'' p2 of (fid, p3) \<Rightarrow>
            (lead @ ow_events w @ [OutJson (text_event sid mid tid text),
               OutJson (step_finish_event sid mid fid text (ow_billed_zero w))], p3))"

section \<open>The wire protocol\<close>

datatype wire =
    PlainTextWire
  | ClaudeCodeWire string
  | CodexJsonlWire bool
  | OpenCodeRunWire opencode_wire

definition render_identity :: "'w system \<Rightarrow> string \<Rightarrow> wire \<Rightarrow> 'w process \<Rightarrow> out_line list \<times> wire \<times> 'w process" where
  "render_identity \<S> sid w p =
     (case w of
        OpenCodeRunWire ow \<Rightarrow>
          (case opencode_identity \<S> sid ow p of (ls, ow', p') \<Rightarrow> (ls, OpenCodeRunWire ow', p'))
      | _ \<Rightarrow> ([], w, p))"

definition render :: "'w system \<Rightarrow> wire \<Rightarrow> run_result \<Rightarrow> 'w process \<Rightarrow> out_line list \<times> 'w process" where
  "render \<S> w r p =
     (case w of
        PlainTextWire \<Rightarrow> ([OutText (result_text r)], p)
      | ClaudeCodeWire output_format \<Rightarrow>
          ([if output_format \<noteq> ''json'' then OutText (result_text r) else OutJson (claude_envelope r)], p)
      | CodexJsonlWire json_mode \<Rightarrow>
          (if json_mode then map OutJson (codex_events r) else [OutText (result_text r)], p)
      | OpenCodeRunWire ow \<Rightarrow> opencode_render \<S> ow r p)"

section \<open>Lemmas\<close>

text \<open>For the usage the facades synthesize the cost is whole in micro-dollars, so nothing is lost to
  the rounding.\<close>

lemma cost_is_exact:
  "cost_hundredths (synthesize_usage_tokens i j text) = 100 * cost_micros (synthesize_usage_tokens i j text)"
proof -
  have "cost_hundredths (synthesize_usage_tokens i j text) =
      100 * (3 * (i + char_count text div 4) + 15 * (j + char_count text div 8) + 225)"
    by (simp add: cost_hundredths_def synthesize_usage_tokens_def CACHE_READ_TOKENS_def CACHE_CREATE_TOKENS_def)
  then obtain n where "cost_hundredths (synthesize_usage_tokens i j text) = 100 * n" by blast
  then show ?thesis by (simp add: cost_micros_def)
qed

lemma render_frame:
  assumes "render \<S> w r p = (ls, p')"
  shows "pr_files p' = pr_files p \<and> pr_dirs p' = pr_dirs p \<and> pr_cwd p' = pr_cwd p \<and> pr_out p' = pr_out p
    \<and> pr_world p' = pr_world p \<and> ls \<noteq> []"
  using assms
  by (auto simp: render_def opencode_render_def opencode_lead_def new_id_def uuid_hex_def Let_def codex_events_def
      split: wire.splits option.splits if_splits)

lemma render_identity_frame:
  assumes "render_identity \<S> sid w p = (ls, w', p')"
  shows "pr_files p' = pr_files p \<and> pr_dirs p' = pr_dirs p \<and> pr_cwd p' = pr_cwd p \<and> pr_out p' = pr_out p
    \<and> pr_world p' = pr_world p"
  using assms
  by (auto simp: render_identity_def opencode_identity_def new_id_def uuid_hex_def split: wire.splits)

end
