(* ===== verification/Harness_Transcripts.thy ===== *)
theory Harness_Transcripts
  imports Harness_Wires "HOL-Library.Sublist"
begin

text \<open>
  The conversation transcripts of the harness: Claude Code's JSONL records
  (\<^verbatim>\<open>harness/facades/_transcript.py\<close>) and OpenCode's export document (\<^verbatim>\<open>_opencode_transcript.py\<close>), and the
  exceptions a behavior script can see. The interface \<open>history\<close> says what every writer promises: what
  was recorded before stays recorded, in its order; both writers are instances of it.
\<close>

section \<open>Exceptions\<close>

text \<open>What unwinds a behavior script: the two signals of the engine, an interrupt, an exit, and any
  other exception by its class and its text.\<close>

datatype pyexn =
    AskExit ask
  | HarnessCrash string
  | KeyboardInterrupt
  | SystemExit int
  | PyExn string string

definition py_type_name :: "json \<Rightarrow> string" where
  "py_type_name j =
     (case j of JNull \<Rightarrow> ''NoneType'' | JBool _ \<Rightarrow> ''bool'' | JInt _ \<Rightarrow> ''int'' | JFloat _ _ \<Rightarrow> ''float''
      | JStr _ \<Rightarrow> ''str'' | JList _ \<Rightarrow> ''list'' | JObj _ \<Rightarrow> ''dict'')"

section \<open>Claude Code\<close>

definition transcripts_root :: "environ \<Rightarrow> ppath \<Rightarrow> ppath" where
  "transcripts_root env fence_dir =
     (case dget env ''BZ_TRANSCRIPTS_ROOT'' of
        Some override \<Rightarrow>
          if override \<noteq> [] then parse_path override
          else path_div (path_div fence_dir ''.blizzard-mock-harness'') ''transcripts''
      | None \<Rightarrow> path_div (path_div fence_dir ''.blizzard-mock-harness'') ''transcripts'')"

record claude_writer =
  ct_session_id :: string
  ct_cwd :: ppath
  ct_path :: ppath

definition claude_writer :: "string \<Rightarrow> ppath \<Rightarrow> ppath \<Rightarrow> claude_writer" where
  "claude_writer sid dir cwd =
     \<lparr>ct_session_id = sid, ct_cwd = cwd, ct_path = path_div (path_div dir ''mock-claude-code'') (sid @ ''.jsonl'')\<rparr>"

definition claude_append :: "'w system \<Rightarrow> string \<Rightarrow> payload \<Rightarrow> payload \<Rightarrow> claude_writer \<Rightarrow> 'w process \<Rightarrow> 'w process" where
  "claude_append \<S> record_type message extra w p =
     append_record (ct_path w)
       (JObj ([(''type'', JStr record_type), (''sessionId'', JStr (ct_session_id w)), (''cwd'', JStr (path_str (ct_cwd w))),
               (''timestamp'', JStr (isoformat (sy_now \<S> (pr_world p)))), (''message'', JObj message)] @ extra))
       (mkdir_parents (path_parent (ct_path w)) p)"

definition claude_record_user :: "'w system \<Rightarrow> string \<Rightarrow> claude_writer \<Rightarrow> 'w process \<Rightarrow> 'w process" where
  "claude_record_user \<S> text w p = claude_append \<S> ''user'' [(''role'', JStr ''user''), (''content'', JStr text)] [] w p"

definition assistant_message :: "usage \<Rightarrow> json \<Rightarrow> payload" where
  "assistant_message u item =
     [(''role'', JStr ''assistant''), (''model'', JStr MOCK_MODEL), (''usage'', usage_json u), (''content'', JList [item])]"

definition claude_record_result :: "'w system \<Rightarrow> run_result \<Rightarrow> claude_writer \<Rightarrow> 'w process \<Rightarrow> 'w process" where
  "claude_record_result \<S> r w p =
     claude_append \<S> ''assistant''
       (assistant_message (closing_usage (result_text r)) (JObj [(''type'', JStr ''text''), (''text'', JStr (result_text r))]))
       [] w p"

definition claude_record_tool_call :: "'w system \<Rightarrow> string \<Rightarrow> payload \<Rightarrow> claude_writer \<Rightarrow> 'w process
    \<Rightarrow> string \<times> 'w process" where
  "claude_record_tool_call \<S> name tool_input w p =
     (case uuid_hex \<S> p of (h, p1) \<Rightarrow>
      let tool_use_id = ''toolu_'' @ h in
        (tool_use_id, claude_append \<S> ''assistant''
           (assistant_message (synthesize_usage_tokens 50 10 name)
              (JObj [(''type'', JStr ''tool_use''), (''id'', JStr tool_use_id), (''name'', JStr name),
                     (''input'', JObj tool_input)])) [] w p1))"

definition claude_record_tool_result :: "'w system \<Rightarrow> string \<Rightarrow> string \<Rightarrow> claude_writer \<Rightarrow> 'w process \<Rightarrow> 'w process" where
  "claude_record_tool_result \<S> tool_use_id output w p =
     claude_append \<S> ''user''
       [(''role'', JStr ''user''),
        (''content'', JList [JObj [(''type'', JStr ''tool_result''), (''tool_use_id'', JStr tool_use_id), (''content'', JStr output)]])]
       [] w p"

section \<open>OpenCode\<close>

definition CHILD_TOOL_CALLS_KEY :: string where
  "CHILD_TOOL_CALLS_KEY = ''child_tool_calls''"

definition billed_zero_mode :: "environ \<Rightarrow> bool" where
  "billed_zero_mode env \<longleftrightarrow> dget env ''BLIZZARD_MOCK_OPENCODE_BILLED_ZERO'' = Some ''1''"

definition now_ms :: "'w system \<Rightarrow> 'w process \<Rightarrow> int" where
  "now_ms \<S> p = sy_now \<S> (pr_world p) div 1000"

definition document_path :: "ppath \<Rightarrow> string \<Rightarrow> ppath" where
  "document_path dir sid = path_div (path_div dir ''mock-opencode'') (sid @ ''.json'')"

definition new_document :: "string \<Rightarrow> ppath \<Rightarrow> string \<Rightarrow> string option \<Rightarrow> export_doc" where
  "new_document sid cwd title parent_id =
     \<lparr>ed_id = sid, ed_directory = path_str cwd, ed_title = title, ed_parent = parent_id, ed_messages = []\<rparr>"

text \<open>The document in a file, or a new one; \<open>None\<close> is a file that holds something else.\<close>

definition load_document :: "ppath \<Rightarrow> export_doc \<Rightarrow> 'w process \<Rightarrow> export_doc option" where
  "load_document path new p =
     (case file_at p path of None \<Rightarrow> Some new | Some (Export d) \<Rightarrow> Some d | Some _ \<Rightarrow> None)"

record opencode_writer =
  ot_session_id :: string
  ot_billed_zero :: bool
  ot_cwd :: ppath
  ot_root :: ppath
  ot_doc :: export_doc
  ot_open :: bool

definition opencode_writer :: "string \<Rightarrow> ppath \<Rightarrow> ppath \<Rightarrow> bool \<Rightarrow> 'w process \<Rightarrow> opencode_writer option" where
  "opencode_writer sid dir cwd billed_zero p =
     map_option (\<lambda>d. \<lparr>ot_session_id = sid, ot_billed_zero = billed_zero, ot_cwd = cwd, ot_root = dir, ot_doc = d, ot_open = False\<rparr>)
       (load_document (document_path dir sid) (new_document sid cwd ''mock-opencode session'' None) p)"

definition doc_write :: "opencode_writer \<Rightarrow> 'w process \<Rightarrow> 'w process" where
  "doc_write w p =
     write_file (document_path (ot_root w) (ot_session_id w)) (Export (ot_doc w))
       (mkdir_parents (path_div (ot_root w) ''mock-opencode'') p)"

definition new_message :: "'w system \<Rightarrow> string \<Rightarrow> string \<Rightarrow> int option \<Rightarrow> 'w process \<Rightarrow> export_message \<times> 'w process" where
  "new_message \<S> role sid created_at p =
     (case new_id \<S> ''msg'' p of (mid, p1) \<Rightarrow>
        (\<lparr>ms_id = mid, ms_session = sid, ms_role = role,
          ms_created = (case created_at of None \<Rightarrow> now_ms \<S> p1 | Some t \<Rightarrow> t), ms_usage = None, ms_parts = []\<rparr>, p1))"

text \<open>\<^verbatim>\<open>_new_part\<close>, appended to the message it is made for.\<close>

definition add_part :: "'w system \<Rightarrow> string \<Rightarrow> part_body \<Rightarrow> export_message \<Rightarrow> 'w process \<Rightarrow> export_message \<times> 'w process" where
  "add_part \<S> sid body m p =
     (case new_id \<S> ''prt'' p of (pid, p1) \<Rightarrow>
        (m\<lparr>ms_parts := ms_parts m @ [\<lparr>pt_id = pid, pt_session = sid, pt_message = ms_id m, pt_body = body\<rparr>]\<rparr>, p1))"

definition push_message :: "export_message \<Rightarrow> export_doc \<Rightarrow> export_doc" where
  "push_message m d = d\<lparr>ed_messages := ed_messages d @ [m]\<rparr>"

text \<open>The message an open assistant turn accumulates into is the last of the document.\<close>

definition set_last_message :: "export_message \<Rightarrow> export_doc \<Rightarrow> export_doc" where
  "set_last_message m d = d\<lparr>ed_messages := butlast (ed_messages d) @ [m]\<rparr>"

definition opencode_record_user :: "'w system \<Rightarrow> string \<Rightarrow> opencode_writer \<Rightarrow> 'w process
    \<Rightarrow> opencode_writer \<times> 'w process" where
  "opencode_record_user \<S> text w p =
     (case new_message \<S> ''user'' (ot_session_id w) None p of (m, p1) \<Rightarrow>
      case add_part \<S> (ot_session_id w) (TextBody text (now_ms \<S> p1)) m p1 of (m1, p2) \<Rightarrow>
      let w1 = w\<lparr>ot_open := False, ot_doc := push_message m1 (ot_doc w)\<rparr> in (w1, doc_write w1 p2))"

definition assistant_turn :: "'w system \<Rightarrow> opencode_writer \<Rightarrow> 'w process
    \<Rightarrow> export_message \<times> opencode_writer \<times> 'w process" where
  "assistant_turn \<S> w p =
     (if ot_open w then (last (ed_messages (ot_doc w)), w, p)
      else case new_message \<S> ''assistant'' (ot_session_id w) None p of (m, p1) \<Rightarrow>
        case add_part \<S> (ot_session_id w) StepStart m p1 of (m1, p2) \<Rightarrow>
          (m1, w\<lparr>ot_open := True, ot_doc := push_message m1 (ot_doc w)\<rparr>, p2))"

definition opencode_record_result :: "'w system \<Rightarrow> run_result \<Rightarrow> opencode_writer \<Rightarrow> 'w process
    \<Rightarrow> opencode_writer \<times> 'w process" where
  "opencode_record_result \<S> r w p =
     (let text = result_text r; u = closing_usage text; cost = billed_cost (ot_billed_zero w) u
      in case assistant_turn \<S> w p of (m, w1, p1) \<Rightarrow>
         case add_part \<S> (ot_session_id w) (TextBody text (now_ms \<S> p1)) m p1 of (m1, p2) \<Rightarrow>
         case add_part \<S> (ot_session_id w) (StepFinish (tokens_field u) cost) m1 p2 of (m2, p3) \<Rightarrow>
         let m3 = m2\<lparr>ms_usage := Some (tokens_field u, cost)\<rparr>;
             w2 = w1\<lparr>ot_open := False, ot_doc := set_last_message m3 (ot_doc w1)\<rparr>
         in (w2, doc_write w2 p3))"

section \<open>Delegated tasks\<close>

text \<open>One tool call of a child session: its tool, input and output. A call that is no object, or has no
  tool, or an input that is no object, raises.\<close>

definition child_call :: "json \<Rightarrow> pyexn + (string \<times> payload \<times> string)" where
  "child_call j =
     (case j of
        JObj kvs \<Rightarrow>
          (case dget kvs ''tool'' of
             None \<Rightarrow> Inl (PyExn ''KeyError'' (py_repr ''tool''))
           | Some t \<Rightarrow>
               (case dget kvs ''input'' of
                  None \<Rightarrow> Inr (json_str t, [], get_str kvs ''output'' ''ok'')
                | Some (JObj i) \<Rightarrow> Inr (json_str t, i, get_str kvs ''output'' ''ok'')
                | Some v \<Rightarrow> Inl (PyExn ''TypeError'' (py_repr (py_type_name v) @ '' object is not iterable''))))
      | _ \<Rightarrow> Inl (PyExn ''TypeError'' (py_repr (py_type_name j) @ '' object is not subscriptable'')))"

fun add_child_calls :: "'w system \<Rightarrow> string \<Rightarrow> int \<Rightarrow> json list \<Rightarrow> export_message \<Rightarrow> 'w process
    \<Rightarrow> (pyexn + export_message) \<times> 'w process" where
  "add_child_calls \<S> sid t [] m p = (Inr m, p)"
| "add_child_calls \<S> sid t (j # js) m p =
     (case child_call j of
        Inl e \<Rightarrow> (Inl e, p)
      | Inr (tool, i, output) \<Rightarrow>
          (case new_id \<S> ''call'' p of (call_id, p1) \<Rightarrow>
           case add_part \<S> sid (ToolBody call_id tool
               \<lparr>ts_status = ''completed'', ts_input = i, ts_start = t, ts_end = Some t, ts_output = Some output,
                ts_child = None\<rparr>) m p1 of (m1, p2) \<Rightarrow>
             add_child_calls \<S> sid t js m1 p2))"

definition child_reply :: string where
  "child_reply = ''the child session completed its delegated task''"

definition write_child_session :: "'w system \<Rightarrow> string \<Rightarrow> payload \<Rightarrow> json list \<Rightarrow> int \<Rightarrow> opencode_writer \<Rightarrow> 'w process
    \<Rightarrow> pyexn option \<times> 'w process" where
  "write_child_session \<S> child_id tool_input child_calls t w p =
     (let path = document_path (ot_root w) child_id; u = synthesize_usage_tokens 50 10 child_reply
      in case load_document path (new_document child_id (ot_cwd w) ''mock-opencode child session'' (Some (ot_session_id w))) p of
        None \<Rightarrow> (Some (PyExn ''JSONDecodeError'' []), p)
      | Some doc \<Rightarrow>
          (case new_message \<S> ''user'' child_id (Some t) p of (um, p1) \<Rightarrow>
           case add_part \<S> child_id (TextBody (get_str tool_input ''prompt'' []) t) um p1 of (um1, p2) \<Rightarrow>
           case new_message \<S> ''assistant'' child_id (Some t) p2 of (am, p3) \<Rightarrow>
           case add_child_calls \<S> child_id t child_calls am p3 of (r, p4) \<Rightarrow>
           (case r of
              Inl e \<Rightarrow> (Some e, p4)
            | Inr am1 \<Rightarrow>
                (case add_part \<S> child_id (TextBody child_reply t) am1 p4 of (am2, p5) \<Rightarrow>
                 case add_part \<S> child_id (StepFinish (tokens_field u) (synthesize_cost_usd u)) am2 p5 of (am3, p6) \<Rightarrow>
                   (None, write_file path
                      (Export (push_message (am3\<lparr>ms_usage := Some (tokens_field u, synthesize_cost_usd u)\<rparr>)
                                 (push_message um1 doc)))
                      (mkdir_parents (path_parent path) p6))))))"

text \<open>What a tool call of the name \<^verbatim>\<open>task\<close> adds: the child it names, and the child's document.\<close>

definition delegate :: "'w system \<Rightarrow> payload \<Rightarrow> payload \<Rightarrow> int \<Rightarrow> opencode_writer \<Rightarrow> 'w process
    \<Rightarrow> (pyexn + string) \<times> 'w process" where
  "delegate \<S> tool_input recorded t w p =
     (case (case dget tool_input ''task_id'' of
              Some v \<Rightarrow> if json_truthy v then (json_str v, p) else new_id \<S> ''ses'' p
            | None \<Rightarrow> new_id \<S> ''ses'' p) of (child_id, p1) \<Rightarrow>
      let calls = (case dget tool_input CHILD_TOOL_CALLS_KEY of
                     None \<Rightarrow> JList [] | Some v \<Rightarrow> if json_truthy v then v else JList [])
      in case calls of
           JList js \<Rightarrow>
             (case write_child_session \<S> child_id recorded js t w p1 of
                (Some e, p2) \<Rightarrow> (Inl e, p2) | (None, p2) \<Rightarrow> (Inr child_id, p2))
         | v \<Rightarrow> (Inl (PyExn ''ValueError'' (py_repr CHILD_TOOL_CALLS_KEY @ '' must be a list of tool calls, got ''
                    @ py_type_name v)), p1))"

definition opencode_record_tool_call :: "'w system \<Rightarrow> string \<Rightarrow> payload \<Rightarrow> opencode_writer \<Rightarrow> 'w process
    \<Rightarrow> (pyexn + string) \<times> opencode_writer \<times> 'w process" where
  "opencode_record_tool_call \<S> name tool_input w p =
     (case assistant_turn \<S> w p of (m, w1, p1) \<Rightarrow>
      case new_id \<S> ''call'' p1 of (call_id, p2) \<Rightarrow>
      let t = now_ms \<S> p2; recorded = filter (\<lambda>kv. fst kv \<noteq> CHILD_TOOL_CALLS_KEY) tool_input
      in case (if name = ''task''
               then (case delegate \<S> tool_input recorded t w1 p2 of
                   (Inl e, p3) \<Rightarrow> (Inl e, p3) | (Inr child_id, p3) \<Rightarrow> (Inr (Some (ot_session_id w, child_id)), p3))
               else (Inr None, p2)) of
           (Inl e, p3) \<Rightarrow> (Inl e, w1, p3)
         | (Inr child, p3) \<Rightarrow>
             (case add_part \<S> (ot_session_id w) (ToolBody call_id name
                 \<lparr>ts_status = ''pending'', ts_input = recorded, ts_start = t, ts_end = None, ts_output = None,
                  ts_child = child\<rparr>) m p3 of (m1, p4) \<Rightarrow>
              let w2 = w1\<lparr>ot_doc := set_last_message m1 (ot_doc w1)\<rparr> in (Inr call_id, w2, doc_write w2 p4)))"

text \<open>\<^verbatim>\<open>record_tool_result\<close> searches from the end for the pending call of the id; \<open>update_last\<close> changes
  the last element a test accepts.\<close>

fun update_last :: "('a \<Rightarrow> ('b \<times> 'a) option) \<Rightarrow> 'a list \<Rightarrow> ('b \<times> 'a list) option" where
  "update_last f [] = None"
| "update_last f (x # xs) =
     (case update_last f xs of
        Some (y, ys) \<Rightarrow> Some (y, x # ys)
      | None \<Rightarrow> map_option (\<lambda>(y, x'). (y, x' # xs)) (f x))"

definition answer_part :: "string \<Rightarrow> string \<Rightarrow> int \<Rightarrow> part \<Rightarrow> (part \<times> part) option" where
  "answer_part tool_use_id output now q =
     (case pt_body q of
        ToolBody call_id tool st \<Rightarrow>
          if call_id = tool_use_id \<and> ts_status st = ''pending''
          then let q' = q\<lparr>pt_body := ToolBody call_id tool
                 (st\<lparr>ts_status := ''completed'', ts_output := Some output, ts_end := Some (max now (ts_start st))\<rparr>)\<rparr>
               in Some (q', q')
          else None
      | _ \<Rightarrow> None)"

definition answer_message :: "string \<Rightarrow> string \<Rightarrow> int \<Rightarrow> export_message \<Rightarrow> (part \<times> export_message) option" where
  "answer_message tool_use_id output now m =
     map_option (\<lambda>(q, qs). (q, m\<lparr>ms_parts := qs\<rparr>)) (update_last (answer_part tool_use_id output now) (ms_parts m))"

text \<open>The completed part is returned for the callback, which hears of it when its tool is \<^verbatim>\<open>task\<close>.\<close>

definition opencode_record_tool_result :: "'w system \<Rightarrow> string \<Rightarrow> string \<Rightarrow> opencode_writer \<Rightarrow> 'w process
    \<Rightarrow> part option \<times> opencode_writer \<times> 'w process" where
  "opencode_record_tool_result \<S> tool_use_id output w p =
     (case update_last (answer_message tool_use_id output (now_ms \<S> p)) (ed_messages (ot_doc w)) of
        None \<Rightarrow> (None, w, p)
      | Some (q, ms) \<Rightarrow>
          let w1 = w\<lparr>ot_doc := (ot_doc w)\<lparr>ed_messages := ms\<rparr>\<rparr>
          in ((case pt_body q of ToolBody _ tool _ \<Rightarrow> if tool = ''task'' then Some q else None | _ \<Rightarrow> None),
              w1, doc_write w1 p))"

definition tool_state_json :: "tool_state \<Rightarrow> json" where
  "tool_state_json st = JObj
     ([(''status'', JStr (ts_status st)), (''input'', JObj (ts_input st)),
       (''time'', JObj ((''start'', JInt (ts_start st)) # (case ts_end st of None \<Rightarrow> [] | Some e \<Rightarrow> [(''end'', JInt e)])))]
      @ (case ts_child st of None \<Rightarrow> []
         | Some (a, c) \<Rightarrow> [(''metadata'', JObj [(''parentSessionId'', JStr a), (''sessionId'', JStr c), (''truncated'', JBool False)])])
      @ (case ts_output st of None \<Rightarrow> [] | Some s \<Rightarrow> [(''output'', JStr s)]))"

definition task_use_event :: "string \<Rightarrow> part \<Rightarrow> out_line list" where
  "task_use_event sid q =
     (case pt_body q of
        ToolBody call_id tool st \<Rightarrow>
          (case ts_end st of
             None \<Rightarrow> []
           | Some e \<Rightarrow>
               [OutJson (JObj [(''type'', JStr ''tool_use''), (''timestamp'', JInt e), (''sessionID'', JStr sid),
                  (''part'', JObj [(''id'', JStr (pt_id q)), (''sessionID'', JStr (pt_session q)),
                     (''messageID'', JStr (pt_message q)), (''type'', JStr ''tool''), (''callID'', JStr call_id),
                     (''tool'', JStr tool), (''state'', tool_state_json st)])])])
      | _ \<Rightarrow> [])"

section \<open>The transcript protocol\<close>

datatype transcript = ClaudeTranscript claude_writer | OpenCodeTranscript opencode_writer

definition record_user :: "'w system \<Rightarrow> string \<Rightarrow> transcript \<Rightarrow> 'w process \<Rightarrow> transcript \<times> 'w process" where
  "record_user \<S> text t p =
     (case t of
        ClaudeTranscript w \<Rightarrow> (t, claude_record_user \<S> text w p)
      | OpenCodeTranscript w \<Rightarrow>
          (case opencode_record_user \<S> text w p of (w', p') \<Rightarrow> (OpenCodeTranscript w', p')))"

definition record_result :: "'w system \<Rightarrow> run_result \<Rightarrow> transcript \<Rightarrow> 'w process \<Rightarrow> transcript \<times> 'w process" where
  "record_result \<S> r t p =
     (case t of
        ClaudeTranscript w \<Rightarrow> (t, claude_record_result \<S> r w p)
      | OpenCodeTranscript w \<Rightarrow>
          (case opencode_record_result \<S> r w p of (w', p') \<Rightarrow> (OpenCodeTranscript w', p')))"

definition record_tool_call :: "'w system \<Rightarrow> string \<Rightarrow> payload \<Rightarrow> transcript \<Rightarrow> 'w process
    \<Rightarrow> (pyexn + string) \<times> transcript \<times> 'w process" where
  "record_tool_call \<S> name tool_input t p =
     (case t of
        ClaudeTranscript w \<Rightarrow>
          (case claude_record_tool_call \<S> name tool_input w p of (i, p') \<Rightarrow> (Inr i, t, p'))
      | OpenCodeTranscript w \<Rightarrow>
          (case opencode_record_tool_call \<S> name tool_input w p of (r, w', p') \<Rightarrow> (r, OpenCodeTranscript w', p')))"

text \<open>The lines the callback stages on the wire come with the result.\<close>

definition record_tool_result :: "'w system \<Rightarrow> string \<Rightarrow> string \<Rightarrow> transcript \<Rightarrow> 'w process
    \<Rightarrow> out_line list \<times> transcript \<times> 'w process" where
  "record_tool_result \<S> tool_use_id output t p =
     (case t of
        ClaudeTranscript w \<Rightarrow> ([], t, claude_record_tool_result \<S> tool_use_id output w p)
      | OpenCodeTranscript w \<Rightarrow>
          (case opencode_record_tool_result \<S> tool_use_id output w p of (q, w', p') \<Rightarrow>
             ((case q of None \<Rightarrow> [] | Some x \<Rightarrow> task_use_event (ot_session_id w) x), OpenCodeTranscript w', p')))"

section \<open>What a transcript promises\<close>

text \<open>The interface of a transcript: its log only grows, by appending.\<close>

locale history =
  fixes act :: "'c \<Rightarrow> 's \<Rightarrow> 's" and log_of :: "'s \<Rightarrow> 'r list"
  assumes act_appends: "prefix (log_of s) (log_of (act c s))"
begin

lemma acts_append: "prefix (log_of s) (log_of (fold act cs s))"
proof (induction cs arbitrary: s)
  case (Cons c cs)
  show ?case using act_appends [of s c] Cons.IH [of "act c s"] by simp
qed simp

lemma entry_stays:
  assumes "i < length (log_of s)"
  shows "i < length (log_of (fold act cs s)) \<and> log_of (fold act cs s) ! i = log_of s ! i"
  using acts_append [of s cs] assms by (auto simp: prefix_def nth_append)

end

datatype transcript_call =
    RecordUser string
  | RecordResult run_result
  | RecordToolCall string payload
  | RecordToolResult string string

primrec transcript_act :: "'w system \<Rightarrow> transcript_call \<Rightarrow> transcript \<times> 'w process \<Rightarrow> transcript \<times> 'w process" where
  "transcript_act \<S> (RecordUser text) tp = (case tp of (t, p) \<Rightarrow> record_user \<S> text t p)"
| "transcript_act \<S> (RecordResult r) tp = (case tp of (t, p) \<Rightarrow> record_result \<S> r t p)"
| "transcript_act \<S> (RecordToolCall name i) tp = (case tp of (t, p) \<Rightarrow> snd (record_tool_call \<S> name i t p))"
| "transcript_act \<S> (RecordToolResult i output) tp = (case tp of (t, p) \<Rightarrow> snd (record_tool_result \<S> i output t p))"

text \<open>The log: the lines of the file for Claude Code, the ids of the messages for OpenCode.\<close>

definition transcript_log :: "transcript \<times> 'w process \<Rightarrow> (out_line + string) list" where
  "transcript_log tp =
     (case tp of (ClaudeTranscript w, p) \<Rightarrow> map Inl (lines_of (file_at p (ct_path w)))
      | (OpenCodeTranscript w, p) \<Rightarrow> map (Inr \<circ> ms_id) (ed_messages (ot_doc w)))"

lemma file_at_append [simp]:
  "lines_of (file_at (append_record path j p) path) = lines_of (file_at p path) @ [OutJson j]"
  by (simp add: append_record_def lines_of_def)

lemma file_at_ids [simp]: "file_at (p\<lparr>pr_ids := n\<rparr>) = file_at p"
  by (simp add: file_at_def fun_eq_iff)

lemma claude_append_lines:
  "\<exists>j. lines_of (file_at (claude_append \<S> k m x w p) (ct_path w)) = lines_of (file_at p (ct_path w)) @ [OutJson j]"
  by (auto simp: claude_append_def)

lemma claude_append_prefix:
  "prefix (lines_of (file_at p (ct_path w))) (lines_of (file_at (claude_append \<S> k m x w p) (ct_path w)))"
  using claude_append_lines [of \<S> k m x w p] by auto

lemma claude_append_prefix_ids:
  "prefix (lines_of (file_at p (ct_path w))) (lines_of (file_at (claude_append \<S> k m x w (p\<lparr>pr_ids := n\<rparr>)) (ct_path w)))"
  using claude_append_prefix [of "p\<lparr>pr_ids := n\<rparr>"] by simp

lemma add_part_id:
  assumes "add_part \<S> sid body m p = (m', p')"
  shows "ms_id m' = ms_id m"
  using assms by (auto simp: add_part_def split: prod.splits)

lemma assistant_turn_last:
  assumes "assistant_turn \<S> w p = (m, w', p')" and "ms_id m' = ms_id m"
  shows "prefix (map ms_id (ed_messages (ot_doc w))) (map ms_id (ed_messages (set_last_message m' (ot_doc w'))))"
proof (cases "ot_open w")
  case True
  with assms show ?thesis
    by (cases "ed_messages (ot_doc w)" rule: rev_cases) (auto simp: assistant_turn_def set_last_message_def)
next
  case False
  with assms show ?thesis
    by (auto simp: assistant_turn_def set_last_message_def push_message_def split: prod.splits)
qed

lemma update_last_ids:
  assumes "update_last f xs = Some (y, ys)" and "\<And>x b x'. f x = Some (b, x') \<Longrightarrow> g x' = g x"
  shows "map g ys = map g xs"
  using assms(1) by (induction xs arbitrary: y ys) (auto split: option.splits dest: assms(2))

lemma opencode_user_prefix:
  assumes "opencode_record_user \<S> text w p = (w', p')"
  shows "prefix (map ms_id (ed_messages (ot_doc w))) (map ms_id (ed_messages (ot_doc w')))"
  using assms by (auto simp: opencode_record_user_def push_message_def Let_def split: prod.splits)

lemma opencode_result_prefix:
  assumes "opencode_record_result \<S> r w p = (w', p')"
  shows "prefix (map ms_id (ed_messages (ot_doc w))) (map ms_id (ed_messages (ot_doc w')))"
  using assms
  by (auto simp: opencode_record_result_def Let_def dest!: add_part_id intro!: assistant_turn_last split: prod.splits)

lemma assistant_turn_prefix:
  assumes "assistant_turn \<S> w p = (m, w', p')"
  shows "prefix (map ms_id (ed_messages (ot_doc w))) (map ms_id (ed_messages (ot_doc w')))"
  using assms by (auto simp: assistant_turn_def push_message_def split: if_splits prod.splits)

lemma opencode_call_prefix:
  assumes "opencode_record_tool_call \<S> name i w p = (r, w', p')"
  shows "prefix (map ms_id (ed_messages (ot_doc w))) (map ms_id (ed_messages (ot_doc w')))"
proof -
  obtain m w1 p1 where turn: "assistant_turn \<S> w p = (m, w1, p1)" by (metis prod_cases3)
  from assms turn have "w' = w1 \<or> (\<exists>m'. ms_id m' = ms_id m \<and> ot_doc w' = set_last_message m' (ot_doc w1))"
    by (auto simp: opencode_record_tool_call_def Let_def dest: add_part_id split: prod.splits sum.splits if_splits)
  then show ?thesis using assistant_turn_prefix [OF turn] assistant_turn_last [OF turn] by auto
qed

lemma opencode_answer_ids:
  assumes "opencode_record_tool_result \<S> i output w p = (q, w', p')"
  shows "map ms_id (ed_messages (ot_doc w')) = map ms_id (ed_messages (ot_doc w))"
proof -
  have "ms_id m' = ms_id m" if "answer_message i output t m = Some (b, m')" for t m b m'
    using that by (auto simp: answer_message_def)
  then show ?thesis
    using assms
    by (auto simp: opencode_record_tool_result_def Let_def split: option.splits
        dest!: update_last_ids [where g = ms_id])
qed

lemma map_Inr_prefix:
  "prefix (map ms_id xs) (map ms_id ys) \<Longrightarrow> prefix (map (Inr \<circ> ms_id) xs) (map (Inr \<circ> ms_id) ys)"
  using map_mono_prefix [of "map ms_id xs" "map ms_id ys" Inr] by simp

lemma transcript_act_appends: "prefix (transcript_log tp) (transcript_log (transcript_act \<S> c tp))"
proof -
  obtain t p where tp: "tp = (t, p)" by (cases tp)
  show ?thesis
  proof (cases t)
    case (ClaudeTranscript w)
    have "prefix (lines_of (file_at p (ct_path w))) (lines_of (file_at (snd (transcript_act \<S> c tp)) (ct_path w)))
        \<and> fst (transcript_act \<S> c tp) = t"
      by (cases c) (simp_all add: tp ClaudeTranscript record_user_def claude_record_user_def record_result_def
          claude_record_result_def record_tool_call_def claude_record_tool_call_def record_tool_result_def
          claude_record_tool_result_def uuid_hex_def Let_def
          claude_append_prefix claude_append_prefix_ids)
    then show ?thesis
      by (cases "transcript_act \<S> c tp") (simp add: tp ClaudeTranscript transcript_log_def map_mono_prefix)
  next
    case (OpenCodeTranscript w)
    have "\<exists>w' p'. transcript_act \<S> c tp = (OpenCodeTranscript w', p')
        \<and> prefix (map ms_id (ed_messages (ot_doc w))) (map ms_id (ed_messages (ot_doc w')))"
      by (cases c)
        (auto simp: tp OpenCodeTranscript record_user_def record_result_def record_tool_call_def record_tool_result_def
          dest: opencode_user_prefix opencode_result_prefix opencode_call_prefix opencode_answer_ids split: prod.splits)
    then show ?thesis
      by (auto simp: tp OpenCodeTranscript transcript_log_def intro: map_Inr_prefix)
  qed
qed

interpretation tr: history "transcript_act \<S>" transcript_log for \<S>
  by unfold_locales (rule transcript_act_appends)

end
