(* ===== verification/Harness_Text.thy ===== *)
theory Harness_Text
  imports Prelude
begin

text \<open>
  How the mock harness tells the program in a prompt from the prose around it
  (\<^verbatim>\<open>harness/engine.py\<close>): the \<^verbatim>\<open><behavior-script>\<close> blocks, and the older positional split after the
  runner's facts table. The string operations of Python the two use come first:
  \<^verbatim>\<open>str.splitlines\<close> with every line boundary Python knows (the three outside ASCII by their
  UTF-8 bytes), \<^verbatim>\<open>textwrap.dedent\<close>, and the two regular expressions. The lemmas show that a prompt
  laid out from prose and blocks comes apart into exactly those, that a prompt with no delimiter
  line is left to the positional split, and which layouts are refused.
\<close>

section \<open>Lines\<close>

definition newline :: string where
  "newline = [CHR 0x0A]"

text \<open>The length of the line boundary a string starts with, 0 when it starts with none.\<close>

definition line_break :: "string \<Rightarrow> nat" where
  "line_break s =
     (if s = [] then 0
      else let n = (of_char (hd s) :: nat) in
        if n = 13 then (if take 1 (tl s) = newline then 2 else 1)
        else if n \<in> {10, 11, 12, 28, 29, 30} then 1
        else if take 2 s = [CHR 0xC2, CHR 0x85] then 2
        else if take 3 s = [CHR 0xE2, CHR 0x80, CHR 0xA8] \<or> take 3 s = [CHR 0xE2, CHR 0x80, CHR 0xA9] then 3
        else 0)"

function splitlines_from :: "string \<Rightarrow> string \<Rightarrow> string list" where
  "splitlines_from cur [] = (if cur = [] then [] else [rev cur])"
| "splitlines_from cur (c # cs) =
     (if line_break (c # cs) = 0 then splitlines_from (c # cur) cs
      else rev cur # splitlines_from [] (drop (line_break (c # cs) - 1) cs))"
  by pat_completeness auto
termination by (relation "measure (length \<circ> snd)") auto

definition splitlines :: "string \<Rightarrow> string list" where
  "splitlines s = splitlines_from [] s"

text \<open>A line as \<^verbatim>\<open>splitlines\<close> returns one: no boundary starts anywhere in it, or inside it once a
  newline follows.\<close>

fun unbroken :: "string \<Rightarrow> bool" where
  "unbroken [] \<longleftrightarrow> True"
| "unbroken (c # cs) \<longleftrightarrow> line_break (c # cs) = 0 \<and> line_break (c # cs @ newline) = 0 \<and> unbroken cs"

definition is_blank :: "char \<Rightarrow> bool" where
  "is_blank c \<longleftrightarrow> c = CHR '' '' \<or> c = CHR 0x09"

text \<open>\<^verbatim>\<open>str.lstrip()\<close> and \<^verbatim>\<open>str.lstrip("\n")\<close>.\<close>

definition lstrip :: "string \<Rightarrow> string" where
  "lstrip s = dropWhile is_space s"

definition lstrip_newlines :: "string \<Rightarrow> string" where
  "lstrip_newlines s = dropWhile (\<lambda>c. c = CHR 0x0A) s"

text \<open>\<^verbatim>\<open>textwrap.dedent\<close>: lines of blanks only become empty, the margin is the longest common
  start of the blanks that lead the other lines, and every line drops it.\<close>

fun common_prefix :: "string \<Rightarrow> string \<Rightarrow> string" where
  "common_prefix (x # xs) (y # ys) = (if x = y then x # common_prefix xs ys else [])"
| "common_prefix _ _ = []"

definition normal_blank :: "string \<Rightarrow> string" where
  "normal_blank l = (if list_all is_blank l then [] else l)"

definition indent_of :: "string \<Rightarrow> string" where
  "indent_of l = takeWhile is_blank l"

fun margin_of :: "string option \<Rightarrow> string list \<Rightarrow> string option" where
  "margin_of m [] = m"
| "margin_of m (l # ls) =
     (if l = [] then margin_of m ls
      else margin_of (Some (case m of None \<Rightarrow> indent_of l | Some k \<Rightarrow> common_prefix k (indent_of l))) ls)"

definition dedent_lines :: "string list \<Rightarrow> string list" where
  "dedent_lines ls =
     (let ns = map normal_blank ls
      in case margin_of None ns of None \<Rightarrow> ns | Some k \<Rightarrow> map (remove_prefix k) ns)"

definition dedent :: "string \<Rightarrow> string" where
  "dedent s = join newline (dedent_lines (split_on (CHR 0x0A) s))"

text \<open>\<^verbatim>\<open>re.sub(r"\n{3,}", "\n\n", s)\<close>: the count is of the newlines just kept.\<close>

fun squeeze_newlines :: "nat \<Rightarrow> string \<Rightarrow> string" where
  "squeeze_newlines k [] = []"
| "squeeze_newlines k (c # cs) =
     (if c = CHR 0x0A
      then (if k < 2 then c # squeeze_newlines (Suc k) cs else squeeze_newlines k cs)
      else c # squeeze_newlines 0 cs)"

section \<open>Behavior-script blocks\<close>

record tagged_prompt =
  tp_script :: string
  tp_prose :: string

definition BEHAVIOR_SCRIPT_OPEN :: string where
  "BEHAVIOR_SCRIPT_OPEN = ''<behavior-script>''"

definition BEHAVIOR_SCRIPT_CLOSE :: string where
  "BEHAVIOR_SCRIPT_CLOSE = ''</behavior-script>''"

text \<open>The tag alone on its line, spaces and tabs around it aside.\<close>

definition tag_line :: "string \<Rightarrow> string \<Rightarrow> bool" where
  "tag_line tag line \<longleftrightarrow> rev (dropWhile is_blank (rev (dropWhile is_blank line))) = tag"

definition open_tag :: "string \<Rightarrow> bool" where
  "open_tag line \<longleftrightarrow> tag_line BEHAVIOR_SCRIPT_OPEN line"

definition close_tag :: "string \<Rightarrow> bool" where
  "close_tag line \<longleftrightarrow> tag_line BEHAVIOR_SCRIPT_CLOSE line"

record scan =
  sc_blocks :: "string list"
  sc_prose :: "string list"
  sc_body :: "string list"
  sc_open :: "nat option"

definition nested_tag_text :: "nat \<Rightarrow> nat \<Rightarrow> string" where
  "nested_tag_text number opened =
     ''malformed behavior-script tags: a nested '' @ BEHAVIOR_SCRIPT_OPEN @ '' on line '' @ show_nat number
       @ '' inside the block opened on line '' @ show_nat opened @ '' '' @ em_dash @ '' blocks do not nest''"

definition stray_close_text :: "nat \<Rightarrow> string" where
  "stray_close_text number =
     ''unbalanced behavior-script tags: a '' @ BEHAVIOR_SCRIPT_CLOSE @ '' on line '' @ show_nat number
       @ '' with no opening '' @ BEHAVIOR_SCRIPT_OPEN"

definition unclosed_text :: "nat \<Rightarrow> string" where
  "unclosed_text opened =
     ''unbalanced behavior-script tags: the '' @ BEHAVIOR_SCRIPT_OPEN @ '' on line '' @ show_nat opened
       @ '' has no closing '' @ BEHAVIOR_SCRIPT_CLOSE"

definition empty_block_text :: string where
  "empty_block_text =
     ''empty behavior-script block: the '' @ BEHAVIOR_SCRIPT_OPEN @ '' block(s) enclose nothing to execute''"

text \<open>One line of the scan: \<open>Inl\<close> carries the text of the \<^verbatim>\<open>BehaviorScriptTagError\<close>.\<close>

definition scan_line :: "nat \<Rightarrow> string \<Rightarrow> scan \<Rightarrow> string + scan" where
  "scan_line number line s =
     (if open_tag line
      then (case sc_open s of
          Some opened \<Rightarrow> Inl (nested_tag_text number opened)
        | None \<Rightarrow> Inr (s\<lparr>sc_open := Some number, sc_body := []\<rparr>))
      else if close_tag line
      then (case sc_open s of
          None \<Rightarrow> Inl (stray_close_text number)
        | Some _ \<Rightarrow> Inr (s\<lparr>sc_blocks := sc_blocks s @ [dedent (join newline (sc_body s))], sc_open := None\<rparr>))
      else (case sc_open s of
          None \<Rightarrow> Inr (s\<lparr>sc_prose := sc_prose s @ [line]\<rparr>)
        | Some _ \<Rightarrow> Inr (s\<lparr>sc_body := sc_body s @ [line]\<rparr>)))"

fun scan_lines :: "nat \<Rightarrow> string list \<Rightarrow> scan \<Rightarrow> string + scan" where
  "scan_lines number [] s = Inr s"
| "scan_lines number (l # ls) s =
     (case scan_line number l s of Inl e \<Rightarrow> Inl e | Inr t \<Rightarrow> scan_lines (Suc number) ls t)"

definition scan_start :: scan where
  "scan_start = \<lparr>sc_blocks = [], sc_prose = [], sc_body = [], sc_open = None\<rparr>"

definition scan_end :: "scan \<Rightarrow> string + tagged_prompt option" where
  "scan_end s =
     (case sc_open s of
        Some opened \<Rightarrow> Inl (unclosed_text opened)
      | None \<Rightarrow>
          if sc_blocks s = [] then Inr None
          else let script = join newline (sc_blocks s)
            in if strip script = [] then Inl empty_block_text
               else Inr (Some \<lparr>tp_script = script,
                               tp_prose = strip (squeeze_newlines 0 (join newline (sc_prose s)))\<rparr>))"

definition split_behavior_script :: "string \<Rightarrow> string + tagged_prompt option" where
  "split_behavior_script prompt =
     (case scan_lines 1 (splitlines prompt) scan_start of Inl e \<Rightarrow> Inl e | Inr s \<Rightarrow> scan_end s)"

section \<open>The facts table of the runner's preamble\<close>

definition PREAMBLE_TABLE_HEADER :: string where
  "PREAMBLE_TABLE_HEADER = ''| Field | Value |''"

definition table_row :: "string \<Rightarrow> bool" where
  "table_row line \<longleftrightarrow> starts_with ''|'' (lstrip line)"

definition table_header :: "string \<Rightarrow> bool" where
  "table_header line \<longleftrightarrow> strip line = PREAMBLE_TABLE_HEADER"

text \<open>The lines up to and with the last row of the table, and the lines after it; none where no line
  is the header.\<close>

definition split_at_table :: "string list \<Rightarrow> (string list \<times> string list) option" where
  "split_at_table ls =
     (case dropWhile (\<lambda>l. \<not> table_header l) ls of
        [] \<Rightarrow> None
      | h # after \<Rightarrow> Some (takeWhile (\<lambda>l. \<not> table_header l) ls @ h # takeWhile table_row after,
                         dropWhile table_row after))"

definition split_worker_preamble :: "string \<Rightarrow> string \<times> string" where
  "split_worker_preamble prompt =
     (case split_at_table (splitlines prompt) of
        None \<Rightarrow> ([], prompt)
      | Some (front, after) \<Rightarrow> (join newline front, lstrip_newlines (join newline after)))"

section \<open>Lemmas on lines\<close>

lemma line_break_append_newline:
  assumes "line_break (c # cs) = 0"
  shows "line_break (c # cs @ newline @ r) = line_break (c # cs @ newline)"
  using assms
  by (cases cs; cases "tl cs"; cases "tl (tl cs)") (auto simp: line_break_def newline_def Let_def split: if_splits)

lemma splitlines_from_unbroken:
  assumes "unbroken l"
  shows "splitlines_from cur (l @ newline @ s) = (rev cur @ l) # splitlines_from [] s"
  using assms
proof (induction l arbitrary: cur)
  case Nil
  show ?case by (simp add: newline_def line_break_def)
next
  case (Cons c cs)
  then have "line_break (c # cs @ newline @ s) = 0"
    by (simp add: line_break_append_newline)
  with Cons show ?case by simp
qed

lemma splitlines_from_last:
  assumes "unbroken l"
  shows "splitlines_from cur l = (if cur = [] \<and> l = [] then [] else [rev cur @ l])"
  using assms by (induction l arbitrary: cur) auto

text \<open>Unbroken lines, each ended by a newline, come back as they are.\<close>

lemma splitlines_lines:
  assumes "list_all unbroken ls"
  shows "splitlines (concat (map (\<lambda>l. l @ newline) ls)) = ls"
  using assms by (induction ls) (simp_all add: splitlines_def splitlines_from_unbroken)

lemma splitlines_join:
  assumes "list_all unbroken ls" and "ls \<noteq> [] \<Longrightarrow> last ls \<noteq> []"
  shows "splitlines (join newline ls) = ls"
  using assms
proof (induction newline ls rule: join.induct)
  case (2 x)
  then show ?case by (simp add: splitlines_def splitlines_from_last)
next
  case (3 x y xs)
  then show ?case by (simp add: splitlines_def splitlines_from_unbroken)
qed (simp add: splitlines_def)

section \<open>Layouts\<close>

text \<open>What an author lays out: lines of prose, and blocks between two delimiter lines.\<close>

datatype segment = Prose "string list" | Block string "string list" string

definition plain_line :: "string \<Rightarrow> bool" where
  "plain_line l \<longleftrightarrow> \<not> open_tag l \<and> \<not> close_tag l"

fun segment_ok :: "segment \<Rightarrow> bool" where
  "segment_ok (Prose ls) \<longleftrightarrow> list_all plain_line ls"
| "segment_ok (Block a ls z) \<longleftrightarrow> open_tag a \<and> list_all plain_line ls \<and> close_tag z"

fun segment_lines :: "segment \<Rightarrow> string list" where
  "segment_lines (Prose ls) = ls"
| "segment_lines (Block a ls z) = a # ls @ [z]"

fun segment_script :: "segment \<Rightarrow> string list" where
  "segment_script (Prose ls) = []"
| "segment_script (Block a ls z) = [dedent (join newline ls)]"

fun segment_prose :: "segment \<Rightarrow> string list" where
  "segment_prose (Prose ls) = ls"
| "segment_prose (Block a ls z) = []"

abbreviation layout_lines :: "segment list \<Rightarrow> string list" where
  "layout_lines segs \<equiv> concat (map segment_lines segs)"

text \<open>The prompt text of a list of lines, and what the two halves of a layout are.\<close>

definition prompt_text :: "string list \<Rightarrow> string" where
  "prompt_text ls = concat (map (\<lambda>l. l @ newline) ls)"

definition layout_result :: "segment list \<Rightarrow> string + tagged_prompt option" where
  "layout_result segs =
     (let blocks = concat (map segment_script segs); prose = concat (map segment_prose segs)
      in if blocks = [] then Inr None
         else if strip (join newline blocks) = [] then Inl empty_block_text
         else Inr (Some \<lparr>tp_script = join newline blocks,
                         tp_prose = strip (squeeze_newlines 0 (join newline prose))\<rparr>))"

lemma open_not_close: "open_tag l \<Longrightarrow> \<not> close_tag l"
  by (auto simp: open_tag_def close_tag_def tag_line_def BEHAVIOR_SCRIPT_OPEN_def BEHAVIOR_SCRIPT_CLOSE_def)

lemma scan_lines_append:
  "scan_lines n (xs @ ys) s =
     (case scan_lines n xs s of Inl e \<Rightarrow> Inl e | Inr t \<Rightarrow> scan_lines (n + length xs) ys t)"
  by (induction xs arbitrary: n s) (auto split: sum.split)

lemma scan_lines_prose:
  assumes "list_all plain_line ls" and "sc_open s = None"
  shows "scan_lines n ls s = Inr (s\<lparr>sc_prose := sc_prose s @ ls\<rparr>)"
  using assms by (induction ls arbitrary: n s) (auto simp: scan_line_def plain_line_def)

lemma scan_lines_body:
  assumes "list_all plain_line ls" and "sc_open s = Some k"
  shows "scan_lines n ls s = Inr (s\<lparr>sc_body := sc_body s @ ls\<rparr>)"
  using assms by (induction ls arbitrary: n s) (auto simp: scan_line_def plain_line_def)

lemma scan_segment:
  assumes "segment_ok g" and "sc_open s = None"
  obtains b where "scan_lines n (segment_lines g) s =
    Inr (s\<lparr>sc_blocks := sc_blocks s @ segment_script g, sc_prose := sc_prose s @ segment_prose g, sc_body := b\<rparr>)"
proof (cases g)
  case (Prose ls)
  with assms that [of "sc_body s"] show ?thesis by (simp add: scan_lines_prose)
next
  case (Block a ls z)
  with assms have tags: "open_tag a" "close_tag z" "\<not> open_tag z" and ls: "list_all plain_line ls"
    using open_not_close by auto
  show ?thesis
    using that [of ls] Block assms(2) tags
    by (cases s) (simp add: scan_line_def scan_lines_append scan_lines_body [OF ls])
qed

lemma scan_layout:
  assumes "list_all segment_ok segs" and "sc_open s = None"
  shows "\<exists>b. scan_lines n (layout_lines segs) s =
    Inr (s\<lparr>sc_blocks := sc_blocks s @ concat (map segment_script segs),
           sc_prose := sc_prose s @ concat (map segment_prose segs), sc_body := b\<rparr>)"
  using assms
proof (induction segs arbitrary: n s)
  case Nil
  show ?case by (auto intro: exI [of _ "sc_body s"])
next
  case (Cons g segs)
  obtain b where b: "scan_lines n (segment_lines g) s =
      Inr (s\<lparr>sc_blocks := sc_blocks s @ segment_script g, sc_prose := sc_prose s @ segment_prose g, sc_body := b\<rparr>)"
    using Cons.prems scan_segment by (metis list.pred_inject(2))
  from Cons.IH [of "s\<lparr>sc_blocks := sc_blocks s @ segment_script g,
      sc_prose := sc_prose s @ segment_prose g, sc_body := b\<rparr>" "n + length (segment_lines g)"] Cons.prems
  show ?case by (simp add: scan_lines_append b)
qed

text \<open>Conversely, a scan that ends with every block closed has read a layout.\<close>

lemma scan_is_layout:
  assumes "scan_lines n ls s = Inr t" and "sc_open t = None"
  shows "(sc_open s = None \<longrightarrow> (\<exists>segs. list_all segment_ok segs \<and> layout_lines segs = ls)) \<and>
    (sc_open s \<noteq> None \<longrightarrow> (\<exists>body z segs. list_all plain_line body \<and> close_tag z \<and> list_all segment_ok segs
        \<and> ls = body @ z # layout_lines segs))"
  using assms
proof (induction ls arbitrary: n s)
  case Nil
  then show ?case by (auto intro: exI [of _ "[]"])
next
  case (Cons l ls)
  then obtain u where u: "scan_line n l s = Inr u" and rest: "scan_lines (Suc n) ls u = Inr t"
    by (auto split: sum.splits)
  note ih = Cons.IH [OF rest Cons.prems(2)]
  show ?case
  proof (cases "sc_open s")
    case None
    with u consider "open_tag l" "sc_open u \<noteq> None" | "plain_line l" "sc_open u = None"
      by (auto simp: scan_line_def plain_line_def split: if_splits)
    then show ?thesis
    proof cases
      case 1
      with ih obtain body z segs where "list_all plain_line body" "close_tag z" "list_all segment_ok segs"
          "ls = body @ z # layout_lines segs" by auto
      with 1 None show ?thesis by (auto intro!: exI [of _ "Block l body z # segs"])
    next
      case 2
      with ih obtain segs where "list_all segment_ok segs" "layout_lines segs = ls" by auto
      with 2 None show ?thesis by (auto intro!: exI [of _ "Prose [l] # segs"])
    qed
  next
    case (Some k)
    with u consider "close_tag l" "sc_open u = None" | "plain_line l" "sc_open u \<noteq> None"
      by (auto simp: scan_line_def plain_line_def split: if_splits)
    then show ?thesis
    proof cases
      case 1
      with ih obtain segs where "list_all segment_ok segs" "layout_lines segs = ls" by auto
      with 1 Some show ?thesis by (auto intro!: exI [of _ "[]"] exI [of _ l] exI [of _ segs])
    next
      case 2
      with ih obtain body z segs where "list_all plain_line body" "close_tag z" "list_all segment_ok segs"
          "ls = body @ z # layout_lines segs" by auto
      with 2 Some show ?thesis by (auto intro!: exI [of _ "l # body"] exI [of _ z] exI [of _ segs])
    qed
  qed
qed

lemma split_layout:
  assumes "list_all segment_ok segs" and "splitlines prompt = layout_lines segs"
  shows "split_behavior_script prompt = layout_result segs"
proof -
  have "sc_open scan_start = None" by (simp add: scan_start_def)
  from scan_layout [OF assms(1) this, of 1] assms(2) show ?thesis
    by (auto simp: split_behavior_script_def layout_result_def scan_end_def scan_start_def Let_def)
qed

text \<open>A prompt is either a layout, and then its two halves are those of the layout, or it is refused
  for its delimiter lines.\<close>

lemma split_behavior_script_cases:
  "(\<exists>segs. list_all segment_ok segs \<and> splitlines prompt = layout_lines segs
      \<and> split_behavior_script prompt = layout_result segs) \<or>
   (\<forall>segs. list_all segment_ok segs \<longrightarrow> splitlines prompt \<noteq> layout_lines segs)
      \<and> (\<exists>e. split_behavior_script prompt = Inl e)"
proof (cases "\<exists>segs. list_all segment_ok segs \<and> splitlines prompt = layout_lines segs")
  case True
  then show ?thesis using split_layout by blast
next
  case False
  have "\<exists>e. split_behavior_script prompt = Inl e"
  proof (rule ccontr)
    assume "\<nexists>e. split_behavior_script prompt = Inl e"
    then obtain t where t: "scan_lines 1 (splitlines prompt) scan_start = Inr t" and "sc_open t = None"
      by (auto simp: split_behavior_script_def scan_end_def split: sum.splits option.splits)
    with scan_is_layout [OF t] False show False by (auto simp: scan_start_def)
  qed
  with False show ?thesis by blast
qed

lemma no_delimiter_no_block:
  assumes "list_all plain_line (splitlines prompt)"
  shows "split_behavior_script prompt = Inr None"
  using split_layout [of "[Prose (splitlines prompt)]" prompt] assms by (simp add: layout_result_def)

text \<open>The positional split loses no line: the two parts, put together, are the lines of the prompt,
  the table is the first one, and the script does not start with a row.\<close>

lemma split_at_table_parts:
  assumes "split_at_table ls = Some (front, after)"
  shows "front @ after = ls" and "\<exists>l \<in> set front. table_header l" and "after \<noteq> [] \<Longrightarrow> \<not> table_row (hd after)"
proof -
  from assms obtain h rest where h: "dropWhile (\<lambda>l. \<not> table_header l) ls = h # rest"
      and b: "front = takeWhile (\<lambda>l. \<not> table_header l) ls @ h # takeWhile table_row rest"
      and a: "after = dropWhile table_row rest"
    by (auto simp: split_at_table_def split: list.splits)
  have "takeWhile (\<lambda>l. \<not> table_header l) ls @ h # rest = ls"
    by (metis h takeWhile_dropWhile_id)
  then show "front @ after = ls" by (simp add: a b)
  have "table_header h" using hd_dropWhile [of "\<lambda>l. \<not> table_header l" ls] h by force
  then show "\<exists>l \<in> set front. table_header l" by (simp add: b)
  show "after \<noteq> [] \<Longrightarrow> \<not> table_row (hd after)" using hd_dropWhile [of table_row rest] a by simp
qed

lemma split_at_table_none: "split_at_table ls = None \<longleftrightarrow> (\<forall>l \<in> set ls. \<not> table_header l)"
proof -
  have "split_at_table ls = None \<longleftrightarrow> dropWhile (\<lambda>l. \<not> table_header l) ls = []"
    by (cases "dropWhile (\<lambda>l. \<not> table_header l) ls")
      (simp_all add: split_at_table_def del: dropWhile_eq_Nil_conv)
  then show ?thesis by (simp add: dropWhile_eq_Nil_conv)
qed

end
