(* ===== verification/Harness_Helpers.thy ===== *)
theory Harness_Helpers
  imports Harness_Transcripts Harness_Text
begin

text \<open>
  What a running behavior script can do (\<^verbatim>\<open>harness/helpers.py\<close>, \<^verbatim>\<open>harness/internal/git.py\<close>,
  \<^verbatim>\<open>harness/facades/_hooks.py\<close> and the run context of \<^verbatim>\<open>engine.py\<close>). The script itself is any
  \<open>program\<close>: a tree of helper calls, each with a continuation for every reply, so that a script may
  catch what a helper raises; between the calls it may do whatever Python does: print, write any file,
  change the world outside, and alter the live context and session the helpers hand it. The lemmas show
  what a script that keeps to the helpers and to its own files (\<open>orderly\<close>) cannot change: the turn it is
  counted as, the flags it was launched with, the message it was resumed with, the questions and verdicts
  already recorded, and what has been printed.
\<close>

section \<open>Hooks\<close>

fun obj_field :: "string \<Rightarrow> json \<Rightarrow> json option" where
  "obj_field k (JObj kvs) = dget kvs k"
| "obj_field k _ = None"

fun list_items :: "json option \<Rightarrow> json list" where
  "list_items (Some (JList xs)) = xs"
| "list_items _ = []"

definition hook_command :: "json \<Rightarrow> string list" where
  "hook_command entry =
     (if obj_field ''type'' entry = Some (JStr ''command'')
      then (case obj_field ''command'' entry of
          Some (JStr c) \<Rightarrow> if strip c \<noteq> [] then [c] else [] | _ \<Rightarrow> [])
      else [])"

definition hook_commands :: "json \<Rightarrow> string \<Rightarrow> string list" where
  "hook_commands document event =
     (case obj_field ''hooks'' document of
        None \<Rightarrow> []
      | Some hooks \<Rightarrow>
          concat (map (\<lambda>matcher. concat (map hook_command (list_items (obj_field ''hooks'' matcher))))
            (list_items (obj_field event hooks))))"

text \<open>The settings document: an empty one where the file is missing or holds no JSON object.\<close>

definition read_document :: "ppath \<Rightarrow> 'w process \<Rightarrow> json" where
  "read_document path p = (case file_at p path of Some (Document (JObj kvs)) \<Rightarrow> JObj kvs | _ \<Rightarrow> JObj [])"

record hook_runner =
  hk_post_tool_use :: "string list"
  hk_session_end :: "string list"
  hk_cwd :: ppath
  hk_env :: environ
  hk_session_id :: string
  hk_transcript_path :: "ppath option"

definition build_hook_runner :: "string option \<Rightarrow> ppath \<Rightarrow> environ \<Rightarrow> string option \<Rightarrow> ppath option \<Rightarrow> 'w process
    \<Rightarrow> hook_runner option" where
  "build_hook_runner settings_path cwd env sid transcript_path p =
     (case settings_path of
        None \<Rightarrow> None
      | Some path \<Rightarrow>
          if path = [] then None
          else let document = read_document (parse_path path) p;
                   runner = \<lparr>hk_post_tool_use = hook_commands document ''PostToolUse'',
                     hk_session_end = hook_commands document ''SessionEnd'', hk_cwd = cwd, hk_env = env,
                     hk_session_id = str_or sid [], hk_transcript_path = transcript_path\<rparr>
               in if hk_post_tool_use runner = [] \<and> hk_session_end runner = [] then None else Some runner)"

definition hook_payload :: "string \<Rightarrow> string \<Rightarrow> hook_runner \<Rightarrow> payload" where
  "hook_payload event sid h =
     [(''hook_event_name'', JStr event), (''session_id'', JStr sid), (''cwd'', JStr (path_str (hk_cwd h)))]
     @ (case hk_transcript_path h of None \<Rightarrow> [] | Some t \<Rightarrow> [(''transcript_path'', JStr (path_str t))])"

text \<open>Every command runs to its end or its timeout; however it ended, the turn goes on.\<close>

fun fire_hooks :: "'w system \<Rightarrow> hook_runner \<Rightarrow> json \<Rightarrow> string list \<Rightarrow> 'w process \<Rightarrow> 'w process" where
  "fire_hooks \<S> h body [] p = p"
| "fire_hooks \<S> h body (command # commands) p =
     fire_hooks \<S> h body commands
       (snd (run_subprocess \<S> \<lparr>pc_args = [command], pc_shell = True, pc_cwd = hk_cwd h, pc_env = hk_env h,
                               pc_input = JsonInput body\<rparr> p))"

definition on_tool_use :: "'w system \<Rightarrow> string \<Rightarrow> payload \<Rightarrow> string \<Rightarrow> hook_runner \<Rightarrow> 'w process \<Rightarrow> 'w process" where
  "on_tool_use \<S> name tool_input tool_output h p =
     fire_hooks \<S> h
       (JObj (hook_payload ''PostToolUse'' (hk_session_id h) h
          @ [(''tool_name'', JStr name), (''tool_input'', JObj tool_input), (''tool_response'', JStr tool_output)]))
       (hk_post_tool_use h) p"

definition on_session_end :: "'w system \<Rightarrow> run_result \<Rightarrow> hook_runner \<Rightarrow> 'w process \<Rightarrow> 'w process" where
  "on_session_end \<S> r h p =
     fire_hooks \<S> h (JObj (hook_payload ''SessionEnd'' (rr_session_id r) h @ [(''reason'', JStr ''other'')]))
       (hk_session_end h) p"

section \<open>The run context and scripts\<close>

record run_context =
  cx_session :: session_state
  cx_wire :: wire
  cx_cwd :: ppath
  cx_env :: environ
  cx_store :: ppath
  cx_is_resume :: bool
  cx_resume_message :: "string option"
  cx_ask_cmd :: "string list option"
  cx_result :: "run_result option"
  cx_transcript :: "transcript option"
  cx_hooks :: "hook_runner option"

datatype helper_call =
    Ask string "string list"
  | ApplyDiff string
  | Commit string
  | ToolCall string payload string
  | Verdict string string
  | Hang
  | Crash bool
  | State
  | Answer
  | PermissionDenial string "string list" "string option"
  | InterruptTool string payload string "string option"
  | MalformedRecord "string option"
  | UsageLimited string
  | UsageLimitError "string option"

datatype helper_reply =
    Returned
  | ReturnedStr string
  | ReturnedState session_state
  | ReturnedAnswer "string option"
  | Raised pyexn

datatype helper_end = Reply helper_reply | Dies int | Blocks

text \<open>A raw step stands for the Python between two helper calls. It acts on the context and the process as it
  likes, and the script goes on by what the step found, given as a text.\<close>

datatype 'w program =
    Done
  | Raise pyexn
  | Die int
  | Raw "run_context \<times> 'w process \<Rightarrow> string \<times> run_context \<times> 'w process" "string \<Rightarrow> 'w program"
  | Call helper_call "helper_reply \<Rightarrow> 'w program"

section \<open>Git\<close>

definition command_missing :: "string \<Rightarrow> pyexn" where
  "command_missing command = PyExn ''FileNotFoundError'' (''[Errno 2] No such file or directory: '' @ py_repr command)"

definition git_run :: "'w system \<Rightarrow> string list \<Rightarrow> ppath \<Rightarrow> environ \<Rightarrow> stdin \<Rightarrow> 'w process
    \<Rightarrow> (pyexn + string) \<times> 'w process" where
  "git_run \<S> args cwd env input p =
     (case run_subprocess \<S> \<lparr>pc_args = ''git'' # args, pc_shell = False, pc_cwd = cwd, pc_env = env, pc_input = input\<rparr> p of
        (Exited code out err, p') \<Rightarrow>
          (if code \<noteq> 0
           then Inl (PyExn ''GitError'' (''git '' @ join '' '' args @ '' failed ('' @ show_int code @ ''): '' @ strip err))
           else Inr out, p')
      | (_, p') \<Rightarrow> (Inl (command_missing ''git''), p'))"

definition git_apply_diff :: "'w system \<Rightarrow> string \<Rightarrow> ppath \<Rightarrow> environ \<Rightarrow> 'w process \<Rightarrow> (pyexn + string) \<times> 'w process" where
  "git_apply_diff \<S> diff cwd env p =
     git_run \<S> [''apply'', ''--whitespace=nowarn'', ''-''] cwd env
       (TextInput (if diff \<noteq> [] \<and> last diff = CHR 0x0A then diff else diff @ newline)) p"

definition commit_env :: "environ \<Rightarrow> environ" where
  "commit_env env =
     fold (\<lambda>(k, v). dset k v) env
       [(''GIT_AUTHOR_NAME'', ''Mock Harness''), (''GIT_AUTHOR_EMAIL'', ''mock-harness@blizzard.invalid''),
        (''GIT_COMMITTER_NAME'', ''Mock Harness''), (''GIT_COMMITTER_EMAIL'', ''mock-harness@blizzard.invalid'')]"

definition git_commit :: "'w system \<Rightarrow> string \<Rightarrow> ppath \<Rightarrow> environ \<Rightarrow> 'w process \<Rightarrow> (pyexn + string) \<times> 'w process" where
  "git_commit \<S> message cwd env p =
     (case git_run \<S> [''add'', ''-A''] cwd (commit_env env) NoInput p of
        (Inl e, p1) \<Rightarrow> (Inl e, p1)
      | (Inr _, p1) \<Rightarrow>
          (case git_run \<S> [''commit'', ''-m'', message] cwd (commit_env env) NoInput p1 of
             (Inl e, p2) \<Rightarrow> (Inl e, p2)
           | (Inr _, p2) \<Rightarrow>
               (case git_run \<S> [''rev-parse'', ''HEAD''] cwd (commit_env env) NoInput p2 of
                  (Inl e, p3) \<Rightarrow> (Inl e, p3) | (Inr out, p3) \<Rightarrow> (Inr (strip out), p3))))"

section \<open>Helpers\<close>

type_synonym 'w helper = "run_context \<Rightarrow> 'w process \<Rightarrow> helper_end \<times> run_context \<times> 'w process"

definition stage_lines :: "out_line list \<Rightarrow> run_context \<Rightarrow> run_context" where
  "stage_lines ls c =
     (case cx_wire c of
        OpenCodeRunWire w \<Rightarrow> c\<lparr>cx_wire := OpenCodeRunWire (w\<lparr>ow_events := ow_events w @ ls\<rparr>)\<rparr>
      | _ \<Rightarrow> c)"

text \<open>The transcript pair, where a writer is wired, then the hooks; \<open>Inl\<close> is what the writer raised.\<close>

definition record_pair :: "'w system \<Rightarrow> string \<Rightarrow> payload \<Rightarrow> string \<Rightarrow> run_context \<Rightarrow> 'w process
    \<Rightarrow> pyexn option \<times> run_context \<times> 'w process" where
  "record_pair \<S> name tool_input output c p =
     (case cx_transcript c of
        None \<Rightarrow> (None, c, p)
      | Some t \<Rightarrow>
          (case record_tool_call \<S> name tool_input t p of
             (Inl e, t1, p1) \<Rightarrow> (Some e, c\<lparr>cx_transcript := Some t1\<rparr>, p1)
           | (Inr tool_use_id, t1, p1) \<Rightarrow>
               (case record_tool_result \<S> tool_use_id output t1 p1 of (staged, t2, p2) \<Rightarrow>
                  (None, stage_lines staged (c\<lparr>cx_transcript := Some t2\<rparr>), p2))))"

definition record_tool_turn :: "'w system \<Rightarrow> string \<Rightarrow> payload \<Rightarrow> string \<Rightarrow> helper_reply \<Rightarrow> 'w helper" where
  "record_tool_turn \<S> name tool_input output r c p =
     (case record_pair \<S> name tool_input output c p of
        (Some e, c1, p1) \<Rightarrow> (Reply (Raised e), c1, p1)
      | (None, c1, p1) \<Rightarrow>
          (Reply r, c1, (case cx_hooks c of None \<Rightarrow> p1 | Some h \<Rightarrow> on_tool_use \<S> name tool_input output h p1)))"

definition ask_args :: "string list \<Rightarrow> string \<Rightarrow> string list \<Rightarrow> string list" where
  "ask_args cmd question opts = cmd @ [question] @ (if opts = [] then [] else [''--options'', join ''|'' opts])"

definition finish_ask :: "ask \<Rightarrow> 'w helper" where
  "finish_ask a c p =
     (Reply (Raised (AskExit a)),
      c\<lparr>cx_result := Some ((run_result (ss_session_id (cx_session c)) ''ask'' (ak_question a))\<lparr>rr_ask := Some a\<rparr>)\<rparr>, p)"

definition helper_ask :: "'w system \<Rightarrow> string \<Rightarrow> string list \<Rightarrow> 'w helper" where
  "helper_ask \<S> question opts c p =
     (let a = \<lparr>ak_question = question, ak_options = opts, ak_asked_at = sy_time \<S> (pr_world p)\<rparr>;
          c1 = c\<lparr>cx_session := (cx_session c)\<lparr>ss_asks := ss_asks (cx_session c) @ [a]\<rparr>\<rparr>
      in case cx_ask_cmd c of
           Some (cmd # rest) \<Rightarrow>
             (case run_subprocess \<S> \<lparr>pc_args = ask_args (cmd # rest) question opts, pc_shell = False, pc_cwd = cx_cwd c,
                                     pc_env = cx_env c, pc_input = NoInput\<rparr> p of
                (NotStarted, p1) \<Rightarrow> (Reply (Raised (command_missing cmd)), c1, p1)
              | (_, p1) \<Rightarrow> finish_ask a c1 p1)
         | _ \<Rightarrow> finish_ask a c1 p)"

definition helper_apply_diff :: "'w system \<Rightarrow> string \<Rightarrow> 'w helper" where
  "helper_apply_diff \<S> diff c p =
     (case git_apply_diff \<S> diff (cx_cwd c) (cx_env c) p of
        (Inl e, p1) \<Rightarrow> (Reply (Raised e), c, p1)
      | (Inr _, p1) \<Rightarrow> record_tool_turn \<S> ''Edit'' [(''diff'', JStr diff)] ''diff applied'' Returned c p1)"

definition helper_commit :: "'w system \<Rightarrow> string \<Rightarrow> 'w helper" where
  "helper_commit \<S> message c p =
     (case git_commit \<S> message (cx_cwd c) (cx_env c) p of
        (Inl e, p1) \<Rightarrow> (Reply (Raised e), c, p1)
      | (Inr sha, p1) \<Rightarrow>
          record_tool_turn \<S> ''Bash'' [(''command'', JStr (''git commit -am '' @ py_repr message))]
            (''[main '' @ take 7 sha @ ''] '' @ message) (ReturnedStr sha) c p1)"

definition verdict_text :: "string \<Rightarrow> string \<Rightarrow> string" where
  "verdict_text choice assessment =
     ''<Choice>'' @ choice @ ''</Choice>'' @ (if assessment = [] then [] else newline @ assessment)"

definition helper_verdict :: "string \<Rightarrow> string \<Rightarrow> 'w helper" where
  "helper_verdict choice assessment c p =
     (Reply Returned,
      c\<lparr>cx_session := (cx_session c)\<lparr>ss_verdicts := ss_verdicts (cx_session c) @ [choice]\<rparr>,
        cx_result := Some (run_result (ss_session_id (cx_session c)) ''success'' (verdict_text choice assessment))\<rparr>, p)"

text \<open>\<^verbatim>\<open>hang\<close> sleeps until a signal: an interrupt comes back as an exception, any other kills.\<close>

definition helper_hang :: "'w system \<Rightarrow> 'w helper" where
  "helper_hang \<S> c p =
     (case sy_signal \<S> (pr_world p) of
        None \<Rightarrow> (Blocks, c, p)
      | Some SIGINT \<Rightarrow> (Reply (Raised KeyboardInterrupt), c, p)
      | Some (OtherSignal n) \<Rightarrow> (Dies (128 + n), c, p))"

definition helper_crash :: "bool \<Rightarrow> 'w helper" where
  "helper_crash hard c p =
     (if hard then Dies 137 else Reply (Raised (HarnessCrash ''behavior script called crash()'')), c, p)"

section \<open>Misbehaviour on the wire\<close>

fun wire_name :: "wire \<Rightarrow> string" where
  "wire_name PlainTextWire = ''PlainTextWire''"
| "wire_name (ClaudeCodeWire _) = ''ClaudeCodeWire''"
| "wire_name (CodexJsonlWire _) = ''CodexJsonlWire''"
| "wire_name (OpenCodeRunWire _) = ''OpenCodeRunWire''"

fun carries_opencode_wire_events :: "wire \<Rightarrow> bool" where
  "carries_opencode_wire_events (OpenCodeRunWire _) = True"
| "carries_opencode_wire_events _ = False"

definition opencode_only :: "string \<Rightarrow> wire \<Rightarrow> pyexn" where
  "opencode_only helper w =
     PyExn ''RuntimeError'' (helper @ ''() is OpenCode-only '' @ em_dash @ '' '' @ wire_name w
       @ '' has no JSONL event stream to carry it'')"

text \<open>A line staged on the wire; the line may draw ids, which it does only past the check.\<close>

definition stage_event :: "string \<Rightarrow> ('w process \<Rightarrow> out_line \<times> 'w process) \<Rightarrow> 'w helper" where
  "stage_event helper line c p =
     (if carries_opencode_wire_events (cx_wire c)
      then (case line p of (l, p1) \<Rightarrow> (Reply Returned, stage_lines [l] c, p1))
      else (Reply (Raised (opencode_only helper (cx_wire c))), c, p))"

definition id_or :: "'w system \<Rightarrow> string option \<Rightarrow> string \<Rightarrow> 'w process \<Rightarrow> string \<times> 'w process" where
  "id_or \<S> given pre p = (if truthy given then (the given, p) else new_id \<S> pre p)"

definition permission_event :: "'w system \<Rightarrow> string \<Rightarrow> string \<Rightarrow> string list \<Rightarrow> string option \<Rightarrow> 'w process
    \<Rightarrow> out_line \<times> 'w process" where
  "permission_event \<S> sid name patterns permission_id p =
     (case id_or \<S> permission_id ''perm'' p of (i, p1) \<Rightarrow>
        (OutJson (JObj [(''type'', JStr ''permission''), (''sessionID'', JStr sid),
           (''permission'', JObj [(''id'', JStr i), (''permission'', JStr name),
              (''patterns'', JList (map JStr (if patterns = [] then [''*''] else patterns)))])]), p1))"

definition interrupted_tool_event :: "'w system \<Rightarrow> string \<Rightarrow> string \<Rightarrow> payload \<Rightarrow> string \<Rightarrow> string option \<Rightarrow> 'w process
    \<Rightarrow> out_line \<times> 'w process" where
  "interrupted_tool_event \<S> sid name tool_input err call_id p =
     (case new_id \<S> ''prt'' p of (pid, p1) \<Rightarrow>
      case new_id \<S> ''msg'' p1 of (mid, p2) \<Rightarrow>
      case id_or \<S> call_id ''call'' p2 of (cid, p3) \<Rightarrow>
        (OutJson (oc_event ''tool_use'' ''tool'' sid mid pid
           [(''callID'', JStr cid), (''tool'', JStr name),
            (''state'', JObj [(''status'', JStr ''error''), (''input'', JObj tool_input), (''output'', JNull),
                            (''error'', JStr err), (''title'', JNull)])]), p3))"

definition malformed_default :: string where
  "malformed_default = ''{'' @ [CHR 0x22] @ ''type'' @ [CHR 0x22] @ '': '' @ [CHR 0x22] @ ''tool_use'' @ [CHR 0x22]
     @ '', '' @ [CHR 0x22] @ ''sessionID'' @ [CHR 0x22] @ '':''"

definition malformed_line :: "string option \<Rightarrow> 'w process \<Rightarrow> out_line \<times> 'w process" where
  "malformed_line line p = (OutText (case line of None \<Rightarrow> malformed_default | Some l \<Rightarrow> l), p)"

definition usage_limit_event :: "string \<Rightarrow> string option \<Rightarrow> 'w process \<Rightarrow> out_line \<times> 'w process" where
  "usage_limit_event sid message p =
     (OutJson (JObj [(''type'', JStr ''error''), (''sessionID'', JStr sid),
        (''error'', JObj [(''name'', JStr ''AI_APICallError''),
          (''data'', JObj [(''message'', JStr (str_or message (''Usage limit reached. It will reset in 2 hours. ''
              @ ''To continue using this model now, enable usage from your available balance''))),
             (''statusCode'', JInt 429)])])]), p)"

definition zero_usage :: usage where
  "zero_usage = \<lparr>us_input = 0, us_output = 0, us_cache_read = 0, us_cache_create = 0\<rparr>"

definition helper_usage_limited :: "'w system \<Rightarrow> string \<Rightarrow> 'w helper" where
  "helper_usage_limited \<S> resets_at c p =
     (case cx_transcript c of
        Some (ClaudeTranscript w) \<Rightarrow>
          (let text = ''You'' @ [CHR 0x27] @ ''ve hit your session limit '' @ [CHR 0xC2, CHR 0xB7] @ '' resets '' @ resets_at
           in (Reply Returned,
               c\<lparr>cx_result := Some (run_result (ss_session_id (cx_session c)) ''success'' [])\<rparr>,
               claude_append \<S> ''assistant''
                 [(''model'', JStr ''<synthetic>''), (''usage'', usage_json zero_usage),
                  (''content'', JList [JObj [(''type'', JStr ''text''), (''text'', JStr text)]])]
                 [(''isApiErrorMessage'', JBool True), (''error'', JStr ''rate_limit'')] w p))
      | _ \<Rightarrow> (Reply (Raised (PyExn ''RuntimeError''
                (''usage_limited() is Claude-Code-only '' @ em_dash @ '' no Claude transcript writer is wired''))), c, p))"

primrec run_helper :: "'w system \<Rightarrow> helper_call \<Rightarrow> 'w helper" where
  "run_helper \<S> (Ask q opts) c p = helper_ask \<S> q opts c p"
| "run_helper \<S> (ApplyDiff diff) c p = helper_apply_diff \<S> diff c p"
| "run_helper \<S> (Commit message) c p = helper_commit \<S> message c p"
| "run_helper \<S> (ToolCall name i out) c p = record_tool_turn \<S> name i out Returned c p"
| "run_helper \<S> (Verdict choice assessment) c p = helper_verdict choice assessment c p"
| "run_helper \<S> Hang c p = helper_hang \<S> c p"
| "run_helper \<S> (Crash hard) c p = helper_crash hard c p"
| "run_helper \<S> State c p = (Reply (ReturnedState (cx_session c)), c, p)"
| "run_helper \<S> Answer c p = (Reply (ReturnedAnswer (last_answer (cx_session c))), c, p)"
| "run_helper \<S> (PermissionDenial name patterns i) c p =
     stage_event ''permission_denial'' (permission_event \<S> (ss_session_id (cx_session c)) name patterns i) c p"
| "run_helper \<S> (InterruptTool name i err cid) c p =
     stage_event ''interrupt_tool'' (interrupted_tool_event \<S> (ss_session_id (cx_session c)) name i err cid) c p"
| "run_helper \<S> (MalformedRecord line) c p = stage_event ''malformed_record'' (malformed_line line) c p"
| "run_helper \<S> (UsageLimited resets_at) c p = helper_usage_limited \<S> resets_at c p"
| "run_helper \<S> (UsageLimitError message) c p =
     stage_event ''usage_limit_error'' (usage_limit_event (ss_session_id (cx_session c)) message) c p"

section \<open>Running a script\<close>

datatype script_end = Finished | Unwound pyexn | Died int | Hung

primrec exec_program :: "'w system \<Rightarrow> 'w program \<Rightarrow> run_context \<Rightarrow> 'w process \<Rightarrow> script_end \<times> run_context \<times> 'w process" where
  "exec_program \<S> Done c p = (Finished, c, p)"
| "exec_program \<S> (Raise e) c p = (Unwound e, c, p)"
| "exec_program \<S> (Die n) c p = (Died n, c, p)"
| "exec_program \<S> (Raw f k) c p = (case f (c, p) of (found, c1, p1) \<Rightarrow> exec_program \<S> (k found) c1 p1)"
| "exec_program \<S> (Call h k) c p =
     (case run_helper \<S> h c p of
        (Reply r, c1, p1) \<Rightarrow> exec_program \<S> (k r) c1 p1
      | (Dies n, c1, p1) \<Rightarrow> (Died n, c1, p1)
      | (Blocks, c1, p1) \<Rightarrow> (Hung, c1, p1))"

section \<open>What a script cannot change\<close>

text \<open>The output and the working directory of a process; and, of a context, everything but the result,
  the staged lines, the transcript, and the questions and verdicts of the session.\<close>

definition face :: "'w process \<Rightarrow> out_line list \<times> ppath" where
  "face p = (pr_out p, pr_cwd p)"

definition core :: "run_context \<Rightarrow> run_context" where
  "core c = c\<lparr>cx_session := (cx_session c)\<lparr>ss_asks := [], ss_verdicts := []\<rparr>, cx_wire := PlainTextWire,
     cx_result := None, cx_transcript := None\<rparr>"

lemma face_updates [simp]:
  "face (p\<lparr>pr_files := f\<rparr>) = face p" "face (p\<lparr>pr_dirs := d\<rparr>) = face p"
  "face (p\<lparr>pr_ids := n\<rparr>) = face p" "face (p\<lparr>pr_world := w\<rparr>) = face p"
  by (simp_all add: face_def)

lemma face_files [simp]:
  "face (write_file path x p) = face p" "face (mkdir_parents path p) = face p" "face (append_record path j p) = face p"
  by (simp_all add: write_file_def mkdir_parents_def append_record_def)

lemma face_services [simp]:
  "face (snd (uuid_hex \<S> p)) = face p" "face (snd (new_id \<S> pre p)) = face p"
  "face (snd (run_subprocess \<S> x p)) = face p"
  by (simp_all add: uuid_hex_def new_id_def run_subprocess_def split_beta)

lemma face_claude [simp]: "face (claude_append \<S> k m x w p) = face p"
  by (simp add: claude_append_def)

lemma face_opencode [simp]:
  "face (doc_write w p) = face p"
  "face (snd (new_message \<S> role sid t p)) = face p"
  "face (snd (add_part \<S> sid body m p)) = face p"
  "face (snd (snd (assistant_turn \<S> w p))) = face p"
  by (simp_all add: doc_write_def new_message_def add_part_def assistant_turn_def split_beta)

lemma face_child_calls [simp]: "face (snd (add_child_calls \<S> sid t js m p)) = face p"
  by (induction js arbitrary: m p) (simp_all add: split_beta split: sum.split)

lemma face_child_session [simp]: "face (snd (write_child_session \<S> i x js t w p)) = face p"
  by (simp add: write_child_session_def Let_def split_beta split: option.split sum.split)

lemma face_delegate [simp]: "face (snd (delegate \<S> i x t w p)) = face p"
  by (simp add: delegate_def Let_def split_beta split: option.split json.split)

lemma face_transcripts [simp]:
  "face (snd (record_user \<S> text t p)) = face p"
  "face (snd (record_result \<S> r t p)) = face p"
  "face (snd (snd (record_tool_call \<S> name i t p))) = face p"
  "face (snd (snd (record_tool_result \<S> u out t p))) = face p"
proof -
  show "face (snd (record_user \<S> text t p)) = face p"
    by (cases t) (simp_all add: record_user_def claude_record_user_def opencode_record_user_def Let_def split_beta)
  show "face (snd (record_result \<S> r t p)) = face p"
    by (cases t) (simp_all add: record_result_def claude_record_result_def opencode_record_result_def Let_def split_beta)
  show "face (snd (snd (record_tool_call \<S> name i t p))) = face p"
    by (cases t) (auto simp: record_tool_call_def claude_record_tool_call_def opencode_record_tool_call_def Let_def
        split_beta split: sum.split)
  show "face (snd (snd (record_tool_result \<S> u out t p))) = face p"
    by (cases t) (auto simp: record_tool_result_def claude_record_tool_result_def opencode_record_tool_result_def Let_def
        split_beta split: option.split)
qed

lemma face_hooks [simp]: "face (fire_hooks \<S> h body cmds p) = face p"
  by (induction cmds arbitrary: p) simp_all

lemma face_git [simp]:
  "face (snd (git_run \<S> args cwd env i p)) = face p"
  "face (snd (git_apply_diff \<S> diff cwd env p)) = face p"
  "face (snd (git_commit \<S> message cwd env p)) = face p"
proof -
  show *: "face (snd (git_run \<S> args cwd env i p)) = face p" for args env i and p :: "'a process"
    by (simp add: git_run_def split_beta split: proc_end.split)
  show "face (snd (git_apply_diff \<S> diff cwd env p)) = face p"
    by (simp add: git_apply_diff_def *)
  show "face (snd (git_commit \<S> message cwd env p)) = face p"
    by (simp add: git_commit_def split_beta * split: sum.split)
qed

text \<open>What a helper leaves as it was, and what it can only add to.\<close>

definition steady :: "run_context \<times> 'w process \<Rightarrow> run_context \<times> 'w process \<Rightarrow> bool" where
  "steady a b \<longleftrightarrow> core (fst b) = core (fst a) \<and> face (snd b) = face (snd a)
     \<and> prefix (ss_asks (cx_session (fst a))) (ss_asks (cx_session (fst b)))
     \<and> prefix (ss_verdicts (cx_session (fst a))) (ss_verdicts (cx_session (fst b)))
     \<and> (carries_opencode_wire_events (cx_wire (fst a)) \<longrightarrow> carries_opencode_wire_events (cx_wire (fst b)))
     \<and> (\<not> carries_opencode_wire_events (cx_wire (fst a)) \<longrightarrow> cx_wire (fst b) = cx_wire (fst a))"

lemma steady_refl [simp]: "steady a a"
  by (simp add: steady_def)

lemma steady_trans: "steady a b \<Longrightarrow> steady b c \<Longrightarrow> steady a c"
  by (auto simp: steady_def)

lemma steady_process: "steady a (c, p) \<Longrightarrow> face p' = face p \<Longrightarrow> steady a (c, p')"
  by (simp add: steady_def)

lemma stage_lines_steady [simp]: "steady (c, p) (stage_lines ls c, p)"
  by (auto simp: steady_def stage_lines_def core_def split: wire.split)

lemma core_transcript [simp]: "core (c\<lparr>cx_transcript := t\<rparr>) = core c" "core (c\<lparr>cx_result := r\<rparr>) = core c"
  by (simp_all add: core_def)

lemma record_pair_steady: "steady (c, p) (snd (record_pair \<S> name i out c p))"
proof (cases "cx_transcript c")
  case (Some t)
  obtain r t1 p1 where call: "record_tool_call \<S> name i t p = (r, t1, p1)" by (metis prod_cases3)
  have p1: "face p1 = face p" using face_transcripts(3) [of \<S> name i t p] by (simp add: call)
  show ?thesis
  proof (cases r)
    case (Inl e)
    with Some call p1 show ?thesis by (simp add: record_pair_def steady_def)
  next
    case (Inr u)
    obtain ls t2 p2 where res: "record_tool_result \<S> u out t1 p1 = (ls, t2, p2)" by (metis prod_cases3)
    have p2: "face p2 = face p" using face_transcripts(4) [of \<S> u out t1 p1] by (simp add: res p1)
    have "steady (c, p) (c\<lparr>cx_transcript := Some t2\<rparr>, p2)" by (simp add: steady_def p2)
    from steady_trans [OF this stage_lines_steady, of ls] show ?thesis
      by (simp add: record_pair_def Some call Inr res)
  qed
qed (simp add: record_pair_def)

lemma record_tool_turn_steady: "steady (c, p) (snd (record_tool_turn \<S> name i out r c p))"
proof -
  obtain e c1 p1 where pair: "record_pair \<S> name i out c p = (e, c1, p1)" by (metis prod_cases3)
  have "steady (c, p) (c1, p1)" using record_pair_steady [of c p \<S> name i out] by (simp add: pair)
  then show ?thesis
    by (auto simp: record_tool_turn_def on_tool_use_def pair intro: steady_process split: option.split)
qed

lemma stage_event_steady:
  assumes "\<And>q. face (snd (line q)) = face q"
  shows "steady (c, p) (snd (stage_event helper line c p))"
  by (simp add: stage_event_def split_beta steady_process [OF stage_lines_steady assms])

lemma face_events [simp]:
  "face (snd (id_or \<S> given pre p)) = face p"
  "face (snd (permission_event \<S> sid name ps i p)) = face p"
  "face (snd (interrupted_tool_event \<S> sid name x err i p)) = face p"
  "face (snd (malformed_line l p)) = face p"
  "face (snd (usage_limit_event sid m p)) = face p"
  by (simp_all add: id_or_def permission_event_def interrupted_tool_event_def malformed_line_def usage_limit_event_def
      split_beta)

lemma finish_ask_steady: "steady (c, p) (snd (finish_ask a c p))"
  by (simp add: finish_ask_def steady_def)

lemma helper_ask_steady: "steady (c, p) (snd (helper_ask \<S> q opts c p))"
proof -
  let ?a = "\<lparr>ak_question = q, ak_options = opts, ak_asked_at = sy_time \<S> (pr_world p)\<rparr>"
  let ?c1 = "c\<lparr>cx_session := (cx_session c)\<lparr>ss_asks := ss_asks (cx_session c) @ [?a]\<rparr>\<rparr>"
  have asked: "steady (c, p) (?c1, p)" by (simp add: steady_def core_def)
  then have fin: "steady (c, p) (snd (finish_ask ?a ?c1 p'))" if "face p' = face p" for p'
    using that steady_trans [OF steady_process finish_ask_steady] by blast
  show ?thesis
  proof (cases "cx_ask_cmd c")
    case None
    then show ?thesis by (simp add: helper_ask_def Let_def fin)
  next
    case (Some cmds)
    show ?thesis
    proof (cases cmds)
      case Nil
      with Some show ?thesis by (simp add: helper_ask_def Let_def fin)
    next
      case (Cons cmd rest)
      let ?x = "\<lparr>pc_args = ask_args (cmd # rest) q opts, pc_shell = False, pc_cwd = cx_cwd c, pc_env = cx_env c,
        pc_input = NoInput\<rparr>"
      obtain r p1 where run: "run_subprocess \<S> ?x p = (r, p1)" by force
      have "face p1 = face p" using face_services(3) [of \<S> ?x p] by (simp add: run)
      with asked Some Cons run fin show ?thesis
        by (auto simp: helper_ask_def Let_def split: proc_end.split intro: steady_process)
    qed
  qed
qed

lemma run_helper_steady: "steady (c, p) (snd (run_helper \<S> h c p))"
proof (cases h)
  case (Ask q opts)
  then show ?thesis by (simp add: helper_ask_steady)
next
  case (ApplyDiff diff)
  obtain r p1 where run: "git_apply_diff \<S> diff (cx_cwd c) (cx_env c) p = (r, p1)" by force
  have "face p1 = face p" using face_git(2) [of \<S> diff "cx_cwd c" "cx_env c" p] by (simp add: run)
  then have "steady (c, p) (c, p1)" by (simp add: steady_def)
  then show ?thesis
    using steady_trans [OF _ record_tool_turn_steady] ApplyDiff run
    by (auto simp: helper_apply_diff_def split: sum.split)
next
  case (Commit m)
  obtain r p1 where run: "git_commit \<S> m (cx_cwd c) (cx_env c) p = (r, p1)" by force
  have "face p1 = face p" using face_git(3) [of \<S> m "cx_cwd c" "cx_env c" p] by (simp add: run)
  then have "steady (c, p) (c, p1)" by (simp add: steady_def)
  then show ?thesis
    using steady_trans [OF _ record_tool_turn_steady] Commit run
    by (auto simp: helper_commit_def split: sum.split)
next
  case (Verdict choice assessment)
  then show ?thesis by (simp add: helper_verdict_def steady_def core_def)
next
  case Hang
  then show ?thesis by (simp add: helper_hang_def split: option.split signal.split)
next
  case (UsageLimited r)
  then show ?thesis by (auto simp: helper_usage_limited_def steady_def Let_def split: option.split transcript.split)
qed (simp_all add: record_tool_turn_steady helper_crash_def stage_event_steady)

text \<open>A script that keeps to the helpers and to its own files: between the calls it may read everything and
  change the world outside the process, but it neither prints nor touches the files, the context or the
  session of the harness.\<close>

primrec orderly :: "'w program \<Rightarrow> bool" where
  "orderly Done \<longleftrightarrow> True"
| "orderly (Raise e) \<longleftrightarrow> True"
| "orderly (Die n) \<longleftrightarrow> True"
| "orderly (Raw f k) \<longleftrightarrow>
     (\<forall>c p. \<exists>found w. f (c, p) = (found, c, p\<lparr>pr_world := w\<rparr>)) \<and> (\<forall>found. orderly (k found))"
| "orderly (Call h k) \<longleftrightarrow> (\<forall>r. orderly (k r))"

lemma exec_program_steady:
  assumes "orderly prog"
  shows "steady (c, p) (snd (exec_program \<S> prog c p))"
  using assms
proof (induction prog arbitrary: c p)
  case (Raw f k)
  from Raw.prems obtain found w where f: "f (c, p) = (found, c, p\<lparr>pr_world := w\<rparr>)" unfolding orderly.simps by blast
  have "steady (c, p) (c, p\<lparr>pr_world := w\<rparr>)" by (simp add: steady_def)
  from steady_trans [OF this Raw.IH [of "k found"]] Raw.prems show ?case by (simp add: f)
next
  case (Call h k)
  obtain e c1 p1 where run: "run_helper \<S> h c p = (e, c1, p1)" by (metis prod_cases3)
  have first: "steady (c, p) (c1, p1)" using run_helper_steady [of c p \<S> h] by (simp add: run)
  show ?case
  proof (cases e)
    case (Reply r)
    from steady_trans [OF first Call.IH [of "k r"]] Call.prems show ?thesis by (simp add: run Reply)
  qed (use first in \<open>simp_all add: run\<close>)
qed simp_all

end
