(* ===== verification/Harness_Engine.thy ===== *)
theory Harness_Engine
  imports Harness_Helpers
begin

text \<open>
  The engine of the mock harness (\<^verbatim>\<open>harness/engine.py\<close>): the fence, where a turn works and keeps its
  state, and \<^verbatim>\<open>run_prompt\<close>. What Python makes of a script text is the parameter \<open>python\<close>: how many
  statements it parses to, and the program it runs as. The lemmas show that a refused fence leaves the
  process as it was, and describe a fenced turn from its two parts: the opening that stores the
  session and the closing that prints the result.
\<close>

section \<open>The fence\<close>

definition FENCE_ENV_VAR :: string where
  "FENCE_ENV_VAR = ''BLIZZARD_MOCK_HARNESS_FENCE''"

definition FENCE_ENV_VALUE :: string where
  "FENCE_ENV_VALUE = ''1''"

definition FENCE_MARKER_FILENAME :: string where
  "FENCE_MARKER_FILENAME = ''.blizzard-mock-harness-fence''"

definition find_fence_marker :: "'w process \<Rightarrow> ppath \<Rightarrow> ppath option" where
  "find_fence_marker p cwd =
     find (is_file p) (map (\<lambda>directory. path_div directory FENCE_MARKER_FILENAME) (cwd # path_parents cwd))"

definition is_fenced :: "'w process \<Rightarrow> ppath \<Rightarrow> environ \<Rightarrow> bool" where
  "is_fenced p cwd env \<longleftrightarrow> dget env FENCE_ENV_VAR = Some FENCE_ENV_VALUE \<and> find_fence_marker p cwd \<noteq> None"

text \<open>The refusal, if any, with its text.\<close>

definition only_scaffolding :: string where
  "only_scaffolding = ''The mock executes arbitrary code and only runs under test scaffolding.''"

definition assert_fenced :: "'w process \<Rightarrow> ppath \<Rightarrow> environ \<Rightarrow> string option" where
  "assert_fenced p cwd env =
     (if dget env FENCE_ENV_VAR \<noteq> Some FENCE_ENV_VALUE
      then Some (''mock harness refused to run: '' @ FENCE_ENV_VAR @ ''='' @ FENCE_ENV_VALUE @ '' not set. '' @ only_scaffolding)
      else if find_fence_marker p cwd = None
      then Some (''mock harness refused to run: no '' @ FENCE_MARKER_FILENAME @ '' marker in '' @ path_str cwd
                 @ '' or its parents. '' @ only_scaffolding)
      else None)"

definition write_fence_marker :: "ppath \<Rightarrow> 'w process \<Rightarrow> ppath \<times> 'w process" where
  "write_fence_marker cwd p =
     (let marker = path_div cwd FENCE_MARKER_FILENAME
      in (marker, write_file marker (Text (''blizzard-mock harness fence marker '' @ em_dash
           @ '' this tree is test scaffolding'' @ newline)) p))"

definition fenced_env :: "environ \<Rightarrow> environ \<Rightarrow> environ" where
  "fenced_env base extra = fold (\<lambda>(k, v). dset k v) extra (dset FENCE_ENV_VAR FENCE_ENV_VALUE base)"

section \<open>Where a turn works\<close>

definition acquired_worktree :: "'w process \<Rightarrow> environ \<Rightarrow> ppath \<Rightarrow> ppath" where
  "acquired_worktree p env cwd =
     (case find (\<lambda>s. s \<noteq> [] \<and> is_dir p (parse_path s))
         (map strip (split_on (CHR '','') (dget_or env ''BLIZZARD_ENV_WORKDIRS'' []))) of
        Some s \<Rightarrow> parse_path s | None \<Rightarrow> cwd)"

definition fence_base_dir :: "'w process \<Rightarrow> ppath \<Rightarrow> ppath" where
  "fence_base_dir p cwd = (case find_fence_marker p cwd of Some m \<Rightarrow> path_parent m | None \<Rightarrow> cwd)"

definition state_root :: "'w process \<Rightarrow> environ \<Rightarrow> ppath \<Rightarrow> ppath" where
  "state_root p env cwd =
     (if truthy (dget env ''BLIZZARD_MOCK_HARNESS_STATE_DIR'')
      then parse_path (the (dget env ''BLIZZARD_MOCK_HARNESS_STATE_DIR''))
      else path_div (path_div (fence_base_dir p cwd) ''.blizzard-mock-harness'') ''sessions'')"

text \<open>\<^verbatim>\<open>str.split()\<close>: the words between runs of whitespace.\<close>

fun split_words :: "string \<Rightarrow> string \<Rightarrow> string list" where
  "split_words cur [] = (if cur = [] then [] else [rev cur])"
| "split_words cur (c # cs) =
     (if is_space c then (if cur = [] then split_words [] cs else rev cur # split_words [] cs)
      else split_words (c # cur) cs)"

definition ask_cmd :: "environ \<Rightarrow> string list option" where
  "ask_cmd env =
     (case dget env ''BLIZZARD_RUNNER_ASK_CMD'' of
        None \<Rightarrow> None | Some raw \<Rightarrow> if raw = [] then None else Some (split_words [] raw))"

section \<open>Which program a turn runs\<close>

record 'w python =
  py_statements :: "string \<Rightarrow> nat option"
  py_program :: "string \<Rightarrow> 'w program"

definition parses_to_empty_module :: "'w python \<Rightarrow> string \<Rightarrow> bool" where
  "parses_to_empty_module py source \<longleftrightarrow> py_statements py source = Some 0"

record turn_script =
  tu_script :: string
  tu_preamble :: string
  tu_tagged :: "tagged_prompt option"
  tu_error :: "pyexn option"

definition choose_script :: "'w python \<Rightarrow> bool \<Rightarrow> string \<Rightarrow> turn_script" where
  "choose_script py whole_message prompt =
     (if whole_message
      then \<lparr>tu_script = prompt, tu_preamble = [], tu_tagged = None,
            tu_error = (if parses_to_empty_module py prompt
              then Some (PyExn ''EmptyBehaviorScriptError''
                ''empty whole-message behavior script: the message parses to an empty module body'')
              else None)\<rparr>
      else case split_behavior_script prompt of
          Inl e \<Rightarrow> \<lparr>tu_script = [], tu_preamble = [], tu_tagged = None,
                   tu_error = Some (PyExn ''BehaviorScriptTagError'' e)\<rparr>
        | Inr (Some t) \<Rightarrow> \<lparr>tu_script = tp_script t, tu_preamble = [], tu_tagged = Some t, tu_error = None\<rparr>
        | Inr None \<Rightarrow> \<lparr>tu_script = snd (split_worker_preamble prompt), tu_preamble = fst (split_worker_preamble prompt),
                      tu_tagged = None, tu_error = None\<rparr>)"

definition turn_message :: "string \<Rightarrow> turn_script \<Rightarrow> string" where
  "turn_message prompt u = (case tu_tagged u of Some t \<Rightarrow> tp_prose t | None \<Rightarrow> prompt)"

definition SELFTEST_SPAWN_SCRIPT :: string where
  "SELFTEST_SPAWN_SCRIPT = concat (map (\<lambda>l. l @ newline)
     [''import pathlib'',
      ''pathlib.Path('' @ py_repr ''SELFTEST.txt'' @ '').write_text('' @ [CHR 0x22] @ ''ok'' @ [CHR 0x5C] @ ''n'' @ [CHR 0x22] @ '')'',
      ''commit('' @ [CHR 0x22] @ ''selftest: trivial edit'' @ [CHR 0x22] @ '')''])"

definition SELFTEST_RESUME_SCRIPT :: string where
  "SELFTEST_RESUME_SCRIPT =
     (let q = (\<lambda>s. [CHR 0x22] @ s @ [CHR 0x22]) in concat (map (\<lambda>l. l @ newline)
     [''import subprocess'',
      ''tracked = subprocess.run('',
      ''    ['' @ q ''git'' @ '', '' @ q ''ls-files'' @ '', '' @ q ''--error-unmatch'' @ '', '' @ py_repr ''SELFTEST.txt''
        @ ''], capture_output=True'',
      '').returncode == 0'',
      ''verdict('' @ q ''pass'' @ '' if tracked else '' @ q ''fail'' @ '')'']))"

text \<open>The selftest's own program replaces an untagged one, and its failure with it.\<close>

definition selftest_script :: "bool \<Rightarrow> session_state \<Rightarrow> turn_script \<Rightarrow> turn_script" where
  "selftest_script is_resume s u =
     (if ss_selftest s \<and> tu_tagged u = None
      then u\<lparr>tu_script := (if is_resume then SELFTEST_RESUME_SCRIPT else SELFTEST_SPAWN_SCRIPT), tu_error := None\<rparr>
      else u)"

section \<open>Opening the session\<close>

record run_args =
  ra_prompt :: string
  ra_wire :: "wire option"
  ra_session_id :: "string option"
  ra_is_resume :: bool
  ra_cwd :: "ppath option"
  ra_env :: environ
  ra_transcript :: "transcript option"
  ra_factory :: "(ppath \<times> ppath \<times> bool) option"
  ra_hooks :: "hook_runner option"
  ra_model :: "string option"
  ra_effort :: "string option"
  ra_compaction_window :: "string option"
  ra_permission :: "string option"
  ra_whole_message :: bool

definition spawn_credential_of :: "environ \<Rightarrow> spawn_credential" where
  "spawn_credential_of env =
     \<lparr>scr_lease_id = dget env ''BLIZZARD_LEASE_ID'', scr_lease_token = dget env ''BLIZZARD_LEASE_TOKEN'',
      scr_runner_url = dget env ''BLIZZARD_RUNNER_URL''\<rparr>"

text \<open>Why a turn ends without a result: the fence, a resume of no session, or a file that holds
  something else than what the harness keeps in it.\<close>

datatype failure = FenceError string | ValueError string | BrokenFile

definition resume_state :: "environ \<Rightarrow> string \<Rightarrow> session_state \<Rightarrow> session_state" where
  "resume_state env message s =
     (let s1 = s\<lparr>ss_resumes := ss_resumes s @ [message]\<rparr>
      in if dget env ''BLIZZARD_LEASE_TOKEN'' \<noteq> None then s1\<lparr>ss_spawn_credential := Some (spawn_credential_of env)\<rparr> else s1)"

definition spawn_state :: "environ \<Rightarrow> session_state \<Rightarrow> session_state" where
  "spawn_state env s =
     s\<lparr>ss_selftest := (dget env ''BLIZZARD_LEASE_ID'' = Some ''selftest''), ss_spawn_credential := Some (spawn_credential_of env)\<rparr>"

definition open_session :: "'w system \<Rightarrow> run_args \<Rightarrow> string \<Rightarrow> ppath \<Rightarrow> 'w process
    \<Rightarrow> (failure + string \<times> session_state) \<times> 'w process" where
  "open_session \<S> a message store p =
     (if ra_is_resume a
      then (if truthy (ra_session_id a)
            then (case load_or_create \<S> store (the (ra_session_id a)) p of
                    Inl _ \<Rightarrow> (Inl BrokenFile, p)
                  | Inr s \<Rightarrow> (Inr (the (ra_session_id a), resume_state (ra_env a) message s), p))
            else (Inl (ValueError ''resume requires a session_id''), p))
      else case (if truthy (ra_session_id a) then (the (ra_session_id a), p)
                 else case uuid_hex \<S> p of (h, p1) \<Rightarrow> (dashed h, p1)) of (sid, p1) \<Rightarrow>
        (case load_or_create \<S> store sid p1 of
           Inl _ \<Rightarrow> (Inl BrokenFile, p1)
         | Inr s \<Rightarrow> (Inr (sid, spawn_state (ra_env a) s), p1)))"

definition turn_invocation :: "run_args \<Rightarrow> invocation" where
  "turn_invocation a =
     \<lparr>iv_kind = (if ra_is_resume a then ''resume'' else ''spawn''), iv_model = ra_model a, iv_effort = ra_effort a,
      iv_compaction_window = ra_compaction_window a, iv_permission = ra_permission a\<rparr>"

definition count_turn :: "run_args \<Rightarrow> session_state \<Rightarrow> session_state" where
  "count_turn a s = s\<lparr>ss_turns := ss_turns s + 1, ss_invocations := ss_invocations s @ [turn_invocation a]\<rparr>"

definition turn_transcript :: "run_args \<Rightarrow> string \<Rightarrow> 'w process \<Rightarrow> failure + transcript option" where
  "turn_transcript a sid p =
     (case (ra_transcript a, ra_factory a) of
        (None, Some (dir, cwd, billed_zero)) \<Rightarrow>
          (case opencode_writer sid dir cwd billed_zero p of
             None \<Rightarrow> Inl BrokenFile | Some w \<Rightarrow> Inr (Some (OpenCodeTranscript w)))
      | (t, _) \<Rightarrow> Inr t)"

section \<open>One turn\<close>

definition TRANSCRIPT_SPAWN_TEXT :: string where
  "TRANSCRIPT_SPAWN_TEXT = ''(mock harness spawn '' @ em_dash @ '' the behavior script it executed is not shown here)''"

definition TRANSCRIPT_RESUME_TEXT :: string where
  "TRANSCRIPT_RESUME_TEXT = ''(mock harness resume '' @ em_dash @ '' the behavior script it executed is not shown here)''"

definition INTERRUPTED_TEXT :: string where
  "INTERRUPTED_TEXT = ''interrupted by SIGINT before the behavior script finished''"

definition user_text :: "bool \<Rightarrow> turn_script \<Rightarrow> string" where
  "user_text is_resume u =
     (let prose = (case tu_tagged u of Some t \<Rightarrow> tp_prose t | None \<Rightarrow> tu_preamble u)
      in if prose \<noteq> [] then prose else if is_resume then TRANSCRIPT_RESUME_TEXT else TRANSCRIPT_SPAWN_TEXT)"

definition open_transcript :: "'w system \<Rightarrow> string \<Rightarrow> run_context \<Rightarrow> 'w process \<Rightarrow> run_context \<times> 'w process" where
  "open_transcript \<S> text c p =
     (case cx_transcript c of
        None \<Rightarrow> (c, p)
      | Some t \<Rightarrow> (case record_user \<S> text t p of (t1, p1) \<Rightarrow> (c\<lparr>cx_transcript := Some t1\<rparr>, p1)))"

definition stream_identity :: "'w system \<Rightarrow> string \<Rightarrow> run_context \<Rightarrow> 'w process \<Rightarrow> run_context \<times> 'w process" where
  "stream_identity \<S> sid c p =
     (case render_identity \<S> sid (cx_wire c) p of (ls, w, p1) \<Rightarrow> (c\<lparr>cx_wire := w\<rparr>, print_lines ls p1))"

text \<open>The script runs in its worktree, and the working directory comes back afterwards.\<close>

definition exec_script :: "'w system \<Rightarrow> 'w python \<Rightarrow> turn_script \<Rightarrow> run_context \<Rightarrow> 'w process
    \<Rightarrow> script_end \<times> run_context \<times> 'w process" where
  "exec_script \<S> py u c p =
     (case tu_error u of
        Some e \<Rightarrow> (Unwound e, c, p)
      | None \<Rightarrow>
          if \<not> is_dir p (cx_cwd c)
          then (Unwound (PyExn ''FileNotFoundError'' (''[Errno 2] No such file or directory: PosixPath('' @ py_repr (path_str (cx_cwd c)) @ '')'')),
                c, p)
          else (case exec_program \<S> (py_program py (tu_script u)) c (p\<lparr>pr_cwd := absolute p (cx_cwd c)\<rparr>) of
              (e, c1, p1) \<Rightarrow> (e, c1, p1\<lparr>pr_cwd := pr_cwd p\<rparr>)))"

definition error_result :: "string \<Rightarrow> string \<Rightarrow> run_result" where
  "error_result sid text = (run_result sid ''error_during_execution'' text)\<lparr>rr_is_error := True, rr_exit_code := 1\<rparr>"

definition staged_or :: "run_context \<Rightarrow> run_result \<Rightarrow> run_result" where
  "staged_or c r = (case cx_result c of Some q \<Rightarrow> q | None \<Rightarrow> r)"

text \<open>The result of a turn by the way its script ended; an exit has none.\<close>

definition unwound_result :: "string \<Rightarrow> run_context \<Rightarrow> pyexn \<Rightarrow> run_result option" where
  "unwound_result sid c e =
     (case e of
        AskExit a \<Rightarrow> Some (staged_or c ((run_result sid ''ask'' (ak_question a))\<lparr>rr_ask := Some a\<rparr>))
      | HarnessCrash text \<Rightarrow> Some (error_result sid text)
      | KeyboardInterrupt \<Rightarrow> Some (error_result sid INTERRUPTED_TEXT)
      | SystemExit n \<Rightarrow> None
      | PyExn cls text \<Rightarrow> Some (error_result sid (cls @ '': '' @ text)))"

datatype turn_end = Exit int | Fails failure | Killed int | Waiting

definition close_transcript :: "'w system \<Rightarrow> run_result \<Rightarrow> run_context \<Rightarrow> 'w process \<Rightarrow> 'w process" where
  "close_transcript \<S> r c p =
     (case cx_transcript c of None \<Rightarrow> p | Some t \<Rightarrow> snd (record_result \<S> r t p))"

definition elapsed_ms :: "'w system \<Rightarrow> 'w process \<Rightarrow> 'w process \<Rightarrow> int" where
  "elapsed_ms \<S> p0 p1 = \<lfloor>(sy_monotonic \<S> (pr_world p1) - sy_monotonic \<S> (pr_world p0)) * 1000\<rfloor>"

text \<open>After the script: the session stored again, then the result recorded, printed and told to the
  hooks.\<close>

definition finish_turn :: "'w system \<Rightarrow> string \<Rightarrow> int \<Rightarrow> run_result \<Rightarrow> run_context \<Rightarrow> 'w process \<Rightarrow> 'w process" where
  "finish_turn \<S> sid ms r0 c p =
     (let r = r0\<lparr>rr_session_id := sid, rr_num_turns := ss_turns (cx_session c), rr_duration_ms := ms\<rparr>
      in case render \<S> (cx_wire c) r (close_transcript \<S> r c p) of (ls, p1) \<Rightarrow>
         case cx_hooks c of None \<Rightarrow> print_lines ls p1 | Some h \<Rightarrow> on_session_end \<S> r h (print_lines ls p1))"

definition end_turn :: "'w system \<Rightarrow> string \<Rightarrow> 'w process \<Rightarrow> script_end \<times> run_context \<times> 'w process \<Rightarrow> turn_end \<times> 'w process" where
  "end_turn \<S> sid started outcome =
     (case outcome of (e, c, p) \<Rightarrow>
      case e of
        Died n \<Rightarrow> (Killed n, p)
      | Hung \<Rightarrow> (Waiting, p)
      | Finished \<Rightarrow>
          (let r = staged_or c (run_result sid ''success'' []); p1 = store_save (cx_store c) (cx_session c) p
           in (Exit (rr_exit_code r), finish_turn \<S> sid (elapsed_ms \<S> started p1) r c p1))
      | Unwound x \<Rightarrow>
          (let p1 = store_save (cx_store c) (cx_session c) p
           in case unwound_result sid c x of
                None \<Rightarrow> (Exit (case x of SystemExit n \<Rightarrow> n | _ \<Rightarrow> 1), p1)
              | Some r \<Rightarrow> (Exit (rr_exit_code r), finish_turn \<S> sid (elapsed_ms \<S> started p1) r c p1)))"

definition turn_context :: "run_args \<Rightarrow> wire \<Rightarrow> ppath \<Rightarrow> ppath \<Rightarrow> string \<Rightarrow> session_state \<Rightarrow> transcript option \<Rightarrow> run_context" where
  "turn_context a w cwd store message s t =
     \<lparr>cx_session = s, cx_wire = w, cx_cwd = cwd, cx_env = ra_env a, cx_store = store, cx_is_resume = ra_is_resume a,
      cx_resume_message = (if ra_is_resume a then Some message else None), cx_ask_cmd = ask_cmd (ra_env a),
      cx_result = None, cx_transcript = t, cx_hooks = ra_hooks a\<rparr>"

text \<open>A fenced turn once its session is open.\<close>

definition run_turn :: "'w system \<Rightarrow> 'w python \<Rightarrow> run_args \<Rightarrow> ppath \<Rightarrow> ppath \<Rightarrow> turn_script \<Rightarrow> string \<Rightarrow> session_state
    \<Rightarrow> 'w process \<Rightarrow> turn_end \<times> 'w process" where
  "run_turn \<S> py a cwd store u sid s0 p =
     (case turn_transcript a sid p of
        Inl f \<Rightarrow> (Fails f, p)
      | Inr t \<Rightarrow>
          (let s = count_turn a s0;
               c = turn_context a (case ra_wire a of Some w \<Rightarrow> w | None \<Rightarrow> PlainTextWire) cwd store
                     (turn_message (ra_prompt a) u) s t
           in case open_transcript \<S> (user_text (ra_is_resume a) u) c (store_save store s p) of (c1, p1) \<Rightarrow>
              case stream_identity \<S> sid c1 p1 of (c2, p2) \<Rightarrow>
                end_turn \<S> sid p2 (exec_script \<S> py (selftest_script (ra_is_resume a) s u) c2 p2)))"

definition turn_cwd :: "run_args \<Rightarrow> 'w process \<Rightarrow> ppath" where
  "turn_cwd a p = (case ra_cwd a of Some d \<Rightarrow> d | None \<Rightarrow> acquired_worktree p (ra_env a) (pr_cwd p))"

definition run_prompt :: "'w system \<Rightarrow> 'w python \<Rightarrow> run_args \<Rightarrow> 'w process \<Rightarrow> turn_end \<times> 'w process" where
  "run_prompt \<S> py a p =
     (let cwd = turn_cwd a p
      in case assert_fenced p cwd (ra_env a) of
           Some e \<Rightarrow> (Fails (FenceError e), p)
         | None \<Rightarrow>
             (let u = choose_script py (ra_whole_message a) (ra_prompt a); store = state_root p (ra_env a) cwd
              in case open_session \<S> a (turn_message (ra_prompt a) u) store p of
                   (Inl f, p1) \<Rightarrow> (Fails f, p1)
                 | (Inr (sid, s), p1) \<Rightarrow> run_turn \<S> py a cwd store u sid s p1))"

end
