(* ===== verification/Harness_Facades.thy ===== *)
theory Harness_Facades
  imports Harness_Engine "HOL-Library.Multiset"
begin

text \<open>
  The command lines of the three facades (\<^verbatim>\<open>harness/facades/_common.py\<close>, \<^verbatim>\<open>claude_code.py\<close>, \<^verbatim>\<open>codex.py\<close>,
  \<^verbatim>\<open>opencode.py\<close>). What \<^verbatim>\<open>argparse\<close> makes of an argument list is an argument of each main function: the
  parsed flags, or the code \<^verbatim>\<open>argparse\<close> exits with. Text on standard error is not kept. The subcommands
  \<^verbatim>\<open>emit\<close> and \<^verbatim>\<open>app-server\<close> belong to other parts of the harness and are likewise arguments.
\<close>

section \<open>Shared plumbing\<close>

text \<open>Standard input: a terminal, a text, or closed.\<close>

datatype std_input = Terminal | Piped string | Unreadable

definition read_script :: "string option \<Rightarrow> std_input \<Rightarrow> string option" where
  "read_script prompt_arg i =
     (case prompt_arg of
        Some s \<Rightarrow> Some s
      | None \<Rightarrow> (case i of Piped s \<Rightarrow> if strip s \<noteq> [] then Some s else None | _ \<Rightarrow> None))"

definition FENCE_EXIT_CODE :: int where
  "FENCE_EXIT_CODE = 2"

definition dispatch :: "'w system \<Rightarrow> 'w python \<Rightarrow> run_args \<Rightarrow> 'w process \<Rightarrow> turn_end \<times> 'w process" where
  "dispatch \<S> py a p =
     (case run_prompt \<S> py a p of
        (Fails (FenceError e), p') \<Rightarrow> (Exit FENCE_EXIT_CODE, p')
      | r \<Rightarrow> r)"

definition facade_args :: "string \<Rightarrow> wire \<Rightarrow> string option \<Rightarrow> bool \<Rightarrow> environ \<Rightarrow> run_args" where
  "facade_args script w sid is_resume env =
     \<lparr>ra_prompt = script, ra_wire = Some w, ra_session_id = sid, ra_is_resume = is_resume, ra_cwd = None, ra_env = env,
      ra_transcript = None, ra_factory = None, ra_hooks = None, ra_model = None, ra_effort = None,
      ra_compaction_window = None, ra_permission = None, ra_whole_message = False\<rparr>"

section \<open>Claude Code\<close>

record claude_args =
  ca_prompt :: "string option"
  ca_output_format :: string
  ca_session_id :: "string option"
  ca_resume :: "string option"
  ca_settings :: "string option"
  ca_model :: "string option"
  ca_effort :: "string option"
  ca_compaction_window :: "string option"

definition build_transcript_writer :: "string option \<Rightarrow> ppath \<Rightarrow> environ \<Rightarrow> 'w process \<Rightarrow> claude_writer option" where
  "build_transcript_writer sid cwd env p =
     (if truthy sid then Some (claude_writer (the sid) (transcripts_root env (fence_base_dir p cwd)) cwd) else None)"

definition claude_run_args :: "claude_args \<Rightarrow> string \<Rightarrow> environ \<Rightarrow> 'w process \<Rightarrow> run_args" where
  "claude_run_args args script env p =
     (let is_resume = (ca_resume args \<noteq> None);
          sid = (if is_resume then ca_resume args else ca_session_id args);
          cwd = acquired_worktree p env (pr_cwd p);
          w = build_transcript_writer sid cwd env p
      in (facade_args script (ClaudeCodeWire (ca_output_format args)) sid is_resume env)
           \<lparr>ra_transcript := map_option ClaudeTranscript w,
            ra_hooks := build_hook_runner (ca_settings args) cwd env sid (map_option ct_path w) p,
            ra_model := ca_model args, ra_effort := ca_effort args, ra_compaction_window := ca_compaction_window args\<rparr>)"

definition claude_main :: "'w system \<Rightarrow> 'w python \<Rightarrow> (string list \<Rightarrow> int + claude_args) \<Rightarrow> string \<Rightarrow> string list \<Rightarrow> std_input
    \<Rightarrow> environ \<Rightarrow> 'w process \<Rightarrow> turn_end \<times> 'w process" where
  "claude_main \<S> py parse usage argv i env p =
     (if argv \<noteq> [] \<and> hd argv = ''--version'' then (Exit 0, print_lines [OutText ''2.1.278 (Claude Code)''] p)
      else case parse argv of
          Inl code \<Rightarrow> (Exit code, p)
        | Inr args \<Rightarrow>
            (case read_script (ca_prompt args) i of
               None \<Rightarrow> (Exit 0, print_lines [OutText usage] p)
             | Some script \<Rightarrow> dispatch \<S> py (claude_run_args args script env p) p))"

section \<open>Codex\<close>

record codex_args =
  ka_subcommand :: "string option"
  ka_resume :: "string option"
  ka_rest :: "string list"
  ka_json :: bool
  ka_last :: bool

text \<open>Script, session id and whether it is a resume, from the positional grammar.\<close>

definition codex_resolve :: "codex_args \<Rightarrow> std_input \<Rightarrow> string option \<times> string option \<times> bool" where
  "codex_resolve args i =
     (let positionals = (case ka_resume args of None \<Rightarrow> [] | Some r \<Rightarrow> [r]) @ ka_rest args;
          script_at = (\<lambda>n. if length positionals > n then Some (positionals ! n) else read_script None i)
      in if positionals \<noteq> [] \<and> hd positionals = ''resume''
         then (script_at 2, if length positionals > 1 then Some (positionals ! 1) else None, True)
         else (script_at 0, None, ka_last args))"

definition codex_main :: "'w system \<Rightarrow> 'w python \<Rightarrow> (string list \<Rightarrow> int + codex_args) \<Rightarrow> ('w process \<Rightarrow> int \<times> 'w process)
    \<Rightarrow> string \<Rightarrow> string list \<Rightarrow> std_input \<Rightarrow> environ \<Rightarrow> 'w process \<Rightarrow> turn_end \<times> 'w process" where
  "codex_main \<S> py parse app_server usage argv i env p =
     (case parse argv of
        Inl code \<Rightarrow> (Exit code, p)
      | Inr args \<Rightarrow>
          if ka_subcommand args = Some ''app-server'' then (case app_server p of (code, p1) \<Rightarrow> (Exit code, p1))
          else if ka_subcommand args \<noteq> Some ''exec'' \<and> ka_subcommand args \<noteq> None then (Exit 2, p)
          else case codex_resolve args i of (script, sid, is_resume) \<Rightarrow>
            (case script of
               None \<Rightarrow> (Exit 0, print_lines [OutText usage] p)
             | Some s \<Rightarrow>
                 if is_resume \<and> sid = None \<and> \<not> ka_last args then (Exit 2, p)
                 else dispatch \<S> py (facade_args s (CodexJsonlWire (ka_json args)) sid (is_resume \<and> sid \<noteq> None) env) p))"

section \<open>OpenCode\<close>

record opencode_args =
  oa_subcommand :: "string option"
  oa_prompt :: "string option"
  oa_session :: "string option"
  oa_model :: "string option"
  oa_variant :: "string option"
  oa_auto :: bool

definition VALUE_FLAGS :: "string list" where
  "VALUE_FLAGS = [''--session'', ''--model'', ''--variant'', ''--format'']"

definition BOOL_FLAGS :: "string list" where
  "BOOL_FLAGS = [''--auto'', ''-h'', ''--help'']"

text \<open>Positionals and options of an argument list, a value flag with the token after it.\<close>

fun sort_tokens :: "string list \<Rightarrow> string list \<times> string list" where
  "sort_tokens [] = ([], [])"
| "sort_tokens [token] =
     (if token \<in> set VALUE_FLAGS \<or> token \<in> set BOOL_FLAGS then ([], [token]) else ([token], []))"
| "sort_tokens (token # v # rest) =
     (if token \<in> set VALUE_FLAGS then (case sort_tokens rest of (ps, os) \<Rightarrow> (ps, token # v # os))
      else case sort_tokens (v # rest) of (ps, os) \<Rightarrow>
        if token \<in> set BOOL_FLAGS then (ps, token # os) else (token # ps, os))"

definition positionals_first :: "string list \<Rightarrow> string list" where
  "positionals_first argv = (case sort_tokens argv of (ps, os) \<Rightarrow> ps @ os)"

definition takeover_banner :: "string \<Rightarrow> string" where
  "takeover_banner sid = ''mock-opencode: interactive takeover of session '' @ sid @ '' (not automated)''"

definition run_export :: "string list \<Rightarrow> environ \<Rightarrow> 'w process \<Rightarrow> int \<times> 'w process" where
  "run_export argv env p =
     (case argv of
        [sid] \<Rightarrow>
          (let cwd = acquired_worktree p env (pr_cwd p); path = document_path (transcripts_root env (fence_base_dir p cwd)) sid
           in case file_at p path of None \<Rightarrow> (1, p) | Some c \<Rightarrow> (0, print_lines (lines_of (Some c)) p))
      | _ \<Rightarrow> (2, p))"

definition opencode_run_args :: "opencode_args \<Rightarrow> string \<Rightarrow> environ \<Rightarrow> 'w process \<Rightarrow> run_args" where
  "opencode_run_args args script env p =
     (let cwd = acquired_worktree p env (pr_cwd p);
          w = OpenCodeRunWire \<lparr>ow_billed_zero = billed_zero_mode env, ow_streamed = None, ow_events = []\<rparr>
      in (facade_args script w (oa_session args) (oa_session args \<noteq> None) env)
           \<lparr>ra_factory := Some (transcripts_root env (fence_base_dir p cwd), cwd, billed_zero_mode env),
            ra_model := oa_model args, ra_effort := oa_variant args,
            ra_permission := (if oa_auto args then Some ''auto'' else None)\<rparr>)"

definition opencode_turn :: "'w system \<Rightarrow> 'w python \<Rightarrow> int + opencode_args \<Rightarrow> string \<Rightarrow> std_input \<Rightarrow> environ \<Rightarrow> 'w process
    \<Rightarrow> turn_end \<times> 'w process" where
  "opencode_turn \<S> py parsed usage i env p =
     (case parsed of
        Inl code \<Rightarrow> (Exit code, p)
      | Inr args \<Rightarrow>
          if oa_subcommand args \<noteq> Some ''run'' \<and> oa_subcommand args \<noteq> None then (Exit 2, p)
          else if oa_subcommand args = None \<and> truthy (oa_session args) \<and> oa_prompt args = None
          then (Exit 0, print_lines [OutText (takeover_banner (the (oa_session args)))] p)
          else (case read_script (oa_prompt args) i of
              None \<Rightarrow> (Exit 0, print_lines [OutText usage] p)
            | Some script \<Rightarrow> dispatch \<S> py (opencode_run_args args script env p) p))"

definition opencode_main :: "'w system \<Rightarrow> 'w python \<Rightarrow> (string list \<Rightarrow> int + opencode_args)
    \<Rightarrow> (string list \<Rightarrow> 'w process \<Rightarrow> int \<times> 'w process) \<Rightarrow> string \<Rightarrow> string \<Rightarrow> string list \<Rightarrow> std_input \<Rightarrow> environ
    \<Rightarrow> 'w process \<Rightarrow> turn_end \<times> 'w process" where
  "opencode_main \<S> py parse run_emit usage emit_mention argv i env p =
     (case argv of
        first # rest \<Rightarrow>
          if first = ''--version'' then (Exit 0, print_lines [OutText ''1.18.25''] p)
          else if first = ''emit'' then (case run_emit rest p of (code, p1) \<Rightarrow> (Exit code, p1))
          else if first = ''export'' then (case run_export rest env p of (code, p1) \<Rightarrow> (Exit code, p1))
          else if first = ''-h'' \<or> first = ''--help'' then (Exit 0, print_lines [OutText (usage @ emit_mention)] p)
          else opencode_turn \<S> py (parse (positionals_first argv)) usage i env p
      | [] \<Rightarrow> opencode_turn \<S> py (parse (positionals_first argv)) usage i env p)"

end
