(* ===== verification/Harness_Life.thy ===== *)
theory Harness_Life
  imports Harness_Facades
begin

text \<open>
  What the mock harness promises over a turn: nothing runs or is written outside the fence, a turn that
  ends is stored and printed, and the session it leaves is what the next turn resumes.
\<close>

section \<open>Paths that cannot meet\<close>

lemma split_on_nonempty [simp]: "split_on sep s \<noteq> []"
  by (induction s) (auto split: list.split)

lemma split_on_append:
  assumes "sep \<notin> set t"
  shows "split_on sep (s @ t) = butlast (split_on sep s) @ [last (split_on sep s) @ t]"
proof (induction s)
  case Nil
  show ?case using assms by (simp add: split_on_absent)
next
  case (Cons c s)
  then show ?case by (cases "split_on sep s") (auto split: list.split)
qed

lemma last_part_named:
  assumes "CHR ''/'' \<notin> set t" and "length t \<ge> 2"
  shows "pp_parts (path_div p (s @ t)) \<noteq> [] \<and> (\<exists>r. last (pp_parts (path_div p (s @ t))) = r @ t)"
proof -
  let ?l = "last (split_on (CHR ''/'') s) @ t"
  have "?l \<noteq> [] \<and> ?l \<noteq> ''.''" using assms(2) by (auto dest!: arg_cong [of _ _ length])
  then have "pp_parts (parse_path (s @ t)) = filter (\<lambda>q. q \<noteq> [] \<and> q \<noteq> ''.'') (butlast (split_on (CHR ''/'') s)) @ [?l]"
    by (simp add: parse_path_def split_on_append [OF assms(1)])
  then show ?thesis by (simp add: path_div_def path_join_def)
qed

lemma absolute_last:
  assumes "pp_parts path \<noteq> []"
  shows "last (pp_parts (absolute p path)) = last (pp_parts path)"
  using assms by (simp add: absolute_def path_join_def)

lemma claude_path_apart: "absolute p (ct_path (claude_writer i d c)) \<noteq> absolute q (session_path dir sid)"
proof
  assume eq: "absolute p (ct_path (claude_writer i d c)) = absolute q (session_path dir sid)"
  obtain r where ne: "pp_parts (ct_path (claude_writer i d c)) \<noteq> []" and r: "last (pp_parts (ct_path (claude_writer i d c))) = r @ ''.jsonl''"
    using last_part_named [of "''.jsonl''" "path_div d ''mock-claude-code''" i] by (auto simp: claude_writer_def)
  have "last (pp_parts (absolute p (ct_path (claude_writer i d c)))) = r @ ''.jsonl''"
    using absolute_last [OF ne] r by simp
  moreover have "last (pp_parts (absolute q (session_path dir sid))) = safe_name sid @ ''.json''"
    by (simp add: absolute_last session_path_parts)
  ultimately have "last (r @ ''.jsonl'') = last (safe_name sid @ ''.json'')" using eq by simp
  then show False by simp
qed

section \<open>What is left of a script's context\<close>

definition plain_transcript :: "run_context \<Rightarrow> bool" where
  "plain_transcript c \<longleftrightarrow> (case cx_transcript c of Some (OpenCodeTranscript w) \<Rightarrow> False | _ \<Rightarrow> True)"

definition staged_ok :: "run_context \<Rightarrow> bool" where
  "staged_ok c \<longleftrightarrow> (case cx_result c of None \<Rightarrow> True | Some r \<Rightarrow> \<not> rr_is_error r \<and> rr_exit_code r = 0)"

lemma stage_lines_fields [simp]:
  "cx_transcript (stage_lines ls c) = cx_transcript c" "cx_result (stage_lines ls c) = cx_result c"
  by (auto simp: stage_lines_def split: wire.split)

lemma stage_event_fields [simp]:
  "cx_transcript (fst (snd (stage_event h line c p))) = cx_transcript c"
  "cx_result (fst (snd (stage_event h line c p))) = cx_result c"
  by (auto simp: stage_event_def split_beta)

lemma record_tool_turn_result [simp]:
  "cx_result (fst (snd (record_tool_turn \<S> name i out r c p))) = cx_result c"
  by (auto simp: record_tool_turn_def record_pair_def split_beta split: option.split sum.split)

lemma record_tool_turn_transcript:
  assumes "plain_transcript c"
  shows "cx_transcript (fst (snd (record_tool_turn \<S> name i out r c p))) = cx_transcript c"
  using assms
  by (auto simp: record_tool_turn_def record_pair_def plain_transcript_def record_tool_call_def record_tool_result_def
      split_beta split: option.split sum.split transcript.splits option.splits)

lemma run_helper_transcript:
  assumes "plain_transcript c"
  shows "cx_transcript (fst (snd (run_helper \<S> h c p))) = cx_transcript c"
  using assms
  by (cases h) (auto simp: record_tool_turn_transcript helper_ask_def finish_ask_def helper_apply_diff_def helper_commit_def
      helper_verdict_def helper_hang_def helper_crash_def helper_usage_limited_def Let_def split_beta
      split: option.split list.split sum.split proc_end.split signal.split transcript.split)

lemma run_helper_staged:
  assumes "staged_ok c"
  shows "staged_ok (fst (snd (run_helper \<S> h c p)))"
  using assms
  by (cases h) (auto simp: staged_ok_def run_result_def helper_ask_def finish_ask_def helper_apply_diff_def helper_commit_def
      helper_verdict_def helper_hang_def helper_crash_def helper_usage_limited_def Let_def split_beta
      split: option.split list.split sum.split proc_end.split signal.split transcript.split)

lemma exec_program_fields:
  assumes "orderly prog" and "staged_ok c"
  shows "staged_ok (fst (snd (exec_program \<S> prog c p)))
    \<and> (plain_transcript c \<longrightarrow> cx_transcript (fst (snd (exec_program \<S> prog c p))) = cx_transcript c)"
  using assms
proof (induction prog arbitrary: c p)
  case (Raw f k)
  from Raw.prems(1) obtain found w where f: "f (c, p) = (found, c, p\<lparr>pr_world := w\<rparr>)" unfolding orderly.simps by blast
  from Raw.IH [of "k found" c] Raw.prems show ?case by (simp add: f)
next
  case (Call h k)
  obtain e c1 p1 where run: "run_helper \<S> h c p = (e, c1, p1)" by (metis prod_cases3)
  have ok: "staged_ok c1" using run_helper_staged [OF Call.prems(2), of \<S> h p] by (simp add: run)
  have tr: "plain_transcript c \<longrightarrow> cx_transcript c1 = cx_transcript c"
    using run_helper_transcript [of c \<S> h p] by (simp add: run)
  show ?case
  proof (cases e)
    case (Reply r)
    with Call.IH [of "k r" c1 p1] Call.prems(1) ok tr show ?thesis by (auto simp: run plain_transcript_def)
  qed (use ok tr in \<open>simp_all add: run\<close>)
qed simp_all

lemma face_eq: "face p' = face p \<longleftrightarrow> pr_out p' = pr_out p \<and> pr_cwd p' = pr_cwd p"
  by (simp add: face_def)

lemma exec_script_fields:
  assumes "exec_script \<S> py u c p = (e, c1, p1)" and "staged_ok c" and "orderly (py_program py (tu_script u))"
  shows "steady (c, p) (c1, p1) \<and> staged_ok c1 \<and> (plain_transcript c \<longrightarrow> cx_transcript c1 = cx_transcript c)"
proof (cases "tu_error u = None \<and> is_dir p (cx_cwd c)")
  case True
  let ?p = "p\<lparr>pr_cwd := absolute p (cx_cwd c)\<rparr>"
  obtain c2 p2 where run: "exec_program \<S> (py_program py (tu_script u)) c ?p = (e, c2, p2)"
    and fin: "c1 = c2" "p1 = p2\<lparr>pr_cwd := pr_cwd p\<rparr>"
    using True assms(1) by (auto simp: exec_script_def split: prod.splits)
  have "steady (c, ?p) (c2, p2)" using exec_program_steady [OF assms(3), of c ?p \<S>] by (simp add: run)
  then have "steady (c, p) (c1, p1)" by (simp add: steady_def face_eq fin)
  with exec_program_fields [OF assms(3,2), of \<S> ?p] show ?thesis by (simp add: run fin)
next
  case False
  with assms show ?thesis by (auto simp: exec_script_def split: option.splits)
qed

section \<open>The end of a turn\<close>

text \<open>Two processes that hold the same files under the same names.\<close>

lemma file_at_same: "pr_files p' = pr_files p \<Longrightarrow> pr_cwd p' = pr_cwd p \<Longrightarrow> file_at p' = file_at p"
  by (simp add: file_at_def absolute_def fun_eq_iff)

lemma fire_hooks_files [simp]: "pr_files (fire_hooks \<S> h body cmds p) = pr_files p"
  by (induction cmds arbitrary: p) (simp_all add: run_subprocess_def split_beta)

lemma fire_hooks_face [simp]: "pr_out (fire_hooks \<S> h body cmds p) = pr_out p" "pr_cwd (fire_hooks \<S> h body cmds p) = pr_cwd p"
  using face_hooks [of \<S> h body cmds p] by (simp_all add: face_eq del: face_hooks)

lemma claude_append_other:
  assumes "absolute p path \<noteq> absolute p (ct_path w)"
  shows "file_at (claude_append \<S> k m x w p) path = file_at p path"
  using assms by (simp add: claude_append_def append_record_def)

definition apart :: "run_context \<Rightarrow> 'w process \<Rightarrow> ppath \<Rightarrow> bool" where
  "apart c p path \<longleftrightarrow>
     (case cx_transcript c of None \<Rightarrow> True | Some (ClaudeTranscript w) \<Rightarrow> absolute p path \<noteq> absolute p (ct_path w)
      | Some (OpenCodeTranscript w) \<Rightarrow> False)"

lemma close_transcript_file:
  assumes "apart c p path"
  shows "file_at (close_transcript \<S> r c p) path = file_at p path"
  using assms
  by (auto simp: apart_def close_transcript_def record_result_def claude_record_result_def claude_append_other
      split: option.splits transcript.splits)

lemma close_transcript_face: "face (close_transcript \<S> r c p) = face p"
  by (simp add: close_transcript_def split: option.split)

definition closing_result :: "string \<Rightarrow> int \<Rightarrow> run_result \<Rightarrow> run_context \<Rightarrow> run_result" where
  "closing_result sid ms r c = r\<lparr>rr_session_id := sid, rr_num_turns := ss_turns (cx_session c), rr_duration_ms := ms\<rparr>"

lemma finish_turn_prints:
  "pr_out (finish_turn \<S> sid ms r c p) =
     pr_out p @ fst (render \<S> (cx_wire c) (closing_result sid ms r c) (close_transcript \<S> (closing_result sid ms r c) c p))
   \<and> pr_cwd (finish_turn \<S> sid ms r c p) = pr_cwd p
   \<and> (apart c p path \<longrightarrow> file_at (finish_turn \<S> sid ms r c p) path = file_at p path)"
proof -
  let ?r = "closing_result sid ms r c"
  let ?q = "close_transcript \<S> ?r c p"
  obtain ls p1 where ren: "render \<S> (cx_wire c) ?r ?q = (ls, p1)" by force
  have q: "pr_out ?q = pr_out p" "pr_cwd ?q = pr_cwd p" using close_transcript_face [of \<S> ?r c p] by (simp_all add: face_eq)
  have p1: "pr_files p1 = pr_files ?q" "pr_cwd p1 = pr_cwd p" "pr_out p1 = pr_out p"
    using render_frame [OF ren] q by simp_all
  let ?fin = "finish_turn \<S> sid ms r c p"
  have fin: "pr_files ?fin = pr_files ?q" "pr_cwd ?fin = pr_cwd p" "pr_out ?fin = pr_out p @ ls"
    by (simp_all add: finish_turn_def Let_def closing_result_def [symmetric] ren print_lines_def on_session_end_def p1
        split: option.split)
  have "file_at ?fin = file_at ?q" using fin q by (intro file_at_same) simp_all
  with fin ren close_transcript_file [of c p path \<S> ?r] show ?thesis by simp
qed

text \<open>A turn that ends has stored the session its script left, and either printed its one result or,
  where the script exited by itself, printed nothing.\<close>

lemma end_turn_facts:
  assumes "end_turn \<S> sid started (e, c, p) = (Exit n, p')" and "staged_ok c"
    and "apart c p (session_path (cx_store c) (ss_session_id (cx_session c)))"
  shows "file_at p' (session_path (cx_store c) (ss_session_id (cx_session c))) = Some (Document (to_json (cx_session c)))
    \<and> pr_cwd p' = pr_cwd p
    \<and> ((\<exists>m. e = Unwound (SystemExit m)) \<and> pr_out p' = pr_out p \<or>
       (\<exists>r q. rr_session_id r = sid \<and> rr_num_turns r = ss_turns (cx_session c) \<and> rr_exit_code r = n
          \<and> (rr_is_error r \<longleftrightarrow> n = 1) \<and> n \<in> {0, 1} \<and> pr_out p' = pr_out p @ fst (render \<S> (cx_wire c) r q)))"
proof -
  let ?path = "session_path (cx_store c) (ss_session_id (cx_session c))"
  let ?p1 = "store_save (cx_store c) (cx_session c) p"
  have saved: "file_at ?p1 ?path = Some (Document (to_json (cx_session c)))" by (simp add: file_at_save)
  have apart: "apart c ?p1 ?path" using assms(3) by (simp add: apart_def split: option.splits transcript.splits)
  consider m where "e = Unwound (SystemExit m)" "p' = ?p1"
    | r ms where "p' = finish_turn \<S> sid ms r c ?p1" "rr_exit_code r = n" "rr_is_error r \<longleftrightarrow> n = 1" "n \<in> {0, 1}"
    using assms(1,2)
    by (auto simp: end_turn_def Let_def staged_or_def staged_ok_def unwound_result_def error_result_def run_result_def
        split: script_end.splits option.splits pyexn.splits)
  then show ?thesis
  proof cases
    case 1
    with saved show ?thesis by simp
  next
    case 2
    have "rr_session_id (closing_result sid ms r c) = sid \<and> rr_num_turns (closing_result sid ms r c) = ss_turns (cx_session c)
        \<and> rr_exit_code (closing_result sid ms r c) = n \<and> (rr_is_error (closing_result sid ms r c) \<longleftrightarrow> n = 1)"
      using 2 by (simp add: closing_result_def)
    with finish_turn_prints [of \<S> sid ms r c ?p1 ?path] 2 saved apart show ?thesis by auto
  qed
qed

text \<open>A script that never exits by itself, whatever the helpers answer it.\<close>

primrec calm :: "'w program \<Rightarrow> bool" where
  "calm Done \<longleftrightarrow> True"
| "calm (Raise e) \<longleftrightarrow> (case e of SystemExit m \<Rightarrow> False | _ \<Rightarrow> True)"
| "calm (Die n) \<longleftrightarrow> True"
| "calm (Raw f k) \<longleftrightarrow> (\<forall>found. calm (k found))"
| "calm (Call h k) \<longleftrightarrow> (\<forall>r. calm (k r))"

lemma exec_program_calm:
  assumes "calm prog"
  shows "fst (exec_program \<S> prog c p) \<noteq> Unwound (SystemExit m)"
  using assms
  by (induction prog arbitrary: c p) (auto simp: split_beta split: pyexn.splits helper_end.split)

text \<open>The scripts a turn can run: the one its prompt holds, and the selftest's own where that one is not
  tagged.\<close>

definition scripts_of :: "'w python \<Rightarrow> run_args \<Rightarrow> string set" where
  "scripts_of py a =
     (let u = choose_script py (ra_whole_message a) (ra_prompt a)
      in insert (tu_script u)
           (if tu_tagged u = None then {if ra_is_resume a then SELFTEST_RESUME_SCRIPT else SELFTEST_SPAWN_SCRIPT} else {}))"

lemma script_of_turn:
  "tu_script (selftest_script (ra_is_resume a) s (choose_script py (ra_whole_message a) (ra_prompt a))) \<in> scripts_of py a"
  by (simp add: scripts_of_def selftest_script_def Let_def)

lemma choose_script_error: "tu_error (choose_script py whole prompt) \<noteq> Some (SystemExit m)"
  by (simp add: choose_script_def split: sum.split option.split)

lemma exec_script_calm:
  assumes "exec_script \<S> py (selftest_script (ra_is_resume a) s (choose_script py (ra_whole_message a) (ra_prompt a))) c p = (e, c1, p1)"
    and "\<forall>x \<in> scripts_of py a. calm (py_program py x)"
  shows "e \<noteq> Unwound (SystemExit m)"
proof -
  let ?u = "selftest_script (ra_is_resume a) s (choose_script py (ra_whole_message a) (ra_prompt a))"
  have "tu_error ?u \<noteq> Some (SystemExit m)" by (simp add: selftest_script_def choose_script_error)
  moreover have "fst (exec_program \<S> (py_program py (tu_script ?u)) c q) \<noteq> Unwound (SystemExit m)" for q
    using assms(2) script_of_turn exec_program_calm by blast
  ultimately show ?thesis
    using assms(1) by (auto simp: exec_script_def split: option.splits if_splits prod.splits, metis fst_conv)
qed

section \<open>From the prompt to the end of the turn\<close>

lemma assert_fenced_iff: "assert_fenced p cwd env = None \<longleftrightarrow> is_fenced p cwd env"
  by (simp add: assert_fenced_def is_fenced_def)

lemma load_ids [simp]: "load_or_create \<S> dir sid (p\<lparr>pr_ids := k\<rparr>) = load_or_create \<S> dir sid p"
proof -
  have "pr_world (p\<lparr>pr_ids := k\<rparr>) = pr_world p" by simp
  then show ?thesis by (simp only: load_or_create_def store_load_def file_at_ids)
qed

definition opened :: "run_args \<Rightarrow> string \<Rightarrow> session_state \<Rightarrow> session_state" where
  "opened a message s = (if ra_is_resume a then resume_state (ra_env a) message s else spawn_state (ra_env a) s)"

lemma open_session_facts:
  assumes "open_session \<S> a message dir p = (Inr (sid, s), p1)"
  obtains s0 k where "load_or_create \<S> dir sid p = Inr s0" and "s = opened a message s0" and "p1 = p\<lparr>pr_ids := k\<rparr>"
    and "truthy (ra_session_id a) \<Longrightarrow> ra_session_id a = Some sid"
proof -
  have same: "\<exists>k. q = q\<lparr>pr_ids := k\<rparr>" for q :: "'a process" by (rule exI [of _ "pr_ids q"]) simp
  have "\<exists>s0 k. load_or_create \<S> dir sid p = Inr s0 \<and> s = opened a message s0 \<and> p1 = p\<lparr>pr_ids := k\<rparr>
      \<and> (truthy (ra_session_id a) \<longrightarrow> ra_session_id a = Some sid)"
    using assms same
    by (auto simp: open_session_def opened_def uuid_hex_def truthy_def split: if_splits sum.splits option.splits)
  with that show ?thesis by blast
qed

text \<open>How the session a turn leaves follows from the one it found.\<close>

definition follows :: "run_args \<Rightarrow> string \<Rightarrow> session_state \<Rightarrow> session_state \<Rightarrow> bool" where
  "follows a message s0 s \<longleftrightarrow>
     ss_session_id s = ss_session_id s0 \<and> ss_turns s = ss_turns s0 + 1
     \<and> ss_invocations s = ss_invocations s0 @ [turn_invocation a]
     \<and> ss_resumes s = ss_resumes s0 @ (if ra_is_resume a then [message] else [])
     \<and> prefix (ss_asks s0) (ss_asks s) \<and> prefix (ss_verdicts s0) (ss_verdicts s)"

lemma opened_follows:
  assumes "core c = core (turn_context a w cwd dir message (count_turn a (opened a message s0)) t)"
    and "prefix (ss_asks s0) (ss_asks (cx_session c))" and "prefix (ss_verdicts s0) (ss_verdicts (cx_session c))"
  shows "follows a message s0 (cx_session c) \<and> cx_store c = dir"
proof -
  have "(cx_session c)\<lparr>ss_asks := [], ss_verdicts := []\<rparr> = (count_turn a (opened a message s0))\<lparr>ss_asks := [], ss_verdicts := []\<rparr>"
      and "cx_store c = dir"
    using arg_cong [OF assms(1), of cx_session] arg_cong [OF assms(1), of cx_store]
    by (simp_all add: core_def turn_context_def)
  then show ?thesis
    using assms(2,3)
    by (cases "cx_session c"; cases s0) (auto simp: follows_def count_turn_def opened_def resume_state_def spawn_state_def Let_def split: if_splits)
qed

definition claude_like :: "run_args \<Rightarrow> bool" where
  "claude_like a \<longleftrightarrow> ra_factory a = None \<and>
     (ra_transcript a = None \<or> (\<exists>i d c. ra_transcript a = Some (ClaudeTranscript (claude_writer i d c))))"

lemma open_transcript_facts:
  assumes "open_transcript \<S> text c p = (c1, p1)" and "plain_transcript c"
  shows "c1 = c \<and> face p1 = face p"
  using assms
  by (auto simp: open_transcript_def plain_transcript_def record_user_def claude_record_user_def split: option.splits transcript.splits prod.splits)

lemma stream_identity_facts:
  assumes "stream_identity \<S> sid c p = (c1, p1)"
  shows "steady (c, p) (c1, p1\<lparr>pr_out := pr_out p\<rparr>) \<and> cx_transcript c1 = cx_transcript c \<and> cx_result c1 = cx_result c
    \<and> (\<exists>lead. pr_out p1 = pr_out p @ lead) \<and> (\<not> carries_opencode_wire_events (cx_wire c) \<longrightarrow> pr_out p1 = pr_out p \<and> c1 = c)"
proof -
  obtain ls w q where ren: "render_identity \<S> sid (cx_wire c) p = (ls, w, q)" by (metis prod_cases3)
  have q: "pr_out q = pr_out p" "pr_cwd q = pr_cwd p" using render_identity_frame [OF ren] by simp_all
  have c1: "c1 = c\<lparr>cx_wire := w\<rparr>" and p1: "p1 = print_lines ls q" using assms by (simp_all add: stream_identity_def ren)
  have "carries_opencode_wire_events w = carries_opencode_wire_events (cx_wire c)"
    and "\<not> carries_opencode_wire_events (cx_wire c) \<longrightarrow> ls = [] \<and> w = cx_wire c"
    using ren by (auto simp: render_identity_def split: wire.splits prod.splits)
  with q c1 p1 show ?thesis
    by (auto simp: steady_def core_def face_def print_lines_def)
qed

text \<open>A turn of a facade without an export document, from end to end.\<close>

lemma turn_outcome:
  assumes run: "run_prompt \<S> py a p = (Exit n, p')" and claude: "claude_like a"
    and orderly: "\<forall>x \<in> scripts_of py a. orderly (py_program py x)"
  defines "cwd \<equiv> turn_cwd a p"
  defines "message \<equiv> turn_message (ra_prompt a) (choose_script py (ra_whole_message a) (ra_prompt a))"
  obtains sid s0 s where "load_or_create \<S> (state_root p (ra_env a) cwd) sid p = Inr s0"
    and "load_or_create \<S> (state_root p (ra_env a) cwd) (ss_session_id s0) p' = Inr s" and "follows a message s0 s"
    and "truthy (ra_session_id a) \<Longrightarrow> ra_session_id a = Some sid" and "pr_cwd p' = pr_cwd p"
    and "\<not> carries_opencode_wire_events (case ra_wire a of Some w \<Rightarrow> w | None \<Rightarrow> PlainTextWire) \<Longrightarrow>
      \<forall>x \<in> scripts_of py a. calm (py_program py x) \<Longrightarrow>
      (\<exists>r q. rr_session_id r = sid \<and> rr_num_turns r = ss_turns s \<and> rr_exit_code r = n \<and> (rr_is_error r \<longleftrightarrow> n = 1)
         \<and> n \<in> {0, 1}
         \<and> pr_out p' = pr_out p @ fst (render \<S> (case ra_wire a of Some w \<Rightarrow> w | None \<Rightarrow> PlainTextWire) r q))"
proof -
  let ?dir = "state_root p (ra_env a) cwd" and ?u = "choose_script py (ra_whole_message a) (ra_prompt a)"
  let ?w = "case ra_wire a of Some w \<Rightarrow> w | None \<Rightarrow> PlainTextWire"
  from run obtain sid s1 p1 where opn: "open_session \<S> a message ?dir p = (Inr (sid, s1), p1)"
      and turn: "run_turn \<S> py a cwd ?dir ?u sid s1 p1 = (Exit n, p')"
    by (auto simp: run_prompt_def Let_def cwd_def message_def split: option.splits prod.splits sum.splits)
  from open_session_facts [OF opn] obtain s0 k where s0: "load_or_create \<S> ?dir sid p = Inr s0" "s1 = opened a message s0"
      "p1 = p\<lparr>pr_ids := k\<rparr>" "truthy (ra_session_id a) \<Longrightarrow> ra_session_id a = Some sid" by metis
  let ?c = "turn_context a ?w cwd ?dir message (count_turn a s1) (ra_transcript a)"
  let ?p2 = "store_save ?dir (count_turn a s1) p1"
  obtain c1 q1 where tr: "open_transcript \<S> (user_text (ra_is_resume a) ?u) ?c ?p2 = (c1, q1)" by force
  obtain c2 q2 where ident: "stream_identity \<S> sid c1 q1 = (c2, q2)" by force
  obtain e c q where scr: "exec_script \<S> py (selftest_script (ra_is_resume a) (count_turn a s1) ?u) c2 q2 = (e, c, q)"
    by (metis prod_cases3)
  have fin: "end_turn \<S> sid q2 (e, c, q) = (Exit n, p')"
    using turn claude tr ident scr
    by (auto simp: run_turn_def turn_transcript_def claude_like_def Let_def message_def)
  have plain: "plain_transcript ?c" using claude by (auto simp: plain_transcript_def turn_context_def claude_like_def)
  have q1: "c1 = ?c" "pr_out q1 = pr_out p" "pr_cwd q1 = pr_cwd p"
    using open_transcript_facts [OF tr plain] by (simp_all add: face_eq s0)
  note ident = stream_identity_facts [OF ident]
  have ok2: "staged_ok c2" using ident by (simp add: staged_ok_def q1 turn_context_def)
  have plain2: "plain_transcript c2" "cx_transcript c2 = ra_transcript a"
    using ident plain by (simp_all add: plain_transcript_def q1 turn_context_def)
  from exec_script_fields [OF scr ok2 bspec [OF orderly script_of_turn]] have st: "steady (c2, q2) (c, q)" and ok: "staged_ok c"
      and trc: "cx_transcript c = ra_transcript a" using plain2 by auto
  have st1: "steady (?c, q1) (c, q\<lparr>pr_out := pr_out q1\<rparr>)"
    using st ident by (auto simp: steady_def q1 face_def)
  have "core c = core ?c" "prefix (ss_asks s1) (ss_asks (cx_session c))" "prefix (ss_verdicts s1) (ss_verdicts (cx_session c))"
    using st1 by (simp_all add: steady_def, simp_all add: turn_context_def count_turn_def)
  moreover have "ss_asks s1 = ss_asks s0" "ss_verdicts s1 = ss_verdicts s0"
    by (simp_all add: s0 opened_def resume_state_def spawn_state_def Let_def)
  ultimately have fol: "follows a message s0 (cx_session c)" and store: "cx_store c = ?dir"
    using opened_follows [of c a ?w cwd ?dir message s0 "ra_transcript a"] s0(2) by auto
  have id: "ss_session_id (cx_session c) = ss_session_id s0" using fol by (simp add: follows_def)
  have ap: "apart c q (session_path (cx_store c) (ss_session_id (cx_session c)))"
    using claude by (auto simp: apart_def trc claude_like_def claude_path_apart [THEN not_sym])
  note facts = end_turn_facts [OF fin ok ap]
  have load: "load_or_create \<S> ?dir (ss_session_id s0) p' = Inr (cx_session c)"
    using facts by (simp add: load_or_create_def store_load_def store id)
  have cwd': "pr_cwd p' = pr_cwd p" using facts st1 q1 by (simp add: steady_def face_def)
  have out: "pr_out q = pr_out p \<and> cx_wire c = ?w" if "\<not> carries_opencode_wire_events ?w"
    using st ident q1 that by (simp add: steady_def face_def turn_context_def)
  have calm: "(\<exists>m. e = Unwound (SystemExit m)) \<Longrightarrow> \<exists>x \<in> scripts_of py a. \<not> calm (py_program py x)"
    using exec_script_calm [OF scr] by blast
  have "\<exists>r x. rr_session_id r = sid \<and> rr_num_turns r = ss_turns (cx_session c) \<and> rr_exit_code r = n \<and> (rr_is_error r \<longleftrightarrow> n = 1)
         \<and> n \<in> {0, 1} \<and> pr_out p' = pr_out p @ fst (render \<S> ?w r x)"
    if "\<not> carries_opencode_wire_events ?w" "\<forall>x \<in> scripts_of py a. calm (py_program py x)"
    using facts out [OF that(1)] calm that(2) by metis
  with load cwd' show ?thesis using that s0 fol by blast
qed

section \<open>The promises\<close>

lemma open_session_no_fence: "fst (open_session \<S> a m dir p) \<noteq> Inl (FenceError e)"
  by (auto simp: open_session_def split_beta split: sum.splits)

lemma end_turn_no_failure: "fst (end_turn \<S> sid q out) \<noteq> Fails f"
  by (auto simp: end_turn_def Let_def split_beta split: script_end.split option.split)

lemma run_turn_no_fence: "fst (run_turn \<S> py a cwd dir u sid s p) \<noteq> Fails (FenceError e)"
proof -
  have "turn_transcript a sid p \<noteq> Inl (FenceError e)"
    by (auto simp: turn_transcript_def split: option.splits prod.splits)
  then show ?thesis
    by (auto simp: run_turn_def Let_def split_beta end_turn_no_failure split: sum.split)
qed

lemma fenced_never_refused:
  assumes "is_fenced p (turn_cwd a p) (ra_env a)"
  shows "fst (run_prompt \<S> py a p) \<noteq> Fails (FenceError e)"
proof -
  have "assert_fenced p (turn_cwd a p) (ra_env a) = None" using assms by (simp add: assert_fenced_iff)
  then show ?thesis
    by (auto simp: run_prompt_def Let_def split_beta open_session_no_fence run_turn_no_fence split: sum.split)
qed

text \<open>C8. The fence: unless the variable is set to 1 and a marker file lies in the worktree or above it, the
  engine refuses, the facade exits with code 2, and the process is exactly as before: nothing was run,
  written or printed, and no id was drawn. With both in place it never refuses for the fence.\<close>

theorem fence_refuses_everything:
  assumes "turn_cwd a p = cwd"
  shows "((\<exists>e. run_prompt \<S> py a p = (Fails (FenceError e), p)) \<and> dispatch \<S> py a p = (Exit 2, p)) \<longleftrightarrow>
      \<not> (dget (ra_env a) ''BLIZZARD_MOCK_HARNESS_FENCE'' = Some ''1'' \<and>
         (\<exists>d \<in> set (cwd # path_parents cwd). is_file p (path_div d ''.blizzard-mock-harness-fence'')))"
proof -
  have marker: "find_fence_marker p cwd \<noteq> None \<longleftrightarrow> (\<exists>d \<in> set (cwd # path_parents cwd). is_file p (path_div d ''.blizzard-mock-harness-fence''))"
    unfolding find_fence_marker_def find_None_iff FENCE_MARKER_FILENAME_def by auto
  show ?thesis
  proof (cases "is_fenced p cwd (ra_env a)")
    case False
    then obtain e where "run_prompt \<S> py a p = (Fails (FenceError e), p)"
      using assert_fenced_iff [of p cwd "ra_env a"] assms by (auto simp: run_prompt_def)
    with False marker show ?thesis
      by (auto simp: dispatch_def FENCE_EXIT_CODE_def is_fenced_def FENCE_ENV_VAR_def FENCE_ENV_VALUE_def)
  next
    case True
    then have "fst (run_prompt \<S> py a p) \<noteq> Fails (FenceError e)" for e using fenced_never_refused assms by blast
    then have "run_prompt \<S> py a p \<noteq> (Fails (FenceError e), p)" for e by (metis fst_conv)
    with True marker show ?thesis
      by (auto simp: is_fenced_def FENCE_ENV_VAR_def FENCE_ENV_VALUE_def)
  qed
qed

definition fx_system :: "unit system" where
  "fx_system = \<lparr>sy_subprocess = (\<lambda>x w. (Exited 0 [] [], w)), sy_uuid = show_nat, sy_now = (\<lambda>w. 0),
     sy_time = (\<lambda>w. JFloat 0 ''0.0''), sy_monotonic = (\<lambda>w. 0), sy_signal = (\<lambda>w. None)\<rparr>"

text \<open>A Python that knows two scripts: one that asks, one that reads its working directory and gives it as its
  verdict.\<close>

definition fx_python :: "unit python" where
  "fx_python = \<lparr>py_statements = (\<lambda>x. Some (length x)),
     py_program = (\<lambda>x. if x = ''ask'' then Call (Ask ''ok?'' [''y'', ''n'']) (\<lambda>r. case r of Raised (AskExit a) \<Rightarrow> Raise (AskExit a) | _ \<Rightarrow> Done)
       else Raw (\<lambda>(c, p). (path_str (cx_cwd c), c, p)) (\<lambda>found. Call (Verdict found []) (\<lambda>r. Done)))\<rparr>"

lemma fx_scripts [simp]: "orderly (py_program fx_python x)" "calm (py_program fx_python x)"
proof -
  have "\<exists>w. p = p\<lparr>pr_world := w\<rparr>" for p :: "unit process" by (rule exI [of _ "pr_world p"]) simp
  then show "orderly (py_program fx_python x)" "calm (py_program fx_python x)"
    by (auto simp: fx_python_def split: helper_reply.split pyexn.split)
qed

definition fx_dir :: ppath where
  "fx_dir = \<lparr>pp_root = ''/'', pp_parts = [''w'']\<rparr>"

definition fx_process :: "unit process" where
  "fx_process = \<lparr>pr_files = [(path_div fx_dir FENCE_MARKER_FILENAME, Text [])], pr_dirs = [fx_dir], pr_cwd = fx_dir,
     pr_out = [], pr_ids = 0, pr_world = ()\<rparr>"

definition fx_args :: "environ \<Rightarrow> run_args" where
  "fx_args env = facade_args ''ask'' (ClaudeCodeWire ''json'') (Some ''s1'') False env"

theorem fence_refuses_everything_witness:
  "dispatch fx_system fx_python (fx_args []) fx_process = (Exit 2, fx_process)"
proof -
  have "\<not> (dget (ra_env (fx_args [])) ''BLIZZARD_MOCK_HARNESS_FENCE'' = Some ''1'' \<and>
      (\<exists>d \<in> set (fx_dir # path_parents fx_dir). is_file fx_process (path_div d ''.blizzard-mock-harness-fence'')))"
    by (simp add: fx_args_def facade_args_def)
  moreover have "turn_cwd (fx_args []) fx_process = fx_dir"
    by (simp add: turn_cwd_def fx_args_def facade_args_def acquired_worktree_def dget_or_def fx_process_def strip_def)
  ultimately show ?thesis using fence_refuses_everything [of "fx_args []" fx_process fx_dir fx_system fx_python] by blast
qed

text \<open>C11. What a turn leaves is what the next one finds. For a facade that keeps no export document (any but
  OpenCode's), and a script that changes the harness's state and files through the helpers alone: a turn that
  ends stores the session it opened, one turn and one launch record longer, its questions and verdicts only
  added to; and a later resume of that session reads back exactly that: the question asked last, every
  verdict, and the resume's own message as the answer. (A script is Python and could reach around the helpers,
  into the live session or its file; what it then finds is its own affair.)\<close>

theorem session_survives_the_turn:
  assumes "run_prompt \<S> py a p = (Exit n, p')" and "claude_like a"
    and "\<forall>x \<in> scripts_of py a. orderly (py_program py x)"
  shows "let dir = state_root p (ra_env a) (turn_cwd a p);
      message = turn_message (ra_prompt a) (choose_script py (ra_whole_message a) (ra_prompt a))
    in \<exists>sid s0 s. load_or_create \<S> dir sid p = Inr s0 \<and> follows a message s0 s \<and>
      (\<forall>b m. ra_is_resume b \<and> ra_session_id b = Some (ss_session_id s0) \<and> ss_session_id s0 \<noteq> [] \<longrightarrow>
        (\<exists>s'. open_session \<S> b m dir p' = (Inr (ss_session_id s0, s'), p') \<and> last_ask s' = last_ask s
           \<and> ss_verdicts s' = ss_verdicts s \<and> last_answer s' = Some m \<and> ss_turns s' = ss_turns s))"
proof -
  obtain sid s0 s where "load_or_create \<S> (state_root p (ra_env a) (turn_cwd a p)) sid p = Inr s0"
      and load: "load_or_create \<S> (state_root p (ra_env a) (turn_cwd a p)) (ss_session_id s0) p' = Inr s"
      and "follows a (turn_message (ra_prompt a) (choose_script py (ra_whole_message a) (ra_prompt a))) s0 s"
    using turn_outcome [OF assms] by metis
  moreover have "\<exists>s'. open_session \<S> b m (state_root p (ra_env a) (turn_cwd a p)) p' = (Inr (ss_session_id s0, s'), p')
      \<and> last_ask s' = last_ask s \<and> ss_verdicts s' = ss_verdicts s \<and> last_answer s' = Some m \<and> ss_turns s' = ss_turns s"
    if "ra_is_resume b" "ra_session_id b = Some (ss_session_id s0)" "ss_session_id s0 \<noteq> []" for b m
    using that load
    by (auto simp: open_session_def truthy_def resume_state_def last_ask_def last_answer_def Let_def)
  ultimately show ?thesis by (metis (no_types, lifting))
qed

definition fx_fence :: environ where
  "fx_fence = [(FENCE_ENV_VAR, ''1'')]"

definition fx_ask_args :: run_args where
  "fx_ask_args = (fx_args fx_fence)\<lparr>ra_wire := None\<rparr>"

theorem session_survives_the_turn_witness:
  "\<exists>sid s0 s. load_or_create fx_system (state_root fx_process fx_fence fx_dir) sid fx_process = Inr s0 \<and> follows fx_ask_args ''ask'' s0 s"
proof -
  have "fst (run_prompt fx_system fx_python fx_ask_args fx_process) = Exit 0" by code_simp
  then obtain p' where run: "run_prompt fx_system fx_python fx_ask_args fx_process = (Exit 0, p')" by (metis prod.collapse)
  have a: "claude_like fx_ask_args" "ra_env fx_ask_args = fx_fence" "turn_cwd fx_ask_args fx_process = fx_dir"
      "turn_message (ra_prompt fx_ask_args) (choose_script fx_python (ra_whole_message fx_ask_args) (ra_prompt fx_ask_args)) = ''ask''"
    by (simp add: claude_like_def fx_ask_args_def fx_args_def facade_args_def, code_simp+)
  from session_survives_the_turn [OF run a(1)] fx_scripts show ?thesis unfolding a Let_def by blast
qed

text \<open>C28. A JSON turn of \<^verbatim>\<open>mock-claude-code\<close> inside the fence prints exactly one line, the result envelope
  of its session, whose turn number is the one stored; it reports an error exactly when the process
  exits with 1, and it exits with 0 otherwise. The script the turn runs is one that does not exit by itself
  and that leaves the printing, and the harness's state and files, to the helpers.\<close>

theorem claude_prints_one_envelope:
  assumes "dispatch \<S> py (claude_run_args args script env p) p = (Exit n, p')" and "ca_output_format args = ''json''"
    and "is_fenced p (acquired_worktree p env (pr_cwd p)) env"
    and "\<forall>x \<in> scripts_of py (claude_run_args args script env p). calm (py_program py x) \<and> orderly (py_program py x)"
  shows "\<exists>r s. pr_out p' = pr_out p @ [OutJson (claude_envelope r)] \<and> rr_num_turns r = ss_turns s
    \<and> load_or_create \<S> (state_root p env (acquired_worktree p env (pr_cwd p))) (ss_session_id s) p' = Inr s
    \<and> (rr_is_error r \<longleftrightarrow> n = 1) \<and> n \<in> {0, 1}"
proof -
  let ?a = "claude_run_args args script env p"
  have a: "turn_cwd ?a p = acquired_worktree p env (pr_cwd p)" "ra_env ?a = env"
      "ra_wire ?a = Some (ClaudeCodeWire ''json'')" "claude_like ?a"
    using assms(2)
    by (auto simp: claude_run_args_def facade_args_def turn_cwd_def claude_like_def build_transcript_writer_def Let_def)
  have run: "run_prompt \<S> py ?a p = (Exit n, p')"
  proof (cases "run_prompt \<S> py ?a p")
    case (Pair r q)
    have "r \<noteq> Fails (FenceError e)" for e
      using fenced_never_refused [of p ?a \<S> py e] assms(3) a by (simp add: Pair)
    then show ?thesis using assms(1) Pair by (auto simp: dispatch_def split: turn_end.splits failure.splits)
  qed
  show ?thesis
  proof (rule turn_outcome [OF run a(4)])
    show "\<forall>x \<in> scripts_of py ?a. orderly (py_program py x)" using assms(4) by blast
  next
    fix sid s0 s
    assume load: "load_or_create \<S> (state_root p (ra_env ?a) (turn_cwd ?a p)) (ss_session_id s0) p' = Inr s"
      and "follows ?a (turn_message (ra_prompt ?a) (choose_script py (ra_whole_message ?a) (ra_prompt ?a))) s0 s"
      and one: "\<not> carries_opencode_wire_events (case ra_wire ?a of Some w \<Rightarrow> w | None \<Rightarrow> PlainTextWire) \<Longrightarrow>
        \<forall>x \<in> scripts_of py ?a. calm (py_program py x) \<Longrightarrow>
        (\<exists>r q. rr_session_id r = sid \<and> rr_num_turns r = ss_turns s \<and> rr_exit_code r = n \<and> (rr_is_error r \<longleftrightarrow> n = 1)
           \<and> n \<in> {0, 1} \<and> pr_out p' = pr_out p @ fst (render \<S> (case ra_wire ?a of Some w \<Rightarrow> w | None \<Rightarrow> PlainTextWire) r q))"
    then have "ss_session_id s = ss_session_id s0" by (simp add: follows_def)
    moreover obtain r q where "rr_num_turns r = ss_turns s" "rr_is_error r \<longleftrightarrow> n = 1" "n \<in> {0, 1}"
        "pr_out p' = pr_out p @ fst (render \<S> (ClaudeCodeWire ''json'') r q)"
      using one assms(4) unfolding a by auto
    ultimately show ?thesis using load unfolding a by (intro exI [of _ r] exI [of _ s]) (simp add: render_def)
  qed
qed

definition fx_claude :: claude_args where
  "fx_claude = \<lparr>ca_prompt = None, ca_output_format = ''json'', ca_session_id = None, ca_resume = None, ca_settings = None,
     ca_model = None, ca_effort = None, ca_compaction_window = None\<rparr>"

text \<open>The steps of a turn whose script finishes.\<close>

lemma run_prompt_finished:
  assumes "is_fenced p (turn_cwd a p) (ra_env a)"
    and "open_session \<S> a (turn_message (ra_prompt a) (choose_script py (ra_whole_message a) (ra_prompt a)))
      (state_root p (ra_env a) (turn_cwd a p)) p = (Inr (sid, s), p1)"
    and "ra_transcript a = None" and "ra_factory a = None" and "ra_wire a = Some w" and "\<not> carries_opencode_wire_events w"
    and "exec_script \<S> py (selftest_script (ra_is_resume a) (count_turn a s) (choose_script py (ra_whole_message a) (ra_prompt a)))
      (turn_context a w (turn_cwd a p) (state_root p (ra_env a) (turn_cwd a p))
         (turn_message (ra_prompt a) (choose_script py (ra_whole_message a) (ra_prompt a))) (count_turn a s) None)
      (store_save (state_root p (ra_env a) (turn_cwd a p)) (count_turn a s) p1) = (Finished, c, q)"
  shows "\<exists>p'. run_prompt \<S> py a p = (Exit (rr_exit_code (staged_or c (run_result sid ''success'' []))), p')"
proof -
  have "stream_identity \<S> sid x y = (x, y)" if "cx_wire x = w" for x and y :: "'a process"
    using that assms(6) by (cases w) (simp_all add: stream_identity_def render_identity_def print_lines_def)
  with assms show ?thesis
    by (simp add: run_prompt_def assert_fenced_iff [THEN iffD2] run_turn_def turn_transcript_def open_transcript_def turn_context_def
        end_turn_def Let_def)
qed

abbreviation fx_json_args :: run_args where
  "fx_json_args \<equiv> claude_run_args fx_claude ''ok'' fx_fence fx_process"

definition fx_opened :: "session_state \<times> unit process" where
  "fx_opened = (case open_session fx_system fx_json_args ''ok'' (state_root fx_process fx_fence fx_dir) fx_process of
     (Inr (sid, s), p) \<Rightarrow> (s, p) | (Inl f, p) \<Rightarrow> (new_session [], p))"

definition fx_ran :: "script_end \<times> run_context \<times> unit process" where
  "fx_ran = exec_script fx_system fx_python
     (selftest_script False (count_turn fx_json_args (fst fx_opened)) (choose_script fx_python False ''ok''))
     (turn_context fx_json_args (ClaudeCodeWire ''json'') fx_dir (state_root fx_process fx_fence fx_dir) ''ok''
        (count_turn fx_json_args (fst fx_opened)) None)
     (store_save (state_root fx_process fx_fence fx_dir) (count_turn fx_json_args (fst fx_opened)) (snd fx_opened))"

theorem claude_prints_one_envelope_witness:
  "\<exists>p' r. dispatch fx_system fx_python fx_json_args fx_process = (Exit 0, p') \<and> pr_out p' = [OutJson (claude_envelope r)]
     \<and> \<not> rr_is_error r"
proof -
  have worktree: "acquired_worktree fx_process fx_fence (pr_cwd fx_process) = fx_dir" by code_simp
  have args: "turn_cwd fx_json_args fx_process = fx_dir" "ra_env fx_json_args = fx_fence" "ra_prompt fx_json_args = ''ok''"
      "ra_whole_message fx_json_args = False" "ra_is_resume fx_json_args = False" "ra_transcript fx_json_args = None"
      "ra_factory fx_json_args = None" "ra_wire fx_json_args = Some (ClaudeCodeWire ''json'')"
    by (simp_all add: claude_run_args_def facade_args_def fx_claude_def build_transcript_writer_def truthy_def Let_def
        turn_cwd_def worktree)
  have message: "turn_message ''ok'' (choose_script fx_python False ''ok'') = ''ok''" by code_simp
  have fenced: "is_fenced fx_process fx_dir fx_fence" by code_simp
  have opn: "open_session fx_system fx_json_args ''ok'' (state_root fx_process fx_fence fx_dir) fx_process
      = (Inr (dashed ''0'', fst fx_opened), snd fx_opened)" by code_simp
  have "fst fx_ran = Finished" and code: "rr_exit_code (staged_or (fst (snd fx_ran)) (run_result (dashed ''0'') ''success'' [])) = 0"
    by code_simp+
  then have ran: "fx_ran = (Finished, fst (snd fx_ran), snd (snd fx_ran))" by (metis prod.collapse)
  from run_prompt_finished [of fx_process fx_json_args fx_system fx_python "dashed ''0''" "fst fx_opened" "snd fx_opened"
      "ClaudeCodeWire ''json''" "fst (snd fx_ran)" "snd (snd fx_ran)", unfolded args message, OF fenced opn] ran code
  obtain p' where run: "run_prompt fx_system fx_python fx_json_args fx_process = (Exit 0, p')"
    by (auto simp: fx_ran_def args)
  then have disp: "dispatch fx_system fx_python fx_json_args fx_process = (Exit 0, p')" by (simp add: dispatch_def)
  from claude_prints_one_envelope [OF disp] fx_scripts fenced worktree obtain r where
      "pr_out p' = pr_out fx_process @ [OutJson (claude_envelope r)]" "\<not> rr_is_error r"
    by (auto simp: fx_claude_def)
  with disp show ?thesis by (auto simp: fx_process_def)
qed

text \<open>C22. A prompt is read by its layout, and every prompt is either a layout of prose and blocks or is refused
  for its delimiter lines. Of a layout: with no block it is left whole; with blocks that are all blank it is
  refused as empty; otherwise the script is the blocks, each dedented, joined
  by newlines, and the prose is the other lines, with three or more newlines in a row squeezed to two and the
  ends stripped. Only a blank block counts as empty: one that holds nothing but comments is a script, which
  runs as a turn that does nothing.\<close>

theorem prompt_is_read_by_its_layout:
  assumes "list_all segment_ok segs" and "list_all unbroken (layout_lines segs)"
  shows "split_behavior_script (prompt_text (layout_lines segs)) = layout_result segs \<and>
    ((\<exists>other. list_all segment_ok other \<and> splitlines prompt = layout_lines other
        \<and> split_behavior_script prompt = layout_result other) \<or>
     (\<nexists>other. list_all segment_ok other \<and> splitlines prompt = layout_lines other)
        \<and> (\<exists>e. split_behavior_script prompt = Inl e))"
proof -
  have "splitlines (prompt_text (layout_lines segs)) = layout_lines segs"
    using splitlines_lines [OF assms(2)] by (simp add: prompt_text_def)
  with split_layout [OF assms(1)] split_behavior_script_cases [of prompt] show ?thesis by auto
qed

text \<open>A block of comments is no blank block: it becomes the script.\<close>

lemma comment_block_is_a_script:
  "split_behavior_script (prompt_text [''<behavior-script>'', ''# nothing'', ''</behavior-script>'']) =
     Inr (Some \<lparr>tp_script = ''# nothing'', tp_prose = []\<rparr>)"
  by code_simp

definition fx_layout :: "segment list" where
  "fx_layout = [Prose [''Fix it.''], Block ''<behavior-script>'' [''  a = 1'', ''    b''] '' </behavior-script>'', Prose [''Thanks'']]"

theorem prompt_is_read_by_its_layout_witness:
  "split_behavior_script (prompt_text (layout_lines fx_layout)) =
     Inr (Some \<lparr>tp_script = ''a = 1'' @ newline @ ''  b'', tp_prose = ''Fix it.'' @ newline @ ''Thanks''\<rparr>)"
proof -
  have "list_all segment_ok fx_layout" "list_all unbroken (layout_lines fx_layout)"
    and result: "layout_result fx_layout =
      Inr (Some \<lparr>tp_script = ''a = 1'' @ newline @ ''  b'', tp_prose = ''Fix it.'' @ newline @ ''Thanks''\<rparr>)"
    by code_simp+
  from prompt_is_read_by_its_layout [OF this(1,2)] result show ?thesis by simp
qed

end
