(* ===== verification/Oc2_Rules.thy ===== *)
theory Oc2_Rules
  imports Json_Values
begin

text \<open>
  The pure part of the OpenCode 2 service of the harness (\<^verbatim>\<open>harness/opencode2_core/domain/rules.py\<close>,
  \<^verbatim>\<open>domain/records.py\<close>, \<^verbatim>\<open>levers.py\<close>): permission rules, the model listing, usage, and levers. The lemmas show
  that the matcher accepts exactly the texts of a pattern, and that the last matching rule decides.
\<close>

section \<open>Levers\<close>

datatype oc2_lever =
    NEVER_REGISTERED
  | NEVER_ANSWERS
  | VERSION_MISMATCH
  | EVENTS_DROPPED
  | INTERRUPT_IGNORED
  | RESTARTS_MID_TURN
  | DISTORTED_SHAPES
  | UNKNOWN_PART_TYPES
  | NO_PRICES

definition oc2_levers :: "(string \<times> oc2_lever) list" where
  "oc2_levers =
     [(''NEVER_REGISTERED'', NEVER_REGISTERED), (''NEVER_ANSWERS'', NEVER_ANSWERS), (''VERSION_MISMATCH'', VERSION_MISMATCH),
      (''EVENTS_DROPPED'', EVENTS_DROPPED), (''INTERRUPT_IGNORED'', INTERRUPT_IGNORED),
      (''RESTARTS_MID_TURN'', RESTARTS_MID_TURN), (''DISTORTED_SHAPES'', DISTORTED_SHAPES),
      (''UNKNOWN_PART_TYPES'', UNKNOWN_PART_TYPES), (''NO_PRICES'', NO_PRICES)]"

text \<open>\<^verbatim>\<open>parse\<close>: the levers named, or the names that are none (the message lists them sorted).\<close>

definition parse_levers :: "string list \<Rightarrow> string list + oc2_lever list" where
  "parse_levers names =
     (let bad = dedup (filter (\<lambda>n. dget oc2_levers n = None) names)
      in if bad \<noteq> [] then Inl bad else Inr (dedup (map (\<lambda>n. the (dget oc2_levers n)) names)))"

section \<open>Permission rules\<close>

text \<open>\<^verbatim>\<open>wildcard\<close>: a star stands for any text, a question mark for one character (here one byte,
  which is the same in ASCII texts).\<close>

fun wildcard :: "string \<Rightarrow> string \<Rightarrow> bool" where
  "wildcard [] s \<longleftrightarrow> s = []"
| "wildcard (c # p) [] \<longleftrightarrow> c = CHR ''*'' \<and> wildcard p []"
| "wildcard (c # p) (x # s) \<longleftrightarrow>
     (if c = CHR ''*'' then wildcard p (x # s) \<or> wildcard (c # p) s
      else (c = CHR ''?'' \<or> c = x) \<and> wildcard p s)"

definition rule_text :: "payload \<Rightarrow> string \<Rightarrow> string" where
  "rule_text rule k = get_str rule k []"

definition rule_matches :: "string \<Rightarrow> string \<Rightarrow> payload \<Rightarrow> bool" where
  "rule_matches action resource rule \<longleftrightarrow>
     wildcard (rule_text rule ''action'') action \<and> wildcard (rule_text rule ''resource'') resource"

definition rule_effect :: "payload \<Rightarrow> string" where
  "rule_effect rule = get_str rule ''effect'' ''allow''"

fun evaluate_from :: "string \<Rightarrow> payload list \<Rightarrow> string \<Rightarrow> string \<Rightarrow> string" where
  "evaluate_from eff [] action resource = eff"
| "evaluate_from eff (r # rs) action resource =
     evaluate_from (if rule_matches action resource r then rule_effect r else eff) rs action resource"

definition evaluate :: "payload list \<Rightarrow> string \<Rightarrow> string \<Rightarrow> string" where
  "evaluate rules action resource = evaluate_from ''allow'' rules action resource"

definition tool_withheld :: "payload list \<Rightarrow> string \<Rightarrow> bool" where
  "tool_withheld rules tool =
     (let matching = filter (\<lambda>r. wildcard (rule_text r ''action'') tool) rules
      in matching \<noteq> [] \<and> dget (last matching) ''resource'' = Some (JStr ''*'')
         \<and> dget (last matching) ''effect'' = Some (JStr ''deny''))"

definition save_pattern :: "string \<Rightarrow> string" where
  "save_pattern command = before_blank command @ '' *''"

section \<open>Models and usage\<close>

definition DEFAULT_MODEL :: payload where
  "DEFAULT_MODEL = [(''providerID'', JStr ''opencode''), (''id'', JStr ''pulse-alpha-free'')]"

definition MODELS :: "(string \<times> string \<times> string \<times> string list \<times> bool) list" where
  "MODELS =
     [(''opencode'', ''pulse-alpha-free'', ''Pulse Alpha Free'', [''low'', ''high'', ''max''], False),
      (''openai'', ''gpt-6-luna'', ''GPT-6 Luna'', [''none'', ''low'', ''medium'', ''high'', ''xhigh''], True),
      (''openai'', ''gpt-6.1-terra'', ''GPT-6.1 Terra'', [''low'', ''medium'', ''high''], True)]"

text \<open>\<^verbatim>\<open>str\<close> of a value read with \<^verbatim>\<open>get\<close>: \<^verbatim>\<open>None\<close> where the key is absent.\<close>

definition shown :: "payload \<Rightarrow> string \<Rightarrow> string" where
  "shown m k = get_str m k ''None''"

definition no_route :: "string \<Rightarrow> payload" where
  "no_route message = [(''type'', JStr ''provider.no-route''), (''message'', JStr message)]"

definition route_error :: "payload \<Rightarrow> payload option" where
  "route_error model =
     (case find (\<lambda>(p, i, _). dget model ''providerID'' = Some (JStr p) \<and> dget model ''id'' = Some (JStr i)) MODELS of
        None \<Rightarrow> Some (no_route (''Model unavailable: '' @ shown model ''providerID'' @ ''/'' @ shown model ''id''))
      | Some (_, _, _, variants, _) \<Rightarrow>
          (case dget model ''variant'' of
             None \<Rightarrow> None
           | Some JNull \<Rightarrow> None
           | Some v \<Rightarrow>
               if v \<in> JStr ` set variants then None
               else Some (no_route (''Variant unavailable for '' @ shown model ''providerID'' @ ''/'' @ shown model ''id''
                      @ '': '' @ json_str v))))"

definition free_price :: json where
  "free_price = JObj [(''input'', JInt 0), (''output'', JInt 0), (''cache'', JObj [(''read'', JInt 0), (''write'', JInt 0)])]"

definition paid_price :: json where
  "paid_price = JObj [(''input'', JFloat (5 / 4) ''1.25''), (''output'', JFloat 10 ''10.0''),
     (''cache'', JObj [(''read'', JFloat (1 / 8) ''0.125''), (''write'', JInt 0)])]"

definition model_entry :: "bool \<Rightarrow> string \<times> string \<times> string \<times> string list \<times> bool \<Rightarrow> json" where
  "model_entry priced m =
     (case m of (provider, model_id, name, variants, paid) \<Rightarrow> JObj
        [(''id'', JStr model_id), (''modelID'', JStr model_id), (''providerID'', JStr provider), (''name'', JStr name),
         (''enabled'', JBool True), (''status'', JStr ''active''),
         (''capabilities'', JObj [(''input'', JList [JStr ''text'']), (''output'', JList [JStr ''text'']),
            (''temperature'', JBool False), (''tools'', JBool True)]),
         (''limit'', JObj [(''context'', JInt 400000), (''output'', JInt 128000)]),
         (''cost'', JList (if \<not> priced then [] else if paid then [paid_price] else [free_price])),
         (''variants'', JList (map (\<lambda>v. JObj [(''id'', JStr v)]) variants))])"

definition model_listing :: "bool \<Rightarrow> json list" where
  "model_listing priced = map (model_entry priced) MODELS"

text \<open>Token counts of one step and its cost; the cost is a float whose printed text is not kept apart from
  its value (an argument gives it).\<close>

definition step_tokens :: "nat \<Rightarrow> nat \<Rightarrow> payload" where
  "step_tokens prompt_length reply_length =
     [(''input'', JInt (4700 + int prompt_length div 4)), (''output'', JInt (10 + int reply_length div 4)),
      (''reasoning'', JInt 0), (''cache'', JObj [(''read'', JInt 0), (''write'', JInt 0)])]"

definition step_cost :: "(rat \<Rightarrow> string) \<Rightarrow> payload \<Rightarrow> nat \<Rightarrow> nat \<Rightarrow> json" where
  "step_cost float_text model prompt_length reply_length =
     (if list_ex (\<lambda>(p, i, _, _, paid). dget model ''providerID'' = Some (JStr p) \<and> dget model ''id'' = Some (JStr i) \<and> paid) MODELS
      then let v = (of_int (4700 + int prompt_length div 4) * (5 / 4) + of_int (10 + int reply_length div 4) * 10) / 1000000
           in JFloat v (float_text v)
      else JInt 0)"

section \<open>Lemmas\<close>

text \<open>The texts of a pattern, said without a matcher.\<close>

inductive denotes :: "string \<Rightarrow> string \<Rightarrow> bool" where
  empty: "denotes [] []"
| star: "denotes p s \<Longrightarrow> denotes (CHR ''*'' # p) (u @ s)"
| any: "denotes p s \<Longrightarrow> denotes (CHR ''?'' # p) (x # s)"
| same: "denotes p s \<Longrightarrow> c \<noteq> CHR ''*'' \<Longrightarrow> denotes (c # p) (c # s)"

inductive_cases denotes_NilE [elim!]: "denotes [] s"
inductive_cases denotes_ConsE [elim!]: "denotes (c # p) s"

lemma wildcard_star_append: "wildcard p s \<Longrightarrow> wildcard (CHR ''*'' # p) (u @ s)"
proof (induction u)
  case Nil
  then show ?case by (cases s) auto
qed auto

lemma wildcard_denotes: "wildcard p s \<longleftrightarrow> denotes p s"
proof
  show "wildcard p s \<Longrightarrow> denotes p s"
  proof (induction p s rule: wildcard.induct)
    case (2 c p)
    then show ?case using denotes.star [of p "[]" "[]"] by auto
  next
    case (3 c p x s)
    show ?case
    proof (cases "c = CHR ''*''")
      case True
      with 3 consider "denotes p (x # s)" | "denotes (c # p) s" by (auto split: if_splits)
      then show ?thesis
      proof cases
        case 1
        from denotes.star [OF this, of "[]"] True show ?thesis by simp
      next
        case 2
        with True obtain u t where "denotes p t" "s = u @ t" by auto
        with denotes.star [of p t "x # u"] True show ?thesis by simp
      qed
    next
      case False
      with 3 show ?thesis by (auto intro: denotes.any denotes.same split: if_splits)
    qed
  qed (auto intro: denotes.empty)
next
  show "denotes p s \<Longrightarrow> wildcard p s"
    by (induction rule: denotes.induct) (auto intro: wildcard_star_append)
qed

lemma evaluate_last:
  "evaluate rules action resource =
     (case filter (rule_matches action resource) rules of [] \<Rightarrow> ''allow'' | r # rs \<Rightarrow> rule_effect (last (r # rs)))"
proof -
  have "evaluate_from eff rules action resource =
      (if filter (rule_matches action resource) rules = [] then eff
       else rule_effect (last (filter (rule_matches action resource) rules)))" for eff
    by (induction rules arbitrary: eff) auto
  then show ?thesis by (auto simp: evaluate_def split: list.split)
qed

lemma evaluate_snoc:
  "evaluate (rules @ [r]) action resource =
     (if rule_matches action resource r then rule_effect r else evaluate rules action resource)"
proof -
  have "evaluate_from eff (rules @ [r]) action resource =
      (if rule_matches action resource r then rule_effect r else evaluate_from eff rules action resource)" for eff
    by (induction rules arbitrary: eff) auto
  then show ?thesis by (simp add: evaluate_def)
qed

end
