(* ===== verification/Oc2_Sessions.thy ===== *)
theory Oc2_Sessions
  imports Oc2_Rules
begin

text \<open>
  The sessions of the OpenCode 2 service (\<^verbatim>\<open>harness/opencode2_core/internal/sessions.py\<close>). A session is an
  object: requests find it under its id, while its worker thread holds on to it, so the engine keeps a
  heap of sessions by address and a table from ids to addresses. Messages are only ever appended to a
  session and parts to a message, so a step or a tool part that Python holds a reference to is its
  position. Every definition is one section the code runs under its lock, with the events it publishes
  right after; what waits or runs several sections is put together in \<open>Oc2_Workers\<close>. \<^verbatim>\<open>None\<close> as the result of
  an operation that walks the tree of children is a walk that does not end.
\<close>

section \<open>Objects\<close>

record oc2_env =
  v_now :: int
  v_mint :: "string \<Rightarrow> nat \<Rightarrow> string"
  v_float :: "rat \<Rightarrow> string"
  v_cwd :: string
  v_title :: string

record oc2_ask =
  oq_request :: payload
  oq_answered :: bool
  oq_decision :: "string option"
  oq_message :: "string option"

record oc2_form =
  fm_record :: payload
  fm_settled :: bool

record oc2_session =
  os_id :: string
  os_directory :: string
  os_metadata :: payload
  os_permissions :: "payload list"
  os_model :: "payload option"
  os_title :: "string option"
  os_agent :: "string option"
  os_parent :: "string option"
  os_created :: int
  os_updated :: int
  os_idle_at :: "int option"
  os_outcome :: "string option"
  os_messages :: "payload list"
  os_running :: bool
  os_current :: "string option"
  os_environment :: "(string, string) dict option"
  os_pending :: "(string \<times> string) list"
  os_inbox :: "payload list"
  os_asks :: "(string, oc2_ask) dict"
  os_forms :: "(string, oc2_form) dict"
  os_cancel :: bool
  os_holder :: "nat option"

record oc2 =
  oe_levers :: "oc2_lever list"
  oe_sessions :: "(string, nat) dict"
  oe_heap :: "(nat, oc2_session) dict"
  oe_next :: nat
  oe_subscribers :: "(nat \<times> json list) list"
  oe_seq :: int
  oe_owners :: "(string, string) dict"
  oe_restarted :: bool
  oe_halted :: bool
  oe_restarts :: nat
  oe_store :: "json option"
  oe_minted :: nat
  oe_killed :: "nat list"
  oe_spawned :: "(nat \<times> bool) list"

datatype oc2_error =
    SessionNotFoundError string
  | NotFoundError string
  | InvalidCursorError string
  | ConflictError string
  | OcValueError string

definition session_at :: "oc2 \<Rightarrow> nat \<Rightarrow> oc2_session option" where
  "session_at e a = dget (oe_heap e) a"

definition on_session :: "nat \<Rightarrow> (oc2_session \<Rightarrow> oc2_session) \<Rightarrow> oc2 \<Rightarrow> oc2" where
  "on_session a f e =
     (case session_at e a of None \<Rightarrow> e | Some s \<Rightarrow> e\<lparr>oe_heap := dset a (f s) (oe_heap e)\<rparr>)"

definition oc2_id :: "oc2_env \<Rightarrow> string \<Rightarrow> oc2 \<Rightarrow> string \<times> oc2" where
  "oc2_id v pre e = (v_mint v pre (oe_minted e), e\<lparr>oe_minted := Suc (oe_minted e)\<rparr>)"

section \<open>Values\<close>

definition sub_obj :: "payload \<Rightarrow> string \<Rightarrow> payload" where
  "sub_obj m k = (case dget m k of Some (JObj kvs) \<Rightarrow> kvs | _ \<Rightarrow> [])"

definition on_sub :: "string \<Rightarrow> (payload \<Rightarrow> payload) \<Rightarrow> payload \<Rightarrow> payload" where
  "on_sub k f m = dset k (JObj (f (sub_obj m k))) m"

definition content_of :: "payload \<Rightarrow> payload list" where
  "content_of m =
     (case dget m ''content'' of
        Some (JList xs) \<Rightarrow> map (\<lambda>j. case j of JObj kvs \<Rightarrow> kvs | _ \<Rightarrow> []) xs | _ \<Rightarrow> [])"

definition set_content :: "payload list \<Rightarrow> payload \<Rightarrow> payload" where
  "set_content ps m = dset ''content'' (JList (map JObj ps)) m"

definition update_all :: "payload \<Rightarrow> payload \<Rightarrow> payload" where
  "update_all kvs m = fold (\<lambda>(k, v). dset k v) kvs m"

definition type_of :: "payload \<Rightarrow> string" where
  "type_of m = (case dget m ''type'' of Some (JStr s) \<Rightarrow> s | _ \<Rightarrow> [])"

definition now_field :: "oc2_env \<Rightarrow> payload" where
  "now_field v = [(''time'', JObj [(''created'', JInt (v_now v))])]"

definition json_object :: "json option \<Rightarrow> payload" where
  "json_object j = (case j of Some (JObj kvs) \<Rightarrow> kvs | _ \<Rightarrow> [])"

definition json_objects :: "json option \<Rightarrow> payload list" where
  "json_objects j =
     (case j of Some (JList xs) \<Rightarrow> concat (map (\<lambda>x. case x of JObj kvs \<Rightarrow> [kvs] | _ \<Rightarrow> []) xs) | _ \<Rightarrow> [])"

definition count_of :: "json option \<Rightarrow> int" where
  "count_of j = (case j of Some (JInt i) \<Rightarrow> i | Some (JBool b) \<Rightarrow> (if b then 1 else 0) | _ \<Rightarrow> 0)"

definition spent_of :: "json option \<Rightarrow> rat" where
  "spent_of j = (case j of Some (JInt i) \<Rightarrow> of_int i | Some (JFloat r _) \<Rightarrow> r | Some (JBool b) \<Rightarrow> (if b then 1 else 0) | _ \<Rightarrow> 0)"

text \<open>A field of a body that is neither absent nor null, as text.\<close>

definition given_text :: "payload \<Rightarrow> string \<Rightarrow> string option" where
  "given_text body k = get_optional_text body k"

section \<open>The record of a session\<close>

definition session_model :: "oc2_session \<Rightarrow> payload" where
  "session_model s = (case os_model s of Some m \<Rightarrow> m | None \<Rightarrow> DEFAULT_MODEL)"

definition billed :: "payload \<Rightarrow> bool" where
  "billed m \<longleftrightarrow> type_of m \<in> {''assistant'', ''compaction''} \<and> (case dget m ''tokens'' of Some (JObj _) \<Rightarrow> True | _ \<Rightarrow> False)"

definition token_total :: "string \<Rightarrow> payload list \<Rightarrow> int" where
  "token_total k ms = sum_list (map (\<lambda>m. count_of (dget (sub_obj m ''tokens'') k)) (filter billed ms))"

definition cache_total :: "string \<Rightarrow> payload list \<Rightarrow> int" where
  "cache_total k ms = sum_list (map (\<lambda>m. count_of (dget (sub_obj (sub_obj m ''tokens'') ''cache'') k)) (filter billed ms))"

definition cost_total :: "payload list \<Rightarrow> rat" where
  "cost_total ms = sum_list (map (\<lambda>m. spent_of (dget m ''cost'')) (filter billed ms))"

definition session_record :: "oc2_env \<Rightarrow> oc2_session \<Rightarrow> payload" where
  "session_record v s =
     [(''id'', JStr (os_id s)), (''projectID'', JStr ''global''), (''location'', JObj [(''directory'', JStr (os_directory s))]),
      (''metadata'', JObj (os_metadata s)), (''permissions'', JList (map JObj (os_permissions s))),
      (''model'', JObj (session_model s)), (''title'', opt_str (os_title s)),
      (''time'', JObj ([(''created'', JInt (os_created s)), (''updated'', JInt (os_updated s))]
                     @ (case os_idle_at s of None \<Rightarrow> [] | Some t \<Rightarrow> [(''idle'', JInt t)]))),
      (''tokens'', JObj [(''input'', JInt (token_total ''input'' (os_messages s))), (''output'', JInt (token_total ''output'' (os_messages s))),
                       (''reasoning'', JInt (token_total ''reasoning'' (os_messages s))),
                       (''cache'', JObj [(''read'', JInt (cache_total ''read'' (os_messages s))),
                                       (''write'', JInt (cache_total ''write'' (os_messages s)))])]),
      (''cost'', JFloat (cost_total (os_messages s)) (v_float v (cost_total (os_messages s))))]
     @ (case os_parent s of None \<Rightarrow> [] | Some p \<Rightarrow> [(''parentID'', JStr p)])
     @ (case os_outcome s of None \<Rightarrow> [] | Some x \<Rightarrow> [(''outcome'', JStr x)])
     @ (case os_agent s of None \<Rightarrow> [] | Some x \<Rightarrow> [(''agent'', JStr x)])"

definition session_stored :: "oc2_env \<Rightarrow> oc2_session \<Rightarrow> json" where
  "session_stored v s = JObj
     [(''record'', JObj (session_record v s)), (''messages'', JList (map JObj (os_messages s))),
      (''running'', JBool (os_running s)), (''current'', opt_str (os_current s))]"

definition held_sessions :: "oc2 \<Rightarrow> oc2_session list" where
  "held_sessions e = concat (map (\<lambda>(sid, a). case session_at e a of None \<Rightarrow> [] | Some s \<Rightarrow> [s]) (oe_sessions e))"

definition engine_save :: "oc2_env \<Rightarrow> oc2 \<Rightarrow> oc2" where
  "engine_save v e =
     e\<lparr>oe_store := Some (JObj [(''restarted_by_lever'', JBool (oe_restarted e)),
                              (''sessions'', JList (map (session_stored v) (held_sessions e)))])\<rparr>"

section \<open>Loading\<close>

text \<open>One stored session; \<open>None\<close> is a key the code reads with brackets and does not find.\<close>

definition stored_text :: "payload \<Rightarrow> string \<Rightarrow> string option" where
  "stored_text m k = (case dget m k of Some (JStr s) \<Rightarrow> Some s | _ \<Rightarrow> None)"

definition stored_int :: "payload \<Rightarrow> string \<Rightarrow> int option" where
  "stored_int m k = (case dget m k of Some (JInt i) \<Rightarrow> Some i | _ \<Rightarrow> None)"

definition loaded_session :: "payload \<Rightarrow> payload \<Rightarrow> string \<Rightarrow> string \<Rightarrow> int \<Rightarrow> int \<Rightarrow> oc2_session" where
  "loaded_session kvs r sid dir created updated =
     \<lparr>os_id = sid, os_directory = dir, os_metadata = json_object (dget r ''metadata''),
      os_permissions = json_objects (dget r ''permissions''),
      os_model = (case dget r ''model'' of Some (JObj m) \<Rightarrow> Some m | _ \<Rightarrow> None),
      os_title = get_optional_text r ''title'', os_agent = get_optional_text r ''agent'',
      os_parent = get_optional_text r ''parentID'', os_created = created, os_updated = updated,
      os_idle_at = stored_int (sub_obj r ''time'') ''idle'',
      os_outcome = get_optional_text r ''outcome'', os_messages = json_objects (dget kvs ''messages''),
      os_running = False, os_current = get_optional_text kvs ''current'', os_environment = None,
      os_pending = [], os_inbox = [], os_asks = [], os_forms = [], os_cancel = False, os_holder = None\<rparr>"

definition load_session :: "json \<Rightarrow> (oc2_session \<times> bool) option" where
  "load_session item =
     (let kvs = json_object (Some item); r = sub_obj kvs ''record'' in
      case (stored_text r ''id'', stored_text (sub_obj r ''location'') ''directory'', stored_int (sub_obj r ''time'') ''created'',
            stored_int (sub_obj r ''time'') ''updated'') of
        (Some sid, Some dir, Some created, Some updated) \<Rightarrow>
          Some (loaded_session kvs r sid dir created updated,
                case dget kvs ''running'' of Some j \<Rightarrow> json_truthy j | None \<Rightarrow> False)
      | _ \<Rightarrow> None)"

definition add_session :: "oc2_session \<Rightarrow> oc2 \<Rightarrow> nat \<times> oc2" where
  "add_session s e =
     (oe_next e, e\<lparr>oe_sessions := dset (os_id s) (oe_next e) (oe_sessions e), oe_heap := dset (oe_next e) s (oe_heap e),
                   oe_next := Suc (oe_next e)\<rparr>)"

fun load_sessions :: "json list \<Rightarrow> oc2 \<Rightarrow> (nat list \<times> oc2) option" where
  "load_sessions [] e = Some ([], e)"
| "load_sessions (j # js) e =
     (case load_session j of
        None \<Rightarrow> None
      | Some (s, running) \<Rightarrow>
          (case add_session s e of (a, e1) \<Rightarrow>
             map_option (\<lambda>(xs, e2). (if running then a # xs else xs, e2)) (load_sessions js e1)))"

definition new_engine :: "oc2_lever list \<Rightarrow> json option \<Rightarrow> nat \<Rightarrow> oc2" where
  "new_engine levers store minted =
     \<lparr>oe_levers = levers, oe_sessions = [], oe_heap = [], oe_next = 0, oe_subscribers = [], oe_seq = 0, oe_owners = [],
      oe_restarted = False, oe_halted = False, oe_restarts = 0, oe_store = store, oe_minted = minted, oe_killed = [],
      oe_spawned = []\<rparr>"

definition engine_load :: "oc2 \<Rightarrow> (nat list \<times> oc2) option" where
  "engine_load e =
     (case oe_store e of
        Some (JObj kvs) \<Rightarrow>
          load_sessions (case dget kvs ''sessions'' of Some (JList js) \<Rightarrow> js | _ \<Rightarrow> [])
            (e\<lparr>oe_restarted := (case dget kvs ''restarted_by_lever'' of Some j \<Rightarrow> json_truthy j | None \<Rightarrow> False)\<rparr>)
      | _ \<Rightarrow> Some ([], e))"

section \<open>Aborting a step\<close>

definition abort_part :: "string \<Rightarrow> payload \<Rightarrow> payload" where
  "abort_part message q =
     (if type_of q = ''tool'' \<and> dget (sub_obj q ''state'') ''status'' \<in> {Some (JStr ''running''), Some (JStr ''pending'')}
      then on_sub ''state'' (update_all [(''status'', JStr ''error''),
             (''error'', JObj [(''type'', JStr ''aborted''), (''message'', JStr message)])]) q
      else q)"

definition abort_assistant :: "oc2_env \<Rightarrow> string \<Rightarrow> payload \<Rightarrow> payload" where
  "abort_assistant v message m =
     on_sub ''time'' (dsetdefault ''completed'' (JInt (v_now v)))
       (update_all [(''error'', JObj [(''type'', JStr ''aborted''), (''message'', JStr ''Step interrupted'')]), (''finish'', JStr ''error'')]
          (if dget m ''content'' = None then m else set_content (map (abort_part message) (content_of m)) m))"

definition on_message :: "nat \<Rightarrow> (payload \<Rightarrow> payload) \<Rightarrow> oc2_session \<Rightarrow> oc2_session" where
  "on_message i f s =
     (if i < length (os_messages s) then s\<lparr>os_messages := (os_messages s)[i := f (os_messages s ! i)]\<rparr> else s)"

definition on_part :: "nat \<Rightarrow> nat \<Rightarrow> (payload \<Rightarrow> payload) \<Rightarrow> oc2_session \<Rightarrow> oc2_session" where
  "on_part i j f =
     on_message i (\<lambda>m. if j < length (content_of m) then set_content ((content_of m)[j := f (content_of m ! j)]) m else m)"

definition push :: "payload \<Rightarrow> oc2_session \<Rightarrow> oc2_session" where
  "push m s = s\<lparr>os_messages := os_messages s @ [m]\<rparr>"

text \<open>\<^verbatim>\<open>resume\<close>: each turn the last lifetime was running is aborted where it stood and its worker started.\<close>

definition resumed_session :: "oc2_env \<Rightarrow> oc2_session \<Rightarrow> oc2_session" where
  "resumed_session v s =
     s\<lparr>os_running := True,
       os_messages := map (\<lambda>m. if type_of m = ''assistant'' \<and> dget (sub_obj m ''time'') ''completed'' = None
         then abort_assistant v ''Tool execution interrupted'' m else m) (os_messages s)\<rparr>"

definition resume_one :: "oc2_env \<Rightarrow> nat \<Rightarrow> oc2 \<Rightarrow> oc2" where
  "resume_one v a e = (on_session a (resumed_session v) e)\<lparr>oe_spawned := oe_spawned e @ [(a, True)]\<rparr>"

section \<open>Events\<close>

definition publish :: "oc2_env \<Rightarrow> string \<Rightarrow> bool \<Rightarrow> bool \<Rightarrow> payload \<Rightarrow> oc2_session \<Rightarrow> oc2 \<Rightarrow> oc2" where
  "publish v kind durable located kvs s e =
     (case oc2_id v ''evt'' e of (i, e1) \<Rightarrow>
      let q = (if durable then oe_seq e1 + 1 else oe_seq e1);
          event = JObj ([(''id'', JStr i), (''type'', JStr kind), (''created'', JInt (v_now v)),
              (''data'', JObj (update_all kvs [(''sessionID'', JStr (os_id s))]))]
            @ (if located then [(''location'', JObj [(''directory'', JStr (os_directory s))])] else [])
            @ (if durable then [(''durable'', JObj [(''aggregateID'', JStr (os_id s)), (''seq'', JInt q), (''version'', JInt 1)])] else []))
      in e1\<lparr>oe_seq := q, oe_subscribers := map (\<lambda>(k, es). (k, es @ [event])) (oe_subscribers e1)\<rparr>)"

text \<open>An event about the session at an address, its fields read off the session as it is.\<close>

definition publish_at :: "oc2_env \<Rightarrow> string \<Rightarrow> bool \<Rightarrow> bool \<Rightarrow> (oc2_session \<Rightarrow> payload) \<Rightarrow> nat \<Rightarrow> oc2 \<Rightarrow> oc2" where
  "publish_at v kind durable located kvs a e =
     (case session_at e a of None \<Rightarrow> e | Some s \<Rightarrow> publish v kind durable located (kvs s) s e)"

definition subscribe :: "oc2 \<Rightarrow> nat \<times> oc2" where
  "subscribe e = (let k = Suc (fold max (map fst (oe_subscribers e)) 0)
     in (k, e\<lparr>oe_subscribers := oe_subscribers e @ [(k, [])]\<rparr>))"

definition unsubscribe :: "nat \<Rightarrow> oc2 \<Rightarrow> oc2" where
  "unsubscribe k e = e\<lparr>oe_subscribers := filter (\<lambda>q. fst q \<noteq> k) (oe_subscribers e)\<rparr>"

end
