(* ===== verification/Oc2_Engine.thy ===== *)
theory Oc2_Engine
  imports Oc2_Sessions
begin

text \<open>
  The operations a client of the OpenCode 2 service calls on its engine
  (\<^verbatim>\<open>harness/opencode2_core/internal/sessions.py\<close>). Each takes the engine's lock for its whole body, so each is
  one step. The walk of a session's children (\<^verbatim>\<open>_tree\<close>) is a loop over a list it extends, defined as a
  partial function: \<open>None\<close> is the walk that never ends, with the lock held.
\<close>

section \<open>Starting a worker\<close>

definition with_session :: "string \<Rightarrow> (nat \<Rightarrow> (oc2_error + 'a) \<times> oc2) \<Rightarrow> oc2 \<Rightarrow> (oc2_error + 'a) \<times> oc2" where
  "with_session sid k e =
     (case dget (oe_sessions e) sid of None \<Rightarrow> (Inl (SessionNotFoundError sid), e) | Some a \<Rightarrow> k a)"

definition running_at :: "oc2 \<Rightarrow> nat \<Rightarrow> bool" where
  "running_at e a \<longleftrightarrow> (case session_at e a of None \<Rightarrow> False | Some s \<Rightarrow> os_running s)"

definition engine_start :: "oc2_env \<Rightarrow> nat \<Rightarrow> oc2 \<Rightarrow> oc2" where
  "engine_start v a e =
     (if running_at e a then e
      else (engine_save v (on_session a (\<lambda>s. s\<lparr>os_running := True, os_cancel := False\<rparr>) e))
             \<lparr>oe_spawned := oe_spawned e @ [(a, False)]\<rparr>)"

section \<open>The tree of children\<close>

definition parents :: "oc2 \<Rightarrow> (string \<times> string option) list" where
  "parents e = map (\<lambda>(sid, a). (sid, case session_at e a of None \<Rightarrow> None | Some s \<Rightarrow> os_parent s)) (oe_sessions e)"

definition children_in :: "(string \<times> string option) list \<Rightarrow> string \<Rightarrow> string list" where
  "children_in rows p = map fst (filter (\<lambda>r. snd r = Some p) rows)"

partial_function (option) tree_loop :: "(string \<times> string option) list \<Rightarrow> string list \<Rightarrow> nat \<Rightarrow> string list option" where
  [code]: "tree_loop rows ordered index =
     (if index < length ordered
      then tree_loop rows (ordered @ children_in rows (ordered ! index)) (Suc index)
      else Some ordered)"

definition tree_of :: "string \<Rightarrow> oc2 \<Rightarrow> string list option" where
  "tree_of sid e = tree_loop (parents e) (if dget (oe_sessions e) sid = None then [] else [sid]) 0"

section \<open>Interrupting\<close>

definition kill_holder :: "nat option \<Rightarrow> oc2 \<Rightarrow> oc2" where
  "kill_holder h e =
     (case h of None \<Rightarrow> e | Some p \<Rightarrow> if p \<in> set (oe_killed e) then e else e\<lparr>oe_killed := oe_killed e @ [p]\<rparr>)"

definition cancel_session :: "oc2_session \<Rightarrow> oc2_session" where
  "cancel_session s =
     s\<lparr>os_cancel := (os_cancel s \<or> os_running s), os_pending := [], os_inbox := [],
       os_asks := map (\<lambda>(k, q). (k, q\<lparr>oq_answered := True\<rparr>)) (os_asks s)\<rparr>"

definition cancel_one :: "nat \<Rightarrow> oc2 \<Rightarrow> oc2" where
  "cancel_one a e =
     (case session_at e a of None \<Rightarrow> e | Some s \<Rightarrow> kill_holder (os_holder s) (on_session a cancel_session e))"

text \<open>A running descendant is cancelled too; the code reaches it also by recursion through the running
  ones between, which changes nothing, cancelling being idempotent.\<close>

definition cancel_running :: "string \<Rightarrow> oc2 \<Rightarrow> oc2" where
  "cancel_running sid e =
     (case dget (oe_sessions e) sid of
        None \<Rightarrow> e
      | Some a \<Rightarrow> if running_at e a then cancel_one a e else e)"

definition engine_cancel :: "nat \<Rightarrow> oc2 \<Rightarrow> oc2 option" where
  "engine_cancel a e =
     (case session_at e a of
        None \<Rightarrow> Some e
      | Some s \<Rightarrow> map_option (\<lambda>ids. fold cancel_running (tl ids) (cancel_one a e)) (tree_of (os_id s) e))"

fun cancel_all :: "string list \<Rightarrow> oc2 \<Rightarrow> oc2 option" where
  "cancel_all [] e = Some e"
| "cancel_all (sid # sids) e =
     (case dget (oe_sessions e) sid of
        None \<Rightarrow> cancel_all sids e
      | Some a \<Rightarrow> (case engine_cancel a e of None \<Rightarrow> None | Some e1 \<Rightarrow> cancel_all sids e1))"

section \<open>Operations\<close>

definition created_session :: "oc2_env \<Rightarrow> string \<Rightarrow> payload \<Rightarrow> oc2_session" where
  "created_session v sid body =
     \<lparr>os_id = sid,
      os_directory = (case dget body ''location'' of Some (JObj kvs) \<Rightarrow> shown kvs ''directory'' | _ \<Rightarrow> v_cwd v),
      os_metadata = json_object (dget body ''metadata''), os_permissions = json_objects (dget body ''permissions''),
      os_model = (case dget body ''model'' of Some (JObj m) \<Rightarrow> Some m | _ \<Rightarrow> None),
      os_title = Some (case given_text body ''title'' of Some t \<Rightarrow> t | None \<Rightarrow> v_title v),
      os_agent = given_text body ''agent'',
      os_parent = (case dget body ''parentID'' of Some j \<Rightarrow> if json_truthy j then Some (json_str j) else None | None \<Rightarrow> None),
      os_created = v_now v, os_updated = v_now v, os_idle_at = None, os_outcome = None, os_messages = [],
      os_running = False, os_current = None, os_environment = None, os_pending = [], os_inbox = [], os_asks = [],
      os_forms = [], os_cancel = False, os_holder = None\<rparr>"

definition chosen_id :: "oc2_env \<Rightarrow> payload \<Rightarrow> oc2 \<Rightarrow> string \<times> oc2" where
  "chosen_id v body e =
     (case dget body ''id'' of
        Some j \<Rightarrow> if json_truthy j then (json_str j, e) else oc2_id v ''ses'' e
      | None \<Rightarrow> oc2_id v ''ses'' e)"

definition engine_create :: "oc2_env \<Rightarrow> payload \<Rightarrow> oc2 \<Rightarrow> (oc2_error + nat) \<times> oc2" where
  "engine_create v body e =
     (case chosen_id v body e of (sid, e1) \<Rightarrow>
      if dget (oe_sessions e1) sid \<noteq> None then (Inl (ConflictError sid), e1)
      else case add_session (created_session v sid body) e1 of (a, e2) \<Rightarrow>
        (Inr a, publish_at v ''session.created'' True True
           (\<lambda>s. filter (\<lambda>(k, _). k \<notin> {''id'', ''time'', ''tokens'', ''cost'', ''outcome''}) (session_record v s)) a
           (engine_save v e2)))"

definition engine_update :: "oc2_env \<Rightarrow> string \<Rightarrow> payload \<Rightarrow> oc2 \<Rightarrow> (oc2_error + unit) \<times> oc2" where
  "engine_update v sid body e = with_session sid (\<lambda>a.
     (Inr (), engine_save v (on_session a (\<lambda>s.
        s\<lparr>os_permissions := (if dget body ''permissions'' = None then os_permissions s else json_objects (dget body ''permissions'')),
          os_metadata := (if dget body ''metadata'' = None then os_metadata s else json_object (dget body ''metadata'')),
          os_updated := v_now v\<rparr>) e))) e"

definition engine_remove :: "oc2_env \<Rightarrow> string \<Rightarrow> oc2 \<Rightarrow> oc2 option" where
  "engine_remove v sid e =
     (case tree_of sid e of
        None \<Rightarrow> None
      | Some doomed \<Rightarrow>
          map_option (\<lambda>e1. engine_save v (e1\<lparr>oe_sessions := fold dpop doomed (oe_sessions e1)\<rparr>)) (cancel_all doomed e))"

definition engine_children :: "oc2_env \<Rightarrow> string option \<Rightarrow> oc2 \<Rightarrow> payload list" where
  "engine_children v parent e =
     map (session_record v) (filter (\<lambda>s. parent = None \<or> os_parent s = parent) (held_sessions e))"

definition engine_active :: "oc2 \<Rightarrow> payload" where
  "engine_active e =
     map (\<lambda>(sid, _). (sid, JObj [(''type'', JStr ''running'')])) (filter (\<lambda>(_, a). running_at e a) (oe_sessions e))"

definition set_environment :: "string \<Rightarrow> payload \<Rightarrow> oc2 \<Rightarrow> (oc2_error + unit) \<times> oc2" where
  "set_environment sid variables e = with_session sid (\<lambda>a.
     (Inr (), on_session a (\<lambda>s. s\<lparr>os_environment := Some (map (\<lambda>(k, j). (k, json_str j)) variables)\<rparr>) e)) e"

definition enqueue :: "oc2_env \<Rightarrow> string \<times> string \<Rightarrow> nat \<Rightarrow> oc2 \<Rightarrow> oc2" where
  "enqueue v item a e = engine_start v a (on_session a (\<lambda>s. s\<lparr>os_pending := os_pending s @ [item]\<rparr>) e)"

definition engine_prompt :: "oc2_env \<Rightarrow> string \<Rightarrow> string \<Rightarrow> string option \<Rightarrow> oc2 \<Rightarrow> (oc2_error + payload) \<times> oc2" where
  "engine_prompt v sid prompt delivery e = with_session sid (\<lambda>a.
     (Inr [(''sessionID'', JStr sid), (''delivery'', JStr (str_or delivery ''queue'')), (''text'', JStr prompt)],
      enqueue v (if delivery = Some ''steer'' then ''steer'' else ''prompt'', prompt) a e)) e"

definition engine_compact :: "oc2_env \<Rightarrow> string \<Rightarrow> oc2 \<Rightarrow> (oc2_error + unit) \<times> oc2" where
  "engine_compact v sid e = with_session sid (\<lambda>a. (Inr (), enqueue v (''compact'', []) a e)) e"

definition engine_interrupt :: "string \<Rightarrow> oc2 \<Rightarrow> ((oc2_error + bool) \<times> oc2) option" where
  "engine_interrupt sid e =
     (case dget (oe_sessions e) sid of
        None \<Rightarrow> Some (Inl (SessionNotFoundError sid), e)
      | Some a \<Rightarrow>
          if INTERRUPT_IGNORED \<in> set (oe_levers e) then Some (Inr True, e)
          else if running_at e a then map_option (\<lambda>e1. (Inr True, e1)) (engine_cancel a e)
          else Some (Inr False, e))"

definition switch_model :: "oc2_env \<Rightarrow> string \<Rightarrow> payload \<Rightarrow> oc2 \<Rightarrow> (oc2_error + unit) \<times> oc2" where
  "switch_model v sid model e = with_session sid (\<lambda>a. case oc2_id v ''msg'' e of (i, e1) \<Rightarrow>
     (Inr (), engine_save v (on_session a (\<lambda>s. push ([(''id'', JStr i), (''type'', JStr ''model-switched''), (''model'', JObj model)] @ now_field v)
        (s\<lparr>os_model := Some model\<rparr>)) e1))) e"

definition switch_agent :: "oc2_env \<Rightarrow> string \<Rightarrow> string \<Rightarrow> oc2 \<Rightarrow> (oc2_error + unit) \<times> oc2" where
  "switch_agent v sid agent e = with_session sid (\<lambda>a. case oc2_id v ''msg'' e of (i, e1) \<Rightarrow>
     (Inr (), engine_save v (on_session a (\<lambda>s. push ([(''id'', JStr i), (''type'', JStr ''agent-switched''), (''agent'', JStr agent)] @ now_field v)
        (s\<lparr>os_agent := Some agent\<rparr>)) e1))) e"

section \<open>Reading messages\<close>

text \<open>A listing cursor by what it carries; its base64 text is not modelled. \<open>Garbled\<close> is a text that does
  not decode.\<close>

datatype page_cursor =
    PageCursor (edge_id: string) (cursor_order: string) (direction: string)
  | Garbled

definition encode_cursor :: "string \<Rightarrow> string \<Rightarrow> string \<Rightarrow> page_cursor" where
  "encode_cursor message_id order way = PageCursor message_id order way"

definition decode_cursor :: "page_cursor \<Rightarrow> oc2_error + (string \<times> string)" where
  "decode_cursor c =
     (case c of
        Garbled \<Rightarrow> Inl (InvalidCursorError ''Invalid cursor'')
      | PageCursor i order way \<Rightarrow>
          if way \<noteq> ''next'' then Inl (InvalidCursorError ''the mock pages forward only'') else Inr (i, order))"

definition message_id :: "payload \<Rightarrow> string option" where
  "message_id m = (case dget m ''id'' of Some (JStr i) \<Rightarrow> Some i | _ \<Rightarrow> None)"

text \<open>The part of a listing after a message, empty when no message has that id.\<close>

fun listed_after :: "string \<Rightarrow> payload list \<Rightarrow> payload list" where
  "listed_after i [] = []"
| "listed_after i (m # ms) = (if message_id m = Some i then ms else listed_after i ms)"

definition message_page :: "string \<Rightarrow> string option \<Rightarrow> nat \<Rightarrow> payload list \<Rightarrow> payload list \<times> (page_cursor \<times> page_cursor) option" where
  "message_page order after_id n ms =
     (let listed = (if order = ''desc'' then rev ms else ms);
          rest = (case after_id of None \<Rightarrow> listed | Some i \<Rightarrow> listed_after i listed);
          page = take n rest
      in (page, if page = [] then None
                else Some (encode_cursor (shown (hd page) ''id'') order ''previous'', encode_cursor (shown (last page) ''id'') order ''next'')))"

definition MAX_PAGE_LIMIT :: int where "MAX_PAGE_LIMIT = 200"
definition DEFAULT_PAGE_LIMIT :: int where "DEFAULT_PAGE_LIMIT = 50"

definition engine_messages ::
  "string \<Rightarrow> string option \<Rightarrow> int option \<Rightarrow> page_cursor option \<Rightarrow> oc2
     \<Rightarrow> oc2_error + (payload list \<times> (page_cursor \<times> page_cursor) option)" where
  "engine_messages sid order limit cursor e =
     (if cursor \<noteq> None \<and> order \<noteq> None then Inl (InvalidCursorError ''Cursor cannot be combined with order'')
      else
        case (case cursor of None \<Rightarrow> Inr (None, str_or order ''asc'')
              | Some c \<Rightarrow> (case decode_cursor c of Inl x \<Rightarrow> Inl x | Inr (i, ord) \<Rightarrow> Inr (Some i, str_or (Some ord) ''asc''))) of
          Inl x \<Rightarrow> Inl x
        | Inr (after_id, ord) \<Rightarrow>
            (let n = (case limit of None \<Rightarrow> DEFAULT_PAGE_LIMIT | Some l \<Rightarrow> l) in
             if \<not> (1 \<le> n \<and> n \<le> MAX_PAGE_LIMIT)
             then Inl (OcValueError ''Expected a value less than or equal to 200 at limit'')
             else case dget (oe_sessions e) sid of
               None \<Rightarrow> Inl (SessionNotFoundError sid)
             | Some a \<Rightarrow> Inr (message_page ord after_id (nat n) (case session_at e a of None \<Rightarrow> [] | Some s \<Rightarrow> os_messages s))))"

definition engine_message :: "string \<Rightarrow> string \<Rightarrow> oc2 \<Rightarrow> oc2_error + payload" where
  "engine_message sid i e =
     (case dget (oe_sessions e) sid of
        None \<Rightarrow> Inl (SessionNotFoundError sid)
      | Some a \<Rightarrow>
          (case find (\<lambda>m. message_id m = Some i) (case session_at e a of None \<Rightarrow> [] | Some s \<Rightarrow> os_messages s) of
             None \<Rightarrow> Inl (NotFoundError i)
           | Some m \<Rightarrow> Inr m))"

definition engine_inbox :: "string \<Rightarrow> oc2 \<Rightarrow> oc2_error + payload list" where
  "engine_inbox sid e =
     (case dget (oe_sessions e) sid of
        None \<Rightarrow> Inl (SessionNotFoundError sid)
      | Some a \<Rightarrow> Inr (case session_at e a of None \<Rightarrow> [] | Some s \<Rightarrow> os_inbox s))"

section \<open>Permission requests and forms\<close>

definition permission_requests :: "string \<Rightarrow> oc2 \<Rightarrow> oc2_error + payload list" where
  "permission_requests sid e =
     (case dget (oe_sessions e) sid of
        None \<Rightarrow> Inl (SessionNotFoundError sid)
      | Some a \<Rightarrow> Inr (case session_at e a of None \<Rightarrow> []
          | Some s \<Rightarrow> map oq_request (filter (\<lambda>q. \<not> oq_answered q) (dvals (os_asks s)))))"

definition reply_permission ::
  "string \<Rightarrow> string \<Rightarrow> string \<Rightarrow> string option \<Rightarrow> oc2 \<Rightarrow> (oc2_error + unit) \<times> oc2" where
  "reply_permission sid request_id decision message e = with_session sid (\<lambda>a.
     (case session_at e a of
        None \<Rightarrow> (Inl (NotFoundError request_id), e)
      | Some s \<Rightarrow>
          (case dget (os_asks s) request_id of
             None \<Rightarrow> (Inl (NotFoundError request_id), e)
           | Some q \<Rightarrow>
               (Inr (), on_session a (\<lambda>s. s\<lparr>os_asks := dset request_id
                  (q\<lparr>oq_decision := Some decision, oq_message := message, oq_answered := True\<rparr>) (os_asks s)\<rparr>) e)))) e"

definition engine_forms :: "string \<Rightarrow> oc2 \<Rightarrow> oc2_error + payload list" where
  "engine_forms sid e =
     (case dget (oe_sessions e) sid of
        None \<Rightarrow> Inl (SessionNotFoundError sid)
      | Some a \<Rightarrow> Inr (case session_at e a of None \<Rightarrow> [] | Some s \<Rightarrow> map fm_record (dvals (os_forms s))))"

definition form_fields :: "payload \<Rightarrow> json" where
  "form_fields body = (case dget body ''fields'' of Some j \<Rightarrow> if json_truthy j then j else JList [] | None \<Rightarrow> JList [])"

definition create_form :: "oc2_env \<Rightarrow> string \<Rightarrow> payload \<Rightarrow> oc2 \<Rightarrow> (oc2_error + payload) \<times> oc2" where
  "create_form v sid body e = with_session sid (\<lambda>a. case oc2_id v ''frm'' e of (i, e1) \<Rightarrow>
     let form = [(''id'', JStr i), (''sessionID'', JStr sid), (''title'', dget_or body ''title'' JNull), (''fields'', form_fields body)]
     in (Inr form, on_session a (\<lambda>s. s\<lparr>os_forms := dset i \<lparr>fm_record = form, fm_settled = False\<rparr> (os_forms s)\<rparr>) e1)) e"

text \<open>The form taken off is also marked settled, for the worker that waits on it; the worker sees both as
  the form being gone.\<close>

definition cancel_form :: "string \<Rightarrow> string \<Rightarrow> oc2 \<Rightarrow> (oc2_error + unit) \<times> oc2" where
  "cancel_form sid form_id e = with_session sid (\<lambda>a.
     (case session_at e a of
        None \<Rightarrow> (Inl (NotFoundError form_id), e)
      | Some s \<Rightarrow>
          if dget (os_forms s) form_id = None then (Inl (NotFoundError form_id), e)
          else (Inr (), on_session a (\<lambda>s. s\<lparr>os_forms := dpop form_id (os_forms s)\<rparr>) e))) e"

definition engine_halt :: "oc2_env \<Rightarrow> oc2 \<Rightarrow> oc2" where
  "engine_halt v e =
     engine_save v (fold (\<lambda>s. kill_holder (os_holder s)) (held_sessions e) (e\<lparr>oe_halted := True\<rparr>))"

end
