(* ===== verification/Oc2_Turns.thy ===== *)
theory Oc2_Turns
  imports Oc2_Engine
begin

text \<open>
  What a turn of the OpenCode 2 service is built from (\<^verbatim>\<open>harness/opencode2_core/internal/sessions.py\<close>, the
  building blocks of a turn): each definition is one section under the engine's lock with the events that
  follow it. An operation that waits is cut in two at the wait: \<open>request_open\<close> and \<open>request_close\<close> around the
  reply of a permission request, \<open>judge_call\<close> and \<open>judge_answer\<close> around the same, \<open>open_form\<close> and \<open>form_wait\<close>
  for a form, \<open>settle_poll\<close> and \<open>settle_done\<close> for a child. A step is named by its position in the session's
  messages, a tool part by its position in the step.
\<close>

section \<open>Steps\<close>

definition message_at :: "oc2_session \<Rightarrow> nat \<Rightarrow> payload" where
  "message_at s i = (if i < length (os_messages s) then os_messages s ! i else [])"

definition part_at :: "oc2_session \<Rightarrow> nat \<Rightarrow> nat \<Rightarrow> payload" where
  "part_at s i j = (if j < length (content_of (message_at s i)) then content_of (message_at s i) ! j else [])"

definition text_or_null :: "payload \<Rightarrow> string \<Rightarrow> json" where
  "text_or_null m k = dget_or m k JNull"

definition engine_hold :: "nat option \<Rightarrow> nat \<Rightarrow> oc2 \<Rightarrow> oc2" where
  "engine_hold p a e = on_session a (\<lambda>s. s\<lparr>os_holder := p\<rparr>) e"

definition new_assistant :: "oc2_env \<Rightarrow> string \<Rightarrow> oc2_session \<Rightarrow> payload" where
  "new_assistant v i s =
     [(''id'', JStr i), (''type'', JStr ''assistant''), (''agent'', JStr (str_or (os_agent s) ''build'')),
      (''model'', JObj (session_model s)), (''content'', JList []), (''time'', JObj [(''created'', JInt (v_now v))]),
      (''tokens'', JObj [(''input'', JInt 0), (''output'', JInt 0), (''reasoning'', JInt 0),
                       (''cache'', JObj [(''read'', JInt 0), (''write'', JInt 0)])]),
      (''cost'', JInt 0)]"

definition open_step :: "oc2_env \<Rightarrow> nat \<Rightarrow> oc2 \<Rightarrow> nat \<times> oc2" where
  "open_step v a e =
     (case oc2_id v ''msg'' e of (i, e1) \<Rightarrow>
      let n = (case session_at e a of None \<Rightarrow> 0 | Some s \<Rightarrow> length (os_messages s))
      in (n, publish_at v ''session.step.started'' True True
               (\<lambda>s. [(''assistantMessageID'', JStr i), (''agent'', text_or_null (message_at s n) ''agent''),
                     (''model'', text_or_null (message_at s n) ''model''), (''started'', JInt (v_now v))]) a
               (engine_save v (on_session a (\<lambda>s. push (new_assistant v i s) s) e1))))"

definition append_part :: "payload \<Rightarrow> payload \<Rightarrow> payload" where
  "append_part q m = (case dget m ''content'' of Some (JList _) \<Rightarrow> set_content (content_of m @ [q]) m | _ \<Rightarrow> m)"

definition add_step_part :: "oc2_env \<Rightarrow> nat \<Rightarrow> payload \<Rightarrow> nat \<Rightarrow> oc2 \<Rightarrow> oc2" where
  "add_step_part v i q a e = engine_save v (on_session a (on_message i (append_part q)) e)"

definition text_ended :: "oc2_env \<Rightarrow> nat \<Rightarrow> string \<Rightarrow> nat \<Rightarrow> oc2 \<Rightarrow> oc2" where
  "text_ended v i txt a e =
     publish_at v ''session.text.ended'' True True
       (\<lambda>s. [(''assistantMessageID'', text_or_null (message_at s i) ''id''),
             (''ordinal'', JInt (int (length (filter (\<lambda>q. type_of q = ''text'') (content_of (message_at s i)))) - 1)),
             (''text'', JStr txt)]) a e"

definition step_ended :: "oc2_env \<Rightarrow> nat \<Rightarrow> nat \<Rightarrow> oc2 \<Rightarrow> oc2" where
  "step_ended v i a e =
     publish_at v ''session.step.ended'' True True
       (\<lambda>s. let m = message_at s i in
            [(''assistantMessageID'', text_or_null m ''id''), (''cost'', dget_or m ''cost'' (JInt 0)), (''files'', JList []),
             (''finish'', text_or_null m ''finish''), (''tokens'', text_or_null m ''tokens'')]) a e"

definition closed_step :: "oc2_env \<Rightarrow> payload \<Rightarrow> json \<Rightarrow> string \<Rightarrow> string \<Rightarrow> payload \<Rightarrow> payload" where
  "closed_step v tokens cost finish txt m =
     on_sub ''time'' (dset ''completed'' (JInt (v_now v)))
       (update_all [(''tokens'', JObj tokens), (''cost'', cost), (''finish'', JStr finish)]
          (if txt = [] then m else append_part [(''type'', JStr ''text''), (''text'', JStr txt)] m))"

definition close_step :: "oc2_env \<Rightarrow> nat \<Rightarrow> payload \<Rightarrow> json \<Rightarrow> string \<Rightarrow> string \<Rightarrow> nat \<Rightarrow> oc2 \<Rightarrow> oc2" where
  "close_step v i tokens cost finish txt a e =
     (let e1 = engine_save v (on_session a (\<lambda>s. (on_message i (closed_step v tokens cost finish txt) s)\<lparr>os_updated := v_now v\<rparr>) e);
          e2 = (if txt = [] then e1 else text_ended v i txt a e1);
          e3 = publish_at v ''session.usage.updated'' False False (\<lambda>s. [(''tokens'', JObj tokens), (''cost'', cost)]) a e2
      in step_ended v i a e3)"

definition user_message :: "oc2_env \<Rightarrow> string \<Rightarrow> nat \<Rightarrow> oc2 \<Rightarrow> oc2" where
  "user_message v txt a e =
     (case oc2_id v ''msg'' e of (i, e1) \<Rightarrow>
      engine_save v (on_session a (\<lambda>s. push ([(''id'', JStr i), (''type'', JStr ''user''), (''text'', JStr txt)] @ now_field v)
        (s\<lparr>os_current := Some txt, os_cancel := False\<rparr>)) e1))"

text \<open>The first steer of a queue and the queue without it.\<close>

fun first_steer :: "(string \<times> string) list \<Rightarrow> (string \<times> (string \<times> string) list) option" where
  "first_steer [] = None"
| "first_steer ((kind, txt) # xs) =
     (if kind = ''steer'' then Some (txt, xs) else map_option (\<lambda>(t, ys). (t, (kind, txt) # ys)) (first_steer xs))"

definition take_steer :: "nat \<Rightarrow> oc2 \<Rightarrow> string option \<times> oc2" where
  "take_steer a e =
     (case session_at e a of
        None \<Rightarrow> (None, e)
      | Some s \<Rightarrow>
          (case first_steer (os_pending s) of
             None \<Rightarrow> (None, e)
           | Some (txt, rest) \<Rightarrow> (Some txt, on_session a (\<lambda>s. s\<lparr>os_pending := rest\<rparr>) e)))"

section \<open>Tool parts\<close>

definition new_tool :: "oc2_env \<Rightarrow> string \<Rightarrow> string \<Rightarrow> payload \<Rightarrow> payload" where
  "new_tool v i name tool_input =
     [(''id'', JStr i), (''type'', JStr ''tool''), (''name'', JStr name), (''executed'', JBool False),
      (''state'', JObj [(''status'', JStr ''running''), (''input'', JObj tool_input)]),
      (''time'', JObj [(''created'', JInt (v_now v))])]"

definition open_tool :: "oc2_env \<Rightarrow> nat \<Rightarrow> string \<Rightarrow> payload \<Rightarrow> nat \<Rightarrow> oc2 \<Rightarrow> nat option \<times> oc2" where
  "open_tool v i name tool_input a e =
     (case session_at e a of
        None \<Rightarrow> (None, e)
      | Some s \<Rightarrow>
          if tool_withheld (os_permissions s) name then (None, e)
          else case oc2_id v ''call'' e of (c, e1) \<Rightarrow>
            let m = message_at s i;
                e2 = add_step_part v i (new_tool v c name tool_input) a e1;
                e3 = e2\<lparr>oe_owners := dset c (shown m ''id'') (oe_owners e2)\<rparr>
            in (Some (length (content_of m)),
                publish_at v ''session.tool.called'' True True
                  (\<lambda>s. [(''assistantMessageID'', text_or_null m ''id''), (''executed'', JBool False), (''id'', JStr c),
                        (''input'', JObj tool_input)]) a e3))"

definition owner_of :: "oc2 \<Rightarrow> payload \<Rightarrow> json" where
  "owner_of e q = opt_str (dget (oe_owners e) (shown q ''id''))"

definition completed_tool :: "oc2_env \<Rightarrow> string \<Rightarrow> payload \<Rightarrow> payload \<Rightarrow> payload" where
  "completed_tool v output metadata q =
     on_sub ''time'' (update_all [(''ran'', JInt (v_now v)), (''completed'', JInt (v_now v))])
       (on_sub ''state'' (update_all
          [(''status'', JStr ''completed''), (''content'', JList [JObj [(''type'', JStr ''text''), (''text'', JStr output)]]),
           (''metadata'', JObj (if metadata = [] then
               [(''exit'', JInt 0), (''status'', JStr ''completed''), (''truncated'', JBool False)] else metadata))]) q)"

definition complete_tool :: "oc2_env \<Rightarrow> nat \<Rightarrow> nat \<Rightarrow> string \<Rightarrow> payload \<Rightarrow> nat \<Rightarrow> oc2 \<Rightarrow> oc2" where
  "complete_tool v i j output metadata a e =
     (let e1 = engine_save v (on_session a (on_part i j (completed_tool v output metadata)) e)
      in publish_at v ''session.tool.success'' True True
           (\<lambda>s. let q = part_at s i j; state = sub_obj q ''state'' in
                [(''assistantMessageID'', owner_of e1 q), (''content'', text_or_null state ''content''), (''executed'', JBool False),
                 (''id'', text_or_null q ''id''), (''metadata'', text_or_null state ''metadata'')]) a e1)"

definition failed_tool :: "oc2_env \<Rightarrow> string \<Rightarrow> string \<Rightarrow> payload \<Rightarrow> payload" where
  "failed_tool v kind message q =
     on_sub ''time'' (dset ''completed'' (JInt (v_now v)))
       (on_sub ''state'' (\<lambda>st. dpop ''content'' (update_all
          [(''status'', JStr ''error''), (''error'', JObj [(''type'', JStr kind), (''message'', JStr message)])] st)) q)"

definition fail_tool :: "oc2_env \<Rightarrow> nat \<Rightarrow> nat \<Rightarrow> string \<Rightarrow> string \<Rightarrow> nat \<Rightarrow> oc2 \<Rightarrow> oc2" where
  "fail_tool v i j kind message a e =
     (let e1 = engine_save v (on_session a (on_part i j (failed_tool v kind message)) e)
      in publish_at v ''session.tool.failed'' True True
           (\<lambda>s. let q = part_at s i j in
                [(''assistantMessageID'', owner_of e1 q), (''id'', text_or_null q ''id''),
                 (''error'', text_or_null (sub_obj q ''state'') ''error'')]) a e1)"

section \<open>Permission\<close>

definition set_status :: "string \<Rightarrow> (nat \<times> nat) option \<Rightarrow> oc2_session \<Rightarrow> oc2_session" where
  "set_status st holding s =
     (case holding of None \<Rightarrow> s | Some (i, j) \<Rightarrow> on_part i j (on_sub ''state'' (dset ''status'' (JStr st))) s)"

definition request_open ::
  "oc2_env \<Rightarrow> string \<Rightarrow> string \<Rightarrow> payload \<Rightarrow> (nat \<times> nat) option \<Rightarrow> nat \<Rightarrow> oc2 \<Rightarrow> string \<times> oc2" where
  "request_open v action resource source holding a e =
     (case oc2_id v ''per'' e of (r, e1) \<Rightarrow>
      let sid = (case session_at e a of None \<Rightarrow> [] | Some s \<Rightarrow> os_id s);
          request = [(''id'', JStr r), (''sessionID'', JStr sid), (''action'', JStr action), (''resources'', JList [JStr resource]),
                     (''save'', JList [JStr (save_pattern resource)]), (''source'', JObj source)]
      in (r, publish_at v ''session.permission.asked'' True True (\<lambda>s. [(''requestID'', JStr r)]) a
               (on_session a (\<lambda>s. set_status ''pending'' holding
                  (s\<lparr>os_asks := dset r \<lparr>oq_request = request, oq_answered = False, oq_decision = None, oq_message = None\<rparr>
                       (os_asks s)\<rparr>)) e1)))"

definition ask_answered :: "string \<Rightarrow> nat \<Rightarrow> oc2 \<Rightarrow> bool" where
  "ask_answered r a e =
     (case session_at e a of
        None \<Rightarrow> False
      | Some s \<Rightarrow> (case dget (os_asks s) r of None \<Rightarrow> False | Some q \<Rightarrow> oq_answered q))"

text \<open>The rest of a request once it is answered: the decision and its message, \<open>None\<close> after an interrupt.\<close>

definition request_close ::
  "string \<Rightarrow> (nat \<times> nat) option \<Rightarrow> nat \<Rightarrow> oc2 \<Rightarrow> (string \<times> string option) option \<times> oc2" where
  "request_close r holding a e =
     (case session_at e a of
        None \<Rightarrow> (None, e)
      | Some s \<Rightarrow>
          ((case dget (os_asks s) r of
              None \<Rightarrow> None
            | Some q \<Rightarrow> if os_cancel s then None else map_option (\<lambda>d. (d, oq_message q)) (oq_decision q)),
           on_session a (\<lambda>s. set_status ''running'' holding (s\<lparr>os_asks := dpop r (os_asks s)\<rparr>)) e))"

definition declined :: "oc2_env \<Rightarrow> nat \<Rightarrow> nat \<Rightarrow> oc2 \<Rightarrow> oc2" where
  "declined v i a e =
     step_ended v i a (engine_save v (on_session a (\<lambda>s.
       (on_message i (abort_assistant v ''The user declined this tool call'') s)\<lparr>os_current := None\<rparr>) e))"

definition effect_of :: "payload list \<Rightarrow> string \<Rightarrow> string \<Rightarrow> bool \<Rightarrow> string" where
  "effect_of rules action resource ask =
     (let eff = evaluate rules action resource in if ask \<and> eff = ''allow'' then ''ask'' else eff)"

text \<open>\<^verbatim>\<open>judge\<close> up to its wait: the verdict (\<open>Inr\<close>), or the request it raised (\<open>Inl\<close>).\<close>

definition judge_call ::
  "oc2_env \<Rightarrow> nat \<Rightarrow> nat \<Rightarrow> string \<Rightarrow> string \<Rightarrow> bool \<Rightarrow> nat \<Rightarrow> oc2 \<Rightarrow> (string + string) \<times> oc2" where
  "judge_call v i j action resource ask a e =
     (case session_at e a of
        None \<Rightarrow> (Inr ''allow'', e)
      | Some s \<Rightarrow>
          let eff = effect_of (os_permissions s) action resource ask in
          if eff = ''deny''
          then (Inr ''deny'', fail_tool v i j ''permission.rejected'' (''Permission denied: '' @ action) a e)
          else if eff \<noteq> ''ask'' then (Inr ''allow'', e)
          else case request_open v action resource
                 [(''type'', JStr ''tool''), (''id'', text_or_null (part_at s i j) ''id''), (''messageID'', text_or_null (message_at s i) ''id'')]
                 (Some (i, j)) a e of (r, e1) \<Rightarrow> (Inl r, e1))"

definition allow_rule :: "string \<Rightarrow> string \<Rightarrow> payload" where
  "allow_rule action resource =
     [(''action'', JStr action), (''resource'', JStr (save_pattern resource)), (''effect'', JStr ''allow'')]"

text \<open>\<^verbatim>\<open>judge\<close> after the reply, \<open>None\<close> when the session was interrupted.\<close>

definition judge_answer ::
  "oc2_env \<Rightarrow> nat \<Rightarrow> nat \<Rightarrow> string \<Rightarrow> string \<Rightarrow> (string \<times> string option) option \<Rightarrow> nat \<Rightarrow> oc2 \<Rightarrow> string option \<times> oc2" where
  "judge_answer v i j action resource reply a e =
     (case reply of
        None \<Rightarrow> (None, e)
      | Some (decision, message) \<Rightarrow>
          if decision = ''reject'' then
            (case message of
               Some m \<Rightarrow> (Some ''deny'', fail_tool v i j ''permission.rejected'' m a e)
             | None \<Rightarrow> (Some ''declined'', declined v i a e))
          else if decision = ''always'' then
            (Some ''allow'', on_session a (\<lambda>s. s\<lparr>os_permissions := os_permissions s @ [allow_rule action resource]\<rparr>) e)
          else (Some ''allow'', e))"

section \<open>Forms\<close>

definition open_form :: "oc2_env \<Rightarrow> string \<Rightarrow> json list \<Rightarrow> nat \<Rightarrow> oc2 \<Rightarrow> (oc2_error + payload) \<times> oc2" where
  "open_form v title form_rows a e =
     create_form v (case session_at e a of None \<Rightarrow> [] | Some s \<Rightarrow> os_id s) [(''title'', JStr title), (''fields'', JList form_rows)] e"

text \<open>One poll of the wait: \<open>Some True\<close> the form is gone, \<open>Some False\<close> the session was interrupted (the form
  is taken off), \<open>None\<close> neither.\<close>

definition form_wait :: "string \<Rightarrow> nat \<Rightarrow> oc2 \<Rightarrow> bool option \<times> oc2" where
  "form_wait form_id a e =
     (case session_at e a of
        None \<Rightarrow> (Some True, e)
      | Some s \<Rightarrow>
          if dget (os_forms s) form_id = None then (Some True, e)
          else if os_cancel s then (Some False, on_session a (\<lambda>s. s\<lparr>os_forms := dpop form_id (os_forms s)\<rparr>) e)
          else (None, e))"

section \<open>Restarting and children\<close>

definition restart_due :: "oc2_env \<Rightarrow> oc2 \<Rightarrow> bool \<times> oc2" where
  "restart_due v e =
     (if RESTARTS_MID_TURN \<notin> set (oe_levers e) \<or> oe_restarted e then (False, e)
      else (True, (engine_save v (e\<lparr>oe_restarted := True\<rparr>))\<lparr>oe_restarts := Suc (oe_restarts e)\<rparr>))"

definition child_body :: "string \<Rightarrow> string \<Rightarrow> oc2_session \<Rightarrow> payload" where
  "child_body sid title s =
     [(''id'', JStr sid), (''parentID'', JStr (os_id s)), (''location'', JObj [(''directory'', JStr (os_directory s))]),
      (''model'', case os_model s of None \<Rightarrow> JNull | Some m \<Rightarrow> JObj m), (''title'', JStr title), (''agent'', JStr ''general'')]"

definition spawn_create :: "oc2_env \<Rightarrow> string \<Rightarrow> nat \<Rightarrow> oc2 \<Rightarrow> (oc2_error + nat) \<times> oc2" where
  "spawn_create v title a e =
     (case oc2_id v ''ses'' e of (sid, e1) \<Rightarrow>
      (case session_at e1 a of
         None \<Rightarrow> (Inl (SessionNotFoundError sid), e1)
       | Some s \<Rightarrow> engine_create v (child_body sid title s) e1))"

definition spawned_part :: "string \<Rightarrow> string \<Rightarrow> bool \<Rightarrow> payload \<Rightarrow> payload" where
  "spawned_part child prompt background q =
     on_sub ''state'' (\<lambda>st.
       dset ''input'' (JObj (update_all [(''agent'', JStr ''general''), (''prompt'', JStr prompt), (''background'', JBool background)]
             (sub_obj st ''input'')))
         (dset ''metadata'' (JObj [(''sessionID'', JStr child), (''status'', JStr ''running''), (''truncated'', JBool False)]) st)) q"

definition spawn_record :: "nat \<Rightarrow> nat \<Rightarrow> string \<Rightarrow> string \<Rightarrow> bool \<Rightarrow> nat \<Rightarrow> oc2 \<Rightarrow> oc2" where
  "spawn_record i j child prompt background a e = on_session a (on_part i j (spawned_part child prompt background)) e"

text \<open>\<^verbatim>\<open>spawn_child\<close> run without another thread between its sections.\<close>

definition spawn_child ::
  "oc2_env \<Rightarrow> nat \<Rightarrow> nat \<Rightarrow> string \<Rightarrow> string \<Rightarrow> bool \<Rightarrow> nat \<Rightarrow> oc2 \<Rightarrow> (oc2_error + nat) \<times> oc2" where
  "spawn_child v i j prompt title background a e =
     (case spawn_create v title a e of
        (Inl x, e1) \<Rightarrow> (Inl x, e1)
      | (Inr c, e1) \<Rightarrow>
          let child = (case session_at e1 c of None \<Rightarrow> [] | Some s \<Rightarrow> os_id s) in
          (case engine_prompt v child prompt None (spawn_record i j child prompt background a e1) of
             (Inl x, e2) \<Rightarrow> (Inl x, e2)
           | (Inr _, e2) \<Rightarrow> (Inr c, e2)))"

definition final_text :: "oc2_session \<Rightarrow> string" where
  "final_text s =
     (let assistants = filter (\<lambda>m. type_of m = ''assistant'') (os_messages s)
      in if assistants = [] then []
         else join (''\<newline>'') (map (\<lambda>q. shown q ''text'') (filter (\<lambda>q. type_of q = ''text'') (content_of (last assistants)))))"

definition subagent_text :: "string \<Rightarrow> string \<Rightarrow> string option \<Rightarrow> string" where
  "subagent_text sid state reply =
     ''<subagent sessionID='' @ [CHR 34] @ sid @ [CHR 34] @ '' state='' @ [CHR 34] @ state @ [CHR 34] @ ''>''
       @ (case reply of None \<Rightarrow> ''\<newline></subagent>'' | Some t \<Rightarrow> ''\<newline>'' @ t @ ''\<newline></subagent>'')"

definition child_metadata :: "string \<Rightarrow> string \<Rightarrow> payload" where
  "child_metadata sid status = [(''sessionID'', JStr sid), (''status'', JStr status), (''truncated'', JBool False)]"

definition settle_background :: "oc2_env \<Rightarrow> nat \<Rightarrow> nat \<Rightarrow> string \<Rightarrow> nat \<Rightarrow> oc2 \<Rightarrow> oc2" where
  "settle_background v i j child a e =
     complete_tool v i j (subagent_text child ''running'' None) (child_metadata child ''running'') a e"

text \<open>One poll of a parent's wait for its child: \<open>Some True\<close> the child no longer runs, \<open>Some False\<close> the
  parent was interrupted, \<open>None\<close> neither.\<close>

definition settle_poll :: "nat \<Rightarrow> nat \<Rightarrow> oc2 \<Rightarrow> bool option" where
  "settle_poll c a e =
     (if \<not> running_at e c then Some True
      else case session_at e a of None \<Rightarrow> None | Some s \<Rightarrow> if os_cancel s then Some False else None)"

text \<open>What closes the part once the child has stopped: its final text, or the empty text of a child that did
  not succeed (the wait that follows is a step of the turn).\<close>

definition settle_done :: "oc2_env \<Rightarrow> nat \<Rightarrow> nat \<Rightarrow> nat \<Rightarrow> nat \<Rightarrow> oc2 \<Rightarrow> string \<times> oc2" where
  "settle_done v i j c a e =
     (case session_at e c of
        None \<Rightarrow> ([], e)
      | Some ch \<Rightarrow>
          if os_outcome ch \<noteq> Some ''succeeded'' then ([], fail_tool v i j ''aborted'' ''Subagent interrupted'' a e)
          else (final_text ch, complete_tool v i j (subagent_text (os_id ch) ''completed'' (Some (final_text ch)))
                  (child_metadata (os_id ch) ''completed'') a e))"

section \<open>Ending a turn\<close>

definition idle_message :: "oc2_env \<Rightarrow> string \<Rightarrow> string \<Rightarrow> payload option \<Rightarrow> payload" where
  "idle_message v i outcome err =
     [(''id'', JStr i), (''type'', JStr ''idle''), (''outcome'', JStr outcome)] @ now_field v
       @ (case err of None \<Rightarrow> [] | Some x \<Rightarrow> [(''error'', JObj x)])"

definition idle_session :: "oc2_env \<Rightarrow> string \<Rightarrow> string \<Rightarrow> payload option \<Rightarrow> oc2_session \<Rightarrow> oc2_session" where
  "idle_session v i outcome err s =
     push (idle_message v i outcome err)
       (s\<lparr>os_outcome := Some outcome, os_idle_at := Some (v_now v), os_updated := v_now v, os_current := None,
          os_pending := (if outcome = ''interrupted'' then [] else os_pending s)\<rparr>)"

definition idle_kind :: "string \<Rightarrow> string" where
  "idle_kind outcome =
     ''session.execution.'' @ (if outcome \<in> {''succeeded'', ''interrupted''} then outcome else ''failed'')"

definition idle_section :: "oc2_env \<Rightarrow> string \<Rightarrow> payload option \<Rightarrow> nat \<Rightarrow> oc2 \<Rightarrow> oc2" where
  "idle_section v outcome err a e =
     (case oc2_id v ''msg'' e of (i, e1) \<Rightarrow>
      publish_at v (idle_kind outcome) True False (\<lambda>s. []) a
        (engine_save v (on_session a (idle_session v i outcome err) e1)))"

definition spawned_in_background :: "string \<Rightarrow> oc2_session \<Rightarrow> bool" where
  "spawned_in_background child s \<longleftrightarrow>
     list_ex (\<lambda>m. list_ex (\<lambda>q.
        dget q ''name'' = Some (JStr ''subagent'')
        \<and> dget (sub_obj (sub_obj q ''state'') ''metadata'') ''sessionID'' = Some (JStr child)
        \<and> dget (sub_obj (sub_obj q ''state'') ''input'') ''background'' = Some (JBool True)) (content_of m)) (os_messages s)"

definition inbox_entry :: "string \<Rightarrow> oc2_session \<Rightarrow> payload" where
  "inbox_entry i child =
     [(''id'', JStr i), (''type'', JStr ''subagent''), (''childID'', JStr (os_id child)), (''text'', JStr (final_text child)),
      (''description'', opt_str (os_title child))]"

definition child_settled :: "oc2_env \<Rightarrow> nat \<Rightarrow> oc2 \<Rightarrow> oc2" where
  "child_settled v c e =
     (case session_at e c of
        None \<Rightarrow> e
      | Some ch \<Rightarrow>
          (case dget (oe_sessions e) (str_or (os_parent ch) []) of
             None \<Rightarrow> e
           | Some a \<Rightarrow>
               (case session_at e a of
                  None \<Rightarrow> e
                | Some s \<Rightarrow>
                    if os_outcome ch \<noteq> Some ''succeeded'' \<or> \<not> spawned_in_background (os_id ch) s then e
                    else case oc2_id v ''msg'' e of (i, e1) \<Rightarrow>
                      let entry = inbox_entry i ch in
                      publish_at v ''session.inbox.enqueued'' True True
                        (\<lambda>s. [(''inboxID'', JStr i), (''item'', JObj (filter (\<lambda>(k, _). k \<noteq> ''id'') entry))]) a
                        (engine_start v a (on_session a (\<lambda>s. s\<lparr>os_inbox := os_inbox s @ [entry]\<rparr>) e1)))))"

definition after_idle :: "oc2_env \<Rightarrow> nat \<Rightarrow> oc2 \<Rightarrow> oc2" where
  "after_idle v a e =
     (case session_at e a of None \<Rightarrow> e | Some s \<Rightarrow> if os_parent s = None then e else child_settled v a e)"

definition interrupted_section :: "oc2_env \<Rightarrow> nat option \<Rightarrow> nat \<Rightarrow> oc2 \<Rightarrow> oc2" where
  "interrupted_section v i a e =
     engine_save v (case i of None \<Rightarrow> e | Some n \<Rightarrow> on_session a (on_message n (abort_assistant v ''Tool execution interrupted'')) e)"

definition failed_step :: "oc2_env \<Rightarrow> payload \<Rightarrow> payload \<Rightarrow> payload" where
  "failed_step v err m =
     on_sub ''time'' (dsetdefault ''completed'' (JInt (v_now v))) (update_all [(''error'', JObj err), (''finish'', JStr ''error'')] m)"

definition fail_turn_section :: "oc2_env \<Rightarrow> nat \<Rightarrow> payload \<Rightarrow> nat \<Rightarrow> oc2 \<Rightarrow> oc2" where
  "fail_turn_section v i err a e = step_ended v i a (engine_save v (on_session a (on_message i (failed_step v err)) e))"

text \<open>The operations that end a turn, run without another thread between their sections.\<close>

definition engine_idle :: "oc2_env \<Rightarrow> string \<Rightarrow> payload option \<Rightarrow> nat \<Rightarrow> oc2 \<Rightarrow> oc2" where
  "engine_idle v outcome err a e = after_idle v a (idle_section v outcome err a e)"

definition interrupted :: "oc2_env \<Rightarrow> nat option \<Rightarrow> nat \<Rightarrow> oc2 \<Rightarrow> oc2" where
  "interrupted v i a e = engine_idle v ''interrupted'' None a (interrupted_section v i a e)"

definition fail_turn :: "oc2_env \<Rightarrow> nat \<Rightarrow> payload \<Rightarrow> nat \<Rightarrow> oc2 \<Rightarrow> oc2" where
  "fail_turn v i err a e = engine_idle v ''failed'' (Some err) a (fail_turn_section v i err a e)"

section \<open>The worker\<close>

datatype work = NoWork | Ended | Work string string

definition worker_take :: "oc2_env \<Rightarrow> nat \<Rightarrow> oc2 \<Rightarrow> work \<times> oc2" where
  "worker_take v a e =
     (case session_at e a of
        None \<Rightarrow> (NoWork, e)
      | Some s \<Rightarrow>
          if oe_halted e \<or> dget (oe_sessions e) (os_id s) = None then (NoWork, e)
          else case os_pending s of
            (kind, txt) # rest \<Rightarrow> (Work kind txt, on_session a (\<lambda>s. s\<lparr>os_pending := rest\<rparr>) e)
          | [] \<Rightarrow>
              if os_inbox s \<noteq> [] then (Work ''inbox'' [], e)
              else (Ended, engine_save v (on_session a (\<lambda>s. s\<lparr>os_running := False, os_current := None\<rparr>) e)))"

definition execution_started :: "oc2_env \<Rightarrow> nat \<Rightarrow> oc2 \<Rightarrow> oc2" where
  "execution_started v a e = publish_at v ''session.execution.started'' True False (\<lambda>s. []) a e"

text \<open>The start of a turn: its user message, and the error its model fails it with, if any.\<close>

definition begin_turn :: "oc2_env \<Rightarrow> string \<Rightarrow> nat \<Rightarrow> oc2 \<Rightarrow> payload option \<times> oc2" where
  "begin_turn v txt a e =
     (let e1 = execution_started v a (user_message v txt a e)
      in ((case session_at e1 a of None \<Rightarrow> None | Some s \<Rightarrow> route_error (session_model s)), e1))"

definition synthetic_message :: "oc2_env \<Rightarrow> string \<Rightarrow> payload \<Rightarrow> payload" where
  "synthetic_message v i entry =
     [(''id'', JStr i), (''type'', JStr ''synthetic''), (''description'', text_or_null entry ''description''),
      (''metadata'', JObj [(''agent'', JStr ''General''), (''childID'', text_or_null entry ''childID''), (''source'', JStr ''subagent'')]),
      (''text'', JStr (''<subagent sessionID='' @ [CHR 34] @ shown entry ''childID'' @ [CHR 34] @ '' state='' @ [CHR 34] @ ''completed'' @ [CHR 34]
         @ '' description='' @ [CHR 34] @ shown entry ''description'' @ [CHR 34] @ ''>\<newline>'' @ shown entry ''text'' @ ''\<newline></subagent>''))] @ now_field v"

text \<open>\<^verbatim>\<open>_deliver_inbox\<close> after its wait: \<open>None\<close> when the inbox was emptied meanwhile, else the child the entry is
  of, if it is still there.\<close>

definition deliver_inbox :: "oc2_env \<Rightarrow> nat \<Rightarrow> oc2 \<Rightarrow> nat option option \<times> oc2" where
  "deliver_inbox v a e =
     (case session_at e a of
        None \<Rightarrow> (None, e)
      | Some s \<Rightarrow>
          (case os_inbox s of
             [] \<Rightarrow> (None, e)
           | entry # rest \<Rightarrow>
               (case oc2_id v ''msg'' e of (i, e1) \<Rightarrow>
                (Some (dget (oe_sessions e) (shown entry ''childID'')),
                 publish_at v ''session.inbox.delivered'' True True (\<lambda>s. [(''inboxID'', text_or_null entry ''id'')]) a
                   (engine_save v (on_session a (\<lambda>s. push (synthetic_message v i entry) (s\<lparr>os_inbox := rest\<rparr>)) e1))))))"

definition compaction_message :: "oc2_env \<Rightarrow> string \<Rightarrow> oc2_session \<Rightarrow> payload" where
  "compaction_message v i s =
     [(''id'', JStr i), (''type'', JStr ''compaction''), (''reason'', JStr ''manual''), (''status'', JStr ''completed''),
      (''model'', JObj (session_model s)),
      (''summary'', JStr ''## Objective\<newline>- Continue the session.\<newline>\<newline>## Work State\<newline>- (none)''),
      (''tokens'', JObj (step_tokens 7 7)), (''cost'', step_cost (v_float v) (session_model s) 7 7)] @ now_field v"

definition compact_section :: "oc2_env \<Rightarrow> nat \<Rightarrow> oc2 \<Rightarrow> oc2" where
  "compact_section v a e =
     (case oc2_id v ''msg'' e of (i, e1) \<Rightarrow>
      engine_save v (on_session a (\<lambda>s. push (compaction_message v i s) s) e1))"

end
