(* ===== verification/Oc2_Crew.thy ===== *)
theory Oc2_Crew
  imports Oc2_Workers
begin

text \<open>
  The invariant of the OpenCode 2 service: a session has at most one worker, it has one while it runs and is
  held by the table, and nothing waits on a session that does not run. Almost every section is \<open>quiet\<close>: it
  leaves the table, the workers and what runs as they are, and puts nothing into a queue. What is not quiet
  starts a worker, adds a session or stops one.
\<close>

section \<open>Quiet sections\<close>

definition busy :: "oc2_session \<Rightarrow> bool" where
  "busy s \<longleftrightarrow> os_pending s \<noteq> [] \<or> os_inbox s \<noteq> []"

definition calmer :: "oc2_session \<Rightarrow> oc2_session \<Rightarrow> bool" where
  "calmer s s' \<longleftrightarrow> os_id s' = os_id s \<and> os_running s' = os_running s \<and> (busy s' \<longrightarrow> busy s)"

definition quiet :: "oc2 \<Rightarrow> oc2 \<Rightarrow> bool" where
  "quiet e e' \<longleftrightarrow>
     (\<forall>sid a. dget (oe_sessions e') sid = Some a \<longrightarrow> dget (oe_sessions e) sid = Some a)
     \<and> (distinct (dkeys (oe_sessions e)) \<longrightarrow> distinct (dkeys (oe_sessions e')))
     \<and> oe_next e' = oe_next e \<and> oe_spawned e' = oe_spawned e \<and> (oe_halted e \<longrightarrow> oe_halted e')
     \<and> (\<forall>a. rel_option calmer (session_at e a) (session_at e' a))"

lemma calm_refl [simp]: "calmer s s"
  by (simp add: calmer_def)

lemma calm_trans: "calmer s t \<Longrightarrow> calmer t u \<Longrightarrow> calmer s u"
  by (auto simp: calmer_def)

lemma quiet_refl [simp]: "quiet e e"
  by (simp add: quiet_def option.rel_refl)

lemma rel_calm_trans: "rel_option calmer x y \<Longrightarrow> rel_option calmer y z \<Longrightarrow> rel_option calmer x z"
  by (cases x; cases y; cases z) (auto intro: calm_trans)

lemma quiet_trans [trans]: "quiet e f \<Longrightarrow> quiet f g \<Longrightarrow> quiet e g"
  unfolding quiet_def by (blast intro: rel_calm_trans dest: trans)

lemma session_at_on_session [simp]:
  "session_at (on_session a f e) b = (if b = a then map_option f (session_at e a) else session_at e b)"
  by (auto simp: on_session_def session_at_def split: option.split)

lemma on_session_frame [simp]:
  "oe_sessions (on_session a f e) = oe_sessions e" "oe_next (on_session a f e) = oe_next e"
  "oe_spawned (on_session a f e) = oe_spawned e" "oe_halted (on_session a f e) = oe_halted e"
  "oe_levers (on_session a f e) = oe_levers e"
  by (auto simp: on_session_def split: option.split)

lemma quiet_on_session: "(\<And>s. calmer s (f s)) \<Longrightarrow> quiet e (on_session a f e)"
  by (auto simp: quiet_def option.rel_sel)

text \<open>The parts of an engine the invariant reads; a section that keeps them is quiet.\<close>

definition engine_core :: "oc2 \<Rightarrow> (string, nat) dict \<times> (nat, oc2_session) dict \<times> nat \<times> (nat \<times> bool) list \<times> bool" where
  "engine_core e = (oe_sessions e, oe_heap e, oe_next e, oe_spawned e, oe_halted e)"

lemma quiet_core: "engine_core e' = engine_core e \<Longrightarrow> quiet e e'"
  by (simp add: quiet_def engine_core_def session_at_def option.rel_refl)

lemma core_id [simp]: "engine_core (snd (oc2_id v pre e)) = engine_core e"
  by (simp add: oc2_id_def engine_core_def)

lemma session_at_id [simp]: "session_at (snd (oc2_id v pre e)) a = session_at e a"
  by (simp add: oc2_id_def session_at_def)

lemma id_frame [simp]:
  "oe_sessions (snd (oc2_id v pre e)) = oe_sessions e" "oe_next (snd (oc2_id v pre e)) = oe_next e"
  "oe_spawned (snd (oc2_id v pre e)) = oe_spawned e" "oe_halted (snd (oc2_id v pre e)) = oe_halted e"
  by (simp_all add: oc2_id_def)

lemma core_save [simp]: "engine_core (engine_save v e) = engine_core e"
  by (simp add: engine_save_def engine_core_def)

lemma core_publish [simp]: "engine_core (publish v kind d l kvs s e) = engine_core e"
  by (simp add: publish_def oc2_id_def engine_core_def Let_def)

lemma core_publish_at [simp]: "engine_core (publish_at v kind d l kvs a e) = engine_core e"
  by (simp add: publish_at_def split: option.split)

lemma core_kill [simp]: "engine_core (kill_holder p e) = engine_core e"
  by (simp add: kill_holder_def engine_core_def split: option.split)

lemma quiet_save: "quiet e f \<Longrightarrow> quiet e (engine_save v f)"
  by (erule quiet_trans) (simp add: quiet_core)

lemma quiet_publish: "quiet e f \<Longrightarrow> quiet e (publish_at v kind d l kvs a f)"
  by (erule quiet_trans) (simp add: quiet_core)

lemma quiet_on: "quiet e f \<Longrightarrow> (\<And>s. calmer s (g s)) \<Longrightarrow> quiet e (on_session a g f)"
  by (erule quiet_trans) (simp add: quiet_on_session)

lemma quiet_id: "quiet e (snd (oc2_id v pre e))"
  by (simp add: quiet_core)

lemma quiet_kill: "quiet e f \<Longrightarrow> quiet e (kill_holder p f)"
  by (erule quiet_trans) (simp add: quiet_core)

lemmas quiet_intros = quiet_save quiet_publish quiet_on quiet_id quiet_kill quiet_refl

lemma on_message_frame [simp]:
  "os_id (on_message i f s) = os_id s" "os_running (on_message i f s) = os_running s"
  "os_pending (on_message i f s) = os_pending s" "os_inbox (on_message i f s) = os_inbox s"
  by (simp_all add: on_message_def)

lemma calm_on_message [simp]: "calmer s (on_message i f s)"
  by (simp add: calmer_def busy_def)

lemma calm_on_part [simp]: "calmer s (on_part i j f s)"
  by (simp add: on_part_def)

lemma calm_push [simp]: "calmer s (push m t) = calmer s t"
  by (simp add: calmer_def busy_def push_def)

lemma set_status_frame [simp]:
  "os_id (set_status st h s) = os_id s" "os_running (set_status st h s) = os_running s"
  "os_pending (set_status st h s) = os_pending s" "os_inbox (set_status st h s) = os_inbox s"
  by (simp_all add: set_status_def on_part_def split: option.split)

lemma calm_set_status [simp]: "calmer s (set_status st h t) = calmer s t"
  by (simp add: calmer_def busy_def)

lemma calm_cancel_session [simp]: "calmer s (cancel_session s)"
  by (simp add: calmer_def busy_def cancel_session_def)

section \<open>Every quiet section\<close>

lemma quiet_cancel_one: "quiet e (cancel_one a e)"
  by (auto simp: cancel_one_def intro!: quiet_intros split: option.split)

lemma quiet_cancel_running: "quiet e (cancel_running sid e)"
  by (simp add: cancel_running_def quiet_cancel_one split: option.split)

lemma quiet_fold: "(\<And>x f. quiet f (g x f)) \<Longrightarrow> quiet e (fold g xs e)"
  by (induction xs arbitrary: e) (auto intro: quiet_trans)

lemma quiet_engine_cancel: "engine_cancel a e = Some e' \<Longrightarrow> quiet e e'"
  by (auto simp: engine_cancel_def split: option.splits
      intro: quiet_trans [OF quiet_cancel_one quiet_fold [of cancel_running]] quiet_cancel_running)

lemma quiet_cancel_all: "cancel_all sids e = Some e' \<Longrightarrow> quiet e e'"
  by (induction sids e rule: cancel_all.induct) (auto split: option.splits dest: quiet_engine_cancel intro: quiet_trans)

lemma quiet_remove: "engine_remove v sid e = Some e' \<Longrightarrow> quiet e e'"
proof (unfold engine_remove_def, clarsimp split: option.splits)
  fix doomed f
  assume "cancel_all doomed e = Some f"
  then have "quiet e f" by (rule quiet_cancel_all)
  also have "quiet f (f\<lparr>oe_sessions := fold dpop doomed (oe_sessions f)\<rparr>)"
    by (auto simp: quiet_def session_at_def option.rel_refl distinct_fold_dpop dget_fold_dpop split: if_splits)
  finally show "quiet e (engine_save v (f\<lparr>oe_sessions := fold dpop doomed (oe_sessions f)\<rparr>))"
    by (rule quiet_save)
qed

lemma quiet_interrupt: "engine_interrupt sid e = Some (r, e') \<Longrightarrow> quiet e e'"
  by (auto simp: engine_interrupt_def split: option.splits if_splits dest: quiet_engine_cancel)

lemma quiet_halt: "quiet e (engine_halt v e)"
proof -
  have "quiet e (e\<lparr>oe_halted := True\<rparr>)" by (simp add: quiet_def session_at_def option.rel_refl)
  also have "quiet (e\<lparr>oe_halted := True\<rparr>) (fold (\<lambda>s. kill_holder (os_holder s)) (held_sessions e) (e\<lparr>oe_halted := True\<rparr>))"
    by (intro quiet_fold quiet_intros)
  finally show ?thesis unfolding engine_halt_def by (rule quiet_save)
qed

lemma with_session_quiet:
  "(\<And>a. quiet e (snd (k a))) \<Longrightarrow> quiet e (snd (with_session sid k e))"
  by (simp add: with_session_def split: option.split)

lemma quiet_update: "quiet e (snd (engine_update v sid body e))"
  unfolding engine_update_def by (rule with_session_quiet) (auto intro!: quiet_intros simp: calmer_def busy_def)

lemma quiet_environment: "quiet e (snd (set_environment sid vars e))"
  unfolding set_environment_def by (rule with_session_quiet) (auto intro!: quiet_intros simp: calmer_def busy_def)

lemma quiet_switch_model: "quiet e (snd (switch_model v sid m e))"
  unfolding switch_model_def by (rule with_session_quiet) (auto intro!: quiet_intros simp: calmer_def busy_def push_def split_beta)

lemma quiet_switch_agent: "quiet e (snd (switch_agent v sid m e))"
  unfolding switch_agent_def by (rule with_session_quiet) (auto intro!: quiet_intros simp: calmer_def busy_def push_def split_beta)

lemma quiet_reply: "quiet e (snd (reply_permission sid rid decision msg e))"
  unfolding reply_permission_def
  by (rule with_session_quiet) (auto intro!: quiet_intros simp: calmer_def busy_def split: option.split)

lemma quiet_create_form: "quiet e (snd (create_form v sid body e))"
  unfolding create_form_def
  by (rule with_session_quiet) (auto intro!: quiet_intros simp: calmer_def busy_def split_beta Let_def)

lemma quiet_cancel_form: "quiet e (snd (cancel_form sid fid e))"
  unfolding cancel_form_def
  by (rule with_session_quiet) (auto intro!: quiet_intros simp: calmer_def busy_def split: option.split)

lemma quiet_subscribe: "quiet e (snd (subscribe e))" "quiet e (unsubscribe n e)"
  by (simp_all add: quiet_core subscribe_def unsubscribe_def engine_core_def Let_def)

lemma quiet_execution_started: "quiet e (execution_started v a e)"
  unfolding execution_started_def by (intro quiet_intros)

lemma quiet_user_message: "quiet e (user_message v t a e)"
  by (auto simp: user_message_def split_beta calmer_def busy_def push_def intro!: quiet_intros)

lemma quiet_step_ended: "quiet e f \<Longrightarrow> quiet e (step_ended v i a f)"
  unfolding step_ended_def by (intro quiet_intros)

lemma quiet_fail_tool: "quiet e (fail_tool v i j kind msg a e)"
  by (auto simp: fail_tool_def Let_def intro!: quiet_intros)

lemma quiet_complete_tool: "quiet e (complete_tool v i j output metadata a e)"
  by (auto simp: complete_tool_def Let_def intro!: quiet_intros)

lemma quiet_declined: "quiet e (declined v i a e)"
  by (auto simp: declined_def calmer_def busy_def intro!: quiet_step_ended quiet_intros)

lemma quiet_request_open: "quiet e (snd (request_open v action resource source holding a e))"
  by (auto simp: request_open_def split_beta Let_def calmer_def busy_def intro!: quiet_intros)

lemma quiet_add_part: "quiet e f \<Longrightarrow> quiet e (add_step_part v i q a f)"
  by (auto simp: add_step_part_def intro!: quiet_intros)

lemma quiet_open_step: "quiet e (snd (open_step v a e))"
  by (auto simp: open_step_def split_beta Let_def intro!: quiet_intros)

lemma quiet_close_step: "quiet e (close_step v i tokens cost finish t a e)"
  by (auto simp: close_step_def Let_def text_ended_def calmer_def busy_def intro!: quiet_step_ended quiet_intros)

lemma quiet_text_ended: "quiet e (text_ended v i t a e)"
  unfolding text_ended_def by (intro quiet_intros)

lemma first_steer_shorter: "first_steer xs = Some (t, ys) \<Longrightarrow> xs \<noteq> []"
  by (cases xs) auto

lemma quiet_take_steer: "quiet e (snd (take_steer a e))"
proof (cases "session_at e a")
  case (Some s)
  then show ?thesis
    by (auto simp: take_steer_def quiet_def option.rel_sel calmer_def busy_def dest: first_steer_shorter split: option.split)
qed (simp add: take_steer_def)

lemma quiet_owners: "quiet e f \<Longrightarrow> quiet e (f\<lparr>oe_owners := d\<rparr>)"
  by (erule quiet_trans) (simp add: quiet_core engine_core_def)

lemma quiet_open_tool: "quiet e (snd (open_tool v i name input a e))"
  by (auto simp: open_tool_def split_beta Let_def intro!: quiet_publish quiet_owners quiet_add_part quiet_id split: option.split)

lemma quiet_judge_call: "quiet e (snd (judge_call v i j action resource ask a e))"
  by (auto simp: judge_call_def Let_def split_beta quiet_fail_tool quiet_request_open split: option.split)

lemma quiet_request_close: "quiet e (snd (request_close r holding a e))"
  by (auto simp: request_close_def calmer_def busy_def intro!: quiet_intros split: option.split)

lemma quiet_judge_answer: "quiet e (snd (judge_answer v i j action resource reply a e))"
  by (auto simp: judge_answer_def quiet_fail_tool quiet_declined calmer_def busy_def intro!: quiet_intros split: option.split)

lemma quiet_form_wait: "quiet e (snd (form_wait fid a e))"
  by (auto simp: form_wait_def calmer_def busy_def intro!: quiet_intros split: option.split)

lemma quiet_restart_due: "quiet e (snd (restart_due v e))"
  by (simp add: restart_due_def quiet_core engine_core_def engine_save_def)

lemma quiet_interrupted: "quiet e (interrupted_section v n a e)"
  by (auto simp: interrupted_section_def intro!: quiet_intros split: option.split)

lemma quiet_fail_turn: "quiet e (fail_turn_section v i err a e)"
  by (auto simp: fail_turn_section_def intro!: quiet_step_ended quiet_intros)

lemma quiet_idle: "quiet e (idle_section v outcome err a e)"
  by (auto simp: idle_section_def idle_session_def split_beta calmer_def busy_def push_def intro!: quiet_intros)

lemma quiet_compact: "quiet e (compact_section v a e)"
  by (auto simp: compact_section_def split_beta intro!: quiet_intros)

lemma quiet_deliver: "quiet e (snd (deliver_inbox v a e))"
proof (cases "session_at e a")
  case (Some s)
  show ?thesis
  proof (cases "os_inbox s")
    case (Cons entry rest)
    let ?f = "\<lambda>i s. push (synthetic_message v i entry) (s\<lparr>os_inbox := rest\<rparr>)"
    have "quiet e (on_session a (?f i) (snd (oc2_id v pre e)))" for i pre
      using Some Cons by (auto simp: quiet_def option.rel_sel calmer_def busy_def push_def)
    then show ?thesis
      using Some Cons by (auto simp: deliver_inbox_def split_beta intro!: quiet_publish quiet_save)
  qed (use Some in \<open>simp add: deliver_inbox_def\<close>)
qed (simp add: deliver_inbox_def)

lemma quiet_begin_turn: "quiet e (snd (begin_turn v t a e))"
  by (auto simp: begin_turn_def Let_def intro: quiet_trans [OF quiet_user_message quiet_execution_started])

lemma quiet_settle_done: "quiet e (snd (settle_done v i j c a e))"
  by (simp add: settle_done_def quiet_fail_tool quiet_complete_tool split: option.split)

section \<open>The invariant\<close>

text \<open>The workers of a session: its threads and those asked for and not yet begun.\<close>

definition hands :: "oc2 \<Rightarrow> crew \<Rightarrow> nat \<Rightarrow> nat" where
  "hands e ts a = count_list (map fst ts) a + count_list (map fst (oe_spawned e)) a"

definition in_table :: "oc2 \<Rightarrow> nat \<Rightarrow> bool" where
  "in_table e a \<longleftrightarrow> (\<exists>sid. dget (oe_sessions e) sid = Some a)"

definition manned :: "oc2 \<Rightarrow> crew \<Rightarrow> nat \<Rightarrow> bool" where
  "manned e ts a \<longleftrightarrow>
     hands e ts a \<le> (if running_at e a then 1 else 0)
     \<and> (running_at e a \<and> in_table e a \<and> \<not> oe_halted e \<longrightarrow> hands e ts a = 1)
     \<and> (\<forall>s. session_at e a = Some s \<and> busy s \<longrightarrow> os_running s)"

definition sound :: "oc2 \<Rightarrow> crew \<Rightarrow> bool" where
  "sound e ts \<longleftrightarrow>
     distinct (dkeys (oe_sessions e))
     \<and> (\<forall>sid a. dget (oe_sessions e) sid = Some a \<longrightarrow> (\<exists>s. session_at e a = Some s \<and> os_id s = sid))
     \<and> (\<forall>a. session_at e a \<noteq> None \<longrightarrow> a < oe_next e)
     \<and> (\<forall>a. manned e ts a)"

lemma sound_table: "sound e ts \<Longrightarrow> dget (oe_sessions e) sid = Some a \<Longrightarrow> \<exists>s. session_at e a = Some s \<and> os_id s = sid"
  unfolding sound_def by blast

lemma quiet_sessions:
  assumes "quiet e e'"
  shows "running_at e' a = running_at e a"
    and "in_table e' a \<Longrightarrow> in_table e a"
    and "hands e' ts a = hands e ts a"
    and "oe_halted e \<Longrightarrow> oe_halted e'"
    and "session_at e' a = Some s' \<Longrightarrow> \<exists>s. session_at e a = Some s \<and> calmer s s'"
    and "session_at e a = Some s \<Longrightarrow> \<exists>s'. session_at e' a = Some s' \<and> calmer s s'"
proof -
  have r: "rel_option calmer (session_at e a) (session_at e' a)" using assms by (simp add: quiet_def)
  show "running_at e' a = running_at e a"
    using r by (cases "session_at e a"; cases "session_at e' a") (auto simp: running_at_def calmer_def)
  show "session_at e' a = Some s' \<Longrightarrow> \<exists>s. session_at e a = Some s \<and> calmer s s'"
    using r by (cases "session_at e a") auto
  show "session_at e a = Some s \<Longrightarrow> \<exists>s'. session_at e' a = Some s' \<and> calmer s s'"
    using r by (cases "session_at e' a") auto
qed (use assms in \<open>auto simp: quiet_def in_table_def hands_def\<close>)

lemma manned_quiet:
  assumes m: "manned e ts a" and q: "quiet e e'"
  shows "manned e' ts a"
proof -
  have "os_running s'" if "session_at e' a = Some s'" "busy s'" for s'
  proof -
    from quiet_sessions(5) [OF q that(1)] obtain s where "session_at e a = Some s" "calmer s s'" by blast
    with m that(2) show ?thesis by (auto simp: manned_def calmer_def)
  qed
  with m quiet_sessions(1) [OF q] quiet_sessions(2) [OF q, of a] quiet_sessions(3) [OF q] quiet_sessions(4) [OF q]
  show ?thesis by (auto simp: manned_def)
qed

lemma sound_quiet:
  assumes "sound e ts" and q: "quiet e e'"
  shows "sound e' ts"
  unfolding sound_def
proof (intro conjI allI impI)
  show "distinct (dkeys (oe_sessions e'))" using assms by (simp add: sound_def quiet_def)
next
  fix sid a assume "dget (oe_sessions e') sid = Some a"
  with q have "dget (oe_sessions e) sid = Some a" by (simp add: quiet_def)
  with assms(1) obtain s where "session_at e a = Some s" "os_id s = sid" by (blast dest: sound_table)
  with quiet_sessions(6) [OF q, of a s] show "\<exists>s. session_at e' a = Some s \<and> os_id s = sid" by (auto simp: calmer_def)
next
  fix a assume "session_at e' a \<noteq> None"
  with quiet_sessions(5) [OF q, of a] have "session_at e a \<noteq> None" by auto
  with assms show "a < oe_next e'" by (auto simp: sound_def quiet_def)
next
  fix a show "manned e' ts a" using assms manned_quiet unfolding sound_def by blast
qed

text \<open>Work put into a queue of a session the table holds, and its worker started if none runs.\<close>

lemma engine_start_frame [simp]:
  "oe_sessions (engine_start v a e) = oe_sessions e" "oe_next (engine_start v a e) = oe_next e"
  "oe_halted (engine_start v a e) = oe_halted e"
  by (simp_all add: engine_start_def engine_save_def)

lemma session_at_start:
  "session_at (engine_start v a e) b =
     (if b = a \<and> \<not> running_at e a then map_option (\<lambda>s. s\<lparr>os_running := True, os_cancel := False\<rparr>) (session_at e a)
      else session_at e b)"
proof -
  have frame: "session_at ((engine_save v f)\<lparr>oe_spawned := x\<rparr>) c = session_at f c" for f x c
    by (simp add: session_at_def engine_save_def)
  show ?thesis by (simp add: engine_start_def frame)
qed

lemma spawned_start:
  "oe_spawned (engine_start v a e) = (if running_at e a then oe_spawned e else oe_spawned e @ [(a, False)])"
  by (simp add: engine_start_def)

lemma sound_queue:
  assumes s: "sound e ts" and h: "in_table e a"
    and f: "\<And>s. os_id (f s) = os_id s \<and> os_running (f s) = os_running s"
  shows "sound (engine_start v a (on_session a f e)) ts"
proof -
  let ?e = "engine_start v a (on_session a f e)"
  from h s obtain s0 where s0: "session_at e a = Some s0" unfolding in_table_def by (blast dest: sound_table)
  have at: "session_at ?e b = (if b = a then Some ((f s0)\<lparr>os_running := True, os_cancel := (os_running s0 \<and> os_cancel (f s0))\<rparr>)
      else session_at e b)" for b
    using s0 f [of s0] by (auto simp: session_at_start running_at_def)
  have run: "running_at ?e b = (b = a \<or> running_at e b)" for b
    using s0 by (simp add: running_at_def at)
  have hands: "hands ?e ts b = (if b = a \<and> \<not> running_at e a then Suc (hands e ts b) else hands e ts b)" for b
    using s0 f [of s0] by (auto simp: hands_def spawned_start running_at_def)
  have held: "in_table ?e b = in_table e b" for b by (simp add: in_table_def)
  have m: "manned e ts b" for b using s by (simp add: sound_def)
  have "manned ?e ts b" for b
  proof (cases "b = a")
    case True
    with m [of a] show ?thesis by (auto simp: manned_def run hands held at split: if_splits)
  next
    case False
    with m [of b] show ?thesis by (simp add: manned_def run hands held at)
  qed
  moreover have "\<exists>t. session_at ?e b = Some t \<and> os_id t = sid" if "dget (oe_sessions e) sid = Some b" for sid b
  proof -
    from that s obtain t where "session_at e b = Some t" "os_id t = sid" by (blast dest: sound_table)
    with s0 f [of s0] show ?thesis by (auto simp: at)
  qed
  moreover have "b < oe_next e" if "session_at ?e b \<noteq> None" for b
  proof -
    have "session_at e b \<noteq> None" using that s0 by (auto simp: at split: if_splits)
    with s show ?thesis by (simp add: sound_def)
  qed
  ultimately show ?thesis using s by (simp add: sound_def)
qed

lemma sound_enqueue: "sound e ts \<Longrightarrow> in_table e a \<Longrightarrow> sound (enqueue v item a e) ts"
  unfolding enqueue_def by (rule sound_queue) auto

lemma sound_prompt: "sound e ts \<Longrightarrow> sound (snd (engine_prompt v sid txt delivery e)) ts"
  by (auto simp: engine_prompt_def with_session_def in_table_def intro!: sound_enqueue split: option.split)

lemma sound_compact: "sound e ts \<Longrightarrow> sound (snd (engine_compact v sid e)) ts"
  by (auto simp: engine_compact_def with_session_def in_table_def intro!: sound_enqueue split: option.split)

lemma sound_child_settled:
  assumes "sound e ts" shows "sound (child_settled v c e) ts"
proof -
  have "sound (publish_at v kind d l kvs a (engine_start v a (on_session a (\<lambda>s. s\<lparr>os_inbox := os_inbox s @ [x]\<rparr>) (snd (oc2_id v pre e))))) ts"
    if "dget (oe_sessions e) sid = Some a" for kind d l kvs a x pre sid
  proof -
    have "sound (snd (oc2_id v pre e)) ts" using assms quiet_id by (rule sound_quiet)
    moreover have "in_table (snd (oc2_id v pre e)) a" using that by (auto simp: in_table_def)
    ultimately have "sound (engine_start v a (on_session a (\<lambda>s. s\<lparr>os_inbox := os_inbox s @ [x]\<rparr>) (snd (oc2_id v pre e)))) ts"
      by (rule sound_queue) simp
    then show ?thesis by (rule sound_quiet) (intro quiet_intros)
  qed
  with assms show ?thesis by (auto simp: child_settled_def split_beta Let_def split: option.split)
qed

lemma sound_after_idle: "sound e ts \<Longrightarrow> sound (after_idle v a e) ts"
  by (simp add: after_idle_def sound_child_settled split: option.split)

text \<open>A session added at a fresh address.\<close>

lemma sound_fresh: "sound e ts \<Longrightarrow> session_at e (oe_next e) = None \<and> hands e ts (oe_next e) = 0"
  by (fastforce simp: sound_def manned_def running_at_def split: option.splits if_splits)

lemma sound_add:
  assumes s: "sound e ts" and t: "\<not> os_running t" "\<not> busy t"
  shows "sound (snd (add_session t e)) ts"
proof -
  let ?e = "snd (add_session t e)" and ?n = "oe_next e"
  have at: "session_at ?e b = (if b = ?n then Some t else session_at e b)" for b
    by (simp add: add_session_def session_at_def)
  have tab: "oe_sessions ?e = dset (os_id t) ?n (oe_sessions e)" "oe_next ?e = Suc ?n" "oe_halted ?e = oe_halted e"
    by (simp_all add: add_session_def)
  have run: "running_at ?e b = (b \<noteq> ?n \<and> running_at e b)" for b
    using t by (simp add: running_at_def at)
  have hands: "hands ?e ts b = hands e ts b" for b by (simp add: hands_def add_session_def)
  have held: "in_table ?e b \<Longrightarrow> b \<noteq> ?n \<Longrightarrow> in_table e b" for b by (auto simp: in_table_def tab split: if_splits)
  have m: "manned e ts b" for b using s by (simp add: sound_def)
  have "manned ?e ts b" for b
  proof (cases "b = ?n")
    case True
    with sound_fresh [OF s] t show ?thesis by (simp add: manned_def run hands at)
  next
    case False
    with m [of b] held [of b] show ?thesis by (auto simp: manned_def run hands at tab)
  qed
  moreover have "\<exists>u. session_at ?e b = Some u \<and> os_id u = sid" if "dget (oe_sessions ?e) sid = Some b" for sid b
  proof (cases "sid = os_id t")
    case False
    with that have "dget (oe_sessions e) sid = Some b" by (simp add: tab)
    with s obtain u where "session_at e b = Some u" "os_id u = sid" by (blast dest: sound_table)
    with sound_fresh [OF s] show ?thesis by (auto simp: at)
  qed (use that in \<open>simp add: tab at\<close>)
  moreover have "b < oe_next ?e" if "session_at ?e b \<noteq> None" for b
    using that s by (auto simp: at tab sound_def less_Suc_eq split: if_splits)
  moreover have "distinct (dkeys (oe_sessions ?e))" using s by (simp add: tab sound_def distinct_update)
  ultimately show ?thesis by (simp add: sound_def)
qed

lemma sound_create: "sound e ts \<Longrightarrow> sound (snd (engine_create v body e)) ts"
proof -
  assume s: "sound e ts"
  let ?c = "chosen_id v body e"
  have "engine_core (snd ?c) = engine_core e" by (simp add: chosen_id_def split: option.split)
  then have c: "sound (snd ?c) ts" using s quiet_core sound_quiet by blast
  have "\<not> os_running (created_session v i body) \<and> \<not> busy (created_session v i body)" for i
    by (simp add: created_session_def busy_def)
  then have a: "sound (snd (add_session (created_session v i body) (snd ?c))) ts" for i
    using c sound_add by blast
  have "sound (publish_at v kind d l kvs n (engine_save v (snd (add_session (created_session v i body) (snd ?c))))) ts" for kind d l kvs n i
    using a [of i] by (rule sound_quiet) (intro quiet_intros)
  with c show ?thesis by (auto simp: engine_create_def split_beta)
qed

lemma sound_spawn: "sound e ts \<Longrightarrow> sound (snd (spawn_create v title a e)) ts"
proof -
  assume s: "sound e ts"
  have "sound (snd (oc2_id v ''ses'' e)) ts" using s quiet_id by (rule sound_quiet)
  then show ?thesis by (auto simp: spawn_create_def split_beta intro: sound_create split: option.split)
qed

section \<open>Every step keeps it\<close>

lemmas quiet_client = quiet_update quiet_remove quiet_environment quiet_interrupt quiet_switch_model quiet_switch_agent
  quiet_reply quiet_create_form quiet_cancel_form quiet_subscribe quiet_halt

lemma sound_client: "client_step e e' \<Longrightarrow> sound e ts \<Longrightarrow> sound e' ts"
proof (induction rule: client_step.induct)
  case (create e v body)
  then show ?case by (rule sound_create)
next
  case (prompt e v sid t delivery)
  then show ?case by (rule sound_prompt)
next
  case (compact e v sid)
  then show ?case by (rule sound_compact)
qed (erule sound_quiet, erule quiet_client | erule sound_quiet, rule quiet_client)+

lemma quiet_hold: "quiet e (engine_hold p a e)"
  by (auto simp: engine_hold_def calmer_def busy_def intro!: quiet_intros)

lemma quiet_open_form: "quiet e (snd (open_form v title rows a e))"
  by (simp add: open_form_def quiet_create_form)

lemma quiet_spawn_record: "quiet e (spawn_record i j child t background a e)"
  by (auto simp: spawn_record_def intro!: quiet_intros)

lemma quiet_settle_background: "quiet e (settle_background v i j child a e)"
  by (simp add: settle_background_def quiet_complete_tool)

lemmas quiet_block = quiet_hold quiet_kill [OF quiet_refl] quiet_open_step quiet_add_part [OF quiet_refl] quiet_close_step
  quiet_text_ended quiet_user_message quiet_take_steer quiet_open_tool quiet_judge_call quiet_request_open quiet_request_close
  quiet_judge_answer quiet_open_form quiet_form_wait quiet_complete_tool quiet_fail_tool quiet_restart_due quiet_spawn_record
  quiet_settle_background quiet_settle_done quiet_declined quiet_fail_turn quiet_interrupted quiet_idle

lemma sound_block: "block a e e' \<Longrightarrow> sound e ts \<Longrightarrow> sound e' ts"
proof (induction rule: block.induct)
  case (spawn v title a e c)
  then show ?case by (intro sound_spawn)
next
  case (ask_child v child t e r a)
  then show ?case by (intro sound_prompt)
next
  case (after_idle a e v)
  then show ?case by (intro sound_after_idle)
qed (erule sound_quiet, rule quiet_block)+

lemma take_work:
  assumes "worker_take v a e = (Work kind txt, e')"
  shows "quiet e e'"
proof (cases "session_at e a")
  case (Some s)
  with assms show ?thesis
    by (auto simp: worker_take_def quiet_def option.rel_sel calmer_def busy_def split: if_splits list.splits)
qed (use assms in \<open>simp add: worker_take_def\<close>)

lemma take_none: "worker_take v a e = (NoWork, e') \<Longrightarrow>
    e' = e \<and> (\<forall>s. session_at e a = Some s \<longrightarrow> oe_halted e \<or> dget (oe_sessions e) (os_id s) = None)"
  by (auto simp: worker_take_def split: option.splits if_splits list.splits)

lemma take_ended:
  assumes "worker_take v a e = (Ended, e')"
  shows "\<exists>s. session_at e a = Some s \<and> \<not> busy s
    \<and> e' = engine_save v (on_session a (\<lambda>s. s\<lparr>os_running := False, os_current := None\<rparr>) e)"
  using assms by (auto simp: worker_take_def busy_def split: option.splits if_splits list.splits)

lemma hands_thread [simp]:
  "hands e (xs @ (a, p) # ys) b = (if b = a then Suc (hands e (xs @ ys) b) else hands e (xs @ ys) b)"
  by (simp add: hands_def)

lemma sound_pc: "sound e (xs @ (a, p) # ys) = sound e (xs @ (a, q) # ys)"
  by (simp add: sound_def manned_def)

lemma sound_leaves:
  assumes s: "sound e (xs @ (a, p) # ys)" and t: "worker_take v a e = (NoWork, e')"
  shows "sound e' (xs @ ys)"
proof -
  from take_none [OF t] have e: "e' = e" and n: "session_at e a = Some s \<Longrightarrow> oe_halted e \<or> dget (oe_sessions e) (os_id s) = None" for s
    by auto
  have m: "manned e (xs @ (a, p) # ys) b" for b using s by (simp add: sound_def)
  have "oe_halted e \<or> \<not> in_table e a"
  proof (rule ccontr)
    assume *: "\<not> (oe_halted e \<or> \<not> in_table e a)"
    then obtain sid where sid: "dget (oe_sessions e) sid = Some a" by (auto simp: in_table_def)
    with s obtain u where "session_at e a = Some u" "os_id u = sid" unfolding sound_def by blast
    with n sid * show False by auto
  qed
  then have "manned e (xs @ ys) b" for b
    using m [of b] by (auto simp: manned_def split: if_splits)
  with s show ?thesis by (simp add: e sound_def)
qed

lemma sound_ends:
  assumes s: "sound e (xs @ (a, p) # ys)" and t: "worker_take v a e = (Ended, e')"
  shows "sound e' (xs @ ys)"
proof -
  let ?f = "\<lambda>s. s\<lparr>os_running := False, os_current := None\<rparr>"
  let ?e = "on_session a ?f e"
  from take_ended [OF t] obtain u where u: "session_at e a = Some u" "\<not> busy u" and e': "e' = engine_save v ?e" by blast
  have m: "manned e (xs @ (a, p) # ys) b" for b using s by (simp add: sound_def)
  have h: "hands ?e ts b = hands e ts b" "in_table ?e b = in_table e b" for ts b by (simp_all add: hands_def in_table_def)
  have r: "running_at ?e b = (b \<noteq> a \<and> running_at e b)" for b using u by (simp add: running_at_def)
  have "manned ?e (xs @ ys) b" for b
  proof (cases "b = a")
    case True
    with m [of a] u show ?thesis by (simp add: manned_def h r busy_def split: if_splits)
  next
    case False
    with m [of b] show ?thesis by (simp add: manned_def h r)
  qed
  moreover have "\<exists>t. session_at ?e b = Some t \<and> os_id t = sid" if "dget (oe_sessions e) sid = Some b" for sid b
  proof -
    from that s obtain t where "session_at e b = Some t" "os_id t = sid" unfolding sound_def by blast
    then show ?thesis by auto
  qed
  ultimately have "sound ?e (xs @ ys)" using s by (auto simp: sound_def split: if_splits)
  then show ?thesis unfolding e' by (rule sound_quiet) (intro quiet_intros)
qed

lemma sound_thread:
  "thread a p e (Some p') e' \<Longrightarrow> sound e ts \<Longrightarrow> sound e' ts"
proof (induction a p e "Some p'" e' rule: thread.induct)
  case (resume a e v)
  then show ?case by (auto intro: sound_quiet quiet_execution_started)
next
  case (takes v a e kind t e')
  then show ?case by (blast intro: sound_quiet take_work)
next
  case (routes v t a e e')
  then show ?case using quiet_begin_turn [of e v t a] sound_quiet by auto
next
  case (no_route v t a e err e')
  then show ?case using quiet_begin_turn [of e v t a] sound_quiet by auto
next
  case (emptied v a e e')
  then show ?case using quiet_deliver [of e v a] sound_quiet by auto
next
  case (orphan v a e e')
  then show ?case using quiet_deliver [of e v a] sound_quiet by auto
next
  case (wake v a e c e')
  then show ?case using quiet_deliver [of e v a] sound_quiet by auto
next
  case (summary a e v)
  then show ?case using quiet_compact sound_quiet by blast
next
  case (idle a outcome err e v)
  then show ?case using quiet_idle sound_quiet by blast
next
  case (settle a e v)
  then show ?case by (intro sound_after_idle)
next
  case (turn a e e')
  from turn.hyps(1) turn.prems show ?case by (rule sound_block)
qed simp_all

inductive_cases thread_endE: "thread a p e None e'"

lemma sound_begins:
  assumes "oe_spawned e = xs @ (a, r) # ys" "sound e ts"
  shows "sound (e\<lparr>oe_spawned := xs @ ys\<rparr>) (ts @ [(a, q)])"
proof -
  have "hands (e\<lparr>oe_spawned := xs @ ys\<rparr>) (ts @ [(a, q)]) b = hands e ts b" for b
    by (simp add: hands_def assms(1))
  then have "\<forall>b. hands (e\<lparr>oe_spawned := xs @ ys\<rparr>) (ts @ [(a, q)]) b = hands e ts b" by blast
  moreover have "in_table (e\<lparr>oe_spawned := zs\<rparr>) b = in_table e b" "running_at (e\<lparr>oe_spawned := zs\<rparr>) b = running_at e b"
    "session_at (e\<lparr>oe_spawned := zs\<rparr>) b = session_at e b" for zs b
    by (simp_all add: in_table_def running_at_def session_at_def)
  ultimately have "manned (e\<lparr>oe_spawned := xs @ ys\<rparr>) (ts @ [(a, q)]) b = manned e ts b"
    "session_at (e\<lparr>oe_spawned := xs @ ys\<rparr>) b = session_at e b" for b
    by (simp_all add: manned_def del: hands_thread)
  with assms(2) show ?thesis by (simp add: sound_def del: hands_thread)
qed

lemma sound_step: "service_step w w' \<Longrightarrow> sound (fst w) (snd w) \<Longrightarrow> sound (fst w') (snd w')"
proof (induction rule: service_step.induct)
  case client
  then show ?case using sound_client by simp
next
  case start
  then show ?case using sound_begins by simp
next
  case (work a p e p' e' xs ys)
  from work.prems have "sound e (xs @ (a, p) # ys)" by simp
  then have "sound e (xs @ (a, p') # ys)" by (simp only: sound_pc [of e xs a p ys p'])
  from sound_thread [OF work.hyps this] show ?case by simp
next
  case (gone a p e e' xs ys)
  from gone.prems have s: "sound e (xs @ (a, p) # ys)" by simp
  from gone.hyps show ?case
  proof (rule thread_endE)
    fix v assume "worker_take v a e = (NoWork, e')"
    from sound_leaves [OF s this] show ?case by simp
  next
    fix v assume "worker_take v a e = (Ended, e')"
    from sound_ends [OF s this] show ?case by simp
  qed
qed

section \<open>Booting\<close>

lemma resume_one_frame [simp]:
  "oe_sessions (resume_one v a e) = oe_sessions e" "oe_next (resume_one v a e) = oe_next e"
  "oe_halted (resume_one v a e) = oe_halted e" "oe_spawned (resume_one v a e) = oe_spawned e @ [(a, True)]"
  by (simp_all add: resume_one_def)

lemma session_at_resume:
  "b \<noteq> a \<Longrightarrow> session_at (resume_one v a e) b = session_at e b"
  "session_at e a = Some s \<Longrightarrow> \<exists>t. session_at (resume_one v a e) a = Some t \<and> os_id t = os_id s \<and> os_running t"
  by (simp_all add: resume_one_def resumed_session_def session_at_def on_session_def split: option.split)

lemma sound_resume:
  assumes s: "sound e []" and u: "session_at e a = Some u" "\<not> os_running u"
  shows "sound (resume_one v a e) []"
proof -
  let ?e = "resume_one v a e"
  from session_at_resume(2) [OF u(1)] obtain t where t: "session_at ?e a = Some t" "os_id t = os_id u" "os_running t" by blast
  note other = session_at_resume(1) [of _ a v e]
  have run: "running_at ?e b = (b = a \<or> running_at e b)" for b
    by (cases "b = a") (simp_all add: running_at_def t other)
  have hands: "hands ?e [] b = (if b = a then Suc (hands e [] b) else hands e [] b)" for b by (simp add: hands_def)
  have held: "in_table ?e b = in_table e b" for b by (simp add: in_table_def)
  have m: "manned e [] b" for b using s by (simp add: sound_def)
  have "manned ?e [] b" for b
  proof (cases "b = a")
    case True
    with m [of a] u t show ?thesis by (simp add: manned_def run hands running_at_def)
  next
    case False
    with m [of b] show ?thesis by (simp add: manned_def run hands held other)
  qed
  moreover have "\<exists>w. session_at ?e b = Some w \<and> os_id w = sid" if "dget (oe_sessions e) sid = Some b" for sid b
  proof (cases "b = a")
    case True
    with that s obtain w where "session_at e a = Some w" "os_id w = sid" unfolding sound_def by blast
    with u t True show ?thesis by simp
  next
    case False
    with that s show ?thesis by (simp add: sound_def other)
  qed
  moreover have "b < oe_next e" if "session_at ?e b \<noteq> None" for b
    using that s u other [of b] by (cases "b = a") (auto simp: sound_def)
  ultimately show ?thesis using s by (simp add: sound_def)
qed

lemma sound_resume_all:
  "sound e [] \<Longrightarrow> distinct xs \<Longrightarrow> (\<And>a. a \<in> set xs \<Longrightarrow> \<exists>u. session_at e a = Some u \<and> \<not> os_running u)
     \<Longrightarrow> sound (fold (resume_one v) xs e) []"
proof (induction xs arbitrary: e)
  case (Cons a xs)
  from Cons.prems(3) [of a] obtain u where "session_at e a = Some u" "\<not> os_running u" by auto
  then have "sound (resume_one v a e) []" using Cons.prems(1) sound_resume by blast
  moreover have "\<exists>u. session_at (resume_one v a e) b = Some u \<and> \<not> os_running u" if "b \<in> set xs" for b
  proof -
    have "b \<noteq> a" using that Cons.prems(2) by auto
    from session_at_resume(1) [OF this] show ?thesis using that Cons.prems(3) [of b] by auto
  qed
  ultimately show ?case using Cons.IH [of "resume_one v a e"] Cons.prems(2) by simp
qed simp

lemma load_session_idle: "load_session j = Some (s, r) \<Longrightarrow> \<not> os_running s \<and> \<not> busy s"
  by (auto simp: load_session_def loaded_session_def busy_def Let_def split: option.splits)

lemma load_sessions_sound:
  assumes "load_sessions js e = Some (xs, e')" "sound e []"
  shows "sound e' [] \<and> oe_next e \<le> oe_next e' \<and> (\<forall>a < oe_next e. session_at e' a = session_at e a)
    \<and> distinct xs \<and> (\<forall>a \<in> set xs. oe_next e \<le> a \<and> (\<exists>u. session_at e' a = Some u \<and> \<not> os_running u))"
  using assms
proof (induction js arbitrary: e xs)
  case (Cons j js)
  obtain s r where l: "load_session j = Some (s, r)" using Cons.prems(1) by (auto split: option.splits)
  let ?f = "snd (add_session s e)"
  have f: "fst (add_session s e) = oe_next e" "oe_next ?f = Suc (oe_next e)" "session_at ?f (oe_next e) = Some s"
    "a < oe_next e \<Longrightarrow> session_at ?f a = session_at e a" for a
    by (simp_all add: add_session_def session_at_def)
  from load_session_idle [OF l] have "sound ?f []" using Cons.prems(2) by (intro sound_add) auto
  moreover obtain ys where ys: "load_sessions js ?f = Some (ys, e')" "xs = (if r then oe_next e # ys else ys)"
    using Cons.prems(1) f(1) by (auto simp: l split_beta)
  ultimately have "sound e' [] \<and> Suc (oe_next e) \<le> oe_next e' \<and> (\<forall>a < Suc (oe_next e). session_at e' a = session_at ?f a)
    \<and> distinct ys \<and> (\<forall>a \<in> set ys. Suc (oe_next e) \<le> a \<and> (\<exists>u. session_at e' a = Some u \<and> \<not> os_running u))"
    using Cons.IH [of ?f ys] f(2) by simp
  moreover from this have "session_at e' (oe_next e) = Some s" using f(3) by simp
  ultimately show ?case using load_session_idle [OF l] f(4) ys(2) by (auto simp: Suc_le_eq)
qed auto

lemma sound_new: "sound (new_engine levers store minted) []"
  by (simp add: sound_def new_engine_def session_at_def manned_def hands_def running_at_def in_table_def)

lemma sound_boot:
  assumes "engine_boot v levers store minted = Some e"
  shows "sound e []"
proof -
  from assms obtain xs f where l: "engine_load (new_engine levers store minted) = Some (xs, f)"
    and e: "e = fold (resume_one v) xs f" by (auto simp: engine_boot_def)
  have restarted: "sound (g\<lparr>oe_restarted := b\<rparr>) []" if "sound g []" for g b
    using that by (rule sound_quiet) (simp add: quiet_core engine_core_def)
  have "sound f [] \<and> distinct xs \<and> (\<forall>a \<in> set xs. \<exists>u. session_at f a = Some u \<and> \<not> os_running u)"
  proof (cases "\<exists>kvs. oe_store (new_engine levers store minted) = Some (JObj kvs)")
    case True
    then obtain g js where "load_sessions js g = Some (xs, f)" "sound g []"
      using l restarted [OF sound_new] by (auto simp: engine_load_def)
    then show ?thesis using load_sessions_sound by blast
  next
    case False
    with l show ?thesis by (auto simp: engine_load_def sound_new split: option.splits json.splits)
  qed
  then show ?thesis unfolding e by (intro sound_resume_all) auto
qed

lemma service_sound: "service w \<Longrightarrow> sound (fst w) (snd w)"
  by (induction rule: service.induct) (auto dest: sound_boot sound_step)

end
