(* ===== verification/Oc2_Progress.thy ===== *)
theory Oc2_Progress
  imports Oc2_Crew
begin

text \<open>
  A worker of the OpenCode 2 service left to itself: wherever its thread stands, unless an exception has ended
  it, it can go on by its own steps and come back to the head of its loop, with the prompts that waited still
  waiting. One way round drops them on purpose: the end of an interrupted turn empties the queue. A turn is
  taken to return, as the model lets it do at any time.
\<close>

section \<open>What a section leaves to the head of the loop\<close>

text \<open>The table, the halt, and of the session its id and the prompts that wait.\<close>

definition at_hand :: "nat \<Rightarrow> oc2 \<Rightarrow> (string, nat) dict \<times> bool \<times> (string \<times> (string \<times> string) list) option" where
  "at_hand a e = (oe_sessions e, oe_halted e, map_option (\<lambda>s. (os_id s, os_pending s)) (session_at e a))"

lemma at_hand_core: "engine_core e' = engine_core e \<Longrightarrow> at_hand a e' = at_hand a e"
  by (simp add: at_hand_def engine_core_def session_at_def)

lemma at_hand_frame [simp]:
  "at_hand a (snd (oc2_id v pre e)) = at_hand a e" "at_hand a (engine_save v e) = at_hand a e"
  "at_hand a (publish_at v kind d l kvs b e) = at_hand a e"
  by (rule at_hand_core, rule core_id core_save core_publish_at)+

lemma at_hand_on_session:
  "(\<And>s. os_id (f s) = os_id s \<and> os_pending (f s) = os_pending s) \<Longrightarrow> at_hand a (on_session b f e) = at_hand a e"
  by (simp add: at_hand_def option.map_comp comp_def)

lemma at_hand_start [simp]: "at_hand a (engine_start v b e) = at_hand a e"
  by (simp add: at_hand_def session_at_start option.map_comp comp_def)

lemma at_hand_begin [simp]: "at_hand a (snd (begin_turn v txt a e)) = at_hand a e"
  by (simp add: begin_turn_def Let_def execution_started_def user_message_def split_beta at_hand_on_session push_def)

lemma at_hand_started [simp]: "at_hand a (execution_started v a e) = at_hand a e"
  by (simp add: execution_started_def)

lemma at_hand_deliver [simp]: "at_hand a (snd (deliver_inbox v a e)) = at_hand a e"
proof (cases "session_at e a")
  case (Some s)
  have "at_hand a (on_session a (\<lambda>s. push m (s\<lparr>os_inbox := rest\<rparr>)) f) = at_hand a f" for m rest f
    by (simp add: at_hand_on_session push_def)
  with Some show ?thesis by (simp add: deliver_inbox_def split_beta split: list.split)
qed (simp add: deliver_inbox_def)

lemma at_hand_compact [simp]: "at_hand a (compact_section v a e) = at_hand a e"
  by (simp add: compact_section_def split_beta at_hand_on_session push_def)

lemma at_hand_idle:
  "at_hand a (idle_section v outcome err a e) =
     (if outcome = ''interrupted''
      then (oe_sessions e, oe_halted e, map_option (\<lambda>s. (os_id s, [])) (session_at e a)) else at_hand a e)"
proof -
  have "at_hand a (on_session a (idle_session v i outcome err) f) =
     (if outcome = ''interrupted''
      then (oe_sessions f, oe_halted f, map_option (\<lambda>s. (os_id s, [])) (session_at f a)) else at_hand a f)" for i f
    by (simp add: at_hand_def option.map_comp comp_def idle_session_def push_def)
  then show ?thesis by (simp add: idle_section_def split_beta)
qed

lemma at_hand_after [simp]: "at_hand a (after_idle v b e) = at_hand a e"
proof -
  have "at_hand a (on_session c (\<lambda>s. s\<lparr>os_inbox := os_inbox s @ [x]\<rparr>) f) = at_hand a f" for c x f
    by (simp add: at_hand_on_session)
  then show ?thesis by (simp add: after_idle_def child_settled_def split_beta Let_def split: option.split)
qed

section \<open>The way back to the head\<close>

text \<open>A step of the thread of one session.\<close>

definition own_step :: "nat \<Rightarrow> pc \<times> oc2 \<Rightarrow> pc \<times> oc2 \<Rightarrow> bool" where
  "own_step a x y \<longleftrightarrow> thread a (fst x) (snd x) (Some (fst y)) (snd y)"

lemma own_step_iff [simp]: "own_step a (p, e) (p', e') \<longleftrightarrow> thread a p e (Some p') e'"
  by (simp add: own_step_def)

lemma own_run_serves:
  assumes "(own_step a)\<^sup>*\<^sup>* x y"
  shows "service_step\<^sup>*\<^sup>* (snd x, xs @ (a, fst x) # ys) (snd y, xs @ (a, fst y) # ys)"
  using assms
proof (induction rule: rtranclp_induct)
  case (step y z)
  from step.hyps(2) have "service_step (snd y, xs @ (a, fst y) # ys) (snd z, xs @ (a, fst z) # ys)"
    unfolding own_step_def by (rule service_step.work)
  with step.IH show ?case by (rule rtranclp.rtrancl_into_rtrancl)
qed simp

text \<open>Where the worker is on the way to the end of an interrupted turn, which empties the queue.\<close>

definition dropping :: "nat \<Rightarrow> pc \<Rightarrow> oc2 \<Rightarrow> bool" where
  "dropping a p e \<longleftrightarrow> (\<exists>err. p = Idling ''interrupted'' err) \<or> p = Compacting \<and> cancelled a e"

abbreviation homeward :: "nat \<Rightarrow> pc \<Rightarrow> oc2 \<Rightarrow> bool" where
  "homeward a p e \<equiv> \<exists>f. (own_step a)\<^sup>*\<^sup>* (p, e) (Head, f) \<and> at_hand a f = at_hand a e"

lemma homeward_step: "thread a p e (Some p') e' \<Longrightarrow> at_hand a e' = at_hand a e \<Longrightarrow> homeward a p' e' \<Longrightarrow> homeward a p e"
  by (metis converse_rtranclp_into_rtranclp own_step_iff)

lemma homeward_head: "homeward a Head e"
  by blast

lemma homeward_turning: "homeward a Turning e"
  by (rule homeward_step [OF thread.return refl homeward_head])

lemma homeward_settling: "homeward a Settling e"
  by (rule homeward_step [OF thread.settle at_hand_after homeward_head])

lemma homeward_idling: "outcome \<noteq> ''interrupted'' \<Longrightarrow> homeward a (Idling outcome err) e"
  by (rule homeward_step [OF thread.idle _ homeward_settling]) (simp add: at_hand_idle)

lemma homeward_starting: "homeward a (Starting txt) e"
proof (cases "begin_turn undefined txt a e")
  case (Pair err e')
  then have e': "at_hand a e' = at_hand a e" by (metis at_hand_begin snd_conv)
  show ?thesis
  proof (cases err)
    case None
    with Pair homeward_step [OF thread.routes e' homeward_turning] show ?thesis by blast
  next
    case (Some x)
    have "homeward a (Idling ''failed'' (Some x)) e'" by (rule homeward_idling) simp
    from homeward_step [OF thread.no_route e' this] Pair Some show ?thesis by blast
  qed
qed

lemma homeward_delivering: "homeward a Delivering e"
proof (cases "deliver_inbox undefined a e")
  case (Pair r e')
  then have e': "at_hand a e' = at_hand a e" by (metis at_hand_deliver snd_conv)
  have "homeward a (Idling ''succeeded'' None) e'" by (rule homeward_idling) simp
  then show ?thesis
    using Pair homeward_step [OF thread.emptied e' homeward_head] homeward_step [OF thread.orphan e']
      homeward_step [OF thread.wake e' homeward_turning]
    by (cases r; cases "the r") auto
qed

lemma homeward_resuming: "homeward a Resuming e"
  by (cases "current_at a e")
    (blast intro: homeward_step [OF thread.nothing refl homeward_head]
      homeward_step [OF thread.resume at_hand_started homeward_turning])+

lemma homeward_inboxing: "homeward a Inboxing e"
  by (cases "cancelled a e")
    (blast intro: homeward_step [OF thread.inbox_off refl homeward_head]
      homeward_step [OF thread.inbox_on refl homeward_delivering])+

lemma homeward_summarising: "homeward a Summarising e"
proof -
  have "homeward a (Idling ''succeeded'' None) (compact_section undefined a e)" by (rule homeward_idling) simp
  from homeward_step [OF thread.summary at_hand_compact this] show ?thesis .
qed

lemma homeward_compacting: "\<not> cancelled a e \<Longrightarrow> homeward a Compacting e"
  by (rule homeward_step [OF thread.compact_on refl homeward_summarising])

lemmas homeward_all = homeward_head homeward_turning homeward_settling homeward_starting homeward_delivering
  homeward_resuming homeward_inboxing homeward_summarising

text \<open>An interrupted turn goes the same way and leaves no prompt waiting.\<close>

lemma dropping_home:
  assumes "dropping a p e" "session_at e a = Some s"
  shows "\<exists>f. (own_step a)\<^sup>*\<^sup>* (p, e) (Head, f) \<and> at_hand a f = (oe_sessions e, oe_halted e, Some (os_id s, []))"
proof -
  let ?i = "\<lambda>err. idle_section undefined ''interrupted'' err a e"
  have idle: "(own_step a)\<^sup>*\<^sup>* (Idling ''interrupted'' err, e) (Head, after_idle undefined a (?i err))" for err
    using thread.idle [of a "''interrupted''" err e undefined] thread.settle [of a "?i err" undefined]
    by (meson own_step_iff converse_rtranclp_into_rtranclp rtranclp.rtrancl_refl)
  have out: "at_hand a (after_idle undefined a (?i err)) = (oe_sessions e, oe_halted e, Some (os_id s, []))" for err
    using assms(2) by (simp add: at_hand_idle)
  consider err where "p = Idling ''interrupted'' err" | "p = Compacting" "cancelled a e"
    using assms(1) by (auto simp: dropping_def)
  then show ?thesis
  proof cases
    case 1
    with idle out show ?thesis by blast
  next
    case 2
    from thread.compact_off [OF 2(2)] have "own_step a (Compacting, e) (Idling ''interrupted'' None, e)" by simp
    with 2 idle out show ?thesis by (blast intro: converse_rtranclp_into_rtranclp)
  qed
qed

lemma comes_home:
  assumes "p \<noteq> Died" "session_at e a = Some s"
  shows "\<exists>f. (own_step a)\<^sup>*\<^sup>* (p, e) (Head, f) \<and>
    at_hand a f = (oe_sessions e, oe_halted e, Some (os_id s, if dropping a p e then [] else os_pending s))"
proof (cases "dropping a p e")
  case True
  with dropping_home assms(2) show ?thesis by simp
next
  case False
  then have "homeward a p e"
  proof (cases p)
    case (Idling outcome err)
    with False show ?thesis by (auto simp: dropping_def intro: homeward_idling)
  next
    case Compacting
    with False show ?thesis by (auto simp: dropping_def intro: homeward_compacting)
  next
    case Died
    with assms(1) show ?thesis by simp
  qed (hypsubst, rule homeward_all)+
  moreover have "at_hand a e = (oe_sessions e, oe_halted e, Some (os_id s, os_pending s))"
    using assms(2) by (simp add: at_hand_def)
  ultimately show ?thesis using False by simp
qed

text \<open>A worker that comes back to the head by its own steps, and there takes the first of the prompts that
  waited, unless they were dropped on the way; with none left it takes the inbox or ends.\<close>

definition gets_to :: "oc2_env \<Rightarrow> nat \<Rightarrow> (string \<times> string) list \<Rightarrow> pc \<Rightarrow> oc2 \<Rightarrow> bool" where
  "gets_to v a waiting p e \<longleftrightarrow>
     (\<exists>f. (own_step a)\<^sup>*\<^sup>* (p, e) (Head, f) \<and>
        (case (if dropping a p e then [] else waiting) of
           (kind, txt) # rest \<Rightarrow> fst (worker_take v a f) = Work kind txt
         | [] \<Rightarrow> fst (worker_take v a f) \<in> {Work ''inbox'' [], Ended}))"

lemma head_takes:
  assumes "at_hand a f = (tab, False, Some (sid, waiting))" "dget tab sid = Some a"
  shows "case waiting of
       (kind, txt) # rest \<Rightarrow> fst (worker_take v a f) = Work kind txt
     | [] \<Rightarrow> fst (worker_take v a f) \<in> {Work ''inbox'' [], Ended}"
  using assms by (auto simp: at_hand_def worker_take_def split: list.split)

lemma worker_gets_to:
  assumes "p \<noteq> Died" "session_at e a = Some s" "dget (oe_sessions e) (os_id s) = Some a" "\<not> oe_halted e"
  shows "gets_to v a (os_pending s) p e"
proof -
  let ?q = "if dropping a p e then [] else os_pending s"
  from comes_home [OF assms(1,2)] obtain f where run: "(own_step a)\<^sup>*\<^sup>* (p, e) (Head, f)"
    and f: "at_hand a f = (oe_sessions e, False, Some (os_id s, ?q))" using assms(4) by auto
  from run head_takes [OF f assms(3), of v] show ?thesis unfolding gets_to_def by blast
qed

end
