(* ===== verification/Oc2_Life.thy ===== *)
theory Oc2_Life
  imports Oc2_Progress
begin

text \<open>
  What the OpenCode 2 service promises: one worker per session, no queued work without a worker, an
  interrupt that reaches the whole tree of children, a restart that keeps the sessions, a permission reply
  that is remembered.
\<close>

section \<open>The walk of the children\<close>

inductive descends :: "(string \<times> string option) list \<Rightarrow> string \<Rightarrow> string \<Rightarrow> bool" for rows x where
  self: "descends rows x x"
| child: "descends rows x y \<Longrightarrow> (z, Some y) \<in> set rows \<Longrightarrow> descends rows x z"

text \<open>No session stands in the table before its parent.\<close>

fun parents_first :: "(string \<times> string option) list \<Rightarrow> bool" where
  "parents_first [] = True"
| "parents_first ((s, p) # rows) \<longleftrightarrow> p \<noteq> Some s \<and> (\<forall>q \<in> set (map fst rows). p \<noteq> Some q) \<and> parents_first rows"

definition ranked :: "(string \<Rightarrow> nat) \<Rightarrow> (string \<times> string option) list \<Rightarrow> bool" where
  "ranked rank rows \<longleftrightarrow> (\<forall>s q. (s, Some q) \<in> set rows \<longrightarrow> rank q < rank s)"

lemma parents_first_ranked:
  "parents_first rows \<Longrightarrow> distinct (map fst rows) \<Longrightarrow> \<exists>rank. ranked rank rows"
proof (induction rows)
  case (Cons r rows)
  obtain s p where r: "r = (s, p)" by force
  with Cons obtain rank where rank: "ranked rank rows" by auto
  let ?rank = "\<lambda>x. if x = s then 1 else if x \<in> fst ` set rows then rank x + 2 else 0"
  have "ranked ?rank (r # rows)"
    unfolding ranked_def
  proof (intro allI impI)
    fix x q assume x: "(x, Some q) \<in> set (r # rows)"
    show "?rank q < ?rank x"
    proof (cases "(x, Some q) \<in> set rows")
      case True
      then have "x \<in> fst ` set rows" by force
      moreover from this have "x \<noteq> s" using Cons.prems(2) r by auto
      moreover have "rank q < rank x" using True rank by (simp add: ranked_def)
      ultimately show ?thesis by auto
    next
      case False
      with x r Cons.prems(1) show ?thesis by auto
    qed
  qed
  then show ?case by blast
qed (auto simp: ranked_def)

lemma children_in_iff: "y \<in> set (children_in rows x) \<longleftrightarrow> (y, Some x) \<in> set rows"
  by (force simp: children_in_def)

lemma children_in_distinct: "distinct (map fst rows) \<Longrightarrow> distinct (children_in rows x)"
  by (simp add: children_in_def distinct_map_filter)

lemma one_parent: "distinct (map fst rows) \<Longrightarrow> (y, p) \<in> set rows \<Longrightarrow> (y, q) \<in> set rows \<Longrightarrow> p = q"
  by (metis map_of_eq_Some_iff option.inject)

text \<open>What holds of the list each time round the loop.\<close>

definition walked :: "(string \<times> string option) list \<Rightarrow> string \<Rightarrow> string list \<Rightarrow> nat \<Rightarrow> bool" where
  "walked rows root_id xs i \<longleftrightarrow>
     i \<le> length xs \<and> distinct xs \<and> set xs \<subseteq> insert root_id (fst ` set rows) \<and> (\<forall>x \<in> set xs. descends rows root_id x)
     \<and> xs = root_id # concat (map (children_in rows) (take i xs))"

lemma descends_ranked: "descends rows x y \<Longrightarrow> ranked rank rows \<Longrightarrow> rank x \<le> rank y"
  by (induction rule: descends.induct) (auto simp: ranked_def dest!: spec)

lemma walked_step:
  assumes w: "walked rows r xs i" and i: "i < length xs" and d: "distinct (map fst rows)" and k: "ranked rank rows"
  shows "walked rows r (xs @ children_in rows (xs ! i)) (Suc i)"
proof -
  let ?x = "xs ! i" and ?c = "children_in rows (xs ! i)"
  have xs: "xs = r # concat (map (children_in rows) (take i xs))" and dist: "distinct xs"
    and desc: "\<forall>x \<in> set xs. descends rows r x" using w by (auto simp: walked_def)
  have x: "?x \<in> set xs" "?x \<notin> set (take i xs)"
    using i dist by (auto simp: in_set_conv_nth nth_eq_iff_index_eq)
  have fresh: "y \<notin> set xs" if "y \<in> set ?c" for y
  proof
    assume "y \<in> set xs"
    from that have y: "(y, Some ?x) \<in> set rows" by (simp add: children_in_iff)
    consider "y = r" | z where "z \<in> set (take i xs)" "(y, Some z) \<in> set rows"
      using \<open>y \<in> set xs\<close> by (subst (asm) xs) (auto simp: children_in_iff)
    then show False
    proof cases
      case 1
      with y k have "rank ?x < rank r" by (simp add: ranked_def)
      with descends_ranked [OF _ k] desc x(1) show False by fastforce
    next
      case 2
      with one_parent [OF d y] x(2) show False by auto
    qed
  qed
  have "take (Suc i) (xs @ ?c) = take i xs @ [?x]" using i by (simp add: take_Suc_conv_app_nth)
  then have "xs @ ?c = r # concat (map (children_in rows) (take (Suc i) (xs @ ?c)))"
    by (simp, subst xs [symmetric] append_Cons [symmetric]) (use xs in simp)
  moreover have "descends rows r y" if "y \<in> set ?c" for y
    using that desc x(1) by (auto simp: children_in_iff intro: descends.child)
  moreover have "y \<in> fst ` set rows" if "y \<in> set ?c" for y
    using that by (force simp: children_in_iff)
  moreover have "distinct (xs @ ?c)" using dist fresh children_in_distinct [OF d] by auto
  moreover have "set xs \<subseteq> insert r (fst ` set rows)" using w by (simp add: walked_def)
  ultimately show ?thesis
    unfolding walked_def using i desc by (intro conjI) (simp_all only: length_append set_append, auto)
qed

lemma tree_loop_ends:
  assumes "walked rows r xs i" "distinct (map fst rows)" "ranked rank rows"
  shows "\<exists>ys. tree_loop rows xs i = Some ys \<and> walked rows r ys (length ys)"
  using assms(1)
proof (induction "Suc (length rows) - i" arbitrary: xs i rule: less_induct)
  case less
  show ?case
  proof (cases "i < length xs")
    case True
    from less.prems have "length xs = card (set xs)" by (simp add: walked_def distinct_card)
    also have "\<dots> \<le> card (set (r # map fst rows))" using less.prems by (intro card_mono) (auto simp: walked_def)
    also have "\<dots> \<le> length (r # map fst rows)" by (rule card_length)
    finally have "Suc (length rows) - Suc i < Suc (length rows) - i" using True by simp
    from less.hyps [OF this walked_step [OF less.prems True assms(2,3)]] True show ?thesis
      by (subst tree_loop.simps) simp
  next
    case False
    with less.prems have "i = length xs" by (simp add: walked_def)
    with less.prems show ?thesis by (subst tree_loop.simps) simp
  qed
qed

lemma walked_all: "walked rows r ys (length ys) \<Longrightarrow> descends rows r x \<longleftrightarrow> x \<in> set ys"
proof
  assume w: "walked rows r ys (length ys)"
  then have ys: "ys = r # concat (map (children_in rows) ys)" by (simp add: walked_def)
  then have r: "r \<in> set ys" by (metis list.set_intros(1))
  have c: "z \<in> set ys" if "y \<in> set ys" "(z, Some y) \<in> set rows" for y z
    using that by (subst ys) (auto simp: children_in_iff)
  assume "descends rows r x"
  then show "x \<in> set ys" by (induction rule: descends.induct) (use r c in auto)
qed (simp add: walked_def)

lemma tree_loop_all:
  assumes "distinct (map fst rows)" "parents_first rows" "r \<in> set (map fst rows)"
  shows "\<exists>ys. tree_loop rows [r] 0 = Some (r # ys) \<and> distinct (r # ys) \<and> (\<forall>x. descends rows r x \<longleftrightarrow> x \<in> set (r # ys))"
proof -
  from parents_first_ranked [OF assms(2,1)] obtain rank where "ranked rank rows" by blast
  moreover have "walked rows r [r] 0" by (simp add: walked_def descends.self)
  ultimately obtain zs where zs: "tree_loop rows [r] 0 = Some zs" "walked rows r zs (length zs)"
    using tree_loop_ends assms(1) by blast
  then obtain ys where "zs = r # ys" unfolding walked_def by blast
  with zs walked_all [OF zs(2)] show ?thesis by (auto simp: walked_def)
qed

text \<open>A session that names itself as its parent is walked for ever, and the lock is held all the while.\<close>

lemma tree_loop_hangs:
  assumes "(s, Some s) \<in> set rows"
  shows "tree_loop rows [s] 0 = None"
proof -
  have "(s, Some s) \<in> set rows \<longrightarrow> s \<notin> set (drop i xs)" if "tree_loop rows xs i = Some ys" for rows xs i ys
  proof (rule tree_loop.raw_induct [where P = "\<lambda>rows xs i ys. (s, Some s) \<in> set rows \<longrightarrow> s \<notin> set (drop i xs)", OF _ that])
    fix loop rows xs i ys
    assume 1: "\<And>rows xs i ys. loop rows xs i = Some ys \<Longrightarrow> (s, Some s) \<in> set rows \<longrightarrow> s \<notin> set (drop i xs)"
      "(if i < length xs then loop rows (xs @ children_in rows (xs ! i)) (Suc i) else Some xs) = Some ys"
    show "(s, Some s) \<in> set rows \<longrightarrow> s \<notin> set (drop i xs)"
    proof (cases "i < length xs \<and> (s, Some s) \<in> set rows")
      case True
      with 1(1) [of rows "xs @ children_in rows (xs ! i)" "Suc i" ys] 1(2)
      have "s \<notin> set (drop (Suc i) (xs @ children_in rows (xs ! i)))" by auto
      then have n: "s \<notin> set (drop (Suc i) xs)" "s \<notin> set (children_in rows (xs ! i))" using True by auto
      then have "xs ! i \<noteq> s" using True by (auto simp: children_in_iff)
      with n True show ?thesis by (simp flip: Cons_nth_drop_Suc)
    qed auto
  qed
  from this [of rows "[s]" 0] assms show ?thesis by (cases "tree_loop rows [s] 0") auto
qed

section \<open>Interrupting\<close>

lemma cancel_session_twice [simp]: "cancel_session (cancel_session s) = cancel_session s"
  by (simp add: cancel_session_def comp_def split_beta)

lemma session_at_kill [simp]: "session_at (kill_holder h e) a = session_at e a"
  by (simp add: kill_holder_def session_at_def split: option.split)

lemma cancel_frame [simp]:
  "oe_sessions (cancel_running sid e) = oe_sessions e" "running_at (cancel_running sid e) a = running_at e a"
  by (auto simp: cancel_running_def cancel_one_def kill_holder_def running_at_def cancel_session_def session_at_def on_session_def
      split: option.split)

lemma session_at_cancel_running:
  "session_at (cancel_running sid e) b =
     (if dget (oe_sessions e) sid = Some b \<and> running_at e b then map_option cancel_session (session_at e b) else session_at e b)"
  by (auto simp: cancel_running_def cancel_one_def running_at_def split: option.split)

lemma session_at_cancel_fold:
  "session_at (fold cancel_running sids e) b =
     (if (\<exists>sid \<in> set sids. dget (oe_sessions e) sid = Some b) \<and> running_at e b
      then map_option cancel_session (session_at e b) else session_at e b)"
proof (induction sids arbitrary: e)
  case (Cons sid sids)
  show ?case
    by (auto simp: Cons.IH session_at_cancel_running option.map_comp comp_def)
qed simp

lemma parents_keys [simp]: "map fst (parents e) = dkeys (oe_sessions e)"
  by (simp add: parents_def split_beta comp_def)

lemma engine_cancel_tree:
  assumes "sound e ts" "parents_first (parents e)" "dget (oe_sessions e) sid = Some a" "running_at e a"
  shows "\<exists>sids. engine_cancel a e = Some (fold cancel_running sids e) \<and> (\<forall>x. x \<in> set sids \<longleftrightarrow> descends (parents e) sid x)"
proof -
  obtain s where s: "session_at e a = Some s" "os_id s = sid" using sound_table [OF assms(1,3)] by blast
  have "sid \<in> set (dkeys (oe_sessions e))" using assms(3) by (force dest: map_of_SomeD)
  then obtain ys where ys: "tree_of sid e = Some (sid # ys)" "\<forall>x. descends (parents e) sid x \<longleftrightarrow> x \<in> set (sid # ys)"
    using tree_loop_all [of "parents e" sid] assms(1-3) by (auto simp: tree_of_def sound_def)
  have "cancel_one a e = cancel_running sid e" using assms(3,4) by (simp add: cancel_running_def)
  with ys s have "engine_cancel a e = Some (fold cancel_running (sid # ys) e)" by (simp add: engine_cancel_def)
  with ys(2) show ?thesis by blast
qed

section \<open>Restarting\<close>

text \<open>What the store keeps of a session: not its environment, its queues, its requests and forms, nor that the
  model it runs on was the default.\<close>

definition kept :: "oc2_session \<Rightarrow> oc2_session" where
  "kept s = s\<lparr>os_model := Some (session_model s), os_running := False, os_environment := None, os_pending := [], os_inbox := [],
     os_asks := [], os_forms := [], os_cancel := False, os_holder := None\<rparr>"

lemma concat_objects [simp]: "concat (map (\<lambda>x. case x of JObj kvs \<Rightarrow> [kvs] | _ \<Rightarrow> []) (map JObj xs)) = xs"
  by (induction xs) auto

lemma opt_str_text: "get_optional_text [(k, opt_str x)] k = x"
  by (cases x) (simp_all add: get_optional_text_def opt_str_def)

lemma load_stored: "load_session (session_stored v s) = Some (kept s, os_running s)"
proof -
  let ?r = "session_record v s"
  let ?kvs = "[(''record'', JObj ?r), (''messages'', JList (map JObj (os_messages s))), (''running'', JBool (os_running s)),
    (''current'', opt_str (os_current s))]"
  have r: "stored_text ?r ''id'' = Some (os_id s)" "stored_text (sub_obj ?r ''location'') ''directory'' = Some (os_directory s)"
    "stored_int (sub_obj ?r ''time'') ''created'' = Some (os_created s)"
    "stored_int (sub_obj ?r ''time'') ''updated'' = Some (os_updated s)"
    "stored_int (sub_obj ?r ''time'') ''idle'' = os_idle_at s"
    by (simp_all add: session_record_def stored_text_def stored_int_def sub_obj_def split: option.split)
  have m: "json_object (dget ?r ''metadata'') = os_metadata s" "json_objects (dget ?r ''permissions'') = os_permissions s"
    "dget ?r ''model'' = Some (JObj (session_model s))"
    by (simp_all add: session_record_def json_object_def json_objects_def del: map_map)
  have g: "get_optional_text ?r ''title'' = os_title s" "get_optional_text ?r ''agent'' = os_agent s"
    "get_optional_text ?r ''parentID'' = os_parent s" "get_optional_text ?r ''outcome'' = os_outcome s"
    by (simp_all add: session_record_def get_optional_text_def opt_str_def split: option.split)
  have k: "json_objects (dget ?kvs ''messages'') = os_messages s" "get_optional_text ?kvs ''current'' = os_current s"
    by (simp_all add: json_objects_def get_optional_text_def opt_str_def del: map_map split: option.split)
  have "loaded_session ?kvs ?r (os_id s) (os_directory s) (os_created s) (os_updated s) = kept s"
    unfolding loaded_session_def r m g k by (simp add: kept_def)
  moreover have "json_object (Some (session_stored v s)) = ?kvs" "sub_obj ?kvs ''record'' = ?r"
    by (simp_all add: json_object_def session_stored_def sub_obj_def)
  ultimately show ?thesis unfolding load_session_def Let_def by (simp only: r) (simp add: json_truthy_def)
qed

lemma os_id_kept [simp]: "os_id (kept s) = os_id s"
  by (simp add: kept_def)

text \<open>Sessions put back into an engine, the addresses in the list being those that ran.\<close>

definition restored :: "oc2_session list \<Rightarrow> oc2 \<Rightarrow> nat list \<Rightarrow> oc2 \<Rightarrow> bool" where
  "restored ss e xs f \<longleftrightarrow>
     dkeys (oe_sessions f) = dkeys (oe_sessions e) @ map os_id ss
     \<and> (\<forall>a < oe_next e. session_at f a = session_at e a)
     \<and> (\<forall>x. x \<notin> os_id ` set ss \<longrightarrow> dget (oe_sessions f) x = dget (oe_sessions e) x)
     \<and> oe_spawned f = oe_spawned e \<and> (\<forall>a \<in> set xs. oe_next e \<le> a)
     \<and> (\<forall>s \<in> set ss. \<exists>a. dget (oe_sessions f) (os_id s) = Some a \<and> session_at f a = Some (kept s) \<and> (a \<in> set xs \<longleftrightarrow> os_running s))"

lemma add_session_frame:
  "oe_sessions (snd (add_session s e)) = dset (os_id s) (oe_next e) (oe_sessions e)" "oe_next (snd (add_session s e)) = Suc (oe_next e)"
  "oe_spawned (snd (add_session s e)) = oe_spawned e"
  "session_at (snd (add_session s e)) b = (if b = oe_next e then Some s else session_at e b)"
  by (simp_all add: add_session_def session_at_def)

lemma restored_Cons:
  assumes r: "restored ss (snd (add_session (kept s) e)) xs f" and d: "os_id s \<notin> os_id ` set ss" "dget (oe_sessions e) (os_id s) = None"
  shows "restored (s # ss) e (if os_running s then oe_next e # xs else xs) f"
proof -
  let ?n = "oe_next e" and ?xs = "if os_running s then oe_next e # xs else xs"
  note g = add_session_frame [of "kept s" e]
  have n: "?n \<notin> set xs" and fn: "session_at f ?n = Some (kept s)" and tn: "dget (oe_sessions f) (os_id s) = Some ?n"
    using r d by (auto simp: restored_def g)
  have "\<exists>a. dget (oe_sessions f) (os_id t) = Some a \<and> session_at f a = Some (kept t) \<and> (a \<in> set ?xs \<longleftrightarrow> os_running t)"
    if "t \<in> set ss" for t
  proof -
    from that r obtain a where a: "dget (oe_sessions f) (os_id t) = Some a" "session_at f a = Some (kept t)" "a \<in> set xs \<longleftrightarrow> os_running t"
      by (auto simp: restored_def)
    have "os_id t \<noteq> os_id s" using imageI [OF that, of os_id] d(1) by auto
    then have "kept t \<noteq> kept s" by (metis os_id_kept)
    with a fn have "a \<noteq> ?n" by auto
    with a show ?thesis by auto
  qed
  moreover have "\<forall>a < ?n. session_at f a = session_at e a" "\<forall>a \<in> set ?xs. ?n \<le> a" "oe_spawned f = oe_spawned e"
    using r by (auto simp: restored_def g)
  moreover have "\<forall>x. x \<notin> os_id ` set (s # ss) \<longrightarrow> dget (oe_sessions f) x = dget (oe_sessions e) x"
    using r by (simp add: restored_def g)
  moreover have "dkeys (oe_sessions f) = dkeys (oe_sessions e) @ map os_id (s # ss)"
    using r d by (simp add: restored_def g dset_new)
  ultimately show ?thesis using fn tn n by (simp add: restored_def)
qed

lemma load_stored_all:
  assumes "distinct (map os_id ss)" "\<forall>s \<in> set ss. dget (oe_sessions e) (os_id s) = None"
  shows "\<exists>xs f. load_sessions (map (session_stored v) ss) e = Some (xs, f) \<and> restored ss e xs f"
  using assms
proof (induction ss arbitrary: e)
  case (Cons s ss)
  let ?g = "snd (add_session (kept s) e)"
  have d: "os_id s \<notin> os_id ` set ss" "dget (oe_sessions e) (os_id s) = None" using Cons.prems by auto
  have "\<exists>xs f. load_sessions (map (session_stored v) ss) ?g = Some (xs, f) \<and> restored ss ?g xs f"
  proof (rule Cons.IH)
    show "\<forall>t \<in> set ss. dget (oe_sessions ?g) (os_id t) = None"
      using Cons.prems by (auto simp: add_session_frame rev_image_eqI)
  qed (use Cons.prems in auto)
  then obtain xs f where f: "load_sessions (map (session_stored v) ss) ?g = Some (xs, f)" "restored ss ?g xs f" by blast
  have "load_sessions (map (session_stored v) (s # ss)) e = Some (if os_running s then oe_next e # xs else xs, f)"
    using f(1) by (simp add: load_stored split_beta add_session_def)
  with restored_Cons [OF f(2) d] show ?case by blast
qed (simp add: restored_def)

lemma session_at_resume_all:
  "distinct xs \<Longrightarrow> session_at (fold (resume_one v) xs f) b =
     (if b \<in> set xs then map_option (resumed_session v) (session_at f b) else session_at f b)"
proof (induction xs arbitrary: f)
  case (Cons a xs)
  have "session_at (resume_one v a f) c = (if c = a then map_option (resumed_session v) (session_at f a) else session_at f c)" for c
    by (simp add: resume_one_def session_at_def on_session_def split: option.split)
  with Cons.IH [of "resume_one v a f"] Cons.prems show ?case by auto
qed simp

lemma resume_all_frame:
  "oe_spawned (fold (resume_one v) xs f) = oe_spawned f @ map (\<lambda>a. (a, True)) xs"
  "oe_sessions (fold (resume_one v) xs f) = oe_sessions f"
  by (induction xs arbitrary: f) simp_all

lemma held_ids: "sound e ts \<Longrightarrow> map os_id (held_sessions e) = dkeys (oe_sessions e)"
proof -
  assume s: "sound e ts"
  have "map os_id (concat (map (\<lambda>(sid, a). case session_at e a of None \<Rightarrow> [] | Some s \<Rightarrow> [s]) d)) = dkeys d"
    if "\<forall>(sid, a) \<in> set d. \<exists>s. session_at e a = Some s \<and> os_id s = sid" for d
    using that by (induction d) auto
  moreover have "\<exists>u. session_at e a = Some u \<and> os_id u = sid" if "(sid, a) \<in> set (oe_sessions e)" for sid a
    using that s sound_table [OF s, of sid a] by (simp add: sound_def)
  ultimately show ?thesis by (auto simp: held_sessions_def)
qed

lemma held_member:
  "dget (oe_sessions e) sid = Some a \<Longrightarrow> session_at e a = Some s \<Longrightarrow> s \<in> set (held_sessions e)"
  by (force simp: held_sessions_def dest: map_of_SomeD)

lemma halt_store:
  "oe_store (engine_halt v e) = Some (JObj [(''restarted_by_lever'', JBool (oe_restarted e)),
     (''sessions'', JList (map (session_stored v) (held_sessions e)))])"
proof -
  have k: "oe_restarted (fold (\<lambda>s. kill_holder (os_holder s)) ss f) = oe_restarted f \<and>
    held_sessions (fold (\<lambda>s. kill_holder (os_holder s)) ss f) = held_sessions f" for ss f
  proof (induction ss arbitrary: f)
    case (Cons s ss)
    have "held_sessions (kill_holder h f) = held_sessions f \<and> oe_restarted (kill_holder h f) = oe_restarted f" for h
      by (simp add: kill_holder_def held_sessions_def session_at_def split: option.split)
    with Cons.IH [of "kill_holder (os_holder s) f"] show ?case by simp
  qed simp
  have "held_sessions (e\<lparr>oe_halted := True\<rparr>) = held_sessions e" by (simp add: held_sessions_def session_at_def)
  then show ?thesis by (simp add: engine_halt_def engine_save_def k)
qed

lemma restart_restores:
  assumes s: "sound e ts"
  shows "\<exists>f. engine_boot w levers (oe_store (engine_halt v e)) minted = Some f \<and> dkeys (oe_sessions f) = dkeys (oe_sessions e)
    \<and> (\<forall>sid a t. dget (oe_sessions e) sid = Some a \<and> session_at e a = Some t \<longrightarrow>
         (\<exists>b. dget (oe_sessions f) sid = Some b \<and> session_at f b = Some (if os_running t then resumed_session w (kept t) else kept t)
              \<and> ((b, True) \<in> set (oe_spawned f) \<longleftrightarrow> os_running t)))"
proof -
  let ?new = "(new_engine levers (oe_store (engine_halt v e)) minted)\<lparr>oe_restarted := oe_restarted e\<rparr>"
  have new: "sound ?new []" "oe_sessions ?new = []" "oe_spawned ?new = []"
    using sound_new by (rule sound_quiet) (simp_all add: quiet_core engine_core_def new_engine_def)
  have ids: "map os_id (held_sessions e) = dkeys (oe_sessions e)" "distinct (dkeys (oe_sessions e))"
    using held_ids [OF s] s by (simp_all add: sound_def)
  have "\<exists>xs g. load_sessions (map (session_stored v) (held_sessions e)) ?new = Some (xs, g) \<and> restored (held_sessions e) ?new xs g"
    by (rule load_stored_all) (simp_all add: ids new)
  then obtain xs g where l: "load_sessions (map (session_stored v) (held_sessions e)) ?new = Some (xs, g)"
    and r: "restored (held_sessions e) ?new xs g" by blast
  have d: "distinct xs" using load_sessions_sound [OF l new(1)] by blast
  let ?f = "fold (resume_one w) xs g"
  have "engine_boot w levers (oe_store (engine_halt v e)) minted = Some ?f"
    using l by (simp add: engine_boot_def engine_load_def halt_store new_engine_def json_truthy_def)
  moreover have "dkeys (oe_sessions ?f) = dkeys (oe_sessions e)"
    using r ids new(2) by (simp add: restored_def resume_all_frame)
  moreover have "\<exists>b. dget (oe_sessions ?f) sid = Some b \<and> session_at ?f b = Some (if os_running t then resumed_session w (kept t) else kept t)
      \<and> ((b, True) \<in> set (oe_spawned ?f) \<longleftrightarrow> os_running t)"
    if h: "dget (oe_sessions e) sid = Some a" "session_at e a = Some t" for sid a t
  proof -
    from sound_table [OF s h(1)] h(2) have "os_id t = sid" by auto
    with held_member [OF h] r obtain b where "dget (oe_sessions g) sid = Some b" "session_at g b = Some (kept t)" "b \<in> set xs \<longleftrightarrow> os_running t"
      by (auto simp: restored_def)
    with d r new(3) show ?thesis by (auto simp: resume_all_frame session_at_resume_all restored_def)
  qed
  ultimately show ?thesis by blast
qed

section \<open>Permissions\<close>

lemma wildcard_literal: "wildcard q t \<Longrightarrow> wildcard (w @ q) (w @ t)"
proof (induction w)
  case (Cons c w)
  then have "wildcard (w @ q) (w @ t)" by simp
  then show ?case using wildcard_star_append [of "w @ q" "w @ t" "[c]"] by auto
qed simp

lemma wildcard_star: "wildcard [CHR ''*''] t"
  by (induction t) auto

lemma saved_rule_allows:
  assumes "before_blank cmd = before_blank cmd'" "CHR '' '' \<in> set cmd'"
  shows "wildcard (save_pattern cmd) cmd'"
proof -
  have "cmd' = before_blank cmd' @ CHR '' '' # after_blank cmd'"
    using assms(2) unfolding before_blank_def after_blank_def by (induction cmd') auto
  moreover have "wildcard ('' *'') (CHR '' '' # after_blank cmd')" using wildcard_star by simp
  ultimately show ?thesis using wildcard_literal assms(1) unfolding save_pattern_def by metis
qed

section \<open>What goes wrong\<close>

text \<open>An interrupt that comes between a worker's taking a prompt and the prompt's user message is answered and
  then forgotten: the message clears it and the turn runs.\<close>

lemma interrupt_before_the_turn_is_lost: "\<not> cancelled a (snd (begin_turn v prompt_text a e))"
proof -
  have "session_at (publish_at v kind d l kvs b f) c = session_at f c" "session_at (engine_save v f) c = session_at f c" for kind d l kvs b f c
    using core_publish_at [of v kind d l kvs b f] core_save [of v f] by (simp_all add: engine_core_def session_at_def)
  then show ?thesis
    by (auto simp: cancelled_def begin_turn_def Let_def execution_started_def user_message_def split_beta push_def split: option.split)
qed

text \<open>A result delivered to an interrupted session that is still running: its worker goes round between its
  head and the delivery, and nothing changes.\<close>

lemma interrupted_inbox_spins:
  assumes "session_at e a = Some s" "os_pending s = []" "os_inbox s \<noteq> []" "os_cancel s"
    "\<not> oe_halted e" "dget (oe_sessions e) (os_id s) = Some a"
  shows "thread a Head e p e' \<longleftrightarrow> p = Some Inboxing \<and> e' = e" and "thread a Inboxing e p e' \<longleftrightarrow> p = Some Head \<and> e' = e"
proof -
  have w: "worker_take v a e = (Work ''inbox'' [], e)" for v using assms by (simp add: worker_take_def)
  have c: "cancelled a e" using assms by (simp add: cancelled_def)
  have i: "work_pc ''inbox'' [] = Inboxing" by (simp add: work_pc_def)
  show "thread a Head e p e' \<longleftrightarrow> p = Some Inboxing \<and> e' = e"
    using thread.takes [OF w] by (auto simp: w i elim: thread.cases)
  show "thread a Inboxing e p e' \<longleftrightarrow> p = Some Head \<and> e' = e"
    using thread.inbox_off [OF c] by (auto simp: c elim: thread.cases)
qed

text \<open>A child deleted before its parent's turn has prompted it: the prompt raises in the worker of the parent,
  which dies while its session keeps running.\<close>

lemma deleted_child_kills_the_worker:
  assumes "dget (oe_sessions e) child = None"
  shows "thread a Turning e (Some Died) e" and "\<not> thread a Died e p e'"
proof -
  have "fst (engine_prompt v child prompt_text None e) = Inl (SessionNotFoundError child)" for v prompt_text
    using assms by (simp add: engine_prompt_def with_session_def)
  then have "raises a e" by (rule raises.ask_child)
  then show "thread a Turning e (Some Died) e" by (rule thread.dies)
  show "\<not> thread a Died e p e'" by (auto elim: thread.cases)
qed

section \<open>A sample service\<close>

definition sample_env :: oc2_env where
  "sample_env = \<lparr>v_now = 5, v_mint = (\<lambda>pre n. pre), v_float = (\<lambda>r. ''0.0''), v_cwd = ''/w'', v_title = ''New session''\<rparr>"

text \<open>One session with a child, both prompted, no worker begun.\<close>

definition sample_engine :: oc2 where
  "sample_engine =
     snd (engine_prompt sample_env ''c'' ''look'' None (snd (engine_prompt sample_env ''p'' ''hi'' None
       (snd (engine_create sample_env [(''id'', JStr ''c''), (''parentID'', JStr ''p'')]
         (snd (engine_create sample_env [(''id'', JStr ''p'')] (new_engine [] None 0))))))))"

lemma sample_service: "service (sample_engine, [])"
proof -
  have "engine_boot sample_env [] None 0 = Some (new_engine [] None 0)"
    by (simp add: engine_boot_def engine_load_def new_engine_def)
  then have "service (new_engine [] None 0, [])" by (rule service.boot)
  then show ?thesis
    unfolding sample_engine_def
    by (rule service.step [OF service.step [OF service.step [OF service.step [OF _ service_step.client [OF client_step.create]]
        service_step.client [OF client_step.create]] service_step.client [OF client_step.prompt]] service_step.client [OF client_step.prompt]])
qed

lemma sample_facts:
  "oe_sessions sample_engine = [(''p'', 0), (''c'', 1)]" "oe_halted sample_engine = False" "oe_levers sample_engine = []"
  "parents sample_engine = [(''p'', None), (''c'', Some ''p'')]" "running_at sample_engine 0" "running_at sample_engine 1"
  "map_option (\<lambda>s. (os_pending s, os_running s)) (session_at sample_engine 0) = Some ([(''prompt'', ''hi'')], True)"
  by code_simp+

section \<open>Properties\<close>

text \<open>C16. Whatever clients do, whatever the turns do, and however their sections interleave, a session never
  has more than one worker, counting those asked for and not yet begun; a session with a worker is marked
  running, and one that is not marked running has nothing waiting on it.\<close>

theorem one_worker_per_session:
  assumes "service (e, ts)"
  shows "hands e ts a \<le> 1 \<and> (hands e ts a = 1 \<longrightarrow> running_at e a)
    \<and> (\<forall>s. session_at e a = Some s \<and> \<not> os_running s \<longrightarrow> os_pending s = [] \<and> os_inbox s = [])"
proof -
  have "manned e ts a" using service_sound [OF assms] by (simp add: sound_def)
  then show ?thesis by (auto simp: manned_def busy_def split: if_splits)
qed

theorem one_worker_per_session_witness:
  "service (sample_engine, []) \<and> hands sample_engine [] 0 \<le> 1"
  using one_worker_per_session [OF sample_service, of 0] sample_service by blast

text \<open>C19. Work that waits on a session the service holds, while the service is up, has exactly one thread in
  charge of it, asked for or begun. At the head of its loop that thread takes the first prompt that waits, or
  the inbox when only the inbox waits. And wherever it stands, unless an exception has ended it, it can by its
  own steps, once asked for begun, come back to the head and take that first prompt there, if it is not on the
  way to the end of an interrupted turn, which drops the queue. A turn is taken to return. A thread that an
  exception has ended is still the one in charge, and its session is stuck
  (\<open>deleted_child_kills_the_worker\<close>): that is a defect of the code.\<close>

theorem queued_work_has_a_worker:
  assumes "service (e, ts)" "dget (oe_sessions e) sid = Some a" "session_at e a = Some s"
    "os_pending s \<noteq> [] \<or> os_inbox s \<noteq> []" "\<not> oe_halted e"
  shows "os_running s \<and> hands e ts a = 1
    \<and> fst (worker_take v a e) = (case os_pending s of [] \<Rightarrow> Work ''inbox'' [] | (kind, prompt_text) # rest \<Rightarrow> Work kind prompt_text)
    \<and> ((\<exists>p. (a, p) \<in> set ts \<and> (p = Died \<or> gets_to v a (os_pending s) p e)) \<or>
       (\<exists>xs r ys. oe_spawned e = xs @ (a, r) # ys
          \<and> gets_to v a (os_pending s) (if r then Resuming else Head) (e\<lparr>oe_spawned := xs @ ys\<rparr>)))"
proof -
  have snd: "sound e ts" using service_sound [OF assms(1)] by simp
  then have m: "manned e ts a" by (simp add: sound_def)
  then have run: "os_running s" using assms(3,4) by (simp add: manned_def busy_def)
  then have one: "hands e ts a = 1" using m assms(2,3,5) by (auto simp: manned_def running_at_def in_table_def)
  have sid: "os_id s = sid" using sound_table [OF snd assms(2)] assms(3) by auto
  have begun: "gets_to v a (os_pending s) (if r then Resuming else Head) (e\<lparr>oe_spawned := zs\<rparr>)" for r zs
    using assms(2,3,5) sid by (intro worker_gets_to) (simp_all add: session_at_def)
  have threads: "p = Died \<or> gets_to v a (os_pending s) p e" for p
    using worker_gets_to [of p e a s v] assms(2,3,5) sid by blast
  from one have "a \<in> set (map fst ts) \<or> a \<in> set (map fst (oe_spawned e))"
    by (cases "a \<in> set (map fst ts)") (auto simp: hands_def count_list_0_iff)
  then have "(\<exists>p. (a, p) \<in> set ts) \<or> (\<exists>xs r ys. oe_spawned e = xs @ (a, r) # ys)"
    by (auto dest!: split_list) (blast dest: split_list)
  with begun threads have "(\<exists>p. (a, p) \<in> set ts \<and> (p = Died \<or> gets_to v a (os_pending s) p e)) \<or>
       (\<exists>xs r ys. oe_spawned e = xs @ (a, r) # ys
          \<and> gets_to v a (os_pending s) (if r then Resuming else Head) (e\<lparr>oe_spawned := xs @ ys\<rparr>))"
    by blast
  then show ?thesis using run one sid assms(2-5)
    by (auto simp: worker_take_def split: list.split)
qed

theorem queued_work_has_a_worker_witness:
  "fst (worker_take sample_env 0 sample_engine) = Work ''prompt'' ''hi'' \<and> hands sample_engine [] 0 = 1"
proof -
  obtain s where s: "session_at sample_engine 0 = Some s" "os_pending s = [(''prompt'', ''hi'')]"
    using sample_facts(7) by auto
  from queued_work_has_a_worker [OF sample_service, of "''p''" 0 s sample_env] show ?thesis
    using s by (simp add: sample_facts)
qed

text \<open>C30. A service that is stopped and started again holds the same sessions in the same order: each comes
  back with its record, its messages and the prompt it was on, the model it ran on made explicit, without its
  environment and its queues. Exactly those that were running are resumed: the step they were in is marked
  aborted and a worker is asked for.\<close>

theorem restart_keeps_sessions:
  assumes "service (e, ts)"
  shows "\<exists>f. engine_boot w levers (oe_store (engine_halt v e)) minted = Some f \<and> dkeys (oe_sessions f) = dkeys (oe_sessions e)
    \<and> (\<forall>sid a t. dget (oe_sessions e) sid = Some a \<and> session_at e a = Some t \<longrightarrow>
         (\<exists>b. dget (oe_sessions f) sid = Some b \<and> session_at f b = Some (if os_running t then resumed_session w (kept t) else kept t)
              \<and> ((b, True) \<in> set (oe_spawned f) \<longleftrightarrow> os_running t)))"
  using restart_restores service_sound [OF assms] by simp

theorem restart_keeps_sessions_witness:
  "\<exists>f. engine_boot sample_env [] (oe_store (engine_halt sample_env sample_engine)) 0 = Some f
     \<and> dkeys (oe_sessions f) = [''p'', ''c'']"
  using restart_keeps_sessions [OF sample_service, of sample_env "[]" sample_env 0] by (auto simp: sample_facts)

text \<open>C31. An interrupt of a running session, where every parent stands in the table before its children, walks
  the tree of children to its end and is answered true; exactly the running sessions of that tree are
  cancelled (their waits end, their queues are emptied, their permission requests are answered), and every
  other session is left as it is.\<close>

theorem interrupt_stops_the_tree:
  assumes "service (e, ts)" "INTERRUPT_IGNORED \<notin> set (oe_levers e)" "parents_first (parents e)"
    "dget (oe_sessions e) sid = Some a" "running_at e a"
  shows "\<exists>f. engine_interrupt sid e = Some (Inr True, f) \<and>
    (\<forall>b. session_at f b =
       (if (\<exists>x. descends (parents e) sid x \<and> dget (oe_sessions e) x = Some b) \<and> running_at e b
        then map_option cancel_session (session_at e b) else session_at e b))"
proof -
  have "sound e ts" using service_sound [OF assms(1)] by simp
  from engine_cancel_tree [OF this assms(3-5)] obtain sids where
    "engine_cancel a e = Some (fold cancel_running sids e)" "\<forall>x. x \<in> set sids \<longleftrightarrow> descends (parents e) sid x" by blast
  with assms show ?thesis by (auto simp: engine_interrupt_def session_at_cancel_fold)
qed

theorem interrupt_stops_the_tree_witness:
  "\<exists>f. engine_interrupt ''p'' sample_engine = Some (Inr True, f)
     \<and> session_at f 1 = map_option cancel_session (session_at sample_engine 1)"
proof -
  have d: "\<exists>x. descends (parents sample_engine) ''p'' x \<and> dget (oe_sessions sample_engine) x = Some 1"
    by (rule exI [of _ "''c''"]) (use descends.child [OF descends.self] in \<open>auto simp: sample_facts\<close>)
  have h: "INTERRUPT_IGNORED \<notin> set (oe_levers sample_engine)" "parents_first (parents sample_engine)"
    "dget (oe_sessions sample_engine) ''p'' = Some 0" by (simp_all add: sample_facts)
  from interrupt_stops_the_tree [OF sample_service h sample_facts(5)] obtain f where
    "engine_interrupt ''p'' sample_engine = Some (Inr True, f)"
    "session_at f 1 = (if (\<exists>x. descends (parents sample_engine) ''p'' x \<and> dget (oe_sessions sample_engine) x = Some 1)
       \<and> running_at sample_engine 1 then map_option cancel_session (session_at sample_engine 1) else session_at sample_engine 1)"
    by blast
  with d show ?thesis using sample_facts(6) by auto
qed

end
