(* ===== verification/Oc2_Service.thy ===== *)
theory Oc2_Service
  imports Oc2_Life
begin

text \<open>
  The managed OpenCode 2 service (\<^verbatim>\<open>harness/opencode2_core/internal/service.py\<close>, \<^verbatim>\<open>registration.py\<close>,
  \<^verbatim>\<open>settings.py\<close>, \<^verbatim>\<open>paths.py\<close>, \<^verbatim>\<open>cli.py\<close>): its HTTP routes over the engine, and the verbs that start, stop and
  configure it. The lemmas show that every request is one client step of the engine or none, so that the
  invariant of the engine holds under any sequence of requests. An answer of \<open>None\<close> is a request that never
  returns. The HTTP server, sockets and processes are the library's and the host's; the texts of cursors and
  of the expected credentials are fields of the configuration.
\<close>

section \<open>Requests and answers\<close>

datatype oc2_body =
    NoBody
  | BadBody string
  | Body json

record oc2_request =
  rq_method :: string
  rq_path :: string
  rq_query :: "(string, string) dict"
  rq_auth :: string
  rq_body :: oc2_body

datatype oc2_answer =
    Sent int "json option"
  | Streaming "nat option"

record oc2_config =
  sc_expected :: string
  sc_version :: string
  sc_url :: string
  sc_pid :: int
  sc_cursor_text :: "page_cursor \<Rightarrow> string"
  sc_cursor_of :: "string \<Rightarrow> page_cursor"

definition service_version :: "string \<Rightarrow> oc2_lever list \<Rightarrow> string option" where
  "service_version baked levers =
     (if VERSION_MISMATCH \<notin> set levers then Some baked
      else
        let pieces = split_on (CHR ''.'') baked;
            major = hd pieces;
            minor = (if length pieces > 1 then pieces ! 1 else []);
            patch = join ''.'' (drop 2 pieces)
        in map_option (\<lambda>n. major @ ''.'' @ (if minor = [] then ''0'' else minor) @ ''.'' @ show_int (n + 1))
             (int_of_text (if patch = [] then ''0'' else patch)))"

fun hex_value :: "char \<Rightarrow> nat option" where
  "hex_value c =
     (let n = of_char c :: nat in
      if 48 \<le> n \<and> n \<le> 57 then Some (n - 48)
      else if 97 \<le> n \<and> n \<le> 102 then Some (n - 87)
      else if 65 \<le> n \<and> n \<le> 70 then Some (n - 55) else None)"

text \<open>\<^verbatim>\<open>urllib.parse.unquote\<close>, byte by byte.\<close>

fun unquote :: "string \<Rightarrow> string" where
  "unquote (c # h # l # rest) =
     (case (hex_value h, hex_value l) of
        (Some x, Some y) \<Rightarrow> if c = CHR ''%'' then char_of (16 * x + y) # unquote rest else c # unquote (h # l # rest)
      | _ \<Rightarrow> c # unquote (h # l # rest))"
| "unquote xs = xs"

definition data :: "json \<Rightarrow> oc2_answer" where
  "data j = Sent 200 (Some (JObj [(''data'', j)]))"

definition oc2_refusal :: "oc2_error \<Rightarrow> oc2_answer" where
  "oc2_refusal x =
     (case x of
        SessionNotFoundError sid \<Rightarrow> Sent 404 (Some (JObj [(''_tag'', JStr ''SessionNotFoundError''), (''sessionID'', JStr sid),
            (''message'', JStr (''Session not found: '' @ sid))]))
      | NotFoundError i \<Rightarrow> Sent 404 (Some (JObj [(''error'', JStr (''not found: '' @ py_repr i))]))
      | InvalidCursorError msg \<Rightarrow> Sent 400 (Some (JObj [(''_tag'', JStr ''InvalidCursorError''), (''message'', JStr msg)]))
      | ConflictError i \<Rightarrow> Sent 409 (Some (JObj [(''error'', JStr (''already exists: '' @ i))]))
      | OcValueError msg \<Rightarrow> Sent 400 (Some (JObj [(''error'', JStr msg)])))"

type_synonym 'a op_reply = "(oc2_error + 'a) \<times> oc2"

text \<open>An operation's result sent, or its error.\<close>

definition answer :: "('a \<Rightarrow> oc2_answer) \<Rightarrow> 'a op_reply \<Rightarrow> (oc2_answer \<times> oc2) option" where
  "answer f r = Some (case fst r of Inl x \<Rightarrow> oc2_refusal x | Inr y \<Rightarrow> f y, snd r)"

definition read_answer :: "('a \<Rightarrow> oc2_answer) \<Rightarrow> oc2_error + 'a \<Rightarrow> oc2 \<Rightarrow> (oc2_answer \<times> oc2) option" where
  "read_answer f r e = answer f (r, e)"

definition no_content :: oc2_answer where "no_content = Sent 204 None"

definition not_found :: oc2_answer where "not_found = Sent 404 (Some (JObj [(''error'', JStr ''not found'')]))"

text \<open>\<^verbatim>\<open>_body\<close>: an absent body, and one that is no object, is an empty object.\<close>

definition with_body :: "oc2_request \<Rightarrow> (payload \<Rightarrow> (oc2_answer \<times> oc2) option) \<Rightarrow> oc2 \<Rightarrow> (oc2_answer \<times> oc2) option" where
  "with_body r k e =
     (case rq_body r of
        NoBody \<Rightarrow> k []
      | BadBody msg \<Rightarrow> Some (oc2_refusal (OcValueError msg), e)
      | Body j \<Rightarrow> k (json_object (Some j)))"

section \<open>Routes of a session\<close>

definition shaped :: "oc2_lever list \<Rightarrow> payload \<Rightarrow> payload" where
  "shaped levers m =
     (if UNKNOWN_PART_TYPES \<notin> set levers then m
      else case dget m ''content'' of
        Some (JList parts) \<Rightarrow>
          dset ''content'' (JList (map (\<lambda>q. case q of
              JObj kvs \<Rightarrow> JObj (if dget kvs ''type'' = Some (JStr ''tool'') then dset ''type'' (JStr ''tool-call'') kvs else kvs)
            | _ \<Rightarrow> q) parts)) m
      | _ \<Rightarrow> m)"

definition cursors_json :: "oc2_config \<Rightarrow> (page_cursor \<times> page_cursor) option \<Rightarrow> json" where
  "cursors_json c cs =
     (case cs of
        None \<Rightarrow> JObj [(''previous'', JNull), (''next'', JNull)]
      | Some (p, n) \<Rightarrow> JObj [(''previous'', JStr (sc_cursor_text c p)), (''next'', JStr (sc_cursor_text c n))])"

definition listing_answer :: "oc2_config \<Rightarrow> oc2_lever list \<Rightarrow> payload list \<times> (page_cursor \<times> page_cursor) option \<Rightarrow> oc2_answer" where
  "listing_answer c levers page =
     (let listed = JList (map (JObj \<circ> shaped levers) (fst page)) in
      if DISTORTED_SHAPES \<in> set levers then data (JObj [(''items'', listed)])
      else Sent 200 (Some (JObj [(''data'', listed), (''cursor'', cursors_json c (snd page))])))"

definition list_messages :: "oc2_config \<Rightarrow> string \<Rightarrow> oc2_request \<Rightarrow> oc2 \<Rightarrow> (oc2_answer \<times> oc2) option" where
  "list_messages c sid r e =
     (let cursor = map_option (sc_cursor_of c) (dget (rq_query r) ''cursor'') in
      case dget (rq_query r) ''limit'' of
        None \<Rightarrow> read_answer (listing_answer c (oe_levers e)) (engine_messages sid (dget (rq_query r) ''order'') None cursor e) e
      | Some txt \<Rightarrow>
          if txt = [] then read_answer (listing_answer c (oe_levers e)) (engine_messages sid (dget (rq_query r) ''order'') None cursor e) e
          else case int_of_text txt of
            None \<Rightarrow> Some (oc2_refusal (OcValueError (''invalid literal for int() with base 10: '' @ py_repr txt)), e)
          | Some n \<Rightarrow> read_answer (listing_answer c (oe_levers e)) (engine_messages sid (dget (rq_query r) ''order'') (Some n) cursor e) e)"

definition session_read :: "oc2_env \<Rightarrow> string \<Rightarrow> oc2 \<Rightarrow> oc2_error + payload" where
  "session_read v sid e =
     (case dget (oe_sessions e) sid of
        None \<Rightarrow> Inl (SessionNotFoundError sid)
      | Some a \<Rightarrow> Inr (case session_at e a of None \<Rightarrow> [] | Some s \<Rightarrow> session_record v s))"

definition session_delete :: "oc2_env \<Rightarrow> string \<Rightarrow> oc2 \<Rightarrow> (oc2_answer \<times> oc2) option" where
  "session_delete v sid e =
     (if dget (oe_sessions e) sid = None then Some (oc2_refusal (SessionNotFoundError sid), e)
      else map_option (\<lambda>e1. (no_content, e1)) (engine_remove v sid e))"

definition prompt_route :: "oc2_env \<Rightarrow> string \<Rightarrow> payload \<Rightarrow> oc2 \<Rightarrow> (oc2_answer \<times> oc2) option" where
  "prompt_route v sid body e =
     (case dget body ''text'' of
        None \<Rightarrow> Some (oc2_refusal (OcValueError (py_repr ''text'')), e)
      | Some j \<Rightarrow> answer (data \<circ> JObj) (engine_prompt v sid (json_str j) (get_optional_text body ''delivery'') e))"

definition reply_route :: "string \<Rightarrow> string \<Rightarrow> payload \<Rightarrow> oc2 \<Rightarrow> (oc2_answer \<times> oc2) option" where
  "reply_route sid i body e =
     answer (\<lambda>_. no_content) (reply_permission sid i (shown body ''decision'')
       (case dget body ''message'' of Some (JStr t) \<Rightarrow> Some t | _ \<Rightarrow> None) e)"

definition rows :: "payload list \<Rightarrow> oc2_answer" where
  "rows xs = data (JList (map JObj xs))"

definition route_key :: "string \<Rightarrow> string list \<Rightarrow> string list" where
  "route_key verb parts = verb # take 1 parts @ (if length parts > 1 then [''{id}''] else []) @ drop 2 parts"

definition session_route ::
  "oc2_env \<Rightarrow> oc2_config \<Rightarrow> oc2_request \<Rightarrow> string \<Rightarrow> string list \<Rightarrow> oc2 \<Rightarrow> (oc2_answer \<times> oc2) option" where
  "session_route v c r sid parts e =
     (let key = route_key (rq_method r) parts in
      if key = [''GET''] then read_answer (data \<circ> JObj) (session_read v sid e) e
      else if key = [''PATCH''] then with_body r (\<lambda>b. answer (\<lambda>_. no_content) (engine_update v sid b e)) e
      else if key = [''DELETE''] then session_delete v sid e
      else if key = [''PUT'', ''environment''] then with_body r (\<lambda>b. answer (\<lambda>_. no_content) (set_environment sid (json_object (dget b ''variables'')) e)) e
      else if key = [''POST'', ''prompt''] then with_body r (\<lambda>b. prompt_route v sid b e) e
      else if key = [''POST'', ''interrupt''] then
        (case engine_interrupt sid e of
           None \<Rightarrow> None
         | Some x \<Rightarrow> answer (\<lambda>b. Sent 200 (Some (JObj [(''interrupted'', JBool b)]))) x)
      else if key = [''POST'', ''compact''] then answer (\<lambda>_. no_content) (engine_compact v sid e)
      else if key = [''POST'', ''model''] then with_body r (\<lambda>b. answer (\<lambda>_. no_content) (switch_model v sid (json_object (dget b ''model'')) e)) e
      else if key = [''POST'', ''agent''] then with_body r (\<lambda>b. answer (\<lambda>_. no_content) (switch_agent v sid (shown b ''agent'') e)) e
      else if key = [''GET'', ''message''] then list_messages c sid r e
      else if key = [''GET'', ''message'', ''{id}''] then read_answer (data \<circ> JObj \<circ> shaped (oe_levers e)) (engine_message sid (parts ! 1) e) e
      else if key = [''GET'', ''inbox''] then read_answer rows (engine_inbox sid e) e
      else if key = [''GET'', ''permission''] then read_answer rows (permission_requests sid e) e
      else if key = [''POST'', ''permission'', ''{id}'', ''reply''] then with_body r (\<lambda>b. reply_route sid (parts ! 1) b e) e
      else if key = [''GET'', ''form''] then read_answer rows (engine_forms sid e) e
      else if key = [''POST'', ''form''] then with_body r (\<lambda>b. answer (data \<circ> JObj) (create_form v sid b e)) e
      else if key = [''DELETE'', ''form'', ''{id}''] then answer (\<lambda>_. no_content) (cancel_form sid (parts ! 1) e)
      else Some (not_found, e))"

section \<open>Every route\<close>

definition service_info :: "oc2_config \<Rightarrow> json" where
  "service_info c = JObj [(''version'', JStr (sc_version c)), (''pid'', JInt (sc_pid c)), (''urls'', JList [JStr (sc_url c)]),
     (''paths'', JObj []), (''capabilities'', JObj [(''sessions'', JBool True), (''events'', JBool True)])]"

definition create_route :: "oc2_env \<Rightarrow> payload \<Rightarrow> oc2 \<Rightarrow> (oc2_answer \<times> oc2) option" where
  "create_route v body e =
     (case engine_create v body e of (r, e1) \<Rightarrow>
      answer (\<lambda>a. data (JObj (case session_at e1 a of None \<Rightarrow> [] | Some s \<Rightarrow> session_record v s))) (r, e1))"

definition events_route :: "oc2 \<Rightarrow> (oc2_answer \<times> oc2) option" where
  "events_route e =
     (if EVENTS_DROPPED \<in> set (oe_levers e) then Some (Streaming None, e)
      else case subscribe e of (k, e1) \<Rightarrow> Some (Streaming (Some k), e1))"

text \<open>The path of a session route: its id and the pieces after it.\<close>

definition session_url :: "string \<Rightarrow> (string \<times> string list) option" where
  "session_url path =
     (case split_on (CHR ''/'') path of
        a # b # c # sid # rest \<Rightarrow>
          if a = [] \<and> b = ''api'' \<and> c = ''session'' \<and> sid \<noteq> []
          then Some (unquote sid, map unquote (filter (\<lambda>q. q \<noteq> []) rest)) else None
      | _ \<Rightarrow> None)"

definition service_route :: "oc2_env \<Rightarrow> oc2_config \<Rightarrow> oc2_request \<Rightarrow> oc2 \<Rightarrow> (oc2_answer \<times> oc2) option" where
  "service_route v c r e =
     (let key = (rq_method r, rq_path r) in
      if starts_with ''/api/experimental/'' (rq_path r) then Some (not_found, e)
      else if key = (''GET'', ''/api/info'') then Some (Sent 200 (Some (service_info c)), e)
      else if key = (''GET'', ''/api/model'') then Some (data (JList (model_listing (NO_PRICES \<notin> set (oe_levers e)))), e)
      else if key = (''GET'', ''/api/event'') then events_route e
      else if key = (''GET'', ''/api/session'') then Some (rows (engine_children v (dget (rq_query r) ''parentID'') e), e)
      else if key = (''POST'', ''/api/session'') then with_body r (\<lambda>b. create_route v b e) e
      else if key = (''GET'', ''/api/session/active'') then Some (data (JObj (engine_active e)), e)
      else case session_url (rq_path r) of
        Some (sid, parts) \<Rightarrow> session_route v c r sid parts e
      | None \<Rightarrow> Some (not_found, e))"

definition service_dispatch :: "oc2_env \<Rightarrow> oc2_config \<Rightarrow> oc2_request \<Rightarrow> oc2 \<Rightarrow> (oc2_answer \<times> oc2) option" where
  "service_dispatch v c r e =
     (if rq_auth r \<noteq> sc_expected c then Some (Sent 401 (Some (JObj [(''error'', JStr ''unauthorized'')])), e)
      else service_route v c r e)"

text \<open>The end of an event stream.\<close>

definition stream_closed :: "nat \<Rightarrow> oc2 \<Rightarrow> oc2" where
  "stream_closed k e = unsubscribe k e"

section \<open>Every request is a client's step\<close>

definition steps_to :: "oc2 \<Rightarrow> (oc2_answer \<times> oc2) option \<Rightarrow> bool" where
  "steps_to e x \<longleftrightarrow> (case x of None \<Rightarrow> True | Some (_, e') \<Rightarrow> e' = e \<or> client_step e e')"

lemma steps_to_intros [intro]:
  "steps_to e (Some (x, e))" "steps_to e (read_answer f z e)"
  "client_step e (snd y) \<Longrightarrow> steps_to e (answer g y)"
  "(\<And>b. steps_to e (k b)) \<Longrightarrow> steps_to e (with_body r k e)"
  by (auto simp: steps_to_def read_answer_def answer_def with_body_def split: oc2_body.split)

lemma interrupt_client: "engine_interrupt sid e = Some x \<Longrightarrow> client_step e (snd x)"
  by (cases x) (auto intro: client_step.interrupt)

lemma session_route_steps: "steps_to e (session_route v c r sid parts e)"
proof -
  have "steps_to e (session_delete v sid e)"
    by (auto simp: session_delete_def steps_to_def intro: client_step.remove split: option.split)
  moreover have "steps_to e (prompt_route v sid b e)" for b
    by (auto simp: prompt_route_def intro: client_step.prompt split: option.split)
  moreover have "steps_to e (reply_route sid i b e)" for i b
    by (auto simp: reply_route_def intro: client_step.reply)
  moreover have "steps_to e (list_messages c sid r e)"
    by (auto simp: list_messages_def Let_def split: option.split)
  moreover have "steps_to e (case engine_interrupt sid e of None \<Rightarrow> None | Some x \<Rightarrow> answer f x)" for f
    by (auto simp: steps_to_def answer_def dest: interrupt_client split: option.split)
  ultimately show ?thesis
    unfolding session_route_def Let_def
    by (auto intro: client_step.intros)
qed

lemma service_route_steps: "steps_to e (service_route v c r e)"
proof -
  have "steps_to e (create_route v b e)" for b
    using client_step.create [of e v b] by (auto simp: create_route_def split_beta)
  moreover have "steps_to e (events_route e)"
    using client_step.listen [of e] by (auto simp: events_route_def steps_to_def split_beta)
  ultimately show ?thesis
    unfolding service_route_def Let_def by (auto intro: session_route_steps split: option.split)
qed

lemma requests_are_client_steps:
  assumes "service_dispatch v c r e = Some (x, e')" "service (e, ts)"
  shows "service (e', ts)"
proof -
  have "steps_to e (service_dispatch v c r e)"
    by (auto simp: service_dispatch_def intro: service_route_steps)
  with assms(1) have "e' = e \<or> client_step e e'" by (simp add: steps_to_def)
  with assms(2) show ?thesis by (auto intro: service.step service_step.client)
qed

end
