(* ===== verification/Oc2_Verbs.thy ===== *)
theory Oc2_Verbs
  imports Oc2_Service
begin

text \<open>
  The verbs of an OpenCode 2 artifact (\<^verbatim>\<open>harness/opencode2_core/cli.py\<close>, \<^verbatim>\<open>internal/service.py\<close>,
  \<^verbatim>\<open>registration.py\<close>, \<^verbatim>\<open>settings.py\<close>, \<^verbatim>\<open>paths.py\<close>) over the little of a host they touch: files by path, the
  processes alive, what was printed. What a wait sees at each of its polls is an argument; the list's end is
  the deadline. A path is a text. The lemmas say who owns the registration.
\<close>

section \<open>Paths\<close>

definition env_home :: "string \<Rightarrow> (string, string) dict \<Rightarrow> string \<Rightarrow> string \<Rightarrow> string" where
  "env_home expanded env var fallback =
     (case dget env var of
        Some p \<Rightarrow> if p \<noteq> [] then p else str_or (dget env ''HOME'') expanded @ fallback
      | None \<Rightarrow> str_or (dget env ''HOME'') expanded @ fallback)"

definition registration_path :: "string \<Rightarrow> (string, string) dict \<Rightarrow> string" where
  "registration_path home env = env_home home env ''XDG_STATE_HOME'' ''/.local/state'' @ ''/opencode/service.json''"

definition service_config_path :: "string \<Rightarrow> (string, string) dict \<Rightarrow> string" where
  "service_config_path home env = env_home home env ''XDG_CONFIG_HOME'' ''/.config'' @ ''/opencode/service.json''"

definition store_path :: "string \<Rightarrow> (string, string) dict \<Rightarrow> string" where
  "store_path home env = env_home home env ''XDG_DATA_HOME'' ''/.local/share'' @ ''/opencode/mock-opencode-2.json''"

section \<open>The host\<close>

record oc2_host =
  oh_files :: "(string, json option) dict"
  oh_alive :: "int list"
  oh_pid :: int
  oh_out :: "string list"
  oh_err :: "string list"
  oh_served :: nat

definition say :: "string \<Rightarrow> oc2_host \<Rightarrow> oc2_host" where
  "say t h = h\<lparr>oh_out := oh_out h @ [t]\<rparr>"

definition complain :: "string \<Rightarrow> oc2_host \<Rightarrow> oc2_host" where
  "complain t h = h\<lparr>oh_err := oh_err h @ [t]\<rparr>"

text \<open>A file that is absent, or does not decode, or holds no object, reads as nothing.\<close>

definition registration_read :: "string \<Rightarrow> oc2_host \<Rightarrow> payload option" where
  "registration_read path h = (case dget (oh_files h) path of Some (Some (JObj kvs)) \<Rightarrow> Some kvs | _ \<Rightarrow> None)"

definition registration_write :: "string \<Rightarrow> payload \<Rightarrow> oc2_host \<Rightarrow> oc2_host" where
  "registration_write path r h = h\<lparr>oh_files := dset path (Some (JObj r)) (oh_files h)\<rparr>"

definition remove_if_owned :: "string \<Rightarrow> string \<Rightarrow> oc2_host \<Rightarrow> oc2_host" where
  "remove_if_owned path i h =
     (case registration_read path h of
        None \<Rightarrow> h
      | Some r \<Rightarrow> if dget r ''id'' = Some (JStr i) then h\<lparr>oh_files := dpop path (oh_files h)\<rparr> else h)"

definition pid_alive :: "int \<Rightarrow> oc2_host \<Rightarrow> bool" where
  "pid_alive p h \<longleftrightarrow> p \<in> set (oh_alive h)"

text \<open>\<^verbatim>\<open>int(str(record.get("pid", 0)))\<close>, which raises for a text that is no number.\<close>

definition registered_pid :: "payload \<Rightarrow> int option" where
  "registered_pid r = int_of_text (get_str r ''pid'' ''0'')"

section \<open>Starting and stopping\<close>

definition registration_record :: "string \<Rightarrow> string \<Rightarrow> string \<Rightarrow> int \<Rightarrow> string \<Rightarrow> payload" where
  "registration_record i version url p password =
     [(''id'', JStr i), (''version'', JStr version), (''url'', JStr url), (''pid'', JInt p), (''password'', JStr password)]"

text \<open>The wait for a started service: what the registration reads as and whether the child has ended, at each
  poll.\<close>

fun await_start :: "int \<Rightarrow> (payload option \<times> bool) list \<Rightarrow> string option" where
  "await_start child [] = None"
| "await_start child ((r, ended) # polls) =
     (case r of
        Some kvs \<Rightarrow>
          if dget kvs ''pid'' = Some (JInt child) then Some (shown kvs ''url'')
          else if ended then None else await_start child polls
      | None \<Rightarrow> if ended then None else await_start child polls)"

definition already_running :: "(payload \<Rightarrow> bool) \<Rightarrow> string \<Rightarrow> oc2_host \<Rightarrow> payload option" where
  "already_running answers path h =
     (case registration_read path h of
        None \<Rightarrow> None
      | Some r \<Rightarrow>
          (case registered_pid r of
             None \<Rightarrow> None
           | Some p \<Rightarrow> if pid_alive p h \<and> answers r then Some r else None))"

definition service_start ::
  "(payload \<Rightarrow> bool) \<Rightarrow> string \<Rightarrow> oc2_lever list \<Rightarrow> payload \<Rightarrow> int \<Rightarrow> (payload option \<times> bool) list \<Rightarrow> oc2_host \<Rightarrow> int \<times> oc2_host" where
  "service_start answers path levers dead_record child polls h =
     (case already_running answers path h of
        Some r \<Rightarrow> (0, say (''opencode service already running at '' @ shown r ''url'') h)
      | None \<Rightarrow>
          if NEVER_REGISTERED \<in> set levers then (0, say ''opencode service started'' h)
          else if NEVER_ANSWERS \<in> set levers then (0, say ''opencode service started'' (registration_write path dead_record h))
          else
            let h1 = h\<lparr>oh_served := Suc (oh_served h)\<rparr> in
            (case await_start child polls of
               Some url \<Rightarrow> (0, say (''opencode service started at '' @ url) h1)
             | None \<Rightarrow> (1, complain ''opencode service did not start'' h1)))"

text \<open>Stopping: the process is asked to end, waited for and then killed, so it is gone either way.\<close>

definition service_stop :: "string \<Rightarrow> oc2_host \<Rightarrow> (int \<times> oc2_host) option" where
  "service_stop path h =
     (case registration_read path h of
        None \<Rightarrow> Some (0, say ''opencode service not running'' h)
      | Some r \<Rightarrow>
          map_option (\<lambda>p.
            let h1 = (if p \<noteq> oh_pid h \<and> pid_alive p h then h\<lparr>oh_alive := removeAll p (oh_alive h)\<rparr> else h)
            in (0, say ''opencode service stopped'' (remove_if_owned path (shown r ''id'') h1)))
          (registered_pid r))"

definition service_status :: "(json \<Rightarrow> string) \<Rightarrow> string \<Rightarrow> oc2_host \<Rightarrow> (int \<times> oc2_host) option" where
  "service_status dumps path h =
     (case registration_read path h of
        None \<Rightarrow> Some (1, say ''opencode service not running'' h)
      | Some r \<Rightarrow>
          map_option (\<lambda>p. if \<not> pid_alive p h then (1, say ''opencode service not running'' h)
             else (0, say (dumps (JObj [(''status'', JStr ''running''), (''url'', text_or_null r ''url''), (''pid'', text_or_null r ''pid'')])) h))
          (registered_pid r))"

section \<open>The one setting\<close>

definition config_read :: "string \<Rightarrow> oc2_host \<Rightarrow> payload" where
  "config_read path h = (case registration_read path h of None \<Rightarrow> [] | Some kvs \<Rightarrow> kvs)"

definition unknown_key :: "string \<Rightarrow> oc2_host \<Rightarrow> int \<times> oc2_host" where
  "unknown_key key h = (1, complain (''Unknown service config key: '' @ key) h)"

definition setting_get :: "string \<Rightarrow> string \<Rightarrow> oc2_host \<Rightarrow> int \<times> oc2_host" where
  "setting_get path key h =
     (if key \<noteq> ''disabled'' then unknown_key key h
      else (0, say (if dget (config_read path h) ''disabled'' = Some (JBool True) then ''true'' else ''false'') h))"

definition setting_set :: "string \<Rightarrow> string \<Rightarrow> string \<Rightarrow> oc2_host \<Rightarrow> int \<times> oc2_host" where
  "setting_set path key val h =
     (if key \<noteq> ''disabled'' then unknown_key key h
      else if val \<notin> {''true'', ''false''} then (1, complain ''Disabled must be true or false'' h)
      else (0, registration_write path (dset ''disabled'' (JBool (val = ''true'')) (config_read path h)) h))"

definition setting_unset :: "string \<Rightarrow> string \<Rightarrow> oc2_host \<Rightarrow> int \<times> oc2_host" where
  "setting_unset path key h =
     (if key \<noteq> ''disabled'' then unknown_key key h
      else (0, registration_write path (dpop ''disabled'' (config_read path h)) h))"

section \<open>Lemmas\<close>

lemma setting_round_trip:
  "val \<in> {''true'', ''false''} \<Longrightarrow>
     snd (setting_get path ''disabled'' (snd (setting_set path ''disabled'' val h)))
       = say val (snd (setting_set path ''disabled'' val h))"
  by (auto simp: setting_get_def setting_set_def config_read_def registration_read_def registration_write_def)

lemma registration_round_trip: "registration_read path (registration_write path r h) = Some r"
  by (simp add: registration_read_def registration_write_def)

text \<open>A service that stops late does not take away the registration of the one that replaced it.\<close>

lemma late_stop_keeps_successor:
  "i \<noteq> j \<Longrightarrow> remove_if_owned path i (registration_write path (registration_record j version url p password) h)
     = registration_write path (registration_record j version url p password) h"
  by (simp add: remove_if_owned_def registration_round_trip) (simp add: registration_record_def)

lemma stop_removes_registration:
  assumes "registration_read path h = Some r" "registered_pid r = Some p" "dget r ''id'' = Some (JStr i)"
  shows "\<exists>h'. service_stop path h = Some (0, h') \<and> registration_read path h' = None \<and> (p \<noteq> oh_pid h \<longrightarrow> \<not> pid_alive p h')"
proof -
  have "shown r ''id'' = i" using assms(3) by (simp add: shown_def get_str_def)
  moreover have "registration_read path (g\<lparr>oh_alive := xs\<rparr>) = registration_read path g" for g xs
    by (simp add: registration_read_def)
  moreover have "registration_read path (say t (g\<lparr>oh_files := dpop path fs\<rparr>)) = None" for g t fs
    by (simp add: registration_read_def say_def)
  ultimately show ?thesis
    using assms by (auto simp: service_stop_def remove_if_owned_def Let_def) (auto simp: pid_alive_def say_def)
qed

end
