(* ===== verification/Idp.thy ===== *)
theory Idp
  imports Forge_Wire
begin

text \<open>
  The stub identity provider (\<^verbatim>\<open>src/blizzard_mock/idp\<close>): profiles and identities (\<^verbatim>\<open>domain/models.py\<close>), the
  store of codes and access tokens (\<^verbatim>\<open>domain/state.py\<close>), the two login shapes (\<^verbatim>\<open>api/github.py\<close>,
  \<^verbatim>\<open>api/oidc.py\<close>), the levers (\<^verbatim>\<open>api/levers.py\<close>) and the configuration. A request is one value of
  \<open>idp_request\<close>, served with the text the next random draw gives. The RSA key is the library's: the public
  key document and the signature over a payload are the parameters \<open>jwk\<close> and \<open>sign\<close>. The lemmas follow a
  code from the login it was minted for to its one exchange, and the access token from there.
\<close>

section \<open>Profiles\<close>

record SecondaryEmail =
  se_email :: string
  se_verified :: bool

record Profile =
  pf_subject :: string
  pf_handle :: string
  pf_email :: "string option"
  pf_email_verified :: bool
  pf_secondary :: "SecondaryEmail list"
  pf_role :: "string option"

definition DEFAULT_PROFILE :: Profile where
  "DEFAULT_PROFILE = \<lparr>pf_subject = ''1001'', pf_handle = ''octocat'', pf_email = Some ''octocat@example.com'',
     pf_email_verified = True, pf_secondary = [], pf_role = None\<rparr>"

definition lower :: "string \<Rightarrow> string" where
  "lower s = map lower_char s"

definition addresses :: "Profile \<Rightarrow> string list" where
  "addresses p = map (lower \<circ> se_email) (pf_secondary p) @ (case pf_email p of None \<Rightarrow> [] | Some x \<Rightarrow> [lower x])"

text \<open>The validator of a profile: its fields, or the refusal of an address listed twice.\<close>

definition validate_profile :: "Profile \<Rightarrow> string + Profile" where
  "validate_profile p =
     (if length (dedup (addresses p)) \<noteq> length (addresses p)
      then Inl ''an address appears twice among the primary and secondary emails'' else Inr p)"

definition profile_json :: "Profile \<Rightarrow> json" where
  "profile_json p = JObj
     [(''subject'', JStr (pf_subject p)), (''handle'', JStr (pf_handle p)), (''email'', opt_str (pf_email p)),
      (''email_verified'', JBool (pf_email_verified p)),
      (''secondary_emails'', JList (map (\<lambda>x. JObj [(''email'', JStr (se_email x)), (''verified'', JBool (se_verified x))]) (pf_secondary p))),
      (''role'', opt_str (pf_role p))]"

section \<open>The store\<close>

record idp =
  ip_profile :: Profile
  ip_refuse :: bool
  ip_identities :: "(string, Profile) dict"
  ip_codes :: "(string, Profile) dict"
  ip_tokens :: "(string, Profile) dict"

definition idp_start :: idp where
  "idp_start = \<lparr>ip_profile = DEFAULT_PROFILE, ip_refuse = False, ip_identities = [], ip_codes = [], ip_tokens = []\<rparr>"

definition register_identity :: "Profile \<Rightarrow> idp \<Rightarrow> (string + unit) \<times> idp" where
  "register_identity p st =
     (case pf_email p of
        None \<Rightarrow> (Inl ''an identity needs a primary email'', st)
      | Some x \<Rightarrow> (Inr (), st\<lparr>ip_identities := dset (lower x) p (ip_identities st)\<rparr>))"

definition identity_for_hint :: "string \<Rightarrow> idp \<Rightarrow> Profile option" where
  "identity_for_hint hint st = dget (ip_identities st) (lower hint)"

definition idp_reset :: "idp \<Rightarrow> idp" where
  "idp_reset st = \<lparr>ip_profile = DEFAULT_PROFILE, ip_refuse = False, ip_identities = [], ip_codes = [], ip_tokens = []\<rparr>"

definition mint_code :: "string \<Rightarrow> Profile \<Rightarrow> idp \<Rightarrow> string \<times> idp" where
  "mint_code draw p st = (draw, st\<lparr>ip_codes := dset draw p (ip_codes st)\<rparr>)"

definition consume_code :: "string \<Rightarrow> idp \<Rightarrow> Profile option \<times> idp" where
  "consume_code code st = (dget (ip_codes st) code, st\<lparr>ip_codes := dpop code (ip_codes st)\<rparr>)"

definition mint_access_token :: "string \<Rightarrow> Profile \<Rightarrow> idp \<Rightarrow> string \<times> idp" where
  "mint_access_token draw p st = (draw, st\<lparr>ip_tokens := dset draw p (ip_tokens st)\<rparr>)"

definition profile_for_access_token :: "string \<Rightarrow> idp \<Rightarrow> Profile option" where
  "profile_for_access_token tok st = dget (ip_tokens st) tok"

section \<open>Answers\<close>

datatype idp_answer =
    Redirect string
  | Answered int json
  | ServerError

record idp_outside =
  io_base :: string
  io_now :: int
  io_jwk :: payload
  io_sign :: "payload \<Rightarrow> string"

definition rstrip_slash :: "string \<Rightarrow> string" where
  "rstrip_slash s = rev (dropWhile (\<lambda>c. c = CHR ''/'') (rev s))"

text \<open>\<^verbatim>\<open>authorize\<close>, the same in both shapes: refused by the lever or for an unknown hint, else a fresh code.\<close>

definition login_profile :: "string option \<Rightarrow> idp \<Rightarrow> Profile option" where
  "login_profile hint st =
     (if ip_refuse st then None else case hint of None \<Rightarrow> Some (ip_profile st) | Some x \<Rightarrow> identity_for_hint x st)"

definition authorize :: "string \<Rightarrow> string \<Rightarrow> string \<Rightarrow> string option \<Rightarrow> idp \<Rightarrow> idp_answer \<times> idp" where
  "authorize draw uri state hint st =
     (case login_profile hint st of
        None \<Rightarrow> (Redirect (uri @ ''?'' @ urlencode [(''error'', ''access_denied''), (''state'', state)]), st)
      | Some p \<Rightarrow>
          (case mint_code draw p st of (code, st1) \<Rightarrow>
           (Redirect (uri @ ''?'' @ urlencode [(''code'', code), (''state'', state)]), st1)))"

definition access_token :: "string \<Rightarrow> string \<Rightarrow> idp \<Rightarrow> idp_answer \<times> idp" where
  "access_token draw code st =
     (case consume_code code st of
        (None, st1) \<Rightarrow> (Answered 400 (JObj [(''error'', JStr ''bad_verification_code'')]), st1)
      | (Some p, st1) \<Rightarrow>
          (case mint_access_token draw p st1 of (tok, st2) \<Rightarrow>
           (Answered 200 (JObj [(''access_token'', JStr tok), (''token_type'', JStr ''bearer''), (''scope'', JStr ''user:email'')]), st2)))"

definition id_token_payload :: "idp_outside \<Rightarrow> string \<Rightarrow> Profile \<Rightarrow> payload" where
  "id_token_payload x audience p =
     [(''iss'', JStr (rstrip_slash (io_base x))), (''aud'', JStr audience), (''sub'', JStr (pf_subject p)), (''iat'', JInt (io_now x)),
      (''exp'', JInt (io_now x + 300)), (''preferred_username'', JStr (pf_handle p))]
     @ (case pf_email p of None \<Rightarrow> [] | Some e \<Rightarrow> [(''email'', JStr e), (''email_verified'', JBool (pf_email_verified p))])"

definition oidc_token :: "idp_outside \<Rightarrow> string \<Rightarrow> string \<Rightarrow> string \<Rightarrow> idp \<Rightarrow> idp_answer \<times> idp" where
  "oidc_token x draw code client_id st =
     (case consume_code code st of
        (None, st1) \<Rightarrow> (Answered 400 (JObj [(''error'', JStr ''invalid_grant'')]), st1)
      | (Some p, st1) \<Rightarrow>
          (case mint_access_token draw p st1 of (tok, st2) \<Rightarrow>
           (Answered 200 (JObj [(''id_token'', JStr (io_sign x (id_token_payload x client_id p))), (''access_token'', JStr tok),
              (''token_type'', JStr ''bearer''), (''expires_in'', JInt 300)]), st2)))"

definition profile_for_bearer :: "string option \<Rightarrow> idp \<Rightarrow> Profile option" where
  "profile_for_bearer authorization st =
     (case authorization of
        None \<Rightarrow> None
      | Some a \<Rightarrow> if starts_with ''token '' a then profile_for_access_token (drop 6 a) st else None)"

definition unauthorized :: idp_answer where
  "unauthorized = Answered 401 (JObj [(''message'', JStr ''Bad credentials'')])"

text \<open>The numeric id of a profile, which raises for a subject that is no number.\<close>

definition github_user :: "string option \<Rightarrow> idp \<Rightarrow> idp_answer" where
  "github_user authorization st =
     (case profile_for_bearer authorization st of
        None \<Rightarrow> unauthorized
      | Some p \<Rightarrow>
          (case int_of_text (pf_subject p) of
             None \<Rightarrow> ServerError
           | Some n \<Rightarrow> Answered 200 (JObj [(''id'', JInt n), (''login'', JStr (pf_handle p))])))"

definition email_entry :: "string \<Rightarrow> bool \<Rightarrow> bool \<Rightarrow> json" where
  "email_entry x is_primary verified = JObj [(''email'', JStr x), (''primary'', JBool is_primary), (''verified'', JBool verified)]"

definition emails :: "Profile \<Rightarrow> json list" where
  "emails p =
     (case pf_email p of None \<Rightarrow> [] | Some x \<Rightarrow> [email_entry x True (pf_email_verified p)])
     @ map (\<lambda>s. email_entry (se_email s) False (se_verified s)) (pf_secondary p)"

definition user_emails :: "string option \<Rightarrow> idp \<Rightarrow> idp_answer" where
  "user_emails authorization st =
     (case profile_for_bearer authorization st of None \<Rightarrow> unauthorized | Some p \<Rightarrow> Answered 200 (JList (emails p)))"

definition discovery :: "idp_outside \<Rightarrow> idp_answer" where
  "discovery x =
     (let base = rstrip_slash (io_base x) in
      Answered 200 (JObj [(''issuer'', JStr base), (''authorization_endpoint'', JStr (base @ ''/oidc/authorize'')),
        (''token_endpoint'', JStr (base @ ''/oidc/token'')), (''jwks_uri'', JStr (base @ ''/oidc/jwks''))]))"

definition jwks :: "idp_outside \<Rightarrow> idp_answer" where
  "jwks x = Answered 200 (JObj [(''keys'', JList [JObj (dset ''use'' (JStr ''sig'') (dset ''alg'' (JStr ''RS256'')
     (dset ''kid'' (JStr ''stub-idp-key-1'') (io_jwk x))))])])"

section \<open>Requests\<close>

datatype idp_request =
    Authorize string string "string option"
  | AccessToken string
  | OidcToken string string
  | GetUser "string option"
  | GetEmails "string option"
  | Discovery
  | Jwks
  | SetProfile Profile
  | GetProfile
  | AddIdentity Profile
  | GetIdentities
  | RefuseCallback bool
  | IdpReset
  | Healthz

definition lever_profile :: "string \<Rightarrow> Profile \<Rightarrow> idp_answer" where
  "lever_profile k p = Answered 200 (JObj [(k, profile_json p)])"

text \<open>A profile that does not validate is answered 422 by the framework, whose body is not modelled.\<close>

definition with_profile :: "Profile \<Rightarrow> (Profile \<Rightarrow> idp_answer \<times> idp) \<Rightarrow> idp \<Rightarrow> idp_answer \<times> idp" where
  "with_profile p k st = (case validate_profile p of Inl msg \<Rightarrow> (Answered 422 (JObj [(''detail'', JStr msg)]), st) | Inr q \<Rightarrow> k q)"

definition add_identity :: "Profile \<Rightarrow> idp \<Rightarrow> idp_answer \<times> idp" where
  "add_identity p st =
     (case register_identity p st of
        (Inl msg, st1) \<Rightarrow> (Answered 422 (JObj [(''detail'', JStr msg)]), st1)
      | (Inr _, st1) \<Rightarrow> (lever_profile ''identity'' p, st1))"

fun idp_serve :: "idp_outside \<Rightarrow> string \<Rightarrow> idp_request \<Rightarrow> idp \<Rightarrow> idp_answer \<times> idp" where
  "idp_serve x draw (Authorize uri state hint) st = authorize draw uri state hint st"
| "idp_serve x draw (AccessToken code) st = access_token draw code st"
| "idp_serve x draw (OidcToken code client_id) st = oidc_token x draw code client_id st"
| "idp_serve x draw (GetUser a) st = (github_user a st, st)"
| "idp_serve x draw (GetEmails a) st = (user_emails a st, st)"
| "idp_serve x draw Discovery st = (discovery x, st)"
| "idp_serve x draw Jwks st = (jwks x, st)"
| "idp_serve x draw (SetProfile p) st = with_profile p (\<lambda>q. (lever_profile ''profile'' q, st\<lparr>ip_profile := q\<rparr>)) st"
| "idp_serve x draw GetProfile st = (lever_profile ''profile'' (ip_profile st), st)"
| "idp_serve x draw (AddIdentity p) st = with_profile p (\<lambda>q. add_identity q st) st"
| "idp_serve x draw GetIdentities st = (Answered 200 (JObj [(''identities'', JList (map profile_json (dvals (ip_identities st))))]), st)"
| "idp_serve x draw (RefuseCallback b) st = (Answered 200 (JObj [(''refuse_callback'', JBool b)]), st\<lparr>ip_refuse := b\<rparr>)"
| "idp_serve x draw IdpReset st = (Answered 200 (JObj [(''reset'', JBool True)]), idp_reset st)"
| "idp_serve x draw Healthz st = (Answered 200 (JObj [(''status'', JStr ''ok'')]), st)"

text \<open>A run of requests, each with its random draw and what is outside.\<close>

fun idp_run :: "(idp_outside \<times> string \<times> idp_request) list \<Rightarrow> idp \<Rightarrow> idp" where
  "idp_run [] st = st"
| "idp_run ((x, draw, r) # rs) st = idp_run rs (snd (idp_serve x draw r st))"

section \<open>Configuration\<close>

record IdpConfig =
  ic_host :: string
  ic_port :: int

definition idp_config :: "(string, string) dict \<Rightarrow> string option \<Rightarrow> int option \<Rightarrow> IdpConfig option" where
  "idp_config env host port =
     map_option (\<lambda>p. \<lparr>ic_host = str_or host (dget_or env ''BZ_IDP_HOST'' ''127.0.0.1''), ic_port = p\<rparr>)
       (case port of
          Some p \<Rightarrow> Some p
        | None \<Rightarrow> (case dget env ''BZ_IDP_PORT'' of None \<Rightarrow> Some 8090 | Some t \<Rightarrow> int_of_text t))"

definition idp_base_url :: "IdpConfig \<Rightarrow> string" where
  "idp_base_url c = ''http://'' @ ic_host c @ '':'' @ show_int (ic_port c)"

section \<open>Codes and tokens\<close>

lemmas idp_defs = authorize_def access_token_def oidc_token_def mint_code_def consume_code_def mint_access_token_def
  with_profile_def add_identity_def register_identity_def

text \<open>What a request that is neither a reset nor an exchange of the code does to a code, what any request that
  is no reset does to a spent code, and to a token, given that its draw is another text.\<close>

fun exchanges :: "string \<Rightarrow> idp_request \<Rightarrow> bool" where
  "exchanges code (AccessToken c) \<longleftrightarrow> c = code"
| "exchanges code (OidcToken c _) \<longleftrightarrow> c = code"
| "exchanges code r \<longleftrightarrow> False"

lemma code_stands:
  "draw \<noteq> code \<Longrightarrow> r \<noteq> IdpReset \<Longrightarrow> \<not> exchanges code r \<Longrightarrow> dget (ip_codes (snd (idp_serve x draw r st))) code = dget (ip_codes st) code"
  by (cases r) (auto simp: idp_defs split: option.split sum.split)

lemma code_stays_spent:
  "draw \<noteq> code \<Longrightarrow> dget (ip_codes st) code = None \<Longrightarrow> dget (ip_codes (snd (idp_serve x draw r st))) code = None"
  by (cases r) (auto simp: idp_defs idp_reset_def split: option.split sum.split)

lemma token_stands:
  "draw \<noteq> tok \<Longrightarrow> r \<noteq> IdpReset \<Longrightarrow> dget (ip_tokens (snd (idp_serve x draw r st))) tok = dget (ip_tokens st) tok"
  by (cases r) (auto simp: idp_defs split: option.split sum.split)

definition undisturbed :: "string \<Rightarrow> (idp_outside \<times> string \<times> idp_request) list \<Rightarrow> bool" where
  "undisturbed secret rs \<longleftrightarrow> list_all (\<lambda>(_, draw, r). draw \<noteq> secret \<and> r \<noteq> IdpReset) rs"

definition unexchanged :: "string \<Rightarrow> (idp_outside \<times> string \<times> idp_request) list \<Rightarrow> bool" where
  "unexchanged code rs \<longleftrightarrow> list_all (\<lambda>(_, _, r). \<not> exchanges code r) rs"

lemma run_code_stands:
  "undisturbed code rs \<Longrightarrow> unexchanged code rs \<Longrightarrow> dget (ip_codes (idp_run rs st)) code = dget (ip_codes st) code"
  by (induction rs st rule: idp_run.induct) (auto simp: undisturbed_def unexchanged_def code_stands)

lemma run_code_spent:
  "undisturbed code rs \<Longrightarrow> dget (ip_codes st) code = None \<Longrightarrow> dget (ip_codes (idp_run rs st)) code = None"
  by (induction rs st rule: idp_run.induct) (auto simp: undisturbed_def code_stays_spent)

lemma run_token_stands:
  "undisturbed tok rs \<Longrightarrow> dget (ip_tokens (idp_run rs st)) tok = dget (ip_tokens st) tok"
  by (induction rs st rule: idp_run.induct) (auto simp: undisturbed_def token_stands)

lemma exchange_spends:
  assumes "exchanges code r" "dget (ip_codes st) code = Some p"
  shows "dget (ip_codes (snd (idp_serve x tok r st))) code = None" "dget (ip_tokens (snd (idp_serve x tok r st))) tok = Some p"
    "\<exists>kvs. fst (idp_serve x tok r st) = Answered 200 (JObj kvs) \<and> dget kvs ''access_token'' = Some (JStr tok)"
  using assms by (cases r; simp add: idp_defs)+

lemma exchange_of_spent_code:
  assumes "exchanges code r" "dget (ip_codes st) code = None"
  shows "\<exists>j. fst (idp_serve x tok r st) = Answered 400 j \<and> ip_tokens (snd (idp_serve x tok r st)) = ip_tokens st"
  using assms by (cases r; simp add: idp_defs)

section \<open>A login\<close>

text \<open>C34. A login goes through exactly for the identity it chose. The code minted for it can be exchanged, in
  either shape, after any requests but a reset and an exchange of that code; the exchange answers an access
  token, which from then on, until a reset, answers for that identity and for no other; and the code is
  spent: after any further requests, a second exchange of it is refused and mints nothing. (Random texts
  that repeat are left out.)\<close>

theorem login_code_answers_once:
  assumes "login_profile hint st = Some p" "undisturbed code before_exchange" "unexchanged code before_exchange"
    "exchanges code r" "undisturbed tok after_exchange" "undisturbed code after_exchange" "exchanges code r'"
  shows "let (redirect, st1) = idp_serve x0 code (Authorize uri state hint) st;
             (answer1, st2) = idp_serve x1 tok r (idp_run before_exchange st1);
             st3 = idp_run after_exchange st2;
             (answer2, st4) = idp_serve x2 tok' r' st3
         in redirect = Redirect (uri @ ''?'' @ urlencode [(''code'', code), (''state'', state)])
            \<and> (\<exists>kvs. answer1 = Answered 200 (JObj kvs) \<and> dget kvs ''access_token'' = Some (JStr tok))
            \<and> profile_for_bearer (Some (''token '' @ tok)) st3 = Some p
            \<and> (\<exists>j. answer2 = Answered 400 j) \<and> ip_tokens st4 = ip_tokens st3"
proof -
  let ?st1 = "snd (idp_serve x0 code (Authorize uri state hint) st)"
  let ?run = "idp_run before_exchange ?st1"
  let ?st2 = "snd (idp_serve x1 tok r ?run)"
  let ?st3 = "idp_run after_exchange ?st2"
  have "dget (ip_codes ?st1) code = Some p" using assms(1) by (simp add: idp_defs)
  with run_code_stands [OF assms(2,3)] have c: "dget (ip_codes ?run) code = Some p" by simp
  note e = exchange_spends [OF assms(4) c, of x1 tok]
  have "dget (ip_codes ?st3) code = None" using run_code_spent [OF assms(6) e(1)] by simp
  note again = exchange_of_spent_code [OF assms(7) this, of x2 tok']
  have "profile_for_bearer (Some (''token '' @ tok)) ?st3 = Some p"
    using run_token_stands [OF assms(5)] e(2) by (simp add: profile_for_bearer_def profile_for_access_token_def starts_with_def)
  moreover have "fst (idp_serve x0 code (Authorize uri state hint) st) = Redirect (uri @ ''?'' @ urlencode [(''code'', code), (''state'', state)])"
    using assms(1) by (simp add: idp_defs)
  ultimately show ?thesis using e(3) again by (simp add: split_beta Let_def)
qed

theorem login_code_answers_once_witness:
  "profile_for_bearer (Some ''token t'')
     (idp_run [(\<lparr>io_base = ''http://i/'', io_now = 0, io_jwk = [], io_sign = (\<lambda>_. ''sig'')\<rparr>, ''d'', AccessToken ''c'')]
       (snd (idp_serve \<lparr>io_base = ''http://i/'', io_now = 0, io_jwk = [], io_sign = (\<lambda>_. ''sig'')\<rparr> ''t'' (OidcToken ''c'' ''app'')
         (snd (idp_serve \<lparr>io_base = ''http://i/'', io_now = 0, io_jwk = [], io_sign = (\<lambda>_. ''sig'')\<rparr> ''c'' (Authorize ''u'' ''s'' None) idp_start)))))
   = Some DEFAULT_PROFILE"
proof -
  let ?x = "\<lparr>io_base = ''http://i/'', io_now = 0, io_jwk = [], io_sign = (\<lambda>_. ''sig'')\<rparr>"
  have p: "login_profile None idp_start = Some DEFAULT_PROFILE" by (simp add: login_profile_def idp_start_def)
  have u: "undisturbed ''c'' []" "unexchanged ''c'' []" "exchanges ''c'' (OidcToken ''c'' ''app'')"
    "undisturbed ''t'' [(?x, ''d'', AccessToken ''c'')]" "undisturbed ''c'' [(?x, ''d'', AccessToken ''c'')]" "exchanges ''c'' (AccessToken ''c'')"
    by (simp_all add: undisturbed_def unexchanged_def)
  show ?thesis
    using login_code_answers_once [OF p u, where ?x0.0 = ?x and ?x1.0 = ?x and ?x2.0 = ?x and uri = "''u''" and state = "''s''" and tok' = "''n''"]
    by (simp add: split_beta Let_def del: idp_serve.simps idp_run.simps) simp
qed

end
