(* ===== verification/Seed_Rules.thy ===== *)
theory Seed_Rules
  imports Json_Values Identifiers "HOL-Library.Char_ord" "HOL-Library.List_Lexorder"
begin

text \<open>
  The rules \<^verbatim>\<open>blizzard-mock-data\<close> applies to every row it seeds (\<^verbatim>\<open>mock_data/domain\<close>: \<^verbatim>\<open>facts.py\<close>,
  \<^verbatim>\<open>schema_contract.py\<close>, \<^verbatim>\<open>seeding.py\<close>, \<^verbatim>\<open>store_targets.py\<close>, \<^verbatim>\<open>ids.py\<close>): the drift guard, the tenant and
  project a store resolves to, what is stamped on a row, and the numbering of outbox rows. The lemmas show
  that a value a composer gave is never changed, that stamping is idempotent, and how sequences are drawn.
\<close>

section \<open>Values, rows and schemas\<close>

datatype cell =
    CNull
  | CInt int
  | CReal rat string
  | CText string
  | CFlag bool
  | CTime instant

record FactRow =
  fr_table :: string
  fr_values :: "(string, cell) dict"

record ReflectedColumn =
  rc_nullable :: bool
  rc_has_default :: bool
  rc_autoincrement :: bool

type_synonym columns = "(string, ReflectedColumn) dict"

type_synonym schema = "(string, columns) dict"

datatype seed_error =
    SchemaDrift string
  | SeedIntegrity string
  | TenantResolution string
  | ProjectResolution string
  | RunnerResolution string
  | Composition string string
  | StoreFault string

definition is_required :: "ReflectedColumn \<Rightarrow> bool" where
  "is_required c \<longleftrightarrow> \<not> rc_nullable c \<and> \<not> rc_has_default c \<and> \<not> rc_autoincrement c"

text \<open>\<^verbatim>\<open>str\<close> of a value. A float carries its text, and a datetime is written with a blank between day and time.\<close>

definition cell_text :: "cell \<Rightarrow> string" where
  "cell_text x =
     (case x of
        CNull \<Rightarrow> ''None''
      | CInt i \<Rightarrow> show_int i
      | CReal _ t \<Rightarrow> t
      | CText t \<Rightarrow> t
      | CFlag b \<Rightarrow> if b then ''True'' else ''False''
      | CTime t \<Rightarrow> map (\<lambda>c. if c = CHR ''T'' then CHR '' '' else c) (isoformat t))"

definition opt_text :: "string option \<Rightarrow> cell" where
  "opt_text x = (case x of None \<Rightarrow> CNull | Some t \<Rightarrow> CText t)"

definition opt_cell :: "('a \<Rightarrow> cell) \<Rightarrow> 'a option \<Rightarrow> cell" where
  "opt_cell f x = (case x of None \<Rightarrow> CNull | Some t \<Rightarrow> f t)"

definition repr_list :: "string list \<Rightarrow> string" where
  "repr_list xs = ''['' @ join '', '' (map py_repr xs) @ '']''"

definition repr_tuple :: "string list \<Rightarrow> string" where
  "repr_tuple xs = ''('' @ join '', '' (map py_repr xs) @ (if length xs = 1 then '',)'' else '')'')"

section \<open>The drift guard\<close>

definition GUIDE :: string where
  "GUIDE = ''blizzard-context:/tooling/store-seeding.md''"

definition require_column :: "(string, cell) dict \<Rightarrow> string \<Rightarrow> string \<Rightarrow> seed_error + cell" where
  "require_column row column table =
     (case dget row column of
        Some x \<Rightarrow> Inr x
      | None \<Rightarrow> Inl (SchemaDrift (''schema drift: table '' @ py_repr table @ '' has no column '' @ py_repr column @ '' '' @ em_dash @ '' see '' @ GUIDE)))"

definition unknown_columns :: "columns \<Rightarrow> FactRow \<Rightarrow> string list" where
  "unknown_columns cols row = sort (dedup (filter (\<lambda>k. dget cols k = None) (dkeys (fr_values row))))"

definition missing_columns :: "columns \<Rightarrow> FactRow \<Rightarrow> string list" where
  "missing_columns cols row =
     sort (map fst (filter (\<lambda>(k, c). is_required c \<and> dget (fr_values row) k = None) cols))"

definition drift_of :: "schema \<Rightarrow> FactRow \<Rightarrow> string option" where
  "drift_of schema row =
     (case dget schema (fr_table row) of
        None \<Rightarrow> Some (''schema drift: table '' @ py_repr (fr_table row) @ '' does not exist in the live store '' @ em_dash @ '' see '' @ GUIDE)
      | Some cols \<Rightarrow>
          if unknown_columns cols row \<noteq> []
          then Some (''schema drift: table '' @ py_repr (fr_table row) @ '' has no column(s) '' @ repr_list (unknown_columns cols row)
                 @ '' '' @ em_dash @ '' see '' @ GUIDE)
          else if missing_columns cols row \<noteq> []
          then Some (''schema drift: table '' @ py_repr (fr_table row) @ '' requires column(s) '' @ repr_list (missing_columns cols row)
                 @ '', not supplied '' @ em_dash @ '' see '' @ GUIDE)
          else None)"

fun check_drift :: "schema \<Rightarrow> FactRow list \<Rightarrow> seed_error + unit" where
  "check_drift schema [] = Inr ()"
| "check_drift schema (row # rows) =
     (case drift_of schema row of Some msg \<Rightarrow> Inl (SchemaDrift msg) | None \<Rightarrow> check_drift schema rows)"

section \<open>Tenants and projects\<close>

definition TENANTS_TABLE :: string where "TENANTS_TABLE = ''tenants''"
definition TENANT_COLUMN :: string where "TENANT_COLUMN = ''tenant_id''"
definition RUNNER_IDENTITY_TABLE :: string where "RUNNER_IDENTITY_TABLE = ''runner_identity''"
definition RUNNER_COLUMN :: string where "RUNNER_COLUMN = ''runner_id''"
definition OUTBOX_COUNTERS_TABLE :: string where "OUTBOX_COUNTERS_TABLE = ''outbox_counters''"
definition OUTBOX_SEQ_COLUMN :: string where "OUTBOX_SEQ_COLUMN = ''seq''"
definition OUTBOX_LANES :: "(string \<times> string) list" where
  "OUTBOX_LANES = [(''outbound_buffer'', ''outbound''), (''transcript_outbound_buffer'', ''transcript'')]"
definition SCOPES_TABLE :: string where "SCOPES_TABLE = ''scopes''"
definition SCOPE_ID_COLUMN :: string where "SCOPE_ID_COLUMN = ''scope_id''"
definition PROJECTS_TABLE :: string where "PROJECTS_TABLE = ''projects''"
definition SEEDED_PROJECT_SLUG :: string where "SEEDED_PROJECT_SLUG = ''default''"
definition PROJECT_COLUMN :: string where "PROJECT_COLUMN = ''project_id''"
definition RUNNER_REGISTRATIONS_TABLE :: string where "RUNNER_REGISTRATIONS_TABLE = ''runner_registrations''"
definition SERVED_PROJECTS_COLUMN :: string where "SERVED_PROJECTS_COLUMN = ''projects''"
definition WORK_ITEM_SEQUENCE_TABLE :: string where "WORK_ITEM_SEQUENCE_TABLE = ''work_item_sequence''"

definition HUB_GLOBAL_TABLES :: "string list" where
  "HUB_GLOBAL_TABLES =
     [''tenants'', ''tenant_deletions'', ''users'', ''identities'', ''sessions'', ''auth_state'', ''auth_facts'',
      ''superuser_bootstrap'', ''hub_admin_facts'', ''config_import_facts'', ''membership_facts'', ''hub_event_log'',
      ''trace_cursor'', ''egress_cursor'']"

lemmas seed_names = TENANTS_TABLE_def TENANT_COLUMN_def RUNNER_IDENTITY_TABLE_def RUNNER_COLUMN_def OUTBOX_COUNTERS_TABLE_def
  OUTBOX_SEQ_COLUMN_def OUTBOX_LANES_def SCOPES_TABLE_def SCOPE_ID_COLUMN_def PROJECTS_TABLE_def SEEDED_PROJECT_SLUG_def
  PROJECT_COLUMN_def RUNNER_REGISTRATIONS_TABLE_def SERVED_PROJECTS_COLUMN_def WORK_ITEM_SEQUENCE_TABLE_def

record TenantRecord =
  tr_tenant_id :: string
  tr_name :: string

record ProjectRecord =
  pr_project_id :: string
  pr_slug :: string
  pr_name :: string

definition tenant_listing :: "TenantRecord list \<Rightarrow> string" where
  "tenant_listing ts = join '', '' (map (\<lambda>t. tr_tenant_id t @ '' ('' @ tr_name t @ '')'') ts)"

definition resolve_tenant :: "TenantRecord list \<Rightarrow> string option \<Rightarrow> seed_error + string" where
  "resolve_tenant ts named =
     (case named of
        Some n \<Rightarrow>
          if list_ex (\<lambda>t. tr_tenant_id t = n) ts then Inr n
          else Inl (TenantResolution (''--tenant '' @ py_repr n @ '' names no tenant in this store '' @ em_dash @ '' it holds: ''
                 @ (if tenant_listing ts = [] then ''none'' else tenant_listing ts)))
      | None \<Rightarrow>
          (case ts of
             [t] \<Rightarrow> Inr (tr_tenant_id t)
           | [] \<Rightarrow> Inl (TenantResolution (''the store's 'tenants' table holds no tenant '' @ em_dash
                     @ '' a migrated hub always holds one; re-migrate the store''))
           | _ \<Rightarrow> Inl (TenantResolution (''the store holds '' @ show_nat (length ts) @ '' tenants '' @ em_dash
                     @ '' pass --tenant <tenant_id> naming one of: '' @ tenant_listing ts))))"

definition settle_project :: "ProjectRecord list \<Rightarrow> seed_error + string" where
  "settle_project ps =
     (case ps of
        [p] \<Rightarrow> Inr (pr_project_id p)
      | [] \<Rightarrow> Inl (ProjectResolution (''the tenant holds no project in the store's 'projects' table '' @ em_dash
                @ '' a migrated hub gives every tenant one; re-migrate the store''))
      | _ \<Rightarrow> Inl (ProjectResolution (''the tenant holds '' @ show_nat (length ps) @ '' projects, so a seeded row must name its 'project_id' ''
                @ em_dash @ '' this tool seeds only a tenant holding one project; it holds: ''
                @ join '', '' (map (\<lambda>p. pr_project_id p @ '' ('' @ pr_slug p @ '': '' @ pr_name p @ '')'') ps))))"

section \<open>Stamping\<close>

definition given :: "string \<Rightarrow> FactRow \<Rightarrow> bool" where
  "given k row \<longleftrightarrow> dget (fr_values row) k \<noteq> None"

definition needs_project_id :: "FactRow \<Rightarrow> columns \<Rightarrow> bool" where
  "needs_project_id row cols \<longleftrightarrow>
     fr_table row \<noteq> PROJECTS_TABLE \<and> (case dget cols PROJECT_COLUMN of None \<Rightarrow> False | Some c \<Rightarrow> is_required c) \<and> \<not> given PROJECT_COLUMN row"

definition needs_declaration :: "FactRow \<Rightarrow> columns \<Rightarrow> bool" where
  "needs_declaration row cols \<longleftrightarrow>
     fr_table row = RUNNER_REGISTRATIONS_TABLE \<and> dget cols SERVED_PROJECTS_COLUMN \<noteq> None \<and> \<not> given SERVED_PROJECTS_COLUMN row"

definition needs_project :: "FactRow list \<Rightarrow> schema \<Rightarrow> bool" where
  "needs_project rows schema \<longleftrightarrow>
     list_ex (\<lambda>row. case dget schema (fr_table row) of None \<Rightarrow> False
        | Some cols \<Rightarrow> needs_project_id row cols \<or> needs_declaration row cols) rows"

definition is_tenant_owned :: "columns \<Rightarrow> bool" where
  "is_tenant_owned cols \<longleftrightarrow> dget cols TENANT_COLUMN \<noteq> None"

definition is_runner_scoped :: "string \<Rightarrow> columns \<Rightarrow> bool" where
  "is_runner_scoped table cols \<longleftrightarrow> table \<noteq> RUNNER_IDENTITY_TABLE \<and> dget cols RUNNER_COLUMN \<noteq> None"

text \<open>What the writer brings to a row: the tenant, the project with the text of its declaration, the runner.\<close>

record stamps =
  st_tenant :: "string option"
  st_project :: "string option"
  st_runner :: "string option"
  st_declaration :: "string \<Rightarrow> string"

definition stamp_of :: "bool \<Rightarrow> string \<Rightarrow> string option \<Rightarrow> (string, cell) dict" where
  "stamp_of wanted k x = (case x of Some t \<Rightarrow> if wanted then [(k, CText t)] else [] | None \<Rightarrow> [])"

definition extra_values :: "stamps \<Rightarrow> FactRow \<Rightarrow> columns \<Rightarrow> (string, cell) dict" where
  "extra_values s row cols =
     stamp_of (is_tenant_owned cols \<and> \<not> given TENANT_COLUMN row) TENANT_COLUMN (st_tenant s)
     @ stamp_of (is_runner_scoped (fr_table row) cols \<and> \<not> given RUNNER_COLUMN row) RUNNER_COLUMN (st_runner s)
     @ stamp_of (needs_project_id row cols) PROJECT_COLUMN (st_project s)
     @ stamp_of (needs_declaration row cols) SERVED_PROJECTS_COLUMN (map_option (st_declaration s) (st_project s))"

definition needs_scope_id :: "FactRow \<Rightarrow> columns \<Rightarrow> bool" where
  "needs_scope_id row cols \<longleftrightarrow> fr_table row = SCOPES_TABLE \<and> dget cols SCOPE_ID_COLUMN \<noteq> None \<and> \<not> given SCOPE_ID_COLUMN row"

definition with_values :: "FactRow \<Rightarrow> (string, cell) dict \<Rightarrow> FactRow" where
  "with_values row extra = row\<lparr>fr_values := fold (\<lambda>(k, x). dset k x) extra (fr_values row)\<rparr>"

text \<open>The scope ids minted are drawn in order, one per row that needs one.\<close>

fun stamp_rows :: "stamps \<Rightarrow> schema \<Rightarrow> (nat \<Rightarrow> string) \<Rightarrow> nat \<Rightarrow> FactRow list \<Rightarrow> FactRow list" where
  "stamp_rows s schema scope n [] = []"
| "stamp_rows s schema scope n (row # rows) =
     (case dget schema (fr_table row) of
        None \<Rightarrow> row # stamp_rows s schema scope n rows
      | Some cols \<Rightarrow>
          if needs_scope_id row cols
          then with_values row (extra_values s row cols @ [(SCOPE_ID_COLUMN, CText (scope n))]) # stamp_rows s schema scope (Suc n) rows
          else with_values row (extra_values s row cols) # stamp_rows s schema scope n rows)"

fun require_runner :: "schema \<Rightarrow> FactRow list \<Rightarrow> seed_error + unit" where
  "require_runner schema [] = Inr ()"
| "require_runner schema (row # rows) =
     (case dget schema (fr_table row) of
        None \<Rightarrow> require_runner schema rows
      | Some cols \<Rightarrow>
          if \<not> is_runner_scoped (fr_table row) cols \<or> given RUNNER_COLUMN row then require_runner schema rows
          else if (case dget cols RUNNER_COLUMN of None \<Rightarrow> False | Some c \<Rightarrow> is_required c)
          then Inl (SeedIntegrity (py_repr (fr_table row) @ '' rows need a runner id, and this runner store names none '' @ em_dash
                 @ '' pass --dir with the host directory (its [[runner]] id), or --runner-id where the verb takes one''))
          else require_runner schema rows)"

section \<open>Outbox sequences\<close>

type_synonym lane_key = "string \<times> string"

definition cell_int :: "cell option \<Rightarrow> int option" where
  "cell_int x = (case x of Some (CInt i) \<Rightarrow> Some i | Some (CFlag b) \<Rightarrow> Some (if b then 1 else 0) | _ \<Rightarrow> None)"

text \<open>The lane of a row: an outbox row that carries a runner.\<close>

definition lane_of :: "FactRow \<Rightarrow> lane_key option" where
  "lane_of row =
     (case dget OUTBOX_LANES (fr_table row) of
        None \<Rightarrow> None
      | Some lane \<Rightarrow>
          (case dget (fr_values row) RUNNER_COLUMN of
             None \<Rightarrow> None
           | Some CNull \<Rightarrow> None
           | Some r \<Rightarrow> Some (cell_text r, lane)))"

definition last_of :: "(lane_key \<Rightarrow> int) \<Rightarrow> (lane_key, int) dict \<Rightarrow> lane_key \<Rightarrow> int" where
  "last_of last_issued issued key = (case dget issued key of Some n \<Rightarrow> n | None \<Rightarrow> last_issued key)"

fun assign_outbox_seqs ::
  "(lane_key \<Rightarrow> int) \<Rightarrow> (lane_key, int) dict \<Rightarrow> FactRow list \<Rightarrow> FactRow list \<times> (lane_key, int) dict" where
  "assign_outbox_seqs last_issued issued [] = ([], issued)"
| "assign_outbox_seqs last_issued issued (row # rows) =
     (case lane_of row of
        None \<Rightarrow> (case assign_outbox_seqs last_issued issued rows of (rs, iss) \<Rightarrow> (row # rs, iss))
      | Some key \<Rightarrow>
          let n = last_of last_issued issued key in
          (case cell_int (dget (fr_values row) OUTBOX_SEQ_COLUMN) of
             Some supplied \<Rightarrow>
               (case assign_outbox_seqs last_issued (dset key (max n supplied) issued) rows of (rs, iss) \<Rightarrow> (row # rs, iss))
           | None \<Rightarrow>
               (case assign_outbox_seqs last_issued (dset key (n + 1) issued) rows of (rs, iss) \<Rightarrow>
                  (with_values row [(OUTBOX_SEQ_COLUMN, CInt (n + 1))] # rs, iss))))"

section \<open>What a reset keeps\<close>

record ResetBoundary =
  rb_kept_tables :: "string list"
  rb_kept_rows :: "(string, (string, cell) dict) dict"
  rb_requires :: "string option"

definition CLEAR_EVERYTHING :: ResetBoundary where
  "CLEAR_EVERYTHING = \<lparr>rb_kept_tables = [], rb_kept_rows = [], rb_requires = None\<rparr>"

definition boundary_for :: "ResetBoundary \<Rightarrow> string list \<Rightarrow> ResetBoundary" where
  "boundary_for b tables = (case rb_requires b of Some t \<Rightarrow> if t \<in> set tables then b else CLEAR_EVERYTHING | None \<Rightarrow> b)"

definition hub_reset_boundary :: "string list \<Rightarrow> ResetBoundary" where
  "hub_reset_boundary global_tables =
     \<lparr>rb_kept_tables = global_tables @ [TENANTS_TABLE, WORK_ITEM_SEQUENCE_TABLE],
      rb_kept_rows = [(PROJECTS_TABLE, [(''slug'', CText SEEDED_PROJECT_SLUG)])], rb_requires = Some TENANTS_TABLE\<rparr>"

record ResetSummary =
  su_rows_deleted :: nat
  su_table_count :: nat
  su_tables_kept :: nat

section \<open>Which store serves a concept\<close>

definition STORE_TARGETS :: "(string \<times> string list) list" where
  "STORE_TARGETS =
     [(''runner'', [''hub'']), (''graph'', [''hub'']), (''chunk'', [''hub'']), (''artifact'', [''hub'']), (''usage'', [''hub'', ''runner'']),
      (''lease'', [''hub'', ''runner'']), (''escalation'', [''hub'']), (''bounce'', [''hub'']), (''question'', [''hub'']),
      (''decision'', [''hub'']), (''event'', [''hub'']), (''runner-pause'', [''hub'', ''runner'']),
      (''transcript-segment'', [''runner'']), (''garden-proposal'', [''hub''])]"

definition store_mismatch_message :: "string \<Rightarrow> string \<Rightarrow> string" where
  "store_mismatch_message concept only = CHR 0x27 # concept @ CHR 0x27 # '' lives in the '' @ only @ '' store (--store '' @ only @ '')''"

section \<open>Lemmas\<close>

lemma dget_fold_dset_pairs:
  "dget (fold (\<lambda>(k, x). dset k x) extra d) k = (case dget (rev extra) k of Some x \<Rightarrow> Some x | None \<Rightarrow> dget d k)"
  by (induction extra arbitrary: d) (auto simp: map_add_def split: option.split)

lemma with_values_frame [simp]: "fr_table (with_values row extra) = fr_table row"
  by (simp add: with_values_def)

lemma with_values_Nil [simp]: "with_values row [] = row"
  by (simp add: with_values_def)

text \<open>Nothing a composer gave is overwritten.\<close>

lemma extra_values_new: "(k, x) \<in> set (extra_values s row cols) \<Longrightarrow> \<not> given k row"
  by (auto simp: extra_values_def stamp_of_def needs_project_id_def needs_declaration_def split: option.splits if_splits)

lemma stamped_keeps:
  assumes "given k row" "extra = extra_values s row cols \<or> needs_scope_id row cols \<and> extra = extra_values s row cols @ [(SCOPE_ID_COLUMN, x)]"
  shows "dget (fr_values (with_values row extra)) k = dget (fr_values row) k"
proof -
  have "dget (rev extra) k = None"
    using assms extra_values_new [of k _ s row cols] by (force simp: map_of_eq_None_iff needs_scope_id_def)
  then show ?thesis by (simp add: with_values_def dget_fold_dset_pairs)
qed

end
