(* ===== verification/Seed_Graph.thy ===== *)
theory Seed_Graph
  imports Seed_Rules
begin

text \<open>
  What \<^verbatim>\<open>blizzard-mock-data\<close> composes for a chunk and the graph it stands on (\<^verbatim>\<open>mock_data/domain/hub\<close>:
  \<^verbatim>\<open>graph_seed.py\<close>, \<^verbatim>\<open>chunk_seed.py\<close>, \<^verbatim>\<open>lease_seed.py\<close>). A composer is a function of the observations it makes, in
  order: each minted id and each reading of the clock is the next one. It refuses with a \<open>seed_error\<close> or gives
  the rows to write. Offsets in seconds are instants in microseconds.
\<close>

section \<open>Observations\<close>

record seeding =
  sd_now :: "nat \<Rightarrow> instant"
  sd_bits :: "nat \<Rightarrow> int"
  sd_pick :: "nat \<Rightarrow> nat"
  sd_dumps :: "json \<Rightarrow> string"
  sd_loads :: "string \<Rightarrow> string + json"

type_synonym 'a seed = "nat \<Rightarrow> seed_error + 'a \<times> nat"

definition sret :: "'a \<Rightarrow> 'a seed" where
  "sret x n = Inr (x, n)"

definition sfail :: "seed_error \<Rightarrow> 'a seed" where
  "sfail e n = Inl e"

definition sbind :: "'a seed \<Rightarrow> ('a \<Rightarrow> 'b seed) \<Rightarrow> 'b seed" where
  "sbind m k n = (case m n of Inl e \<Rightarrow> Inl e | Inr (x, n1) \<Rightarrow> k x n1)"

definition scheck :: "seed_error + 'a \<Rightarrow> 'a seed" where
  "scheck r n = (case r of Inl e \<Rightarrow> Inl e | Inr x \<Rightarrow> Inr (x, n))"

definition smint :: "seeding \<Rightarrow> string \<Rightarrow> string seed" where
  "smint v p n = Inr (mint p (sd_now v n div 1000) (sd_bits v n), Suc n)"

definition snow :: "seeding \<Rightarrow> instant seed" where
  "snow v n = Inr (sd_now v n, Suc n)"

fun sfor :: "('a \<Rightarrow> 'b seed) \<Rightarrow> 'a list \<Rightarrow> 'b list seed" where
  "sfor f [] = sret []"
| "sfor f (x # xs) = sbind (f x) (\<lambda>y. sbind (sfor f xs) (\<lambda>ys. sret (y # ys)))"

lemma sret_apply [simp]: "sret x n = Inr (x, n)"
  by (simp add: sret_def)

lemma sfail_apply [simp]: "sfail e n = Inl e"
  by (simp add: sfail_def)

lemma scheck_apply [simp]: "scheck (Inr x) n = Inr (x, n)" "scheck (Inl e) n = Inl e"
  by (simp_all add: scheck_def)

lemma sbind_Inl [simp]: "m n = Inl e \<Longrightarrow> sbind m k n = Inl e"
  by (simp add: sbind_def)

lemma sbind_Inr [simp]: "m n = Inr (x, n1) \<Longrightarrow> sbind m k n = k x n1"
  by (simp add: sbind_def)

lemma sbind_ok: "sbind m k n = Inr r \<longleftrightarrow> (\<exists>x n1. m n = Inr (x, n1) \<and> k x n1 = Inr r)"
  by (auto simp: sbind_def split: sum.splits)

lemma smint_apply [simp]: "sbind (smint v p) k n = k (mint p (sd_now v n div 1000) (sd_bits v n)) (Suc n)"
  by (simp add: smint_def)

lemma snow_apply [simp]: "sbind (snow v) k n = k (sd_now v n) (Suc n)"
  by (simp add: snow_def)

definition later :: "int \<Rightarrow> instant \<Rightarrow> instant" where
  "later seconds t = t + seconds * 1000000"

definition composed :: "string \<Rightarrow> (string, cell) dict \<Rightarrow> FactRow" where
  "composed table kvs = \<lparr>fr_table = table, fr_values = kvs\<rparr>"

lemma composed_sel [simp]: "fr_table (composed t kvs) = t" "fr_values (composed t kvs) = kvs"
  by (simp_all add: composed_def)

definition seed_refused :: "string \<Rightarrow> string \<Rightarrow> 'a seed" where
  "seed_refused kind msg = sfail (Composition kind msg)"

lemma refused_apply [simp]: "seed_refused kind msg n = Inl (Composition kind msg)"
  by (simp add: seed_refused_def)

section \<open>The graph\<close>

definition SEED_RUNNER_ID :: string where "SEED_RUNNER_ID = ''rn_01HK153X00KN8V0ED48ZHQNMA9''"
definition DEFAULT_GRAPH_NAME :: string where "DEFAULT_GRAPH_NAME = ''mock-data-synthetic-graph''"
definition BUILD_NODE_NAME :: string where "BUILD_NODE_NAME = ''build''"
definition DELIVER_NODE_NAME :: string where "DELIVER_NODE_NAME = ''deliver''"
definition RESERVED_TERMINAL :: string where "RESERVED_TERMINAL = ''done''"
definition LAND_ACTION :: string where "LAND_ACTION = ''land''"
definition ACTION_COLUMN :: string where "ACTION_COLUMN = ''action''"

definition BACK_TO_BUILD_CHOICES :: "(string \<times> string) list" where
  "BACK_TO_BUILD_CHOICES =
     [(''conflict'', ''Delivery conflicted, back to build.''), (''failure'', ''Delivery failed, back to build.''),
      (''inherited-failure'', ''An inherited delivery failed, back to build.'')]"

record NodeRef =
  nr_node_id :: string
  nr_executor :: string

record GraphContext =
  gc_graph_id :: string
  gc_entry_node_id :: string
  gc_nodes :: "(string, NodeRef) dict"

record MintedGraph =
  mg_context :: GraphContext
  mg_rows :: "FactRow list"

definition graph_node :: "GraphContext \<Rightarrow> string \<Rightarrow> seed_error + NodeRef" where
  "graph_node g name =
     (case dget (gc_nodes g) name of
        Some r \<Rightarrow> Inr r
      | None \<Rightarrow> Inl (Composition ''graph'' (''graph '' @ py_repr (gc_graph_id g) @ '' has no node named '' @ py_repr name @ '' '' @ em_dash
             @ '' known nodes: '' @ repr_list (sort (dkeys (gc_nodes g))))))"

definition NL :: string where "NL = [CHR 10]"

definition definition_yaml :: "string \<Rightarrow> bool \<Rightarrow> string" where
  "definition_yaml name has_action =
     ''# minted by blizzard-mock-data create graph '' @ em_dash @ '' audit-only text, see graph_seed.py'' @ NL
     @ ''name: '' @ name @ NL @ ''entry: '' @ BUILD_NODE_NAME @ NL @ ''nodes:'' @ NL
     @ ''  '' @ BUILD_NODE_NAME @ '':'' @ NL @ ''    executor: runner'' @ NL @ ''    judgement:'' @ NL @ ''      choices:'' @ NL
     @ ''        approved:'' @ NL @ ''          description: Work approved, proceed to delivery.'' @ NL
     @ ''          to: '' @ DELIVER_NODE_NAME @ NL
     @ ''  '' @ DELIVER_NODE_NAME @ '':'' @ NL @ ''    executor: hub'' @ NL
     @ (if has_action then ''    action: '' @ LAND_ACTION @ NL else '''') @ ''    judgement:'' @ NL
     @ ''      choices:'' @ NL @ ''        landed:'' @ NL @ ''          description: Delivered.'' @ NL
     @ ''          to: '' @ RESERVED_TERMINAL @ NL
     @ concat (map (\<lambda>(choice, description). ''        '' @ choice @ '':'' @ NL @ ''          description: '' @ description @ NL
         @ ''          to: '' @ BUILD_NODE_NAME @ NL) BACK_TO_BUILD_CHOICES)"

definition graph_node_row :: "string \<Rightarrow> string \<Rightarrow> string \<Rightarrow> string \<Rightarrow> string \<Rightarrow> FactRow" where
  "graph_node_row node_id graph_id name executor session =
     composed ''graph_nodes''
       [(''node_id'', CText node_id), (''graph_id'', CText graph_id), (''name'', CText name), (''executor'', CText executor),
        (''session'', CText session), (''judged_by'', CText ''worker'')]"

definition deliver_row :: "string \<Rightarrow> string \<Rightarrow> bool \<Rightarrow> FactRow" where
  "deliver_row node_id graph_id has_action =
     (let row = graph_node_row node_id graph_id DELIVER_NODE_NAME ''hub'' ''resume'' in
      if has_action then with_values row [(ACTION_COLUMN, CText LAND_ACTION), (''action_args'', CNull)] else row)"

definition choice_row :: "string \<Rightarrow> string \<Rightarrow> string \<Rightarrow> string \<Rightarrow> FactRow" where
  "choice_row choice_id node_id name description =
     composed ''graph_choices''
       [(''choice_id'', CText choice_id), (''node_id'', CText node_id), (''name'', CText name), (''description'', CText description)]"

definition edge_row :: "string \<Rightarrow> string \<Rightarrow> string \<Rightarrow> FactRow" where
  "edge_row from_id choice_id to_name =
     composed ''graph_edges''
       [(''edge_id'', CText (from_id @ '':'' @ choice_id)), (''from_node_id'', CText from_id), (''choice_id'', CText choice_id),
        (''to_node_name'', CText to_name)]"

definition minted_context :: "string \<Rightarrow> string \<Rightarrow> string \<Rightarrow> GraphContext" where
  "minted_context graph_id build_id deliver_id =
     \<lparr>gc_graph_id = graph_id, gc_entry_node_id = build_id,
      gc_nodes = [(BUILD_NODE_NAME, \<lparr>nr_node_id = build_id, nr_executor = ''runner''\<rparr>),
                  (DELIVER_NODE_NAME, \<lparr>nr_node_id = deliver_id, nr_executor = ''hub''\<rparr>)]\<rparr>"

definition minted_rows ::
  "string \<Rightarrow> bool \<Rightarrow> string \<Rightarrow> string \<Rightarrow> string \<Rightarrow> string \<Rightarrow> string \<Rightarrow> string list \<Rightarrow> instant \<Rightarrow> FactRow list" where
  "minted_rows name has_action graph_id build_id deliver_id approved_id landed_id back_ids now =
     [composed ''graphs''
        [(''graph_id'', CText graph_id), (''name'', CText name), (''entry_node_id'', CText build_id),
         (''definition_yaml'', CText (definition_yaml name has_action)), (''created_at'', CTime now)],
      graph_node_row build_id graph_id BUILD_NODE_NAME ''runner'' ''fresh'',
      deliver_row deliver_id graph_id has_action,
      choice_row approved_id build_id ''approved'' ''Work approved, proceed to delivery.'',
      choice_row landed_id deliver_id ''landed'' ''Delivered.'']
     @ map (\<lambda>(choice_id, choice, description). choice_row choice_id deliver_id choice description) (zip back_ids BACK_TO_BUILD_CHOICES)
     @ [edge_row build_id approved_id DELIVER_NODE_NAME, edge_row deliver_id landed_id RESERVED_TERMINAL]
     @ map (\<lambda>choice_id. edge_row deliver_id choice_id BUILD_NODE_NAME) back_ids"

definition compose_graph :: "seeding \<Rightarrow> string \<Rightarrow> bool \<Rightarrow> MintedGraph seed" where
  "compose_graph v name has_action =
     sbind (smint v ''gr'') (\<lambda>graph_id. sbind (smint v ''nd'') (\<lambda>build_id. sbind (smint v ''nd'') (\<lambda>deliver_id.
     sbind (smint v ''cho'') (\<lambda>approved_id. sbind (smint v ''cho'') (\<lambda>landed_id.
     sbind (sfor (\<lambda>_. smint v ''cho'') BACK_TO_BUILD_CHOICES) (\<lambda>back_ids. sbind (snow v) (\<lambda>now.
     sret \<lparr>mg_context = minted_context graph_id build_id deliver_id,
       mg_rows = minted_rows name has_action graph_id build_id deliver_id approved_id landed_id back_ids now\<rparr>)))))))"

text \<open>The read side: a graph rebuilt from its rows in the store.\<close>

definition hydrate_node :: "(string, cell) dict \<Rightarrow> seed_error + string \<times> NodeRef" where
  "hydrate_node row =
     (case (require_column row ''name'' ''graph_nodes'', require_column row ''node_id'' ''graph_nodes'', require_column row ''executor'' ''graph_nodes'') of
        (Inr name, Inr i, Inr e) \<Rightarrow> Inr (cell_text name, \<lparr>nr_node_id = cell_text i, nr_executor = cell_text e\<rparr>)
      | (Inl e, _, _) \<Rightarrow> Inl e
      | (_, Inl e, _) \<Rightarrow> Inl e
      | (_, _, Inl e) \<Rightarrow> Inl e)"

fun hydrate_nodes :: "(string, cell) dict list \<Rightarrow> (string, NodeRef) dict \<Rightarrow> seed_error + (string, NodeRef) dict" where
  "hydrate_nodes [] acc = Inr acc"
| "hydrate_nodes (row # rows) acc =
     (case hydrate_node row of Inl e \<Rightarrow> Inl e | Inr (name, r) \<Rightarrow> hydrate_nodes rows (dset name r acc))"

definition hydrate_graph_context :: "(string, cell) dict \<Rightarrow> (string, cell) dict list \<Rightarrow> seed_error + GraphContext" where
  "hydrate_graph_context graph_row node_rows =
     (case hydrate_nodes node_rows [] of
        Inl e \<Rightarrow> Inl e
      | Inr nodes \<Rightarrow>
          (case (require_column graph_row ''graph_id'' ''graphs'', require_column graph_row ''entry_node_id'' ''graphs'') of
             (Inr g, Inr entry) \<Rightarrow> Inr \<lparr>gc_graph_id = cell_text g, gc_entry_node_id = cell_text entry, gc_nodes = nodes\<rparr>
           | (Inl e, _) \<Rightarrow> Inl e
           | (_, Inl e) \<Rightarrow> Inl e))"

section \<open>Leases\<close>

definition HUB_RUNNER_ID :: string where "HUB_RUNNER_ID = ''hub''"

definition compose_lease_row :: "string \<Rightarrow> int \<Rightarrow> string \<Rightarrow> instant \<Rightarrow> FactRow" where
  "compose_lease_row chunk_id epoch runner_id minted_at =
     composed ''lease_facts''
       [(''chunk_id'', CText chunk_id), (''epoch'', CInt epoch), (''runner_id'', CText runner_id), (''minted_at'', CTime minted_at)]"

definition compose_epoch_owner_row :: "string \<Rightarrow> int \<Rightarrow> string \<Rightarrow> instant \<Rightarrow> FactRow" where
  "compose_epoch_owner_row chunk_id epoch runner_id recorded_at =
     composed ''epoch_owners''
       [(''chunk_id'', CText chunk_id), (''epoch'', CInt epoch),
        (''runner_id'', if runner_id = HUB_RUNNER_ID then CNull else CText runner_id), (''recorded_at'', CTime recorded_at)]"

definition compose_lease_rows :: "string \<Rightarrow> int \<Rightarrow> string \<Rightarrow> instant \<Rightarrow> FactRow list" where
  "compose_lease_rows chunk_id epoch runner_id minted_at =
     [compose_lease_row chunk_id epoch runner_id minted_at, compose_epoch_owner_row chunk_id epoch runner_id minted_at]"

section \<open>The chunk\<close>

definition CHUNK_STATUSES :: "string list" where
  "CHUNK_STATUSES = [''stopped'', ''done'', ''needs_human'', ''waiting_on_human'', ''paused'', ''delivering'', ''running'', ''not_ready'', ''ready'']"

definition MIRRORED_STATUSES :: "string list" where
  "MIRRORED_STATUSES = [''waiting_on_human'', ''needs_human'']"

record chunk_request =
  cp_status :: string
  cp_chunk_id :: "string option"
  cp_node_name :: "string option"
  cp_work_refs :: "(string \<times> string) list"
  cp_runner_id :: string
  cp_epoch :: int
  cp_workspace_id :: string
  cp_mirrored :: bool
  cp_cause :: "string option"
  cp_detail :: "string option"

definition chunk_at :: "string \<Rightarrow> chunk_request" where
  "chunk_at status =
     \<lparr>cp_status = status, cp_chunk_id = None, cp_node_name = None, cp_work_refs = [], cp_runner_id = SEED_RUNNER_ID, cp_epoch = 1,
      cp_workspace_id = ''workspace-seed'', cp_mirrored = False, cp_cause = None, cp_detail = None\<rparr>"

definition chunk_row :: "string \<Rightarrow> string \<Rightarrow> instant \<Rightarrow> FactRow" where
  "chunk_row chunk_id graph_id now =
     composed ''chunks''
       [(''chunk_id'', CText chunk_id), (''graph_id'', CText graph_id), (''minted_at'', CTime now), (''model'', CText ''mock-data-seed''),
        (''default_model'', CNull), (''default_effort'', CNull), (''intended_migration'', CNull)]"

definition work_ref_rows :: "string \<Rightarrow> (string \<times> string) list \<Rightarrow> FactRow list" where
  "work_ref_rows chunk_id refs =
     map (\<lambda>(source, ref). composed ''chunk_work_refs'' [(''chunk_id'', CText chunk_id), (''source'', CText source), (''ref'', CText ref)]) refs"

definition promoted_row :: "string \<Rightarrow> instant \<Rightarrow> FactRow" where
  "promoted_row chunk_id now = composed ''chunk_promoted'' [(''chunk_id'', CText chunk_id), (''promoted_at'', CTime (later 1 now))]"

definition transition_row ::
  "seeding \<Rightarrow> chunk_request \<Rightarrow> GraphContext \<Rightarrow> string \<Rightarrow> instant \<Rightarrow> string option \<Rightarrow> string \<Rightarrow> string option \<Rightarrow> FactRow seed" where
  "transition_row v c g chunk_id recorded_at from_id to_id choice_name =
     sbind (smint v ''tr'') (\<lambda>i. sret (composed ''transitions''
       [(''transition_id'', CText i), (''chunk_id'', CText chunk_id), (''graph_id'', CText (gc_graph_id g)), (''from_node_id'', opt_text from_id),
        (''to_node_id'', CText to_id), (''choice_name'', opt_text choice_name), (''decision_id'', CNull), (''epoch'', CInt (cp_epoch c)),
        (''runner_id'', CText (cp_runner_id c)), (''recorded_at'', CTime recorded_at)]))"

definition route_created_row :: "seeding \<Rightarrow> chunk_request \<Rightarrow> string \<Rightarrow> instant \<Rightarrow> FactRow seed" where
  "route_created_row v c chunk_id created_at =
     sbind (smint v ''route'') (\<lambda>i. sret (composed ''route_created''
       [(''route_id'', CText i), (''chunk_id'', CText chunk_id), (''runner_id'', CText (cp_runner_id c)),
        (''workspace_id'', CText (cp_workspace_id c)), (''created_at'', CTime created_at), (''seq'', CInt 1)]))"

definition resume_command :: "string \<Rightarrow> string" where
  "resume_command chunk_id = ''cd <workdir> && <resume '' @ chunk_id @ ''>''"

definition wrapped_command :: "string \<Rightarrow> string" where
  "wrapped_command chunk_id = ''blizzard runner takeover '' @ chunk_id @ '' --dir <runner-dir>''"

definition escalation_row :: "chunk_request \<Rightarrow> string \<Rightarrow> instant \<Rightarrow> FactRow" where
  "escalation_row c chunk_id recorded_at =
     composed ''escalations''
       [(''chunk_id'', CText chunk_id), (''epoch'', CInt (cp_epoch c)), (''takeover_command'', CText (resume_command chunk_id)),
        (''wrapped_takeover_command'', CText (wrapped_command chunk_id)), (''decision_id'', CNull), (''cause'', opt_text (cp_cause c)),
        (''detail'', opt_text (cp_detail c)), (''recorded_at'', CTime recorded_at)]"

definition question_row :: "seeding \<Rightarrow> chunk_request \<Rightarrow> string \<Rightarrow> string \<Rightarrow> instant \<Rightarrow> FactRow seed" where
  "question_row v c chunk_id node_id asked_at =
     sbind (smint v ''qn'') (\<lambda>i. sret (composed ''questions''
       [(''question_id'', CText i), (''chunk_id'', CText chunk_id), (''node_id'', CText node_id), (''session_id'', CNull),
        (''runner_id'', CText (cp_runner_id c)), (''epoch'', CInt (cp_epoch c)),
        (''question'', CText ''mock-data: which way should this chunk go?''), (''options'', CText ''[]''), (''asked_at'', CTime asked_at)]))"

text \<open>One definition per status: the rows after the chunk's own.\<close>

definition stopped_rows :: "seeding \<Rightarrow> chunk_request \<Rightarrow> GraphContext \<Rightarrow> string \<Rightarrow> instant \<Rightarrow> FactRow list seed" where
  "stopped_rows v c g i now =
     sbind (case cp_node_name c of
              None \<Rightarrow> sret []
            | Some name \<Rightarrow> sbind (scheck (graph_node g name)) (\<lambda>node.
                sbind (transition_row v c g i (later 2 now) None (nr_node_id node) None) (\<lambda>t. sret [t]))) (\<lambda>ts.
     sret ([promoted_row i now] @ ts
       @ [composed ''chunk_stopped'' [(''chunk_id'', CText i), (''stopped_at'', CTime (later 3 now)), (''stopped_by'', CText ''mock-data'')]]))"

definition done_rows :: "seeding \<Rightarrow> chunk_request \<Rightarrow> GraphContext \<Rightarrow> string \<Rightarrow> instant \<Rightarrow> FactRow list seed" where
  "done_rows v c g i now =
     sbind (scheck (graph_node g BUILD_NODE_NAME)) (\<lambda>build. sbind (scheck (graph_node g (str_or (cp_node_name c) DELIVER_NODE_NAME))) (\<lambda>deliver.
     sbind (if nr_node_id deliver \<noteq> nr_node_id build
            then sbind (transition_row v c g i (later 3 now) (Some (nr_node_id build)) (nr_node_id deliver) (Some ''approved'')) (\<lambda>t. sret [t])
            else sret []) (\<lambda>hop.
     sbind (transition_row v c g i (later 4 now) (Some (nr_node_id deliver)) RESERVED_TERMINAL (Some ''landed'')) (\<lambda>landing.
     sret ([promoted_row i now] @ compose_lease_rows i (cp_epoch c) (cp_runner_id c) (later 2 now) @ hop @ [landing])))))"

definition landed_node :: "chunk_request \<Rightarrow> GraphContext \<Rightarrow> string \<Rightarrow> seed_error + NodeRef" where
  "landed_node c g fallback = graph_node g (str_or (cp_node_name c) fallback)"

definition needs_human_rows :: "seeding \<Rightarrow> chunk_request \<Rightarrow> GraphContext \<Rightarrow> string \<Rightarrow> instant \<Rightarrow> FactRow list seed" where
  "needs_human_rows v c g i now =
     sbind (scheck (landed_node c g BUILD_NODE_NAME)) (\<lambda>node.
     sbind (transition_row v c g i (later 2 now) None (nr_node_id node) None) (\<lambda>t.
     sret [promoted_row i now, t, escalation_row c i (later 3 now)]))"

definition waiting_rows :: "seeding \<Rightarrow> chunk_request \<Rightarrow> GraphContext \<Rightarrow> string \<Rightarrow> instant \<Rightarrow> FactRow list seed" where
  "waiting_rows v c g i now =
     sbind (scheck (landed_node c g BUILD_NODE_NAME)) (\<lambda>node.
     sbind (transition_row v c g i (later 2 now) None (nr_node_id node) None) (\<lambda>t.
     sbind (question_row v c i (nr_node_id node) (later 3 now)) (\<lambda>q. sret [promoted_row i now, t, q])))"

definition paused_rows :: "seeding \<Rightarrow> chunk_request \<Rightarrow> GraphContext \<Rightarrow> string \<Rightarrow> instant \<Rightarrow> FactRow list seed" where
  "paused_rows v c g i now =
     sbind (scheck (landed_node c g BUILD_NODE_NAME)) (\<lambda>node.
     sbind (transition_row v c g i (later 2 now) None (nr_node_id node) None) (\<lambda>t.
     sret [promoted_row i now, t, composed ''chunk_pause_facts''
       [(''chunk_id'', CText i), (''paused'', CFlag True), (''set_at'', CTime (later 3 now)), (''set_by'', CText ''mock-data'')]]))"

definition routed_rows :: "seeding \<Rightarrow> chunk_request \<Rightarrow> GraphContext \<Rightarrow> string \<Rightarrow> instant \<Rightarrow> NodeRef \<Rightarrow> FactRow list seed" where
  "routed_rows v c g i now node =
     sbind (route_created_row v c i (later 3 now)) (\<lambda>r.
     sbind (transition_row v c g i (later 4 now) None (nr_node_id node) None) (\<lambda>t.
     sret ([promoted_row i now] @ compose_lease_rows i (cp_epoch c) (cp_runner_id c) (later 2 now) @ [r, t])))"

definition delivering_rows :: "seeding \<Rightarrow> chunk_request \<Rightarrow> GraphContext \<Rightarrow> string \<Rightarrow> instant \<Rightarrow> FactRow list seed" where
  "delivering_rows v c g i now =
     sbind (scheck (landed_node c g DELIVER_NODE_NAME)) (\<lambda>node.
     if nr_executor node \<noteq> ''hub''
     then seed_refused ''chunk'' (''--status delivering requires a hub-executor node; '' @ py_repr (str_or (cp_node_name c) DELIVER_NODE_NAME)
            @ '' is '' @ py_repr (nr_executor node))
     else routed_rows v c g i now node)"

definition running_rows :: "seeding \<Rightarrow> chunk_request \<Rightarrow> GraphContext \<Rightarrow> string \<Rightarrow> instant \<Rightarrow> FactRow list seed" where
  "running_rows v c g i now =
     sbind (scheck (landed_node c g BUILD_NODE_NAME)) (\<lambda>node.
     if nr_executor node = ''hub''
     then seed_refused ''chunk'' (''--status running requires a non-hub node (a hub-node transition derives delivering instead); ''
            @ py_repr (str_or (cp_node_name c) BUILD_NODE_NAME) @ '' is hub-executed'')
     else routed_rows v c g i now node)"

definition refuse_node :: "chunk_request \<Rightarrow> seed_error + unit" where
  "refuse_node c =
     (if cp_node_name c \<noteq> None
      then Inl (Composition ''chunk'' (''--status '' @ cp_status c @ '' mints no transition '' @ em_dash @ '' --node has nothing to land on''))
      else Inr ())"

definition status_rows :: "seeding \<Rightarrow> chunk_request \<Rightarrow> GraphContext \<Rightarrow> string \<Rightarrow> instant \<Rightarrow> FactRow list seed" where
  "status_rows v c g i now =
     (if cp_status c = ''stopped'' then stopped_rows v c g i now
      else if cp_status c = ''done'' then done_rows v c g i now
      else if cp_status c = ''needs_human'' then needs_human_rows v c g i now
      else if cp_status c = ''waiting_on_human'' then waiting_rows v c g i now
      else if cp_status c = ''paused'' then paused_rows v c g i now
      else if cp_status c = ''delivering'' then delivering_rows v c g i now
      else if cp_status c = ''running'' then running_rows v c g i now
      else sbind (scheck (refuse_node c)) (\<lambda>_. sret (if cp_status c = ''ready'' then [promoted_row i now] else [])))"

definition finish_rows :: "seeding \<Rightarrow> chunk_request \<Rightarrow> string \<Rightarrow> instant \<Rightarrow> FactRow list \<Rightarrow> FactRow list seed" where
  "finish_rows v c i now rows =
     (if cp_mirrored c \<and> \<not> list_ex (\<lambda>row. fr_table row = ''route_created'') rows
      then sbind (route_created_row v c i (later 5 now)) (\<lambda>r. sret (rows @ [r]))
      else sret rows)"

definition refuse_spec :: "chunk_request \<Rightarrow> seed_error + unit" where
  "refuse_spec c =
     (if cp_status c \<notin> set CHUNK_STATUSES
      then Inl (Composition ''chunk'' (''unknown status '' @ py_repr (cp_status c) @ '' '' @ em_dash @ '' one of '' @ repr_tuple CHUNK_STATUSES))
      else if (cp_cause c \<noteq> None \<or> cp_detail c \<noteq> None) \<and> cp_status c \<noteq> ''needs_human''
      then Inl (Composition ''chunk'' (''an escalation cause/detail needs --status needs_human, not '' @ py_repr (cp_status c)))
      else Inr ())"

definition chunk_id_of :: "seeding \<Rightarrow> chunk_request \<Rightarrow> string seed" where
  "chunk_id_of v c = (if truthy (cp_chunk_id c) then sret (str_or (cp_chunk_id c) '''') else smint v ''ch'')"

definition compose_chunk :: "seeding \<Rightarrow> chunk_request \<Rightarrow> GraphContext \<Rightarrow> (string \<times> FactRow list) seed" where
  "compose_chunk v c g =
     sbind (scheck (refuse_spec c)) (\<lambda>_. sbind (chunk_id_of v c) (\<lambda>i. sbind (snow v) (\<lambda>now.
     sbind (status_rows v c g i now) (\<lambda>rows.
     sbind (finish_rows v c i now ([chunk_row i (gc_graph_id g) now] @ work_ref_rows i (cp_work_refs c) @ rows)) (\<lambda>rows'.
     sret (i, rows'))))))"

end
