(* ===== verification/Seed_Hub.thy ===== *)
theory Seed_Hub
  imports Seed_Graph
begin

text \<open>
  The composers of the other hub concepts (\<^verbatim>\<open>mock_data/domain/hub\<close>): artifacts, bounces, decisions,
  escalations, events, garden proposals, questions, runner pauses, registrations, subscriptions and usage. Each
  is the rows it gives and the arguments it refuses. JSON is read and written by the library.
\<close>

section \<open>Artifacts\<close>

definition ARTIFACT_KINDS :: "string list" where "ARTIFACT_KINDS = [''git_commit'', ''asset'']"

definition GENERATED_CONTENT_ALPHABET :: string where
  "GENERATED_CONTENT_ALPHABET = ''abcdefghijklmnopqrstuvwxyzABCDEFGHIJKLMNOPQRSTUVWXYZ0123456789 '' @ NL"

record artifact_spec =
  as_chunk_id :: string
  as_node_id :: string
  as_node_name :: string
  as_epoch :: int
  as_name :: string
  as_kind :: string
  as_seq :: int
  as_repo :: "string option"
  as_forge :: "string option"
  as_branch :: "string option"
  as_commit :: "string option"
  as_content :: "string option"
  as_content_size :: "int option"

definition pick_char :: "seeding \<Rightarrow> char seed" where
  "pick_char v n = Inr (GENERATED_CONTENT_ALPHABET ! (sd_pick v n mod length GENERATED_CONTENT_ALPHABET), Suc n)"

definition generate_asset_content :: "seeding \<Rightarrow> int \<Rightarrow> string seed" where
  "generate_asset_content v wanted = sfor (\<lambda>_. pick_char v) [0..<nat wanted]"

definition git_commit_data :: "artifact_spec \<Rightarrow> seed_error + string" where
  "git_commit_data a =
     (if as_content a \<noteq> None \<or> as_content_size a \<noteq> None
      then Inl (Composition ''artifact'' (''--content/--content-size are asset-only '' @ em_dash
             @ '' a git_commit's payload is --repo/--branch/--commit''))
      else case (as_repo a, as_branch a, as_commit a) of
        (Some _, Some branch, Some commit) \<Rightarrow> Inr (branch @ '':'' @ commit)
      | _ \<Rightarrow> Inl (Composition ''artifact'' ''git_commit requires --repo, --branch, and --commit''))"

definition asset_data :: "seeding \<Rightarrow> artifact_spec \<Rightarrow> string seed" where
  "asset_data v a =
     (if as_repo a \<noteq> None \<or> as_branch a \<noteq> None \<or> as_commit a \<noteq> None \<or> as_forge a \<noteq> None
      then seed_refused ''artifact'' (''--repo/--branch/--commit/--forge are git_commit-only '' @ em_dash
             @ '' an asset's payload is --content/--content-size'')
      else case (as_content a, as_content_size a) of
        (Some content, None) \<Rightarrow> sret content
      | (None, Some wanted) \<Rightarrow> generate_asset_content v wanted
      | _ \<Rightarrow> seed_refused ''artifact'' ''asset requires exactly one of --content or --content-size'')"

definition compose_artifact :: "seeding \<Rightarrow> artifact_spec \<Rightarrow> FactRow seed" where
  "compose_artifact v a =
     (if as_kind a \<notin> set ARTIFACT_KINDS
      then seed_refused ''artifact'' (''unknown artifact kind '' @ py_repr (as_kind a) @ '' '' @ em_dash @ '' one of '' @ repr_tuple ARTIFACT_KINDS)
      else let git = as_kind a = ''git_commit'' in
        sbind (if git then scheck (git_commit_data a) else asset_data v a) (\<lambda>data.
        sbind (smint v ''art'') (\<lambda>i. sbind (snow v) (\<lambda>now.
        sret (composed ''artifacts''
          [(''artifact_id'', CText i), (''chunk_id'', CText (as_chunk_id a)), (''node_id'', CText (as_node_id a)),
           (''node_name'', CText (as_node_name a)), (''epoch'', CInt (as_epoch a)), (''name'', CText (as_name a)),
           (''kind'', CText (as_kind a)), (''data'', CText data), (''repo'', if git then opt_text (as_repo a) else CNull),
           (''forge'', if git then opt_text (as_forge a) else CNull), (''produced_at'', CTime now), (''seq'', CInt (as_seq a))])))))"

section \<open>Bounces and escalations\<close>

definition BOUNCE_CAUSES :: "string list" where "BOUNCE_CAUSES = [''conflict'', ''checks'', ''master-moved'']"

definition bounce_envelope :: "seeding \<Rightarrow> string \<Rightarrow> string option \<Rightarrow> seed_error + string" where
  "bounce_envelope v cause envelope =
     (case envelope of
        None \<Rightarrow> Inr (sd_dumps v (JObj [(''cause'', JStr cause)]))
      | Some raw \<Rightarrow>
          (case sd_loads v raw of
             Inl exc \<Rightarrow> Inl (Composition ''bounce'' (''envelope is not valid JSON: '' @ exc))
           | Inr (JObj _) \<Rightarrow> Inr raw
           | Inr _ \<Rightarrow> Inl (Composition ''bounce'' ''envelope must be a JSON object'')))"

definition compose_bounce :: "seeding \<Rightarrow> string \<Rightarrow> int \<Rightarrow> instant \<Rightarrow> string \<Rightarrow> string option \<Rightarrow> seed_error + FactRow" where
  "compose_bounce v chunk_id epoch recorded_at cause envelope =
     (if cause \<notin> set BOUNCE_CAUSES
      then Inl (Composition ''bounce'' (''unknown cause '' @ py_repr cause @ '' '' @ em_dash @ '' one of '' @ repr_tuple BOUNCE_CAUSES))
      else map_sum id (\<lambda>text. composed ''chunk_bounces''
             [(''chunk_id'', CText chunk_id), (''epoch'', CInt epoch), (''cause'', CText cause), (''envelope'', CText text),
              (''recorded_at'', CTime recorded_at)]) (bounce_envelope v cause envelope))"

definition ESCALATION_CAUSES :: "string list" where "ESCALATION_CAUSES = [''retries'', ''cap'']"

definition takeover_text :: "string \<Rightarrow> string \<Rightarrow> string option \<Rightarrow> string" where
  "takeover_text cause chunk_id given_text =
     (case given_text of
        Some t \<Rightarrow> t
      | None \<Rightarrow> (if cause = ''cap'' then ''spend cap <cap> reached (spend <spend>) '' @ em_dash @ '' '' else '''') @ resume_command chunk_id)"

definition compose_escalation ::
  "string \<Rightarrow> int \<Rightarrow> instant \<Rightarrow> string \<Rightarrow> string option \<Rightarrow> string option \<Rightarrow> string option \<Rightarrow> seed_error + FactRow" where
  "compose_escalation chunk_id epoch recorded_at cause takeover_command wrapped decision_id =
     (let command = takeover_text cause chunk_id takeover_command;
          row = (\<lambda>w. composed ''escalations''
            [(''chunk_id'', CText chunk_id), (''epoch'', CInt epoch), (''takeover_command'', CText command),
             (''wrapped_takeover_command'', CText w), (''decision_id'', opt_text decision_id), (''recorded_at'', CTime recorded_at)]) in
      if cause \<notin> set ESCALATION_CAUSES
      then Inl (Composition ''escalation'' (''unknown cause '' @ py_repr cause @ '' '' @ em_dash @ '' one of '' @ repr_tuple ESCALATION_CAUSES))
      else case wrapped of
        None \<Rightarrow> Inr (row (if command \<noteq> [] then wrapped_command chunk_id else []))
      | Some w \<Rightarrow>
          if w \<noteq> [] \<and> command = []
          then Inl (Composition ''escalation'' (''wrapped_takeover_command without takeover_command '' @ em_dash
                 @ '' wrapped implies raw, never the reverse''))
          else Inr (row w))"

section \<open>Decisions and questions\<close>

record DecisionChoice =
  dc_name :: string
  dc_description :: string

record decision_spec =
  de_chunk_id :: string
  de_node_id :: string
  de_node_name :: string
  de_choices :: "DecisionChoice list"
  de_epoch :: int
  de_imposed_by :: "string option"
  de_resolved_choice :: "string option"
  de_resolved_by :: "string option"

definition refuse_decision :: "decision_spec \<Rightarrow> seed_error + unit" where
  "refuse_decision d =
     (let names = map dc_name (de_choices d) in
      if de_choices d = [] then Inl (Composition ''decision'' ''a decision needs at least one --choice'')
      else if length (dedup names) \<noteq> length names then Inl (Composition ''decision'' (''--choice names must be unique, got '' @ repr_list names))
      else if (de_resolved_choice d = None) \<noteq> (de_resolved_by d = None)
      then Inl (Composition ''decision'' ''--resolve and --resolved-by must be supplied together, or neither'')
      else case de_resolved_choice d of
        Some r \<Rightarrow> if r \<notin> set names then Inl (Composition ''decision'' (''--resolve '' @ py_repr r @ '' is not one of the --choice names '' @ repr_list names))
                  else Inr ()
      | None \<Rightarrow> Inr ())"

definition choices_json :: "DecisionChoice list \<Rightarrow> json" where
  "choices_json cs = JList (map (\<lambda>c. JObj [(''name'', JStr (dc_name c)), (''description'', JStr (dc_description c))]) cs)"

definition compose_decision :: "seeding \<Rightarrow> decision_spec \<Rightarrow> (string \<times> FactRow list) seed" where
  "compose_decision v d =
     sbind (scheck (refuse_decision d)) (\<lambda>_. sbind (smint v ''dec'') (\<lambda>i. sbind (snow v) (\<lambda>now.
     sret (i,
       [composed ''decisions''
          [(''decision_id'', CText i), (''chunk_id'', CText (de_chunk_id d)), (''node_id'', CText (de_node_id d)),
           (''node_name'', CText (de_node_name d)), (''epoch'', CInt (de_epoch d)), (''choices'', CText (sd_dumps v (choices_json (de_choices d)))),
           (''submitted_at'', CTime now), (''imposed_by_runner_id'', opt_text (de_imposed_by d))]]
       @ (case de_resolved_choice d of
            None \<Rightarrow> []
          | Some r \<Rightarrow> [composed ''decision_resolutions''
              [(''decision_id'', CText i), (''choice'', CText r), (''resolved_by'', opt_text (de_resolved_by d)),
               (''resolved_at'', CTime (later 1 now))]])))))"

record question_spec =
  qs_chunk_id :: string
  qs_question :: string
  qs_options :: "string list"
  qs_node_id :: "string option"
  qs_session_id :: "string option"
  qs_runner_id :: string
  qs_epoch :: int
  qs_answer :: "string option"
  qs_answered_by :: "string option"
  qs_delivered :: bool

definition open_question :: "string \<Rightarrow> string \<Rightarrow> string \<Rightarrow> question_spec" where
  "open_question chunk_id question runner_id =
     \<lparr>qs_chunk_id = chunk_id, qs_question = question, qs_options = [], qs_node_id = None, qs_session_id = None, qs_runner_id = runner_id,
      qs_epoch = 1, qs_answer = None, qs_answered_by = None, qs_delivered = False\<rparr>"

definition refuse_question :: "question_spec \<Rightarrow> seed_error + unit" where
  "refuse_question q =
     (if (qs_answer q = None) \<noteq> (qs_answered_by q = None)
      then Inl (Composition ''question'' ''--answer and --answered-by must be supplied together, or neither'')
      else if qs_delivered q \<and> qs_answer q = None
      then Inl (Composition ''question'' ''--delivered requires --answer (a delivery implies an answer exists)'')
      else Inr ())"

definition compose_question :: "seeding \<Rightarrow> question_spec \<Rightarrow> (string \<times> FactRow list) seed" where
  "compose_question v q =
     sbind (scheck (refuse_question q)) (\<lambda>_. sbind (smint v ''qn'') (\<lambda>i. sbind (snow v) (\<lambda>now.
     sret (i,
       [composed ''questions''
          [(''question_id'', CText i), (''chunk_id'', CText (qs_chunk_id q)), (''node_id'', opt_text (qs_node_id q)),
           (''session_id'', opt_text (qs_session_id q)), (''runner_id'', CText (qs_runner_id q)), (''epoch'', CInt (qs_epoch q)),
           (''question'', CText (qs_question q)), (''options'', CText (sd_dumps v (JList (map JStr (qs_options q))))), (''asked_at'', CTime now)]]
       @ (case qs_answer q of
            None \<Rightarrow> []
          | Some a \<Rightarrow> [composed ''question_answers''
              [(''question_id'', CText i), (''answer'', CText a), (''answered_by'', opt_text (qs_answered_by q)),
               (''answered_at'', CTime (later 1 now))]])
       @ (if qs_delivered q
          then [composed ''answer_deliveries''
              [(''question_id'', CText i), (''chunk_id'', CText (qs_chunk_id q)), (''delivered_at'', CTime (later 2 now))]]
          else [])))))"

section \<open>Events\<close>

definition SEVERITIES :: "string list" where "SEVERITIES = [''info'', ''warning'', ''critical'']"

definition EXPORT_EVENT_KINDS :: "string list" where
  "EXPORT_EVENT_KINDS =
     [''trace-export-failed'', ''trace-export-recovered'', ''trace-window-skipped'', ''trace-config-rejected'', ''egress-write-failed'',
      ''egress-write-recovered'', ''egress-config-rejected'', ''egress-cursor-reset'']"

definition HUB_EVENT_KINDS :: "string list" where
  "HUB_EVENT_KINDS = EXPORT_EVENT_KINDS @ [''hub-started'', ''hub-migrated'', ''tenant-closed'', ''tenant-deleted'']"

definition is_hub_event_kind :: "string \<Rightarrow> bool" where
  "is_hub_event_kind kind \<longleftrightarrow> kind \<in> set HUB_EVENT_KINDS"

record event_spec =
  ev_kind :: string
  ev_severity :: string
  ev_message :: string
  ev_runner_id :: "string option"
  ev_chunk_id :: "string option"
  ev_lease_id :: "string option"
  ev_node_name :: "string option"
  ev_detail :: "string option"

definition event_of :: "string \<Rightarrow> string \<Rightarrow> string \<Rightarrow> string option \<Rightarrow> string option \<Rightarrow> event_spec" where
  "event_of kind severity message runner_id chunk_id =
     \<lparr>ev_kind = kind, ev_severity = severity, ev_message = message, ev_runner_id = runner_id, ev_chunk_id = chunk_id, ev_lease_id = None,
      ev_node_name = None, ev_detail = None\<rparr>"

definition event_names :: "event_spec \<Rightarrow> string list" where
  "event_names e =
     map fst (filter (\<lambda>(n, x). x \<noteq> None)
       [(''runner'', ev_runner_id e), (''chunk'', ev_chunk_id e), (''lease'', ev_lease_id e), (''node'', ev_node_name e)])"

definition bad_detail :: "seeding \<Rightarrow> event_spec \<Rightarrow> string option" where
  "bad_detail v e = (case ev_detail e of None \<Rightarrow> None | Some d \<Rightarrow> (case sd_loads v d of Inl exc \<Rightarrow> Some exc | Inr _ \<Rightarrow> None))"

definition compose_event :: "seeding \<Rightarrow> event_spec \<Rightarrow> instant \<Rightarrow> seed_error + FactRow" where
  "compose_event v e recorded_at =
     (if ev_severity e \<notin> set SEVERITIES
      then Inl (Composition ''event'' (''unknown severity '' @ py_repr (ev_severity e) @ '' '' @ em_dash @ '' one of '' @ repr_tuple SEVERITIES))
      else case bad_detail v e of
        Some exc \<Rightarrow> Inl (Composition ''event'' (''--detail is not valid JSON: '' @ exc))
      | None \<Rightarrow>
          if is_hub_event_kind (ev_kind e) \<and> event_names e = []
          then Inr (composed ''hub_event_log''
                 [(''recorded_at'', CTime recorded_at), (''severity'', CText (ev_severity e)), (''kind'', CText (ev_kind e)),
                  (''message'', CText (ev_message e)), (''detail'', opt_text (ev_detail e))])
          else if is_hub_event_kind (ev_kind e) \<and> ev_kind e \<notin> set EXPORT_EVENT_KINDS
          then Inl (Composition ''event'' (py_repr (ev_kind e) @ '' is the hub's own occurrence, recorded in hub_event_log alone '' @ em_dash
                 @ '' it names no runner, chunk, lease or node, yet this one names its '' @ join '', '' (event_names e)))
          else Inr (composed ''event_log''
                 [(''recorded_at'', CTime recorded_at), (''severity'', CText (ev_severity e)), (''kind'', CText (ev_kind e)),
                  (''runner_id'', opt_text (ev_runner_id e)), (''chunk_id'', opt_text (ev_chunk_id e)), (''lease_id'', opt_text (ev_lease_id e)),
                  (''node_name'', opt_text (ev_node_name e)), (''message'', CText (ev_message e)), (''detail'', opt_text (ev_detail e))]))"

section \<open>Garden proposals\<close>

definition GARDEN_CLOSURES :: "(string \<times> string \<times> string option) list" where
  "GARDEN_CLOSURES =
     [(''passed'', ''passed'', None), (''accepted-minted'', ''accepted'', Some ''minted''), (''accepted-declined'', ''accepted'', Some ''declined'')]"

record proposal_spec =
  ps_routine_name :: string
  ps_class :: string
  ps_title :: "string option"
  ps_body :: "string option"
  ps_created_at :: "instant option"
  ps_closure :: "string option"
  ps_closed_by :: string
  ps_work_ref :: "(string \<times> string) option"

definition proposal_pointer :: "string \<Rightarrow> proposal_spec \<Rightarrow> cell \<times> cell" where
  "proposal_pointer i p =
     (if ps_closure p = Some ''accepted-minted''
      then (case ps_work_ref p of Some (source, ref) \<Rightarrow> (CText source, CText ref) | None \<Rightarrow> (CText ''seed-source'', CText i))
      else (CNull, CNull))"

definition closure_rows :: "string \<Rightarrow> proposal_spec \<Rightarrow> instant \<Rightarrow> FactRow list" where
  "closure_rows i p landed_at =
     (case ps_closure p of
        None \<Rightarrow> []
      | Some c \<Rightarrow>
          (case dget GARDEN_CLOSURES c of
             None \<Rightarrow> []
           | Some (closure, outcome) \<Rightarrow>
               [composed ''garden_proposal_closures''
                  [(''proposal_id'', CText i), (''closure'', CText closure), (''reason'', CNull), (''closed_by'', CText (ps_closed_by p)),
                   (''closed_at'', CTime (later 1 landed_at)), (''item_outcome'', opt_text outcome),
                   (''source'', fst (proposal_pointer i p)), (''ref'', snd (proposal_pointer i p))]]))"

definition refuse_proposal :: "proposal_spec \<Rightarrow> seed_error + unit" where
  "refuse_proposal p =
     (case ps_closure p of
        Some c \<Rightarrow>
          if c \<notin> set (dkeys GARDEN_CLOSURES)
          then Inl (Composition ''garden proposal'' (''unknown closure '' @ py_repr c @ '' '' @ em_dash
                 @ '' one of '' @ repr_tuple (dkeys GARDEN_CLOSURES)))
          else Inr ()
      | None \<Rightarrow> Inr ())"

definition proposal_row :: "string \<Rightarrow> proposal_spec \<Rightarrow> instant \<Rightarrow> FactRow" where
  "proposal_row i p landed_at =
     composed ''garden_proposals''
       [(''proposal_id'', CText i), (''origin'', CText ''routine-run''), (''routine_name'', CText (ps_routine_name p)), (''created_by'', CNull),
        (''class'', CText (ps_class p)),
        (''title'', CText (case ps_title p of Some t \<Rightarrow> t | None \<Rightarrow> ps_routine_name p @ '': '' @ ps_class p)),
        (''body'', CText (case ps_body p of Some b \<Rightarrow> b | None \<Rightarrow> ''Garden proposal for '' @ py_repr (ps_routine_name p)
             @ '', class '' @ py_repr (ps_class p) @ ''.'')),
        (''created_at'', CTime landed_at), (''source_artifact_id'', CNull), (''ref'', CNull)]"

definition compose_garden_proposal :: "seeding \<Rightarrow> proposal_spec \<Rightarrow> (string \<times> FactRow list) seed" where
  "compose_garden_proposal v p =
     sbind (scheck (refuse_proposal p)) (\<lambda>_. sbind (smint v ''gprop'') (\<lambda>i.
     sbind (case ps_created_at p of Some t \<Rightarrow> sret t | None \<Rightarrow> snow v) (\<lambda>landed_at.
     sret (i, [proposal_row i p landed_at] @ closure_rows i p landed_at))))"

section \<open>Runners\<close>

definition SEED_RUNNER_NAME :: string where "SEED_RUNNER_NAME = ''runner-seed''"

definition compose_runner_pause :: "string \<Rightarrow> bool \<Rightarrow> string option \<Rightarrow> instant \<Rightarrow> seed_error + FactRow" where
  "compose_runner_pause runner_id is_local reason set_at =
     (if \<not> is_local \<and> reason \<noteq> None
      then Inl (Composition ''runner pause'' (''runner_pause_facts (the fleet brake, --fleet) has no `reason` column '' @ em_dash
             @ '' only runner_local_pause_facts (--local) carries one''))
      else Inr (composed (if is_local then ''runner_local_pause_facts'' else ''runner_pause_facts'')
             ([(''runner_id'', CText runner_id), (''paused'', CFlag True), (''set_at'', CTime set_at), (''set_by'', CText ''mock-data'')]
              @ (if is_local then [(''reason'', opt_text reason)] else []))))"

definition compose_runner_registration :: "string \<Rightarrow> string \<Rightarrow> instant \<Rightarrow> string option \<Rightarrow> string option \<Rightarrow> FactRow" where
  "compose_runner_registration runner_id name added_at workspace_id subscriptions =
     (let registered_at = (if workspace_id \<noteq> None then CTime added_at else CNull) in
      composed ''runner_registrations''
        [(''runner_id'', CText runner_id), (''name'', CText name), (''added_at'', CTime added_at), (''added_by'', CText ''mock-data''),
         (''workspace_id'', opt_text workspace_id), (''registered_at'', registered_at), (''last_seen_at'', registered_at),
         (''subscriptions'', opt_text subscriptions)])"

definition compose_declared_roster :: "(json \<Rightarrow> string) \<Rightarrow> (string \<times> string \<times> string) list \<Rightarrow> string" where
  "compose_declared_roster dumps subs =
     dumps (JList (map (\<lambda>(s, n, p). JObj [(''slug'', JStr s), (''name'', JStr n), (''provider'', JStr p)]) subs))"

definition default_windows :: "instant \<Rightarrow> json" where
  "default_windows sampled_at =
     JList [JObj [(''window'', JStr ''5h''), (''utilization_pct'', JFloat 42 ''42.0''),
       (''resets_at'', JStr (isoformat (later 18000 sampled_at))), (''window_seconds'', JInt 18000)]]"

definition compose_subscription_sample :: "(json \<Rightarrow> string) \<Rightarrow> string \<Rightarrow> string \<Rightarrow> string \<Rightarrow> instant \<Rightarrow> json option \<Rightarrow> FactRow" where
  "compose_subscription_sample dumps runner_id s name sampled_at windows =
     composed ''runner_external_usage''
       [(''runner_id'', CText runner_id), (''slug'', CText s), (''name'', CText name), (''sampled_at'', CTime sampled_at),
        (''windows'', CText (dumps (case windows of Some w \<Rightarrow> w | None \<Rightarrow> default_windows sampled_at))), (''updated_at'', CTime sampled_at)]"

definition compose_subscription_miss :: "string \<Rightarrow> string \<Rightarrow> string \<Rightarrow> instant \<Rightarrow> string \<Rightarrow> FactRow" where
  "compose_subscription_miss runner_id s name missed_at reason =
     composed ''runner_external_usage_misses''
       [(''runner_id'', CText runner_id), (''slug'', CText s), (''name'', CText name), (''missed_at'', CTime missed_at),
        (''reason'', CText reason), (''updated_at'', CTime missed_at)]"

section \<open>Usage\<close>

definition USAGE_KINDS :: "string list" where "USAGE_KINDS = [''spawn'', ''resume'', ''judge'', ''nudge'']"

type_synonym money = "rat \<times> string"

definition money_cell :: "money option \<Rightarrow> cell" where
  "money_cell m = (case m of None \<Rightarrow> CNull | Some (x, t) \<Rightarrow> CReal x t)"

record usage_spec =
  us_chunk_id :: string
  us_node_id :: string
  us_epoch :: int
  us_kind :: string
  us_model :: string
  us_input :: int
  us_output :: int
  us_cache_read :: int
  us_cache_create :: int
  us_cost :: "money option"
  us_estimated :: "money option"

definition unknown_usage_kind :: "usage_spec \<Rightarrow> seed_error" where
  "unknown_usage_kind u =
     Composition ''usage'' (''unknown usage kind '' @ py_repr (us_kind u) @ '' '' @ em_dash @ '' one of '' @ repr_tuple USAGE_KINDS)"

definition usage_values :: "usage_spec \<Rightarrow> (string, cell) dict \<Rightarrow> instant \<Rightarrow> (string, cell) dict" where
  "usage_values u owner recorded_at =
     owner
     @ [(''kind'', CText (us_kind u)), (''model'', CText (us_model u)), (''input_tokens'', CInt (us_input u)),
        (''output_tokens'', CInt (us_output u)), (''cache_read_tokens'', CInt (us_cache_read u)),
        (''cache_create_tokens'', CInt (us_cache_create u)), (''cost_usd'', money_cell (us_cost u)),
        (''estimated_cost_usd'', money_cell (us_estimated u)), (''recorded_at'', CTime recorded_at)]"

definition compose_usage :: "usage_spec \<Rightarrow> string \<Rightarrow> instant \<Rightarrow> seed_error + FactRow" where
  "compose_usage u runner_id recorded_at =
     (if us_kind u \<notin> set USAGE_KINDS then Inl (unknown_usage_kind u)
      else Inr (composed ''usage_facts'' (usage_values u
             [(''chunk_id'', CText (us_chunk_id u)), (''node_id'', CText (us_node_id u)), (''epoch'', CInt (us_epoch u)),
              (''runner_id'', CText runner_id)] recorded_at)))"

end
