(* ===== verification/Seed_Board.thy ===== *)
theory Seed_Board
  imports Seed_Hub
begin

text \<open>
  The whole scenario board of \<^verbatim>\<open>blizzard-mock-data scenario board\<close> (\<^verbatim>\<open>mock_data/domain/hub/scenario_seed.py\<close>): a
  graph, chunks over the nine statuses with their runners, usage, artifacts, a pause, events and the extremes
  of \<^verbatim>\<open>--stress\<close>, with the census that is printed. Observations are made in the order the code makes them.
\<close>

section \<open>The board\<close>

definition STATUS_ORDER :: "string list" where
  "STATUS_ORDER =
     [''ready'', ''running'', ''needs_human'', ''waiting_on_human'', ''done'', ''paused'', ''delivering'', ''stopped'', ''not_ready'']"

definition DEFAULT_CHUNKS :: int where "DEFAULT_CHUNKS = 6"

definition long_name :: "string list \<Rightarrow> string" where
  "long_name ws = concat (replicate 3 (join ''-'' ws))"

definition STRESS_LONG_RUNNER_NAME :: string where
  "STRESS_LONG_RUNNER_NAME =
     ''runner-'' @ long_name [''extremely'', ''long'', ''runner'', ''name'', ''for'', ''narrow'', ''viewport'', ''checks'']"

definition STRESS_LONG_NODE_NAME :: string where
  "STRESS_LONG_NODE_NAME =
     ''custom-'' @ long_name [''a'', ''very'', ''long'', ''graph'', ''node'', ''name'', ''for'', ''overflow'', ''checks'']"

definition STRESS_LONG_ARTIFACT_NAME :: string where
  "STRESS_LONG_ARTIFACT_NAME =
     ''artifact-'' @ long_name [''a'', ''very'', ''long'', ''produced'', ''artifact'', ''name'', ''for'', ''overflow'', ''checks'']"

record ChunkCensusEntry =
  ce_chunk_id :: string
  ce_status :: string

record BoardCensus =
  bc_chunk_entries :: "ChunkCensusEntry list"
  bc_status_counts :: "(string, nat) dict"
  bc_runner_ids :: "string list"
  bc_usage_fact_count :: nat
  bc_cost_partial_count :: nat
  bc_artifact_count :: nat
  bc_ceiling_paused_runner_id :: string
  bc_stress :: bool
  bc_build_node_id :: string

record BoardScenario =
  bd_graph_id :: string
  bd_rows :: "FactRow list"
  bd_census :: BoardCensus

record board_spec =
  bs_chunks :: int
  bs_stress :: bool
  bs_graph_name :: "string option"
  bs_runner_id :: "string option"
  bs_runner_name :: string
  bs_register_runner :: bool
  bs_has_action :: bool

definition board_of :: "int \<Rightarrow> board_spec" where
  "board_of chunks =
     \<lparr>bs_chunks = chunks, bs_stress = False, bs_graph_name = None, bs_runner_id = None, bs_runner_name = SEED_RUNNER_NAME,
      bs_register_runner = True, bs_has_action = False\<rparr>"

section \<open>Chunks and their runners\<close>

record board_chunk =
  bk_entry :: ChunkCensusEntry
  bk_runner :: string
  bk_name :: string
  bk_workspace :: string
  bk_rows :: "FactRow list"

definition status_at :: "nat \<Rightarrow> string" where
  "status_at i = STATUS_ORDER ! (i mod length STATUS_ORDER)"

definition two_digits :: "nat \<Rightarrow> string" where
  "two_digits i = pad_digits 2 (int i)"

definition board_chunk_at :: "seeding \<Rightarrow> board_spec \<Rightarrow> GraphContext \<Rightarrow> nat \<Rightarrow> board_chunk seed" where
  "board_chunk_at v b g i =
     (let pinned = bs_runner_id b \<noteq> None;
          workspace = (if pinned then ''workspace-fleet'' else ''workspace-'' @ two_digits i) in
      sbind (case bs_runner_id b of Some r \<Rightarrow> sret r | None \<Rightarrow> smint v RUNNER_PREFIX) (\<lambda>runner.
      sbind (compose_chunk v ((chunk_at (status_at i))\<lparr>cp_runner_id := runner, cp_workspace_id := workspace,
               cp_mirrored := pinned \<and> status_at i \<in> set MIRRORED_STATUSES\<rparr>) g) (\<lambda>(chunk_id, rows).
      sret \<lparr>bk_entry = \<lparr>ce_chunk_id = chunk_id, ce_status = status_at i\<rparr>, bk_runner = runner,
        bk_name = (if pinned then bs_runner_name b else ''runner-'' @ two_digits i), bk_workspace = workspace, bk_rows = rows\<rparr>)))"

definition seed_chunks :: "seeding \<Rightarrow> board_spec \<Rightarrow> GraphContext \<Rightarrow> board_chunk list seed" where
  "seed_chunks v b g = sfor (board_chunk_at v b g) [0..<nat (bs_chunks b)]"

definition runner_workspaces :: "board_chunk list \<Rightarrow> (string, string) dict" where
  "runner_workspaces cs = fold (\<lambda>c. dsetdefault (bk_runner c) (bk_workspace c)) cs []"

definition runner_names :: "board_chunk list \<Rightarrow> (string, string) dict" where
  "runner_names cs = fold (\<lambda>c. dsetdefault (bk_runner c) (bk_name c)) cs []"

definition registration_rows :: "board_spec \<Rightarrow> board_chunk list \<Rightarrow> instant \<Rightarrow> FactRow list" where
  "registration_rows b cs now =
     map (\<lambda>(r, w). compose_runner_registration r (dget_or (runner_names cs) r '''') now (Some w) None)
       (filter (\<lambda>(r, w). bs_register_runner b \<or> bs_runner_id b \<noteq> Some r) (runner_workspaces cs))"

definition roster_extras :: "seeding \<Rightarrow> string \<Rightarrow> (FactRow list \<times> string list) seed" where
  "roster_extras v twin_name =
     sbind (snow v) (\<lambda>now. sbind (smint v RUNNER_PREFIX) (\<lambda>twin. sbind (smint v RUNNER_PREFIX) (\<lambda>never.
     sret ([compose_runner_registration twin twin_name now (Some ''workspace-twin'') None,
            compose_runner_registration never ''runner-never-connected'' now None None], [twin, never]))))"

section \<open>Usage, artifacts, events\<close>

definition status_node_id :: "string \<Rightarrow> GraphContext \<Rightarrow> seed_error + string" where
  "status_node_id status g =
     map_sum id nr_node_id (graph_node g (if status = ''delivering'' \<or> status = ''done'' then DELIVER_NODE_NAME else BUILD_NODE_NAME))"

text \<open>The cost of the \<open>i\<close>th chunk: 42 cents and 83 more for each, with the text a float of two places has.\<close>

definition cents_text :: "nat \<Rightarrow> string" where
  "cents_text c =
     show_nat (c div 100) @ ''.'' @ (if c mod 10 = 0 then show_nat (c mod 100 div 10) else pad_digits 2 (int (c mod 100)))"

definition board_cost :: "nat \<Rightarrow> money option" where
  "board_cost i = (if i = 0 then None else Some (Fract (int (42 + 83 * i)) 100, cents_text (42 + 83 * i)))"

definition usage_of :: "GraphContext \<Rightarrow> instant \<Rightarrow> nat \<times> board_chunk \<Rightarrow> seed_error + FactRow" where
  "usage_of g now ic =
     (case ic of (i, c) \<Rightarrow>
        (case status_node_id (ce_status (bk_entry c)) g of
           Inl e \<Rightarrow> Inl e
         | Inr node \<Rightarrow>
             compose_usage
               \<lparr>us_chunk_id = ce_chunk_id (bk_entry c), us_node_id = node, us_epoch = 1, us_kind = (if i = 0 then ''spawn'' else ''resume''),
                us_model = ''claude-mock-scenario'', us_input = 400 + int i * 137, us_output = 90 + int i * 31, us_cache_read = 0,
                us_cache_create = 0, us_cost = board_cost i, us_estimated = None\<rparr> (bk_runner c) now))"

definition used_chunks :: "board_chunk list \<Rightarrow> (nat \<times> board_chunk) list" where
  "used_chunks cs = filter (\<lambda>(i, c). i mod 2 = 0) (enumerate 0 cs)"

definition board_asset :: "string \<Rightarrow> NodeRef \<Rightarrow> string \<Rightarrow> string \<Rightarrow> int \<Rightarrow> string option \<Rightarrow> int option \<Rightarrow> artifact_spec" where
  "board_asset chunk_id node node_name name seq content content_size =
     \<lparr>as_chunk_id = chunk_id, as_node_id = nr_node_id node, as_node_name = node_name, as_epoch = 1, as_name = name, as_kind = ''asset'',
      as_seq = seq, as_repo = None, as_forge = None, as_branch = None, as_commit = None, as_content = content, as_content_size = content_size\<rparr>"

definition board_commit :: "string \<Rightarrow> NodeRef \<Rightarrow> string \<Rightarrow> string \<Rightarrow> int \<Rightarrow> string \<Rightarrow> string \<Rightarrow> artifact_spec" where
  "board_commit chunk_id node node_name name seq branch commit =
     \<lparr>as_chunk_id = chunk_id, as_node_id = nr_node_id node, as_node_name = node_name, as_epoch = 1, as_name = name, as_kind = ''git_commit'',
      as_seq = seq, as_repo = Some ''acme/widget'', as_forge = None, as_branch = Some branch, as_commit = Some commit, as_content = None,
      as_content_size = None\<rparr>"

definition entry_with :: "string \<Rightarrow> ChunkCensusEntry list \<Rightarrow> ChunkCensusEntry option" where
  "entry_with status es = find (\<lambda>e. ce_status e = status) es"

definition board_artifacts :: "GraphContext \<Rightarrow> ChunkCensusEntry list \<Rightarrow> seed_error + artifact_spec list" where
  "board_artifacts g es =
     (case (graph_node g BUILD_NODE_NAME, graph_node g DELIVER_NODE_NAME) of
        (Inl e, _) \<Rightarrow> Inl e
      | (Inr build, deliver) \<Rightarrow>
          let first = [board_asset (ce_chunk_id (hd es)) build BUILD_NODE_NAME ''scenario-notes'' 1
                         (Some ''mock-data scenario board: notes captured before promotion.'') None];
              waiting = (case entry_with ''waiting_on_human'' es of
                  None \<Rightarrow> []
                | Some e \<Rightarrow> [board_commit (ce_chunk_id e) build BUILD_NODE_NAME ''feature-branch'' 1 ''feature/scenario-question'' ''c0ffee1234567890'']) in
          (case entry_with ''done'' es of
             None \<Rightarrow> Inr (first @ waiting)
           | Some e \<Rightarrow>
               map_sum id (\<lambda>d. first @ waiting
                 @ [board_asset (ce_chunk_id e) build BUILD_NODE_NAME ''build-log'' 1 None (Some 64),
                    board_commit (ce_chunk_id e) d DELIVER_NODE_NAME ''release-commit'' 2 ''release/1.0'' ''deadbeef00001111'']) deliver))"

definition ceiling_pause :: "string \<Rightarrow> instant \<Rightarrow> seed_error + FactRow" where
  "ceiling_pause runner now =
     compose_runner_pause runner True (Some ''spend ceiling $50.00 reached over the trailing 24h (spend $52.30)'') now"

definition board_events :: "board_spec \<Rightarrow> board_chunk list \<Rightarrow> event_spec list" where
  "board_events b cs =
     (let first = bk_runner (hd cs); es = map bk_entry cs in
      [event_of ''runner.registered'' ''info'' (''runner '' @ py_repr (dget_or (runner_names cs) first '''') @ '' registered'') (Some first) None,
       event_of ''runner.paused'' ''warning'' ''runner paused: spend ceiling reached'' (Some first) None]
      @ (case entry_with ''needs_human'' es of
           None \<Rightarrow> []
         | Some e \<Rightarrow> [event_of ''chunk.escalated'' ''critical'' ''chunk parked for human takeover''
                       (dget (zip es (map bk_runner cs)) e) (Some (ce_chunk_id e))])
      @ [event_of ''scenario.seeded'' ''info'' (''scenario board seeded '' @ show_int (bs_chunks b) @ '' chunk(s)'') None None])"

section \<open>The extremes\<close>

definition extend_graph_with_node :: "seeding \<Rightarrow> GraphContext \<Rightarrow> string \<Rightarrow> (GraphContext \<times> NodeRef \<times> FactRow) seed" where
  "extend_graph_with_node v g name =
     sbind (smint v ''nd'') (\<lambda>i.
     let node = \<lparr>nr_node_id = i, nr_executor = ''runner''\<rparr> in
     sret (g\<lparr>gc_nodes := dset name node (gc_nodes g)\<rparr>, node, graph_node_row i (gc_graph_id g) name ''runner'' ''fresh''))"

record stress_extras =
  sx_rows :: "FactRow list"
  sx_runner_id :: string
  sx_entries :: "ChunkCensusEntry list"

definition compose_stress_extras :: "seeding \<Rightarrow> GraphContext \<Rightarrow> stress_extras seed" where
  "compose_stress_extras v g =
     sbind (snow v) (\<lambda>now. sbind (smint v RUNNER_PREFIX) (\<lambda>runner.
     sbind (compose_chunk v ((chunk_at ''waiting_on_human'')\<lparr>cp_runner_id := runner\<rparr>) g) (\<lambda>(waiting, waiting_rows).
     sbind (compose_question v (open_question waiting ''mock-data: a second pending question (stress)'' runner)) (\<lambda>(q2, rows2).
     sbind (compose_question v (open_question waiting ''mock-data: a third pending question (stress)'' runner)) (\<lambda>(q3, rows3).
     sbind (extend_graph_with_node v g STRESS_LONG_NODE_NAME) (\<lambda>(g2, node, node_row).
     sbind (compose_chunk v ((chunk_at ''running'')\<lparr>cp_node_name := Some STRESS_LONG_NODE_NAME, cp_runner_id := runner,
              cp_workspace_id := ''workspace-stress''\<rparr>) g2) (\<lambda>(long_chunk, long_rows).
     sbind (compose_artifact v (board_asset long_chunk node STRESS_LONG_NODE_NAME STRESS_LONG_ARTIFACT_NAME 1 None (Some 32))) (\<lambda>artifact.
     sret \<lparr>sx_rows = [compose_runner_registration runner STRESS_LONG_RUNNER_NAME now (Some ''workspace-stress'') None]
               @ waiting_rows @ rows2 @ rows3 @ [node_row] @ long_rows @ [artifact],
           sx_runner_id = runner,
           sx_entries = [\<lparr>ce_chunk_id = waiting, ce_status = ''waiting_on_human''\<rparr>, \<lparr>ce_chunk_id = long_chunk, ce_status = ''running''\<rparr>]\<rparr>))))))))"

section \<open>Putting the board together\<close>

definition status_counts :: "ChunkCensusEntry list \<Rightarrow> (string, nat) dict" where
  "status_counts es = fold (\<lambda>e d. dset (ce_status e) (dget_or d (ce_status e) 0 + 1) d) es []"

definition count_table :: "string \<Rightarrow> FactRow list \<Rightarrow> nat" where
  "count_table t rows = length (filter (\<lambda>row. fr_table row = t) rows)"

text \<open>What stands on the graph, its chunks and runners: registrations, usage, artifacts, the pause and events.\<close>

definition board_facts :: "seeding \<Rightarrow> board_spec \<Rightarrow> GraphContext \<Rightarrow> instant \<Rightarrow> board_chunk list \<Rightarrow> (FactRow list \<times> string list) seed" where
  "board_facts v b g now cs =
     sbind (if bs_runner_id b \<noteq> None then sret ([], []) else roster_extras v (dget_or (runner_names cs) (bk_runner (hd cs)) '''')) (\<lambda>(extras, extra_ids).
     sbind (sfor (\<lambda>ic. scheck (usage_of g now ic)) (used_chunks cs)) (\<lambda>usage.
     sbind (scheck (board_artifacts g (map bk_entry cs))) (\<lambda>specs.
     sbind (sfor (compose_artifact v) specs) (\<lambda>artifacts.
     sbind (scheck (ceiling_pause (bk_runner (hd cs)) now)) (\<lambda>pause.
     sbind (sfor (\<lambda>e. scheck (compose_event v e now)) (board_events b cs)) (\<lambda>events.
     sret (registration_rows b cs now @ extras @ usage @ artifacts @ [pause] @ events, extra_ids)))))))"

definition board_census ::
  "board_spec \<Rightarrow> string \<Rightarrow> board_chunk list \<Rightarrow> string list \<Rightarrow> stress_extras option \<Rightarrow> FactRow list \<Rightarrow> BoardCensus" where
  "board_census b build cs extra_ids sx rows =
     (let entries = map bk_entry cs @ (case sx of None \<Rightarrow> [] | Some s \<Rightarrow> sx_entries s) in
      \<lparr>bc_chunk_entries = entries, bc_status_counts = status_counts entries,
       bc_runner_ids = dkeys (runner_workspaces cs) @ extra_ids @ (case sx of None \<Rightarrow> [] | Some s \<Rightarrow> [sx_runner_id s]),
       bc_usage_fact_count = length (used_chunks cs),
       bc_cost_partial_count = length (filter (\<lambda>(i, c). board_cost i = None) (used_chunks cs)),
       bc_artifact_count = count_table ''artifacts'' rows, bc_ceiling_paused_runner_id = bk_runner (hd cs),
       bc_stress = bs_stress b, bc_build_node_id = build\<rparr>)"

definition compose_board_scenario :: "seeding \<Rightarrow> board_spec \<Rightarrow> BoardScenario seed" where
  "compose_board_scenario v b =
     (if bs_chunks b < 1
      then seed_refused ''scenario'' (''--chunks must be at least 1, got '' @ show_int (bs_chunks b))
      else
        sbind (compose_graph v (str_or (bs_graph_name b) DEFAULT_GRAPH_NAME) (bs_has_action b)) (\<lambda>minted.
        let g = mg_context minted in
        sbind (snow v) (\<lambda>now.
        sbind (scheck (graph_node g BUILD_NODE_NAME)) (\<lambda>build.
        sbind (seed_chunks v b g) (\<lambda>cs.
        sbind (board_facts v b g now cs) (\<lambda>(facts, extra_ids).
        sbind (if bs_stress b then sbind (compose_stress_extras v g) (\<lambda>s. sret (Some s)) else sret None) (\<lambda>sx.
        let rows = mg_rows minted @ concat (map bk_rows cs) @ facts @ (case sx of None \<Rightarrow> [] | Some s \<Rightarrow> sx_rows s) in
        sret \<lparr>bd_graph_id = gc_graph_id g, bd_rows = rows,
          bd_census = board_census b (nr_node_id build) cs extra_ids sx rows\<rparr>)))))))"

end
