(* ===== verification/Seed_Runner.thy ===== *)
theory Seed_Runner
  imports Seed_Board
begin

text \<open>
  What \<^verbatim>\<open>blizzard-mock-data\<close> composes for a runner's own store (\<^verbatim>\<open>mock_data/domain/runner\<close>): leases and their
  closures, asks, environments, takeovers, the local brake, buffered facts, transcript segments and usage, and
  the mirror of a board's waiting and escalated chunks (\<^verbatim>\<open>scenario_seed.py\<close>).
\<close>

section \<open>Leases\<close>

definition SEED_HARNESS_ID :: string where "SEED_HARNESS_ID = ''claude_code''"

definition harness_of :: "string option \<Rightarrow> cell" where
  "harness_of session_id = (if session_id \<noteq> None then CText SEED_HARNESS_ID else CNull)"

definition ESCALATION_REASONS :: "string list" where
  "ESCALATION_REASONS = [''escalated'', ''owner-unresolvable-mint'', ''no-acceptable-harness-mint'']"

definition compose_runner_lease ::
  "seeding \<Rightarrow> string \<Rightarrow> int \<Rightarrow> string \<Rightarrow> string \<Rightarrow> string \<Rightarrow> int \<Rightarrow> instant \<Rightarrow> string option \<Rightarrow> (string \<times> FactRow list) seed" where
  "compose_runner_lease v chunk_id epoch graph_id node_id node_name retries_max created_at session_id =
     sbind (smint v ''lease'') (\<lambda>i. sret (i,
       [composed ''leases''
          [(''lease_id'', CText i), (''chunk_id'', CText chunk_id), (''epoch'', CInt epoch), (''pid'', CNull), (''process_start_time'', CNull),
           (''session_id'', opt_text session_id), (''harness_id'', harness_of session_id), (''created_at'', CTime created_at)],
        composed ''lease_context''
          [(''lease_id'', CText i), (''chunk_id'', CText chunk_id), (''graph_id'', CText graph_id), (''node_id'', CText node_id),
           (''node_name'', CText node_name), (''retries_max'', CInt retries_max), (''session_name'', CNull), (''resolved_model'', CNull),
           (''resolved_effort'', CNull), (''resolved_compaction_window'', CNull), (''recorded_at'', CTime created_at)]]))"

definition compose_lease_closure :: "string \<Rightarrow> string \<Rightarrow> string \<Rightarrow> string \<Rightarrow> instant \<Rightarrow> FactRow" where
  "compose_lease_closure lease_id chunk_id node_id reason closed_at =
     composed ''lease_closures''
       [(''lease_id'', CText lease_id), (''chunk_id'', CText chunk_id), (''node_id'', CText node_id), (''reason'', CText reason),
        (''closed_at'', CTime closed_at)]"

section \<open>Asks, environments, takeovers, the brake\<close>

definition compose_ask_park ::
  "(json \<Rightarrow> string) \<Rightarrow> string \<Rightarrow> string \<Rightarrow> string \<Rightarrow> string \<Rightarrow> string list \<Rightarrow> string option \<Rightarrow> instant \<Rightarrow> instant \<Rightarrow> FactRow list" where
  "compose_ask_park dumps lease_id chunk_id question_id question options session_id asked_at parked_at =
     [composed ''asks''
        [(''lease_id'', CText lease_id), (''chunk_id'', CText chunk_id), (''question_id'', CText question_id), (''question'', CText question),
         (''options'', CText (dumps (JList (map JStr options)))), (''session_id'', opt_text session_id), (''harness_id'', harness_of session_id),
         (''asked_at'', CTime asked_at)],
      composed ''park_facts''
        [(''lease_id'', CText lease_id), (''chunk_id'', CText chunk_id), (''question_id'', CText question_id), (''parked_at'', CTime parked_at)]]"

definition compose_env_binding :: "string \<Rightarrow> string \<Rightarrow> string \<Rightarrow> instant \<Rightarrow> FactRow" where
  "compose_env_binding chunk_id environment_id workdir bound_at =
     composed ''env_bindings''
       [(''chunk_id'', CText chunk_id), (''environment_id'', CText environment_id), (''workdir'', CText workdir), (''bound_at'', CTime bound_at)]"

definition compose_takeover ::
  "seeding \<Rightarrow> string \<Rightarrow> string option \<Rightarrow> string option \<Rightarrow> string \<Rightarrow> int option \<Rightarrow> instant \<Rightarrow> FactRow seed" where
  "compose_takeover v chunk_id lease_id session_id workdir fence_epoch opened_at =
     sbind (smint v ''tko'') (\<lambda>i. sret (composed ''takeovers''
       [(''takeover_id'', CText i), (''chunk_id'', CText chunk_id), (''lease_id'', opt_text lease_id), (''session_id'', opt_text session_id),
        (''harness_id'', harness_of session_id), (''workdir'', CText workdir), (''fence_epoch'', opt_cell CInt fence_epoch),
        (''opened_at'', CTime opened_at)]))"

definition compose_local_pause :: "instant \<Rightarrow> string option \<Rightarrow> FactRow" where
  "compose_local_pause set_at reason =
     composed ''local_pause_facts''
       [(''paused'', CFlag True), (''set_at'', CTime set_at), (''set_by'', CText ''mock-data''), (''reason'', opt_text reason)]"

definition compose_outbound_fact ::
  "(json \<Rightarrow> string) \<Rightarrow> string \<Rightarrow> string option \<Rightarrow> string option \<Rightarrow> json \<Rightarrow> instant \<Rightarrow> instant option \<Rightarrow> FactRow" where
  "compose_outbound_fact dumps kind chunk_id lease_id body created_at acked_at =
     composed ''outbound_buffer''
       [(''kind'', CText kind), (''chunk_id'', opt_text chunk_id), (''lease_id'', opt_text lease_id), (''payload'', CText (dumps body)),
        (''created_at'', CTime created_at), (''acked_at'', opt_cell CTime acked_at)]"

section \<open>Transcript segments and usage\<close>

record segment_spec =
  sg_chunk_id :: string
  sg_node_id :: string
  sg_epoch :: int
  sg_generation :: int
  sg_lease_id :: string
  sg_session_id :: string
  sg_harness_id :: string
  sg_normalizer :: string
  sg_cursor :: "string option"
  sg_bytes :: int
  sg_turns :: int
  sg_harness_version :: "string option"
  sg_finalized_at :: "instant option"
  sg_stamped_at :: instant

definition compose_transcript_segment :: "seeding \<Rightarrow> segment_spec \<Rightarrow> (string \<times> FactRow) seed" where
  "compose_transcript_segment v s =
     sbind (smint v ''seg'') (\<lambda>i. sret (i, composed ''transcript_segments''
       ([(''segment_id'', CText i), (''chunk_id'', CText (sg_chunk_id s)), (''node_id'', CText (sg_node_id s)), (''epoch'', CInt (sg_epoch s)),
         (''generation'', CInt (sg_generation s)), (''lease_id'', CText (sg_lease_id s)), (''session_id'', CText (sg_session_id s)),
         (''harness_id'', CText (sg_harness_id s)), (''cursor'', opt_text (sg_cursor s)), (''shipped_bytes'', CInt (sg_bytes s)),
         (''shipped_turns'', CInt (sg_turns s)), (''normalizer_version'', CText (sg_normalizer s)),
         (''harness_version'', opt_text (sg_harness_version s))]
        @ map (\<lambda>k. (k, CNull))
            [''truncated_reason'', ''truncated_reason_severity'', ''shipping_stopped_reason'', ''sidechain_warned_agents'', ''agent_tool_use_ids'',
             ''truncated_reasons_warned'', ''supersedes'']
        @ [(''finalized_at'', opt_cell CTime (sg_finalized_at s)), (''stamped_at'', CTime (sg_stamped_at s))])))"

definition compose_final_marker :: "(json \<Rightarrow> string) \<Rightarrow> string \<Rightarrow> string \<Rightarrow> instant \<Rightarrow> instant option \<Rightarrow> FactRow" where
  "compose_final_marker dumps segment_id chunk_id created_at acked_at =
     composed ''transcript_outbound_buffer''
       [(''segment_id'', CText segment_id), (''chunk_id'', CText chunk_id), (''final'', CFlag True),
        (''payload'', CText (dumps (JObj [(''segment_id'', JStr segment_id)]))), (''created_at'', CTime created_at),
        (''acked_at'', opt_cell CTime acked_at)]"

definition compose_runner_usage :: "usage_spec \<Rightarrow> string \<Rightarrow> int \<Rightarrow> instant \<Rightarrow> seed_error + FactRow" where
  "compose_runner_usage u lease_id generation recorded_at =
     (if us_kind u \<notin> set USAGE_KINDS then Inl (unknown_usage_kind u)
      else Inr (composed ''usage_facts'' (usage_values u
             [(''lease_id'', CText lease_id), (''chunk_id'', CText (us_chunk_id u)), (''node_id'', CText (us_node_id u)),
              (''epoch'', CInt (us_epoch u)), (''generation'', CInt generation)] recorded_at)))"

section \<open>The mirror of a board\<close>

fun index_of :: "'a \<Rightarrow> 'a list \<Rightarrow> nat" where
  "index_of x [] = 0"
| "index_of x (y # ys) = (if x = y then 0 else Suc (index_of x ys))"

definition minimum_chunks_for_mirror :: int where
  "minimum_chunks_for_mirror = int (max (index_of ''waiting_on_human'' STATUS_ORDER) (index_of ''needs_human'' STATUS_ORDER)) + 1"

record fleet_scenario =
  fs_rows :: "FactRow list"
  fs_brake :: "FactRow list"

definition mirror_workdir :: "string \<Rightarrow> string" where "mirror_workdir chunk_id = ''/mock/workdir/'' @ chunk_id"

definition mirror_environment :: "string \<Rightarrow> string" where "mirror_environment chunk_id = ''env-'' @ chunk_id"

definition mirror_usage :: "string \<Rightarrow> string \<Rightarrow> int \<Rightarrow> int \<Rightarrow> money \<Rightarrow> usage_spec" where
  "mirror_usage chunk_id node_id inp out cost =
     \<lparr>us_chunk_id = chunk_id, us_node_id = node_id, us_epoch = 1, us_kind = ''spawn'', us_model = ''claude-mock-fleet'', us_input = inp,
      us_output = out, us_cache_read = 0, us_cache_create = 0, us_cost = Some cost, us_estimated = None\<rparr>"

definition mirror_segment :: "string \<Rightarrow> string \<Rightarrow> string \<Rightarrow> string \<Rightarrow> instant option \<Rightarrow> instant \<Rightarrow> segment_spec" where
  "mirror_segment chunk_id node_id lease_id session_id finalized_at stamped_at =
     \<lparr>sg_chunk_id = chunk_id, sg_node_id = node_id, sg_epoch = 1, sg_generation = 1, sg_lease_id = lease_id, sg_session_id = session_id,
      sg_harness_id = SEED_HARNESS_ID, sg_normalizer = ''mock-1'', sg_cursor = None, sg_bytes = 0, sg_turns = 0, sg_harness_version = None,
      sg_finalized_at = finalized_at, sg_stamped_at = stamped_at\<rparr>"

definition mirror_question :: string where
  "mirror_question = ''mock-data: which way should this chunk go? (fleet mirror)''"

definition mirror_waiting :: "seeding \<Rightarrow> string \<Rightarrow> string \<Rightarrow> string \<Rightarrow> instant \<Rightarrow> FactRow list seed" where
  "mirror_waiting v graph_id node_id chunk now =
     sbind (compose_runner_lease v chunk 1 graph_id node_id BUILD_NODE_NAME 3 now None) (\<lambda>(lease, lease_rows).
     sbind (smint v ''qn'') (\<lambda>question.
     sbind (scheck (compose_runner_usage (mirror_usage chunk node_id 512 128 (18 / 100, ''0.18'')) lease 1 now)) (\<lambda>usage.
     sbind (smint v ''sess'') (\<lambda>session.
     sbind (compose_transcript_segment v (mirror_segment chunk node_id lease session None now)) (\<lambda>(segment, segment_row).
     sret (lease_rows
       @ [compose_env_binding chunk (mirror_environment chunk) (mirror_workdir chunk) now]
       @ compose_ask_park (sd_dumps v) lease chunk question mirror_question [] None now now
       @ [usage, segment_row,
          compose_outbound_fact (sd_dumps v) ''question.asked'' (Some chunk) (Some lease)
            (JObj [(''question_id'', JStr question), (''chunk_id'', JStr chunk), (''epoch'', JInt 1), (''question'', JStr mirror_question)])
            now (Some now)]))))))"

definition mirror_needs_human :: "seeding \<Rightarrow> string \<Rightarrow> string \<Rightarrow> string \<Rightarrow> string \<Rightarrow> instant \<Rightarrow> FactRow list seed" where
  "mirror_needs_human v graph_id node_id reason chunk now =
     sbind (smint v ''sess'') (\<lambda>session.
     sbind (compose_runner_lease v chunk 1 graph_id node_id BUILD_NODE_NAME 3 now (Some session)) (\<lambda>(lease, lease_rows).
     sbind (compose_takeover v chunk (Some lease) (Some session) (mirror_workdir chunk) None now) (\<lambda>takeover.
     sbind (scheck (compose_runner_usage (mirror_usage chunk node_id 768 201 (27 / 100, ''0.27'')) lease 1 now)) (\<lambda>usage.
     sbind (compose_transcript_segment v (mirror_segment chunk node_id lease session (Some now) now)) (\<lambda>(segment, segment_row).
     sret (lease_rows
       @ [compose_lease_closure lease chunk node_id reason now,
          compose_env_binding chunk (mirror_environment chunk) (mirror_workdir chunk) now, takeover, usage, segment_row,
          compose_final_marker (sd_dumps v) segment chunk now (Some now),
          compose_outbound_fact (sd_dumps v) ''escalation.recorded'' (Some chunk) (Some lease)
            (JObj [(''chunk_id'', JStr chunk), (''epoch'', JInt 1)]) now (Some now)]))))))"

definition compose_runner_fleet :: "seeding \<Rightarrow> BoardCensus \<Rightarrow> string \<Rightarrow> string \<Rightarrow> fleet_scenario seed" where
  "compose_runner_fleet v census graph_id reason =
     (if reason \<notin> set ESCALATION_REASONS
      then seed_refused ''fleet'' (''unknown escalation reason '' @ py_repr reason @ '' '' @ em_dash @ '' one of '' @ repr_tuple ESCALATION_REASONS)
      else case (entry_with ''waiting_on_human'' (bc_chunk_entries census), entry_with ''needs_human'' (bc_chunk_entries census)) of
        (Some waiting, Some stuck) \<Rightarrow>
          sbind (snow v) (\<lambda>now.
          sbind (mirror_waiting v graph_id (bc_build_node_id census) (ce_chunk_id waiting) now) (\<lambda>rows1.
          sbind (mirror_needs_human v graph_id (bc_build_node_id census) reason (ce_chunk_id stuck) now) (\<lambda>rows2.
          sret \<lparr>fs_rows = rows1 @ rows2, fs_brake = [compose_local_pause now None]\<rparr>)))
      | _ \<Rightarrow> seed_refused ''fleet'' (''the hub census carries no waiting_on_human/needs_human chunk to mirror '' @ em_dash
               @ '' pass --chunks '' @ show_int minimum_chunks_for_mirror @ '' or more''))"

end
