(* ===== verification/Seed_Facts.thy ===== *)
theory Seed_Facts
  imports Seed_Runner
begin

text \<open>
  What the composed rows amount to. A chunk has no status column: its status is derived from its rows, in the
  precedence \<^verbatim>\<open>chunk_seed.py\<close> documents, stated here as \<open>derived_status\<close>. The lemmas say when a chunk can be
  composed and that its rows derive the status asked for, that every id a board's rows name is the key of a
  row of the board, and that the census says what the rows hold.
\<close>

section \<open>The status a chunk's rows derive\<close>

definition has_rows :: "string \<Rightarrow> FactRow list \<Rightarrow> bool" where
  "has_rows t rows \<longleftrightarrow> list_ex (\<lambda>row. fr_table row = t) rows"

definition landings :: "FactRow list \<Rightarrow> string list" where
  "landings rows = map (\<lambda>row. case dget (fr_values row) ''to_node_id'' of Some (CText i) \<Rightarrow> i | _ \<Rightarrow> '''')
     (filter (\<lambda>row. fr_table row = ''transitions'') rows)"

definition executor_of :: "GraphContext \<Rightarrow> string \<Rightarrow> string option" where
  "executor_of g i = map_option nr_executor (find (\<lambda>r. nr_node_id r = i) (dvals (gc_nodes g)))"

definition derived_status :: "GraphContext \<Rightarrow> FactRow list \<Rightarrow> string" where
  "derived_status g rows =
     (if has_rows ''chunk_stopped'' rows then ''stopped''
      else if RESERVED_TERMINAL \<in> set (landings rows) then ''done''
      else if has_rows ''escalations'' rows then ''needs_human''
      else if has_rows ''questions'' rows then ''waiting_on_human''
      else if has_rows ''chunk_pause_facts'' rows then ''paused''
      else if has_rows ''route_created'' rows
      then (if executor_of g (last (landings rows)) = Some ''hub'' then ''delivering'' else ''running'')
      else if has_rows ''chunk_promoted'' rows then ''ready'' else ''not_ready'')"

definition graph_sound :: "GraphContext \<Rightarrow> bool" where
  "graph_sound g \<longleftrightarrow> distinct (dkeys (gc_nodes g)) \<and> distinct (map nr_node_id (dvals (gc_nodes g)))
     \<and> RESERVED_TERMINAL \<notin> nr_node_id ` set (dvals (gc_nodes g))"

text \<open>The node a status lands on by default, and what it asks of the node.\<close>

definition default_node :: "string \<Rightarrow> string" where
  "default_node status = (if status = ''done'' \<or> status = ''delivering'' then DELIVER_NODE_NAME else BUILD_NODE_NAME)"

definition node_fits :: "chunk_request \<Rightarrow> GraphContext \<Rightarrow> bool" where
  "node_fits c g \<longleftrightarrow>
     (if cp_status c = ''ready'' \<or> cp_status c = ''not_ready'' then cp_node_name c = None
      else if cp_status c = ''stopped'' then (case cp_node_name c of None \<Rightarrow> True | Some name \<Rightarrow> dget (gc_nodes g) name \<noteq> None)
      else (case dget (gc_nodes g) (str_or (cp_node_name c) (default_node (cp_status c))) of
              None \<Rightarrow> False
            | Some r \<Rightarrow>
                (cp_status c = ''delivering'' \<longrightarrow> nr_executor r = ''hub'') \<and> (cp_status c = ''running'' \<longrightarrow> nr_executor r \<noteq> ''hub'')
                \<and> (cp_status c = ''done'' \<longrightarrow> dget (gc_nodes g) BUILD_NODE_NAME \<noteq> None)))"

definition chunk_composes :: "chunk_request \<Rightarrow> GraphContext \<Rightarrow> bool" where
  "chunk_composes c g \<longleftrightarrow>
     cp_status c \<in> set CHUNK_STATUSES \<and> ((cp_cause c \<noteq> None \<or> cp_detail c \<noteq> None) \<longrightarrow> cp_status c = ''needs_human'') \<and> node_fits c g"

lemmas chunk_rows_defs = promoted_row_def transition_row_def route_created_row_def escalation_row_def question_row_def
  compose_lease_rows_def compose_lease_row_def compose_epoch_owner_row_def

lemmas status_row_defs = stopped_rows_def done_rows_def needs_human_rows_def waiting_rows_def paused_rows_def routed_rows_def
  delivering_rows_def running_rows_def landed_node_def refuse_node_def graph_node_def

lemma executor_of_node:
  assumes "graph_sound g" "dget (gc_nodes g) name = Some r"
  shows "executor_of g (nr_node_id r) = Some (nr_executor r)" "nr_node_id r \<noteq> RESERVED_TERMINAL"
proof -
  have r: "r \<in> set (dvals (gc_nodes g))" using map_of_SomeD [OF assms(2)] by force
  have d: "distinct (map nr_node_id (dvals (gc_nodes g)))" using assms(1) by (simp add: graph_sound_def)
  have "find (\<lambda>x. nr_node_id x = nr_node_id r) xs = Some r" if "distinct (map nr_node_id xs)" "r \<in> set xs" for xs
    using that by (induction xs) auto
  from this [OF d r] show "executor_of g (nr_node_id r) = Some (nr_executor r)" by (simp add: executor_of_def)
  show "nr_node_id r \<noteq> RESERVED_TERMINAL" using r assms(1) unfolding graph_sound_def by (metis image_eqI)
qed

text \<open>The rows of each status: they come about exactly when the node fits, and are these.\<close>

definition status_ok :: "seeding \<Rightarrow> chunk_request \<Rightarrow> GraphContext \<Rightarrow> string \<Rightarrow> instant \<Rightarrow> nat \<Rightarrow> bool" where
  "status_ok v c g i now n \<longleftrightarrow>
     (case status_rows v c g i now n of
        Inl _ \<Rightarrow> \<not> node_fits c g
      | Inr (rows, n1) \<Rightarrow> node_fits c g \<and> derived_status g rows = cp_status c
          \<and> (cp_status c \<in> set MIRRORED_STATUSES \<longrightarrow> derived_status g (rows @ [composed ''route_created'' []]) = cp_status c))"

lemma rows_tables [simp]:
  "has_rows t (row # rows) \<longleftrightarrow> fr_table row = t \<or> has_rows t rows" "\<not> has_rows t []"
  "has_rows t (xs @ ys) \<longleftrightarrow> has_rows t xs \<or> has_rows t ys"
  by (simp_all add: has_rows_def)

lemma landings_simps [simp]:
  "landings [] = []" "landings (xs @ ys) = landings xs @ landings ys"
  "landings (row # rows) =
     (if fr_table row = ''transitions'' then [case dget (fr_values row) ''to_node_id'' of Some (CText i) \<Rightarrow> i | _ \<Rightarrow> ''''] else []) @ landings rows"
  by (simp_all add: landings_def)

lemma RESERVED_TERMINAL_simp: "RESERVED_TERMINAL = ''done''"
  by (simp add: RESERVED_TERMINAL_def)

lemma stopped_ok: "graph_sound g \<Longrightarrow> cp_status c = ''stopped'' \<Longrightarrow> status_ok v c g i now n"
  by (cases "cp_node_name c"; cases "dget (gc_nodes g) (the (cp_node_name c))")
    (simp_all add: status_ok_def status_rows_def stopped_rows_def graph_node_def node_fits_def derived_status_def chunk_rows_defs
      MIRRORED_STATUSES_def)

lemma done_ok: "graph_sound g \<Longrightarrow> cp_status c = ''done'' \<Longrightarrow> status_ok v c g i now n"
  by (cases "dget (gc_nodes g) BUILD_NODE_NAME"; cases "dget (gc_nodes g) (str_or (cp_node_name c) DELIVER_NODE_NAME)")
    (simp_all add: status_ok_def status_rows_def done_rows_def graph_node_def node_fits_def derived_status_def chunk_rows_defs
      MIRRORED_STATUSES_def default_node_def RESERVED_TERMINAL_def)

lemma needs_human_ok: "graph_sound g \<Longrightarrow> cp_status c = ''needs_human'' \<Longrightarrow> status_ok v c g i now n"
  using executor_of_node [of g "str_or (cp_node_name c) BUILD_NODE_NAME"]
  by (cases "dget (gc_nodes g) (str_or (cp_node_name c) BUILD_NODE_NAME)")
    (simp_all add: status_ok_def status_rows_def needs_human_rows_def landed_node_def graph_node_def node_fits_def derived_status_def
      chunk_rows_defs MIRRORED_STATUSES_def default_node_def RESERVED_TERMINAL_def)

lemma waiting_ok: "graph_sound g \<Longrightarrow> cp_status c = ''waiting_on_human'' \<Longrightarrow> status_ok v c g i now n"
  using executor_of_node [of g "str_or (cp_node_name c) BUILD_NODE_NAME"]
  by (cases "dget (gc_nodes g) (str_or (cp_node_name c) BUILD_NODE_NAME)")
    (simp_all add: status_ok_def status_rows_def waiting_rows_def landed_node_def graph_node_def node_fits_def derived_status_def
      chunk_rows_defs MIRRORED_STATUSES_def default_node_def RESERVED_TERMINAL_def)

lemma paused_ok: "graph_sound g \<Longrightarrow> cp_status c = ''paused'' \<Longrightarrow> status_ok v c g i now n"
  using executor_of_node [of g "str_or (cp_node_name c) BUILD_NODE_NAME"]
  by (cases "dget (gc_nodes g) (str_or (cp_node_name c) BUILD_NODE_NAME)")
    (simp_all add: status_ok_def status_rows_def paused_rows_def landed_node_def graph_node_def node_fits_def derived_status_def
      chunk_rows_defs MIRRORED_STATUSES_def default_node_def RESERVED_TERMINAL_def)

lemma delivering_ok: "graph_sound g \<Longrightarrow> cp_status c = ''delivering'' \<Longrightarrow> status_ok v c g i now n"
  using executor_of_node [of g "str_or (cp_node_name c) DELIVER_NODE_NAME"]
  by (cases "dget (gc_nodes g) (str_or (cp_node_name c) DELIVER_NODE_NAME)")
    (simp_all add: status_ok_def status_rows_def delivering_rows_def routed_rows_def landed_node_def graph_node_def node_fits_def
      derived_status_def chunk_rows_defs MIRRORED_STATUSES_def default_node_def RESERVED_TERMINAL_def)

lemma running_ok: "graph_sound g \<Longrightarrow> cp_status c = ''running'' \<Longrightarrow> status_ok v c g i now n"
  using executor_of_node [of g "str_or (cp_node_name c) BUILD_NODE_NAME"]
  by (cases "dget (gc_nodes g) (str_or (cp_node_name c) BUILD_NODE_NAME)")
    (simp_all add: status_ok_def status_rows_def running_rows_def routed_rows_def landed_node_def graph_node_def node_fits_def
      derived_status_def chunk_rows_defs MIRRORED_STATUSES_def default_node_def RESERVED_TERMINAL_def)

lemma unlanded_ok: "cp_status c = ''ready'' \<or> cp_status c = ''not_ready'' \<Longrightarrow> status_ok v c g i now n"
  by (auto simp: status_ok_def status_rows_def refuse_node_def node_fits_def derived_status_def chunk_rows_defs MIRRORED_STATUSES_def)

lemma status_rows_ok: "graph_sound g \<Longrightarrow> cp_status c \<in> set CHUNK_STATUSES \<Longrightarrow> status_ok v c g i now n"
  using stopped_ok done_ok needs_human_ok waiting_ok paused_ok delivering_ok running_ok unlanded_ok
  by (auto simp: CHUNK_STATUSES_def)

section \<open>What a row names\<close>

text \<open>The columns by which a row names another, with the table whose key they name.\<close>

definition REFERENCES :: "(string \<times> string) list" where
  "REFERENCES =
     [(''chunk_id'', ''chunks''), (''graph_id'', ''graphs''), (''node_id'', ''graph_nodes''), (''from_node_id'', ''graph_nodes''),
      (''to_node_id'', ''graph_nodes''), (''entry_node_id'', ''graph_nodes''), (''runner_id'', ''runner_registrations''),
      (''choice_id'', ''graph_choices'')]"

definition KEY_COLUMNS :: "(string \<times> string) list" where
  "KEY_COLUMNS =
     [(''chunks'', ''chunk_id''), (''graphs'', ''graph_id''), (''graph_nodes'', ''node_id''), (''runner_registrations'', ''runner_id''),
      (''graph_choices'', ''choice_id'')]"

definition key_of :: "FactRow \<Rightarrow> string option" where
  "key_of row =
     (case dget KEY_COLUMNS (fr_table row) of
        None \<Rightarrow> None
      | Some k \<Rightarrow> (case dget (fr_values row) k of Some (CText s) \<Rightarrow> Some s | _ \<Rightarrow> None))"

definition keys_in :: "FactRow list \<Rightarrow> string \<Rightarrow> string list" where
  "keys_in rows t =
     concat (map (\<lambda>row. if fr_table row = t then (case key_of row of None \<Rightarrow> [] | Some k \<Rightarrow> [k]) else []) rows)"

definition cell_known :: "(string \<Rightarrow> string set) \<Rightarrow> string \<times> cell \<Rightarrow> bool" where
  "cell_known K kx \<longleftrightarrow>
     (case dget REFERENCES (fst kx) of
        None \<Rightarrow> True
      | Some t \<Rightarrow>
          (case snd kx of
             CNull \<Rightarrow> True
           | CText s \<Rightarrow> s \<in> K t \<or> fst kx = ''to_node_id'' \<and> s = RESERVED_TERMINAL
           | _ \<Rightarrow> False))"

definition row_known :: "(string \<Rightarrow> string set) \<Rightarrow> FactRow \<Rightarrow> bool" where
  "row_known K row \<longleftrightarrow> list_all (cell_known K) (fr_values row)"

lemma cell_known_simps [simp]:
  "cell_known K (k, CNull)"
  "cell_known K (''chunk_id'', CText s) \<longleftrightarrow> s \<in> K ''chunks''"
  "cell_known K (''graph_id'', CText s) \<longleftrightarrow> s \<in> K ''graphs''"
  "cell_known K (''node_id'', CText s) \<longleftrightarrow> s \<in> K ''graph_nodes''"
  "cell_known K (''from_node_id'', CText s) \<longleftrightarrow> s \<in> K ''graph_nodes''"
  "cell_known K (''to_node_id'', CText s) \<longleftrightarrow> s \<in> K ''graph_nodes'' \<or> s = RESERVED_TERMINAL"
  "cell_known K (''entry_node_id'', CText s) \<longleftrightarrow> s \<in> K ''graph_nodes''"
  "cell_known K (''runner_id'', CText s) \<longleftrightarrow> s \<in> K ''runner_registrations''"
  "cell_known K (''choice_id'', CText s) \<longleftrightarrow> s \<in> K ''graph_choices''"
  by (auto simp: cell_known_def REFERENCES_def split: option.split)

lemma cell_known_free [simp]: "dget REFERENCES k = None \<Longrightarrow> cell_known K (k, x)"
  by (simp add: cell_known_def)

lemma row_known_composed [simp]: "row_known K (composed t kvs) \<longleftrightarrow> list_all (cell_known K) kvs"
  by (simp add: row_known_def)

text \<open>What a chunk's rows may name: the chunk, its graph with the nodes of it, and its runner.\<close>

definition knows :: "(string \<Rightarrow> string set) \<Rightarrow> GraphContext \<Rightarrow> string \<Rightarrow> string \<Rightarrow> bool" where
  "knows K g i runner \<longleftrightarrow>
     i \<in> K ''chunks'' \<and> gc_graph_id g \<in> K ''graphs'' \<and> (\<forall>r \<in> set (dvals (gc_nodes g)). nr_node_id r \<in> K ''graph_nodes'')
     \<and> runner \<in> K ''runner_registrations''"

lemma knows_node: "knows K g i runner \<Longrightarrow> dget (gc_nodes g) name = Some r \<Longrightarrow> nr_node_id r \<in> K ''graph_nodes''"
  by (auto simp: knows_def dest!: map_of_SomeD)

definition CHUNK_FACT_TABLES :: "string list" where
  "CHUNK_FACT_TABLES =
     [''chunk_work_refs'', ''chunk_promoted'', ''transitions'', ''lease_facts'', ''epoch_owners'', ''route_created'', ''chunk_stopped'',
      ''escalations'', ''questions'', ''chunk_pause_facts'']"

definition chunk_fact :: "(string \<Rightarrow> string set) \<Rightarrow> FactRow \<Rightarrow> bool" where
  "chunk_fact K row \<longleftrightarrow> fr_table row \<in> set CHUNK_FACT_TABLES \<and> row_known K row"

lemma opt_text_known [simp]:
  "cell_known K (k, opt_text x) \<longleftrightarrow> (case x of None \<Rightarrow> True | Some s \<Rightarrow> cell_known K (k, CText s))"
  by (simp add: opt_text_def split: option.split)

lemma promoted_fact: "knows K g i r \<Longrightarrow> chunk_fact K (promoted_row i now)"
  by (simp add: chunk_fact_def CHUNK_FACT_TABLES_def knows_def promoted_row_def REFERENCES_def)

lemma escalation_fact: "knows K g i r \<Longrightarrow> chunk_fact K (escalation_row c i now)"
  by (simp add: chunk_fact_def CHUNK_FACT_TABLES_def knows_def escalation_row_def REFERENCES_def split: option.split)

lemma lease_facts: "knows K g i r \<Longrightarrow> list_all (chunk_fact K) (compose_lease_rows i e r now)"
  by (simp add: chunk_fact_def CHUNK_FACT_TABLES_def knows_def compose_lease_rows_def
      compose_lease_row_def compose_epoch_owner_row_def REFERENCES_def)

lemma work_ref_facts: "knows K g i r \<Longrightarrow> list_all (chunk_fact K) (work_ref_rows i refs)"
  by (induction refs) (auto simp: chunk_fact_def CHUNK_FACT_TABLES_def knows_def work_ref_rows_def REFERENCES_def)

lemma transition_fact:
  assumes "transition_row v c g i t from_id to_id choice n = Inr (row, n1)" "knows K g i (cp_runner_id c)"
    "from_id = None \<or> the from_id \<in> K ''graph_nodes''" "to_id \<in> K ''graph_nodes'' \<or> to_id = RESERVED_TERMINAL"
  shows "chunk_fact K row"
  using assms by (auto simp: transition_row_def chunk_fact_def CHUNK_FACT_TABLES_def knows_def REFERENCES_def split: option.split)

lemma route_fact:
  assumes "route_created_row v c i t n = Inr (row, n1)" "knows K g i (cp_runner_id c)"
  shows "chunk_fact K row"
  using assms by (auto simp: route_created_row_def chunk_fact_def CHUNK_FACT_TABLES_def knows_def REFERENCES_def)

lemma question_fact:
  assumes "question_row v c i node t n = Inr (row, n1)" "knows K g i (cp_runner_id c)" "node \<in> K ''graph_nodes''"
  shows "chunk_fact K row"
  using assms by (auto simp: question_row_def chunk_fact_def CHUNK_FACT_TABLES_def knows_def REFERENCES_def)

lemma scheck_ok: "scheck r n = Inr (x, n1) \<longleftrightarrow> r = Inr x \<and> n1 = n"
  by (auto simp: scheck_def split: sum.splits)

lemma graph_node_ok: "graph_node g name = Inr r \<longleftrightarrow> dget (gc_nodes g) name = Some r"
  by (simp add: graph_node_def split: option.split)

lemma sret_ok: "sret x n = Inr (y, n1) \<longleftrightarrow> y = x \<and> n1 = n"
  by auto

lemma snow_ok: "sbind (snow v) k n = Inr r \<longleftrightarrow> k (sd_now v n) (Suc n) = Inr r"
  by simp

lemma row_facts:
  assumes "knows K g i (cp_runner_id c)"
  shows "chunk_fact K (composed ''chunk_stopped'' [(''chunk_id'', CText i), (''stopped_at'', CTime t), (''stopped_by'', CText s)])"
    "chunk_fact K (composed ''chunk_pause_facts'' [(''chunk_id'', CText i), (''paused'', CFlag b), (''set_at'', CTime t), (''set_by'', CText s)])"
  using assms by (simp_all add: chunk_fact_def CHUNK_FACT_TABLES_def knows_def REFERENCES_def)

lemma status_rows_facts:
  assumes "status_rows v c g i now n = Inr (rows, n1)" "knows K g i (cp_runner_id c)"
  shows "list_all (chunk_fact K) rows"
proof -
  note here = promoted_fact [OF assms(2)] escalation_fact [OF assms(2)] lease_facts [OF assms(2)] row_facts [OF assms(2)]
  note node = knows_node [OF assms(2)]
  note t = transition_fact [OF _ assms(2)] and r = route_fact [OF _ assms(2)] and q = question_fact [OF _ assms(2)]
  note go = sbind_ok scheck_ok sret_ok graph_node_ok landed_node_def
  consider "stopped_rows v c g i now n = Inr (rows, n1)" | "done_rows v c g i now n = Inr (rows, n1)"
    | "needs_human_rows v c g i now n = Inr (rows, n1)" | "waiting_rows v c g i now n = Inr (rows, n1)"
    | "paused_rows v c g i now n = Inr (rows, n1)" | "delivering_rows v c g i now n = Inr (rows, n1)"
    | "running_rows v c g i now n = Inr (rows, n1)" | "rows = [promoted_row i now]" | "rows = []"
    using assms(1) unfolding status_rows_def by (auto simp: go split: if_splits)
  then show ?thesis
  proof cases
    case 1 then show ?thesis by (auto simp: stopped_rows_def go here split: option.splits dest: t intro: node dest!: t)
  next
    case 2 then show ?thesis by (auto simp: done_rows_def go here node split: if_splits dest!: t)
  next
    case 3 then show ?thesis by (auto simp: needs_human_rows_def go here node dest!: t)
  next
    case 4 then show ?thesis by (auto simp: waiting_rows_def go here node dest!: t q)
  next
    case 5 then show ?thesis by (auto simp: paused_rows_def go here node dest!: t)
  next
    case 6 then show ?thesis by (auto simp: delivering_rows_def routed_rows_def go here node split: if_splits dest!: t r)
  next
    case 7 then show ?thesis by (auto simp: running_rows_def routed_rows_def go here node split: if_splits dest!: t r)
  qed (simp_all add: here)
qed

section \<open>A composed chunk\<close>

lemma refuse_spec_ok:
  "refuse_spec c = Inr () \<longleftrightarrow>
     cp_status c \<in> set CHUNK_STATUSES \<and> ((cp_cause c \<noteq> None \<or> cp_detail c \<noteq> None) \<longrightarrow> cp_status c = ''needs_human'')"
  by (simp add: refuse_spec_def)

lemma status_rows_fit:
  assumes "cp_status c \<in> set CHUNK_STATUSES"
  shows "(\<exists>r. status_rows v c g i now n = Inr r) \<longleftrightarrow> node_fits c g"
proof -
  note here = status_rows_def node_fits_def default_node_def graph_node_def landed_node_def chunk_rows_defs
  consider "cp_status c = ''stopped''" | "cp_status c = ''done''" | "cp_status c = ''needs_human''" | "cp_status c = ''waiting_on_human''"
    | "cp_status c = ''paused''" | "cp_status c = ''delivering''" | "cp_status c = ''running''" | "cp_status c = ''not_ready''"
    | "cp_status c = ''ready''"
    using assms by (auto simp: CHUNK_STATUSES_def)
  then show ?thesis
  proof cases
    case 1 then show ?thesis
      by (cases "cp_node_name c"; cases "dget (gc_nodes g) (the (cp_node_name c))") (simp_all add: here stopped_rows_def)
  next
    case 2 then show ?thesis
      by (cases "dget (gc_nodes g) BUILD_NODE_NAME"; cases "dget (gc_nodes g) (str_or (cp_node_name c) DELIVER_NODE_NAME)")
        (simp_all add: here done_rows_def)
  next
    case 3 then show ?thesis
      by (cases "dget (gc_nodes g) (str_or (cp_node_name c) BUILD_NODE_NAME)") (simp_all add: here needs_human_rows_def)
  next
    case 4 then show ?thesis
      by (cases "dget (gc_nodes g) (str_or (cp_node_name c) BUILD_NODE_NAME)") (simp_all add: here waiting_rows_def)
  next
    case 5 then show ?thesis
      by (cases "dget (gc_nodes g) (str_or (cp_node_name c) BUILD_NODE_NAME)") (simp_all add: here paused_rows_def)
  next
    case 6 then show ?thesis
      by (cases "dget (gc_nodes g) (str_or (cp_node_name c) DELIVER_NODE_NAME)") (simp_all add: here delivering_rows_def routed_rows_def)
  next
    case 7 then show ?thesis
      by (cases "dget (gc_nodes g) (str_or (cp_node_name c) BUILD_NODE_NAME)") (simp_all add: here running_rows_def routed_rows_def)
  qed (auto simp: here refuse_node_def)
qed

lemma finish_rows_Inr: "\<exists>more n1. finish_rows v c i now rows n = Inr (rows @ more, n1) \<and>
    (more = [] \<or> cp_mirrored c \<and> (\<exists>r n2. more = [r] \<and> route_created_row v c i (later 5 now) n = Inr (r, n2)))"
  by (auto simp: finish_rows_def route_created_row_def)

lemma chunk_id_of_Inr: "\<exists>i n1. chunk_id_of v c n = Inr (i, n1)"
  by (simp add: chunk_id_of_def smint_def)

lemma compose_chunk_iff: "(\<exists>r. compose_chunk v c g n = Inr r) \<longleftrightarrow> chunk_composes c g"
proof (cases "refuse_spec c = Inr ()")
  case True
  obtain i n1 where i: "chunk_id_of v c n = Inr (i, n1)" using chunk_id_of_Inr by blast
  let ?now = "sd_now v n1"
  have "(\<exists>r. compose_chunk v c g n = Inr r) \<longleftrightarrow> (\<exists>r. status_rows v c g i ?now (Suc n1) = Inr r)"
    using finish_rows_Inr [of v c i ?now] unfolding compose_chunk_def True
    by (cases "status_rows v c g i ?now (Suc n1)") (fastforce simp: i sbind_ok scheck_ok snow_def)+
  then show ?thesis using True status_rows_fit [of c v g i ?now "Suc n1"] by (simp add: chunk_composes_def refuse_spec_ok)
next
  case False
  then obtain e where e: "refuse_spec c = Inl e" by (cases "refuse_spec c") auto
  have "\<not> chunk_composes c g" using False unfolding refuse_spec_ok chunk_composes_def by blast
  then show ?thesis by (simp add: compose_chunk_def e)
qed

lemma compose_chunk_shape:
  assumes "compose_chunk v c g n = Inr ((i, rows), n1)"
  obtains now n2 srows n3 more where "rows = chunk_row i (gc_graph_id g) now # work_ref_rows i (cp_work_refs c) @ srows @ more"
    "status_rows v c g i now n2 = Inr (srows, n3)"
    "more = [] \<or> cp_mirrored c \<and> (\<exists>r n4. more = [r] \<and> route_created_row v c i (later 5 now) n3 = Inr (r, n4))"
proof -
  from assms obtain now n2 srows n3 n4 where s: "status_rows v c g i now n2 = Inr (srows, n3)"
    and f: "finish_rows v c i now (chunk_row i (gc_graph_id g) now # work_ref_rows i (cp_work_refs c) @ srows) n3 = Inr (rows, n4)"
    by (auto simp: compose_chunk_def sbind_ok scheck_ok sret_ok snow_def)
  from finish_rows_Inr [of v c i now "chunk_row i (gc_graph_id g) now # work_ref_rows i (cp_work_refs c) @ srows" n3] f
  obtain more where "rows = chunk_row i (gc_graph_id g) now # work_ref_rows i (cp_work_refs c) @ srows @ more"
    "more = [] \<or> cp_mirrored c \<and> (\<exists>r n4. more = [r] \<and> route_created_row v c i (later 5 now) n3 = Inr (r, n4))"
    by fastforce
  with s show thesis using that by blast
qed

lemma work_refs_neutral [simp]:
  "has_rows t (work_ref_rows i refs) \<longleftrightarrow> t = ''chunk_work_refs'' \<and> refs \<noteq> []" "landings (work_ref_rows i refs) = []"
  by (induction refs) (auto simp: work_ref_rows_def has_rows_def landings_def)

lemma derived_base: "derived_status g (chunk_row i gid now # work_ref_rows i refs @ rows) = derived_status g rows"
  by (simp add: derived_status_def chunk_row_def)

lemma derived_route:
  "route_created_row v c i t n = Inr (r, n1) \<Longrightarrow> derived_status g (rows @ [r]) = derived_status g (rows @ [composed ''route_created'' []])"
  by (auto simp: route_created_row_def derived_status_def)

lemma compose_chunk_derives:
  assumes "compose_chunk v c g n = Inr ((i, rows), n1)" "graph_sound g" "cp_mirrored c \<longrightarrow> cp_status c \<in> set MIRRORED_STATUSES"
  shows "derived_status g rows = cp_status c"
proof -
  from assms(1) obtain now n2 srows n3 more where
    rows: "rows = chunk_row i (gc_graph_id g) now # work_ref_rows i (cp_work_refs c) @ srows @ more"
    and s: "status_rows v c g i now n2 = Inr (srows, n3)"
    and more: "more = [] \<or> cp_mirrored c \<and> (\<exists>r n4. more = [r] \<and> route_created_row v c i (later 5 now) n3 = Inr (r, n4))"
    by (rule compose_chunk_shape)
  from assms(1) compose_chunk_iff have "cp_status c \<in> set CHUNK_STATUSES" by (metis chunk_composes_def)
  from status_rows_ok [OF assms(2) this, of v i now n2] s
  have "derived_status g srows = cp_status c"
    "cp_status c \<in> set MIRRORED_STATUSES \<Longrightarrow> derived_status g (srows @ [composed ''route_created'' []]) = cp_status c"
    by (auto simp: status_ok_def)
  with more assms(3) show ?thesis unfolding rows derived_base by (auto simp: derived_route)
qed

lemma compose_chunk_facts:
  assumes "compose_chunk v c g n = Inr ((i, rows), n1)" "knows K g i (cp_runner_id c)"
  shows "\<exists>now rest. rows = chunk_row i (gc_graph_id g) now # rest \<and> list_all (chunk_fact K) rest"
proof -
  from assms(1) obtain now n2 srows n3 more where
    rows: "rows = chunk_row i (gc_graph_id g) now # work_ref_rows i (cp_work_refs c) @ srows @ more"
    and s: "status_rows v c g i now n2 = Inr (srows, n3)"
    and more: "more = [] \<or> cp_mirrored c \<and> (\<exists>r n4. more = [r] \<and> route_created_row v c i (later 5 now) n3 = Inr (r, n4))"
    by (rule compose_chunk_shape)
  from more have "list_all (chunk_fact K) more" using route_fact [OF _ assms(2)] by auto
  then show ?thesis using status_rows_facts [OF s assms(2)] work_ref_facts [OF assms(2)] rows by (intro exI [of _ now]) simp
qed

end
