(* ===== verification/Seed_World.thy ===== *)
theory Seed_World
  imports Seed_Facts
begin

text \<open>
  The scenario board as a whole: that it can always be composed, that every id its rows name is the key of a
  row of it, and that its census says what the rows hold.
\<close>

section \<open>Lists of composers\<close>

lemma sfor_Inr:
  "(\<And>x n. x \<in> set xs \<Longrightarrow> \<exists>r. f x n = Inr r) \<Longrightarrow> \<exists>r. sfor f xs n = Inr r"
proof (induction xs arbitrary: n)
  case (Cons x xs)
  obtain y n1 where "f x n = Inr (y, n1)" using Cons.prems [of x n] by auto
  moreover obtain ys n2 where "sfor f xs n1 = Inr (ys, n2)" using Cons.IH [of n1] Cons.prems by auto
  ultimately show ?case by simp
qed simp

lemma sfor_all2:
  "sfor f xs n = Inr (ys, n1) \<Longrightarrow> list_all2 (\<lambda>x y. \<exists>n n1. f x n = Inr (y, n1)) xs ys"
  by (induction xs arbitrary: n ys) (fastforce simp: sbind_ok)+

lemma sfor_each:
  assumes "sfor f xs n = Inr (ys, n1)" "\<And>x n y n1. x \<in> set xs \<Longrightarrow> f x n = Inr (y, n1) \<Longrightarrow> P y"
  shows "list_all P ys"
proof -
  have "\<exists>n n1. f (xs ! k) n = Inr (ys ! k, n1)" "k < length xs" if "k < length ys" for k
    using sfor_all2 [OF assms(1)] that by (auto simp: list_all2_conv_all_nth)
  then show ?thesis using assms(2) by (meson list_all_length nth_mem)
qed

lemma sfor_length: "sfor f xs n = Inr (ys, n1) \<Longrightarrow> length ys = length xs"
  by (drule sfor_all2) (simp add: list_all2_lengthD)

section \<open>Keys\<close>

lemma keys_in_simps [simp]:
  "keys_in [] t = []" "keys_in (xs @ ys) t = keys_in xs t @ keys_in ys t"
  "keys_in (row # rows) t = (if fr_table row = t then (case key_of row of None \<Rightarrow> [] | Some k \<Rightarrow> [k]) else []) @ keys_in rows t"
  by (simp_all add: keys_in_def)

lemma keys_in_concat: "keys_in (concat xss) t = concat (map (\<lambda>xs. keys_in xs t) xss)"
  by (induction xss) simp_all

lemma no_keys: "list_all (\<lambda>row. fr_table row \<noteq> t) rows \<Longrightarrow> keys_in rows t = []"
  by (induction rows) auto

lemma count_table_simps [simp]:
  "count_table t [] = 0" "count_table t (xs @ ys) = count_table t xs + count_table t ys"
  "count_table t (row # rows) = (if fr_table row = t then 1 else 0) + count_table t rows"
  by (simp_all add: count_table_def)

lemma count_none: "list_all (\<lambda>row. fr_table row \<noteq> t) rows \<Longrightarrow> count_table t rows = 0"
  by (induction rows) auto

lemma count_all: "list_all (\<lambda>row. fr_table row = t) rows \<Longrightarrow> count_table t rows = length rows"
  by (induction rows) auto

lemma cell_known_mono: "cell_known K kx \<Longrightarrow> (\<And>t. K t \<subseteq> L t) \<Longrightarrow> cell_known L kx"
  by (cases "dget REFERENCES (fst kx)"; cases "snd kx") (auto simp: cell_known_def)

lemma row_known_mono: "row_known K row \<Longrightarrow> (\<And>t. K t \<subseteq> L t) \<Longrightarrow> row_known L row"
  unfolding row_known_def list_all_iff using cell_known_mono by blast

text \<open>Facts of a chunk name no key of another table.\<close>

lemma chunk_facts_none:
  "list_all (chunk_fact K) rows \<Longrightarrow> t \<notin> set CHUNK_FACT_TABLES \<Longrightarrow> keys_in rows t = [] \<and> count_table t rows = 0"
  by (induction rows) (auto simp: chunk_fact_def)

section \<open>The graph\<close>

definition graph_rows_ok :: "MintedGraph \<Rightarrow> bool" where
  "graph_rows_ok mg \<longleftrightarrow>
     (\<exists>gid bid did. mg_context mg = minted_context gid bid did \<and> keys_in (mg_rows mg) ''graphs'' = [gid]
        \<and> keys_in (mg_rows mg) ''graph_nodes'' = [bid, did])
     \<and> keys_in (mg_rows mg) ''chunks'' = [] \<and> keys_in (mg_rows mg) ''runner_registrations'' = []
     \<and> count_table ''usage_facts'' (mg_rows mg) = 0
     \<and> list_all (row_known (\<lambda>t. set (keys_in (mg_rows mg) t))) (mg_rows mg)"

lemma compose_graph_form:
  assumes "compose_graph v name a n = Inr (mg, n1)"
  obtains gid bid did aid lid b1 b2 b3 now where
    "mg = \<lparr>mg_context = minted_context gid bid did, mg_rows = minted_rows name a gid bid did aid lid [b1, b2, b3] now\<rparr>"
  using assms by (auto simp: compose_graph_def BACK_TO_BUILD_CHOICES_def sbind_ok)

lemma deliver_row_eq:
  "deliver_row did gid a = composed ''graph_nodes''
     ([(''node_id'', CText did), (''graph_id'', CText gid), (''name'', CText DELIVER_NODE_NAME), (''executor'', CText ''hub''),
       (''session'', CText ''resume''), (''judged_by'', CText ''worker'')]
      @ (if a then [(''action'', CText LAND_ACTION), (''action_args'', CNull)] else []))"
  by (simp add: deliver_row_def graph_node_row_def Let_def with_values_def composed_def ACTION_COLUMN_def)

lemma minted_keys:
  "keys_in (minted_rows name a gid bid did aid lid [b1, b2, b3] now) t =
     (if t = ''graphs'' then [gid] else if t = ''graph_nodes'' then [bid, did] else if t = ''graph_choices'' then [aid, lid, b1, b2, b3] else [])"
  by (simp add: minted_rows_def BACK_TO_BUILD_CHOICES_def graph_node_row_def deliver_row_eq choice_row_def edge_row_def key_of_def
      KEY_COLUMNS_def)

lemma minted_counts:
  "t \<notin> {''graphs'', ''graph_nodes'', ''graph_choices'', ''graph_edges''} \<Longrightarrow>
     count_table t (minted_rows name a gid bid did aid lid [b1, b2, b3] now) = 0"
  by (auto simp add: minted_rows_def BACK_TO_BUILD_CHOICES_def graph_node_row_def deliver_row_eq choice_row_def edge_row_def)

lemma minted_known:
  assumes "gid \<in> K ''graphs''" "{bid, did} \<subseteq> K ''graph_nodes''" "{aid, lid, b1, b2, b3} \<subseteq> K ''graph_choices''"
  shows "list_all (row_known K) (minted_rows name a gid bid did aid lid [b1, b2, b3] now)"
  using assms
  by (simp add: minted_rows_def BACK_TO_BUILD_CHOICES_def graph_node_row_def deliver_row_eq choice_row_def edge_row_def REFERENCES_def)

lemma compose_graph_ok:
  assumes "compose_graph v name a n = Inr (mg, n1)"
  shows "graph_rows_ok mg"
proof -
  from assms obtain gid bid did aid lid b1 b2 b3 now where
    mg: "mg = \<lparr>mg_context = minted_context gid bid did, mg_rows = minted_rows name a gid bid did aid lid [b1, b2, b3] now\<rparr>"
    by (rule compose_graph_form)
  show ?thesis unfolding graph_rows_ok_def mg by (auto simp: minted_keys minted_counts intro!: minted_known)
qed

lemma compose_graph_Inr: "\<exists>mg n1. compose_graph v name a n = Inr (mg, n1)"
  by (simp add: compose_graph_def BACK_TO_BUILD_CHOICES_def)

section \<open>The chunks\<close>

lemma status_at_in: "status_at i \<in> set STATUS_ORDER"
proof -
  have "STATUS_ORDER \<noteq> []" by (simp add: STATUS_ORDER_def)
  then show ?thesis unfolding status_at_def by (simp add: nth_mem)
qed

lemma minted_fits:
  assumes "cp_status c \<in> set STATUS_ORDER" "cp_node_name c = None" "cp_cause c = None" "cp_detail c = None"
  shows "chunk_composes c (minted_context gid bid did)"
  using assms
  by (auto simp: chunk_composes_def STATUS_ORDER_def CHUNK_STATUSES_def node_fits_def default_node_def minted_context_def
      BUILD_NODE_NAME_def DELIVER_NODE_NAME_def)

text \<open>The rows of one chunk: its own, then facts that name nothing but what the chunk knows.\<close>

definition chunk_block :: "GraphContext \<Rightarrow> string \<Rightarrow> string \<Rightarrow> FactRow list \<Rightarrow> bool" where
  "chunk_block g i runner rows \<longleftrightarrow>
     (\<forall>K. knows K g i runner \<longrightarrow> (\<exists>now rest. rows = chunk_row i (gc_graph_id g) now # rest \<and> list_all (chunk_fact K) rest))"

lemma compose_chunk_block:
  "compose_chunk v c g n = Inr ((i, rows), n1) \<Longrightarrow> cp_runner_id c = runner \<Longrightarrow> chunk_block g i runner rows"
  using compose_chunk_facts by (auto simp: chunk_block_def)

lemma chunk_block_known:
  assumes "chunk_block g i runner rows" "knows K g i runner"
  shows "list_all (row_known K) rows"
proof -
  from assms obtain now rest where "rows = chunk_row i (gc_graph_id g) now # rest" "list_all (chunk_fact K) rest"
    unfolding chunk_block_def by blast
  moreover have "row_known K (chunk_row i (gc_graph_id g) now)" using assms(2) by (simp add: chunk_row_def knows_def REFERENCES_def)
  ultimately show ?thesis by (auto simp: chunk_fact_def list_all_iff)
qed

lemma chunk_block_keys:
  assumes "chunk_block g i runner rows"
  shows "keys_in rows ''chunks'' = [i]" "t \<noteq> ''chunks'' \<Longrightarrow> t \<notin> set CHUNK_FACT_TABLES \<Longrightarrow> keys_in rows t = []"
    "t \<noteq> ''chunks'' \<Longrightarrow> t \<notin> set CHUNK_FACT_TABLES \<Longrightarrow> count_table t rows = 0"
proof -
  have "knows (\<lambda>_. UNIV) g i runner" by (simp add: knows_def)
  with assms obtain now rest where rows: "rows = chunk_row i (gc_graph_id g) now # rest" and f: "list_all (chunk_fact (\<lambda>_. UNIV)) rest"
    unfolding chunk_block_def by blast
  have "''chunks'' \<notin> set CHUNK_FACT_TABLES" by (simp add: CHUNK_FACT_TABLES_def)
  with chunk_facts_none [OF f] show "keys_in rows ''chunks'' = [i]"
    unfolding rows by (simp add: chunk_row_def key_of_def KEY_COLUMNS_def)
  show "keys_in rows t = []" "count_table t rows = 0" if "t \<noteq> ''chunks''" "t \<notin> set CHUNK_FACT_TABLES"
    using chunk_facts_none [OF f that(2)] that(1) unfolding rows by (simp_all add: chunk_row_def)
qed

definition built_chunk_ok :: "board_spec \<Rightarrow> GraphContext \<Rightarrow> board_chunk \<Rightarrow> bool" where
  "built_chunk_ok b g c \<longleftrightarrow> chunk_block g (ce_chunk_id (bk_entry c)) (bk_runner c) (bk_rows c)
     \<and> (bs_runner_id b \<noteq> None \<longrightarrow> bs_runner_id b = Some (bk_runner c))"

lemma seed_chunk_ok:
  assumes "board_chunk_at v b g i n = Inr (c, n1)"
  shows "built_chunk_ok b g c" "ce_status (bk_entry c) = status_at i"
  using assms
  by (auto simp: board_chunk_at_def Let_def sbind_ok built_chunk_ok_def smint_def split: prod.splits option.splits intro!: compose_chunk_block)

lemma board_chunk_at_Inr: "\<exists>r. board_chunk_at v b (minted_context gid bid did) i n = Inr r"
proof -
  have "\<exists>r. compose_chunk v ((chunk_at (status_at i))\<lparr>cp_runner_id := r', cp_workspace_id := w, cp_mirrored := m\<rparr>)
         (minted_context gid bid did) n2 = Inr r" for r' w m n2
    unfolding compose_chunk_iff by (rule minted_fits) (simp_all add: chunk_at_def status_at_in)
  then show ?thesis
    by (cases "bs_runner_id b") (fastforce simp: board_chunk_at_def Let_def sbind_ok smint_def split: prod.splits)+
qed

lemma seed_chunks_ok:
  assumes "seed_chunks v b g n = Inr (cs, n1)"
  shows "list_all (built_chunk_ok b g) cs" "map (ce_status \<circ> bk_entry) cs = map status_at [0..<nat (bs_chunks b)]" "length cs = nat (bs_chunks b)"
proof -
  note s = assms [unfolded seed_chunks_def]
  show "list_all (built_chunk_ok b g) cs" by (rule sfor_each [OF s]) (rule seed_chunk_ok)
  show len: "length cs = nat (bs_chunks b)" using sfor_length [OF s] by simp
  have "ce_status (bk_entry (cs ! k)) = status_at k" if "k < length cs" for k
    using sfor_all2 [OF s] that len by (auto simp: list_all2_conv_all_nth dest: seed_chunk_ok(2))
  then show "map (ce_status \<circ> bk_entry) cs = map status_at [0..<nat (bs_chunks b)]" using len by (intro nth_equalityI) auto
qed

lemma seed_chunks_Inr: "\<exists>r. seed_chunks v b (minted_context gid bid did) n = Inr r"
  unfolding seed_chunks_def by (rule sfor_Inr) (rule board_chunk_at_Inr)

lemma chunks_keys:
  assumes "list_all (built_chunk_ok b g) cs"
  shows "keys_in (concat (map bk_rows cs)) ''chunks'' = map (ce_chunk_id \<circ> bk_entry) cs"
    "t \<noteq> ''chunks'' \<Longrightarrow> t \<notin> set CHUNK_FACT_TABLES \<Longrightarrow> keys_in (concat (map bk_rows cs)) t = []"
    "t \<noteq> ''chunks'' \<Longrightarrow> t \<notin> set CHUNK_FACT_TABLES \<Longrightarrow> count_table t (concat (map bk_rows cs)) = 0"
  using assms by (induction cs) (auto simp: built_chunk_ok_def chunk_block_keys)

lemma chunks_known:
  assumes "list_all (built_chunk_ok b g) cs" "\<And>c. c \<in> set cs \<Longrightarrow> knows K g (ce_chunk_id (bk_entry c)) (bk_runner c)"
  shows "list_all (row_known K) (concat (map bk_rows cs))"
  using assms chunk_block_known by (induction cs) (auto simp: built_chunk_ok_def)

section \<open>What stands on the chunks\<close>

lemma sfor_scheck: "sfor (\<lambda>x. scheck (f x)) xs n = Inr (ys, n1) \<longleftrightarrow> map f xs = map Inr ys \<and> n1 = n"
proof (induction xs arbitrary: n ys)
  case (Cons x xs)
  then show ?case by (cases ys) (auto simp: sbind_ok scheck_ok)
qed auto

definition null_costs :: "FactRow list \<Rightarrow> nat" where
  "null_costs rows = length (filter (\<lambda>row. fr_table row = ''usage_facts'' \<and> dget (fr_values row) ''cost_usd'' = Some CNull) rows)"

lemma null_costs_simps [simp]:
  "null_costs [] = 0" "null_costs (xs @ ys) = null_costs xs + null_costs ys"
  "null_costs (row # rows) = (if fr_table row = ''usage_facts'' \<and> dget (fr_values row) ''cost_usd'' = Some CNull then 1 else 0) + null_costs rows"
  by (simp_all add: null_costs_def)

lemma no_null_costs: "count_table ''usage_facts'' rows = 0 \<Longrightarrow> null_costs rows = 0"
  by (induction rows) (auto split: if_splits)

text \<open>Rows of one table.\<close>

definition only_table :: "string \<Rightarrow> FactRow list \<Rightarrow> bool" where
  "only_table t rows \<longleftrightarrow> list_all (\<lambda>row. fr_table row = t) rows"

lemma only_table_other: "only_table t rows \<Longrightarrow> u \<noteq> t \<Longrightarrow> keys_in rows u = [] \<and> count_table u rows = 0"
  unfolding only_table_def by (induction rows) auto

lemma only_table_keyless: "only_table t rows \<Longrightarrow> dget KEY_COLUMNS t = None \<Longrightarrow> keys_in rows u = []"
  unfolding only_table_def by (induction rows) (auto simp: key_of_def)

lemma only_table_count: "only_table t rows \<Longrightarrow> count_table t rows = length rows"
  unfolding only_table_def by (induction rows) auto

lemma dkeys_setdefault: "fst ` set (dsetdefault k x d) = insert k (fst ` set d)"
proof (cases "dget d k")
  case None
  then have "dsetdefault k x d = d @ [(k, x)]" by (simp add: dsetdefault_def dset_new)
  then show ?thesis by auto
next
  case (Some y)
  then have "k \<in> fst ` set d" by (force dest: map_of_SomeD)
  then show ?thesis using Some by (auto simp: dsetdefault_def)
qed

lemma dkeys_setdefaults: "fst ` set (fold (\<lambda>c. dsetdefault (f c) (g c)) cs d) = fst ` set d \<union> f ` set cs"
  by (induction cs arbitrary: d) (auto simp: dkeys_setdefault)

lemma registered_runners:
  "keys_in (registration_rows b cs now) ''runner_registrations'' =
     map fst (filter (\<lambda>(r, w). bs_register_runner b \<or> bs_runner_id b \<noteq> Some r) (runner_workspaces cs))"
proof -
  have "keys_in (map (\<lambda>(r, w). compose_runner_registration r (dget_or (runner_names cs) r '''') now (Some w) None) ps) ''runner_registrations''
      = map fst ps" for ps :: "(string \<times> string) list"
    by (induction ps) (auto simp: compose_runner_registration_def Let_def key_of_def KEY_COLUMNS_def)
  then show ?thesis by (simp add: registration_rows_def)
qed

lemma registration_only: "only_table ''runner_registrations'' (registration_rows b cs now)"
  by (auto simp: only_table_def registration_rows_def list_all_iff compose_runner_registration_def Let_def)

definition unregistered :: "board_spec \<Rightarrow> string set" where
  "unregistered b = (if bs_register_runner b then {} else set_option (bs_runner_id b))"

lemma runner_registered:
  assumes "c \<in> set cs"
  shows "bk_runner c \<in> set (keys_in (registration_rows b cs now) ''runner_registrations'') \<union> unregistered b"
proof -
  have "bk_runner c \<in> set (dkeys (runner_workspaces cs))"
    using assms by (simp add: runner_workspaces_def dkeys_setdefaults)
  then show ?thesis unfolding registered_runners unregistered_def by (force simp: image_iff)
qed

lemma registration_known:
  assumes "set (keys_in (registration_rows b cs now) ''runner_registrations'') \<subseteq> K ''runner_registrations''"
  shows "list_all (row_known K) (registration_rows b cs now)"
proof -
  have "row_known K row" if row: "row \<in> set (registration_rows b cs now)" for row
  proof -
    from row obtain r w where rw: "(r, w) \<in> set (filter (\<lambda>(r, w). bs_register_runner b \<or> bs_runner_id b \<noteq> Some r) (runner_workspaces cs))"
      and "row = compose_runner_registration r (dget_or (runner_names cs) r '''') now (Some w) None"
      by (auto simp: registration_rows_def)
    moreover from rw have "r \<in> K ''runner_registrations''" using assms unfolding registered_runners by force
    ultimately show ?thesis by (simp add: compose_runner_registration_def Let_def REFERENCES_def)
  qed
  then show ?thesis by (simp add: list_all_iff)
qed

lemma minted_nodes:
  "graph_node (minted_context gid bid did) BUILD_NODE_NAME = Inr \<lparr>nr_node_id = bid, nr_executor = ''runner''\<rparr>"
  "graph_node (minted_context gid bid did) DELIVER_NODE_NAME = Inr \<lparr>nr_node_id = did, nr_executor = ''hub''\<rparr>"
  by (simp_all add: graph_node_def minted_context_def BUILD_NODE_NAME_def DELIVER_NODE_NAME_def)

lemma usage_of_minted:
  "\<exists>row. usage_of (minted_context gid bid did) now (i, c) = Inr row \<and> fr_table row = ''usage_facts''
     \<and> (dget (fr_values row) ''cost_usd'' = Some CNull \<longleftrightarrow> board_cost i = None)
     \<and> (ce_chunk_id (bk_entry c) \<in> K ''chunks'' \<longrightarrow> {bid, did} \<subseteq> K ''graph_nodes'' \<longrightarrow> bk_runner c \<in> K ''runner_registrations'' \<longrightarrow> row_known K row)"
  by (auto simp: usage_of_def status_node_id_def minted_nodes compose_usage_def USAGE_KINDS_def usage_values_def money_cell_def
      REFERENCES_def split: option.splits)

lemma used_chunks_in: "(i, c) \<in> set (used_chunks cs) \<Longrightarrow> c \<in> set cs"
  by (auto simp: used_chunks_def in_set_enumerate_eq)

lemma usage_rows_ok:
  assumes "map (usage_of (minted_context gid bid did) now) (used_chunks cs) = map Inr ys"
  shows "only_table ''usage_facts'' ys" "length ys = length (used_chunks cs)"
    "null_costs ys = length (filter (\<lambda>(i, c). board_cost i = None) (used_chunks cs))"
    "(\<And>c. c \<in> set cs \<Longrightarrow> ce_chunk_id (bk_entry c) \<in> K ''chunks'' \<and> bk_runner c \<in> K ''runner_registrations'') \<Longrightarrow>
     {bid, did} \<subseteq> K ''graph_nodes'' \<Longrightarrow> list_all (row_known K) ys"
proof -
  have *: "only_table ''usage_facts'' ys \<and> length ys = length xs
      \<and> null_costs ys = length (filter (\<lambda>(i, c). board_cost i = None) xs)
      \<and> ((\<forall>ic \<in> set xs. ce_chunk_id (bk_entry (snd ic)) \<in> K ''chunks'' \<and> bk_runner (snd ic) \<in> K ''runner_registrations'') \<longrightarrow>
         {bid, did} \<subseteq> K ''graph_nodes'' \<longrightarrow> list_all (row_known K) ys)"
    if "map (usage_of (minted_context gid bid did) now) xs = map Inr ys" for xs
    using that
  proof (induction xs arbitrary: ys)
    case (Cons ic xs)
    obtain i c where ic: "ic = (i, c)" by fastforce
    from Cons.prems obtain y zs where ys: "ys = y # zs" "usage_of (minted_context gid bid did) now (i, c) = Inr y"
      "map (usage_of (minted_context gid bid did) now) xs = map Inr zs"
      unfolding ic by (cases ys) auto
    from usage_of_minted [of gid bid did now i c K] ys(2) Cons.IH [OF ys(3)] show ?case
      unfolding ys(1) ic by (auto simp: only_table_def)
  qed (simp add: only_table_def)
  note * = * [OF assms]
  from * show "only_table ''usage_facts'' ys" "length ys = length (used_chunks cs)"
    "null_costs ys = length (filter (\<lambda>(i, c). board_cost i = None) (used_chunks cs))" by blast+
  show "list_all (row_known K) ys"
    if "\<And>c. c \<in> set cs \<Longrightarrow> ce_chunk_id (bk_entry c) \<in> K ''chunks'' \<and> bk_runner c \<in> K ''runner_registrations''" "{bid, did} \<subseteq> K ''graph_nodes''"
    using * that used_chunks_in by (metis prod.collapse)
qed

lemma usage_rows_Inr: "\<exists>ys. map (usage_of (minted_context gid bid did) now) xs = map Inr ys"
proof (induction xs)
  case (Cons ic xs)
  obtain y where "usage_of (minted_context gid bid did) now ic = Inr y" using usage_of_minted by (metis prod.collapse)
  with Cons show ?case by (metis list.simps(9))
qed simp

text \<open>Artifacts of a board: what makes one composable, and what its row names.\<close>

definition artifact_fits :: "artifact_spec \<Rightarrow> bool" where
  "artifact_fits a \<longleftrightarrow>
     as_kind a = ''asset'' \<and> as_repo a = None \<and> as_forge a = None \<and> as_branch a = None \<and> as_commit a = None
       \<and> (as_content a = None) \<noteq> (as_content_size a = None)
     \<or> as_kind a = ''git_commit'' \<and> as_content a = None \<and> as_content_size a = None \<and> as_repo a \<noteq> None \<and> as_branch a \<noteq> None \<and> as_commit a \<noteq> None"

lemma pick_chars_Inr: "\<exists>r. sfor (\<lambda>_. pick_char v) xs n = Inr r"
  by (rule sfor_Inr) (simp add: pick_char_def)

lemma compose_artifact_Inr:
  assumes "artifact_fits a"
  shows "\<exists>r. compose_artifact v a n = Inr r"
proof -
  have "\<exists>d n1. (if as_kind a = ''git_commit'' then scheck (git_commit_data a) else asset_data v a) n = Inr (d, n1)"
    using assms pick_chars_Inr
    by (auto simp: artifact_fits_def git_commit_data_def asset_data_def generate_asset_content_def split: option.splits)
  moreover have "as_kind a \<in> set ARTIFACT_KINDS" using assms by (auto simp: artifact_fits_def ARTIFACT_KINDS_def)
  ultimately show ?thesis by (auto simp: compose_artifact_def Let_def simp del: scheck_apply)
qed

lemma compose_artifact_row:
  assumes "compose_artifact v a n = Inr (row, n1)"
  shows "fr_table row = ''artifacts''" "as_chunk_id a \<in> K ''chunks'' \<Longrightarrow> as_node_id a \<in> K ''graph_nodes'' \<Longrightarrow> row_known K row"
  using assms by (auto simp: compose_artifact_def Let_def sbind_ok smint_def snow_def REFERENCES_def split: if_splits option.split)

lemma board_artifacts_ok:
  assumes "es \<noteq> []"
  shows "\<exists>specs. board_artifacts (minted_context gid bid did) es = Inr specs \<and>
     list_all (\<lambda>a. artifact_fits a \<and> as_chunk_id a \<in> ce_chunk_id ` set es \<and> as_node_id a \<in> {bid, did}) specs"
proof -
  have "ce_chunk_id e \<in> ce_chunk_id ` set es" if "entry_with s es = Some e" for s e
    using that by (auto simp: entry_with_def find_Some_iff)
  moreover have "ce_chunk_id (hd es) \<in> ce_chunk_id ` set es" using assms by simp
  ultimately show ?thesis
    by (auto simp: board_artifacts_def minted_nodes Let_def artifact_fits_def board_asset_def board_commit_def split: option.split)
qed

lemma artifact_rows_ok:
  assumes "sfor (compose_artifact v) specs n = Inr (ys, n1)"
    "list_all (\<lambda>a. artifact_fits a \<and> as_chunk_id a \<in> ids \<and> as_node_id a \<in> {bid, did}) specs"
  shows "only_table ''artifacts'' ys" "ids \<subseteq> K ''chunks'' \<Longrightarrow> {bid, did} \<subseteq> K ''graph_nodes'' \<Longrightarrow> list_all (row_known K) ys"
proof -
  show "only_table ''artifacts'' ys"
    unfolding only_table_def by (rule sfor_each [OF assms(1)]) (rule compose_artifact_row(1))
  show "list_all (row_known K) ys" if "ids \<subseteq> K ''chunks''" "{bid, did} \<subseteq> K ''graph_nodes''"
    using assms(2) that by (intro sfor_each [OF assms(1)] compose_artifact_row(2)) (auto simp: list_all_iff)
qed

text \<open>Events of a board name its first runner, or the escalated chunk with its runner, or nothing.\<close>

definition event_fits :: "string set \<Rightarrow> string set \<Rightarrow> event_spec \<Rightarrow> bool" where
  "event_fits runners chunks e \<longleftrightarrow>
     ev_severity e \<in> set SEVERITIES \<and> \<not> is_hub_event_kind (ev_kind e) \<and> ev_detail e = None \<and> ev_lease_id e = None \<and> ev_node_name e = None
     \<and> set_option (ev_runner_id e) \<subseteq> runners \<and> set_option (ev_chunk_id e) \<subseteq> chunks"

lemma compose_event_fits:
  assumes "event_fits (K ''runner_registrations'') (K ''chunks'') e"
  shows "\<exists>row. compose_event v e now = Inr row \<and> fr_table row = ''event_log'' \<and> row_known K row"
  using assms
  by (cases "ev_runner_id e"; cases "ev_chunk_id e") (simp_all add: compose_event_def event_fits_def bad_detail_def REFERENCES_def)

lemma event_rows_Inr:
  assumes "list_all (event_fits (K ''runner_registrations'') (K ''chunks'')) es"
  shows "\<exists>ys. map (\<lambda>e. compose_event v e now) es = map Inr ys \<and> only_table ''event_log'' ys \<and> list_all (row_known K) ys"
  using assms
proof (induction es)
  case (Cons e es)
  from compose_event_fits [of K e v now] Cons.prems obtain y
    where y: "compose_event v e now = Inr y" "fr_table y = ''event_log''" "row_known K y" by auto
  from Cons obtain ys where ys: "map (\<lambda>e. compose_event v e now) es = map Inr ys" "only_table ''event_log'' ys" "list_all (row_known K) ys" by auto
  from y ys show ?case by (intro exI [of _ "y # ys"]) (simp add: only_table_def)
qed (simp add: only_table_def)

lemma event_of_fits:
  "event_fits runners chunks (event_of kind severity msg r c) \<longleftrightarrow>
     severity \<in> set SEVERITIES \<and> \<not> is_hub_event_kind kind \<and> set_option r \<subseteq> runners \<and> set_option c \<subseteq> chunks"
  by (simp add: event_fits_def event_of_def)

lemma board_kinds:
  "\<not> is_hub_event_kind ''runner.registered''" "\<not> is_hub_event_kind ''runner.paused''" "\<not> is_hub_event_kind ''chunk.escalated''"
  "\<not> is_hub_event_kind ''scenario.seeded''" "''info'' \<in> set SEVERITIES" "''warning'' \<in> set SEVERITIES" "''critical'' \<in> set SEVERITIES"
  by (simp_all add: is_hub_event_kind_def HUB_EVENT_KINDS_def EXPORT_EVENT_KINDS_def SEVERITIES_def)

lemma board_events_fit:
  assumes "cs \<noteq> []" "\<And>c. c \<in> set cs \<Longrightarrow> ce_chunk_id (bk_entry c) \<in> chunks \<and> bk_runner c \<in> runners"
  shows "list_all (event_fits runners chunks) (board_events b cs)"
proof -
  have "bk_runner (hd cs) \<in> runners" using assms by simp
  moreover have "set_option (dget (zip (map bk_entry cs) (map bk_runner cs)) e) \<subseteq> runners" for e
    using assms(2) by (auto dest!: map_of_SomeD set_zip_rightD)
  moreover have "list_all (event_fits runners chunks)
      (case entry_with ''needs_human'' (map bk_entry cs) of None \<Rightarrow> []
       | Some e \<Rightarrow> [event_of ''chunk.escalated'' ''critical'' msg (dget (zip (map bk_entry cs) (map bk_runner cs)) e) (Some (ce_chunk_id e))])" for msg
  proof (cases "entry_with ''needs_human'' (map bk_entry cs)")
    case (Some e)
    then have "e \<in> set (map bk_entry cs)" by (auto simp: entry_with_def find_Some_iff)
    then have "ce_chunk_id e \<in> chunks" using assms(2) by auto
    then show ?thesis using Some calculation(2) by (simp add: event_of_fits board_kinds)
  qed simp
  ultimately show ?thesis by (simp add: board_events_def Let_def event_of_fits board_kinds)
qed

lemma ceiling_pause_row:
  "\<exists>row. ceiling_pause r now = Inr row \<and> fr_table row = ''runner_local_pause_facts''
     \<and> (\<forall>K. r \<in> K ''runner_registrations'' \<longrightarrow> row_known K row)"
  by (simp add: ceiling_pause_def compose_runner_pause_def REFERENCES_def)

lemma roster_extras_row:
  "\<exists>rows ids n1. roster_extras v twin n = Inr ((rows, ids), n1) \<and> only_table ''runner_registrations'' rows
     \<and> keys_in rows ''runner_registrations'' = ids \<and> (\<forall>K. set ids \<subseteq> K ''runner_registrations'' \<longrightarrow> list_all (row_known K) rows)"
  by (simp add: roster_extras_def only_table_def compose_runner_registration_def Let_def key_of_def KEY_COLUMNS_def REFERENCES_def smint_def)

text \<open>The facts of a board, for chunks that stand on the minted graph.\<close>

definition facts_ok :: "board_spec \<Rightarrow> string \<Rightarrow> string \<Rightarrow> board_chunk list \<Rightarrow> FactRow list \<Rightarrow> string list \<Rightarrow> bool" where
  "facts_ok b bid did cs facts ids \<longleftrightarrow>
     (\<forall>t. t \<noteq> ''runner_registrations'' \<longrightarrow> keys_in facts t = [])
     \<and> (\<exists>now. keys_in facts ''runner_registrations'' = keys_in (registration_rows b cs now) ''runner_registrations'' @ ids)
     \<and> count_table ''usage_facts'' facts = length (used_chunks cs)
     \<and> null_costs facts = length (filter (\<lambda>(i, c). board_cost i = None) (used_chunks cs))
     \<and> (\<forall>K. (\<forall>c \<in> set cs. ce_chunk_id (bk_entry c) \<in> K ''chunks'' \<and> bk_runner c \<in> K ''runner_registrations'') \<longrightarrow> {bid, did} \<subseteq> K ''graph_nodes''
          \<longrightarrow> set (keys_in facts ''runner_registrations'') \<subseteq> K ''runner_registrations'' \<longrightarrow> list_all (row_known K) facts)"

lemma board_facts_ok:
  assumes "cs \<noteq> []"
  shows "\<exists>facts ids n1. board_facts v b (minted_context gid bid did) now cs n = Inr ((facts, ids), n1) \<and> facts_ok b bid did cs facts ids"
proof -
  let ?ids = "(ce_chunk_id \<circ> bk_entry) ` set cs" and ?runners = "bk_runner ` set cs"
  obtain extras ids n1 where extras: "(if bs_runner_id b \<noteq> None then sret ([], []) else
        roster_extras v (dget_or (runner_names cs) (bk_runner (hd cs)) '''')) n = Inr ((extras, ids), n1)"
    and x: "only_table ''runner_registrations'' extras" "keys_in extras ''runner_registrations'' = ids"
    and xk: "\<And>K. set ids \<subseteq> K ''runner_registrations'' \<Longrightarrow> list_all (row_known K) extras"
    using roster_extras_row [of v "dget_or (runner_names cs) (bk_runner (hd cs)) ''''" n]
    by (cases "bs_runner_id b") (auto simp: only_table_def)
  obtain us where us: "map (usage_of (minted_context gid bid did) now) (used_chunks cs) = map Inr us" using usage_rows_Inr by blast
  note u = usage_rows_ok [OF us]
  obtain specs where specs: "board_artifacts (minted_context gid bid did) (map bk_entry cs) = Inr specs"
    and fits: "list_all (\<lambda>a. artifact_fits a \<and> as_chunk_id a \<in> ce_chunk_id ` set (map bk_entry cs) \<and> as_node_id a \<in> {bid, did}) specs"
    using board_artifacts_ok [of "map bk_entry cs" gid bid did] assms by auto
  have "\<exists>r. sfor (compose_artifact v) specs n1 = Inr r"
    by (rule sfor_Inr, rule compose_artifact_Inr) (use fits in \<open>auto simp: list_all_iff\<close>)
  then obtain arts n2 where arts: "sfor (compose_artifact v) specs n1 = Inr (arts, n2)" by auto
  note a = artifact_rows_ok [OF arts fits]
  obtain pause where p: "ceiling_pause (bk_runner (hd cs)) now = Inr pause" "fr_table pause = ''runner_local_pause_facts''"
    and pk: "\<And>K. bk_runner (hd cs) \<in> K ''runner_registrations'' \<Longrightarrow> row_known K pause"
    using ceiling_pause_row [of "bk_runner (hd cs)" now] by auto
  have "list_all (event_fits UNIV UNIV) (board_events b cs)" using board_events_fit [OF assms, of UNIV UNIV] by blast
  from event_rows_Inr [of "\<lambda>_. UNIV", OF this] obtain evs where evs: "map (\<lambda>e. compose_event v e now) (board_events b cs) = map Inr evs"
    and e: "only_table ''event_log'' evs" by blast
  have ek: "list_all (row_known K) evs"
    if "\<forall>c \<in> set cs. ce_chunk_id (bk_entry c) \<in> K ''chunks'' \<and> bk_runner c \<in> K ''runner_registrations''" for K
  proof -
    have "list_all (event_fits (K ''runner_registrations'') (K ''chunks'')) (board_events b cs)"
      by (rule board_events_fit [OF assms]) (use that in blast)
    from event_rows_Inr [OF this, of v now] obtain ys where "map Inr ys = map Inr evs" "list_all (row_known K) ys" using evs by force
    then show ?thesis by (simp add: inj_map_eq_map [OF inj_Inr])
  qed
  let ?facts = "registration_rows b cs now @ extras @ us @ arts @ [pause] @ evs"
  have run: "board_facts v b (minted_context gid bid did) now cs n = Inr ((?facts, ids), n2)"
    unfolding board_facts_def using extras us specs arts p evs by (simp add: sfor_scheck)
  note only = registration_only [of b cs now] x(1) u(1) a(1) e
  have keys: "keys_in ?facts t = []" if "t \<noteq> ''runner_registrations''" for t
    using only that by (simp add: only_table_other only_table_keyless KEY_COLUMNS_def key_of_def p)
  have regs: "keys_in ?facts ''runner_registrations'' = keys_in (registration_rows b cs now) ''runner_registrations'' @ ids"
    using only x(2) by (simp add: only_table_keyless KEY_COLUMNS_def p)
  have known: "list_all (row_known K) ?facts"
    if k: "\<forall>c \<in> set cs. ce_chunk_id (bk_entry c) \<in> K ''chunks'' \<and> bk_runner c \<in> K ''runner_registrations''" "{bid, did} \<subseteq> K ''graph_nodes''"
      "set (keys_in ?facts ''runner_registrations'') \<subseteq> K ''runner_registrations''" for K
  proof -
    have r: "set (keys_in (registration_rows b cs now) ''runner_registrations'') \<subseteq> K ''runner_registrations''" "set ids \<subseteq> K ''runner_registrations''"
      using k(3) unfolding regs by simp_all
    have "bk_runner (hd cs) \<in> K ''runner_registrations''" using k(1) assms by simp
    moreover have "ce_chunk_id ` set (map bk_entry cs) \<subseteq> K ''chunks''" using k(1) by auto
    moreover have "list_all (row_known K) us" by (rule u(4)) (use k in blast)+
    moreover have "list_all (row_known K) arts" by (rule a(2)) (use calculation(2) k in blast)+
    ultimately show ?thesis using registration_known [of b cs now K, OF r(1)] xk [of K, OF r(2)] pk [of K] ek [OF k(1)] by force
  qed
  have "facts_ok b bid did cs ?facts ids"
    unfolding facts_ok_def
  proof (intro conjI)
    show "count_table ''usage_facts'' ?facts = length (used_chunks cs)"
      using only u(2) by (simp add: only_table_other only_table_count p)
    show "null_costs ?facts = length (filter (\<lambda>(i, c). board_cost i = None) (used_chunks cs))"
      using only u(3) by (simp add: only_table_other no_null_costs p)
  qed (use keys regs known in blast)+
  with run show ?thesis by blast
qed

section \<open>The extremes\<close>

lemma stress_name: "STRESS_LONG_NODE_NAME \<noteq> []" "STRESS_LONG_NODE_NAME \<noteq> BUILD_NODE_NAME" "STRESS_LONG_NODE_NAME \<noteq> DELIVER_NODE_NAME"
  by (simp_all add: STRESS_LONG_NODE_NAME_def BUILD_NODE_NAME_def DELIVER_NODE_NAME_def)

lemma open_question_rows:
  "\<exists>i rows n1. compose_question v (open_question chunk text' runner) n = Inr ((i, rows), n1) \<and> only_table ''questions'' rows
     \<and> (\<forall>K. chunk \<in> K ''chunks'' \<longrightarrow> runner \<in> K ''runner_registrations'' \<longrightarrow> list_all (row_known K) rows)"
  by (simp add: compose_question_def open_question_def refuse_question_def only_table_def REFERENCES_def)

definition extended :: "string \<Rightarrow> string \<Rightarrow> string \<Rightarrow> NodeRef \<Rightarrow> GraphContext" where
  "extended gid bid did node =
     (minted_context gid bid did)\<lparr>gc_nodes := gc_nodes (minted_context gid bid did) @ [(STRESS_LONG_NODE_NAME, node)]\<rparr>"

lemma dset_extended: "(minted_context gid bid did)\<lparr>gc_nodes := dset STRESS_LONG_NODE_NAME node (gc_nodes (minted_context gid bid did))\<rparr> = extended gid bid did node"
  using stress_name by (simp add: extended_def minted_context_def)

lemma waiting_composes: "\<exists>r. compose_chunk v ((chunk_at ''waiting_on_human'')\<lparr>cp_runner_id := runner\<rparr>) (minted_context gid bid did) n = Inr r"
  unfolding compose_chunk_iff by (rule minted_fits) (simp_all add: chunk_at_def STATUS_ORDER_def)

lemma stress_composes:
  "\<exists>r. compose_chunk v ((chunk_at ''running'')\<lparr>cp_node_name := Some STRESS_LONG_NODE_NAME, cp_runner_id := runner, cp_workspace_id := w\<rparr>)
     (extended gid bid did \<lparr>nr_node_id = i, nr_executor = ''runner''\<rparr>) n = Inr r"
  unfolding compose_chunk_iff using stress_name
  by (simp add: chunk_composes_def chunk_at_def CHUNK_STATUSES_def node_fits_def extended_def minted_context_def)

definition stress_ok :: "string \<Rightarrow> string \<Rightarrow> string \<Rightarrow> stress_extras \<Rightarrow> bool" where
  "stress_ok gid bid did s \<longleftrightarrow>
     keys_in (sx_rows s) ''chunks'' = map ce_chunk_id (sx_entries s) \<and> keys_in (sx_rows s) ''graphs'' = []
     \<and> keys_in (sx_rows s) ''runner_registrations'' = [sx_runner_id s] \<and> count_table ''usage_facts'' (sx_rows s) = 0
     \<and> map ce_status (sx_entries s) = [''waiting_on_human'', ''running'']
     \<and> (\<forall>K. (\<forall>t. set (keys_in (sx_rows s) t) \<subseteq> K t) \<longrightarrow> gid \<in> K ''graphs'' \<longrightarrow> {bid, did} \<subseteq> K ''graph_nodes'' \<longrightarrow> list_all (row_known K) (sx_rows s))"

lemma stress_extras_ok:
  "\<exists>s n1. compose_stress_extras v (minted_context gid bid did) n = Inr (s, n1) \<and> stress_ok gid bid did s"
proof -
  let ?g = "minted_context gid bid did"
  let ?runner = "mint RUNNER_PREFIX (sd_now v (Suc n) div 1000) (sd_bits v (Suc n))" and ?now = "sd_now v n"
  let ?c1 = "(chunk_at ''waiting_on_human'')\<lparr>cp_runner_id := ?runner\<rparr>"
  let ?c2 = "(chunk_at ''running'')\<lparr>cp_node_name := Some STRESS_LONG_NODE_NAME, cp_runner_id := ?runner, cp_workspace_id := ''workspace-stress''\<rparr>"
  obtain w wrows n2 where w: "compose_chunk v ?c1 ?g (Suc (Suc n)) = Inr ((w, wrows), n2)" using waiting_composes by (metis surj_pair)
  then have wb: "chunk_block ?g w ?runner wrows" by (rule compose_chunk_block) simp
  obtain q2 rows2 n3 where q2: "compose_question v (open_question w ''mock-data: a second pending question (stress)'' ?runner) n2 = Inr ((q2, rows2), n3)"
    "only_table ''questions'' rows2" and k2: "\<And>K. w \<in> K ''chunks'' \<Longrightarrow> ?runner \<in> K ''runner_registrations'' \<Longrightarrow> list_all (row_known K) rows2"
    using open_question_rows by blast
  obtain q3 rows3 n4 where q3: "compose_question v (open_question w ''mock-data: a third pending question (stress)'' ?runner) n3 = Inr ((q3, rows3), n4)"
    "only_table ''questions'' rows3" and k3: "\<And>K. w \<in> K ''chunks'' \<Longrightarrow> ?runner \<in> K ''runner_registrations'' \<Longrightarrow> list_all (row_known K) rows3"
    using open_question_rows by blast
  let ?i = "mint ''nd'' (sd_now v n4 div 1000) (sd_bits v n4)"
  let ?node = "\<lparr>nr_node_id = ?i, nr_executor = ''runner''\<rparr>" and ?row = "graph_node_row ?i gid STRESS_LONG_NODE_NAME ''runner'' ''fresh''"
  let ?g2 = "extended gid bid did ?node"
  have ext: "extend_graph_with_node v ?g STRESS_LONG_NODE_NAME n4 = Inr ((?g2, ?node, ?row), Suc n4)"
    using dset_extended [of ?node gid bid did] by (simp add: extend_graph_with_node_def Let_def minted_context_def)
  obtain l lrows n5 where l: "compose_chunk v ?c2 ?g2 (Suc n4) = Inr ((l, lrows), n5)" using stress_composes by (metis surj_pair)
  then have lb: "chunk_block ?g2 l ?runner lrows" by (rule compose_chunk_block) simp
  let ?a = "board_asset l ?node STRESS_LONG_NODE_NAME STRESS_LONG_ARTIFACT_NAME 1 None (Some 32)"
  have "\<exists>r. compose_artifact v ?a n5 = Inr r" by (rule compose_artifact_Inr) (simp add: artifact_fits_def board_asset_def)
  then obtain art n6 where art: "compose_artifact v ?a n5 = Inr (art, n6)" by auto
  note a = compose_artifact_row [OF art]
  let ?reg = "compose_runner_registration ?runner STRESS_LONG_RUNNER_NAME ?now (Some ''workspace-stress'') None"
  let ?rows = "[?reg] @ wrows @ rows2 @ rows3 @ [?row] @ lrows @ [art]"
  let ?s = "\<lparr>sx_rows = ?rows, sx_runner_id = ?runner,
      sx_entries = [\<lparr>ce_chunk_id = w, ce_status = ''waiting_on_human''\<rparr>, \<lparr>ce_chunk_id = l, ce_status = ''running''\<rparr>]\<rparr>"
  have run: "compose_stress_extras v ?g n = Inr (?s, n6)"
    using w q2(1) q3(1) ext l art by (simp add: compose_stress_extras_def del: extend_graph_with_node_def)
  have reg: "fr_table ?reg = ''runner_registrations''" "key_of ?reg = Some ?runner" "fr_table ?row = ''graph_nodes''" "key_of ?row = Some ?i"
    by (simp_all add: compose_runner_registration_def Let_def key_of_def KEY_COLUMNS_def graph_node_row_def)
  note parts = chunk_block_keys [OF wb] chunk_block_keys [OF lb] only_table_keyless [OF q2(2)] only_table_keyless [OF q3(2)] reg a(1)
  have keys: "keys_in ?rows ''chunks'' = [w, l]" "keys_in ?rows ''graphs'' = []" "keys_in ?rows ''graph_nodes'' = [?i]"
    "keys_in ?rows ''runner_registrations'' = [?runner]"
    using parts by (simp_all add: CHUNK_FACT_TABLES_def KEY_COLUMNS_def)
  have count: "count_table ''usage_facts'' ?rows = 0"
    using parts only_table_other [OF q2(2)] only_table_other [OF q3(2)] by (simp add: CHUNK_FACT_TABLES_def)
  have known: "list_all (row_known K) ?rows"
    if K: "\<forall>t. set (keys_in ?rows t) \<subseteq> K t" "gid \<in> K ''graphs''" "{bid, did} \<subseteq> K ''graph_nodes''" for K
  proof -
    have in_K: "w \<in> K ''chunks''" "l \<in> K ''chunks''" "?i \<in> K ''graph_nodes''" "?runner \<in> K ''runner_registrations''"
      using K(1) keys by (metis insert_subset list.simps(15))+
    then have "knows K ?g w ?runner" "knows K ?g2 l ?runner"
      using K(2,3) by (auto simp: knows_def minted_context_def extended_def)
    then have "list_all (row_known K) wrows" "list_all (row_known K) lrows" using chunk_block_known wb lb by blast+
    moreover have "row_known K ?reg" "row_known K ?row"
      using in_K K(2) by (simp_all add: compose_runner_registration_def Let_def graph_node_row_def REFERENCES_def)
    moreover have "row_known K art" by (rule a(2)) (use in_K in \<open>simp_all add: board_asset_def\<close>)
    moreover have "list_all (row_known K) rows2" "list_all (row_known K) rows3" using k2 k3 in_K by blast+
    ultimately show ?thesis by force
  qed
  have "stress_ok gid bid did ?s" unfolding stress_ok_def stress_extras.simps
  proof (intro conjI)
    show "\<forall>K. (\<forall>t. set (keys_in ?rows t) \<subseteq> K t) \<longrightarrow> gid \<in> K ''graphs'' \<longrightarrow> {bid, did} \<subseteq> K ''graph_nodes'' \<longrightarrow> list_all (row_known K) ?rows"
      by (intro allI impI) (rule known)
  qed (use keys count in simp_all)
  with run show ?thesis by blast
qed

end
