(* ===== verification/Seed_Store.thy ===== *)
theory Seed_Store
  imports Seed_Rules
begin

text \<open>
  The store \<^verbatim>\<open>blizzard-mock-data\<close> writes through (\<^verbatim>\<open>mock_data/internal/reflected_store.py\<close>, with \<^verbatim>\<open>SeedService\<close>
  of \<^verbatim>\<open>domain/seeding.py\<close>, which only passes on): the tables of a database in the order of their foreign keys,
  with what the store object remembers. The database itself is the record \<open>database\<close>: how it completes a row
  that leaves columns out, and what its constraints refuse, statement by statement. A write or a reset is one
  transaction: what it raises leaves the tables as they were.
\<close>

section \<open>Tables\<close>

type_synonym cells = "(string, cell) dict"

record tbl =
  tb_columns :: columns
  tb_rows :: "cells list"

type_synonym tables = "(string, tbl) dict"

record database =
  db_complete :: "string \<Rightarrow> tables \<Rightarrow> cells \<Rightarrow> cells"
  db_refuses :: "tables \<Rightarrow> string option"

record seed_store =
  ss_tables :: tables
  ss_named_tenant :: "string option"
  ss_named_runner :: "string option"
  ss_tenant :: "string option"
  ss_scopes :: nat

text \<open>What is outside: the database, the JSON writer, and the clock and draws scope ids are minted from.\<close>

record seed_outside =
  so_db :: database
  so_dumps :: "json \<Rightarrow> string"
  so_scope_now :: "nat \<Rightarrow> instant"
  so_scope_bits :: "nat \<Rightarrow> int"

definition open_store :: "string option \<Rightarrow> string option \<Rightarrow> tables \<Rightarrow> seed_store" where
  "open_store tenant runner ts =
     \<lparr>ss_tables = ts, ss_named_tenant = tenant, ss_named_runner = runner, ss_tenant = None, ss_scopes = 0\<rparr>"

definition snapshot :: "tables \<Rightarrow> schema" where
  "snapshot ts = map (\<lambda>(n, t). (n, tb_columns t)) ts"

definition rows_of :: "tables \<Rightarrow> string \<Rightarrow> cells list" where
  "rows_of ts n = (case dget ts n of None \<Rightarrow> [] | Some t \<Rightarrow> tb_rows t)"

text \<open>An equality of a query, which for a null asks whether the column is null.\<close>

definition cell_is :: "cells \<Rightarrow> string \<Rightarrow> cell \<Rightarrow> bool" where
  "cell_is row k v \<longleftrightarrow> dget row k = Some v"

definition field_text :: "cells \<Rightarrow> string \<Rightarrow> string" where
  "field_text row k = (case dget row k of None \<Rightarrow> ''None'' | Some x \<Rightarrow> cell_text x)"

definition mint_scope_id :: "seed_outside \<Rightarrow> nat \<Rightarrow> string" where
  "mint_scope_id x n = mint ''scp'' (so_scope_now x n div 1000) (so_scope_bits x n)"

definition served_declaration :: "(json \<Rightarrow> string) \<Rightarrow> string \<Rightarrow> string" where
  "served_declaration dumps p = dumps (JList [JObj [(''entry'', JStr p), (''project_id'', JStr p)]])"

section \<open>Tenant, project, runner\<close>

definition touches_tenant_owned :: "tables \<Rightarrow> string list \<Rightarrow> bool" where
  "touches_tenant_owned ts names \<longleftrightarrow>
     list_ex (\<lambda>n. case dget ts n of None \<Rightarrow> False | Some t \<Rightarrow> is_tenant_owned (tb_columns t)) names"

definition read_tenant :: "seed_store \<Rightarrow> seed_error + string option" where
  "read_tenant st =
     (case dget (ss_tables st) TENANTS_TABLE of
        None \<Rightarrow>
          (case ss_named_tenant st of
             None \<Rightarrow> Inr None
           | Some n \<Rightarrow> Inl (TenantResolution (''--tenant '' @ py_repr n @ '' names a tenant, but this store has no 'tenants' table ''
                  @ em_dash @ '' a runner store, or a hub store from before tenancy'')))
      | Some t \<Rightarrow>
          map_sum id Some (resolve_tenant
            (map (\<lambda>row. \<lparr>tr_tenant_id = field_text row ''tenant_id'', tr_name = field_text row ''name''\<rparr>)
              (sort_key (\<lambda>row. field_text row ''tenant_id'') (tb_rows t)))
            (ss_named_tenant st)))"

definition tenant_for :: "string list \<Rightarrow> seed_store \<Rightarrow> (seed_error + string option) \<times> seed_store" where
  "tenant_for names st =
     (if \<not> touches_tenant_owned (ss_tables st) names \<and> ss_named_tenant st = None then (Inr None, st)
      else case ss_tenant st of
        Some t \<Rightarrow> (Inr (Some t), st)
      | None \<Rightarrow>
          (case read_tenant st of
             Inl e \<Rightarrow> (Inl e, st)
           | Inr t \<Rightarrow> (Inr t, st\<lparr>ss_tenant := t\<rparr>)))"

definition project_records :: "string option \<Rightarrow> tbl \<Rightarrow> ProjectRecord list" where
  "project_records tenant t =
     (let mine = (case tenant of
            Some i \<Rightarrow> if is_tenant_owned (tb_columns t) then filter (\<lambda>row. cell_is row TENANT_COLUMN (CText i)) (tb_rows t) else tb_rows t
          | None \<Rightarrow> tb_rows t);
          name = (if dget (tb_columns t) ''name'' = None then ''slug'' else ''name'') in
      map (\<lambda>row. \<lparr>pr_project_id = field_text row ''project_id'', pr_slug = field_text row ''slug'', pr_name = field_text row name\<rparr>)
        (sort_key (\<lambda>row. field_text row ''project_id'') mine))"

definition project_for :: "seed_store \<Rightarrow> (seed_error + string) \<times> seed_store" where
  "project_for st =
     (case dget (ss_tables st) PROJECTS_TABLE of
        None \<Rightarrow> (Inl (ProjectResolution (''the store has project-owned tables but no 'projects' table '' @ em_dash @ '' re-migrate the store'')), st)
      | Some t \<Rightarrow>
          (case tenant_for [PROJECTS_TABLE] st of
             (Inl e, st1) \<Rightarrow> (Inl e, st1)
           | (Inr tenant, st1) \<Rightarrow> (settle_project (project_records tenant t), st1)))"

definition identity_runner_id :: "tables \<Rightarrow> string option" where
  "identity_runner_id ts =
     (case rev (sort_key (\<lambda>row. case cell_int (dget row ''id'') of Some i \<Rightarrow> i | None \<Rightarrow> 0) (rows_of ts RUNNER_IDENTITY_TABLE)) of
        [] \<Rightarrow> None
      | row # _ \<Rightarrow> Some (field_text row RUNNER_COLUMN))"

definition runner_for :: "seed_store \<Rightarrow> seed_error + string option" where
  "runner_for st =
     (if dget (ss_tables st) RUNNER_IDENTITY_TABLE = None then Inr None
      else case (ss_named_runner st, identity_runner_id (ss_tables st)) of
        (None, registered) \<Rightarrow> Inr registered
      | (Some n, Some r) \<Rightarrow>
          if r \<noteq> n
          then Inl (RunnerResolution (''the named runner '' @ py_repr n @ '' disagrees with this store's identity row, '' @ py_repr r
                 @ '' '' @ em_dash @ '' rows stamped with an id the runner never sees''))
          else Inr (Some n)
      | (Some n, None) \<Rightarrow> Inr (Some n))"

section \<open>Writing\<close>

definition integrity_text :: "string \<Rightarrow> string" where
  "integrity_text orig =
     ''constraint violation writing seeded rows '' @ em_dash
     @ '' a referenced row (e.g. a --chunk/--runner-id this store never seeded) may not exist, or the store already carries this data (try `reset` first): ''
     @ orig"

definition append_row :: "string \<Rightarrow> cells \<Rightarrow> tables \<Rightarrow> tables" where
  "append_row n row ts = map (\<lambda>(m, t). (m, if m = n then t\<lparr>tb_rows := tb_rows t @ [row]\<rparr> else t)) ts"

definition insert_row :: "database \<Rightarrow> string \<Rightarrow> cells \<Rightarrow> tables \<Rightarrow> seed_error + tables" where
  "insert_row db n values ts =
     (let ts1 = append_row n (db_complete db n ts values) ts in
      case db_refuses db ts1 of Some orig \<Rightarrow> Inl (SeedIntegrity (integrity_text orig)) | None \<Rightarrow> Inr ts1)"

fun insert_rows :: "database \<Rightarrow> string \<Rightarrow> FactRow list \<Rightarrow> tables \<Rightarrow> seed_error + tables" where
  "insert_rows db n [] ts = Inr ts"
| "insert_rows db n (row # rows) ts =
     (case insert_row db n (fr_values row) ts of Inl e \<Rightarrow> Inl e | Inr ts1 \<Rightarrow> insert_rows db n rows ts1)"

text \<open>Parents before children: the tables in their order, each with its rows in the order composed.\<close>

fun insert_tables :: "database \<Rightarrow> string list \<Rightarrow> FactRow list \<Rightarrow> tables \<Rightarrow> seed_error + tables" where
  "insert_tables db [] rows ts = Inr ts"
| "insert_tables db (n # ns) rows ts =
     (case insert_rows db n (filter (\<lambda>row. fr_table row = n) rows) ts of
        Inl e \<Rightarrow> Inl e
      | Inr ts1 \<Rightarrow> insert_tables db ns rows ts1)"

definition lane_table :: "string \<Rightarrow> string option" where
  "lane_table lane = map_option fst (find (\<lambda>(n, l). l = lane) OUTBOX_LANES)"

definition highest :: "int list \<Rightarrow> int" where
  "highest ns = (case ns of [] \<Rightarrow> 0 | n # rest \<Rightarrow> fold max rest n)"

definition held_seqs :: "tables \<Rightarrow> lane_key \<Rightarrow> int list" where
  "held_seqs ts key =
     (case lane_table (snd key) of
        None \<Rightarrow> []
      | Some n \<Rightarrow>
          List.map_filter (\<lambda>row. cell_int (dget row OUTBOX_SEQ_COLUMN))
            (filter (\<lambda>row. cell_is row RUNNER_COLUMN (CText (fst key))) (rows_of ts n)))"

definition is_counter :: "lane_key \<Rightarrow> cells \<Rightarrow> bool" where
  "is_counter key row \<longleftrightarrow> cell_is row ''runner_id'' (CText (fst key)) \<and> cell_is row ''lane'' (CText (snd key))"

definition counted_seq :: "tables \<Rightarrow> lane_key \<Rightarrow> int" where
  "counted_seq ts key =
     (case find (is_counter key) (rows_of ts OUTBOX_COUNTERS_TABLE) of
        None \<Rightarrow> 0
      | Some row \<Rightarrow> (case cell_int (dget row ''last_seq'') of None \<Rightarrow> 0 | Some n \<Rightarrow> n))"

definition last_issued :: "tables \<Rightarrow> lane_key \<Rightarrow> int" where
  "last_issued ts key = max (counted_seq ts key) (highest (held_seqs ts key))"

definition set_counter :: "database \<Rightarrow> lane_key \<Rightarrow> int \<Rightarrow> tables \<Rightarrow> seed_error + tables" where
  "set_counter db key n ts =
     (if list_ex (is_counter key) (rows_of ts OUTBOX_COUNTERS_TABLE)
      then let ts1 = map (\<lambda>(m, t). (m, if m = OUTBOX_COUNTERS_TABLE
                   then t\<lparr>tb_rows := map (\<lambda>row. if is_counter key row then dset ''last_seq'' (CInt n) row else row) (tb_rows t)\<rparr>
                   else t)) ts in
           (case db_refuses db ts1 of Some orig \<Rightarrow> Inl (SeedIntegrity (integrity_text orig)) | None \<Rightarrow> Inr ts1)
      else insert_row db OUTBOX_COUNTERS_TABLE
             [(''runner_id'', CText (fst key)), (''lane'', CText (snd key)), (''last_seq'', CInt n)] ts)"

fun set_counters :: "database \<Rightarrow> (lane_key, int) dict \<Rightarrow> tables \<Rightarrow> seed_error + tables" where
  "set_counters db [] ts = Inr ts"
| "set_counters db ((key, n) # iss) ts = (case set_counter db key n ts of Inl e \<Rightarrow> Inl e | Inr ts1 \<Rightarrow> set_counters db iss ts1)"

definition allocate_outbox_seqs :: "database \<Rightarrow> FactRow list \<Rightarrow> tables \<Rightarrow> seed_error + FactRow list \<times> tables" where
  "allocate_outbox_seqs db rows ts =
     (if dget ts OUTBOX_COUNTERS_TABLE = None then Inr (rows, ts)
      else case assign_outbox_seqs (last_issued ts) [] rows of
        (assigned, issued) \<Rightarrow> map_sum id (\<lambda>ts1. (assigned, ts1)) (set_counters db issued ts))"

definition write_transaction :: "database \<Rightarrow> FactRow list \<Rightarrow> tables \<Rightarrow> seed_error + tables" where
  "write_transaction db rows ts =
     (case allocate_outbox_seqs db rows ts of
        Inl e \<Rightarrow> Inl e
      | Inr (assigned, ts1) \<Rightarrow>
          (case check_drift (snapshot ts) assigned of
             Inl e \<Rightarrow> Inl e
           | Inr _ \<Rightarrow> insert_tables db (map fst ts) assigned ts1))"

definition scope_count :: "schema \<Rightarrow> FactRow list \<Rightarrow> nat" where
  "scope_count schema rows =
     length (filter (\<lambda>row. case dget schema (fr_table row) of None \<Rightarrow> False | Some cols \<Rightarrow> needs_scope_id row cols) rows)"

definition write_stamped ::
  "seed_outside \<Rightarrow> FactRow list \<Rightarrow> string option \<Rightarrow> string option \<Rightarrow> seed_store \<Rightarrow> (seed_error + unit) \<times> seed_store" where
  "write_stamped x rows tenant project st =
     (case runner_for st of
        Inl e \<Rightarrow> (Inl e, st)
      | Inr runner \<Rightarrow>
          let schema = snapshot (ss_tables st);
              stamped = stamp_rows \<lparr>st_tenant = tenant, st_project = project, st_runner = runner,
                            st_declaration = served_declaration (so_dumps x)\<rparr> schema (mint_scope_id x) (ss_scopes st) rows;
              st1 = st\<lparr>ss_scopes := ss_scopes st + scope_count schema rows\<rparr> in
          (case require_runner schema stamped of
             Inl e \<Rightarrow> (Inl e, st1)
           | Inr _ \<Rightarrow>
               (case write_transaction (so_db x) stamped (ss_tables st) of
                  Inl e \<Rightarrow> (Inl e, st1)
                | Inr ts \<Rightarrow> (Inr (), st1\<lparr>ss_tables := ts\<rparr>))))"

definition store_write :: "seed_outside \<Rightarrow> FactRow list \<Rightarrow> seed_store \<Rightarrow> (seed_error + unit) \<times> seed_store" where
  "store_write x rows st =
     (if rows = [] then (Inr (), st)
      else case tenant_for (map fr_table rows) st of
        (Inl e, st1) \<Rightarrow> (Inl e, st1)
      | (Inr tenant, st1) \<Rightarrow>
          if needs_project rows (snapshot (ss_tables st1))
          then (case project_for st1 of
                  (Inl e, st2) \<Rightarrow> (Inl e, st2)
                | (Inr p, st2) \<Rightarrow> write_stamped x rows tenant (Some p) st2)
          else write_stamped x rows tenant None st1)"

section \<open>Resetting and reading\<close>

definition MIGRATION_TRACKING_TABLE :: string where "MIGRATION_TRACKING_TABLE = ''alembic_version''"

text \<open>The rows a delete leaves: those that match the filter, and those of which the database cannot say that
  they do not, a null standing where the filter names a value.\<close>

definition survives :: "cells option \<Rightarrow> cells \<Rightarrow> bool" where
  "survives keep row =
     (case keep of
        None \<Rightarrow> False
      | Some [] \<Rightarrow> False
      | Some kvs \<Rightarrow> list_all (\<lambda>(k, v). cell_is row k v \<or> cell_is row k CNull) kvs)"

definition absent_columns :: "cells \<Rightarrow> columns \<Rightarrow> string list" where
  "absent_columns keep cols = sort (filter (\<lambda>k. dget cols k = None) (dkeys keep))"

definition delete_outside :: "database \<Rightarrow> string \<Rightarrow> cells option \<Rightarrow> tables \<Rightarrow> seed_error + nat \<times> tables" where
  "delete_outside db n keep ts =
     (case dget ts n of
        None \<Rightarrow> Inr (0, ts)
      | Some t \<Rightarrow>
          let absent = (case keep of None \<Rightarrow> [] | Some kvs \<Rightarrow> absent_columns kvs (tb_columns t)) in
          if absent \<noteq> []
          then Inl (SchemaDrift (''schema drift: table '' @ py_repr n @ '' has no column(s) '' @ repr_list absent
                 @ '' to tell the rows a reset keeps '' @ em_dash @ '' see '' @ GUIDE))
          else let left = filter (survives keep) (tb_rows t);
                   ts1 = map (\<lambda>(m, u). (m, if m = n then u\<lparr>tb_rows := filter (survives keep) (tb_rows u)\<rparr> else u)) ts in
               (case db_refuses db ts1 of
                  Some orig \<Rightarrow> Inl (StoreFault orig)
                | None \<Rightarrow> Inr (length (tb_rows t) - length left, ts1)))"

fun delete_all :: "database \<Rightarrow> ResetBoundary \<Rightarrow> string list \<Rightarrow> tables \<Rightarrow> seed_error + nat \<times> tables" where
  "delete_all db b [] ts = Inr (0, ts)"
| "delete_all db b (n # ns) ts =
     (case delete_outside db n (dget (rb_kept_rows b) n) ts of
        Inl e \<Rightarrow> Inl e
      | Inr (gone, ts1) \<Rightarrow> map_sum id (\<lambda>(g, ts2). (gone + g, ts2)) (delete_all db b ns ts1))"

definition reset_tables :: "ResetBoundary \<Rightarrow> string list \<Rightarrow> string list" where
  "reset_tables b names = filter (\<lambda>n. n \<noteq> MIGRATION_TRACKING_TABLE \<and> n \<notin> set (rb_kept_tables b)) names"

definition kept_tables :: "ResetBoundary \<Rightarrow> string list \<Rightarrow> string list" where
  "kept_tables b names = filter (\<lambda>n. n \<noteq> MIGRATION_TRACKING_TABLE \<and> n \<in> set (rb_kept_tables b)) names"

definition store_reset :: "seed_outside \<Rightarrow> ResetBoundary \<Rightarrow> seed_store \<Rightarrow> (seed_error + ResetSummary) \<times> seed_store" where
  "store_reset x b st =
     (if ss_tables st = []
      then (Inl (SchemaDrift (''the store has no tables '' @ em_dash @ '' is it migrated? (run the daemon's `migrate`) '' @ em_dash
             @ '' see '' @ GUIDE)), st)
      else let names = map fst (ss_tables st); c = boundary_for b names in
           (case delete_all (so_db x) c (rev (reset_tables c names)) (ss_tables st) of
              Inl e \<Rightarrow> (Inl e, st)
            | Inr (gone, ts) \<Rightarrow>
                (Inr \<lparr>su_rows_deleted = gone, su_table_count = length (reset_tables c names),
                   su_tables_kept = length (kept_tables c names)\<rparr>, st\<lparr>ss_tables := ts\<rparr>)))"

fun query_filter :: "string \<Rightarrow> columns \<Rightarrow> cells \<Rightarrow> cells list \<Rightarrow> seed_error + cells list" where
  "query_filter n cols [] rows = Inr rows"
| "query_filter n cols ((k, v) # kvs) rows =
     (if dget cols k = None
      then Inl (SchemaDrift (''schema drift: table '' @ py_repr n @ '' has no column '' @ py_repr k @ '' '' @ em_dash @ '' see '' @ GUIDE))
      else query_filter n cols kvs (filter (\<lambda>row. cell_is row k v) rows))"

definition store_query :: "string \<Rightarrow> cells \<Rightarrow> seed_store \<Rightarrow> (seed_error + cells list) \<times> seed_store" where
  "store_query n wanted st =
     (case dget (ss_tables st) n of
        None \<Rightarrow> (Inl (SchemaDrift (''schema drift: table '' @ py_repr n @ '' does not exist in the live store '' @ em_dash @ '' see '' @ GUIDE)), st)
      | Some t \<Rightarrow>
          (case tenant_for [n] st of
             (Inl e, st1) \<Rightarrow> (Inl e, st1)
           | (Inr tenant, st1) \<Rightarrow>
               let mine = (case tenant of
                     Some i \<Rightarrow> if is_tenant_owned (tb_columns t) then filter (\<lambda>row. cell_is row TENANT_COLUMN (CText i)) (tb_rows t) else tb_rows t
                   | None \<Rightarrow> tb_rows t) in
               (query_filter n (tb_columns t) wanted mine, st1)))"

definition has_column :: "string \<Rightarrow> string \<Rightarrow> seed_store \<Rightarrow> bool" where
  "has_column n k st = (case dget (ss_tables st) n of None \<Rightarrow> False | Some t \<Rightarrow> dget (tb_columns t) k \<noteq> None)"

end
