(* ===== verification/Seed_Life.thy ===== *)
theory Seed_Life
  imports Seed_World Seed_Store
begin

text \<open>
  What holds of \<^verbatim>\<open>blizzard-mock-data\<close>: the status a chunk's rows derive, the scenario board, the mirror of a
  fleet, the numbering of outbox rows and the reset of a store.
\<close>

section \<open>Chunks\<close>

text \<open>C5. A chunk is composed exactly when the status is known, a cause is only given for an escalation and the
  node named, or the status's own, is one the status can land on; and the rows composed derive, in the
  documented precedence, the status that was asked for, on every graph whose nodes have ids of their own. (The
  route of a mirrored chunk is for the two mirrored statuses, as the composer says. What the daemon derives is
  a specification, \<open>derived_status\<close>: the order of \<^verbatim>\<open>STATUSES\<close> as \<^verbatim>\<open>chunk_seed.py\<close> documents it, by which rows
  there are and not by what else they hold; the daemon's own code is not in this repository.)\<close>

theorem chunk_derives_its_status:
  assumes "graph_sound g" "cp_mirrored c \<longrightarrow> cp_status c \<in> set MIRRORED_STATUSES"
  shows "case compose_chunk v c g n of
      Inl _ \<Rightarrow> \<not> chunk_composes c g
    | Inr ((i, rows), _) \<Rightarrow> chunk_composes c g \<and> derived_status g rows = cp_status c \<and> keys_in rows ''chunks'' = [i]"
proof (cases "compose_chunk v c g n")
  case (Inl e)
  then show ?thesis using compose_chunk_iff [of v c g n] by simp
next
  case (Inr r)
  obtain i rows n1 where r: "r = ((i, rows), n1)" by (metis surj_pair)
  note c = Inr [unfolded r]
  then show ?thesis
    using compose_chunk_iff [of v c g n] compose_chunk_derives [OF c assms] chunk_block_keys(1) [OF compose_chunk_block [OF c refl]] by simp
qed

definition fx_seeding :: seeding where
  "fx_seeding = \<lparr>sd_now = (\<lambda>_. 1704067200000000), sd_bits = int, sd_pick = id, sd_dumps = json_repr, sd_loads = (\<lambda>_. Inr JNull)\<rparr>"

theorem chunk_derives_its_status_witness:
  "\<exists>rows n1. compose_chunk fx_seeding ((chunk_at ''needs_human'')\<lparr>cp_chunk_id := Some ''ch'', cp_mirrored := True\<rparr>)
       (minted_context ''g'' ''b'' ''d'') 0 = Inr ((''ch'', rows), n1)
     \<and> derived_status (minted_context ''g'' ''b'' ''d'') rows = ''needs_human''"
proof -
  let ?g = "minted_context ''g'' ''b'' ''d''" and ?c = "(chunk_at ''needs_human'')\<lparr>cp_chunk_id := Some ''ch'', cp_mirrored := True\<rparr>"
  have g: "graph_sound ?g"
    by (simp add: graph_sound_def minted_context_def BUILD_NODE_NAME_def DELIVER_NODE_NAME_def RESERVED_TERMINAL_def)
  have m: "cp_mirrored ?c \<longrightarrow> cp_status ?c \<in> set MIRRORED_STATUSES" by (simp add: chunk_at_def MIRRORED_STATUSES_def)
  have "\<exists>rows n1. compose_chunk fx_seeding ?c ?g 0 = Inr ((''ch'', rows), n1)"
    by (simp add: compose_chunk_def refuse_spec_def chunk_at_def CHUNK_STATUSES_def chunk_id_of_def truthy_def status_rows_def
        needs_human_rows_def landed_node_def minted_nodes transition_row_def finish_rows_def route_created_row_def)
  with chunk_derives_its_status [OF g m, of fx_seeding 0] show ?thesis by (auto simp: chunk_at_def)
qed

section \<open>The board\<close>

definition board_keys :: "board_spec \<Rightarrow> BoardScenario \<Rightarrow> string \<Rightarrow> string set" where
  "board_keys b board t = set (keys_in (bd_rows board) t) \<union> (if t = ''runner_registrations'' then unregistered b else {})"

definition stands_alone :: "board_spec \<Rightarrow> BoardScenario \<Rightarrow> bool" where
  "stands_alone b board \<longleftrightarrow> list_all (row_known (board_keys b board)) (bd_rows board)"

definition census_count :: "string \<Rightarrow> ChunkCensusEntry list \<Rightarrow> nat" where
  "census_count s es = length (filter (\<lambda>e. ce_status e = s) es)"

definition census_true :: "board_spec \<Rightarrow> BoardScenario \<Rightarrow> bool" where
  "census_true b board \<longleftrightarrow>
     (let c = bd_census board; rows = bd_rows board in
      map ce_chunk_id (bc_chunk_entries c) = keys_in rows ''chunks''
      \<and> map ce_status (bc_chunk_entries c) = map status_at [0..<nat (bs_chunks b)] @ (if bs_stress b then [''waiting_on_human'', ''running''] else [])
      \<and> (\<forall>s. dget_or (bc_status_counts c) s 0 = census_count s (bc_chunk_entries c))
      \<and> set (bc_runner_ids c) = board_keys b board ''runner_registrations''
      \<and> bc_usage_fact_count c = count_table ''usage_facts'' rows \<and> bc_cost_partial_count c = null_costs rows
      \<and> bc_artifact_count c = count_table ''artifacts'' rows)"

lemma status_counts_true: "dget_or (status_counts es) s 0 = census_count s es"
proof -
  have "dget_or (fold (\<lambda>e d. dset (ce_status e) (dget_or d (ce_status e) 0 + 1) d) es d) s 0 = dget_or d s 0 + census_count s es" for d
    by (induction es arbitrary: d) (auto simp: dget_or_def census_count_def split: option.split)
  from this [of "[]"] show ?thesis by (simp add: status_counts_def dget_or_def)
qed

lemma board_runners:
  assumes "cs \<noteq> []" "list_all (built_chunk_ok b g) cs"
  shows "set (dkeys (runner_workspaces cs)) = set (keys_in (registration_rows b cs now) ''runner_registrations'') \<union> unregistered b"
proof -
  have "r \<in> fst ` set (runner_workspaces cs)" if "bs_runner_id b = Some r" for r
  proof -
    have "hd cs \<in> set cs" using assms(1) by simp
    moreover from this have "r = bk_runner (hd cs)" using assms(2) that by (auto simp: built_chunk_ok_def list_all_iff)
    ultimately show ?thesis by (simp add: runner_workspaces_def dkeys_setdefaults)
  qed
  then show ?thesis unfolding registered_runners unregistered_def by (force simp: image_iff)
qed

text \<open>The parts of a board and what each brings.\<close>

lemma board_parts:
  assumes "compose_board_scenario v b n = Inr (board, n1)"
  obtains gid bid did aid lid b1 b2 b3 now cs facts ids sx where
    "1 \<le> bs_chunks b" "cs \<noteq> []" "list_all (built_chunk_ok b (minted_context gid bid did)) cs"
    "map (ce_status \<circ> bk_entry) cs = map status_at [0..<nat (bs_chunks b)]"
    "facts_ok b bid did cs facts ids" "sx = None \<longleftrightarrow> \<not> bs_stress b" "\<And>s. sx = Some s \<Longrightarrow> stress_ok gid bid did s"
    "bd_rows board = minted_rows (str_or (bs_graph_name b) DEFAULT_GRAPH_NAME) (bs_has_action b) gid bid did aid lid [b1, b2, b3] now
       @ concat (map bk_rows cs) @ facts @ (case sx of None \<Rightarrow> [] | Some s \<Rightarrow> sx_rows s)"
    "bd_census board = board_census b bid cs ids sx (bd_rows board)"
proof -
  from assms have pos: "1 \<le> bs_chunks b" by (auto simp: compose_board_scenario_def split: if_splits)
  from assms pos obtain minted n2 where mint: "compose_graph v (str_or (bs_graph_name b) DEFAULT_GRAPH_NAME) (bs_has_action b) n = Inr (minted, n2)"
    by (auto simp: compose_board_scenario_def sbind_ok)
  from compose_graph_form [OF mint] obtain gid bid did aid lid b1 b2 b3 now where
    minted: "minted = \<lparr>mg_context = minted_context gid bid did,
       mg_rows = minted_rows (str_or (bs_graph_name b) DEFAULT_GRAPH_NAME) (bs_has_action b) gid bid did aid lid [b1, b2, b3] now\<rparr>" .
  obtain cs n3 where cs: "seed_chunks v b (minted_context gid bid did) (Suc n2) = Inr (cs, n3)" using seed_chunks_Inr by (metis surj_pair)
  note c = seed_chunks_ok [OF cs]
  then have ne: "cs \<noteq> []" using pos by auto
  obtain facts ids n4 where facts: "board_facts v b (minted_context gid bid did) (sd_now v n2) cs n3 = Inr ((facts, ids), n4)" "facts_ok b bid did cs facts ids"
    using board_facts_ok [OF ne] by blast
  obtain sx n5 where sx: "(if bs_stress b then sbind (compose_stress_extras v (minted_context gid bid did)) (\<lambda>s. sret (Some s)) else sret None) n4 = Inr (sx, n5)"
    "sx = None \<longleftrightarrow> \<not> bs_stress b" "\<And>s. sx = Some s \<Longrightarrow> stress_ok gid bid did s"
    using stress_extras_ok [of v gid bid did n4] by (cases "bs_stress b") auto
  from assms pos have "bd_rows board = mg_rows minted @ concat (map bk_rows cs) @ facts @ (case sx of None \<Rightarrow> [] | Some s \<Rightarrow> sx_rows s)
      \<and> bd_census board = board_census b bid cs ids sx (bd_rows board)"
    unfolding compose_board_scenario_def using mint cs facts(1) sx(1)
    by (cases "bs_stress b") (auto simp: minted minted_nodes Let_def)
  with that [OF pos ne c(1,2) facts(2) sx(2,3)] show thesis by (simp add: minted)
qed

lemma facts_known:
  assumes "facts_ok b bid did cs facts ids" "\<And>c. c \<in> set cs \<Longrightarrow> ce_chunk_id (bk_entry c) \<in> K ''chunks'' \<and> bk_runner c \<in> K ''runner_registrations''"
    "{bid, did} \<subseteq> K ''graph_nodes''" "set (keys_in facts ''runner_registrations'') \<subseteq> K ''runner_registrations''"
  shows "list_all (row_known K) facts"
  using assms unfolding facts_ok_def by blast

lemma board_keys_parts:
  assumes "facts_ok b bid did cs facts ids" "list_all (built_chunk_ok b (minted_context gid bid did)) cs"
    "rows = minted_rows name a gid bid did aid lid [b1, b2, b3] now @ concat (map bk_rows cs) @ facts @ xs"
  shows "keys_in rows ''chunks'' = map (ce_chunk_id \<circ> bk_entry) cs @ keys_in xs ''chunks''"
    "keys_in rows ''graphs'' = gid # keys_in xs ''graphs''" "keys_in rows ''graph_nodes'' = [bid, did] @ keys_in xs ''graph_nodes''"
    "keys_in rows ''runner_registrations'' = keys_in facts ''runner_registrations'' @ keys_in xs ''runner_registrations''"
    "keys_in rows ''graph_choices'' = [aid, lid, b1, b2, b3] @ keys_in xs ''graph_choices''"
    "count_table ''usage_facts'' rows = length (used_chunks cs) + count_table ''usage_facts'' xs"
    "null_costs rows = length (filter (\<lambda>(i, c). board_cost i = None) (used_chunks cs)) + null_costs xs"
proof -
  note c = chunks_keys [OF assms(2)]
  have f: "\<And>t. t \<noteq> ''runner_registrations'' \<Longrightarrow> keys_in facts t = []" "count_table ''usage_facts'' facts = length (used_chunks cs)"
    "null_costs facts = length (filter (\<lambda>(i, c). board_cost i = None) (used_chunks cs))"
    using assms(1) unfolding facts_ok_def by blast+
  show "keys_in rows ''chunks'' = map (ce_chunk_id \<circ> bk_entry) cs @ keys_in xs ''chunks''"
    "keys_in rows ''graphs'' = gid # keys_in xs ''graphs''" "keys_in rows ''graph_nodes'' = [bid, did] @ keys_in xs ''graph_nodes''"
    "keys_in rows ''runner_registrations'' = keys_in facts ''runner_registrations'' @ keys_in xs ''runner_registrations''"
    "keys_in rows ''graph_choices'' = [aid, lid, b1, b2, b3] @ keys_in xs ''graph_choices''"
    using c f(1) by (simp_all add: assms(3) minted_keys CHUNK_FACT_TABLES_def)
  show "count_table ''usage_facts'' rows = length (used_chunks cs) + count_table ''usage_facts'' xs"
    using c(3) [of "''usage_facts''"] f(2) by (simp add: assms(3) minted_counts CHUNK_FACT_TABLES_def)
  show "null_costs rows = length (filter (\<lambda>(i, c). board_cost i = None) (used_chunks cs)) + null_costs xs"
    using c(3) [of "''usage_facts''"] f(3) by (simp add: assms(3) no_null_costs minted_counts CHUNK_FACT_TABLES_def)
qed

lemma board_composes:
  assumes pos: "\<not> bs_chunks b < 1"
  shows "\<exists>r. compose_board_scenario v b n = Inr r"
proof -
  obtain mg n1 where mint: "compose_graph v (str_or (bs_graph_name b) DEFAULT_GRAPH_NAME) (bs_has_action b) n = Inr (mg, n1)"
    using compose_graph_Inr by blast
  from compose_graph_form [OF mint] obtain gid bid did where g: "mg_context mg = minted_context gid bid did" by (metis MintedGraph.select_convs(1))
  obtain cs n3 where cs: "seed_chunks v b (minted_context gid bid did) (Suc n1) = Inr (cs, n3)" using seed_chunks_Inr by (metis surj_pair)
  have "cs \<noteq> []" using seed_chunks_ok(3) [OF cs] pos by auto
  then obtain facts ids n4 where facts: "board_facts v b (minted_context gid bid did) (sd_now v n1) cs n3 = Inr ((facts, ids), n4)"
    using board_facts_ok by blast
  show ?thesis
    unfolding compose_board_scenario_def using pos mint cs facts stress_extras_ok [of v gid bid did n4]
    by (cases "bs_stress b") (auto simp: g minted_nodes Let_def)
qed

text \<open>C23. A scenario board is refused only for having no chunk. Otherwise it stands alone: every chunk, graph,
  node, choice and runner a row of it names is itself a row of it (a pinned runner that is already registered
  aside), so it asks nothing of the store it is written to; and its census is true of its rows: the chunks in order with
  the statuses of the cycle, the count of each status, the runners, the usage facts and those without a cost,
  and the artifacts.\<close>

theorem board_stands_alone:
  "case compose_board_scenario v b n of
     Inl _ \<Rightarrow> bs_chunks b < 1
   | Inr (board, _) \<Rightarrow> 1 \<le> bs_chunks b \<and> stands_alone b board \<and> census_true b board"
proof (cases "compose_board_scenario v b n")
  case (Inl e)
  have "bs_chunks b < 1" using board_composes [of b v n] Inl by auto
  with Inl show ?thesis by simp
next
  case (Inr r)
  obtain board n1 where r: "r = (board, n1)" by fastforce
  obtain gid bid did aid lid b1 b2 b3 now cs facts ids sx where pos: "1 \<le> bs_chunks b" "cs \<noteq> []"
    and c: "list_all (built_chunk_ok b (minted_context gid bid did)) cs" "map (ce_status \<circ> bk_entry) cs = map status_at [0..<nat (bs_chunks b)]"
    and f: "facts_ok b bid did cs facts ids" and sx: "sx = None \<longleftrightarrow> \<not> bs_stress b" "\<And>s. sx = Some s \<Longrightarrow> stress_ok gid bid did s"
    and rows: "bd_rows board = minted_rows (str_or (bs_graph_name b) DEFAULT_GRAPH_NAME) (bs_has_action b) gid bid did aid lid [b1, b2, b3] now
       @ concat (map bk_rows cs) @ facts @ (case sx of None \<Rightarrow> [] | Some s \<Rightarrow> sx_rows s)"
    and census: "bd_census board = board_census b bid cs ids sx (bd_rows board)"
    using board_parts [OF Inr [unfolded r]] by metis
  let ?xs = "case sx of None \<Rightarrow> [] | Some s \<Rightarrow> sx_rows s"
  note keys = board_keys_parts [OF f c(1) rows]
  let ?K = "board_keys b board"
  obtain now' where regs: "keys_in facts ''runner_registrations'' = keys_in (registration_rows b cs now') ''runner_registrations'' @ ids"
    using f unfolding facts_ok_def by blast
  have chunk_known: "ce_chunk_id (bk_entry c) \<in> ?K ''chunks'' \<and> bk_runner c \<in> ?K ''runner_registrations''" if "c \<in> set cs" for c
    using runner_registered [OF that, of b now'] that by (auto simp: board_keys_def keys regs)
  have nodes: "gid \<in> ?K ''graphs''" "{bid, did} \<subseteq> ?K ''graph_nodes''" by (simp_all add: board_keys_def keys)
  have "list_all (row_known ?K) (concat (map bk_rows cs))"
    by (rule chunks_known [OF c(1)]) (use chunk_known nodes in \<open>auto simp: knows_def minted_context_def\<close>)
  moreover have "list_all (row_known ?K) (minted_rows (str_or (bs_graph_name b) DEFAULT_GRAPH_NAME) (bs_has_action b) gid bid did aid lid [b1, b2, b3] now)"
    by (rule minted_known) (use nodes in \<open>auto simp: board_keys_def keys\<close>)
  moreover have "list_all (row_known ?K) facts"
    by (rule facts_known [OF f chunk_known nodes(2)]) (auto simp: board_keys_def keys)
  moreover have "list_all (row_known ?K) ?xs"
  proof (cases sx)
    case (Some s)
    have "set (keys_in (sx_rows s) t) \<subseteq> ?K t" for t unfolding board_keys_def rows Some by auto
    then show ?thesis using sx(2) [OF Some] nodes Some unfolding stress_ok_def by simp
  qed simp
  ultimately have alone: "stands_alone b board" unfolding stands_alone_def by (subst rows) simp
  let ?c = "bd_census board"
  have entries: "bc_chunk_entries ?c = map bk_entry cs @ (case sx of None \<Rightarrow> [] | Some s \<Rightarrow> sx_entries s)"
    and runners: "bc_runner_ids ?c = dkeys (runner_workspaces cs) @ ids @ (case sx of None \<Rightarrow> [] | Some s \<Rightarrow> [sx_runner_id s])"
    unfolding census board_census_def Let_def by simp_all
  have xs: "keys_in ?xs ''chunks'' = map ce_chunk_id (case sx of None \<Rightarrow> [] | Some s \<Rightarrow> sx_entries s)"
    "map ce_status (case sx of None \<Rightarrow> [] | Some s \<Rightarrow> sx_entries s) = (if bs_stress b then [''waiting_on_human'', ''running''] else [])"
    "keys_in ?xs ''runner_registrations'' = (case sx of None \<Rightarrow> [] | Some s \<Rightarrow> [sx_runner_id s])" "count_table ''usage_facts'' ?xs = 0"
    using sx by (auto simp: stress_ok_def split: option.split)
  have "census_true b board"
    unfolding census_true_def Let_def
  proof (intro conjI allI)
    show "map ce_chunk_id (bc_chunk_entries ?c) = keys_in (bd_rows board) ''chunks''" unfolding entries by (simp add: keys xs)
    show "map ce_status (bc_chunk_entries ?c) = map status_at [0..<nat (bs_chunks b)] @ (if bs_stress b then [''waiting_on_human'', ''running''] else [])"
      unfolding entries using c(2) xs(2) by simp
    show "dget_or (bc_status_counts ?c) s 0 = census_count s (bc_chunk_entries ?c)" for s
      unfolding census board_census_def Let_def by (simp add: status_counts_true)
    show "set (bc_runner_ids ?c) = ?K ''runner_registrations''"
      unfolding runners board_keys_def by (simp add: keys regs xs board_runners [OF pos(2) c(1), of now'] del: set_map) blast
    show "bc_usage_fact_count ?c = count_table ''usage_facts'' (bd_rows board)" "bc_cost_partial_count ?c = null_costs (bd_rows board)"
      unfolding census board_census_def Let_def by (simp_all add: keys xs no_null_costs)
    show "bc_artifact_count ?c = count_table ''artifacts'' (bd_rows board)" unfolding census board_census_def Let_def by simp
  qed
  with alone pos show ?thesis by (simp add: Inr r)
qed

end
