(* ===== verification/Seed_Ledger.thy ===== *)
theory Seed_Ledger
  imports Seed_Store
begin

text \<open>
  What the store of \<^verbatim>\<open>blizzard-mock-data\<close> promises: how outbox rows are given_number, and what a reset leaves.
\<close>

section \<open>The numbers drawn for a batch\<close>

text \<open>The sequence numbers a list of rows holds in one lane, and the highest of them above a floor.\<close>

definition lane_numbers :: "lane_key \<Rightarrow> FactRow list \<Rightarrow> int list" where
  "lane_numbers key rows =
     concat (map (\<lambda>r. if lane_of r = Some key
                      then (case cell_int (dget (fr_values r) OUTBOX_SEQ_COLUMN) of None \<Rightarrow> [] | Some n \<Rightarrow> [n]) else []) rows)"

abbreviation above :: "int \<Rightarrow> int list \<Rightarrow> int" where
  "above base ns \<equiv> fold max ns base"

lemma lane_numbers_simps [simp]:
  "lane_numbers key [] = []" "lane_numbers key (xs @ ys) = lane_numbers key xs @ lane_numbers key ys"
  "lane_numbers key (r # rows) =
     (if lane_of r = Some key then (case cell_int (dget (fr_values r) OUTBOX_SEQ_COLUMN) of None \<Rightarrow> [] | Some n \<Rightarrow> [n]) else []) @ lane_numbers key rows"
  by (simp_all add: lane_numbers_def)

lemma above_ge: "base \<le> above base ns"
proof (induction ns arbitrary: base)
  case (Cons a ns)
  from Cons.IH [of "max a base"] show ?case by simp
qed simp

lemma above_all: "n \<in> set ns \<Longrightarrow> n \<le> above base ns"
proof (induction ns arbitrary: base)
  case (Cons a ns)
  then show ?case using above_ge [of "max a base" ns] by auto
qed simp

definition given_number :: "FactRow \<Rightarrow> int \<Rightarrow> FactRow" where
  "given_number row n = with_values row [(OUTBOX_SEQ_COLUMN, CInt n)]"

lemma given_number_simps [simp]:
  "lane_of (given_number row n) = lane_of row" "dget (fr_values (given_number row n)) OUTBOX_SEQ_COLUMN = Some (CInt n)"
  by (simp_all add: given_number_def with_values_def lane_of_def seed_names)

lemma cell_int_CInt [simp]: "cell_int (Some (CInt n)) = Some n"
  by (simp add: cell_int_def)

text \<open>The number a row is given: a supplied one stands, else it is the next above all before it.\<close>

definition drawn_row :: "(lane_key \<Rightarrow> int) \<Rightarrow> FactRow list \<Rightarrow> FactRow \<Rightarrow> FactRow" where
  "drawn_row base earlier row =
     (case lane_of row of
        None \<Rightarrow> row
      | Some key \<Rightarrow>
          if cell_int (dget (fr_values row) OUTBOX_SEQ_COLUMN) = None then given_number row (above (base key) (lane_numbers key earlier) + 1) else row)"

lemma assign_closed_form:
  assumes "assign_outbox_seqs base issued rows = (rs, issued')"
  shows "length rs = length rows" "last_of base issued' key = above (last_of base issued key) (lane_numbers key rs)"
    "i < length rows \<Longrightarrow> rs ! i = drawn_row (last_of base issued) (take i rs) (rows ! i)"
    "dget issued' key \<noteq> None \<longleftrightarrow> dget issued key \<noteq> None \<or> (\<exists>row \<in> set rows. lane_of row = Some key)"
    "distinct (dkeys issued) \<Longrightarrow> distinct (dkeys issued')"
proof -
  have *: "length rs = length rows \<and> (\<forall>key. last_of base issued' key = above (last_of base issued key) (lane_numbers key rs))
      \<and> (\<forall>i < length rows. rs ! i = drawn_row (last_of base issued) (take i rs) (rows ! i))
      \<and> (\<forall>key. dget issued' key \<noteq> None \<longleftrightarrow> dget issued key \<noteq> None \<or> (\<exists>row \<in> set rows. lane_of row = Some key))
      \<and> (distinct (dkeys issued) \<longrightarrow> distinct (dkeys issued'))"
    using assms
  proof (induction rows arbitrary: issued rs)
    case (Cons row rows)
    show ?case
    proof (cases "lane_of row")
      case None
      with Cons.prems obtain rs1 where rs: "rs = row # rs1" "assign_outbox_seqs base issued rows = (rs1, issued')"
        by (auto split: prod.splits)
      note IH = Cons.IH [OF rs(2)]
      have here: "drawn_row b xs row = row" for b xs using None by (simp add: drawn_row_def)
      have skip: "drawn_row b (row # xs) r = drawn_row b xs r" for b xs r using None by (simp add: drawn_row_def split: option.split)
      have "rs ! i = drawn_row (last_of base issued) (take i rs) ((row # rows) ! i)" if "i < length (row # rows)" for i
        using that IH unfolding rs(1) by (cases i) (auto simp: here skip)
      moreover have "lane_numbers key rs = lane_numbers key rs1" for key using None by (simp add: rs(1))
      ultimately show ?thesis using IH None rs(1) by simp
    next
      case (Some key)
      let ?n = "last_of base issued key"
      let ?r1 = "drawn_row (last_of base issued) [] row"
      obtain k where k: "lane_of ?r1 = Some key" "cell_int (dget (fr_values ?r1) OUTBOX_SEQ_COLUMN) = Some k"
        using Some by (cases "cell_int (dget (fr_values row) OUTBOX_SEQ_COLUMN)") (auto simp: drawn_row_def)
      obtain rs1 where rs: "rs = ?r1 # rs1" "assign_outbox_seqs base (dset key (max ?n k) issued) rows = (rs1, issued')"
        using Cons.prems Some k
        by (cases "cell_int (dget (fr_values row) OUTBOX_SEQ_COLUMN)")
          (auto simp: drawn_row_def Let_def given_number_def [symmetric] split: prod.splits)
      have lst: "last_of base (dset key (max ?n k) issued) key' = above (last_of base issued key') (lane_numbers key' [?r1])" for key'
        using k by (cases "key = key'") (auto simp: last_of_def max.commute)
      have draw: "drawn_row (last_of base (dset key (max ?n k) issued)) xs r = drawn_row (last_of base issued) (?r1 # xs) r" for xs r
        by (simp add: drawn_row_def lst del: lane_numbers_simps(3) split: option.split) (simp add: lane_numbers_def)
      have keys: "distinct (dkeys issued) \<Longrightarrow> distinct (dkeys (dset key (max ?n k) issued))"
        by (simp add: dkeys_dset map_of_eq_None_iff)
      note IH = Cons.IH [OF rs(2)]
      have "rs ! i = drawn_row (last_of base issued) (take i rs) ((row # rows) ! i)" if "i < length (row # rows)" for i
        using that IH draw unfolding rs(1) by (cases i) auto
      moreover have "last_of base issued' key' = above (last_of base issued key') (lane_numbers key' rs)" for key'
      proof -
        have "last_of base issued' key' = above (last_of base (dset key (max ?n k) issued) key') (lane_numbers key' rs1)" using IH by blast
        also have "\<dots> = above (last_of base issued key') (lane_numbers key' [?r1] @ lane_numbers key' rs1)" unfolding lst fold_append o_apply ..
        finally show ?thesis unfolding rs(1) lane_numbers_simps(2) [symmetric] by simp
      qed
      moreover have "dget issued' key' \<noteq> None \<longleftrightarrow> dget issued key' \<noteq> None \<or> (\<exists>r \<in> set (row # rows). lane_of r = Some key')" for key'
      proof -
        have "dget issued' key' \<noteq> None \<longleftrightarrow> dget (dset key (max ?n k) issued) key' \<noteq> None \<or> (\<exists>r \<in> set rows. lane_of r = Some key')"
          using IH by blast
        then show ?thesis using Some by (auto simp del: not_None_eq split: if_splits)
      qed
      moreover have "length rs = length (row # rows)" using IH by (simp add: rs(1))
      ultimately show ?thesis using IH keys by blast
    qed
  qed simp
  show "length rs = length rows" "last_of base issued' key = above (last_of base issued key) (lane_numbers key rs)"
    "i < length rows \<Longrightarrow> rs ! i = drawn_row (last_of base issued) (take i rs) (rows ! i)"
    "dget issued' key \<noteq> None \<longleftrightarrow> dget issued key \<noteq> None \<or> (\<exists>row \<in> set rows. lane_of row = Some key)"
    "distinct (dkeys issued) \<Longrightarrow> distinct (dkeys issued')"
    using * by blast+
qed


section \<open>The counters after it\<close>

text \<open>The database keeps what a row supplies; it only completes what the row leaves out.\<close>

definition keeps_supplied :: "database \<Rightarrow> bool" where
  "keeps_supplied db \<longleftrightarrow> (\<forall>n ts row k v. dget row k = Some v \<longrightarrow> dget (db_complete db n ts row) k = Some v)"

lemma dget_map_table:
  "dget (map (\<lambda>(m, t). (m, if m = n then f t else t)) ts) k = (if k = n then map_option f (dget ts k) else dget ts k)"
  by (induction ts) auto

lemma find_map: "find P (map f xs) = map_option f (find (\<lambda>x. P (f x)) xs)"
  by (induction xs) auto

lemma find_append: "find P (xs @ ys) = (case find P xs of None \<Rightarrow> find P ys | Some x \<Rightarrow> Some x)"
  by (induction xs) auto

lemma is_counter_last_seq [simp]: "is_counter key (dset ''last_seq'' v row) = is_counter key row"
  by (simp add: is_counter_def cell_is_def)

lemma is_counter_unique: "is_counter key row \<Longrightarrow> is_counter key' row \<longleftrightarrow> key' = key"
  by (auto simp: is_counter_def cell_is_def prod_eq_iff)

lemma counter_row_completed:
  assumes "keeps_supplied db"
  shows "is_counter key' (db_complete db n ts [(''runner_id'', CText (fst key)), (''lane'', CText (snd key)), (''last_seq'', CInt m)]) \<longleftrightarrow> key' = key"
    "dget (db_complete db n ts [(''runner_id'', CText (fst key)), (''lane'', CText (snd key)), (''last_seq'', CInt m)]) ''last_seq'' = Some (CInt m)"
proof -
  let ?row = "[(''runner_id'', CText (fst key)), (''lane'', CText (snd key)), (''last_seq'', CInt m)]"
  have k: "dget ?row k = Some v \<Longrightarrow> dget (db_complete db n ts ?row) k = Some v" for k v
    using assms by (simp add: keeps_supplied_def)
  show "is_counter key' (db_complete db n ts ?row) \<longleftrightarrow> key' = key"
    using k [of "''runner_id''"] k [of "''lane''"] by (auto simp: is_counter_def cell_is_def prod_eq_iff)
  show "dget (db_complete db n ts ?row) ''last_seq'' = Some (CInt m)" by (rule k) simp
qed

lemma set_counter_sets:
  assumes "set_counter db key n ts = Inr ts1" "dget ts OUTBOX_COUNTERS_TABLE \<noteq> None" "keeps_supplied db"
  shows "counted_seq ts1 key' = (if key' = key then n else counted_seq ts key')" "dget ts1 OUTBOX_COUNTERS_TABLE \<noteq> None"
proof -
  obtain t where t: "dget ts OUTBOX_COUNTERS_TABLE = Some t" using assms(2) by blast
  have "counted_seq ts1 key' = (if key' = key then n else counted_seq ts key') \<and> dget ts1 OUTBOX_COUNTERS_TABLE \<noteq> None"
  proof (cases "list_ex (is_counter key) (rows_of ts OUTBOX_COUNTERS_TABLE)")
    case True
    let ?up = "\<lambda>row. if is_counter key row then dset ''last_seq'' (CInt n) row else row"
    have ts1: "ts1 = map (\<lambda>(m, u). (m, if m = OUTBOX_COUNTERS_TABLE then u\<lparr>tb_rows := map ?up (tb_rows u)\<rparr> else u)) ts"
      using assms(1) True by (simp add: set_counter_def Let_def split: option.splits)
    have rows: "rows_of ts1 OUTBOX_COUNTERS_TABLE = map ?up (tb_rows t)" "rows_of ts OUTBOX_COUNTERS_TABLE = tb_rows t"
      by (simp_all add: rows_of_def ts1 dget_map_table t)
    have same: "is_counter key' (?up row) = is_counter key' row" for key' row by simp
    have "find (is_counter key) (tb_rows t) \<noteq> None"
      using True by (auto simp: rows list_ex_iff find_None_iff)
    then obtain r where r: "find (is_counter key) (tb_rows t) = Some r" by blast
    from find_Some_iff [THEN iffD1, OF r] have "is_counter key r" by blast
    then have "counted_seq ts1 key = n"
      by (simp add: counted_seq_def rows find_map same r del: map_map)
    moreover have "counted_seq ts1 key' = counted_seq ts key'" if "key' \<noteq> key"
    proof (cases "find (is_counter key') (tb_rows t)")
      case (Some r)
      from find_Some_iff [THEN iffD1, OF Some] have "is_counter key' r" by blast
      then have "\<not> is_counter key r" using that is_counter_unique by blast
      then show ?thesis by (simp add: counted_seq_def rows find_map same Some)
    qed (simp add: counted_seq_def rows find_map same)
    ultimately show ?thesis by (simp add: ts1 dget_map_table t)
  next
    case False
    let ?row = "db_complete db OUTBOX_COUNTERS_TABLE ts [(''runner_id'', CText (fst key)), (''lane'', CText (snd key)), (''last_seq'', CInt n)]"
    have ts1: "ts1 = append_row OUTBOX_COUNTERS_TABLE ?row ts"
      using assms(1) False by (simp add: set_counter_def insert_row_def Let_def split: option.splits)
    have rows: "rows_of ts1 OUTBOX_COUNTERS_TABLE = tb_rows t @ [?row]" "rows_of ts OUTBOX_COUNTERS_TABLE = tb_rows t"
      by (simp_all add: rows_of_def ts1 append_row_def dget_map_table t)
    have "find (is_counter key) (tb_rows t) = None"
      using False by (auto simp: rows list_ex_iff find_None_iff)
    then show ?thesis
      unfolding counted_seq_def rows find_append
      by (simp add: counter_row_completed [OF assms(3)] ts1 append_row_def dget_map_table t split: option.split)
  qed
  then show "counted_seq ts1 key' = (if key' = key then n else counted_seq ts key')" "dget ts1 OUTBOX_COUNTERS_TABLE \<noteq> None" by blast+
qed

lemma set_counters_set:
  "set_counters db iss ts = Inr ts1 \<Longrightarrow> dget ts OUTBOX_COUNTERS_TABLE \<noteq> None \<Longrightarrow> keeps_supplied db \<Longrightarrow> distinct (dkeys iss)
   \<Longrightarrow> counted_seq ts1 key = (case dget iss key of None \<Rightarrow> counted_seq ts key | Some n \<Rightarrow> n)"
proof (induction iss arbitrary: ts)
  case (Cons a iss)
  obtain k n where a: "a = (k, n)" by (cases a)
  obtain ts2 where ts2: "set_counter db k n ts = Inr ts2" "set_counters db iss ts2 = Inr ts1"
    using Cons.prems(1) by (auto simp: a split: sum.splits)
  note s = set_counter_sets [OF ts2(1) Cons.prems(2,3)]
  have "counted_seq ts1 key = (case dget iss key of None \<Rightarrow> counted_seq ts2 key | Some n \<Rightarrow> n)"
    by (rule Cons.IH [OF ts2(2) s(2) Cons.prems(3)]) (use Cons.prems(4) in \<open>simp add: a\<close>)
  moreover have "dget iss k = None"
    using Cons.prems(4) by (auto simp: a map_of_eq_None_iff)
  ultimately show ?case by (auto simp: a s(1) split: option.split)
qed simp


lemma highest_ge: "n \<in> set ns \<Longrightarrow> n \<le> highest ns"
  by (cases ns) (auto simp: highest_def above_ge above_all)

lemma lane_numbers_mem:
  "i < length rows \<Longrightarrow> lane_of (rows ! i) = Some key \<Longrightarrow> cell_int (dget (fr_values (rows ! i)) OUTBOX_SEQ_COLUMN) = Some n
   \<Longrightarrow> n \<in> set (lane_numbers key rows)"
  by (force simp: lane_numbers_def in_set_conv_nth)

lemma drawn_lane [simp]: "lane_of (drawn_row base earlier row) = lane_of row"
  by (simp add: drawn_row_def split: option.split)

lemma allocate_outbox_seqs_parts:
  assumes "allocate_outbox_seqs db rows ts = Inr (rs, ts1)" "dget ts OUTBOX_COUNTERS_TABLE \<noteq> None"
  obtains issued where "assign_outbox_seqs (last_issued ts) [] rows = (rs, issued)" "set_counters db issued ts = Inr ts1"
  using assms by (auto simp: allocate_outbox_seqs_def map_sum_def split: prod.splits sum.splits)

text \<open>C25. Outbox numbers are drawn afresh: a row a runner's lane takes without a number of its own is given one
  above the lane's counter, above every number the store's rows of that runner hold in the lane, and above every
  number of an earlier row of the same batch, and nothing else of the row changes; a row that came with a number
  keeps it; and afterwards the lane's counter stands at or above the number of every row of the batch.\<close>

theorem outbox_numbers_are_fresh:
  assumes "allocate_outbox_seqs db rows ts = Inr (rs, ts1)" "dget ts OUTBOX_COUNTERS_TABLE \<noteq> None" "keeps_supplied db"
    "i < length rows" "lane_of (rows ! i) = Some key"
  shows "\<exists>n. cell_int (dget (fr_values (rs ! i)) OUTBOX_SEQ_COLUMN) = Some n \<and> n \<le> counted_seq ts1 key
      \<and> (case cell_int (dget (fr_values (rows ! i)) OUTBOX_SEQ_COLUMN) of
           Some m \<Rightarrow> rs ! i = rows ! i
         | None \<Rightarrow> rs ! i = with_values (rows ! i) [(OUTBOX_SEQ_COLUMN, CInt n)] \<and> counted_seq ts key < n
             \<and> list_all (\<lambda>m. m < n) (held_seqs ts key @ lane_numbers key (take i rs)))"
proof -
  obtain issued where iss: "assign_outbox_seqs (last_issued ts) [] rows = (rs, issued)" "set_counters db issued ts = Inr ts1"
    by (rule allocate_outbox_seqs_parts [OF assms(1,2)])
  note closed = assign_closed_form [OF iss(1)]
  have last0: "last_of (last_issued ts) [] = last_issued ts" by (rule ext) (simp add: last_of_def)
  have row: "rs ! i = drawn_row (last_issued ts) (take i rs) (rows ! i)"
    using closed(3) [OF assms(4)] by (simp add: last0)
  have "lane_of (rs ! i) = Some key" by (simp add: row assms(5))
  obtain n where n: "cell_int (dget (fr_values (rs ! i)) OUTBOX_SEQ_COLUMN) = Some n"
    by (cases "cell_int (dget (fr_values (rows ! i)) OUTBOX_SEQ_COLUMN)") (auto simp: row drawn_row_def assms(5))
  have "dget issued key \<noteq> None"
    using closed(4) [of key] assms(4,5) nth_mem by blast
  then obtain m where m: "dget issued key = Some m" by blast
  have "m = above (last_issued ts key) (lane_numbers key rs)"
    using closed(2) [of key] by (simp add: last_of_def m)
  moreover have "n \<in> set (lane_numbers key rs)"
    by (rule lane_numbers_mem [of i]) (use closed(1) assms(4) n \<open>lane_of (rs ! i) = Some key\<close> in simp_all)
  moreover have "counted_seq ts1 key = m"
    using set_counters_set [OF iss(2) assms(2,3) closed(5)] m by simp
  ultimately have le: "n \<le> counted_seq ts1 key" by (simp add: above_all)
  show ?thesis
  proof (cases "cell_int (dget (fr_values (rows ! i)) OUTBOX_SEQ_COLUMN)")
    case None
    let ?n = "above (last_issued ts key) (lane_numbers key (take i rs)) + 1"
    have drawn: "rs ! i = given_number (rows ! i) ?n" using None by (simp add: row drawn_row_def assms(5))
    then have "n = ?n" using n by simp
    have "last_issued ts key < ?n" using above_ge [of "last_issued ts key" "lane_numbers key (take i rs)"] by simp
    then have "counted_seq ts key < ?n" "\<forall>m \<in> set (held_seqs ts key). m < ?n"
      by (auto simp: last_issued_def dest!: highest_ge)
    moreover have "\<forall>m \<in> set (lane_numbers key (take i rs)). m < ?n"
      using above_all [of _ "lane_numbers key (take i rs)" "last_issued ts key"] by auto
    ultimately show ?thesis
      using le n drawn None by (auto simp: given_number_def list_all_iff \<open>n = ?n\<close>)
  next
    case (Some k)
    then show ?thesis using le n by (simp add: row drawn_row_def assms(5))
  qed
qed


text \<open>A store of one runner: a counter at 4, a row of the other lane numbered 9, and two rows to number.\<close>

definition ledger_db :: database where
  "ledger_db = \<lparr>db_complete = \<lambda>n ts row. row, db_refuses = \<lambda>ts. None\<rparr>"

definition ledger_tables :: tables where
  "ledger_tables =
     [(''outbox_counters'', \<lparr>tb_columns = [], tb_rows = [[(''runner_id'', CText ''r''), (''lane'', CText ''outbound''), (''last_seq'', CInt 4)]]\<rparr>),
      (''outbound_buffer'', \<lparr>tb_columns = [], tb_rows = [[(''runner_id'', CText ''r''), (''seq'', CInt 9)]]\<rparr>)]"

definition ledger_row :: FactRow where
  "ledger_row = \<lparr>fr_table = ''outbound_buffer'', fr_values = [(''runner_id'', CText ''r'')]\<rparr>"

theorem outbox_numbers_are_fresh_witness:
  "\<exists>rs ts1 n. allocate_outbox_seqs ledger_db [ledger_row, ledger_row] ledger_tables = Inr (rs, ts1)
     \<and> cell_int (dget (fr_values (rs ! 1)) OUTBOX_SEQ_COLUMN) = Some n \<and> n \<le> counted_seq ts1 (''r'', ''outbound'')
     \<and> counted_seq ledger_tables (''r'', ''outbound'') < n"
proof -
  have t: "dget ledger_tables OUTBOX_COUNTERS_TABLE \<noteq> None" by (simp add: ledger_tables_def seed_names)
  have counters: "\<exists>ts1. set_counters ledger_db iss ts = Inr ts1" for iss ts
  proof (induction iss arbitrary: ts)
    case (Cons a iss)
    then show ?case by (cases a) (simp add: set_counter_def insert_row_def Let_def ledger_db_def)
  qed simp
  obtain rs ts1 where run: "allocate_outbox_seqs ledger_db [ledger_row, ledger_row] ledger_tables = Inr (rs, ts1)"
  proof (cases "assign_outbox_seqs (last_issued ledger_tables) [] [ledger_row, ledger_row]")
    case (Pair rs iss)
    with counters [of iss ledger_tables] t that show ?thesis by (auto simp: allocate_outbox_seqs_def)
  qed
  have lane: "lane_of ([ledger_row, ledger_row] ! 1) = Some (''r'', ''outbound'')"
    "cell_int (dget (fr_values ([ledger_row, ledger_row] ! 1)) OUTBOX_SEQ_COLUMN) = None"
    by (simp_all add: ledger_row_def lane_of_def cell_text_def cell_int_def seed_names)
  have k: "keeps_supplied ledger_db" by (simp add: keeps_supplied_def ledger_db_def)
  from outbox_numbers_are_fresh [OF run t k _ lane(1)] lane(2) run show ?thesis by auto
qed

section \<open>What a reset leaves\<close>

definition cleared :: "ResetBoundary \<Rightarrow> string list \<Rightarrow> tables \<Rightarrow> tables" where
  "cleared c ns ts =
     map (\<lambda>(n, t). (n, if n \<in> set ns then t\<lparr>tb_rows := filter (survives (dget (rb_kept_rows c) n)) (tb_rows t)\<rparr> else t)) ts"

definition rows_held :: "tables \<Rightarrow> nat" where
  "rows_held ts = sum_list (map (\<lambda>(n, t). length (tb_rows t)) ts)"

definition tellable :: "ResetBoundary \<Rightarrow> tables \<Rightarrow> string \<Rightarrow> bool" where
  "tellable c ts n \<longleftrightarrow>
     (case dget ts n of None \<Rightarrow> True
      | Some t \<Rightarrow> (case dget (rb_kept_rows c) n of None \<Rightarrow> True | Some kvs \<Rightarrow> absent_columns kvs (tb_columns t) = []))"

lemma dget_cleared:
  "dget (cleared c ns ts) m = map_option
     (\<lambda>t. if m \<in> set ns then t\<lparr>tb_rows := filter (survives (dget (rb_kept_rows c) m)) (tb_rows t)\<rparr> else t) (dget ts m)"
  by (induction ts) (auto simp: cleared_def)

lemma cleared_one:
  "map (\<lambda>(m, u). (m, if m = n then u\<lparr>tb_rows := filter (survives (dget (rb_kept_rows c) n)) (tb_rows u)\<rparr> else u)) ts = cleared c [n] ts"
  by (auto simp: cleared_def)

lemma cleared_absent: "n \<notin> set (dkeys ts) \<Longrightarrow> cleared c [n] ts = ts"
  by (induction ts) (auto simp: cleared_def)

lemma cleared_simps [simp]:
  "cleared c [] ts = ts" "dkeys (cleared c ns ts) = dkeys ts" "cleared c ns (cleared c ns ts) = cleared c ns ts"
  "cleared c ns (cleared c [n] ts) = cleared c (n # ns) ts" "tellable c (cleared c ns ts) m = tellable c ts m"
proof -
  show "cleared c [] ts = ts" "dkeys (cleared c ns ts) = dkeys ts" "cleared c ns (cleared c ns ts) = cleared c ns ts"
    "cleared c ns (cleared c [n] ts) = cleared c (n # ns) ts"
    by (auto simp: cleared_def)
  show "tellable c (cleared c ns ts) m = tellable c ts m"
    by (cases "dget ts m") (simp_all add: tellable_def dget_cleared split: option.split)
qed

lemma rows_held_simps [simp]:
  "rows_held [] = 0" "rows_held ((m, u) # ts) = length (tb_rows u) + rows_held ts"
  by (simp_all add: rows_held_def)

lemma cleared_Cons:
  "cleared c ns ((m, u) # ts) = (m, if m \<in> set ns then u\<lparr>tb_rows := filter (survives (dget (rb_kept_rows c) m)) (tb_rows u)\<rparr> else u) # cleared c ns ts"
  by (simp add: cleared_def)

lemma rows_held_cleared_one:
  "distinct (dkeys ts) \<Longrightarrow> dget ts n = Some t
   \<Longrightarrow> rows_held ts = rows_held (cleared c [n] ts) + (length (tb_rows t) - length (filter (survives (dget (rb_kept_rows c) n)) (tb_rows t)))"
proof (induction ts)
  case (Cons a ts)
  obtain m u where a: "a = (m, u)" by (cases a)
  show ?case
  proof (cases "m = n")
    case True
    then have "cleared c [n] ts = ts" using Cons.prems(1) by (intro cleared_absent) (simp add: a)
    then show ?thesis using Cons.prems True by (simp add: a cleared_Cons)
  next
    case False
    have "rows_held ts = rows_held (cleared c [n] ts) + (length (tb_rows t) - length (filter (survives (dget (rb_kept_rows c) n)) (tb_rows t)))"
      by (intro Cons.IH) (use Cons.prems False in \<open>simp_all add: a split: if_splits\<close>)
    moreover have "cleared c [n] (a # ts) = (m, u) # cleared c [n] ts" using False by (simp add: a cleared_Cons)
    ultimately show ?thesis by (simp only: a rows_held_simps add.assoc)
  qed
qed simp

lemma delete_outside_Inr:
  assumes "dget ts n = Some t"
  shows "delete_outside db n (dget (rb_kept_rows c) n) ts = Inr (gone, ts1)
    \<longleftrightarrow> tellable c ts n \<and> db_refuses db (cleared c [n] ts) = None
      \<and> gone = length (tb_rows t) - length (filter (survives (dget (rb_kept_rows c) n)) (tb_rows t)) \<and> ts1 = cleared c [n] ts"
proof (cases "dget (rb_kept_rows c) n")
  case None
  show ?thesis unfolding delete_outside_def Let_def cleared_one
    by (auto simp: tellable_def assms None split: option.split)
next
  case (Some kvs)
  show ?thesis unfolding delete_outside_def Let_def cleared_one
    by (auto simp: tellable_def assms Some split: option.split)
qed

lemma delete_outside_clears:
  assumes "distinct (dkeys ts)" "delete_outside db n (dget (rb_kept_rows c) n) ts = Inr (gone, ts1)" "n \<in> set (dkeys ts)"
  shows "ts1 = cleared c [n] ts" "rows_held ts = rows_held ts1 + gone" "tellable c ts n" "db_refuses db ts1 = None"
proof -
  obtain t where t: "dget ts n = Some t" using assms(3) by (cases "dget ts n") (auto simp: map_of_eq_None_iff)
  note run = assms(2) [unfolded delete_outside_Inr [OF t]]
  with rows_held_cleared_one [OF assms(1) t]
  show "ts1 = cleared c [n] ts" "rows_held ts = rows_held ts1 + gone" "tellable c ts n" "db_refuses db ts1 = None" by simp_all
qed

lemma delete_all_clears:
  "distinct (dkeys ts) \<Longrightarrow> set ns \<subseteq> set (dkeys ts) \<Longrightarrow> delete_all db c ns ts = Inr (gone, ts1)
   \<Longrightarrow> ts1 = cleared c ns ts \<and> rows_held ts = rows_held ts1 + gone \<and> list_all (tellable c ts) ns \<and> (ns \<noteq> [] \<longrightarrow> db_refuses db ts1 = None)"
proof (induction ns arbitrary: ts gone)
  case (Cons n ns)
  obtain g1 ts2 g2 where run: "delete_outside db n (dget (rb_kept_rows c) n) ts = Inr (g1, ts2)"
      "delete_all db c ns ts2 = Inr (g2, ts1)" "gone = g1 + g2"
    using Cons.prems(3) by (auto simp: map_sum_def split: sum.splits prod.splits)
  have "n \<in> set (dkeys ts)" using Cons.prems(2) by simp
  note one = delete_outside_clears [OF Cons.prems(1) run(1) this]
  have keys: "dkeys ts2 = dkeys ts" by (simp add: one(1))
  have rest: "ts1 = cleared c ns ts2 \<and> rows_held ts2 = rows_held ts1 + g2 \<and> list_all (tellable c ts2) ns \<and> (ns \<noteq> [] \<longrightarrow> db_refuses db ts1 = None)"
    by (rule Cons.IH [OF _ _ run(2)]) (use Cons.prems(1,2) keys in simp_all)
  have tell: "tellable c ts2 = tellable c ts" by (rule ext) (simp add: one(1))
  have "ts1 = cleared c (n # ns) ts" using rest one(1) by (simp only: cleared_simps)
  moreover have "db_refuses db ts1 = None"
  proof (cases "ns = []")
    case True
    then show ?thesis using run(2) one(4) by simp
  qed (use rest in blast)
  ultimately show ?case using rest one(2,3) run(3) tell by simp
qed simp

lemma delete_all_again:
  assumes "db_refuses db (cleared c ns0 ts) = None" "list_all (tellable c ts) ns" "set ns \<subseteq> set ns0" "set ns \<subseteq> set (dkeys ts)"
  shows "delete_all db c ns (cleared c ns0 ts) = Inr (0, cleared c ns0 ts)"
  using assms(2-4)
proof (induction ns)
  case (Cons n ns)
  let ?ts = "cleared c ns0 ts"
  have n: "n \<in> set ns0" "tellable c ?ts n" using Cons.prems by simp_all
  have same: "cleared c [n] ?ts = ?ts" using n(1) by (auto simp: cleared_def)
  have "n \<in> set (dkeys ?ts)" using Cons.prems(3) by simp
  then obtain t where t: "dget ?ts n = Some t" using map_of_eq_None_iff [of ?ts n] by (cases "dget ?ts n") (metis image_set, blast)
  then have "(n, t) \<in> set ?ts" by (rule map_of_SomeD)
  then have "length (filter (survives (dget (rb_kept_rows c) n)) (tb_rows t)) = length (tb_rows t)"
    using n(1) by (auto simp: cleared_def)
  then have "delete_outside db n (dget (rb_kept_rows c) n) ?ts = Inr (0, ?ts)"
    unfolding delete_outside_Inr [OF t] same using n(2) assms(1) by simp
  then show ?case using Cons by simp
qed simp


text \<open>What a reset leaves of a table: a table it keeps as it is, of any other the rows that survive.\<close>

definition left_by_reset :: "ResetBoundary \<Rightarrow> tables \<Rightarrow> tables" where
  "left_by_reset c ts =
     map (\<lambda>(n, t). (n, if n = MIGRATION_TRACKING_TABLE \<or> n \<in> set (rb_kept_tables c) then t
                      else t\<lparr>tb_rows := filter (survives (dget (rb_kept_rows c) n)) (tb_rows t)\<rparr>)) ts"

lemma left_by_reset_cleared: "left_by_reset c ts = cleared c (reset_tables c (dkeys ts)) ts"
proof -
  have "(n, t) \<in> set ts \<Longrightarrow> n \<in> fst ` set ts" for n t by force
  then show ?thesis by (auto simp: left_by_reset_def cleared_def reset_tables_def)
qed

lemma cleared_rev [simp]: "cleared c (rev ns) ts = cleared c ns ts"
  by (simp add: cleared_def)

text \<open>A row with a null in the column a filter names matches no value, and stays.\<close>

lemma null_row_survives:
  "survives (Some [(''tenant_id'', CText ''t'')]) [(''tenant_id'', CNull)] \<and>
   \<not> survives (Some [(''tenant_id'', CText ''t'')]) [(''tenant_id'', CText ''u'')]"
  by (simp add: survives_def cell_is_def)


text \<open>C27. A reset empties what was seeded and no more: on a store of distinct tables it either refuses and leaves
  the store as it was, or it leaves the migration table and the tables it keeps as they were and of every other
  table, in their order, the rows its filter does not tell apart: those that match it, and those with a null in
  a column the filter names, which SQL cannot say do not match. (The docstrings of \<^verbatim>\<open>ResetBoundary\<close> and
  \<^verbatim>\<open>_delete_outside\<close> say only the matching rows stay.) It reports exactly the rows that went; and a second
  reset succeeds, reports none and changes nothing.\<close>

theorem reset_leaves_what_it_keeps:
  assumes "distinct (dkeys (ss_tables st))"
  shows "case store_reset x b st of
      (Inl e, st1) \<Rightarrow> st1 = st
    | (Inr sm, st1) \<Rightarrow>
        st1 = st\<lparr>ss_tables := left_by_reset (boundary_for b (dkeys (ss_tables st))) (ss_tables st)\<rparr>
        \<and> rows_held (ss_tables st) = rows_held (ss_tables st1) + su_rows_deleted sm
        \<and> store_reset x b st1 = (Inr (sm\<lparr>su_rows_deleted := 0\<rparr>), st1)"
proof (cases "store_reset x b st")
  case (Pair r st1)
  let ?ts = "ss_tables st" let ?c = "boundary_for b (dkeys (ss_tables st))"
  let ?ns = "reset_tables ?c (dkeys ?ts)" let ?left = "left_by_reset ?c ?ts"
  show ?thesis
  proof (cases r)
    case (Inl e)
    then show ?thesis using Pair by (auto simp: store_reset_def Let_def split: if_splits sum.splits prod.splits)
  next
    case (Inr sm)
    then obtain gone ts where run: "ss_tables st \<noteq> []" "delete_all (so_db x) ?c (rev ?ns) ?ts = Inr (gone, ts)" "st1 = st\<lparr>ss_tables := ts\<rparr>"
        and sm: "sm = \<lparr>su_rows_deleted = gone, su_table_count = length ?ns, su_tables_kept = length (kept_tables ?c (dkeys ?ts))\<rparr>"
      using Pair by (auto simp: store_reset_def Let_def split: if_splits sum.splits prod.splits)
    have sub: "set (rev ?ns) \<subseteq> set (dkeys ?ts)" by (auto simp: reset_tables_def)
    note swept = delete_all_clears [OF assms sub run(2)]
    have ts: "ts = ?left" using swept by (simp add: left_by_reset_cleared)
    have keys: "dkeys ts = dkeys ?ts" "ts \<noteq> []" using run(1) by (auto simp: ts left_by_reset_def)
    have again: "delete_all (so_db x) ?c (rev ?ns) ts = Inr (0, ts)"
    proof (cases "?ns = []")
      case False
      then show ?thesis
        using delete_all_again [of "so_db x" ?c "?ns" ?ts "rev ?ns"] swept sub by (simp add: ts left_by_reset_cleared)
    qed simp
    have "store_reset x b st1 = (Inr (sm\<lparr>su_rows_deleted := 0\<rparr>), st1)"
      using again keys by (simp add: store_reset_def Let_def run(3) sm)
    with swept ts run(3) sm show ?thesis by (simp add: Pair Inr)
  qed
qed

definition ledger_outside :: seed_outside where
  "ledger_outside = \<lparr>so_db = ledger_db, so_dumps = \<lambda>j. ''[]'', so_scope_now = \<lambda>n. 0, so_scope_bits = \<lambda>n. 0\<rparr>"

theorem reset_leaves_what_it_keeps_witness:
  "\<exists>sm st1. store_reset ledger_outside CLEAR_EVERYTHING (open_store None None ledger_tables) = (Inr sm, st1) \<and> su_rows_deleted sm = 2
     \<and> rows_held (ss_tables (open_store None None ledger_tables)) = rows_held (ss_tables st1) + su_rows_deleted sm
     \<and> store_reset ledger_outside CLEAR_EVERYTHING st1 = (Inr (sm\<lparr>su_rows_deleted := 0\<rparr>), st1)"
proof -
  let ?st = "open_store None None ledger_tables"
  have keys: "distinct (dkeys (ss_tables ?st))" by (simp add: open_store_def ledger_tables_def)
  have "\<exists>sm st1. store_reset ledger_outside CLEAR_EVERYTHING ?st = (Inr sm, st1) \<and> su_rows_deleted sm = 2"
    by (simp add: store_reset_def open_store_def ledger_tables_def CLEAR_EVERYTHING_def boundary_for_def reset_tables_def
        MIGRATION_TRACKING_TABLE_def delete_outside_def survives_def ledger_outside_def ledger_db_def Let_def)
  then show ?thesis using reset_leaves_what_it_keeps [OF keys, of CLEAR_EVERYTHING ledger_outside] by auto
qed

end
