(* ===== verification/Spec2Isabelle.thy ===== *)
theory Spec2Isabelle
  imports Chunk_Life Hub_Lanes Clock_Model Fleet_Life Forge_Edge Harness_Life Oc2_Verbs Idp Seed_Life Seed_Ledger
begin

text \<open>
  A verification development of the mock hub, the mock runner, the mock forge, the mock coding harness, the
  stub identity provider and the data seeder of \<^verbatim>\<open>blizzard-mock\<close>: the wire-faithful stand-ins for the fleet hub that runners are
  tested against, for the runner a hub is tested against, for the code forge both deliver to, for the coding
  agents a runner starts and for the provider people log in with, and the tool that fills the stores of the real daemons, with the shared
  pieces they are built on (levers, clocks, identifiers). Paths below are relative to the repository.

  \<^bold>\<open>The program.\<close> The hub (\<^verbatim>\<open>src/blizzard_mock/mock_hub\<close>) keeps tenants, projects, runners, hosts,
  chunks and questions in an in-memory store (\<^verbatim>\<open>internal/state_store.py\<close>) and serves them through one
  service (\<^verbatim>\<open>domain/service.py\<close>). A chunk is a piece of work on a graph of nodes; a runner peeks the
  ready queue, claims a chunk, works at its current node and sends a completion with a choice that moves
  the chunk along the graph. An epoch fences attempts: a minted lease raises it and older completions are
  stale. Runners and hosts ship facts and transcripts in numbered batches, acknowledged against high-water
  marks. Tests script faults by arming levers (\<^verbatim>\<open>levers.py\<close>, \<^verbatim>\<open>mock_hub/domain/levers.py\<close>), which the
  handlers look up and consume. Around the service stand the routes and middlewares of \<^verbatim>\<open>mock_hub/api\<close>:
  token and tenant gates, refusals in a problem shape and a legacy shape, faults at the transport edge. The
  runner (\<^verbatim>\<open>src/blizzard_mock/mock_runner\<close>) is driven by a test through its own control routes: each verb
  calls the hub through a gateway, keeps the lease it holds and numbers the facts it sends. The forge
  (\<^verbatim>\<open>src/blizzard_mock/forge\<close>) serves issues, labels and pull requests over bare git repositories in the
  shape of a public forge: numbers shared by issues and pull requests, live mergeability, merges that really
  land, paged listings, rate windows per credential, and levers for the states a client must survive. The
  harness (\<^verbatim>\<open>src/blizzard_mock/harness\<close>) stands in for three command-line coding agents: the prompt it is
  given is a Python program, which it runs inside a fence that only test scaffolding opens, with helpers to ask,
  commit, give a verdict, hang or crash; a session file carries what was asked over to the resume. The seeder
  (\<^verbatim>\<open>src/blizzard_mock/mock_data\<close>) writes no domain object: it composes the fact rows that make a daemon derive
  one (a chunk waiting on a human, a whole board, the runner's side of it) and writes them through a database
  whose schema it reads first and refuses when it has drifted. Time comes
  from an injected clock (\<^verbatim>\<open>clock.py\<close>), ids are prefixed ULIDs (\<^verbatim>\<open>ids.py\<close>).

  \<^bold>\<open>Theories and sources.\<close>
  \<^item> \<open>Prelude\<close>, \<open>Json_Values\<close>: dictionaries in insertion order, Python string and number helpers, JSON
    payloads as \<^verbatim>\<open>json.loads\<close> gives them, timestamps; the interface locale \<open>row_table\<close>.
  \<^item> \<open>Identifiers\<close> (\<^verbatim>\<open>ids.py\<close>), \<open>Clock_Model\<close> (\<^verbatim>\<open>clock.py\<close>, \<^verbatim>\<open>clock_api.py\<close>), \<open>Lever_Store\<close>
    (\<^verbatim>\<open>levers.py\<close>, with the locale \<open>lever_contract\<close> for \<^verbatim>\<open>ILeverStore\<close>).
  \<^item> \<open>Hub_Vocabulary\<close>, \<open>Hub_Models\<close> (\<^verbatim>\<open>domain/models.py\<close>, \<^verbatim>\<open>domain/levers.py\<close>): enums, seeds, the chunk row
    and the refusals its methods compute. \<open>Hub_Wire\<close> (\<^verbatim>\<open>domain/wire.py\<close>, \<^verbatim>\<open>domain/version.py\<close>): the views.
  \<^item> \<open>Hub_State\<close> (\<^verbatim>\<open>domain/state.py\<close>, \<^verbatim>\<open>internal/state_store.py\<close>): the record \<open>hub\<close> is the whole state of
    one service, store, levers and the service's own maps together; \<open>row_table\<close> is interpreted on its six
    tables.
  \<^item> \<open>Matching\<close> (\<^verbatim>\<open>domain/matching.py\<close>): graph reachability and capability matching.
  \<^item> \<^verbatim>\<open>domain/service.py\<close> is \<open>Hub_Projects\<close> (tenants, projects, seeding, reset, artifacts, scopes),
    \<open>Hub_Reads\<close> (envelopes, details, statuses, garden and analytics reads, paging), \<open>Hub_Queue\<close> (peek,
    matched peek, claim, re-key, release, pause, resume, stop, the stage-time check with
    \<^verbatim>\<open>domain/artifact_check.py\<close>), \<open>Hub_Apply\<close> (completions, decisions, hub nodes, questions), \<open>Hub_Facts\<close>
    (both fact lanes), \<open>Hub_Registry\<close> (runners, hosts, tokens, registration, heartbeat, views) and
    \<open>Hub_Transcripts\<close> (the transcript lane and its read-back).
  \<^item> \<open>Chunk_Machine\<close> is the abstract specification: one chunk row as a state machine whose rules are the
    writes handlers make under the guards they check. \<open>Hub_Steps\<close> is the step relation of the whole hub, one
    rule per operation that may write; \<open>hub_write\<close> adds the two writes that start rows over, seeding a chunk
    and the reset, each under its own label. The proof is that every operation moves every row along the
    machine, and that a run which spares a chunk those two does. \<open>Hub_Fixture\<close> is a small concrete hub.
  \<^item> \<^verbatim>\<open>mock_hub/api\<close> is \<open>Hub_Http\<close> (\<^verbatim>\<open>deps.py\<close>, \<^verbatim>\<open>middleware.py\<close>, \<^verbatim>\<open>app.py\<close>, \<^verbatim>\<open>domain/capture.py\<close>: gates,
    renderings of a refusal, the lever edge, capture), \<open>Hub_Routes\<close> (\<^verbatim>\<open>routes.py\<close>, one \<open>rt_\<close> definition per
    route), \<open>Hub_Control\<close> (\<^verbatim>\<open>control.py\<close>, \<^verbatim>\<open>config.py\<close>) and \<open>Hub_Api\<close>, the fleet routes as one function.
    A route is a function of the request, its validated arguments and the \<open>hub\<close>, and gives a \<open>reply\<close>: served
    with a status, a problem, a plain refusal, or an exception nobody handles.
  \<^item> \<^verbatim>\<open>mock_runner\<close> is \<open>Runner_Gateway\<close> (\<^verbatim>\<open>internal\<close>: requests and the reading of refusals),
    \<open>Runner_Driver\<close> (\<^verbatim>\<open>domain/service.py\<close>: the record \<open>driver\<close> with its verbs, over any HTTP client and the
    world behind it) and \<open>Runner_Control\<close> (\<^verbatim>\<open>api/routes.py\<close>, \<^verbatim>\<open>config.py\<close>, \<^verbatim>\<open>app.py\<close>); the locale
    \<open>drive_frame\<close> proves once that a relation kept by every call is kept by every run.
  \<^item> \<open>Fleet\<close> and \<open>Fleet_Tenure\<close> put the two together: the driver's client is the hub's application, with the
    framework between them as the locale \<open>fleet_wire\<close>, interpreted on exactly typed decoders.

  \<^item> \<^verbatim>\<open>forge\<close> is \<open>Forge_Models\<close> (\<^verbatim>\<open>domain/models.py\<close>, \<^verbatim>\<open>errors.py\<close>, \<^verbatim>\<open>levers.py\<close>, the lever and check-run
    stores), \<open>Forge_Rate\<close> (the rate ledger), \<open>Forge_State\<close> (the store; the git backend as the parameter
    \<open>git_ops\<close>; the operations as a monad over the record \<open>forge\<close>), \<open>Forge_Service\<close> and \<open>Forge_Control\<close>
    (\<^verbatim>\<open>domain/service.py\<close>) and \<open>Forge_Wire\<close> (\<^verbatim>\<open>api/serialization.py\<close> and the texts the routes build).
    \<open>Forge_Api\<close> and \<open>Forge_Http\<close> are its routes, middlewares
    and application: an endpoint with its validated arguments, run under the two middlewares.
    \<open>Forge_Runs\<close> is the run relation with the locale \<open>forge_frame\<close>: what holds of each kind of write
    holds of every run.
  \<^item> \<^verbatim>\<open>harness\<close> is \<open>Harness_Text\<close> (the split of a prompt in \<^verbatim>\<open>engine.py\<close>), \<open>Harness_Host\<close> (paths, files and
    output of one process; the parameter \<open>system\<close>), \<open>Harness_Session\<close> (\<^verbatim>\<open>session.py\<close>), \<open>Harness_Wires\<close>
    and \<open>Harness_Transcripts\<close> (the renderers and transcript writers of \<^verbatim>\<open>facades\<close>, with the locale \<open>history\<close>:
    a transcript only grows), \<open>Harness_Helpers\<close> (\<^verbatim>\<open>helpers.py\<close>, \<^verbatim>\<open>internal/git.py\<close>, \<^verbatim>\<open>_hooks.py\<close>),
    \<open>Harness_Engine\<close> (\<^verbatim>\<open>run_prompt\<close>) and \<open>Harness_Facades\<close> (the three main functions). A behavior script is
    a tree of helper calls with a continuation for every reply, and of raw steps between them, which may do to
    the context, the session, the output and the files whatever Python can.
  \<^item> \<^verbatim>\<open>harness/opencode2_core\<close>, the managed service one of those agents talks to, is \<open>Oc2_Rules\<close> (the pure
    rules and records), \<open>Oc2_Sessions\<close> (session objects on a heap, the store, events), \<open>Oc2_Engine\<close> (what
    clients call), \<open>Oc2_Turns\<close> (what turns are built from), \<open>Oc2_Workers\<close> (the threads), \<open>Oc2_Crew\<close> (their
    invariant), \<open>Oc2_Progress\<close> (how a worker comes back to the head of its loop), \<open>Oc2_Service\<close> (its routes) and \<open>Oc2_Verbs\<close> (its command line). This service does take a lock
    and does run threads, so here a step is one section under the lock with the events that follow it, and a
    run is any interleaving of the sections of clients, workers and turns.
  \<^item> \<^verbatim>\<open>idp\<close> is \<open>Idp\<close>: its store, the two login shapes, the levers, one request after the other.
  \<^item> \<^verbatim>\<open>mock_data\<close> is \<open>Seed_Rules\<close> (\<^verbatim>\<open>domain/facts.py\<close>, \<^verbatim>\<open>schema_contract.py\<close>, \<^verbatim>\<open>seeding.py\<close>: the drift guard,
    tenants and projects, what is stamped on a row, outbox numbers, the boundary of a reset), \<open>Seed_Store\<close>
    (\<^verbatim>\<open>internal/reflected_store.py\<close>: one transaction over the tables), \<open>Seed_Graph\<close>, \<open>Seed_Hub\<close> and \<open>Seed_Runner\<close>
    (\<^verbatim>\<open>domain/hub\<close>, \<^verbatim>\<open>domain/runner\<close>: one composer per kind of fact, in a monad over the ids and instants it
    draws) and \<open>Seed_Board\<close> (\<^verbatim>\<open>domain/hub/scenario_seed.py\<close>: a board of chunks in every status with its
    census). \<open>Seed_Facts\<close> says what a daemon derives from rows and what their references must find,
    \<open>Seed_World\<close> proves it of the board piece by piece.

  An operation that may write is a function from its arguments and a \<open>hub\<close> to a result and a \<open>hub\<close>: the
  result is \<open>Inl\<close> of the exception the Python code raises, as a constructor of \<open>hub_error\<close> with its message,
  or \<open>Inr\<close> of what it returns, and the state is the one an exception leaves behind, so what a handler wrote or
  consumed before it raised stays. Reads that write nothing take the \<open>hub\<close> and return the result alone. A call is
  one step, and a run is a sequence of calls: the development is about requests served one after the other.
  The hub takes no lock, so requests that overlap in the server's worker threads are outside it.

  \<^bold>\<open>What is shown.\<close>
  \<^item> Chunks, in \<open>Chunk_Life\<close>: every write of the hub implements the chunk machine, seeds one row or clears
    them all (C1); in reachable states a ready chunk is queued and a claimed one has its route (C2); over any
    run that neither resets the hub nor seeds the chunk anew, its fence, applied completions, releases and
    re-keys only grow (C3), and the same runs are those of C10 and C14; when a claim succeeds, exactly (C4), that it excludes every other (a lemma); what the
    matched peek answers (C6) and that it can be claimed (C7); release and re-key (C9, C10);
    when a completion may move a chunk (C12) and when it must (C33), idempotence (C13), the fence over
    such a later run (C14).
  \<^item> Lanes, in \<open>Hub_Lanes\<close>: acknowledgements partition the batch and marks rise (C15), a repeated batch
    is a no-op (lemmas), transcript bytes stay within budget (C18).
  \<^item> Here: token rotation (C20), forced retirement (C21), matching (C32); tenancy and paging as lemmas.
  \<^item> Hub and runner over HTTP, in \<open>Fleet_Life\<close>: refusals of a claim are read as what they are (C35), a token
    that names no runner opens no route (C36), the driver's lanes are numbered over any run (C37), a chunk of
    another tenant is behind a wall on every route but the read of a lease's transcript (C39), and over the wire a claim and a completion keep what the
    driver holds in step with the hub's row (C38, C40).
  \<^item> The forge, in \<open>Forge_Life\<close>, over every git backend: the store stays well formed (C17), a merge stands
    for good (C24), when a merge succeeds, exactly (C26), the rate windows (C29), the pages of a
    listing (a lemma); in \<open>Forge_Edge\<close>: conditional reads (a lemma).
  \<^item> The harness, in \<open>Harness_Life\<close>: for every script the fence (C8); for every prompt how it is read (C22);
    for the scripts that leave the harness's state, files and output to the helpers (\<open>orderly\<close>), what a turn of
    a facade without an export document leaves for the next (C11) and, where the script does not exit by itself
    either (\<open>calm\<close>), the one envelope a turn prints (C28).
  \<^item> The OpenCode 2 service, in \<open>Oc2_Life\<close>, over every interleaving and whatever its turns do: one worker per
    session (C16), queued work has one thread in charge, which unless it died can come to it (C19), what a restart keeps (C30), what an interrupt reaches
    (C31); \<open>Oc2_Service\<close> shows that a request over HTTP is one of the steps these are about.
  \<^item> The identity provider, in \<open>Idp\<close>: a login is answered once, for the identity it chose (C34).
  \<^item> The seeder: the rows composed for a chunk derive the status asked for (C5), a board refers to nothing it
    does not carry and its census is true (C23), both in \<open>Seed_Life\<close>; outbox numbers are fresh (C25) and a
    reset leaves what it keeps (C27), in \<open>Seed_Ledger\<close>.

  \<^bold>\<open>Parameters, bounds and fuel.\<close> The clock reading, the random draws, \<^verbatim>\<open>uuid4\<close> and
  \<^verbatim>\<open>secrets.token_urlsafe\<close> reach an operation as its \<open>env\<close> argument. \<^verbatim>\<open>datetime.fromisoformat\<close> and the
  datetime field of a usage window are the record \<open>parsers\<close>; the schema validator of staged artifacts is the
  argument \<open>validate\<close>; git is \<open>git_ops\<close>, Python's
  seeded \<^verbatim>\<open>hash\<close> and the SHA-256 of a rendered body are \<open>forge_outside\<close>. For the harness, subprocesses, uuids,
  clocks and signals are \<open>system\<close>, and what Python makes of a script is \<open>python\<close>. For the seeder, the database is the record
  \<open>database\<close> (what it fills in for columns a row leaves out, what its constraints refuse), and instants, draws and
  the JSON reader and writer are \<open>seeding\<close>. No property assumes anything of them
  but C25, that a database keeps what a row supplies, and C11 and C28, that the scripts a turn can run
  (\<open>scripts_of\<close>) leave the harness's state, files and output to the helpers and, for C28, do not exit by
  themselves. Every definition is total and terminates: the
  graph walk by a measure on unseen nodes, loops over rows and batches by structural recursion. The one
  partial function is the walk of a session's children, whose \<open>None\<close> is the walk that never ends. The one fuel
  is that of \<open>follow_pages\<close>, a client of the paged read and not code of the hub; lemma \<open>pages_give_docket\<close> shows that the length of
  the docket plus one is enough. Python integers are \<open>int\<close> or, for counts, \<open>nat\<close>; strings are their UTF-8
  bytes.

  \<^bold>\<open>Not modelled.\<close> What the web framework does: choosing the route of a path, validating a body against its
  model and serialising an answer; a route here starts at its validated arguments. What \<open>fleet_wire\<close> relies
  on of it is stated there. The HTTP client's transport errors are one constructor of the client's result.
  Command lines and serving (\<^verbatim>\<open>cli.py\<close>, \<^verbatim>\<open>serve.py\<close>): process I/O. Of the harness: the files a
  subprocess changes by itself (they are in the world behind \<open>system\<close>, never among the harness's own
  files), errors of the file system, the Codex app-server, and the emitted OpenCode artifacts
  (\<^verbatim>\<open>opencode_surface\<close> and the turn runners built on \<^verbatim>\<open>opencode2_core\<close>, which are whatever a turn may be). Of the identity provider, the RSA key
  and the signature over a token. Of the seeder, its command line (\<^verbatim>\<open>mock_data/cli.py\<close>: flags, prompts and printing) and the
  connection to a database. The tool \<^verbatim>\<open>fixture_workspace\<close>, which runs git.
\<close>

section \<open>Identity and the registry\<close>

text \<open>C20. Enrolling a runner again rotates its bearer token: the new token names the runner, every token
  that named it before is refused as revoked, and every other token answers what it answered.\<close>

theorem enroll_rotates_token:
  assumes "tokens_ok h" and "enroll \<E> r tenant h = (Inr resp, h')"
  shows "tokens_ok h' \<and> principal h' (Some (re_token resp)) = Inr r \<and>
    (\<forall>t. t \<noteq> re_token resp \<longrightarrow>
       principal h' (Some t) =
         (if principal h (Some t) = Inr r then Inl (UnresolvableRunner ''bearer token has been revoked'')
          else principal h (Some t)))"
  using assms by (rule enroll_principal)

lemma fx_tokens_ok: "tokens_ok fx_hub"
  by (simp add: tokens_ok_def keyed_def)

theorem enroll_rotates_token_witness:
  "\<exists>resp h'. enroll fx_env ''r'' FIRST_TENANT_ID fx_hub = (Inr resp, h') \<and> principal fx_hub (Some ''t'') = Inr ''r'' \<and>
     principal h' (Some ''t'') = Inl (UnresolvableRunner ''bearer token has been revoked'')"
proof -
  obtain resp h' where en: "enroll fx_env ''r'' FIRST_TENANT_ID fx_hub = (Inr resp, h')"
    and tok: "re_token resp = ''mock-runner-token-s''"
    by (simp add: enroll_def added_def issued_runner_token_def fx_env_def)
  have before: "principal fx_hub (Some ''t'') = Inr ''r''"
    using fx_tokens_ok by (simp add: principal_Inr)
  from enroll_rotates_token [OF fx_tokens_ok en] tok before en show ?thesis by auto
qed

lemma retire_row:
  assumes "runners_ok h" and "get_runner h r = Some row"
  shows "\<exists>row'. get_runner (snd (retire \<E> r b h)) r = Some row' \<and> rn_retired_at row' \<noteq> None"
proof -
  have "rn_runner_id row = r" using runner_table.get_key [OF assms] .
  then show ?thesis
    using assms(2) by (auto simp: retire_def added_def replace_token_def runner_table.get_put
        split: prod.splits) (auto simp: get_runner_def put_runner_def)
qed

lemma free_routes_runners: "get_runner (free_routes held h) = get_runner h"
  unfolding free_routes_def by (induction held arbitrary: h) (simp_all add: put_chunk_def get_runner_def fun_eq_iff)

lemma free_routes_ok: "chunks_ok h \<Longrightarrow> chunks_ok (free_routes held h)"
  unfolding free_routes_def by (induction held arbitrary: h) (simp_all add: chunk_table.ok_put)

lemma retire_host_runner_Inr:
  assumes "retire_host_runner \<E> host r b force h = (Inr (row, freed), h')"
  shows "h' = free_routes (held_chunks h r) (snd (retire \<E> r b h)) \<and> freed = map cs_chunk_id (held_chunks h r) \<and>
    get_runner h' r = Some row \<and> get_runner h r \<noteq> None"
  using assms
  by (auto simp: retire_host_runner_def retire_found_def retire_and_free_def Let_def map_sum_Inr added_Inr
      split: option.splits if_splits prod.splits bool.splits)

text \<open>C21. A retirement of a runner through its host that succeeds (forced, where it holds chunks) leaves the
  runner retired with no route: every chunk it held is
  unclaimed with its route cleared, those that were running are back in the ready queue, and no other chunk is
  touched.\<close>

theorem retirement_frees_routes:
  assumes "retire_host_runner \<E> host r b force h = (Inr (row, freed), h')" and "chunks_ok h" and "runners_ok h"
  shows "rn_retired_at row \<noteq> None \<and> get_runner h' r = Some row \<and> held_chunks h' r = [] \<and>
    freed = map cs_chunk_id (held_chunks h r) \<and>
    (\<forall>k. get_chunk h' k = (case get_chunk h k of
       None \<Rightarrow> None
     | Some c \<Rightarrow> if cs_claimed c \<and> cs_route_runner_id c = Some r then Some (freed_row c) else Some c)) \<and>
    (\<forall>c \<in> set (held_chunks h r). cs_status c = ST_RUNNING \<longrightarrow> freed_row c \<in> set (ready_chunks h'))"
proof -
  note ret = retire_host_runner_Inr [OF assms(1)]
  from ret have h': "h' = free_routes (held_chunks h r) (snd (retire \<E> r b h))" by blast
  have ok': "chunks_ok h'" unfolding h' using assms(2) by (intro free_routes_ok) (simp add: retire_chunks)
  have get: "get_chunk h' k = (case get_chunk h k of
       None \<Rightarrow> None
     | Some c \<Rightarrow> if cs_claimed c \<and> cs_route_runner_id c = Some r then Some (freed_row c) else Some c)" for k
    unfolding h' get_chunk_freed [OF assms(2)] retire_chunks by (simp split: option.splits)
  have row: "rn_retired_at row \<noteq> None"
    using ret retire_row [OF assms(3), of r _ \<E> b] unfolding h' free_routes_runners by auto
  have stored: "get_chunk h (cs_chunk_id c) = Some c" if "c \<in> set (list_chunks h)" for c
    using that chunk_table.rows_get [OF assms(2)] by blast
  have "c \<notin> set (held_chunks h' r)" for c
  proof
    assume c: "c \<in> set (held_chunks h' r)"
    then have "get_chunk h' (cs_chunk_id c) = Some c" "cs_claimed c" "cs_route_runner_id c = Some r"
      using chunk_table.rows_get [OF ok'] by (auto simp: held_chunks_def)
    then show False by (auto simp: get freed_row_def split: option.splits if_splits)
  qed
  then have "held_chunks h' r = []" by (metis list.set_intros(1) neq_Nil_conv)
  moreover have "freed_row c \<in> set (ready_chunks h')" if "c \<in> set (held_chunks h r)" "cs_status c = ST_RUNNING" for c
  proof -
    from that have "get_chunk h' (cs_chunk_id (freed_row c)) = Some (freed_row c)"
      using stored by (auto simp: get held_chunks_def)
    then have "freed_row c \<in> set (list_chunks h')" using chunk_table.rows_get [OF ok'] by blast
    with that(2) show ?thesis by (simp add: ready_chunks_def) (simp add: freed_row_def)
  qed
  ultimately show ?thesis using ret row get by blast
qed

definition fx_hosted :: hub where
  "fx_hosted = put_runner (fx_runner\<lparr>rn_host_id := Some ''H''\<rparr>) fx_claimed"

lemma fx_hosted_gets: "get_chunk fx_hosted ''c'' = Some fx_row" "list_chunks fx_hosted = [fx_row]" "chunks_ok fx_hosted"
  "runners_ok fx_hosted" "get_runner fx_hosted ''r'' = Some (fx_runner\<lparr>rn_host_id := Some ''H''\<rparr>)" "hub_levers fx_hosted = []"
  using fx_claimed_gets(2)
  by (simp_all add: fx_hosted_def put_runner_def get_runner_def get_chunk_def list_chunks_def keyed_def)

theorem retirement_frees_routes_witness:
  "\<exists>row h'. retire_host_runner fx_env ''H'' ''r'' ''me'' True fx_hosted = (Inr (row, [''c'']), h') \<and>
     rn_retired_at row \<noteq> None \<and> freed_row fx_row \<in> set (ready_chunks h')"
proof -
  have held: "held_chunks fx_hosted ''r'' = [fx_row]" by (simp add: held_chunks_def fx_hosted_gets)
  let ?h' = "free_routes [fx_row] (snd (retire fx_env ''r'' ''me'' fx_hosted))"
  obtain row where "get_runner ?h' ''r'' = Some row"
    using retire_row [OF fx_hosted_gets(4,5)] unfolding free_routes_runners by blast
  then have run: "retire_host_runner fx_env ''H'' ''r'' ''me'' True fx_hosted = (Inr (row, [''c'']), ?h')"
    by (simp add: retire_host_runner_def fx_hosted_gets retire_found_def held retire_conflict_def
        retire_and_free_def added_def)
  from retirement_frees_routes [OF run fx_hosted_gets(3,4)] run held show ?thesis by auto
qed

section \<open>Tenants and projects\<close>

text \<open>The tenant wall on chunk reads: a runner is shown the detail of a chunk, and a status in a batch,
  only for stored chunks whose project stands in the runner's own tenant.\<close>

lemma reads_stay_in_tenant:
  assumes "chunk_detail_read c r h = (Inr d, h1)" and "chunk_statuses ids r h = (Inr views, h2)"
  shows "(\<exists>chunk. get_chunk h c = Some chunk \<and> same_tenant h r chunk \<and> cd_chunk_id d = cs_chunk_id chunk) \<and>
    (\<forall>v \<in> set views. \<exists>k chunk. get_chunk h k = Some chunk \<and> same_tenant h r chunk \<and> sv_chunk_id v = cs_chunk_id chunk)"
  using detail_same_tenant [OF assms(1)] statuses_same_tenant [of r "dedup ids" "[]" h views h2] assms(2)
  by (simp add: chunk_statuses_def)

text \<open>Seeding and renaming keep the tenancy in order: ids name their rows, each project stands in a
  tenant that exists, and no tenant holds two projects of one slug; the first boot satisfies it.\<close>

lemma seeding_keeps_tenancy:
  assumes "tenancy_ok h"
  shows "tenancy_ok initial_hub \<and> tenancy_ok (reset h) \<and> tenancy_ok (snd (seed_tenant \<E> name tid h)) \<and>
    tenancy_ok (snd (seed_project \<E> pslug name t pid h)) \<and> tenancy_ok (snd (rename_tenant t name h))"
proof -
  have "tenancy_ok (reset h)"
    using tenancy_ok_initial tenancy_ok_frame [of "reset h" initial_hub] by (simp add: reset_initial)
  then show ?thesis
    using assms tenancy_ok_initial
    by (metis tenancy_ok_seed_tenant tenancy_ok_seed_project tenancy_ok_rename_tenant prod.collapse)
qed

text \<open>A seeded project can be found: its slug, when it does not look like an id, resolves to it in its
  tenant, and whatever any reference resolves to stands in the tenant that asked.\<close>

lemma seeded_project_resolves:
  assumes "seed_project \<E> pslug name t pid h = (Inr row, h')" and "tenancy_ok h"
    and "\<not> starts_with (PROJECT_PREFIX @ ''_'') pslug"
  shows "pj_tenant_id row = t \<and> resolve_project h' t pslug = Some row \<and>
    (\<forall>t2 v p. resolve_project h' t2 v = Some p \<longrightarrow> pj_tenant_id p = t2 \<and> get_project h' (pj_project_id p) = Some p)"
proof -
  from assms(1) obtain tenant minted h1 where t: "tenant_of h t = Inr tenant"
    and placed: "place_project minted (tn_tenant_id tenant) pslug name h1 = (Inr row, h')"
    by (auto simp: seed_project_def split: sum.splits prod.splits)
  from tenant_of_Inr [OF assms(2) t] have id: "tn_tenant_id tenant = t" by simp
  have "tenancy_ok h'" using tenancy_ok_seed_project [OF assms(2,1)] .
  then have "projects_ok h'" by (rule tenancy_okD)
  moreover have "resolve_project h' t pslug = Some row"
    using resolve_placed_project [OF placed assms(3)] unfolding id .
  ultimately show ?thesis using resolve_project_sound by blast
qed

text \<open>A reset is the first boot again: every store, mark and lever is gone and the first tenant and
  project are founded; two things outlive it, the draws already taken from the generator and what runners
  reported about themselves.\<close>

lemma reset_is_first_boot:
  "reset h = initial_hub\<lparr>hub_reported := hub_reported h, hub_rng_draws := hub_rng_draws h\<rparr>"
  by (rule reset_initial)

section \<open>Reads\<close>

text \<open>The reads that consult levers write nothing but the levers they pull, answered or refused: the
  envelope, the chunk detail, the batched statuses, the stage-time artifact check and the dropped
  acknowledgement.\<close>

lemma reads_write_levers_only:
  "(\<exists>l. snd (envelope c h) = h\<lparr>hub_levers := l\<rparr>) \<and> (\<exists>l. snd (chunk_detail_read c r h) = h\<lparr>hub_levers := l\<rparr>) \<and>
   (\<exists>l. snd (chunk_statuses cs r h) = h\<lparr>hub_levers := l\<rparr>) \<and>
   (\<exists>l. snd (check_artifact validate c name content h) = h\<lparr>hub_levers := l\<rparr>) \<and>
   (\<exists>l. snd (pop_drop_ack c h) = h\<lparr>hub_levers := l\<rparr>)"
proof -
  have "levers_only h (snd (check_artifact validate c name content h))"
    by (auto simp: check_artifact_def split: sum.splits prod.splits option.splits dest!: pinned_levers_only)
  moreover have "levers_only h (snd (pop_drop_ack c h))" by (simp add: pop_drop_ack_def split: option.splits)
  moreover have "levers_only h (snd (envelope c h))" "levers_only h (snd (chunk_detail_read c r h))"
    "levers_only h (snd (chunk_statuses cs r h))"
    by (metis envelope_levers_only prod.collapse, metis detail_levers_only prod.collapse,
        metis chunk_statuses_def statuses_levers_only prod.collapse)
  ultimately show ?thesis by (auto simp: levers_only_def)
qed

text \<open>Paging is lossless and ends: a client that follows the cursors of the proposal pages from the
  start gets the whole docket in order, once, within as many pages as the docket has entries and one more.\<close>

lemma pages_give_docket:
  assumes "garden_proposals \<E> h c st = Inr docket" and "0 < limit"
  shows "follow_pages (Suc (length docket)) (\<lambda>cur. garden_proposals_page_read \<E> h c st cur limit) None = Some (Inr docket)"
  using follow_pages_from [OF assms, of None 0 "Suc (length docket)"] by (simp add: cursor_offset_def)

definition fx_proposal :: "string \<Rightarrow> garden_proposal_spec" where
  "fx_proposal i = \<lparr>gp_proposal_id = i, gp_class = ''k'', gp_title = ''t'', gp_body = ''b'', gp_findings = [],
     gp_created_at = Some ''now'', gp_closure = None\<rparr>"

definition fx_garden :: hub where
  "fx_garden = put_chunk (fx_chunk\<lparr>cs_garden_proposals := [fx_proposal ''p'', fx_proposal ''q'']\<rparr>) fx_hub"

section \<open>Levers, identifiers, the clock\<close>

text \<open>A lever armed for \<open>n\<close> calls fires on exactly the first \<open>n\<close> calls it concerns and is gone after
  them, however many follow, when no other lever of its kind concerns the chunk.\<close>

lemma counted_lever_fires_n_times:
  assumes "levers_ok s" and "find_lever kind c s = None" and "lv_kind l = kind" and "matches l c"
    and "lv_remaining l = Some (int n)" and "0 < n"
  shows "length (filter (\<lambda>x. x \<noteq> None) (fst (take_levers m kind c (arm l s)))) = min m n \<and>
    (n \<le> m \<longrightarrow> find_lever kind c (snd (take_levers m kind c (arm l s))) = None)"
  using mem_levers.counted_lever_pulls [OF mem_levers.only_lever_arm [OF assms(1-4)] assms(5,6)]
  using take_levers_pulls [of m kind c "arm l s"] by metis

text \<open>A count of zero does not disarm a lever: it is found, fires once, and only then goes.\<close>

lemma zero_count_lever_fires:
  assumes "find_lever (lv_kind l) c s = None" and "matches l c" and "lv_remaining l = Some 0"
  shows "fst (take_lever (lv_kind l) c (arm l s)) = Some l"
  using find_arm_alone [OF assms(1) _ assms(2)] by simp

text \<open>A lever armed without a count fires on every call it concerns and leaves the store as it is, and
  pulling levers of one kind never changes what another kind answers.\<close>

lemma sticky_lever_always_fires:
  assumes "levers_ok s" and "find_lever kind c s = None" and "lv_kind l = kind" and "matches l c"
    and "lv_remaining l = None"
  shows "length (filter (\<lambda>x. x \<noteq> None) (fst (take_levers m kind c (arm l s)))) = m \<and>
    snd (take_levers m kind c (arm l s)) = arm l s \<and>
    (\<forall>kind' c' k2 c2. kind' \<noteq> k2 \<longrightarrow> find_lever kind' c' (snd (take_lever k2 c2 s)) = find_lever kind' c' s)"
  using mem_levers.sticky_lever_pulls [OF mem_levers.only_lever_arm [OF assms(1-4)] assms(5)]
    find_lever_take_other [OF assms(1)] take_levers_pulls [of m kind c "arm l s"] by (metis fst_conv snd_conv)

text \<open>A minted id is its prefix and twenty-six Crockford characters, gives back the stamp and the
  tail it was minted from, and sorts before every id of its prefix minted at a later millisecond.\<close>

lemma minted_ids_sort_by_time:
  assumes "0 \<le> t" and "t < t2" and "t2 < 2 ^ 48" and "0 \<le> x" and "x < 2 ^ 80"
  shows "length (mint p t x) = length p + 27 \<and>
    decode (take TIME_CHARS (drop (length p + 1) (mint p t x))) = t \<and>
    decode (drop (length p + 1 + TIME_CHARS) (mint p t x)) = x \<and>
    set (drop (length p + 1) (mint p t x)) \<subseteq> set CROCKFORD \<and> (mint p t x, mint p t2 y) \<in> lexord char_less"
proof -
  have "(encode t 10, encode t2 10) \<in> lexord char_less" using assms(1-3) by (intro encode_mono) auto
  then have "(encode t 10 @ encode x 16, encode t2 10 @ encode y 16) \<in> lexord char_less"
    by (intro lexord_sufI) auto
  then have "(mint p t x, mint p t2 y) \<in> lexord char_less"
    by (auto simp: mint_def ulid_def TIME_CHARS_def RAND_CHARS_def intro!: lexord_append_leftI)
  moreover have "t mod 32 ^ 10 = t" "x mod 32 ^ 16 = x" using assms by auto
  ultimately show ?thesis
    using crockford_chars by (auto simp: mint_def ulid_def TIME_CHARS_def RAND_CHARS_def decode_encode)
qed

text \<open>A controlled clock never runs back: over any calls of the clock route, refused ones included, the
  readings never decrease; a call that moved answers the instants before and after, and one that did not
  leaves the clock alone.\<close>

lemma clock_never_runs_back:
  "sorted (move_clocks ms c) \<and>
   (case fst (move_clock m c) of
      ClockMoved previous now \<Rightarrow> previous = cc_instant c \<and> now = cc_instant (snd (move_clock m c)) \<and> previous \<le> now
    | _ \<Rightarrow> snd (move_clock m c) = c)"
proof -
  have "sorted (move_clocks ms c)"
  proof (induction ms arbitrary: c)
    case (Cons m ms)
    then show ?case
      using move_clocks_bound [of _ ms "snd (move_clock m c)"] move_clock_mono [of c m]
      by (fastforce simp: ControlledClock_now_def)
  qed simp
  then show ?thesis using move_clock_reply [of c m] move_clock_mono [of c m] by (simp split: clock_reply.splits)
qed

section \<open>Matching\<close>

text \<open>C32. The graph walk finds, once each, exactly the runner nodes reachable from the start along the
  declared choices; and a runner is eligible exactly when it has capabilities and they satisfy the lineage of
  every one of those nodes.\<close>

theorem eligibility_covers_reachable_graph:
  "distinct (reachable_runner_node_ids chunk start) \<and>
   set (reachable_runner_node_ids chunk start) = {n. runner_node (cs_nodes chunk) n \<and> reaches (cs_nodes chunk) start n} \<and>
   (capability_ineligible chunk start caps \<longleftrightarrow>
      caps = [] \<or> (\<exists>n. runner_node (cs_nodes chunk) n \<and> reaches (cs_nodes chunk) start n \<and>
        \<not> lineage_satisfied chunk n caps))"
  using reachable_runner_node_ids_correct [of chunk start] capability_eligible_iff [of chunk start caps] by blast

end
